(* ===== verification/Prelude.thy ===== *)
theory Prelude
  imports Main "HOL-Library.Char_ord" "HOL-Library.List_Lexorder" "HOL-Library.Product_Lexorder"
begin

text \<open>
  Vocabulary shared by every component: Go's 64-bit signed integers, the decimal rendering of
  \<open>fmt.Sprintf("%d")\<close> and its inverse \<open>strconv.ParseInt\<close>, the string helpers of the \<open>strings\<close>
  package the services call, and generic facts on finite sums, maps and lists.  Strings are byte
  lists; \<open>TrimSpace\<close>, \<open>ToLower\<close> and \<open>ToUpper\<close> follow the ASCII fast path of the Go library.
\<close>

named_theorems i64_simps \<open>wrap-around disappears inside the int64 range\<close>
named_theorems str_simps \<open>string helpers on the literals the services use\<close>

section \<open>Machine integers\<close>

text \<open>Go's \<open>int64\<close> (and \<open>int\<close> on the 64-bit targets): arithmetic wraps modulo 2^64.\<close>

definition i64 :: "int \<Rightarrow> int" where
  "i64 x = (x + 2 ^ 63) mod 2 ^ 64 - 2 ^ 63"

definition in_i64 :: "int \<Rightarrow> bool" where
  "in_i64 x \<longleftrightarrow> - (2 ^ 63) \<le> x \<and> x < 2 ^ 63"

lemma i64_id [i64_simps]: "in_i64 x \<Longrightarrow> i64 x = x"
  unfolding i64_def in_i64_def by simp

lemma in_i64_i64 [simp]: "in_i64 (i64 x)"
proof -
  have "0 \<le> (x + 2 ^ 63) mod 2 ^ 64" "(x + 2 ^ 63) mod 2 ^ 64 < 2 ^ 64"
    by simp_all
  then show ?thesis unfolding i64_def in_i64_def by auto
qed

lemma in_i64I: "0 \<le> x \<Longrightarrow> x \<le> y \<Longrightarrow> in_i64 y \<Longrightarrow> in_i64 x"
  by (auto simp: in_i64_def)

text \<open>Two non-negative \<open>int64\<close> values whose sum leaves the range wrap to a negative one.\<close>

lemma i64_overflow_negative:
  assumes "in_i64 a" "in_i64 b" "2 ^ 63 \<le> a + b"
  shows "i64 (a + b) = a + b - 2 ^ 64" and "i64 (a + b) < 0"
proof -
  have "(a + b + 2 ^ 63) mod 2 ^ 64 = (a + b + 2 ^ 63 - 2 ^ 64) mod (2 ^ 64 :: int)"
    using mod_add_self2 [of "a + b + 2 ^ 63 - 2 ^ 64" "2 ^ 64 :: int"] by (simp add: add.commute)
  also have "\<dots> = a + b + 2 ^ 63 - 2 ^ 64"
    using assms by (intro mod_pos_pos_trivial) (auto simp: in_i64_def)
  finally show *: "i64 (a + b) = a + b - 2 ^ 64" by (simp add: i64_def)
  show "i64 (a + b) < 0" unfolding * using assms by (auto simp: in_i64_def)
qed

text \<open>Go's \<open>/\<close> and \<open>%\<close> truncate towards zero.\<close>

definition go_div :: "int \<Rightarrow> int \<Rightarrow> int" where
  "go_div a b = sgn a * sgn b * (\<bar>a\<bar> div \<bar>b\<bar>)"

definition go_mod :: "int \<Rightarrow> int \<Rightarrow> int" where
  "go_mod a b = a - b * go_div a b"

lemma go_div_nonneg [simp]: "0 \<le> a \<Longrightarrow> 0 < b \<Longrightarrow> go_div a b = a div b"
  by (cases "a = 0") (auto simp: go_div_def)

lemma go_mod_nonneg [simp]: "0 \<le> a \<Longrightarrow> 0 < b \<Longrightarrow> go_mod a b = a mod b"
  by (simp add: go_mod_def minus_mult_div_eq_mod)

section \<open>Decimal rendering and parsing\<close>

definition digit :: "nat \<Rightarrow> char" where
  "digit d = char_of (48 + d)"

definition is_digit :: "char \<Rightarrow> bool" where
  "is_digit c \<longleftrightarrow> 48 \<le> (of_char c :: nat) \<and> (of_char c :: nat) \<le> 57"

definition digit_val :: "char \<Rightarrow> nat" where
  "digit_val c = of_char c - 48"

fun show_nat :: "nat \<Rightarrow> string" where
  "show_nat n = (if n < 10 then [digit n] else show_nat (n div 10) @ [digit (n mod 10)])"

declare show_nat.simps [simp del]

definition show_int :: "int \<Rightarrow> string" where
  "show_int z = (if z < 0 then CHR ''-'' # show_nat (nat (- z)) else show_nat (nat z))"

definition parse_digits :: "string \<Rightarrow> nat option" where
  "parse_digits s =
     (if s \<noteq> [] \<and> list_all is_digit s then Some (foldl (\<lambda>a c. 10 * a + digit_val c) 0 s) else None)"

text \<open>\<open>strconv.ParseInt(s, 10, 64)\<close>: an optional sign, at least one digit, a value in range.\<close>

definition ParseInt :: "string \<Rightarrow> int option" where
  "ParseInt s =
     (let neg = (case s of c # _ \<Rightarrow> c = CHR ''-'' | [] \<Rightarrow> False);
          body = (case s of c # cs \<Rightarrow> if c = CHR ''-'' \<or> c = CHR ''+'' then cs else s | [] \<Rightarrow> s)
      in case parse_digits body of
           None \<Rightarrow> None
         | Some n \<Rightarrow> (let v = (if neg then - int n else int n) in if in_i64 v then Some v else None))"

lemma of_char_digit [simp]: "d < 10 \<Longrightarrow> (of_char (digit d) :: nat) = 48 + d"
  by (simp add: digit_def)

lemma is_digit_digit [simp]: "d < 10 \<Longrightarrow> is_digit (digit d)"
  by (simp add: is_digit_def)

lemma digit_val_digit [simp]: "d < 10 \<Longrightarrow> digit_val (digit d) = d"
  by (simp add: digit_val_def)

lemma show_nat_nonempty [simp]: "show_nat n \<noteq> []"
  by (subst show_nat.simps) simp

lemma show_nat_digits: "list_all is_digit (show_nat n)"
proof (induction n rule: show_nat.induct)
  case (1 n)
  then show ?case by (subst show_nat.simps) auto
qed

lemma foldl_show_nat: "foldl (\<lambda>a c. 10 * a + digit_val c) 0 (show_nat n) = n"
proof (induction n rule: show_nat.induct)
  case (1 n)
  then show ?case by (subst show_nat.simps) auto
qed

lemma parse_digits_show_nat [simp]: "parse_digits (show_nat n) = Some n"
  by (simp add: parse_digits_def show_nat_digits foldl_show_nat)

lemma is_digit_not_sign: "is_digit c \<Longrightarrow> c \<noteq> CHR ''-'' \<and> c \<noteq> CHR ''+'' \<and> c \<noteq> CHR '':'' "
  by (auto simp: is_digit_def)

lemma show_nat_no_sign: "c \<in> set (show_nat n) \<Longrightarrow> c \<noteq> CHR ''-'' \<and> c \<noteq> CHR ''+'' \<and> c \<noteq> CHR '':''"
  using show_nat_digits [of n] is_digit_not_sign by (auto simp: list_all_iff)

lemma show_int_no_colon: "CHR '':'' \<notin> set (show_int z)"
  using show_nat_no_sign by (auto simp: show_int_def)

lemma ParseInt_show_nat: "in_i64 (int n) \<Longrightarrow> ParseInt (show_nat n) = Some (int n)"
proof -
  assume r: "in_i64 (int n)"
  obtain c cs where s: "show_nat n = c # cs" by (cases "show_nat n") auto
  then have c: "c \<noteq> CHR ''-'' \<and> c \<noteq> CHR ''+''" using show_nat_no_sign [of c n] by simp
  have p: "parse_digits (c # cs) = Some n" using s parse_digits_show_nat [of n] by simp
  show ?thesis using c p r by (simp add: ParseInt_def s Let_def)
qed

lemma ParseInt_show_int [simp]: "in_i64 z \<Longrightarrow> ParseInt (show_int z) = Some z"
proof (cases "z < 0")
  case True
  moreover assume "in_i64 z"
  ultimately show ?thesis by (simp add: show_int_def ParseInt_def Let_def)
next
  case False
  moreover assume "in_i64 z"
  ultimately show ?thesis using ParseInt_show_nat [of "nat z"] by (simp add: show_int_def)
qed

lemma show_int_nonempty [simp]: "show_int z \<noteq> []"
  by (simp add: show_int_def)

lemma show_nat_inject: "show_nat m = show_nat n \<longleftrightarrow> m = n"
  by (metis foldl_show_nat)

lemma show_int_inject [simp]: "show_int a = show_int b \<longleftrightarrow> a = b"
proof
  assume eq: "show_int a = show_int b"
  have neg: "show_nat n \<noteq> CHR ''-'' # s" for n s
    using show_nat_no_sign [of "CHR ''-''" n] by (metis list.set_intros(1))
  show "a = b"
    using eq neg neg [symmetric] by (auto simp: show_int_def show_nat_inject split: if_splits)
qed simp

text \<open>A rendered number followed by a colon can be read back from the front.\<close>

lemma show_int_colon_inject:
  "show_int a @ CHR '':'' # s = show_int b @ CHR '':'' # t \<longleftrightarrow> a = b \<and> s = t"
proof
  assume eq: "show_int a @ CHR '':'' # s = show_int b @ CHR '':'' # t"
  have tw: "takeWhile (\<lambda>c. c \<noteq> CHR '':'') (show_int z @ CHR '':'' # u) = show_int z" for z u
    using show_int_no_colon [of z] by (subst takeWhile_append2) auto
  from arg_cong [OF eq, of "takeWhile (\<lambda>c. c \<noteq> CHR '':'')"] have "a = b"
    unfolding tw by simp
  with eq show "a = b \<and> s = t" by simp
qed simp

section \<open>The string helpers of Go's standard library\<close>

definition is_space :: "char \<Rightarrow> bool" where
  "is_space c \<longleftrightarrow> (of_char c :: nat) = 32 \<or> (9 \<le> (of_char c :: nat) \<and> (of_char c :: nat) \<le> 13)"

definition TrimSpace :: "string \<Rightarrow> string" where
  "TrimSpace s = rev (dropWhile is_space (rev (dropWhile is_space s)))"

definition lower_char :: "char \<Rightarrow> char" where
  "lower_char c = (if 65 \<le> (of_char c :: nat) \<and> (of_char c :: nat) \<le> 90 then char_of ((of_char c :: nat) + 32) else c)"

definition upper_char :: "char \<Rightarrow> char" where
  "upper_char c = (if 97 \<le> (of_char c :: nat) \<and> (of_char c :: nat) \<le> 122 then char_of ((of_char c :: nat) - 32) else c)"

definition ToLower :: "string \<Rightarrow> string" where
  "ToLower s = map lower_char s"

definition ToUpper :: "string \<Rightarrow> string" where
  "ToUpper s = map upper_char s"

definition EqualFold :: "string \<Rightarrow> string \<Rightarrow> bool" where
  "EqualFold a b \<longleftrightarrow> ToLower a = ToLower b"

definition TrimPrefix :: "string \<Rightarrow> string \<Rightarrow> string" where
  "TrimPrefix s pre = (if take (length pre) s = pre then drop (length pre) s else s)"

fun Contains :: "string \<Rightarrow> string \<Rightarrow> bool" where
  "Contains [] sub \<longleftrightarrow> sub = []"
| "Contains (c # cs) sub \<longleftrightarrow> take (length sub) (c # cs) = sub \<or> Contains cs sub"

text \<open>\<open>value[:255]\<close> guarded by \<open>len(value) > 255\<close>, the cut of every stored error message.\<close>

definition cut255 :: "string \<Rightarrow> string" where
  "cut255 s = (if 255 < length s then take 255 s else s)"

lemma length_cut255: "length (cut255 s) \<le> 255"
  by (simp add: cut255_def)

lemma TrimSpace_Nil [simp]: "TrimSpace [] = []"
  by (simp add: TrimSpace_def)

section \<open>Sums over maps with finite support\<close>

text \<open>
  \<open>tally g f\<close> adds \<open>g\<close> over all entries of a store \<open>f\<close>; entries of weight zero (absent keys)
  do not count, so the store itself may be a tally function over all keys.
\<close>

definition tally :: "('v \<Rightarrow> int) \<Rightarrow> ('k \<Rightarrow> 'v) \<Rightarrow> int" where
  "tally g f = (\<Sum>k | g (f k) \<noteq> 0. g (f k))"

definition fin_support :: "('v \<Rightarrow> int) \<Rightarrow> ('k \<Rightarrow> 'v) \<Rightarrow> bool" where
  "fin_support g f \<longleftrightarrow> finite {k. g (f k) \<noteq> 0}"

lemma tally_on:
  assumes "finite A" "{k. g (f k) \<noteq> 0} \<subseteq> A"
  shows "tally g f = (\<Sum>k\<in>A. g (f k))"
  unfolding tally_def by (rule sum.mono_neutral_left) (use assms in auto)

lemma fin_support_upd [simp]: "fin_support g f \<Longrightarrow> fin_support g (f(a := v))"
proof -
  assume "fin_support g f"
  moreover have "{k. g ((f(a := v)) k) \<noteq> 0} \<subseteq> insert a {k. g (f k) \<noteq> 0}" by auto
  ultimately show ?thesis unfolding fin_support_def by (meson finite.insertI finite_subset)
qed

lemma tally_upd:
  assumes "fin_support g f"
  shows "tally g (f(a := v)) = tally g f - g (f a) + g v"
proof -
  let ?A = "insert a {k. g (f k) \<noteq> 0}"
  have fin: "finite ?A" using assms by (simp add: fin_support_def)
  have "tally g (f(a := v)) = (\<Sum>k\<in>?A. g ((f(a := v)) k))"
    by (rule tally_on [OF fin]) auto
  also have "\<dots> = g v + (\<Sum>k\<in>?A - {a}. g (f k))"
    using fin by (subst sum.remove [of _ a]) (auto intro: sum.cong)
  also have "(\<Sum>k\<in>?A - {a}. g (f k)) = (\<Sum>k\<in>?A. g (f k)) - g (f a)"
    using fin by (subst sum.remove [of ?A a]) auto
  also have "(\<Sum>k\<in>?A. g (f k)) = tally g f"
    by (rule tally_on [OF fin, symmetric]) auto
  finally show ?thesis by (simp add: fun_upd_def)
qed

lemma tally_nonneg: "(\<And>k. 0 \<le> g (f k)) \<Longrightarrow> 0 \<le> tally g f"
  unfolding tally_def by (rule sum_nonneg) auto

lemma tally_ge:
  assumes "\<And>k. 0 \<le> g (f k)" "fin_support g f"
  shows "g (f a) \<le> tally g f"
proof (cases "g (f a) = 0")
  case True
  then show ?thesis using tally_nonneg [of g f] assms(1) by simp
next
  case False
  then have "g (f a) \<le> (\<Sum>k | g (f k) \<noteq> 0. g (f k))"
    using assms by (intro member_le_sum) (auto simp: fin_support_def)
  then show ?thesis by (simp add: tally_def)
qed

lemma tally_mono:
  assumes "fin_support g f" "\<And>k. 0 \<le> h (e k)" "\<And>k. h (e k) \<le> g (f k)"
  shows "tally h e \<le> tally g f"
proof -
  let ?A = "{k. g (f k) \<noteq> 0}"
  have sub: "{k. h (e k) \<noteq> 0} \<subseteq> ?A" using assms(2,3) by (auto simp: order.antisym) (metis order.antisym)
  have "tally h e = (\<Sum>k\<in>?A. h (e k))"
    by (rule tally_on) (use assms(1) sub in \<open>simp_all add: fin_support_def\<close>)
  also have "\<dots> \<le> (\<Sum>k\<in>?A. g (f k))" by (rule sum_mono) (rule assms(3))
  finally show ?thesis by (simp add: tally_def)
qed

lemma tally_zero [simp]: "(\<And>k. g (f k) = 0) \<Longrightarrow> tally g f = 0"
  by (simp add: tally_def)

lemma tally_cong: "(\<And>k. g (f k) = h (e k)) \<Longrightarrow> tally g f = tally h e"
  by (simp add: tally_def)

section \<open>Lists\<close>

lemma sum_list_update_int:
  fixes xs :: "int list"
  shows "i < length xs \<Longrightarrow> sum_list (xs[i := v]) = sum_list xs - xs ! i + v"
  by (induction xs arbitrary: i) (auto split: nat.splits)

lemma sum_list_nonneg_int: "list_all (\<lambda>x. 0 \<le> x) xs \<Longrightarrow> 0 \<le> sum_list (xs :: int list)"
  by (induction xs) auto

lemma member_le_sum_list_int: "list_all (\<lambda>x. 0 \<le> x) xs \<Longrightarrow> x \<in> set xs \<Longrightarrow> x \<le> sum_list (xs :: int list)"
  by (induction xs) (auto dest: sum_list_nonneg_int)

lemma sum_list_map_upd_distinct:
  fixes f :: "'k \<Rightarrow> int"
  assumes "distinct ks" "k \<in> set ks"
  shows "sum_list (map (f(k := v)) ks) = sum_list (map f ks) - f k + v"
  using assms
proof (induction ks)
  case (Cons a ks)
  then show ?case
    by (cases "a = k") (auto simp: fun_upd_def intro!: arg_cong [of _ _ sum_list] map_cong)
qed simp

lemma sum_list_map_upd_other:
  "k \<notin> set ks \<Longrightarrow> sum_list (map (f(k := v)) ks) = sum_list (map f ks)"
  by (metis fun_upd_apply map_cong)

end
