(* ===== verification/Go_Errors.thy ===== *)
theory Go_Errors
  imports Prelude
begin

text \<open>
  The error values of the services.  \<open>code\<close>, \<open>DefaultMessage\<close>, \<open>app_new\<close>, \<open>app_wrap\<close>,
  \<open>FromError\<close>, \<open>CodeOf\<close> and \<open>MessageOf\<close> are \<open>app/common/apperror\<close>; \<open>grpc_code\<close> names the gRPC
  status codes the services answer with; \<open>go_error\<close> is the Go \<open>error\<close> interface as a sum of
  the concrete errors the code creates: an application error with an optional cause, a gRPC status
  error, \<open>sql.ErrNoRows\<close>, an error variable of a package that callers compare with (\<open>NamedError\<close>), a
  fault with a reason and a message (the application services of the gateway), and an error known by its text only (drivers, \<open>errors.New\<close>).
\<close>

section \<open>Business codes\<close>

datatype code =
    CodeOK | CodeInvalidArgument | CodeUnauthorized | CodeForbidden | CodeNotFound | CodeConflict
  | CodeTooManyRequests | CodeInternal
  | CodeProductNotFound | CodeProductOffShelf
  | CodeStockNotFound | CodeStockInsufficient | CodeStockReserveFailed | CodeStockReconcileFailed
  | CodeOrderNotFound | CodeOrderStatusInvalid | CodeOrderCreateFailed | CodeOrderAlreadyPaid
  | CodePaymentStatusInvalid | CodePaymentFailed
  | CodeRefundNotAllowed | CodeRefundNotFound | CodeRefundStatusInvalid
  | CodeMerchantNotFound | CodeMerchantNotBound | CodeMerchantApplyPending | CodeMerchantApplyRejected
  | CodeOther string

fun code_text :: "code \<Rightarrow> string" where
  "code_text CodeOK = ''OK''"
| "code_text CodeInvalidArgument = ''INVALID_ARGUMENT''"
| "code_text CodeUnauthorized = ''UNAUTHORIZED''"
| "code_text CodeForbidden = ''FORBIDDEN''"
| "code_text CodeNotFound = ''NOT_FOUND''"
| "code_text CodeConflict = ''CONFLICT''"
| "code_text CodeTooManyRequests = ''TOO_MANY_REQUESTS''"
| "code_text CodeInternal = ''INTERNAL''"
| "code_text CodeProductNotFound = ''PRODUCT_NOT_FOUND''"
| "code_text CodeProductOffShelf = ''PRODUCT_OFF_SHELF''"
| "code_text CodeStockNotFound = ''STOCK_NOT_FOUND''"
| "code_text CodeStockInsufficient = ''STOCK_INSUFFICIENT''"
| "code_text CodeStockReserveFailed = ''STOCK_RESERVE_FAILED''"
| "code_text CodeStockReconcileFailed = ''STOCK_RECONCILE_FAILED''"
| "code_text CodeOrderNotFound = ''ORDER_NOT_FOUND''"
| "code_text CodeOrderStatusInvalid = ''ORDER_STATUS_INVALID''"
| "code_text CodeOrderCreateFailed = ''ORDER_CREATE_FAILED''"
| "code_text CodeOrderAlreadyPaid = ''ORDER_ALREADY_PAID''"
| "code_text CodePaymentStatusInvalid = ''PAYMENT_STATUS_INVALID''"
| "code_text CodePaymentFailed = ''PAYMENT_FAILED''"
| "code_text CodeRefundNotAllowed = ''REFUND_NOT_ALLOWED''"
| "code_text CodeRefundNotFound = ''REFUND_NOT_FOUND''"
| "code_text CodeRefundStatusInvalid = ''REFUND_STATUS_INVALID''"
| "code_text CodeMerchantNotFound = ''MERCHANT_NOT_FOUND''"
| "code_text CodeMerchantNotBound = ''MERCHANT_NOT_BOUND''"
| "code_text CodeMerchantApplyPending = ''MERCHANT_APPLY_PENDING''"
| "code_text CodeMerchantApplyRejected = ''MERCHANT_APPLY_REJECTED''"
| "code_text (CodeOther s) = s"

fun DefaultMessage :: "code \<Rightarrow> string" where
  "DefaultMessage CodeOK = ''success''"
| "DefaultMessage CodeInvalidArgument = ''invalid argument''"
| "DefaultMessage CodeUnauthorized = ''unauthorized''"
| "DefaultMessage CodeForbidden = ''forbidden''"
| "DefaultMessage CodeNotFound = ''not found''"
| "DefaultMessage CodeConflict = ''conflict''"
| "DefaultMessage CodeTooManyRequests = ''too many requests''"
| "DefaultMessage CodeInternal = ''internal error''"
| "DefaultMessage CodeProductNotFound = ''product not found''"
| "DefaultMessage CodeProductOffShelf = ''product is off shelf''"
| "DefaultMessage CodeStockNotFound = ''stock not found''"
| "DefaultMessage CodeStockInsufficient = ''stock insufficient''"
| "DefaultMessage CodeStockReserveFailed = ''stock reserve failed''"
| "DefaultMessage CodeStockReconcileFailed = ''stock reconcile failed''"
| "DefaultMessage CodeOrderNotFound = ''order not found''"
| "DefaultMessage CodeOrderStatusInvalid = ''order status invalid''"
| "DefaultMessage CodeOrderCreateFailed = ''order create failed''"
| "DefaultMessage CodeOrderAlreadyPaid = ''order already paid''"
| "DefaultMessage CodePaymentStatusInvalid = ''payment status invalid''"
| "DefaultMessage CodePaymentFailed = ''payment failed''"
| "DefaultMessage CodeRefundNotAllowed = ''refund not allowed''"
| "DefaultMessage CodeRefundNotFound = ''refund not found''"
| "DefaultMessage CodeRefundStatusInvalid = ''refund status invalid''"
| "DefaultMessage CodeMerchantNotFound = ''merchant not found''"
| "DefaultMessage CodeMerchantNotBound = ''merchant not bound''"
| "DefaultMessage CodeMerchantApplyPending = ''merchant application pending''"
| "DefaultMessage CodeMerchantApplyRejected = ''merchant application rejected''"
| "DefaultMessage (CodeOther _) = ''internal error''"

section \<open>Error values\<close>

text \<open>The gRPC codes the services use, with their canonical names.\<close>

datatype grpc_code =
    codes_InvalidArgument | codes_NotFound | codes_FailedPrecondition | codes_PermissionDenied
  | codes_Aborted | codes_Unavailable | codes_Internal | codes_Unauthenticated
  | codes_AlreadyExists | codes_ResourceExhausted

datatype go_error =
    AppError code string "go_error option"
  | StatusError grpc_code string
  | ErrNoRows
  | NamedError string
  | Fault string string
  | RawError string

definition app_new :: "code \<Rightarrow> string \<Rightarrow> go_error" where
  "app_new c message = AppError c (if message = [] then DefaultMessage c else message) None"

definition app_wrap :: "code \<Rightarrow> string \<Rightarrow> go_error \<Rightarrow> go_error" where
  "app_wrap c message cause = AppError c (if message = [] then DefaultMessage c else message) (Some cause)"

fun FromError :: "go_error option \<Rightarrow> go_error option" where
  "FromError None = None"
| "FromError (Some (AppError c m cause)) = Some (AppError c m cause)"
| "FromError (Some e) = Some (app_wrap CodeInternal [] e)"

fun err_code :: "go_error \<Rightarrow> code" where
  "err_code (AppError c m cause) = c"
| "err_code e = CodeInternal"

fun err_message :: "go_error \<Rightarrow> string" where
  "err_message (AppError c m cause) = m"
| "err_message e = DefaultMessage CodeInternal"

definition CodeOf :: "go_error option \<Rightarrow> code" where
  "CodeOf e = (case FromError e of None \<Rightarrow> CodeOK | Some e' \<Rightarrow> err_code e')"

definition MessageOf :: "go_error option \<Rightarrow> string" where
  "MessageOf e = (case FromError e of None \<Rightarrow> DefaultMessage CodeOK | Some e' \<Rightarrow> err_message e')"

text \<open>The texts: \<open>(*Error).Error\<close>, the gRPC status error, \<open>sql.ErrNoRows\<close>.\<close>

fun grpc_text :: "grpc_code \<Rightarrow> string" where
  "grpc_text codes_InvalidArgument = ''InvalidArgument''"
| "grpc_text codes_NotFound = ''NotFound''"
| "grpc_text codes_FailedPrecondition = ''FailedPrecondition''"
| "grpc_text codes_PermissionDenied = ''PermissionDenied''"
| "grpc_text codes_Aborted = ''Aborted''"
| "grpc_text codes_Unavailable = ''Unavailable''"
| "grpc_text codes_Internal = ''Internal''"
| "grpc_text codes_Unauthenticated = ''Unauthenticated''"
| "grpc_text codes_AlreadyExists = ''AlreadyExists''"
| "grpc_text codes_ResourceExhausted = ''ResourceExhausted''"

fun err_text :: "go_error \<Rightarrow> string" where
  "err_text (AppError c m None) = code_text c @ '': '' @ m"
| "err_text (AppError c m (Some cause)) = code_text c @ '': '' @ m @ '': '' @ err_text cause"
| "err_text (StatusError c m) = ''rpc error: code = '' @ grpc_text c @ '' desc = '' @ m"
| "err_text ErrNoRows = ''sql: no rows in result set''"
| "err_text (NamedError s) = s"
| "err_text (Fault reason message) = message"
| "err_text (RawError s) = s"

lemma CodeOf_Some [simp]: "CodeOf (Some e) = err_code e"
  by (cases e) (auto simp: CodeOf_def app_wrap_def)

lemma err_code_new [simp]: "err_code (app_new c m) = c"
  by (simp add: app_new_def)

lemma err_code_wrap [simp]: "err_code (app_wrap c m e) = c"
  by (simp add: app_wrap_def)

lemma DefaultMessage_nonempty [simp]: "DefaultMessage c \<noteq> []"
  by (cases c) auto

text \<open>Application errors built with the constructors never carry an empty message.\<close>

lemma err_message_new_nonempty: "err_message (app_new c m) \<noteq> []"
  by (simp add: app_new_def)

lemma err_message_wrap_nonempty: "err_message (app_wrap c m e) \<noteq> []"
  by (simp add: app_wrap_def)

end
