(* ===== verification/Effects.thy ===== *)
theory Effects
  imports Go_Errors
begin

text \<open>
  Effects of the services.  A handler is a function from the world it runs in to its result (a Go
  error or a value) and the world it leaves behind.  Every call that leaves the process (a Redis
  script, a SQL statement, a commit, an RPC) goes through \<open>ext_call\<close>, which consults the world's
  fault schedule: the call succeeds, or the request is lost before it took effect, or it takes
  effect and the reply is lost.  A theorem over all worlds is thus a theorem over all fault
  schedules.  A SQL transaction (\<open>with_tx\<close>) keeps the database part of the world only if its body
  succeeds and the commit reaches the server; effects on other systems inside the body stay.
\<close>

named_theorems keeps_rules \<open>introduction rules: an effect keeps an invariant\<close>
named_theorems io_simps \<open>unfolding the effect combinators\<close>

section \<open>Handlers\<close>

type_synonym ('w, 'a) io = "'w \<Rightarrow> (go_error + 'a) \<times> 'w"

text \<open>A lost request or reply is an error of the driver, known by its text.\<close>

datatype fault = Reply | NoRequest string | NoReply string

record env =
  faults :: "fault list"

definition ret :: "'a \<Rightarrow> ('w, 'a) io" where
  "ret a w = (Inr a, w)"

definition fail :: "go_error \<Rightarrow> ('w, 'a) io" where
  "fail e w = (Inl e, w)"

definition bindE :: "('w, 'a) io \<Rightarrow> ('a \<Rightarrow> ('w, 'b) io) \<Rightarrow> ('w, 'b) io" where
  "bindE m k w = (case m w of (Inl e, w') \<Rightarrow> (Inl e, w') | (Inr a, w') \<Rightarrow> k a w')"

text \<open>\<open>v, err := f()\<close> with the error looked at by the caller.\<close>

definition attempt :: "('w, 'a) io \<Rightarrow> ('w, go_error + 'a) io" where
  "attempt m w = (case m w of (r, w') \<Rightarrow> (Inr r, w'))"

text \<open>\<open>if err != nil { return g(err) }\<close>.\<close>

definition map_err :: "(go_error \<Rightarrow> go_error) \<Rightarrow> ('w, 'a) io \<Rightarrow> ('w, 'a) io" where
  "map_err g m w = (case m w of (Inl e, w') \<Rightarrow> (Inl (g e), w') | (Inr a, w') \<Rightarrow> (Inr a, w'))"

text \<open>\<open>v, _ := f()\<close>: the error is dropped and \<open>v\<close> has its zero value \<open>z\<close>.\<close>

definition or_else :: "('w, 'a) io \<Rightarrow> 'a \<Rightarrow> ('w, 'a) io" where
  "or_else m z w = (case m w of (Inl e, w') \<Rightarrow> (Inr z, w') | (Inr a, w') \<Rightarrow> (Inr a, w'))"

definition of_result :: "go_error + 'a \<Rightarrow> ('w, 'a) io" where
  "of_result r w = (r, w)"

definition get_world :: "('w, 'w) io" where
  "get_world w = (Inr w, w)"

fun for_each :: "'x list \<Rightarrow> ('x \<Rightarrow> ('w, unit) io) \<Rightarrow> ('w, unit) io" where
  "for_each [] f = ret ()"
| "for_each (x # xs) f = bindE (f x) (\<lambda>_. for_each xs f)"

fun fold_io :: "('x \<Rightarrow> 'a \<Rightarrow> ('w, 'a) io) \<Rightarrow> 'x list \<Rightarrow> 'a \<Rightarrow> ('w, 'a) io" where
  "fold_io f [] a = ret a"
| "fold_io f (x # xs) a = bindE (f x a) (\<lambda>b. fold_io f xs b)"

text \<open>\<open>defer f()\<close>: \<open>f\<close> runs last, and its result is dropped.\<close>

definition finally_do :: "('w, unit) io \<Rightarrow> ('w, 'a) io \<Rightarrow> ('w, 'a) io" where
  "finally_do f m w = (case m w of (r, w') \<Rightarrow> (r, snd (f w')))"

section \<open>Calls that leave the process\<close>

definition pop_fault :: "('z env_scheme, fault) io" where
  "pop_fault w = (case faults w of [] \<Rightarrow> (Inr Reply, w) | f # fs \<Rightarrow> (Inr f, w\<lparr>faults := fs\<rparr>))"

definition ext_call :: "('z env_scheme \<Rightarrow> (go_error + 'a) \<times> 'z env_scheme) \<Rightarrow> ('z env_scheme, 'a) io" where
  "ext_call f = bindE pop_fault (\<lambda>x. case x of
       Reply \<Rightarrow> f
     | NoRequest e \<Rightarrow> fail (RawError e)
     | NoReply e \<Rightarrow> bindE (attempt f) (\<lambda>_. fail (RawError e)))"

text \<open>
  \<open>BeginTx\<close>, the body, \<open>Commit\<close>, with \<open>defer tx.Rollback()\<close>: \<open>be\<close> and \<open>ce\<close> turn a failed begin or
  commit (at the point of return the body's result names) into the handler's error; \<open>getdb\<close> and \<open>setdb\<close> say which part of the world is the database.
\<close>

definition with_tx ::
  "('z env_scheme \<Rightarrow> 'd) \<Rightarrow> ('d \<Rightarrow> 'z env_scheme \<Rightarrow> 'z env_scheme) \<Rightarrow>
   (go_error \<Rightarrow> go_error) \<Rightarrow> ('a \<Rightarrow> go_error \<Rightarrow> go_error) \<Rightarrow> ('z env_scheme, 'a) io \<Rightarrow> ('z env_scheme, 'a) io" where
  "with_tx getdb setdb be ce body =
     bindE (map_err be (ext_call (ret ()))) (\<lambda>_. \<lambda>w.
       case body w of
         (Inl e, w') \<Rightarrow> (Inl e, setdb (getdb w) w')
       | (Inr a, w') \<Rightarrow>
           (case pop_fault w' of
              (Inr (NoRequest e), w'') \<Rightarrow> (Inl (ce a (RawError e)), setdb (getdb w) w'')
            | (Inr (NoReply e), w'') \<Rightarrow> (Inl (ce a (RawError e)), w'')
            | (_, w'') \<Rightarrow> (Inr a, w'')))"

section \<open>Unfolding and no-fault execution\<close>

lemma ret_app [io_simps]: "ret a w = (Inr a, w)"
  by (simp add: ret_def)

lemma fail_app [io_simps]: "fail e w = (Inl e, w)"
  by (simp add: fail_def)

lemma of_result_app [io_simps]: "of_result r w = (r, w)"
  by (simp add: of_result_def)

lemma get_world_app [io_simps]: "get_world w = (Inr w, w)"
  by (simp add: get_world_def)

lemma bindE_Inr: "m w = (Inr a, w') \<Longrightarrow> bindE m k w = k a w'"
  by (simp add: bindE_def)

lemma bindE_Inl: "m w = (Inl e, w') \<Longrightarrow> bindE m k w = (Inl e, w')"
  by (simp add: bindE_def)

lemma pop_fault_ok [io_simps]: "faults w = [] \<Longrightarrow> pop_fault w = (Inr Reply, w)"
  by (simp add: pop_fault_def)

lemma ext_call_ok [io_simps]: "faults w = [] \<Longrightarrow> ext_call f w = f w"
  by (simp add: ext_call_def bindE_def pop_fault_ok)

lemmas [io_simps] = bindE_def attempt_def map_err_def or_else_def with_tx_def

section \<open>What a call or a transaction can do\<close>

lemma ext_call_cases:
  assumes "ext_call f w = (x, w')"
  obtains (reply) fs where "f (w\<lparr>faults := fs\<rparr>) = (x, w')"
  | (lost) s fs where "x = Inl (RawError s)" "w' = w\<lparr>faults := fs\<rparr>"
  | (unanswered) s fs y where "x = Inl (RawError s)" "f (w\<lparr>faults := fs\<rparr>) = (y, w')"
proof (cases "faults w")
  case Nil
  have same: "w\<lparr>faults := faults w\<rparr> = w" by simp
  have "f (w\<lparr>faults := faults w\<rparr>) = (x, w')" unfolding same using assms Nil by (simp add: ext_call_ok)
  then show ?thesis by (rule reply)
next
  case (Cons a fs)
  then show ?thesis
    using assms reply [of fs] lost [of _ fs] unanswered [of _ fs]
    by (cases a; cases "f (w\<lparr>faults := fs\<rparr>)")
       (auto simp: ext_call_def bindE_def pop_fault_def attempt_def fail_def)
qed

lemma bindE_cases:
  assumes "bindE m k w = (x, w')"
  obtains (stop) e where "m w = (Inl e, w')" "x = Inl e"
  | (go) a w1 where "m w = (Inr a, w1)" "k a w1 = (x, w')"
  using assms by (auto simp: bindE_def split: prod.splits sum.splits)

lemma bindE_InrE:
  assumes "bindE m k w = (Inr b, w')"
  obtains a w1 where "m w = (Inr a, w1)" "k a w1 = (Inr b, w')"
  using assms by (rule bindE_cases) auto

lemma map_err_InrD: "map_err g m w = (Inr a, w') \<Longrightarrow> m w = (Inr a, w')"
  by (auto simp: map_err_def split: prod.splits sum.splits)

lemma attempt_InrD: "attempt m w = (Inr y, w') \<Longrightarrow> m w = (y, w')"
  by (auto simp: attempt_def split: prod.splits)

lemma ret_InrD: "ret a w = (x, w') \<Longrightarrow> x = Inr a \<and> w' = w"
  by (auto simp: ret_def)

lemma fail_InrD [simp]: "fail e w = (Inr a, w') \<longleftrightarrow> False"
  by (auto simp: fail_def)

text \<open>
  A transaction leaves the old database, with an error; or the database its successful body left,
  with the body's result or an error (a lost commit reply).
\<close>

lemma with_tx_cases:
  assumes "with_tx getdb setdb be ce body w = (x, w')"
    and ff: "\<And>v fs. getdb (v\<lparr>faults := fs\<rparr>) = getdb v" and set: "\<And>d v. getdb (setdb d v) = d"
  obtains (aborted) e where "x = Inl e" "getdb w' = getdb w"
  | (committed) a fs w1 where "body (w\<lparr>faults := fs\<rparr>) = (Inr a, w1)" "getdb w' = getdb w1" "\<forall>b. x = Inr b \<longrightarrow> b = a"
proof -
  from assms(1) show ?thesis unfolding with_tx_def
  proof (rule bindE_cases)
    fix e assume "map_err be (ext_call (ret ())) w = (Inl e, w')" "x = Inl e"
    moreover have "getdb w' = getdb w"
      using calculation(1) by (auto simp: map_err_def ret_def ff split: prod.splits sum.splits elim!: ext_call_cases)
    ultimately show thesis using aborted by auto
  next
    fix u w1 assume b: "map_err be (ext_call (ret ())) w = (Inr u, w1)"
      and c: "(case body w1 of
         (Inl e, w') \<Rightarrow> (Inl e, setdb (getdb w1) w')
       | (Inr a, w') \<Rightarrow>
           (case pop_fault w' of
              (Inr (NoRequest e), w'') \<Rightarrow> (Inl (ce a (RawError e)), setdb (getdb w1) w'')
            | (Inr (NoReply e), w'') \<Rightarrow> (Inl (ce a (RawError e)), w'')
            | (_, w'') \<Rightarrow> (Inr a, w''))) = (x, w')"
    obtain fs where w1: "w1 = w\<lparr>faults := fs\<rparr>"
      using map_err_InrD [OF b] by (auto simp: ret_def elim!: ext_call_cases)
    show thesis
    proof (cases "body w1")
      case (Pair y w2)
      show thesis
      proof (cases y)
        case (Inl e)
        then show thesis using c Pair aborted [of e] w1 by (auto simp: ff set)
      next
        case (Inr a)
        note bd = Pair [unfolded Inr w1]
        show thesis
        proof (cases "faults w2")
          case Nil
          then show thesis using c Pair Inr by (intro committed [OF bd]) (auto simp: pop_fault_def)
        next
          case (Cons f fs')
          then show thesis
            using c Pair Inr committed [OF bd] aborted w1
            by (cases f) (auto simp: pop_fault_def ff set)
        qed
      qed
    qed
  qed
qed

section \<open>Invariants kept by effects\<close>

definition keeps :: "('w \<Rightarrow> bool) \<Rightarrow> ('w, 'a) io \<Rightarrow> bool" where
  "keeps I m \<longleftrightarrow> (\<forall>w. I w \<longrightarrow> I (snd (m w)))"

lemma keepsI: "(\<And>w. I w \<Longrightarrow> I (snd (m w))) \<Longrightarrow> keeps I m"
  by (simp add: keeps_def)

lemma keepsD: "keeps I m \<Longrightarrow> I w \<Longrightarrow> I (snd (m w))"
  by (simp add: keeps_def)

lemma keeps_result: "keeps I m \<Longrightarrow> I w \<Longrightarrow> m w = (r, w') \<Longrightarrow> I w'"
  by (metis keepsD snd_conv)

lemma keeps_ret [keeps_rules]: "keeps I (ret a)"
  by (simp add: keeps_def ret_def)

lemma keeps_fail [keeps_rules]: "keeps I (fail e)"
  by (simp add: keeps_def fail_def)

lemma keeps_of_result [keeps_rules]: "keeps I (of_result r)"
  by (simp add: keeps_def of_result_def)

lemma keeps_get_world [keeps_rules]: "keeps I get_world"
  by (simp add: keeps_def get_world_def)

lemma keeps_bindE [keeps_rules]: "keeps I m \<Longrightarrow> (\<And>a. keeps I (k a)) \<Longrightarrow> keeps I (bindE m k)"
  by (auto simp: keeps_def bindE_def split: prod.splits sum.splits dest: spec)

lemma keeps_bindE_val:
  "keeps I m \<Longrightarrow> (\<And>w a w'. m w = (Inr a, w') \<Longrightarrow> keeps I (k a)) \<Longrightarrow> keeps I (bindE m k)"
  by (auto simp: keeps_def bindE_def split: prod.splits sum.splits dest: spec)

lemma keeps_attempt [keeps_rules]: "keeps I m \<Longrightarrow> keeps I (attempt m)"
  by (auto simp: keeps_def attempt_def split: prod.splits)

lemma keeps_map_err [keeps_rules]: "keeps I m \<Longrightarrow> keeps I (map_err g m)"
  by (auto simp: keeps_def map_err_def split: prod.splits sum.splits)

lemma keeps_or_else [keeps_rules]: "keeps I m \<Longrightarrow> keeps I (or_else m z)"
  by (auto simp: keeps_def or_else_def split: prod.splits sum.splits)

lemma keeps_for_each [keeps_rules]: "(\<And>x. keeps I (f x)) \<Longrightarrow> keeps I (for_each xs f)"
  by (induction xs) (auto intro: keeps_rules)

lemma keeps_fold_io [keeps_rules]: "(\<And>x a. keeps I (f x a)) \<Longrightarrow> keeps I (fold_io f xs a)"
  by (induction xs arbitrary: a) (auto intro: keeps_rules)

text \<open>An invariant that does not look at the fault schedule.\<close>

definition fault_free :: "('z env_scheme \<Rightarrow> bool) \<Rightarrow> bool" where
  "fault_free I \<longleftrightarrow> (\<forall>w fs. I (w\<lparr>faults := fs\<rparr>) = I w)"

lemma keeps_pop_fault: "fault_free I \<Longrightarrow> keeps I pop_fault"
  by (auto simp: keeps_def pop_fault_def fault_free_def split: list.splits)

lemma keeps_ext_call [keeps_rules]:
  assumes "fault_free I" "keeps I f"
  shows "keeps I (ext_call f)"
  unfolding ext_call_def using assms
  by (auto intro!: keeps_rules keeps_pop_fault split: fault.splits)

text \<open>
  A transaction keeps an invariant if its body does and putting the old database back under a
  world the body reached keeps it too.
\<close>

lemma keeps_with_tx:
  assumes ff: "fault_free I" and body: "keeps I body"
    and rollback: "\<And>w w'. I w \<Longrightarrow> I w' \<Longrightarrow> I (setdb (getdb w) w')"
  shows "keeps I (with_tx getdb setdb be ce body)"
proof (rule keepsI)
  fix w assume I: "I w"
  have b: "keeps I (map_err be (ext_call (ret ())))"
    by (intro keeps_rules ff)
  have p: "I w1 \<Longrightarrow> I (snd (pop_fault w1))" for w1
    using keeps_pop_fault [OF ff] by (rule keepsD)
  show "I (snd (with_tx getdb setdb be ce body w))"
    unfolding with_tx_def bindE_def
    using keepsD [OF b I] keepsD [OF body] p rollback
    by (auto split: prod.splits sum.splits fault.splits) (metis (no_types, lifting) snd_conv)+
qed

section \<open>One change on the way\<close>

text \<open>
  \<open>leads I m J\<close>: from a world where \<open>I\<close> holds, \<open>m\<close> ends in one where \<open>J\<close> holds, also when it fails.
  The rules split a handler at the one call that may leave \<open>I\<close>.
\<close>

definition leads :: "('w \<Rightarrow> bool) \<Rightarrow> ('w, 'a) io \<Rightarrow> ('w \<Rightarrow> bool) \<Rightarrow> bool" where
  "leads I m J \<longleftrightarrow> (\<forall>w. I w \<longrightarrow> J (snd (m w)))"

lemma leadsD: "leads I m J \<Longrightarrow> I w \<Longrightarrow> J (snd (m w))"
  by (simp add: leads_def)

lemma leads_keeps: "keeps I m \<Longrightarrow> (\<And>w. I w \<Longrightarrow> J w) \<Longrightarrow> leads I m J"
  by (simp add: leads_def keeps_def)

lemma leads_before:
  assumes "keeps I m" "\<And>a. leads I (k a) J" "\<And>w. I w \<Longrightarrow> J w"
  shows "leads I (bindE m k) J"
  unfolding leads_def
proof (intro allI impI)
  fix w assume "I w"
  then have "I (snd (m w))" using assms(1) by (rule keepsD [rotated])
  then show "J (snd (bindE m k w))"
    using assms(2,3) by (auto simp: bindE_def leads_def split: prod.splits sum.splits)
qed

lemma leads_after:
  assumes "leads I m J" "\<And>a. keeps J (k a)"
  shows "leads I (bindE m k) J"
  unfolding leads_def
proof (intro allI impI)
  fix w assume "I w"
  then have "J (snd (m w))" by (rule leadsD [OF assms(1)])
  then show "J (snd (bindE m k w))"
    using assms(2) by (auto simp: bindE_def keeps_def split: prod.splits sum.splits)
qed

lemma leads_map_err: "leads I m J \<Longrightarrow> leads I (map_err g m) J"
  by (auto simp: leads_def map_err_def split: prod.splits sum.splits)

section \<open>Triples\<close>

text \<open>
  \<open>triple P m Q E\<close>: started where \<open>P\<close> holds, \<open>m\<close> ends with a value \<open>a\<close> where \<open>Q a\<close> holds, or with an
  error where \<open>E\<close> holds.
\<close>

definition triple :: "('w \<Rightarrow> bool) \<Rightarrow> ('w, 'a) io \<Rightarrow> ('a \<Rightarrow> 'w \<Rightarrow> bool) \<Rightarrow> ('w \<Rightarrow> bool) \<Rightarrow> bool" where
  "triple P m Q E \<longleftrightarrow> (\<forall>w. P w \<longrightarrow> (case m w of (Inr a, w') \<Rightarrow> Q a w' | (Inl e, w') \<Rightarrow> E w'))"

named_theorems triple_rules \<open>rules to split a triple at the structure of a handler\<close>

lemma triple_bind [triple_rules]:
  "triple P m Q E \<Longrightarrow> (\<And>a. triple (Q a) (k a) R E) \<Longrightarrow> triple P (bindE m k) R E"
  by (fastforce simp: triple_def bindE_def split: prod.splits sum.splits)

lemma triple_ret [triple_rules]: "(\<And>w. P w \<Longrightarrow> Q a w) \<Longrightarrow> triple P (ret a) Q E"
  by (simp add: triple_def ret_def)

lemma triple_fail [triple_rules]: "(\<And>w. P w \<Longrightarrow> E w) \<Longrightarrow> triple P (fail e) Q E"
  by (simp add: triple_def fail_def)

lemma triple_map_err [triple_rules]: "triple P m Q E \<Longrightarrow> triple P (map_err g m) Q E"
  by (fastforce simp: triple_def map_err_def split: prod.splits sum.splits)

lemma triple_or_else: "triple P m Q E \<Longrightarrow> (\<And>w. E w \<Longrightarrow> Q z w) \<Longrightarrow> triple P (or_else m z) Q F"
  by (fastforce simp: triple_def or_else_def split: prod.splits sum.splits)

lemma triple_keeps: "keeps I m \<Longrightarrow> triple I m (\<lambda>_. I) I"
  unfolding triple_def keeps_def by (force split: prod.splits sum.splits)

lemma triple_conseq:
  "triple P m Q E \<Longrightarrow> (\<And>w. P' w \<Longrightarrow> P w) \<Longrightarrow> (\<And>a w. Q a w \<Longrightarrow> Q' a w) \<Longrightarrow> (\<And>w. E w \<Longrightarrow> E' w) \<Longrightarrow> triple P' m Q' E'"
  by (fastforce simp: triple_def split: prod.splits sum.splits)

lemma triple_Inr: "triple P m Q E \<Longrightarrow> P w \<Longrightarrow> m w = (Inr a, w') \<Longrightarrow> Q a w'"
  by (force simp: triple_def)

lemma triple_snd: "triple P m (\<lambda>_. I) I \<Longrightarrow> P w \<Longrightarrow> I (snd (m w))"
  by (cases "m w"; cases "fst (m w)") (auto simp: triple_def dest!: spec [of _ w])

lemma triple_pure: "(b \<Longrightarrow> triple P m Q E) \<Longrightarrow> triple (\<lambda>w. b \<and> P w) m Q E"
  by (auto simp: triple_def)

lemma triple_if: "(b \<Longrightarrow> triple P m Q E) \<Longrightarrow> (\<not> b \<Longrightarrow> triple P m' Q E) \<Longrightarrow> triple P (if b then m else m') Q E"
  by simp

end
