(* ===== verification/Stock_Domain.thy ===== *)
theory Stock_Domain
  imports Effects
begin

text \<open>
  \<open>app/inventory/domain\<close>: the stock record of a product, an order's reservation and its three
  statuses, the domain errors, and the contract that a reservation store promises to its clients
  (locale \<open>reservation_store\<close>).  The contract is what the in-memory repository and the Redis
  scripts have in common; what a client may conclude from it (retries change nothing, a released
  reservation stays released, stock never goes negative) is proved once in the locale.
\<close>

section \<open>Domain data\<close>

record stock =
  ProductID :: int
  Available :: int
  Reserved :: int
  Total :: int

definition zero_stock :: stock where
  "zero_stock = \<lparr>ProductID = 0, Available = 0, Reserved = 0, Total = 0\<rparr>"

definition NewStock :: "int \<Rightarrow> int \<Rightarrow> stock" where
  "NewStock productID n =
     (let n = (if n < 0 then 0 else n)
      in \<lparr>ProductID = productID, Available = n, Reserved = 0, Total = n\<rparr>)"

definition CanReserve :: "stock \<Rightarrow> int \<Rightarrow> bool" where
  "CanReserve s quantity \<longleftrightarrow> 0 < quantity \<and> quantity \<le> Available s"

definition ReservationReserved :: string where [simp]: "ReservationReserved = ''reserved''"
definition ReservationConfirmed :: string where [simp]: "ReservationConfirmed = ''confirmed''"
definition ReservationReleased :: string where [simp]: "ReservationReleased = ''released''"

record reservation =
  resOrderID :: string
  resProductID :: int
  resQuantity :: int
  resStatus :: string

record reservation_stats =
  Active :: int
  Expired :: int
  Processing :: int
  DeadLetter :: int

record runtime_recovery_report =
  Products :: int
  ReservedReservations :: int
  ConfirmedReservations :: int

record stock_change_meta =
  metaOrderID :: string
  metaReason :: string
  metaRequestID :: string
  metaTraceID :: string
  metaUserID :: int
  metaMerchantID :: int
  metaRole :: string

definition no_meta :: stock_change_meta where
  "no_meta = \<lparr>metaOrderID = [], metaReason = [], metaRequestID = [], metaTraceID = [],
     metaUserID = 0, metaMerchantID = 0, metaRole = []\<rparr>"

definition ErrProductIDRequired :: go_error where
  "ErrProductIDRequired = app_new CodeInvalidArgument ''product_id is required''"
definition ErrOrderIDRequired :: go_error where
  "ErrOrderIDRequired = app_new CodeInvalidArgument ''order_id is required''"
definition ErrQuantityInvalid :: go_error where
  "ErrQuantityInvalid = app_new CodeInvalidArgument ''quantity must be positive''"
definition ErrStockNotFound :: go_error where
  "ErrStockNotFound = app_new CodeStockNotFound ''stock not found''"
definition ErrStockInsufficient :: go_error where
  "ErrStockInsufficient = app_new CodeStockInsufficient ''stock insufficient''"
definition ErrReservationConflict :: go_error where
  "ErrReservationConflict = app_new CodeConflict ''order already has a different stock reservation''"

lemmas domain_errors =
  ErrProductIDRequired_def ErrOrderIDRequired_def ErrQuantityInvalid_def
  ErrStockNotFound_def ErrStockInsufficient_def ErrReservationConflict_def app_new_def

lemma domain_errors_distinct [simp]:
  "ErrStockNotFound \<noteq> ErrStockInsufficient" "ErrStockInsufficient \<noteq> ErrStockNotFound"
  "ErrReservationConflict \<noteq> ErrStockInsufficient" "ErrStockInsufficient \<noteq> ErrReservationConflict"
  "ErrReservationConflict \<noteq> ErrStockNotFound" "ErrStockNotFound \<noteq> ErrReservationConflict"
  by (simp_all add: domain_errors)

section \<open>The contract of a reservation store\<close>

text \<open>
  \<open>status s k\<close> is the status string of order \<open>k\<close> (\<open>None\<close>: no reservation), \<open>item s k\<close> its product
  and quantity, \<open>avail s p\<close> what is left of product \<open>p\<close>.  \<open>reserve\<close> answers whether the command
  was accepted.
\<close>

locale reservation_store =
  fixes inv :: "'s \<Rightarrow> bool"
    and status :: "'s \<Rightarrow> 'k \<Rightarrow> string option"
    and item :: "'s \<Rightarrow> 'k \<Rightarrow> int \<times> int"
    and avail :: "'s \<Rightarrow> int \<Rightarrow> int"
    and reserve :: "'k \<Rightarrow> int \<Rightarrow> int \<Rightarrow> 's \<Rightarrow> bool \<times> 's"
    and confirm :: "'k \<Rightarrow> 's \<Rightarrow> 's"
    and release :: "'k \<Rightarrow> 's \<Rightarrow> 's"
  assumes avail_nonneg: "inv s \<Longrightarrow> 0 \<le> avail s p"
    and status_known: "inv s \<Longrightarrow> status s k = Some x \<Longrightarrow> x \<in> {''reserved'', ''confirmed'', ''released''}"
    and item_pos: "inv s \<Longrightarrow> status s k \<noteq> None \<Longrightarrow> 0 < snd (item s k)"
    and reserve_inv: "inv s \<Longrightarrow> 0 < q \<Longrightarrow> inv (snd (reserve k p q s))"
    and confirm_inv: "inv s \<Longrightarrow> inv (confirm k s)"
    and release_inv: "inv s \<Longrightarrow> inv (release k s)"
    and reserve_refused: "inv s \<Longrightarrow> 0 < q \<Longrightarrow> \<not> fst (reserve k p q s) \<Longrightarrow> snd (reserve k p q s) = s"
    and reserve_known: "inv s \<Longrightarrow> 0 < q \<Longrightarrow> status s k \<noteq> None \<Longrightarrow>
           reserve k p q s = (item s k = (p, q), s)"
    and reserve_new: "inv s \<Longrightarrow> 0 < q \<Longrightarrow> status s k = None \<Longrightarrow> fst (reserve k p q s) \<Longrightarrow>
           status (snd (reserve k p q s)) = (status s)(k := Some ''reserved'') \<and>
           item (snd (reserve k p q s)) k = (p, q) \<and>
           avail (snd (reserve k p q s)) = (avail s)(p := avail s p - q)"
    and confirm_reserved: "inv s \<Longrightarrow> status s k = Some ''reserved'' \<Longrightarrow>
           status (confirm k s) = (status s)(k := Some ''confirmed'') \<and>
           item (confirm k s) = item s \<and> avail (confirm k s) = avail s"
    and confirm_other: "inv s \<Longrightarrow> status s k \<noteq> Some ''reserved'' \<Longrightarrow>
           status (confirm k s) = status s \<and> item (confirm k s) = item s \<and> avail (confirm k s) = avail s"
    and release_reserved: "inv s \<Longrightarrow> status s k = Some ''reserved'' \<Longrightarrow>
           status (release k s) = (status s)(k := Some ''released'') \<and>
           item (release k s) = item s \<and>
           avail (release k s) = (avail s)(fst (item s k) := avail s (fst (item s k)) + snd (item s k))"
    and release_done: "inv s \<Longrightarrow> status s k \<in> {None, Some ''released''} \<Longrightarrow>
           status (release k s) = status s \<and> item (release k s) = item s \<and> avail (release k s) = avail s"
begin

lemma reserve_retry:
  assumes "inv s" "0 < q" "fst (reserve k p q s)"
  shows "reserve k p q (snd (reserve k p q s)) = (True, snd (reserve k p q s))"
proof (cases "status s k = None")
  case True
  let ?t = "snd (reserve k p q s)"
  have "status ?t k = Some ''reserved''" "item ?t k = (p, q)"
    using reserve_new [OF assms(1,2) True assms(3)] by auto
  then show ?thesis
    using reserve_known [OF reserve_inv [OF assms(1,2)] assms(2), of k p k p] by simp
next
  case False
  then show ?thesis using reserve_known [OF assms(1,2) False] assms(3) by simp
qed

lemma reserve_takes_at_most:
  assumes "inv s" "0 < q"
  shows "avail s p - q \<le> avail (snd (reserve k p q s)) p \<and> avail (snd (reserve k p q s)) p \<le> avail s p"
proof (cases "fst (reserve k p q s)")
  case True
  then show ?thesis
    using assms reserve_new [OF assms _ True] reserve_known [OF assms] by (cases "status s k") auto
next
  case False
  then show ?thesis using assms reserve_refused [OF assms False] by simp
qed

lemma accepted_only_if_in_stock:
  assumes "inv s" "0 < q" "status s k = None" "fst (reserve k p q s)"
  shows "q \<le> avail s p"
  using reserve_new [OF assms] avail_nonneg [OF reserve_inv [OF assms(1,2), of k p], of p] by simp

lemma release_retry:
  assumes "inv s" "status s k \<noteq> Some ''confirmed''"
  shows "status (release k (release k s)) = status (release k s) \<and>
         avail (release k (release k s)) = avail (release k s)"
proof (cases "status s k = Some ''reserved''")
  case True
  then have "status (release k s) k = Some ''released''"
    using release_reserved [OF assms(1) True] by simp
  then show ?thesis using release_done [OF release_inv [OF assms(1), of k]] by auto
next
  case False
  then have "status s k \<in> {None, Some ''released''}"
    using assms status_known [OF assms(1), of k] by (cases "status s k") auto
  then show ?thesis
    using release_done [OF assms(1)] release_done [OF release_inv [OF assms(1), of k], of k] by simp
qed

lemma confirm_retry:
  assumes "inv s"
  shows "status (confirm k (confirm k s)) = status (confirm k s) \<and>
         avail (confirm k (confirm k s)) = avail (confirm k s)"
proof -
  have "status (confirm k s) k \<noteq> Some ''reserved''"
    using confirm_reserved [OF assms, of k] confirm_other [OF assms, of k]
    by (cases "status s k = Some ''reserved''") auto
  then show ?thesis using confirm_other [OF confirm_inv [OF assms, of k]] by auto
qed

lemma reserve_then_release:
  assumes "inv s" "0 < q" "status s k = None" "fst (reserve k p q s)"
  shows "avail (release k (snd (reserve k p q s))) = avail s"
  using reserve_new [OF assms] release_reserved [OF reserve_inv [OF assms(1,2), of k p], of k]
  by auto

text \<open>A confirmed reservation is never taken back by a late confirm, and keeps its stock.\<close>

lemma released_ignores_confirm:
  assumes "inv s" "status s k = Some ''released''"
  shows "status (confirm k s) k = Some ''released'' \<and> avail (confirm k s) = avail s"
  using confirm_other [OF assms(1), of k] assms(2) by auto

end

end
