(* ===== verification/Memory_Repository.thy ===== *)
theory Memory_Repository
  imports Stock_Domain "HOL-Library.Finite_Map"
begin

text \<open>
  \<open>app/inventory/repository/memory.go\<close>: the in-memory \<open>StockRepository\<close>.  Its mutex makes every
  method atomic, so a method is a state transformer on the two maps.  A method that returns an
  error next to values is modelled by the error alone: every caller looks at the error first.
\<close>

record mem_repo =
  stocks :: "(int, stock) fmap"
  reservations :: "(string, reservation) fmap"

definition NewMemoryStockRepository :: mem_repo where
  "NewMemoryStockRepository = \<lparr>stocks = fmempty, reservations = fmempty\<rparr>"

definition mem_GetStock :: "int \<Rightarrow> (mem_repo, stock) io" where
  "mem_GetStock productID r =
     (case fmlookup (stocks r) productID of
        None \<Rightarrow> (Inl ErrStockNotFound, r)
      | Some s \<Rightarrow> (Inr s, r))"

fun mem_batch :: "mem_repo \<Rightarrow> int list \<Rightarrow> int list \<Rightarrow> stock list" where
  "mem_batch r seen [] = []"
| "mem_batch r seen (productID # ps) =
     (if productID \<in> set seen then mem_batch r seen ps
      else (case fmlookup (stocks r) productID of
              None \<Rightarrow> mem_batch r (productID # seen) ps
            | Some s \<Rightarrow> s # mem_batch r (productID # seen) ps))"

definition mem_BatchGetStock :: "int list \<Rightarrow> (mem_repo, stock list) io" where
  "mem_BatchGetStock productIDs r = (Inr (mem_batch r [] productIDs), r)"

definition mem_SeedStock :: "int \<Rightarrow> int \<Rightarrow> int \<Rightarrow> (mem_repo, unit) io" where
  "mem_SeedStock productID n shardCount r =
     (Inr (), r\<lparr>stocks := fmupd productID (NewStock productID n) (stocks r)\<rparr>)"

definition mem_AdjustStock :: "int \<Rightarrow> int \<Rightarrow> int \<Rightarrow> stock_change_meta \<Rightarrow> (mem_repo, stock \<times> stock) io" where
  "mem_AdjustStock productID delta bucketIdx meta r =
     (case fmlookup (stocks r) productID of
        None \<Rightarrow> (Inl ErrStockNotFound, r)
      | Some before \<Rightarrow>
          if i64 (Available before + delta) < 0 then (Inl ErrStockInsufficient, r)
          else let after = before\<lparr>Available := i64 (Available before + delta),
                                  Total := i64 (Total before + delta)\<rparr>;
                   after = (if Total after < i64 (Available after + Reserved after)
                            then after\<lparr>Total := i64 (Available after + Reserved after)\<rparr> else after)
               in (Inr (before, after), r\<lparr>stocks := fmupd productID after (stocks r)\<rparr>))"

definition mem_ReserveStock :: "string \<Rightarrow> int \<Rightarrow> int \<Rightarrow> stock_change_meta \<Rightarrow> (mem_repo, unit) io" where
  "mem_ReserveStock orderID productID quantity meta r =
     (case fmlookup (reservations r) orderID of
        Some existing \<Rightarrow>
          if resProductID existing \<noteq> productID \<or> resQuantity existing \<noteq> quantity
          then (Inl ErrReservationConflict, r)
          else if resStatus existing = ReservationReleased then (Inr (), r)
          else (Inr (), r)
      | None \<Rightarrow>
          (case fmlookup (stocks r) productID of
             None \<Rightarrow> (Inl ErrStockNotFound, r)
           | Some s \<Rightarrow>
               if \<not> CanReserve s quantity then (Inl ErrStockInsufficient, r)
               else let s = s\<lparr>Available := i64 (Available s - quantity), Reserved := i64 (Reserved s + quantity)\<rparr>
                    in (Inr (), r\<lparr>stocks := fmupd productID s (stocks r),
                         reservations := fmupd orderID
                           \<lparr>resOrderID = orderID, resProductID = productID, resQuantity = quantity,
                            resStatus = ReservationReserved\<rparr> (reservations r)\<rparr>)))"

text \<open>A missing map entry reads as the zero \<open>Stock\<close>, as a Go map does.\<close>

definition stock_at :: "mem_repo \<Rightarrow> int \<Rightarrow> stock" where
  "stock_at r p = (case fmlookup (stocks r) p of None \<Rightarrow> zero_stock | Some s \<Rightarrow> s)"

definition mem_ConfirmDeduct :: "string \<Rightarrow> stock_change_meta \<Rightarrow> (mem_repo, unit) io" where
  "mem_ConfirmDeduct orderID meta r =
     (case fmlookup (reservations r) orderID of
        None \<Rightarrow> (Inr (), r)
      | Some res \<Rightarrow>
          if resStatus res = ReservationConfirmed then (Inr (), r)
          else if resStatus res = ReservationReleased then (Inr (), r)
          else let s = stock_at r (resProductID res);
                   s = s\<lparr>Reserved := i64 (Reserved s - resQuantity res), Total := i64 (Total s - resQuantity res)\<rparr>;
                   s = (if Reserved s < 0 then s\<lparr>Reserved := 0\<rparr> else s);
                   s = (if Total s < i64 (Available s + Reserved s)
                        then s\<lparr>Total := i64 (Available s + Reserved s)\<rparr> else s)
               in (Inr (), r\<lparr>stocks := fmupd (resProductID res) s (stocks r),
                             reservations := fmupd orderID (res\<lparr>resStatus := ReservationConfirmed\<rparr>) (reservations r)\<rparr>))"

definition mem_ReleaseStock :: "string \<Rightarrow> stock_change_meta \<Rightarrow> (mem_repo, unit) io" where
  "mem_ReleaseStock orderID meta r =
     (case fmlookup (reservations r) orderID of
        None \<Rightarrow> (Inr (), r)
      | Some res \<Rightarrow>
          if resStatus res = ReservationReleased then (Inr (), r)
          else if resStatus res = ReservationConfirmed then (Inr (), r)
          else let s = stock_at r (resProductID res);
                   s = s\<lparr>Available := i64 (Available s + resQuantity res), Reserved := i64 (Reserved s - resQuantity res)\<rparr>;
                   s = (if Reserved s < 0 then s\<lparr>Reserved := 0\<rparr> else s)
               in (Inr (), r\<lparr>stocks := fmupd (resProductID res) s (stocks r),
                             reservations := fmupd orderID (res\<lparr>resStatus := ReservationReleased\<rparr>) (reservations r)\<rparr>))"

definition mem_ReleaseExpiredReservations :: "int \<Rightarrow> stock_change_meta \<Rightarrow> (mem_repo, int) io" where
  "mem_ReleaseExpiredReservations limit meta r = (Inr 0, r)"

definition mem_ReservationStats :: "(mem_repo, reservation_stats) io" where
  "mem_ReservationStats r =
     (Inr \<lparr>Active = int (fcard (fmdom (fmfilter (\<lambda>k. case fmlookup (reservations r) k of
                None \<Rightarrow> False | Some res \<Rightarrow> resStatus res = ReservationReserved) (reservations r)))),
           Expired = 0, Processing = 0, DeadLetter = 0\<rparr>, r)"

definition mem_ReconcileStock :: "int \<Rightarrow> stock_change_meta \<Rightarrow> (mem_repo, stock \<times> stock \<times> bool) io" where
  "mem_ReconcileStock productID meta = bindE (mem_GetStock productID) (\<lambda>s. ret (s, s, False))"

section \<open>The repository invariant\<close>

text \<open>What order \<open>o\<close> holds of product \<open>p\<close>: its quantity while it is reserved.\<close>

definition mem_held :: "int \<Rightarrow> reservation option \<Rightarrow> int" where
  "mem_held p e = (case e of None \<Rightarrow> 0
      | Some res \<Rightarrow> if resProductID res = p \<and> resStatus res = ReservationReserved then resQuantity res else 0)"

definition stock_ok :: "stock \<Rightarrow> bool" where
  "stock_ok s \<longleftrightarrow> 0 \<le> Available s \<and> 0 \<le> Reserved s \<and> Total s = Available s + Reserved s \<and> in_i64 (Total s)"

definition res_ok :: "mem_repo \<Rightarrow> string \<Rightarrow> reservation \<Rightarrow> bool" where
  "res_ok r k res \<longleftrightarrow> resOrderID res = k \<and> 0 < resQuantity res \<and>
     resStatus res \<in> {ReservationReserved, ReservationConfirmed, ReservationReleased} \<and>
     fmlookup (stocks r) (resProductID res) \<noteq> None"

definition mem_inv :: "mem_repo \<Rightarrow> bool" where
  "mem_inv r \<longleftrightarrow>
     (\<forall>p s. fmlookup (stocks r) p = Some s \<longrightarrow>
        ProductID s = p \<and> stock_ok s \<and> Reserved s = tally (mem_held p) (fmlookup (reservations r))) \<and>
     (\<forall>k res. fmlookup (reservations r) k = Some res \<longrightarrow> res_ok r k res)"

lemma mem_held_None [simp]: "mem_held p None = 0"
  by (simp add: mem_held_def)

lemma mem_held_support [simp]: "fin_support (mem_held p) (fmlookup m)"
proof -
  have "{k. mem_held p (fmlookup m k) \<noteq> 0} \<subseteq> dom (fmlookup m)"
    by (metis (mono_tags, lifting) domIff mem_Collect_eq mem_held_None subsetI)
  then show ?thesis unfolding fin_support_def by (rule finite_subset) (rule dom_fmlookup_finite)
qed

lemma tally_mem_held:
  "tally (mem_held p) (fmlookup (fmupd k v m)) =
     tally (mem_held p) (fmlookup m) - mem_held p (fmlookup m k) + mem_held p (Some v)"
proof -
  have "fmlookup (fmupd k v m) = (fmlookup m)(k := Some v)" by auto
  then show ?thesis by (simp add: tally_upd)
qed

lemma mem_invD_stock:
  "mem_inv r \<Longrightarrow> fmlookup (stocks r) p = Some s \<Longrightarrow>
     ProductID s = p \<and> stock_ok s \<and> Reserved s = tally (mem_held p) (fmlookup (reservations r))"
  by (simp add: mem_inv_def)

lemma mem_invD_res: "mem_inv r \<Longrightarrow> fmlookup (reservations r) k = Some res \<Longrightarrow> res_ok r k res"
  by (simp add: mem_inv_def)

lemma mem_held_le_Reserved:
  assumes "mem_inv r" "fmlookup (reservations r) k = Some res" "resStatus res = ''reserved''"
    "fmlookup (stocks r) (resProductID res) = Some s"
  shows "resQuantity res \<le> Reserved s"
proof -
  have nonneg: "0 \<le> mem_held (resProductID res) (fmlookup (reservations r) j)" for j
    using mem_invD_res [OF assms(1), of j] by (auto simp: mem_held_def res_ok_def split: option.splits)
  then have "mem_held (resProductID res) (fmlookup (reservations r) k)
          \<le> tally (mem_held (resProductID res)) (fmlookup (reservations r))"
    by (intro tally_ge) simp_all
  then show ?thesis using assms mem_invD_stock [OF assms(1,4)] by (simp add: mem_held_def)
qed


text \<open>
  The one update every command performs: product \<open>p\<close>'s stock and order \<open>k\<close>'s reservation change
  together, and \<open>Reserved\<close> moves by exactly what the order's hold on \<open>p\<close> changes.
\<close>

lemma mem_inv_update:
  assumes inv: "mem_inv r" and s: "fmlookup (stocks r) p = Some s"
    and s': "ProductID s' = p" "stock_ok s'"
      "Reserved s' = Reserved s - mem_held p (fmlookup (reservations r) k) + mem_held p (Some res')"
    and res': "resOrderID res' = k" "0 < resQuantity res'" "resProductID res' = p"
      "resStatus res' \<in> {ReservationReserved, ReservationConfirmed, ReservationReleased}"
    and old: "\<And>res. fmlookup (reservations r) k = Some res \<Longrightarrow> resProductID res = p"
  shows "mem_inv (r\<lparr>stocks := fmupd p s' (stocks r), reservations := fmupd k res' (reservations r)\<rparr>)"
proof -
  have other: "mem_held a (fmlookup (reservations r) k) = 0" if "a \<noteq> p" for a
    using old that by (cases "fmlookup (reservations r) k") (auto simp: mem_held_def)
  have other': "mem_held a (Some res') = 0" if "a \<noteq> p" for a
    using res'(3) that by (simp add: mem_held_def)
  show ?thesis
    unfolding mem_inv_def
  proof (rule conjI; intro allI impI)
    fix a b
    assume "fmlookup (stocks (r\<lparr>stocks := fmupd p s' (stocks r), reservations := fmupd k res' (reservations r)\<rparr>)) a = Some b"
    then show "ProductID b = a \<and> stock_ok b \<and>
      Reserved b = tally (mem_held a)
        (fmlookup (reservations (r\<lparr>stocks := fmupd p s' (stocks r), reservations := fmupd k res' (reservations r)\<rparr>)))"
      using s' mem_invD_stock [OF inv s] mem_invD_stock [OF inv, of a] other other'
      by (cases "a = p") (auto simp: tally_mem_held split: if_splits)
  next
    fix j res
    assume "fmlookup (reservations (r\<lparr>stocks := fmupd p s' (stocks r), reservations := fmupd k res' (reservations r)\<rparr>)) j = Some res"
    then show "res_ok (r\<lparr>stocks := fmupd p s' (stocks r), reservations := fmupd k res' (reservations r)\<rparr>) j res"
      using res' mem_invD_res [OF inv, of j] by (cases "j = k") (auto simp: res_ok_def)
  qed
qed

lemma stock_ok_range: "stock_ok s \<Longrightarrow> in_i64 (Available s) \<and> in_i64 (Reserved s) \<and> in_i64 (Available s + Reserved s)"
  by (auto simp: stock_ok_def in_i64_def)

lemma mem_ReserveStock_new:
  assumes "mem_inv r" "fmlookup (reservations r) k = None" "fmlookup (stocks r) p = Some s" "CanReserve s q"
  shows "mem_ReserveStock k p q meta r =
     (Inr (), r\<lparr>stocks := fmupd p (s\<lparr>Available := Available s - q, Reserved := Reserved s + q\<rparr>) (stocks r),
        reservations := fmupd k \<lparr>resOrderID = k, resProductID = p, resQuantity = q,
            resStatus = ReservationReserved\<rparr> (reservations r)\<rparr>)"
proof -
  have "in_i64 (Available s - q)" "in_i64 (Reserved s + q)"
    using assms(4) mem_invD_stock [OF assms(1,3)] by (auto simp: CanReserve_def stock_ok_def in_i64_def)
  then show ?thesis using assms by (simp add: mem_ReserveStock_def Let_def i64_simps)
qed

lemma mem_ReserveStock_inv: "mem_inv r \<Longrightarrow> mem_inv (snd (mem_ReserveStock k p q meta r))"
proof (cases "fmlookup (reservations r) k")
  case None
  assume inv: "mem_inv r"
  show ?thesis
  proof (cases "\<exists>s. fmlookup (stocks r) p = Some s \<and> CanReserve s q")
    case True
    then obtain s where s: "fmlookup (stocks r) p = Some s" "CanReserve s q" by blast
    have "mem_inv (r\<lparr>stocks := fmupd p (s\<lparr>Available := Available s - q, Reserved := Reserved s + q\<rparr>) (stocks r),
        reservations := fmupd k \<lparr>resOrderID = k, resProductID = p, resQuantity = q,
            resStatus = ReservationReserved\<rparr> (reservations r)\<rparr>)"
      using s None mem_invD_stock [OF inv s(1)]
      by (intro mem_inv_update [OF inv s(1)]) (auto simp: stock_ok_def CanReserve_def mem_held_def in_i64_def)
    then show ?thesis by (simp add: mem_ReserveStock_new [OF inv None s])
  next
    case False
    then show ?thesis using inv None by (auto simp: mem_ReserveStock_def split: option.splits)
  qed
next
  case (Some res)
  assume "mem_inv r"
  then show ?thesis using Some by (simp add: mem_ReserveStock_def)
qed

lemma mem_ConfirmDeduct_reserved:
  assumes "mem_inv r" "fmlookup (reservations r) k = Some res" "resStatus res = ''reserved''"
    "fmlookup (stocks r) (resProductID res) = Some s"
  shows "mem_ConfirmDeduct k meta r =
     (Inr (), r\<lparr>stocks := fmupd (resProductID res)
                   (s\<lparr>Reserved := Reserved s - resQuantity res, Total := Total s - resQuantity res\<rparr>) (stocks r),
        reservations := fmupd k (res\<lparr>resStatus := ReservationConfirmed\<rparr>) (reservations r)\<rparr>)"
proof -
  note q = mem_held_le_Reserved [OF assms(1-4)]
  have "in_i64 (Reserved s - resQuantity res)" "in_i64 (Total s - resQuantity res)"
    "in_i64 (Available s + (Reserved s - resQuantity res))" "Total s = Available s + Reserved s"
    using q mem_invD_stock [OF assms(1,4)] mem_invD_res [OF assms(1,2)]
    by (auto simp: stock_ok_def in_i64_def res_ok_def)
  then show ?thesis using assms q by (simp add: mem_ConfirmDeduct_def stock_at_def Let_def i64_simps)
qed

lemma mem_ReleaseStock_reserved:
  assumes "mem_inv r" "fmlookup (reservations r) k = Some res" "resStatus res = ''reserved''"
    "fmlookup (stocks r) (resProductID res) = Some s"
  shows "mem_ReleaseStock k meta r =
     (Inr (), r\<lparr>stocks := fmupd (resProductID res)
                   (s\<lparr>Available := Available s + resQuantity res, Reserved := Reserved s - resQuantity res\<rparr>) (stocks r),
        reservations := fmupd k (res\<lparr>resStatus := ReservationReleased\<rparr>) (reservations r)\<rparr>)"
proof -
  note q = mem_held_le_Reserved [OF assms(1-4)]
  have "in_i64 (Reserved s - resQuantity res)" "in_i64 (Available s + resQuantity res)"
    using q mem_invD_stock [OF assms(1,4)] mem_invD_res [OF assms(1,2)]
    by (auto simp: stock_ok_def in_i64_def res_ok_def)
  then show ?thesis using assms q by (simp add: mem_ReleaseStock_def stock_at_def Let_def i64_simps)
qed

lemma mem_res_stock:
  assumes "mem_inv r" "fmlookup (reservations r) k = Some res"
  obtains s where "fmlookup (stocks r) (resProductID res) = Some s"
  using mem_invD_res [OF assms] by (auto simp: res_ok_def)

lemma mem_finish_inv:
  assumes inv: "mem_inv r" and res: "fmlookup (reservations r) k = Some res" "resStatus res = ''reserved''"
    and s: "fmlookup (stocks r) (resProductID res) = Some s"
    and s': "ProductID s' = resProductID res" "stock_ok s'" "Reserved s' = Reserved s - resQuantity res"
    and x: "x = ReservationConfirmed \<or> x = ReservationReleased"
  shows "mem_inv (r\<lparr>stocks := fmupd (resProductID res) s' (stocks r),
            reservations := fmupd k (res\<lparr>resStatus := x\<rparr>) (reservations r)\<rparr>)"
  using res s' x mem_invD_res [OF inv res(1)]
  by (intro mem_inv_update [OF inv s]) (auto simp: mem_held_def res_ok_def)

lemma mem_ConfirmDeduct_inv: "mem_inv r \<Longrightarrow> mem_inv (snd (mem_ConfirmDeduct k meta r))"
proof (cases "\<exists>res. fmlookup (reservations r) k = Some res \<and> resStatus res = ''reserved''")
  case True
  assume inv: "mem_inv r"
  from True obtain res where res: "fmlookup (reservations r) k = Some res" "resStatus res = ''reserved''" by blast
  obtain s where s: "fmlookup (stocks r) (resProductID res) = Some s" using mem_res_stock [OF inv res(1)] .
  show ?thesis
    using mem_held_le_Reserved [OF inv res s] mem_invD_stock [OF inv s] mem_invD_res [OF inv res(1)]
    unfolding mem_ConfirmDeduct_reserved [OF inv res s] snd_conv
    by (intro mem_finish_inv [OF inv res s]) (auto simp: stock_ok_def in_i64_def res_ok_def)
next
  case False
  assume "mem_inv r"
  then show ?thesis using False mem_invD_res [of r k]
    by (auto simp: mem_ConfirmDeduct_def res_ok_def split: option.splits)
qed

lemma mem_ReleaseStock_inv: "mem_inv r \<Longrightarrow> mem_inv (snd (mem_ReleaseStock k meta r))"
proof (cases "\<exists>res. fmlookup (reservations r) k = Some res \<and> resStatus res = ''reserved''")
  case True
  assume inv: "mem_inv r"
  from True obtain res where res: "fmlookup (reservations r) k = Some res" "resStatus res = ''reserved''" by blast
  obtain s where s: "fmlookup (stocks r) (resProductID res) = Some s" using mem_res_stock [OF inv res(1)] .
  show ?thesis
    using mem_held_le_Reserved [OF inv res s] mem_invD_stock [OF inv s] mem_invD_res [OF inv res(1)]
    unfolding mem_ReleaseStock_reserved [OF inv res s] snd_conv
    by (intro mem_finish_inv [OF inv res s]) (auto simp: stock_ok_def in_i64_def res_ok_def)
next
  case False
  assume "mem_inv r"
  then show ?thesis using False mem_invD_res [of r k]
    by (auto simp: mem_ReleaseStock_def res_ok_def split: option.splits)
qed


lemma mem_inv_stock_only:
  assumes inv: "mem_inv r" and s': "ProductID s' = p" "stock_ok s'"
      "Reserved s' = tally (mem_held p) (fmlookup (reservations r))"
  shows "mem_inv (r\<lparr>stocks := fmupd p s' (stocks r)\<rparr>)"
  unfolding mem_inv_def
proof (rule conjI; intro allI impI)
  fix a b
  assume "fmlookup (stocks (r\<lparr>stocks := fmupd p s' (stocks r)\<rparr>)) a = Some b"
  then show "ProductID b = a \<and> stock_ok b \<and>
      Reserved b = tally (mem_held a) (fmlookup (reservations (r\<lparr>stocks := fmupd p s' (stocks r)\<rparr>)))"
    using s' mem_invD_stock [OF inv, of a] by (auto split: if_splits)
next
  fix j res
  assume "fmlookup (reservations (r\<lparr>stocks := fmupd p s' (stocks r)\<rparr>)) j = Some res"
  then show "res_ok (r\<lparr>stocks := fmupd p s' (stocks r)\<rparr>) j res"
    using mem_invD_res [OF inv, of j] by (auto simp: res_ok_def)
qed

lemma mem_AdjustStock_ok:
  assumes "mem_inv r" "fmlookup (stocks r) p = Some s" "in_i64 (Total s + delta)" "0 \<le> Available s + delta"
  shows "mem_AdjustStock p delta b meta r =
     (let s' = s\<lparr>Available := Available s + delta, Total := Total s + delta\<rparr>
      in (Inr (s, s'), r\<lparr>stocks := fmupd p s' (stocks r)\<rparr>))"
proof -
  have "in_i64 (Available s + delta)" "in_i64 (Available s + delta + Reserved s)" "Total s = Available s + Reserved s"
    using assms mem_invD_stock [OF assms(1,2)] by (auto simp: stock_ok_def in_i64_def)
  then show ?thesis using assms by (simp add: mem_AdjustStock_def Let_def i64_simps)
qed

lemma mem_AdjustStock_inv:
  assumes inv: "mem_inv r" and range: "in_i64 delta"
    and fits: "\<And>s. fmlookup (stocks r) p = Some s \<Longrightarrow> in_i64 (Total s + delta)"
  shows "mem_inv (snd (mem_AdjustStock p delta b meta r))"
proof (cases "fmlookup (stocks r) p")
  case None
  then show ?thesis using inv by (simp add: mem_AdjustStock_def)
next
  case (Some s)
  show ?thesis
  proof (cases "0 \<le> Available s + delta")
    case True
    show ?thesis
      using mem_invD_stock [OF inv Some] fits [OF Some] True
      unfolding mem_AdjustStock_ok [OF inv Some fits [OF Some] True] Let_def snd_conv
      by (intro mem_inv_stock_only [OF inv]) (auto simp: stock_ok_def)
  next
    case False
    moreover have "in_i64 (Available s + delta)"
      using False range mem_invD_stock [OF inv Some] by (auto simp: stock_ok_def in_i64_def)
    ultimately show ?thesis using inv Some by (simp add: mem_AdjustStock_def i64_simps)
  qed
qed

lemma mem_SeedStock_inv:
  assumes "mem_inv r" "in_i64 n" "tally (mem_held p) (fmlookup (reservations r)) = 0"
  shows "mem_inv (snd (mem_SeedStock p n c r))"
  unfolding mem_SeedStock_def snd_conv
  using assms by (intro mem_inv_stock_only) (auto simp: NewStock_def Let_def stock_ok_def in_i64_def)

section \<open>Runs of commands\<close>

datatype mem_cmd =
    MSeed int int | MAdjust int int int | MReserve string int int | MConfirm string | MRelease string

fun mem_exec :: "mem_cmd \<Rightarrow> stock_change_meta \<Rightarrow> mem_repo \<Rightarrow> mem_repo" where
  "mem_exec (MSeed p n) meta r = snd (mem_SeedStock p n 0 r)"
| "mem_exec (MAdjust p d b) meta r = snd (mem_AdjustStock p d b meta r)"
| "mem_exec (MReserve k p q) meta r = snd (mem_ReserveStock k p q meta r)"
| "mem_exec (MConfirm k) meta r = snd (mem_ConfirmDeduct k meta r)"
| "mem_exec (MRelease k) meta r = snd (mem_ReleaseStock k meta r)"

text \<open>
  Two commands have preconditions the code does not check: a product is seeded only while no
  order holds a part of it, and an adjustment keeps the total inside \<open>int64\<close>.
\<close>

fun mem_guard :: "mem_repo \<Rightarrow> mem_cmd \<Rightarrow> bool" where
  "mem_guard r (MSeed p n) \<longleftrightarrow> in_i64 n \<and> tally (mem_held p) (fmlookup (reservations r)) = 0"
| "mem_guard r (MAdjust p d b) \<longleftrightarrow> in_i64 d \<and>
     (case fmlookup (stocks r) p of None \<Rightarrow> True | Some s \<Rightarrow> in_i64 (Total s + d))"
| "mem_guard r _ \<longleftrightarrow> True"

inductive mem_reachable :: "mem_repo \<Rightarrow> bool" where
  start: "mem_reachable NewMemoryStockRepository"
| step: "mem_reachable r \<Longrightarrow> mem_guard r c \<Longrightarrow> mem_reachable (mem_exec c meta r)"

lemma mem_inv_start: "mem_inv NewMemoryStockRepository"
  by (simp add: mem_inv_def NewMemoryStockRepository_def)

lemma mem_exec_inv: "mem_inv r \<Longrightarrow> mem_guard r c \<Longrightarrow> mem_inv (mem_exec c meta r)"
  by (cases c)
     (auto intro!: mem_SeedStock_inv mem_AdjustStock_inv mem_ReserveStock_inv mem_ConfirmDeduct_inv mem_ReleaseStock_inv)


definition mem_example :: mem_repo where
  "mem_example = mem_exec (MReserve ''o1'' 7 3) no_meta (mem_exec (MSeed 7 10) no_meta NewMemoryStockRepository)"

lemma mem_example_stock:
  "fmlookup (stocks mem_example) 7 = Some \<lparr>ProductID = 7, Available = 7, Reserved = 3, Total = 10\<rparr>"
  by (simp add: mem_example_def mem_SeedStock_def mem_ReserveStock_def NewMemoryStockRepository_def
      NewStock_def CanReserve_def Let_def i64_def)


section \<open>The repository fulfils the contract\<close>

definition mem_status :: "mem_repo \<Rightarrow> string \<Rightarrow> string option" where
  "mem_status r k = map_option resStatus (fmlookup (reservations r) k)"

definition mem_item :: "mem_repo \<Rightarrow> string \<Rightarrow> int \<times> int" where
  "mem_item r k = (case fmlookup (reservations r) k of None \<Rightarrow> (0, 0) | Some res \<Rightarrow> (resProductID res, resQuantity res))"

definition mem_avail :: "mem_repo \<Rightarrow> int \<Rightarrow> int" where
  "mem_avail r p = Available (stock_at r p)"

definition accepted :: "(go_error + 'a) \<times> 's \<Rightarrow> bool \<times> 's" where
  "accepted x = (case x of (Inl e, s) \<Rightarrow> (False, s) | (Inr a, s) \<Rightarrow> (True, s))"

lemmas mem_views = mem_status_def mem_item_def mem_avail_def stock_at_def

lemma mem_status_cases:
  assumes "mem_inv r" "mem_status r k = Some x"
  obtains res s where "fmlookup (reservations r) k = Some res" "resStatus res = x"
    "fmlookup (stocks r) (resProductID res) = Some s"
  using assms mem_res_stock by (force simp: mem_status_def)

interpretation mem: reservation_store mem_inv mem_status mem_item mem_avail
  "\<lambda>k p q r. accepted (mem_ReserveStock k p q no_meta r)"
  "\<lambda>k r. snd (mem_ConfirmDeduct k no_meta r)"
  "\<lambda>k r. snd (mem_ReleaseStock k no_meta r)"
proof (unfold_locales, goal_cases)
  case (1 s p)
  then show ?case
    using mem_invD_stock [of s p] by (auto simp: mem_views zero_stock_def stock_ok_def split: option.splits)
next
  case (2 s k x)
  then show ?case using mem_invD_res [of s k] by (auto simp: mem_status_def res_ok_def)
next
  case (3 s k)
  then show ?case using mem_invD_res [of s k] by (auto simp: mem_status_def mem_item_def res_ok_def)
next
  case (4 s q k p)
  then show ?case using mem_ReserveStock_inv [of s k p q no_meta] by (auto simp: accepted_def split: prod.splits sum.splits)
next
  case (5 s k)
  then show ?case by (rule mem_ConfirmDeduct_inv)
next
  case (6 s k)
  then show ?case by (rule mem_ReleaseStock_inv)
next
  case (7 s q k p)
  then show ?case by (auto simp: accepted_def mem_ReserveStock_def Let_def split: option.splits if_splits)
next
  case (8 s q k p)
  then show ?case by (auto simp: accepted_def mem_ReserveStock_def mem_status_def mem_item_def)
next
  case (9 s q k p)
  then obtain st where st: "fmlookup (reservations s) k = None" "fmlookup (stocks s) p = Some st" "CanReserve st q"
    by (auto simp: accepted_def mem_ReserveStock_def mem_status_def Let_def split: option.splits if_splits)
  show ?case
    unfolding mem_ReserveStock_new [OF 9(1) st] accepted_def
    using st by (auto simp: mem_views fun_eq_iff)
next
  case (10 s k)
  then obtain res st where *: "fmlookup (reservations s) k = Some res" "resStatus res = ''reserved''"
    "fmlookup (stocks s) (resProductID res) = Some st" by (rule mem_status_cases)
  show ?case
    unfolding mem_ConfirmDeduct_reserved [OF 10(1) *]
    using * by (auto simp: mem_views fun_eq_iff)
next
  case (11 s k)
  then show ?case
    using mem_invD_res [of s k] by (auto simp: mem_ConfirmDeduct_def mem_status_def res_ok_def split: option.splits)
next
  case (12 s k)
  then obtain res st where *: "fmlookup (reservations s) k = Some res" "resStatus res = ''reserved''"
    "fmlookup (stocks s) (resProductID res) = Some st" by (rule mem_status_cases)
  show ?case
    unfolding mem_ReleaseStock_reserved [OF 12(1) *]
    using * by (auto simp: mem_views fun_eq_iff)
next
  case (13 s k)
  then show ?case by (auto simp: mem_ReleaseStock_def mem_status_def split: option.splits)
qed

end
