(* ===== verification/Shard.thy ===== *)
theory Shard
  imports Prelude "HOL-Library.Word"
begin

unbundle bit_operations_syntax

text \<open>
  \<open>app/inventory/repository/shard.go\<close> (and its twin \<open>app/order/rpc/internal/logic/stock_shard.go\<close>):
  a product's stock is spread over \<open>shardCount\<close> Redis keys; an order starts looking at the shard its
  CRC-32 picks.  \<open>ChecksumIEEE\<close> is the standard library's \<open>hash/crc32\<close>, bit by bit on 32-bit words.
\<close>

definition NormalizeShardCount :: "int \<Rightarrow> int" where
  "NormalizeShardCount configured = (if configured \<le> 0 then 1 else configured)"

definition StockShardKey :: "int \<Rightarrow> int \<Rightarrow> string" where
  "StockShardKey productID i = ''stock:'' @ show_int productID @ '':'' @ show_int i"

definition StockShardKeys :: "int \<Rightarrow> int \<Rightarrow> string list" where
  "StockShardKeys productID shardCount =
     (let shardCount = NormalizeShardCount shardCount
      in map (StockShardKey productID) [0..shardCount - 1])"

section \<open>CRC-32\<close>

fun crc32_bits :: "nat \<Rightarrow> 32 word \<Rightarrow> 32 word" where
  "crc32_bits 0 c = c"
| "crc32_bits (Suc n) c =
     crc32_bits n (if c AND 1 = 1 then drop_bit 1 c XOR 0xEDB88320 else drop_bit 1 c)"

definition crc32_byte :: "32 word \<Rightarrow> char \<Rightarrow> 32 word" where
  "crc32_byte crc b = crc32_bits 8 (crc XOR word_of_nat (of_char b))"

definition ChecksumIEEE :: "string \<Rightarrow> 32 word" where
  "ChecksumIEEE s = NOT (foldl crc32_byte 0xFFFFFFFF s)"

definition StockShardStartIndex :: "string \<Rightarrow> int \<Rightarrow> int" where
  "StockShardStartIndex orderID shardCount =
     (let shardCount = NormalizeShardCount shardCount
      in if shardCount \<le> 1 then 0
         else uint (ChecksumIEEE orderID mod (word_of_int shardCount :: 32 word)))"

section \<open>Splitting a total over the shards\<close>

definition SplitStockAcrossShards :: "int \<Rightarrow> int \<Rightarrow> int list" where
  "SplitStockAcrossShards n shardCount =
     (let shardCount = NormalizeShardCount shardCount;
          n = (if n < 0 then 0 else n);
          per = go_div n shardCount;
          remain = go_mod n shardCount
      in map (\<lambda>i. if i = 0 then i64 (per + remain) else per) [0..shardCount - 1])"

section \<open>Facts\<close>

lemma NormalizeShardCount_pos [simp]: "0 < NormalizeShardCount c" "1 \<le> NormalizeShardCount c"
  by (auto simp: NormalizeShardCount_def)

lemma NormalizeShardCount_idem [simp]: "NormalizeShardCount (NormalizeShardCount c) = NormalizeShardCount c"
  by (simp add: NormalizeShardCount_def)

lemma NormalizeShardCount_id [simp]: "0 < c \<Longrightarrow> NormalizeShardCount c = c"
  by (simp add: NormalizeShardCount_def)

lemma length_StockShardKeys [simp]: "length (StockShardKeys p c) = nat (NormalizeShardCount c)"
  by (simp add: StockShardKeys_def Let_def)

lemma nth_StockShardKeys:
  "i < nat (NormalizeShardCount c) \<Longrightarrow> StockShardKeys p c ! i = StockShardKey p (int i)"
  by (simp add: StockShardKeys_def Let_def)

lemma StockShardKey_inject [simp]: "StockShardKey p i = StockShardKey p' j \<longleftrightarrow> p = p' \<and> i = j"
  by (simp add: StockShardKey_def show_int_colon_inject)

lemma distinct_StockShardKeys [simp]: "distinct (StockShardKeys p c)"
  by (simp add: StockShardKeys_def Let_def distinct_map inj_on_def)

lemma set_StockShardKeys: "set (StockShardKeys p c) = StockShardKey p ` {0..<NormalizeShardCount c}"
  by (auto simp: StockShardKeys_def Let_def)

lemma StockShardKeys_disjoint: "p \<noteq> p' \<Longrightarrow> set (StockShardKeys p c) \<inter> set (StockShardKeys p' c') = {}"
  by (auto simp: set_StockShardKeys)

lemma crc32_check: "ChecksumIEEE ''123456789'' = 0xCBF43926"
  by code_simp

lemma StockShardStartIndex_range:
  assumes "in_i64 c" "NormalizeShardCount c < 2 ^ 32"
  shows "0 \<le> StockShardStartIndex k c \<and> StockShardStartIndex k c < NormalizeShardCount c"
proof (cases "NormalizeShardCount c \<le> 1")
  case True
  then show ?thesis by (simp add: StockShardStartIndex_def Let_def)
next
  case False
  let ?n = "NormalizeShardCount c"
  have n: "uint (word_of_int ?n :: 32 word) = ?n"
    using False assms(2) by (simp add: uint_word_of_int)
  have "uint (ChecksumIEEE k mod (word_of_int ?n :: 32 word)) = uint (ChecksumIEEE k) mod ?n"
    by (simp add: uint_mod n)
  then show ?thesis using False by (simp add: StockShardStartIndex_def Let_def)
qed

lemma SplitStockAcrossShards_length [simp]:
  "length (SplitStockAcrossShards n c) = nat (NormalizeShardCount c)"
  by (simp add: SplitStockAcrossShards_def Let_def)

lemma SplitStock_parts:
  assumes "in_i64 n" "0 < c"
  shows "SplitStockAcrossShards n c =
     (max n 0 div c + max n 0 mod c) # replicate (nat (c - 1)) (max n 0 div c)"
proof -
  let ?m = "max n 0"
  have m: "0 \<le> ?m" "in_i64 ?m" using assms(1) by (auto simp: in_i64_def)
  have "?m div c + ?m mod c \<le> ?m"
  proof -
    have "0 \<le> ?m div c" using m(1) assms(2) by (simp add: pos_imp_zdiv_nonneg_iff)
    then have "?m div c \<le> c * (?m div c)" using mult_right_mono [of 1 c "?m div c"] assms(2) by simp
    then show ?thesis using mult_div_mod_eq [of c ?m] by linarith
  qed
  moreover have "0 \<le> ?m div c + ?m mod c" using m assms(2) by (simp add: pos_imp_zdiv_nonneg_iff)
  ultimately have fits: "in_i64 (?m div c + ?m mod c)" using m(2) by (auto intro: in_i64I)
  have up: "[0..c - 1] = 0 # [1..c - 1]" using assms(2) by (simp add: upto_rec1)
  have "map (\<lambda>i. if i = 0 then x else y) [1..c - 1] = replicate (nat (c - 1)) (y :: int)" for x y
    by (rule replicate_eqI) auto
  moreover have "(if n < 0 then 0 else n) = ?m" by auto
  ultimately show ?thesis
    using m assms(2) fits by (simp add: SplitStockAcrossShards_def Let_def up i64_simps)
qed

lemma split_nonneg: "in_i64 n \<Longrightarrow> list_all (\<lambda>x. 0 \<le> x) (SplitStockAcrossShards n c)"
proof -
  assume r: "in_i64 n"
  let ?c = "NormalizeShardCount c"
  have eq: "SplitStockAcrossShards n c = SplitStockAcrossShards n ?c" by (simp add: SplitStockAcrossShards_def)
  have "0 \<le> max n 0 div ?c" by (simp add: pos_imp_zdiv_nonneg_iff)
  then show ?thesis unfolding eq using SplitStock_parts [OF r, of ?c] by (simp add: list_all_iff)
qed

lemma split_total:
  assumes "in_i64 n"
  shows "sum_list (SplitStockAcrossShards n c) = max n 0"
proof -
  let ?c = "NormalizeShardCount c" and ?m = "max n 0"
  have eq: "SplitStockAcrossShards n c = SplitStockAcrossShards n ?c"
    by (simp add: SplitStockAcrossShards_def)
  have parts: "SplitStockAcrossShards n ?c = (?m div ?c + ?m mod ?c) # replicate (nat (?c - 1)) (?m div ?c)"
    using SplitStock_parts [OF assms, of ?c] by simp
  have "sum_list (SplitStockAcrossShards n ?c) = ?m div ?c + ?m mod ?c + (?c - 1) * (?m div ?c)"
    unfolding parts by (simp add: sum_list_replicate)
  also have "\<dots> = ?c * (?m div ?c) + ?m mod ?c" by (simp add: algebra_simps)
  finally have "sum_list (SplitStockAcrossShards n ?c) = ?m" by simp
  then show ?thesis unfolding eq .
qed

text \<open>
  Seeding spreads a stock total over the shards without losing or inventing a unit: the parts
  are non-negative and add up to the total (a negative total counts as zero), for every
  configured shard count.
\<close>

theorem split_conserves_total:
  assumes "in_i64 n"
  shows "sum_list (SplitStockAcrossShards n c) = max n 0 \<and> list_all (\<lambda>x. 0 \<le> x) (SplitStockAcrossShards n c)"
  using split_total [OF assms] split_nonneg [OF assms] by simp

theorem split_conserves_total_witness:
  "sum_list (SplitStockAcrossShards 10 4) = 10 \<and> SplitStockAcrossShards 10 4 = [4, 2, 2, 2]"
  using split_conserves_total [of 10 4]
  by (simp add: in_i64_def SplitStockAcrossShards_def NormalizeShardCount_def Let_def i64_def upto.simps)

end
