(* ===== verification/Redis_Store.thy ===== *)
theory Redis_Store
  imports Stock_Domain Shard "HOL-Library.AList"
begin

text \<open>
  The Redis server as the inventory scripts see it: counters (string values holding integers),
  reservation hashes, sorted sets, hashes of counters, expiry deadlines and the server clock.
  A Lua script runs atomically, so each script of \<open>redis_scripts.go\<close> and
  \<open>reservation_reaper.go\<close> is one function on this state; \<open>KEYS\<close> is its list of key names and the
  \<open>ARGV\<close> values are its further arguments in order.  Lua numbers are integers here, exact for the
  magnitudes a Lua number represents exactly (below 2^53).  The kinds of keys live in separate
  maps: a key holds one kind of value as long as no order is called like an index
  (lemma \<open>reservation_key_collision\<close> in \<open>Lua_Scripts\<close> shows which order ids would clash).
\<close>

section \<open>Data\<close>

record rhash =
  h_status :: "string option"
  h_product_id :: "int option"
  h_quantity :: "int option"
  h_shard_index :: "int option"
  h_order_id :: "string option"
  h_mysql_deducted :: bool

definition empty_hash :: rhash where
  "empty_hash = \<lparr>h_status = None, h_product_id = None, h_quantity = None, h_shard_index = None,
     h_order_id = None, h_mysql_deducted = False\<rparr>"

record redis =
  ctr :: "string \<Rightarrow> int option"
  hash :: "string \<Rightarrow> rhash"
  zset :: "string \<Rightarrow> (string \<times> int) list"
  hcount :: "string \<Rightarrow> (string \<times> int) list"
  deadline :: "string \<Rightarrow> int option"
  server_time :: int

definition empty_redis :: "int \<Rightarrow> redis" where
  "empty_redis t = \<lparr>ctr = Map.empty, hash = (\<lambda>_. empty_hash), zset = (\<lambda>_. []), hcount = (\<lambda>_. []),
     deadline = Map.empty, server_time = t\<rparr>"

section \<open>Commands\<close>

definition r_set :: "string \<Rightarrow> int \<Rightarrow> redis \<Rightarrow> redis" where
  "r_set k v r = r\<lparr>ctr := (ctr r)(k := Some v), deadline := (deadline r)(k := None)\<rparr>"

definition num_of :: "int option \<Rightarrow> int" where
  "num_of x = (case x of None \<Rightarrow> 0 | Some v \<Rightarrow> v)"

definition r_incrby :: "string \<Rightarrow> int \<Rightarrow> redis \<Rightarrow> redis" where
  "r_incrby k d r = r\<lparr>ctr := (ctr r)(k := Some (num_of (ctr r k) + d))\<rparr>"

definition r_decrby :: "string \<Rightarrow> int \<Rightarrow> redis \<Rightarrow> redis" where
  "r_decrby k d r = r_incrby k (- d) r"

definition r_hset :: "string \<Rightarrow> (rhash \<Rightarrow> rhash) \<Rightarrow> redis \<Rightarrow> redis" where
  "r_hset k f r = r\<lparr>hash := (hash r)(k := f (hash r k))\<rparr>"

definition r_expire :: "string \<Rightarrow> int \<Rightarrow> redis \<Rightarrow> redis" where
  "r_expire k ttl r = r\<lparr>deadline := (deadline r)(k := Some (server_time r + ttl))\<rparr>"

definition r_zadd :: "string \<Rightarrow> int \<Rightarrow> string \<Rightarrow> redis \<Rightarrow> redis" where
  "r_zadd k score m r = r\<lparr>zset := (zset r)(k := AList.update m score (zset r k))\<rparr>"

definition r_zrem :: "string \<Rightarrow> string \<Rightarrow> redis \<Rightarrow> redis" where
  "r_zrem k m r = r\<lparr>zset := (zset r)(k := AList.delete m (zset r k))\<rparr>"

definition r_zscore :: "string \<Rightarrow> string \<Rightarrow> redis \<Rightarrow> int option" where
  "r_zscore k m r = map_of (zset r k) m"

text \<open>\<open>ZRANGEBYSCORE k -inf hi\<close>: by score, ties by member.\<close>

definition r_zrangebyscore :: "string \<Rightarrow> int \<Rightarrow> redis \<Rightarrow> string list" where
  "r_zrangebyscore k hi r =
     map snd (sort (map (\<lambda>(m, s). (s, m)) (filter (\<lambda>(m, s). s \<le> hi) (zset r k))))"

definition r_zcard :: "string \<Rightarrow> redis \<Rightarrow> int" where
  "r_zcard k r = int (length (zset r k))"

definition r_zcount :: "string \<Rightarrow> int \<Rightarrow> redis \<Rightarrow> int" where
  "r_zcount k hi r = int (length (filter (\<lambda>(m, s). s \<le> hi) (zset r k)))"

definition r_hincrby :: "string \<Rightarrow> string \<Rightarrow> int \<Rightarrow> redis \<Rightarrow> int \<times> redis" where
  "r_hincrby k f d r =
     (let v = num_of (map_of (hcount r k) f) + d
      in (v, r\<lparr>hcount := (hcount r)(k := AList.update f v (hcount r k))\<rparr>))"

definition r_hdel :: "string \<Rightarrow> string \<Rightarrow> redis \<Rightarrow> redis" where
  "r_hdel k f r = r\<lparr>hcount := (hcount r)(k := AList.delete f (hcount r k))\<rparr>"

definition r_del :: "string \<Rightarrow> redis \<Rightarrow> redis" where
  "r_del k r = r\<lparr>ctr := (ctr r)(k := None), hash := (hash r)(k := empty_hash), zset := (zset r)(k := []),
     hcount := (hcount r)(k := []), deadline := (deadline r)(k := None)\<rparr>"

text \<open>Time passes and keys whose deadline has come disappear.\<close>

definition r_tick :: "int \<Rightarrow> redis \<Rightarrow> redis" where
  "r_tick t r =
     (let gone = (\<lambda>k. case deadline r k of None \<Rightarrow> False | Some d \<Rightarrow> d \<le> t)
      in r\<lparr>server_time := t,
           ctr := (\<lambda>k. if gone k then None else ctr r k),
           hash := (\<lambda>k. if gone k then empty_hash else hash r k),
           zset := (\<lambda>k. if gone k then [] else zset r k),
           hcount := (\<lambda>k. if gone k then [] else hcount r k),
           deadline := (\<lambda>k. if gone k then None else deadline r k)\<rparr>)"

text \<open>A value of another kind is stored under the key: an integer command on it is refused.\<close>

definition wrong_type :: "redis \<Rightarrow> string \<Rightarrow> bool" where
  "wrong_type r k \<longleftrightarrow> hash r k \<noteq> empty_hash \<or> zset r k \<noteq> [] \<or> hcount r k \<noteq> []"

section \<open>Key names\<close>

definition reservationKey :: "string \<Rightarrow> string" where
  "reservationKey orderID = ''inventory:reservation:'' @ orderID"

definition reservedStockKey :: "int \<Rightarrow> string" where
  "reservedStockKey productID = ''stock_reserved:'' @ show_int productID"

definition reservationExpiryIndexKey :: string where
  "reservationExpiryIndexKey = ''inventory:reservation:expirations''"
definition reservationProcessingIndexKey :: string where
  "reservationProcessingIndexKey = ''inventory:reservation:processing''"
definition reservationRetryCountKey :: string where
  "reservationRetryCountKey = ''inventory:reservation:retry_count''"
definition reservationDeadLetterIndexKey :: string where
  "reservationDeadLetterIndexKey = ''inventory:reservation:dead_letter''"

definition reservationExpirySeconds :: int where [simp]: "reservationExpirySeconds = 24 * 60 * 60"
definition reservationKeyTTLSeconds :: int where [simp]: "reservationKeyTTLSeconds = 48 * 60 * 60"
definition confirmedReservationTTLSeconds :: int where [simp]: "confirmedReservationTTLSeconds = 180 * 24 * 60 * 60"
definition reservationProcessingTimeout :: int where [simp]: "reservationProcessingTimeout = 5 * 60"
definition reservationRetryDelay :: int where [simp]: "reservationRetryDelay = 30"
definition reservationMaxRecoveryRetries :: int where [simp]: "reservationMaxRecoveryRetries = 3"

section \<open>Replies\<close>

text \<open>
  What \<open>EvalCtx\<close> hands back: the dynamic types \<open>toInt64\<close> and \<open>toInt64Slice\<close> of
  \<open>redis_codec.go\<close> distinguish.
\<close>

datatype redis_val =
    VInt64 int | VInt int | VString string | VBytes string | VArray "redis_val list" | VOther string

definition toInt64 :: "redis_val \<Rightarrow> go_error + int" where
  "toInt64 val = (case val of
       VInt64 v \<Rightarrow> Inr v
     | VInt v \<Rightarrow> Inr v
     | VString s \<Rightarrow> (case ParseInt s of Some v \<Rightarrow> Inr v | None \<Rightarrow> Inl (RawError (''strconv.ParseInt: parsing '' @ s)))
     | VBytes s \<Rightarrow> (case ParseInt s of Some v \<Rightarrow> Inr v | None \<Rightarrow> Inl (RawError (''strconv.ParseInt: parsing '' @ s)))
     | VArray _ \<Rightarrow> Inl (RawError ''unexpected redis eval result type []interface {}'')
     | VOther t \<Rightarrow> Inl (RawError (''unexpected redis eval result type '' @ t)))"

fun toInt64s :: "redis_val list \<Rightarrow> go_error + int list" where
  "toInt64s [] = Inr []"
| "toInt64s (x # xs) = (case toInt64 x of Inl e \<Rightarrow> Inl e
     | Inr v \<Rightarrow> (case toInt64s xs of Inl e \<Rightarrow> Inl e | Inr vs \<Rightarrow> Inr (v # vs)))"

definition toInt64Slice :: "redis_val \<Rightarrow> go_error + int list" where
  "toInt64Slice val = (case val of
       VArray xs \<Rightarrow> toInt64s xs
     | _ \<Rightarrow> Inl (RawError ''unexpected redis eval array type''))"

text \<open>
  A number survives the trip through Redis in each form the client library may deliver it.
\<close>

lemma toInt64_roundtrip:
  assumes "in_i64 v" "val \<in> {VInt64 v, VInt v, VString (show_int v), VBytes (show_int v)}"
  shows "toInt64 val = Inr v"
  using assms by (auto simp: toInt64_def)

lemma toInt64s_map_VInt64 [simp]: "toInt64s (map VInt64 vs) = Inr vs"
  by (induction vs) (auto simp: toInt64_def)

lemma toInt64Slice_ints [simp]: "toInt64Slice (VArray (map VInt64 vs)) = Inr vs"
  by (simp add: toInt64Slice_def)

section \<open>Shared lemmas\<close>

lemma r_set_simps [simp]:
  "ctr (r_set k v r) = (ctr r)(k := Some v)" "hash (r_set k v r) = hash r" "zset (r_set k v r) = zset r"
  "hcount (r_set k v r) = hcount r" "server_time (r_set k v r) = server_time r"
  by (simp_all add: r_set_def)

lemma r_incrby_simps [simp]:
  "ctr (r_incrby k v r) = (ctr r)(k := Some (num_of (ctr r k) + v))" "hash (r_incrby k v r) = hash r"
  "zset (r_incrby k v r) = zset r" "hcount (r_incrby k v r) = hcount r"
  "server_time (r_incrby k v r) = server_time r" "deadline (r_incrby k v r) = deadline r"
  by (simp_all add: r_incrby_def)

lemma r_decrby_simps [simp]:
  "ctr (r_decrby k v r) = (ctr r)(k := Some (num_of (ctr r k) - v))" "hash (r_decrby k v r) = hash r"
  "zset (r_decrby k v r) = zset r" "hcount (r_decrby k v r) = hcount r"
  "server_time (r_decrby k v r) = server_time r" "deadline (r_decrby k v r) = deadline r"
  by (simp_all add: r_decrby_def)

lemma r_hset_simps [simp]:
  "ctr (r_hset k f r) = ctr r" "hash (r_hset k f r) = (hash r)(k := f (hash r k))"
  "zset (r_hset k f r) = zset r" "hcount (r_hset k f r) = hcount r" "server_time (r_hset k f r) = server_time r"
  by (simp_all add: r_hset_def)

lemma r_expire_simps [simp]:
  "ctr (r_expire k v r) = ctr r" "hash (r_expire k v r) = hash r" "zset (r_expire k v r) = zset r"
  "hcount (r_expire k v r) = hcount r" "server_time (r_expire k v r) = server_time r"
  by (simp_all add: r_expire_def)

lemma r_zadd_simps [simp]:
  "ctr (r_zadd k v m r) = ctr r" "hash (r_zadd k v m r) = hash r" "hcount (r_zadd k v m r) = hcount r"
  "zset (r_zadd k v m r) = (zset r)(k := AList.update m v (zset r k))"
  "server_time (r_zadd k v m r) = server_time r"
  by (simp_all add: r_zadd_def)

lemma r_zrem_simps [simp]:
  "ctr (r_zrem k m r) = ctr r" "hash (r_zrem k m r) = hash r" "hcount (r_zrem k m r) = hcount r"
  "zset (r_zrem k m r) = (zset r)(k := AList.delete m (zset r k))"
  "server_time (r_zrem k m r) = server_time r"
  by (simp_all add: r_zrem_def)

lemma r_hdel_simps [simp]:
  "ctr (r_hdel k m r) = ctr r" "hash (r_hdel k m r) = hash r" "zset (r_hdel k m r) = zset r"
  "server_time (r_hdel k m r) = server_time r"
  by (simp_all add: r_hdel_def)

lemma num_of_simps [simp]: "num_of None = 0" "num_of (Some v) = v"
  by (simp_all add: num_of_def)

text \<open>The three families of key names do not overlap.\<close>

lemma reservationKey_inject [simp]: "reservationKey a = reservationKey b \<longleftrightarrow> a = b"
  by (simp add: reservationKey_def)

lemma reservedStockKey_inject [simp]: "reservedStockKey a = reservedStockKey b \<longleftrightarrow> a = b"
  by (simp add: reservedStockKey_def)

lemma key_families_distinct [simp]:
  "StockShardKey p i \<noteq> reservedStockKey p'" "reservedStockKey p' \<noteq> StockShardKey p i"
  "StockShardKey p i \<noteq> reservationKey k" "reservationKey k \<noteq> StockShardKey p i"
  "reservedStockKey p \<noteq> reservationKey k" "reservationKey k \<noteq> reservedStockKey p"
  by (simp_all add: StockShardKey_def reservedStockKey_def reservationKey_def)

end
