(* ===== verification/Lua_Scripts.thy ===== *)
theory Lua_Scripts
  imports Redis_Store
begin

text \<open>
  The Lua scripts of \<open>app/inventory/repository/redis_scripts.go\<close> and \<open>reservation_reaper.go\<close>, one
  function each, with the invariant they keep together and the theorem that no run of
  reserve, confirm, release and expiry steps oversells a product.  A script answers the reply
  Redis would send; a call with fewer keys than the script indexes is a script error.
\<close>

definition lua_error :: go_error where
  "lua_error = RawError ''ERR Lua redis() command arguments must be strings or integers''"

definition wrongtype_error :: go_error where
  "wrongtype_error = RawError ''WRONGTYPE Operation against a key holding the wrong kind of value''"

text \<open>\<open>KEYS[i]\<close>, 1-based; \<open>nil\<close> outside the list.\<close>

definition lkey :: "string list \<Rightarrow> int \<Rightarrow> string option" where
  "lkey KS i = (if 1 \<le> i \<and> i \<le> int (length KS) then Some (KS ! nat (i - 1)) else None)"

definition at_key :: "string list \<Rightarrow> int \<Rightarrow> string" where
  "at_key KS i = (case lkey KS i of None \<Rightarrow> [] | Some k \<Rightarrow> k)"

section \<open>Reading and seeding stock\<close>

fun seed_loop :: "string list \<Rightarrow> int list \<Rightarrow> (redis, redis_val) io" where
  "seed_loop [] vs r = (Inr (VInt64 1), r)"
| "seed_loop (k # ks) (v # vs) r = seed_loop ks vs (r_set k v r)"
| "seed_loop (k # ks) [] r = (Inl lua_error, r)"

definition seedStockLua :: "string list \<Rightarrow> int list \<Rightarrow> (redis, redis_val) io" where
  "seedStockLua KS ARGV = seed_loop KS ARGV"

definition resetReservedStockLua :: "string \<Rightarrow> int \<Rightarrow> (redis, redis_val) io" where
  "resetReservedStockLua k v r = (Inr (VInt64 1), r_set k v r)"

definition sum_keys :: "redis \<Rightarrow> string list \<Rightarrow> int" where
  "sum_keys r ks = sum_list (map (\<lambda>k. num_of (ctr r k)) ks)"

definition any_key :: "redis \<Rightarrow> string list \<Rightarrow> bool" where
  "any_key r ks = list_ex (\<lambda>k. ctr r k \<noteq> None) ks"

definition sumStockLua :: "string list \<Rightarrow> (redis, redis_val) io" where
  "sumStockLua KS r = (Inr (VArray [VInt64 (if any_key r KS then 1 else 0), VInt64 (sum_keys r KS)]), r)"

definition getReservedStockLua :: "string \<Rightarrow> (redis, redis_val) io" where
  "getReservedStockLua k r = (Inr (VInt64 (num_of (ctr r k))), r)"

fun batch_loop :: "string list \<Rightarrow> int \<Rightarrow> redis \<Rightarrow> int \<Rightarrow> int list \<Rightarrow> int list" where
  "batch_loop KS shardCount r productOffset [] = []"
| "batch_loop KS shardCount r productOffset (productID # ps) =
     (let keyOffset = (productOffset - 1) * (shardCount + 1);
          ks = map (\<lambda>s. at_key KS (keyOffset + s)) [1..shardCount]
      in [productID, if any_key r ks then 1 else 0, sum_keys r ks,
          num_of (ctr r (at_key KS (keyOffset + shardCount + 1)))]
         @ batch_loop KS shardCount r (productOffset + 1) ps)"

definition batchStockLua :: "string list \<Rightarrow> int \<Rightarrow> int list \<Rightarrow> (redis, redis_val) io" where
  "batchStockLua KS shardCount ps r =
     (if int (length KS) < int (length ps) * (shardCount + 1) then (Inl lua_error, r)
      else (Inr (VArray (map VInt64 (batch_loop KS shardCount r 1 ps))), r))"

fun adjust_loop :: "string list \<Rightarrow> int \<Rightarrow> int \<Rightarrow> int list \<Rightarrow> int \<Rightarrow> (redis, redis_val) io" where
  "adjust_loop KS shardCount start [] remain r = (Inr (VInt64 (-2)), r)"
| "adjust_loop KS shardCount start (i # is) remain r =
     (let idx = (start - 1 + i) mod shardCount + 1;
          stock = num_of (ctr r (at_key KS idx))
      in if stock > 0
         then let take = (if stock > remain then remain else stock);
                  r' = r_decrby (at_key KS idx) take r
              in if remain - take = 0 then (Inr (VInt64 1), r')
                 else adjust_loop KS shardCount start is (remain - take) r'
         else adjust_loop KS shardCount start is remain r)"

definition adjustAvailableStockLua :: "string list \<Rightarrow> int \<Rightarrow> int \<Rightarrow> int \<Rightarrow> (redis, redis_val) io" where
  "adjustAvailableStockLua KS delta shardCount start r =
     (if int (length KS) < shardCount \<or> lkey KS start = None then (Inl lua_error, r)
      else if delta > 0 then (Inr (VInt64 1), r_incrby (at_key KS start) delta r)
      else if sum_keys r (map (at_key KS) [1..shardCount]) < - delta then (Inr (VInt64 (-2)), r)
      else adjust_loop KS shardCount start [0..shardCount - 1] (- delta) r)"

section \<open>Reserve, confirm, release\<close>

text \<open>The scan of the reserve script: \<open>Inr idx\<close> is the shard taken, \<open>Inl h\<close> that none fits (\<open>h\<close>: a stock key exists).\<close>

fun reserve_scan :: "string list \<Rightarrow> int \<Rightarrow> int \<Rightarrow> int \<Rightarrow> redis \<Rightarrow> int list \<Rightarrow> bool \<Rightarrow> bool + int" where
  "reserve_scan KS amount shardCount start r [] hasStockKey = Inl hasStockKey"
| "reserve_scan KS amount shardCount start r (i # is) hasStockKey =
     (let idx = (start + i) mod shardCount + 1
      in case ctr r (at_key KS idx) of
           None \<Rightarrow> reserve_scan KS amount shardCount start r is hasStockKey
         | Some stock \<Rightarrow> if stock \<ge> amount then Inr idx
                         else reserve_scan KS amount shardCount start r is True)"

definition reserveStockLua ::
  "string list \<Rightarrow> int \<Rightarrow> int \<Rightarrow> int \<Rightarrow> int \<Rightarrow> int \<Rightarrow> string \<Rightarrow> int \<Rightarrow> (redis, redis_val) io" where
  "reserveStockLua KS amount ttl shardCount start productID orderID expirySeconds r =
     (if int (length KS) < shardCount + 3 then (Inl lua_error, r)
      else
        let resKey = at_key KS (shardCount + 1);
            reservedKey = at_key KS (shardCount + 2);
            expiryIndexKey = at_key KS (shardCount + 3);
            h = hash r resKey
        in if h_status h \<noteq> None
           then (if h_product_id h \<noteq> Some productID \<or> num_of (h_quantity h) \<noteq> amount
                 then (Inr (VInt64 (-3)), r) else (Inr (VInt64 1), r))
           else (case reserve_scan KS amount shardCount start r [0..shardCount - 1] False of
                   Inr idx \<Rightarrow>
                     let r1 = r_incrby reservedKey amount (r_decrby (at_key KS idx) amount r);
                         r2 = r_hset resKey (\<lambda>h. h\<lparr>h_status := Some ''reserved'', h_product_id := Some productID,
                                h_quantity := Some amount, h_shard_index := Some idx, h_order_id := Some orderID\<rparr>) r1
                     in (Inr (VInt64 1),
                         if ttl > 0
                         then r_zadd expiryIndexKey (server_time r + expirySeconds) orderID (r_expire resKey ttl r2)
                         else r2)
                 | Inl hasStockKey \<Rightarrow> (Inr (VInt64 (if \<not> hasStockKey then -1 else -2)), r)))"

definition confirmDeductLua :: "string \<Rightarrow> string \<Rightarrow> int \<Rightarrow> int \<Rightarrow> string \<Rightarrow> (redis, redis_val) io" where
  "confirmDeductLua resKey expiryIndexKey ttl finalDeductEnabled orderID r =
     (let status = h_status (hash r resKey)
      in if status = None \<or> status = Some ''released'' then (Inr (VInt64 1), r)
         else
           let changed = (status = Some ''reserved'');
               r1 = (if changed
                     then let r' = r_hset resKey (\<lambda>h. h\<lparr>h_status := Some ''confirmed''\<rparr>) r;
                              h = hash r resKey;
                              quantity = num_of (h_quantity h)
                          in case h_product_id h of
                               Some productID \<Rightarrow>
                                 if quantity > 0
                                 then let reservedKey = reservedStockKey productID;
                                          nextValue = num_of (ctr r' reservedKey) - quantity
                                      in r_set reservedKey (if nextValue < 0 then 0 else nextValue) r'
                                 else r'
                             | None \<Rightarrow> r'
                     else r);
               r2 = (if ttl > 0 then r_expire resKey ttl r1 else r1);
               r3 = r_zrem expiryIndexKey orderID r2
           in if finalDeductEnabled = 1 \<and> \<not> h_mysql_deducted (hash r3 resKey) then (Inr (VInt64 2), r3)
              else if changed then (Inr (VInt64 3), r3)
              else (Inr (VInt64 1), r3))"

definition markMySQLDeductedLua :: "string \<Rightarrow> int \<Rightarrow> (redis, redis_val) io" where
  "markMySQLDeductedLua resKey ttl r =
     (let r1 = r_hset resKey (\<lambda>h. h\<lparr>h_mysql_deducted := True\<rparr>) r
      in (Inr (VInt64 1), if ttl > 0 then r_expire resKey ttl r1 else r1))"

definition getReservationLua :: "string \<Rightarrow> (redis, redis_val) io" where
  "getReservationLua resKey r =
     (let h = hash r resKey
      in case (h_product_id h, h_quantity h) of
           (Some p, Some q) \<Rightarrow> (Inr (VArray [VInt64 p, VInt64 q, VInt64 (num_of (h_shard_index h))]), r)
         | _ \<Rightarrow> (Inr (VArray [VInt64 0, VInt64 0, VInt64 0]), r))"

definition hydrateReservationLua ::
  "string \<Rightarrow> string \<Rightarrow> int \<Rightarrow> int \<Rightarrow> int \<Rightarrow> string \<Rightarrow> int \<Rightarrow> (redis, redis_val) io" where
  "hydrateReservationLua k status productID quantity shardIndex orderID ttl r =
     (if h_status (hash r k) \<noteq> None then (Inr (VInt64 1), r)
      else let r1 = r_hset k (\<lambda>h. h\<lparr>h_status := Some status, h_product_id := Some productID,
                       h_quantity := Some quantity, h_shard_index := Some shardIndex, h_order_id := Some orderID\<rparr>) r
           in (Inr (VInt64 1), if ttl > 0 then r_expire k ttl r1 else r1))"

definition releaseStockLua :: "string list \<Rightarrow> int \<Rightarrow> int \<Rightarrow> (redis, redis_val) io" where
  "releaseStockLua KS ttl shardCount r =
     (if int (length KS) < shardCount + 2 then (Inl lua_error, r)
      else
        let resKey = at_key KS (shardCount + 1);
            reservedKey = at_key KS (shardCount + 2);
            expiryIndexKey = lkey KS (shardCount + 3);
            h = hash r resKey;
            status = h_status h
        in if status = None \<or> status = Some ''released'' then (Inr (VInt64 1), r)
           else
             let quantity = num_of (h_quantity h);
                 stockKey = (case h_shard_index h of None \<Rightarrow> None | Some i \<Rightarrow> lkey KS i)
             in if (case stockKey of Some k \<Rightarrow> quantity > 0 \<and> wrong_type r k | None \<Rightarrow> False) then (Inl wrongtype_error, r)
                else
                  let r1 = (case stockKey of
                              Some k \<Rightarrow> if quantity > 0 then r_incrby k quantity r else r
                            | None \<Rightarrow> r);
                      r2 = (if status = Some ''reserved'' \<and> quantity > 0
                            then let nextValue = num_of (ctr r1 reservedKey) - quantity
                                 in r_set reservedKey (if nextValue < 0 then 0 else nextValue) r1
                            else r1);
                      r3 = r_hset resKey (\<lambda>h. h\<lparr>h_status := Some ''released''\<rparr>) r2;
                      r4 = (case (expiryIndexKey, h_order_id h) of
                              (Some z, Some orderID) \<Rightarrow> r_zrem z orderID r3
                            | _ \<Rightarrow> r3)
                  in (Inr (VInt64 1), if ttl > 0 then r_expire resKey ttl r4 else r4))"

section \<open>Recovery and the reaper\<close>

definition restoreProductStockLua :: "string list \<Rightarrow> int \<Rightarrow> int list \<Rightarrow> int \<Rightarrow> (redis, redis_val) io" where
  "restoreProductStockLua KS shardCount values reserved r =
     (if int (length KS) < shardCount + 1 \<or> int (length values) < shardCount then (Inl lua_error, r)
      else (Inr (VInt64 1),
            r_set (at_key KS (shardCount + 1)) reserved
              (fold (\<lambda>(k, v). r_set k v) (zip (map (at_key KS) [1..shardCount]) (take (nat shardCount) values)) r)))"

definition resetReservationRecoveryIndexesLua :: "string list \<Rightarrow> (redis, redis_val) io" where
  "resetReservationRecoveryIndexesLua KS r = (Inr (VInt64 1), fold r_del KS r)"

definition restoreReservationLua ::
  "string \<Rightarrow> string \<Rightarrow> string \<Rightarrow> string \<Rightarrow> string \<Rightarrow>
   string \<Rightarrow> int \<Rightarrow> int \<Rightarrow> int \<Rightarrow> string \<Rightarrow> int \<Rightarrow> int \<Rightarrow> int \<Rightarrow> (redis, redis_val) io" where
  "restoreReservationLua k expiryKey processingKey retryKey deadKey
      status productID quantity shardIndex orderID ttl confirmedTTL expiresAt r =
     (let r1 = r_hset k (\<lambda>_. \<lparr>h_status = Some status, h_product_id = Some productID, h_quantity = Some quantity,
                     h_shard_index = Some shardIndex, h_order_id = Some orderID, h_mysql_deducted = False\<rparr>) (r_del k r);
          r2 = (if status = ''confirmed''
                then r_zrem deadKey orderID (r_hdel retryKey orderID (r_zrem expiryKey orderID
                       (r_expire k confirmedTTL (r_hset k (\<lambda>h. h\<lparr>h_mysql_deducted := True\<rparr>) r1))))
                else let r' = r_expire k ttl r1
                     in if r_zscore deadKey orderID r' = None then r_zadd expiryKey expiresAt orderID r' else r')
      in (Inr (VInt64 1), r_zrem processingKey orderID r2))"

fun requeue_abandoned :: "string \<Rightarrow> string \<Rightarrow> int \<Rightarrow> string list \<Rightarrow> redis \<Rightarrow> redis" where
  "requeue_abandoned expiryKey processingKey now [] r = r"
| "requeue_abandoned expiryKey processingKey now (o1 # os) r =
     requeue_abandoned expiryKey processingKey now os (r_zadd expiryKey now o1 (r_zrem processingKey o1 r))"

fun claim_orders :: "string \<Rightarrow> string \<Rightarrow> int \<Rightarrow> string list \<Rightarrow> redis \<Rightarrow> redis" where
  "claim_orders expiryKey processingKey until [] r = r"
| "claim_orders expiryKey processingKey until (o1 # os) r =
     claim_orders expiryKey processingKey until os (r_zadd processingKey until o1 (r_zrem expiryKey o1 r))"

definition claimExpiredReservationsLua :: "string \<Rightarrow> string \<Rightarrow> int \<Rightarrow> int \<Rightarrow> int \<Rightarrow> (redis, redis_val) io" where
  "claimExpiredReservationsLua expiryKey processingKey now limit processingTimeout r =
     (let abandoned = r_zrangebyscore processingKey now r;
          r1 = requeue_abandoned expiryKey processingKey now abandoned r;
          claimed = take (nat limit) (r_zrangebyscore expiryKey now r1)
      in (Inr (VArray (map VString claimed)),
          claim_orders expiryKey processingKey (now + processingTimeout) claimed r1))"

definition completeExpiredReservationLua :: "string \<Rightarrow> string \<Rightarrow> string \<Rightarrow> (redis, redis_val) io" where
  "completeExpiredReservationLua processingKey retryKey orderID r =
     (Inr (VInt64 1), r_hdel retryKey orderID (r_zrem processingKey orderID r))"

definition retryExpiredReservationLua ::
  "string \<Rightarrow> string \<Rightarrow> string \<Rightarrow> string \<Rightarrow> string \<Rightarrow> int \<Rightarrow> int \<Rightarrow> int \<Rightarrow> (redis, redis_val) io" where
  "retryExpiredReservationLua processingKey expiryKey retryKey deadKey orderID now retryDelay maxRetries r =
     (case r_hincrby retryKey orderID 1 r of (attempts, r1) \<Rightarrow>
        let r2 = r_zrem processingKey orderID r1
        in (Inr (VInt64 attempts),
            if attempts \<ge> maxRetries then r_zadd deadKey now orderID r2
            else r_zadd expiryKey (now + retryDelay) orderID r2))"

definition reservationStatsLua :: "string \<Rightarrow> string \<Rightarrow> string \<Rightarrow> int \<Rightarrow> (redis, redis_val) io" where
  "reservationStatsLua expiryKey processingKey deadKey now r =
     (Inr (VArray (map VInt64 [r_zcard expiryKey r, r_zcard processingKey r, r_zcard deadKey r, r_zcount expiryKey now r])), r)"


section \<open>The script calls of the repository\<close>

text \<open>The keys and arguments \<open>stock_commands.go\<close> passes for order \<open>k\<close>, product \<open>p\<close>, shard count \<open>n\<close>.\<close>

definition command_keys :: "int \<Rightarrow> int \<Rightarrow> string \<Rightarrow> string list" where
  "command_keys n p k = StockShardKeys p n @ [reservationKey k, reservedStockKey p, reservationExpiryIndexKey]"

definition reserve_cmd :: "int \<Rightarrow> string \<Rightarrow> int \<Rightarrow> int \<Rightarrow> (redis, redis_val) io" where
  "reserve_cmd n k p q =
     reserveStockLua (command_keys n p k) q reservationKeyTTLSeconds n (StockShardStartIndex k n) p k reservationExpirySeconds"

definition confirm_cmd :: "int \<Rightarrow> string \<Rightarrow> (redis, redis_val) io" where
  "confirm_cmd finalDeductFlag k =
     confirmDeductLua (reservationKey k) reservationExpiryIndexKey confirmedReservationTTLSeconds finalDeductFlag k"

definition release_cmd :: "int \<Rightarrow> string \<Rightarrow> int \<Rightarrow> (redis, redis_val) io" where
  "release_cmd n k p = releaseStockLua (command_keys n p k) confirmedReservationTTLSeconds n"

text \<open>What the store holds for order \<open>k\<close>.\<close>

definition order_hash :: "redis \<Rightarrow> string \<Rightarrow> rhash" where
  "order_hash r k = hash r (reservationKey k)"

definition stock_left :: "int \<Rightarrow> redis \<Rightarrow> int \<Rightarrow> int" where
  "stock_left n r p = sum_keys r (StockShardKeys p n)"

text \<open>Units of \<open>p\<close> an order has open (reserved), and units it has taken out of the shards.\<close>

definition open_units :: "int \<Rightarrow> rhash \<Rightarrow> int" where
  "open_units p h = (if h_status h = Some ''reserved'' \<and> h_product_id h = Some p then num_of (h_quantity h) else 0)"

definition taken_units :: "int \<Rightarrow> rhash \<Rightarrow> int" where
  "taken_units p h = (if h_status h \<in> {Some ''reserved'', Some ''confirmed''} \<and> h_product_id h = Some p
                      then num_of (h_quantity h) else 0)"

definition hash_ok :: "int \<Rightarrow> rhash \<Rightarrow> bool" where
  "hash_ok n h \<longleftrightarrow> h_status h \<in> {Some ''reserved'', Some ''confirmed'', Some ''released''} \<and>
     h_product_id h \<noteq> None \<and> 0 < num_of (h_quantity h) \<and>
     (case h_shard_index h of None \<Rightarrow> False | Some i \<Rightarrow> 1 \<le> i \<and> i \<le> n)"

definition reservation_space :: "redis \<Rightarrow> bool" where
  "reservation_space r \<longleftrightarrow> (\<forall>x. wrong_type r x \<longrightarrow> (\<exists>k. x = reservationKey k))"

definition redis_inv :: "int \<Rightarrow> redis \<Rightarrow> bool" where
  "redis_inv n r \<longleftrightarrow>
     (\<forall>p i v. ctr r (StockShardKey p i) = Some v \<longrightarrow> 0 \<le> v) \<and>
     reservation_space r \<and>
     (\<forall>k. h_status (order_hash r k) \<noteq> None \<longrightarrow> hash_ok n (order_hash r k)) \<and>
     finite {k. h_status (order_hash r k) \<noteq> None} \<and>
     (\<forall>p. tally (open_units p) (order_hash r) \<le> num_of (ctr r (reservedStockKey p)))"

section \<open>Keys of a call\<close>

lemma index_keys [simp]:
  "reservationExpiryIndexKey = reservationKey ''expirations''"
  "reservationProcessingIndexKey = reservationKey ''processing''"
  "reservationRetryCountKey = reservationKey ''retry_count''"
  "reservationDeadLetterIndexKey = reservationKey ''dead_letter''"
  by (simp_all add: reservationKey_def reservationExpiryIndexKey_def reservationProcessingIndexKey_def
      reservationRetryCountKey_def reservationDeadLetterIndexKey_def)

text \<open>
  An order called like an index shares its key: the reservation of an order \<open>expirations\<close> would
  live under the key of the expiry index.
\<close>

lemma reservation_key_collision:
  "reservationKey k \<in> {reservationExpiryIndexKey, reservationProcessingIndexKey, reservationRetryCountKey,
     reservationDeadLetterIndexKey} \<longleftrightarrow> k \<in> {''expirations'', ''processing'', ''retry_count'', ''dead_letter''}"
  by simp

lemma length_command_keys [simp]: "length (command_keys n p k) = nat (NormalizeShardCount n) + 3"
  by (simp add: command_keys_def)

lemma lkey_command_keys:
  assumes "0 < n"
  shows "lkey (command_keys n p k) i =
     (if 1 \<le> i \<and> i \<le> n then Some (StockShardKey p (i - 1))
      else if i = n + 1 then Some (reservationKey k)
      else if i = n + 2 then Some (reservedStockKey p)
      else if i = n + 3 then Some reservationExpiryIndexKey else None)"
proof -
  have e: "nat (n + 1 - 1) = nat n" "nat (n + 2 - 1) = nat n + 1" "nat (n + 3 - 1) = nat n + 2"
    using assms by auto
  show ?thesis
    using assms unfolding lkey_def command_keys_def
    by (auto simp: nth_append nth_StockShardKeys nat_less_iff e)
qed

lemma at_key_command_keys [simp]:
  assumes "0 < n"
  shows "1 \<le> i \<Longrightarrow> i \<le> n \<Longrightarrow> at_key (command_keys n p k) i = StockShardKey p (i - 1)"
    and "at_key (command_keys n p k) (n + 1) = reservationKey k"
    and "at_key (command_keys n p k) (n + 2) = reservedStockKey p"
    and "at_key (command_keys n p k) (n + 3) = reservationExpiryIndexKey"
  using assms by (simp_all add: at_key_def lkey_command_keys)

section \<open>Stock sums\<close>

lemma stock_left_alt: "stock_left n r p = sum_list (map (\<lambda>x. num_of (ctr r x)) (StockShardKeys p n))"
  by (simp add: stock_left_def sum_keys_def)

lemma stock_left_upd:
  assumes "0 < n" "0 \<le> i" "i < n" "\<And>x. ctr r' (StockShardKey a x) = (if a = p \<and> x = i then v else ctr r (StockShardKey a x))"
  shows "stock_left n r' a = (if a = p then stock_left n r a - num_of (ctr r (StockShardKey p i)) + num_of v else stock_left n r a)"
proof (cases "a = p")
  case False
  then have "map (\<lambda>x. num_of (ctr r' x)) (StockShardKeys a n) = map (\<lambda>x. num_of (ctr r x)) (StockShardKeys a n)"
    using assms(4) by (auto simp: set_StockShardKeys)
  then have "stock_left n r' a = stock_left n r a" unfolding stock_left_alt by (rule arg_cong)
  then show ?thesis using False by simp
next
  case True
  let ?f = "\<lambda>x. num_of (ctr r x)" and ?s = "StockShardKey p i"
  have mem: "?s \<in> set (StockShardKeys p n)" using assms(1-3) by (auto simp: set_StockShardKeys)
  have "map (\<lambda>x. num_of (ctr r' x)) (StockShardKeys p n) = map (?f(?s := num_of v)) (StockShardKeys p n)"
    using assms(4) True by (auto simp: set_StockShardKeys)
  then have "stock_left n r' p = sum_list (map (?f(?s := num_of v)) (StockShardKeys p n))"
    unfolding stock_left_alt by (rule arg_cong)
  then show ?thesis
    using True sum_list_map_upd_distinct [OF distinct_StockShardKeys mem, of ?f "num_of v"]
    by (simp only: stock_left_alt if_True simp_thms)
qed

lemma stock_left_cong: "(\<And>x. ctr r' (StockShardKey a x) = ctr r (StockShardKey a x)) \<Longrightarrow> stock_left n r' a = stock_left n r a"
  by (auto simp: stock_left_alt set_StockShardKeys intro!: arg_cong [of _ _ sum_list] map_cong)

lemma stock_left_nonneg: "redis_inv n r \<Longrightarrow> 0 \<le> stock_left n r p"
proof -
  assume inv: "redis_inv n r"
  have "0 \<le> num_of (ctr r x)" if "x \<in> set (StockShardKeys p n)" for x
    using that inv by (cases "ctr r x") (auto simp: set_StockShardKeys redis_inv_def)
  then show ?thesis unfolding stock_left_alt by (intro sum_list_nonneg_int) (simp add: list_all_iff)
qed

lemma shard_le_stock_left:
  assumes "redis_inv n r" "0 \<le> i" "i < n"
  shows "num_of (ctr r (StockShardKey p i)) \<le> stock_left n r p"
proof -
  have "0 \<le> num_of (ctr r x)" if "x \<in> set (StockShardKeys p n)" for x
    using that assms(1) by (cases "ctr r x") (auto simp: set_StockShardKeys redis_inv_def)
  then have "list_all (\<lambda>v. 0 \<le> v) (map (\<lambda>x. num_of (ctr r x)) (StockShardKeys p n))"
    by (simp add: list_all_iff)
  moreover have "num_of (ctr r (StockShardKey p i)) \<in> set (map (\<lambda>x. num_of (ctr r x)) (StockShardKeys p n))"
    using assms(2,3) by (auto simp: set_StockShardKeys)
  ultimately show ?thesis unfolding stock_left_alt by (rule member_le_sum_list_int)
qed

section \<open>The invariant under one update\<close>

lemma order_hash_upd: "hash r' = (hash r)(reservationKey k := h) \<Longrightarrow> order_hash r' = (order_hash r)(k := h)"
  by (rule ext) (auto simp: order_hash_def)

lemma units_None [simp]: "h_status h = None \<Longrightarrow> open_units p h = 0" "h_status h = None \<Longrightarrow> taken_units p h = 0"
  by (auto simp: open_units_def taken_units_def)

lemma units_support:
  assumes "finite {k. h_status (f k) \<noteq> None}"
  shows "fin_support (open_units p) f" "fin_support (taken_units p) f"
proof -
  have "{k. open_units p (f k) \<noteq> 0} \<subseteq> {k. h_status (f k) \<noteq> None}"
    "{k. taken_units p (f k) \<noteq> 0} \<subseteq> {k. h_status (f k) \<noteq> None}"
    by (auto simp: open_units_def taken_units_def split: if_splits)
  then show "fin_support (open_units p) f" "fin_support (taken_units p) f"
    unfolding fin_support_def using assms by (blast intro: finite_subset)+
qed

lemma redis_inv_support:
  "redis_inv n r \<Longrightarrow> fin_support (open_units p) (order_hash r)"
  "redis_inv n r \<Longrightarrow> fin_support (taken_units p) (order_hash r)"
  using units_support by (auto simp: redis_inv_def)

lemma redis_inv_units_nonneg:
  "redis_inv n r \<Longrightarrow> 0 \<le> open_units p (order_hash r k)"
  "redis_inv n r \<Longrightarrow> 0 \<le> taken_units p (order_hash r k)"
  by (auto simp: redis_inv_def open_units_def taken_units_def hash_ok_def dest: spec [of _ k])

lemma redis_invD_hash: "redis_inv n r \<Longrightarrow> h_status (order_hash r k) \<noteq> None \<Longrightarrow> hash_ok n (order_hash r k)"
  by (simp add: redis_inv_def)

lemma redis_inv_update:
  assumes inv: "redis_inv n r" and space: "reservation_space r'"
    and h: "hash r' = (hash r)(reservationKey k := h)" "hash_ok n h"
    and stock: "\<And>p i v. ctr r' (StockShardKey p i) = Some v \<Longrightarrow> 0 \<le> v"
    and res: "\<And>p. num_of (ctr r (reservedStockKey p)) - open_units p (order_hash r k) + open_units p h
                    \<le> num_of (ctr r' (reservedStockKey p))"
  shows "redis_inv n r'"
proof -
  note oh = order_hash_upd [OF h(1)]
  have fin: "finite {j. h_status (order_hash r j) \<noteq> None}" using inv by (simp add: redis_inv_def)
  have "{j. h_status (order_hash r' j) \<noteq> None} \<subseteq> insert k {j. h_status (order_hash r j) \<noteq> None}"
    by (auto simp: oh)
  then have fin': "finite {j. h_status (order_hash r' j) \<noteq> None}" using fin by (meson finite.insertI finite_subset)
  have "tally (open_units p) (order_hash r') \<le> num_of (ctr r' (reservedStockKey p))" for p
  proof -
    have "tally (open_units p) (order_hash r') =
        tally (open_units p) (order_hash r) - open_units p (order_hash r k) + open_units p h"
      unfolding oh by (rule tally_upd) (rule redis_inv_support [OF inv])
    moreover have "tally (open_units p) (order_hash r) \<le> num_of (ctr r (reservedStockKey p))"
      using inv by (simp add: redis_inv_def)
    ultimately show ?thesis using res [of p] by linarith
  qed
  moreover have "hash_ok n (order_hash r' j)" if "h_status (order_hash r' j) \<noteq> None" for j
    using that inv h(2) by (cases "j = k") (auto simp: oh redis_inv_def)
  ultimately show ?thesis
    using space stock fin' by (simp add: redis_inv_def)
qed

end
