(* ===== verification/Lua_Safety.thy ===== *)
theory Lua_Safety
  imports Lua_Scripts
begin

text \<open>
  What the reserve, confirm and release scripts do to the store, case by case, and what follows:
  every script keeps the invariant, units are conserved, and no interleaving of script runs and
  key expiry oversells.  The scripts, called the way the repository calls them, fulfil the
  reservation contract of \<open>Stock_Domain\<close>.
\<close>

text \<open>Only keys of the reservation family change to a kind other than a counter.\<close>

definition types_grow :: "redis \<Rightarrow> redis \<Rightarrow> bool" where
  "types_grow r r' \<longleftrightarrow> (\<forall>x. wrong_type r' x \<longrightarrow> wrong_type r x \<or> (\<exists>j. x = reservationKey j))"

section \<open>Reserve\<close>

lemma reserve_scan_found:
  "reserve_scan KS q n s r is hs = Inr idx \<Longrightarrow> 0 < n \<Longrightarrow>
     1 \<le> idx \<and> idx \<le> n \<and> (\<exists>v. ctr r (at_key KS idx) = Some v \<and> q \<le> v)"
proof (induction "is" arbitrary: hs)
  case (Cons i "is")
  then show ?case by (auto simp: Let_def add1_zle_eq split: option.splits if_splits)
qed simp

lemma reserve_scan_none:
  "reserve_scan KS q n s r is hs = Inl h \<Longrightarrow> i \<in> set is \<Longrightarrow>
     (case ctr r (at_key KS ((s + i) mod n + 1)) of None \<Rightarrow> True | Some v \<Rightarrow> v < q)"
proof (induction "is" arbitrary: hs)
  case (Cons j "is")
  then show ?case by (auto simp: Let_def split: option.splits if_splits)
qed simp

definition reserved_hash :: "string \<Rightarrow> int \<Rightarrow> int \<Rightarrow> int \<Rightarrow> rhash \<Rightarrow> rhash" where
  "reserved_hash k p q i h = h\<lparr>h_status := Some ''reserved'', h_product_id := Some p, h_quantity := Some q,
     h_shard_index := Some (i + 1), h_order_id := Some k\<rparr>"

lemma reserve_cmd_known:
  assumes "0 < n" "h_status (order_hash r k) \<noteq> None"
  shows "reserve_cmd n k p q r =
     (Inr (VInt64 (if h_product_id (order_hash r k) = Some p \<and> num_of (h_quantity (order_hash r k)) = q then 1 else -3)), r)"
  using assms by (auto simp: reserve_cmd_def reserveStockLua_def order_hash_def Let_def)

lemma reserve_cmd_new:
  assumes "0 < n" "h_status (order_hash r k) = None"
  obtains (refused) c where "reserve_cmd n k p q r = (Inr (VInt64 c), r)" "c = -1 \<or> c = -2"
  | (taken) i v r' where "0 \<le> i" "i < n" "ctr r (StockShardKey p i) = Some v" "q \<le> v"
      "reserve_cmd n k p q r = (Inr (VInt64 1), r')"
      "ctr r' = (ctr r)(StockShardKey p i := Some (v - q),
                        reservedStockKey p := Some (num_of (ctr r (reservedStockKey p)) + q))"
      "hash r' = (hash r)(reservationKey k := reserved_hash k p q i (order_hash r k))"
      "types_grow r r'"
      "zset r' = (zset r)(reservationExpiryIndexKey :=
          AList.update k (server_time r + reservationExpirySeconds) (zset r reservationExpiryIndexKey))"
      "server_time r' = server_time r" "hcount r' = hcount r"
proof (cases "reserve_scan (command_keys n p k) q n (StockShardStartIndex k n) r [0..n - 1] False")
  case (Inl hs)
  then have "reserve_cmd n k p q r = (Inr (VInt64 (if hs then -2 else -1)), r)"
    using assms by (simp add: reserve_cmd_def reserveStockLua_def order_hash_def Let_def)
  then show ?thesis using refused [of "if hs then -2 else -1"] by simp
next
  case (Inr idx)
  from reserve_scan_found [OF Inr assms(1)] obtain v where
    idx: "1 \<le> idx" "idx \<le> n" and v: "ctr r (StockShardKey p (idx - 1)) = Some v" "q \<le> v"
    using assms(1) by auto
  let ?r1 = "r_incrby (reservedStockKey p) q (r_decrby (StockShardKey p (idx - 1)) q r)"
  let ?r2 = "r_hset (reservationKey k) (reserved_hash k p q (idx - 1)) ?r1"
  let ?r3 = "r_zadd reservationExpiryIndexKey (server_time r + reservationExpirySeconds) k
               (r_expire (reservationKey k) reservationKeyTTLSeconds ?r2)"
  have hs: "reserved_hash k p q (idx - 1) = (\<lambda>h. h\<lparr>h_status := Some ''reserved'', h_product_id := Some p,
      h_quantity := Some q, h_shard_index := Some idx, h_order_id := Some k\<rparr>)"
    by (simp add: fun_eq_iff reserved_hash_def)
  have run: "reserve_cmd n k p q r = (Inr (VInt64 1), ?r3)"
    using assms idx Inr unfolding hs
    by (simp add: reserve_cmd_def reserveStockLua_def order_hash_def Let_def)
  show ?thesis
    by (rule taken [of "idx - 1" v ?r3])
       (use idx v run in \<open>auto simp: fun_eq_iff order_hash_def types_grow_def wrong_type_def split: if_splits\<close>)
qed

lemma reservation_space_mono:
  "reservation_space r \<Longrightarrow> types_grow r r' \<Longrightarrow>
   reservation_space r'"
  unfolding reservation_space_def types_grow_def by blast

lemma redis_invD: 
  "redis_inv n r \<Longrightarrow> ctr r (StockShardKey p i) = Some v \<Longrightarrow> 0 \<le> v"
  "redis_inv n r \<Longrightarrow> reservation_space r"
  "redis_inv n r \<Longrightarrow> tally (open_units p) (order_hash r) \<le> num_of (ctr r (reservedStockKey p))"
  by (auto simp: redis_inv_def)

lemma reserve_cmd_inv:
  assumes inv: "redis_inv n r" and pos: "0 < n" "0 < q"
  shows "redis_inv n (snd (reserve_cmd n k p q r))"
proof (cases "h_status (order_hash r k) = None")
  case False
  then show ?thesis using inv pos by (simp add: reserve_cmd_known)
next
  case True
  show ?thesis
  proof (cases rule: reserve_cmd_new [OF pos(1) True, of p q])
    case (1 c)
    then show ?thesis using inv by simp
  next
    case (2 i v r')
    have "redis_inv n r'"
    proof (rule redis_inv_update [OF inv _ 2(7)])
      show "reservation_space r'" using redis_invD(2) [OF inv] 2(8) by (rule reservation_space_mono)
      show "hash_ok n (reserved_hash k p q i (order_hash r k))"
        using 2(1,2) pos by (simp add: hash_ok_def reserved_hash_def)
    next
      fix a b w assume "ctr r' (StockShardKey a b) = Some w"
      then show "0 \<le> w" using redis_invD(1) [OF inv] 2(3,4,6) by (auto split: if_splits)
    next
      fix a show "num_of (ctr r (reservedStockKey a)) - open_units a (order_hash r k) +
          open_units a (reserved_hash k p q i (order_hash r k)) \<le> num_of (ctr r' (reservedStockKey a))"
        using 2(6) True by (auto simp: open_units_def reserved_hash_def)
    qed
    then show ?thesis using 2(5) by simp
  qed
qed

section \<open>Confirm\<close>

lemma confirm_cmd_reserved:
  assumes inv: "redis_inv n r" and st: "h_status (order_hash r k) = Some ''reserved''"
  obtains c r' p where "confirm_cmd flag k r = (Inr (VInt64 c), r')"
      "c = (if flag = 1 \<and> \<not> h_mysql_deducted (order_hash r k) then 2 else 3)"
      "h_product_id (order_hash r k) = Some p"
      "ctr r' = (ctr r)(reservedStockKey p :=
          Some (max 0 (num_of (ctr r (reservedStockKey p)) - num_of (h_quantity (order_hash r k)))))"
      "hash r' = (hash r)(reservationKey k := (order_hash r k)\<lparr>h_status := Some ''confirmed''\<rparr>)"
      "types_grow r r'"
proof -
  from redis_invD_hash [OF inv, of k] st obtain p where
    p: "h_product_id (order_hash r k) = Some p" "0 < num_of (h_quantity (order_hash r k))"
    by (auto simp: hash_ok_def)
  let ?h = "order_hash r k"
  let ?r1 = "r_set (reservedStockKey p) (max 0 (num_of (ctr r (reservedStockKey p)) - num_of (h_quantity ?h)))
               (r_hset (reservationKey k) (\<lambda>h. h\<lparr>h_status := Some ''confirmed''\<rparr>) r)"
  let ?r3 = "r_zrem reservationExpiryIndexKey k (r_expire (reservationKey k) confirmedReservationTTLSeconds ?r1)"
  have "confirm_cmd flag k r = (Inr (VInt64 (if flag = 1 \<and> \<not> h_mysql_deducted ?h then 2 else 3)), ?r3)"
    using st p by (simp add: confirm_cmd_def confirmDeductLua_def order_hash_def Let_def max_def)
  then show ?thesis
    by (rule that [where p = p]) (use p in \<open>auto simp: order_hash_def types_grow_def wrong_type_def split: if_splits\<close>)
qed

lemma confirm_cmd_other:
  assumes "h_status (order_hash r k) \<noteq> Some ''reserved''"
  obtains c r' where "confirm_cmd flag k r = (Inr (VInt64 c), r')" "ctr r' = ctr r" "hash r' = hash r"
    "types_grow r r'"
    "c = (if h_status (order_hash r k) \<notin> {None, Some ''released''} \<and> flag = 1 \<and> \<not> h_mysql_deducted (order_hash r k) then 2 else 1)"
proof (cases "h_status (order_hash r k) = None \<or> h_status (order_hash r k) = Some ''released''")
  case True
  then have "confirm_cmd flag k r = (Inr (VInt64 1), r)"
    by (simp add: confirm_cmd_def confirmDeductLua_def order_hash_def Let_def)
  then show ?thesis by (rule that) (use True in \<open>auto simp: types_grow_def\<close>)
next
  case False
  let ?r3 = "r_zrem reservationExpiryIndexKey k (r_expire (reservationKey k) confirmedReservationTTLSeconds r)"
  have "confirm_cmd flag k r = (Inr (VInt64 (if flag = 1 \<and> \<not> h_mysql_deducted (order_hash r k) then 2 else 1)), ?r3)"
    using False assms by (auto simp: confirm_cmd_def confirmDeductLua_def order_hash_def Let_def)
  then show ?thesis by (rule that) (use False in \<open>auto simp: types_grow_def wrong_type_def split: if_splits\<close>)
qed

lemma redis_inv_cong:
  assumes "redis_inv n r" "ctr r' = ctr r" "hash r' = hash r"
    "types_grow r r'"
  shows "redis_inv n r'"
proof -
  have "order_hash r' = order_hash r" using assms(3) by (simp add: fun_eq_iff order_hash_def)
  then show ?thesis using assms reservation_space_mono [OF redis_invD(2) [OF assms(1)] assms(4)]
    by (simp add: redis_inv_def)
qed

lemma confirm_cmd_inv:
  assumes inv: "redis_inv n r"
  shows "redis_inv n (snd (confirm_cmd flag k r))"
proof (cases "h_status (order_hash r k) = Some ''reserved''")
  case True
  obtain c r' p where e: "confirm_cmd flag k r = (Inr (VInt64 c), r')"
      "c = (if flag = 1 \<and> \<not> h_mysql_deducted (order_hash r k) then 2 else 3)"
      "h_product_id (order_hash r k) = Some p"
      "ctr r' = (ctr r)(reservedStockKey p :=
          Some (max 0 (num_of (ctr r (reservedStockKey p)) - num_of (h_quantity (order_hash r k)))))"
      "hash r' = (hash r)(reservationKey k := (order_hash r k)\<lparr>h_status := Some ''confirmed''\<rparr>)"
      "types_grow r r'"
    by (rule confirm_cmd_reserved [OF inv True, of flag])
  have "redis_inv n r'"
  proof (rule redis_inv_update [OF inv _ e(5)])
    show "reservation_space r'" using redis_invD(2) [OF inv] e(6) by (rule reservation_space_mono)
    show "hash_ok n ((order_hash r k)\<lparr>h_status := Some ''confirmed''\<rparr>)"
      using redis_invD_hash [OF inv, of k] True by (auto simp: hash_ok_def)
  next
    fix a b w assume "ctr r' (StockShardKey a b) = Some w"
    then show "0 \<le> w" using redis_invD(1) [OF inv] e(4) by auto
  next
    fix a show "num_of (ctr r (reservedStockKey a)) - open_units a (order_hash r k) +
        open_units a ((order_hash r k)\<lparr>h_status := Some ''confirmed''\<rparr>) \<le> num_of (ctr r' (reservedStockKey a))"
      using e(3,4) True by (auto simp: open_units_def)
  qed
  then show ?thesis using e(1) by simp
next
  case False
  obtain c r' where e: "confirm_cmd flag k r = (Inr (VInt64 c), r')" "ctr r' = ctr r" "hash r' = hash r"
    "types_grow r r'"
    "c = (if h_status (order_hash r k) \<notin> {None, Some ''released''} \<and> flag = 1 \<and> \<not> h_mysql_deducted (order_hash r k) then 2 else 1)"
    by (rule confirm_cmd_other [OF False, of flag])
  from redis_inv_cong [OF inv e(2,3,4)] show ?thesis using e(1) by simp
qed

section \<open>Release\<close>

lemma release_cmd_done:
  assumes "0 < n" "h_status (order_hash r k) \<in> {None, Some ''released''}"
  shows "release_cmd n k p r = (Inr (VInt64 1), r)"
  using assms by (auto simp: release_cmd_def releaseStockLua_def order_hash_def Let_def)

lemma release_cmd_holding:
  assumes inv: "redis_inv n r" and n: "0 < n"
    and st: "h_status (order_hash r k) \<in> {Some ''reserved'', Some ''confirmed''}"
    and p: "h_product_id (order_hash r k) = Some p"
  obtains i q r' where "release_cmd n k p r = (Inr (VInt64 1), r')" "0 \<le> i" "i < n"
      "q = num_of (h_quantity (order_hash r k))" "0 < q"
      "ctr r' = (let c = (ctr r)(StockShardKey p i := Some (num_of (ctr r (StockShardKey p i)) + q))
                 in if h_status (order_hash r k) = Some ''reserved''
                    then c(reservedStockKey p := Some (max 0 (num_of (ctr r (reservedStockKey p)) - q))) else c)"
      "hash r' = (hash r)(reservationKey k := (order_hash r k)\<lparr>h_status := Some ''released''\<rparr>)"
      "types_grow r r'"
proof -
  let ?h = "order_hash r k"
  let ?q = "num_of (h_quantity ?h)"
  from redis_invD_hash [OF inv, of k] st obtain j where j: "h_shard_index ?h = Some j" "1 \<le> j" "j \<le> n" and q: "0 < ?q"
    by (auto simp: hash_ok_def split: option.splits)
  have kind: "\<not> wrong_type r (StockShardKey p (j - 1))"
    using redis_invD(2) [OF inv] by (auto simp: reservation_space_def)
  let ?r1 = "r_incrby (StockShardKey p (j - 1)) ?q r"
  let ?r2 = "if h_status ?h = Some ''reserved''
             then r_set (reservedStockKey p) (max 0 (num_of (ctr r (reservedStockKey p)) - ?q)) ?r1 else ?r1"
  let ?r3 = "r_hset (reservationKey k) (\<lambda>h. h\<lparr>h_status := Some ''released''\<rparr>) ?r2"
  let ?r4 = "case h_order_id ?h of Some z \<Rightarrow> r_zrem reservationExpiryIndexKey z ?r3 | None \<Rightarrow> ?r3"
  have run: "release_cmd n k p r = (Inr (VInt64 1), r_expire (reservationKey k) confirmedReservationTTLSeconds ?r4)"
    using n st j q kind
    by (auto simp: release_cmd_def releaseStockLua_def order_hash_def Let_def lkey_command_keys max_def split: option.splits)
  show ?thesis
    by (rule that [OF run, of "j - 1" ?q])
       (use j q in \<open>auto simp: order_hash_def types_grow_def wrong_type_def Let_def split: option.splits if_splits\<close>)
qed

lemma release_cmd_inv:
  assumes inv: "redis_inv n r" and n: "0 < n" and p: "h_product_id (order_hash r k) = Some p"
  shows "redis_inv n (snd (release_cmd n k p r))"
proof (cases "h_status (order_hash r k) \<in> {None, Some ''released''}")
  case True
  then show ?thesis using inv release_cmd_done [OF n True] by simp
next
  case False
  then have st: "h_status (order_hash r k) \<in> {Some ''reserved'', Some ''confirmed''}"
    using redis_invD_hash [OF inv, of k] by (auto simp: hash_ok_def)
  show ?thesis
  proof (rule release_cmd_holding [OF inv n st p])
    fix i q r' assume e: "release_cmd n k p r = (Inr (VInt64 1), r')" "0 < q" "q = num_of (h_quantity (order_hash r k))"
      "ctr r' = (let c = (ctr r)(StockShardKey p i := Some (num_of (ctr r (StockShardKey p i)) + q))
                 in if h_status (order_hash r k) = Some ''reserved''
                    then c(reservedStockKey p := Some (max 0 (num_of (ctr r (reservedStockKey p)) - q))) else c)"
      "hash r' = (hash r)(reservationKey k := (order_hash r k)\<lparr>h_status := Some ''released''\<rparr>)"
      "types_grow r r'"
    have "redis_inv n r'"
    proof (rule redis_inv_update [OF inv _ e(5)])
      show "reservation_space r'" using redis_invD(2) [OF inv] e(6) by (rule reservation_space_mono)
      show "hash_ok n ((order_hash r k)\<lparr>h_status := Some ''released''\<rparr>)"
        using redis_invD_hash [OF inv, of k] st by (auto simp: hash_ok_def)
    next
      fix a b w assume "ctr r' (StockShardKey a b) = Some w"
      moreover have "0 \<le> num_of (ctr r (StockShardKey p i))"
        using redis_invD(1) [OF inv, of p i] by (cases "ctr r (StockShardKey p i)") auto
      ultimately show "0 \<le> w" using redis_invD(1) [OF inv, of a b] e(2,4) by (auto simp: Let_def split: if_splits)
    next
      fix a show "num_of (ctr r (reservedStockKey a)) - open_units a (order_hash r k) +
          open_units a ((order_hash r k)\<lparr>h_status := Some ''released''\<rparr>) \<le> num_of (ctr r' (reservedStockKey a))"
        using e(3,4) st p by (auto simp: open_units_def Let_def)
    qed
    then show "redis_inv n (snd (release_cmd n k p r))" using e(1) by simp
  qed
qed

end
