(* ===== verification/No_Oversell.thy ===== *)
theory No_Oversell
  imports Lua_Safety
begin

text \<open>
  Interleavings of the reservation scripts.  A run is any sequence of reserve, confirm, mark,
  release and reaper scripts of any orders, with time passing and keys expiring in between, each
  script atomic as Redis runs it.  The events of a run record which order took or gave back how
  many units.  The scripts also fulfil the contract \<open>reservation_store\<close>.
\<close>

section \<open>Runs of scripts\<close>

datatype stock_event = Took string int int | Returned string int int

fun ev_units :: "int \<Rightarrow> stock_event \<Rightarrow> int" where
  "ev_units p (Took k p' q) = (if p' = p then q else 0)"
| "ev_units p (Returned k p' q) = (if p' = p then - q else 0)"

fun ev_order_units :: "string \<Rightarrow> int \<Rightarrow> stock_event \<Rightarrow> int" where
  "ev_order_units j p (Took k p' q) = (if k = j \<and> p' = p then q else 0)"
| "ev_order_units j p (Returned k p' q) = (if k = j \<and> p' = p then - q else 0)"

definition net_units :: "int \<Rightarrow> stock_event list \<Rightarrow> int" where
  "net_units p tr = sum_list (map (ev_units p) tr)"

definition net_order_units :: "string \<Rightarrow> int \<Rightarrow> stock_event list \<Rightarrow> int" where
  "net_order_units k p tr = sum_list (map (ev_order_units k p) tr)"

text \<open>The release the repository runs: with the product the reservation names.\<close>

definition script_release :: "int \<Rightarrow> string \<Rightarrow> redis \<Rightarrow> redis" where
  "script_release n k r = (case h_product_id (order_hash r k) of
       None \<Rightarrow> r
     | Some p \<Rightarrow> snd (release_cmd n k p r))"

definition holding :: "redis \<Rightarrow> string \<Rightarrow> bool" where
  "holding r k \<longleftrightarrow> h_status (order_hash r k) = Some ''reserved'' \<or> h_status (order_hash r k) = Some ''confirmed''"

inductive script_step :: "int \<Rightarrow> redis \<Rightarrow> stock_event list \<Rightarrow> redis \<Rightarrow> bool" for n where
  reserve: "0 < q \<Longrightarrow> reserve_cmd n k p q r = (Inr (VInt64 c), r') \<Longrightarrow>
     script_step n r (if h_status (order_hash r k) = None \<and> c = 1 then [Took k p q] else []) r'"
| confirm: "script_step n r [] (snd (confirm_cmd flag k r))"
| mark: "script_step n r [] (snd (markMySQLDeductedLua (reservationKey k) confirmedReservationTTLSeconds r))"
| release: "script_step n r (if holding r k then [Returned k (num_of (h_product_id (order_hash r k)))
                                                       (num_of (h_quantity (order_hash r k)))] else [])
     (script_release n k r)"
| claim: "script_step n r [] (snd (claimExpiredReservationsLua reservationExpiryIndexKey reservationProcessingIndexKey
     now limit reservationProcessingTimeout r))"
| complete: "script_step n r [] (snd (completeExpiredReservationLua reservationProcessingIndexKey reservationRetryCountKey k r))"
| retry: "script_step n r [] (snd (retryExpiredReservationLua reservationProcessingIndexKey reservationExpiryIndexKey
     reservationRetryCountKey reservationDeadLetterIndexKey k now reservationRetryDelay reservationMaxRecoveryRetries r))"
| tick: "script_step n r [] (r_tick t r)"

inductive script_run :: "int \<Rightarrow> redis \<Rightarrow> stock_event list \<Rightarrow> redis \<Rightarrow> bool" for n r where
  run_none: "script_run n r [] r"
| run_step: "script_run n r tr r1 \<Longrightarrow> script_step n r1 ev r2 \<Longrightarrow> script_run n r (tr @ ev) r2"

text \<open>Counters carry no expiry deadline; only keys of the reservation family do.\<close>

definition counters_persist :: "redis \<Rightarrow> bool" where
  "counters_persist r \<longleftrightarrow> (\<forall>x. deadline r x \<noteq> None \<longrightarrow> (\<exists>k. x = reservationKey k))"

definition script_inv :: "int \<Rightarrow> redis \<Rightarrow> bool" where
  "script_inv n r \<longleftrightarrow> redis_inv n r \<and> counters_persist r"

section \<open>Deadlines\<close>

lemma deadline_simps [simp]:
  "deadline (r_set k v r) = (deadline r)(k := None)" "deadline (r_hset k f r) = deadline r"
  "deadline (r_expire k v r) = (deadline r)(k := Some (server_time r + v))"
  "deadline (r_zadd k v m r) = deadline r" "deadline (r_zrem k m r) = deadline r" "deadline (r_hdel k m r) = deadline r"
  by (simp_all add: r_set_def r_hset_def r_expire_def r_zadd_def r_zrem_def r_hdel_def)

lemma persist_frame [simp]:
  "counters_persist r \<Longrightarrow> counters_persist (r_set x v r)"
  "counters_persist r \<Longrightarrow> counters_persist (r_incrby x v r)"
  "counters_persist r \<Longrightarrow> counters_persist (r_decrby x v r)"
  "counters_persist r \<Longrightarrow> counters_persist (r_hset x f r)"
  "counters_persist r \<Longrightarrow> counters_persist (r_zadd x v m r)"
  "counters_persist r \<Longrightarrow> counters_persist (r_zrem x m r)"
  "counters_persist r \<Longrightarrow> counters_persist (r_hdel x m r)"
  "counters_persist r \<Longrightarrow> counters_persist (r_expire (reservationKey k) v r)"
  by (auto simp: counters_persist_def)

lemma persist_scripts:
  assumes "counters_persist r" "0 < n"
  shows "counters_persist (snd (reserve_cmd n k p q r))"
    and "counters_persist (snd (confirm_cmd flag k r))"
    and "counters_persist (snd (release_cmd n k p r))"
  using assms
  by (auto simp: reserve_cmd_def reserveStockLua_def confirm_cmd_def confirmDeductLua_def release_cmd_def releaseStockLua_def
      Let_def split: sum.splits option.splits)

section \<open>Steps that leave stock and reservations alone\<close>

definition quiet :: "redis \<Rightarrow> redis \<Rightarrow> bool" where
  "quiet r r' \<longleftrightarrow> ctr r' = ctr r \<and> hash r' = hash r \<and> types_grow r r' \<and> deadline r' = deadline r"

lemma quiet_refl: "quiet r r"
  by (simp add: quiet_def types_grow_def)

lemma quiet_trans: "quiet r r1 \<Longrightarrow> quiet r1 r2 \<Longrightarrow> quiet r r2"
  unfolding quiet_def types_grow_def by metis

lemma quiet_zset: "quiet r (r_zadd (reservationKey k) v m r)" "quiet r (r_zrem (reservationKey k) m r)"
  "quiet r (r_hdel (reservationKey k) m r)" "quiet r (snd (r_hincrby (reservationKey k) m d r))"
  by (auto simp: quiet_def types_grow_def wrong_type_def r_hdel_def r_hincrby_def Let_def split: if_splits)

lemma quiet_requeue: "quiet r (requeue_abandoned (reservationKey a) (reservationKey b) now os r)"
proof (induction os arbitrary: r)
  case (Cons o1 os)
  then show ?case using quiet_trans quiet_zset by (metis requeue_abandoned.simps(2))
qed (simp add: quiet_refl)

lemma quiet_claim_orders: "quiet r (claim_orders (reservationKey a) (reservationKey b) u os r)"
proof (induction os arbitrary: r)
  case (Cons o1 os)
  then show ?case using quiet_trans quiet_zset by (metis claim_orders.simps(2))
qed (simp add: quiet_refl)

lemma quiet_reaper:
  "quiet r (snd (claimExpiredReservationsLua reservationExpiryIndexKey reservationProcessingIndexKey now limit t r))"
  "quiet r (snd (completeExpiredReservationLua reservationProcessingIndexKey reservationRetryCountKey k r))"
  "quiet r (snd (retryExpiredReservationLua reservationProcessingIndexKey reservationExpiryIndexKey
     reservationRetryCountKey reservationDeadLetterIndexKey k now d m r))"
proof -
  show "quiet r (snd (claimExpiredReservationsLua reservationExpiryIndexKey reservationProcessingIndexKey now limit t r))"
    unfolding claimExpiredReservationsLua_def Let_def snd_conv index_keys
    by (rule quiet_trans [OF quiet_requeue quiet_claim_orders])
  show "quiet r (snd (completeExpiredReservationLua reservationProcessingIndexKey reservationRetryCountKey k r))"
    unfolding completeExpiredReservationLua_def snd_conv index_keys by (rule quiet_trans [OF quiet_zset(2) quiet_zset(3)])
  obtain v r1 where h: "r_hincrby (reservationKey ''retry_count'') k 1 r = (v, r1)" by fastforce
  then have "quiet r r1" using quiet_zset(4) by (metis snd_conv)
  from quiet_trans [OF this quiet_zset(2)] have q: "quiet r (r_zrem (reservationKey ''processing'') k r1)" .
  show "quiet r (snd (retryExpiredReservationLua reservationProcessingIndexKey reservationExpiryIndexKey
     reservationRetryCountKey reservationDeadLetterIndexKey k now d m r))"
    unfolding retryExpiredReservationLua_def index_keys h
    by (auto simp: Let_def intro: quiet_trans [OF q quiet_zset(1)])
qed

lemma quiet_inv: "quiet r r' \<Longrightarrow> script_inv n r \<Longrightarrow> script_inv n r'"
  using redis_inv_cong by (auto simp: quiet_def script_inv_def counters_persist_def)

lemma quiet_order_hash: "quiet r r' \<Longrightarrow> order_hash r' = order_hash r"
  by (simp add: quiet_def order_hash_def fun_eq_iff)

lemma quiet_stock: "quiet r r' \<Longrightarrow> stock_left n r' p = stock_left n r p"
  by (rule stock_left_cong) (simp add: quiet_def)

section \<open>Effect of every step\<close>

text \<open>
  What a step does: it keeps the invariant, moves exactly the units of its events between the
  shards and the orders, and no order holds more after it than its events account for.
\<close>

definition step_ok :: "int \<Rightarrow> redis \<Rightarrow> stock_event list \<Rightarrow> redis \<Rightarrow> bool" where
  "step_ok n r ev r' \<longleftrightarrow> script_inv n r' \<and>
     (\<forall>p. stock_left n r' p = stock_left n r p - net_units p ev) \<and>
     (\<forall>k p. taken_units p (order_hash r' k) - taken_units p (order_hash r k) \<le> net_order_units k p ev)"

lemma net_simps [simp]:
  "net_units p [] = 0" "net_units p [e] = ev_units p e" "net_units p (a @ b) = net_units p a + net_units p b"
  "net_order_units k p [] = 0" "net_order_units k p [e] = ev_order_units k p e"
  "net_order_units k p (a @ b) = net_order_units k p a + net_order_units k p b"
  by (simp_all add: net_units_def net_order_units_def)

lemma step_ok_same: "script_inv n r \<Longrightarrow> step_ok n r [] r"
  by (simp add: step_ok_def)

lemma step_ok_quiet: "quiet r r' \<Longrightarrow> script_inv n r \<Longrightarrow> step_ok n r [] r'"
  by (simp add: step_ok_def quiet_inv quiet_stock quiet_order_hash)

lemma reserve_step_ok:
  assumes inv: "script_inv n r" and n: "0 < n" and q: "0 < q" and run: "reserve_cmd n k p q r = (Inr (VInt64 c), r')"
  shows "step_ok n r (if h_status (order_hash r k) = None \<and> c = 1 then [Took k p q] else []) r'"
proof (cases "h_status (order_hash r k) = None")
  case False
  then have "r' = r" using reserve_cmd_known [OF n False, of p q] run by simp
  then show ?thesis using False step_ok_same [OF inv] by auto
next
  case True
  have inv': "script_inv n r'"
    using inv reserve_cmd_inv [OF _ n q, of r k p] persist_scripts(1) [OF _ n, of r k p q] run by (simp add: script_inv_def)
  show ?thesis
  proof (cases rule: reserve_cmd_new [OF n True, of p q])
    case (1 d)
    then show ?thesis using run inv by (auto simp: step_ok_same)
  next
    case (2 i v r1)
    then have r1: "r1 = r'" "c = 1" using run by auto
    have "stock_left n r' a = (if a = p then stock_left n r a - num_of (ctr r (StockShardKey p i)) + num_of (Some (v - q)) else stock_left n r a)" for a
      by (rule stock_left_upd [OF n 2(1,2)]) (use 2(6) r1 in auto)
    moreover have "order_hash r' = (order_hash r)(k := reserved_hash k p q i (order_hash r k))"
      using order_hash_upd 2(7) r1 by simp
    ultimately show ?thesis
      using inv' True r1 2(3) by (auto simp: step_ok_def taken_units_def reserved_hash_def)
  qed
qed

lemma confirm_step_ok:
  assumes inv: "script_inv n r" and n: "0 < n"
  shows "step_ok n r [] (snd (confirm_cmd flag k r))"
proof -
  have rinv: "redis_inv n r" using inv by (simp add: script_inv_def)
  have inv': "script_inv n (snd (confirm_cmd flag k r))"
    using inv confirm_cmd_inv persist_scripts(2) [OF _ n] by (simp add: script_inv_def)
  have *: "(\<forall>a. stock_left n (snd (confirm_cmd flag k r)) a = stock_left n r a) \<and>
       (\<forall>j a. taken_units a (order_hash (snd (confirm_cmd flag k r)) j) = taken_units a (order_hash r j))"
  proof (cases "h_status (order_hash r k) = Some ''reserved''")
    case True
    show ?thesis
    proof (rule confirm_cmd_reserved [OF rinv True, of flag], goal_cases)
      case (1 c r' p)
      then have "stock_left n r' a = stock_left n r a" for a by (intro stock_left_cong) simp
      moreover have "order_hash r' = (order_hash r)(k := (order_hash r k)\<lparr>h_status := Some ''confirmed''\<rparr>)"
        by (rule order_hash_upd) (rule 1)
      ultimately show ?case using 1(1) True by (auto simp: taken_units_def)
    qed
  next
    case False
    show ?thesis
    proof (rule confirm_cmd_other [OF False, of flag], goal_cases)
      case (1 c r')
      then have "stock_left n r' a = stock_left n r a" for a by (intro stock_left_cong) simp
      then show ?case using 1 by (simp add: order_hash_def)
    qed
  qed
  then show ?thesis using inv' by (simp add: step_ok_def)
qed

lemma release_step_ok:
  assumes inv: "script_inv n r" and n: "0 < n"
  shows "step_ok n r (if holding r k then [Returned k (num_of (h_product_id (order_hash r k)))
                            (num_of (h_quantity (order_hash r k)))] else []) (script_release n k r)"
proof (cases "holding r k")
  case False
  have rinv: "redis_inv n r" using inv by (simp add: script_inv_def)
  then have "h_status (order_hash r k) \<in> {None, Some ''released''}"
    using False redis_invD_hash [OF rinv, of k]
    by (cases "h_status (order_hash r k)") (auto simp: holding_def hash_ok_def)
  from release_cmd_done [OF n this] show ?thesis
    using False inv by (auto simp: script_release_def step_ok_same split: option.splits)
next
  case True
  have rinv: "redis_inv n r" using inv by (simp add: script_inv_def)
  from True have st: "h_status (order_hash r k) \<in> {Some ''reserved'', Some ''confirmed''}" by (auto simp: holding_def)
  then obtain p where p: "h_product_id (order_hash r k) = Some p"
    using redis_invD_hash [OF rinv, of k] by (auto simp: hash_ok_def)
  have inv': "script_inv n (snd (release_cmd n k p r))"
    using inv release_cmd_inv [OF _ n p] persist_scripts(3) [OF _ n] by (simp add: script_inv_def)
  show ?thesis
  proof (rule release_cmd_holding [OF rinv n st p], goal_cases)
    case (1 i q r')
    have "stock_left n r' a = (if a = p then stock_left n r a - num_of (ctr r (StockShardKey p i)) +
        num_of (Some (num_of (ctr r (StockShardKey p i)) + q)) else stock_left n r a)" for a
      by (rule stock_left_upd [OF n 1(2,3)]) (use 1(6) in \<open>auto simp: Let_def\<close>)
    moreover have "order_hash r' = (order_hash r)(k := (order_hash r k)\<lparr>h_status := Some ''released''\<rparr>)"
      by (rule order_hash_upd) (rule 1)
    ultimately show ?case
      using True st p 1(1,4) inv' by (auto simp: step_ok_def taken_units_def script_release_def)
  qed
qed

text \<open>Reservations are forgotten or marked, counters stay.\<close>

definition same_reservation :: "rhash \<Rightarrow> rhash \<Rightarrow> bool" where
  "same_reservation h g \<longleftrightarrow> h_status h = h_status g \<and> h_product_id h = h_product_id g \<and>
     h_quantity h = h_quantity g \<and> h_shard_index h = h_shard_index g"

lemma forget_step_ok:
  assumes inv: "script_inv n r"
    and space: "types_grow r r'" and persist: "counters_persist r'"
    and oh: "\<And>k. h_status (order_hash r' k) = None \<or> same_reservation (order_hash r' k) (order_hash r k)"
    and ctrs: "\<And>p i. ctr r' (StockShardKey p i) = ctr r (StockShardKey p i)"
      "\<And>p. ctr r' (reservedStockKey p) = ctr r (reservedStockKey p)"
  shows "step_ok n r [] r'"
proof -
  have rinv: "redis_inv n r" using inv by (simp add: script_inv_def)
  have units: "open_units p (order_hash r' k) \<le> open_units p (order_hash r k) \<and> 0 \<le> open_units p (order_hash r' k) \<and>
      taken_units p (order_hash r' k) \<le> taken_units p (order_hash r k)" for p k
    using oh [of k] redis_inv_units_nonneg [OF rinv, of p k]
    by (auto simp: same_reservation_def open_units_def taken_units_def)
  have "tally (open_units p) (order_hash r') \<le> num_of (ctr r' (reservedStockKey p))" for p
    using tally_mono [OF redis_inv_support(1) [OF rinv, of p], of "open_units p" "order_hash r'"] units
      redis_invD(3) [OF rinv, of p] ctrs(2) by force
  moreover have "finite {k. h_status (order_hash r' k) \<noteq> None}"
  proof (rule finite_subset)
    show "{k. h_status (order_hash r' k) \<noteq> None} \<subseteq> {k. h_status (order_hash r k) \<noteq> None}"
    proof (intro subsetI, elim CollectE, intro CollectI)
      fix k assume "h_status (order_hash r' k) \<noteq> None"
      then show "h_status (order_hash r k) \<noteq> None" using oh [of k] by (auto simp: same_reservation_def)
    qed
    show "finite {k. h_status (order_hash r k) \<noteq> None}" using rinv by (simp add: redis_inv_def)
  qed
  moreover have "hash_ok n (order_hash r' k)" if "h_status (order_hash r' k) \<noteq> None" for k
    using that oh [of k] redis_invD_hash [OF rinv, of k] by (auto simp: same_reservation_def hash_ok_def)
  ultimately have "redis_inv n r'"
    using reservation_space_mono [OF redis_invD(2) [OF rinv] space] rinv ctrs(1) unfolding redis_inv_def by metis
  then show ?thesis
    using persist units stock_left_cong [OF ctrs(1)] by (simp add: step_ok_def script_inv_def)
qed

lemma mark_step_ok:
  assumes "script_inv n r"
  shows "step_ok n r [] (snd (markMySQLDeductedLua (reservationKey k) t r))"
  by (rule forget_step_ok [OF assms])
     (use assms in \<open>auto simp: markMySQLDeductedLua_def Let_def types_grow_def wrong_type_def order_hash_def
        same_reservation_def script_inv_def split: if_splits\<close>)

lemma tick_step_ok:
  assumes "script_inv n r"
  shows "step_ok n r [] (r_tick t r)"
proof (rule forget_step_ok [OF assms])
  have d: "deadline r (StockShardKey p i) = None" "deadline r (reservedStockKey p) = None" for p i
    using assms by (auto simp: script_inv_def counters_persist_def)
  show "types_grow r (r_tick t r)"
    by (auto simp: r_tick_def types_grow_def wrong_type_def split: option.splits if_splits)
  show "counters_persist (r_tick t r)"
    using assms by (auto simp: r_tick_def script_inv_def counters_persist_def split: option.splits if_splits)
  show "ctr (r_tick t r) (StockShardKey p i) = ctr r (StockShardKey p i)"
    "ctr (r_tick t r) (reservedStockKey p) = ctr r (reservedStockKey p)" for p i
    by (auto simp: r_tick_def d)
  show "h_status (order_hash (r_tick t r) k) = None \<or> same_reservation (order_hash (r_tick t r) k) (order_hash r k)" for k
    by (auto simp: r_tick_def order_hash_def empty_hash_def same_reservation_def split: option.splits)
qed

lemma script_step_ok: "script_step n r ev r' \<Longrightarrow> 0 < n \<Longrightarrow> script_inv n r \<Longrightarrow> step_ok n r ev r'"
proof (induction rule: script_step.induct)
  case (reserve q k p r c r')
  then show ?case by (intro reserve_step_ok)
qed (simp_all add: confirm_step_ok release_step_ok mark_step_ok tick_step_ok step_ok_quiet quiet_reaper del: index_keys)

lemma script_run_ok:
  assumes "script_run n r0 tr r" "0 < n" "script_inv n r0"
  shows "step_ok n r0 tr r"
  using assms(1)
proof induction
  case run_none
  show ?case by (rule step_ok_same [OF assms(3)])
next
  case (run_step tr r1 ev r2)
  then have s: "step_ok n r1 ev r2" using script_step_ok assms(2) by (simp add: step_ok_def)
  have "taken_units p (order_hash r2 k) - taken_units p (order_hash r0 k) \<le> net_order_units k p (tr @ ev)" for k p
    using s run_step.IH by (auto simp: step_ok_def dest!: spec [of _ k] spec [of _ p])
  with s run_step.IH show ?case by (simp add: step_ok_def)
qed

section \<open>No overselling\<close>

text \<open>A store in which stock was seeded and nobody has reserved yet.\<close>

definition fresh_store :: "redis \<Rightarrow> bool" where
  "fresh_store r \<longleftrightarrow> (\<forall>x. hash r x = empty_hash \<and> zset r x = [] \<and> hcount r x = [] \<and> deadline r x = None) \<and>
     (\<forall>x v. ctr r x = Some v \<longrightarrow> 0 \<le> v)"

lemma fresh_store_inv: "fresh_store r \<Longrightarrow> script_inv n r"
proof -
  assume f: "fresh_store r"
  then have h: "h_status (order_hash r k) = None" for k by (simp add: fresh_store_def order_hash_def empty_hash_def)
  have "0 \<le> num_of (ctr r x)" for x using f by (cases "ctr r x") (auto simp: fresh_store_def)
  then show ?thesis
    using f h by (auto simp: script_inv_def redis_inv_def fresh_store_def reservation_space_def wrong_type_def counters_persist_def)
qed

text \<open>
  C1: whatever interleaving of reserve, confirm, release and reaper scripts of any orders runs from
  a freshly seeded store, and whatever keys expire in between, the units of a product that
  orders took and did not give back plus what is left in the shards equal the seeded stock, and
  neither a shard nor the stock left is ever negative: orders never take more than was seeded.
\<close>

theorem scripts_never_oversell:
  assumes "script_run n r0 tr r" "fresh_store r0" "0 < n"
  shows "net_units p tr + stock_left n r p = stock_left n r0 p \<and> net_units p tr \<le> stock_left n r0 p \<and>
    (\<forall>i v. ctr r (StockShardKey p i) = Some v \<longrightarrow> 0 \<le> v)"
proof -
  have ok: "step_ok n r0 tr r" by (rule script_run_ok [OF assms(1,3) fresh_store_inv [OF assms(2)]])
  then have inv: "redis_inv n r" by (simp add: step_ok_def script_inv_def)
  show ?thesis using ok stock_left_nonneg [OF inv, of p] redis_invD(1) [OF inv] by (auto simp: step_ok_def)
qed

text \<open>
  in the same runs no order gives back more units of a product than it took, and what its
  reservation still holds is covered by what it took; the product's reserved counter covers the
  open reservations of all orders.
\<close>

theorem orders_return_only_what_they_took:
  assumes "script_run n r0 tr r" "fresh_store r0" "0 < n"
  shows "0 \<le> net_order_units k p tr \<and> taken_units p (order_hash r k) \<le> net_order_units k p tr \<and>
    tally (open_units p) (order_hash r) \<le> num_of (ctr r (reservedStockKey p))"
proof -
  have ok: "step_ok n r0 tr r" by (rule script_run_ok [OF assms(1,3) fresh_store_inv [OF assms(2)]])
  then have inv: "redis_inv n r" by (simp add: step_ok_def script_inv_def)
  have "taken_units p (order_hash r0 k) = 0"
    using assms(2) by (simp add: fresh_store_def order_hash_def empty_hash_def)
  moreover have "taken_units p (order_hash r k) - taken_units p (order_hash r0 k) \<le> net_order_units k p tr"
    using ok by (simp add: step_ok_def)
  ultimately show ?thesis
    using redis_inv_units_nonneg(2) [OF inv, of p k] redis_invD(3) [OF inv, of p] by linarith
qed

section \<open>A concrete run\<close>

definition demo_store :: redis where
  "demo_store = (empty_redis 0)\<lparr>ctr := [StockShardKey 7 0 \<mapsto> 5]\<rparr>"

lemma demo_fresh: "fresh_store demo_store"
  by (auto simp: demo_store_def empty_redis_def fresh_store_def split: if_splits)

lemma demo_stock: "stock_left 1 demo_store 7 = 5"
  by (simp add: demo_store_def empty_redis_def stock_left_alt StockShardKeys_def NormalizeShardCount_def)

lemma demo_reserve: "fst (reserve_cmd 1 ''o1'' 7 3 demo_store) = Inr (VInt64 1)"
proof -
  have s: "StockShardStartIndex ''o1'' 1 = 0" using StockShardStartIndex_range [of 1 "''o1''"] by (simp add: in_i64_def)
  show ?thesis
    by (simp add: reserve_cmd_def reserveStockLua_def s demo_store_def empty_redis_def empty_hash_def Let_def
        NormalizeShardCount_def)
qed

lemma demo_run: "script_run 1 demo_store [Took ''o1'' 7 3] (snd (reserve_cmd 1 ''o1'' 7 3 demo_store))"
proof -
  have "reserve_cmd 1 ''o1'' 7 3 demo_store = (Inr (VInt64 1), snd (reserve_cmd 1 ''o1'' 7 3 demo_store))"
    using demo_reserve by (metis prod.collapse)
  from script_step.reserve [OF _ this] have "script_step 1 demo_store [Took ''o1'' 7 3] (snd (reserve_cmd 1 ''o1'' 7 3 demo_store))"
    by (simp add: order_hash_def demo_store_def empty_redis_def empty_hash_def)
  from script_run.run_step [OF script_run.run_none this] show ?thesis by simp
qed

theorem scripts_never_oversell_witness:
  "stock_left 1 (snd (reserve_cmd 1 ''o1'' 7 3 demo_store)) 7 = 2 \<and> net_units 7 [Took ''o1'' 7 3] \<le> 5"
  using scripts_never_oversell [OF demo_run demo_fresh, of 7] demo_stock by simp

theorem orders_return_only_what_they_took_witness:
  "0 \<le> net_order_units ''o1'' 7 [Took ''o1'' 7 3] \<and>
   taken_units 7 (order_hash (snd (reserve_cmd 1 ''o1'' 7 3 demo_store)) ''o1'') \<le> 3"
  using orders_return_only_what_they_took [OF demo_run demo_fresh, of "''o1''" 7] by simp

section \<open>The scripts fulfil the reservation contract\<close>

definition script_status :: "redis \<Rightarrow> string \<Rightarrow> string option" where
  "script_status r k = h_status (order_hash r k)"

definition script_item :: "redis \<Rightarrow> string \<Rightarrow> int \<times> int" where
  "script_item r k = (num_of (h_product_id (order_hash r k)), num_of (h_quantity (order_hash r k)))"

definition script_reserve :: "int \<Rightarrow> string \<Rightarrow> int \<Rightarrow> int \<Rightarrow> redis \<Rightarrow> bool \<times> redis" where
  "script_reserve n k p q r = (case reserve_cmd n k p q r of (reply, r') \<Rightarrow> (reply = Inr (VInt64 1), r'))"

definition script_confirm :: "int \<Rightarrow> string \<Rightarrow> redis \<Rightarrow> redis" where
  "script_confirm flag k r = snd (confirm_cmd flag k r)"

lemmas script_views = script_status_def script_item_def script_reserve_def script_confirm_def

lemma reserve_cmd_taken:
  assumes inv: "redis_inv n r" and n: "0 < n" and new: "h_status (order_hash r k) = None"
    and ok: "fst (script_reserve n k p q r)"
  obtains i h where "stock_left n (snd (script_reserve n k p q r)) = (stock_left n r)(p := stock_left n r p - q)"
    "h = reserved_hash k p q i (order_hash r k)" "order_hash (snd (script_reserve n k p q r)) = (order_hash r)(k := h)"
proof (cases rule: reserve_cmd_new [OF n new, of p q])
  case (1 c)
  then show ?thesis using ok by (auto simp: script_reserve_def)
next
  case (2 i v r')
  have r': "snd (script_reserve n k p q r) = r'" using 2(5) by (simp add: script_reserve_def)
  have "stock_left n r' a = (if a = p then stock_left n r a - num_of (ctr r (StockShardKey p i)) + num_of (Some (v - q)) else stock_left n r a)" for a
    by (rule stock_left_upd [OF n 2(1,2)]) (use 2(6) in auto)
  then have "stock_left n r' = (stock_left n r)(p := stock_left n r p - q)" using 2(3) by (auto simp: fun_eq_iff)
  then show ?thesis using that [of "reserved_hash k p q i (order_hash r k)" i] order_hash_upd [OF 2(7)] r' by simp
qed

lemma reserve_cmd_refused:
  assumes n: "0 < n" and refused: "\<not> fst (script_reserve n k p q r)"
  shows "snd (script_reserve n k p q r) = r"
proof (cases "h_status (order_hash r k) = None")
  case False
  then show ?thesis by (simp add: script_reserve_def reserve_cmd_known [OF n])
next
  case True
  show ?thesis
    by (cases rule: reserve_cmd_new [OF n True, of p q]) (use refused in \<open>simp_all add: script_reserve_def\<close>)
qed

lemma confirm_cmd_view:
  assumes inv: "redis_inv n r"
  shows "stock_left n (script_confirm flag k r) = stock_left n r \<and>
    order_hash (script_confirm flag k r) =
      (if script_status r k = Some ''reserved'' then (order_hash r)(k := (order_hash r k)\<lparr>h_status := Some ''confirmed''\<rparr>)
       else order_hash r)"
proof (cases "h_status (order_hash r k) = Some ''reserved''")
  case True
  show ?thesis
  proof (rule confirm_cmd_reserved [OF inv True, of flag], goal_cases)
    case (1 c r' p)
    then have "stock_left n r' a = stock_left n r a" for a by (intro stock_left_cong) simp
    then show ?case using 1(1) True order_hash_upd [OF 1(5)] by (simp add: script_views fun_eq_iff)
  qed
next
  case False
  show ?thesis
  proof (rule confirm_cmd_other [OF False, of flag], goal_cases)
    case (1 c r')
    then have "stock_left n r' a = stock_left n r a" for a by (intro stock_left_cong) simp
    then show ?case using 1(1,3) False by (simp add: script_views order_hash_def fun_eq_iff)
  qed
qed

lemma release_cmd_view:
  assumes inv: "redis_inv n r" and n: "0 < n"
  shows "holding r k \<Longrightarrow> order_hash (script_release n k r) = (order_hash r)(k := (order_hash r k)\<lparr>h_status := Some ''released''\<rparr>) \<and>
      stock_left n (script_release n k r) =
        (stock_left n r)(fst (script_item r k) := stock_left n r (fst (script_item r k)) + snd (script_item r k))"
    and "script_status r k \<in> {None, Some ''released''} \<Longrightarrow> script_release n k r = r"
proof -
  assume "holding r k"
  then have st: "h_status (order_hash r k) \<in> {Some ''reserved'', Some ''confirmed''}" by (auto simp: holding_def)
  then obtain p where p: "h_product_id (order_hash r k) = Some p"
    using redis_invD_hash [OF inv, of k] by (auto simp: hash_ok_def)
  show "order_hash (script_release n k r) = (order_hash r)(k := (order_hash r k)\<lparr>h_status := Some ''released''\<rparr>) \<and>
      stock_left n (script_release n k r) =
        (stock_left n r)(fst (script_item r k) := stock_left n r (fst (script_item r k)) + snd (script_item r k))"
  proof (rule release_cmd_holding [OF inv n st p], goal_cases)
    case (1 i q r')
    have "stock_left n r' a = (if a = p then stock_left n r a - num_of (ctr r (StockShardKey p i)) +
        num_of (Some (num_of (ctr r (StockShardKey p i)) + q)) else stock_left n r a)" for a
      by (rule stock_left_upd [OF n 1(2,3)]) (use 1(6) in \<open>auto simp: Let_def\<close>)
    then show ?case
      using 1(1,4) p order_hash_upd [OF 1(7)] by (auto simp: script_views script_release_def fun_eq_iff)
  qed
next
  assume "script_status r k \<in> {None, Some ''released''}"
  then show "script_release n k r = r"
    using release_cmd_done [OF n, of r k] by (auto simp: script_views script_release_def split: option.splits)
qed

interpretation scripts: reservation_store "redis_inv (NormalizeShardCount c)" script_status script_item
  "stock_left (NormalizeShardCount c)" "script_reserve (NormalizeShardCount c)" "script_confirm flag"
  "script_release (NormalizeShardCount c)" for c flag
proof (unfold_locales, goal_cases)
  case (1 s p)
  then show ?case by (rule stock_left_nonneg)
next
  case (2 s k x)
  then show ?case using redis_invD_hash [OF 2(1), of k] by (auto simp: script_status_def hash_ok_def)
next
  case (3 s k)
  then show ?case using redis_invD_hash [OF 3(1), of k] by (auto simp: script_views hash_ok_def)
next
  case (4 s q k p)
  then show ?case
    using reserve_cmd_inv [OF 4(1) _ 4(2), of k p] by (auto simp: script_reserve_def split: prod.splits)
next
  case (5 s k)
  then show ?case by (simp add: script_confirm_def confirm_cmd_inv)
next
  case (6 s k)
  then show ?case using release_cmd_inv [OF 6] by (auto simp: script_release_def split: option.splits)
next
  case (7 s q k p)
  show ?case by (rule reserve_cmd_refused [OF _ 7(3)]) simp
next
  case (8 s q k p)
  then show ?case
    using reserve_cmd_known [of "NormalizeShardCount c" s k p q] redis_invD_hash [OF 8(1), of k]
    by (auto simp: script_views hash_ok_def)
next
  case (9 s q k p)
  then have "h_status (order_hash s k) = None" by (simp add: script_status_def)
  then obtain i h where
    "stock_left (NormalizeShardCount c) (snd (script_reserve (NormalizeShardCount c) k p q s)) =
       (stock_left (NormalizeShardCount c) s)(p := stock_left (NormalizeShardCount c) s p - q)"
    "h = reserved_hash k p q i (order_hash s k)"
    "order_hash (snd (script_reserve (NormalizeShardCount c) k p q s)) = (order_hash s)(k := h)"
    by (rule reserve_cmd_taken [OF 9(1) NormalizeShardCount_pos(1) _ 9(4)])
  then show ?case by (auto simp: script_status_def script_item_def reserved_hash_def fun_eq_iff)
next
  case (10 s k)
  then show ?case using confirm_cmd_view [OF 10(1), of flag k] by (auto simp: script_status_def script_item_def fun_eq_iff)
next
  case (11 s k)
  then show ?case using confirm_cmd_view [OF 11(1), of flag k] by (auto simp: script_status_def script_item_def fun_eq_iff)
next
  case (12 s k)
  then have "holding s k" by (simp add: holding_def script_status_def)
  from release_cmd_view(1) [OF 12(1) _ this] show ?case
    by (auto simp: script_status_def script_item_def fun_eq_iff)
next
  case (13 s k)
  then show ?case using release_cmd_view(2) [OF 13(1) _ 13(2)] by simp
qed

text \<open>
  A reserve command the scripts accepted can be sent again, any number of times a caller retries
  it: the second run answers success and changes nothing, and an accepted reservation of a new
  order was covered by the stock left.
\<close>

theorem reserve_script_idempotent:
  assumes "redis_inv (NormalizeShardCount c) r" "0 < q" "fst (script_reserve (NormalizeShardCount c) k p q r)"
  shows "script_reserve (NormalizeShardCount c) k p q (snd (script_reserve (NormalizeShardCount c) k p q r)) =
      (True, snd (script_reserve (NormalizeShardCount c) k p q r)) \<and>
    (script_status r k = None \<longrightarrow> q \<le> stock_left (NormalizeShardCount c) r p)"
  using scripts.reserve_retry [OF assms] scripts.accepted_only_if_in_stock [OF assms(1,2) _ assms(3)] by blast

theorem reserve_script_idempotent_witness:
  "fst (script_reserve (NormalizeShardCount 1) ''o1'' 7 3 (snd (script_reserve (NormalizeShardCount 1) ''o1'' 7 3 demo_store)))"
proof -
  have "redis_inv (NormalizeShardCount 1) demo_store" using fresh_store_inv [OF demo_fresh] by (simp add: script_inv_def)
  moreover have "fst (script_reserve (NormalizeShardCount 1) ''o1'' 7 3 demo_store)"
    using demo_reserve by (auto simp: script_reserve_def split: prod.splits)
  ultimately show ?thesis using reserve_script_idempotent [of 1 demo_store 3 "''o1''" 7] by simp
qed

text \<open>
  Releasing an order's fresh reservation restores the stock of every product exactly, a second
  release changes nothing, and a confirm that arrives after the release neither revives the
  reservation nor takes stock.
\<close>

theorem release_script_compensates:
  assumes inv: "redis_inv (NormalizeShardCount c) r" and q: "0 < q" and new: "script_status r k = None"
    and ok: "fst (script_reserve (NormalizeShardCount c) k p q r)"
  defines "r1 \<equiv> snd (script_reserve (NormalizeShardCount c) k p q r)"
  defines "r2 \<equiv> script_release (NormalizeShardCount c) k r1"
  shows "stock_left (NormalizeShardCount c) r2 = stock_left (NormalizeShardCount c) r \<and>
    stock_left (NormalizeShardCount c) (script_release (NormalizeShardCount c) k r2) = stock_left (NormalizeShardCount c) r \<and>
    script_status (script_confirm flag k r2) k = Some ''released'' \<and>
    stock_left (NormalizeShardCount c) (script_confirm flag k r2) = stock_left (NormalizeShardCount c) r"
proof -
  have a: "stock_left (NormalizeShardCount c) r2 = stock_left (NormalizeShardCount c) r"
    unfolding r2_def r1_def by (rule scripts.reserve_then_release [OF inv q new ok])
  have i1: "redis_inv (NormalizeShardCount c) r1" unfolding r1_def by (rule scripts.reserve_inv [OF inv q])
  have s1: "script_status r1 k = Some ''reserved''"
    using scripts.reserve_new [OF inv q new ok] by (simp add: r1_def)
  have s2: "script_status r2 k = Some ''released''"
    using scripts.release_reserved [OF i1 s1] by (simp add: r2_def)
  have i2: "redis_inv (NormalizeShardCount c) r2" unfolding r2_def by (rule scripts.release_inv [OF i1])
  show ?thesis
    using a scripts.release_done [OF i2, of k] scripts.released_ignores_confirm [OF i2 s2, of flag] s2 by simp
qed

theorem release_script_compensates_witness:
  "stock_left (NormalizeShardCount 1) (script_release (NormalizeShardCount 1) ''o1''
     (snd (script_reserve (NormalizeShardCount 1) ''o1'' 7 3 demo_store))) 7 = 5"
proof -
  have "redis_inv (NormalizeShardCount 1) demo_store" using fresh_store_inv [OF demo_fresh] by (simp add: script_inv_def)
  moreover have "fst (script_reserve (NormalizeShardCount 1) ''o1'' 7 3 demo_store)"
    using demo_reserve by (auto simp: script_reserve_def split: prod.splits)
  moreover have "script_status demo_store ''o1'' = None"
    by (simp add: script_status_def order_hash_def demo_store_def empty_redis_def empty_hash_def)
  ultimately show ?thesis
    using release_script_compensates [of 1 demo_store 3 "''o1''" 7] demo_stock by simp
qed

end
