(* ===== verification/Inventory_Store.thy ===== *)
theory Inventory_Store
  imports No_Oversell "HOL-Library.AList"
begin

text \<open>
  The world of the inventory service: the Redis server, the MySQL tables of
  \<open>scripts/k8s/sql/20-product-schema.sql\<close> the repository touches, and the wall clock in seconds.  A
  table with a primary key is an association list, the append-only logs are lists in insertion
  order (the auto-increment id is the position).  Identifiers compare bytewise and SQL integers do
  not overflow; \<open>RowsAffected\<close> answers without error, as the MySQL driver does.
  \<open>inv_config\<close> holds the fields of \<open>RedisMySQLRepository\<close> (\<open>redis_mysql.go\<close>).
\<close>

section \<open>Tables\<close>

record bucket_row =
  b_stock :: int
  b_version :: int

record product_row =
  pr_stock :: int
  pr_version :: int

text \<open>A row of \<open>inventory_reservation\<close>; \<open>l_status\<close> is upper case, \<open>l_expires_at\<close> in Unix seconds.\<close>

record ledger_row =
  l_product_id :: int
  l_quantity :: int
  l_shard_index :: int
  l_status :: string
  l_expires_at :: int
  l_version :: int
  l_request_id :: string
  l_trace_id :: string

record snapshot_row =
  s_available :: int
  s_reserved :: int
  s_total :: int
  s_source :: string
  s_version :: int

record change_row =
  c_product_id :: int
  c_order_id :: string
  c_change_type :: string
  c_delta :: int
  c_bucket_idx :: int
  c_before_available :: int
  c_before_reserved :: int
  c_before_total :: int
  c_after_available :: int
  c_after_reserved :: int
  c_after_total :: int
  c_reason :: string
  c_request_id :: string
  c_trace_id :: string
  c_operator_user_id :: int
  c_operator_merchant_id :: int
  c_operator_role :: string

record inv_tables =
  buckets :: "((int \<times> int) \<times> bucket_row) list"
  products :: "(int \<times> product_row) list"
  ledger :: "(string \<times> ledger_row) list"
  stock_log :: "(string \<times> string) list"
  change_log :: "change_row list"
  snapshots :: "(int \<times> snapshot_row) list"
  tables :: "string list"

record inv_world = env +
  inv_redis :: redis
  inv_db :: inv_tables
  inv_now :: int

record inv_config =
  has_db :: bool
  shardCount :: int
  finalDeductEnabled :: bool
  reservationLedgerMode :: string

section \<open>Access\<close>

definition NewRedisMySQLRepository :: "bool \<Rightarrow> int \<Rightarrow> inv_config" where
  "NewRedisMySQLRepository db sc =
     \<lparr>has_db = db, shardCount = NormalizeShardCount sc, finalDeductEnabled = False, reservationLedgerMode = []\<rparr>"

definition WithFinalDeductEnabled :: "bool \<Rightarrow> inv_config \<Rightarrow> inv_config" where
  "WithFinalDeductEnabled enabled r = r\<lparr>finalDeductEnabled := enabled\<rparr>"

text \<open>\<open>EvalCtx\<close>: run a script on the server, subject to the fault schedule.\<close>

definition EvalCtx :: "(redis, 'a) io \<Rightarrow> (inv_world, 'a) io" where
  "EvalCtx f = ext_call (\<lambda>w. case f (inv_redis w) of (x, r) \<Rightarrow> (x, w\<lparr>inv_redis := r\<rparr>))"

text \<open>One SQL statement, subject to the fault schedule.\<close>

definition sql :: "(inv_tables, 'a) io \<Rightarrow> (inv_world, 'a) io" where
  "sql f = ext_call (\<lambda>w. case f (inv_db w) of (x, d) \<Rightarrow> (x, w\<lparr>inv_db := d\<rparr>))"

definition inv_tx :: "(go_error \<Rightarrow> go_error) \<Rightarrow> ('a \<Rightarrow> go_error \<Rightarrow> go_error) \<Rightarrow> (inv_world, 'a) io \<Rightarrow> (inv_world, 'a) io" where
  "inv_tx = with_tx inv_db (\<lambda>d w. w\<lparr>inv_db := d\<rparr>)"

definition time_now :: "(inv_world, int) io" where
  "time_now w = (Inr (inv_now w), w)"

section \<open>Frame rules\<close>

lemma keeps_EvalCtx:
  assumes "\<And>w x r. I w \<Longrightarrow> f (inv_redis w) = (x, r) \<Longrightarrow> I (w\<lparr>inv_redis := r\<rparr>)" "fault_free I"
  shows "keeps I (EvalCtx f)"
  unfolding EvalCtx_def
  by (rule keeps_ext_call [OF assms(2)]) (auto simp: keeps_def split: prod.splits intro: assms(1))

lemma keeps_sql:
  assumes "\<And>w x d. I w \<Longrightarrow> f (inv_db w) = (x, d) \<Longrightarrow> I (w\<lparr>inv_db := d\<rparr>)" "fault_free I"
  shows "keeps I (sql f)"
  unfolding sql_def
  by (rule keeps_ext_call [OF assms(2)]) (auto simp: keeps_def split: prod.splits intro: assms(1))

lemma keeps_time_now [keeps_rules]: "keeps I time_now"
  by (simp add: keeps_def time_now_def)

text \<open>What does not mention the database is kept by SQL and by transactions, and so on for Redis.\<close>

definition on_redis :: "(redis \<Rightarrow> bool) \<Rightarrow> inv_world \<Rightarrow> bool" where
  "on_redis P w \<longleftrightarrow> P (inv_redis w)"

definition on_db :: "(inv_tables \<Rightarrow> bool) \<Rightarrow> inv_world \<Rightarrow> bool" where
  "on_db P w \<longleftrightarrow> P (inv_db w)"

lemma fault_free_on [simp, keeps_rules]: "fault_free (on_redis P)" "fault_free (on_db Q)"
  by (simp_all add: fault_free_def on_redis_def on_db_def)

lemma keeps_on_redis_sql [keeps_rules]: "keeps (on_redis P) (sql f)"
  by (rule keeps_sql) (simp_all add: on_redis_def)

lemma keeps_on_db_EvalCtx [keeps_rules]: "keeps (on_db P) (EvalCtx f)"
  by (rule keeps_EvalCtx) (simp_all add: on_db_def)

lemma keeps_on_redis_EvalCtx:
  "(\<And>r. P r \<Longrightarrow> P (snd (f r))) \<Longrightarrow> keeps (on_redis P) (EvalCtx f)"
  by (rule keeps_EvalCtx) (auto simp: on_redis_def, metis snd_conv)

lemma keeps_on_db_sql:
  "(\<And>d. P d \<Longrightarrow> P (snd (f d))) \<Longrightarrow> keeps (on_db P) (sql f)"
  by (rule keeps_sql) (auto simp: on_db_def, metis snd_conv)

lemma keeps_on_redis_tx [keeps_rules]: "keeps (on_redis P) body \<Longrightarrow> keeps (on_redis P) (inv_tx be ce body)"
  unfolding inv_tx_def by (rule keeps_with_tx) (auto simp: on_redis_def)

lemma keeps_on_db_tx [keeps_rules]: "keeps (on_db P) body \<Longrightarrow> keeps (on_db P) (inv_tx be ce body)"
  unfolding inv_tx_def by (rule keeps_with_tx) (auto simp: on_db_def)

text \<open>A script that only reads.\<close>

definition reads :: "(redis, 'a) io \<Rightarrow> bool" where
  "reads f \<longleftrightarrow> (\<forall>r. snd (f r) = r)"

lemma keeps_reads: "reads f \<Longrightarrow> keeps (on_redis P) (EvalCtx f)"
  by (rule keeps_on_redis_EvalCtx) (simp add: reads_def)

lemma reads_scripts [simp]:
  "reads (sumStockLua KS)" "reads (getReservedStockLua k)" "reads (batchStockLua KS c ps)" "reads (getReservationLua k)"
  "reads (reservationStatsLua x y z t)"
  by (simp_all add: reads_def sumStockLua_def getReservedStockLua_def batchStockLua_def getReservationLua_def
      reservationStatsLua_def Let_def split: option.splits)

lemma keeps_if [keeps_rules]: "(b \<Longrightarrow> keeps I m) \<Longrightarrow> (\<not> b \<Longrightarrow> keeps I m') \<Longrightarrow> keeps I (if b then m else m')"
  by simp

section \<open>Results of calls and transactions\<close>

lemma sql_Inr: "sql f w = (Inr a, w') \<Longrightarrow> f (inv_db w) = (Inr a, inv_db w') \<and> inv_redis w' = inv_redis w"
  unfolding sql_def by (erule ext_call_cases) (auto split: prod.splits)

lemma sql_Inl: "sql f w = (Inl e, w') \<Longrightarrow> (\<exists>s. e = RawError s) \<or> (f (inv_db w) = (Inl e, inv_db w') \<and> inv_redis w' = inv_redis w)"
  unfolding sql_def by (erule ext_call_cases) (auto split: prod.splits)

lemma EvalCtx_Inr: "EvalCtx f w = (Inr a, w') \<Longrightarrow> f (inv_redis w) = (Inr a, inv_redis w') \<and> inv_db w' = inv_db w"
  unfolding EvalCtx_def by (erule ext_call_cases) (auto split: prod.splits)

text \<open>Whatever is lost, a script has run once or not at all.\<close>

lemma EvalCtx_redis:
  "EvalCtx f w = (x, w') \<Longrightarrow> inv_redis w' = inv_redis w \<or> inv_redis w' = snd (f (inv_redis w))"
  unfolding EvalCtx_def by (erule ext_call_cases) (auto split: prod.splits)

lemma inv_tx_cases:
  assumes "inv_tx be ce body w = (x, w')"
  obtains (aborted) e where "x = Inl e" "inv_db w' = inv_db w"
  | (committed) a w0 w1 where "body w0 = (Inr a, w1)" "inv_db w0 = inv_db w" "inv_db w' = inv_db w1" "\<forall>b. x = Inr b \<longrightarrow> b = a"
proof (rule with_tx_cases [OF assms [unfolded inv_tx_def]])
  fix a fs w1
  assume "body (w\<lparr>faults := fs\<rparr>) = (Inr a, w1)" "inv_db w' = inv_db w1" "\<forall>b. x = Inr b \<longrightarrow> b = a"
  then show thesis by (intro committed [of "w\<lparr>faults := fs\<rparr>" a w1]) simp_all
qed (auto intro: aborted)

end
