(* ===== verification/Stock_Persistence.thy ===== *)
theory Stock_Persistence
  imports Inventory_Store
begin

text \<open>
  \<open>app/inventory/repository/stock_persistence.go\<close> and the reply decoding of \<open>redis_codec.go\<close>: what
  the repository reads from and writes to Redis and MySQL.  The final deduction of a paid order and
  its reversal go through the \<open>stock_log\<close> table, whose unique key makes each happen at most once;
  the lemmas at the end show this for every fault schedule.
\<close>

section \<open>Decoding replies\<close>

record redis_reservation =
  rr_ProductID :: int
  rr_Quantity :: int
  rr_ShardIndex :: int

definition no_reservation :: redis_reservation where
  "no_reservation = \<lparr>rr_ProductID = 0, rr_Quantity = 0, rr_ShardIndex = 0\<rparr>"

definition evalInt64 :: "(redis, redis_val) io \<Rightarrow> (inv_world, int) io" where
  "evalInt64 script = bindE (EvalCtx script) (\<lambda>val. of_result (toInt64 val))"

definition evalReservation :: "(redis, redis_val) io \<Rightarrow> (inv_world, redis_reservation) io" where
  "evalReservation script =
     bindE (EvalCtx script) (\<lambda>val.
     bindE (of_result (toInt64Slice val)) (\<lambda>parts.
       if length parts < 2 then fail (RawError ''unexpected reservation result'')
       else ret \<lparr>rr_ProductID = parts ! 0, rr_Quantity = parts ! 1,
                 rr_ShardIndex = (if length parts > 2 then parts ! 2 else 0)\<rparr>))"

fun unique_positive :: "int list \<Rightarrow> int set \<Rightarrow> int list" where
  "unique_positive [] seen = []"
| "unique_positive (productID # ps) seen =
     (if productID \<le> 0 then unique_positive ps seen
      else if productID \<in> seen then unique_positive ps seen
      else productID # unique_positive ps (insert productID seen))"

definition uniquePositiveProductIDs :: "int list \<Rightarrow> int list" where
  "uniquePositiveProductIDs productIDs = unique_positive productIDs {}"

definition orderStocksByProductIDs :: "int list \<Rightarrow> stock list \<Rightarrow> stock list" where
  "orderStocksByProductIDs productIDs stocks =
     (let byID = fold (\<lambda>s m. m(ProductID s \<mapsto> s)) stocks Map.empty
      in List.map_filter byID productIDs)"

section \<open>Redis\<close>

definition redisAvailable :: "inv_config \<Rightarrow> int \<Rightarrow> (inv_world, int \<times> bool) io" where
  "redisAvailable r productID =
     bindE (EvalCtx (sumStockLua (StockShardKeys productID (shardCount r)))) (\<lambda>val.
     bindE (of_result (toInt64Slice val)) (\<lambda>parts.
       if length parts < 2 then fail (RawError ''unexpected redis stock sum result'')
       else ret (parts ! 1, parts ! 0 = 1)))"

definition redisReserved :: "inv_config \<Rightarrow> int \<Rightarrow> (inv_world, int) io" where
  "redisReserved r productID = bindE (EvalCtx (getReservedStockLua (reservedStockKey productID))) (\<lambda>val. of_result (toInt64 val))"

fun batch_stocks :: "int list \<Rightarrow> stock list" where
  "batch_stocks (productID # ex # available # reserved # parts) =
     (if ex = 1
      then \<lparr>ProductID = productID, Available = available, Reserved = reserved, Total = i64 (available + reserved)\<rparr> # batch_stocks parts
      else batch_stocks parts)"
| "batch_stocks _ = []"

definition redisBatchStocks :: "inv_config \<Rightarrow> int list \<Rightarrow> (inv_world, stock list \<times> int set) io" where
  "redisBatchStocks r productIDs =
     bindE (EvalCtx (batchStockLua (concat (map (\<lambda>p. StockShardKeys p (shardCount r) @ [reservedStockKey p]) productIDs))
                        (shardCount r) productIDs)) (\<lambda>val.
     bindE (of_result (toInt64Slice val)) (\<lambda>parts.
       if length parts mod 4 \<noteq> 0 then fail (RawError ''unexpected batch stock result'')
       else ret (batch_stocks parts, ProductID ` set (batch_stocks parts))))"

definition seedRedisState :: "int \<Rightarrow> int \<Rightarrow> int \<Rightarrow> int \<Rightarrow> (inv_world, unit) io" where
  "seedRedisState productID available reserved sc =
     bindE (map_err (app_wrap CodeInternal ''seed redis stock failed'')
        (EvalCtx (seedStockLua (StockShardKeys productID sc) (SplitStockAcrossShards available sc)))) (\<lambda>_.
     bindE (map_err (app_wrap CodeInternal ''reset redis reserved stock failed'')
        (EvalCtx (resetReservedStockLua (reservedStockKey productID) reserved))) (\<lambda>_. ret ()))"

definition seedRedis :: "int \<Rightarrow> int \<Rightarrow> int \<Rightarrow> (inv_world, unit) io" where
  "seedRedis productID n sc = seedRedisState productID n 0 sc"

definition adjustRedisAvailable :: "inv_config \<Rightarrow> int \<Rightarrow> int \<Rightarrow> int \<Rightarrow> (inv_world, unit) io" where
  "adjustRedisAvailable r productID delta bucketIdx =
     (let startIndex = bucketIdx + 1;
          startIndex = (if startIndex \<le> 0 \<or> startIndex > shardCount r then 1 else startIndex)
      in bindE (map_err (app_wrap CodeInternal ''adjust redis stock failed'')
           (evalInt64 (adjustAvailableStockLua (StockShardKeys productID (shardCount r)) delta (shardCount r) startIndex))) (\<lambda>n.
           if n = -2 then fail ErrStockInsufficient
           else if n \<noteq> 1 then fail (app_new CodeInternal (''unexpected adjust stock result '' @ show_int n))
           else ret ()))"

section \<open>MySQL\<close>

definition product_buckets :: "inv_tables \<Rightarrow> int \<Rightarrow> ((int \<times> int) \<times> bucket_row) list" where
  "product_buckets d p = filter (\<lambda>((p', i), b). p' = p) (buckets d)"

definition bucket_sum :: "inv_tables \<Rightarrow> int \<Rightarrow> int" where
  "bucket_sum d p = sum_list (map (\<lambda>(k, b). b_stock b) (product_buckets d p))"

definition bucket_totals :: "int \<Rightarrow> (inv_tables, int \<times> bool) io" where
  "bucket_totals p d = (Inr (bucket_sum d p, product_buckets d p \<noteq> []), d)"

definition mysqlBucketTotal :: "inv_config \<Rightarrow> int \<Rightarrow> (inv_world, int \<times> bool) io" where
  "mysqlBucketTotal r productID =
     (if \<not> has_db r then ret (0, False)
      else map_err (app_wrap CodeInternal ''read mysql stock bucket failed'') (sql (bucket_totals productID)))"

definition mysqlBucketTotalTx :: "int \<Rightarrow> (inv_world, int \<times> bool) io" where
  "mysqlBucketTotalTx productID =
     map_err (app_wrap CodeInternal ''read mysql stock bucket failed'') (sql (bucket_totals productID))"

text \<open>\<open>INSERT ... ON DUPLICATE KEY UPDATE\<close>, setting the stock or adding to it; the affected rows.\<close>

definition bucket_set :: "int \<Rightarrow> int \<Rightarrow> int \<Rightarrow> (inv_tables, int) io" where
  "bucket_set p i v d = (case map_of (buckets d) (p, i) of
       None \<Rightarrow> (Inr 1, d\<lparr>buckets := AList.update (p, i) \<lparr>b_stock = v, b_version = 0\<rparr> (buckets d)\<rparr>)
     | Some b \<Rightarrow> (Inr 2, d\<lparr>buckets := AList.update (p, i) \<lparr>b_stock = v, b_version = b_version b + 1\<rparr> (buckets d)\<rparr>))"

definition bucket_add :: "int \<Rightarrow> int \<Rightarrow> int \<Rightarrow> (inv_tables, int) io" where
  "bucket_add p i v d = (case map_of (buckets d) (p, i) of
       None \<Rightarrow> (Inr 1, d\<lparr>buckets := AList.update (p, i) \<lparr>b_stock = v, b_version = 0\<rparr> (buckets d)\<rparr>)
     | Some b \<Rightarrow> (Inr 2, d\<lparr>buckets := AList.update (p, i) \<lparr>b_stock = b_stock b + v, b_version = b_version b + 1\<rparr> (buckets d)\<rparr>))"

text \<open>\<open>UPDATE product_stock_bucket SET stock = stock + v ... WHERE ... AND stock + v >= 0\<close>.\<close>

definition bucket_change :: "int \<Rightarrow> int \<Rightarrow> int \<Rightarrow> (inv_tables, int) io" where
  "bucket_change p i v d = (case map_of (buckets d) (p, i) of
       Some b \<Rightarrow> if b_stock b + v \<ge> 0
                 then (Inr 1, d\<lparr>buckets := AList.update (p, i) \<lparr>b_stock = b_stock b + v, b_version = b_version b + 1\<rparr> (buckets d)\<rparr>)
                 else (Inr 0, d)
     | None \<Rightarrow> (Inr 0, d))"

definition product_set_stock :: "int \<Rightarrow> int \<Rightarrow> (inv_tables, int) io" where
  "product_set_stock p v d = (case map_of (products d) p of
       Some x \<Rightarrow> (Inr 1, d\<lparr>products := AList.update p \<lparr>pr_stock = v, pr_version = pr_version x + 1\<rparr> (products d)\<rparr>)
     | None \<Rightarrow> (Inr 0, d))"

definition seedMySQLBuckets :: "int \<Rightarrow> int \<Rightarrow> int \<Rightarrow> (inv_world, unit) io" where
  "seedMySQLBuckets productID n sc =
     inv_tx (app_wrap CodeInternal ''begin stock seed transaction failed'')
            (\<lambda>_. app_wrap CodeInternal ''commit stock seed transaction failed'')
       (for_each (zip [0..<length (SplitStockAcrossShards n sc)] (SplitStockAcrossShards n sc)) (\<lambda>(idx, value).
          bindE (map_err (app_wrap CodeInternal ''seed mysql stock bucket failed'')
            (sql (bucket_set productID (int idx) value))) (\<lambda>_. ret ())))"

definition adjustMySQLStock :: "int \<Rightarrow> int \<Rightarrow> int \<Rightarrow> (inv_world, unit) io" where
  "adjustMySQLStock productID delta bucketIdx =
     inv_tx (app_wrap CodeInternal ''begin stock adjust transaction failed'')
            (\<lambda>_. app_wrap CodeInternal ''commit stock adjust transaction failed'')
       (bindE (map_err (app_wrap CodeInternal ''adjust mysql stock bucket failed'')
          (if delta > 0 then sql (bucket_add productID bucketIdx delta) else sql (bucket_change productID bucketIdx delta))) (\<lambda>rows.
        if rows = 0 then fail ErrStockInsufficient
        else bindE (mysqlBucketTotalTx productID) (\<lambda>(n, ok).
        if \<not> ok then fail ErrStockNotFound
        else bindE (map_err (app_wrap CodeInternal ''update product stock total failed'')
          (sql (product_set_stock productID n))) (\<lambda>rows.
        if rows = 0 then fail ErrStockNotFound else ret ()))))"

definition snapshot_upsert :: "stock \<Rightarrow> (inv_tables, unit) io" where
  "snapshot_upsert s d =
     (let v = (case map_of (snapshots d) (ProductID s) of None \<Rightarrow> 0 | Some x \<Rightarrow> s_version x + 1)
      in (Inr (), d\<lparr>snapshots := AList.update (ProductID s)
            \<lparr>s_available = Available s, s_reserved = Reserved s, s_total = Total s, s_source = ''inventory-kitex'', s_version = v\<rparr>
            (snapshots d)\<rparr>))"

definition upsertStockSnapshot :: "inv_config \<Rightarrow> stock \<Rightarrow> (inv_world, unit) io" where
  "upsertStockSnapshot r s =
     (if \<not> has_db r \<or> ProductID s \<le> 0 then ret ()
      else map_err (app_wrap CodeInternal ''upsert stock snapshot failed'') (sql (snapshot_upsert s)))"

definition insertStockChangeLog ::
  "inv_config \<Rightarrow> string \<Rightarrow> int \<Rightarrow> string \<Rightarrow> int \<Rightarrow> int \<Rightarrow> stock \<Rightarrow> stock \<Rightarrow> stock_change_meta \<Rightarrow> (inv_world, unit) io" where
  "insertStockChangeLog r changeType productID orderID delta bucketIdx before after meta =
     (if \<not> has_db r then ret ()
      else let orderID = (if orderID = [] then metaOrderID meta else orderID)
           in map_err (app_wrap CodeInternal ''insert stock change log failed'')
                (sql (\<lambda>d. (Inr (), d\<lparr>change_log := change_log d @
                   [\<lparr>c_product_id = productID, c_order_id = orderID, c_change_type = changeType, c_delta = delta,
                     c_bucket_idx = bucketIdx, 
                     c_before_available = Available before, c_before_reserved = Reserved before, c_before_total = Total before,
                     c_after_available = Available after, c_after_reserved = Reserved after, c_after_total = Total after,
                     c_reason = metaReason meta, c_request_id = metaRequestID meta, c_trace_id = metaTraceID meta,
                     c_operator_user_id = metaUserID meta, c_operator_merchant_id = metaMerchantID meta,
                     c_operator_role = metaRole meta\<rparr>]\<rparr>))))"

section \<open>Final deduction\<close>

text \<open>\<open>type LIKE 'DEDUCT_BUCKET_%'\<close>: the underscores of the pattern match any character.\<close>

definition like_deduct :: "string \<Rightarrow> bool" where
  "like_deduct s \<longleftrightarrow> 14 \<le> length s \<and> take 6 s = ''DEDUCT'' \<and> take 6 (drop 7 s) = ''BUCKET''"

definition stockDeductBucketLogType :: "int \<Rightarrow> string" where
  "stockDeductBucketLogType bucketIdx = ''DEDUCT_BUCKET_'' @ show_int bucketIdx"

text \<open>\<open>fmt.Sscanf(logType, "DEDUCT_BUCKET_%d", ...)\<close>: the literal prefix, then the longest number.\<close>

definition scan_deduct :: "string \<Rightarrow> int option" where
  "scan_deduct s =
     (if take 14 s = ''DEDUCT_BUCKET_''
      then let t = drop 14 s;
               sign = (case t of c # _ \<Rightarrow> if c = CHR ''-'' \<or> c = CHR ''+'' then 1 else 0 | [] \<Rightarrow> 0)
           in ParseInt (take sign t @ takeWhile is_digit (drop sign t))
      else None)"

definition deduct_logs :: "inv_tables \<Rightarrow> string \<Rightarrow> string list" where
  "deduct_logs d k = map snd (filter (\<lambda>(o1, t). o1 = k \<and> like_deduct t) (stock_log d))"

definition stockDeductLogExists :: "string \<Rightarrow> (inv_world, bool) io" where
  "stockDeductLogExists orderID =
     bindE (attempt (sql (\<lambda>d. (if deduct_logs d orderID = [] then Inl ErrNoRows else Inr (), d)))) (\<lambda>x. case x of
       Inr _ \<Rightarrow> ret True
     | Inl e \<Rightarrow> if e = ErrNoRows then ret False else fail (app_wrap CodeInternal ''read stock deduct log failed'' e))"

text \<open>\<open>ORDER BY CASE WHEN bucket_idx = preferred THEN 0 ELSE 1 END, bucket_idx LIMIT 1\<close>.\<close>

definition pick_bucket :: "inv_tables \<Rightarrow> int \<Rightarrow> int \<Rightarrow> int \<Rightarrow> int option" where
  "pick_bucket d p q preferred =
     (let ok = map (\<lambda>((p', i), b). i) (filter (\<lambda>(k, b). b_stock b \<ge> q) (product_buckets d p))
      in case sort_key (\<lambda>i. (if i = preferred then 0 else 1 :: int, i)) ok of [] \<Rightarrow> None | i # _ \<Rightarrow> Some i)"

definition lockDeductibleStockBucket :: "int \<Rightarrow> int \<Rightarrow> int \<Rightarrow> (inv_world, int) io" where
  "lockDeductibleStockBucket productID quantity preferredBucketIdx =
     bindE (attempt (sql (\<lambda>d. (case pick_bucket d productID quantity preferredBucketIdx of
                                  Some i \<Rightarrow> Inr i | None \<Rightarrow> Inl ErrNoRows, d)))) (\<lambda>x. case x of
       Inr bucketIdx \<Rightarrow> ret bucketIdx
     | Inl e \<Rightarrow>
         if e \<noteq> ErrNoRows then fail (app_wrap CodeInternal ''lock mysql stock bucket failed'' e)
         else bindE (attempt (sql (\<lambda>d. (if product_buckets d productID = [] then Inl ErrNoRows else Inr (), d)))) (\<lambda>y. case y of
           Inl e' \<Rightarrow> if e' = ErrNoRows then fail ErrStockNotFound
                     else fail (app_wrap CodeInternal ''read mysql stock bucket failed'' e')
         | Inr _ \<Rightarrow> fail ErrStockInsufficient))"

text \<open>\<open>INSERT IGNORE INTO stock_log\<close> under the unique key (order_id, type): the affected rows.\<close>

definition stock_log_insert :: "string \<Rightarrow> string \<Rightarrow> (inv_tables, int) io" where
  "stock_log_insert k t d =
     (if (k, t) \<in> set (stock_log d) then (Inr 0, d) else (Inr 1, d\<lparr>stock_log := stock_log d @ [(k, t)]\<rparr>))"

text \<open>The body's result says which commit it returned at: \<open>True\<close> where the code returns \<open>tx.Commit()\<close>'s error as it is.\<close>

definition plain_commit :: "string \<Rightarrow> bool \<Rightarrow> go_error \<Rightarrow> go_error" where
  "plain_commit msg early e = (if early then e else app_wrap CodeInternal msg e)"

definition confirm_deduct_body :: "inv_config \<Rightarrow> string \<Rightarrow> int \<Rightarrow> int \<Rightarrow> (inv_world, bool) io" where
  "confirm_deduct_body r orderID productID quantity =
     bindE (stockDeductLogExists orderID) (\<lambda>ex.
     if ex then ret True
     else bindE (lockDeductibleStockBucket productID quantity (StockShardStartIndex orderID (shardCount r))) (\<lambda>bucketIdx.
     bindE (map_err (app_wrap CodeInternal ''insert stock deduct log failed'')
       (sql (stock_log_insert orderID (stockDeductBucketLogType bucketIdx)))) (\<lambda>affected.
     if affected = 0 then ret True
     else bindE (map_err (app_wrap CodeInternal ''deduct mysql stock bucket failed'')
       (sql (bucket_change productID bucketIdx (- quantity)))) (\<lambda>_.
     ret False))))"

definition confirmMySQLDeduct :: "inv_config \<Rightarrow> string \<Rightarrow> int \<Rightarrow> int \<Rightarrow> (inv_world, unit) io" where
  "confirmMySQLDeduct r orderID productID quantity =
     bindE (inv_tx (app_wrap CodeInternal ''begin stock deduct transaction failed'')
                   (plain_commit ''commit stock deduct transaction failed'')
                   (confirm_deduct_body r orderID productID quantity)) (\<lambda>_. ret ())"

definition stockDeductBucketFromLog :: "string \<Rightarrow> (inv_world, int \<times> bool) io" where
  "stockDeductBucketFromLog orderID =
     bindE (attempt (sql (\<lambda>d. (if deduct_logs d orderID = [] then Inl ErrNoRows else Inr (last (deduct_logs d orderID)), d)))) (\<lambda>x. case x of
       Inl e \<Rightarrow> if e = ErrNoRows then ret (0, False) else fail (app_wrap CodeInternal ''read stock deduct log failed'' e)
     | Inr logType \<Rightarrow> (case scan_deduct logType of
           None \<Rightarrow> fail (app_wrap CodeInternal ''parse stock deduct bucket failed'' (RawError ''input does not match format''))
         | Some bucketIdx \<Rightarrow> ret (bucketIdx, True)))"

definition release_deduct_body :: "string \<Rightarrow> int \<Rightarrow> int \<Rightarrow> (inv_world, bool) io" where
  "release_deduct_body orderID productID quantity =
     bindE (stockDeductBucketFromLog orderID) (\<lambda>(bucketIdx, ok).
     if \<not> ok then ret True
     else bindE (map_err (app_wrap CodeInternal ''insert stock release log failed'')
       (sql (stock_log_insert orderID ''REVERT''))) (\<lambda>affected.
     if affected = 0 then ret True
     else bindE (map_err (app_wrap CodeInternal ''release mysql stock bucket failed'')
       (sql (bucket_add productID bucketIdx quantity))) (\<lambda>_.
     ret False)))"

definition releaseMySQLDeduct :: "string \<Rightarrow> int \<Rightarrow> int \<Rightarrow> (inv_world, unit) io" where
  "releaseMySQLDeduct orderID productID quantity =
     bindE (inv_tx (app_wrap CodeInternal ''begin stock release transaction failed'')
                   (plain_commit ''commit stock release transaction failed'')
                   (release_deduct_body orderID productID quantity)) (\<lambda>_. ret ())"

end
