(* ===== verification/Final_Deduct.thy ===== *)
theory Final_Deduct
  imports Stock_Persistence
begin

text \<open>
  The final deduction of a confirmed order from the MySQL buckets and its reversal: under every
  schedule of lost requests and replies each takes effect at most once, and an answered success
  means that it took effect.
\<close>

section \<open>Bucket sums\<close>

definition buckets_ok :: "inv_tables \<Rightarrow> bool" where
  "buckets_ok d \<longleftrightarrow> distinct (map fst (buckets d))"

definition bucket_stock :: "inv_tables \<Rightarrow> int \<Rightarrow> int \<Rightarrow> int" where
  "bucket_stock d p i = (case map_of (buckets d) (p, i) of None \<Rightarrow> 0 | Some b \<Rightarrow> b_stock b)"

lemma sum_alist_update:
  fixes g :: "'k \<Rightarrow> 'v \<Rightarrow> int"
  assumes "distinct (map fst bs)"
  shows "sum_list (map (\<lambda>(k, v). g k v) (AList.update k v bs)) =
     sum_list (map (\<lambda>(k, v). g k v) bs) + g k v - (case map_of bs k of None \<Rightarrow> 0 | Some u \<Rightarrow> g k u)"
  using assms
proof (induction bs)
  case (Cons kb bs)
  obtain k' b where "kb = (k', b)" by fastforce
  then show ?case using Cons by (cases "k' = k") simp_all
qed simp

lemma bucket_sum_alt:
  "bucket_sum d a = sum_list (map (\<lambda>(k, b). if fst k = a then b_stock b else 0) (buckets d))"
  unfolding bucket_sum_def product_buckets_def
  unfolding sum_list_map_filter' by (rule arg_cong [of _ _ sum_list]) (auto split: prod.splits)

lemma bucket_sum_update:
  assumes "buckets_ok d" "buckets d' = AList.update (p, i) v (buckets d)"
  shows "bucket_sum d' a = bucket_sum d a + (if a = p then b_stock v - bucket_stock d p i else 0)"
  using sum_alist_update [OF assms(1) [unfolded buckets_ok_def], of "\<lambda>k b. if fst k = a then b_stock b else 0" "(p, i)" v]
  unfolding bucket_sum_alt assms(2) bucket_stock_def by (auto split: option.splits)

lemma buckets_ok_update: "buckets_ok d \<Longrightarrow> buckets d' = AList.update k v (buckets d) \<Longrightarrow> buckets_ok d'"
  by (simp add: buckets_ok_def AList.distinct_update)

lemma bucket_sum_cong: "buckets d' = buckets d \<Longrightarrow> bucket_sum d' a = bucket_sum d a"
  by (simp add: bucket_sum_def product_buckets_def)

lemma bucket_change_Inr:
  assumes "bucket_change p i v d = (Inr n, d')" "buckets_ok d"
  shows "n \<noteq> 0 \<Longrightarrow> bucket_sum d' a = bucket_sum d a + (if a = p then v else 0)"
    "buckets_ok d'" "stock_log d' = stock_log d" "n = 0 \<Longrightarrow> d' = d"
    "bucket_stock d p i + v \<ge> 0 \<Longrightarrow> map_of (buckets d) (p, i) \<noteq> None \<Longrightarrow> n \<noteq> 0"
  using assms bucket_sum_update [OF assms(2), of d' p i _ a] buckets_ok_update [OF assms(2)]
  by (auto simp: bucket_change_def bucket_stock_def split: option.splits if_splits)

lemma bucket_add_Inr:
  assumes "bucket_add p i v d = (Inr n, d')" "buckets_ok d"
  shows "bucket_sum d' a = bucket_sum d a + (if a = p then v else 0)"
    "buckets_ok d'" "stock_log d' = stock_log d"
  using assms bucket_sum_update [OF assms(2), of d' p i _ a] buckets_ok_update [OF assms(2)]
  by (auto simp: bucket_add_def bucket_stock_def split: option.splits)

section \<open>The deduction log\<close>

lemma like_deduct_log [simp]: "like_deduct (stockDeductBucketLogType i)"
  using show_int_nonempty [of i] by (auto simp: like_deduct_def Suc_le_eq stockDeductBucketLogType_def)

lemma like_deduct_revert [simp]: "\<not> like_deduct ''REVERT''"
  by (simp add: like_deduct_def)

lemma scan_deduct_log: "in_i64 i \<Longrightarrow> scan_deduct (stockDeductBucketLogType i) = Some i"
proof -
  assume r: "in_i64 i"
  have tw: "takeWhile is_digit (show_nat n) = show_nat n" for n
    using show_nat_digits [of n] by (simp add: list_all_iff)
  have "(case show_int i of c # _ \<Rightarrow> if c = CHR ''-'' \<or> c = CHR ''+'' then 1 else 0 | [] \<Rightarrow> 0) = (if i < 0 then 1 else 0 :: nat)"
    using show_nat_no_sign [of _ "nat i"] by (cases "show_nat (nat i)") (auto simp: show_int_def)
  then show ?thesis
    using r ParseInt_show_int [OF r]
    by (auto simp: scan_deduct_def stockDeductBucketLogType_def Let_def show_int_def tw)
qed

lemma pick_bucket_Some:
  assumes "pick_bucket d p q x = Some i"
  shows "map_of (buckets d) (p, i) \<noteq> None \<and> (buckets_ok d \<longrightarrow> q \<le> bucket_stock d p i)"
proof -
  let ?ok = "map (\<lambda>((p', i), b). i) (filter (\<lambda>(k, b). b_stock b \<ge> q) (product_buckets d p))"
  let ?key = "\<lambda>i. (if i = x then 0 else 1 :: int, i)"
  have "i \<in> set (sort_key ?key ?ok)"
    using assms by (cases "sort_key ?key ?ok") (simp_all add: pick_bucket_def Let_def del: set_sort)
  then obtain b where b: "((p, i), b) \<in> set (buckets d)" "q \<le> b_stock b"
    by (auto simp: product_buckets_def)
  then have "map_of (buckets d) (p, i) \<noteq> None" by (metis option.distinct(1) weak_map_of_SomeI)
  moreover have "q \<le> bucket_stock d p i" if "buckets_ok d"
    using that b by (simp add: buckets_ok_def bucket_stock_def)
  ultimately show ?thesis by blast
qed

lemma stockDeductLogExists_Inr:
  assumes "stockDeductLogExists k w = (Inr ex, w')"
  shows "ex = (deduct_logs (inv_db w) k \<noteq> []) \<and> inv_db w' = inv_db w"
  using assms unfolding stockDeductLogExists_def
  by (auto elim!: bindE_InrE dest!: attempt_InrD sql_Inr sql_Inl ret_InrD split: sum.splits if_splits)

lemma lockDeductibleStockBucket_Inr:
  assumes "lockDeductibleStockBucket p q x w = (Inr i, w')"
  shows "pick_bucket (inv_db w) p q x = Some i \<and> inv_db w' = inv_db w"
  using assms unfolding lockDeductibleStockBucket_def
  by (auto elim!: bindE_InrE dest!: attempt_InrD sql_Inr ret_InrD split: sum.splits if_splits option.splits)

section \<open>Deduction\<close>

definition reverted :: "inv_tables \<Rightarrow> string \<Rightarrow> bool" where
  "reverted d k \<longleftrightarrow> (k, ''REVERT'') \<in> set (stock_log d)"

text \<open>\<open>d'\<close> is \<open>d\<close> with the order's units deducted, respectively given back, and the log saying so.\<close>

definition deducted :: "string \<Rightarrow> int \<Rightarrow> int \<Rightarrow> inv_tables \<Rightarrow> inv_tables \<Rightarrow> bool" where
  "deducted k p q d d' \<longleftrightarrow> deduct_logs d k = [] \<and> deduct_logs d' k \<noteq> [] \<and> buckets_ok d' \<and> reverted d' k = reverted d k \<and>
     (\<forall>a. bucket_sum d' a = bucket_sum d a - (if a = p then q else 0))"

definition given_back :: "string \<Rightarrow> int \<Rightarrow> int \<Rightarrow> inv_tables \<Rightarrow> inv_tables \<Rightarrow> bool" where
  "given_back k p q d d' \<longleftrightarrow> deduct_logs d k \<noteq> [] \<and> \<not> reverted d k \<and> reverted d' k \<and> buckets_ok d' \<and>
     deduct_logs d' k = deduct_logs d k \<and>
     (\<forall>a. bucket_sum d' a = bucket_sum d a + (if a = p then q else 0))"

lemma stock_log_insert_Inr:
  assumes "stock_log_insert k t d = (Inr n, d')"
  shows "buckets d' = buckets d" "n = 0 \<Longrightarrow> (k, t) \<in> set (stock_log d) \<and> d' = d"
    "n \<noteq> 0 \<Longrightarrow> (k, t) \<notin> set (stock_log d) \<and> stock_log d' = stock_log d @ [(k, t)]"
  using assms by (auto simp: stock_log_insert_def split: if_splits)

lemma deduct_logs_append:
  "stock_log d' = stock_log d @ [(k, t)] \<Longrightarrow> deduct_logs d' k = deduct_logs d k @ (if like_deduct t then [t] else [])"
  by (simp add: deduct_logs_def)

lemma deduct_logs_cong: "stock_log d' = stock_log d \<Longrightarrow> deduct_logs d' k = deduct_logs d k"
  by (simp add: deduct_logs_def)

lemma deduct_tables:
  assumes ok: "buckets_ok d" and none: "deduct_logs d k = []" and pick: "pick_bucket d p q x = Some i"
    and log: "stock_log_insert k (stockDeductBucketLogType i) d = (Inr n, d1)"
    and upd: "bucket_change p i (- q) d1 = (Inr m, d2)"
  shows "n \<noteq> 0 \<and> deducted k p q d d2"
proof -
  have n: "n \<noteq> 0"
  proof
    assume "n = 0"
    then have "(k, stockDeductBucketLogType i) \<in> set (stock_log d)" using stock_log_insert_Inr(2) [OF log] by simp
    then show False using none by (auto simp: deduct_logs_def filter_empty_conv)
  qed
  have b1: "buckets d1 = buckets d" by (rule stock_log_insert_Inr(1) [OF log])
  have l1: "stock_log d1 = stock_log d @ [(k, stockDeductBucketLogType i)]" using stock_log_insert_Inr(3) [OF log n] by simp
  have ok1: "buckets_ok d1" using ok b1 by (simp add: buckets_ok_def)
  have "m \<noteq> 0"
    using bucket_change_Inr(5) [OF upd ok1] pick_bucket_Some [OF pick] ok b1 by (simp add: bucket_stock_def)
  then have "bucket_sum d2 a = bucket_sum d a - (if a = p then q else 0)" for a
    using bucket_change_Inr(1) [OF upd ok1, of a] bucket_sum_cong [OF b1, of a] by auto
  moreover have l2: "stock_log d2 = stock_log d1" by (rule bucket_change_Inr(3) [OF upd ok1])
  moreover have "deduct_logs d2 k \<noteq> []" using deduct_logs_append [OF l1] deduct_logs_cong [OF l2, of k] by simp
  moreover have "reverted d2 k = reverted d k"
    using l1 l2 by (auto simp: reverted_def stockDeductBucketLogType_def)
  ultimately show ?thesis using n none bucket_change_Inr(2) [OF upd ok1] by (simp add: deducted_def)
qed

lemma confirm_deduct_body_Inr:
  assumes run: "confirm_deduct_body r k p q w = (Inr a, w')" and ok: "buckets_ok (inv_db w)"
  shows "inv_db w' = inv_db w \<and> deduct_logs (inv_db w) k \<noteq> [] \<or> deducted k p q (inv_db w) (inv_db w')"
  using run unfolding confirm_deduct_body_def
proof (elim bindE_InrE, goal_cases)
  case (1 ex w3)
  have ex: "ex = (deduct_logs (inv_db w) k \<noteq> [])" "inv_db w3 = inv_db w"
    using stockDeductLogExists_Inr [OF 1(1)] by auto
  show ?case
  proof (cases ex)
    case True
    then show ?thesis using 1(2) ex by (auto dest!: ret_InrD)
  next
    case False
    then show ?thesis using 1(2) ex ok deduct_tables [OF ok, of k p q]
      by (auto elim!: bindE_InrE dest!: map_err_InrD sql_Inr ret_InrD lockDeductibleStockBucket_Inr split: if_splits)
         (auto dest!: stock_log_insert_Inr(2) simp: deduct_logs_def filter_empty_conv)
  qed
qed

lemma deduct_tx_effect:
  assumes run: "bindE (inv_tx be ce body) (\<lambda>_. ret ()) w = (x, w')"
    and body: "\<And>w0 a w1. body w0 = (Inr a, w1) \<Longrightarrow> inv_db w0 = inv_db w \<Longrightarrow> P (inv_db w1)"
  shows "(\<exists>e. x = Inl e) \<and> inv_db w' = inv_db w \<or> P (inv_db w')"
  using run
proof (rule bindE_cases)
  fix e assume "inv_tx be ce body w = (Inl e, w')" "x = Inl e"
  then show ?thesis by (elim inv_tx_cases) (auto dest: body)
next
  fix a w1 assume "inv_tx be ce body w = (Inr a, w1)" "ret () w1 = (x, w')"
  then show ?thesis by (elim inv_tx_cases) (auto dest: body simp: ret_def)
qed

lemma confirmMySQLDeduct_effect:
  assumes run: "confirmMySQLDeduct r k p q w = (x, w')" and ok: "buckets_ok (inv_db w)"
  shows "(inv_db w' = inv_db w \<and> (x = Inr () \<longrightarrow> deduct_logs (inv_db w) k \<noteq> [])) \<or> deducted k p q (inv_db w) (inv_db w')"
proof -
  have "(\<exists>e. x = Inl e) \<and> inv_db w' = inv_db w \<or>
      inv_db w' = inv_db w \<and> deduct_logs (inv_db w) k \<noteq> [] \<or> deducted k p q (inv_db w) (inv_db w')"
    using run unfolding confirmMySQLDeduct_def
    by (rule deduct_tx_effect) (use ok in \<open>metis confirm_deduct_body_Inr\<close>)
  then show ?thesis by auto
qed

section \<open>Reversal\<close>

lemma stockDeductBucketFromLog_Inr:
  assumes "stockDeductBucketFromLog k w = (Inr (i, ok), w')"
  shows "inv_db w' = inv_db w \<and> ok = (deduct_logs (inv_db w) k \<noteq> [])"
  using assms unfolding stockDeductBucketFromLog_def
  by (auto elim!: bindE_InrE dest!: attempt_InrD sql_Inr sql_Inl ret_InrD split: sum.splits if_splits option.splits)

lemma release_tables:
  assumes ok: "buckets_ok d" and logged: "deduct_logs d k \<noteq> []"
    and log: "stock_log_insert k ''REVERT'' d = (Inr n, d1)" and n: "n \<noteq> 0"
    and upd: "bucket_add p i q d1 = (Inr m, d2)"
  shows "given_back k p q d d2"
proof -
  have b1: "buckets d1 = buckets d" by (rule stock_log_insert_Inr(1) [OF log])
  have l1: "stock_log d1 = stock_log d @ [(k, ''REVERT'')]" "\<not> reverted d k"
    using stock_log_insert_Inr(3) [OF log n] by (auto simp: reverted_def)
  have ok1: "buckets_ok d1" using ok b1 by (simp add: buckets_ok_def)
  have l2: "stock_log d2 = stock_log d1" by (rule bucket_add_Inr(3) [OF upd ok1])
  have "bucket_sum d2 a = bucket_sum d a + (if a = p then q else 0)" for a
    using bucket_add_Inr(1) [OF upd ok1, of a] bucket_sum_cong [OF b1, of a] by auto
  moreover have "deduct_logs d2 k = deduct_logs d k"
    using deduct_logs_append [OF l1(1)] deduct_logs_cong [OF l2, of k] by simp
  ultimately show ?thesis
    using logged l1 l2 bucket_add_Inr(2) [OF upd ok1] by (simp add: given_back_def reverted_def)
qed

lemma release_deduct_body_Inr:
  assumes run: "release_deduct_body k p q w = (Inr a, w')" and ok: "buckets_ok (inv_db w)"
  shows "inv_db w' = inv_db w \<and> (deduct_logs (inv_db w) k = [] \<or> reverted (inv_db w) k) \<or>
         given_back k p q (inv_db w) (inv_db w')"
  using run unfolding release_deduct_body_def
proof (elim bindE_InrE, goal_cases)
  case (1 x w3)
  obtain i f where x: "x = (i, f)" by fastforce
  have f: "f = (deduct_logs (inv_db w) k \<noteq> [])" "inv_db w3 = inv_db w"
    using stockDeductBucketFromLog_Inr 1(1) x by auto
  show ?case
  proof (cases f)
    case False
    then show ?thesis using 1(2) f x by (auto dest!: ret_InrD)
  next
    case True
    then show ?thesis using 1(2) f x release_tables [OF ok, of k]
      by (auto elim!: bindE_InrE dest!: map_err_InrD sql_Inr ret_InrD split: if_splits)
         (auto dest!: stock_log_insert_Inr(2) simp: reverted_def)
  qed
qed

lemma releaseMySQLDeduct_effect:
  assumes run: "releaseMySQLDeduct k p q w = (x, w')" and ok: "buckets_ok (inv_db w)"
  shows "(inv_db w' = inv_db w \<and> (x = Inr () \<longrightarrow> deduct_logs (inv_db w) k = [] \<or> reverted (inv_db w) k)) \<or>
         given_back k p q (inv_db w) (inv_db w')"
proof -
  have "(\<exists>e. x = Inl e) \<and> inv_db w' = inv_db w \<or>
      inv_db w' = inv_db w \<and> (deduct_logs (inv_db w) k = [] \<or> reverted (inv_db w) k) \<or> given_back k p q (inv_db w) (inv_db w')"
    using run unfolding releaseMySQLDeduct_def
    by (rule deduct_tx_effect) (use ok in \<open>metis release_deduct_body_Inr\<close>)
  then show ?thesis by auto
qed

section \<open>Attempts\<close>

fun attempts :: "nat \<Rightarrow> ('w, 'a) io \<Rightarrow> 'w \<Rightarrow> 'w" where
  "attempts 0 m w = w"
| "attempts (Suc n) m w = attempts n m (snd (m w))"

lemma attempts_rel:
  assumes "\<And>v. R (f w) (f v) \<Longrightarrow> R (f w) (f (snd (m v)))" "R (f w) (f w)"
  shows "R (f w) (f (attempts n m w))"
proof -
  have "R (f w) (f v) \<Longrightarrow> R (f w) (f (attempts n m v))" for v
    by (induction n arbitrary: v) (auto intro: assms(1))
  then show ?thesis using assms(2) .
qed

lemma deduct_step:
  assumes ok: "buckets_ok d0" and rel: "inv_db w = d0 \<or> deducted k p q d0 (inv_db w)"
  shows "inv_db (snd (confirmMySQLDeduct r k p q w)) = d0 \<or> deducted k p q d0 (inv_db (snd (confirmMySQLDeduct r k p q w)))"
proof -
  obtain x w' where run: "confirmMySQLDeduct r k p q w = (x, w')" by fastforce
  have okw: "buckets_ok (inv_db w)" using ok rel by (auto simp: deducted_def)
  show ?thesis using confirmMySQLDeduct_effect [OF run okw] rel run by (auto simp: deducted_def)
qed

text \<open>
  C8: however often the final deduction of an order is attempted, and whatever requests, replies or
  commits are lost on the way, the MySQL buckets lose the order's quantity at most once; once an
  attempt answers success they have lost it exactly once, and no other product's buckets changed.
\<close>

theorem final_deduct_exactly_once:
  fixes r :: inv_config and p q :: int and n :: nat
  assumes ok: "buckets_ok (inv_db w)" and new: "deduct_logs (inv_db w) k = []"
  defines "w1 \<equiv> attempts n (confirmMySQLDeduct r k p q) w"
  shows "bucket_sum (inv_db w1) p \<in> {bucket_sum (inv_db w) p, bucket_sum (inv_db w) p - q} \<and>
    (fst (confirmMySQLDeduct r k p q w1) = Inr () \<longrightarrow>
       (\<forall>a. bucket_sum (inv_db (snd (confirmMySQLDeduct r k p q w1))) a = bucket_sum (inv_db w) a - (if a = p then q else 0)))"
proof -
  have rel: "inv_db w1 = inv_db w \<or> deducted k p q (inv_db w) (inv_db w1)"
    unfolding w1_def
    by (rule attempts_rel [where R = "\<lambda>d d'. d' = d \<or> deducted k p q d d'" and f = inv_db])
       (rule deduct_step [OF ok], simp_all)
  obtain x w2 where run: "confirmMySQLDeduct r k p q w1 = (x, w2)" by fastforce
  have ok1: "buckets_ok (inv_db w1)" using ok rel by (auto simp: deducted_def)
  from confirmMySQLDeduct_effect [OF run ok1] rel new run show ?thesis by (auto simp: deducted_def)
qed

lemma release_step:
  assumes ok: "buckets_ok d0" and rel: "inv_db w = d0 \<or> given_back k p q d0 (inv_db w)"
  shows "inv_db (snd (releaseMySQLDeduct k p q w)) = d0 \<or> given_back k p q d0 (inv_db (snd (releaseMySQLDeduct k p q w)))"
proof -
  obtain x w' where run: "releaseMySQLDeduct k p q w = (x, w')" by fastforce
  have okw: "buckets_ok (inv_db w)" using ok rel by (auto simp: given_back_def)
  show ?thesis using releaseMySQLDeduct_effect [OF run okw] rel run by (auto simp: given_back_def)
qed

text \<open>
  C11: after an order's final deduction succeeded, any number of reversal attempts under any losses,
  the last of which succeeds, restores the bucket sums of all products to what they were before
  the deduction, and gives the quantity back only once.
\<close>

theorem final_deduct_release_roundtrip:
  fixes r :: inv_config and p q :: int and n :: nat
  assumes ok: "buckets_ok (inv_db w)" and new: "deduct_logs (inv_db w) k = []" "\<not> reverted (inv_db w) k"
    and confirm: "fst (confirmMySQLDeduct r k p q w) = Inr ()"
  defines "w1 \<equiv> attempts n (releaseMySQLDeduct k p q) (snd (confirmMySQLDeduct r k p q w))"
  assumes release: "fst (releaseMySQLDeduct k p q w1) = Inr ()"
  shows "bucket_sum (inv_db (snd (releaseMySQLDeduct k p q w1))) a = bucket_sum (inv_db w) a"
proof -
  obtain w0 where c: "confirmMySQLDeduct r k p q w = (Inr (), w0)" using confirm by (metis prod.collapse)
  have d: "deducted k p q (inv_db w) (inv_db w0)" using confirmMySQLDeduct_effect [OF c ok] new(1) by auto
  then have ok0: "buckets_ok (inv_db w0)" by (simp add: deducted_def)
  have rel: "inv_db w1 = inv_db w0 \<or> given_back k p q (inv_db w0) (inv_db w1)"
    unfolding w1_def c snd_conv
    by (rule attempts_rel [where R = "\<lambda>d d'. d' = d \<or> given_back k p q d d'" and f = inv_db])
       (rule release_step [OF ok0], simp_all)
  obtain w2 where run: "releaseMySQLDeduct k p q w1 = (Inr (), w2)" using release by (metis prod.collapse)
  have ok1: "buckets_ok (inv_db w1)" using ok0 rel by (auto simp: given_back_def)
  from releaseMySQLDeduct_effect [OF run ok1] rel d new run show ?thesis by (auto simp: given_back_def deducted_def)
qed

text \<open>A concrete world: one bucket of product 7 with five units.\<close>

definition demo_tables :: inv_tables where
  "demo_tables = \<lparr>buckets = [((7, 0), \<lparr>b_stock = 5, b_version = 0\<rparr>)], products = [(7, \<lparr>pr_stock = 5, pr_version = 0\<rparr>)],
     ledger = [], stock_log = [], change_log = [], snapshots = [], tables = []\<rparr>"

definition demo_world :: "fault list \<Rightarrow> inv_world" where
  "demo_world fs = \<lparr>faults = fs, inv_redis = demo_store, inv_db = demo_tables, inv_now = 0\<rparr>"

definition demo_config :: inv_config where
  "demo_config = \<lparr>has_db = True, shardCount = 1, finalDeductEnabled = True, reservationLedgerMode = ''enforce''\<rparr>"

lemmas deduct_eval = confirmMySQLDeduct_def confirm_deduct_body_def releaseMySQLDeduct_def release_deduct_body_def
  stockDeductLogExists_def lockDeductibleStockBucket_def stockDeductBucketFromLog_def inv_tx_def sql_def
  stock_log_insert_def bucket_change_def bucket_add_def pick_bucket_def product_buckets_def deduct_logs_def

lemma demo_deduct:
  "confirmMySQLDeduct demo_config ''o1'' 7 3 (demo_world []) =
     (Inr (), (demo_world [])\<lparr>inv_db := demo_tables\<lparr>buckets := [((7, 0), \<lparr>b_stock = 2, b_version = 1\<rparr>)],
        stock_log := [(''o1'', stockDeductBucketLogType 0)]\<rparr>\<rparr>)"
  by (simp add: deduct_eval io_simps demo_world_def demo_tables_def)

text \<open>A lost commit reply: the first attempt fails although it took effect, the second finds the log.\<close>

lemma demo_deduct_lost:
  "snd (confirmMySQLDeduct demo_config ''o1'' 7 3 (demo_world [Reply, Reply, Reply, Reply, Reply, NoReply ''gone''])) =
     (demo_world [])\<lparr>inv_db := demo_tables\<lparr>buckets := [((7, 0), \<lparr>b_stock = 2, b_version = 1\<rparr>)],
        stock_log := [(''o1'', stockDeductBucketLogType 0)]\<rparr>\<rparr>"
  by (simp add: deduct_eval io_simps demo_world_def demo_tables_def ext_call_def pop_fault_def)

theorem final_deduct_exactly_once_witness:
  "bucket_sum (inv_db (attempts 1 (confirmMySQLDeduct demo_config ''o1'' 7 3)
     (demo_world [Reply, Reply, Reply, Reply, Reply, NoReply ''gone'']))) 7 \<in> {5, 2}"
proof -
  have "buckets_ok demo_tables" "deduct_logs demo_tables ''o1'' = []" "bucket_sum demo_tables 7 = 5"
    by (simp_all add: buckets_ok_def demo_tables_def deduct_logs_def bucket_sum_def product_buckets_def)
  then show ?thesis
    using final_deduct_exactly_once [where w = "demo_world [Reply, Reply, Reply, Reply, Reply, NoReply ''gone'']"
        and k = "''o1''" and p = 7 and q = 3 and n = 1 and r = demo_config]
    by (simp add: demo_world_def)
qed

theorem final_deduct_release_roundtrip_witness:
  "bucket_sum (inv_db (snd (releaseMySQLDeduct ''o1'' 7 3
     (attempts 0 (releaseMySQLDeduct ''o1'' 7 3) (snd (confirmMySQLDeduct demo_config ''o1'' 7 3 (demo_world []))))))) 7 = 5"
proof -
  have a: "buckets_ok (inv_db (demo_world []))" "deduct_logs (inv_db (demo_world [])) ''o1'' = []"
    "\<not> reverted (inv_db (demo_world [])) ''o1''" "bucket_sum (inv_db (demo_world [])) 7 = 5"
    by (simp_all add: demo_world_def buckets_ok_def demo_tables_def deduct_logs_def bucket_sum_def product_buckets_def reverted_def)
  have s: "scan_deduct (stockDeductBucketLogType 0) = Some 0" by (rule scan_deduct_log) (simp add: in_i64_def)
  have log_not_revert: "''REVERT'' \<noteq> stockDeductBucketLogType 0" by (simp add: stockDeductBucketLogType_def)
  have "fst (confirmMySQLDeduct demo_config ''o1'' 7 3 (demo_world [])) = Inr ()" by (simp add: demo_deduct)
  moreover have "fst (releaseMySQLDeduct ''o1'' 7 3
     (attempts 0 (releaseMySQLDeduct ''o1'' 7 3) (snd (confirmMySQLDeduct demo_config ''o1'' 7 3 (demo_world []))))) = Inr ()"
    unfolding demo_deduct by (simp add: deduct_eval io_simps demo_world_def demo_tables_def s log_not_revert)
  ultimately show ?thesis
    using final_deduct_release_roundtrip [OF a(1-3), where n = 0 and a = 7] a(4) by simp
qed

end
