(* ===== verification/Reservation_Ledger.thy ===== *)
theory Reservation_Ledger
  imports Final_Deduct
begin

text \<open>
  \<open>app/inventory/repository/reservation_ledger.go\<close>: the durable ledger of reservations, off, in
  shadow mode (its failures are logged and ignored) or enforced, and the schema check of
  \<open>schema_readiness.go\<close>.
\<close>

definition reservationLedgerModeOff :: string where [simp]: "reservationLedgerModeOff = ''off''"
definition reservationLedgerModeShadow :: string where [simp]: "reservationLedgerModeShadow = ''shadow''"
definition reservationLedgerModeEnforce :: string where [simp]: "reservationLedgerModeEnforce = ''enforce''"

definition normalizeReservationLedgerMode :: "string \<Rightarrow> string" where
  "normalizeReservationLedgerMode mode =
     (let m = ToLower (TrimSpace mode)
      in if m = reservationLedgerModeShadow then reservationLedgerModeShadow
         else if m = reservationLedgerModeEnforce then reservationLedgerModeEnforce
         else reservationLedgerModeOff)"

definition WithReservationLedgerMode :: "string \<Rightarrow> inv_config \<Rightarrow> inv_config" where
  "WithReservationLedgerMode mode r = r\<lparr>reservationLedgerMode := normalizeReservationLedgerMode mode\<rparr>"

abbreviation ledger_mode :: "inv_config \<Rightarrow> string" where
  "ledger_mode r \<equiv> normalizeReservationLedgerMode (reservationLedgerMode r)"

record ledger_record =
  lr_OrderID :: string
  lr_ProductID :: int
  lr_Quantity :: int
  lr_ShardIndex :: int
  lr_Status :: string
  lr_ExpiresAt :: int
  lr_RequestID :: string
  lr_TraceID :: string

definition no_ledger_record :: ledger_record where
  "no_ledger_record = \<lparr>lr_OrderID = [], lr_ProductID = 0, lr_Quantity = 0, lr_ShardIndex = 0, lr_Status = [],
     lr_ExpiresAt = 0, lr_RequestID = [], lr_TraceID = []\<rparr>"

text \<open>\<open>INSERT ... ON DUPLICATE KEY UPDATE order_id = VALUES(order_id)\<close>: an existing row stays as it is, 0 rows.\<close>

definition ledger_insert :: "ledger_record \<Rightarrow> (inv_tables, int) io" where
  "ledger_insert rec d = (case map_of (ledger d) (lr_OrderID rec) of
       Some x \<Rightarrow> (Inr 0, d)
     | None \<Rightarrow> (Inr 1, d\<lparr>ledger := AList.update (lr_OrderID rec)
          \<lparr>l_product_id = lr_ProductID rec, l_quantity = lr_Quantity rec, l_shard_index = lr_ShardIndex rec,
           l_status = ToUpper (lr_Status rec), l_expires_at = lr_ExpiresAt rec, l_version = 0,
           l_request_id = lr_RequestID rec, l_trace_id = lr_TraceID rec\<rparr> (ledger d)\<rparr>))"

definition ledger_get :: "string \<Rightarrow> (inv_tables, ledger_row) io" where
  "ledger_get k d = (case map_of (ledger d) k of None \<Rightarrow> (Inl ErrNoRows, d) | Some x \<Rightarrow> (Inr x, d))"

definition ledger_transition :: "string \<Rightarrow> string \<Rightarrow> string list \<Rightarrow> (inv_tables, unit) io" where
  "ledger_transition k target allowed d = (case map_of (ledger d) k of
       Some x \<Rightarrow> if l_status x \<in> set allowed
                 then (Inr (), d\<lparr>ledger := AList.update k (x\<lparr>l_status := target, l_version := l_version x + 1\<rparr>) (ledger d)\<rparr>)
                 else (Inr (), d)
     | None \<Rightarrow> (Inr (), d))"

definition ledger_active :: "int \<Rightarrow> inv_tables \<Rightarrow> int" where
  "ledger_active p d = sum_list (map (\<lambda>(k, x). if l_product_id x = p \<and> l_status x = ''RESERVED'' then l_quantity x else 0) (ledger d))"

definition insertReservationLedger :: "inv_config \<Rightarrow> ledger_record \<Rightarrow> (inv_world, unit) io" where
  "insertReservationLedger r rec =
     (if \<not> has_db r \<or> ledger_mode r = reservationLedgerModeOff then ret ()
      else bindE (map_err (app_wrap CodeInternal ''write inventory reservation ledger failed'') (sql (ledger_insert rec))) (\<lambda>affected.
        if affected = 0
        then bindE (map_err (app_wrap CodeInternal ''read inventory reservation ledger identity failed'')
               (sql (ledger_get (lr_OrderID rec)))) (\<lambda>x.
             if l_product_id x \<noteq> lr_ProductID rec \<or> l_quantity x \<noteq> lr_Quantity rec then fail ErrReservationConflict else ret ())
        else ret ()))"

definition recordReservation :: "inv_config \<Rightarrow> ledger_record \<Rightarrow> (inv_world, unit) io" where
  "recordReservation r rec =
     bindE (attempt (insertReservationLedger r rec)) (\<lambda>x. case x of
       Inl e \<Rightarrow> if ledger_mode r = reservationLedgerModeShadow then ret () else fail e
     | Inr _ \<Rightarrow> ret ())"

definition transitionReservationLedger :: "inv_config \<Rightarrow> string \<Rightarrow> string \<Rightarrow> string list \<Rightarrow> (inv_world, unit) io" where
  "transitionReservationLedger r orderID target allowed =
     (let mode = ledger_mode r
      in if \<not> has_db r \<or> mode = reservationLedgerModeOff \<or> orderID = [] \<or> allowed = [] then ret ()
         else bindE (attempt (sql (ledger_transition orderID (ToUpper target) (map ToUpper allowed)))) (\<lambda>x. case x of
           Inl e \<Rightarrow> if mode = reservationLedgerModeShadow then ret ()
                    else fail (app_wrap CodeInternal ''transition inventory reservation ledger failed'' e)
         | Inr _ \<Rightarrow> ret ()))"

definition expectedReserved :: "int \<Rightarrow> int \<Rightarrow> string \<Rightarrow> int" where
  "expectedReserved rdReserved ledgerReserved mode =
     (let m = normalizeReservationLedgerMode mode;
          reserved = (if m = reservationLedgerModeShadow then (if ledgerReserved > rdReserved then ledgerReserved else rdReserved)
                      else if m = reservationLedgerModeEnforce then ledgerReserved
                      else rdReserved)
      in if reserved < 0 then 0 else reserved)"

definition expectedAvailable :: "int \<Rightarrow> int \<Rightarrow> int \<Rightarrow> string \<Rightarrow> int" where
  "expectedAvailable mysqlTotal rdReserved ledgerReserved mode =
     (let reserved = expectedReserved rdReserved ledgerReserved mode;
          available = i64 (mysqlTotal - reserved)
      in if available < 0 then 0 else available)"

definition activeReservationTotal :: "inv_config \<Rightarrow> int \<Rightarrow> (inv_world, int) io" where
  "activeReservationTotal r productID =
     (let mode = ledger_mode r
      in if \<not> has_db r \<or> mode = reservationLedgerModeOff then ret 0
         else bindE (attempt (sql (\<lambda>d. (Inr (ledger_active productID d), d)))) (\<lambda>x. case x of
           Inl e \<Rightarrow> if mode = reservationLedgerModeShadow then ret 0
                    else fail (app_wrap CodeInternal ''read active inventory reservations failed'' e)
         | Inr n \<Rightarrow> ret n))"

definition loadReservationLedger :: "inv_config \<Rightarrow> string \<Rightarrow> (inv_world, ledger_record \<times> bool) io" where
  "loadReservationLedger r orderID =
     (let mode = ledger_mode r
      in if \<not> has_db r \<or> mode = reservationLedgerModeOff \<or> orderID = [] then ret (no_ledger_record, False)
         else bindE (attempt (sql (ledger_get orderID))) (\<lambda>x. case x of
           Inl e \<Rightarrow> if e = ErrNoRows then ret (no_ledger_record, False)
                    else if mode = reservationLedgerModeShadow then ret (no_ledger_record, False)
                    else fail (app_wrap CodeInternal ''load inventory reservation ledger failed'' e)
         | Inr x \<Rightarrow> ret (\<lparr>lr_OrderID = orderID, lr_ProductID = l_product_id x, lr_Quantity = l_quantity x,
               lr_ShardIndex = l_shard_index x, lr_Status = ToLower (l_status x), lr_ExpiresAt = l_expires_at x,
               lr_RequestID = l_request_id x, lr_TraceID = l_trace_id x\<rparr>, True)))"

section \<open>Schema check\<close>

definition inventoryRequiredTables :: "string list" where
  "inventoryRequiredTables = [''product'', ''stock_log'', ''product_stock_bucket'', ''product_stock_snapshot'',
     ''inventory_reservation'', ''inventory_stock_change_log'']"

fun comma_join :: "string list \<Rightarrow> string" where
  "comma_join [] = []"
| "comma_join [x] = x"
| "comma_join (x # y # ys) = x @ '', '' @ comma_join (y # ys)"

definition checkSchema :: "(inv_world, unit) io" where
  "checkSchema =
     bindE (map_err (app_wrap CodeInternal ''inspect inventory schema failed'')
       (sql (\<lambda>d. (Inr (filter (\<lambda>t. t \<in> set inventoryRequiredTables) (tables d)), d)))) (\<lambda>found.
     let missing = filter (\<lambda>t. t \<notin> set found) inventoryRequiredTables
     in if missing \<noteq> [] then fail (app_new CodeInternal (''inventory schema missing tables: '' @ comma_join missing))
        else ret ())"

definition CheckRuntime :: "inv_config \<Rightarrow> (inv_world, unit) io" where
  "CheckRuntime r =
     bindE (map_err (app_wrap CodeInternal ''inventory redis unavailable'') (EvalCtx (\<lambda>rd. (Inr (VInt64 1), rd)))) (\<lambda>_.
     if has_db r
     then bindE (map_err (app_wrap CodeInternal ''inventory mysql unavailable'') (sql (\<lambda>d. (Inr (), d)))) (\<lambda>_. checkSchema)
     else ret ())"

section \<open>The numbers reconciliation writes\<close>

lemma normalize_idem [simp]: "normalizeReservationLedgerMode (normalizeReservationLedgerMode m) = normalizeReservationLedgerMode m"
  by (simp add: normalizeReservationLedgerMode_def Let_def ToLower_def TrimSpace_def lower_char_def is_space_def)

text \<open>
  What reconciliation writes back is non-negative, and available plus reserved stock never falls
  below the MySQL total; it equals the total whenever the reservations fit into it.
\<close>

theorem expected_stock_bounds:
  assumes "in_i64 t" "0 \<le> t" "in_i64 rr" "in_i64 lr"
  shows "0 \<le> expectedReserved rr lr mode \<and> 0 \<le> expectedAvailable t rr lr mode \<and>
    t \<le> expectedAvailable t rr lr mode + expectedReserved rr lr mode \<and>
    (expectedReserved rr lr mode \<le> t \<longrightarrow> expectedAvailable t rr lr mode + expectedReserved rr lr mode = t)"
proof -
  have r: "0 \<le> expectedReserved rr lr mode" "in_i64 (expectedReserved rr lr mode)"
    using assms by (auto simp: expectedReserved_def Let_def in_i64_def)
  then have "i64 (t - expectedReserved rr lr mode) = t - expectedReserved rr lr mode"
    using assms by (intro i64_id) (auto simp: in_i64_def)
  then show ?thesis using r by (simp add: expectedAvailable_def Let_def)
qed

theorem expected_stock_bounds_witness: "expectedAvailable 10 2 3 ''enforce'' + expectedReserved 2 3 ''enforce'' \<ge> 10"
  using expected_stock_bounds [of 10 2 3 "''enforce''"] by (simp add: in_i64_def)

end
