(* ===== verification/Stock_Commands.thy ===== *)
theory Stock_Commands
  imports Reservation_Ledger
begin

text \<open>
  \<open>app/inventory/repository/stock_commands.go\<close>: the repository's operations on Redis, MySQL and the
  reservation ledger.  A failed operation answers its error; the stocks Go returns beside an error
  are not part of the result.  The lemmas say what an operation may do to the store under any
  fault schedule.
\<close>

section \<open>Operations\<close>

definition GetStock :: "inv_config \<Rightarrow> int \<Rightarrow> (inv_world, stock) io" where
  "GetStock r productID =
     bindE (map_err (app_wrap CodeInternal ''read redis stock failed'') (redisAvailable r productID)) (\<lambda>(available, ex).
     if ex
     then bindE (map_err (app_wrap CodeInternal ''read redis reserved stock failed'') (redisReserved r productID)) (\<lambda>reserved.
          ret \<lparr>ProductID = productID, Available = available, Reserved = reserved, Total = i64 (available + reserved)\<rparr>)
     else if \<not> has_db r then fail ErrStockNotFound
     else bindE (mysqlBucketTotal r productID) (\<lambda>(n, ok).
          if \<not> ok then fail ErrStockNotFound
          else ret \<lparr>ProductID = productID, Available = n, Reserved = 0, Total = n\<rparr>))"

definition fill_missing :: "inv_config \<Rightarrow> int set \<Rightarrow> int \<Rightarrow> stock list \<Rightarrow> (inv_world, stock list) io" where
  "fill_missing r found productID stocks =
     (if productID \<in> found then ret stocks
      else bindE (mysqlBucketTotal r productID) (\<lambda>(n, ok).
        ret (if ok then stocks @ [\<lparr>ProductID = productID, Available = n, Reserved = 0, Total = n\<rparr>] else stocks)))"

definition BatchGetStock :: "inv_config \<Rightarrow> int list \<Rightarrow> (inv_world, stock list) io" where
  "BatchGetStock r productIDs =
     (if productIDs = [] then ret []
      else let uniqueIDs = uniquePositiveProductIDs productIDs
      in if uniqueIDs = [] then ret []
      else bindE (map_err (app_wrap CodeInternal ''batch read redis stock failed'') (redisBatchStocks r uniqueIDs)) (\<lambda>(stocks, found).
        bindE (if card found < length uniqueIDs \<and> has_db r
               then fold_io (fill_missing r found) uniqueIDs stocks
               else ret stocks) (\<lambda>stocks.
        ret (orderStocksByProductIDs uniqueIDs stocks))))"

definition refreshStockSnapshot :: "inv_config \<Rightarrow> int \<Rightarrow> (inv_world, unit) io" where
  "refreshStockSnapshot r productID =
     (if \<not> has_db r then ret () else bindE (GetStock r productID) (\<lambda>s. upsertStockSnapshot r s))"

definition SeedStock :: "inv_config \<Rightarrow> int \<Rightarrow> int \<Rightarrow> int \<Rightarrow> (inv_world, unit) io" where
  "SeedStock r productID n sc =
     (let sc = (if sc \<le> 0 then shardCount r else sc)
      in bindE (if has_db r then seedMySQLBuckets productID n sc else ret ()) (\<lambda>_.
         bindE (seedRedis productID n sc) (\<lambda>_.
         refreshStockSnapshot r productID)))"

definition AdjustStock :: "inv_config \<Rightarrow> int \<Rightarrow> int \<Rightarrow> int \<Rightarrow> stock_change_meta \<Rightarrow> (inv_world, stock \<times> stock) io" where
  "AdjustStock r productID delta bucketIdx meta =
     bindE (GetStock r productID) (\<lambda>before.
     bindE (if has_db r then adjustMySQLStock productID delta bucketIdx else ret ()) (\<lambda>_.
     bindE (adjustRedisAvailable r productID delta bucketIdx) (\<lambda>_.
     bindE (GetStock r productID) (\<lambda>after.
     bindE (if has_db r
            then bindE (insertStockChangeLog r ''ADJUST'' productID (metaOrderID meta) delta bucketIdx before after meta)
                   (\<lambda>_. upsertStockSnapshot r after)
            else ret ()) (\<lambda>_.
     ret (before, after))))))"

text \<open>\<open>_ = r.insertStockChangeLog(...); _ = r.upsertStockSnapshot(...)\<close>: the audit trail is best effort.\<close>

definition audit :: "inv_config \<Rightarrow> string \<Rightarrow> int \<Rightarrow> string \<Rightarrow> int \<Rightarrow> stock \<Rightarrow> stock \<Rightarrow> stock_change_meta \<Rightarrow> (inv_world, unit) io" where
  "audit r changeType productID orderID delta before after meta =
     bindE (or_else (insertStockChangeLog r changeType productID orderID delta (-1) before after meta) ()) (\<lambda>_.
     or_else (upsertStockSnapshot r after) ())"

definition ReserveStock :: "inv_config \<Rightarrow> string \<Rightarrow> int \<Rightarrow> int \<Rightarrow> stock_change_meta \<Rightarrow> (inv_world, unit) io" where
  "ReserveStock r orderID productID quantity meta =
     bindE (or_else (GetStock r productID) zero_stock) (\<lambda>before.
     bindE (map_err (app_wrap CodeStockReserveFailed ''reserve stock failed'')
       (evalInt64 (reserveStockLua
          (StockShardKeys productID (shardCount r) @ [reservationKey orderID, reservedStockKey productID, reservationExpiryIndexKey])
          quantity reservationKeyTTLSeconds (shardCount r) (StockShardStartIndex orderID (shardCount r)) productID orderID
          reservationExpirySeconds))) (\<lambda>n.
     if n = 1 then
       bindE (map_err (app_wrap CodeStockReserveFailed ''read reserved stock identity failed'')
         (evalReservation (getReservationLua (reservationKey orderID)))) (\<lambda>res.
       bindE time_now (\<lambda>now.
       bindE (recordReservation r
         \<lparr>lr_OrderID = orderID, lr_ProductID = productID, lr_Quantity = quantity, lr_ShardIndex = rr_ShardIndex res,
          lr_Status = ReservationReserved, lr_ExpiresAt = now + reservationExpirySeconds,
          lr_RequestID = metaRequestID meta, lr_TraceID = metaTraceID meta\<rparr>) (\<lambda>_.
       bindE (or_else (GetStock r productID) zero_stock) (\<lambda>after.
       audit r ''RESERVE'' productID orderID (- quantity) before after meta))))
     else if n = -1 then fail ErrStockNotFound
     else if n = -2 then fail ErrStockInsufficient
     else if n = -3 then fail ErrReservationConflict
     else fail (app_new CodeStockReserveFailed (''unexpected reserve result '' @ show_int n))))"

definition confirm_with :: "inv_config \<Rightarrow> string \<Rightarrow> stock_change_meta \<Rightarrow> redis_reservation \<Rightarrow> (inv_world, unit) io" where
  "confirm_with r orderID meta res =
     bindE (if rr_ProductID res > 0 then or_else (GetStock r (rr_ProductID res)) zero_stock else ret zero_stock) (\<lambda>before.
     let finalDeductFlag = (if finalDeductEnabled r \<and> has_db r then 1 else 0)
     in bindE (map_err (app_wrap CodeInternal ''confirm stock deduction failed'')
          (evalInt64 (confirmDeductLua (reservationKey orderID) reservationExpiryIndexKey confirmedReservationTTLSeconds finalDeductFlag orderID))) (\<lambda>n.
        if n = 2 \<and> (rr_ProductID res \<le> 0 \<or> rr_Quantity res \<le> 0) then ret ()
        else
        bindE (if n = 2
               then bindE (confirmMySQLDeduct r orderID (rr_ProductID res) (rr_Quantity res)) (\<lambda>_.
                    bindE (map_err (app_wrap CodeInternal ''mark mysql stock deduction failed'')
                      (evalInt64 (markMySQLDeductedLua (reservationKey orderID) confirmedReservationTTLSeconds))) (\<lambda>_. ret ()))
               else ret ()) (\<lambda>_.
        bindE (if rr_ProductID res > 0
               then transitionReservationLedger r orderID ReservationConfirmed [ReservationReserved] else ret ()) (\<lambda>_.
        if (n = 2 \<or> n = 3) \<and> rr_ProductID res > 0
        then bindE (or_else (GetStock r (rr_ProductID res)) zero_stock) (\<lambda>after.
             audit r ''CONFIRM'' (rr_ProductID res) orderID (- rr_Quantity res) before after meta)
        else ret ()))))"

definition ConfirmDeduct :: "inv_config \<Rightarrow> string \<Rightarrow> stock_change_meta \<Rightarrow> (inv_world, unit) io" where
  "ConfirmDeduct r orderID meta =
     bindE (or_else (evalReservation (getReservationLua (reservationKey orderID))) no_reservation)
       (\<lambda>res. confirm_with r orderID meta res)"

text \<open>The reservation a release works on: Redis, or the ledger put back into Redis; \<open>None\<close> is nothing to release.\<close>

definition release_target :: "inv_config \<Rightarrow> string \<Rightarrow> (inv_world, redis_reservation option) io" where
  "release_target r orderID =
     bindE (map_err (app_wrap CodeInternal ''read stock reservation failed'')
       (evalReservation (getReservationLua (reservationKey orderID)))) (\<lambda>res.
     if rr_ProductID res \<le> 0 \<or> rr_Quantity res \<le> 0
     then bindE (loadReservationLedger r orderID) (\<lambda>(rec, ok).
          if \<not> ok \<or> lr_ProductID rec \<le> 0 \<or> lr_Quantity rec \<le> 0 \<or> lr_Status rec = ReservationReleased then ret None
          else bindE (map_err (app_wrap CodeInternal ''restore stock reservation from ledger failed'')
            (evalInt64 (hydrateReservationLua (reservationKey orderID) (lr_Status rec) (lr_ProductID rec) (lr_Quantity rec)
               (lr_ShardIndex rec) orderID reservationKeyTTLSeconds))) (\<lambda>_.
            ret (Some \<lparr>rr_ProductID = lr_ProductID rec, rr_Quantity = lr_Quantity rec, rr_ShardIndex = lr_ShardIndex rec\<rparr>)))
     else ret (Some res))"

definition ReleaseStock :: "inv_config \<Rightarrow> string \<Rightarrow> stock_change_meta \<Rightarrow> (inv_world, unit) io" where
  "ReleaseStock r orderID meta =
     bindE (release_target r orderID) (\<lambda>target. case target of
       None \<Rightarrow> ret ()
     | Some res \<Rightarrow>
         bindE (or_else (GetStock r (rr_ProductID res)) zero_stock) (\<lambda>before.
         bindE (if finalDeductEnabled r \<and> has_db r
                then releaseMySQLDeduct orderID (rr_ProductID res) (rr_Quantity res) else ret ()) (\<lambda>_.
         bindE (map_err (app_wrap CodeInternal ''release stock failed'')
           (evalInt64 (releaseStockLua
              (StockShardKeys (rr_ProductID res) (shardCount r) @
                 [reservationKey orderID, reservedStockKey (rr_ProductID res), reservationExpiryIndexKey])
              confirmedReservationTTLSeconds (shardCount r)))) (\<lambda>_.
         bindE (transitionReservationLedger r orderID ReservationReleased [ReservationReserved, ReservationConfirmed]) (\<lambda>_.
         bindE (or_else (GetStock r (rr_ProductID res)) zero_stock) (\<lambda>after.
         audit r ''RELEASE'' (rr_ProductID res) orderID (rr_Quantity res) before after meta))))))"

definition ReconcileStock :: "inv_config \<Rightarrow> int \<Rightarrow> stock_change_meta \<Rightarrow> (inv_world, stock \<times> stock \<times> bool) io" where
  "ReconcileStock r productID meta =
     bindE (bindE (attempt (GetStock r productID)) (\<lambda>x. case x of
       Inl e \<Rightarrow> if CodeOf (Some e) \<noteq> CodeStockNotFound then fail e else ret zero_stock
     | Inr s \<Rightarrow> ret s)) (\<lambda>before.
     if \<not> has_db r then ret (before, before, False)
     else bindE (mysqlBucketTotal r productID) (\<lambda>(n, ok).
       if \<not> ok then fail ErrStockNotFound
       else bindE (activeReservationTotal r productID) (\<lambda>ledgerReserved.
         let after = \<lparr>ProductID = productID,
                      Available = expectedAvailable n (Reserved before) ledgerReserved (reservationLedgerMode r),
                      Reserved = expectedReserved (Reserved before) ledgerReserved (reservationLedgerMode r), Total = n\<rparr>;
             changed = (Available before \<noteq> Available after \<or> Reserved before \<noteq> Reserved after)
         in if changed
            then bindE (seedRedisState productID (Available after) (Reserved after) (shardCount r)) (\<lambda>_.
                 bindE (audit r ''RECONCILE'' productID [] (i64 (Available after - Available before)) before after meta) (\<lambda>_.
                 ret (before, after, True)))
            else ret (before, after, False))))"

section \<open>What the operations leave alone\<close>

lemma keeps_evalInt64: "keeps I (EvalCtx f) \<Longrightarrow> keeps I (evalInt64 f)"
  unfolding evalInt64_def by (intro keeps_rules)

lemma keeps_evalReservation: "keeps I (EvalCtx f) \<Longrightarrow> keeps I (evalReservation f)"
  unfolding evalReservation_def by (intro keeps_rules)

lemma keeps_case_sum [keeps_rules]:
  "(\<And>e. keeps I (f e)) \<Longrightarrow> (\<And>a. keeps I (g a)) \<Longrightarrow> keeps I (case x of Inl e \<Rightarrow> f e | Inr a \<Rightarrow> g a)"
  by (cases x) auto

lemma keeps_case_prod [keeps_rules]: "(\<And>a b. keeps I (f a b)) \<Longrightarrow> keeps I (case x of (a, b) \<Rightarrow> f a b)"
  by (cases x) auto

lemma keeps_case_option [keeps_rules]:
  "keeps I f \<Longrightarrow> (\<And>a. keeps I (g a)) \<Longrightarrow> keeps I (case x of None \<Rightarrow> f | Some a \<Rightarrow> g a)"
  by (cases x) auto

lemma keeps_redis_reads [keeps_rules]:
  "keeps (on_redis P) (redisAvailable r p)" "keeps (on_redis P) (redisReserved r p)"
  "keeps (on_redis P) (evalReservation (getReservationLua k))"
  unfolding redisAvailable_def redisReserved_def evalReservation_def by (intro keeps_rules keeps_reads reads_scripts)+

lemma keeps_redis_mysql [keeps_rules]:
  "keeps (on_redis P) (mysqlBucketTotal r p)" "keeps (on_redis P) (upsertStockSnapshot r s)"
  "keeps (on_redis P) (insertStockChangeLog r ct p k dl b s1 s2 m)"
  "keeps (on_redis P) (confirmMySQLDeduct r k p q)" "keeps (on_redis P) (releaseMySQLDeduct k p q)"
  unfolding mysqlBucketTotal_def upsertStockSnapshot_def insertStockChangeLog_def confirmMySQLDeduct_def
    confirm_deduct_body_def stockDeductLogExists_def lockDeductibleStockBucket_def
    releaseMySQLDeduct_def release_deduct_body_def stockDeductBucketFromLog_def Let_def
  by (intro keeps_rules)+

lemma keeps_redis_ledger [keeps_rules]:
  "keeps (on_redis P) (recordReservation r rec)" "keeps (on_redis P) (transitionReservationLedger r k t al)"
  "keeps (on_redis P) (loadReservationLedger r k)" "keeps (on_redis P) (activeReservationTotal r p)"
  unfolding recordReservation_def insertReservationLedger_def transitionReservationLedger_def loadReservationLedger_def
    activeReservationTotal_def Let_def
  by (intro keeps_rules)+

lemma keeps_redis_GetStock [keeps_rules]: "keeps (on_redis P) (GetStock r p)"
  unfolding GetStock_def by (intro keeps_rules)

lemma keeps_redis_audit [keeps_rules]: "keeps (on_redis P) (audit r ct p k dl s1 s2 m)"
  unfolding audit_def by (intro keeps_rules)

end
