(* ===== verification/Repository_Safety.thy ===== *)
theory Repository_Safety
  imports Stock_Commands
begin

text \<open>
  The repository's reserve, release and confirm operations under arbitrary losses and retries: the
  script behind each takes effect at most once, an answered success means that it took effect,
  and the MySQL deduction follows the confirmation at most once.
\<close>

section \<open>Reserving\<close>

lemma command_keys_fold:
  "StockShardKeys p n @ [reservationKey k, reservedStockKey p, reservationExpiryIndexKey] = command_keys n p k"
  by (simp add: command_keys_def)

lemma leads_EvalCtx: "leads (on_redis (\<lambda>x. x = rd)) (EvalCtx f) (on_redis (\<lambda>x. x = rd \<or> x = snd (f rd)))"
  unfolding leads_def on_redis_def using EvalCtx_redis by (metis prod.collapse)

lemma leads_evalInt64: "leads (on_redis (\<lambda>x. x = rd)) (evalInt64 f) (on_redis (\<lambda>x. x = rd \<or> x = snd (f rd)))"
  unfolding evalInt64_def by (rule leads_after [OF leads_EvalCtx]) (rule keeps_rules)

lemma ReserveStock_redis:
  "leads (on_redis (\<lambda>x. x = rd)) (ReserveStock r k p q m)
     (on_redis (\<lambda>x. x = rd \<or> x = snd (reserve_cmd (shardCount r) k p q rd)))"
  unfolding ReserveStock_def command_keys_fold reserve_cmd_def [symmetric]
  by (rule leads_before; (rule leads_after)?)
     (intro keeps_rules leads_map_err leads_evalInt64 | simp add: on_redis_def)+

lemma evalInt64_Inr:
  assumes "evalInt64 f w = (Inr n, w')"
  shows "\<exists>v. f (inv_redis w) = (Inr v, inv_redis w') \<and> toInt64 v = Inr n \<and> inv_db w' = inv_db w"
  using assms unfolding evalInt64_def
  by (auto elim!: bindE_InrE dest!: EvalCtx_Inr simp: of_result_def)

lemma keeps_same_redis: "keeps (on_redis (\<lambda>x. x = inv_redis w)) m \<Longrightarrow> m w = (y, w') \<Longrightarrow> inv_redis w' = inv_redis w"
  by (drule keeps_result [of _ _ w y w']) (simp_all add: on_redis_def)

lemma reserve_cmd_int:
  assumes "0 < n"
  shows "\<exists>c. fst (reserve_cmd n k p q r) = Inr (VInt64 c)"
proof (cases "h_status (order_hash r k) = None")
  case True
  show ?thesis by (cases rule: reserve_cmd_new [OF assms True, of p q]) auto
qed (simp add: reserve_cmd_known [OF assms])

lemma ReserveStock_Inr:
  assumes run: "ReserveStock r k p q m w = (Inr (), w')" and n: "0 < shardCount r"
  shows "reserve_cmd (shardCount r) k p q (inv_redis w) = (Inr (VInt64 1), inv_redis w')"
  using run unfolding ReserveStock_def command_keys_fold reserve_cmd_def [symmetric]
proof (elim bindE_InrE, goal_cases)
  case (1 before w1 c w2)
  have w1: "inv_redis w1 = inv_redis w" using 1(1) by (rule keeps_same_redis [rotated]) (intro keeps_rules)
  from evalInt64_Inr [OF map_err_InrD [OF 1(2)]] obtain v where
    v: "reserve_cmd (shardCount r) k p q (inv_redis w1) = (Inr v, inv_redis w2)" "toInt64 v = Inr c" by auto
  then have v': "v = VInt64 c" using reserve_cmd_int [OF n, of k p q "inv_redis w1"] by (auto simp: toInt64_def)
  have c: "c = 1" using 1(3) by (auto split: if_splits)
  have "inv_redis w' = inv_redis w2"
    using 1(3) unfolding c by (rule keeps_same_redis [rotated]) (simp only: if_True simp_thms, intro keeps_rules)
  then show ?case using v v' c w1 by simp
qed

lemma reserve_cmd_fix:
  assumes "0 < n"
  shows "snd (reserve_cmd n k p q (snd (reserve_cmd n k p q r))) = snd (reserve_cmd n k p q r)"
proof (cases "h_status (order_hash r k) = None")
  case False
  then show ?thesis by (simp add: reserve_cmd_known [OF assms])
next
  case True
  show ?thesis
  proof (cases rule: reserve_cmd_new [OF assms True, of p q])
    case (2 i v r')
    then have "h_status (order_hash r' k) \<noteq> None" by (simp add: order_hash_def reserved_hash_def)
    then show ?thesis using 2(5) by (simp add: reserve_cmd_known [OF assms])
  qed simp
qed

lemma attempts_redis:
  assumes "\<And>v. inv_redis v = rd \<or> inv_redis v = rd' \<Longrightarrow> inv_redis (snd (m v)) = rd \<or> inv_redis (snd (m v)) = rd'"
    and "inv_redis w = rd \<or> inv_redis w = rd'"
  shows "inv_redis (attempts n m w) = rd \<or> inv_redis (attempts n m w) = rd'"
  using assms(2) by (induction n arbitrary: w) (use assms(1) in auto)

text \<open>
  C5: however often a client retries the reservation of an order, and whatever requests and replies
  are lost, at most the order's quantity leaves the product's stock; once an attempt answers
  success, exactly that quantity has left, no other product changed, and the order's reservation
  names the product and the quantity.
\<close>

theorem reserve_exactly_once:
  fixes m :: stock_change_meta and p q :: int and j :: nat
  assumes inv: "redis_inv (shardCount r) (inv_redis w)" and n: "0 < shardCount r" and q: "0 < q"
    and new: "script_status (inv_redis w) k = None"
  defines "w1 \<equiv> attempts j (ReserveStock r k p q m) w"
  defines "w2 \<equiv> snd (ReserveStock r k p q m w1)"
  shows "stock_left (shardCount r) (inv_redis w1) p \<in>
      {stock_left (shardCount r) (inv_redis w) p, stock_left (shardCount r) (inv_redis w) p - q} \<and>
    (fst (ReserveStock r k p q m w1) = Inr () \<longrightarrow>
       script_status (inv_redis w2) k = Some ''reserved'' \<and> script_item (inv_redis w2) k = (p, q) \<and>
       stock_left (shardCount r) (inv_redis w2) =
         (stock_left (shardCount r) (inv_redis w))(p := stock_left (shardCount r) (inv_redis w) p - q))"
proof -
  let ?n = "shardCount r" and ?rd = "inv_redis w"
  let ?rd' = "snd (reserve_cmd ?n k p q ?rd)"
  have step: "inv_redis (snd (ReserveStock r k p q m v)) \<in> {?rd, ?rd'}" if "inv_redis v \<in> {?rd, ?rd'}" for v
    using that leadsD [OF ReserveStock_redis [of "inv_redis v" r k p q m], of v] reserve_cmd_fix [OF n, of k p q ?rd]
    by (auto simp: on_redis_def)
  have w1: "inv_redis w1 \<in> {?rd, ?rd'}"
    using attempts_redis [of ?rd ?rd' "ReserveStock r k p q m" w j] step by (auto simp: w1_def)
  have acc: "fst (script_reserve ?n k p q ?rd) \<Longrightarrow>
      script_status ?rd' k = Some ''reserved'' \<and> script_item ?rd' k = (p, q) \<and>
      stock_left ?n ?rd' = (stock_left ?n ?rd)(p := stock_left ?n ?rd p - q)"
    using scripts.reserve_new [of ?n ?rd q k p] inv n q new by (auto simp: script_reserve_def split: prod.splits)
  have ref: "?rd' = ?rd" if "\<not> fst (script_reserve ?n k p q ?rd)"
    using reserve_cmd_refused [OF n that] by (auto simp: script_reserve_def split: prod.splits)
  have "inv_redis w2 = ?rd' \<and> fst (script_reserve ?n k p q ?rd)" if "fst (ReserveStock r k p q m w1) = Inr ()"
  proof -
    have run: "reserve_cmd ?n k p q (inv_redis w1) = (Inr (VInt64 1), inv_redis w2)"
      by (rule ReserveStock_Inr [OF _ n, of k p q m]) (use that in \<open>simp add: w2_def prod_eq_iff\<close>)
    show ?thesis
    proof (cases "inv_redis w1 = ?rd")
      case True
      then show ?thesis using run by (simp add: script_reserve_def)
    next
      case False
      then have "inv_redis w1 = ?rd'" "fst (script_reserve ?n k p q ?rd)" using w1 ref by auto
      then show ?thesis using run reserve_cmd_fix [OF n, of k p q ?rd] by auto
    qed
  qed
  then show ?thesis using w1 acc ref by (cases "fst (script_reserve ?n k p q ?rd)") auto
qed

lemma demo_values: "shardCount demo_config = 1" "stock_left 1 (inv_redis (demo_world fs)) 7 = 5"
  using demo_stock by (simp_all add: demo_config_def demo_world_def)

theorem reserve_exactly_once_witness:
  "stock_left (shardCount demo_config) (inv_redis (attempts 2 (ReserveStock demo_config ''o1'' 7 3 no_meta)
      (demo_world [NoReply ''gone'', NoRequest ''down'']))) 7 \<in> {5, 5 - 3}"
proof -
  have "redis_inv (shardCount demo_config) (inv_redis (demo_world [NoReply ''gone'', NoRequest ''down'']))"
    using fresh_store_inv [OF demo_fresh] by (simp add: demo_world_def script_inv_def)
  moreover have "script_status (inv_redis (demo_world [NoReply ''gone'', NoRequest ''down''])) ''o1'' = None"
    by (simp add: demo_world_def script_status_def order_hash_def demo_store_def empty_redis_def empty_hash_def)
  ultimately show ?thesis
    using reserve_exactly_once [where r = demo_config and w = "demo_world [NoReply ''gone'', NoRequest ''down'']"
        and q = 3 and k = "''o1''" and p = 7 and j = 2 and m = no_meta] demo_values by simp
qed

section \<open>States of Redis and MySQL\<close>

definition on :: "(redis \<Rightarrow> inv_tables \<Rightarrow> bool) \<Rightarrow> inv_world \<Rightarrow> bool" where
  "on P w \<longleftrightarrow> P (inv_redis w) (inv_db w)"

lemma triple_EvalCtx:
  assumes "\<And>rd d. P rd d \<Longrightarrow> E rd d \<and> E (snd (f rd)) d"
    and "\<And>rd d a rd'. P rd d \<Longrightarrow> f rd = (Inr a, rd') \<Longrightarrow> Q a rd' d"
  shows "triple (on P) (EvalCtx f) (\<lambda>a. on (Q a)) (on E)"
  unfolding triple_def
proof (intro allI impI)
  fix w assume P: "on P w"
  obtain x w' where run: "EvalCtx f w = (x, w')" by fastforce
  show "case EvalCtx f w of (Inl e, w') \<Rightarrow> on E w' | (Inr a, w') \<Rightarrow> on (Q a) w'"
  proof (cases x)
    case (Inr a)
    then show ?thesis using run P assms(2) EvalCtx_Inr [of f w a w'] by (simp add: on_def)
  next
    case (Inl e)
    have "inv_db w' = inv_db w" 
      using keeps_result [OF keeps_on_db_EvalCtx [of "\<lambda>x. x = inv_db w" f] _ run] by (simp add: on_db_def)
    then show ?thesis using run P assms(1) [of "inv_redis w" "inv_db w"] EvalCtx_redis [OF run] Inl by (auto simp: on_def)
  qed
qed

lemma triple_evalInt64:
  assumes "\<And>rd d. P rd d \<Longrightarrow> E rd d \<and> E (snd (f rd)) d"
    and "\<And>rd d n rd'. P rd d \<Longrightarrow> f rd = (Inr (VInt64 n), rd') \<Longrightarrow> Q n rd' d"
    and "\<And>rd. \<exists>e n. fst (f rd) = Inl e \<or> fst (f rd) = Inr (VInt64 n)"
  shows "triple (on P) (evalInt64 f) (\<lambda>n. on (Q n)) (on E)"
proof -
  have "triple (on P) (EvalCtx f) (\<lambda>v. on (\<lambda>rd d. (\<exists>n. v = VInt64 n \<and> Q n rd d) \<and> E rd d)) (on E)"
  proof (rule triple_EvalCtx)
    show "P rd d \<Longrightarrow> E rd d \<and> E (snd (f rd)) d" for rd d by (rule assms(1))
    fix rd d a rd' assume p: "P rd d" and r: "f rd = (Inr a, rd')"
    then obtain n where "a = VInt64 n" using assms(3) [of rd] by auto
    then show "(\<exists>n. a = VInt64 n \<and> Q n rd' d) \<and> E rd' d" using p r assms(1) [of rd d] assms(2) [of rd d n rd'] by auto
  qed
  then show ?thesis
    unfolding evalInt64_def by (rule triple_bind) (auto simp: triple_def of_result_def toInt64_def on_def)
qed

text \<open>Operations that leave Redis, and the tables a property looks at, as they are.\<close>

definition same_core :: "inv_tables \<Rightarrow> inv_tables \<Rightarrow> bool" where
  "same_core d d' \<longleftrightarrow> buckets d' = buckets d \<and> stock_log d' = stock_log d"

definition core_pred :: "(redis \<Rightarrow> inv_tables \<Rightarrow> bool) \<Rightarrow> bool" where
  "core_pred P \<longleftrightarrow> (\<forall>rd d d'. P rd d \<longrightarrow> same_core d d' \<longrightarrow> P rd d')"

lemma fault_free_on_world [simp, keeps_rules]: "fault_free (on P)"
  by (simp add: fault_free_def on_def)

lemma keeps_on_sql_core:
  "core_pred P \<Longrightarrow> (\<And>d. same_core d (snd (f d))) \<Longrightarrow> keeps (on P) (sql f)"
  by (rule keeps_sql) (auto simp: on_def core_pred_def, metis snd_conv)

lemma keeps_on_read: "reads f \<Longrightarrow> keeps (on P) (EvalCtx f)"
proof (rule keeps_EvalCtx)
  fix w x rd assume "reads f" "on P w" "f (inv_redis w) = (x, rd)"
  moreover have "rd = inv_redis w" using calculation by (metis reads_def snd_conv)
  ultimately show "on P (w\<lparr>inv_redis := rd\<rparr>)" by (simp add: on_def)
qed simp

lemma same_core_updates [simp]:
  "same_core d (snd (bucket_totals p d))" "same_core d (snd (snapshot_upsert s d))" "same_core d d"
  "same_core d (snd (ledger_insert rec d))" "same_core d (snd (ledger_get k d))" "same_core d (snd (ledger_transition k t al d))"
  by (auto simp: same_core_def bucket_totals_def snapshot_upsert_def ledger_insert_def ledger_get_def ledger_transition_def
      Let_def split: option.splits)

lemma keeps_core_ops:
  assumes "core_pred P"
  shows "keeps (on P) (GetStock r p)" "keeps (on P) (audit r ct p k dl s1 s2 m)"
    "keeps (on P) (transitionReservationLedger r k t al)" "keeps (on P) (evalReservation (getReservationLua x))"
    "keeps (on P) (loadReservationLedger r k)"
proof -
  note [keeps_rules] = keeps_on_sql_core [OF assms] keeps_on_read
  show "keeps (on P) (GetStock r p)" "keeps (on P) (transitionReservationLedger r k t al)"
    "keeps (on P) (evalReservation (getReservationLua x))" "keeps (on P) (loadReservationLedger r k)"
    unfolding GetStock_def redisAvailable_def redisReserved_def mysqlBucketTotal_def transitionReservationLedger_def
      evalReservation_def loadReservationLedger_def Let_def
    by (intro keeps_rules same_core_updates reads_scripts)+
  show "keeps (on P) (audit r ct p k dl s1 s2 m)"
    unfolding audit_def insertStockChangeLog_def upsertStockSnapshot_def Let_def
    by (intro keeps_rules same_core_updates) (simp add: same_core_def)
qed

end
