(* ===== verification/Release_Safety.thy ===== *)
theory Release_Safety
  imports Repository_Safety
begin

text \<open>
  Releasing and confirming an order's reservation through the repository, under any losses and
  any number of attempts.
\<close>

lemma on_redis_eq: "on_redis P = on (\<lambda>rd d. P rd)"
  by (simp add: on_redis_def on_def fun_eq_iff)

lemma triple_evalReservation:
  assumes "\<And>rd d. P rd d \<Longrightarrow> h_product_id (hash rd x) = Some p \<and> h_quantity (hash rd x) = Some q"
  shows "triple (on P) (evalReservation (getReservationLua x))
    (\<lambda>res w. (rr_ProductID res = p \<and> rr_Quantity res = q) \<and> on P w) (on P)"
proof -
  have "triple (on P) (EvalCtx (getReservationLua x))
      (\<lambda>v. on (\<lambda>rd d. (\<exists>s. v = VArray (map VInt64 [p, q, s])) \<and> P rd d)) (on P)"
    by (rule triple_EvalCtx) (use assms in \<open>auto simp: getReservationLua_def Let_def\<close>)
  then show ?thesis
    unfolding evalReservation_def
  proof (rule triple_bind, goal_cases)
    case (1 v)
    show ?case
    proof (cases "\<exists>s. v = VArray (map VInt64 [p, q, s])")
      case True
      then obtain s where "v = VArray (map VInt64 [p, q, s])" by blast
      then have "toInt64Slice v = Inr [p, q, s]" by (simp only: toInt64Slice_ints)
      then show ?thesis by (auto simp: triple_def bindE_def of_result_def ret_def on_def)
    next
      case False
      then show ?thesis by (auto simp: triple_def on_def)
    qed
  qed
qed

lemma triple_or_else_keeps: "keeps I m \<Longrightarrow> triple I (or_else m z) (\<lambda>_. I) I"
  by (intro triple_keeps keeps_rules)

section \<open>Release\<close>

lemma release_cmd_reply: "\<exists>e c. fst (release_cmd n k p rd) = Inl e \<or> fst (release_cmd n k p rd) = Inr (VInt64 c)"
  unfolding release_cmd_def releaseStockLua_def Let_def by (simp split: if_split)

lemma release_stock_triple:
  assumes n: "0 < shardCount r" and p: "0 < p" and q: "0 < q"
    and run0: "release_cmd (shardCount r) k p rd0 = (Inr (VInt64 1), rd1)"
    and run1: "release_cmd (shardCount r) k p rd1 = (Inr (VInt64 1), rd1)"
    and h: "\<And>rd. rd \<in> {rd0, rd1} \<Longrightarrow> h_product_id (order_hash rd k) = Some p \<and> h_quantity (order_hash rd k) = Some q"
  shows "triple (on_redis (\<lambda>rd. rd \<in> {rd0, rd1})) (ReleaseStock r k m)
    (\<lambda>_. on_redis (\<lambda>rd. rd = rd1)) (on_redis (\<lambda>rd. rd \<in> {rd0, rd1}))"
proof -
  let ?I = "on_redis (\<lambda>rd. rd \<in> {rd0, rd1})" and ?J = "on_redis (\<lambda>rd. rd = rd1)"
  have read: "triple ?I (evalReservation (getReservationLua (reservationKey k)))
      (\<lambda>res w. (rr_ProductID res = p \<and> rr_Quantity res = q) \<and> ?I w) ?I"
    unfolding on_redis_eq by (rule triple_evalReservation) (use h in \<open>auto simp: order_hash_def\<close>)
  have target: "triple ?I (release_target r k)
      (\<lambda>t w. (\<exists>res. t = Some res \<and> rr_ProductID res = p \<and> rr_Quantity res = q) \<and> ?I w) ?I"
    unfolding release_target_def
    by (rule triple_bind [OF triple_map_err [OF read]], rule triple_pure) (use p q in \<open>simp add: triple_def ret_def\<close>)
  have script: "triple ?I (evalInt64 (release_cmd (shardCount r) k p)) (\<lambda>_. ?J) ?I"
    unfolding on_redis_eq
  proof (rule triple_evalInt64)
    fix rd :: redis and d :: inv_tables assume "rd \<in> {rd0, rd1}"
    then show "rd \<in> {rd0, rd1} \<and> snd (release_cmd (shardCount r) k p rd) \<in> {rd0, rd1}" using run0 run1 by auto
  next
    fix rd rd' :: redis and d :: inv_tables and c :: int
    assume "rd \<in> {rd0, rd1}" "release_cmd (shardCount r) k p rd = (Inr (VInt64 c), rd')"
    then show "rd' = rd1" using run0 run1 by auto
  qed (rule release_cmd_reply)
  have weaken: "triple ?J mm (\<lambda>_. ?J) ?I" if "keeps ?J mm" for mm :: "(inv_world, 'b) io"
    by (rule triple_conseq [OF triple_keeps [OF that]]) (simp_all add: on_redis_def)
  show ?thesis
    unfolding ReleaseStock_def command_keys_fold release_cmd_def [symmetric]
  proof (rule triple_bind [OF target], rule triple_pure, elim exE conjE, goal_cases)
    case (1 t res)
    show ?case
      unfolding 1 option.case
      by (rule triple_bind [OF triple_or_else_keeps], intro keeps_rules)
         (rule triple_bind [OF triple_keeps], intro keeps_rules,
          rule triple_bind [OF triple_map_err [OF script]],
          rule triple_bind [OF weaken], intro keeps_rules,
          rule triple_bind [OF weaken], intro keeps_rules,
          rule weaken, intro keeps_rules)
  qed
qed

text \<open>
  C6: releasing the reservation an order holds gives its quantity back to the product's stock
  at most once, however often the release is attempted and whatever is lost; once an attempt
  answers success the quantity is back exactly once, no other product changed, and the
  reservation is marked released.
\<close>

theorem release_exactly_once:
  fixes m :: stock_change_meta and j :: nat
  assumes inv: "redis_inv (shardCount r) (inv_redis w)" and n: "0 < shardCount r"
    and holds: "holding (inv_redis w) k" and item: "script_item (inv_redis w) k = (p, q)" and p: "0 < p"
  defines "w1 \<equiv> attempts j (ReleaseStock r k m) w"
  defines "w2 \<equiv> snd (ReleaseStock r k m w1)"
  shows "stock_left (shardCount r) (inv_redis w1) p \<in>
      {stock_left (shardCount r) (inv_redis w) p, stock_left (shardCount r) (inv_redis w) p + q} \<and>
    (fst (ReleaseStock r k m w1) = Inr () \<longrightarrow>
       script_status (inv_redis w2) k = Some ''released'' \<and>
       stock_left (shardCount r) (inv_redis w2) =
         (stock_left (shardCount r) (inv_redis w))(p := stock_left (shardCount r) (inv_redis w) p + q))"
proof -
  let ?n = "shardCount r" and ?rd = "inv_redis w"
  let ?rd' = "script_release ?n k ?rd"
  have "h_status (order_hash ?rd k) \<noteq> None" using holds by (auto simp: holding_def)
  then have "h_product_id (order_hash ?rd k) \<noteq> None" "0 < num_of (h_quantity (order_hash ?rd k))"
    using redis_invD_hash [OF inv, of k] by (auto simp: hash_ok_def)
  then have h: "h_product_id (order_hash ?rd k) = Some p" "h_quantity (order_hash ?rd k) = Some q" "0 < q"
    using item by (auto simp: script_item_def num_of_def split: option.splits)
  have st: "h_status (order_hash ?rd k) \<in> {Some ''reserved'', Some ''confirmed''}" using holds by (auto simp: holding_def)
  have view: "order_hash ?rd' = (order_hash ?rd)(k := (order_hash ?rd k)\<lparr>h_status := Some ''released''\<rparr>)"
      "stock_left ?n ?rd' = (stock_left ?n ?rd)(p := stock_left ?n ?rd p + q)"
    using release_cmd_view(1) [OF inv n holds] item by auto
  have run0: "release_cmd ?n k p ?rd = (Inr (VInt64 1), ?rd')"
    by (rule release_cmd_holding [OF inv n st h(1)]) (simp add: script_release_def h)
  have run1: "release_cmd ?n k p ?rd' = (Inr (VInt64 1), ?rd')"
    by (rule release_cmd_done [OF n]) (simp add: view)
  have tr: "triple (on_redis (\<lambda>x. x \<in> {?rd, ?rd'})) (ReleaseStock r k m)
    (\<lambda>_. on_redis (\<lambda>x. x = ?rd')) (on_redis (\<lambda>x. x \<in> {?rd, ?rd'}))"
    by (rule release_stock_triple [OF n p h(3) run0 run1]) (use h view in auto)
  have "triple (on_redis (\<lambda>x. x \<in> {?rd, ?rd'})) (ReleaseStock r k m)
    (\<lambda>_. on_redis (\<lambda>x. x \<in> {?rd, ?rd'})) (on_redis (\<lambda>x. x \<in> {?rd, ?rd'}))"
    by (rule triple_conseq [OF tr]) (auto simp: on_redis_def)
  from triple_snd [OF this] have "inv_redis v \<in> {?rd, ?rd'} \<Longrightarrow> inv_redis (snd (ReleaseStock r k m v)) \<in> {?rd, ?rd'}" for v
    by (simp add: on_redis_def)
  then have w1: "inv_redis w1 \<in> {?rd, ?rd'}"
    using attempts_redis [of ?rd ?rd' "ReleaseStock r k m" w j] by (auto simp: w1_def)
  have "inv_redis w2 = ?rd'" if "fst (ReleaseStock r k m w1) = Inr ()"
    using triple_Inr [OF tr, of w1 "()" w2] w1 that by (simp add: on_redis_def w2_def prod_eq_iff)
  then show ?thesis using w1 view by (auto simp: script_status_def)
qed

definition demo_reserved :: redis where
  "demo_reserved = snd (script_reserve (NormalizeShardCount 1) ''o1'' 7 3 demo_store)"

lemma demo_reserved_facts:
  "script_inv 1 demo_reserved" "script_status demo_reserved ''o1'' = Some ''reserved''"
  "script_item demo_reserved ''o1'' = (7, 3)" "stock_left 1 demo_reserved 7 = 2"
proof -
  have s: "script_inv 1 demo_store" by (rule fresh_store_inv [OF demo_fresh])
  then have i: "redis_inv (NormalizeShardCount 1) demo_store" by (simp add: script_inv_def)
  have ok: "fst (script_reserve (NormalizeShardCount 1) ''o1'' 7 3 demo_store)"
    using demo_reserve by (auto simp: script_reserve_def split: prod.splits)
  have new: "script_status demo_store ''o1'' = None"
    by (simp add: script_status_def order_hash_def demo_store_def empty_redis_def empty_hash_def)
  from scripts.reserve_new [OF i _ new ok]
  show "script_status demo_reserved ''o1'' = Some ''reserved''" "script_item demo_reserved ''o1'' = (7, 3)"
    "stock_left 1 demo_reserved 7 = 2"
    using demo_stock by (simp_all add: demo_reserved_def)
  have "demo_reserved = snd (reserve_cmd 1 ''o1'' 7 3 demo_store)"
    by (simp add: demo_reserved_def script_reserve_def split: prod.splits)
  then show "script_inv 1 demo_reserved"
    using script_run_ok [OF demo_run _ s] by (simp add: step_ok_def)
qed

theorem release_exactly_once_witness:
  "stock_left 1 (inv_redis (attempts 1 (ReleaseStock demo_config ''o1'' no_meta)
      ((demo_world [NoReply ''gone''])\<lparr>inv_redis := demo_reserved\<rparr>))) 7 \<in> {2, 2 + 3}"
  using release_exactly_once [where r = demo_config and w = "(demo_world [NoReply ''gone''])\<lparr>inv_redis := demo_reserved\<rparr>"
      and k = "''o1''" and p = 7 and q = 3 and j = 1 and m = no_meta] demo_reserved_facts
  by (simp add: demo_values script_inv_def holding_def script_status_def)

end
