(* ===== verification/Confirm_Safety.thy ===== *)
theory Confirm_Safety
  imports Release_Safety
begin

text \<open>
  Confirming an order's reservation: the Redis reservation moves from reserved to confirmed without
  touching the shards, and the MySQL deduction that follows it happens at most once.  A retry that
  meets no loss finishes both; a lost read of the reservation, however, lets a confirmation answer
  success without the deduction (\<open>confirm_lost_read\<close>).
\<close>

section \<open>What a confirmation keeps\<close>

definition confirming :: "inv_config \<Rightarrow> string \<Rightarrow> int \<Rightarrow> int \<Rightarrow> redis \<Rightarrow> inv_tables \<Rightarrow> redis \<Rightarrow> inv_tables \<Rightarrow> bool" where
  "confirming r k p q rd0 d0 rd d \<longleftrightarrow>
     script_inv (shardCount r) rd \<and> stock_left (shardCount r) rd = stock_left (shardCount r) rd0 \<and>
     h_product_id (order_hash rd k) = Some p \<and> h_quantity (order_hash rd k) = Some q \<and>
     h_status (order_hash rd k) \<in> {Some ''reserved'', Some ''confirmed''} \<and>
     (h_mysql_deducted (order_hash rd k) \<longrightarrow> deducted k p q d0 d) \<and>
     (same_core d0 d \<or> deducted k p q d0 d)"

definition confirmed :: "inv_config \<Rightarrow> string \<Rightarrow> int \<Rightarrow> int \<Rightarrow> redis \<Rightarrow> inv_tables \<Rightarrow> redis \<Rightarrow> inv_tables \<Rightarrow> bool" where
  "confirmed r k p q rd0 d0 rd d \<longleftrightarrow> confirming r k p q rd0 d0 rd d \<and> h_status (order_hash rd k) = Some ''confirmed''"

definition final_flag :: "inv_config \<Rightarrow> int" where
  "final_flag r = (if finalDeductEnabled r \<and> has_db r then 1 else 0)"

lemma deducted_core: "deducted k p q d0 d \<Longrightarrow> same_core d d' \<Longrightarrow> deducted k p q d0 d'"
  by (simp add: deducted_def same_core_def deduct_logs_def buckets_ok_def reverted_def bucket_sum_def product_buckets_def)

lemma core_confirming: "core_pred (confirming r k p q rd0 d0)" "core_pred (confirmed r k p q rd0 d0)"
  "core_pred (\<lambda>rd d. confirmed r k p q rd0 d0 rd d \<and> (b \<longrightarrow> deducted k p q d0 d))"
  by (auto simp: core_pred_def confirming_def confirmed_def deducted_core same_core_def)

lemma same_core_effects: "same_core d0 d \<Longrightarrow> buckets_ok d0 \<Longrightarrow> buckets_ok d"
  "same_core d0 d \<Longrightarrow> deducted k p q d d' \<Longrightarrow> deducted k p q d0 d'"
  by (simp_all add: same_core_def buckets_ok_def deducted_def deduct_logs_def reverted_def bucket_sum_def product_buckets_def)

lemma confirm_cmd_int: "\<exists>c. fst (confirm_cmd f k rd) = Inr (VInt64 c)"
  unfolding confirm_cmd_def confirmDeductLua_def Let_def by (simp split: if_split)

lemma confirm_cmd_reply: "\<exists>e c. fst (confirm_cmd f k rd) = Inl e \<or> fst (confirm_cmd f k rd) = Inr (VInt64 c)"
  using confirm_cmd_int by blast

lemma confirm_cmd_confirming:
  assumes c: "confirming r k p q rd0 d0 rd d" and n: "0 < shardCount r" and run: "confirm_cmd f k rd = (Inr (VInt64 c), rd')"
  shows "confirmed r k p q rd0 d0 rd' d \<and> (f = 1 \<longrightarrow> c \<noteq> 2 \<longrightarrow> deducted k p q d0 d) \<and> (c = 2 \<longrightarrow> f = 1)"
proof -
  have inv: "script_inv (shardCount r) rd" and rinv: "redis_inv (shardCount r) rd"
    using c by (simp_all add: confirming_def script_inv_def)
  have ok: "step_ok (shardCount r) rd [] rd'" using confirm_step_ok [OF inv n, of f k] run by simp
  then have frame: "script_inv (shardCount r) rd'" "stock_left (shardCount r) rd' = stock_left (shardCount r) rd0"
    using c by (auto simp: step_ok_def confirming_def)
  show ?thesis
  proof (cases "h_status (order_hash rd k) = Some ''reserved''")
    case True
    show ?thesis
    proof (rule confirm_cmd_reserved [OF rinv True, of f], goal_cases)
      case (1 c' r' p')
      then have "order_hash rd' k = (order_hash rd k)\<lparr>h_status := Some ''confirmed''\<rparr>" using run by (simp add: order_hash_def)
      then show ?case using 1(1,2) run frame c by (auto simp: confirmed_def confirming_def split: if_splits)
    qed
  next
    case False
    then have st: "h_status (order_hash rd k) = Some ''confirmed''" using c by (auto simp: confirming_def)
    show ?thesis
    proof (rule confirm_cmd_other [OF False, of f], goal_cases)
      case (1 c' r')
      then have "order_hash rd' k = order_hash rd k" using run by (simp add: order_hash_def)
      then show ?case using 1(1,5) run frame c st by (auto simp: confirmed_def confirming_def split: if_splits)
    qed
  qed
qed

lemma confirm_cmd_keeps:
  assumes "confirming r k p q rd0 d0 rd d" "0 < shardCount r"
  shows "confirming r k p q rd0 d0 (snd (confirm_cmd f k rd)) d"
proof -
  obtain c where "fst (confirm_cmd f k rd) = Inr (VInt64 c)" using confirm_cmd_int by blast
  then have "confirm_cmd f k rd = (Inr (VInt64 c), snd (confirm_cmd f k rd))" by (simp add: prod_eq_iff)
  from confirm_cmd_confirming [OF assms this] show ?thesis by (simp add: confirmed_def)
qed

section \<open>The steps of a confirmation\<close>

lemma confirm_script_triple:
  assumes n: "0 < shardCount r"
  shows "triple (on (confirming r k p q rd0 d0)) (evalInt64 (confirm_cmd (final_flag r) k))
     (\<lambda>c. on (\<lambda>rd d. confirmed r k p q rd0 d0 rd d \<and> (final_flag r = 1 \<longrightarrow> c \<noteq> 2 \<longrightarrow> deducted k p q d0 d)))
     (on (confirming r k p q rd0 d0))"
proof (rule triple_evalInt64)
  show "confirming r k p q rd0 d0 rd d \<Longrightarrow> confirming r k p q rd0 d0 rd d \<and>
      confirming r k p q rd0 d0 (snd (confirm_cmd (final_flag r) k rd)) d" for rd d
    using confirm_cmd_keeps [OF _ n] by simp
  show "confirmed r k p q rd0 d0 rd' d \<and> (final_flag r = 1 \<longrightarrow> c \<noteq> 2 \<longrightarrow> deducted k p q d0 d)"
    if "confirming r k p q rd0 d0 rd d" "confirm_cmd (final_flag r) k rd = (Inr (VInt64 c), rd')" for rd d c rd'
    using confirm_cmd_confirming [OF that(1) n that(2)] by simp
qed (rule confirm_cmd_reply)

lemma mysql_deduct_triple:
  assumes ok: "buckets_ok d0" and new: "deduct_logs d0 k = []"
  shows "triple (on (confirmed r k p q rd0 d0)) (confirmMySQLDeduct r k p q)
     (\<lambda>_. on (\<lambda>rd d. confirmed r k p q rd0 d0 rd d \<and> deducted k p q d0 d)) (on (confirming r k p q rd0 d0))"
  unfolding triple_def
proof (intro allI impI)
  fix w assume pre: "on (confirmed r k p q rd0 d0) w"
  obtain x w' where run: "confirmMySQLDeduct r k p q w = (x, w')" by fastforce
  have rel: "same_core d0 (inv_db w) \<or> deducted k p q d0 (inv_db w)"
    using pre by (simp add: on_def confirmed_def confirming_def)
  then have okw: "buckets_ok (inv_db w)" using ok same_core_effects(1) by (auto simp: deducted_def)
  have rd: "inv_redis w' = inv_redis w" using run by (rule keeps_same_redis [rotated]) (intro keeps_rules)
  from confirmMySQLDeduct_effect [OF run okw]
  have "(inv_db w' = inv_db w \<and> (x = Inr () \<longrightarrow> deduct_logs (inv_db w) k \<noteq> [])) \<or> deducted k p q (inv_db w) (inv_db w')" .
  moreover have "deducted k p q d0 (inv_db w')" if "deducted k p q (inv_db w) (inv_db w')"
  proof -
    have "\<not> deducted k p q d0 (inv_db w)" using that by (simp add: deducted_def)
    then have "same_core d0 (inv_db w)" using rel by simp
    then show ?thesis using that by (rule same_core_effects(2))
  qed
  moreover have "deducted k p q d0 (inv_db w)" if "deduct_logs (inv_db w) k \<noteq> []"
    using that rel new by (auto simp: same_core_def deduct_logs_def)
  ultimately have "inv_db w' = inv_db w \<and> (x = Inr () \<longrightarrow> deducted k p q d0 (inv_db w)) \<or> deducted k p q d0 (inv_db w')"
    by blast
  then have post: "confirmed r k p q rd0 d0 (inv_redis w') (inv_db w') \<and> (x = Inr () \<longrightarrow> deducted k p q d0 (inv_db w'))"
    using rd pre by (auto simp: on_def confirmed_def confirming_def)
  show "case confirmMySQLDeduct r k p q w of (Inl e, w') \<Rightarrow> on (confirming r k p q rd0 d0) w'
     | (Inr a, w') \<Rightarrow> on (\<lambda>rd d. confirmed r k p q rd0 d0 rd d \<and> deducted k p q d0 d) w'"
    unfolding run using post by (cases x) (simp_all add: on_def confirmed_def)
qed

lemma mark_triple:
  "triple (on (\<lambda>rd d. confirmed r k p q rd0 d0 rd d \<and> deducted k p q d0 d))
     (evalInt64 (markMySQLDeductedLua (reservationKey k) t))
     (\<lambda>_. on (\<lambda>rd d. confirmed r k p q rd0 d0 rd d \<and> deducted k p q d0 d)) (on (confirming r k p q rd0 d0))"
proof (rule triple_evalInt64)
  have run: "confirmed r k p q rd0 d0 (snd (markMySQLDeductedLua (reservationKey k) t rd)) d \<and> deducted k p q d0 d"
    if c: "confirmed r k p q rd0 d0 rd d \<and> deducted k p q d0 d" for rd d
  proof -
    have "script_inv (shardCount r) rd" using c by (simp add: confirmed_def confirming_def)
    from mark_step_ok [OF this, of k t]
    have "script_inv (shardCount r) (snd (markMySQLDeductedLua (reservationKey k) t rd))"
      "stock_left (shardCount r) (snd (markMySQLDeductedLua (reservationKey k) t rd)) = stock_left (shardCount r) rd"
      by (auto simp: step_ok_def)
    moreover have "order_hash (snd (markMySQLDeductedLua (reservationKey k) t rd)) k = (order_hash rd k)\<lparr>h_mysql_deducted := True\<rparr>"
      by (simp add: markMySQLDeductedLua_def Let_def order_hash_def)
    ultimately show ?thesis using c by (simp add: confirmed_def confirming_def)
  qed
  show "confirmed r k p q rd0 d0 rd d \<and> deducted k p q d0 d \<Longrightarrow> confirming r k p q rd0 d0 rd d \<and>
      confirming r k p q rd0 d0 (snd (markMySQLDeductedLua (reservationKey k) t rd)) d" for rd d
    using run [of rd d] by (auto simp: confirmed_def)
  show "confirmed r k p q rd0 d0 rd' d \<and> deducted k p q d0 d"
    if "confirmed r k p q rd0 d0 rd d \<and> deducted k p q d0 d" "markMySQLDeductedLua (reservationKey k) t rd = (Inr (VInt64 c), rd')"
    for rd d c rd'
    using run [OF that(1)] that(2) by simp
qed (simp add: markMySQLDeductedLua_def Let_def)

section \<open>The whole confirmation\<close>

lemma confirmDeductLua_fold:
  "confirmDeductLua (reservationKey k) reservationExpiryIndexKey confirmedReservationTTLSeconds
     (if finalDeductEnabled r \<and> has_db r then 1 else 0) k = confirm_cmd (final_flag r) k"
  by (simp add: confirm_cmd_def final_flag_def)

lemma triple_weaken: "keeps (on P) m \<Longrightarrow> (\<And>rd d. P rd d \<Longrightarrow> E rd d) \<Longrightarrow> triple (on P) m (\<lambda>_. on P) (on E)"
  by (erule triple_conseq [OF triple_keeps]) (auto simp: on_def)

lemma confirm_with_known:
  assumes n: "0 < shardCount r" and ok: "buckets_ok d0" and new: "deduct_logs d0 k = []"
    and res: "rr_ProductID res = p" "rr_Quantity res = q" and pos: "0 < p" "0 < q"
  shows "triple (on (confirming r k p q rd0 d0)) (confirm_with r k m res)
    (\<lambda>_. on (\<lambda>rd d. confirmed r k p q rd0 d0 rd d \<and> (final_flag r = 1 \<longrightarrow> deducted k p q d0 d)))
    (on (confirming r k p q rd0 d0))"
proof -
  let ?C = "on (confirming r k p q rd0 d0)"
  let ?Q = "\<lambda>rd d. confirmed r k p q rd0 d0 rd d \<and> (final_flag r = 1 \<longrightarrow> deducted k p q d0 d)"
  note core = core_confirming [of r k p q rd0 d0]
  have QC: "\<And>rd d. ?Q rd d \<Longrightarrow> confirming r k p q rd0 d0 rd d" by (simp add: confirmed_def)
  have rest: "triple (on ?Q) (bindE (if rr_ProductID res > 0
               then transitionReservationLedger r k ReservationConfirmed [ReservationReserved] else ret ()) (\<lambda>_.
        if (c = 2 \<or> c = 3) \<and> rr_ProductID res > 0
        then bindE (or_else (GetStock r (rr_ProductID res)) zero_stock) (\<lambda>after.
             audit r ''CONFIRM'' (rr_ProductID res) k (- rr_Quantity res) before after m)
        else ret ())) (\<lambda>_. on ?Q) ?C" for c :: int and before
    by (rule triple_weaken [OF _ QC]) (intro keeps_rules keeps_core_ops core(3))
  have deduct: "triple (on (\<lambda>rd d. confirmed r k p q rd0 d0 rd d \<and> (final_flag r = 1 \<longrightarrow> c \<noteq> 2 \<longrightarrow> deducted k p q d0 d)))
      (if c = 2 then bindE (confirmMySQLDeduct r k p q) (\<lambda>_.
                    bindE (map_err (app_wrap CodeInternal ''mark mysql stock deduction failed'')
                      (evalInt64 (markMySQLDeductedLua (reservationKey k) confirmedReservationTTLSeconds))) (\<lambda>_. ret ()))
               else ret ()) (\<lambda>_. on ?Q) ?C" for c :: int
  proof (cases "c = 2")
    case True
    have "triple (on (confirmed r k p q rd0 d0)) (bindE (confirmMySQLDeduct r k p q) (\<lambda>_.
        bindE (map_err (app_wrap CodeInternal ''mark mysql stock deduction failed'')
          (evalInt64 (markMySQLDeductedLua (reservationKey k) confirmedReservationTTLSeconds))) (\<lambda>_. ret ()))) (\<lambda>_. on ?Q) ?C"
      by (rule triple_bind [OF mysql_deduct_triple [OF ok new]],
          rule triple_bind [OF triple_map_err [OF mark_triple]]) (auto simp: triple_def ret_def on_def)
    then show ?thesis using True by simp
  next
    case False
    then show ?thesis by (auto simp: triple_def ret_def on_def)
  qed
  have np: "(c = 2 \<and> (p \<le> 0 \<or> q \<le> 0)) = False" for c :: int using pos by simp
  show ?thesis
    unfolding confirm_with_def Let_def confirmDeductLua_fold res np if_False
    by (rule triple_bind [OF triple_keeps], intro keeps_rules keeps_core_ops core,
        rule triple_bind [OF triple_map_err [OF confirm_script_triple [OF n]]],
        rule triple_bind [OF deduct rest [unfolded res]])
qed

lemma confirm_with_unknown:
  assumes n: "0 < shardCount r" and res: "rr_ProductID res \<le> 0"
  shows "triple (on (confirming r k p q rd0 d0)) (confirm_with r k m res)
    (\<lambda>_. on (confirming r k p q rd0 d0)) (on (confirming r k p q rd0 d0))"
proof -
  have script: "triple (on (confirming r k p q rd0 d0)) (evalInt64 (confirm_cmd (final_flag r) k))
     (\<lambda>c. on (confirming r k p q rd0 d0)) (on (confirming r k p q rd0 d0))"
    by (rule triple_conseq [OF confirm_script_triple [OF n]]) (auto simp: on_def confirmed_def)
  have np: "(rr_ProductID res > 0) = False" "(c = 2 \<and> (rr_ProductID res \<le> 0 \<or> rr_Quantity res \<le> 0)) = (c = 2)" for c :: int
    using res by auto
  show ?thesis
    unfolding confirm_with_def Let_def confirmDeductLua_fold np if_False
    by (rule triple_bind [OF triple_keeps], intro keeps_rules,
        rule triple_bind [OF triple_map_err [OF script]]) (auto simp: triple_def bindE_def ret_def)
qed

text \<open>What reading the reservation before a confirmation can answer.\<close>

lemma read_reservation:
  assumes pre: "on (confirming r k p q rd0 d0) w"
    and run: "or_else (evalReservation (getReservationLua (reservationKey k))) no_reservation w = (x, w')"
  shows "\<exists>res. x = Inr res \<and> (res = no_reservation \<or> rr_ProductID res = p \<and> rr_Quantity res = q) \<and>
     on (confirming r k p q rd0 d0) w' \<and> (faults w = [] \<longrightarrow> rr_ProductID res = p \<and> rr_Quantity res = q)"
proof -
  have tr: "triple (on (confirming r k p q rd0 d0)) (evalReservation (getReservationLua (reservationKey k)))
    (\<lambda>res w. (rr_ProductID res = p \<and> rr_Quantity res = q) \<and> on (confirming r k p q rd0 d0) w) (on (confirming r k p q rd0 d0))"
    by (rule triple_evalReservation) (auto simp: confirming_def order_hash_def)
  obtain y where y: "evalReservation (getReservationLua (reservationKey k)) w = (y, w')" "x = Inr (case y of Inl e \<Rightarrow> no_reservation | Inr a \<Rightarrow> a)"
    using run by (auto simp: or_else_def split: prod.splits sum.splits)
  have "\<exists>a. y = Inr a" if "faults w = []"
    using that y(1) pre
    by (auto simp: evalReservation_def EvalCtx_def getReservationLua_def Let_def io_simps on_def confirming_def order_hash_def
        toInt64Slice_def toInt64_def)
  then show ?thesis using tr [unfolded triple_def, rule_format, OF pre] y by (auto split: sum.splits)
qed

lemma ConfirmDeduct_triple:
  assumes n: "0 < shardCount r" and ok: "buckets_ok d0" and new: "deduct_logs d0 k = []" and pos: "0 < p" "0 < q"
    and pre: "on (confirming r k p q rd0 d0) w"
  shows "on (confirming r k p q rd0 d0) (snd (ConfirmDeduct r k m w))"
    and "faults w = [] \<Longrightarrow> ConfirmDeduct r k m w = (Inr (), w') \<Longrightarrow>
      confirmed r k p q rd0 d0 (inv_redis w') (inv_db w') \<and> (final_flag r = 1 \<longrightarrow> deducted k p q d0 (inv_db w'))"
proof -
  obtain x w1 where rd: "or_else (evalReservation (getReservationLua (reservationKey k))) no_reservation w = (x, w1)" by fastforce
  from read_reservation [OF pre rd] obtain res where
    res: "x = Inr res" "res = no_reservation \<or> rr_ProductID res = p \<and> rr_Quantity res = q" "on (confirming r k p q rd0 d0) w1"
      "faults w = [] \<longrightarrow> rr_ProductID res = p \<and> rr_Quantity res = q" by auto
  have run: "ConfirmDeduct r k m w = confirm_with r k m res w1" using rd res(1) by (simp add: ConfirmDeduct_def bindE_def)
  have known: "triple (on (confirming r k p q rd0 d0)) (confirm_with r k m res)
    (\<lambda>_. on (\<lambda>rd d. confirmed r k p q rd0 d0 rd d \<and> (final_flag r = 1 \<longrightarrow> deducted k p q d0 d)))
    (on (confirming r k p q rd0 d0))" if "rr_ProductID res = p" "rr_Quantity res = q"
    by (rule confirm_with_known [OF n ok new that pos])
  have "triple (on (confirming r k p q rd0 d0)) (confirm_with r k m res)
    (\<lambda>_. on (confirming r k p q rd0 d0)) (on (confirming r k p q rd0 d0))"
    using res(2)
  proof
    assume "res = no_reservation"
    then show ?thesis by (intro confirm_with_unknown [OF n]) (simp add: no_reservation_def)
  next
    assume "rr_ProductID res = p \<and> rr_Quantity res = q"
    then show ?thesis by (intro triple_conseq [OF known]) (auto simp: on_def confirmed_def)
  qed
  from triple_snd [OF this res(3)] show "on (confirming r k p q rd0 d0) (snd (ConfirmDeduct r k m w))" unfolding run .
  assume "faults w = []" "ConfirmDeduct r k m w = (Inr (), w')"
  then show "confirmed r k p q rd0 d0 (inv_redis w') (inv_db w') \<and> (final_flag r = 1 \<longrightarrow> deducted k p q d0 (inv_db w'))"
    using triple_Inr [OF known res(3), of "()" w'] res(4) run by (simp add: on_def)
qed

section \<open>Confirmation over attempts\<close>

text \<open>
  C7: confirming an order's open reservation, attempted any number of times under any losses, never
  changes the stock left in Redis and takes the order's quantity from the MySQL buckets at most
  once; once an attempt that meets no loss answers success, the reservation is confirmed and, with
  the final deduction enabled, the quantity has left the product's buckets exactly once.
\<close>

theorem confirm_exactly_once:
  fixes m :: stock_change_meta and j :: nat
  assumes inv: "script_inv (shardCount r) (inv_redis w)" and n: "0 < shardCount r"
    and reserved: "script_status (inv_redis w) k = Some ''reserved''" "\<not> h_mysql_deducted (order_hash (inv_redis w) k)"
    and item: "script_item (inv_redis w) k = (p, q)" and p: "0 < p"
    and ok: "buckets_ok (inv_db w)" and new: "deduct_logs (inv_db w) k = []"
  defines "w1 \<equiv> attempts j (ConfirmDeduct r k m) w"
  defines "w2 \<equiv> snd (ConfirmDeduct r k m w1)"
  shows "stock_left (shardCount r) (inv_redis w1) = stock_left (shardCount r) (inv_redis w) \<and>
    bucket_sum (inv_db w1) p \<in> {bucket_sum (inv_db w) p, bucket_sum (inv_db w) p - q} \<and>
    (faults w1 = [] \<and> fst (ConfirmDeduct r k m w1) = Inr () \<longrightarrow>
       script_status (inv_redis w2) k = Some ''confirmed'' \<and>
       stock_left (shardCount r) (inv_redis w2) = stock_left (shardCount r) (inv_redis w) \<and>
       (finalDeductEnabled r \<and> has_db r \<longrightarrow>
          (\<forall>a. bucket_sum (inv_db w2) a = bucket_sum (inv_db w) a - (if a = p then q else 0))))"
proof -
  let ?C = "on (confirming r k p q (inv_redis w) (inv_db w))"
  have "hash_ok (shardCount r) (order_hash (inv_redis w) k)"
    using inv reserved(1) redis_invD_hash [of "shardCount r" "inv_redis w" k] by (simp add: script_inv_def script_status_def)
  then have h: "h_product_id (order_hash (inv_redis w) k) = Some p" "h_quantity (order_hash (inv_redis w) k) = Some q" "0 < q"
    using item by (auto simp: hash_ok_def script_item_def num_of_def split: option.splits)
  have start: "?C w" using inv reserved h by (simp add: on_def confirming_def script_status_def same_core_def)
  have all: "?C (attempts i (ConfirmDeduct r k m) v)" if "?C v" for i v
    using that by (induction i arbitrary: v) (simp_all add: ConfirmDeduct_triple(1) [OF n ok new p h(3)])
  have c1: "?C w1" unfolding w1_def by (rule all [OF start])
  have sums: "bucket_sum d p \<in> {bucket_sum (inv_db w) p, bucket_sum (inv_db w) p - q}"
    if "same_core (inv_db w) d \<or> deducted k p q (inv_db w) d" for d
    using that bucket_sum_cong [of d "inv_db w" p] by (auto simp: same_core_def deducted_def)
  have "confirmed r k p q (inv_redis w) (inv_db w) (inv_redis w2) (inv_db w2) \<and>
      (final_flag r = 1 \<longrightarrow> deducted k p q (inv_db w) (inv_db w2))"
    if "faults w1 = []" "fst (ConfirmDeduct r k m w1) = Inr ()"
    by (rule ConfirmDeduct_triple(2) [OF n ok new p h(3) c1 that(1), of m]) (use that in \<open>simp add: w2_def prod_eq_iff\<close>)
  then show ?thesis
    using c1 sums [of "inv_db w1"]
    by (auto simp: on_def confirming_def confirmed_def script_status_def final_flag_def deducted_def)
qed

abbreviation demo_confirm_world :: "fault list \<Rightarrow> inv_world" where
  "demo_confirm_world fs \<equiv> (demo_world fs)\<lparr>inv_redis := demo_reserved\<rparr>"

lemma demo_not_deducted: "\<not> h_mysql_deducted (order_hash demo_reserved ''o1'')"
proof -
  have new: "h_status (order_hash demo_store ''o1'') = None" "\<not> h_mysql_deducted (order_hash demo_store ''o1'')"
    by (simp_all add: order_hash_def demo_store_def empty_redis_def empty_hash_def)
  have d: "demo_reserved = snd (reserve_cmd 1 ''o1'' 7 3 demo_store)"
    by (simp add: demo_reserved_def script_reserve_def split: prod.splits)
  show ?thesis
    by (cases rule: reserve_cmd_new [OF _ new(1), of 1 7 3]) (use d new in \<open>auto simp: order_hash_def reserved_hash_def\<close>)
qed

theorem confirm_exactly_once_witness:
  "bucket_sum (inv_db (attempts 1 (ConfirmDeduct demo_config ''o1'' no_meta) (demo_confirm_world [NoReply ''gone'']))) 7 \<in> {5, 5 - 3}"
  using confirm_exactly_once [where r = demo_config and w = "demo_confirm_world [NoReply ''gone'']" and k = "''o1''" and p = 7 and q = 3
      and j = 1 and m = no_meta] demo_reserved_facts demo_not_deducted
  by (simp add: demo_values demo_world_def demo_tables_def buckets_ok_def deduct_logs_def bucket_sum_def product_buckets_def)

text \<open>
  when only the read of the reservation is lost, the confirmation answers success and marks the
  reservation confirmed, but takes nothing from the MySQL buckets and leaves no deduction log,
  although the final deduction is enabled.
\<close>

theorem confirm_lost_read:
  assumes inv: "redis_inv (shardCount r) rd" and reserved: "script_status rd k = Some ''reserved''" "\<not> h_mysql_deducted (order_hash rd k)"
    and final: "finalDeductEnabled r" "has_db r" and w: "inv_redis w = rd" "faults w = [NoRequest e]"
  shows "fst (ConfirmDeduct r k m w) = Inr () \<and> script_status (inv_redis (snd (ConfirmDeduct r k m w))) k = Some ''confirmed'' \<and>
    inv_db (snd (ConfirmDeduct r k m w)) = inv_db w"
proof -
  let ?w1 = "w\<lparr>faults := []\<rparr>"
  have read: "or_else (evalReservation f) no_reservation w = (Inr no_reservation, ?w1)" for f
    using w(2) by (simp add: evalReservation_def EvalCtx_def ext_call_def io_simps pop_fault_def)
  then have start: "ConfirmDeduct r k m w = confirm_with r k m no_reservation ?w1" by (simp add: ConfirmDeduct_def bindE_def)
  have fold1: "confirmDeductLua (reservationKey k) (reservationKey ''expirations'') 15552000 1 k = confirm_cmd 1 k"
    by (simp add: confirm_cmd_def)
  have st: "h_status (order_hash rd k) = Some ''reserved''" using reserved(1) by (simp add: script_status_def)
  show ?thesis
  proof (rule confirm_cmd_reserved [OF inv st, of 1], goal_cases)
    case (1 c rd' p)
    then have "evalInt64 (confirm_cmd 1 k) ?w1 = (Inr 2, ?w1\<lparr>inv_redis := rd'\<rparr>)"
      using w(1) reserved(2) by (simp add: evalInt64_def EvalCtx_def io_simps toInt64_def)
    moreover have "script_status rd' k = Some ''confirmed''" using 1(5) by (simp add: script_status_def order_hash_def)
    ultimately show ?case
      using final
      by (simp add: start confirm_with_def Let_def fold1
          no_reservation_def bindE_def ret_def map_err_def)
  qed
qed

theorem confirm_lost_read_witness:
  "inv_db (snd (ConfirmDeduct demo_config ''o1'' no_meta (demo_confirm_world [NoRequest ''down'']))) = demo_tables"
  using confirm_lost_read [where r = demo_config and rd = demo_reserved and k = "''o1''" and e = "''down''" and m = no_meta
      and w = "demo_confirm_world [NoRequest ''down'']"] demo_reserved_facts demo_not_deducted
  by (simp add: demo_values script_inv_def) (simp add: demo_config_def demo_world_def)

end
