(* ===== verification/Common_Status.thy ===== *)
theory Common_Status
  imports Prelude
begin

text \<open>
  The status codes shared by the services: \<open>app/common/orderstatus\<close>, \<open>paymentstatus\<close> and
  \<open>refundstatus\<close>, with their texts and the order predicates.  They are \<open>int64\<close> constants in the
  code and \<open>int\<close> constants here, so a status read from a table can be any number.
\<close>

definition order_PendingPayment :: int where [simp]: "order_PendingPayment = 0"
definition order_Paid :: int where [simp]: "order_Paid = 1"
definition order_Closed :: int where [simp]: "order_Closed = 2"
definition order_Shipped :: int where [simp]: "order_Shipped = 3"
definition order_Completed :: int where [simp]: "order_Completed = 4"
definition order_RefundRequested :: int where [simp]: "order_RefundRequested = 5"
definition order_Refunded :: int where [simp]: "order_Refunded = 6"

definition order_Text :: "int \<Rightarrow> string" where
  "order_Text s =
     (if s = order_PendingPayment then ''pending_payment''
      else if s = order_Paid then ''paid''
      else if s = order_Closed then ''closed''
      else if s = order_Shipped then ''shipped''
      else if s = order_Completed then ''completed''
      else if s = order_RefundRequested then ''refund_requested''
      else if s = order_Refunded then ''refunded''
      else ''unknown'')"

definition CanPay :: "int \<Rightarrow> bool" where "CanPay s \<longleftrightarrow> s = order_PendingPayment"
definition CanShip :: "int \<Rightarrow> bool" where "CanShip s \<longleftrightarrow> s = order_Paid"
definition CanConfirmReceipt :: "int \<Rightarrow> bool" where "CanConfirmReceipt s \<longleftrightarrow> s = order_Shipped"
definition CanRequestRefund :: "int \<Rightarrow> bool" where
  "CanRequestRefund s \<longleftrightarrow> s = order_Paid \<or> s = order_Shipped"
definition CanAuditRefund :: "int \<Rightarrow> bool" where "CanAuditRefund s \<longleftrightarrow> s = order_RefundRequested"

definition payment_Init :: int where [simp]: "payment_Init = 0"
definition payment_Success :: int where [simp]: "payment_Success = 1"
definition payment_Failed :: int where [simp]: "payment_Failed = 2"
definition payment_Closed :: int where [simp]: "payment_Closed = 3"

definition payment_Text :: "int \<Rightarrow> string" where
  "payment_Text s =
     (if s = payment_Init then ''INIT''
      else if s = payment_Success then ''SUCCESS''
      else if s = payment_Failed then ''FAILED''
      else if s = payment_Closed then ''CLOSED''
      else ''UNKNOWN'')"

definition refund_Requested :: int where [simp]: "refund_Requested = 0"
definition refund_Approved :: int where [simp]: "refund_Approved = 1"
definition refund_Success :: int where [simp]: "refund_Success = 2"
definition refund_Rejected :: int where [simp]: "refund_Rejected = 3"
definition refund_Failed :: int where [simp]: "refund_Failed = 4"

definition refund_Text :: "int \<Rightarrow> string" where
  "refund_Text s =
     (if s = refund_Requested then ''requested''
      else if s = refund_Approved then ''approved''
      else if s = refund_Success then ''success''
      else if s = refund_Rejected then ''rejected''
      else if s = refund_Failed then ''failed''
      else ''unknown'')"

text \<open>The texts tell the known statuses apart, so a text identifies its status.\<close>

lemma order_Text_inject:
  "order_Text a = order_Text b \<Longrightarrow> order_Text a \<noteq> ''unknown'' \<Longrightarrow> a = b"
  by (auto simp: order_Text_def split: if_splits)

lemma payment_Text_inject:
  "payment_Text a = payment_Text b \<Longrightarrow> payment_Text a \<noteq> ''UNKNOWN'' \<Longrightarrow> a = b"
  by (auto simp: payment_Text_def split: if_splits)

lemma refund_Text_inject:
  "refund_Text a = refund_Text b \<Longrightarrow> refund_Text a \<noteq> ''unknown'' \<Longrightarrow> a = b"
  by (auto simp: refund_Text_def split: if_splits)

end
