(* ===== verification/Reservation_Reaper.thy ===== *)
theory Reservation_Reaper
  imports Stock_Commands
begin

text \<open>
  \<open>app/inventory/repository/reservation_reaper.go\<close>: claiming expired reservations, releasing them
  one by one with a bounded number of retries, and the statistics.  The reaper answers how many
  it released together with the first error it met.
\<close>

definition string_item :: "redis_val \<Rightarrow> string option" where
  "string_item v = (case v of VString s \<Rightarrow> Some s | VBytes s \<Rightarrow> Some s | _ \<Rightarrow> None)"

fun string_items :: "redis_val list \<Rightarrow> go_error + string list" where
  "string_items [] = Inr []"
| "string_items (x # xs) = (case string_item x of
       None \<Rightarrow> Inl (RawError ''unexpected redis string result type'')
     | Some s \<Rightarrow> (case string_items xs of Inl e \<Rightarrow> Inl e | Inr ss \<Rightarrow> Inr (s # ss)))"

definition evalStringSlice :: "(redis, redis_val) io \<Rightarrow> (inv_world, string list) io" where
  "evalStringSlice script = bindE (EvalCtx script) (\<lambda>value. case value of
       VArray items \<Rightarrow> of_result (string_items items)
     | _ \<Rightarrow> fail (RawError ''unexpected redis string array type''))"

definition first_error :: "go_error option \<Rightarrow> go_error \<Rightarrow> go_error option" where
  "first_error firstErr e = (case firstErr of None \<Rightarrow> Some e | Some e0 \<Rightarrow> Some e0)"

definition reap_one :: "inv_config \<Rightarrow> stock_change_meta \<Rightarrow> string \<Rightarrow> int \<times> go_error option \<Rightarrow> (inv_world, int \<times> go_error option) io" where
  "reap_one r meta orderID acc = (case acc of (processed, firstErr) \<Rightarrow>
     bindE (attempt (ReleaseStock r orderID meta)) (\<lambda>x. case x of
       Inl e \<Rightarrow>
         bindE time_now (\<lambda>now.
         bindE (or_else (evalInt64 (retryExpiredReservationLua reservationProcessingIndexKey reservationExpiryIndexKey
           reservationRetryCountKey reservationDeadLetterIndexKey orderID now reservationRetryDelay reservationMaxRecoveryRetries)) 0) (\<lambda>_.
         ret (processed, first_error firstErr e)))
     | Inr _ \<Rightarrow>
         bindE (attempt (evalInt64 (completeExpiredReservationLua reservationProcessingIndexKey reservationRetryCountKey orderID))) (\<lambda>y. case y of
           Inl e \<Rightarrow> ret (processed + 1, first_error firstErr (app_wrap CodeInternal ''complete expired reservation recovery failed'' e))
         | Inr _ \<Rightarrow> ret (processed + 1, firstErr))))"

definition ReleaseExpiredReservations :: "inv_config \<Rightarrow> int \<Rightarrow> stock_change_meta \<Rightarrow> (inv_world, int \<times> go_error option) io" where
  "ReleaseExpiredReservations r limit meta =
     (let limit = (if limit \<le> 0 then 100 else limit)
      in bindE time_now (\<lambda>now.
         bindE (map_err (app_wrap CodeInternal ''claim expired stock reservations failed'')
           (evalStringSlice (claimExpiredReservationsLua reservationExpiryIndexKey reservationProcessingIndexKey
              now limit reservationProcessingTimeout))) (\<lambda>claimed.
         fold_io (reap_one r meta) claimed (0, None))))"

definition ReservationStats :: "(inv_world, reservation_stats) io" where
  "ReservationStats =
     bindE time_now (\<lambda>now.
     bindE (map_err (app_wrap CodeInternal ''read reservation stats failed'')
       (EvalCtx (reservationStatsLua reservationExpiryIndexKey reservationProcessingIndexKey reservationDeadLetterIndexKey now))) (\<lambda>value.
     bindE (map_err (app_wrap CodeInternal ''decode reservation stats failed'') (of_result (toInt64Slice value))) (\<lambda>parts.
     if length parts \<noteq> 4
     then fail (app_wrap CodeInternal ''decode reservation stats failed'' (RawError ''unexpected result length''))
     else ret \<lparr>Active = parts ! 0, Expired = parts ! 3, Processing = parts ! 1, DeadLetter = parts ! 2\<rparr>)))"

section \<open>The indexes\<close>

text \<open>
  Every order the reaper claims was expired, is no longer in the expiry index and is in the
  processing index until a deadline in the future.
\<close>

lemma claim_orders_zset:
  assumes "a \<noteq> b" "o1 \<in> set os"
  shows "map_of (zset (claim_orders a b t os r) a) o1 = None \<and> map_of (zset (claim_orders a b t os r) b) o1 = Some t"
proof -
  have keep: "map_of (zset (claim_orders a b t xs s) a) o1 = None \<and> map_of (zset (claim_orders a b t xs s) b) o1 = Some t"
    if "map_of (zset s a) o1 = None \<and> map_of (zset s b) o1 = Some t" for xs s
    using that assms(1)
    by (induction xs arbitrary: s) (auto simp: AList.update_conv' AList.delete_conv' fun_upd_def)
  show ?thesis using assms(2)
  proof (induction os arbitrary: r)
    case (Cons x xs)
    show ?case
    proof (cases "x = o1")
      case True
      then show ?thesis using assms(1) by (auto intro!: keep simp: AList.update_conv' AList.delete_conv' fun_upd_def)
    next
      case False
      then show ?thesis using Cons by simp
    qed
  qed simp
qed

text \<open>
  an order that the claim script hands to the reaper had an expiry time that has passed; after the
  script it is out of the expiry index and in the processing index until the processing timeout,
  so that no second reaper claims it before then, and at most \<open>limit\<close> orders are claimed.
\<close>

theorem claim_moves_expired:
  assumes "claimExpiredReservationsLua reservationExpiryIndexKey reservationProcessingIndexKey now limit reservationProcessingTimeout r
      = (Inr (VArray (map VString os)), r')" "k \<in> set os" "0 \<le> limit"
  shows "map_of (zset r' reservationExpiryIndexKey) k = None \<and>
    map_of (zset r' reservationProcessingIndexKey) k = Some (now + reservationProcessingTimeout) \<and>
    int (length os) \<le> limit \<and>
    (\<exists>s. (k, s) \<in> set (zset (requeue_abandoned reservationExpiryIndexKey reservationProcessingIndexKey now
        (r_zrangebyscore reservationProcessingIndexKey now r) r) reservationExpiryIndexKey) \<and> s \<le> now)"
proof -
  let ?r1 = "requeue_abandoned reservationExpiryIndexKey reservationProcessingIndexKey now (r_zrangebyscore reservationProcessingIndexKey now r) r"
  have inj: "map VString xs = map VString ys \<longleftrightarrow> xs = ys" for xs ys by (simp add: inj_map_eq_map inj_def)
  have os: "os = take (nat limit) (r_zrangebyscore reservationExpiryIndexKey now ?r1)"
    and r': "r' = claim_orders reservationExpiryIndexKey reservationProcessingIndexKey (now + reservationProcessingTimeout) os ?r1"
    using assms(1) inj by (auto simp: claimExpiredReservationsLua_def Let_def simp del: index_keys)
  have "k \<in> set (r_zrangebyscore reservationExpiryIndexKey now ?r1)" using assms(2) os by (metis in_set_takeD)
  then have "\<exists>s. (k, s) \<in> set (zset ?r1 reservationExpiryIndexKey) \<and> s \<le> now"
    by (auto simp: r_zrangebyscore_def simp del: index_keys)
  moreover have "int (length os) \<le> limit" using assms(3) by (simp add: os del: index_keys)
  ultimately show ?thesis
    using claim_orders_zset [OF _ assms(2), of reservationExpiryIndexKey reservationProcessingIndexKey] unfolding r' by simp
qed

definition demo_expired :: redis where
  "demo_expired = (empty_redis 0)\<lparr>zset := (\<lambda>x. if x = reservationExpiryIndexKey then [(''o1'', 5), (''o2'', 50)] else [])\<rparr>"

theorem claim_moves_expired_witness:
  "map_of (zset (snd (claimExpiredReservationsLua reservationExpiryIndexKey reservationProcessingIndexKey 10 100
      reservationProcessingTimeout demo_expired)) reservationProcessingIndexKey) ''o1'' = Some 310"
proof -
  have "claimExpiredReservationsLua reservationExpiryIndexKey reservationProcessingIndexKey 10 100
      reservationProcessingTimeout demo_expired = (Inr (VArray (map VString [''o1''])),
      snd (claimExpiredReservationsLua reservationExpiryIndexKey reservationProcessingIndexKey 10 100
      reservationProcessingTimeout demo_expired))"
    by (simp add: claimExpiredReservationsLua_def Let_def demo_expired_def r_zrangebyscore_def empty_redis_def)
  from claim_moves_expired [OF this, of "''o1''"] show ?thesis by simp
qed

end
