(* ===== verification/Runtime_Recovery.thy ===== *)
theory Runtime_Recovery
  imports Repository_Safety "HOL-Library.Multiset" "HOL-Library.Char_ord" "HOL-Library.List_Lexorder" "HOL-Library.Product_Lexorder"
begin

text \<open>
  \<open>app/inventory/repository/runtime_recovery.go\<close>: rebuilding the Redis stock and reservations from the
  MySQL buckets and the reservation ledger.  Go iterates its map of products in an arbitrary
  order; the model takes the products in the order the rows come in.  The theorem at the end says
  what a successful recovery leaves in Redis.
\<close>

record recovery_reservation =
  v_OrderID :: string
  v_ProductID :: int
  v_Quantity :: int
  v_ShardIndex :: int
  v_Status :: string
  v_ExpiresAt :: int

type_synonym bucket_map = "(int \<times> int list) list"

definition bad_bucket :: "int \<Rightarrow> int \<Rightarrow> int \<Rightarrow> int \<Rightarrow> go_error" where
  "bad_bucket p i v n = app_new CodeInternal (''invalid inventory bucket: product_id='' @ show_int p @ '' bucket_idx='' @ show_int i @
     '' stock='' @ show_int v @ '' shard_count='' @ show_int n)"

fun collect_buckets :: "int \<Rightarrow> ((int \<times> int) \<times> bucket_row) list \<Rightarrow> bucket_map \<Rightarrow> go_error + bucket_map" where
  "collect_buckets n [] acc = Inr acc"
| "collect_buckets n (((productID, bucketIdx), b) # rows) acc =
     (if bucketIdx < 0 \<or> bucketIdx \<ge> n \<or> b_stock b < 0 then Inl (bad_bucket productID bucketIdx (b_stock b) n)
      else let cur = (case map_of acc productID of None \<Rightarrow> replicate (nat n) 0 | Some xs \<Rightarrow> xs)
           in collect_buckets n rows (AList.update productID (cur[nat bucketIdx := b_stock b]) acc))"

definition loadRecoveryBuckets :: "inv_config \<Rightarrow> (inv_world, bucket_map) io" where
  "loadRecoveryBuckets r =
     bindE (map_err (app_wrap CodeInternal ''load inventory recovery buckets failed'') (sql (\<lambda>d. (Inr (sort_key fst (buckets d)), d)))) (\<lambda>rows.
     of_result (collect_buckets (shardCount r) rows []))"

text \<open>A row of the recovery query: ledger row, type of the last deduct log (\<open>[]\<close>: none), and whether it was reverted.\<close>

definition recovery_rows :: "inv_tables \<Rightarrow> (string \<times> ledger_row \<times> string \<times> bool) list" where
  "recovery_rows d = map (\<lambda>(k, x). (k, x, if deduct_logs d k = [] then [] else last (deduct_logs d k), reverted d k))
     (sort_key (\<lambda>(k, x). (l_product_id x, k)) (filter (\<lambda>(k, x). l_status x = ''RESERVED'' \<or> l_status x = ''CONFIRMED'') (ledger d)))"

fun collect_reservations :: "inv_config \<Rightarrow> (string \<times> ledger_row \<times> string \<times> bool) list \<Rightarrow> go_error + recovery_reservation list" where
  "collect_reservations r [] = Inr []"
| "collect_reservations r ((k, x, deductType, isReverted) # rows) =
     (if isReverted then collect_reservations r rows
      else
        let status = ToLower (l_status x);
            item = \<lparr>v_OrderID = k, v_ProductID = l_product_id x, v_Quantity = l_quantity x, v_ShardIndex = l_shard_index x,
                    v_Status = status, v_ExpiresAt = l_expires_at x\<rparr>;
            parsed = (if deductType \<noteq> []
                      then (case ParseInt (TrimPrefix deductType ''DEDUCT_BUCKET_'') of
                              Some i \<Rightarrow> if i < 0 \<or> i \<ge> shardCount r
                                        then Inl (app_new CodeInternal (''invalid inventory deduct log: order_id='' @ k @ '' type='' @ deductType))
                                        else Inr (item\<lparr>v_ShardIndex := i + 1, v_Status := ReservationConfirmed\<rparr>)
                            | None \<Rightarrow> Inl (app_new CodeInternal (''invalid inventory deduct log: order_id='' @ k @ '' type='' @ deductType)))
                      else if status = ReservationConfirmed \<and> finalDeductEnabled r
                           then Inl (app_new CodeInternal (''confirmed inventory reservation is missing deduct log: order_id='' @ k))
                           else Inr item)
        in case parsed of Inl e \<Rightarrow> Inl e
           | Inr it \<Rightarrow> (case collect_reservations r rows of Inl e \<Rightarrow> Inl e | Inr its \<Rightarrow> Inr (it # its)))"

definition loadRecoveryReservations :: "inv_config \<Rightarrow> (inv_world, recovery_reservation list) io" where
  "loadRecoveryReservations r =
     (if ledger_mode r = reservationLedgerModeOff then ret []
      else bindE (map_err (app_wrap CodeInternal ''load inventory recovery reservations failed'') (sql (\<lambda>d. (Inr (recovery_rows d), d))))
        (\<lambda>rows. of_result (collect_reservations r rows)))"

text \<open>The first loop of \<open>RecoverRuntime\<close>: open reservations leave their bucket and count as reserved.\<close>

definition num_at :: "(int \<times> int) list \<Rightarrow> int \<Rightarrow> int" where
  "num_at m p = (case map_of m p of None \<Rightarrow> 0 | Some v \<Rightarrow> v)"

fun reserve_buckets :: "recovery_reservation list \<Rightarrow> bucket_map \<Rightarrow> (int \<times> int) list \<Rightarrow> go_error + bucket_map \<times> (int \<times> int) list" where
  "reserve_buckets [] bs res = Inr (bs, res)"
| "reserve_buckets (item # items) bs res = (case map_of bs (v_ProductID item) of
       None \<Rightarrow> Inl (app_new CodeInternal (''inventory reservation references missing stock: order_id='' @ v_OrderID item @
                 '' product_id='' @ show_int (v_ProductID item)))
     | Some xs \<Rightarrow>
         if v_Status item \<noteq> ReservationReserved then reserve_buckets items bs res
         else
           let bucketIdx = v_ShardIndex item - 1
           in if v_Quantity item \<le> 0 \<or> bucketIdx < 0 \<or> bucketIdx \<ge> int (length xs)
              then Inl (app_new CodeInternal (''invalid inventory reservation: order_id='' @ v_OrderID item @
                     '' quantity='' @ show_int (v_Quantity item) @ '' shard_index='' @ show_int (v_ShardIndex item)))
              else if xs ! nat bucketIdx < v_Quantity item
              then Inl (app_new CodeInternal (''inventory recovery underflow: order_id='' @ v_OrderID item @
                     '' product_id='' @ show_int (v_ProductID item) @ '' bucket_idx='' @ show_int bucketIdx @
                     '' stock='' @ show_int (xs ! nat bucketIdx) @ '' quantity='' @ show_int (v_Quantity item)))
              else reserve_buckets items
                     (AList.update (v_ProductID item) (xs[nat bucketIdx := xs ! nat bucketIdx - v_Quantity item]) bs)
                     (AList.update (v_ProductID item) (num_at res (v_ProductID item) + v_Quantity item) res))"

definition sumInt64 :: "int list \<Rightarrow> int" where
  "sumInt64 values = fold (\<lambda>v acc. i64 (acc + v)) values 0"

definition restoreProductStock :: "inv_config \<Rightarrow> int \<Rightarrow> int list \<Rightarrow> int \<Rightarrow> (inv_world, unit) io" where
  "restoreProductStock r productID bs reserved =
     bindE (map_err (app_wrap CodeInternal ''restore redis product stock failed'')
       (evalInt64 (restoreProductStockLua (StockShardKeys productID (shardCount r) @ [reservedStockKey productID])
          (shardCount r) bs reserved))) (\<lambda>_. ret ())"

definition restoreReservation :: "recovery_reservation \<Rightarrow> (inv_world, unit) io" where
  "restoreReservation item =
     bindE time_now (\<lambda>now.
     let ttl = (if v_Status item = ReservationReserved
                then (if v_ExpiresAt item - now < 0 then 0 else v_ExpiresAt item - now) + reservationExpirySeconds
                else confirmedReservationTTLSeconds)
     in bindE (map_err (app_wrap CodeInternal ''restore redis reservation failed'')
          (evalInt64 (restoreReservationLua (reservationKey (v_OrderID item)) reservationExpiryIndexKey reservationProcessingIndexKey
             reservationRetryCountKey reservationDeadLetterIndexKey
             (v_Status item) (v_ProductID item) (v_Quantity item) (v_ShardIndex item) (v_OrderID item) ttl
             confirmedReservationTTLSeconds (v_ExpiresAt item)))) (\<lambda>_. ret ()))"

definition restore_product :: "inv_config \<Rightarrow> (int \<times> int) list \<Rightarrow> int \<times> int list \<Rightarrow> (inv_world, unit) io" where
  "restore_product r reservedByProduct pb = (case pb of (productID, bs) \<Rightarrow>
     let reserved = num_at reservedByProduct productID
     in bindE (restoreProductStock r productID bs reserved) (\<lambda>_.
        upsertStockSnapshot r \<lparr>ProductID = productID, Available = sumInt64 bs, Reserved = reserved,
                               Total = i64 (sumInt64 bs + reserved)\<rparr>))"

definition count_restored :: "recovery_reservation \<Rightarrow> runtime_recovery_report \<Rightarrow> (inv_world, runtime_recovery_report) io" where
  "count_restored item report =
     bindE (restoreReservation item) (\<lambda>_.
       ret (if v_Status item = ReservationConfirmed
            then report\<lparr>ConfirmedReservations := ConfirmedReservations report + 1\<rparr>
            else report\<lparr>ReservedReservations := ReservedReservations report + 1\<rparr>))"

definition recover_body :: "inv_config \<Rightarrow> (inv_world, runtime_recovery_report) io" where
  "recover_body r =
     bindE checkSchema (\<lambda>_.
     bindE (loadRecoveryBuckets r) (\<lambda>bs.
     bindE (loadRecoveryReservations r) (\<lambda>items.
     bindE (of_result (reserve_buckets items bs [])) (\<lambda>(bs', reservedByProduct).
     bindE (map_err (app_wrap CodeInternal ''reset inventory recovery indexes failed'')
       (evalInt64 (resetReservationRecoveryIndexesLua [reservationExpiryIndexKey, reservationProcessingIndexKey]))) (\<lambda>_.
     bindE (for_each bs' (restore_product r reservedByProduct)) (\<lambda>_.
     fold_io count_restored items \<lparr>Products = int (length bs'), ReservedReservations = 0, ConfirmedReservations = 0\<rparr>))))))"

definition RecoverRuntime :: "inv_config \<Rightarrow> (inv_world, runtime_recovery_report) io" where
  "RecoverRuntime r =
     (if \<not> has_db r then ret \<lparr>Products = 0, ReservedReservations = 0, ConfirmedReservations = 0\<rparr>
      else recover_body r)"

section \<open>The plan conserves stock\<close>

definition sum_at :: "bucket_map \<Rightarrow> int \<Rightarrow> int" where
  "sum_at m p = (case map_of m p of None \<Rightarrow> 0 | Some xs \<Rightarrow> sum_list xs)"

definition plan_ok :: "int \<Rightarrow> bucket_map \<Rightarrow> bool" where
  "plan_ok n m \<longleftrightarrow> distinct (map fst m) \<and> (\<forall>(p, xs) \<in> set m. length xs = nat n \<and> list_all (\<lambda>v. 0 \<le> v) xs)"

lemma plan_okD: "plan_ok n m \<Longrightarrow> map_of m p = Some xs \<Longrightarrow> length xs = nat n \<and> list_all (\<lambda>v. 0 \<le> v) xs"
  by (auto simp: plan_ok_def dest!: map_of_SomeD)

lemma plan_ok_update:
  assumes "plan_ok n m" "length xs = nat n" "list_all (\<lambda>v. 0 \<le> v) xs"
  shows "plan_ok n (AList.update p xs m)"
proof -
  have d: "distinct (map fst (AList.update p xs m))" using assms(1) by (simp add: plan_ok_def AList.distinct_update)
  have "length ys = nat n \<and> list_all (\<lambda>v. 0 \<le> v) ys" if "(a, ys) \<in> set (AList.update p xs m)" for a ys
  proof -
    have "map_of (AList.update p xs m) a = Some ys" using that d by (simp add: map_of_is_SomeI)
    then show ?thesis using assms plan_okD [OF assms(1)] by (auto simp: AList.update_conv' split: if_splits)
  qed
  then show ?thesis using d by (auto simp: plan_ok_def)
qed

lemma list_all_update: "list_all P xs \<Longrightarrow> P v \<Longrightarrow> list_all P (xs[i := v])"
  by (auto simp: list_all_iff dest!: set_update_subset_insert [THEN subsetD])

lemma reserve_buckets_conserves:
  assumes "reserve_buckets items bs res = Inr (bs', res')" "plan_ok n bs"
  shows "plan_ok n bs' \<and> map fst bs' = map fst bs \<and> (\<forall>p. sum_at bs' p + num_at res' p = sum_at bs p + num_at res p) \<and>
    (\<forall>p. num_at res p \<le> num_at res' p)"
  using assms
proof (induction items arbitrary: bs res)
  case (Cons item items)
  then obtain xs where xs: "map_of bs (v_ProductID item) = Some xs" by (auto split: option.splits)
  show ?case
  proof (cases "v_Status item = ReservationReserved")
    case False
    then show ?thesis using Cons xs by simp
  next
    case True
    let ?p = "v_ProductID item" and ?i = "nat (v_ShardIndex item - 1)" and ?q = "v_Quantity item"
    let ?ys = "xs[?i := xs ! ?i - ?q]"
    have g: "0 < ?q" "?i < length xs" "?q \<le> xs ! ?i"
      and rec: "reserve_buckets items (AList.update ?p ?ys bs) (AList.update ?p (num_at res ?p + ?q) res) = Inr (bs', res')"
      using Cons.prems(1) xs True by (auto simp: Let_def split: if_splits)
    have len: "length xs = nat n" "list_all (\<lambda>v. 0 \<le> v) xs" using plan_okD [OF Cons.prems(2) xs] by auto
    have ok: "plan_ok n (AList.update ?p ?ys bs)"
      by (rule plan_ok_update [OF Cons.prems(2)]) (use len g in \<open>simp_all add: list_all_update\<close>)
    have keys: "map fst (AList.update ?p ?ys bs) = map fst bs" using xs by (simp add: AList.update_keys weak_map_of_SomeI)
      (metis AList.update_keys map_of_eq_None_iff option.distinct(1) xs)
    have "sum_at (AList.update ?p ?ys bs) a + num_at (AList.update ?p (num_at res ?p + ?q) res) a = sum_at bs a + num_at res a \<and>
        num_at res a \<le> num_at (AList.update ?p (num_at res ?p + ?q) res) a" for a
      using xs g sum_list_update_int [OF g(2), of "xs ! ?i - ?q"] by (auto simp: sum_at_def num_at_def AList.update_conv')
    then show ?thesis using Cons.IH [OF rec ok] keys by (metis (no_types, lifting) order_trans)
  qed
qed simp

section \<open>The plan starts from the buckets\<close>

definition slot :: "bucket_map \<Rightarrow> int \<Rightarrow> int \<Rightarrow> int" where
  "slot m p i = (case map_of m p of None \<Rightarrow> 0 | Some xs \<Rightarrow> if 0 \<le> i \<and> nat i < length xs then xs ! nat i else 0)"

lemma collect_buckets_sums:
  assumes "collect_buckets n rows acc = Inr m" "plan_ok n acc" "distinct (map fst rows)"
    and "\<And>p i. (p, i) \<in> fst ` set rows \<Longrightarrow> slot acc p i = 0"
  shows "plan_ok n m \<and> (\<forall>p. sum_at m p = sum_at acc p + sum_list (map (\<lambda>(k, b). if fst k = p then b_stock b else 0) rows))"
  using assms
proof (induction rows arbitrary: acc)
  case (Cons row rows)
  obtain p i b where row: "row = ((p, i), b)" by (metis prod.exhaust)
  have g: "0 \<le> i" "i < n" "0 \<le> b_stock b" using Cons.prems(1) row by (auto split: if_splits)
  let ?cur = "case map_of acc p of None \<Rightarrow> replicate (nat n) 0 | Some xs \<Rightarrow> xs"
  let ?acc = "AList.update p (?cur[nat i := b_stock b]) acc"
  have rec: "collect_buckets n rows ?acc = Inr m" using Cons.prems(1) row g by (simp add: Let_def)
  have cur: "length ?cur = nat n" "list_all (\<lambda>v. 0 \<le> v) ?cur"
    using plan_okD [OF Cons.prems(2), of p] by (auto simp: list_all_iff split: option.splits)
  have ok: "plan_ok n ?acc" by (rule plan_ok_update [OF Cons.prems(2)]) (use cur g in \<open>simp_all add: list_all_update\<close>)
  have zero: "?cur ! nat i = 0"
    using Cons.prems(4) [of p i] row g cur(1) by (auto simp: slot_def split: option.splits if_splits)
  have "slot ?acc a j = 0" if "(a, j) \<in> fst ` set rows" for a j
  proof -
    have ne: "(a, j) \<noteq> (p, i)" using that Cons.prems(3) row by auto
    have "slot acc a j = 0" using Cons.prems(4) that row by auto
    then show ?thesis using ne g cur(1)
      by (auto simp: slot_def AList.update_conv' nth_list_update nat_eq_iff2 split: option.splits if_splits)
  qed
  moreover have "sum_at ?acc a = sum_at acc a + (if p = a then b_stock b else 0)" for a
  proof -
    have "sum_list (?cur[nat i := b_stock b]) = sum_list ?cur + b_stock b"
      using sum_list_update_int [of "nat i" ?cur "b_stock b"] zero g cur(1) by simp
    then show ?thesis by (auto simp: sum_at_def AList.update_conv' sum_list_replicate split: option.splits)
  qed
  ultimately show ?case using Cons.IH [OF rec ok] Cons.prems(3) row by auto
qed simp

lemma collect_buckets_keys:
  "collect_buckets n rows acc = Inr m \<Longrightarrow> fst ` set acc \<union> (fst \<circ> fst) ` set rows \<subseteq> dom (map_of m)"
proof (induction rows arbitrary: acc)
  case Nil
  then show ?case by (simp add: dom_map_of_conv_image_fst)
next
  case (Cons row rows)
  obtain p i b where row: "row = ((p, i), b)" by (metis prod.exhaust)
  let ?cur = "case map_of acc p of None \<Rightarrow> replicate (nat n) 0 | Some xs \<Rightarrow> xs"
  have rec: "collect_buckets n rows (AList.update p (?cur[nat i := b_stock b]) acc) = Inr m"
    using Cons.prems row by (auto simp: Let_def split: if_splits)
  have "fst ` set (AList.update p v acc) = insert p (fst ` set acc)" for v
    by (simp add: dom_map_of_conv_image_fst [symmetric] AList.update_conv')
  then show ?case using Cons.IH [OF rec] row by auto
qed

lemma loadRecoveryBuckets_Inr:
  assumes run: "loadRecoveryBuckets r w = (Inr m, w')" and ok: "buckets_ok (inv_db w)"
  shows "plan_ok (shardCount r) m \<and> (\<forall>p. sum_at m p = bucket_sum (inv_db w) p) \<and> inv_db w' = inv_db w \<and>
    (\<forall>p. product_buckets (inv_db w) p \<noteq> [] \<longrightarrow> map_of m p \<noteq> None)"
proof -
  have c: "collect_buckets (shardCount r) (sort_key fst (buckets (inv_db w))) [] = Inr m" "inv_db w' = inv_db w"
    using run unfolding loadRecoveryBuckets_def
    by (auto elim!: bindE_InrE dest!: map_err_InrD sql_Inr simp: of_result_def)
  have perm: "mset (sort_key fst (buckets (inv_db w))) = mset (buckets (inv_db w))" by simp
  have "distinct (map fst (sort_key fst (buckets (inv_db w))))"
    using ok by (metis buckets_ok_def mset_map mset_eq_imp_distinct_iff perm)
  from collect_buckets_sums [OF c(1) _ this] have
    "plan_ok (shardCount r) m \<and> (\<forall>p. sum_at m p = sum_list (map (\<lambda>(k, b). if fst k = p then b_stock b else 0) (sort_key fst (buckets (inv_db w)))))"
    by (simp add: plan_ok_def slot_def sum_at_def)
  moreover have "sum_list (map f (sort_key fst (buckets (inv_db w)))) = sum_list (map f (buckets (inv_db w)))" for f :: "_ \<Rightarrow> int"
    by (metis perm mset_map sum_mset_sum_list)
  moreover have "map_of m p \<noteq> None" if "product_buckets (inv_db w) p \<noteq> []" for p
    using that collect_buckets_keys [OF c(1)] by (force simp: product_buckets_def filter_empty_conv)
  ultimately show ?thesis using c(2) by (simp add: bucket_sum_alt)
qed

section \<open>What recovery leaves in Redis\<close>

definition restored :: "int \<Rightarrow> redis \<Rightarrow> int \<Rightarrow> int list \<Rightarrow> int \<Rightarrow> bool" where
  "restored n rd p xs reserved \<longleftrightarrow> stock_left n rd p = sum_list xs \<and> ctr rd (reservedStockKey p) = Some reserved \<and>
     (\<forall>i. 0 \<le> i \<and> i < n \<longrightarrow> ctr rd (StockShardKey p i) = Some (xs ! nat i))"

lemma ctr_fold_set: "ctr (fold (\<lambda>(k, v). r_set k v) kvs r) = ctr r ++ map_of (rev kvs)"
proof (induction kvs arbitrary: r)
  case (Cons kv kvs)
  obtain k v where "kv = (k, v)" by fastforce
  then show ?case using Cons by (auto simp: fun_eq_iff map_add_def split: option.splits)
qed simp

lemma restore_keys: "map (at_key (StockShardKeys p n @ [x])) [1..NormalizeShardCount n] = StockShardKeys p n"
  by (rule nth_equalityI) (auto simp: at_key_def lkey_def nth_append nat_less_iff)

lemma restoreProductStockLua_effect:
  assumes n: "0 < n" and len: "length xs = nat n"
    and run: "restoreProductStockLua (StockShardKeys p n @ [reservedStockKey p]) n xs reserved rd = (Inr v, rd')"
  shows "restored n rd' p xs reserved \<and> (\<forall>a i. a \<noteq> p \<longrightarrow> ctr rd' (StockShardKey a i) = ctr rd (StockShardKey a i)) \<and>
    (\<forall>a. a \<noteq> p \<longrightarrow> ctr rd' (reservedStockKey a) = ctr rd (reservedStockKey a))"
proof -
  let ?kvs = "zip (StockShardKeys p n) xs"
  have last: "at_key (StockShardKeys p n @ [reservedStockKey p]) (n + 1) = reservedStockKey p"
    using n by (simp add: at_key_def lkey_def nth_append)
  have ctr': "ctr rd' = (ctr rd ++ map_of (rev ?kvs))(reservedStockKey p \<mapsto> reserved)"
    using run n len restore_keys [of p n "reservedStockKey p"] last
    by (auto simp: restoreProductStockLua_def ctr_fold_set split: if_splits)
  have d: "distinct (map fst ?kvs)" using len n by simp
  have at: "map_of (rev ?kvs) (StockShardKey p i) = Some (xs ! nat i)" if "0 \<le> i" "i < n" for i
  proof -
    have "(StockShardKey p i, xs ! nat i) \<in> set ?kvs"
      using that len n by (auto simp: in_set_zip nth_StockShardKeys intro!: exI [of _ "nat i"])
    then show ?thesis using d by (simp add: map_of_is_SomeI rev_map [symmetric] distinct_rev)
  qed
  have shards: "\<forall>i. 0 \<le> i \<and> i < n \<longrightarrow> ctr rd' (StockShardKey p i) = Some (xs ! nat i)"
    using at by (simp add: ctr' map_add_def)
  have "map (\<lambda>k. num_of (ctr rd' k)) (StockShardKeys p n) = xs"
    by (rule nth_equalityI) (use len n shards in \<open>auto simp: nth_StockShardKeys\<close>)
  then have "stock_left n rd' p = sum_list xs" unfolding stock_left_alt by (rule arg_cong)
  moreover have "map_of (rev ?kvs) k = None" if "k \<notin> set (StockShardKeys p n)" for k
    using that by (auto simp: map_of_eq_None_iff rev_map [symmetric] dest: set_zip_leftD)
  moreover have "StockShardKey a i \<notin> set (StockShardKeys p n)" if "a \<noteq> p" for a i
    using that by (auto simp: set_StockShardKeys)
  moreover have "reservedStockKey a \<notin> set (StockShardKeys p n)" for a by (auto simp: set_StockShardKeys)
  ultimately show ?thesis using shards by (simp add: restored_def ctr' map_add_def)
qed

lemma restored_cong:
  assumes "restored n rd p xs v" "\<And>i. ctr rd' (StockShardKey p i) = ctr rd (StockShardKey p i)"
    "ctr rd' (reservedStockKey p) = ctr rd (reservedStockKey p)"
  shows "restored n rd' p xs v"
  using assms stock_left_cong [of rd' p rd n] by (simp add: restored_def)

lemma restore_product_Inr:
  assumes run: "restore_product r res (p, xs) w = (Inr u, w')" and n: "0 < shardCount r" and len: "length xs = nat (shardCount r)"
  shows "restored (shardCount r) (inv_redis w') p xs (num_at res p) \<and>
    (\<forall>a ys v. a \<noteq> p \<longrightarrow> restored (shardCount r) (inv_redis w) a ys v \<longrightarrow> restored (shardCount r) (inv_redis w') a ys v)"
  using run unfolding restore_product_def restoreProductStock_def Let_def prod.case
proof (elim bindE_InrE, goal_cases)
  case (1 u1 w1 c w2)
  from evalInt64_Inr [OF map_err_InrD [OF 1(2)]] obtain v where
    v: "restoreProductStockLua (StockShardKeys p (shardCount r) @ [reservedStockKey p]) (shardCount r) xs (num_at res p) (inv_redis w)
      = (Inr v, inv_redis w2)" by auto
  have "inv_redis w1 = inv_redis w2" using 1(3) by (auto dest: ret_InrD)
  moreover have "inv_redis w' = inv_redis w1" using 1(1) by (rule keeps_same_redis [rotated]) (intro keeps_rules)
  ultimately show ?case using restoreProductStockLua_effect [OF n len v] restored_cong by metis
qed

lemma for_each_restore:
  assumes run: "for_each m (restore_product r res) w = (Inr u, w')" and n: "0 < shardCount r" and ok: "plan_ok (shardCount r) m"
  shows "(\<forall>(p, xs) \<in> set m. restored (shardCount r) (inv_redis w') p xs (num_at res p)) \<and>
    (\<forall>a ys v. a \<notin> fst ` set m \<longrightarrow> restored (shardCount r) (inv_redis w) a ys v \<longrightarrow> restored (shardCount r) (inv_redis w') a ys v)"
  using run ok
proof (induction m arbitrary: w)
  case Nil
  then show ?case by (auto dest: ret_InrD)
next
  case (Cons px m)
  obtain p xs where px: "px = (p, xs)" by fastforce
  from Cons.prems(1) obtain u1 w1 where
    one: "restore_product r res (p, xs) w = (Inr u1, w1)" and rest: "for_each m (restore_product r res) w1 = (Inr u, w')"
    unfolding px by (auto elim: bindE_InrE)
  have ok: "length xs = nat (shardCount r)" "plan_ok (shardCount r) m" "p \<notin> fst ` set m"
    using Cons.prems(2) px by (auto simp: plan_ok_def)
  from restore_product_Inr [OF one n ok(1)] Cons.IH [OF rest ok(2)] ok(3) show ?case unfolding px by auto
qed

lemma restoreReservation_frame:
  "keeps (on_redis (\<lambda>rd. restored n rd p xs v)) (restoreReservation item)"
  unfolding restoreReservation_def Let_def
proof (rule keeps_bindE [OF keeps_time_now], rule keeps_bindE [OF keeps_map_err [OF keeps_evalInt64 [OF keeps_on_redis_EvalCtx]]], goal_cases)
  case (1 now rd)
  then show ?case
    by (rule restored_cong)
       (simp_all add: restoreReservationLua_def Let_def r_zrem_def r_hdel_def r_zadd_def r_expire_def r_hset_def r_del_def split: if_split)
qed (rule keeps_ret)

lemma count_restored_frame:
  "keeps (on_redis (\<lambda>rd. restored n rd p xs v)) (fold_io count_restored items rep)"
  unfolding count_restored_def by (intro keeps_fold_io keeps_bindE restoreReservation_frame keeps_ret)

lemma recover_body_conserves:
  assumes run: "recover_body r w = (Inr report, w')" and n: "0 < shardCount r"
    and ok: "buckets_ok (inv_db w)" and p: "product_buckets (inv_db w) p \<noteq> []"
  shows "stock_left (shardCount r) (inv_redis w') p + num_of (ctr (inv_redis w') (reservedStockKey p)) = bucket_sum (inv_db w) p \<and>
    0 \<le> num_of (ctr (inv_redis w') (reservedStockKey p)) \<and>
    (\<forall>i. 0 \<le> i \<and> i < shardCount r \<longrightarrow> 0 \<le> num_of (ctr (inv_redis w') (StockShardKey p i)))"
  using run unfolding recover_body_def
proof (elim bindE_InrE, goal_cases)
  case (1 u1 w1 m w2 items w3 plan w4)
  obtain m' res where plan: "plan = (m', res)" by fastforce
  have w1: "inv_db w1 = inv_db w"
    using 1(1) unfolding checkSchema_def by (auto elim!: bindE_InrE dest!: map_err_InrD sql_Inr ret_InrD simp: Let_def split: if_splits)
  note load = loadRecoveryBuckets_Inr [OF 1(2) ok [folded w1], unfolded w1]
  have "reserve_buckets items m [] = Inr (m', res)" using 1(4) plan by (simp add: of_result_def)
  note cons = reserve_buckets_conserves [OF this conjunct1 [OF load]]
  then obtain xs where xs: "map_of m' p = Some xs"
    using load p by (metis map_of_eq_None_iff list.set_map option.exhaust)
  then have mem: "(p, xs) \<in> set m'" and nonneg: "list_all (\<lambda>v. 0 \<le> v) xs" "length xs = nat (shardCount r)"
    using plan_okD [OF conjunct1 [OF cons] xs] by (auto dest: map_of_SomeD)
  have sum: "sum_list xs + num_at res p = bucket_sum (inv_db w) p" "0 \<le> num_at res p"
    using cons load xs by (auto simp: sum_at_def num_at_def dest!: spec [of _ p])
  have "restored (shardCount r) (inv_redis w') p xs (num_at res p)"
    using 1(5) unfolding plan prod.case
  proof (elim bindE_InrE, goal_cases)
    case (1 u2 w5 u3 w6)
    have "restored (shardCount r) (inv_redis w6) p xs (num_at res p)"
      using for_each_restore [OF 1(2) n] cons mem by auto
    then show ?case
      using keeps_result [OF count_restored_frame [of "shardCount r" p xs "num_at res p"] _ 1(3)] by (simp add: on_redis_def)
  qed
  then show ?case using sum nonneg by (auto simp: restored_def list_all_length nat_less_iff)
qed

text \<open>
  C13: a recovery that succeeds, whatever it met on the way, leaves for every product with MySQL buckets
  non-negative shard counters and a reserved counter that together hold exactly the units of the
  buckets: nothing is lost or invented when Redis is rebuilt.
\<close>

theorem recovery_conserves_stock:
  assumes run: "RecoverRuntime r w = (Inr report, w')" and db: "has_db r" and n: "0 < shardCount r"
    and ok: "buckets_ok (inv_db w)" and p: "product_buckets (inv_db w) p \<noteq> []"
  shows "stock_left (shardCount r) (inv_redis w') p + num_of (ctr (inv_redis w') (reservedStockKey p)) = bucket_sum (inv_db w) p \<and>
    0 \<le> num_of (ctr (inv_redis w') (reservedStockKey p)) \<and>
    (\<forall>i. 0 \<le> i \<and> i < shardCount r \<longrightarrow> 0 \<le> num_of (ctr (inv_redis w') (StockShardKey p i)))"
  using recover_body_conserves [OF _ n ok p] run db by (simp add: RecoverRuntime_def)

definition demo_recovery_world :: inv_world where
  "demo_recovery_world = (demo_world [])\<lparr>inv_db := demo_tables\<lparr>tables := inventoryRequiredTables,
     ledger := [(''o1'', \<lparr>l_product_id = 7, l_quantity = 3, l_shard_index = 1, l_status = ''RESERVED'', l_expires_at = 100,
        l_version = 0, l_request_id = [], l_trace_id = []\<rparr>)]\<rparr>\<rparr>"

lemma demo_recovery:
  "RecoverRuntime demo_config demo_recovery_world = (Inr \<lparr>Products = 1, ReservedReservations = 1, ConfirmedReservations = 0\<rparr>,
     snd (RecoverRuntime demo_config demo_recovery_world))"
  by (simp add: RecoverRuntime_def recover_body_def checkSchema_def loadRecoveryBuckets_def loadRecoveryReservations_def
      recovery_rows_def restore_product_def restoreProductStock_def upsertStockSnapshot_def count_restored_def restoreReservation_def
      evalInt64_def EvalCtx_def sql_def io_simps Let_def demo_recovery_world_def demo_world_def demo_tables_def demo_config_def
      normalizeReservationLedgerMode_def ToLower_def TrimSpace_def lower_char_def is_space_def
      deduct_logs_def reverted_def num_at_def toInt64_def time_now_def inventoryRequiredTables_def
      restoreProductStockLua_def restoreReservationLua_def resetReservationRecoveryIndexesLua_def snapshot_upsert_def)

theorem recovery_conserves_stock_witness:
  "stock_left 1 (inv_redis (snd (RecoverRuntime demo_config demo_recovery_world))) 7 +
   num_of (ctr (inv_redis (snd (RecoverRuntime demo_config demo_recovery_world))) (reservedStockKey 7)) = 5"
  using recovery_conserves_stock [OF demo_recovery, where p = 7]
  by (simp add: demo_config_def demo_recovery_world_def demo_world_def demo_tables_def buckets_ok_def product_buckets_def bucket_sum_def)

end
