(* ===== verification/Inventory_Service.thy ===== *)
theory Inventory_Service
  imports Reservation_Reaper Runtime_Recovery Memory_Repository
begin

text \<open>
  \<open>app/inventory/service/service.go\<close> and the Kitex adapter \<open>app/inventory/kitex/handler.go\<close>.  The
  Go interface \<open>StockRepository\<close> (\<open>repository.go\<close>) is a record of operations; the service checks its
  arguments and calls the repository it was built with.  Locale \<open>guarded_repository\<close> states what the
  service relies on: the repository keeps an invariant as long as the arguments are valid; the
  lemmas of the locale conclude that the service keeps it for all arguments.  Tracing spans and
  metrics have no effect on the answers and are left out.
\<close>

section \<open>The interface\<close>

record 'w stock_repository =
  repo_CheckRuntime :: "('w, unit) io"
  repo_RecoverRuntime :: "('w, runtime_recovery_report) io"
  repo_GetStock :: "int \<Rightarrow> ('w, stock) io"
  repo_BatchGetStock :: "int list \<Rightarrow> ('w, stock list) io"
  repo_SeedStock :: "int \<Rightarrow> int \<Rightarrow> int \<Rightarrow> ('w, unit) io"
  repo_AdjustStock :: "int \<Rightarrow> int \<Rightarrow> int \<Rightarrow> stock_change_meta \<Rightarrow> ('w, stock \<times> stock) io"
  repo_ReserveStock :: "string \<Rightarrow> int \<Rightarrow> int \<Rightarrow> stock_change_meta \<Rightarrow> ('w, unit) io"
  repo_ConfirmDeduct :: "string \<Rightarrow> stock_change_meta \<Rightarrow> ('w, unit) io"
  repo_ReleaseStock :: "string \<Rightarrow> stock_change_meta \<Rightarrow> ('w, unit) io"
  repo_ReleaseExpiredReservations :: "int \<Rightarrow> stock_change_meta \<Rightarrow> ('w, int \<times> go_error option) io"
  repo_ReservationStats :: "('w, reservation_stats) io"
  repo_ReconcileStock :: "int \<Rightarrow> stock_change_meta \<Rightarrow> ('w, stock \<times> stock \<times> bool) io"

definition redis_mysql_repository :: "inv_config \<Rightarrow> inv_world stock_repository" where
  "redis_mysql_repository r =
     \<lparr>repo_CheckRuntime = CheckRuntime r, repo_RecoverRuntime = RecoverRuntime r, repo_GetStock = GetStock r,
      repo_BatchGetStock = BatchGetStock r, repo_SeedStock = SeedStock r, repo_AdjustStock = AdjustStock r,
      repo_ReserveStock = ReserveStock r, repo_ConfirmDeduct = ConfirmDeduct r, repo_ReleaseStock = ReleaseStock r,
      repo_ReleaseExpiredReservations = ReleaseExpiredReservations r, repo_ReservationStats = ReservationStats,
      repo_ReconcileStock = ReconcileStock r\<rparr>"

definition memory_repository :: "mem_repo stock_repository" where
  "memory_repository =
     \<lparr>repo_CheckRuntime = ret (), repo_RecoverRuntime = ret \<lparr>Products = 0, ReservedReservations = 0, ConfirmedReservations = 0\<rparr>,
      repo_GetStock = mem_GetStock, repo_BatchGetStock = mem_BatchGetStock, repo_SeedStock = mem_SeedStock,
      repo_AdjustStock = mem_AdjustStock, repo_ReserveStock = mem_ReserveStock, repo_ConfirmDeduct = mem_ConfirmDeduct,
      repo_ReleaseStock = mem_ReleaseStock,
      repo_ReleaseExpiredReservations = (\<lambda>limit meta. bindE (mem_ReleaseExpiredReservations limit meta) (\<lambda>n. ret (n, None))),
      repo_ReservationStats = mem_ReservationStats, repo_ReconcileStock = mem_ReconcileStock\<rparr>"

section \<open>The service\<close>

record runtime_state =
  FinalDeductEnabled :: bool
  RedisConfigured :: bool
  MySQLConfigured :: bool
  ShardCount :: int
  ReservationLedgerMode :: string

record 'w service =
  repo :: "'w stock_repository"
  defaultShardCount :: int
  runtimeState :: runtime_state

definition svc_New :: "'w stock_repository \<Rightarrow> int \<Rightarrow> 'w service" where
  "svc_New rp sc =
     (let n = NormalizeShardCount sc
      in \<lparr>repo = rp, defaultShardCount = n,
          runtimeState = \<lparr>FinalDeductEnabled = False, RedisConfigured = False, MySQLConfigured = False,
                          ShardCount = n, ReservationLedgerMode = ''off''\<rparr>\<rparr>)"

definition svc_GetRuntimeState :: "'w service \<Rightarrow> runtime_state" where
  "svc_GetRuntimeState s = runtimeState s"

definition svc_WithRuntimeState :: "runtime_state \<Rightarrow> 'w service \<Rightarrow> 'w service" where
  "svc_WithRuntimeState state s =
     (let state = (if ShardCount state \<le> 0 then state\<lparr>ShardCount := defaultShardCount s\<rparr> else state);
          state = (if ReservationLedgerMode state = [] then state\<lparr>ReservationLedgerMode := ''off''\<rparr> else state)
      in s\<lparr>runtimeState := state\<rparr>)"

definition svc_CheckRuntime :: "'w service \<Rightarrow> ('w, unit) io" where
  "svc_CheckRuntime s = repo_CheckRuntime (repo s)"

definition svc_RecoverRuntime :: "'w service \<Rightarrow> ('w, runtime_recovery_report) io" where
  "svc_RecoverRuntime s = repo_RecoverRuntime (repo s)"

definition svc_GetStock :: "'w service \<Rightarrow> int \<Rightarrow> ('w, stock) io" where
  "svc_GetStock s productID = (if productID \<le> 0 then fail ErrProductIDRequired else repo_GetStock (repo s) productID)"

definition svc_BatchGetStock :: "'w service \<Rightarrow> int list \<Rightarrow> ('w, stock list) io" where
  "svc_BatchGetStock s productIDs =
     (if productIDs = [] then ret []
      else if list_ex (\<lambda>p. p \<le> 0) productIDs then fail ErrProductIDRequired
      else repo_BatchGetStock (repo s) productIDs)"

definition svc_SeedStock :: "'w service \<Rightarrow> int \<Rightarrow> int \<Rightarrow> int \<Rightarrow> ('w, unit) io" where
  "svc_SeedStock s productID n sc =
     (if productID \<le> 0 then fail ErrProductIDRequired
      else if n < 0 then fail ErrQuantityInvalid
      else repo_SeedStock (repo s) productID n (if sc \<le> 0 then defaultShardCount s else sc))"

definition svc_AdjustStock :: "'w service \<Rightarrow> int \<Rightarrow> int \<Rightarrow> int \<Rightarrow> stock_change_meta \<Rightarrow> ('w, stock \<times> stock) io" where
  "svc_AdjustStock s productID delta bucketIdx meta =
     (if productID \<le> 0 then fail ErrProductIDRequired
      else if delta = 0 then fail ErrQuantityInvalid
      else if bucketIdx < 0 then fail ErrQuantityInvalid
      else repo_AdjustStock (repo s) productID delta bucketIdx meta)"

definition svc_ReserveStock :: "'w service \<Rightarrow> string \<Rightarrow> int \<Rightarrow> int \<Rightarrow> stock_change_meta \<Rightarrow> ('w, unit) io" where
  "svc_ReserveStock s orderID productID quantity meta =
     (if orderID = [] then fail ErrOrderIDRequired
      else if productID \<le> 0 then fail ErrProductIDRequired
      else if quantity \<le> 0 then fail ErrQuantityInvalid
      else repo_ReserveStock (repo s) orderID productID quantity (meta\<lparr>metaOrderID := orderID\<rparr>))"

definition svc_ConfirmDeduct :: "'w service \<Rightarrow> string \<Rightarrow> stock_change_meta \<Rightarrow> ('w, unit) io" where
  "svc_ConfirmDeduct s orderID meta =
     (if orderID = [] then fail ErrOrderIDRequired
      else repo_ConfirmDeduct (repo s) orderID (meta\<lparr>metaOrderID := orderID\<rparr>))"

definition svc_ReleaseStock :: "'w service \<Rightarrow> string \<Rightarrow> string \<Rightarrow> stock_change_meta \<Rightarrow> ('w, unit) io" where
  "svc_ReleaseStock s orderID reason meta =
     (if orderID = [] then fail ErrOrderIDRequired
      else let meta = meta\<lparr>metaOrderID := orderID\<rparr>;
               meta = (if metaReason meta = [] then meta\<lparr>metaReason := reason\<rparr> else meta)
           in repo_ReleaseStock (repo s) orderID meta)"

definition svc_ReleaseExpiredReservations :: "'w service \<Rightarrow> int \<Rightarrow> stock_change_meta \<Rightarrow> ('w, int \<times> go_error option) io" where
  "svc_ReleaseExpiredReservations s limit meta = repo_ReleaseExpiredReservations (repo s) limit meta"

definition svc_ReservationStats :: "'w service \<Rightarrow> ('w, reservation_stats) io" where
  "svc_ReservationStats s = repo_ReservationStats (repo s)"

definition svc_ReconcileStock :: "'w service \<Rightarrow> int \<Rightarrow> stock_change_meta \<Rightarrow> ('w, stock \<times> stock \<times> bool) io" where
  "svc_ReconcileStock s productID meta =
     (if productID \<le> 0 then fail ErrProductIDRequired else repo_ReconcileStock (repo s) productID meta)"

section \<open>What the service relies on\<close>

locale guarded_repository =
  fixes I :: "'w \<Rightarrow> bool" and rp :: "'w stock_repository"
  assumes check_keeps: "keeps I (repo_CheckRuntime rp)"
    and recover_keeps: "keeps I (repo_RecoverRuntime rp)"
    and get_keeps: "0 < p \<Longrightarrow> keeps I (repo_GetStock rp p)"
    and batch_keeps: "list_all (\<lambda>p. 0 < p) ps \<Longrightarrow> keeps I (repo_BatchGetStock rp ps)"
    and seed_keeps: "0 < p \<Longrightarrow> 0 \<le> n \<Longrightarrow> in_i64 n \<Longrightarrow> keeps I (repo_SeedStock rp p n sc)"
    and adjust_keeps: "0 < p \<Longrightarrow> d \<noteq> 0 \<Longrightarrow> 0 \<le> b \<Longrightarrow> keeps I (repo_AdjustStock rp p d b m)"
    and reserve_keeps: "k \<noteq> [] \<Longrightarrow> 0 < p \<Longrightarrow> 0 < q \<Longrightarrow> keeps I (repo_ReserveStock rp k p q m)"
    and confirm_keeps: "k \<noteq> [] \<Longrightarrow> keeps I (repo_ConfirmDeduct rp k m)"
    and release_keeps: "k \<noteq> [] \<Longrightarrow> keeps I (repo_ReleaseStock rp k m)"
    and reap_keeps: "keeps I (repo_ReleaseExpiredReservations rp lim m)"
    and stats_keeps: "keeps I (repo_ReservationStats rp)"
    and reconcile_keeps: "0 < p \<Longrightarrow> keeps I (repo_ReconcileStock rp p m)"
begin

lemmas repository_keeps = check_keeps recover_keeps get_keeps batch_keeps seed_keeps adjust_keeps reserve_keeps
  confirm_keeps release_keeps reap_keeps stats_keeps reconcile_keeps

lemma service_commands_keep:
  assumes "repo s = rp"
  shows "in_i64 n \<Longrightarrow> keeps I (svc_SeedStock s p n sc)" "keeps I (svc_AdjustStock s p d b m)" "keeps I (svc_ReserveStock s k p q m)"
    "keeps I (svc_ConfirmDeduct s k m)" "keeps I (svc_ReleaseStock s k reason m)" "keeps I (svc_ReconcileStock s p m)"
    "keeps I (svc_ReleaseExpiredReservations s lim m)" "keeps I (svc_RecoverRuntime s)"
  unfolding svc_SeedStock_def svc_AdjustStock_def svc_ReserveStock_def svc_ConfirmDeduct_def svc_ReleaseStock_def
    svc_ReconcileStock_def svc_ReleaseExpiredReservations_def svc_RecoverRuntime_def Let_def assms
  by (intro keeps_if keeps_fail repository_keeps; simp)+

lemma service_queries_keep:
  assumes "repo s = rp"
  shows "keeps I (svc_GetStock s p)" "keeps I (svc_BatchGetStock s ps)" "keeps I (svc_CheckRuntime s)" "keeps I (svc_ReservationStats s)"
  unfolding svc_GetStock_def svc_BatchGetStock_def svc_CheckRuntime_def svc_ReservationStats_def assms
  by (intro keeps_if keeps_fail keeps_ret repository_keeps; simp add: list_ex_iff list_all_iff not_le)+

end

end
