(* ===== verification/Service_Safety.thy ===== *)
theory Service_Safety
  imports Inventory_Service
begin

text \<open>
  The repository on Redis and MySQL keeps every shard counter non-negative, whatever operation runs,
  whatever it is given and whatever is lost: the contract the inventory service relies on
  (locale \<open>guarded_repository\<close>), and what follows for the service.
\<close>

definition shards_nonneg :: "redis \<Rightarrow> bool" where
  "shards_nonneg rd \<longleftrightarrow> (\<forall>p i v. ctr rd (StockShardKey p i) = Some v \<longrightarrow> 0 \<le> v)"

lemma shards_nonnegD: "shards_nonneg rd \<Longrightarrow> 0 \<le> num_of (ctr rd (StockShardKey p i))"
  by (cases "ctr rd (StockShardKey p i)") (auto simp: shards_nonneg_def)

section \<open>Scripts\<close>

lemma nonneg_frame [simp]:
  "shards_nonneg (r_hset k f rd) = shards_nonneg rd" "shards_nonneg (r_expire k t rd) = shards_nonneg rd"
  "shards_nonneg (r_zadd k s m rd) = shards_nonneg rd" "shards_nonneg (r_zrem k m rd) = shards_nonneg rd"
  "shards_nonneg (r_hdel k m rd) = shards_nonneg rd" "shards_nonneg (snd (r_hincrby k m d rd)) = shards_nonneg rd"
  by (simp_all add: shards_nonneg_def r_hincrby_def Let_def)

lemma nonneg_set: "shards_nonneg rd \<Longrightarrow> 0 \<le> v \<Longrightarrow> shards_nonneg (r_set k v rd)"
  by (auto simp: shards_nonneg_def)

lemma nonneg_set_reserved [simp]: "shards_nonneg rd \<Longrightarrow> shards_nonneg (r_set (reservedStockKey p) v rd)"
  by (auto simp: shards_nonneg_def)

lemma nonneg_incr_reserved [simp]: "shards_nonneg rd \<Longrightarrow> shards_nonneg (r_incrby (reservedStockKey p) v rd)"
  by (auto simp: shards_nonneg_def)

lemma nonneg_incr: "shards_nonneg rd \<Longrightarrow> 0 \<le> d \<Longrightarrow> shards_nonneg (r_incrby k d rd)"
proof -
  assume s: "shards_nonneg rd" "0 \<le> d"
  have "0 \<le> num_of (ctr rd (StockShardKey p i)) + d" for p i using shards_nonnegD [OF s(1)] s(2) by (simp add: add_nonneg_nonneg)
  then show ?thesis using s(1) by (auto simp: shards_nonneg_def)
qed

lemma nonneg_decr: "shards_nonneg rd \<Longrightarrow> d \<le> num_of (ctr rd k) \<Longrightarrow> shards_nonneg (r_decrby k d rd)"
  by (auto simp: shards_nonneg_def)

lemma nonneg_del: "shards_nonneg rd \<Longrightarrow> shards_nonneg (r_del k rd)"
  by (auto simp: shards_nonneg_def r_del_def)

lemma nonneg_seed: "shards_nonneg rd \<Longrightarrow> list_all (\<lambda>v. 0 \<le> v) vs \<Longrightarrow> shards_nonneg (snd (seedStockLua ks vs rd))"
  unfolding seedStockLua_def by (induction ks vs rd rule: seed_loop.induct) (auto simp: nonneg_set)

lemma nonneg_adjust_loop: "shards_nonneg rd \<Longrightarrow> 0 \<le> remain \<Longrightarrow> shards_nonneg (snd (adjust_loop KS n s is remain rd))"
  by (induction KS n s "is" remain rd rule: adjust_loop.induct) (auto simp: Let_def nonneg_decr)

lemma nonneg_adjust: "shards_nonneg rd \<Longrightarrow> shards_nonneg (snd (adjustAvailableStockLua KS d n s rd))"
  by (auto simp: adjustAvailableStockLua_def nonneg_incr nonneg_adjust_loop)

lemma nonneg_reserve:
  assumes "shards_nonneg rd" "0 < n"
  shows "shards_nonneg (snd (reserve_cmd n k p q rd))"
proof (cases "h_status (order_hash rd k) = None")
  case True
  show ?thesis
  proof (cases rule: reserve_cmd_new [OF assms(2) True, of p q])
    case (2 i v r')
    then show ?thesis using assms(1) by (auto simp: shards_nonneg_def)
  qed (use assms in simp)
qed (use assms in \<open>simp add: reserve_cmd_known\<close>)

lemma nonneg_confirm: "shards_nonneg rd \<Longrightarrow> shards_nonneg (snd (confirmDeductLua k x t f o1 rd))"
  by (auto simp: confirmDeductLua_def Let_def split: option.splits)

lemma nonneg_release:
  assumes "shards_nonneg rd" "0 < n"
  shows "shards_nonneg (snd (release_cmd n k p rd))"
  using assms
  by (auto simp: release_cmd_def releaseStockLua_def Let_def nonneg_incr split: option.splits)

lemma nonneg_hydrate: "shards_nonneg rd \<Longrightarrow> shards_nonneg (snd (hydrateReservationLua k a b c d e f rd))"
  by (simp add: hydrateReservationLua_def Let_def)

lemma nonneg_mark: "shards_nonneg rd \<Longrightarrow> shards_nonneg (snd (markMySQLDeductedLua k t rd))"
  by (simp add: markMySQLDeductedLua_def Let_def)

lemma nonneg_quiet: "shards_nonneg rd \<Longrightarrow> quiet rd rd' \<Longrightarrow> shards_nonneg rd'"
  by (simp add: quiet_def shards_nonneg_def)

lemma nonneg_fold_set: "shards_nonneg rd \<Longrightarrow> list_all (\<lambda>(k, v). 0 \<le> v) kvs \<Longrightarrow> shards_nonneg (fold (\<lambda>(k, v). r_set k v) kvs rd)"
  by (induction kvs arbitrary: rd) (auto simp: nonneg_set)

lemma nonneg_restore_product:
  assumes "shards_nonneg rd" "list_all (\<lambda>v. 0 \<le> v) vs" "0 \<le> res"
  shows "shards_nonneg (snd (restoreProductStockLua KS n vs res rd))"
proof -
  have "list_all (\<lambda>(k, v). 0 \<le> v) (zip ks (take m vs))" for ks :: "string list" and m
    using assms(2) by (auto simp: list_all_iff dest!: set_zip_rightD in_set_takeD)
  then show ?thesis using assms by (auto simp: restoreProductStockLua_def intro!: nonneg_set nonneg_fold_set)
qed

lemma nonneg_restore_reservation: "shards_nonneg rd \<Longrightarrow> shards_nonneg (snd (restoreReservationLua a b c d e f g h i j k l m rd))"
  by (simp add: restoreReservationLua_def Let_def nonneg_del)

lemma nonneg_reset: "shards_nonneg rd \<Longrightarrow> shards_nonneg (snd (resetReservationRecoveryIndexesLua KS rd))"
  unfolding resetReservationRecoveryIndexesLua_def snd_conv by (induction KS arbitrary: rd) (auto simp: nonneg_del)

section \<open>Operations\<close>

abbreviation safe :: "inv_world \<Rightarrow> bool" where
  "safe \<equiv> on_redis shards_nonneg"

lemma safe_scripts [keeps_rules]:
  "in_i64 a \<Longrightarrow> keeps safe (EvalCtx (seedStockLua ks (SplitStockAcrossShards a n)))"
  "keeps safe (EvalCtx (resetReservedStockLua (reservedStockKey p) v))"
  "keeps safe (EvalCtx (adjustAvailableStockLua KS d n s))"
  "keeps safe (EvalCtx (confirmDeductLua k x t f o1))"
  "keeps safe (EvalCtx (markMySQLDeductedLua k t))"
  "keeps safe (EvalCtx (hydrateReservationLua k st p' q si o1 t))"
  "keeps safe (EvalCtx (resetReservationRecoveryIndexesLua KS))"
  by (intro keeps_on_redis_EvalCtx;
      simp add: nonneg_seed split_nonneg nonneg_adjust nonneg_confirm nonneg_mark nonneg_hydrate nonneg_reset resetReservedStockLua_def)+

lemma safe_seedRedisState [keeps_rules]: "in_i64 a \<Longrightarrow> keeps safe (seedRedisState p a v n)"
  unfolding seedRedisState_def by (intro keeps_rules)

lemma safe_SeedStock: "in_i64 n \<Longrightarrow> keeps safe (SeedStock r p n sc)"
  unfolding SeedStock_def seedMySQLBuckets_def seedRedis_def refreshStockSnapshot_def Let_def
  by (intro keeps_rules)

lemma safe_AdjustStock: "keeps safe (AdjustStock r p d b m)"
  unfolding AdjustStock_def adjustMySQLStock_def mysqlBucketTotalTx_def adjustRedisAvailable_def Let_def
  by (intro keeps_rules keeps_evalInt64)

lemma safe_ReserveStock: "0 < shardCount r \<Longrightarrow> keeps safe (ReserveStock r k p q m)"
  using leads_before
  unfolding keeps_def
proof (intro allI impI)
  fix w assume n: "0 < shardCount r" and s: "safe w"
  have "inv_redis (snd (ReserveStock r k p q m w)) \<in> {inv_redis w, snd (reserve_cmd (shardCount r) k p q (inv_redis w))}"
    using leadsD [OF ReserveStock_redis [of "inv_redis w" r k p q m], of w] by (auto simp: on_redis_def)
  then show "safe (snd (ReserveStock r k p q m w))"
    using s nonneg_reserve [OF _ n, of "inv_redis w" k p q] by (auto simp: on_redis_def)
qed

lemma safe_ConfirmDeduct: "keeps safe (ConfirmDeduct r k m)"
  unfolding ConfirmDeduct_def confirm_with_def Let_def by (intro keeps_rules keeps_evalInt64)

lemma safe_ReleaseStock: "0 < shardCount r \<Longrightarrow> keeps safe (ReleaseStock r k m)"
proof -
  assume n: "0 < shardCount r"
  have rel: "keeps safe (EvalCtx (release_cmd (shardCount r) k' p))" for k' p
    by (rule keeps_on_redis_EvalCtx) (rule nonneg_release [OF _ n])
  show ?thesis
    unfolding ReleaseStock_def release_target_def command_keys_fold release_cmd_def [symmetric]
    by (intro keeps_rules keeps_evalInt64 rel)
qed

lemma safe_ReconcileStock: "keeps safe (ReconcileStock r p m)"
proof -
  have "in_i64 (expectedAvailable a b c md)" for a b c md
    by (simp add: expectedAvailable_def Let_def in_i64_def) (simp add: i64_def)
  then show ?thesis
    unfolding ReconcileStock_def Let_def by (intro keeps_rules) (simp_all add: keeps_def)
qed

lemma safe_reaper:
  assumes n: "0 < shardCount r"
  shows "keeps safe (ReleaseExpiredReservations r lim m)"
proof -
  have quiet_keeps: "(\<And>rd. quiet rd (snd (f rd))) \<Longrightarrow> keeps safe (EvalCtx f)" for f :: "(redis, redis_val) io"
    by (rule keeps_on_redis_EvalCtx) (rule nonneg_quiet)
  show ?thesis
    unfolding ReleaseExpiredReservations_def reap_one_def evalStringSlice_def Let_def
    by (intro keeps_rules keeps_evalInt64 safe_ReleaseStock n quiet_keeps quiet_reaper) (simp split: redis_val.split add: keeps_rules)
qed

lemma collect_buckets_plan: "collect_buckets n rows acc = Inr m \<Longrightarrow> plan_ok n acc \<Longrightarrow> plan_ok n m"
proof (induction n rows acc rule: collect_buckets.induct)
  case (2 n productID bucketIdx b rows acc)
  let ?cur = "case map_of acc productID of None \<Rightarrow> replicate (nat n) 0 | Some xs \<Rightarrow> xs"
  have g: "\<not> (bucketIdx < 0 \<or> bucketIdx \<ge> n \<or> b_stock b < 0)" using 2(2) by auto
  have cur: "length ?cur = nat n" "list_all (\<lambda>v. 0 \<le> v) ?cur"
    using plan_okD [OF 2(3), of productID] by (auto simp: list_all_iff split: option.splits)
  have "plan_ok n (AList.update productID (?cur[nat bucketIdx := b_stock b]) acc)"
    by (rule plan_ok_update [OF 2(3)]) (use cur g in \<open>simp_all add: list_all_update\<close>)
  then show ?case using 2(1) [OF g refl] 2(2) g by (simp add: Let_def)
qed simp

lemma safe_restore_product:
  assumes "list_all (\<lambda>v. 0 \<le> v) xs" "0 \<le> num_at res p"
  shows "keeps safe (restore_product r res (p, xs))"
proof -
  have "keeps safe (EvalCtx (restoreProductStockLua KS n xs (num_at res p)))" for KS n
    by (rule keeps_on_redis_EvalCtx) (rule nonneg_restore_product [OF _ assms])
  then show ?thesis unfolding restore_product_def restoreProductStock_def Let_def prod.case by (intro keeps_rules keeps_evalInt64)
qed

lemma safe_restore_products:
  assumes "\<forall>(p, xs) \<in> set m. list_all (\<lambda>v. 0 \<le> v) xs" "\<forall>p. 0 \<le> num_at res p"
  shows "keeps safe (for_each m (restore_product r res))"
  using assms(1)
proof (induction m)
  case (Cons px m)
  obtain p xs where px: "px = (p, xs)" by fastforce
  have "keeps safe (restore_product r res (p, xs))" using Cons.prems assms(2) px by (intro safe_restore_product) auto
  then show ?case using Cons px by (auto intro: keeps_rules)
qed (simp add: keeps_rules)

lemma safe_count_restored [keeps_rules]: "keeps safe (count_restored item rep)"
proof -
  have "keeps safe (EvalCtx (restoreReservationLua a b c d e f g h i j k l x))" for a b c d e f g h i j k l x
    by (rule keeps_on_redis_EvalCtx) (rule nonneg_restore_reservation)
  then show ?thesis unfolding count_restored_def restoreReservation_def Let_def by (intro keeps_rules keeps_evalInt64)
qed

lemma safe_restore_plan:
  assumes "plan_ok n m" "reserve_buckets items m [] = Inr (m', res)"
  shows "keeps safe (for_each m' (restore_product r res))"
  using reserve_buckets_conserves [OF assms(2,1)]
  by (intro safe_restore_products) (auto simp: plan_ok_def num_at_def)

lemma safe_RecoverRuntime: "keeps safe (RecoverRuntime r)"
proof -
  have load: "keeps safe (loadRecoveryBuckets r)" "keeps safe (loadRecoveryReservations r)" "keeps safe checkSchema"
    unfolding loadRecoveryBuckets_def loadRecoveryReservations_def checkSchema_def Let_def by (intro keeps_rules)+
  have plan: "plan_ok (shardCount r) m" if "loadRecoveryBuckets r w = (Inr m, w')" for m w w'
  proof -
    have "plan_ok (shardCount r) []" by (simp add: plan_ok_def)
    then show ?thesis
      using that collect_buckets_plan unfolding loadRecoveryBuckets_def by (auto elim!: bindE_InrE simp: of_result_def)
  qed
  show ?thesis
    unfolding RecoverRuntime_def recover_body_def
  proof (intro keeps_if keeps_ret keeps_bindE [OF load(3)] keeps_bindE_val [OF load(1)] keeps_bindE [OF load(2)]
      keeps_bindE_val [OF keeps_of_result], goal_cases)
    case (1 u w m w1 items w2 x w3)
    obtain m' res where x: "x = (m', res)" by fastforce
    then have "reserve_buckets items m [] = Inr (m', res)" using 1(3) by (simp add: of_result_def)
    note plan_safe = safe_restore_plan [OF plan [OF 1(2)] this]
    show ?case
      unfolding x prod.case
      by (intro keeps_bindE keeps_map_err keeps_evalInt64 safe_scripts(7) plan_safe keeps_fold_io safe_count_restored)
  qed
qed

section \<open>The contract of the service\<close>

lemma safe_queries:
  "keeps safe (GetStock r p)" "keeps safe (BatchGetStock r ps)" "keeps safe (CheckRuntime r)" "keeps safe ReservationStats"
  unfolding BatchGetStock_def redisBatchStocks_def fill_missing_def CheckRuntime_def checkSchema_def ReservationStats_def Let_def
  by (intro keeps_rules keeps_reads reads_scripts; simp add: reads_def)+

interpretation redis_repo: guarded_repository safe "redis_mysql_repository (r\<lparr>shardCount := NormalizeShardCount n\<rparr>)" for r n
  by unfold_locales
     (simp_all add: redis_mysql_repository_def safe_queries safe_SeedStock safe_AdjustStock safe_ReserveStock safe_ConfirmDeduct
       safe_ReleaseStock safe_reaper safe_ReconcileStock safe_RecoverRuntime)

text \<open>
  C14: no call of the inventory service, with whatever arguments, under whatever losses, drives a shard
  counter of the store below zero.
\<close>

theorem service_keeps_shards_nonneg:
  fixes r :: inv_config
  assumes svc: "repo s = redis_mysql_repository r" and cfg: "shardCount r = NormalizeShardCount n"
    and pre: "shards_nonneg (inv_redis w)" and total: "in_i64 n'"
  shows "shards_nonneg (inv_redis (snd (svc_SeedStock s p n' sc w))) \<and>
    shards_nonneg (inv_redis (snd (svc_AdjustStock s p d b m w))) \<and>
    shards_nonneg (inv_redis (snd (svc_ReserveStock s k p q m w))) \<and>
    shards_nonneg (inv_redis (snd (svc_ConfirmDeduct s k m w))) \<and>
    shards_nonneg (inv_redis (snd (svc_ReleaseStock s k reason m w))) \<and>
    shards_nonneg (inv_redis (snd (svc_ReconcileStock s p m w))) \<and>
    shards_nonneg (inv_redis (snd (svc_ReleaseExpiredReservations s lim m w))) \<and>
    shards_nonneg (inv_redis (snd (svc_RecoverRuntime s w)))"
proof -
  have r: "r\<lparr>shardCount := NormalizeShardCount n\<rparr> = r" using cfg by (cases r) simp
  have s: "repo s = redis_mysql_repository (r\<lparr>shardCount := NormalizeShardCount n\<rparr>)" using svc by (simp add: r)
  note keep = redis_repo.service_commands_keep [OF s]
  show ?thesis
    using keep(1) [OF total, THEN keepsD, of w p sc] keep(2-) [THEN keepsD, of w] pre by (simp add: on_redis_def)
qed

theorem service_keeps_shards_nonneg_witness:
  "shards_nonneg (inv_redis (snd (svc_ReserveStock (svc_New (redis_mysql_repository demo_config) 1) ''o1'' 7 3 no_meta (demo_world []))))"
proof -
  have "shards_nonneg (inv_redis (demo_world []))"
    using demo_fresh by (auto simp: demo_world_def shards_nonneg_def fresh_store_def)
  then show ?thesis
    using service_keeps_shards_nonneg [of "svc_New (redis_mysql_repository demo_config) 1" demo_config 1 "demo_world []" 0]
    by (simp add: svc_New_def Let_def demo_config_def in_i64_def)
qed

end
