(* ===== verification/Inventory_Handler.thy ===== *)
theory Inventory_Handler
  imports Service_Safety
begin

text \<open>
  The RPC boundary of the inventory service: the Kitex adapter \<open>app/inventory/kitex/handler.go\<close> on
  the server side and \<open>app/order/rpc/internal/inventoryclient/client.go\<close> on the side of the order
  service.  A handler answers a value or a \<open>BizException\<close> (\<open>idl/common.thrift\<close>); the client turns the
  exception into a gRPC status error.  Loss of a request or a reply, and the client's timeout, are
  faults of the caller's world (\<open>Effects\<close>) and come on top.  \<open>call_ctx\<close> is what the code carries in
  \<open>context.Context\<close>: the trace (\<open>tracectx\<close>), the identity (\<open>authctx\<close>), and the id \<open>NewRequestID\<close>
  draws from the random source.
\<close>

section \<open>The interface description\<close>

datatype error_code =
    OK | INVALID_ARGUMENT | UNAUTHORIZED | FORBIDDEN | NOT_FOUND | CONFLICT | TOO_MANY_REQUESTS | INTERNAL
  | PRODUCT_NOT_FOUND | PRODUCT_OFF_SHELF
  | STOCK_NOT_FOUND | STOCK_INSUFFICIENT | STOCK_RESERVE_FAILED | STOCK_RECONCILE_FAILED
  | ORDER_NOT_FOUND | ORDER_STATUS_INVALID | ORDER_CREATE_FAILED | ORDER_ALREADY_PAID
  | PAYMENT_STATUS_INVALID | PAYMENT_FAILED
  | REFUND_NOT_ALLOWED | REFUND_NOT_FOUND | REFUND_STATUS_INVALID
  | MERCHANT_NOT_FOUND | MERCHANT_NOT_BOUND | MERCHANT_APPLY_PENDING | MERCHANT_APPLY_REJECTED

record request_meta =
  rm_RequestId :: "string option"
  rm_TraceId :: "string option"
  rm_UserId :: "int option"
  rm_MerchantId :: "int option"
  rm_Role :: "string option"

record biz_exception =
  biz_Code :: error_code
  biz_Message :: string
  biz_RequestId :: "string option"

record stock_dto =
  dto_ProductId :: int
  dto_Available :: int
  dto_Reserved :: int
  dto_Total :: int

record runtime_state_dto =
  dto_FinalDeductEnabled :: bool
  dto_RedisConfigured :: bool
  dto_MysqlConfigured :: bool
  dto_ShardCount :: int
  dto_ReservationLedgerMode :: string
  dto_ReservationLedgerEnabled :: bool

type_synonym ('w, 'a) rpc = "'w \<Rightarrow> (biz_exception + 'a) \<times> 'w"

section \<open>The server side\<close>

definition opt_str :: "string option \<Rightarrow> string" where
  "opt_str x = (case x of None \<Rightarrow> [] | Some s \<Rightarrow> s)"

definition opt_int :: "int option \<Rightarrow> int" where
  "opt_int x = (case x of None \<Rightarrow> 0 | Some i \<Rightarrow> i)"

definition stockChangeMeta :: "request_meta option \<Rightarrow> string \<Rightarrow> stock_change_meta" where
  "stockChangeMeta meta reason =
     (case meta of
        None \<Rightarrow> no_meta\<lparr>metaReason := reason\<rparr>
      | Some m \<Rightarrow> no_meta\<lparr>metaReason := reason, metaRequestID := opt_str (rm_RequestId m), metaTraceID := opt_str (rm_TraceId m),
                    metaUserID := opt_int (rm_UserId m), metaMerchantID := opt_int (rm_MerchantId m), metaRole := opt_str (rm_Role m)\<rparr>)"

definition toStockDTO :: "stock \<Rightarrow> stock_dto" where
  "toStockDTO s = \<lparr>dto_ProductId = ProductID s, dto_Available = Available s, dto_Reserved = Reserved s, dto_Total = Total s\<rparr>"

fun toIDLCode :: "code \<Rightarrow> error_code" where
  "toIDLCode CodeInvalidArgument = INVALID_ARGUMENT"
| "toIDLCode CodeUnauthorized = UNAUTHORIZED"
| "toIDLCode CodeForbidden = FORBIDDEN"
| "toIDLCode CodeNotFound = NOT_FOUND"
| "toIDLCode CodeConflict = CONFLICT"
| "toIDLCode CodeTooManyRequests = TOO_MANY_REQUESTS"
| "toIDLCode CodeProductNotFound = PRODUCT_NOT_FOUND"
| "toIDLCode CodeProductOffShelf = PRODUCT_OFF_SHELF"
| "toIDLCode CodeStockNotFound = STOCK_NOT_FOUND"
| "toIDLCode CodeStockInsufficient = STOCK_INSUFFICIENT"
| "toIDLCode CodeStockReserveFailed = STOCK_RESERVE_FAILED"
| "toIDLCode CodeStockReconcileFailed = STOCK_RECONCILE_FAILED"
| "toIDLCode CodeOrderNotFound = ORDER_NOT_FOUND"
| "toIDLCode CodeOrderStatusInvalid = ORDER_STATUS_INVALID"
| "toIDLCode CodeOrderCreateFailed = ORDER_CREATE_FAILED"
| "toIDLCode CodeOrderAlreadyPaid = ORDER_ALREADY_PAID"
| "toIDLCode CodePaymentStatusInvalid = PAYMENT_STATUS_INVALID"
| "toIDLCode CodePaymentFailed = PAYMENT_FAILED"
| "toIDLCode CodeRefundNotAllowed = REFUND_NOT_ALLOWED"
| "toIDLCode CodeRefundNotFound = REFUND_NOT_FOUND"
| "toIDLCode CodeRefundStatusInvalid = REFUND_STATUS_INVALID"
| "toIDLCode CodeMerchantNotFound = MERCHANT_NOT_FOUND"
| "toIDLCode CodeMerchantNotBound = MERCHANT_NOT_BOUND"
| "toIDLCode CodeMerchantApplyPending = MERCHANT_APPLY_PENDING"
| "toIDLCode CodeMerchantApplyRejected = MERCHANT_APPLY_REJECTED"
| "toIDLCode _ = INTERNAL"

definition toBizException :: "go_error \<Rightarrow> request_meta option \<Rightarrow> biz_exception" where
  "toBizException err meta =
     \<lparr>biz_Code = toIDLCode (CodeOf (Some err)), biz_Message = MessageOf (Some err),
      biz_RequestId = (case meta of None \<Rightarrow> None | Some m \<Rightarrow> rm_RequestId m)\<rparr>"

text \<open>\<open>if err != nil { return nil, toBizException(err, meta) }\<close>.\<close>

definition answer :: "request_meta option \<Rightarrow> ('a \<Rightarrow> 'b) \<Rightarrow> ('w, 'a) io \<Rightarrow> ('w, 'b) rpc" where
  "answer meta g m w = (case m w of (Inl e, w') \<Rightarrow> (Inl (toBizException e meta), w') | (Inr a, w') \<Rightarrow> (Inr (g a), w'))"

definition h_GetStock :: "'w service \<Rightarrow> request_meta option \<Rightarrow> int \<Rightarrow> ('w, stock_dto) rpc" where
  "h_GetStock s meta productID = answer meta toStockDTO (svc_GetStock s productID)"

definition h_BatchGetStock :: "'w service \<Rightarrow> request_meta option \<Rightarrow> int list \<Rightarrow> ('w, stock_dto list) rpc" where
  "h_BatchGetStock s meta productIDs = answer meta (map toStockDTO) (svc_BatchGetStock s productIDs)"

definition h_SeedStock :: "'w service \<Rightarrow> request_meta option \<Rightarrow> int \<Rightarrow> int \<Rightarrow> int \<Rightarrow> ('w, unit) rpc" where
  "h_SeedStock s meta productID n sc = answer meta (\<lambda>_. ()) (svc_SeedStock s productID n sc)"

definition h_AdjustStock :: "'w service \<Rightarrow> request_meta option \<Rightarrow> int \<Rightarrow> int \<Rightarrow> int \<Rightarrow> string \<Rightarrow> ('w, stock_dto \<times> stock_dto) rpc" where
  "h_AdjustStock s meta productID delta bucketIdx reason =
     answer meta (\<lambda>(b, a). (toStockDTO b, toStockDTO a)) (svc_AdjustStock s productID delta bucketIdx (stockChangeMeta meta reason))"

definition h_ReserveStock :: "'w service \<Rightarrow> request_meta option \<Rightarrow> string \<Rightarrow> int \<Rightarrow> int \<Rightarrow> ('w, unit) rpc" where
  "h_ReserveStock s meta orderID productID quantity =
     answer meta (\<lambda>_. ()) (svc_ReserveStock s orderID productID quantity (stockChangeMeta meta ''reserve stock''))"

definition h_ConfirmDeduct :: "'w service \<Rightarrow> request_meta option \<Rightarrow> string \<Rightarrow> ('w, unit) rpc" where
  "h_ConfirmDeduct s meta orderID =
     answer meta (\<lambda>_. ()) (svc_ConfirmDeduct s orderID (stockChangeMeta meta ''confirm stock deduct''))"

definition h_ReleaseStock :: "'w service \<Rightarrow> request_meta option \<Rightarrow> string \<Rightarrow> string option \<Rightarrow> ('w, unit) rpc" where
  "h_ReleaseStock s meta orderID reason =
     answer meta (\<lambda>_. ()) (svc_ReleaseStock s orderID (opt_str reason) (stockChangeMeta meta (opt_str reason)))"

definition h_ReconcileStock :: "'w service \<Rightarrow> request_meta option \<Rightarrow> int \<Rightarrow> ('w, stock_dto \<times> stock_dto \<times> bool) rpc" where
  "h_ReconcileStock s meta productID =
     answer meta (\<lambda>(b, a, changed). (toStockDTO b, toStockDTO a, changed))
       (svc_ReconcileStock s productID (stockChangeMeta meta ''reconcile stock''))"

text \<open>\<open>int32(state.ShardCount)\<close> keeps the low 32 bits.\<close>

definition i32 :: "int \<Rightarrow> int" where
  "i32 x = (x + 2 ^ 31) mod 2 ^ 32 - 2 ^ 31"

definition h_GetRuntimeState :: "'w service \<Rightarrow> ('w, runtime_state_dto) rpc" where
  "h_GetRuntimeState s =
     answer None (\<lambda>_. let st = svc_GetRuntimeState s in
         \<lparr>dto_FinalDeductEnabled = FinalDeductEnabled st, dto_RedisConfigured = RedisConfigured st,
          dto_MysqlConfigured = MySQLConfigured st, dto_ShardCount = i32 (ShardCount st),
          dto_ReservationLedgerMode = ReservationLedgerMode st,
          dto_ReservationLedgerEnabled = (ReservationLedgerMode st \<noteq> ''off'')\<rparr>)
       (svc_CheckRuntime s)"

section \<open>The client side\<close>

record trace =
  tr_RequestID :: string
  tr_TraceID :: string
  tr_UserID :: string
  tr_MerchantID :: string

record identity =
  id_UserID :: int
  id_Role :: string
  id_IsAdmin :: bool
  id_MerchantID :: int
  id_RequestID :: string

record call_ctx =
  cx_trace :: "trace option"
  cx_identity :: "identity option"
  cx_random_id :: string

definition RequestIDFrom :: "call_ctx \<Rightarrow> string" where
  "RequestIDFrom cx = (case cx_trace cx of None \<Rightarrow> [] | Some t \<Rightarrow> tr_RequestID t)"

definition requestMeta :: "call_ctx \<Rightarrow> request_meta" where
  "requestMeta cx =
     (let requestID = RequestIDFrom cx;
          traceID = requestID;
          requestID' = (case cx_trace cx of Some t \<Rightarrow> if tr_RequestID t \<noteq> [] then tr_RequestID t else requestID | None \<Rightarrow> requestID);
          traceID' = (case cx_trace cx of Some t \<Rightarrow> if tr_TraceID t \<noteq> [] then tr_TraceID t else traceID | None \<Rightarrow> traceID);
          requestID'' = (if requestID' = [] then cx_random_id cx else requestID');
          traceID'' = (if traceID' = [] then requestID'' else traceID')
      in \<lparr>rm_RequestId = Some requestID'', rm_TraceId = Some traceID'',
          rm_UserId = map_option id_UserID (cx_identity cx), rm_MerchantId = map_option id_MerchantID (cx_identity cx),
          rm_Role = map_option id_Role (cx_identity cx)\<rparr>)"

definition toOrderStatusError :: "biz_exception \<Rightarrow> go_error" where
  "toOrderStatusError biz =
     (case biz_Code biz of
        INVALID_ARGUMENT \<Rightarrow> StatusError codes_InvalidArgument (biz_Message biz)
      | STOCK_NOT_FOUND \<Rightarrow> StatusError codes_FailedPrecondition (biz_Message biz)
      | STOCK_INSUFFICIENT \<Rightarrow> StatusError codes_Aborted (biz_Message biz)
      | _ \<Rightarrow> StatusError codes_Internal (biz_Message biz))"

definition via_kitex :: "('w, unit) rpc \<Rightarrow> ('w, unit) io" where
  "via_kitex h w = (case h w of (Inl b, w') \<Rightarrow> (Inl (toOrderStatusError b), w') | (Inr u, w') \<Rightarrow> (Inr (), w'))"

definition client_ReserveStock :: "'w service \<Rightarrow> call_ctx \<Rightarrow> string \<Rightarrow> int \<Rightarrow> int \<Rightarrow> ('w, unit) io" where
  "client_ReserveStock s cx orderID productID quantity =
     via_kitex (h_ReserveStock s (Some (requestMeta cx)) orderID productID quantity)"

definition client_ConfirmDeduct :: "'w service \<Rightarrow> call_ctx \<Rightarrow> string \<Rightarrow> ('w, unit) io" where
  "client_ConfirmDeduct s cx orderID = via_kitex (h_ConfirmDeduct s (Some (requestMeta cx)) orderID)"

definition client_ReleaseStock :: "'w service \<Rightarrow> call_ctx \<Rightarrow> string \<Rightarrow> string \<Rightarrow> ('w, unit) io" where
  "client_ReleaseStock s cx orderID reason =
     via_kitex (h_ReleaseStock s (Some (requestMeta cx)) orderID (if reason \<noteq> [] then Some reason else None))"

section \<open>What crosses the boundary\<close>

lemma via_kitex_answer_Inr: "via_kitex (answer meta g m) w = (Inr (), w') \<longleftrightarrow> (\<exists>a. m w = (Inr a, w'))"
  by (auto simp: via_kitex_def answer_def split: prod.splits sum.splits)

lemma via_kitex_answer_Inl:
  "via_kitex (answer meta g m) w = (Inl e, w') \<longleftrightarrow> (\<exists>e'. m w = (Inl e', w') \<and> e = toOrderStatusError (toBizException e' meta))"
  by (auto simp: via_kitex_def answer_def split: prod.splits sum.splits)

lemma via_kitex_state: "snd (via_kitex (answer meta g m) w) = snd (m w)"
  by (auto simp: via_kitex_def answer_def split: prod.splits sum.splits)

lemma keeps_via_kitex: "keeps I m \<Longrightarrow> keeps I (via_kitex (answer meta g m))"
  by (simp add: keeps_def via_kitex_state)

text \<open>The metadata the order service sends always names a request and a trace.\<close>

lemma requestMeta_named:
  assumes "cx_random_id cx \<noteq> []"
  shows "opt_str (rm_RequestId (requestMeta cx)) \<noteq> []" "opt_str (rm_TraceId (requestMeta cx)) \<noteq> []"
  using assms by (auto simp: requestMeta_def RequestIDFrom_def opt_str_def Let_def split: option.splits)

text \<open>
  What a caller in the order service learns from a failed call, through the two layers of error
  mapping: the code names the three refusals a saga reacts to, everything else is \<open>Internal\<close>.
\<close>

definition status_of_app :: "code \<Rightarrow> grpc_code" where
  "status_of_app c =
     (case c of
        CodeInvalidArgument \<Rightarrow> codes_InvalidArgument
      | CodeStockNotFound \<Rightarrow> codes_FailedPrecondition
      | CodeStockInsufficient \<Rightarrow> codes_Aborted
      | _ \<Rightarrow> codes_Internal)"

lemma MessageOf_Some [simp]: "MessageOf (Some e) = err_message e"
  by (cases e) (auto simp: MessageOf_def app_wrap_def)

lemma status_error_of_biz:
  "toOrderStatusError (toBizException err meta) = StatusError (status_of_app (err_code err)) (err_message err)"
  by (cases "err_code err") (simp_all add: toOrderStatusError_def toBizException_def status_of_app_def)

lemma client_calls_Inl:
  "client_ReserveStock s cx k p q w = (Inl e, w') \<Longrightarrow>
     \<exists>err m. svc_ReserveStock s k p q m w = (Inl err, w') \<and> e = StatusError (status_of_app (err_code err)) (err_message err)"
  "client_ConfirmDeduct s cx k w = (Inl e, w') \<Longrightarrow>
     \<exists>err m. svc_ConfirmDeduct s k m w = (Inl err, w') \<and> e = StatusError (status_of_app (err_code err)) (err_message err)"
  "client_ReleaseStock s cx k reason w = (Inl e, w') \<Longrightarrow>
     \<exists>err r m. svc_ReleaseStock s k r m w = (Inl err, w') \<and> e = StatusError (status_of_app (err_code err)) (err_message err)"
  by (auto simp: client_ReserveStock_def client_ConfirmDeduct_def client_ReleaseStock_def h_ReserveStock_def h_ConfirmDeduct_def
      h_ReleaseStock_def via_kitex_answer_Inl status_error_of_biz split: if_splits)

lemma client_calls_Inr:
  "client_ReserveStock s cx k p q w = (Inr u, w') \<Longrightarrow> \<exists>m. svc_ReserveStock s k p q m w = (Inr (), w')"
  "client_ConfirmDeduct s cx k w = (Inr u, w') \<Longrightarrow> \<exists>m. svc_ConfirmDeduct s k m w = (Inr (), w')"
  "client_ReleaseStock s cx k reason w = (Inr u, w') \<Longrightarrow> \<exists>r m. svc_ReleaseStock s k r m w = (Inr (), w')"
  by (auto simp: client_ReserveStock_def client_ConfirmDeduct_def client_ReleaseStock_def h_ReserveStock_def h_ConfirmDeduct_def
      h_ReleaseStock_def via_kitex_answer_Inr split: if_splits)

lemma keeps_client:
  assumes "\<And>m. keeps I (svc_ReserveStock s k p q m)" "\<And>m. keeps I (svc_ConfirmDeduct s k m)" "\<And>r m. keeps I (svc_ReleaseStock s k r m)"
  shows "keeps I (client_ReserveStock s cx k p q)" "keeps I (client_ConfirmDeduct s cx k)" "keeps I (client_ReleaseStock s cx k reason)"
  using assms
  by (simp_all add: client_ReserveStock_def client_ConfirmDeduct_def client_ReleaseStock_def h_ReserveStock_def h_ConfirmDeduct_def
      h_ReleaseStock_def keeps_via_kitex)

end
