(* ===== verification/Order_Spec.thy ===== *)
theory Order_Spec
  imports Common_Status
begin

text \<open>
  What the order service promises about an order, its payment and its refund, without tables and
  transactions: a state machine whose events are the business operations.  \<open>spec_inv\<close> is the
  consistency of order, payment, refund, status log and paid events; it holds in every reachable
  state.  \<open>Order_Refinement\<close> shows that every handler of the service only performs these events.
\<close>

section \<open>States and events\<close>

record spec_state =
  s_order :: "string \<Rightarrow> int option"
  s_pay :: "string \<Rightarrow> int option"
  s_refund :: "string \<Rightarrow> int option"
  s_log :: "(string \<times> int \<times> int) list"
  s_events :: "string set"

definition spec_init :: spec_state where
  "spec_init = \<lparr>s_order = Map.empty, s_pay = Map.empty, s_refund = Map.empty, s_log = [], s_events = {}\<rparr>"

text \<open>The log entries of one order, oldest first.\<close>

definition log_of :: "(string \<times> int \<times> int) list \<Rightarrow> string \<Rightarrow> (int \<times> int) list" where
  "log_of l k = map snd (filter (\<lambda>e. fst e = k) l)"

text \<open>A refund that is neither paid back nor rejected.\<close>

definition refund_open :: "int \<Rightarrow> bool" where
  "refund_open a \<longleftrightarrow> a = refund_Requested \<or> a = refund_Approved \<or> a = refund_Failed"

inductive spec_step :: "spec_state \<Rightarrow> spec_state \<Rightarrow> bool" where
  create: "s_order s k = None \<Longrightarrow> spec_step s (s\<lparr>s_order := (s_order s)(k := Some order_PendingPayment)\<rparr>)"
| open_payment: "s_pay s k = None \<Longrightarrow>
    spec_step s (s\<lparr>s_pay := (s_pay s)(k := Some payment_Init)\<rparr>)"
| pay: "s_order s k = Some order_PendingPayment \<Longrightarrow> s_pay s k = Some payment_Init \<Longrightarrow>
    spec_step s (s\<lparr>s_order := (s_order s)(k := Some order_Paid), s_pay := (s_pay s)(k := Some payment_Success),
      s_log := s_log s @ [(k, order_PendingPayment, order_Paid)], s_events := insert k (s_events s)\<rparr>)"
| close: "s_order s k = Some order_PendingPayment \<Longrightarrow>
    spec_step s (s\<lparr>s_order := (s_order s)(k := Some order_Closed),
      s_pay := (s_pay s)(k := if s_pay s k = Some payment_Init then Some payment_Closed else s_pay s k),
      s_log := s_log s @ [(k, order_PendingPayment, order_Closed)]\<rparr>)"
| abandon: "s_order s k = Some order_PendingPayment \<Longrightarrow> spec_step s (s\<lparr>s_order := (s_order s)(k := Some order_Closed)\<rparr>)"
| ship: "s_order s k = Some order_Paid \<Longrightarrow>
    spec_step s (s\<lparr>s_order := (s_order s)(k := Some order_Shipped), s_log := s_log s @ [(k, order_Paid, order_Shipped)]\<rparr>)"
| receive: "s_order s k = Some order_Shipped \<Longrightarrow>
    spec_step s (s\<lparr>s_order := (s_order s)(k := Some order_Completed), s_log := s_log s @ [(k, order_Shipped, order_Completed)]\<rparr>)"
| request: "s_order s k = Some c \<Longrightarrow> CanRequestRefund c \<Longrightarrow> s_pay s k = Some payment_Success \<Longrightarrow> s_refund s k = None \<Longrightarrow>
    spec_step s (s\<lparr>s_order := (s_order s)(k := Some order_RefundRequested), s_refund := (s_refund s)(k := Some refund_Requested),
      s_log := s_log s @ [(k, c, order_RefundRequested)]\<rparr>)"
| attempted: "s_refund s k = Some a \<Longrightarrow> refund_open a \<Longrightarrow> b = refund_Approved \<or> b = refund_Failed \<Longrightarrow>
    spec_step s (s\<lparr>s_refund := (s_refund s)(k := Some b)\<rparr>)"
| paid_back: "s_refund s k = Some a \<Longrightarrow> refund_open a \<Longrightarrow> s_order s k = Some order_RefundRequested \<Longrightarrow>
    spec_step s (s\<lparr>s_refund := (s_refund s)(k := Some refund_Success), s_order := (s_order s)(k := Some order_Refunded),
      s_log := s_log s @ [(k, order_RefundRequested, order_Refunded)]\<rparr>)"
| rejected: "s_refund s k = Some a \<Longrightarrow> refund_open a \<Longrightarrow> s_order s k = Some order_RefundRequested \<Longrightarrow>
    log_of (s_log s) k = es @ [(c, order_RefundRequested)] \<Longrightarrow>
    spec_step s (s\<lparr>s_refund := (s_refund s)(k := Some refund_Rejected), s_order := (s_order s)(k := Some c),
      s_log := s_log s @ [(k, order_RefundRequested, c)]\<rparr>)"

inductive_cases spec_stepE: "spec_step s s'"

text \<open>The payment of order \<open>k\<close>, as a relation of its own.\<close>

definition paid_from :: "string \<Rightarrow> spec_state \<Rightarrow> spec_state \<Rightarrow> bool" where
  "paid_from k s s' \<longleftrightarrow> s_order s k = Some order_PendingPayment \<and> s_pay s k = Some payment_Init \<and>
     s' = s\<lparr>s_order := (s_order s)(k := Some order_Paid), s_pay := (s_pay s)(k := Some payment_Success),
       s_log := s_log s @ [(k, order_PendingPayment, order_Paid)], s_events := insert k (s_events s)\<rparr>"

lemma paid_from_step: "paid_from k s s' \<Longrightarrow> spec_step s s'"
  unfolding paid_from_def using spec_step.pay by blast

section \<open>The invariant\<close>

text \<open>The moves of an order.\<close>

definition order_edge :: "int \<Rightarrow> int \<Rightarrow> bool" where
  "order_edge a b \<longleftrightarrow>
     (a, b) \<in> {(order_PendingPayment, order_Paid), (order_PendingPayment, order_Closed), (order_Paid, order_Shipped),
       (order_Shipped, order_Completed), (order_Paid, order_RefundRequested), (order_Shipped, order_RefundRequested),
       (order_RefundRequested, order_Refunded), (order_RefundRequested, order_Paid), (order_RefundRequested, order_Shipped)}"

text \<open>A log leads from one status to another by moves of an order.\<close>

fun leads_to :: "int \<Rightarrow> (int \<times> int) list \<Rightarrow> int \<Rightarrow> bool" where
  "leads_to a [] c \<longleftrightarrow> a = c"
| "leads_to a ((x, y) # es) c \<longleftrightarrow> a = x \<and> order_edge x y \<and> leads_to y es c"

lemma leads_to_snoc: "leads_to a (es @ [(x, y)]) c \<longleftrightarrow> leads_to a es x \<and> order_edge x y \<and> c = y"
  by (induction a es c rule: leads_to.induct) auto

lemma leads_to_append: "leads_to a (es @ fs) c \<longleftrightarrow> (\<exists>b. leads_to a es b \<and> leads_to b fs c)"
  by (induction a es c rule: leads_to.induct) auto

lemma leads_to_start: "leads_to a es order_PendingPayment \<Longrightarrow> es = []"
  by (cases es rule: rev_cases) (auto simp: leads_to_snoc order_edge_def)

text \<open>Payment succeeded: the order is paid or beyond.\<close>

definition settled :: "int \<Rightarrow> bool" where
  "settled c \<longleftrightarrow> c \<in> {order_Paid, order_Shipped, order_Completed, order_RefundRequested, order_Refunded}"

definition pay_consistent :: "int option \<Rightarrow> int option \<Rightarrow> bool" where
  "pay_consistent ord pay \<longleftrightarrow>
     (case ord of
        None \<Rightarrow> pay \<in> {None, Some payment_Init}
      | Some c \<Rightarrow>
          (settled c \<and> pay = Some payment_Success) \<or>
          (c = order_PendingPayment \<and> pay \<in> {None, Some payment_Init}) \<or>
          (c = order_Closed \<and> pay \<in> {None, Some payment_Init, Some payment_Closed}))"

definition refund_consistent :: "int option \<Rightarrow> int option \<Rightarrow> bool" where
  "refund_consistent ord rf \<longleftrightarrow>
     (case rf of
        None \<Rightarrow> ord \<noteq> Some order_RefundRequested \<and> ord \<noteq> Some order_Refunded
      | Some a \<Rightarrow>
          (refund_open a \<and> ord = Some order_RefundRequested) \<or>
          (a = refund_Success \<and> ord = Some order_Refunded) \<or>
          (a = refund_Rejected \<and> ord \<in> {Some order_Paid, Some order_Shipped, Some order_Completed}))"

text \<open>
  The log of an order leads to its status; only an order closed by the compensation of its creation
  may lack the entry of that move.
\<close>

definition log_consistent :: "int option \<Rightarrow> (int \<times> int) list \<Rightarrow> bool" where
  "log_consistent ord es \<longleftrightarrow>
     (case ord of
        None \<Rightarrow> es = []
      | Some c \<Rightarrow> leads_to order_PendingPayment es c \<or> (c = order_Closed \<and> es = []))"

definition spec_inv :: "spec_state \<Rightarrow> bool" where
  "spec_inv s \<longleftrightarrow>
     (\<forall>k. pay_consistent (s_order s k) (s_pay s k) \<and> refund_consistent (s_order s k) (s_refund s k) \<and>
          log_consistent (s_order s k) (log_of (s_log s) k) \<and> (k \<in> s_events s \<longleftrightarrow> s_pay s k = Some payment_Success))"

lemmas consistency_defs = pay_consistent_def refund_consistent_def log_consistent_def settled_def refund_open_def order_edge_def CanRequestRefund_def

lemma spec_inv_init: "spec_inv spec_init"
  by (simp add: spec_inv_def spec_init_def consistency_defs log_of_def)

lemma log_of_snoc: "log_of (l @ [(j, x, y)]) k = (if j = k then log_of l k @ [(x, y)] else log_of l k)"
  by (simp add: log_of_def)

text \<open>Only the order an event is about has to be looked at.\<close>

lemma spec_inv_at:
  assumes "spec_inv s"
    and "\<And>j. j \<noteq> k \<Longrightarrow> s_order s' j = s_order s j \<and> s_pay s' j = s_pay s j \<and> s_refund s' j = s_refund s j \<and>
      log_of (s_log s') j = log_of (s_log s) j \<and> (j \<in> s_events s' \<longleftrightarrow> j \<in> s_events s)"
    and "pay_consistent (s_order s' k) (s_pay s' k)" "refund_consistent (s_order s' k) (s_refund s' k)"
      "log_consistent (s_order s' k) (log_of (s_log s') k)" "k \<in> s_events s' \<longleftrightarrow> s_pay s' k = Some payment_Success"
  shows "spec_inv s'"
  unfolding spec_inv_def
proof
  fix j
  show "pay_consistent (s_order s' j) (s_pay s' j) \<and> refund_consistent (s_order s' j) (s_refund s' j) \<and>
      log_consistent (s_order s' j) (log_of (s_log s') j) \<and> (j \<in> s_events s' \<longleftrightarrow> s_pay s' j = Some payment_Success)"
  proof (cases "j = k")
    case True then show ?thesis using assms(3-6) by simp
  next
    case False then show ?thesis using assms(1) assms(2) [OF False] by (simp add: spec_inv_def)
  qed
qed

lemma spec_invD:
  assumes "spec_inv s"
  shows "pay_consistent (s_order s k) (s_pay s k)" "refund_consistent (s_order s k) (s_refund s k)"
    "log_consistent (s_order s k) (log_of (s_log s) k)" "k \<in> s_events s \<longleftrightarrow> s_pay s k = Some payment_Success"
  using assms by (auto simp: spec_inv_def)

lemma pay_consistent_settled: "pay_consistent (Some c) p \<Longrightarrow> settled c \<longleftrightarrow> p = Some payment_Success"
  by (auto simp: pay_consistent_def settled_def)

lemma refund_consistent_open: "refund_consistent (Some c) f \<Longrightarrow> c = order_RefundRequested \<longleftrightarrow> (\<exists>a. f = Some a \<and> refund_open a)"
  by (auto simp: refund_consistent_def refund_open_def split: option.splits)

lemma refund_consistent_success: "refund_consistent (Some c) f \<Longrightarrow> c = order_Refunded \<longleftrightarrow> f = Some refund_Success"
  by (auto simp: refund_consistent_def refund_open_def split: option.splits)

lemma spec_step_inv:
  assumes "spec_step s s'" "spec_inv s"
  shows "spec_inv s'"
  using assms
proof (induction rule: spec_step.induct)
  case (rejected s k a es c)
  note inv = spec_invD [OF rejected.prems, of k]
  have "leads_to order_PendingPayment (es @ [(c, order_RefundRequested)]) order_RefundRequested"
    using rejected inv(3) by (auto simp: log_consistent_def)
  then have c: "c = order_Paid \<or> c = order_Shipped" "leads_to order_PendingPayment es c"
    by (auto simp: leads_to_snoc order_edge_def)
  then have way: "leads_to order_PendingPayment (es @ [(c, order_RefundRequested), (order_RefundRequested, c)]) c"
    by (auto simp: leads_to_append order_edge_def)
  show ?case
    using rejected inv c(1) way
    by (intro spec_inv_at [OF rejected.prems, of k]) (auto simp: log_of_snoc consistency_defs)
next
  case (create s k)
  then show ?case using spec_invD [OF create.prems, of k]
    by (intro spec_inv_at [OF create.prems, of k]) (auto simp: log_of_snoc leads_to_snoc consistency_defs split: option.splits)
next
  case (open_payment s k)
  then show ?case using spec_invD [OF open_payment.prems, of k]
    by (intro spec_inv_at [OF open_payment.prems, of k]) (auto simp: log_of_snoc leads_to_snoc consistency_defs split: option.splits)
next
  case (pay s k)
  then show ?case using spec_invD [OF pay.prems, of k]
    by (intro spec_inv_at [OF pay.prems, of k]) (auto simp: log_of_snoc leads_to_snoc consistency_defs split: option.splits)
next
  case (close s k)
  then show ?case using spec_invD [OF close.prems, of k]
    by (intro spec_inv_at [OF close.prems, of k]) (auto simp: log_of_snoc leads_to_snoc consistency_defs split: option.splits)
next
  case (abandon s k)
  then have "log_of (s_log s) k = []"
    using spec_invD(3) [OF abandon.prems, of k] by (auto simp: log_consistent_def dest!: leads_to_start [unfolded order_PendingPayment_def])
  then show ?case using abandon spec_invD [OF abandon.prems, of k]
    by (intro spec_inv_at [OF abandon.prems, of k]) (auto simp: log_of_snoc leads_to_snoc consistency_defs split: option.splits)
next
  case (ship s k)
  then show ?case using spec_invD [OF ship.prems, of k]
    by (intro spec_inv_at [OF ship.prems, of k]) (auto simp: log_of_snoc leads_to_snoc consistency_defs split: option.splits)
next
  case (receive s k)
  then show ?case using spec_invD [OF receive.prems, of k]
    by (intro spec_inv_at [OF receive.prems, of k]) (auto simp: log_of_snoc leads_to_snoc consistency_defs split: option.splits)
next
  case (request s k c)
  then show ?case using spec_invD [OF request.prems, of k]
    by (intro spec_inv_at [OF request.prems, of k]) (auto simp: log_of_snoc leads_to_snoc consistency_defs split: option.splits)
next
  case (attempted s k a b)
  note inv = spec_invD [OF attempted.prems, of k]
  have "refund_open b" using attempted.hyps(3) by (auto simp: refund_open_def)
  moreover have "s_order s k = Some order_RefundRequested"
    using inv(2) attempted.hyps(1,2) by (auto simp: refund_consistent_def refund_open_def)
  ultimately show ?case
    using inv by (intro spec_inv_at [OF attempted.prems, of k]) (simp_all add: refund_consistent_def)
next
  case (paid_back s k a)
  then show ?case using spec_invD [OF paid_back.prems, of k]
    by (intro spec_inv_at [OF paid_back.prems, of k]) (auto simp: log_of_snoc leads_to_snoc consistency_defs split: option.splits)
qed

lemma spec_steps_inv: "spec_step\<^sup>*\<^sup>* s s' \<Longrightarrow> spec_inv s \<Longrightarrow> spec_inv s'"
  by (induction rule: rtranclp_induct) (auto intro: spec_step_inv)

end
