(* ===== verification/Go_Json.thy ===== *)
theory Go_Json
  imports Prelude "HOL-Library.List_Lexorder" "HOL-Library.Char_ord" "HOL-Library.Product_Lexorder"
begin

text \<open>
  JSON documents as the order service uses them (\<open>encoding/json\<close>).  A text is represented by the
  value it denotes, or kept as it is when it is not JSON (\<open>NotJson\<close>; the empty text is \<open>NotJson []\<close>).
  \<open>marshal_map\<close> is \<open>json.Marshal\<close> of a Go map, whose keys come out sorted; \<open>set_str\<close> and \<open>set_int\<close>
  are what \<open>json.Unmarshal\<close> does with a member of an object that names a struct field: \<open>null\<close> leaves
  the field alone, a value of another type is an error.
\<close>

datatype json =
    JNull | JBool bool | JInt int | JNum string | JStr string | JArr "json list" | JObj "(string \<times> json) list"

datatype json_text = JsonText json | NotJson string

definition marshal_map :: "(string \<times> json) list \<Rightarrow> json" where
  "marshal_map kvs = JObj (sort_key fst kvs)"

fun set_str :: "json \<Rightarrow> ('s \<Rightarrow> string \<Rightarrow> 's) \<Rightarrow> 's \<Rightarrow> 's option" where
  "set_str (JStr s) upd st = Some (upd st s)"
| "set_str JNull upd st = Some st"
| "set_str _ upd st = None"

fun set_int :: "json \<Rightarrow> ('s \<Rightarrow> int \<Rightarrow> 's) \<Rightarrow> 's \<Rightarrow> 's option" where
  "set_int (JInt i) upd st = (if in_i64 i then Some (upd st i) else None)"
| "set_int JNull upd st = Some st"
| "set_int _ upd st = None"

text \<open>Members in the order of the text, so that a repeated name ends with its last value.\<close>

fun set_members :: "(string \<Rightarrow> json \<Rightarrow> 's \<Rightarrow> 's option) \<Rightarrow> (string \<times> json) list \<Rightarrow> 's \<Rightarrow> 's option" where
  "set_members f [] st = Some st"
| "set_members f ((k, v) # kvs) st = (case f k v st of None \<Rightarrow> None | Some st' \<Rightarrow> set_members f kvs st')"

definition unmarshal_struct :: "(string \<Rightarrow> json \<Rightarrow> 's \<Rightarrow> 's option) \<Rightarrow> json_text \<Rightarrow> 's \<Rightarrow> 's option" where
  "unmarshal_struct f t st =
     (case t of
        JsonText (JObj kvs) \<Rightarrow> set_members f kvs st
      | JsonText JNull \<Rightarrow> Some st
      | _ \<Rightarrow> None)"

text \<open>
  \<open>%q\<close> writes a Go string literal.  It is a JSON string too unless it needs an escape JSON does not
  have: \<open>\a\<close>, \<open>\v\<close> and \<open>\x..\<close>, used for control characters other than backspace, tab, line feed,
  form feed and carriage return, and for delete.
\<close>

definition quoted_is_json :: "string \<Rightarrow> bool" where
  "quoted_is_json s \<longleftrightarrow>
     list_all (\<lambda>c. let n = (of_char c :: nat) in n \<in> {8, 9, 10, 12, 13} \<or> (32 \<le> n \<and> n \<noteq> 127)) s"

section \<open>Query strings\<close>

text \<open>
  \<open>net/url\<close>: \<open>ParseQuery\<close> of a form body, the values as pairs in the order of the body (the Go map
  groups them by key in that order).  \<open>None\<close> stands for the error the function reports when a pair
  contains a semicolon or an escape is malformed.
\<close>

definition hex_val :: "char \<Rightarrow> nat option" where
  "hex_val c =
     (let n = of_char c in
      if 48 \<le> n \<and> n \<le> 57 then Some (n - 48)
      else if 97 \<le> n \<and> n \<le> 102 then Some (n - 87)
      else if 65 \<le> n \<and> n \<le> 70 then Some (n - 55)
      else None)"

fun QueryUnescape :: "string \<Rightarrow> string option" where
  "QueryUnescape [] = Some []"
| "QueryUnescape (c # cs) =
     (if c = CHR ''%'' then
        (case cs of
           a # b # rest \<Rightarrow>
             (case (hex_val a, hex_val b, QueryUnescape rest) of
                (Some x, Some y, Some s) \<Rightarrow> Some (char_of (16 * x + y) # s)
              | _ \<Rightarrow> None)
         | _ \<Rightarrow> None)
      else map_option ((#) (if c = CHR ''+'' then CHR '' '' else c)) (QueryUnescape cs))"

definition cut :: "char \<Rightarrow> string \<Rightarrow> string \<times> string" where
  "cut c s = (takeWhile (\<lambda>x. x \<noteq> c) s, drop 1 (dropWhile (\<lambda>x. x \<noteq> c) s))"

lemma length_cut_rest: "s \<noteq> [] \<Longrightarrow> length (snd (cut c s)) < length s"
  by (induction s) (auto simp: cut_def less_Suc_eq_le intro: le_trans [OF diff_le_self length_dropWhile_le])

text \<open>One pair; \<open>None\<close> records an error, \<open>Some None\<close> is an empty pair.\<close>

definition parse_pair :: "string \<Rightarrow> (string \<times> string) option option" where
  "parse_pair kv =
     (if CHR '';'' \<in> set kv then None
      else if kv = [] then Some None
      else case (QueryUnescape (fst (cut CHR ''='' kv)), QueryUnescape (snd (cut CHR ''='' kv))) of
             (Some k, Some v) \<Rightarrow> Some (Some (k, v))
           | _ \<Rightarrow> None)"

function ParseQuery :: "string \<Rightarrow> (string \<times> string) list option" where
  "ParseQuery s =
     (if s = [] then Some []
      else case (parse_pair (fst (cut CHR ''&'' s)), ParseQuery (snd (cut CHR ''&'' s))) of
             (Some (Some kv), Some kvs) \<Rightarrow> Some (kv # kvs)
           | (Some None, Some kvs) \<Rightarrow> Some kvs
           | _ \<Rightarrow> None)"
  by pat_completeness auto
termination by (relation "measure length") (auto dest: length_cut_rest)

declare ParseQuery.simps [simp del]

text \<open>\<open>Values.Get\<close>: the first value of a key.\<close>

definition values_Get :: "(string \<times> string) list \<Rightarrow> string \<Rightarrow> string" where
  "values_Get vs k = (case map_of vs k of None \<Rightarrow> [] | Some v \<Rightarrow> v)"

end
