(* ===== verification/Order_Store.thy ===== *)
theory Order_Store
  imports Inventory_Handler Common_Status Sha256 Go_Json
begin

text \<open>
  The world of the order service: the tables of \<open>scripts/k8s/sql/10-order.sql\<close> it reads and writes,
  its Redis server, the wall clock in seconds, and the state \<open>'x\<close> of the systems it calls
  (inventory service, payment provider, message broker).  A table is the list of its rows in
  insertion order.  \<open>affected\<close> and \<open>update_rows\<close> are an \<open>UPDATE\<close> on such a table the way MySQL
  executes it: only rows the assignment changes count as affected and get a new \<open>update_time\<close>
  (\<open>ON UPDATE CURRENT_TIMESTAMP\<close>).  Column widths are not modelled.  \<open>svc_ctx\<close> is
  \<open>svc/servicecontext.go\<close>, with the clients as records of functions on \<open>'x\<close>.
\<close>

section \<open>Tables\<close>

record order_row =
  o_id :: string
  o_request_id :: string
  o_user_id :: int
  o_merchant_id :: int
  o_product_id :: int
  o_amount :: int
  o_status :: int
  o_shipped_at :: "int option"
  o_completed_at :: "int option"
  o_refund_requested_at :: "int option"
  o_refunded_at :: "int option"
  o_update_time :: int

record log_row =
  lg_order_id :: string
  lg_from :: int
  lg_to :: int
  lg_operator_id :: int
  lg_remark :: string

record price_row =
  sn_order_id :: string
  sn_product_id :: int
  sn_merchant_id :: int
  sn_supplier_id :: int
  sn_product_name :: string
  sn_image_url :: string
  sn_amount :: int
  sn_origin_unit_price_fen :: int
  sn_sale_unit_price_fen :: int
  sn_payable_amount_fen :: int
  sn_discount_amount_fen :: int
  sn_promotion_type :: string
  sn_promotion_tag :: string

record payment_row =
  p_id :: string
  p_order_id :: string
  p_user_id :: int
  p_payable_amount_fen :: int
  p_status :: int
  p_out_trade_no :: string
  p_provider :: string
  p_provider_trade_no :: string
  p_provider_qr_url :: string
  p_provider_status :: string
  p_expires_at :: "int option"
  p_finalize_status :: int
  p_finalize_attempts :: int
  p_finalize_error :: string
  p_finalized_at :: "int option"
  p_release_status :: int
  p_release_attempts :: int
  p_release_error :: string
  p_released_at :: "int option"
  p_paid_at :: "int option"
  p_callback_payload :: "json_text option"
  p_update_time :: int

record callback_row =
  cb_provider :: string
  cb_event_id :: string
  cb_payment_order_id :: string
  cb_order_id :: string
  cb_out_trade_no :: string
  cb_paid_amount_fen :: int
  cb_process_status :: string
  cb_error_message :: string
  cb_raw_payload :: json_text

record refund_row =
  rf_id :: string
  rf_order_id :: string
  rf_payment_order_id :: string
  rf_user_id :: int
  rf_merchant_id :: int
  rf_product_id :: int
  rf_amount_fen :: int
  rf_status :: int
  rf_reason :: string
  rf_audit_remark :: string
  rf_operator_id :: int
  rf_provider :: string
  rf_provider_refund_id :: string
  rf_provider_status :: string
  rf_provider_error :: string
  rf_audit_time :: "int option"
  rf_finish_time :: "int option"
  rf_update_time :: int

record outbox_row =
  ob_id :: int
  ob_event_id :: string
  ob_event_type :: string
  ob_aggregate_id :: string
  ob_payload :: json
  ob_status :: int
  ob_attempt_count :: int
  ob_next_retry_at :: int
  ob_published_at :: "int option"
  ob_last_error :: string
  ob_update_time :: int

record order_tables =
  orders :: "order_row list"
  status_log :: "log_row list"
  price_snapshots :: "price_row list"
  payments :: "payment_row list"
  callbacks :: "callback_row list"
  refunds :: "refund_row list"
  outbox :: "outbox_row list"
  product_merchants :: "(int \<times> int option) list"

record 'x order_world = env +
  o_db :: order_tables
  o_redis :: redis
  o_locks :: "string \<Rightarrow> (string \<times> int) option"
  o_now :: int
  o_ext :: 'x

section \<open>Statements\<close>

text \<open>One SQL statement, subject to the fault schedule; it sees the server's clock.\<close>

definition stmt :: "(int \<Rightarrow> (order_tables, 'a) io) \<Rightarrow> ('x order_world, 'a) io" where
  "stmt f = ext_call (\<lambda>w. case f (o_now w) (o_db w) of (x, d) \<Rightarrow> (x, w\<lparr>o_db := d\<rparr>))"

definition query :: "(order_tables \<Rightarrow> 'a) \<Rightarrow> ('x order_world, 'a) io" where
  "query g = stmt (\<lambda>now d. (Inr (g d), d))"

definition query_row :: "(order_tables \<Rightarrow> 'a option) \<Rightarrow> ('x order_world, 'a) io" where
  "query_row g = stmt (\<lambda>now d. (case g d of None \<Rightarrow> Inl ErrNoRows | Some a \<Rightarrow> Inr a, d))"

text \<open>\<open>ExecContext\<close> with the number of affected rows; the MySQL driver's \<open>RowsAffected\<close> does not fail.\<close>

definition exec :: "(int \<Rightarrow> order_tables \<Rightarrow> int \<times> order_tables) \<Rightarrow> ('x order_world, int) io" where
  "exec f = stmt (\<lambda>now d. case f now d of (n, d') \<Rightarrow> (Inr n, d'))"

definition affected :: "('r \<Rightarrow> bool) \<Rightarrow> ('r \<Rightarrow> 'r) \<Rightarrow> 'r list \<Rightarrow> int" where
  "affected P f rows = int (length (filter (\<lambda>r. P r \<and> f r \<noteq> r) rows))"

definition update_rows :: "('r \<Rightarrow> 'r) \<Rightarrow> ('r \<Rightarrow> bool) \<Rightarrow> ('r \<Rightarrow> 'r) \<Rightarrow> 'r list \<Rightarrow> 'r list" where
  "update_rows touch P f rows = map (\<lambda>r. if P r \<and> f r \<noteq> r then touch (f r) else r) rows"

definition update_orders :: "(order_row \<Rightarrow> bool) \<Rightarrow> (int \<Rightarrow> order_row \<Rightarrow> order_row) \<Rightarrow> int \<Rightarrow> order_tables \<Rightarrow> int \<times> order_tables" where
  "update_orders P f now d =
     (affected P (f now) (orders d), d\<lparr>orders := update_rows (\<lambda>r. r\<lparr>o_update_time := now\<rparr>) P (f now) (orders d)\<rparr>)"

definition update_payments :: "(payment_row \<Rightarrow> bool) \<Rightarrow> (int \<Rightarrow> payment_row \<Rightarrow> payment_row) \<Rightarrow> int \<Rightarrow> order_tables \<Rightarrow> int \<times> order_tables" where
  "update_payments P f now d =
     (affected P (f now) (payments d), d\<lparr>payments := update_rows (\<lambda>r. r\<lparr>p_update_time := now\<rparr>) P (f now) (payments d)\<rparr>)"

definition update_refunds :: "(refund_row \<Rightarrow> bool) \<Rightarrow> (int \<Rightarrow> refund_row \<Rightarrow> refund_row) \<Rightarrow> int \<Rightarrow> order_tables \<Rightarrow> int \<times> order_tables" where
  "update_refunds P f now d =
     (affected P (f now) (refunds d), d\<lparr>refunds := update_rows (\<lambda>r. r\<lparr>rf_update_time := now\<rparr>) P (f now) (refunds d)\<rparr>)"

definition update_outbox :: "(outbox_row \<Rightarrow> bool) \<Rightarrow> (int \<Rightarrow> outbox_row \<Rightarrow> outbox_row) \<Rightarrow> int \<Rightarrow> order_tables \<Rightarrow> int \<times> order_tables" where
  "update_outbox P f now d =
     (affected P (f now) (outbox d), d\<lparr>outbox := update_rows (\<lambda>r. r\<lparr>ob_update_time := now\<rparr>) P (f now) (outbox d)\<rparr>)"

definition insert_log :: "string \<Rightarrow> int \<Rightarrow> int \<Rightarrow> int \<Rightarrow> string \<Rightarrow> int \<Rightarrow> order_tables \<Rightarrow> int \<times> order_tables" where
  "insert_log orderID from to operator remark now d =
     (1, d\<lparr>status_log := status_log d @ [\<lparr>lg_order_id = orderID, lg_from = from, lg_to = to, lg_operator_id = operator, lg_remark = remark\<rparr>]\<rparr>)"

definition order_row_of :: "order_tables \<Rightarrow> string \<Rightarrow> order_row option" where
  "order_row_of d k = find (\<lambda>r. o_id r = k) (orders d)"

definition payment_of :: "order_tables \<Rightarrow> string \<Rightarrow> payment_row option" where
  "payment_of d k = find (\<lambda>r. p_order_id r = k) (payments d)"

definition refund_of :: "order_tables \<Rightarrow> string \<Rightarrow> refund_row option" where
  "refund_of d k = find (\<lambda>r. rf_order_id r = k) (refunds d)"

text \<open>\<open>RawDB()\<close> opens the connection, which can fail.\<close>

definition RawDB :: "('x order_world, unit) io" where
  "RawDB = ext_call (ret ())"

definition order_tx :: "(go_error \<Rightarrow> go_error) \<Rightarrow> ('a \<Rightarrow> go_error \<Rightarrow> go_error) \<Rightarrow> ('x order_world, 'a) io \<Rightarrow> ('x order_world, 'a) io" where
  "order_tx = with_tx o_db (\<lambda>d w. w\<lparr>o_db := d\<rparr>)"

definition order_now :: "('x order_world, int) io" where
  "order_now w = (Inr (o_now w), w)"

section \<open>The systems it calls\<close>

text \<open>\<open>paymentprovider/provider.go\<close>.\<close>

definition NameLocalSandbox :: string where [simp]: "NameLocalSandbox = ''local_sandbox''"
definition NameAlipaySandbox :: string where [simp]: "NameAlipaySandbox = ''alipay_sandbox''"

record precreate_request =
  pc_OutTradeNo :: string
  pc_Subject :: string
  pc_AmountFen :: int
  pc_ExpireMinutes :: int

record query_result =
  qr_OutTradeNo :: string
  qr_TradeNo :: string
  qr_Status :: string
  qr_AmountFen :: int

record refund_request =
  rr_OutTradeNo :: string
  rr_RefundID :: string
  rr_AmountFen :: int
  rr_Reason :: string

record refund_result =
  rs_OutTradeNo :: string
  rs_TradeNo :: string
  rs_RefundID :: string
  rs_Status :: string

record notification =
  nt_EventID :: string
  nt_OutTradeNo :: string
  nt_TradeNo :: string
  nt_TradeStatus :: string
  nt_AmountFen :: int

text \<open>
  The provider interface; \<open>pv_VerifyNotification\<close> answers the notification of a form, or \<open>None\<close> when
  it reports an error (such as a bad signature).
\<close>

record 'x provider =
  pv_Name :: string
  pv_Precreate :: "precreate_request \<Rightarrow> ('x, string) io"
  pv_Query :: "string \<Rightarrow> ('x, query_result) io"
  pv_Close :: "string \<Rightarrow> ('x, unit) io"
  pv_Refund :: "refund_request \<Rightarrow> ('x, refund_result) io"
  pv_VerifyNotification :: "(string \<times> string) list \<Rightarrow> notification option"

record 'x inventory_client =
  ic_ReserveStock :: "call_ctx \<Rightarrow> string \<Rightarrow> int \<Rightarrow> int \<Rightarrow> ('x, unit) io"
  ic_ConfirmDeduct :: "call_ctx \<Rightarrow> string \<Rightarrow> ('x, unit) io"
  ic_ReleaseStock :: "call_ctx \<Rightarrow> string \<Rightarrow> string \<Rightarrow> ('x, unit) io"

record product_card =
  pd_ProductId :: int
  pd_Name :: string
  pd_SupplierId :: int
  pd_MerchantId :: int
  pd_ImageUrl :: string
  pd_OriginPriceFen :: int
  pd_FinalPriceFen :: int
  pd_PromotionType :: string
  pd_PromotionTag :: string
  pd_StockAvailable :: int

record order_config =
  RequireInventoryReserve :: bool
  PaymentExpireMinutes :: int
  StockShardCount :: int
  PaymentFinalizeBatchSize :: int
  PaymentFinalizeConcurrency :: int
  OutboxBatchSize :: int
  OutboxSingleActive :: bool
  OutboxLeaderLockKey :: string
  OutboxLeaderLockTTL :: int
  OutboxRetrySec :: int
  OutboxMaxRetries :: int
  OutboxTimeoutSec :: int
  RabbitMQRouteKey :: string

record 'x svc_ctx =
  Config :: order_config
  has_SqlConn :: bool
  ProductRpc :: "(int \<Rightarrow> ('x, product_card) io) option"
  InventoryClient :: "'x inventory_client option"
  PaymentProvider :: "'x provider option"

text \<open>A call of another system, subject to the fault schedule.\<close>

definition call :: "('x, 'a) io \<Rightarrow> ('x order_world, 'a) io" where
  "call f = ext_call (\<lambda>w. case f (o_ext w) of (x, e) \<Rightarrow> (x, w\<lparr>o_ext := e\<rparr>))"

definition order_eval :: "(redis, 'a) io \<Rightarrow> ('x order_world, 'a) io" where
  "order_eval f = ext_call (\<lambda>w. case f (o_redis w) of (x, r) \<Rightarrow> (x, w\<lparr>o_redis := r\<rparr>))"

definition grpc :: "grpc_code \<Rightarrow> string \<Rightarrow> go_error \<Rightarrow> go_error" where
  "grpc c m e = StatusError c m"

definition on_no_rows :: "go_error \<Rightarrow> (go_error \<Rightarrow> go_error) \<Rightarrow> go_error \<Rightarrow> go_error" where
  "on_no_rows nr other e = (if e = ErrNoRows then nr else other e)"

end
