(* ===== verification/Order_Lifecycle.thy ===== *)
theory Order_Lifecycle
  imports Order_Store
begin

text \<open>
  \<open>app/order/rpc/internal/logic/orderlifecyclelogic.go\<close>: cancelling, closing, shipping and confirming
  receipt of an order.  Every command is one guarded transition of the order status in a
  transaction that also writes the status log; closing commands first close the payment at the
  provider and afterwards release the stock.  Requests are \<open>option\<close>s because the handlers check for
  a nil request.
\<close>

section \<open>The transition\<close>

record lifecycle_transition =
  lt_orderID :: string
  lt_ownerColumn :: string
  lt_ownerID :: int
  lt_operatorID :: int
  lt_fromStatus :: int
  lt_toStatus :: int
  lt_timestampKind :: string
  lt_remark :: string
  lt_closePayment :: bool

definition no_transition :: lifecycle_transition where
  "no_transition = \<lparr>lt_orderID = [], lt_ownerColumn = [], lt_ownerID = 0, lt_operatorID = 0, lt_fromStatus = 0,
     lt_toStatus = 0, lt_timestampKind = [], lt_remark = [], lt_closePayment = False\<rparr>"

record lifecycle_result =
  lr_repeated :: bool
  lr_status :: int

definition lifecycleUpdate :: "lifecycle_transition \<Rightarrow> go_error + (int \<Rightarrow> order_tables \<Rightarrow> int \<times> order_tables)" where
  "lifecycleUpdate c =
     (let setClause = (if lt_timestampKind c = [] then Inr (\<lambda>now r. r\<lparr>o_status := lt_toStatus c, o_update_time := now\<rparr>)
                       else if lt_timestampKind c = ''shipped''
                       then Inr (\<lambda>now r. r\<lparr>o_status := lt_toStatus c, o_shipped_at := Some now, o_update_time := now\<rparr>)
                       else if lt_timestampKind c = ''completed''
                       then Inr (\<lambda>now r. r\<lparr>o_status := lt_toStatus c, o_completed_at := Some now, o_update_time := now\<rparr>)
                       else Inl (StatusError codes_Internal ''invalid order transition timestamp''))
      in case setClause of
           Inl e \<Rightarrow> Inl e
         | Inr f \<Rightarrow>
             Inr (update_orders (\<lambda>r. o_id r = lt_orderID c \<and>
                    (lt_ownerColumn c = ''merchant_id'' \<longrightarrow> o_merchant_id r = lt_ownerID c) \<and> o_status r = lt_fromStatus c) f))"

text \<open>The \<open>WHERE\<close> clause of the locking query, by ownership scope.\<close>

definition owner_scope :: "lifecycle_transition \<Rightarrow> (order_row \<Rightarrow> bool) option" where
  "owner_scope c =
     (if lt_ownerColumn c = ''user_id'' then Some (\<lambda>r. o_id r = lt_orderID c \<and> o_user_id r = lt_ownerID c)
      else if lt_ownerColumn c = ''merchant_id'' then Some (\<lambda>r. o_id r = lt_orderID c \<and> o_merchant_id r = lt_ownerID c)
      else if lt_ownerColumn c = [] then Some (\<lambda>r. o_id r = lt_orderID c)
      else None)"

definition close_payment :: "string \<Rightarrow> int \<Rightarrow> order_tables \<Rightarrow> int \<times> order_tables" where
  "close_payment orderID =
     update_payments (\<lambda>r. p_order_id r = orderID \<and> p_status r = payment_Init)
       (\<lambda>now r. r\<lparr>p_status := payment_Closed,
                  p_provider_status := (if p_provider r = ''alipay_sandbox'' then ''TRADE_CLOSED'' else ''CLOSED''),
                  p_update_time := now\<rparr>)"

text \<open>The writes of a transition that is due.\<close>

definition lifecycle_apply :: "lifecycle_transition \<Rightarrow> ('x order_world, lifecycle_result) io" where
  "lifecycle_apply c =
     bindE (of_result (lifecycleUpdate c)) (\<lambda>update.
     bindE (map_err (grpc codes_Internal ''update order status failed'') (exec update)) (\<lambda>rows.
     if rows \<noteq> 1 then fail (StatusError codes_Aborted ''order status changed concurrently'')
     else bindE (if lt_closePayment c
                 then map_err (grpc codes_Internal ''close payment order failed'') (exec (close_payment (lt_orderID c)))
                 else ret 0) (\<lambda>_.
          bindE (map_err (grpc codes_Internal ''insert order status log failed'')
                  (exec (insert_log (lt_orderID c) (lt_fromStatus c) (lt_toStatus c) (lt_operatorID c) (lt_remark c)))) (\<lambda>_.
          ret \<lparr>lr_repeated = False, lr_status = lt_toStatus c\<rparr>))))"

definition lifecycle_body :: "lifecycle_transition \<Rightarrow> ('x order_world, lifecycle_result) io" where
  "lifecycle_body c =
     (case owner_scope c of
        None \<Rightarrow> fail (StatusError codes_Internal ''invalid order ownership scope'')
      | Some scope \<Rightarrow>
          bindE (map_err (on_no_rows (StatusError codes_NotFound ''order not found'') (grpc codes_Internal ''query order status failed''))
                  (query_row (\<lambda>d. map_option o_status (find scope (orders d))))) (\<lambda>currentStatus.
          if currentStatus = lt_toStatus c then ret \<lparr>lr_repeated = True, lr_status = currentStatus\<rparr>
          else if currentStatus \<noteq> lt_fromStatus c
          then fail (StatusError codes_FailedPrecondition ''order status does not allow this command'')
          else lifecycle_apply c))"

definition executeLifecycleTransition :: "'x svc_ctx \<Rightarrow> lifecycle_transition \<Rightarrow> ('x order_world, lifecycle_result) io" where
  "executeLifecycleTransition s c =
     (if \<not> has_SqlConn s then fail (StatusError codes_Unavailable ''order datasource is not configured'')
      else bindE (map_err (grpc codes_Unavailable ''order datasource is unavailable'') RawDB) (\<lambda>_.
           order_tx (grpc codes_Internal ''begin order transaction failed'')
             (\<lambda>res. grpc codes_Internal (if lr_repeated res then ''commit repeated order command failed'' else ''commit order command failed''))
             (lifecycle_body c)))"

section \<open>Context and effects around it\<close>

record command_meta =
  cm_RequestId :: string
  cm_TraceId :: string
  cm_UserId :: int
  cm_MerchantId :: int
  cm_Role :: string

definition numericTraceID :: "int \<Rightarrow> string" where
  "numericTraceID v = (if v \<le> 0 then [] else show_int v)"

definition commandContext :: "call_ctx \<Rightarrow> command_meta option \<Rightarrow> call_ctx" where
  "commandContext cx meta =
     (case meta of
        None \<Rightarrow> cx
      | Some m \<Rightarrow>
          (let requestID = TrimSpace (cm_RequestId m);
               traceID = TrimSpace (cm_TraceId m);
               requestID = (if requestID = [] then cx_random_id cx else requestID);
               traceID = (if traceID = [] then requestID else traceID)
           in cx\<lparr>cx_trace := Some \<lparr>tr_RequestID = requestID, tr_TraceID = traceID,
                                   tr_UserID = numericTraceID (cm_UserId m), tr_MerchantID = numericTraceID (cm_MerchantId m)\<rparr>,
                 cx_identity := Some \<lparr>id_UserID = cm_UserId m, id_Role = TrimSpace (cm_Role m),
                                      id_IsAdmin = EqualFold (TrimSpace (cm_Role m)) ''admin'',
                                      id_MerchantID = cm_MerchantId m, id_RequestID = requestID\<rparr>\<rparr>))"

definition trimRefundError :: "go_error \<Rightarrow> string" where
  "trimRefundError e = cut255 (TrimSpace (err_text e))"

definition release_failed :: "string \<Rightarrow> string \<Rightarrow> int \<Rightarrow> order_tables \<Rightarrow> int \<times> order_tables" where
  "release_failed orderID message =
     update_payments (\<lambda>r. p_order_id r = orderID)
       (\<lambda>now r. r\<lparr>p_release_status := 2, p_release_attempts := p_release_attempts r + 1, p_release_error := message, p_update_time := now\<rparr>)"

definition release_succeeded :: "string \<Rightarrow> int \<Rightarrow> order_tables \<Rightarrow> int \<times> order_tables" where
  "release_succeeded orderID =
     update_payments (\<lambda>r. p_order_id r = orderID)
       (\<lambda>now r. r\<lparr>p_release_status := 1, p_release_attempts := p_release_attempts r + 1, p_release_error := [],
                  p_released_at := Some now, p_update_time := now\<rparr>)"

definition releaseClosedOrder :: "'x svc_ctx \<Rightarrow> call_ctx \<Rightarrow> string \<Rightarrow> string \<Rightarrow> ('x order_world, unit) io" where
  "releaseClosedOrder s cx orderID reason =
     (case InventoryClient s of
        None \<Rightarrow> fail (StatusError codes_Unavailable ''inventory client is not configured'')
      | Some ic \<Rightarrow>
          bindE (attempt (call (ic_ReleaseStock ic cx orderID reason))) (\<lambda>res.
            case res of
              Inl err \<Rightarrow>
                bindE (or_else (exec (release_failed orderID (trimRefundError err))) 0) (\<lambda>_.
                fail (StatusError codes_Unavailable ''release order stock failed; retry the same command''))
            | Inr _ \<Rightarrow>
                bindE (map_err (grpc codes_Internal ''record inventory release success failed'') (exec (release_succeeded orderID))) (\<lambda>_.
                ret ())))"

definition closeProviderPayment :: "'x svc_ctx \<Rightarrow> string \<Rightarrow> ('x order_world, unit) io" where
  "closeProviderPayment s orderID =
     (case PaymentProvider s of
        None \<Rightarrow> ret ()
      | Some pv \<Rightarrow>
          bindE (map_err (grpc codes_Unavailable ''payment datasource is unavailable'') RawDB) (\<lambda>_.
          bindE (map_err (grpc codes_Unavailable ''query provider payment failed'')
                  (query_row (\<lambda>d. map_option (\<lambda>r. (p_provider r, p_out_trade_no r, p_provider_status r)) (payment_of d orderID))))
            (\<lambda>(providerName, outTradeNo, providerStatus).
          if providerName \<noteq> NameAlipaySandbox \<or> providerStatus = ''TRADE_CLOSED'' then ret ()
          else map_err (grpc codes_Unavailable ''close provider payment failed'') (call (pv_Close pv outTradeNo)))))"

section \<open>The commands\<close>

record command_req =
  cr_OrderId :: string
  cr_ActorId :: int
  cr_Reason :: string
  cr_Meta :: "command_meta option"

record command_resp =
  rp_OrderId :: string
  rp_OrderStatus :: int
  rp_Repeated :: bool

definition lifecycleResponse :: "string \<Rightarrow> lifecycle_result \<Rightarrow> command_resp" where
  "lifecycleResponse orderID r = \<lparr>rp_OrderId = orderID, rp_OrderStatus = lr_status r, rp_Repeated = lr_repeated r\<rparr>"

text \<open>The guards of the five handlers; \<open>cr_ActorId\<close> is the user, operator or merchant id of the request.\<close>

definition bad_request :: "command_req option \<Rightarrow> bool" where
  "bad_request req = (case req of None \<Rightarrow> True | Some i \<Rightarrow> TrimSpace (cr_OrderId i) = [] \<or> cr_ActorId i \<le> 0)"

definition reason_or :: "string \<Rightarrow> command_req \<Rightarrow> string" where
  "reason_or dflt i = (let r = TrimSpace (cr_Reason i) in if r = [] then dflt else r)"

definition CancelUserOrder :: "'x svc_ctx \<Rightarrow> call_ctx \<Rightarrow> command_req option \<Rightarrow> ('x order_world, command_resp) io" where
  "CancelUserOrder s cx req =
     (if bad_request req then fail (StatusError codes_InvalidArgument ''order_id and user_id are required'')
      else let i = the req; reason = reason_or ''user cancel'' i; cx = commandContext cx (cr_Meta i) in
        bindE (closeProviderPayment s (cr_OrderId i)) (\<lambda>_.
        bindE (executeLifecycleTransition s (no_transition\<lparr>lt_orderID := cr_OrderId i, lt_ownerColumn := ''user_id'',
                 lt_ownerID := cr_ActorId i, lt_operatorID := cr_ActorId i, lt_fromStatus := order_PendingPayment,
                 lt_toStatus := order_Closed, lt_remark := ''user cancelled: '' @ reason, lt_closePayment := True\<rparr>)) (\<lambda>result.
        bindE (releaseClosedOrder s cx (cr_OrderId i) reason) (\<lambda>_.
        ret (lifecycleResponse (cr_OrderId i) result)))))"

definition CloseAdminOrder :: "'x svc_ctx \<Rightarrow> call_ctx \<Rightarrow> command_req option \<Rightarrow> ('x order_world, command_resp) io" where
  "CloseAdminOrder s cx req =
     (if bad_request req then fail (StatusError codes_InvalidArgument ''order_id and operator_id are required'')
      else let i = the req; reason = reason_or ''admin close'' i; cx = commandContext cx (cr_Meta i) in
        bindE (closeProviderPayment s (cr_OrderId i)) (\<lambda>_.
        bindE (executeLifecycleTransition s (no_transition\<lparr>lt_orderID := cr_OrderId i, lt_operatorID := cr_ActorId i,
                 lt_fromStatus := order_PendingPayment, lt_toStatus := order_Closed, lt_remark := ''admin closed: '' @ reason,
                 lt_closePayment := True\<rparr>)) (\<lambda>result.
        bindE (releaseClosedOrder s cx (cr_OrderId i) reason) (\<lambda>_.
        ret (lifecycleResponse (cr_OrderId i) result)))))"

definition ShipAdminOrder :: "'x svc_ctx \<Rightarrow> call_ctx \<Rightarrow> command_req option \<Rightarrow> ('x order_world, command_resp) io" where
  "ShipAdminOrder s cx req =
     (if bad_request req then fail (StatusError codes_InvalidArgument ''order_id and operator_id are required'')
      else let i = the req in
        bindE (executeLifecycleTransition s (no_transition\<lparr>lt_orderID := cr_OrderId i, lt_operatorID := cr_ActorId i,
                 lt_fromStatus := order_Paid, lt_toStatus := order_Shipped, lt_timestampKind := ''shipped'',
                 lt_remark := ''admin shipped''\<rparr>)) (\<lambda>result.
        ret (lifecycleResponse (cr_OrderId i) result)))"

definition ShipMerchantOrder :: "'x svc_ctx \<Rightarrow> call_ctx \<Rightarrow> command_req option \<Rightarrow> ('x order_world, command_resp) io" where
  "ShipMerchantOrder s cx req =
     (if bad_request req then fail (StatusError codes_InvalidArgument ''order_id and merchant_id are required'')
      else let i = the req in
        bindE (executeLifecycleTransition s (no_transition\<lparr>lt_orderID := cr_OrderId i, lt_ownerColumn := ''merchant_id'',
                 lt_ownerID := cr_ActorId i, lt_operatorID := cr_ActorId i, lt_fromStatus := order_Paid,
                 lt_toStatus := order_Shipped, lt_timestampKind := ''shipped'', lt_remark := ''merchant ship order''\<rparr>)) (\<lambda>result.
        ret (lifecycleResponse (cr_OrderId i) result)))"

definition ConfirmReceipt :: "'x svc_ctx \<Rightarrow> call_ctx \<Rightarrow> command_req option \<Rightarrow> ('x order_world, command_resp) io" where
  "ConfirmReceipt s cx req =
     (if bad_request req then fail (StatusError codes_InvalidArgument ''order_id and user_id are required'')
      else let i = the req in
        bindE (executeLifecycleTransition s (no_transition\<lparr>lt_orderID := cr_OrderId i, lt_ownerColumn := ''user_id'',
                 lt_ownerID := cr_ActorId i, lt_operatorID := cr_ActorId i, lt_fromStatus := order_Shipped,
                 lt_toStatus := order_Completed, lt_timestampKind := ''completed'', lt_remark := ''buyer confirmed receipt''\<rparr>)) (\<lambda>result.
        ret (lifecycleResponse (cr_OrderId i) result)))"

end
