(* ===== verification/Order_Outbox_Insert.thy ===== *)
theory Order_Outbox_Insert
  imports Order_Store
begin

text \<open>
  How events enter the outbox table: \<open>InsertOrderCreatedOutbox\<close> and \<open>InsertOrderPaidOutbox\<close> of
  \<open>job/outbox_publisher.go\<close> and \<open>insertRefundOutbox\<close> of \<open>logic/refundstate.go\<close>, all executed inside
  the transaction of the change they announce.
\<close>

definition has_event :: "order_tables \<Rightarrow> string \<Rightarrow> bool" where
  "has_event d eventID \<longleftrightarrow> list_ex (\<lambda>r. ob_event_id r = eventID) (outbox d)"

definition append_event :: "string \<Rightarrow> string \<Rightarrow> string \<Rightarrow> json \<Rightarrow> int \<Rightarrow> order_tables \<Rightarrow> order_tables" where
  "append_event eventID eventType aggregateID payload now d =
     d\<lparr>outbox := outbox d @ [\<lparr>ob_id = 1 + int (length (outbox d)), ob_event_id = eventID, ob_event_type = eventType,
        ob_aggregate_id = aggregateID, ob_payload = payload, ob_status = 0, ob_attempt_count = 0, ob_next_retry_at = now,
        ob_published_at = None, ob_last_error = [], ob_update_time = now\<rparr>]\<rparr>"

text \<open>\<open>INSERT IGNORE\<close>: an event id that is already there is left alone.\<close>

definition insert_event :: "string \<Rightarrow> string \<Rightarrow> string \<Rightarrow> json \<Rightarrow> int \<Rightarrow> order_tables \<Rightarrow> int \<times> order_tables" where
  "insert_event eventID eventType aggregateID payload now d =
     (if has_event d eventID then (0, d) else (1, append_event eventID eventType aggregateID payload now d))"

definition InsertOrderCreatedOutbox :: "string \<Rightarrow> json \<Rightarrow> ('x order_world, unit) io" where
  "InsertOrderCreatedOutbox orderID payload =
     bindE (exec (insert_event (''order.created:'' @ orderID) ''order.created'' orderID payload)) (\<lambda>_. ret ())"

record order_paid_event =
  pe_EventID :: string
  pe_EventType :: string
  pe_OrderID :: string

definition NewOrderPaidEvent :: "string \<Rightarrow> order_paid_event" where
  "NewOrderPaidEvent orderID = \<lparr>pe_EventID = ''order.paid:'' @ orderID, pe_EventType = ''order.paid'', pe_OrderID = orderID\<rparr>"

text \<open>The payload is built with \<open>%q\<close>; the JSON column refuses it if that is not a JSON string.\<close>

definition InsertOrderPaidOutbox :: "string \<Rightarrow> ('x order_world, unit) io" where
  "InsertOrderPaidOutbox orderID =
     (let event = NewOrderPaidEvent orderID in
      bindE (stmt (\<lambda>now d.
        if quoted_is_json orderID
        then (let (n, d') = insert_event (pe_EventID event) (pe_EventType event) orderID
                (JObj [(''event_id'', JStr (pe_EventID event)), (''event_type'', JStr (pe_EventType event)), (''order_id'', JStr orderID)]) now d
              in (Inr n, d'))
        else (Inl (RawError ''Invalid JSON text''), d))) (\<lambda>_. ret ()))"

definition insertRefundOutbox :: "string \<Rightarrow> string \<Rightarrow> string \<Rightarrow> (string \<times> json) list \<Rightarrow> ('x order_world, unit) io" where
  "insertRefundOutbox eventType refundID orderID payload =
     (let eventID = eventType @ '':'' @ refundID;
          body = marshal_map (payload @ [(''event_id'', JStr eventID), (''event_type'', JStr eventType),
                   (''refund_id'', JStr refundID), (''order_id'', JStr orderID)])
      in bindE (exec (\<lambda>now d.
           if has_event d eventID
           then update_outbox (\<lambda>r. ob_event_id r = eventID)
                  (\<lambda>now r. r\<lparr>ob_status := 0, ob_next_retry_at := now, ob_last_error := []\<rparr>) now d
           else (1, append_event eventID eventType orderID body now d))) (\<lambda>_. ret ()))"

end
