(* ===== verification/Order_Payment.thy ===== *)
theory Order_Payment
  imports Order_Lifecycle Order_Outbox_Insert
begin

text \<open>
  Payments: \<open>markorderpaidlogic.go\<close>, \<open>createpaymentlogic.go\<close> and
  \<open>handlepaymentnotificationlogic.go\<close> under \<open>app/order/rpc/internal/logic\<close>.  The result label the code
  keeps for its metrics is left out; where it tells outcomes of the transaction apart it is the
  value of \<open>mark_outcome\<close>.
\<close>

section \<open>The callback\<close>

record payment_callback_payload =
  pl_TradeStatus :: string
  pl_Provider :: string
  pl_EventID :: string
  pl_PaidAmountFen :: int
  pl_ProviderTradeNo :: string

definition empty_payload :: payment_callback_payload where
  "empty_payload = \<lparr>pl_TradeStatus = [], pl_Provider = [], pl_EventID = [], pl_PaidAmountFen = 0, pl_ProviderTradeNo = []\<rparr>"

definition set_payload :: "string \<Rightarrow> json \<Rightarrow> payment_callback_payload \<Rightarrow> payment_callback_payload option" where
  "set_payload k v p =
     (if EqualFold k ''trade_status'' then set_str v (\<lambda>p s. p\<lparr>pl_TradeStatus := s\<rparr>) p
      else if EqualFold k ''provider'' then set_str v (\<lambda>p s. p\<lparr>pl_Provider := s\<rparr>) p
      else if EqualFold k ''event_id'' then set_str v (\<lambda>p s. p\<lparr>pl_EventID := s\<rparr>) p
      else if EqualFold k ''paid_amount_fen'' then set_int v (\<lambda>p i. p\<lparr>pl_PaidAmountFen := i\<rparr>) p
      else if EqualFold k ''provider_trade_no'' then set_str v (\<lambda>p s. p\<lparr>pl_ProviderTradeNo := s\<rparr>) p
      else Some p)"

definition parsePaymentCallbackPayload :: "json_text \<Rightarrow> go_error + payment_callback_payload" where
  "parsePaymentCallbackPayload body =
     (if body = NotJson [] then Inl (StatusError codes_InvalidArgument ''callback_body is required'')
      else case unmarshal_struct set_payload body empty_payload of
             None \<Rightarrow> Inl (StatusError codes_InvalidArgument ''callback_body is invalid'')
           | Some payload \<Rightarrow>
               if pl_TradeStatus payload \<noteq> [] \<and> pl_TradeStatus payload \<noteq> ''SUCCESS''
               then Inl (StatusError codes_FailedPrecondition ''payment callback is not successful'')
               else if pl_PaidAmountFen payload \<le> 0
               then Inl (StatusError codes_InvalidArgument ''paid_amount_fen is required'')
               else Inr (if pl_Provider payload = [] then payload\<lparr>pl_Provider := ''mock''\<rparr> else payload))"

record mark_paid_req =
  mp_OrderId :: string
  mp_PaymentOrderId :: string
  mp_OutTradeNo :: string
  mp_CallbackBody :: json_text

record mark_paid_resp =
  mr_Updated :: bool
  mr_OrderStatus :: string

definition insert_callback :: "callback_row \<Rightarrow> int \<Rightarrow> order_tables \<Rightarrow> int \<times> order_tables" where
  "insert_callback c now d =
     (if list_ex (\<lambda>r. cb_provider r = cb_provider c \<and> cb_event_id r = cb_event_id c) (callbacks d) then (0, d)
      else (1, d\<lparr>callbacks := callbacks d @ [c]\<rparr>))"

definition insertPaymentCallbackEvent :: "mark_paid_req \<Rightarrow> payment_callback_payload \<Rightarrow> string \<Rightarrow> string \<Rightarrow> ('x order_world, unit) io" where
  "insertPaymentCallbackEvent i payload processStatus errorMessage =
     (let eventID = (if pl_EventID payload = []
                     then pl_Provider payload @ '':'' @ mp_PaymentOrderId i @ '':'' @ mp_OutTradeNo i
                     else pl_EventID payload)
      in bindE (exec (insert_callback \<lparr>cb_provider = pl_Provider payload, cb_event_id = eventID, cb_payment_order_id = mp_PaymentOrderId i,
                  cb_order_id = mp_OrderId i, cb_out_trade_no = mp_OutTradeNo i, cb_paid_amount_fen = pl_PaidAmountFen payload,
                  cb_process_status = processStatus, cb_error_message = errorMessage, cb_raw_payload = mp_CallbackBody i\<rparr>)) (\<lambda>_. ret ()))"

section \<open>Marking an order paid\<close>

datatype mark_outcome = AmountMismatch | Idempotent | OrderClosed | NotPayable | Success

definition shortPaymentError :: "go_error \<Rightarrow> string" where
  "shortPaymentError e = cut255 (err_text e)"

definition finalize_failed :: "string \<Rightarrow> string \<Rightarrow> int \<Rightarrow> order_tables \<Rightarrow> int \<times> order_tables" where
  "finalize_failed orderID message =
     update_payments (\<lambda>r. p_order_id r = orderID)
       (\<lambda>now r. r\<lparr>p_finalize_status := 2, p_finalize_attempts := p_finalize_attempts r + 1, p_finalize_error := message\<rparr>)"

definition finalize_succeeded :: "string \<Rightarrow> int \<Rightarrow> order_tables \<Rightarrow> int \<times> order_tables" where
  "finalize_succeeded orderID =
     update_payments (\<lambda>r. p_order_id r = orderID)
       (\<lambda>now r. r\<lparr>p_finalize_status := 1, p_finalize_attempts := p_finalize_attempts r + 1, p_finalize_error := [], p_finalized_at := Some now\<rparr>)"

definition confirmInventoryDeduct :: "'x svc_ctx \<Rightarrow> call_ctx \<Rightarrow> string \<Rightarrow> ('x order_world, unit) io" where
  "confirmInventoryDeduct s cx orderID =
     (case InventoryClient s of
        Some ic \<Rightarrow>
          bindE (attempt (call (ic_ConfirmDeduct ic cx orderID))) (\<lambda>res.
            case res of
              Inl err \<Rightarrow> bindE (or_else (exec (finalize_failed orderID (shortPaymentError err))) 0) (\<lambda>_. fail err)
            | Inr _ \<Rightarrow> bindE (exec (finalize_succeeded orderID)) (\<lambda>_. ret ()))
      | None \<Rightarrow>
          if RequireInventoryReserve (Config s)
          then let err = RawError ''inventory client not configured'' in
               bindE (or_else (exec (finalize_failed orderID (shortPaymentError err))) 0) (\<lambda>_. fail err)
          else ret ())"

text \<open>The joined, locked row of payment and order.\<close>

definition payable_row :: "mark_paid_req \<Rightarrow> order_tables \<Rightarrow> (int \<times> int \<times> int) option" where
  "payable_row i d =
     (case find (\<lambda>p. p_id p = mp_PaymentOrderId i \<and> p_out_trade_no p = mp_OutTradeNo i \<and> p_order_id p = mp_OrderId i) (payments d) of
        None \<Rightarrow> None
      | Some p \<Rightarrow> map_option (\<lambda>r. (o_status r, p_status p, p_payable_amount_fen p)) (order_row_of d (p_order_id p)))"

definition pay_order :: "string \<Rightarrow> int \<Rightarrow> order_tables \<Rightarrow> int \<times> order_tables" where
  "pay_order orderID =
     update_orders (\<lambda>r. o_id r = orderID \<and> o_status r = order_PendingPayment)
       (\<lambda>now r. r\<lparr>o_status := order_Paid, o_update_time := now\<rparr>)"

definition pay_payment :: "mark_paid_req \<Rightarrow> payment_callback_payload \<Rightarrow> int \<Rightarrow> order_tables \<Rightarrow> int \<times> order_tables" where
  "pay_payment i callback =
     update_payments (\<lambda>r. p_id r = mp_PaymentOrderId i \<and> p_out_trade_no r = mp_OutTradeNo i \<and> p_order_id r = mp_OrderId i \<and> p_status r = payment_Init)
       (\<lambda>now r. r\<lparr>p_status := payment_Success, p_paid_at := Some now, p_callback_payload := Some (mp_CallbackBody i),
                  p_provider_trade_no := pl_ProviderTradeNo callback, p_provider_status := ''TRADE_SUCCESS'', p_update_time := now\<rparr>)"

text \<open>The writes of a callback for an order that is neither paid nor closed.\<close>

definition mark_paid_apply :: "mark_paid_req \<Rightarrow> payment_callback_payload \<Rightarrow> ('x order_world, mark_outcome) io" where
  "mark_paid_apply i callback =
     bindE (exec (pay_order (mp_OrderId i))) (\<lambda>orderRows.
     if orderRows = 0 then ret NotPayable
     else bindE (exec (pay_payment i callback)) (\<lambda>paymentRows.
          if paymentRows = 0 then fail (StatusError codes_FailedPrecondition ''payment order is not payable'')
          else bindE (exec (insert_log (mp_OrderId i) order_PendingPayment order_Paid 0 ''payment callback success'')) (\<lambda>_.
               bindE (insertPaymentCallbackEvent i callback ''SUCCESS'' []) (\<lambda>_.
               bindE (map_err (grpc codes_Internal ''insert paid outbox failed'') (InsertOrderPaidOutbox (mp_OrderId i))) (\<lambda>_.
               ret Success)))))"

definition mark_paid_decide :: "mark_paid_req \<Rightarrow> payment_callback_payload \<Rightarrow> int \<Rightarrow> int \<Rightarrow> int \<Rightarrow> ('x order_world, mark_outcome) io" where
  "mark_paid_decide i callback orderStatus paymentStatus payableAmountFen =
     (if pl_PaidAmountFen callback \<noteq> payableAmountFen
      then bindE (insertPaymentCallbackEvent i callback ''FAILED_AMOUNT_MISMATCH'' ''paid amount does not match payable amount'') (\<lambda>_. ret AmountMismatch)
      else if orderStatus = order_Paid \<or> paymentStatus = payment_Success
      then bindE (insertPaymentCallbackEvent i callback ''IDEMPOTENT'' []) (\<lambda>_. ret Idempotent)
      else if orderStatus = order_Closed
      then bindE (insertPaymentCallbackEvent i callback ''CLOSED'' []) (\<lambda>_. ret OrderClosed)
      else mark_paid_apply i callback)"

definition mark_paid_body :: "mark_paid_req \<Rightarrow> payment_callback_payload \<Rightarrow> ('x order_world, mark_outcome) io" where
  "mark_paid_body i callback =
     bindE (map_err (on_no_rows (StatusError codes_NotFound ''payment order not found'') id) (query_row (payable_row i)))
       (\<lambda>(orderStatus, paymentStatus, payableAmountFen). mark_paid_decide i callback orderStatus paymentStatus payableAmountFen)"

definition MarkPaid :: "'x svc_ctx \<Rightarrow> call_ctx \<Rightarrow> mark_paid_req \<Rightarrow> ('x order_world, mark_paid_resp) io" where
  "MarkPaid s cx i =
     (if mp_OrderId i = [] then fail (StatusError codes_InvalidArgument ''order_id is required'')
      else if mp_PaymentOrderId i = [] then fail (StatusError codes_InvalidArgument ''payment_order_id is required'')
      else if mp_OutTradeNo i = [] then fail (StatusError codes_InvalidArgument ''out_trade_no is required'')
      else bindE (of_result (parsePaymentCallbackPayload (mp_CallbackBody i))) (\<lambda>callback.
           bindE (map_err (grpc codes_Internal ''db connection failed'') RawDB) (\<lambda>_.
           bindE (order_tx (grpc codes_Internal ''begin tx failed'') (\<lambda>_ e. e) (mark_paid_body i callback)) (\<lambda>outcome.
           case outcome of
             AmountMismatch \<Rightarrow> fail (StatusError codes_FailedPrecondition ''paid amount does not match payable amount'')
           | Idempotent \<Rightarrow>
               bindE (attempt (confirmInventoryDeduct s cx (mp_OrderId i))) (\<lambda>_. ret \<lparr>mr_Updated = False, mr_OrderStatus = ''PAID''\<rparr>)
           | OrderClosed \<Rightarrow> ret \<lparr>mr_Updated = False, mr_OrderStatus = ''CLOSED''\<rparr>
           | NotPayable \<Rightarrow> ret \<lparr>mr_Updated = False, mr_OrderStatus = ''UNKNOWN''\<rparr>
           | Success \<Rightarrow>
               bindE (attempt (confirmInventoryDeduct s cx (mp_OrderId i))) (\<lambda>_. ret \<lparr>mr_Updated = True, mr_OrderStatus = ''PAID''\<rparr>)))))"

end
