(* ===== verification/Payment_Channel.thy ===== *)
theory Payment_Channel
  imports Order_Payment
begin

text \<open>
  The payment channel: \<open>createpaymentlogic.go\<close> (open or reuse a payment at the provider) and
  \<open>handlepaymentnotificationlogic.go\<close> (the provider's asynchronous answer), both in
  \<open>app/order/rpc/internal/logic\<close>.
\<close>

section \<open>Creating a payment\<close>

record create_payment_record =
  rec_OrderStatus :: int
  rec_PaymentID :: string
  rec_OutTradeNo :: string
  rec_AmountFen :: int
  rec_PaymentStatus :: int
  rec_Provider :: string
  rec_QRURL :: string
  rec_ExpiresAtUnix :: int

record create_payment_resp =
  cp_OrderId :: string
  cp_PaymentOrderId :: string
  cp_OutTradeNo :: string
  cp_PayableAmountFen :: int
  cp_PaymentStatus :: string
  cp_Provider :: string
  cp_QrUrl :: string
  cp_ExpiresAt :: int

definition create_payment_row :: "string \<Rightarrow> int \<Rightarrow> order_tables \<Rightarrow> create_payment_record option" where
  "create_payment_row orderID userID d =
     (case find (\<lambda>r. o_id r = orderID \<and> o_user_id r = userID) (orders d) of
        None \<Rightarrow> None
      | Some r \<Rightarrow>
          map_option (\<lambda>p. \<lparr>rec_OrderStatus = o_status r, rec_PaymentID = p_id p, rec_OutTradeNo = p_out_trade_no p,
              rec_AmountFen = p_payable_amount_fen p, rec_PaymentStatus = p_status p, rec_Provider = p_provider p,
              rec_QRURL = p_provider_qr_url p, rec_ExpiresAtUnix = (case p_expires_at p of None \<Rightarrow> 0 | Some t \<Rightarrow> t)\<rparr>) (payment_of d orderID))"

definition save_local_payment :: "string \<Rightarrow> int \<Rightarrow> int \<Rightarrow> int \<Rightarrow> order_tables \<Rightarrow> int \<times> order_tables" where
  "save_local_payment paymentID st minutes =
     update_payments (\<lambda>r. p_id r = paymentID \<and> p_status r = st)
       (\<lambda>now r. r\<lparr>p_provider := NameLocalSandbox, p_provider_status := ''WAIT_BUYER_PAY'', p_expires_at := Some (now + 60 * minutes), p_update_time := now\<rparr>)"

definition save_provider_payment :: "string \<Rightarrow> string \<Rightarrow> string \<Rightarrow> string \<Rightarrow> int \<Rightarrow> int \<Rightarrow> int \<Rightarrow> order_tables \<Rightarrow> int \<times> order_tables" where
  "save_provider_payment name qr outTradeNo paymentID st minutes =
     update_payments (\<lambda>r. p_out_trade_no r = outTradeNo \<and> p_id r = paymentID \<and> p_status r = st)
       (\<lambda>now r. r\<lparr>p_provider := name, p_provider_qr_url := qr, p_provider_status := ''WAIT_BUYER_PAY'',
                  p_expires_at := Some (now + 60 * minutes), p_update_time := now\<rparr>)"

definition createProviderPayment :: "'x provider \<Rightarrow> create_payment_resp \<Rightarrow> int \<Rightarrow> int \<Rightarrow> ('x order_world, create_payment_resp) io" where
  "createProviderPayment pv resp expireMinutes currentStatus =
     bindE (map_err (grpc codes_Unavailable ''create provider payment failed'')
             (call (pv_Precreate pv \<lparr>pc_OutTradeNo = cp_OutTradeNo resp, pc_Subject = ''Flash Mall order '' @ cp_OrderId resp,
                pc_AmountFen = cp_PayableAmountFen resp, pc_ExpireMinutes = expireMinutes\<rparr>))) (\<lambda>qr.
     bindE order_now (\<lambda>now.
     bindE (map_err (grpc codes_Internal ''save provider payment failed'')
             (exec (save_provider_payment (pv_Name pv) qr (cp_OutTradeNo resp) (cp_PaymentOrderId resp) currentStatus expireMinutes))) (\<lambda>rows.
     if rows \<noteq> 1 then fail (StatusError codes_Aborted ''payment order changed concurrently'')
     else ret (resp\<lparr>cp_Provider := pv_Name pv, cp_QrUrl := qr, cp_ExpiresAt := now + 60 * expireMinutes\<rparr>))))"

definition createLocalPayment :: "create_payment_record \<Rightarrow> create_payment_resp \<Rightarrow> int \<Rightarrow> ('x order_world, create_payment_resp) io" where
  "createLocalPayment record resp expireMinutes =
     bindE order_now (\<lambda>now.
     if rec_Provider record = NameLocalSandbox \<and> rec_ExpiresAtUnix record > now
     then ret (resp\<lparr>cp_Provider := NameLocalSandbox, cp_ExpiresAt := rec_ExpiresAtUnix record\<rparr>)
     else bindE (map_err (grpc codes_Internal ''save local payment expiry failed'')
                  (exec (save_local_payment (rec_PaymentID record) (rec_PaymentStatus record) expireMinutes))) (\<lambda>rows.
          if rows \<noteq> 1 then fail (StatusError codes_Aborted ''payment order changed concurrently'')
          else ret (resp\<lparr>cp_Provider := NameLocalSandbox, cp_ExpiresAt := now + 60 * expireMinutes\<rparr>)))"

definition CreatePayment :: "'x svc_ctx \<Rightarrow> (string \<times> int) option \<Rightarrow> ('x order_world, create_payment_resp) io" where
  "CreatePayment s req =
     (case req of
        None \<Rightarrow> fail (StatusError codes_InvalidArgument ''order_id and user_id are required'')
      | Some (orderID, userID) \<Rightarrow>
          if TrimSpace orderID = [] \<or> userID \<le> 0
          then fail (StatusError codes_InvalidArgument ''order_id and user_id are required'')
          else bindE (map_err (on_no_rows (StatusError codes_NotFound ''payment order not found'') (grpc codes_Internal ''query payment order failed''))
                       (query_row (create_payment_row orderID userID))) (\<lambda>record.
               if rec_OrderStatus record \<noteq> order_PendingPayment \<and> rec_OrderStatus record \<noteq> order_Paid
               then fail (StatusError codes_FailedPrecondition ''order is not payable'')
               else let resp = \<lparr>cp_OrderId = orderID, cp_PaymentOrderId = rec_PaymentID record, cp_OutTradeNo = rec_OutTradeNo record,
                                cp_PayableAmountFen = rec_AmountFen record, cp_PaymentStatus = ToLower (payment_Text (rec_PaymentStatus record)),
                                cp_Provider = [], cp_QrUrl = [], cp_ExpiresAt = 0\<rparr>;
                        expireMinutes = (if PaymentExpireMinutes (Config s) \<le> 0 then 15 else PaymentExpireMinutes (Config s))
                    in if rec_PaymentStatus record = payment_Success then ret (resp\<lparr>cp_Provider := rec_Provider record\<rparr>)
                       else (case PaymentProvider s of
                              None \<Rightarrow> createLocalPayment record resp expireMinutes
                            | Some pv \<Rightarrow>
                                bindE order_now (\<lambda>now.
                                if rec_Provider record = pv_Name pv \<and> rec_QRURL record \<noteq> [] \<and> rec_ExpiresAtUnix record > now
                                then ret (resp\<lparr>cp_Provider := rec_Provider record, cp_QrUrl := rec_QRURL record, cp_ExpiresAt := rec_ExpiresAtUnix record\<rparr>)
                                else createProviderPayment pv resp expireMinutes (rec_PaymentStatus record)))))"

section \<open>The provider's notification\<close>

definition isAlipayPaidStatus :: "string \<Rightarrow> bool" where
  "isAlipayPaidStatus v \<longleftrightarrow> v = ''TRADE_SUCCESS'' \<or> v = ''TRADE_FINISHED''"

definition buildPaidCallback :: "notification \<Rightarrow> json_text" where
  "buildPaidCallback n =
     JsonText (marshal_map [(''trade_status'', JStr ''SUCCESS''), (''provider'', JStr NameAlipaySandbox),
       (''event_id'', JStr (nt_EventID n)), (''paid_amount_fen'', JInt (nt_AmountFen n)), (''provider_trade_no'', JStr (nt_TradeNo n))])"

record notification_resp =
  nr_Accepted :: bool
  nr_OrderStatus :: string

definition HandlePaymentNotification :: "'x svc_ctx \<Rightarrow> call_ctx \<Rightarrow> (string \<times> string) option \<Rightarrow> ('x order_world, notification_resp) io" where
  "HandlePaymentNotification s cx req =
     (case req of
        None \<Rightarrow> fail (StatusError codes_InvalidArgument ''alipay provider and raw body are required'')
      | Some (provider, rawBody) \<Rightarrow>
          if TrimSpace provider \<noteq> NameAlipaySandbox \<or> TrimSpace rawBody = []
          then fail (StatusError codes_InvalidArgument ''alipay provider and raw body are required'')
          else (case PaymentProvider s of
                 None \<Rightarrow> fail (StatusError codes_FailedPrecondition ''alipay sandbox is not enabled'')
               | Some pv \<Rightarrow>
                   if pv_Name pv \<noteq> NameAlipaySandbox then fail (StatusError codes_FailedPrecondition ''alipay sandbox is not enabled'')
                   else (case ParseQuery rawBody of
                          None \<Rightarrow> fail (StatusError codes_InvalidArgument ''invalid alipay notification body'')
                        | Some vs \<Rightarrow>
                            (case pv_VerifyNotification pv vs of
                               None \<Rightarrow> fail (StatusError codes_Unauthenticated ''invalid alipay notification signature'')
                             | Some n \<Rightarrow>
                                 if \<not> isAlipayPaidStatus (nt_TradeStatus n)
                                 then bindE (or_else (exec (update_payments
                                               (\<lambda>r. p_out_trade_no r = nt_OutTradeNo n \<and> p_provider r = NameAlipaySandbox)
                                               (\<lambda>now r. r\<lparr>p_provider_status := nt_TradeStatus n, p_update_time := now\<rparr>))) 0) (\<lambda>_.
                                      ret \<lparr>nr_Accepted = True, nr_OrderStatus = []\<rparr>)
                                 else bindE (map_err (on_no_rows (StatusError codes_NotFound ''payment order not found'')
                                                                 (grpc codes_Internal ''query payment identity failed''))
                                              (query_row (\<lambda>d. map_option (\<lambda>r. (p_id r, p_order_id r))
                                                 (find (\<lambda>r. p_out_trade_no r = nt_OutTradeNo n \<and> p_provider r = NameAlipaySandbox) (payments d)))))
                                        (\<lambda>(paymentID, orderID).
                                      bindE (MarkPaid s cx \<lparr>mp_OrderId = orderID, mp_PaymentOrderId = paymentID,
                                               mp_OutTradeNo = nt_OutTradeNo n, mp_CallbackBody = buildPaidCallback n\<rparr>) (\<lambda>resp.
                                      ret \<lparr>nr_Accepted = True, nr_OrderStatus = mr_OrderStatus resp\<rparr>))))))"

end
