(* ===== verification/Order_Recovery.thy ===== *)
theory Order_Recovery
  imports Payment_Channel
begin

text \<open>
  Background recovery of the order service: \<open>job/payment_recovery.go\<close> (closing expired payments),
  \<open>job/inventory_recovery.go\<close> (repeating stock confirmation and release) and the handler \<open>order.go\<close>
  installs for payments the provider reports as paid.  The workers of
  \<open>retryInventoryFinalizations\<close> handle distinct orders independently; here they run one after the
  other, and the error kept is the first one recorded, as with the channel of capacity one.
\<close>

section \<open>Closing expired payments\<close>

record payment_recovery_item =
  it_OrderID :: string
  it_PaymentOrderID :: string
  it_OutTradeNo :: string
  it_Provider :: string

record provider_paid_payment =
  pp_OrderID :: string
  pp_PaymentOrderID :: string
  pp_OutTradeNo :: string
  pp_TradeNo :: string
  pp_AmountFen :: int

type_synonym 'x paid_handler = "provider_paid_payment \<Rightarrow> ('x order_world, unit) io"

definition on_provider_paid :: "'x svc_ctx \<Rightarrow> call_ctx \<Rightarrow> 'x paid_handler" where
  "on_provider_paid s cx p =
     bindE (MarkPaid s cx \<lparr>mp_OrderId = pp_OrderID p, mp_PaymentOrderId = pp_PaymentOrderID p, mp_OutTradeNo = pp_OutTradeNo p,
        mp_CallbackBody = JsonText (marshal_map [(''trade_status'', JStr ''SUCCESS''), (''provider'', JStr ''alipay_sandbox''),
           (''event_id'', JStr (''reconcile:'' @ pp_OutTradeNo p)), (''paid_amount_fen'', JInt (pp_AmountFen p)),
           (''provider_trade_no'', JStr (pp_TradeNo p))])\<rparr>) (\<lambda>_. ret ())"

definition shortRecoveryError :: "go_error \<Rightarrow> string" where
  "shortRecoveryError e = cut255 (TrimSpace (err_text e))"

text \<open>As \<open>release_failed\<close> and \<open>release_succeeded\<close>, but \<open>update_time\<close> is left to the column's default.\<close>

definition recovery_release_failed :: "string \<Rightarrow> string \<Rightarrow> int \<Rightarrow> order_tables \<Rightarrow> int \<times> order_tables" where
  "recovery_release_failed orderID message =
     update_payments (\<lambda>r. p_order_id r = orderID)
       (\<lambda>now r. r\<lparr>p_release_status := 2, p_release_attempts := p_release_attempts r + 1, p_release_error := message\<rparr>)"

definition recovery_release_succeeded :: "string \<Rightarrow> int \<Rightarrow> order_tables \<Rightarrow> int \<times> order_tables" where
  "recovery_release_succeeded orderID =
     update_payments (\<lambda>r. p_order_id r = orderID)
       (\<lambda>now r. r\<lparr>p_release_status := 1, p_release_attempts := p_release_attempts r + 1, p_release_error := [], p_released_at := Some now\<rparr>)"

definition releaseInventory :: "'x svc_ctx \<Rightarrow> call_ctx \<Rightarrow> string \<Rightarrow> string \<Rightarrow> ('x order_world, unit) io" where
  "releaseInventory s cx orderID reason =
     (case InventoryClient s of
        None \<Rightarrow> fail (RawError ''inventory client is not configured'')
      | Some ic \<Rightarrow>
          bindE (attempt (call (ic_ReleaseStock ic cx orderID reason))) (\<lambda>res.
            case res of
              Inl err \<Rightarrow> bindE (or_else (exec (recovery_release_failed orderID (shortRecoveryError err))) 0) (\<lambda>_. fail err)
            | Inr _ \<Rightarrow> bindE (exec (recovery_release_succeeded orderID)) (\<lambda>_. ret ())))"

definition expire_order :: "string \<Rightarrow> int \<Rightarrow> order_tables \<Rightarrow> int \<times> order_tables" where
  "expire_order orderID =
     update_orders (\<lambda>r. o_id r = orderID \<and> o_status r = 0) (\<lambda>now r. r\<lparr>o_status := 2, o_update_time := now\<rparr>)"

text \<open>The transaction; it answers whether the order was closed.\<close>

definition expire_body :: "string \<Rightarrow> ('x order_world, bool) io" where
  "expire_body orderID =
     bindE (exec (expire_order orderID)) (\<lambda>changed.
     if changed = 0 then ret False
     else bindE (exec (close_payment orderID)) (\<lambda>_.
          bindE (exec (insert_log orderID 0 2 0 ''payment expired'')) (\<lambda>_. ret True)))"

text \<open>What the provider says first; the answer tells whether the expiry is settled thereby.\<close>

definition ask_provider :: "'x provider \<Rightarrow> 'x paid_handler option \<Rightarrow> payment_recovery_item \<Rightarrow> ('x order_world, bool) io" where
  "ask_provider pv onPaid item =
     bindE (attempt (call (pv_Query pv (it_OutTradeNo item)))) (\<lambda>res.
       let paid = (case res of Inl _ \<Rightarrow> False | Inr q \<Rightarrow> qr_Status q = ''TRADE_SUCCESS'' \<or> qr_Status q = ''TRADE_FINISHED'') in
       if paid
       then (case onPaid of
               None \<Rightarrow> fail (RawError ''provider payment paid handler is not configured'')
             | Some h \<Rightarrow>
                 bindE (h \<lparr>pp_OrderID = it_OrderID item, pp_PaymentOrderID = it_PaymentOrderID item, pp_OutTradeNo = it_OutTradeNo item,
                           pp_TradeNo = qr_TradeNo (projr res), pp_AmountFen = qr_AmountFen (projr res)\<rparr>) (\<lambda>_. ret True))
       else bindE (attempt (call (pv_Close pv (it_OutTradeNo item)))) (\<lambda>closed.
              case closed of
                Inl err \<Rightarrow>
                  bindE (or_else (exec (update_payments (\<lambda>r. p_order_id r = it_OrderID item)
                           (\<lambda>now r. r\<lparr>p_provider_status := ''CLOSE_FAILED''\<rparr>))) 0) (\<lambda>_. fail err)
              | Inr _ \<Rightarrow> ret False))"

definition closeExpired :: "'x svc_ctx \<Rightarrow> call_ctx \<Rightarrow> 'x paid_handler option \<Rightarrow> payment_recovery_item \<Rightarrow> ('x order_world, unit) io" where
  "closeExpired s cx onPaid item =
     bindE (case PaymentProvider s of
              Some pv \<Rightarrow> if it_Provider item = NameAlipaySandbox then ask_provider pv onPaid item else ret False
            | None \<Rightarrow> ret False) (\<lambda>settled.
     if settled then ret ()
     else bindE RawDB (\<lambda>_.
          bindE (order_tx id (\<lambda>_ e. e) (expire_body (it_OrderID item))) (\<lambda>changed.
          if changed then releaseInventory s cx (it_OrderID item) ''payment expired'' else ret ())))"

definition expired_items :: "int \<Rightarrow> order_tables \<Rightarrow> payment_recovery_item list" where
  "expired_items now d =
     (let rows = filter (\<lambda>p. p_status p = 0 \<and> list_ex (\<lambda>r. o_id r = p_order_id p \<and> o_status r = 0) (orders d) \<and>
                          (case p_expires_at p of None \<Rightarrow> False | Some t \<Rightarrow> t \<le> now)) (payments d)
      in map (\<lambda>p. \<lparr>it_OrderID = p_order_id p, it_PaymentOrderID = p_id p, it_OutTradeNo = p_out_trade_no p, it_Provider = p_provider p\<rparr>)
           (take 20 (sort_key (\<lambda>p. case p_expires_at p of None \<Rightarrow> 0 | Some t \<Rightarrow> t) rows)))"

definition closeExpiredBatch :: "'x svc_ctx \<Rightarrow> call_ctx \<Rightarrow> 'x paid_handler option \<Rightarrow> ('x order_world, unit) io" where
  "closeExpiredBatch s cx onPaid =
     bindE RawDB (\<lambda>_.
     bindE (stmt (\<lambda>now d. (Inr (expired_items now d), d))) (\<lambda>items.
     for_each items (\<lambda>item. bindE (attempt (closeExpired s cx onPaid item)) (\<lambda>_. ret ()))))"

section \<open>Repeating stock operations\<close>

definition inventoryFinalizeBatchSize :: "'x svc_ctx \<Rightarrow> int" where
  "inventoryFinalizeBatchSize s = (let n = PaymentFinalizeBatchSize (Config s) in if n \<le> 0 then 200 else n)"

definition inventoryFinalizeConcurrency :: "'x svc_ctx \<Rightarrow> int" where
  "inventoryFinalizeConcurrency s =
     (let n = PaymentFinalizeConcurrency (Config s) in if n \<le> 0 then 8 else if n > 64 then 64 else n)"

definition recoveryOrderIDs :: "(payment_row \<Rightarrow> bool) \<Rightarrow> int \<Rightarrow> ('x order_world, string list) io" where
  "recoveryOrderIDs P limit =
     bindE RawDB (\<lambda>_. query (\<lambda>d. map p_order_id (take (nat limit) (sort_key p_update_time (filter P (payments d))))))"

definition recordRecoveryError :: "go_error option \<Rightarrow> go_error \<Rightarrow> go_error option" where
  "recordRecoveryError errs e = (case errs of None \<Rightarrow> Some e | Some x \<Rightarrow> Some x)"

definition finalizeInventory :: "'x inventory_client \<Rightarrow> call_ctx \<Rightarrow> string \<Rightarrow> go_error option \<Rightarrow> ('x order_world, go_error option) io" where
  "finalizeInventory ic cx orderID errs =
     bindE (attempt (call (ic_ConfirmDeduct ic cx orderID))) (\<lambda>res.
     bindE (attempt (exec (case res of
                             Inl err \<Rightarrow> finalize_failed orderID (shortRecoveryError err)
                           | Inr _ \<Rightarrow> finalize_succeeded orderID))) (\<lambda>upd.
     ret (case upd of Inl e \<Rightarrow> recordRecoveryError errs e | Inr _ \<Rightarrow> errs)))"

definition retryInventoryFinalizations :: "'x svc_ctx \<Rightarrow> call_ctx \<Rightarrow> ('x order_world, unit) io" where
  "retryInventoryFinalizations s cx =
     (case InventoryClient s of
        None \<Rightarrow> ret ()
      | Some ic \<Rightarrow>
          bindE (recoveryOrderIDs (\<lambda>r. p_status r = 1 \<and> p_finalize_status r \<noteq> 1) (inventoryFinalizeBatchSize s)) (\<lambda>orderIDs.
          bindE (fold_io (finalizeInventory ic cx) orderIDs None) (\<lambda>errs.
          case errs of None \<Rightarrow> ret () | Some e \<Rightarrow> fail e)))"

definition retryInventoryReleases :: "'x svc_ctx \<Rightarrow> call_ctx \<Rightarrow> ('x order_world, unit) io" where
  "retryInventoryReleases s cx =
     (case InventoryClient s of
        None \<Rightarrow> ret ()
      | Some ic \<Rightarrow>
          bindE (recoveryOrderIDs (\<lambda>r. p_status r = 3 \<and> p_release_status r \<noteq> 1) (inventoryFinalizeBatchSize s)) (\<lambda>orderIDs.
          for_each orderIDs (\<lambda>k. bindE (attempt (releaseInventory s cx k ''closed payment recovery'')) (\<lambda>_. ret ()))))"

definition RunOnce :: "'x svc_ctx \<Rightarrow> call_ctx \<Rightarrow> 'x paid_handler option \<Rightarrow> ('x order_world, unit) io" where
  "RunOnce s cx onPaid =
     bindE (closeExpiredBatch s cx onPaid) (\<lambda>_.
     bindE (retryInventoryFinalizations s cx) (\<lambda>_. retryInventoryReleases s cx))"

end
