(* ===== verification/Order_Refund.thy ===== *)
theory Order_Refund
  imports Order_Lifecycle Order_Outbox_Insert
begin

text \<open>
  Refunds: \<open>refundstate.go\<close>, \<open>requestrefundlogic.go\<close> and \<open>auditrefundlogic.go\<close> under
  \<open>app/order/rpc/internal/logic\<close>.  The audit runs in one transaction that its branches commit, roll
  back or leave; \<open>audit_step\<close> is what the transaction ends with: an answer after the commit, the
  continuation of an external refund after the commit, or a failed stock release after the
  rollback (\<open>order_tx_or\<close>).
\<close>

section \<open>Shared parts\<close>

definition refundIDForOrder :: "string \<Rightarrow> string" where
  "refundIDForOrder orderID = ''rf:'' @ orderID"

definition insertRefundStatusLog :: "string \<Rightarrow> int \<Rightarrow> int \<Rightarrow> int \<Rightarrow> string \<Rightarrow> ('x order_world, unit) io" where
  "insertRefundStatusLog orderID from to operator remark = bindE (exec (insert_log orderID from to operator remark)) (\<lambda>_. ret ())"

definition providerRefundIDFor :: "string \<Rightarrow> string" where
  "providerRefundIDFor refundID = ''RF'' @ EncodeToString (take 20 (Sum256 refundID))"

record refund_resp =
  rq_RefundId :: string
  rq_OrderId :: string
  rq_OrderStatus :: int
  rq_RefundStatus :: int
  rq_Repeated :: bool

definition refundResponse :: "string \<Rightarrow> string \<Rightarrow> int \<Rightarrow> int \<Rightarrow> bool \<Rightarrow> refund_resp" where
  "refundResponse refundID orderID orderStatus refundStatus repeated =
     \<lparr>rq_RefundId = refundID, rq_OrderId = orderID, rq_OrderStatus = orderStatus, rq_RefundStatus = refundStatus, rq_Repeated = repeated\<rparr>"

section \<open>Requesting a refund\<close>

record refund_req =
  rreq_OrderId :: string
  rreq_RequesterId :: int
  rreq_RequesterRole :: string
  rreq_Reason :: string
  rreq_RequestId :: string

definition insert_refund :: "refund_row \<Rightarrow> int \<Rightarrow> (order_tables, int) io" where
  "insert_refund r now d =
     (if list_ex (\<lambda>x. rf_id x = rf_id r \<or> rf_order_id x = rf_order_id r) (refunds d)
      then (Inl (RawError ''Error 1062: Duplicate entry''), d)
      else (Inr 1, d\<lparr>refunds := refunds d @ [r\<lparr>rf_update_time := now\<rparr>]\<rparr>))"

definition request_refund_order :: "string \<Rightarrow> int \<Rightarrow> int \<Rightarrow> order_tables \<Rightarrow> int \<times> order_tables" where
  "request_refund_order orderID currentStatus =
     update_orders (\<lambda>r. o_id r = orderID \<and> o_status r = currentStatus)
       (\<lambda>now r. r\<lparr>o_status := order_RefundRequested, o_refund_requested_at := Some now\<rparr>)"

record refundable =
  rb_userID :: int
  rb_merchantID :: int
  rb_productID :: int
  rb_currentStatus :: int
  rb_paymentOrderID :: string
  rb_refundAmountFen :: int
  rb_paymentStatus :: int
  rb_provider :: string

text \<open>The order, left joined with its payment.\<close>

definition refundable_row :: "string \<Rightarrow> order_tables \<Rightarrow> refundable option" where
  "refundable_row orderID d =
     map_option (\<lambda>r. let base = \<lparr>rb_userID = o_user_id r, rb_merchantID = o_merchant_id r, rb_productID = o_product_id r,
           rb_currentStatus = o_status r, rb_paymentOrderID = [], rb_refundAmountFen = 0, rb_paymentStatus = 0, rb_provider = ''local_sandbox''\<rparr>
         in case payment_of d orderID of
              None \<Rightarrow> base
            | Some p \<Rightarrow> base\<lparr>rb_paymentOrderID := p_id p, rb_refundAmountFen := p_payable_amount_fen p,
                              rb_paymentStatus := p_status p, rb_provider := p_provider p\<rparr>)
       (order_row_of d orderID)"

text \<open>The writes of a first request for a refundable order.\<close>

definition request_refund_apply :: "refund_req \<Rightarrow> string \<Rightarrow> string \<Rightarrow> refundable \<Rightarrow> ('x order_world, refund_resp) io" where
  "request_refund_apply i orderID role b =
     (let refundID = refundIDForOrder orderID in
      bindE (exec (request_refund_order orderID (rb_currentStatus b))) (\<lambda>rows.
      if rows \<noteq> 1 then fail (StatusError codes_Aborted ''order status changed concurrently'')
      else bindE (stmt (insert_refund \<lparr>rf_id = refundID, rf_order_id = orderID, rf_payment_order_id = rb_paymentOrderID b,
                    rf_user_id = rb_userID b, rf_merchant_id = rb_merchantID b, rf_product_id = rb_productID b,
                    rf_amount_fen = rb_refundAmountFen b, rf_status = refund_Requested, rf_reason = rreq_Reason i,
                    rf_audit_remark = [], rf_operator_id = 0, rf_provider = rb_provider b, rf_provider_refund_id = [],
                    rf_provider_status = [], rf_provider_error = [], rf_audit_time = None, rf_finish_time = None, rf_update_time = 0\<rparr>)) (\<lambda>_.
           bindE (insertRefundStatusLog orderID (rb_currentStatus b) order_RefundRequested (rreq_RequesterId i)
                    (''refund requested: '' @ rreq_Reason i)) (\<lambda>_.
           bindE (insertRefundOutbox ''refund.requested'' refundID orderID
                    [(''requester_id'', JInt (rreq_RequesterId i)), (''requester_role'', JStr role),
                     (''amount_fen'', JInt (rb_refundAmountFen b)), (''request_id'', JStr (rreq_RequestId i))]) (\<lambda>_.
           ret (refundResponse refundID orderID order_RefundRequested refund_Requested False))))))"

definition request_refund_decide :: "refund_req \<Rightarrow> string \<Rightarrow> string \<Rightarrow> refundable \<Rightarrow> (string \<times> int) option \<Rightarrow> ('x order_world, refund_resp) io" where
  "request_refund_decide i orderID role b existing =
     (case existing of
        Some (existingID, existingStatus) \<Rightarrow>
          if existingStatus = refund_Rejected then fail (StatusError codes_FailedPrecondition ''refund request was already rejected'')
          else ret (refundResponse existingID orderID (rb_currentStatus b) existingStatus True)
      | None \<Rightarrow>
          if \<not> CanRequestRefund (rb_currentStatus b) \<or> rb_paymentOrderID b = [] \<or> rb_paymentStatus b \<noteq> payment_Success
          then fail (StatusError codes_FailedPrecondition ''order is not refundable'')
          else request_refund_apply i orderID role b)"

definition request_refund_body :: "refund_req \<Rightarrow> string \<Rightarrow> string \<Rightarrow> ('x order_world, refund_resp) io" where
  "request_refund_body i orderID role =
     bindE (map_err (on_no_rows (StatusError codes_NotFound ''order not found'') id) (query_row (refundable_row orderID))) (\<lambda>b.
     if role = ''user'' \<and> rb_userID b \<noteq> rreq_RequesterId i then fail (StatusError codes_PermissionDenied ''order does not belong to requester'')
     else bindE (query (\<lambda>d. map_option (\<lambda>r. (rf_id r, rf_status r)) (refund_of d orderID))) (request_refund_decide i orderID role b))"

definition RequestRefund :: "refund_req \<Rightarrow> ('x order_world, refund_resp) io" where
  "RequestRefund i =
     (let orderID = TrimSpace (rreq_OrderId i); role = ToLower (TrimSpace (rreq_RequesterRole i)) in
      if orderID = [] \<or> rreq_RequesterId i \<le> 0 \<or> (role \<noteq> ''user'' \<and> role \<noteq> ''admin'')
      then fail (StatusError codes_InvalidArgument ''order_id, requester_id and requester_role are required'')
      else bindE (map_err (grpc codes_Internal ''db connection failed'') RawDB) (\<lambda>_.
           order_tx (grpc codes_Internal ''begin refund transaction failed'') (\<lambda>_ e. e) (request_refund_body i orderID role)))"

section \<open>Auditing a refund\<close>

record audit_req =
  ar_RefundId :: string
  ar_OperatorId :: int
  ar_Approve :: bool
  ar_Remark :: string
  ar_RequestId :: string

record external_refund =
  er_RefundID :: string
  er_OrderID :: string
  er_OutTradeNo :: string
  er_ProviderRefundID :: string
  er_ProviderStatus :: string
  er_AmountFen :: int
  er_Reason :: string

datatype audit_step = Answer refund_resp | External external_refund

text \<open>
  A transaction whose body may also ask for a rollback and go on (\<open>Inl\<close>); the error of the rollback
  itself is ignored.
\<close>

definition order_tx_or ::
  "(go_error \<Rightarrow> go_error) \<Rightarrow> ('x order_world, 'b + 'a) io \<Rightarrow> ('x order_world, 'b + 'a) io" where
  "order_tx_or be body =
     bindE (map_err be (ext_call (ret ()))) (\<lambda>_. \<lambda>w.
       case body w of
         (Inl e, w') \<Rightarrow> (Inl e, w'\<lparr>o_db := o_db w\<rparr>)
       | (Inr (Inl b), w') \<Rightarrow> (Inr (Inl b), w'\<lparr>o_db := o_db w\<rparr>)
       | (Inr (Inr a), w') \<Rightarrow>
           (case pop_fault w' of
              (Inr (NoRequest e), w'') \<Rightarrow> (Inl (RawError e), w''\<lparr>o_db := o_db w\<rparr>)
            | (Inr (NoReply e), w'') \<Rightarrow> (Inl (RawError e), w'')
            | (_, w'') \<Rightarrow> (Inr (Inr a), w'')))"

definition releaseRefundStock :: "'x svc_ctx \<Rightarrow> call_ctx \<Rightarrow> string \<Rightarrow> ('x order_world, unit) io" where
  "releaseRefundStock s cx orderID =
     (case InventoryClient s of
        None \<Rightarrow> fail (RawError ''inventory client not configured'')
      | Some ic \<Rightarrow> call (ic_ReleaseStock ic cx orderID ''refund approved''))"

text \<open>The statuses an audit may start from.\<close>

definition auditable :: "int \<Rightarrow> bool" where
  "auditable st \<longleftrightarrow> st = refund_Requested \<or> st = refund_Approved \<or> st = refund_Failed"

definition refund_paid_back :: "string \<Rightarrow> int \<Rightarrow> order_tables \<Rightarrow> int \<times> order_tables" where
  "refund_paid_back orderID =
     update_orders (\<lambda>r. o_id r = orderID \<and> o_status r = order_RefundRequested)
       (\<lambda>now r. r\<lparr>o_status := order_Refunded, o_refunded_at := Some now\<rparr>)"

definition one_row :: "string \<Rightarrow> (int \<Rightarrow> order_tables \<Rightarrow> int \<times> order_tables) \<Rightarrow> ('x order_world, unit) io" where
  "one_row message f = bindE (exec f) (\<lambda>rows. if rows \<noteq> 1 then fail (StatusError codes_Aborted message) else ret ())"

definition audit_payload :: "audit_req \<Rightarrow> (string \<times> json) list" where
  "audit_payload i = [(''operator_id'', JInt (ar_OperatorId i)), (''remark'', JStr (ar_Remark i)), (''request_id'', JStr (ar_RequestId i))]"

definition approve_local_refund :: "audit_req \<Rightarrow> string \<Rightarrow> int \<Rightarrow> order_tables \<Rightarrow> int \<times> order_tables" where
  "approve_local_refund i refundID =
     update_refunds (\<lambda>r. rf_id r = refundID \<and> auditable (rf_status r))
       (\<lambda>now r. r\<lparr>rf_status := refund_Success, rf_audit_remark := ar_Remark i, rf_operator_id := ar_OperatorId i,
                  rf_audit_time := Some now, rf_finish_time := Some now, rf_provider_refund_id := providerRefundIDFor refundID,
                  rf_provider_status := ''SUCCESS'', rf_provider_error := []\<rparr>)"

definition approveRefund :: "'x svc_ctx \<Rightarrow> call_ctx \<Rightarrow> audit_req \<Rightarrow> string \<Rightarrow> string \<Rightarrow> ('x order_world, go_error + audit_step) io" where
  "approveRefund s cx i refundID orderID =
     bindE (attempt (releaseRefundStock s cx orderID)) (\<lambda>res.
       case res of
         Inl err \<Rightarrow> ret (Inl err)
       | Inr _ \<Rightarrow>
           bindE (one_row ''refund status changed concurrently'' (approve_local_refund i refundID)) (\<lambda>_.
           bindE (one_row ''order status changed concurrently'' (refund_paid_back orderID)) (\<lambda>_.
           bindE (insertRefundStatusLog orderID order_RefundRequested order_Refunded (ar_OperatorId i) (''refund approved: '' @ ar_Remark i)) (\<lambda>_.
           bindE (insertRefundOutbox ''refund.succeeded'' refundID orderID (audit_payload i)) (\<lambda>_.
           ret (Inr (Answer (refundResponse refundID orderID order_Refunded refund_Success False))))))))"

text \<open>\<open>SELECT from_status ... ORDER BY id DESC LIMIT 1\<close>: the last request's source status.\<close>

definition last_refund_source :: "string \<Rightarrow> order_tables \<Rightarrow> int option" where
  "last_refund_source orderID d =
     map_option lg_from (find (\<lambda>l. lg_order_id l = orderID \<and> lg_to l = order_RefundRequested) (rev (status_log d)))"

definition reject_refund :: "audit_req \<Rightarrow> string \<Rightarrow> int \<Rightarrow> order_tables \<Rightarrow> int \<times> order_tables" where
  "reject_refund i refundID =
     update_refunds (\<lambda>r. rf_id r = refundID \<and> auditable (rf_status r))
       (\<lambda>now r. r\<lparr>rf_status := refund_Rejected, rf_audit_remark := ar_Remark i, rf_operator_id := ar_OperatorId i,
                  rf_audit_time := Some now, rf_finish_time := None, rf_provider_status := ''REJECTED'', rf_provider_error := []\<rparr>)"

definition restore_order :: "string \<Rightarrow> int \<Rightarrow> int \<Rightarrow> order_tables \<Rightarrow> int \<times> order_tables" where
  "restore_order orderID st =
     update_orders (\<lambda>r. o_id r = orderID \<and> o_status r = order_RefundRequested)
       (\<lambda>now r. r\<lparr>o_status := st, o_refund_requested_at := None\<rparr>)"

definition rejectRefund :: "audit_req \<Rightarrow> string \<Rightarrow> string \<Rightarrow> ('x order_world, refund_resp) io" where
  "rejectRefund i refundID orderID =
     bindE (query (last_refund_source orderID)) (\<lambda>source.
     let st = (case source of None \<Rightarrow> order_Paid | Some x \<Rightarrow> x);
         restoreStatus = (if st \<noteq> order_Paid \<and> st \<noteq> order_Shipped then order_Paid else st)
     in bindE (one_row ''refund status changed concurrently'' (reject_refund i refundID)) (\<lambda>_.
        bindE (one_row ''order status changed concurrently'' (restore_order orderID restoreStatus)) (\<lambda>_.
        bindE (insertRefundStatusLog orderID order_RefundRequested restoreStatus (ar_OperatorId i) (''refund rejected: '' @ ar_Remark i)) (\<lambda>_.
        bindE (insertRefundOutbox ''refund.rejected'' refundID orderID (audit_payload i)) (\<lambda>_.
        ret (refundResponse refundID orderID restoreStatus refund_Rejected False))))))"

definition mark_release_failed :: "audit_req \<Rightarrow> string \<Rightarrow> string \<Rightarrow> int \<Rightarrow> order_tables \<Rightarrow> int \<times> order_tables" where
  "mark_release_failed i refundID message =
     update_refunds (\<lambda>r. rf_id r = refundID \<and> auditable (rf_status r))
       (\<lambda>now r. r\<lparr>rf_status := refund_Failed, rf_audit_remark := message, rf_operator_id := ar_OperatorId i,
                  rf_audit_time := Some now, rf_finish_time := None,
                  rf_provider_status := (if rf_provider_status r = ''SUCCESS'' then rf_provider_status r else ''FAILED''),
                  rf_provider_error := message\<rparr>)"

definition markRefundReleaseFailed :: "audit_req \<Rightarrow> string \<Rightarrow> string \<Rightarrow> go_error \<Rightarrow> ('x order_world, unit) io" where
  "markRefundReleaseFailed i refundID orderID cause =
     (let message = trimRefundError cause in
      bindE RawDB (\<lambda>_. order_tx id (\<lambda>_ e. e)
        (bindE (exec (mark_release_failed i refundID message)) (\<lambda>rows.
         if rows = 0 then ret ()
         else insertRefundOutbox ''refund.failed'' refundID orderID
                [(''operator_id'', JInt (ar_OperatorId i)), (''error_message'', JStr message), (''request_id'', JStr (ar_RequestId i))]))))"

text \<open>
  A refund at the provider: the refund is marked as processing and committed, then the provider is
  asked, then the stock is released, then refund and order are completed in a second transaction.
\<close>

definition start_external_refund :: "audit_req \<Rightarrow> external_refund \<Rightarrow> int \<Rightarrow> order_tables \<Rightarrow> int \<times> order_tables" where
  "start_external_refund i refund =
     update_refunds (\<lambda>r. rf_id r = er_RefundID refund \<and> auditable (rf_status r))
       (\<lambda>now r. r\<lparr>rf_status := refund_Approved, rf_audit_remark := ar_Remark i, rf_operator_id := ar_OperatorId i,
                  rf_audit_time := Some now, rf_provider_refund_id := er_ProviderRefundID refund,
                  rf_provider_status := ''PROCESSING'', rf_provider_error := []\<rparr>)"

definition markProviderRefundFailed :: "audit_req \<Rightarrow> external_refund \<Rightarrow> go_error \<Rightarrow> ('x order_world, unit) io" where
  "markProviderRefundFailed i refund cause =
     (let message = trimRefundError cause in
      bindE (exec (update_refunds (\<lambda>r. rf_id r = er_RefundID refund \<and> rf_status r = refund_Approved)
        (\<lambda>now r. r\<lparr>rf_status := refund_Failed, rf_audit_remark := ar_Remark i, rf_operator_id := ar_OperatorId i,
                   rf_audit_time := Some now, rf_finish_time := None, rf_provider_status := ''FAILED'', rf_provider_error := message\<rparr>))) (\<lambda>_.
      ret ()))"

definition complete_refund :: "audit_req \<Rightarrow> string \<Rightarrow> int \<Rightarrow> order_tables \<Rightarrow> int \<times> order_tables" where
  "complete_refund i refundID =
     update_refunds (\<lambda>r. rf_id r = refundID \<and> (rf_status r = refund_Approved \<or> rf_status r = refund_Failed) \<and> rf_provider_status r = ''SUCCESS'')
       (\<lambda>now r. r\<lparr>rf_status := refund_Success, rf_audit_remark := ar_Remark i, rf_operator_id := ar_OperatorId i,
                  rf_audit_time := Some now, rf_finish_time := Some now, rf_provider_status := ''SUCCESS'', rf_provider_error := []\<rparr>)"

definition completeApprovedRefund :: "audit_req \<Rightarrow> string \<Rightarrow> string \<Rightarrow> ('x order_world, refund_resp) io" where
  "completeApprovedRefund i refundID orderID =
     bindE RawDB (\<lambda>_. order_tx id (\<lambda>_ e. e)
       (bindE (one_row ''refund status changed concurrently'' (complete_refund i refundID)) (\<lambda>_.
        bindE (one_row ''order status changed concurrently'' (refund_paid_back orderID)) (\<lambda>_.
        bindE (insertRefundStatusLog orderID order_RefundRequested order_Refunded (ar_OperatorId i) (''refund approved: '' @ ar_Remark i)) (\<lambda>_.
        bindE (insertRefundOutbox ''refund.succeeded'' refundID orderID (audit_payload i)) (\<lambda>_.
        ret (refundResponse refundID orderID order_Refunded refund_Success False)))))))"

text \<open>The part of \<open>approveExternalRefund\<close> inside the audit transaction.\<close>

definition approve_external_tx :: "'x svc_ctx \<Rightarrow> audit_req \<Rightarrow> external_refund \<Rightarrow> ('x order_world, audit_step) io" where
  "approve_external_tx s i refund =
     (case PaymentProvider s of
        None \<Rightarrow> fail (StatusError codes_FailedPrecondition ''alipay sandbox provider is not configured'')
      | Some pv \<Rightarrow>
          if pv_Name pv \<noteq> NameAlipaySandbox then fail (StatusError codes_FailedPrecondition ''alipay sandbox provider is not configured'')
          else let refund = (if er_ProviderRefundID refund = []
                             then refund\<lparr>er_ProviderRefundID := providerRefundIDFor (er_RefundID refund)\<rparr> else refund)
               in if er_ProviderStatus refund \<noteq> ''SUCCESS''
                  then bindE (one_row ''refund status changed concurrently'' (start_external_refund i refund)) (\<lambda>_. ret (External refund))
                  else ret (External refund))"

definition save_provider_result :: "external_refund \<Rightarrow> string \<Rightarrow> int \<Rightarrow> order_tables \<Rightarrow> int \<times> order_tables" where
  "save_provider_result refund st =
     update_refunds (\<lambda>r. rf_id r = er_RefundID refund \<and> rf_status r = refund_Approved)
       (\<lambda>now r. r\<lparr>rf_provider_status := st, rf_provider_error := [], rf_provider_refund_id := er_ProviderRefundID refund\<rparr>)"

text \<open>The rest of \<open>approveExternalRefund\<close>, after the commit.\<close>

definition finish_external_refund :: "'x svc_ctx \<Rightarrow> call_ctx \<Rightarrow> audit_req \<Rightarrow> external_refund \<Rightarrow> ('x order_world, refund_resp) io" where
  "finish_external_refund s cx i refund =
     bindE (case PaymentProvider s of
              Some pv \<Rightarrow>
                if er_ProviderStatus refund \<noteq> ''SUCCESS''
                then bindE (attempt (call (pv_Refund pv \<lparr>rr_OutTradeNo = er_OutTradeNo refund, rr_RefundID = er_ProviderRefundID refund,
                              rr_AmountFen = er_AmountFen refund, rr_Reason = er_Reason refund\<rparr>))) (\<lambda>res.
                     case res of
                       Inl err \<Rightarrow>
                         bindE (map_err (grpc codes_Internal ''record provider refund failure failed'') (markProviderRefundFailed i refund err)) (\<lambda>_.
                         fail (StatusError codes_Unavailable ''provider refund failed''))
                     | Inr result \<Rightarrow> bindE (exec (save_provider_result refund (rs_Status result))) (\<lambda>_. ret ()))
                else ret ()
            | None \<Rightarrow> ret ()) (\<lambda>_.
     bindE (attempt (releaseRefundStock s cx (er_OrderID refund))) (\<lambda>res.
       case res of
         Inl err \<Rightarrow>
           bindE (map_err (grpc codes_Internal ''record inventory release failure failed'')
                   (markRefundReleaseFailed i (er_RefundID refund) (er_OrderID refund) err)) (\<lambda>_.
           fail (StatusError codes_Unavailable ''inventory release failed''))
       | Inr _ \<Rightarrow> completeApprovedRefund i (er_RefundID refund) (er_OrderID refund)))"

record audit_row =
  au_orderID :: string
  au_refundStatus :: int
  au_orderStatus :: int
  au_provider :: string
  au_providerStatus :: string
  au_providerRefundID :: string
  au_refundAmountFen :: int
  au_reason :: string
  au_outTradeNo :: string

text \<open>The refund joined with its order and its payment.\<close>

definition audit_row_of :: "string \<Rightarrow> order_tables \<Rightarrow> audit_row option" where
  "audit_row_of refundID d =
     (case find (\<lambda>r. rf_id r = refundID) (refunds d) of
        None \<Rightarrow> None
      | Some r \<Rightarrow>
          (case (order_row_of d (rf_order_id r), find (\<lambda>p. p_id p = rf_payment_order_id r) (payments d)) of
             (Some ord, Some p) \<Rightarrow>
               Some \<lparr>au_orderID = rf_order_id r, au_refundStatus = rf_status r, au_orderStatus = o_status ord, au_provider = rf_provider r,
                 au_providerStatus = rf_provider_status r, au_providerRefundID = rf_provider_refund_id r,
                 au_refundAmountFen = rf_amount_fen r, au_reason = rf_reason r, au_outTradeNo = p_out_trade_no p\<rparr>
           | _ \<Rightarrow> None))"

definition audit_decide :: "'x svc_ctx \<Rightarrow> call_ctx \<Rightarrow> audit_req \<Rightarrow> string \<Rightarrow> audit_row \<Rightarrow> ('x order_world, go_error \<times> string + audit_step) io" where
  "audit_decide s cx i refundID a =
     (if au_refundStatus a = refund_Success
     then if \<not> ar_Approve i then fail (StatusError codes_FailedPrecondition ''refund was already approved'')
          else bindE (map_err (grpc codes_Unavailable ''inventory release retry failed'') (releaseRefundStock s cx (au_orderID a))) (\<lambda>_.
               ret (Inr (Answer (refundResponse refundID (au_orderID a) order_Refunded refund_Success True))))
     else if au_refundStatus a = refund_Rejected
     then if ar_Approve i then fail (StatusError codes_FailedPrecondition ''refund was already rejected'')
          else ret (Inr (Answer (refundResponse refundID (au_orderID a) (au_orderStatus a) refund_Rejected True)))
     else if \<not> auditable (au_refundStatus a) then fail (StatusError codes_FailedPrecondition ''refund status cannot be audited'')
     else if au_orderStatus a \<noteq> order_RefundRequested then fail (StatusError codes_FailedPrecondition ''order is not waiting for refund audit'')
     else if ar_Approve i
     then if au_provider a = NameAlipaySandbox
          then bindE (approve_external_tx s i \<lparr>er_RefundID = refundID, er_OrderID = au_orderID a, er_OutTradeNo = au_outTradeNo a,
                        er_ProviderRefundID = au_providerRefundID a, er_ProviderStatus = au_providerStatus a,
                        er_AmountFen = au_refundAmountFen a, er_Reason = au_reason a\<rparr>) (\<lambda>st. ret (Inr st))
          else bindE (approveRefund s cx i refundID (au_orderID a)) (\<lambda>res.
               case res of Inl err \<Rightarrow> ret (Inl (err, au_orderID a)) | Inr st \<Rightarrow> ret (Inr st))
     else if au_providerStatus a = ''SUCCESS'' \<or> au_refundStatus a = refund_Approved
     then fail (StatusError codes_FailedPrecondition ''approved provider refund cannot be rejected'')
     else bindE (rejectRefund i refundID (au_orderID a)) (\<lambda>resp. ret (Inr (Answer resp))))"

definition audit_body :: "'x svc_ctx \<Rightarrow> call_ctx \<Rightarrow> audit_req \<Rightarrow> string \<Rightarrow> ('x order_world, go_error \<times> string + audit_step) io" where
  "audit_body s cx i refundID =
     bindE (map_err (on_no_rows (StatusError codes_NotFound ''refund order not found'') id) (query_row (audit_row_of refundID)))
       (audit_decide s cx i refundID)"

definition AuditRefund :: "'x svc_ctx \<Rightarrow> call_ctx \<Rightarrow> audit_req \<Rightarrow> ('x order_world, refund_resp) io" where
  "AuditRefund s cx i =
     (let refundID = TrimSpace (ar_RefundId i) in
      if refundID = [] \<or> ar_OperatorId i \<le> 0 then fail (StatusError codes_InvalidArgument ''refund_id and operator_id are required'')
      else bindE (map_err (grpc codes_Internal ''db connection failed'') RawDB) (\<lambda>_.
           bindE (order_tx_or (grpc codes_Internal ''begin refund audit transaction failed'') (audit_body s cx i refundID)) (\<lambda>res.
             case res of
               Inl (err, orderID) \<Rightarrow>
                 bindE (map_err (grpc codes_Internal ''record inventory release failure failed'') (markRefundReleaseFailed i refundID orderID err)) (\<lambda>_.
                 fail (StatusError codes_Unavailable ''inventory release failed''))
             | Inr (Answer resp) \<Rightarrow> ret resp
             | Inr (External refund) \<Rightarrow> finish_external_refund s cx i refund)))"

end
