(* ===== verification/Order_Create.thy ===== *)
theory Order_Create
  imports Order_Outbox_Insert
begin

text \<open>
  Creating an order: \<open>pricing/quote.go\<close>, \<open>createOrderLogic.go\<close> and \<open>createOrderRollbackLogic.go\<close> of the
  order service, the two branches of the order saga.  The DTM barrier is third-party code: a handler
  receives it as the function \<open>CallWithDB\<close> (\<open>None\<close> when the request carries no barrier), which is given
  the transaction's body; \<open>barrier_ok\<close> states what the code relies on, that the barrier runs the body
  in a transaction or not at all.
\<close>

section \<open>Pricing\<close>

record quote =
  q_ProductId :: int
  q_ProductName :: string
  q_SupplierId :: int
  q_Amount :: int
  q_OriginUnitPriceFen :: int
  q_SaleUnitPriceFen :: int
  q_OriginAmountFen :: int
  q_PayableAmountFen :: int
  q_DiscountAmountFen :: int
  q_PromotionType :: string
  q_PromotionTag :: string

definition BuildQuote :: "product_card option \<Rightarrow> int \<Rightarrow> go_error + quote" where
  "BuildQuote productCard amount =
     (case productCard of
        None \<Rightarrow> Inl (RawError ''product card is required'')
      | Some c \<Rightarrow>
          if amount \<le> 0 then Inl (RawError ''amount must be positive'')
          else if pd_ProductId c \<le> 0 then Inl (RawError ''product_id is required'')
          else if pd_OriginPriceFen c \<le> 0 then Inl (RawError ''origin_price_fen must be positive'')
          else if pd_FinalPriceFen c \<le> 0 then Inl (RawError ''final_price_fen must be positive'')
          else if pd_FinalPriceFen c > pd_OriginPriceFen c then Inl (RawError ''final_price_fen cannot exceed origin_price_fen'')
          else let originAmount = i64 (pd_OriginPriceFen c * amount);
                   payableAmount = i64 (pd_FinalPriceFen c * amount)
               in Inr \<lparr>q_ProductId = pd_ProductId c, q_ProductName = pd_Name c, q_SupplierId = pd_SupplierId c, q_Amount = amount,
                       q_OriginUnitPriceFen = pd_OriginPriceFen c, q_SaleUnitPriceFen = pd_FinalPriceFen c,
                       q_OriginAmountFen = originAmount, q_PayableAmountFen = payableAmount,
                       q_DiscountAmountFen = i64 (originAmount - payableAmount),
                       q_PromotionType = pd_PromotionType c, q_PromotionTag = pd_PromotionTag c\<rparr>)"

section \<open>The order branch of the saga\<close>

record create_order_req =
  co_OrderId :: string
  co_RequestId :: string
  co_UserId :: int
  co_ProductId :: int
  co_Amount :: int
  co_ExpectedPriceFen :: int

record create_order_resp =
  cs_OrderId :: string
  cs_Status :: string
  cs_PayableAmountFen :: int
  cs_PaymentOrderId :: string

definition orderStatusPendingPayment :: string where
  "orderStatusPendingPayment = ''pending_payment''"

definition paymentOrderIDFor :: "string \<Rightarrow> string" where
  "paymentOrderIDFor orderID = ''pay:'' @ orderID"

definition outTradeNoFor :: "string \<Rightarrow> string" where
  "outTradeNoFor orderID = ''FM'' @ take 40 (EncodeToString (Sum256 orderID))"

definition loadProductMerchantID :: "int \<Rightarrow> ('x order_world, int) io" where
  "loadProductMerchantID productID =
     bindE (map_err (on_no_rows (StatusError codes_NotFound ''product not found'') id)
             (query_row (\<lambda>d. map_option (\<lambda>m. case m of None \<Rightarrow> 1000 | Some x \<Rightarrow> x) (map_of (product_merchants d) productID)))) (\<lambda>merchantID.
     if merchantID \<le> 0 then ret 1000 else ret merchantID)"

text \<open>The three \<open>INSERT IGNORE\<close> statements: a row with a key that is taken is skipped.\<close>

definition insert_order :: "create_order_req \<Rightarrow> string \<Rightarrow> int \<Rightarrow> int \<Rightarrow> order_tables \<Rightarrow> int \<times> order_tables" where
  "insert_order i requestID merchantID now d =
     (if list_ex (\<lambda>r. o_id r = co_OrderId i \<or> o_request_id r = requestID) (orders d) then (0, d)
      else (1, d\<lparr>orders := orders d @ [\<lparr>o_id = co_OrderId i, o_request_id = requestID, o_user_id = co_UserId i, o_merchant_id = merchantID,
             o_product_id = co_ProductId i, o_amount = co_Amount i, o_status = 0, o_shipped_at = None, o_completed_at = None,
             o_refund_requested_at = None, o_refunded_at = None, o_update_time = now\<rparr>]\<rparr>))"

definition insert_snapshot :: "string \<Rightarrow> int \<Rightarrow> string \<Rightarrow> quote \<Rightarrow> int \<Rightarrow> order_tables \<Rightarrow> int \<times> order_tables" where
  "insert_snapshot orderID merchantID imageUrl q now d =
     (if list_ex (\<lambda>r. sn_order_id r = orderID) (price_snapshots d) then (0, d)
      else (1, d\<lparr>price_snapshots := price_snapshots d @ [\<lparr>sn_order_id = orderID, sn_product_id = q_ProductId q, sn_merchant_id = merchantID,
             sn_supplier_id = q_SupplierId q, sn_product_name = q_ProductName q, sn_image_url = imageUrl, sn_amount = q_Amount q,
             sn_origin_unit_price_fen = q_OriginUnitPriceFen q, sn_sale_unit_price_fen = q_SaleUnitPriceFen q,
             sn_payable_amount_fen = q_PayableAmountFen q, sn_discount_amount_fen = q_DiscountAmountFen q,
             sn_promotion_type = q_PromotionType q, sn_promotion_tag = q_PromotionTag q\<rparr>]\<rparr>))"

definition insert_payment :: "string \<Rightarrow> string \<Rightarrow> int \<Rightarrow> int \<Rightarrow> int \<Rightarrow> order_tables \<Rightarrow> int \<times> order_tables" where
  "insert_payment paymentID orderID userID payable now d =
     (if list_ex (\<lambda>r. p_id r = paymentID \<or> p_order_id r = orderID \<or> p_out_trade_no r = outTradeNoFor orderID) (payments d) then (0, d)
      else (1, d\<lparr>payments := payments d @ [\<lparr>p_id = paymentID, p_order_id = orderID, p_user_id = userID, p_payable_amount_fen = payable,
             p_status = 0, p_out_trade_no = outTradeNoFor orderID, p_provider = ''local_sandbox'', p_provider_trade_no = [],
             p_provider_qr_url = [], p_provider_status = [], p_expires_at = None, p_finalize_status = 0, p_finalize_attempts = 0,
             p_finalize_error = [], p_finalized_at = None, p_release_status = 0, p_release_attempts = 0, p_release_error = [],
             p_released_at = None, p_paid_at = None, p_callback_payload = None, p_update_time = now\<rparr>]\<rparr>))"

definition create_order_body :: "create_order_req \<Rightarrow> string \<Rightarrow> int \<Rightarrow> string \<Rightarrow> quote \<Rightarrow> ('x order_world, unit) io" where
  "create_order_body i requestID merchantID imageUrl q =
     bindE (exec (insert_order i requestID merchantID)) (\<lambda>_.
     bindE (exec (insert_snapshot (co_OrderId i) merchantID imageUrl q)) (\<lambda>_.
     bindE (exec (insert_payment (paymentOrderIDFor (co_OrderId i)) (co_OrderId i) (co_UserId i) (q_PayableAmountFen q))) (\<lambda>_.
     bindE order_now (\<lambda>now.
     InsertOrderCreatedOutbox (co_OrderId i)
       (marshal_map [(''event_id'', JStr (''order.created:'' @ co_OrderId i)), (''event_type'', JStr ''order.created''),
          (''order_id'', JStr (co_OrderId i)), (''request_id'', JStr requestID), (''user_id'', JInt (co_UserId i)),
          (''merchant_id'', JInt merchantID), (''product_id'', JInt (co_ProductId i)), (''amount'', JInt (co_Amount i)),
          (''payable_amount_fen'', JInt (q_PayableAmountFen q)), (''payment_order_id'', JStr (paymentOrderIDFor (co_OrderId i))),
          (''created_at'', JInt now)])))))"

type_synonym 'x barrier = "('x order_world, unit) io \<Rightarrow> ('x order_world, unit) io"

definition CreateOrder :: "'x svc_ctx \<Rightarrow> 'x barrier option \<Rightarrow> create_order_req \<Rightarrow> ('x order_world, create_order_resp) io" where
  "CreateOrder s barrier i =
     (if co_OrderId i = [] then fail (StatusError codes_InvalidArgument ''order_id is required'')
      else if co_ProductId i \<le> 0 then fail (StatusError codes_InvalidArgument ''product_id is required'')
      else if co_Amount i \<le> 0 then fail (StatusError codes_InvalidArgument ''amount must be positive'')
      else case ProductRpc s of
             None \<Rightarrow> fail (StatusError codes_Internal ''product rpc not configured'')
           | Some getCard \<Rightarrow>
               let requestID = (if co_RequestId i = [] then co_OrderId i else co_RequestId i) in
               bindE (map_err (grpc codes_Internal ''load product card failed'') (call (getCard (co_ProductId i)))) (\<lambda>card.
               bindE (map_err (\<lambda>e. StatusError codes_FailedPrecondition (err_text e)) (of_result (BuildQuote (Some card) (co_Amount i)))) (\<lambda>q.
               if co_ExpectedPriceFen i > 0 \<and> co_ExpectedPriceFen i \<noteq> q_PayableAmountFen q
               then fail (StatusError codes_FailedPrecondition ''price changed, please retry checkout'')
               else bindE (if pd_MerchantId card \<le> 0 then loadProductMerchantID (co_ProductId i) else ret (pd_MerchantId card)) (\<lambda>merchantID.
                    case barrier of
                      None \<Rightarrow> fail (StatusError codes_Internal ''DTM barrier not found'')
                    | Some callWithDB \<Rightarrow>
                        bindE (map_err (grpc codes_Internal ''db connection failed'') RawDB) (\<lambda>_.
                        bindE (callWithDB (create_order_body i requestID merchantID (pd_ImageUrl card) q)) (\<lambda>_.
                        ret \<lparr>cs_OrderId = co_OrderId i, cs_Status = orderStatusPendingPayment,
                             cs_PayableAmountFen = q_PayableAmountFen q, cs_PaymentOrderId = paymentOrderIDFor (co_OrderId i)\<rparr>))))))"

definition rollback_body :: "string \<Rightarrow> ('x order_world, unit) io" where
  "rollback_body orderID =
     bindE (exec (update_orders (\<lambda>r. o_id r = orderID \<and> o_status r = order_PendingPayment) (\<lambda>now r. r\<lparr>o_status := order_Closed\<rparr>))) (\<lambda>_. ret ())"

definition CreateOrderRollback :: "'x barrier option \<Rightarrow> string \<Rightarrow> ('x order_world, unit) io" where
  "CreateOrderRollback barrier orderID =
     (if orderID = [] then fail (StatusError codes_InvalidArgument ''order_id is required'')
      else case barrier of
             None \<Rightarrow> fail (StatusError codes_Internal ''DTM barrier not found'')
           | Some callWithDB \<Rightarrow>
               bindE (map_err (grpc codes_Internal ''db connection failed'') RawDB) (\<lambda>_. callWithDB (rollback_body orderID)))"

text \<open>What the code relies on of the barrier: the body ran once and was committed, or the tables are as before.\<close>

definition barrier_ok :: "'x barrier \<Rightarrow> bool" where
  "barrier_ok b \<longleftrightarrow>
     (\<forall>body w x w'. b body w = (x, w') \<longrightarrow>
        o_db w' = o_db w \<or> (\<exists>w0 w1. body w0 = (Inr (), w1) \<and> o_db w0 = o_db w \<and> o_db w' = o_db w1))"

section \<open>Quotes\<close>

text \<open>
  C34: a quote is bounded and exact as long as the list price times the amount fits into 64 bits:
  the payable amount is positive and at most the list amount, and list amount, payable amount and
  discount add up.
\<close>

theorem quote_exact:
  assumes "BuildQuote (Some c) amount = Inr q" "in_i64 (pd_OriginPriceFen c * amount)"
  shows "q_PayableAmountFen q = pd_FinalPriceFen c * amount \<and> q_OriginAmountFen q = pd_OriginPriceFen c * amount \<and>
    0 < q_PayableAmountFen q \<and> q_PayableAmountFen q \<le> q_OriginAmountFen q \<and>
    q_DiscountAmountFen q = (pd_OriginPriceFen c - pd_FinalPriceFen c) * amount \<and> 0 \<le> q_DiscountAmountFen q"
proof -
  have g: "0 < amount" "0 < pd_OriginPriceFen c" "0 < pd_FinalPriceFen c" "pd_FinalPriceFen c \<le> pd_OriginPriceFen c"
    using assms(1) by (auto simp: BuildQuote_def Let_def split: if_splits)
  then have le: "pd_FinalPriceFen c * amount \<le> pd_OriginPriceFen c * amount" by (simp add: mult_right_mono)
  moreover have pos: "0 < pd_FinalPriceFen c * amount" using g by simp
  ultimately have fit: "in_i64 (pd_FinalPriceFen c * amount)"
    "in_i64 (pd_OriginPriceFen c * amount - pd_FinalPriceFen c * amount)"
    using assms(2) by (auto intro!: in_i64I [of _ "pd_OriginPriceFen c * amount"])
  have "q_PayableAmountFen q = pd_FinalPriceFen c * amount" "q_OriginAmountFen q = pd_OriginPriceFen c * amount"
    "q_DiscountAmountFen q = pd_OriginPriceFen c * amount - pd_FinalPriceFen c * amount"
    using assms fit by (auto simp: BuildQuote_def Let_def i64_id split: if_splits)
  then show ?thesis using le pos by (simp add: left_diff_distrib)
qed

definition demo_card :: product_card where
  "demo_card = \<lparr>pd_ProductId = 7, pd_Name = ''mug'', pd_SupplierId = 3, pd_MerchantId = 1000, pd_ImageUrl = [],
     pd_OriginPriceFen = 1200, pd_FinalPriceFen = 900, pd_PromotionType = [], pd_PromotionTag = [], pd_StockAvailable = 10\<rparr>"

theorem quote_exact_witness:
  "q_PayableAmountFen (projr (BuildQuote (Some demo_card) 2)) = 1800 \<and> q_DiscountAmountFen (projr (BuildQuote (Some demo_card) 2)) = 600"
proof -
  have q: "BuildQuote (Some demo_card) 2 = Inr (projr (BuildQuote (Some demo_card) 2))"
    by (simp add: BuildQuote_def demo_card_def Let_def)
  show ?thesis using quote_exact [OF q] by (simp add: demo_card_def in_i64_def)
qed

text \<open>
  the checks do not bound the product: for every unit price of at least 2 to the 62 that
  is representable, a quantity of two passes every check and yields a payable amount that is not
  positive.
\<close>

theorem quote_wraps:
  assumes "pd_OriginPriceFen c = price" "pd_FinalPriceFen c = price" "0 < pd_ProductId c" "2 ^ 62 \<le> price" "in_i64 price"
  shows "\<exists>q. BuildQuote (Some c) 2 = Inr q \<and> q_PayableAmountFen q \<le> 0"
proof -
  have "(price * 2 + 2 ^ 63) mod 2 ^ 64 = (price * 2 + 2 ^ 63 - 2 ^ 64) mod 2 ^ 64"
    by (rule minus_mod_self2 [symmetric])
  also have "\<dots> = price * 2 + 2 ^ 63 - 2 ^ 64" using assms(4,5) by (intro mod_pos_pos_trivial) (simp_all add: in_i64_def)
  finally have "i64 (price * 2) \<le> 0" using assms(5) by (simp add: i64_def in_i64_def)
  then show ?thesis using assms by (auto simp: BuildQuote_def Let_def)
qed

theorem quote_wraps_witness:
  "\<exists>q. BuildQuote (Some (demo_card\<lparr>pd_OriginPriceFen := 2 ^ 62, pd_FinalPriceFen := 2 ^ 62\<rparr>)) 2 = Inr q \<and> q_PayableAmountFen q \<le> 0"
  by (rule quote_wraps [where price = "2 ^ 62"]) (simp_all add: demo_card_def in_i64_def)

end
