(* ===== verification/Order_Refinement.thy ===== *)
theory Order_Refinement
  imports Order_Spec Order_Recovery Order_Refund Order_Create
begin

text \<open>
  The tables of the order service implement the state machine of \<open>Order_Spec\<close>.  \<open>abs_state\<close> reads a
  specification state off the tables; \<open>moves d d'\<close> says that going from \<open>d\<close> to \<open>d'\<close> is a sequence of
  business events; a statement outside a transaction and a committed transaction are such moves, so
  a handler keeps \<open>good s\<close>: whatever is lost on the way, the tables are reachable from the
  specification state \<open>s\<close> it started in.
\<close>

section \<open>The abstraction\<close>

definition tables_wf :: "order_tables \<Rightarrow> bool" where
  "tables_wf d \<longleftrightarrow> distinct (map o_id (orders d)) \<and> distinct (map p_order_id (payments d)) \<and> distinct (map p_id (payments d)) \<and>
     distinct (map rf_order_id (refunds d)) \<and> distinct (map rf_id (refunds d)) \<and>
     map rf_id (refunds d) = map (\<lambda>r. refundIDForOrder (rf_order_id r)) (refunds d)"

definition abs_state :: "order_tables \<Rightarrow> spec_state" where
  "abs_state d =
     \<lparr>s_order = (\<lambda>k. map_option o_status (order_row_of d k)),
      s_pay = (\<lambda>k. map_option p_status (payment_of d k)),
      s_refund = (\<lambda>k. map_option rf_status (refund_of d k)),
      s_log = map (\<lambda>l. (lg_order_id l, lg_from l, lg_to l)) (status_log d),
      s_events = {k. has_event d (''order.paid:'' @ k)}\<rparr>"

definition moves :: "order_tables \<Rightarrow> order_tables \<Rightarrow> bool" where
  "moves d d' \<longleftrightarrow> (tables_wf d \<and> spec_inv (abs_state d) \<longrightarrow> tables_wf d' \<and> spec_step\<^sup>*\<^sup>* (abs_state d) (abs_state d'))"

definition good :: "spec_state \<Rightarrow> order_tables \<Rightarrow> bool" where
  "good s d \<longleftrightarrow> tables_wf d \<and> spec_inv (abs_state d) \<and> spec_step\<^sup>*\<^sup>* s (abs_state d)"

definition on_odb :: "(order_tables \<Rightarrow> bool) \<Rightarrow> 'x order_world \<Rightarrow> bool" where
  "on_odb P w \<longleftrightarrow> P (o_db w)"

lemma moves_refl [simp]: "moves d d"
  by (simp add: moves_def)

lemma moves_good: "moves d d' \<Longrightarrow> good s d \<Longrightarrow> good s d'"
  unfolding moves_def good_def by (metis rtranclp_trans spec_steps_inv)

lemma moves_same_abs: "abs_state d' = abs_state d \<Longrightarrow> (tables_wf d \<Longrightarrow> tables_wf d') \<Longrightarrow> moves d d'"
  by (simp add: moves_def)

lemma moves_step:
  "(tables_wf d \<Longrightarrow> spec_inv (abs_state d) \<Longrightarrow> tables_wf d' \<and> spec_step (abs_state d) (abs_state d')) \<Longrightarrow> moves d d'"
  by (auto simp: moves_def)

section \<open>Rules for effects\<close>

lemma fault_free_on_odb [simp, keeps_rules]: "fault_free (on_odb P)"
  by (simp add: fault_free_def on_odb_def)

lemma keeps_stmt:
  assumes "\<And>now d x d'. P d \<Longrightarrow> f now d = (x, d') \<Longrightarrow> P d'"
  shows "keeps (on_odb P) (stmt f)"
  unfolding stmt_def
  by (rule keeps_ext_call) (auto simp: keeps_def on_odb_def split: prod.splits intro: assms)

lemma keeps_query [keeps_rules]: "keeps (on_odb P) (query g)"
  unfolding query_def by (rule keeps_stmt) auto

lemma keeps_query_row [keeps_rules]: "keeps (on_odb P) (query_row g)"
  unfolding query_row_def by (rule keeps_stmt) (auto split: option.splits)

lemma keeps_RawDB [keeps_rules]: "keeps (on_odb P) RawDB"
  unfolding RawDB_def by (intro keeps_rules)

lemma keeps_order_now [keeps_rules]: "keeps (on_odb P) order_now"
  by (simp add: keeps_def order_now_def)

lemma keeps_call [keeps_rules]: "keeps (on_odb P) (call f)"
  unfolding call_def by (rule keeps_ext_call) (auto simp: keeps_def on_odb_def split: prod.splits)

lemma keeps_order_eval [keeps_rules]: "keeps (on_odb P) (order_eval f)"
  unfolding order_eval_def by (rule keeps_ext_call) (auto simp: keeps_def on_odb_def split: prod.splits)

lemma keeps_exec_moves: "(\<And>now d. moves d (snd (f now d))) \<Longrightarrow> keeps (on_odb (good s)) (exec f)"
  unfolding exec_def
  by (rule keeps_stmt) (auto split: prod.splits intro: moves_good, metis moves_good snd_conv)

lemma stmt_Inr: "stmt f w = (Inr a, w') \<Longrightarrow> \<exists>now. f now (o_db w) = (Inr a, o_db w')"
  unfolding stmt_def by (erule ext_call_cases) (auto split: prod.splits)

lemma exec_Inr: "exec f w = (Inr n, w') \<Longrightarrow> \<exists>now. f now (o_db w) = (n, o_db w')"
  unfolding exec_def by (drule stmt_Inr, elim exE, case_tac "f now (o_db w)") auto

lemma query_Inr: "query g w = (Inr a, w') \<Longrightarrow> a = g (o_db w) \<and> o_db w' = o_db w"
  unfolding query_def by (drule stmt_Inr) auto

lemma query_row_Inr: "query_row g w = (Inr a, w') \<Longrightarrow> g (o_db w) = Some a \<and> o_db w' = o_db w"
  unfolding query_row_def by (drule stmt_Inr) (auto split: option.splits)

lemma call_db: "call f w = (x, w') \<Longrightarrow> o_db w' = o_db w"
  unfolding call_def by (erule ext_call_cases) (auto split: prod.splits)

lemma order_now_db: "order_now w = (x, w') \<Longrightarrow> o_db w' = o_db w"
  by (simp add: order_now_def)

lemma if_fail_Inr [simp]: "(if b then fail e else m) w = (Inr a, w') \<longleftrightarrow> \<not> b \<and> m w = (Inr a, w')"
  by simp

lemma of_result_InrD: "of_result r w = (Inr a, w') \<Longrightarrow> r = Inr a \<and> w' = w"
  by (simp add: of_result_def)

text \<open>Taking a successful run apart.\<close>

lemmas run_dests = map_err_InrD ret_InrD of_result_InrD query_Inr query_row_Inr call_db order_now_db

lemma keeps_bindE_inv:
  "keeps I m \<Longrightarrow> (\<And>w a w'. I w \<Longrightarrow> m w = (Inr a, w') \<Longrightarrow> keeps I (k a)) \<Longrightarrow> keeps I (bindE m k)"
  by (auto simp: keeps_def bindE_def split: prod.splits sum.splits dest: spec)

lemma keeps_order_tx:
  fixes body :: "('x order_world, 'a) io"
  assumes "\<And>w a w'. body w = (Inr a, w') \<Longrightarrow> moves (o_db w) (o_db w')"
  shows "keeps (on_odb (good s)) (order_tx be ce body)"
proof (rule keepsI)
  fix w :: "'x order_world" assume I: "on_odb (good s) w"
  obtain x w' where run: "order_tx be ce body w = (x, w')" by (cases "order_tx be ce body w")
  show "on_odb (good s) (snd (order_tx be ce body w))" unfolding run
  proof (rule with_tx_cases [OF run [unfolded order_tx_def]])
    fix a fs w1 assume "body (w\<lparr>faults := fs\<rparr>) = (Inr a, w1)" "o_db w' = o_db w1"
    then show "on_odb (good s) (snd (x, w'))" using I assms by (fastforce simp: on_odb_def intro: moves_good)
  qed (use I in \<open>auto simp: on_odb_def\<close>)
qed

lemma order_tx_or_cases:
  assumes "order_tx_or be body w = (x, w')"
  obtains (kept) "o_db w' = o_db w" "\<forall>a. x \<noteq> Inr (Inr a)"
  | (committed) fs a w1 where "body (w\<lparr>faults := fs\<rparr>) = (Inr (Inr a), w1)" "o_db w' = o_db w1"
    "\<forall>y. x = Inr y \<longrightarrow> y = Inr a"
proof -
  from assms show ?thesis unfolding order_tx_or_def
  proof (rule bindE_cases)
    fix e assume "map_err be (ext_call (ret ())) w = (Inl e, w')" and x: "x = Inl e"
    then have "o_db w' = o_db w"
      by (auto simp: map_err_def ret_def split: prod.splits sum.splits elim!: ext_call_cases)
    then show thesis using x by (intro kept) simp_all
  next
    fix u w1
    assume b: "map_err be (ext_call (ret ())) w = (Inr u, w1)"
      and c: "(case body w1 of
         (Inl e, w') \<Rightarrow> (Inl e, w'\<lparr>o_db := o_db w1\<rparr>)
       | (Inr (Inl b), w') \<Rightarrow> (Inr (Inl b), w'\<lparr>o_db := o_db w1\<rparr>)
       | (Inr (Inr a), w') \<Rightarrow>
           (case pop_fault w' of
              (Inr (NoRequest e), w'') \<Rightarrow> (Inl (RawError e), w''\<lparr>o_db := o_db w1\<rparr>)
            | (Inr (NoReply e), w'') \<Rightarrow> (Inl (RawError e), w'')
            | (_, w'') \<Rightarrow> (Inr (Inr a), w''))) = (x, w')"
    obtain fs where w1: "w1 = w\<lparr>faults := fs\<rparr>"
      using map_err_InrD [OF b] by (auto simp: ret_def elim!: ext_call_cases)
    obtain y w2 where y: "body w1 = (y, w2)" by (cases "body w1")
    show thesis
    proof (cases "\<exists>a. y = Inr (Inr a)")
      case False
      then have "o_db w' = o_db w1" "\<forall>a. x \<noteq> Inr (Inr a)" using c y by (auto split: sum.splits)
      then show thesis using w1 by (intro kept) simp_all
    next
      case True
      then obtain a where a: "y = Inr (Inr a)" by blast
      note run = committed [OF y [unfolded a w1]]
      show thesis
      proof (cases "faults w2")
        case Nil then show thesis using c y a by (intro run) (auto simp: pop_fault_def)
      next
        case (Cons f fs')
        then show thesis using c y a run kept w1 by (cases f) (auto simp: pop_fault_def)
      qed
    qed
  qed
qed

lemma keeps_order_tx_or:
  fixes body :: "('x order_world, 'b + 'a) io"
  assumes "\<And>w a w'. body w = (Inr (Inr a), w') \<Longrightarrow> moves (o_db w) (o_db w')"
  shows "keeps (on_odb (good s)) (order_tx_or be body)"
proof (rule keepsI)
  fix w :: "'x order_world" assume I: "on_odb (good s) w"
  obtain x w' where run: "order_tx_or be body w = (x, w')" by (cases "order_tx_or be body w")
  from run show "on_odb (good s) (snd (order_tx_or be body w))"
  proof (cases rule: order_tx_or_cases)
    case kept then show ?thesis using I run by (simp add: on_odb_def)
  next
    case (committed fs a w1)
    have "moves (o_db w) (o_db w1)" using assms [OF committed(1)] by simp
    then show ?thesis using I run committed(2) moves_good by (auto simp: on_odb_def)
  qed
qed

section \<open>Rows\<close>

lemma affected_0: "affected P f rows = 0 \<Longrightarrow> update_rows touch P f rows = rows"
  by (auto simp: affected_def update_rows_def filter_empty_conv intro!: map_idI)

lemma affected_ne: "affected P f rows \<noteq> 0 \<Longrightarrow> \<exists>r\<in>set rows. P r"
  by (auto simp: affected_def filter_empty_conv)

lemma find_update_rows:
  assumes "\<And>r. key (f r) = key r" "\<And>r. key (touch r) = key r"
  shows "find (\<lambda>r. key r = k) (update_rows touch P f rows)
    = map_option (\<lambda>r. if P r \<and> f r \<noteq> r then touch (f r) else r) (find (\<lambda>r. key r = k) rows)"
  by (induction rows) (simp_all add: update_rows_def assms)

lemma map_update_rows:
  assumes "\<And>r. key (f r) = key r" "\<And>r. key (touch r) = key r"
  shows "map key (update_rows touch P f rows) = map key rows"
  using assms by (simp add: update_rows_def)

lemma find_status:
  assumes "\<And>r. key (f r) = key r" "\<And>r. key (touch r) = key r" "\<And>r. st (touch r) = st r"
  shows "map_option st (find (\<lambda>r. key r = k) (update_rows touch P f rows))
    = map_option (\<lambda>r. if P r then st (f r) else st r) (find (\<lambda>r. key r = k) rows)"
  using assms by (auto simp: find_update_rows option.map_comp comp_def intro!: option.map_cong)

lemma find_distinct:
  "distinct (map key rows) \<Longrightarrow> r \<in> set rows \<Longrightarrow> find (\<lambda>x. key x = key r) rows = Some r"
  by (induction rows) (auto simp: image_iff)

lemma find_SomeD: "find P xs = Some x \<Longrightarrow> x \<in> set xs \<and> P x"
  by (induction xs) (auto split: if_splits)

text \<open>An update that moves the one row of key \<open>K\<close> to status \<open>b\<close>.\<close>

lemma moved_rows:
  assumes dist: "distinct (map key rows)" and aff: "affected P f rows \<noteq> 0"
    and P: "\<And>r. r \<in> set rows \<Longrightarrow> P r \<Longrightarrow> key r = K \<and> A (st r)"
    and f: "\<And>r. key (f r) = key r" "\<And>r. st (f r) = b" and touch: "\<And>r. key (touch r) = key r" "\<And>r. st (touch r) = st r"
  shows "\<exists>a. A a \<and> map_option st (find (\<lambda>r. key r = K) rows) = Some a"
    and "(\<lambda>k. map_option st (find (\<lambda>r. key r = k) (update_rows touch P f rows)))
      = (\<lambda>k. map_option st (find (\<lambda>r. key r = k) rows))(K := Some b)"
proof -
  obtain r0 where r0: "r0 \<in> set rows" "P r0" using affected_ne [OF aff] by blast
  then have K: "find (\<lambda>r. key r = K) rows = Some r0" using P find_distinct [OF dist r0(1)] by metis
  show "\<exists>a. A a \<and> map_option st (find (\<lambda>r. key r = K) rows) = Some a" using K P [OF r0] by auto
  have "map_option st (find (\<lambda>r. key r = k) (update_rows touch P f rows))
      = (if k = K then Some b else map_option st (find (\<lambda>r. key r = k) rows))" for k
  proof (cases "k = K")
    case True then show ?thesis using K r0(2) f touch by (simp add: find_status)
  next
    case False
    have "\<not> P r" if "find (\<lambda>r. key r = k) rows = Some r" for r
      using find_SomeD [OF that] P False by metis
    then show ?thesis using False f(1) touch
      by (auto simp: find_status [where f = f and touch = touch] intro!: option.map_cong)
  qed
  then show "(\<lambda>k. map_option st (find (\<lambda>r. key r = k) (update_rows touch P f rows)))
      = (\<lambda>k. map_option st (find (\<lambda>r. key r = k) rows))(K := Some b)" by auto
qed

end
