(* ===== verification/Order_Moves.thy ===== *)
theory Order_Moves
  imports Order_Refinement
begin

text \<open>
  What the SQL statements of the order service do to the specification state: an update of the
  status column of an order, a payment or a refund moves one entry, an insert adds one, and the
  other updates are not visible there.
\<close>

section \<open>Status updates\<close>

lemma order_moved:
  assumes wf: "tables_wf d" and aff: "fst (update_orders P f now d) \<noteq> 0"
    and P: "\<And>r. P r \<Longrightarrow> o_id r = K \<and> A (o_status r)"
    and f: "\<And>r. o_id (f now r) = o_id r" "\<And>r. o_status (f now r) = b"
  shows "\<exists>a. A a \<and> s_order (abs_state d) K = Some a"
    and "abs_state (snd (update_orders P f now d)) = (abs_state d)\<lparr>s_order := (s_order (abs_state d))(K := Some b)\<rparr>"
    and "tables_wf (snd (update_orders P f now d))"
proof -
  have dist: "distinct (map o_id (orders d))" using wf by (simp add: tables_wf_def)
  have aff': "affected P (f now) (orders d) \<noteq> 0" using aff by (simp add: update_orders_def)
  note m = moved_rows [where key = o_id and st = o_status and P = P and f = "f now" and A = A and K = K and b = b
      and touch = "\<lambda>r. r\<lparr>o_update_time := now\<rparr>", OF dist aff']
  show "\<exists>a. A a \<and> s_order (abs_state d) K = Some a"
    using m(1) P f by (simp add: abs_state_def order_row_of_def)
  show "abs_state (snd (update_orders P f now d)) = (abs_state d)\<lparr>s_order := (s_order (abs_state d))(K := Some b)\<rparr>"
    using m(2) P f by (simp add: abs_state_def order_row_of_def payment_of_def refund_of_def has_event_def update_orders_def)
  show "tables_wf (snd (update_orders P f now d))"
    using wf f by (simp add: tables_wf_def update_orders_def map_update_rows)
qed

lemma payment_moved:
  assumes wf: "tables_wf d" and aff: "fst (update_payments P f now d) \<noteq> 0"
    and P: "\<And>r. P r \<Longrightarrow> p_order_id r = K \<and> A (p_status r)"
    and f: "\<And>r. p_id (f now r) = p_id r" "\<And>r. p_order_id (f now r) = p_order_id r" "\<And>r. p_status (f now r) = b"
  shows "\<exists>a. A a \<and> s_pay (abs_state d) K = Some a"
    and "abs_state (snd (update_payments P f now d)) = (abs_state d)\<lparr>s_pay := (s_pay (abs_state d))(K := Some b)\<rparr>"
    and "tables_wf (snd (update_payments P f now d))"
proof -
  have dist: "distinct (map p_order_id (payments d))" using wf by (simp add: tables_wf_def)
  have aff': "affected P (f now) (payments d) \<noteq> 0" using aff by (simp add: update_payments_def)
  note m = moved_rows [where key = p_order_id and st = p_status and P = P and f = "f now" and A = A and K = K and b = b
      and touch = "\<lambda>r. r\<lparr>p_update_time := now\<rparr>", OF dist aff']
  show "\<exists>a. A a \<and> s_pay (abs_state d) K = Some a"
    using m(1) P f by (simp add: abs_state_def payment_of_def)
  show "abs_state (snd (update_payments P f now d)) = (abs_state d)\<lparr>s_pay := (s_pay (abs_state d))(K := Some b)\<rparr>"
    using m(2) P f by (simp add: abs_state_def order_row_of_def payment_of_def refund_of_def has_event_def update_payments_def)
  show "tables_wf (snd (update_payments P f now d))"
    using wf f by (simp add: tables_wf_def update_payments_def map_update_rows)
qed

lemma refund_moved:
  assumes wf: "tables_wf d" and aff: "fst (update_refunds P f now d) \<noteq> 0"
    and P: "\<And>r. r \<in> set (refunds d) \<Longrightarrow> P r \<Longrightarrow> rf_order_id r = K \<and> A (rf_status r)"
    and f: "\<And>r. rf_id (f now r) = rf_id r" "\<And>r. rf_order_id (f now r) = rf_order_id r" "\<And>r. rf_status (f now r) = b"
  shows "\<exists>a. A a \<and> s_refund (abs_state d) K = Some a"
    and "abs_state (snd (update_refunds P f now d)) = (abs_state d)\<lparr>s_refund := (s_refund (abs_state d))(K := Some b)\<rparr>"
    and "tables_wf (snd (update_refunds P f now d))"
proof -
  have dist: "distinct (map rf_order_id (refunds d))" using wf by (simp add: tables_wf_def)
  have aff': "affected P (f now) (refunds d) \<noteq> 0" using aff by (simp add: update_refunds_def)
  note m = moved_rows [where key = rf_order_id and st = rf_status and P = P and f = "f now" and A = A and K = K and b = b
      and touch = "\<lambda>r. r\<lparr>rf_update_time := now\<rparr>", OF dist aff']
  show "\<exists>a. A a \<and> s_refund (abs_state d) K = Some a"
    using m(1) P f by (simp add: abs_state_def refund_of_def)
  show "abs_state (snd (update_refunds P f now d)) = (abs_state d)\<lparr>s_refund := (s_refund (abs_state d))(K := Some b)\<rparr>"
    using m(2) P f by (simp add: abs_state_def order_row_of_def payment_of_def refund_of_def has_event_def update_refunds_def)
  show "tables_wf (snd (update_refunds P f now d))"
    using wf f by (simp add: tables_wf_def update_refunds_def map_update_rows)
qed

text \<open>An update that affects no row changes nothing.\<close>

lemma no_rows:
  "fst (update_orders P f now d) = 0 \<Longrightarrow> snd (update_orders P f now d) = d"
  "fst (update_payments Q g now d) = 0 \<Longrightarrow> snd (update_payments Q g now d) = d"
  "fst (update_refunds R h now d) = 0 \<Longrightarrow> snd (update_refunds R h now d) = d"
  by (simp_all add: update_orders_def update_payments_def update_refunds_def affected_0)

section \<open>Invisible changes\<close>

lemma payment_unmoved_abs:
  assumes "\<And>r. p_id (f now r) = p_id r" "\<And>r. p_order_id (f now r) = p_order_id r" "\<And>r. p_status (f now r) = p_status r"
  shows "abs_state (snd (update_payments P f now d)) = abs_state d" "tables_wf (snd (update_payments P f now d)) = tables_wf d"
proof -
  have "map_option p_status (find (\<lambda>r. p_order_id r = k) (update_rows (\<lambda>r. r\<lparr>p_update_time := now\<rparr>) P (f now) (payments d)))
      = map_option p_status (find (\<lambda>r. p_order_id r = k) (payments d))" for k
    using assms by (auto simp: find_status intro!: option.map_cong)
  then show "abs_state (snd (update_payments P f now d)) = abs_state d"
    by (simp add: abs_state_def order_row_of_def payment_of_def refund_of_def has_event_def update_payments_def)
  show "tables_wf (snd (update_payments P f now d)) = tables_wf d"
    using assms by (simp add: tables_wf_def update_payments_def map_update_rows)
qed

lemma payment_unmoved:
  assumes "\<And>r. p_id (f now r) = p_id r" "\<And>r. p_order_id (f now r) = p_order_id r" "\<And>r. p_status (f now r) = p_status r"
  shows "moves d (snd (update_payments P f now d))"
  by (rule moves_same_abs) (use assms in \<open>simp_all add: payment_unmoved_abs\<close>)

lemma refund_unmoved:
  assumes "\<And>r. rf_id (f now r) = rf_id r" "\<And>r. rf_order_id (f now r) = rf_order_id r" "\<And>r. rf_status (f now r) = rf_status r"
  shows "moves d (snd (update_refunds P f now d))"
proof (rule moves_same_abs)
  have "map_option rf_status (find (\<lambda>r. rf_order_id r = k) (update_rows (\<lambda>r. r\<lparr>rf_update_time := now\<rparr>) P (f now) (refunds d)))
      = map_option rf_status (find (\<lambda>r. rf_order_id r = k) (refunds d))" for k
    using assms by (auto simp: find_status intro!: option.map_cong)
  then show "abs_state (snd (update_refunds P f now d)) = abs_state d"
    by (simp add: abs_state_def order_row_of_def payment_of_def refund_of_def has_event_def update_refunds_def)
  show "tables_wf d \<Longrightarrow> tables_wf (snd (update_refunds P f now d))"
    using assms by (simp add: tables_wf_def update_refunds_def map_update_rows)
qed

lemma has_event_update_outbox:
  assumes "\<And>r. ob_event_id (f now r) = ob_event_id r"
  shows "has_event (snd (update_outbox P f now d)) e = has_event d e"
proof -
  have "has_event d' e \<longleftrightarrow> e \<in> set (map ob_event_id (outbox d'))" for d'
    by (auto simp: has_event_def list_ex_iff)
  then show ?thesis using assms by (simp add: update_outbox_def map_update_rows del: set_map)
qed

lemma abs_update_outbox:
  assumes "\<And>r. ob_event_id (f now r) = ob_event_id r"
  shows "abs_state (snd (update_outbox P f now d)) = abs_state d" "tables_wf (snd (update_outbox P f now d)) = tables_wf d"
  using has_event_update_outbox [of f now P d] assms
  by (simp_all add: abs_state_def order_row_of_def payment_of_def refund_of_def tables_wf_def update_outbox_def)

section \<open>Inserts\<close>

lemma abs_insert_log [simp]:
  "abs_state (snd (insert_log k a b u m now d)) = (abs_state d)\<lparr>s_log := s_log (abs_state d) @ [(k, a, b)]\<rparr>"
  "tables_wf (snd (insert_log k a b u m now d)) = tables_wf d"
  by (simp_all add: abs_state_def order_row_of_def payment_of_def refund_of_def has_event_def tables_wf_def insert_log_def)

lemma abs_insert_callback [simp]:
  "abs_state (snd (insert_callback c now d)) = abs_state d" "tables_wf (snd (insert_callback c now d)) = tables_wf d"
  by (simp_all add: abs_state_def order_row_of_def payment_of_def refund_of_def has_event_def tables_wf_def insert_callback_def)

lemma has_append_event: "has_event (append_event e t k p now d) x \<longleftrightarrow> x = e \<or> has_event d x"
  by (auto simp: has_event_def append_event_def)

text \<open>Events of other kinds are not visible.\<close>

lemma abs_append_event:
  assumes "\<And>k. e \<noteq> ''order.paid:'' @ k"
  shows "abs_state (append_event e t j p now d) = abs_state d" "tables_wf (append_event e t j p now d) = tables_wf d"
  using has_append_event [of e t j p now d] assms
  by (auto simp: abs_state_def order_row_of_def payment_of_def refund_of_def tables_wf_def append_event_def)

lemma abs_insert_event:
  assumes "\<And>k. e \<noteq> ''order.paid:'' @ k"
  shows "abs_state (snd (insert_event e t j p now d)) = abs_state d" "tables_wf (snd (insert_event e t j p now d)) = tables_wf d"
  using abs_append_event [OF assms] by (simp_all add: insert_event_def)

lemma abs_insert_paid_event:
  "abs_state (snd (insert_event (''order.paid:'' @ k) t j p now d)) = (abs_state d)\<lparr>s_events := insert k (s_events (abs_state d))\<rparr>"
  "tables_wf (snd (insert_event (''order.paid:'' @ k) t j p now d)) = tables_wf d"
  using has_append_event [of "''order.paid:'' @ k" t j p now d]
  by (auto simp: insert_event_def abs_state_def order_row_of_def payment_of_def refund_of_def tables_wf_def append_event_def)

lemma exec_snd: "exec f w = (Inr n, w') \<Longrightarrow> \<exists>now. n = fst (f now (o_db w)) \<and> o_db w' = snd (f now (o_db w))"
  by (drule exec_Inr) (metis fst_conv snd_conv)

lemma insertPaymentCallbackEvent_db:
  assumes "insertPaymentCallbackEvent i p st m w = (Inr u, w')"
  shows "abs_state (o_db w') = abs_state (o_db w)" "tables_wf (o_db w') = tables_wf (o_db w)"
  using assms unfolding insertPaymentCallbackEvent_def Let_def
  by (elim bindE_InrE; auto dest!: exec_snd ret_InrD)+

lemma insertRefundOutbox_db:
  assumes run: "insertRefundOutbox t rid k p w = (Inr u, w')" and kind: "\<And>x. t @ '':'' @ rid \<noteq> ''order.paid:'' @ x"
  shows "abs_state (o_db w') = abs_state (o_db w)" "tables_wf (o_db w') = tables_wf (o_db w)"
proof -
  obtain b now where "o_db w' = (if has_event (o_db w) (t @ '':'' @ rid)
      then snd (update_outbox (\<lambda>r. ob_event_id r = t @ '':'' @ rid) (\<lambda>now r. r\<lparr>ob_status := 0, ob_next_retry_at := now, ob_last_error := []\<rparr>) now (o_db w))
      else append_event (t @ '':'' @ rid) t k b now (o_db w))"
    using run unfolding insertRefundOutbox_def Let_def
    by (elim bindE_InrE) (drule exec_snd, drule ret_InrD, elim exE conjE, simp split: if_splits)
  then show "abs_state (o_db w') = abs_state (o_db w)" "tables_wf (o_db w') = tables_wf (o_db w)"
    using abs_append_event [OF kind] by (simp_all add: abs_update_outbox)
qed

end
