(* ===== verification/Order_Consistency.thy ===== *)
theory Order_Consistency
  imports Order_Moves
begin

text \<open>
  The transactions of the order service are business events: each committed transaction of
  \<open>Order_Lifecycle\<close>, \<open>Order_Payment\<close>, \<open>Order_Recovery\<close> and \<open>Order_Create\<close> is a sequence of steps of
  \<open>Order_Spec\<close>, and so is each statement outside a transaction.
\<close>

section \<open>Closing, shipping, receiving\<close>

lemma close_payment_abs:
  assumes wf: "tables_wf d"
  shows "abs_state (snd (close_payment K now d)) = (abs_state d)\<lparr>s_pay := (s_pay (abs_state d))
      (K := if s_pay (abs_state d) K = Some payment_Init then Some payment_Closed else s_pay (abs_state d) K)\<rparr>"
    and "tables_wf (snd (close_payment K now d))"
proof -
  let ?P = "\<lambda>r. p_order_id r = K \<and> p_status r = payment_Init"
  let ?f = "\<lambda>now r. r\<lparr>p_status := payment_Closed,
      p_provider_status := (if p_provider r = ''alipay_sandbox'' then ''TRADE_CLOSED'' else ''CLOSED''), p_update_time := now\<rparr>"
  show "abs_state (snd (close_payment K now d)) = (abs_state d)\<lparr>s_pay := (s_pay (abs_state d))
      (K := if s_pay (abs_state d) K = Some payment_Init then Some payment_Closed else s_pay (abs_state d) K)\<rparr>"
    "tables_wf (snd (close_payment K now d))"
  proof (atomize (full), cases "fst (update_payments ?P ?f now d) = 0")
    case True
    then have none: "\<not> ?P r" if "r \<in> set (payments d)" for r
    proof -
      have "?f now r \<noteq> r" if "?P r" using that by (auto dest: arg_cong [where f = p_status])
      then show ?thesis using True \<open>r \<in> set (payments d)\<close>
        by (auto simp: update_payments_def affected_def filter_empty_conv)
    qed
    then have "s_pay (abs_state d) K \<noteq> Some payment_Init"
      by (auto simp: abs_state_def payment_of_def dest!: find_SomeD)
    then show "abs_state (snd (close_payment K now d)) = (abs_state d)\<lparr>s_pay := (s_pay (abs_state d))
      (K := if s_pay (abs_state d) K = Some payment_Init then Some payment_Closed else s_pay (abs_state d) K)\<rparr> \<and> tables_wf (snd (close_payment K now d))"
      using True wf by (simp add: close_payment_def no_rows)
  next
    case False
    note m = payment_moved [where K = K and A = "\<lambda>a. a = payment_Init" and b = payment_Closed, OF wf False]
    show "abs_state (snd (close_payment K now d)) = (abs_state d)\<lparr>s_pay := (s_pay (abs_state d))
      (K := if s_pay (abs_state d) K = Some payment_Init then Some payment_Closed else s_pay (abs_state d) K)\<rparr> \<and> tables_wf (snd (close_payment K now d))"
      using m by (simp add: close_payment_def)
  qed
qed

text \<open>The closing of an order and of its payment with the log entry, as one event.\<close>

lemma close_moves:
  assumes wf: "tables_wf d" and ord: "s_order (abs_state d) K = Some order_PendingPayment"
    and d1: "abs_state d1 = (abs_state d)\<lparr>s_order := (s_order (abs_state d))(K := Some order_Closed)\<rparr>" "tables_wf d1"
  shows "spec_step (abs_state d) (abs_state (snd (insert_log K order_PendingPayment order_Closed u m now' (snd (close_payment K now d1)))))"
  using spec_step.close [OF ord] d1 close_payment_abs [OF d1(2), of K now]
  by (cases "s_pay (abs_state d) K = Some payment_Init") simp_all

definition lifecycle_edge :: "lifecycle_transition \<Rightarrow> bool" where
  "lifecycle_edge c \<longleftrightarrow>
     (lt_fromStatus c = order_PendingPayment \<and> lt_toStatus c = order_Closed \<and> lt_closePayment c) \<or>
     (lt_fromStatus c = order_Paid \<and> lt_toStatus c = order_Shipped \<and> \<not> lt_closePayment c) \<or>
     (lt_fromStatus c = order_Shipped \<and> lt_toStatus c = order_Completed \<and> \<not> lt_closePayment c)"

lemma lifecycleUpdate_moved:
  assumes upd: "lifecycleUpdate c = Inr upd" and wf: "tables_wf d" and aff: "fst (upd now d) \<noteq> 0"
  shows "s_order (abs_state d) (lt_orderID c) = Some (lt_fromStatus c)"
    and "abs_state (snd (upd now d)) = (abs_state d)\<lparr>s_order := (s_order (abs_state d))(lt_orderID c := Some (lt_toStatus c))\<rparr>"
    and "tables_wf (snd (upd now d))"
proof -
  obtain P f where u: "upd = update_orders P f"
    and P: "\<And>r. P r \<Longrightarrow> o_id r = lt_orderID c \<and> o_status r = lt_fromStatus c"
    and f: "\<And>now r. o_id (f now r) = o_id r" "\<And>now r. o_status (f now r) = lt_toStatus c"
    using upd that by (fastforce simp: lifecycleUpdate_def Let_def split: if_splits)
  note m = order_moved [where K = "lt_orderID c" and A = "\<lambda>a. a = lt_fromStatus c" and b = "lt_toStatus c", OF wf aff [unfolded u] P f]
  show "s_order (abs_state d) (lt_orderID c) = Some (lt_fromStatus c)"
    "abs_state (snd (upd now d)) = (abs_state d)\<lparr>s_order := (s_order (abs_state d))(lt_orderID c := Some (lt_toStatus c))\<rparr>"
    "tables_wf (snd (upd now d))"
    using m by (auto simp: u)
qed

lemma lifecycle_apply_steps:
  assumes "lifecycle_apply c w = (Inr a, w')"
  obtains upd now1 d2 d3 now3 where "lifecycleUpdate c = Inr upd" "fst (upd now1 (o_db w)) = 1" "d2 = snd (upd now1 (o_db w))"
    "if lt_closePayment c then \<exists>now2. d3 = snd (close_payment (lt_orderID c) now2 d2) else d3 = d2"
    "o_db w' = snd (insert_log (lt_orderID c) (lt_fromStatus c) (lt_toStatus c) (lt_operatorID c) (lt_remark c) now3 d3)"
    "a = \<lparr>lr_repeated = False, lr_status = lt_toStatus c\<rparr>"
proof -
  obtain upd w2 w3 n x where s: "lifecycleUpdate c = Inr upd" "exec upd w = (Inr 1, w2)"
    "(if lt_closePayment c
      then map_err (grpc codes_Internal ''close payment order failed'') (exec (close_payment (lt_orderID c)))
      else ret 0) w2 = (Inr n, w3)"
    "exec (insert_log (lt_orderID c) (lt_fromStatus c) (lt_toStatus c) (lt_operatorID c) (lt_remark c)) w3 = (Inr x, w')"
    "a = \<lparr>lr_repeated = False, lr_status = lt_toStatus c\<rparr>"
    using assms unfolding lifecycle_apply_def by (auto elim!: bindE_InrE dest!: run_dests)
  have "if lt_closePayment c then \<exists>now2. o_db w3 = snd (close_payment (lt_orderID c) now2 (o_db w2)) else o_db w3 = o_db w2"
    using s(3) by (cases "lt_closePayment c") (auto dest!: run_dests exec_snd)
  then show thesis using that s(1,5) exec_snd [OF s(2)] exec_snd [OF s(4)] by metis
qed

lemma lifecycle_body_cases:
  assumes "lifecycle_body c w = (Inr a, w')"
  obtains (repeated) "o_db w' = o_db w" "a = \<lparr>lr_repeated = True, lr_status = lt_toStatus c\<rparr>"
  | (applied) w1 where "o_db w1 = o_db w" "lifecycle_apply c w1 = (Inr a, w')"
proof -
  obtain scope where scope: "owner_scope c = Some scope"
    using assms by (cases "owner_scope c") (auto simp: lifecycle_body_def)
  obtain st w1 where q: "o_db w1 = o_db w" and body:
    "(if st = lt_toStatus c then ret \<lparr>lr_repeated = True, lr_status = st\<rparr>
      else if st \<noteq> lt_fromStatus c then fail (StatusError codes_FailedPrecondition ''order status does not allow this command'')
      else lifecycle_apply c) w1 = (Inr a, w')"
    using assms unfolding lifecycle_body_def scope option.case by (auto elim!: bindE_InrE dest!: run_dests)
  then show thesis using repeated applied [of w1] by (cases "st = lt_toStatus c") (auto dest: ret_InrD)
qed

lemma lifecycle_body_moves:
  assumes edge: "lifecycle_edge c" and run: "lifecycle_body c w = (Inr a, w')"
  shows "moves (o_db w) (o_db w')"
  using run
proof (cases rule: lifecycle_body_cases)
  case (applied w1)
  from applied(2) show ?thesis
  proof (rule lifecycle_apply_steps)
    fix upd now1 d2 d3 now3
    assume upd: "lifecycleUpdate c = Inr upd" "fst (upd now1 (o_db w1)) = 1" and d2: "d2 = snd (upd now1 (o_db w1))"
      and d3: "if lt_closePayment c then \<exists>now2. d3 = snd (close_payment (lt_orderID c) now2 d2) else d3 = d2"
      and d4: "o_db w' = snd (insert_log (lt_orderID c) (lt_fromStatus c) (lt_toStatus c) (lt_operatorID c) (lt_remark c) now3 d3)"
    show ?thesis
    proof (rule moves_step)
      assume wf: "tables_wf (o_db w)"
      have m: "s_order (abs_state (o_db w)) (lt_orderID c) = Some (lt_fromStatus c)"
        "abs_state d2 = (abs_state (o_db w))\<lparr>s_order := (s_order (abs_state (o_db w)))(lt_orderID c := Some (lt_toStatus c))\<rparr>" "tables_wf d2"
        using lifecycleUpdate_moved [OF upd(1) wf, of now1] upd(2) d2 applied(1) by simp_all
      show "tables_wf (o_db w') \<and> spec_step (abs_state (o_db w)) (abs_state (o_db w'))"
      proof (cases "lt_closePayment c")
        case True
        then obtain now2 where "d3 = snd (close_payment (lt_orderID c) now2 d2)" using d3 by auto
        moreover have "lt_fromStatus c = order_PendingPayment" "lt_toStatus c = order_Closed"
          using edge True by (auto simp: lifecycle_edge_def)
        ultimately show ?thesis
          using close_moves [OF wf, of "lt_orderID c" d2] m d4 close_payment_abs(2) by simp
      next
        case False
        then have "lt_fromStatus c = order_Paid \<and> lt_toStatus c = order_Shipped \<or> lt_fromStatus c = order_Shipped \<and> lt_toStatus c = order_Completed"
          using edge by (auto simp: lifecycle_edge_def)
        then show ?thesis
          using False d3 m d4 spec_step.ship [of "abs_state (o_db w)" "lt_orderID c"] spec_step.receive [of "abs_state (o_db w)" "lt_orderID c"]
          by auto
      qed
    qed
  qed
qed simp

section \<open>Paying\<close>

text \<open>The four writes of a successful callback.\<close>

lemma pay_moves:
  assumes wf: "tables_wf d" and o1: "fst (pay_order (mp_OrderId i) now1 d) \<noteq> 0" and d1: "d1 = snd (pay_order (mp_OrderId i) now1 d)"
    and p1: "fst (pay_payment i cb now2 d1) \<noteq> 0" and d2: "d2 = snd (pay_payment i cb now2 d1)"
    and d4: "abs_state d4 = abs_state (snd (insert_log (mp_OrderId i) order_PendingPayment order_Paid u m now3 d2))" "tables_wf d4 = tables_wf d2"
    and d5: "d5 = snd (insert_event (''order.paid:'' @ mp_OrderId i) ty ag pl now4 d4)"
  shows "tables_wf d5 \<and> paid_from (mp_OrderId i) (abs_state d) (abs_state d5)"
proof -
  let ?k = "mp_OrderId i"
  note a = order_moved [where K = ?k and A = "\<lambda>a. a = order_PendingPayment" and b = order_Paid, OF wf o1 [unfolded pay_order_def], folded pay_order_def]
  have ord: "s_order (abs_state d) ?k = Some order_PendingPayment" "tables_wf d1"
    "abs_state d1 = (abs_state d)\<lparr>s_order := (s_order (abs_state d))(?k := Some order_Paid)\<rparr>"
    using a by (simp_all add: d1)
  note b = payment_moved [where K = ?k and A = "\<lambda>a. a = payment_Init" and b = payment_Success, OF ord(2) p1 [unfolded pay_payment_def], folded pay_payment_def]
  have pay: "s_pay (abs_state d1) ?k = Some payment_Init" "tables_wf d2"
    "abs_state d2 = (abs_state d1)\<lparr>s_pay := (s_pay (abs_state d1))(?k := Some payment_Success)\<rparr>"
    using b by (simp_all add: d2)
  show ?thesis
    unfolding paid_from_def using ord(1) pay ord(3) d4 abs_insert_paid_event [of ?k ty ag pl now4 d4, folded d5] by simp
qed

lemma InsertOrderPaidOutbox_db:
  assumes "InsertOrderPaidOutbox k w = (Inr u, w')"
  shows "\<exists>ty ag pl now. o_db w' = snd (insert_event (''order.paid:'' @ k) ty ag pl now (o_db w)) \<and> quoted_is_json k"
  using assms unfolding InsertOrderPaidOutbox_def Let_def NewOrderPaidEvent_def
  by (elim bindE_InrE) (auto dest!: stmt_Inr run_dests split: if_splits prod.splits, metis snd_conv)

lemma mark_paid_apply_cases:
  assumes "mark_paid_apply i cb w = (Inr a, w')"
  obtains (skipped) "a = NotPayable" "o_db w' = o_db w"
  | (paid) "a = Success" "tables_wf (o_db w) \<longrightarrow> tables_wf (o_db w') \<and> paid_from (mp_OrderId i) (abs_state (o_db w)) (abs_state (o_db w'))"
proof -
  obtain n w1 where s1: "exec (pay_order (mp_OrderId i)) w = (Inr n, w1)" and rest:
    "(if n = 0 then ret NotPayable
      else bindE (exec (pay_payment i cb)) (\<lambda>paymentRows.
          if paymentRows = 0 then fail (StatusError codes_FailedPrecondition ''payment order is not payable'')
          else bindE (exec (insert_log (mp_OrderId i) order_PendingPayment order_Paid 0 ''payment callback success'')) (\<lambda>_.
               bindE (insertPaymentCallbackEvent i cb ''SUCCESS'' []) (\<lambda>_.
               bindE (map_err (grpc codes_Internal ''insert paid outbox failed'') (InsertOrderPaidOutbox (mp_OrderId i))) (\<lambda>_.
               ret Success))))) w1 = (Inr a, w')"
    using assms unfolding mark_paid_apply_def by (elim bindE_InrE)
  obtain now1 where d1: "n = fst (pay_order (mp_OrderId i) now1 (o_db w))" "o_db w1 = snd (pay_order (mp_OrderId i) now1 (o_db w))"
    using exec_snd [OF s1] by blast
  show thesis
  proof (cases "n = 0")
    case True
    then have "o_db w1 = o_db w" using d1 by (simp add: pay_order_def no_rows)
    then show thesis using rest True by (intro skipped) (auto dest: ret_InrD)
  next
    case False
    then obtain n2 w2 x w3 y w4 z w5 where s: "exec (pay_payment i cb) w1 = (Inr n2, w2)" "n2 \<noteq> 0"
      "exec (insert_log (mp_OrderId i) order_PendingPayment order_Paid 0 ''payment callback success'') w2 = (Inr x, w3)"
      "insertPaymentCallbackEvent i cb ''SUCCESS'' [] w3 = (Inr y, w4)" "InsertOrderPaidOutbox (mp_OrderId i) w4 = (Inr z, w5)"
      "a = Success" "w' = w5"
      using rest by (auto elim!: bindE_InrE dest!: run_dests)
    obtain now2 where d2: "n2 = fst (pay_payment i cb now2 (o_db w1))" "o_db w2 = snd (pay_payment i cb now2 (o_db w1))"
      using exec_snd [OF s(1)] by blast
    obtain now3 where d3: "o_db w3 = snd (insert_log (mp_OrderId i) order_PendingPayment order_Paid 0 ''payment callback success'' now3 (o_db w2))"
      using exec_snd [OF s(3)] by blast
    note d4 = insertPaymentCallbackEvent_db [OF s(4)]
    obtain ty ag pl now4 where d5: "o_db w5 = snd (insert_event (''order.paid:'' @ mp_OrderId i) ty ag pl now4 (o_db w4))"
      using InsertOrderPaidOutbox_db [OF s(5)] by blast
    have wf4: "tables_wf (o_db w4) = tables_wf (o_db w2)" using d4(2) d3 by simp
    have "tables_wf (o_db w') \<and> paid_from (mp_OrderId i) (abs_state (o_db w)) (abs_state (o_db w'))" if wf: "tables_wf (o_db w)"
      using pay_moves [OF wf _ d1(2) _ d2(2) d4(1) [unfolded d3] wf4 d5] False d1(1) s(2,7) d2(1) by simp
    then show thesis using s(6) by (intro paid) simp_all
  qed
qed

lemma mark_paid_body_cases:
  assumes "mark_paid_body i cb w = (Inr a, w')"
  obtains (recorded) "a \<noteq> Success" "abs_state (o_db w') = abs_state (o_db w)" "tables_wf (o_db w') = tables_wf (o_db w)"
  | (paid) os ps where "a = Success" "tables_wf (o_db w) \<longrightarrow> tables_wf (o_db w') \<and> paid_from (mp_OrderId i) (abs_state (o_db w)) (abs_state (o_db w'))"
      "payable_row i (o_db w) = Some (os, ps, pl_PaidAmountFen cb)"
proof -
  obtain os ps amt w1 where q: "payable_row i (o_db w) = Some (os, ps, amt)" "o_db w1 = o_db w"
    and r: "mark_paid_decide i cb os ps amt w1 = (Inr a, w')"
    using assms unfolding mark_paid_body_def by (auto elim!: bindE_InrE dest!: run_dests)
  have rec: thesis if "bindE (insertPaymentCallbackEvent i cb st m) (\<lambda>_. ret b) w1 = (Inr a, w')" "b \<noteq> Success" for st m b
    using that q(2) insertPaymentCallbackEvent_db [of i cb st m w1] by (elim bindE_InrE) (auto dest!: ret_InrD intro!: recorded)
  show thesis
  proof (cases "pl_PaidAmountFen cb \<noteq> amt \<or> os = order_Paid \<or> ps = payment_Success \<or> os = order_Closed")
    case True
    then show thesis using r rec by (auto simp: mark_paid_decide_def split: if_splits)
  next
    case False
    then have amt: "amt = pl_PaidAmountFen cb" and "mark_paid_apply i cb w1 = (Inr a, w')"
      using r by (simp_all add: mark_paid_decide_def)
    from this(2) show thesis
    proof (cases rule: mark_paid_apply_cases)
      case skipped then show thesis using q(2) by (intro recorded) simp_all
    next
      case paid then show thesis using q amt that(2) by simp
    qed
  qed
qed

lemma mark_paid_body_moves: "mark_paid_body i cb w = (Inr a, w') \<Longrightarrow> moves (o_db w) (o_db w')"
  by (erule mark_paid_body_cases) (auto intro: moves_step moves_same_abs paid_from_step)

section \<open>Expiry, creation, compensation\<close>

lemma expire_body_moves:
  assumes "expire_body k w = (Inr a, w')"
  shows "moves (o_db w) (o_db w')"
proof -
  obtain n w1 where s1: "exec (expire_order k) w = (Inr n, w1)" and rest: "(if n = 0 then ret False
     else bindE (exec (close_payment k)) (\<lambda>_. bindE (exec (insert_log k 0 2 0 ''payment expired'')) (\<lambda>_. ret True))) w1 = (Inr a, w')"
    using assms unfolding expire_body_def by (elim bindE_InrE)
  obtain now1 where d1: "n = fst (expire_order k now1 (o_db w))" "o_db w1 = snd (expire_order k now1 (o_db w))"
    using exec_snd [OF s1] by blast
  show ?thesis
  proof (cases "n = 0")
    case True
    then have "o_db w1 = o_db w" using d1 by (simp add: expire_order_def no_rows)
    then show ?thesis using rest True by (auto dest: ret_InrD)
  next
    case False
    then obtain x w2 y where s: "exec (close_payment k) w1 = (Inr x, w2)" "exec (insert_log k 0 2 0 ''payment expired'') w2 = (Inr y, w')"
      using rest by (auto elim!: bindE_InrE dest!: run_dests)
    obtain now2 now3 where d: "o_db w2 = snd (close_payment k now2 (o_db w1))"
      "o_db w' = snd (insert_log k 0 2 0 ''payment expired'' now3 (o_db w2))"
      using exec_snd [OF s(1)] exec_snd [OF s(2)] by blast
    show ?thesis
    proof (rule moves_step)
      assume wf: "tables_wf (o_db w)"
      note m = order_moved [where K = k and A = "\<lambda>a. a = order_PendingPayment" and b = order_Closed, OF wf, of _ _ now1]
      have "s_order (abs_state (o_db w)) k = Some order_PendingPayment" "tables_wf (o_db w1)"
        "abs_state (o_db w1) = (abs_state (o_db w))\<lparr>s_order := (s_order (abs_state (o_db w)))(k := Some order_Closed)\<rparr>"
        using m [where P = "\<lambda>r. o_id r = k \<and> o_status r = 0" and f = "\<lambda>now r. r\<lparr>o_status := 2, o_update_time := now\<rparr>", folded expire_order_def]
          d1 False by simp_all
      then show "tables_wf (o_db w') \<and> spec_step (abs_state (o_db w)) (abs_state (o_db w'))"
        using close_moves [OF wf, of k "o_db w1"] close_payment_abs(2) d by simp
    qed
  qed
qed

lemma moves_trans: "moves d d1 \<Longrightarrow> moves d1 d2 \<Longrightarrow> moves d d2"
  unfolding moves_def by (meson rtranclp_trans spec_steps_inv)

lemma find_snoc: "find P (xs @ [x]) = (case find P xs of None \<Rightarrow> if P x then Some x else None | Some y \<Rightarrow> Some y)"
  by (induction xs) auto

lemma find_None: "find P xs = None \<longleftrightarrow> \<not> list_ex P xs"
  by (induction xs) auto

lemma insert_order_moves: "moves d (snd (insert_order i rq m now d))"
proof (cases "list_ex (\<lambda>r. o_id r = co_OrderId i \<or> o_request_id r = rq) (orders d)")
  case True then show ?thesis by (simp add: insert_order_def)
next
  case False
  then have none: "order_row_of d (co_OrderId i) = None" by (auto simp: order_row_of_def find_None list_ex_iff)
  have "abs_state (snd (insert_order i rq m now d)) = (abs_state d)\<lparr>s_order := (s_order (abs_state d))(co_OrderId i := Some order_PendingPayment)\<rparr>"
    using False none by (auto simp: insert_order_def abs_state_def order_row_of_def payment_of_def refund_of_def has_event_def find_snoc split: option.splits)
  moreover have "tables_wf d \<Longrightarrow> tables_wf (snd (insert_order i rq m now d))"
    using False by (auto simp: insert_order_def tables_wf_def list_ex_iff)
  moreover have "s_order (abs_state d) (co_OrderId i) = None" using none by (simp add: abs_state_def)
  ultimately show ?thesis using spec_step.create by (intro moves_step) simp
qed

lemma insert_payment_moves: "moves d (snd (insert_payment pid k u a now d))"
proof (cases "list_ex (\<lambda>r. p_id r = pid \<or> p_order_id r = k \<or> p_out_trade_no r = outTradeNoFor k) (payments d)")
  case True then show ?thesis by (simp add: insert_payment_def)
next
  case False
  then have none: "payment_of d k = None" by (auto simp: payment_of_def find_None list_ex_iff)
  have "abs_state (snd (insert_payment pid k u a now d)) = (abs_state d)\<lparr>s_pay := (s_pay (abs_state d))(k := Some payment_Init)\<rparr>"
    using False none by (auto simp: insert_payment_def abs_state_def order_row_of_def payment_of_def refund_of_def has_event_def find_snoc split: option.splits)
  moreover have "tables_wf d \<Longrightarrow> tables_wf (snd (insert_payment pid k u a now d))"
    using False by (auto simp: insert_payment_def tables_wf_def list_ex_iff)
  moreover have "s_pay (abs_state d) k = None" using none by (simp add: abs_state_def)
  ultimately show ?thesis using spec_step.open_payment by (intro moves_step) simp
qed

lemma insert_snapshot_moves: "moves d (snd (insert_snapshot k m im q now d))"
  by (rule moves_same_abs)
     (simp_all add: insert_snapshot_def abs_state_def order_row_of_def payment_of_def refund_of_def has_event_def tables_wf_def)

lemma InsertOrderCreatedOutbox_moves:
  assumes "InsertOrderCreatedOutbox k p w = (Inr u, w')"
  shows "moves (o_db w) (o_db w')"
proof -
  obtain now where d: "o_db w' = snd (insert_event (''order.created:'' @ k) ''order.created'' k p now (o_db w))"
    using assms unfolding InsertOrderCreatedOutbox_def by (auto elim!: bindE_InrE dest!: ret_InrD exec_snd simp del: append.simps)
  show ?thesis unfolding d by (rule moves_same_abs) (simp_all add: abs_insert_event)
qed

lemma create_order_body_moves:
  assumes "create_order_body i rq m im q w = (Inr u, w')"
  shows "moves (o_db w) (o_db w')"
proof -
  obtain a1 w1 a2 w2 a3 w3 now w4 pl where s: "exec (insert_order i rq m) w = (Inr a1, w1)"
    "exec (insert_snapshot (co_OrderId i) m im q) w1 = (Inr a2, w2)"
    "exec (insert_payment (paymentOrderIDFor (co_OrderId i)) (co_OrderId i) (co_UserId i) (q_PayableAmountFen q)) w2 = (Inr a3, w3)"
    "order_now w3 = (Inr now, w4)" "InsertOrderCreatedOutbox (co_OrderId i) pl w4 = (Inr u, w')"
    using assms unfolding create_order_body_def by (elim bindE_InrE)
  have "moves (o_db w) (o_db w1)" using exec_snd [OF s(1)] insert_order_moves by metis
  moreover have "moves (o_db w1) (o_db w2)" using exec_snd [OF s(2)] insert_snapshot_moves by metis
  moreover have "moves (o_db w2) (o_db w3)" using exec_snd [OF s(3)] insert_payment_moves by metis
  moreover have "moves (o_db w3) (o_db w')" using InsertOrderCreatedOutbox_moves [OF s(5)] order_now_db [OF s(4)] by simp
  ultimately show ?thesis by (blast intro: moves_trans)
qed

lemma rollback_body_moves:
  assumes "rollback_body k w = (Inr u, w')"
  shows "moves (o_db w) (o_db w')"
proof -
  let ?P = "\<lambda>r. o_id r = k \<and> o_status r = order_PendingPayment" and ?f = "\<lambda>now r. r\<lparr>o_status := order_Closed\<rparr>"
  obtain now where d: "o_db w' = snd (update_orders ?P ?f now (o_db w))"
    using assms unfolding rollback_body_def by (auto elim!: bindE_InrE dest!: ret_InrD exec_snd)
  show ?thesis
  proof (cases "fst (update_orders ?P ?f now (o_db w)) = 0")
    case True then show ?thesis unfolding d by (simp add: no_rows)
  next
    case False
    show ?thesis unfolding d
    proof (rule moves_step)
      assume wf: "tables_wf (o_db w)"
      note m = order_moved [where K = k and A = "\<lambda>a. a = order_PendingPayment" and b = order_Closed, OF wf False]
      show "tables_wf (snd (update_orders ?P ?f now (o_db w))) \<and>
          spec_step (abs_state (o_db w)) (abs_state (snd (update_orders ?P ?f now (o_db w))))"
        using m spec_step.abandon [of "abs_state (o_db w)" k] by simp
    qed
  qed
qed

end
