(* ===== verification/Refund_Consistency.thy ===== *)
theory Refund_Consistency
  imports Order_Consistency
begin

text \<open>
  The refund transactions of \<open>Order_Refund\<close> are business events of \<open>Order_Spec\<close>: request, attempted
  approval, repayment and rejection.
\<close>

section \<open>Rows\<close>

lemma one_row_Inr: "one_row m f w = (Inr u, w') \<Longrightarrow> \<exists>now. fst (f now (o_db w)) = 1 \<and> o_db w' = snd (f now (o_db w))"
  unfolding one_row_def by (auto elim!: bindE_InrE dest!: exec_snd ret_InrD)

lemma refund_log_Inr: "insertRefundStatusLog k a b u m w = (Inr x, w') \<Longrightarrow> \<exists>now. o_db w' = snd (insert_log k a b u m now (o_db w))"
  unfolding insertRefundStatusLog_def by (auto elim!: bindE_InrE dest!: exec_snd ret_InrD)

lemma refund_id_wf:
  assumes "tables_wf d" "r \<in> set (refunds d)"
  shows "rf_id r = refundIDForOrder (rf_order_id r)"
  using assms by (auto simp: tables_wf_def list_eq_iff_nth_eq in_set_conv_nth)

lemma refundIDForOrder_inject [simp]: "refundIDForOrder a = refundIDForOrder b \<longleftrightarrow> a = b"
  by (simp add: refundIDForOrder_def)

lemma auditable_open: "auditable a \<longleftrightarrow> refund_open a"
  by (simp add: auditable_def refund_open_def)

text \<open>An update of the open refund of an order, selected by its id.\<close>

lemma refund_id_moved:
  assumes wf: "tables_wf d" and aff: "fst (update_refunds P f now d) \<noteq> 0"
    and P: "\<And>r. P r \<Longrightarrow> rf_id r = refundIDForOrder K \<and> refund_open (rf_status r)"
    and f: "\<And>r. rf_id (f now r) = rf_id r" "\<And>r. rf_order_id (f now r) = rf_order_id r" "\<And>r. rf_status (f now r) = b"
  shows "\<exists>a. refund_open a \<and> s_refund (abs_state d) K = Some a"
    and "abs_state (snd (update_refunds P f now d)) = (abs_state d)\<lparr>s_refund := (s_refund (abs_state d))(K := Some b)\<rparr>"
    and "tables_wf (snd (update_refunds P f now d))"
proof -
  have key: "rf_order_id r = K \<and> refund_open (rf_status r)" if "r \<in> set (refunds d)" "P r" for r
    using P [OF that(2)] refund_id_wf [OF wf that(1)] by simp
  note m = refund_moved [where K = K and A = refund_open, OF wf aff key f]
  show "\<exists>a. refund_open a \<and> s_refund (abs_state d) K = Some a" by (rule m)
  show "abs_state (snd (update_refunds P f now d)) = (abs_state d)\<lparr>s_refund := (s_refund (abs_state d))(K := Some b)\<rparr>" by (rule m)
  show "tables_wf (snd (update_refunds P f now d))" by (rule m)
qed

lemma attempted_moves:
  assumes P: "\<And>r. P r \<Longrightarrow> rf_id r = refundIDForOrder K \<and> refund_open (rf_status r)"
    and f: "\<And>r. rf_id (f now r) = rf_id r" "\<And>r. rf_order_id (f now r) = rf_order_id r" "\<And>r. rf_status (f now r) = b"
    and b: "b = refund_Approved \<or> b = refund_Failed"
  shows "moves d (snd (update_refunds P f now d))"
proof (cases "fst (update_refunds P f now d) = 0")
  case True then show ?thesis by (simp add: no_rows)
next
  case False
  show ?thesis
  proof (rule moves_step)
    assume wf: "tables_wf d"
    show "tables_wf (snd (update_refunds P f now d)) \<and> spec_step (abs_state d) (abs_state (snd (update_refunds P f now d)))"
      using refund_id_moved [OF wf False P f] spec_step.attempted [OF _ _ b] by auto
  qed
qed

text \<open>An id of no order selects nothing.\<close>

lemma unknown_refund:
  assumes "tables_wf d" "\<And>K. X \<noteq> refundIDForOrder K" "\<And>r. P r \<Longrightarrow> rf_id r = X"
  shows "snd (update_refunds P f now d) = d"
proof -
  have "\<not> P r" if "r \<in> set (refunds d)" for r using refund_id_wf [OF assms(1) that] assms(2,3) by metis
  then have "fst (update_refunds P f now d) = 0" by (auto simp: update_refunds_def affected_def filter_empty_conv)
  then show ?thesis by (rule no_rows(3))
qed

section \<open>Requesting\<close>

lemma insert_refund_abs:
  assumes "insert_refund r now d = (Inr n, d')" "rf_id r = refundIDForOrder (rf_order_id r)"
  shows "s_refund (abs_state d) (rf_order_id r) = None"
    and "abs_state d' = (abs_state d)\<lparr>s_refund := (s_refund (abs_state d))(rf_order_id r := Some (rf_status r))\<rparr>"
    and "tables_wf d \<Longrightarrow> tables_wf d'"
proof -
  have new: "\<not> list_ex (\<lambda>x. rf_id x = rf_id r \<or> rf_order_id x = rf_order_id r) (refunds d)"
    and d': "d' = d\<lparr>refunds := refunds d @ [r\<lparr>rf_update_time := now\<rparr>]\<rparr>"
    using assms(1) by (auto simp: insert_refund_def split: if_splits)
  have none: "find (\<lambda>x. rf_order_id x = rf_order_id r) (refunds d) = None" using new by (auto simp: find_None list_ex_iff)
  show "s_refund (abs_state d) (rf_order_id r) = None" using none by (simp add: abs_state_def refund_of_def)
  show "abs_state d' = (abs_state d)\<lparr>s_refund := (s_refund (abs_state d))(rf_order_id r := Some (rf_status r))\<rparr>"
    using none by (auto simp: d' abs_state_def order_row_of_def payment_of_def refund_of_def has_event_def find_snoc split: option.splits)
  show "tables_wf d \<Longrightarrow> tables_wf d'" using new assms(2) by (auto simp: d' tables_wf_def list_ex_iff)
qed

lemma request_refund_apply_moves:
  assumes run: "request_refund_apply i k role b w = (Inr a, w')"
    and pre: "CanRequestRefund (rb_currentStatus b)" "s_pay (abs_state (o_db w)) k = Some payment_Success"
  shows "moves (o_db w) (o_db w')"
proof -
  obtain n w1 x w2 y w3 z r where s: "exec (request_refund_order k (rb_currentStatus b)) w = (Inr n, w1)" "n = 1"
    "stmt (insert_refund r) w1 = (Inr x, w2)" "insertRefundStatusLog k (rb_currentStatus b) order_RefundRequested (rreq_RequesterId i)
        (''refund requested: '' @ rreq_Reason i) w2 = (Inr y, w3)"
    "insertRefundOutbox ''refund.requested'' (refundIDForOrder k) k
        [(''requester_id'', JInt (rreq_RequesterId i)), (''requester_role'', JStr role),
         (''amount_fen'', JInt (rb_refundAmountFen b)), (''request_id'', JStr (rreq_RequestId i))] w3 = (Inr z, w')"
    and r: "rf_id r = refundIDForOrder k" "rf_order_id r = k" "rf_status r = refund_Requested"
    using run unfolding request_refund_apply_def Let_def by (fastforce elim!: bindE_InrE dest!: ret_InrD)
  obtain now1 where d1: "n = fst (request_refund_order k (rb_currentStatus b) now1 (o_db w))"
    "o_db w1 = snd (request_refund_order k (rb_currentStatus b) now1 (o_db w))" using exec_snd [OF s(1)] by blast
  obtain now2 where d2: "insert_refund r now2 (o_db w1) = (Inr x, o_db w2)" using stmt_Inr [OF s(3)] by blast
  obtain now3 where d3: "o_db w3 = snd (insert_log k (rb_currentStatus b) order_RefundRequested (rreq_RequesterId i)
      (''refund requested: '' @ rreq_Reason i) now3 (o_db w2))" using refund_log_Inr [OF s(4)] by blast
  note d4 = insertRefundOutbox_db [OF s(5)]
  note ins = insert_refund_abs [OF d2, unfolded r, simplified]
  show ?thesis
  proof (rule moves_step)
    assume wf: "tables_wf (o_db w)"
    have m: "s_order (abs_state (o_db w)) k = Some (rb_currentStatus b)" "tables_wf (o_db w1)"
      "abs_state (o_db w1) = (abs_state (o_db w))\<lparr>s_order := (s_order (abs_state (o_db w)))(k := Some order_RefundRequested)\<rparr>"
      using order_moved [where K = k and A = "\<lambda>a. a = rb_currentStatus b" and b = order_RefundRequested, OF wf,
          where P = "\<lambda>r. o_id r = k \<and> o_status r = rb_currentStatus b" and now = now1
            and f = "\<lambda>now r. r\<lparr>o_status := order_RefundRequested, o_refund_requested_at := Some now\<rparr>", folded request_refund_order_def]
        d1 s(2) by simp_all
    have "spec_step (abs_state (o_db w)) (abs_state (o_db w'))"
      using spec_step.request [OF m(1) pre] ins m(3) d3 d4(1) by simp
    moreover have "tables_wf (o_db w')" using d4(2) d3 ins(3) m(2) by simp
    ultimately show "tables_wf (o_db w') \<and> spec_step (abs_state (o_db w)) (abs_state (o_db w'))" by simp
  qed
qed

lemma request_refund_body_moves:
  assumes run: "request_refund_body i k role w = (Inr a, w')"
  shows "moves (o_db w) (o_db w')"
proof -
  obtain b existing w2 where q: "refundable_row k (o_db w) = Some b" "o_db w2 = o_db w"
    and body: "request_refund_decide i k role b existing w2 = (Inr a, w')"
    using run unfolding request_refund_body_def by (auto elim!: bindE_InrE dest!: run_dests)
  show ?thesis
  proof (cases existing)
    case (Some e) then show ?thesis using body q by (auto simp: request_refund_decide_def dest!: ret_InrD split: prod.splits)
  next
    case None
    then have pre: "CanRequestRefund (rb_currentStatus b)" "rb_paymentOrderID b \<noteq> []" "rb_paymentStatus b = payment_Success"
      and r: "request_refund_apply i k role b w2 = (Inr a, w')" using body by (auto simp: request_refund_decide_def)
    have "s_pay (abs_state (o_db w)) k = Some payment_Success"
      using q(1) pre(2,3) by (auto simp: refundable_row_def abs_state_def Let_def split: option.splits)
    then show ?thesis using request_refund_apply_moves [OF r pre(1)] q by simp
  qed
qed

section \<open>Auditing\<close>

lemma refund_event_kinds [simp]:
  "''refund.requested'' @ '':'' @ rid \<noteq> ''order.paid:'' @ x" "''refund.succeeded'' @ '':'' @ rid \<noteq> ''order.paid:'' @ x"
  "''refund.rejected'' @ '':'' @ rid \<noteq> ''order.paid:'' @ x" "''refund.failed'' @ '':'' @ rid \<noteq> ''order.paid:'' @ x"
  by simp_all

text \<open>Repayment: refund and order are completed, the log and the outbox are written.\<close>

lemma paid_back_moves:
  assumes rf: "fst (update_refunds P f now1 d) = 1" "d1 = snd (update_refunds P f now1 d)"
    and P: "\<And>r. P r \<Longrightarrow> rf_id r = refundIDForOrder K \<and> refund_open (rf_status r)"
    and f: "\<And>r. rf_id (f now1 r) = rf_id r" "\<And>r. rf_order_id (f now1 r) = rf_order_id r" "\<And>r. rf_status (f now1 r) = refund_Success"
    and ord: "fst (refund_paid_back K now2 d1) = 1" "d2 = snd (refund_paid_back K now2 d1)"
    and d3: "d3 = snd (insert_log K order_RefundRequested order_Refunded u m now3 d2)"
    and d4: "abs_state d4 = abs_state d3" "tables_wf d4 = tables_wf d3"
  shows "moves d d4"
proof (rule moves_step)
  assume wf: "tables_wf d"
  have "fst (update_refunds P f now1 d) \<noteq> 0" using rf by simp
  note a = refund_id_moved [where K = K, OF wf this P f, folded rf(2)]
  have b: "s_order (abs_state d1) K = Some order_RefundRequested" "tables_wf d2"
    "abs_state d2 = (abs_state d1)\<lparr>s_order := (s_order (abs_state d1))(K := Some order_Refunded)\<rparr>"
    using order_moved [where K = K and A = "\<lambda>a. a = order_RefundRequested" and b = order_Refunded, OF a(3),
        where P = "\<lambda>r. o_id r = K \<and> o_status r = order_RefundRequested" and now = now2
          and f = "\<lambda>now r. r\<lparr>o_status := order_Refunded, o_refunded_at := Some now\<rparr>", folded refund_paid_back_def]
      ord by simp_all
  obtain st where st: "refund_open st" "s_refund (abs_state d) K = Some st" using a(1) by blast
  have "s_order (abs_state d) K = Some order_RefundRequested" using a(2) b(1) by simp
  then show "tables_wf d4 \<and> spec_step (abs_state d) (abs_state d4)"
    using spec_step.paid_back [OF st(2,1)] a(2) b d3 d4 by simp
qed

text \<open>The last request in the log names the status to restore.\<close>

lemma last_refund_source_log:
  assumes "log_of (s_log (abs_state d)) K = es @ [(c, order_RefundRequested)]"
  shows "last_refund_source K d = Some c"
proof -
  have "map_option lg_from (find (\<lambda>l. lg_order_id l = K \<and> lg_to l = order_RefundRequested) (rev sl)) = Some c"
    if "log_of (map (\<lambda>l. (lg_order_id l, lg_from l, lg_to l)) sl) K = es @ [(c, order_RefundRequested)]" for sl :: "log_row list"
    using that by (induction sl rule: rev_induct) (auto simp: log_of_def split: if_splits)
  then show ?thesis using assms by (simp add: last_refund_source_def abs_state_def)
qed

lemma refund_requested_log:
  assumes "spec_inv s" "s_order s K = Some order_RefundRequested"
  obtains es c where "log_of (s_log s) K = es @ [(c, order_RefundRequested)]" "c = order_Paid \<or> c = order_Shipped"
proof (cases "log_of (s_log s) K" rule: rev_cases)
  case Nil
  then show thesis using spec_invD(3) [OF assms(1), of K] assms(2) by (simp add: log_consistent_def)
next
  case (snoc es e)
  then obtain x y where e: "e = (x, y)" by (cases e)
  have "leads_to order_PendingPayment (es @ [(x, y)]) order_RefundRequested"
    using spec_invD(3) [OF assms(1), of K] assms(2) snoc e by (simp add: log_consistent_def)
  then show thesis using that [of es x] snoc e by (auto simp: leads_to_snoc order_edge_def)
qed

lemma rejectRefund_moves:
  assumes run: "rejectRefund i (refundIDForOrder K) K w = (Inr a, w')"
  shows "moves (o_db w) (o_db w')"
proof -
  define st where "st = (case last_refund_source K (o_db w) of None \<Rightarrow> order_Paid | Some x \<Rightarrow> x)"
  define rst where "rst = (if st \<noteq> order_Paid \<and> st \<noteq> order_Shipped then order_Paid else st)"
  obtain w1 w2 w3 w4 x1 x2 x3 x4 where s: "o_db w1 = o_db w" "one_row ''refund status changed concurrently'' (reject_refund i (refundIDForOrder K)) w1 = (Inr x1, w2)"
    "one_row ''order status changed concurrently'' (restore_order K rst) w2 = (Inr x2, w3)"
    "insertRefundStatusLog K order_RefundRequested rst (ar_OperatorId i) (''refund rejected: '' @ ar_Remark i) w3 = (Inr x3, w4)"
    "insertRefundOutbox ''refund.rejected'' (refundIDForOrder K) K (audit_payload i) w4 = (Inr x4, w')"
    using run unfolding rejectRefund_def Let_def rst_def st_def by (auto elim!: bindE_InrE dest!: ret_InrD query_Inr)
  obtain now1 where d2: "fst (reject_refund i (refundIDForOrder K) now1 (o_db w)) = 1" "o_db w2 = snd (reject_refund i (refundIDForOrder K) now1 (o_db w))"
    using one_row_Inr [OF s(2)] s(1) by auto
  obtain now2 where d3: "fst (restore_order K rst now2 (o_db w2)) = 1" "o_db w3 = snd (restore_order K rst now2 (o_db w2))"
    using one_row_Inr [OF s(3)] by blast
  obtain now3 where d4: "o_db w4 = snd (insert_log K order_RefundRequested rst (ar_OperatorId i) (''refund rejected: '' @ ar_Remark i) now3 (o_db w3))"
    using refund_log_Inr [OF s(4)] by blast
  note d5 = insertRefundOutbox_db [OF s(5)]
  show ?thesis
  proof (rule moves_step)
    assume wf: "tables_wf (o_db w)" and inv: "spec_inv (abs_state (o_db w))"
    have a: "\<exists>x. refund_open x \<and> s_refund (abs_state (o_db w)) K = Some x" "tables_wf (o_db w2)"
      "abs_state (o_db w2) = (abs_state (o_db w))\<lparr>s_refund := (s_refund (abs_state (o_db w)))(K := Some refund_Rejected)\<rparr>"
      using refund_id_moved [where K = K and b = refund_Rejected, OF wf, where now = now1
          and P = "\<lambda>r. rf_id r = refundIDForOrder K \<and> auditable (rf_status r)"
          and f = "\<lambda>now r. r\<lparr>rf_status := refund_Rejected, rf_audit_remark := ar_Remark i, rf_operator_id := ar_OperatorId i,
                  rf_audit_time := Some now, rf_finish_time := None, rf_provider_status := ''REJECTED'', rf_provider_error := []\<rparr>",
          folded reject_refund_def] d2 by (simp_all add: auditable_open)
    have b: "s_order (abs_state (o_db w2)) K = Some order_RefundRequested" "tables_wf (o_db w3)"
      "abs_state (o_db w3) = (abs_state (o_db w2))\<lparr>s_order := (s_order (abs_state (o_db w2)))(K := Some rst)\<rparr>"
      using order_moved [where K = K and A = "\<lambda>a. a = order_RefundRequested" and b = rst, OF a(2),
          where P = "\<lambda>r. o_id r = K \<and> o_status r = order_RefundRequested" and now = now2
            and f = "\<lambda>now r. r\<lparr>o_status := rst, o_refund_requested_at := None\<rparr>", folded restore_order_def]
        d3 by simp_all
    have ord: "s_order (abs_state (o_db w)) K = Some order_RefundRequested" using a(3) b(1) by simp
    obtain es c where l: "log_of (s_log (abs_state (o_db w))) K = es @ [(c, order_RefundRequested)]" and c: "c = order_Paid \<or> c = order_Shipped"
      using refund_requested_log [OF inv ord] by blast
    have rst: "rst = c" using last_refund_source_log [OF l] c by (auto simp: rst_def st_def)
    obtain x where x: "refund_open x" "s_refund (abs_state (o_db w)) K = Some x" using a(1) by blast
    show "tables_wf (o_db w') \<and> spec_step (abs_state (o_db w)) (abs_state (o_db w'))"
      using spec_step.rejected [OF x(2,1) ord l] a(3) b(2,3) d4 d5 rst by simp
  qed
qed

text \<open>The common end of both ways to complete a refund.\<close>

definition complete_body :: "audit_req \<Rightarrow> (int \<Rightarrow> order_tables \<Rightarrow> int \<times> order_tables) \<Rightarrow> string \<Rightarrow> string \<Rightarrow> ('x order_world, refund_resp) io" where
  "complete_body i f refundID orderID =
     bindE (one_row ''refund status changed concurrently'' f) (\<lambda>_.
     bindE (one_row ''order status changed concurrently'' (refund_paid_back orderID)) (\<lambda>_.
     bindE (insertRefundStatusLog orderID order_RefundRequested order_Refunded (ar_OperatorId i) (''refund approved: '' @ ar_Remark i)) (\<lambda>_.
     bindE (insertRefundOutbox ''refund.succeeded'' refundID orderID (audit_payload i)) (\<lambda>_.
     ret (refundResponse refundID orderID order_Refunded refund_Success False)))))"

lemma complete_body_moves:
  assumes run: "complete_body i (update_refunds P f) X K w = (Inr a, w')"
    and P: "\<And>r. P r \<Longrightarrow> rf_id r = refundIDForOrder K \<and> refund_open (rf_status r)"
    and f: "\<And>now r. rf_id (f now r) = rf_id r" "\<And>now r. rf_order_id (f now r) = rf_order_id r" "\<And>now r. rf_status (f now r) = refund_Success"
  shows "moves (o_db w) (o_db w')"
proof -
  obtain x1 w1 x2 w2 x3 w3 x4 where s: "one_row ''refund status changed concurrently'' (update_refunds P f) w = (Inr x1, w1)"
    "one_row ''order status changed concurrently'' (refund_paid_back K) w1 = (Inr x2, w2)"
    "insertRefundStatusLog K order_RefundRequested order_Refunded (ar_OperatorId i) (''refund approved: '' @ ar_Remark i) w2 = (Inr x3, w3)"
    "insertRefundOutbox ''refund.succeeded'' X K (audit_payload i) w3 = (Inr x4, w')"
    using run unfolding complete_body_def by (auto elim!: bindE_InrE dest!: ret_InrD)
  obtain now1 where d1: "fst (update_refunds P f now1 (o_db w)) = 1" "o_db w1 = snd (update_refunds P f now1 (o_db w))"
    using one_row_Inr [OF s(1)] by blast
  obtain now2 where d2: "fst (refund_paid_back K now2 (o_db w1)) = 1" "o_db w2 = snd (refund_paid_back K now2 (o_db w1))"
    using one_row_Inr [OF s(2)] by blast
  obtain now3 where d3: "o_db w3 = snd (insert_log K order_RefundRequested order_Refunded (ar_OperatorId i) (''refund approved: '' @ ar_Remark i) now3 (o_db w2))"
    using refund_log_Inr [OF s(3)] by blast
  show ?thesis
    using paid_back_moves [OF d1 P f d2 d3] insertRefundOutbox_db [OF s(4)] by simp
qed

lemma completeApprovedRefund_alt:
  "completeApprovedRefund i X K = bindE RawDB (\<lambda>_. order_tx id (\<lambda>_ e. e) (complete_body i (complete_refund i X) X K))"
  by (simp add: completeApprovedRefund_def complete_body_def)

lemma approveRefund_Inr:
  assumes "approveRefund s cx i X K w = (Inr (Inr st), w')"
  shows "\<exists>w1 resp. o_db w1 = o_db w \<and> complete_body i (approve_local_refund i X) X K w1 = (Inr resp, w')"
proof -
  obtain res w1 where a: "attempt (releaseRefundStock s cx K) w = (Inr res, w1)" and b: "(case res of
         Inl err \<Rightarrow> ret (Inl err)
       | Inr _ \<Rightarrow>
           bindE (one_row ''refund status changed concurrently'' (approve_local_refund i X)) (\<lambda>_.
           bindE (one_row ''order status changed concurrently'' (refund_paid_back K)) (\<lambda>_.
           bindE (insertRefundStatusLog K order_RefundRequested order_Refunded (ar_OperatorId i) (''refund approved: '' @ ar_Remark i)) (\<lambda>_.
           bindE (insertRefundOutbox ''refund.succeeded'' X K (audit_payload i)) (\<lambda>_.
           ret (Inr (Answer (refundResponse X K order_Refunded refund_Success False)))))))) w1 = (Inr (Inr st), w')"
    using assms unfolding approveRefund_def by (elim bindE_InrE)
  have "o_db w1 = o_db w" using attempt_InrD [OF a] by (auto simp: releaseRefundStock_def fail_def split: option.splits dest: call_db)
  moreover have "\<exists>resp. complete_body i (approve_local_refund i X) X K w1 = (Inr resp, w')"
    using b by (cases res) (auto simp: complete_body_def ret_def bindE_def split: prod.splits sum.splits)
  ultimately show ?thesis by blast
qed

lemma moves_wf: "(tables_wf d \<Longrightarrow> moves d d') \<Longrightarrow> moves d d'"
  by (auto simp: moves_def)

lemma audit_row_id:
  assumes "tables_wf d" "audit_row_of X d = Some a"
  shows "X = refundIDForOrder (au_orderID a)"
  using assms by (auto simp: audit_row_of_def refund_id_wf dest!: find_SomeD split: option.splits)

lemma approve_external_tx_Inr:
  assumes run: "approve_external_tx s i e w = (Inr st, w')" and id: "er_RefundID e = refundIDForOrder (er_OrderID e)"
  shows "moves (o_db w) (o_db w')" and "\<exists>e'. st = External e' \<and> er_RefundID e' = refundIDForOrder (er_OrderID e')"
proof -
  obtain pv where pv: "PaymentProvider s = Some pv" "pv_Name pv = NameAlipaySandbox"
    using run by (auto simp: approve_external_tx_def split: option.splits)
  define e' where "e' = (if er_ProviderRefundID e = [] then e\<lparr>er_ProviderRefundID := providerRefundIDFor (er_RefundID e)\<rparr> else e)"
  have id': "er_RefundID e' = refundIDForOrder (er_OrderID e')" using id by (simp add: e'_def)
  have r: "(if er_ProviderStatus e' \<noteq> ''SUCCESS''
      then bindE (one_row ''refund status changed concurrently'' (start_external_refund i e')) (\<lambda>_. ret (External e'))
      else ret (External e')) w = (Inr st, w')"
    using run pv by (simp add: approve_external_tx_def Let_def e'_def cong: if_cong)
  show "\<exists>e'. st = External e' \<and> er_RefundID e' = refundIDForOrder (er_OrderID e')"
    using r id' by (cases "er_ProviderStatus e' \<noteq> ''SUCCESS''") (auto elim!: bindE_InrE dest!: ret_InrD)
  show "moves (o_db w) (o_db w')"
  proof (cases "er_ProviderStatus e' \<noteq> ''SUCCESS''")
    case True
    then obtain now where "o_db w' = snd (start_external_refund i e' now (o_db w))"
      using r by (auto elim!: bindE_InrE dest!: ret_InrD one_row_Inr)
    then show ?thesis unfolding start_external_refund_def id'
      by (simp, intro attempted_moves [where K = "er_OrderID e'" and b = refund_Approved]) (simp_all add: auditable_open)
  next
    case False then show ?thesis using r by (auto dest: ret_InrD)
  qed
qed

lemma mark_release_failed_moves: "moves d (snd (mark_release_failed i (refundIDForOrder K) m now d))"
  unfolding mark_release_failed_def
  by (rule attempted_moves [where K = K and b = refund_Failed]) (simp_all add: auditable_open)

end
