(* ===== verification/Order_Detail.thy ===== *)
theory Order_Detail
  imports Order_Store
begin

text \<open>
  Reading an order back: \<open>logic/getorderdetaillogic.go\<close>.  The query joins the order with its price
  snapshot and its payment, so an order without either is reported as not found.
\<close>

record order_detail =
  od_OrderId :: string
  od_UserId :: int
  od_OrderStatus :: string
  od_PayableAmountFen :: int
  od_PaymentStatus :: string
  od_OriginPriceFen :: int
  od_DiscountAmountFen :: int

definition orderDetailStatusText :: "int \<Rightarrow> string" where
  "orderDetailStatusText s =
     (if s = order_PendingPayment then ''PENDING_PAYMENT''
      else if s = order_Paid then ''PAID''
      else if s = order_Closed then ''CLOSED''
      else if s = order_Shipped then ''SHIPPED''
      else if s = order_Completed then ''COMPLETED''
      else if s = order_RefundRequested then ''REFUND_REQUESTED''
      else if s = order_Refunded then ''REFUNDED''
      else ''UNKNOWN'')"

definition paymentStatusText :: "int \<Rightarrow> string" where
  "paymentStatusText = payment_Text"

definition snapshot_of :: "order_tables \<Rightarrow> string \<Rightarrow> price_row option" where
  "snapshot_of d k = find (\<lambda>r. sn_order_id r = k) (price_snapshots d)"

definition detail_row :: "string \<Rightarrow> order_tables \<Rightarrow> (order_row \<times> price_row \<times> payment_row) option" where
  "detail_row k d =
     (case (order_row_of d k, snapshot_of d k, payment_of d k) of
        (Some ord, Some sn, Some p) \<Rightarrow> Some (ord, sn, p)
      | _ \<Rightarrow> None)"

definition GetOrderDetail :: "string \<Rightarrow> ('x order_world, order_detail) io" where
  "GetOrderDetail requested =
     (let orderID = TrimSpace requested in
      if orderID = [] then fail (StatusError codes_InvalidArgument ''order_id is required'')
      else bindE (map_err (on_no_rows (StatusError codes_NotFound ''order detail not found'') (\<lambda>e. e))
                   (query_row (detail_row orderID))) (\<lambda>(ord, sn, p).
           ret \<lparr>od_OrderId = o_id ord, od_UserId = o_user_id ord, od_OrderStatus = orderDetailStatusText (o_status ord),
                od_PayableAmountFen = sn_payable_amount_fen sn, od_PaymentStatus = paymentStatusText (p_status p),
                od_OriginPriceFen = i64 (sn_origin_unit_price_fen sn * sn_amount sn),
                od_DiscountAmountFen = sn_discount_amount_fen sn\<rparr>))"

lemma orderDetailStatusText_inject:
  "orderDetailStatusText a = orderDetailStatusText b \<Longrightarrow> orderDetailStatusText a \<noteq> ''UNKNOWN'' \<Longrightarrow> a = b"
  by (auto simp: orderDetailStatusText_def split: if_splits)

end
