(* ===== verification/Outbox_Publisher.thy ===== *)
theory Outbox_Publisher
  imports Order_Outbox_Insert
begin

text \<open>
  \<open>job/outbox_publisher.go\<close>: the publisher that moves outbox events to the message broker.  The broker
  is a parameter: \<open>publish\<close> stands for \<open>RabbitPublisher.PublishBatch\<close> on the broker's state.  The fields
  of \<open>OutboxPublisher\<close> that matter are the leader id and whether the lock is held; the lock itself is a
  Redis key with a deadline.  Metrics are left out.
\<close>

section \<open>Configuration\<close>

definition outboxStatusPending :: int where [simp]: "outboxStatusPending = 0"
definition outboxStatusPublished :: int where [simp]: "outboxStatusPublished = 1"
definition outboxStatusPublishing :: int where [simp]: "outboxStatusPublishing = 2"
definition outboxStatusDead :: int where [simp]: "outboxStatusDead = 3"

definition batchSize :: "order_config \<Rightarrow> int" where
  "batchSize c = (if OutboxBatchSize c \<le> 0 then 200 else OutboxBatchSize c)"

definition batchWasFull :: "order_config \<Rightarrow> int \<Rightarrow> bool" where
  "batchWasFull c processed \<longleftrightarrow> processed \<ge> batchSize c"

text \<open>In milliseconds; the product is a 64-bit \<open>int\<close>.\<close>

definition processTimeout :: "order_config \<Rightarrow> int \<Rightarrow> int" where
  "processTimeout c pollMs =
     (let t = i64 (pollMs * batchSize c);
          t = (if t < 5000 then 5000 else t)
      in if t > 60000 then 60000 else t)"

definition leaderLockKey :: "order_config \<Rightarrow> string" where
  "leaderLockKey c = (let k = TrimSpace (OutboxLeaderLockKey c) in if k = [] then ''order:outbox:publisher:leader'' else k)"

definition leaderLockTTL :: "order_config \<Rightarrow> int" where
  "leaderLockTTL c = (if OutboxLeaderLockTTL c < 30 then 90 else OutboxLeaderLockTTL c)"

section \<open>Leadership\<close>

record publisher =
  leaderID :: string
  leaderOwned :: bool

text \<open>The value of a lock key, unless its deadline has passed.\<close>

definition lock_value :: "'x order_world \<Rightarrow> string \<Rightarrow> string option" where
  "lock_value w k = (case o_locks w k of None \<Rightarrow> None | Some (v, dl) \<Rightarrow> if dl \<le> o_now w then None else Some v)"

definition SetnxEx :: "string \<Rightarrow> string \<Rightarrow> int \<Rightarrow> ('x order_world, bool) io" where
  "SetnxEx k v ttl = ext_call (\<lambda>w.
     if lock_value w k = None then (Inr True, w\<lparr>o_locks := (o_locks w)(k := Some (v, o_now w + ttl))\<rparr>) else (Inr False, w))"

definition renewLeaderLock :: "string \<Rightarrow> string \<Rightarrow> int \<Rightarrow> ('x order_world, int) io" where
  "renewLeaderLock k v ttl = ext_call (\<lambda>w.
     if lock_value w k = Some v then (Inr 1, w\<lparr>o_locks := (o_locks w)(k := Some (v, o_now w + ttl))\<rparr>) else (Inr 0, w))"

definition releaseLeaderLock :: "string \<Rightarrow> string \<Rightarrow> ('x order_world, int) io" where
  "releaseLeaderLock k v = ext_call (\<lambda>w.
     if lock_value w k = Some v then (Inr 1, w\<lparr>o_locks := (o_locks w)(k := None)\<rparr>) else (Inr 0, w))"

definition ensureLeadership :: "order_config \<Rightarrow> publisher \<Rightarrow> ('x order_world, bool \<times> publisher) io" where
  "ensureLeadership c p =
     (if \<not> OutboxSingleActive c then ret (True, p)
      else let lockKey = leaderLockKey c; ttl = leaderLockTTL c in
        if \<not> leaderOwned p
        then bindE (SetnxEx lockKey (leaderID p) ttl) (\<lambda>claimed.
             if \<not> claimed then ret (False, p) else ret (True, p\<lparr>leaderOwned := True\<rparr>))
        else bindE (renewLeaderLock lockKey (leaderID p) ttl) (\<lambda>renewed.
             if renewed \<noteq> 1 then ret (False, p\<lparr>leaderOwned := False\<rparr>) else ret (True, p)))"

definition publisher_Stop :: "order_config \<Rightarrow> publisher \<Rightarrow> ('x order_world, unit) io" where
  "publisher_Stop c p =
     (if OutboxSingleActive c then bindE (or_else (releaseLeaderLock (leaderLockKey c) (leaderID p)) 0) (\<lambda>_. ret ()) else ret ())"

section \<open>Publishing\<close>

record outbox_event =
  ev_ID :: int
  ev_EventID :: string
  ev_EventType :: string
  ev_Payload :: json
  ev_AttemptCount :: int

record rabbit_message =
  rb_RoutingKey :: string
  rb_MessageID :: string
  rb_MessageType :: string
  rb_Body :: json

definition event_of_row :: "outbox_row \<Rightarrow> outbox_event" where
  "event_of_row r = \<lparr>ev_ID = ob_id r, ev_EventID = ob_event_id r, ev_EventType = ob_event_type r, ev_Payload = ob_payload r,
     ev_AttemptCount = ob_attempt_count r\<rparr>"

definition message_of :: "order_config \<Rightarrow> outbox_event \<Rightarrow> rabbit_message" where
  "message_of c e =
     (let k = TrimSpace (ev_EventType e);
          k = (if k = [] then TrimSpace (RabbitMQRouteKey c) else k);
          k = (if k = [] then ''order.created'' else k)
      in \<lparr>rb_RoutingKey = k, rb_MessageID = ev_EventID e, rb_MessageType = ev_EventType e, rb_Body = ev_Payload e\<rparr>)"

definition publishBatch :: "(rabbit_message list \<Rightarrow> ('x, unit) io) \<Rightarrow> order_config \<Rightarrow> outbox_event list \<Rightarrow> ('x order_world, unit) io" where
  "publishBatch publish c events = call (publish (map (message_of c) events))"

definition move_events :: "int \<Rightarrow> int \<Rightarrow> (int \<Rightarrow> outbox_row \<Rightarrow> outbox_row) \<Rightarrow> int list \<Rightarrow> int \<Rightarrow> order_tables \<Rightarrow> int \<times> order_tables" where
  "move_events from to f ids =
     update_outbox (\<lambda>r. ob_status r = from \<and> ob_id r \<in> set ids) (\<lambda>now r. (f now r)\<lparr>ob_status := to, ob_update_time := now\<rparr>)"

definition batch_error :: "string \<Rightarrow> int \<Rightarrow> outbox_event list \<Rightarrow> go_error" where
  "batch_error what n events = RawError (''mark '' @ what @ '' batch affected='' @ show_int n @ '' expected='' @ show_int (int (length events)))"

definition markPublishingBatch :: "outbox_event list \<Rightarrow> ('x order_world, unit) io" where
  "markPublishingBatch events =
     (if events = [] then ret ()
      else bindE (exec (move_events outboxStatusPending outboxStatusPublishing (\<lambda>now r. r) (map ev_ID events))) (\<lambda>n.
           if n \<noteq> int (length events) then fail (batch_error ''publishing'' n events) else ret ()))"

definition markPublishedBatch :: "outbox_event list \<Rightarrow> ('x order_world, unit) io" where
  "markPublishedBatch events =
     (if events = [] then ret ()
      else bindE (exec (move_events outboxStatusPublishing outboxStatusPublished
                   (\<lambda>now r. r\<lparr>ob_published_at := Some now, ob_last_error := []\<rparr>) (map ev_ID events))) (\<lambda>n.
           if n \<noteq> int (length events) then fail (batch_error ''published'' n events) else ret ()))"

definition pending_events :: "int \<Rightarrow> int \<Rightarrow> order_tables \<Rightarrow> outbox_event list" where
  "pending_events batch now d =
     map event_of_row (take (nat batch) (sort_key ob_id (filter (\<lambda>r. ob_status r = outboxStatusPending \<and> ob_next_retry_at r \<le> now) (outbox d))))"

definition claim_one :: "outbox_event \<Rightarrow> outbox_event list \<Rightarrow> ('x order_world, outbox_event list) io" where
  "claim_one e claimed =
     bindE (exec (move_events outboxStatusPending outboxStatusPublishing (\<lambda>now r. r) [ev_ID e])) (\<lambda>n.
     ret (if n = 1 then claimed @ [e] else claimed))"

definition claimBatch :: "order_config \<Rightarrow> ('x order_world, outbox_event list) io" where
  "claimBatch c =
     bindE RawDB (\<lambda>_.
     bindE (stmt (\<lambda>now d. (Inr (pending_events (batchSize c) now d), d))) (\<lambda>candidates.
     if candidates = [] then ret []
     else if OutboxSingleActive c then bindE (markPublishingBatch candidates) (\<lambda>_. ret candidates)
     else fold_io claim_one candidates []))"

definition markRetry :: "order_config \<Rightarrow> go_error \<Rightarrow> outbox_event \<Rightarrow> ('x order_world, unit) io" where
  "markRetry c err e =
     (let retrySec = (if OutboxRetrySec c \<le> 0 then 5 else OutboxRetrySec c);
          maxRetries = (if OutboxMaxRetries c \<le> 0 then 8 else OutboxMaxRetries c);
          nextAttempt = ev_AttemptCount e + 1;
          nextStatus = (if nextAttempt > maxRetries then outboxStatusDead else outboxStatusPending)
      in bindE (exec (update_outbox (\<lambda>r. ob_id r = ev_ID e \<and> ob_status r = outboxStatusPublishing)
           (\<lambda>now r. r\<lparr>ob_status := nextStatus, ob_attempt_count := nextAttempt, ob_next_retry_at := now + retrySec,
                      ob_last_error := cut255 (err_text err), ob_update_time := now\<rparr>))) (\<lambda>_. ret ()))"

definition recoverTimeoutPublishing :: "order_config \<Rightarrow> ('x order_world, unit) io" where
  "recoverTimeoutPublishing c =
     (let timeoutSec = (if OutboxTimeoutSec c \<le> 0 then 60 else OutboxTimeoutSec c) in
      bindE (exec (\<lambda>now. update_outbox (\<lambda>r. ob_status r = outboxStatusPublishing \<and> ob_update_time r < now - timeoutSec)
        (\<lambda>now r. r\<lparr>ob_status := outboxStatusPending, ob_next_retry_at := now, ob_last_error := ''recovered from timeout'', ob_update_time := now\<rparr>) now))
      (\<lambda>_. ret ()))"

definition processOnce :: "(rabbit_message list \<Rightarrow> ('x, unit) io) \<Rightarrow> order_config \<Rightarrow> ('x order_world, int) io" where
  "processOnce publish c =
     bindE (recoverTimeoutPublishing c) (\<lambda>_.
     bindE (claimBatch c) (\<lambda>events.
     if events = [] then ret 0
     else bindE (attempt (publishBatch publish c events)) (\<lambda>res.
          case res of
            Inl err \<Rightarrow> bindE (for_each events (\<lambda>e. bindE (attempt (markRetry c err e)) (\<lambda>_. ret ()))) (\<lambda>_. ret (int (length events)))
          | Inr _ \<Rightarrow> bindE (attempt (markPublishedBatch events)) (\<lambda>_. ret (int (length events))))))"

end
