(* ===== verification/Pre_Deduct.thy ===== *)
theory Pre_Deduct
  imports Order_Store
begin

text \<open>
  Taking stock for an order, the stock branch of the order saga: \<open>preDeductLogic.go\<close>,
  \<open>preDeductRollbackLogic.go\<close> and \<open>stock_shard.go\<close> in \<open>app/order/rpc/internal/logic\<close>.  With an inventory
  client the branch is a reservation and its release; without one the order service keeps the stock
  in its own Redis with the two scripts below (a try key that records the shard taken from, a
  rollback key that stops a late try).
\<close>

section \<open>Shards\<close>

definition stockShardCount :: "int \<Rightarrow> int" where
  "stockShardCount configured = (if configured \<le> 0 then 1 else configured)"

definition stockShardKeys :: "int \<Rightarrow> int \<Rightarrow> string list" where
  "stockShardKeys productId n = map (\<lambda>i. ''stock:'' @ show_int productId @ '':'' @ show_int i) [0..n - 1]"

definition stockShardStartIndex :: "string \<Rightarrow> int \<Rightarrow> int" where
  "stockShardStartIndex orderId n = (if n \<le> 1 then 0 else uint (ChecksumIEEE orderId mod (word_of_int n :: 32 word)))"

definition splitStockAcrossShards :: "int \<Rightarrow> int \<Rightarrow> int list" where
  "splitStockAcrossShards n k =
     (let k = (if k \<le> 0 then 1 else k); per = go_div n k; remain = go_mod n k
      in map (\<lambda>i. if i = 0 then i64 (per + remain) else per) [0..k - 1])"

section \<open>The scripts\<close>

definition preDeductKeyTTLSeconds :: int where "preDeductKeyTTLSeconds = 86400"

text \<open>\<open>KEYS\<close> are the shard keys followed by the try and the rollback key; the result is the number returned.\<close>

fun pre_scan :: "string list \<Rightarrow> int \<Rightarrow> int \<Rightarrow> int \<Rightarrow> redis \<Rightarrow> int list \<Rightarrow> bool \<Rightarrow> bool + int \<times> int" where
  "pre_scan KS amount shards start r [] hasStockKey = Inl hasStockKey"
| "pre_scan KS amount shards start r (i # is) hasStockKey =
     (let idx = (start + i) mod shards + 1
      in case ctr r (at_key KS idx) of
           None \<Rightarrow> pre_scan KS amount shards start r is hasStockKey
         | Some stock \<Rightarrow> if stock \<ge> amount then Inr (idx, stock)
                         else pre_scan KS amount shards start r is True)"

definition preDeductLua :: "string list \<Rightarrow> int \<Rightarrow> int \<Rightarrow> int \<Rightarrow> int \<Rightarrow> (redis, int) io" where
  "preDeductLua KS amount ttl shards start r =
     (let tryKey = at_key KS (shards + 1);
          rollbackKey = at_key KS (shards + 2)
      in if ctr r rollbackKey \<noteq> None then (Inr 1, r)
         else if ctr r tryKey \<noteq> None then (Inr 1, r)
         else (case pre_scan KS amount shards start r [0..shards - 1] False of
                 Inr (idx, stock) \<Rightarrow>
                   let r1 = r_set tryKey idx (r_decrby (at_key KS idx) amount r)
                   in (Inr (stock - amount), if ttl > 0 then r_expire tryKey ttl r1 else r1)
               | Inl hasStockKey \<Rightarrow> (Inr (if \<not> hasStockKey then -1 else -2), r)))"

definition preDeductRollbackLua :: "string list \<Rightarrow> int \<Rightarrow> int \<Rightarrow> int \<Rightarrow> (redis, int) io" where
  "preDeductRollbackLua KS amount ttl shards r =
     (let tryKey = at_key KS (shards + 1);
          rollbackKey = at_key KS (shards + 2);
          mark = (\<lambda>r. let r1 = r_set rollbackKey 1 r in if ttl > 0 then r_expire rollbackKey ttl r1 else r1)
      in if ctr r rollbackKey \<noteq> None then (Inr 1, r)
         else case ctr r tryKey of
                None \<Rightarrow> (Inr 1, mark r)
              | Some idx \<Rightarrow>
                  (Inr 1, mark (if 1 \<le> idx \<and> idx \<le> int (length KS) then r_incrby (at_key KS idx) amount r else r)))"

fun seed_nx :: "string list \<Rightarrow> int list \<Rightarrow> redis \<Rightarrow> redis" where
  "seed_nx (k # ks) (v # vs) r = seed_nx ks vs (if ctr r k = None then r_set k v r else r)"
| "seed_nx _ _ r = r"

section \<open>The handlers\<close>

record pre_deduct_req =
  pq_OrderId :: string
  pq_ProductId :: int
  pq_Amount :: int

definition pre_deduct_keys :: "'x svc_ctx \<Rightarrow> pre_deduct_req \<Rightarrow> string list" where
  "pre_deduct_keys s i =
     stockShardKeys (pq_ProductId i) (stockShardCount (StockShardCount (Config s))) @
     [''order:pre_deduct:try:'' @ pq_OrderId i, ''order:pre_deduct:rollback:'' @ pq_OrderId i]"

definition evalPreDeduct :: "pre_deduct_req \<Rightarrow> string list \<Rightarrow> int \<Rightarrow> int \<Rightarrow> ('x order_world, int) io" where
  "evalPreDeduct i KS n start = order_eval (preDeductLua KS (pq_Amount i) preDeductKeyTTLSeconds n start)"

definition ensureRedisStockInitialized :: "'x svc_ctx \<Rightarrow> int \<Rightarrow> int \<Rightarrow> string list \<Rightarrow> ('x order_world, bool) io" where
  "ensureRedisStockInitialized s productID n stockKeys =
     (case ProductRpc s of
        None \<Rightarrow> fail (RawError ''product rpc not configured'')
      | Some getCard \<Rightarrow>
          bindE (call (getCard productID)) (\<lambda>card.
          let total = (if pd_StockAvailable card < 0 then 0 else pd_StockAvailable card) in
          bindE (order_eval (\<lambda>r. (Inr (1 :: int), seed_nx stockKeys (splitStockAcrossShards total n) r))) (\<lambda>_. ret True)))"

definition PreDeduct :: "'x svc_ctx \<Rightarrow> call_ctx \<Rightarrow> pre_deduct_req \<Rightarrow> ('x order_world, unit) io" where
  "PreDeduct s cx i =
     (if pq_OrderId i = [] then fail (StatusError codes_InvalidArgument ''order_id is required'')
      else case InventoryClient s of
        Some ic \<Rightarrow> call (ic_ReserveStock ic cx (pq_OrderId i) (pq_ProductId i) (pq_Amount i))
      | None \<Rightarrow>
          let n = stockShardCount (StockShardCount (Config s));
              stockKeys = stockShardKeys (pq_ProductId i) n;
              KS = pre_deduct_keys s i;
              start = stockShardStartIndex (pq_OrderId i) n
          in bindE (map_err (grpc codes_Internal ''redis pre-deduct failed'') (evalPreDeduct i KS n start)) (\<lambda>res.
             bindE (if res = -1
                    then bindE (or_else (ensureRedisStockInitialized s (pq_ProductId i) n stockKeys) False) (\<lambda>healed.
                         if healed then map_err (grpc codes_Internal ''redis pre-deduct failed'') (evalPreDeduct i KS n start) else ret res)
                    else ret res) (\<lambda>res.
             if res = -1 then fail (StatusError codes_FailedPrecondition ''stock not initialized'')
             else if res = -2 then fail (StatusError codes_Aborted ''insufficient stock'')
             else ret ())))"

definition PreDeductRollback :: "'x svc_ctx \<Rightarrow> call_ctx \<Rightarrow> pre_deduct_req \<Rightarrow> ('x order_world, unit) io" where
  "PreDeductRollback s cx i =
     (if pq_OrderId i = [] then fail (StatusError codes_InvalidArgument ''order_id is required'')
      else case InventoryClient s of
        Some ic \<Rightarrow> call (ic_ReleaseStock ic cx (pq_OrderId i) ''pre_deduct_rollback'')
      | None \<Rightarrow>
          bindE (map_err (grpc codes_Internal ''redis pre-deduct rollback failed'')
                  (order_eval (preDeductRollbackLua (pre_deduct_keys s i) (pq_Amount i) preDeductKeyTTLSeconds
                     (stockShardCount (StockShardCount (Config s)))))) (\<lambda>_. ret ()))"

end
