(* ===== verification/Order_Server.thy ===== *)
theory Order_Server
  imports Refund_Consistency Order_Detail Outbox_Publisher Pre_Deduct
begin

text \<open>
  The order service as a whole.  \<open>serve\<close> runs one request of \<open>server/orderServer.go\<close>, one run of a
  background job, or lets time pass; a history of the service is a sequence of these, each with
  whatever losses the fault schedule holds.  Every history refines \<open>Order_Spec\<close>.
\<close>

section \<open>Audits\<close>

lemma releaseRefundStock_db: "releaseRefundStock s cx k w = (x, w') \<Longrightarrow> o_db w' = o_db w"
  by (auto simp: releaseRefundStock_def fail_def split: option.splits dest: call_db)

lemma approve_local_moves:
  assumes "complete_body i (approve_local_refund i (refundIDForOrder K)) X K w = (Inr a, w')"
  shows "moves (o_db w) (o_db w')"
  using assms unfolding approve_local_refund_def
  by (rule complete_body_moves) (simp_all add: auditable_open)

lemma complete_refund_moves:
  assumes "complete_body i (complete_refund i (refundIDForOrder K)) X K w = (Inr a, w')"
  shows "moves (o_db w) (o_db w')"
  using assms unfolding complete_refund_def
  by (rule complete_body_moves) (auto simp: refund_open_def)

text \<open>How an audit transaction can end without an error.\<close>

lemma audit_decide_cases:
  assumes "audit_decide s cx i X a w = (Inr r, w')"
  obtains (unchanged) resp where "o_db w' = o_db w" "r = Inr (Answer resp)"
  | (outside) e st where "approve_external_tx s i e w = (Inr st, w')" "r = Inr st" "er_RefundID e = X" "er_OrderID e = au_orderID a"
  | (inside) res where "approveRefund s cx i X (au_orderID a) w = (Inr res, w')"
      "r = (case res of Inl err \<Rightarrow> Inl (err, au_orderID a) | Inr st \<Rightarrow> Inr st)"
  | (declined) resp where "rejectRefund i X (au_orderID a) w = (Inr resp, w')" "r = Inr (Answer resp)"
proof -
  have out: thesis if "bindE (approve_external_tx s i e) (\<lambda>st. ret (Inr st)) w = (Inr r, w')" "er_RefundID e = X" "er_OrderID e = au_orderID a" for e
    using that by (elim bindE_InrE) (auto dest!: ret_InrD intro: outside)
  have ins: thesis if "bindE (approveRefund s cx i X (au_orderID a)) (\<lambda>res.
       case res of Inl err \<Rightarrow> ret (Inl (err, au_orderID a)) | Inr st \<Rightarrow> ret (Inr st)) w = (Inr r, w')"
    using that by (elim bindE_InrE) (auto dest!: ret_InrD intro!: inside split: sum.splits)
  have dec: thesis if "bindE (rejectRefund i X (au_orderID a)) (\<lambda>resp. ret (Inr (Answer resp))) w = (Inr r, w')"
    using that by (elim bindE_InrE) (auto dest!: ret_InrD intro: declined)
  have rel: thesis if "bindE (map_err g (releaseRefundStock s cx (au_orderID a))) (\<lambda>_. ret (Inr (Answer resp))) w = (Inr r, w')" for g resp
    using that by (elim bindE_InrE) (auto dest!: ret_InrD map_err_InrD releaseRefundStock_db intro: unchanged)
  have rt: thesis if "ret (Inr (Answer resp)) w = (Inr r, w')" for resp
    using that by (auto dest!: ret_InrD intro: unchanged)
  show thesis
    using assms unfolding audit_decide_def
    by (simp only: if_fail_Inr split: if_splits) (elim conjE, (erule rel | erule rt | erule ins | erule dec | (erule out; simp)))+
qed

lemma audit_decide_moves:
  assumes run: "audit_decide s cx i X a w = (Inr (Inr st), w')" and id: "X = refundIDForOrder (au_orderID a)"
  shows "moves (o_db w) (o_db w')" "\<And>e. st = External e \<Longrightarrow> er_RefundID e = refundIDForOrder (er_OrderID e)"
proof -
  have "moves (o_db w) (o_db w') \<and> (\<forall>e. st = External e \<longrightarrow> er_RefundID e = refundIDForOrder (er_OrderID e))"
    using run
  proof (cases rule: audit_decide_cases)
    case (unchanged resp) then show ?thesis by simp
  next
    case (outside e st') then show ?thesis using approve_external_tx_Inr [OF outside(1)] id by auto
  next
    case (inside res)
    then have "approveRefund s cx i X (au_orderID a) w = (Inr (Inr st), w')" by (auto split: sum.splits)
    moreover have "st = Answer (refundResponse X (au_orderID a) order_Refunded refund_Success False)"
      using calculation unfolding approveRefund_def by (auto elim!: bindE_InrE dest!: ret_InrD split: sum.splits)
    ultimately show ?thesis using approveRefund_Inr [of s cx i X "au_orderID a" w st w'] id approve_local_moves by fastforce
  next
    case (declined resp) then show ?thesis using rejectRefund_moves id by auto
  qed
  then show "moves (o_db w) (o_db w')" "\<And>e. st = External e \<Longrightarrow> er_RefundID e = refundIDForOrder (er_OrderID e)" by auto
qed

lemma audit_decide_failed: "audit_decide s cx i X a w = (Inr (Inl (err, k)), w') \<Longrightarrow> k = au_orderID a"
  by (erule audit_decide_cases) (auto split: sum.splits)

section \<open>Handlers\<close>

lemma keeps_payment_notes [keeps_rules]:
  "keeps (on_odb (good s0)) (exec (release_failed k m))" "keeps (on_odb (good s0)) (exec (release_succeeded k))"
  "keeps (on_odb (good s0)) (exec (finalize_failed k m))" "keeps (on_odb (good s0)) (exec (finalize_succeeded k))"
  "keeps (on_odb (good s0)) (exec (recovery_release_failed k m))" "keeps (on_odb (good s0)) (exec (recovery_release_succeeded k))"
  "keeps (on_odb (good s0)) (exec (save_local_payment k st mi))"
  "keeps (on_odb (good s0)) (exec (save_provider_payment nm qr ot k st mi))"
  "keeps (on_odb (good s0)) (exec (update_payments Q (\<lambda>now r. r\<lparr>p_provider_status := ps, p_update_time := now\<rparr>)))"
  "keeps (on_odb (good s0)) (exec (update_payments Q (\<lambda>now r. r\<lparr>p_provider_status := ps\<rparr>)))"
  unfolding release_failed_def release_succeeded_def finalize_failed_def finalize_succeeded_def recovery_release_failed_def
    recovery_release_succeeded_def save_local_payment_def save_provider_payment_def
  by (rule keeps_exec_moves, rule payment_unmoved; simp)+

lemma keeps_case [keeps_rules]:
  "(\<And>e. r = Inl e \<Longrightarrow> keeps I (f e)) \<Longrightarrow> (\<And>a. r = Inr a \<Longrightarrow> keeps I (g a)) \<Longrightarrow> keeps I (case r of Inl e \<Rightarrow> f e | Inr a \<Rightarrow> g a)"
  "(o' = None \<Longrightarrow> keeps I m) \<Longrightarrow> (\<And>b. o' = Some b \<Longrightarrow> keeps I (h b)) \<Longrightarrow> keeps I (case o' of None \<Rightarrow> m | Some b \<Rightarrow> h b)"
  "(\<And>x y. p = (x, y) \<Longrightarrow> keeps I (q x y)) \<Longrightarrow> keeps I (case p of (x, y) \<Rightarrow> q x y)"
  by (auto split: sum.splits option.splits prod.splits)

lemma keeps_executeLifecycleTransition:
  "lifecycle_edge c \<Longrightarrow> keeps (on_odb (good s0)) (executeLifecycleTransition s c)"
  unfolding executeLifecycleTransition_def by (intro keeps_rules keeps_order_tx lifecycle_body_moves)

lemma keeps_releaseClosedOrder [keeps_rules]: "keeps (on_odb (good s0)) (releaseClosedOrder s cx k reason)"
  unfolding releaseClosedOrder_def by (intro keeps_rules)

lemma keeps_closeProviderPayment [keeps_rules]: "keeps (on_odb (good s0)) (closeProviderPayment s k)"
  unfolding closeProviderPayment_def by (intro keeps_rules)

lemma keeps_commands [keeps_rules]:
  "keeps (on_odb (good s0)) (CancelUserOrder s cx req)" "keeps (on_odb (good s0)) (CloseAdminOrder s cx req)"
  "keeps (on_odb (good s0)) (ShipAdminOrder s cx req)" "keeps (on_odb (good s0)) (ShipMerchantOrder s cx req)"
  "keeps (on_odb (good s0)) (ConfirmReceipt s cx req)"
  unfolding CancelUserOrder_def CloseAdminOrder_def ShipAdminOrder_def ShipMerchantOrder_def ConfirmReceipt_def Let_def
  by (intro keeps_rules keeps_executeLifecycleTransition; simp add: lifecycle_edge_def no_transition_def)+

lemma keeps_confirmInventoryDeduct [keeps_rules]: "keeps (on_odb (good s0)) (confirmInventoryDeduct s cx k)"
  unfolding confirmInventoryDeduct_def Let_def by (intro keeps_rules)

lemma keeps_MarkPaid [keeps_rules]: "keeps (on_odb (good s0)) (MarkPaid s cx i)"
  unfolding MarkPaid_def
  by (intro keeps_rules keeps_order_tx mark_paid_body_moves) (auto split: mark_outcome.splits intro!: keeps_rules)

lemma keeps_CreatePayment [keeps_rules]: "keeps (on_odb (good s0)) (CreatePayment s req)"
  unfolding CreatePayment_def createLocalPayment_def createProviderPayment_def Let_def by (intro keeps_rules)

lemma keeps_HandlePaymentNotification [keeps_rules]: "keeps (on_odb (good s0)) (HandlePaymentNotification s cx req)"
  unfolding HandlePaymentNotification_def Let_def by (intro keeps_rules)

lemma keeps_RequestRefund [keeps_rules]: "keeps (on_odb (good s0)) (RequestRefund i)"
  unfolding RequestRefund_def Let_def by (intro keeps_rules keeps_order_tx request_refund_body_moves)

lemma keeps_recovery [keeps_rules]:
  "keeps (on_odb (good s0)) (releaseInventory s cx k reason)" "keeps (on_odb (good s0)) (on_provider_paid s cx p)"
  unfolding releaseInventory_def on_provider_paid_def by (intro keeps_rules)+

lemma keeps_closeExpired:
  assumes "\<And>h p. onPaid = Some h \<Longrightarrow> keeps (on_odb (good s0)) (h p)"
  shows "keeps (on_odb (good s0)) (closeExpired s cx onPaid item)"
  unfolding closeExpired_def ask_provider_def Let_def by (intro keeps_rules keeps_order_tx expire_body_moves assms)

lemma keeps_RunOnce [keeps_rules]: "keeps (on_odb (good s0)) (RunOnce s cx (Some (on_provider_paid s cx)))"
  unfolding RunOnce_def closeExpiredBatch_def retryInventoryFinalizations_def retryInventoryReleases_def finalizeInventory_def recoveryOrderIDs_def
  by (intro keeps_rules keeps_closeExpired keeps_stmt) (auto intro!: keeps_rules split: sum.splits)

lemma attempted_any:
  assumes P: "\<And>r. P r \<Longrightarrow> rf_id r = X \<and> refund_open (rf_status r)"
    and f: "\<And>r. rf_id (f now r) = rf_id r" "\<And>r. rf_order_id (f now r) = rf_order_id r" "\<And>r. rf_status (f now r) = b"
    and b: "b = refund_Approved \<or> b = refund_Failed"
  shows "moves d (snd (update_refunds P f now d))"
proof (rule moves_wf)
  assume wf: "tables_wf d"
  show "moves d (snd (update_refunds P f now d))"
  proof (cases "\<exists>K. X = refundIDForOrder K")
    case True
    then obtain K where X: "X = refundIDForOrder K" by blast
    show ?thesis by (rule attempted_moves [where K = K and P = P and f = f and now = now and b = b]) (use P X f b in auto)
  next
    case False
    then show ?thesis using unknown_refund [OF wf, of X P f now] P by simp
  qed
qed

lemma keeps_markRefundReleaseFailed [keeps_rules]: "keeps (on_odb (good s0)) (markRefundReleaseFailed i X k e)"
  unfolding markRefundReleaseFailed_def Let_def
proof (intro keeps_rules keeps_order_tx)
  let ?m = "trimRefundError e"
  let ?out = "insertRefundOutbox ''refund.failed'' X k
      [(''operator_id'', JInt (ar_OperatorId i)), (''error_message'', JStr ?m), (''request_id'', JStr (ar_RequestId i))]"
  fix w a w'
  assume "bindE (exec (mark_release_failed i X ?m)) (\<lambda>rows. if rows = 0 then ret () else ?out) w = (Inr a, w')"
  then obtain n w1 where s: "exec (mark_release_failed i X ?m) w = (Inr n, w1)" "(if n = 0 then ret () else ?out) w1 = (Inr a, w')"
    by (elim bindE_InrE)
  obtain now where d: "o_db w1 = snd (mark_release_failed i X ?m now (o_db w))" using exec_snd [OF s(1)] by blast
  have "moves (o_db w) (o_db w1)" unfolding d mark_release_failed_def
    by (rule attempted_any [where X = X and b = refund_Failed]) (simp_all add: auditable_open)
  moreover have "moves (o_db w1) (o_db w')"
    using s(2) insertRefundOutbox_db [of "''refund.failed''" X k _ w1 a w'] moves_same_abs [of "o_db w'" "o_db w1"]
    by (cases "n = 0") (auto dest!: ret_InrD)
  ultimately show "moves (o_db w) (o_db w')" by (rule moves_trans)
qed

lemma keeps_provider_notes [keeps_rules]:
  "keeps (on_odb (good s0)) (markProviderRefundFailed i e err)" "keeps (on_odb (good s0)) (exec (save_provider_result e st))"
  unfolding markProviderRefundFailed_def Let_def save_provider_result_def
  by (intro keeps_bindE keeps_ret keeps_exec_moves attempted_any [where X = "er_RefundID e" and b = refund_Failed];
      simp add: refund_open_def)
     (rule keeps_exec_moves, rule refund_unmoved; simp)

lemma keeps_releaseRefundStock [keeps_rules]: "keeps (on_odb P) (releaseRefundStock s cx k)"
  by (rule keepsI) (metis on_odb_def prod.collapse releaseRefundStock_db)

lemma keeps_finish_external_refund:
  assumes "er_RefundID e = refundIDForOrder (er_OrderID e)"
  shows "keeps (on_odb (good s0)) (finish_external_refund s cx i e)"
  unfolding finish_external_refund_def completeApprovedRefund_alt assms
  by (intro keeps_rules keeps_order_tx complete_refund_moves)

lemma audit_body_Inr:
  assumes "audit_body s cx i X w = (Inr (Inr st), w')"
  shows "moves (o_db w) (o_db w')"
    and "\<And>e. st = External e \<Longrightarrow> tables_wf (o_db w) \<Longrightarrow> er_RefundID e = refundIDForOrder (er_OrderID e)"
proof -
  obtain a w1 where q: "audit_row_of X (o_db w) = Some a" "o_db w1 = o_db w" and r: "audit_decide s cx i X a w1 = (Inr (Inr st), w')"
    using assms unfolding audit_body_def by (auto elim!: bindE_InrE dest!: run_dests)
  show "moves (o_db w) (o_db w')"
    using audit_decide_moves(1) [OF r] audit_row_id [OF _ q(1)] q(2) by (metis moves_wf)
  show "\<And>e. st = External e \<Longrightarrow> tables_wf (o_db w) \<Longrightarrow> er_RefundID e = refundIDForOrder (er_OrderID e)"
    using audit_decide_moves(2) [OF r] audit_row_id [OF _ q(1)] by blast
qed

lemma keeps_AuditRefund [keeps_rules]: "keeps (on_odb (good s0)) (AuditRefund s cx i)"
  unfolding AuditRefund_def Let_def
proof (intro keeps_if keeps_fail keeps_bindE [OF keeps_map_err [OF keeps_RawDB]])
  show "keeps (on_odb (good s0)) (bindE (order_tx_or (grpc codes_Internal ''begin refund audit transaction failed'') (audit_body s cx i (TrimSpace (ar_RefundId i)))) (\<lambda>res.
      case res of
        Inl (err, orderID) \<Rightarrow>
          bindE (map_err (grpc codes_Internal ''record inventory release failure failed'') (markRefundReleaseFailed i (TrimSpace (ar_RefundId i)) orderID err)) (\<lambda>_.
          fail (StatusError codes_Unavailable ''inventory release failed''))
      | Inr (Answer resp) \<Rightarrow> ret resp
      | Inr (External refund) \<Rightarrow> finish_external_refund s cx i refund))" (is "keeps _ (bindE ?tx ?k)")
  proof (rule keeps_bindE_inv)
    show "keeps (on_odb (good s0)) ?tx" by (rule keeps_order_tx_or) (rule audit_body_Inr)
    fix w res w' assume I: "on_odb (good s0) w" and run: "?tx w = (Inr res, w')"
    have "er_RefundID e = refundIDForOrder (er_OrderID e)" if "res = Inr (External e)" for e
      using run
    proof (cases rule: order_tx_or_cases)
      case kept
      then show ?thesis using that by blast
    next
      case (committed fs a w1)
      then show ?thesis using audit_body_Inr(2) [OF committed(1)] that I by (simp add: on_odb_def good_def)
    qed
    then show "keeps (on_odb (good s0)) (?k res)"
      by (auto intro!: keeps_rules keeps_finish_external_refund split: sum.splits audit_step.splits)
  qed
qed


lemma barrier_moves:
  fixes b :: "'x barrier"
  assumes "barrier_ok b" "\<And>w w'. body w = (Inr (), w') \<Longrightarrow> moves (o_db w) (o_db w')"
  shows "keeps (on_odb (good s0)) (b body)"
proof (rule keepsI)
  fix w :: "'x order_world" assume I: "on_odb (good s0) w"
  obtain x w' where run: "b body w = (x, w')" by (cases "b body w")
  have "moves (o_db w) (o_db w')"
    using assms(1) [unfolded barrier_ok_def, rule_format, OF run] assms(2) by fastforce
  then show "on_odb (good s0) (snd (b body w))" using I run by (simp add: on_odb_def moves_good)
qed

lemma keeps_CreateOrder:
  assumes "\<And>b. barrier = Some b \<Longrightarrow> barrier_ok b"
  shows "keeps (on_odb (good s0)) (CreateOrder s barrier i)"
  unfolding CreateOrder_def Let_def loadProductMerchantID_def
  by (intro keeps_rules barrier_moves assms create_order_body_moves)

lemma keeps_CreateOrderRollback:
  assumes "\<And>b. barrier = Some b \<Longrightarrow> barrier_ok b"
  shows "keeps (on_odb (good s0)) (CreateOrderRollback barrier k)"
  unfolding CreateOrderRollback_def by (intro keeps_rules barrier_moves assms rollback_body_moves)

lemma keeps_pre_deduct [keeps_rules]:
  "keeps (on_odb P) (PreDeduct s cx q)" "keeps (on_odb P) (PreDeductRollback s cx q)" "keeps (on_odb P) (GetOrderDetail k)"
  unfolding PreDeduct_def PreDeductRollback_def evalPreDeduct_def ensureRedisStockInitialized_def Let_def GetOrderDetail_def
  by (intro keeps_rules)+

text \<open>Publishing only touches the state of outbox rows that exist.\<close>

lemma keeps_update_outbox [keeps_rules]:
  assumes "\<And>now r. ob_event_id (f now r) = ob_event_id r"
  shows "keeps (on_odb (good s0)) (exec (\<lambda>now. update_outbox (P now) f now))"
  by (rule keeps_exec_moves, rule moves_same_abs) (use assms in \<open>simp_all add: abs_update_outbox\<close>)


lemma keeps_publisher [keeps_rules]:
  "keeps (on_odb (good s0)) (processOnce publish c)" "keeps (on_odb (good s0)) (ensureLeadership c p)" "keeps (on_odb (good s0)) (publisher_Stop c p)"
proof -
  have locks: "keeps (on_odb (good s0)) (SetnxEx k v t)" "keeps (on_odb (good s0)) (renewLeaderLock k v t)" "keeps (on_odb (good s0)) (releaseLeaderLock k v)" for k v t
    unfolding SetnxEx_def renewLeaderLock_def releaseLeaderLock_def by (intro keeps_ext_call keepsI; simp add: on_odb_def)+
  show "keeps (on_odb (good s0)) (ensureLeadership c p)" "keeps (on_odb (good s0)) (publisher_Stop c p)"
    unfolding ensureLeadership_def publisher_Stop_def Let_def by (intro keeps_rules locks)+
  have marks: "keeps (on_odb (good s0)) (recoverTimeoutPublishing c)" "keeps (on_odb (good s0)) (claimBatch c)"
    "keeps (on_odb (good s0)) (markRetry c err e)" "keeps (on_odb (good s0)) (markPublishedBatch es)" for err e es
    unfolding recoverTimeoutPublishing_def claimBatch_def markPublishingBatch_def claim_one_def markRetry_def markPublishedBatch_def move_events_def Let_def
    by (intro keeps_rules keeps_stmt; simp)+
  show "keeps (on_odb (good s0)) (processOnce publish c)"
    unfolding processOnce_def publishBatch_def by (intro keeps_rules marks)
qed

section \<open>The service\<close>

text \<open>
  What can happen to the service: a request of \<open>orderServer.go\<close> (the barrier is what
  \<open>BarrierFromGrpc\<close> finds in the request), a run of a background job, the passing of time, or a
  change in one of the other systems.
\<close>

datatype 'x event =
    PreDeductEvent call_ctx pre_deduct_req
  | PreDeductRollbackEvent call_ctx pre_deduct_req
  | CreateOrderEvent "'x barrier option" create_order_req
  | CreateOrderRollbackEvent "'x barrier option" string
  | CreatePaymentEvent "(string \<times> int) option"
  | HandlePaymentNotificationEvent call_ctx "(string \<times> string) option"
  | MarkOrderPaidEvent call_ctx mark_paid_req
  | GetOrderDetailEvent string
  | RequestRefundEvent refund_req
  | AuditRefundEvent call_ctx audit_req
  | CancelUserOrderEvent call_ctx "command_req option"
  | CloseAdminOrderEvent call_ctx "command_req option"
  | ShipAdminOrderEvent call_ctx "command_req option"
  | ShipMerchantOrderEvent call_ctx "command_req option"
  | ConfirmReceiptEvent call_ctx "command_req option"
  | RecoveryRun call_ctx
  | PublisherRun "rabbit_message list \<Rightarrow> ('x, unit) io"
  | PublisherLead publisher
  | PublisherStop publisher
  | Elsewhere "nat \<Rightarrow> 'x \<Rightarrow> 'x" nat

fun serve :: "'x svc_ctx \<Rightarrow> 'x event \<Rightarrow> 'x order_world \<Rightarrow> 'x order_world" where
  "serve s (PreDeductEvent cx q) w = snd (PreDeduct s cx q w)"
| "serve s (PreDeductRollbackEvent cx q) w = snd (PreDeductRollback s cx q w)"
| "serve s (CreateOrderEvent b q) w = snd (CreateOrder s b q w)"
| "serve s (CreateOrderRollbackEvent b k) w = snd (CreateOrderRollback b k w)"
| "serve s (CreatePaymentEvent q) w = snd (CreatePayment s q w)"
| "serve s (HandlePaymentNotificationEvent cx q) w = snd (HandlePaymentNotification s cx q w)"
| "serve s (MarkOrderPaidEvent cx q) w = snd (MarkPaid s cx q w)"
| "serve s (GetOrderDetailEvent k) w = snd (GetOrderDetail k w)"
| "serve s (RequestRefundEvent q) w = snd (RequestRefund q w)"
| "serve s (AuditRefundEvent cx q) w = snd (AuditRefund s cx q w)"
| "serve s (CancelUserOrderEvent cx q) w = snd (CancelUserOrder s cx q w)"
| "serve s (CloseAdminOrderEvent cx q) w = snd (CloseAdminOrder s cx q w)"
| "serve s (ShipAdminOrderEvent cx q) w = snd (ShipAdminOrder s cx q w)"
| "serve s (ShipMerchantOrderEvent cx q) w = snd (ShipMerchantOrder s cx q w)"
| "serve s (ConfirmReceiptEvent cx q) w = snd (ConfirmReceipt s cx q w)"
| "serve s (RecoveryRun cx) w = snd (RunOnce s cx (Some (on_provider_paid s cx)) w)"
| "serve s (PublisherRun publish) w = snd (processOnce publish (Config s) w)"
| "serve s (PublisherLead p) w = snd (ensureLeadership (Config s) p w)"
| "serve s (PublisherStop p) w = snd (publisher_Stop (Config s) p w)"
| "serve s (Elsewhere f seconds) w = w\<lparr>o_now := o_now w + int seconds, o_ext := f seconds (o_ext w)\<rparr>"

text \<open>The requests whose barrier, if any, keeps the contract of the transaction manager.\<close>

fun event_ok :: "'x event \<Rightarrow> bool" where
  "event_ok (CreateOrderEvent b q) \<longleftrightarrow> (\<forall>x. b = Some x \<longrightarrow> barrier_ok x)"
| "event_ok (CreateOrderRollbackEvent b k) \<longleftrightarrow> (\<forall>x. b = Some x \<longrightarrow> barrier_ok x)"
| "event_ok _ \<longleftrightarrow> True"

lemma keeps_good: "keeps (on_odb (good s0)) m \<Longrightarrow> good s0 (o_db w) \<Longrightarrow> good s0 (o_db (snd (m w)))"
  using keepsD [of "on_odb (good s0)" m w] by (simp add: on_odb_def)

lemma serve_good: "event_ok e \<Longrightarrow> good s0 (o_db w) \<Longrightarrow> good s0 (o_db (serve s e w))"
  by (cases e) (auto intro!: keeps_good keeps_CreateOrder keeps_CreateOrderRollback keeps_rules)

text \<open>A history: the service starts in some world and handles one event after the other.\<close>

definition run_events :: "'x svc_ctx \<Rightarrow> 'x event list \<Rightarrow> 'x order_world \<Rightarrow> 'x order_world" where
  "run_events s es w = fold (serve s) es w"

lemma run_events_good:
  "list_all event_ok es \<Longrightarrow> good s0 (o_db w) \<Longrightarrow> good s0 (o_db (run_events s es w))"
  by (induction es arbitrary: w) (simp_all add: run_events_def serve_good)

end
