(* ===== verification/Order_Guarantees.thy ===== *)
theory Order_Guarantees
  imports Order_Server
begin

text \<open>
  What the order service guarantees, over all histories: it refines the state machine of
  \<open>Order_Spec\<close>, order, payment, refund, status log and paid events stay consistent, and only a
  callback over the exact amount marks an order paid.  The examples run on the small worlds defined
  first.
\<close>

section \<open>Example worlds\<close>

definition no_rows_at_all :: order_tables where
  "no_rows_at_all = \<lparr>orders = [], status_log = [], price_snapshots = [], payments = [], callbacks = [], refunds = [], outbox = [],
     product_merchants = []\<rparr>"

definition order_world_of :: "order_tables \<Rightarrow> fault list \<Rightarrow> unit order_world" where
  "order_world_of d fs = \<lparr>faults = fs, o_db = d, o_redis = empty_redis 1000, o_locks = Map.empty,
     o_now = 1000, o_ext = ()\<rparr>"

lemma order_world_of_db [simp]: "o_db (order_world_of d fs) = d"
  by (simp add: order_world_of_def)

definition order_demo_config :: order_config where
  "order_demo_config = \<lparr>RequireInventoryReserve = False, PaymentExpireMinutes = 0, StockShardCount = 1, PaymentFinalizeBatchSize = 0,
     PaymentFinalizeConcurrency = 0, OutboxBatchSize = 0, OutboxSingleActive = True, OutboxLeaderLockKey = [], OutboxLeaderLockTTL = 0,
     OutboxRetrySec = 0, OutboxMaxRetries = 0, OutboxTimeoutSec = 0, RabbitMQRouteKey = []\<rparr>"

definition demo_svc :: "unit svc_ctx" where
  "demo_svc = \<lparr>Config = order_demo_config, has_SqlConn = True, ProductRpc = Some (\<lambda>_. ret demo_card), InventoryClient = None, PaymentProvider = None\<rparr>"

text \<open>A barrier that just runs its body in a transaction.\<close>

definition plain_barrier :: "'x barrier" where
  "plain_barrier body = order_tx id (\<lambda>_ e. e) body"

lemma plain_barrier_ok: "barrier_ok plain_barrier"
  unfolding barrier_ok_def plain_barrier_def
proof (intro allI impI)
  fix body :: "('x order_world, unit) io" and w x w'
  assume "order_tx id (\<lambda>_ e. e) body w = (x, w')"
  then show "o_db w' = o_db w \<or> (\<exists>w0 w1. body w0 = (Inr (), w1) \<and> o_db w0 = o_db w \<and> o_db w' = o_db w1)"
    unfolding order_tx_def by (rule with_tx_cases) fastforce+
qed


section \<open>Refinement and consistency\<close>

text \<open>
  C2: the order service refines the order state machine.  Over any sequence of requests, runs of
  the recovery job and of the outbox publisher, with any requests and replies lost on the way and
  any behaviour of inventory, payment provider, product service and broker, the tables stay well
  formed and their abstraction only makes steps of the specification, one business event at a time.
\<close>

theorem order_service_refines:
  assumes "list_all event_ok es" "tables_wf (o_db w)" "spec_inv (abs_state (o_db w))"
  shows "tables_wf (o_db (run_events s es w)) \<and> spec_step\<^sup>*\<^sup>* (abs_state (o_db w)) (abs_state (o_db (run_events s es w)))"
  using run_events_good [OF assms(1), of "abs_state (o_db w)" w s] assms(2,3) by (simp add: good_def)

lemma no_rows_good: "tables_wf no_rows_at_all" "abs_state no_rows_at_all = spec_init"
  by (simp_all add: tables_wf_def abs_state_def no_rows_at_all_def order_row_of_def payment_of_def refund_of_def has_event_def spec_init_def)

definition demo_order :: create_order_req where
  "demo_order = \<lparr>co_OrderId = ''o1'', co_RequestId = ''r1'', co_UserId = 1, co_ProductId = 7, co_Amount = 2, co_ExpectedPriceFen = 0\<rparr>"

text \<open>The row that creating the example order leaves.\<close>

definition demo_row :: order_row where
  "demo_row = \<lparr>o_id = ''o1'', o_request_id = ''r1'', o_user_id = 1, o_merchant_id = 1000, o_product_id = 7, o_amount = 2, o_status = 0,
     o_shipped_at = None, o_completed_at = None, o_refund_requested_at = None, o_refunded_at = None, o_update_time = 1000\<rparr>"

definition demo_create :: "unit event list" where
  "demo_create = [CreateOrderEvent (Some plain_barrier) demo_order]"

lemma demo_created: "orders (o_db (run_events demo_svc demo_create (order_world_of no_rows_at_all []))) = [demo_row]"
  by (simp add: run_events_def demo_create_def CreateOrder_def demo_order_def demo_svc_def order_world_of_def no_rows_at_all_def call_def ext_call_def
      pop_fault_def io_simps BuildQuote_def demo_card_def Let_def plain_barrier_def order_tx_def with_tx_def RawDB_def create_order_body_def exec_def
      stmt_def insert_order_def insert_snapshot_def insert_payment_def order_now_def InsertOrderCreatedOutbox_def insert_event_def has_event_def
      append_event_def demo_row_def)

lemma demo_row_there: "demo_row \<in> set (orders (o_db (run_events demo_svc demo_create (order_world_of no_rows_at_all []))))"
  by (simp add: demo_created)

lemma demo_row_fields [simp]: "o_id demo_row = ''o1''" "o_status demo_row = 0"
  by (simp_all add: demo_row_def)

lemma demo_create_ok: "list_all event_ok demo_create"
  by (simp add: demo_create_def plain_barrier_ok)

definition demo_ctx :: call_ctx where
  "demo_ctx = \<lparr>cx_trace = None, cx_identity = None, cx_random_id = ''id''\<rparr>"

definition demo_history :: "unit event list" where
  "demo_history = [CreateOrderEvent (Some plain_barrier) demo_order, RecoveryRun demo_ctx,
     CreateOrderRollbackEvent (Some plain_barrier) ''o1'']"

theorem order_service_refines_witness:
  "spec_step\<^sup>*\<^sup>* spec_init (abs_state (o_db (run_events demo_svc demo_history (order_world_of no_rows_at_all [Reply, NoReply ''eof'']))))"
  using order_service_refines [of demo_history "order_world_of no_rows_at_all [Reply, NoReply ''eof'']" demo_svc]
  by (simp add: demo_history_def plain_barrier_ok order_world_of_def no_rows_good spec_inv_init)

text \<open>The tables of a service that started empty.\<close>

lemma run_from_empty:
  assumes "list_all event_ok es" "o_db w = no_rows_at_all" "d = o_db (run_events s es w)"
  shows "tables_wf d" "spec_inv (abs_state d)"
  using run_events_good [OF assms(1), of spec_init w s] assms(2,3) no_rows_good spec_inv_init by (simp_all add: good_def)

lemma row_statuses:
  assumes "tables_wf d"
  shows "r \<in> set (orders d) \<Longrightarrow> s_order (abs_state d) (o_id r) = Some (o_status r)"
    "(\<exists>p\<in>set (payments d). p_order_id p = k \<and> p_status p = a) \<longleftrightarrow> s_pay (abs_state d) k = Some a"
    "(\<exists>f\<in>set (refunds d). rf_order_id f = k \<and> B (rf_status f)) \<longleftrightarrow> (\<exists>b. s_refund (abs_state d) k = Some b \<and> B b)"
proof -
  have dist: "distinct (map o_id (orders d))" "distinct (map p_order_id (payments d))" "distinct (map rf_order_id (refunds d))"
    using assms by (simp_all add: tables_wf_def)
  show "r \<in> set (orders d) \<Longrightarrow> s_order (abs_state d) (o_id r) = Some (o_status r)"
    using find_distinct [OF dist(1)] by (simp add: abs_state_def order_row_of_def)
  show "(\<exists>p\<in>set (payments d). p_order_id p = k \<and> p_status p = a) \<longleftrightarrow> s_pay (abs_state d) k = Some a"
    using find_distinct [OF dist(2)] by (auto simp: abs_state_def payment_of_def dest!: find_SomeD)
  show "(\<exists>f\<in>set (refunds d). rf_order_id f = k \<and> B (rf_status f)) \<longleftrightarrow> (\<exists>b. s_refund (abs_state d) k = Some b \<and> B b)"
    using find_distinct [OF dist(3)] by (fastforce simp: abs_state_def refund_of_def dest!: find_SomeD)
qed

text \<open>
  C9: after any history from empty tables, an order is paid or beyond exactly if its payment
  succeeded, and exactly if its paid event is in the outbox; it waits for a refund exactly if an open
  refund of it exists, and it is refunded exactly if that refund was paid back.
\<close>

theorem order_tables_consistent:
  assumes "list_all event_ok es" "o_db w = no_rows_at_all" "d = o_db (run_events s es w)" "r \<in> set (orders d)"
  shows "(settled (o_status r) \<longleftrightarrow> (\<exists>p\<in>set (payments d). p_order_id p = o_id r \<and> p_status p = payment_Success)) \<and>
    (settled (o_status r) \<longleftrightarrow> has_event d (''order.paid:'' @ o_id r)) \<and>
    (o_status r = order_RefundRequested \<longleftrightarrow> (\<exists>f\<in>set (refunds d). rf_order_id f = o_id r \<and> refund_open (rf_status f))) \<and>
    (o_status r = order_Refunded \<longleftrightarrow> (\<exists>f\<in>set (refunds d). rf_order_id f = o_id r \<and> rf_status f = refund_Success))"
proof -
  note good = run_from_empty [OF assms(1-3)]
  note st = row_statuses [OF good(1)]
  note inv = spec_invD [OF good(2), of "o_id r", unfolded st(1) [OF assms(4)]]
  have ev: "has_event d (''order.paid:'' @ o_id r) \<longleftrightarrow> o_id r \<in> s_events (abs_state d)" by (simp add: abs_state_def)
  have paid_back: "(\<exists>f\<in>set (refunds d). rf_order_id f = o_id r \<and> rf_status f = refund_Success) \<longleftrightarrow> s_refund (abs_state d) (o_id r) = Some refund_Success"
    using st(3) [of "o_id r" "\<lambda>b. b = refund_Success"] by auto
  show ?thesis unfolding st(2) st(3) [where B = refund_open] ev inv(4) paid_back
    using pay_consistent_settled [OF inv(1)] refund_consistent_open [OF inv(2)] refund_consistent_success [OF inv(2)] by blast
qed

theorem order_tables_consistent_witness:
  "\<exists>d. demo_row \<in> set (orders d) \<and> \<not> settled (o_status demo_row) \<and> \<not> has_event d ''order.paid:o1'' \<and>
    \<not> (\<exists>p\<in>set (payments d). p_order_id p = ''o1'' \<and> p_status p = payment_Success)"
  using order_tables_consistent [OF demo_create_ok order_world_of_db refl demo_row_there] demo_row_there
  by (intro exI [where x = "o_db (run_events demo_svc demo_create (order_world_of no_rows_at_all []))"]) (simp add: settled_def)

text \<open>
  C10: the status log explains every order: its entries lead, by allowed moves only, from the
  unpaid state to the present one.  The exception is an order closed by the compensation of its
  creation, which writes no entry.
\<close>

theorem status_log_explains:
  assumes "list_all event_ok es" "o_db w = no_rows_at_all" "d = o_db (run_events s es w)" "r \<in> set (orders d)"
  shows "leads_to order_PendingPayment (map (\<lambda>l. (lg_from l, lg_to l)) (filter (\<lambda>l. lg_order_id l = o_id r) (status_log d))) (o_status r) \<or>
    (o_status r = order_Closed \<and> (\<forall>l\<in>set (status_log d). lg_order_id l \<noteq> o_id r))"
proof -
  note good = run_from_empty [OF assms(1-3)]
  have l: "log_of (s_log (abs_state d)) (o_id r) = map (\<lambda>l. (lg_from l, lg_to l)) (filter (\<lambda>l. lg_order_id l = o_id r) (status_log d))"
    by (simp add: log_of_def abs_state_def filter_map comp_def)
  show ?thesis
    using spec_invD(3) [OF good(2), of "o_id r"] row_statuses(1) [OF good(1) assms(4)]
    by (auto simp: log_consistent_def l filter_empty_conv)
qed

theorem status_log_explains_witness:
  "\<exists>d :: order_tables. demo_row \<in> set (orders d) \<and>
    leads_to order_PendingPayment (map (\<lambda>l. (lg_from l, lg_to l)) (filter (\<lambda>l. lg_order_id l = ''o1'') (status_log d))) order_PendingPayment"
  using status_log_explains [OF demo_create_ok order_world_of_db refl demo_row_there] demo_row_there
  by (intro exI [where x = "o_db (run_events demo_svc demo_create (order_world_of no_rows_at_all []))"]) simp

section \<open>Payment callbacks\<close>

lemma leads_order_tx:
  fixes body :: "('x order_world, 'a) io"
  assumes "\<And>w a w'. o_db w = d0 \<Longrightarrow> body w = (Inr a, w') \<Longrightarrow> Q (o_db w')" "Q d0"
  shows "leads (on_odb (\<lambda>d. d = d0)) (order_tx be ce body) (on_odb Q)"
  unfolding leads_def
proof (intro allI impI)
  fix w :: "'x order_world" assume "on_odb (\<lambda>d. d = d0) w"
  then have w: "o_db w = d0" by (simp add: on_odb_def)
  obtain x w' where run: "order_tx be ce body w = (x, w')" by (cases "order_tx be ce body w")
  show "on_odb Q (snd (order_tx be ce body w))" unfolding run
  proof (rule with_tx_cases [OF run [unfolded order_tx_def]])
    fix a fs w1 assume "body (w\<lparr>faults := fs\<rparr>) = (Inr a, w1)" "o_db w' = o_db w1"
    then show "on_odb Q (snd (x, w'))" using assms(1) [of "w\<lparr>faults := fs\<rparr>"] w by (simp add: on_odb_def)
  qed (use w assms(2) in \<open>auto simp: on_odb_def\<close>)
qed

lemma leads_if: "leads I m J \<Longrightarrow> leads I m' J \<Longrightarrow> leads I (if b then m else m') J"
  by simp

lemma bindE_of_result [simp]: "bindE (of_result (Inl e)) k = fail e" "bindE (of_result (Inr a)) k = k a"
  by (auto simp: bindE_def of_result_def fail_def)

lemma keeps_exec_abs: "(\<And>now d. abs_state (snd (f now d)) = abs_state d) \<Longrightarrow> keeps (on_odb (\<lambda>d. Q (abs_state d))) (exec f)"
  unfolding exec_def by (rule keeps_stmt) (metis (no_types, lifting) case_prod_beta prod.inject)

lemma keeps_abs_finalize:
  "keeps (on_odb (\<lambda>d. Q (abs_state d))) (exec (finalize_failed k m))" "keeps (on_odb (\<lambda>d. Q (abs_state d))) (exec (finalize_succeeded k))"
  unfolding finalize_failed_def finalize_succeeded_def
  by (rule keeps_exec_abs, rule payment_unmoved_abs(1); simp)+

lemma keeps_abs_confirm: "keeps (on_odb (\<lambda>d. Q (abs_state d))) (confirmInventoryDeduct s cx k)"
  unfolding confirmInventoryDeduct_def Let_def by (intro keeps_rules keeps_abs_finalize)

text \<open>What a payment callback can do to the tables \<open>d0\<close>.\<close>

definition callback_effect :: "mark_paid_req \<Rightarrow> order_tables \<Rightarrow> spec_state \<Rightarrow> bool" where
  "callback_effect i d0 t \<longleftrightarrow> t = abs_state d0 \<or>
     (\<exists>cb os ps. parsePaymentCallbackPayload (mp_CallbackBody i) = Inr cb \<and> payable_row i d0 = Some (os, ps, pl_PaidAmountFen cb) \<and>
       (tables_wf d0 \<longrightarrow> paid_from (mp_OrderId i) (abs_state d0) t))"

lemma MarkPaid_effect:
  fixes s :: "'x svc_ctx"
  shows "leads (on_odb (\<lambda>d. d = d0)) (MarkPaid s cx i) (on_odb (\<lambda>d. callback_effect i d0 (abs_state d)))"
proof (cases "parsePaymentCallbackPayload (mp_CallbackBody i)")
  case (Inl e)
  have same: "on_odb (\<lambda>d. d = d0) w \<Longrightarrow> on_odb (\<lambda>d. callback_effect i d0 (abs_state d)) w" for w :: "'x order_world"
    by (simp add: on_odb_def callback_effect_def)
  show ?thesis unfolding MarkPaid_def Inl bindE_of_result by (rule leads_keeps [OF _ same]) (intro keeps_rules)
next
  case (Inr cb)
  have same: "on_odb (\<lambda>d. d = d0) w \<Longrightarrow> on_odb (\<lambda>d. callback_effect i d0 (abs_state d)) w" for w :: "'x order_world"
    by (simp add: on_odb_def callback_effect_def)
  have body: "callback_effect i d0 (abs_state (o_db w'))" if "o_db w = d0" "mark_paid_body i cb w = (Inr a, w')" for w w' :: "'x order_world" and a
    using that(2) by (rule mark_paid_body_cases) (use that(1) Inr in \<open>auto simp: callback_effect_def\<close>)
  have tx: "leads (on_odb (\<lambda>d. d = d0)) (order_tx be ce (mark_paid_body i cb) :: ('x order_world, mark_outcome) io) (on_odb (\<lambda>d. callback_effect i d0 (abs_state d)))" for be ce
    by (rule leads_order_tx, erule (1) body, simp add: callback_effect_def)
  show ?thesis unfolding MarkPaid_def Inr bindE_of_result
    by (intro leads_if leads_keeps [OF keeps_fail same] leads_before [OF keeps_map_err [OF keeps_RawDB] _ same] leads_after [OF tx])
       (auto intro!: keeps_rules keeps_abs_confirm split: mark_outcome.splits)
qed

lemma mark_paid_cause:
  assumes "MarkPaid s cx i w = (x, w')" "tables_wf (o_db w)"
    and "s_order (abs_state (o_db w')) k \<noteq> s_order (abs_state (o_db w)) k"
  shows "k = mp_OrderId i \<and> s_order (abs_state (o_db w)) k = Some order_PendingPayment \<and> s_order (abs_state (o_db w')) k = Some order_Paid \<and>
    (\<exists>cb p. parsePaymentCallbackPayload (mp_CallbackBody i) = Inr cb \<and> 0 < pl_PaidAmountFen cb \<and>
      p \<in> set (payments (o_db w)) \<and> p_id p = mp_PaymentOrderId i \<and> p_order_id p = k \<and> p_payable_amount_fen p = pl_PaidAmountFen cb)"
proof -
  have "callback_effect i (o_db w) (abs_state (o_db w'))"
    using leadsD [OF MarkPaid_effect [of "o_db w" s cx i], of w] assms(1) by (simp add: on_odb_def)
  then obtain cb os ps where cb: "parsePaymentCallbackPayload (mp_CallbackBody i) = Inr cb"
    and row: "payable_row i (o_db w) = Some (os, ps, pl_PaidAmountFen cb)"
    and step: "paid_from (mp_OrderId i) (abs_state (o_db w)) (abs_state (o_db w'))"
    using assms(2,3) by (auto simp: callback_effect_def)
  have k: "k = mp_OrderId i" using step assms(3) by (auto simp: paid_from_def split: if_splits)
  moreover have "0 < pl_PaidAmountFen cb" using cb by (auto simp: parsePaymentCallbackPayload_def split: if_splits option.splits)
  moreover obtain p where "p \<in> set (payments (o_db w))" "p_id p = mp_PaymentOrderId i" "p_order_id p = k" "p_payable_amount_fen p = pl_PaidAmountFen cb"
    using row k by (auto simp: payable_row_def split: option.splits dest!: find_SomeD)
  ultimately show ?thesis using step cb by (auto simp: paid_from_def)
qed

text \<open>
  C3: a payment callback changes the status of at most one order, the one it names, from
  pending to paid, and only if it reports a positive amount that equals the payable amount of the
  payment it names; this holds for every reply the caller gets, lost ones included.
\<close>

theorem mark_paid_exact:
  assumes "MarkPaid s cx i w = (x, w')" "tables_wf (o_db w)"
    and "s_order (abs_state (o_db w')) k \<noteq> s_order (abs_state (o_db w)) k"
  shows "k = mp_OrderId i \<and> s_order (abs_state (o_db w)) k = Some order_PendingPayment \<and> s_order (abs_state (o_db w')) k = Some order_Paid \<and>
    (\<exists>cb p. parsePaymentCallbackPayload (mp_CallbackBody i) = Inr cb \<and> 0 < pl_PaidAmountFen cb \<and>
      p \<in> set (payments (o_db w)) \<and> p_id p = mp_PaymentOrderId i \<and> p_order_id p = k \<and> p_payable_amount_fen p = pl_PaidAmountFen cb)"
  using mark_paid_cause [OF assms] .

text \<open>The example order with its payment.\<close>

definition demo_payment :: payment_row where
  "demo_payment = \<lparr>p_id = ''pay:o1'', p_order_id = ''o1'', p_user_id = 1, p_payable_amount_fen = 1800, p_status = 0, p_out_trade_no = ''FM1'',
     p_provider = ''local_sandbox'', p_provider_trade_no = [], p_provider_qr_url = [], p_provider_status = [], p_expires_at = None,
     p_finalize_status = 0, p_finalize_attempts = 0, p_finalize_error = [], p_finalized_at = None, p_release_status = 0,
     p_release_attempts = 0, p_release_error = [], p_released_at = None, p_paid_at = None, p_callback_payload = None, p_update_time = 900\<rparr>"

definition unpaid_tables :: order_tables where
  "unpaid_tables = no_rows_at_all\<lparr>orders := [demo_row], payments := [demo_payment]\<rparr>"

definition demo_callback :: "int \<Rightarrow> mark_paid_req" where
  "demo_callback fen = \<lparr>mp_OrderId = ''o1'', mp_PaymentOrderId = ''pay:o1'', mp_OutTradeNo = ''FM1'',
     mp_CallbackBody = JsonText (JObj [(''trade_status'', JStr ''SUCCESS''), (''paid_amount_fen'', JInt fen)])\<rparr>"

definition status_after :: "('a \<times> 'x order_world) \<Rightarrow> string \<Rightarrow> int option" where
  "status_after r k = map_option o_status (order_row_of (o_db (snd r)) k)"

lemma status_after_abs: "s_order (abs_state (o_db (snd r))) k = status_after r k"
  by (simp add: status_after_def abs_state_def)

lemma unpaid_wf: "tables_wf unpaid_tables"
  by (simp add: unpaid_tables_def tables_wf_def no_rows_at_all_def)

lemma demo_callback_runs:
  "status_after (MarkPaid demo_svc demo_ctx (demo_callback 1800) (order_world_of unpaid_tables [])) ''o1'' = Some 1"
  "status_after (MarkPaid demo_svc demo_ctx (demo_callback 1799) (order_world_of unpaid_tables [])) ''o1'' = Some 0"
  by code_simp+

theorem mark_paid_exact_witness:
  "status_after (MarkPaid demo_svc demo_ctx (demo_callback 1800) (order_world_of unpaid_tables [])) ''o1'' = Some 1 \<and>
   (\<exists>cb. parsePaymentCallbackPayload (mp_CallbackBody (demo_callback 1800)) = Inr cb \<and> p_payable_amount_fen demo_payment = pl_PaidAmountFen cb)"
proof -
  let ?r = "MarkPaid demo_svc demo_ctx (demo_callback 1800) (order_world_of unpaid_tables [])"
  have before: "s_order (abs_state unpaid_tables) ''o1'' = Some 0" by (simp add: abs_state_def order_row_of_def unpaid_tables_def)
  have "s_order (abs_state (o_db (snd ?r))) ''o1'' \<noteq> s_order (abs_state unpaid_tables) ''o1''"
    unfolding status_after_abs before by (simp add: demo_callback_runs)
  then have "\<exists>cb p. parsePaymentCallbackPayload (mp_CallbackBody (demo_callback 1800)) = Inr cb \<and> p \<in> set (payments unpaid_tables) \<and>
      p_payable_amount_fen p = pl_PaidAmountFen cb"
    using mark_paid_exact [of demo_svc demo_ctx "demo_callback 1800" "order_world_of unpaid_tables []" "fst ?r" "snd ?r" "''o1''"]
    by (simp add: unpaid_wf) blast
  moreover have "payments unpaid_tables = [demo_payment]" by (simp add: unpaid_tables_def)
  ultimately show ?thesis by (auto simp: demo_callback_runs)
qed

end
