(* ===== verification/Refund_Release.thy ===== *)
theory Refund_Release
  imports Order_Guarantees
begin

text \<open>
  Money is returned only after the goods: a refund becomes successful only in an audit in which the
  inventory service acknowledged the release of the order's stock.  The proof runs the audit under
  the assumption that no release is acknowledged and shows that it keeps \<open>unrefunded\<close>.
\<close>

definition unrefunded :: "string \<Rightarrow> order_tables \<Rightarrow> bool" where
  "unrefunded k d \<longleftrightarrow>
     (\<forall>r\<in>set (refunds d). rf_id r = refundIDForOrder (rf_order_id r) \<and> (rf_order_id r = k \<longrightarrow> rf_status r \<noteq> refund_Success))"

definition releases :: "'x svc_ctx \<Rightarrow> call_ctx \<Rightarrow> string \<Rightarrow> bool" where
  "releases s cx k \<longleftrightarrow> (\<exists>ic e e'. InventoryClient s = Some ic \<and> ic_ReleaseStock ic cx k ''refund approved'' e = (Inr (), e'))"

section \<open>Statements\<close>

lemma keeps_exec_unrefunded:
  "(\<And>now d. unrefunded k d \<Longrightarrow> unrefunded k (snd (f now d))) \<Longrightarrow> keeps (on_odb (unrefunded k)) (exec f)"
  unfolding exec_def by (rule keeps_stmt) (metis (no_types, lifting) case_prod_beta prod.inject)

lemma keeps_exec_no_refunds:
  "(\<And>now d. refunds (snd (f now d)) = refunds d) \<Longrightarrow> keeps (on_odb (unrefunded k)) (exec f)"
  by (rule keeps_exec_unrefunded) (simp add: unrefunded_def)

lemma keeps_exec_refund:
  assumes "\<And>now r. rf_id (f now r) = rf_id r \<and> rf_order_id (f now r) = rf_order_id r"
    and "\<And>now r. P r \<Longrightarrow> rf_id r = refundIDForOrder k \<Longrightarrow> rf_status r \<noteq> refund_Success \<Longrightarrow> rf_status (f now r) \<noteq> refund_Success"
  shows "keeps (on_odb (unrefunded k)) (exec (update_refunds P f))"
  by (rule keeps_exec_unrefunded) (use assms in \<open>auto simp: unrefunded_def update_refunds_def update_rows_def\<close>)

lemma keeps_unrefunded_stmts [keeps_rules]:
  "keeps (on_odb (unrefunded k)) (insertRefundStatusLog j a b u m)"
  "keeps (on_odb (unrefunded k)) (insertRefundOutbox t x j p)"
  "keeps (on_odb (unrefunded k)) (one_row m (refund_paid_back j))"
  "keeps (on_odb (unrefunded k)) (one_row m (restore_order j st))"
  unfolding insertRefundStatusLog_def insertRefundOutbox_def one_row_def refund_paid_back_def restore_order_def Let_def
  by (intro keeps_rules keeps_exec_no_refunds; simp add: insert_log_def update_outbox_def append_event_def update_orders_def)+

lemma keeps_unrefunded_marks [keeps_rules]:
  "keeps (on_odb (unrefunded k)) (exec (mark_release_failed i x m))"
  "keeps (on_odb (unrefunded k)) (exec (start_external_refund i e))"
  "keeps (on_odb (unrefunded k)) (exec (save_provider_result e st))"
  "keeps (on_odb (unrefunded k)) (exec (reject_refund i x))"
  "keeps (on_odb (unrefunded k)) (markProviderRefundFailed i e err)"
  unfolding mark_release_failed_def start_external_refund_def save_provider_result_def reject_refund_def markProviderRefundFailed_def Let_def
  by (intro keeps_rules keeps_exec_refund; simp)+

lemma keeps_unrefunded_tx:
  "keeps (on_odb P) body \<Longrightarrow> keeps (on_odb P) (order_tx be ce body)"
  unfolding order_tx_def by (rule keeps_with_tx) (auto simp: on_odb_def)

lemma keeps_unrefunded_tx_or:
  fixes body :: "('x order_world, 'b + 'a) io"
  assumes "keeps (on_odb P) body"
  shows "keeps (on_odb P) (order_tx_or be body)"
proof (rule keepsI)
  fix w :: "'x order_world" assume I: "on_odb P w"
  obtain x w' where run: "order_tx_or be body w = (x, w')" by (cases "order_tx_or be body w")
  from run show "on_odb P (snd (order_tx_or be body w))"
  proof (cases rule: order_tx_or_cases)
    case (committed fs a w1)
    then show ?thesis using keepsD [OF assms, of "w\<lparr>faults := fs\<rparr>"] I run by (simp add: on_odb_def)
  qed (use I run in \<open>simp add: on_odb_def\<close>)
qed

section \<open>Completion\<close>

text \<open>Completing the refund of order \<open>j\<close> does not touch the refund of another order.\<close>

lemma keeps_complete_other:
  assumes "j \<noteq> k"
  shows "keeps (on_odb (unrefunded k)) (exec (approve_local_refund i (refundIDForOrder j)))"
    "keeps (on_odb (unrefunded k)) (exec (complete_refund i (refundIDForOrder j)))"
  unfolding approve_local_refund_def complete_refund_def
  by (intro keeps_exec_refund; use assms in \<open>auto simp: refundIDForOrder_def\<close>)+

lemma releaseRefundStock_Inr: "releaseRefundStock s cx k w = (Inr u, w') \<Longrightarrow> releases s cx k"
  by (auto simp: releaseRefundStock_def releases_def fail_def call_def split: option.splits prod.splits elim!: ext_call_cases) blast+

lemma keeps_after_release:
  assumes "releases s cx j \<Longrightarrow> keeps (on_odb P) m" "\<And>e. keeps (on_odb P) (h e)"
  shows "keeps (on_odb P) (bindE (attempt (releaseRefundStock s cx j)) (\<lambda>res. case res of Inl e \<Rightarrow> h e | Inr _ \<Rightarrow> m))"
proof (rule keeps_bindE_val)
  show "keeps (on_odb P) (attempt (releaseRefundStock s cx j))" by (intro keeps_rules)
next
  fix w a w' assume "attempt (releaseRefundStock s cx j) w = (Inr a, w')"
  then have "a = Inr u \<Longrightarrow> releases s cx j" for u
    by (auto simp: attempt_def split: prod.splits dest: releaseRefundStock_Inr)
  then show "keeps (on_odb P) (case a of Inl e \<Rightarrow> h e | Inr _ \<Rightarrow> m)" using assms by (cases a) auto
qed

lemma keeps_approveRefund:
  assumes "\<not> releases s cx k"
  shows "keeps (on_odb (unrefunded k)) (approveRefund s cx i (refundIDForOrder j) j)"
  unfolding approveRefund_def one_row_def [of "''refund status changed concurrently''"]
  by (intro keeps_after_release keeps_rules keeps_complete_other) (use assms in auto)

lemma keeps_unrefunded_release_failed [keeps_rules]: "keeps (on_odb (unrefunded k)) (markRefundReleaseFailed i x j e)"
  unfolding markRefundReleaseFailed_def Let_def by (intro keeps_rules keeps_unrefunded_tx)

lemma keeps_finish_external:
  assumes "\<not> releases s cx k" "er_RefundID e = refundIDForOrder (er_OrderID e)"
  shows "keeps (on_odb (unrefunded k)) (finish_external_refund s cx i e)"
proof -
  have complete: "keeps (on_odb (unrefunded k)) (completeApprovedRefund i (refundIDForOrder j) j)" if "releases s cx j" for j
  proof -
    have "j \<noteq> k" using that assms(1) by blast
    then show ?thesis unfolding completeApprovedRefund_def one_row_def [of "''refund status changed concurrently''"]
      by (intro keeps_rules keeps_unrefunded_tx keeps_complete_other)
  qed
  show ?thesis unfolding finish_external_refund_def assms(2)
    by (intro keeps_bindE keeps_after_release keeps_rules complete)
qed

section \<open>The audit\<close>

lemma keeps_approve_external_tx: "keeps (on_odb (unrefunded k)) (approve_external_tx s i e)"
  unfolding approve_external_tx_def Let_def one_row_def by (intro keeps_rules)

lemma keeps_rejectRefund: "keeps (on_odb (unrefunded k)) (rejectRefund i x j)"
  unfolding rejectRefund_def Let_def one_row_def [of "''refund status changed concurrently''"] by (intro keeps_rules)

lemma audit_row_unrefunded:
  assumes "unrefunded k d" "audit_row_of x d = Some a"
  shows "x = refundIDForOrder (au_orderID a)"
  using assms by (auto simp: audit_row_of_def unrefunded_def dest!: find_SomeD split: option.splits)

lemma keeps_audit_body:
  assumes "\<not> releases s cx k"
  shows "keeps (on_odb (unrefunded k)) (audit_body s cx i x)"
  unfolding audit_body_def
proof (rule keeps_bindE_inv)
  fix w a w' assume "on_odb (unrefunded k) w" "map_err (on_no_rows (StatusError codes_NotFound ''refund order not found'') id) (query_row (audit_row_of x)) w = (Inr a, w')"
  then have x: "x = refundIDForOrder (au_orderID a)"
    using audit_row_unrefunded by (fastforce simp: on_odb_def dest!: run_dests)
  show "keeps (on_odb (unrefunded k)) (audit_decide s cx i x a)"
    unfolding audit_decide_def x
    by (intro keeps_rules keeps_approveRefund [OF assms] keeps_approve_external_tx keeps_rejectRefund)
qed (intro keeps_rules)

lemma keeps_unrefunded_AuditRefund:
  assumes "\<not> releases s cx k"
  shows "keeps (on_odb (unrefunded k)) (AuditRefund s cx i)"
proof -
  let ?x = "TrimSpace (ar_RefundId i)"
  have id: "er_RefundID e = refundIDForOrder (er_OrderID e)"
    if I: "on_odb (unrefunded k) w" and run: "order_tx_or be (audit_body s cx i ?x) w = (Inr (Inr (External e)), w')" for e w w' be
    using run
  proof (cases rule: order_tx_or_cases)
    case (committed fs a w1)
    then have "audit_body s cx i ?x (w\<lparr>faults := fs\<rparr>) = (Inr (Inr (External e)), w1)" by auto
    then obtain a w2 where "audit_row_of ?x (o_db w) = Some a" "audit_decide s cx i ?x a w2 = (Inr (Inr (External e)), w1)"
      unfolding audit_body_def by (auto elim!: bindE_InrE dest!: run_dests)
    then show ?thesis using audit_decide_moves(2) audit_row_unrefunded I by (metis on_odb_def)
  qed simp
  show ?thesis unfolding AuditRefund_def Let_def
  proof (intro keeps_if keeps_fail keeps_bindE [OF keeps_map_err [OF keeps_RawDB]], rule keeps_bindE_inv)
    show "keeps (on_odb (unrefunded k)) (order_tx_or be (audit_body s cx i ?x))" for be
      by (intro keeps_unrefunded_tx_or keeps_audit_body assms)
    fix w a w' assume "on_odb (unrefunded k) w" "order_tx_or (grpc codes_Internal ''begin refund audit transaction failed'') (audit_body s cx i ?x) w = (Inr a, w')"
    then show "keeps (on_odb (unrefunded k)) (case a of
        Inl (err, orderID) \<Rightarrow>
          bindE (map_err (grpc codes_Internal ''record inventory release failure failed'') (markRefundReleaseFailed i ?x orderID err)) (\<lambda>_.
          fail (StatusError codes_Unavailable ''inventory release failed''))
      | Inr (Answer resp) \<Rightarrow> ret resp
      | Inr (External refund) \<Rightarrow> finish_external_refund s cx i refund)"
      using id by (auto intro!: keeps_rules keeps_finish_external [OF assms] split: sum.splits audit_step.splits)
  qed
qed


section \<open>Examples\<close>

text \<open>An inventory service that remembers what it released.\<close>

definition demo_inventory :: "string list inventory_client" where
  "demo_inventory = \<lparr>ic_ReserveStock = (\<lambda>_ _ _ _. ret ()), ic_ConfirmDeduct = (\<lambda>_ _. ret ()),
     ic_ReleaseStock = (\<lambda>_ k _ e. (Inr (), k # e))\<rparr>"

definition refund_svc :: "string list svc_ctx" where
  "refund_svc = \<lparr>Config = order_demo_config, has_SqlConn = True, ProductRpc = None, InventoryClient = Some demo_inventory, PaymentProvider = None\<rparr>"

definition demo_refund :: refund_row where
  "demo_refund = \<lparr>rf_id = ''rf:o1'', rf_order_id = ''o1'', rf_payment_order_id = ''pay:o1'', rf_user_id = 1, rf_merchant_id = 1000,
     rf_product_id = 7, rf_amount_fen = 1800, rf_status = 0, rf_reason = [], rf_audit_remark = [], rf_operator_id = 0,
     rf_provider = ''local_sandbox'', rf_provider_refund_id = [], rf_provider_status = [], rf_provider_error = [], rf_audit_time = None,
     rf_finish_time = None, rf_update_time = 900\<rparr>"

definition refund_tables :: order_tables where
  "refund_tables = no_rows_at_all\<lparr>orders := [demo_row\<lparr>o_status := 5\<rparr>], payments := [demo_payment\<lparr>p_status := 1\<rparr>],
     refunds := [demo_refund], status_log := [\<lparr>lg_order_id = ''o1'', lg_from = 1, lg_to = 5, lg_operator_id = 1, lg_remark = []\<rparr>]\<rparr>"

definition refund_world :: "fault list \<Rightarrow> string list order_world" where
  "refund_world fs = \<lparr>faults = fs, o_db = refund_tables, o_redis = empty_redis 1000, o_locks = Map.empty, o_now = 1000, o_ext = []\<rparr>"

definition demo_audit :: "bool \<Rightarrow> audit_req" where
  "demo_audit ok = \<lparr>ar_RefundId = ''rf:o1'', ar_OperatorId = 9, ar_Approve = ok, ar_Remark = [], ar_RequestId = []\<rparr>"

lemma demo_audit_id [simp]: "TrimSpace ''rf:o1'' = ''rf:o1''"
  by code_simp

lemmas audit_run = AuditRefund_def audit_body_def audit_decide_def approveRefund_def rejectRefund_def one_row_def order_tx_or_def
  releaseRefundStock_def markRefundReleaseFailed_def mark_release_failed_def approve_local_refund_def refund_paid_back_def
  reject_refund_def restore_order_def last_refund_source_def insertRefundStatusLog_def insertRefundOutbox_def append_event_def has_event_def insert_log_def
  audit_row_of_def order_row_of_def update_refunds_def update_orders_def update_rows_def affected_def auditable_def refundResponse_def
  RawDB_def call_def query_def query_row_def exec_def stmt_def ext_call_def pop_fault_def io_simps order_tx_def with_tx_def Let_def

lemmas audit_demo = refund_svc_def demo_inventory_def demo_audit_def refund_world_def refund_tables_def demo_refund_def demo_payment_def
  demo_row_def no_rows_at_all_def

lemma demo_approved:
  "map rf_status (refunds (o_db (snd (AuditRefund refund_svc demo_ctx (demo_audit True) (refund_world []))))) = [2]"
  by (simp add: audit_run audit_demo)



end
