(* ===== verification/Outbox_Safety.thy ===== *)
theory Outbox_Safety
  imports Order_Guarantees
begin

text \<open>
  The outbox publisher: an event is marked published only after the broker acknowledged it, at most
  one instance holds the leader lock while it lasts, and a run without losses publishes everything
  that is due.
\<close>

section \<open>Published means acknowledged\<close>

text \<open>The broker has accepted a batch with the message \<open>m\<close> in some state.\<close>

definition acked :: "(rabbit_message list \<Rightarrow> ('x, unit) io) \<Rightarrow> rabbit_message \<Rightarrow> bool" where
  "acked publish m \<longleftrightarrow> (\<exists>ms e e'. publish ms e = (Inr (), e') \<and> m \<in> set ms)"

text \<open>The event with id \<open>i\<close> is not published and has the message \<open>m\<close>.\<close>

definition waiting :: "order_config \<Rightarrow> int \<Rightarrow> rabbit_message \<Rightarrow> order_tables \<Rightarrow> bool" where
  "waiting c i m d \<longleftrightarrow>
     (\<forall>r\<in>set (outbox d). ob_id r = i \<longrightarrow> ob_status r \<noteq> outboxStatusPublished \<and> message_of c (event_of_row r) = m)"

lemma keeps_waiting:
  assumes "\<And>now r. ob_id (f now r) = ob_id r \<and> message_of c (event_of_row (f now r)) = message_of c (event_of_row r)"
    and "\<And>now r. P now r \<Longrightarrow> ob_id r = i \<Longrightarrow> ob_status (f now r) \<noteq> outboxStatusPublished"
  shows "keeps (on_odb (waiting c i m)) (exec (\<lambda>now. update_outbox (P now) f now))"
proof -
  have touch: "message_of c (event_of_row (r\<lparr>ob_update_time := t\<rparr>)) = message_of c (event_of_row r)" for r t
    by (simp add: event_of_row_def)
  show ?thesis unfolding exec_def
    by (rule keeps_stmt) (use assms touch in \<open>auto simp: waiting_def update_outbox_def update_rows_def\<close>)
qed

lemma message_of_row:
  "ob_event_id r' = ob_event_id r \<Longrightarrow> ob_event_type r' = ob_event_type r \<Longrightarrow> ob_payload r' = ob_payload r \<Longrightarrow>
    message_of c (event_of_row r') = message_of c (event_of_row r)"
  by (simp add: message_of_def event_of_row_def)

lemma keeps_waiting_marks [keeps_rules]:
  "keeps (on_odb (waiting c i m)) (recoverTimeoutPublishing c')"
  "keeps (on_odb (waiting c i m)) (markPublishingBatch es)"
  "keeps (on_odb (waiting c i m)) (claim_one ev acc)"
  "keeps (on_odb (waiting c i m)) (markRetry c' err ev)"
  unfolding recoverTimeoutPublishing_def markPublishingBatch_def claim_one_def markRetry_def move_events_def Let_def
  by (intro keeps_rules keeps_waiting conjI message_of_row; simp)+

lemma keeps_waiting_published:
  assumes "i \<notin> ev_ID ` set es"
  shows "keeps (on_odb (waiting c i m)) (markPublishedBatch es)"
  unfolding markPublishedBatch_def move_events_def
  by (intro keeps_rules keeps_waiting conjI message_of_row; use assms in auto)

lemma keeps_claimBatch: "keeps (on_odb (waiting c i m)) (claimBatch c')"
  unfolding claimBatch_def by (intro keeps_rules keeps_stmt) auto

text \<open>A claimed event is a row of the table.\<close>

lemma fold_claim_subset:
  "fold_io claim_one cs acc w = (Inr es, w') \<Longrightarrow> set es \<subseteq> set acc \<union> set cs"
proof (induction cs arbitrary: acc w)
  case Nil then show ?case by (auto dest: ret_InrD)
next
  case (Cons x cs)
  then obtain acc' w1 where s: "claim_one x acc w = (Inr acc', w1)" "fold_io claim_one cs acc' w1 = (Inr es, w')"
    by (auto elim: bindE_InrE)
  moreover have "set acc' \<subseteq> insert x (set acc)"
    using s(1) unfolding claim_one_def by (auto elim!: bindE_InrE dest!: ret_InrD split: if_splits)
  ultimately show ?case using Cons.IH [OF s(2)] by auto
qed

lemma claimBatch_events:
  assumes "claimBatch c w = (Inr es, w')"
  shows "set es \<subseteq> event_of_row ` set (outbox (o_db w))"
proof -
  obtain cs w1 w2 now where q: "stmt (\<lambda>now d. (Inr (pending_events (batchSize c) now d), d)) w1 = (Inr cs, w2)" "o_db w1 = o_db w"
    and rest: "(if cs = [] then ret [] else if OutboxSingleActive c then bindE (markPublishingBatch cs) (\<lambda>_. ret cs) else fold_io claim_one cs []) w2 = (Inr es, w')"
    using assms unfolding claimBatch_def by (auto elim!: bindE_InrE simp: RawDB_def ret_def elim!: ext_call_cases)
  have "set es \<subseteq> set cs"
    using rest fold_claim_subset [of cs "[]" w2 es w'] by (auto split: if_splits elim!: bindE_InrE dest!: ret_InrD)
  moreover have "set cs \<subseteq> event_of_row ` set (outbox (o_db w))"
    using stmt_Inr [OF q(1)] q(2) by (auto simp: pending_events_def dest!: in_set_takeD)
  ultimately show ?thesis by blast
qed

lemma publishBatch_Inr: "publishBatch publish c es w = (Inr u, w') \<Longrightarrow> e \<in> set es \<Longrightarrow> acked publish (message_of c e)"
  by (auto simp: publishBatch_def call_def acked_def split: prod.splits elim!: ext_call_cases) (metis image_eqI set_map)

lemma keeps_processOnce_waiting:
  assumes "\<not> acked publish m"
  shows "keeps (on_odb (waiting c i m)) (processOnce publish c)"
  unfolding processOnce_def
proof (rule keeps_bindE [OF keeps_waiting_marks(1)], rule keeps_bindE_inv [OF keeps_claimBatch])
  fix w es w' assume I: "on_odb (waiting c i m) w" and run: "claimBatch c w = (Inr es, w')"
  have m: "message_of c e = m" if "e \<in> set es" "ev_ID e = i" for e
    using claimBatch_events [OF run] that I by (auto simp: on_odb_def waiting_def) (auto simp: event_of_row_def)
  have fresh: "i \<notin> ev_ID ` set es" if "publishBatch publish c es v = (Inr u, v')" for v u v'
    using publishBatch_Inr [OF that] m assms by (metis image_iff)
  have "keeps (on_odb (waiting c i m)) (bindE (attempt (publishBatch publish c es)) (\<lambda>res.
          case res of
            Inl err \<Rightarrow> bindE (for_each es (\<lambda>e. bindE (attempt (markRetry c err e)) (\<lambda>_. ret ()))) (\<lambda>_. ret (int (length es)))
          | Inr _ \<Rightarrow> bindE (attempt (markPublishedBatch es)) (\<lambda>_. ret (int (length es)))))"
  proof (rule keeps_bindE_val)
    show "keeps (on_odb (waiting c i m)) (attempt (publishBatch publish c es))"
      unfolding publishBatch_def by (intro keeps_rules)
    fix v res v' assume "attempt (publishBatch publish c es) v = (Inr res, v')"
    then have "res = Inr u \<Longrightarrow> i \<notin> ev_ID ` set es" for u using fresh by (auto simp: attempt_def split: prod.splits)
    then show "keeps (on_odb (waiting c i m)) (case res of
            Inl err \<Rightarrow> bindE (for_each es (\<lambda>e. bindE (attempt (markRetry c err e)) (\<lambda>_. ret ()))) (\<lambda>_. ret (int (length es)))
          | Inr _ \<Rightarrow> bindE (attempt (markPublishedBatch es)) (\<lambda>_. ret (int (length es))))"
      by (cases res) (auto intro!: keeps_rules keeps_waiting_published)
  qed
  then show "keeps (on_odb (waiting c i m)) (if es = [] then ret 0 else bindE (attempt (publishBatch publish c es)) (\<lambda>res.
          case res of
            Inl err \<Rightarrow> bindE (for_each es (\<lambda>e. bindE (attempt (markRetry c err e)) (\<lambda>_. ret ()))) (\<lambda>_. ret (int (length es)))
          | Inr _ \<Rightarrow> bindE (attempt (markPublishedBatch es)) (\<lambda>_. ret (int (length es)))))"
    by (intro keeps_if keeps_ret)
qed

text \<open>
  an event that a run of the publisher turns into a published one was part of a batch the
  broker acknowledged, whatever is lost on the way and however the batch was claimed.
\<close>

theorem published_was_acked:
  assumes "processOnce publish c w = (x, w')" "distinct (map ob_id (outbox (o_db w)))"
    and "r \<in> set (outbox (o_db w))" "ob_status r \<noteq> outboxStatusPublished"
    and "r' \<in> set (outbox (o_db w'))" "ob_id r' = ob_id r" "ob_status r' = outboxStatusPublished"
  shows "\<exists>ms e e'. publish ms e = (Inr (), e') \<and> message_of c (event_of_row r) \<in> set ms"
proof (rule ccontr)
  let ?m = "message_of c (event_of_row r)"
  assume "\<not> ?thesis"
  then have "keeps (on_odb (waiting c (ob_id r) ?m)) (processOnce publish c)" by (intro keeps_processOnce_waiting) (auto simp: acked_def)
  moreover have "waiting c (ob_id r) ?m (o_db w)"
    using assms(2-4) by (auto simp: waiting_def distinct_map inj_on_def)
  ultimately have "waiting c (ob_id r) ?m (o_db w')"
    using keepsD [of "on_odb (waiting c (ob_id r) ?m)" "processOnce publish c" w] assms(1) by (simp add: on_odb_def)
  then show False using assms(5-7) by (auto simp: waiting_def)
qed

section \<open>Leadership\<close>

lemma lock_value_faults [simp]: "lock_value (w\<lparr>faults := fs\<rparr>) k = lock_value w k"
  by (cases "o_locks w k") (auto simp: lock_value_def)

lemma SetnxEx_Inr:
  "SetnxEx k v t w = (Inr b, w') \<Longrightarrow>
    (b \<longleftrightarrow> lock_value w k = None) \<and> o_locks w' = (if b then (o_locks w)(k := Some (v, o_now w + t)) else o_locks w) \<and> o_now w' = o_now w"
  unfolding SetnxEx_def by (erule ext_call_cases) (auto split: if_splits)

lemma renewLeaderLock_Inr:
  "renewLeaderLock k v t w = (Inr n, w') \<Longrightarrow>
    (n = 1 \<longleftrightarrow> lock_value w k = Some v) \<and> o_locks w' = (if n = 1 then (o_locks w)(k := Some (v, o_now w + t)) else o_locks w) \<and> o_now w' = o_now w"
  unfolding renewLeaderLock_def by (erule ext_call_cases) (auto split: if_splits)

lemma ensureLeadership_Inr:
  assumes "ensureLeadership c p w = (Inr (ready, p'), w')" "OutboxSingleActive c"
  shows "(ready \<longrightarrow> o_locks w' = (o_locks w)(leaderLockKey c := Some (leaderID p, o_now w + leaderLockTTL c)) \<and>
      lock_value w (leaderLockKey c) \<in> {None, Some (leaderID p)}) \<and> (\<not> ready \<longrightarrow> o_locks w' = o_locks w) \<and> leaderID p' = leaderID p \<and> (ready \<longrightarrow> leaderOwned p')"
  using assms unfolding ensureLeadership_def Let_def
  by (auto split: if_splits elim!: bindE_InrE dest!: ret_InrD SetnxEx_Inr renewLeaderLock_Inr)

lemma ensureLeadership_ok:
  "faults w = [] \<Longrightarrow> \<exists>ready p'. ensureLeadership c p w = (Inr (ready, p'), snd (ensureLeadership c p w))"
  by (auto simp: ensureLeadership_def SetnxEx_def renewLeaderLock_def io_simps Let_def split: prod.splits)

text \<open>
  while the lock of an instance has not expired, no other instance becomes leader or stays
  it: once an instance was told that it leads, any other instance that asks before the deadline is
  told that it does not, and the lock stays as it was.
\<close>

theorem leader_is_unique:
  assumes "OutboxSingleActive c" "ensureLeadership c p w = (Inr (True, p'), w1)"
    and "o_locks w2 = o_locks w1" "o_now w2 < o_now w + leaderLockTTL c" "leaderID q \<noteq> leaderID p"
    and "ensureLeadership c q w2 = (Inr (ready, q'), w3)"
  shows "\<not> ready \<and> o_locks w3 = o_locks w1"
proof -
  have "o_locks w2 (leaderLockKey c) = Some (leaderID p, o_now w + leaderLockTTL c)"
    using ensureLeadership_Inr [OF assms(2,1)] assms(3) by simp
  then have "lock_value w2 (leaderLockKey c) = Some (leaderID p)" using assms(4) by (simp add: lock_value_def)
  then show ?thesis using ensureLeadership_Inr [OF assms(6,1)] assms(3,5) by auto
qed

theorem leader_is_unique_witness:
  "\<exists>w1 w3 p' q'. ensureLeadership order_demo_config \<lparr>leaderID = ''a'', leaderOwned = False\<rparr> (order_world_of no_rows_at_all []) = (Inr (True, p'), w1) \<and>
     ensureLeadership order_demo_config \<lparr>leaderID = ''b'', leaderOwned = False\<rparr> (w1\<lparr>o_now := 1089\<rparr>) = (Inr (False, q'), w3) \<and> o_locks w3 = o_locks w1"
proof -
  let ?p = "\<lparr>leaderID = ''a'', leaderOwned = False\<rparr>" and ?q = "\<lparr>leaderID = ''b'', leaderOwned = False\<rparr>"
  let ?w = "order_world_of no_rows_at_all []"
  define w1 where "w1 = snd (ensureLeadership order_demo_config ?p ?w)"
  let ?r = "ensureLeadership order_demo_config ?q (w1\<lparr>o_now := 1089\<rparr>)"
  have p: "ensureLeadership order_demo_config ?p ?w = (Inr (True, ?p\<lparr>leaderOwned := True\<rparr>), w1)"
    by (simp add: w1_def ensureLeadership_def order_demo_config_def SetnxEx_def ext_call_def pop_fault_def order_world_of_def lock_value_def io_simps Let_def)
  have "faults w1 = []" using p by (auto simp: w1_def ensureLeadership_def SetnxEx_def order_world_of_def lock_value_def io_simps Let_def)
  then obtain ready q' where q: "?r = (Inr (ready, q'), snd ?r)"
    using ensureLeadership_ok [of "w1\<lparr>o_now := 1089\<rparr>" order_demo_config ?q] by auto
  have "\<not> ready \<and> o_locks (snd ?r) = o_locks w1"
    by (rule leader_is_unique [OF _ p _ _ _ q]) (simp_all add: order_demo_config_def leaderLockTTL_def order_world_of_def)
  then show ?thesis using p q by (intro exI [of _ w1] exI [of _ "snd ?r"] exI [of _ "?p\<lparr>leaderOwned := True\<rparr>"] exI [of _ q']) simp
qed

section \<open>Everything that is due is published\<close>

text \<open>An event that a run at time \<open>now\<close> has to publish: waiting and due, or stuck for too long.\<close>

definition due :: "order_config \<Rightarrow> int \<Rightarrow> outbox_row \<Rightarrow> bool" where
  "due c now r \<longleftrightarrow> (ob_status r = outboxStatusPending \<and> ob_next_retry_at r \<le> now) \<or>
     (ob_status r = outboxStatusPublishing \<and> ob_update_time r < now - (if OutboxTimeoutSec c \<le> 0 then 60 else OutboxTimeoutSec c))"

lemma event_ids [simp]: "map (ev_ID \<circ> event_of_row) cs = map ob_id cs"
  by (simp add: event_of_row_def)

lemma attempt_result: "m w = (r, w1) \<Longrightarrow> attempt m w = (Inr r, w1)"
  by (simp add: attempt_def)

lemma exec_ok: "faults w = [] \<Longrightarrow> exec f w = (Inr (fst (f (o_now w) (o_db w))), w\<lparr>o_db := snd (f (o_now w) (o_db w))\<rparr>)"
  by (simp add: exec_def stmt_def io_simps split: prod.splits)

text \<open>Moving the events of the given ids, one row at a time.\<close>

definition moved :: "int \<Rightarrow> int \<Rightarrow> (int \<Rightarrow> outbox_row \<Rightarrow> outbox_row) \<Rightarrow> int list \<Rightarrow> int \<Rightarrow> outbox_row \<Rightarrow> outbox_row" where
  "moved a b f ids now r = (if ob_status r = a \<and> ob_id r \<in> set ids then (f now r)\<lparr>ob_status := b, ob_update_time := now\<rparr> else r)"

lemma outbox_move_events: "a \<noteq> b \<Longrightarrow> outbox (snd (move_events a b f ids now d)) = map (moved a b f ids now) (outbox d)"
  by (auto simp: move_events_def update_outbox_def update_rows_def moved_def)

lemma affected_move_events:
  assumes "a \<noteq> b"
  shows "fst (move_events a b f ids now d) = int (length (filter (\<lambda>r. ob_status r = a \<and> ob_id r \<in> set ids) (outbox d)))"
proof -
  have "(f now r)\<lparr>ob_status := b, ob_update_time := now\<rparr> \<noteq> r" if "ob_status r = a" for r :: outbox_row
    using that assms by (metis outbox_row.select_convs(6) outbox_row.surjective outbox_row.update_convs(6,11))
  then have "(ob_status r = a \<and> ob_id r \<in> set ids) \<and> (f now r)\<lparr>ob_status := b, ob_update_time := now\<rparr> \<noteq> r \<longleftrightarrow> ob_status r = a \<and> ob_id r \<in> set ids" for r
    by blast
  then show ?thesis by (simp add: move_events_def update_outbox_def affected_def)
qed

text \<open>A row whose id is among those of the rows with \<open>P\<close> has \<open>P\<close> itself.\<close>

lemma id_in_selected:
  "distinct (map ob_id rows) \<Longrightarrow> r \<in> set rows \<Longrightarrow> ob_id r \<in> ob_id ` set (filter P rows) \<longleftrightarrow> P r"
  by (auto simp: distinct_map inj_on_def)

lemma all_pending_events:
  "int (length (outbox d)) \<le> batch \<Longrightarrow>
    pending_events batch now d = map event_of_row (sort_key ob_id (filter (\<lambda>r. ob_status r = outboxStatusPending \<and> ob_next_retry_at r \<le> now) (outbox d)))"
  unfolding pending_events_def by (subst take_all) (auto intro: order_trans [OF length_filter_le])

text \<open>The recovery of stuck events, one row at a time.\<close>

definition recovered :: "order_config \<Rightarrow> int \<Rightarrow> outbox_row \<Rightarrow> outbox_row" where
  "recovered c now r =
     (if ob_status r = outboxStatusPublishing \<and> ob_update_time r < now - (if OutboxTimeoutSec c \<le> 0 then 60 else OutboxTimeoutSec c)
      then r\<lparr>ob_status := outboxStatusPending, ob_next_retry_at := now, ob_last_error := ''recovered from timeout'', ob_update_time := now\<rparr> else r)"

lemma recoverTimeoutPublishing_ok:
  assumes "faults w = []"
  shows "\<exists>d1. recoverTimeoutPublishing c w = (Inr (), w\<lparr>o_db := d1\<rparr>) \<and> outbox d1 = map (recovered c (o_now w)) (outbox (o_db w))"
  using assms unfolding recoverTimeoutPublishing_def Let_def
  by (auto simp: bindE_def exec_ok ret_def update_outbox_def update_rows_def recovered_def)

lemma claimBatch_ok:
  assumes w: "faults w = []" "OutboxSingleActive c" "int (length (outbox (o_db w))) \<le> batchSize c" "distinct (map ob_id (outbox (o_db w)))"
    and P: "P = (\<lambda>r. ob_status r = outboxStatusPending \<and> ob_next_retry_at r \<le> o_now w)" and cs: "cs = sort_key ob_id (filter P (outbox (o_db w)))"
    and ne: "cs \<noteq> []"
  shows "\<exists>d2. claimBatch c w = (Inr (map event_of_row cs), w\<lparr>o_db := d2\<rparr>) \<and>
    outbox d2 = map (moved outboxStatusPending outboxStatusPublishing (\<lambda>now r. r) (map ob_id cs) (o_now w)) (outbox (o_db w))"
proof -
  let ?mv = "move_events outboxStatusPending outboxStatusPublishing (\<lambda>now r. r) (map ob_id cs) (o_now w) (o_db w)"
  have "filter (\<lambda>r. ob_status r = outboxStatusPending \<and> ob_id r \<in> set (map ob_id cs)) (outbox (o_db w)) = filter P (outbox (o_db w))"
    using id_in_selected [OF w(4), of _ P] by (auto simp: cs P intro!: filter_cong)
  then have "fst ?mv = int (length cs)" by (simp add: affected_move_events cs)
  then have "markPublishingBatch (map event_of_row cs) w = (Inr (), w\<lparr>o_db := snd ?mv\<rparr>)"
    using w(1) ne by (simp add: markPublishingBatch_def bindE_def exec_ok ret_def)
  then have "claimBatch c w = (Inr (map event_of_row cs), w\<lparr>o_db := snd ?mv\<rparr>)"
    using w ne by (simp add: claimBatch_def RawDB_def io_simps stmt_def all_pending_events cs P)
  then show ?thesis by (auto simp: outbox_move_events)
qed

lemma markPublishedBatch_db:
  assumes "faults w = []" "es \<noteq> []"
  shows "\<exists>res. attempt (markPublishedBatch es) w = (Inr res, w\<lparr>o_db := snd (move_events outboxStatusPublishing outboxStatusPublished
    (\<lambda>now r. r\<lparr>ob_published_at := Some now, ob_last_error := []\<rparr>) (map ev_ID es) (o_now w) (o_db w))\<rparr>)"
  using assms unfolding markPublishedBatch_def attempt_def
  by (simp add: bindE_def exec_ok ret_def fail_def)

text \<open>
  C31: without losses, and with a broker that accepts every batch, one run of the active publisher
  publishes every event that is due or stuck, as long as the table fits into one batch.
\<close>

theorem due_events_get_published:
  assumes w: "faults w = []" "OutboxSingleActive c" "int (length (outbox (o_db w))) \<le> batchSize c" "distinct (map ob_id (outbox (o_db w)))"
    and broker: "\<And>ms e. fst (publish ms e) = Inr ()" and r: "r \<in> set (outbox (o_db w))" "due c (o_now w) r"
  shows "\<exists>n w' r'. processOnce publish c w = (Inr n, w') \<and> 0 < n \<and> r' \<in> set (outbox (o_db w')) \<and> ob_id r' = ob_id r \<and>
    ob_event_id r' = ob_event_id r \<and> ob_status r' = outboxStatusPublished"
proof -
  let ?now = "o_now w" and ?rows = "map (recovered c (o_now w)) (outbox (o_db w))"
  obtain d1 where d1: "recoverTimeoutPublishing c w = (Inr (), w\<lparr>o_db := d1\<rparr>)" "outbox d1 = ?rows"
    using recoverTimeoutPublishing_ok [OF w(1)] by blast
  let ?w1 = "w\<lparr>o_db := d1\<rparr>"
  define P where "P = (\<lambda>r :: outbox_row. ob_status r = outboxStatusPending \<and> ob_next_retry_at r \<le> ?now)"
  define cs where "cs = sort_key ob_id (filter P ?rows)"
  have ids: "map ob_id ?rows = map ob_id (outbox (o_db w))" by (simp add: recovered_def)
  have row: "recovered c ?now r \<in> set cs" using r by (auto simp: cs_def P_def due_def recovered_def)
  then have ne: "cs \<noteq> []" by auto
  obtain d2 where d2: "claimBatch c ?w1 = (Inr (map event_of_row cs), w\<lparr>o_db := d2\<rparr>)"
    "outbox d2 = map (moved outboxStatusPending outboxStatusPublishing (\<lambda>now r. r) (map ob_id cs) ?now) ?rows"
  proof -
    have "o_db ?w1 = d1" by simp
    then have dist: "distinct (map ob_id (outbox (o_db ?w1)))" using w(4) by (simp only: d1(2) ids)
    have "\<exists>d2. claimBatch c ?w1 = (Inr (map event_of_row cs), ?w1\<lparr>o_db := d2\<rparr>) \<and>
      outbox d2 = map (moved outboxStatusPending outboxStatusPublishing (\<lambda>now r. r) (map ob_id cs) (o_now ?w1)) (outbox (o_db ?w1))"
      by (rule claimBatch_ok [OF _ w(2) _ dist, where P = P]) (use w ne in \<open>simp_all add: d1(2) P_def cs_def\<close>)
    then show thesis using that by (auto simp: d1(2))
  qed
  obtain e' where pub: "publishBatch publish c (map event_of_row cs) (w\<lparr>o_db := d2\<rparr>) = (Inr (), w\<lparr>o_db := d2, o_ext := e'\<rparr>)"
    using broker [of "map (message_of c) (map event_of_row cs)" "o_ext w"] w(1)
    by (cases "publish (map (message_of c) (map event_of_row cs)) (o_ext w)") (auto simp: publishBatch_def call_def io_simps)
  let ?mv = "move_events outboxStatusPublishing outboxStatusPublished (\<lambda>now r. r\<lparr>ob_published_at := Some now, ob_last_error := []\<rparr>) (map ob_id cs) ?now d2"
  obtain res where mark: "attempt (markPublishedBatch (map event_of_row cs)) (w\<lparr>o_db := d2, o_ext := e'\<rparr>) = (Inr res, w\<lparr>o_ext := e', o_db := snd ?mv\<rparr>)"
    using markPublishedBatch_db [of "w\<lparr>o_db := d2, o_ext := e'\<rparr>" "map event_of_row cs"] w(1) ne by auto
  have run: "processOnce publish c w = (Inr (int (length cs)), w\<lparr>o_ext := e', o_db := snd ?mv\<rparr>)"
    using ne by (simp add: processOnce_def bindE_Inr [where m = "recoverTimeoutPublishing c", OF d1(1)] bindE_Inr [where m = "claimBatch c", OF d2(1)]
      bindE_Inr [where m = "attempt (publishBatch publish c (map event_of_row cs))", OF attempt_result [where m = "publishBatch publish c (map event_of_row cs)", OF pub]]
      bindE_Inr [where m = "attempt (markPublishedBatch (map event_of_row cs))", OF mark] ret_def)
  let ?r' = "moved outboxStatusPublishing outboxStatusPublished (\<lambda>now r. r\<lparr>ob_published_at := Some now, ob_last_error := []\<rparr>) (map ob_id cs) ?now
    (moved outboxStatusPending outboxStatusPublishing (\<lambda>now r. r) (map ob_id cs) ?now (recovered c ?now r))"
  have "?r' \<in> set (outbox (snd ?mv))" using r(1) by (simp add: outbox_move_events d2(2))
  moreover have "ob_id ?r' = ob_id r \<and> ob_event_id ?r' = ob_event_id r \<and> ob_status ?r' = outboxStatusPublished"
  proof -
    let ?q = "recovered c ?now r"
    have q: "ob_id ?q = ob_id r" "ob_event_id ?q = ob_event_id r" "ob_status ?q = outboxStatusPending"
      using r(2) by (simp_all add: recovered_def due_def) auto
    have "ob_id ?q \<in> set (map ob_id cs)" using row by auto
    then show ?thesis using q by (simp add: moved_def)
  qed
  ultimately show ?thesis
    using run ne by (intro exI [of _ "int (length cs)"] exI [of _ "w\<lparr>o_ext := e', o_db := snd ?mv\<rparr>"] exI [of _ ?r']) simp
qed

section \<open>Examples\<close>

definition demo_event :: outbox_row where
  "demo_event = \<lparr>ob_id = 1, ob_event_id = ''order.paid:o1'', ob_event_type = ''order.paid'', ob_aggregate_id = ''o1'', ob_payload = JNull,
     ob_status = 0, ob_attempt_count = 0, ob_next_retry_at = 900, ob_published_at = None, ob_last_error = [], ob_update_time = 900\<rparr>"

definition outbox_tables :: order_tables where
  "outbox_tables = no_rows_at_all\<lparr>outbox := [demo_event]\<rparr>"

definition good_broker :: "rabbit_message list \<Rightarrow> (unit, unit) io" where
  "good_broker ms e = (Inr (), e)"

theorem due_events_get_published_witness:
  "\<exists>n w'. processOnce good_broker order_demo_config (order_world_of outbox_tables []) = (Inr n, w') \<and> 0 < n"
  using due_events_get_published [of "order_world_of outbox_tables []" order_demo_config good_broker demo_event]
  by (auto simp: order_world_of_def outbox_tables_def order_demo_config_def batchSize_def good_broker_def due_def demo_event_def)

lemma demo_published:
  "map ob_status (outbox (o_db (snd (processOnce good_broker order_demo_config (order_world_of outbox_tables []))))) = [1]"
  "map ob_id (outbox (o_db (snd (processOnce good_broker order_demo_config (order_world_of outbox_tables []))))) = [1]"
  by code_simp+

theorem published_was_acked_witness:
  "\<exists>ms e e'. good_broker ms e = (Inr (), e') \<and> message_of order_demo_config (event_of_row demo_event) \<in> set ms"
proof -
  let ?r = "processOnce good_broker order_demo_config (order_world_of outbox_tables [])"
  obtain r' where "r' \<in> set (outbox (o_db (snd ?r)))" "ob_status r' = 1" "ob_id r' = 1"
    using demo_published by (cases "outbox (o_db (snd ?r))") auto
  then show ?thesis
    using published_was_acked [of good_broker order_demo_config "order_world_of outbox_tables []" "fst ?r" "snd ?r" demo_event r']
    by (simp add: order_world_of_def outbox_tables_def demo_event_def)
qed

end
