(* ===== verification/Pre_Deduct_Safety.thy ===== *)
theory Pre_Deduct_Safety
  imports Pre_Deduct
begin

text \<open>
  The stock branch of the order saga on the order service's own Redis: a try takes its amount from
  one shard, a repeated try and a late try take nothing, a rollback gives exactly that amount back
  once; and the order service spreads stock the way the inventory service does.
\<close>

section \<open>Finding a shard\<close>

lemma pre_scan_Inr:
  assumes "pre_scan KS a n s r ks h = Inr (idx, st)" "0 < n"
  shows "1 \<le> idx \<and> idx \<le> n \<and> ctr r (at_key KS idx) = Some st \<and> a \<le> st"
  using assms
proof (induction ks arbitrary: h)
  case (Cons i ks)
  have "0 \<le> (s + i) mod n" "(s + i) mod n + 1 \<le> n" using Cons.prems(2) pos_mod_bound [of n "s + i"] by (simp, linarith)
  then show ?case using Cons by (auto simp: Let_def split: option.splits if_splits)
qed simp

lemma at_key_inject:
  assumes "distinct KS" "1 \<le> i" "i \<le> int (length KS)" "1 \<le> j" "j \<le> int (length KS)"
  shows "at_key KS i = at_key KS j \<longleftrightarrow> i = j"
  using assms by (auto simp: at_key_def lkey_def nth_eq_iff_index_eq)

section \<open>The saga branch\<close>

lemma preDeductLua_took:
  assumes "preDeductLua KS a ttl n s r = (Inr res, r1)" "0 \<le> res" "0 < n"
    and "ctr r (at_key KS (n + 1)) = None" "ctr r (at_key KS (n + 2)) = None"
  shows "\<exists>idx st. 1 \<le> idx \<and> idx \<le> n \<and> ctr r (at_key KS idx) = Some st \<and> a \<le> st \<and> res = st - a \<and>
    ctr r1 = (ctr r)(at_key KS idx := Some (st - a), at_key KS (n + 1) := Some idx)"
proof -
  obtain idx st where scan: "pre_scan KS a n s r [0..n - 1] False = Inr (idx, st)"
    using assms by (cases "pre_scan KS a n s r [0..n - 1] False") (auto simp: preDeductLua_def Let_def split: if_splits)
  show ?thesis
    using pre_scan_Inr [OF scan assms(3)] assms scan
    by (intro exI [of _ idx] exI [of _ st]) (auto simp: preDeductLua_def Let_def r_decrby_def num_of_def)
qed

lemma preDeductRollbackLua_took:
  assumes "ctr r (at_key KS (n + 2)) = None" "ctr r (at_key KS (n + 1)) = Some idx" "1 \<le> idx" "idx \<le> int (length KS)"
  shows "fst (preDeductRollbackLua KS a ttl n r) = Inr 1"
    "ctr (snd (preDeductRollbackLua KS a ttl n r)) =
      (ctr r)(at_key KS idx := Some (num_of (ctr r (at_key KS idx)) + a), at_key KS (n + 2) := Some 1)"
  using assms by (simp_all add: preDeductRollbackLua_def Let_def)

lemma preDeduct_marked:
  assumes "ctr r (at_key KS (n + 1)) \<noteq> None \<or> ctr r (at_key KS (n + 2)) \<noteq> None"
  shows "preDeductLua KS a ttl n s r = (Inr 1, r)"
  using assms by (auto simp: preDeductLua_def Let_def)

lemma preDeductRollback_marked: "ctr r (at_key KS (n + 2)) \<noteq> None \<Longrightarrow> preDeductRollbackLua KS a ttl n r = (Inr 1, r)"
  by (auto simp: preDeductRollbackLua_def Let_def)

text \<open>
  C32: a try that took stock took it from one shard that had it; a repeated try changes nothing;
  a rollback restores every shard, and after it neither another rollback nor a late try changes
  anything.
\<close>

theorem pre_deduct_saga:
  assumes run: "preDeductLua KS a ttl n s r = (Inr res, r1)" "0 \<le> res"
    and fresh: "ctr r (at_key KS (n + 1)) = None" "ctr r (at_key KS (n + 2)) = None"
    and keys: "distinct KS" "int (length KS) = n + 2" "0 < n"
    and r2: "r2 = snd (preDeductRollbackLua KS a ttl n r1)"
  shows "(\<exists>idx st. 1 \<le> idx \<and> idx \<le> n \<and> ctr r (at_key KS idx) = Some st \<and> a \<le> st \<and> ctr r1 (at_key KS idx) = Some (st - a) \<and>
      (\<forall>j. 1 \<le> j \<longrightarrow> j \<le> n \<longrightarrow> j \<noteq> idx \<longrightarrow> ctr r1 (at_key KS j) = ctr r (at_key KS j))) \<and>
    preDeductLua KS b ttl n s' r1 = (Inr 1, r1) \<and>
    (\<forall>j. 1 \<le> j \<longrightarrow> j \<le> n \<longrightarrow> ctr r2 (at_key KS j) = ctr r (at_key KS j)) \<and>
    preDeductRollbackLua KS b ttl n r2 = (Inr 1, r2) \<and> preDeductLua KS b ttl n s' r2 = (Inr 1, r2)"
proof -
  obtain idx st where took: "1 \<le> idx" "idx \<le> n" "ctr r (at_key KS idx) = Some st" "a \<le> st"
    "ctr r1 = (ctr r)(at_key KS idx := Some (st - a), at_key KS (n + 1) := Some idx)"
    using preDeductLua_took [OF run keys(3) fresh] by auto
  have ne: "at_key KS i = at_key KS j \<longleftrightarrow> i = j" if "1 \<le> i" "i \<le> n + 2" "1 \<le> j" "j \<le> n + 2" for i j
    using at_key_inject [OF keys(1)] that keys(2) by simp
  have try1: "ctr r1 (at_key KS (n + 1)) = Some idx" "ctr r1 (at_key KS (n + 2)) = None"
    using took ne fresh keys(3) by simp_all
  have c2: "ctr r2 = (ctr r1)(at_key KS idx := Some (num_of (ctr r1 (at_key KS idx)) + a), at_key KS (n + 2) := Some 1)"
    using preDeductRollbackLua_took(2) [OF try1(2,1), of a ttl] took(1,2) keys(2) by (simp add: r2)
  have "ctr r2 (at_key KS j) = ctr r (at_key KS j)" if "1 \<le> j" "j \<le> n" for j
    using that took ne keys(3) by (auto simp: c2 num_of_def)
  moreover have "ctr r2 (at_key KS (n + 2)) \<noteq> None" by (simp add: c2)
  ultimately show ?thesis
    using took ne try1 keys(3) preDeduct_marked [of r1 KS n b ttl s'] preDeduct_marked [of r2 KS n b ttl s'] preDeductRollback_marked [of r2 KS n b ttl]
    by (intro conjI exI [of _ idx] exI [of _ st]) auto
qed

definition demo_keys :: "string list" where
  "demo_keys = [''stock:7:0'', ''stock:7:1'', ''try'', ''rollback'']"

definition demo_shards :: redis where
  "demo_shards = r_set ''stock:7:0'' 1 (r_set ''stock:7:1'' 5 (empty_redis 0))"

lemma demo_at_key [simp]:
  "at_key demo_keys 1 = ''stock:7:0''" "at_key demo_keys 2 = ''stock:7:1''" "at_key demo_keys 3 = ''try''" "at_key demo_keys 4 = ''rollback''"
  by (simp_all add: demo_keys_def at_key_def lkey_def)

lemma demo_keys_facts [simp]: "distinct demo_keys" "length demo_keys = 4"
  by (simp_all add: demo_keys_def)

lemma demo_shards_facts [simp]:
  "ctr demo_shards ''stock:7:0'' = Some 1" "ctr demo_shards ''stock:7:1'' = Some 5" "ctr demo_shards ''try'' = None" "ctr demo_shards ''rollback'' = None"
  by (simp_all add: demo_shards_def empty_redis_def)

theorem pre_deduct_saga_witness:
  "let r1 = snd (preDeductLua demo_keys 3 86400 2 0 demo_shards); r2 = snd (preDeductRollbackLua demo_keys 3 86400 2 r1)
   in ctr r1 ''stock:7:1'' = Some 2 \<and> ctr r2 ''stock:7:1'' = Some 5 \<and> preDeductLua demo_keys 3 86400 2 0 r2 = (Inr 1, r2)"
proof -
  let ?d = "preDeductLua demo_keys 3 86400 2 0 demo_shards"
  let ?r2 = "snd (preDeductRollbackLua demo_keys 3 86400 2 (snd ?d))"
  have run: "?d = (Inr 2, snd ?d)" "ctr (snd ?d) ''stock:7:1'' = Some 2"
    by (simp_all add: preDeductLua_def upto.simps Let_def r_decrby_def num_of_def)
  have s: "(\<forall>j. 1 \<le> j \<longrightarrow> j \<le> 2 \<longrightarrow> ctr ?r2 (at_key demo_keys j) = ctr demo_shards (at_key demo_keys j)) \<and> preDeductLua demo_keys 3 86400 2 0 ?r2 = (Inr 1, ?r2)"
    using pre_deduct_saga [OF run(1) _ _ _ _ _ _ refl, where b = 3 and s' = 0] by simp
  then have "ctr ?r2 (at_key demo_keys 2) = ctr demo_shards (at_key demo_keys 2)" by (metis one_le_numeral order_refl)
  then show ?thesis using s run(2) by (simp add: Let_def)
qed

text \<open>
  A rollback that comes before its try leaves the shards alone and stops the try when it
  comes.
\<close>

theorem empty_rollback_blocks_try:
  assumes "ctr r (at_key KS (n + 1)) = None" "distinct KS" "int (length KS) = n + 2" "0 < n" "1 \<le> j" "j \<le> n"
  shows "preDeductRollbackLua KS a ttl n r = (x, r1) \<Longrightarrow>
    x = Inr 1 \<and> ctr r1 (at_key KS j) = ctr r (at_key KS j) \<and> preDeductLua KS a ttl n s r1 = (Inr 1, r1)"
proof -
  assume run: "preDeductRollbackLua KS a ttl n r = (x, r1)"
  have ne: "at_key KS j \<noteq> at_key KS (n + 2)" using at_key_inject [OF assms(2)] assms by simp
  have "ctr r1 (at_key KS (n + 2)) \<noteq> None" "x = Inr 1" "ctr r1 (at_key KS j) = ctr r (at_key KS j)"
    using run ne assms(1) by (auto simp: preDeductRollbackLua_def Let_def split: if_splits)
  then show "x = Inr 1 \<and> ctr r1 (at_key KS j) = ctr r (at_key KS j) \<and> preDeductLua KS a ttl n s r1 = (Inr 1, r1)"
    using preDeduct_marked by blast
qed

theorem empty_rollback_blocks_try_witness:
  "let r1 = snd (preDeductRollbackLua demo_keys 3 86400 2 demo_shards)
   in ctr r1 ''stock:7:1'' = Some 5 \<and> preDeductLua demo_keys 3 86400 2 0 r1 = (Inr 1, r1)"
proof -
  let ?d = "preDeductRollbackLua demo_keys 3 86400 2 demo_shards"
  have "fst ?d = Inr 1 \<and> ctr (snd ?d) (at_key demo_keys 2) = ctr demo_shards (at_key demo_keys 2) \<and>
      preDeductLua demo_keys 3 86400 2 0 (snd ?d) = (Inr 1, snd ?d)"
    by (rule empty_rollback_blocks_try [of demo_shards demo_keys 2 2]) simp_all
  then show ?thesis by (simp add: Let_def)
qed

section \<open>The two services agree on shards\<close>

text \<open>
  The order service and the inventory service address the same keys, start at the same shard
  and split a total the same way, so either can serve stock the other seeded.
\<close>

theorem shard_functions_agree:
  "stockShardKeys p (stockShardCount c) = StockShardKeys p c \<and>
   stockShardStartIndex k (stockShardCount c) = StockShardStartIndex k c \<and>
   splitStockAcrossShards (max 0 t) c = SplitStockAcrossShards t c"
  by (auto simp: stockShardKeys_def stockShardCount_def StockShardKeys_def StockShardKey_def NormalizeShardCount_def
      stockShardStartIndex_def StockShardStartIndex_def splitStockAcrossShards_def SplitStockAcrossShards_def Let_def max_def)

end
