(* ===== verification/Payment_Safety.thy ===== *)
theory Payment_Safety
  imports Order_Guarantees
begin

text \<open>
  Facts around payments and commands: the callback built from a provider notification is read back
  unchanged, the numbers sent to the provider have a fixed size, a repeated lifecycle command changes
  nothing, and what a creation with a used request id leaves behind.
\<close>

section \<open>Callbacks\<close>

lemma callback_members:
  "sort_key fst [(''trade_status'', a), (''provider'', b), (''event_id'', c), (''paid_amount_fen'', d), (''provider_trade_no'', e)] =
    [(''event_id'', c), (''paid_amount_fen'', d), (''provider'', b), (''provider_trade_no'', e), (''trade_status'', a :: json)]"
  by code_simp

lemma callback_fields:
  "EqualFold ''trade_status'' ''trade_status''"
  "\<not> EqualFold ''provider'' ''trade_status''"
  "EqualFold ''provider'' ''provider''"
  "\<not> EqualFold ''event_id'' ''trade_status''"
  "\<not> EqualFold ''event_id'' ''provider''"
  "EqualFold ''event_id'' ''event_id''"
  "\<not> EqualFold ''paid_amount_fen'' ''trade_status''"
  "\<not> EqualFold ''paid_amount_fen'' ''provider''"
  "\<not> EqualFold ''paid_amount_fen'' ''event_id''"
  "EqualFold ''paid_amount_fen'' ''paid_amount_fen''"
  "\<not> EqualFold ''provider_trade_no'' ''trade_status''"
  "\<not> EqualFold ''provider_trade_no'' ''provider''"
  "\<not> EqualFold ''provider_trade_no'' ''event_id''"
  "\<not> EqualFold ''provider_trade_no'' ''paid_amount_fen''"
  "EqualFold ''provider_trade_no'' ''provider_trade_no''"
  by code_simp+



section \<open>Numbers for the provider\<close>

text \<open>
  The trade number of an order and the refund number of a refund always have 42 characters,
  which fits their columns, whatever the id they are derived from.
\<close>

lemma provider_numbers_length: "length (outTradeNoFor k) = 42 \<and> length (providerRefundIDFor x) = 42"
  by (simp add: outTradeNoFor_def providerRefundIDFor_def)

section \<open>Repeated commands\<close>

lemma find_map_same: "(\<And>r. P (g r) = P r) \<Longrightarrow> find P (map g xs) = map_option g (find P xs)"
  by (induction xs) simp_all

lemma lifecycleUpdate_hits:
  assumes upd: "lifecycleUpdate c = Inr upd" and scope: "owner_scope c = Some scope"
    and row: "find scope (orders d) = Some r" "o_status r = lt_fromStatus c"
  shows "\<exists>r'. find scope (orders (snd (upd now d))) = Some r' \<and> o_status r' = lt_toStatus c"
proof -
  obtain P f where u: "upd = update_orders P f"
    and P: "P = (\<lambda>r. o_id r = lt_orderID c \<and> (lt_ownerColumn c = ''merchant_id'' \<longrightarrow> o_merchant_id r = lt_ownerID c) \<and> o_status r = lt_fromStatus c)"
    and f: "\<And>now r. o_status (f now r) = lt_toStatus c" "\<And>now r. o_id (f now r) = o_id r"
      "\<And>now r. o_user_id (f now r) = o_user_id r" "\<And>now r. o_merchant_id (f now r) = o_merchant_id r"
    using upd that by (fastforce simp: lifecycleUpdate_def Let_def split: if_splits)
  let ?g = "\<lambda>r. if P r \<and> f now r \<noteq> r then (f now r)\<lparr>o_update_time := now\<rparr> else r"
  have "scope r" using find_SomeD [OF row(1)] by simp
  then have "P r" using scope row(2) by (auto simp: P owner_scope_def split: if_splits)
  moreover have "scope (?g x) = scope x" for x using scope f by (auto simp: owner_scope_def split: if_splits)
  moreover have "o_status (?g r) = lt_toStatus c" using \<open>P r\<close> f(1) [of now r] by (cases "f now r = r") auto
  ultimately show ?thesis
    using find_map_same [of scope ?g "orders d"] row by (auto simp: u update_orders_def update_rows_def)
qed

lemma lifecycle_body_reached:
  assumes "lifecycle_body c w = (Inr a, w')"
  shows "\<exists>scope r. owner_scope c = Some scope \<and> find scope (orders (o_db w')) = Some r \<and> o_status r = lt_toStatus c"
proof -
  obtain scope where scope: "owner_scope c = Some scope"
    using assms by (cases "owner_scope c") (auto simp: lifecycle_body_def)
  obtain st w1 where q: "map_option o_status (find scope (orders (o_db w))) = Some st" "o_db w1 = o_db w" and body:
    "(if st = lt_toStatus c then ret \<lparr>lr_repeated = True, lr_status = st\<rparr>
      else if st \<noteq> lt_fromStatus c then fail (StatusError codes_FailedPrecondition ''order status does not allow this command'')
      else lifecycle_apply c) w1 = (Inr a, w')"
    using assms unfolding lifecycle_body_def scope option.case by (auto elim!: bindE_InrE dest!: run_dests)
  obtain r where r: "find scope (orders (o_db w)) = Some r" "o_status r = st" using q(1) by auto
  show ?thesis
  proof (cases "st = lt_toStatus c")
    case True then show ?thesis using body r scope q(2) by (auto dest: ret_InrD)
  next
    case False
    then have "st = lt_fromStatus c" "lifecycle_apply c w1 = (Inr a, w')" using body by simp_all
    from this(2) show ?thesis
    proof (rule lifecycle_apply_steps)
      fix upd now1 d2 d3 now3
      assume s: "lifecycleUpdate c = Inr upd" "d2 = snd (upd now1 (o_db w1))"
        "if lt_closePayment c then \<exists>now2. d3 = snd (close_payment (lt_orderID c) now2 d2) else d3 = d2"
        "o_db w' = snd (insert_log (lt_orderID c) (lt_fromStatus c) (lt_toStatus c) (lt_operatorID c) (lt_remark c) now3 d3)"
      have "orders (o_db w') = orders d2"
        using s(3,4) by (auto simp: insert_log_def close_payment_def update_payments_def split: if_splits)
      then show ?thesis
        using lifecycleUpdate_hits [OF s(1) scope, of "o_db w1" r now1] r q(2) \<open>st = lt_fromStatus c\<close> s(2) scope by auto
    qed
  qed
qed

text \<open>
  once a lifecycle command has succeeded, repeating it is harmless: as long as the tables are
  as the first left them, the second answers that it is a repetition, with the same status, and
  leaves the tables as they are.
\<close>

theorem lifecycle_repeat:
  fixes w w1 w2 :: "'x order_world"
  assumes "executeLifecycleTransition s c w = (Inr res, w1)" "o_db w2 = o_db w1" "faults w2 = []"
  shows "executeLifecycleTransition s c w2 = (Inr \<lparr>lr_repeated = True, lr_status = lt_toStatus c\<rparr>, w2)"
proof -
  have sql: "has_SqlConn s" using assms(1) by (cases "has_SqlConn s") (simp_all add: executeLifecycleTransition_def io_simps)
  obtain be ce w0 where tx: "order_tx be ce (lifecycle_body c) w0 = (Inr res, w1)"
    using assms(1) sql unfolding executeLifecycleTransition_def by (auto elim!: bindE_InrE)
  have "\<exists>(v :: 'x order_world) v'. lifecycle_body c v = (Inr res, v') \<and> o_db w1 = o_db v'"
    by (rule with_tx_cases [OF tx [unfolded order_tx_def]]) auto
  then obtain scope r where "owner_scope c = Some scope" "find scope (orders (o_db w2)) = Some r" "o_status r = lt_toStatus c"
    using lifecycle_body_reached assms(2) by metis
  then show ?thesis
    using sql assms(3) unfolding executeLifecycleTransition_def order_tx_def lifecycle_body_def RawDB_def
    by (simp add: io_simps query_row_def stmt_def)
qed

definition ship_demo :: lifecycle_transition where
  "ship_demo = no_transition\<lparr>lt_orderID := ''o1'', lt_operatorID := 9, lt_fromStatus := order_Paid, lt_toStatus := order_Shipped,
     lt_timestampKind := ''shipped'', lt_remark := ''admin shipped''\<rparr>"

definition paid_tables :: order_tables where
  "paid_tables = no_rows_at_all\<lparr>orders := [demo_row\<lparr>o_status := order_Paid\<rparr>]\<rparr>"

lemma ship_demo_runs:
  "fst (executeLifecycleTransition demo_svc ship_demo (order_world_of paid_tables [])) = Inr \<lparr>lr_repeated = False, lr_status = order_Shipped\<rparr>"
  "faults (snd (executeLifecycleTransition demo_svc ship_demo (order_world_of paid_tables []))) = []"
  by code_simp+

theorem lifecycle_repeat_witness:
  "let w1 = snd (executeLifecycleTransition demo_svc ship_demo (order_world_of paid_tables []))
   in executeLifecycleTransition demo_svc ship_demo w1 = (Inr \<lparr>lr_repeated = True, lr_status = order_Shipped\<rparr>, w1)"
proof -
  let ?r = "executeLifecycleTransition demo_svc ship_demo (order_world_of paid_tables [])"
  have "?r = (Inr \<lparr>lr_repeated = False, lr_status = order_Shipped\<rparr>, snd ?r)" using ship_demo_runs(1) by (metis prod.collapse)
  then show ?thesis using lifecycle_repeat [OF _ refl ship_demo_runs(2)] by (simp add: Let_def ship_demo_def)
qed

section \<open>A used request id\<close>

lemma CreateOrder_Inr:
  fixes w w' :: "'x order_world"
  assumes "CreateOrder s (Some plain_barrier) i w = (Inr resp, w')" "co_RequestId i \<noteq> []"
  shows "\<exists>m im q (v :: 'x order_world) v1. create_order_body i (co_RequestId i) m im q v = (Inr (), v1) \<and> o_db v = o_db w \<and> o_db w' = o_db v1 \<and>
    cs_OrderId resp = co_OrderId i \<and> cs_PayableAmountFen resp = q_PayableAmountFen q"
proof -
  have db: "map_err g RawDB v = (Inr u, v') \<Longrightarrow> o_db v' = o_db v" for g u and v v' :: "'x order_world"
    by (auto simp: RawDB_def ret_def dest!: map_err_InrD elim!: ext_call_cases)
  have merchant: "(if b then loadProductMerchantID k else ret j) v = (Inr m, v') \<Longrightarrow> o_db v' = o_db v" for b k j m and v v' :: "'x order_world"
    by (cases b) (auto simp: loadProductMerchantID_def elim!: bindE_InrE dest!: run_dests split: if_splits)
  obtain getCard where card: "ProductRpc s = Some getCard"
    using assms(1) by (cases "ProductRpc s") (auto simp: CreateOrder_def split: if_splits)
  obtain m im q w0 w3 where tx: "plain_barrier (create_order_body i (co_RequestId i) m im q) w0 = (Inr (), w3)" "o_db w0 = o_db w"
    and resp: "cs_OrderId resp = co_OrderId i" "cs_PayableAmountFen resp = q_PayableAmountFen q" "w' = w3"
    using assms unfolding CreateOrder_def card option.case Let_def
    by (auto elim!: bindE_InrE dest!: run_dests db merchant)
  show ?thesis
  proof (rule with_tx_cases [OF tx(1) [unfolded plain_barrier_def order_tx_def]])
    fix a fs v1
    assume "create_order_body i (co_RequestId i) m im q (w0\<lparr>faults := fs\<rparr>) = (Inr a, v1)" "o_db w3 = o_db v1"
    then show ?thesis using tx(2) resp by (intro exI [of _ m] exI [of _ im] exI [of _ q] exI [of _ "w0\<lparr>faults := fs\<rparr>"] exI [of _ v1]) simp
  qed auto
qed

text \<open>
  creating an order under a request id that another order has answers success and opens a
  payment over the quoted amount, but creates no order.
\<close>

theorem used_request_id:
  fixes w w' :: "'x order_world"
  assumes "CreateOrder s (Some plain_barrier) i w = (Inr resp, w')"
    and "r \<in> set (orders (o_db w))" "o_request_id r = co_RequestId i" "co_RequestId i \<noteq> []" "order_row_of (o_db w) (co_OrderId i) = None"
    and "\<forall>p\<in>set (payments (o_db w)). p_id p \<noteq> paymentOrderIDFor (co_OrderId i) \<and> p_order_id p \<noteq> co_OrderId i \<and> p_out_trade_no p \<noteq> outTradeNoFor (co_OrderId i)"
  shows "cs_OrderId resp = co_OrderId i \<and> order_row_of (o_db w') (co_OrderId i) = None \<and>
    (\<exists>p\<in>set (payments (o_db w')). p_order_id p = co_OrderId i \<and> p_payable_amount_fen p = cs_PayableAmountFen resp)"
proof -
  have taken: "list_ex (\<lambda>r. o_id r = co_OrderId i \<or> o_request_id r = co_RequestId i) (orders (o_db w))"
    using assms(2,3) by (auto simp: list_ex_iff)
  have free: "\<not> list_ex (\<lambda>r. p_id r = paymentOrderIDFor (co_OrderId i) \<or> p_order_id r = co_OrderId i \<or> p_out_trade_no r = outTradeNoFor (co_OrderId i)) (payments (o_db w))"
    using assms(6) by (auto simp: list_ex_iff)
  obtain m im q and v v1 :: "'x order_world" where body: "create_order_body i (co_RequestId i) m im q v = (Inr (), v1)" "o_db v = o_db w" "o_db w' = o_db v1"
    and resp: "cs_OrderId resp = co_OrderId i" "cs_PayableAmountFen resp = q_PayableAmountFen q"
    using CreateOrder_Inr [OF assms(1,4)] by auto
  obtain a1 w1 a2 w2 a3 w3 now w4 pl where s: "exec (insert_order i (co_RequestId i) m) v = (Inr a1, w1)"
    "exec (insert_snapshot (co_OrderId i) m im q) w1 = (Inr a2, w2)"
    "exec (insert_payment (paymentOrderIDFor (co_OrderId i)) (co_OrderId i) (co_UserId i) (q_PayableAmountFen q)) w2 = (Inr a3, w3)"
    "order_now w3 = (Inr now, w4)" "InsertOrderCreatedOutbox (co_OrderId i) pl w4 = (Inr (), v1)"
    using body(1) unfolding create_order_body_def by (elim bindE_InrE)
  have d1: "o_db w1 = o_db w" using exec_snd [OF s(1)] taken body(2) by (auto simp: insert_order_def)
  have d2: "orders (o_db w2) = orders (o_db w)" "payments (o_db w2) = payments (o_db w)"
    using exec_snd [OF s(2)] d1 by (auto simp: insert_snapshot_def split: if_splits)
  have d3: "orders (o_db w3) = orders (o_db w)" "\<exists>p\<in>set (payments (o_db w3)). p_order_id p = co_OrderId i \<and> p_payable_amount_fen p = q_PayableAmountFen q"
    using exec_snd [OF s(3)] d2 free by (auto simp: insert_payment_def)
  have d4: "orders (o_db v1) = orders (o_db w3)" "payments (o_db v1) = payments (o_db w3)"
    using s(5) order_now_db [OF s(4)]
    by (auto simp: InsertOrderCreatedOutbox_def insert_event_def append_event_def simp del: append.simps elim!: bindE_InrE dest!: ret_InrD exec_snd split: if_splits)
  show ?thesis using d3 d4 resp body(3) assms(5) by (simp add: order_row_of_def)
qed

definition second_order :: create_order_req where
  "second_order = demo_order\<lparr>co_OrderId := ''o2''\<rparr>"

definition used_tables :: order_tables where
  "used_tables = no_rows_at_all\<lparr>orders := [demo_row]\<rparr>"

lemma second_order_answers:
  "fst (CreateOrder demo_svc (Some plain_barrier) second_order (order_world_of used_tables [])) =
    Inr \<lparr>cs_OrderId = ''o2'', cs_Status = orderStatusPendingPayment, cs_PayableAmountFen = 1800, cs_PaymentOrderId = paymentOrderIDFor ''o2''\<rparr>"
  by (simp add: CreateOrder_def second_order_def demo_order_def demo_svc_def order_world_of_def used_tables_def no_rows_at_all_def call_def
      io_simps BuildQuote_def demo_card_def Let_def plain_barrier_def order_tx_def RawDB_def create_order_body_def exec_def
      stmt_def insert_order_def insert_snapshot_def insert_payment_def order_now_def InsertOrderCreatedOutbox_def insert_event_def has_event_def
      append_event_def demo_row_def i64_id in_i64_def)

theorem used_request_id_witness:
  "order_row_of (o_db (snd (CreateOrder demo_svc (Some plain_barrier) second_order (order_world_of used_tables [])))) ''o2'' = None"
proof -
  let ?r = "CreateOrder demo_svc (Some plain_barrier) second_order (order_world_of used_tables [])"
  have run: "?r = (Inr \<lparr>cs_OrderId = ''o2'', cs_Status = orderStatusPendingPayment, cs_PayableAmountFen = 1800, cs_PaymentOrderId = paymentOrderIDFor ''o2''\<rparr>, snd ?r)"
    using second_order_answers by (metis prod.collapse)
  show ?thesis
    using used_request_id [OF run, of demo_row]
    by (simp add: second_order_def demo_order_def used_tables_def no_rows_at_all_def order_row_of_def demo_row_def)
qed

end
