(* ===== verification/Product_Stock.thy ===== *)
theory Product_Stock
  imports Final_Deduct
begin

text \<open>
  The stock operations of the product service (\<open>app/product/rpc/internal\<close>), on the same MySQL tables as
  the inventory service: the two branches of the old stock saga (\<open>deductLogic.go\<close>,
  \<open>deductRollbackLogic.go\<close>), the return of stock on timeout (\<open>revertstocklogic.go\<close>), the bucket helpers
  (\<open>stock_bucket.go\<close>) and the repair that runs at startup (\<open>svc/serviceContext.go\<close>).  A handler receives the
  DTM barrier of its request as the function \<open>CallWithDB\<close> (\<open>None\<close> when the request carries none); the
  locale \<open>stock_transactions\<close> states what the handlers rely on.
\<close>

section \<open>Buckets\<close>

definition stockBucketCount :: "int \<Rightarrow> int" where
  "stockBucketCount configured = (if configured \<le> 0 then 1 else configured)"

definition stockBucketIndex :: "string \<Rightarrow> int \<Rightarrow> int" where
  "stockBucketIndex orderId bucketCount =
     (if bucketCount \<le> 1 then 0 else uint (ChecksumIEEE orderId mod (word_of_int bucketCount :: 32 word)))"

definition splitStockIntoBuckets :: "int \<Rightarrow> int \<Rightarrow> int list" where
  "splitStockIntoBuckets n bucketCount =
     (let n = (if n < 0 then 0 else n);
          bucketCount = (if bucketCount \<le> 0 then 1 else bucketCount);
          perBucket = go_div n bucketCount;
          remain = go_mod n bucketCount
      in map (\<lambda>idx. if idx = 0 then i64 (perBucket + remain) else perBucket) [0..bucketCount - 1])"

text \<open>A plain \<open>INSERT\<close>: a taken key is an error of the driver.\<close>

definition bucket_insert :: "int \<Rightarrow> int \<Rightarrow> int \<Rightarrow> (inv_tables, unit) io" where
  "bucket_insert p i v d =
     (if map_of (buckets d) (p, i) \<noteq> None then (Inl (RawError ''Error 1062: Duplicate entry''), d)
      else (Inr (), d\<lparr>buckets := AList.update (p, i) \<lparr>b_stock = v, b_version = 0\<rparr> (buckets d)\<rparr>))"

definition ensureProductStockBucketsFromSnapshotTx :: "int \<Rightarrow> int \<Rightarrow> (inv_world, unit) io" where
  "ensureProductStockBucketsFromSnapshotTx productID bucketCount =
     bindE (sql (\<lambda>d. (Inr (int (length (product_buckets d productID))), d))) (\<lambda>bucketRows.
     if bucketRows > 0 then ret ()
     else bindE (map_err (\<lambda>e. if e = ErrNoRows then StatusError codes_NotFound ''product not found'' else e)
            (sql (\<lambda>d. (case map_of (products d) productID of None \<Rightarrow> Inl ErrNoRows | Some x \<Rightarrow> Inr (pr_stock x), d)))) (\<lambda>n.
          let values = splitStockIntoBuckets n (stockBucketCount bucketCount) in
          for_each (zip [0..<length values] values) (\<lambda>(bucketIdx, v). sql (bucket_insert productID (int bucketIdx) v))))"

definition syncProductStockSnapshotTx :: "int \<Rightarrow> (inv_world, unit) io" where
  "syncProductStockSnapshotTx productID =
     bindE (sql (\<lambda>d. product_set_stock productID (bucket_sum d productID) d)) (\<lambda>_. ret ())"

section \<open>The handlers\<close>

record product_config =
  StockBucketCount :: int
  LegacyStockMutationEnabled :: bool
  DisableStockRepair :: bool

definition requireLegacyStockMutation :: "product_config \<Rightarrow> (inv_world, unit) io" where
  "requireLegacyStockMutation c =
     (if LegacyStockMutationEnabled c then ret ()
      else fail (StatusError codes_FailedPrecondition ''legacy product stock mutation is disabled; use inventory-kitex''))"

definition product_RawDB :: "(inv_world, unit) io" where
  "product_RawDB = ext_call (ret ())"

type_synonym stock_barrier = "(inv_world, unit) io \<Rightarrow> (inv_world, unit) io"

record deduct_req =
  dr_Id :: int
  dr_Num :: int
  dr_OrderId :: string

text \<open>An empty order id falls back to the product id.\<close>

definition stock_order_id :: "deduct_req \<Rightarrow> string" where
  "stock_order_id i = (if dr_OrderId i = [] then show_int (dr_Id i) else dr_OrderId i)"

text \<open>UTF-8 texts of the answers: stock insufficient, stock bucket missing, fetching failed, connection.\<close>

definition msg_insufficient :: string where
  "msg_insufficient = map char_of [0xE5, 0xBA, 0x93, 0xE5, 0xAD, 0x98, 0xE4, 0xB8, 0x8D, 0xE8, 0xB6, 0xB3 :: nat]"

definition msg_no_bucket :: string where
  "msg_no_bucket = map char_of [0xE5, 0xBA, 0x93, 0xE5, 0xAD, 0x98, 0xE5, 0x88, 0x86, 0xE6, 0xA1, 0xB6, 0xE4, 0xB8, 0x8D, 0xE5, 0xAD, 0x98, 0xE5, 0x9C, 0xA8 :: nat]"

definition msg_fetch_failed :: string where
  "msg_fetch_failed = map char_of [0xE8, 0x8E, 0xB7, 0xE5, 0x8F, 0x96, 0xE5, 0xA4, 0xB1, 0xE8, 0xB4, 0xA5 :: nat]"

definition msg_connection :: string where
  "msg_connection = map char_of [0xE8, 0xBF, 0x9E, 0xE6, 0x8E, 0xA5 :: nat]"

definition product_lockDeductibleStockBucket :: "int \<Rightarrow> int \<Rightarrow> int \<Rightarrow> (inv_world, int) io" where
  "product_lockDeductibleStockBucket productID amount preferredBucketIdx =
     bindE (attempt (sql (\<lambda>d. (case pick_bucket d productID amount preferredBucketIdx of
                                  Some i \<Rightarrow> Inr i | None \<Rightarrow> Inl ErrNoRows, d)))) (\<lambda>x. case x of
       Inr bucketIdx \<Rightarrow> ret bucketIdx
     | Inl e \<Rightarrow>
         if e \<noteq> ErrNoRows then fail e
         else bindE (map_err (\<lambda>e'. if e' = ErrNoRows then StatusError codes_NotFound msg_no_bucket else e')
                (sql (\<lambda>d. (if product_buckets d productID = [] then Inl ErrNoRows else Inr (), d)))) (\<lambda>_.
              fail (StatusError codes_Aborted msg_insufficient)))"

definition with_barrier :: "stock_barrier option \<Rightarrow> (inv_world, unit) io \<Rightarrow> (inv_world, unit) io" where
  "with_barrier barrier body =
     (case barrier of
        None \<Rightarrow> fail (StatusError codes_Internal (''DTM Barrier '' @ msg_fetch_failed))
      | Some callWithDB \<Rightarrow>
          bindE (map_err (\<lambda>_. StatusError codes_Internal (''DB '' @ msg_connection @ msg_fetch_failed)) product_RawDB) (\<lambda>_.
          callWithDB body))"

definition deduct_body :: "int \<Rightarrow> deduct_req \<Rightarrow> (inv_world, unit) io" where
  "deduct_body bucketCount i =
     bindE (ensureProductStockBucketsFromSnapshotTx (dr_Id i) bucketCount) (\<lambda>_.
     bindE (product_lockDeductibleStockBucket (dr_Id i) (dr_Num i) (stockBucketIndex (stock_order_id i) bucketCount)) (\<lambda>actualBucketIdx.
     bindE (sql (bucket_change (dr_Id i) actualBucketIdx (- dr_Num i))) (\<lambda>_.
     bindE (sql (stock_log_insert (stock_order_id i) (stockDeductBucketLogType actualBucketIdx))) (\<lambda>_.
     syncProductStockSnapshotTx (dr_Id i)))))"

definition Deduct :: "product_config \<Rightarrow> stock_barrier option \<Rightarrow> deduct_req \<Rightarrow> (inv_world, unit) io" where
  "Deduct c barrier i =
     bindE (requireLegacyStockMutation c) (\<lambda>_.
     with_barrier barrier (deduct_body (stockBucketCount (StockBucketCount c)) i))"

text \<open>Every failure, also of the query, counts as no logged bucket.\<close>

definition deductBucketFromStockLog :: "string \<Rightarrow> (inv_world, int option) io" where
  "deductBucketFromStockLog orderId =
     bindE (attempt (sql (\<lambda>d. (if deduct_logs d orderId = [] then Inl ErrNoRows else Inr (last (deduct_logs d orderId)), d)))) (\<lambda>x. case x of
       Inl e \<Rightarrow> ret None
     | Inr logType \<Rightarrow>
         ret (ParseInt (if take 14 logType = ''DEDUCT_BUCKET_'' then drop 14 logType else logType)))"

definition rollback_deduct_body :: "int \<Rightarrow> deduct_req \<Rightarrow> (inv_world, unit) io" where
  "rollback_deduct_body bucketCount i =
     bindE (deductBucketFromStockLog (stock_order_id i)) (\<lambda>logged.
     let actualBucketIdx = (case logged of None \<Rightarrow> stockBucketIndex (stock_order_id i) bucketCount | Some b \<Rightarrow> b) in
     bindE (sql (bucket_add (dr_Id i) actualBucketIdx (dr_Num i))) (\<lambda>_.
     syncProductStockSnapshotTx (dr_Id i)))"

definition DeductRollback :: "product_config \<Rightarrow> stock_barrier option \<Rightarrow> deduct_req \<Rightarrow> (inv_world, unit) io" where
  "DeductRollback c barrier i =
     bindE (requireLegacyStockMutation c) (\<lambda>_.
     with_barrier barrier (rollback_deduct_body (stockBucketCount (StockBucketCount c)) i))"

text \<open>
  \<open>BeginTx\<close>, a body that may ask to return without committing (\<open>False\<close>), \<open>Commit\<close>, \<open>defer tx.Rollback()\<close>.
\<close>

definition stock_tx_or :: "(inv_world, bool) io \<Rightarrow> (inv_world, unit) io" where
  "stock_tx_or body =
     bindE (ext_call (ret ())) (\<lambda>_. \<lambda>w.
       case body w of
         (Inl e, w') \<Rightarrow> (Inl e, w'\<lparr>inv_db := inv_db w\<rparr>)
       | (Inr False, w') \<Rightarrow> (Inr (), w'\<lparr>inv_db := inv_db w\<rparr>)
       | (Inr True, w') \<Rightarrow>
           (case pop_fault w' of
              (Inr (NoRequest e), w'') \<Rightarrow> (Inl (RawError e), w''\<lparr>inv_db := inv_db w\<rparr>)
            | (Inr (NoReply e), w'') \<Rightarrow> (Inl (RawError e), w'')
            | (_, w'') \<Rightarrow> (Inr (), w'')))"

text \<open>
  \<open>INSERT INTO stock_log\<close>: no affected row stands for the driver's error 1062 that
  \<open>isDuplicateStockLog\<close> recognises.
\<close>

definition revert_body :: "int \<Rightarrow> deduct_req \<Rightarrow> (inv_world, bool) io" where
  "revert_body bucketCount i =
     bindE (sql (stock_log_insert (stock_order_id i) ''REVERT'')) (\<lambda>affected.
     if affected = 0 then ret False
     else bindE (sql (bucket_add (dr_Id i) (stockBucketIndex (stock_order_id i) bucketCount) (dr_Num i))) (\<lambda>_.
          bindE (syncProductStockSnapshotTx (dr_Id i)) (\<lambda>_. ret True)))"

definition RevertStock :: "product_config \<Rightarrow> deduct_req \<Rightarrow> (inv_world, unit) io" where
  "RevertStock c i =
     bindE (requireLegacyStockMutation c) (\<lambda>_.
     bindE product_RawDB (\<lambda>_.
     stock_tx_or (revert_body (stockBucketCount (StockBucketCount c)) i)))"

section \<open>Repair at startup\<close>

text \<open>\<open>INSERT ... ON DUPLICATE KEY UPDATE stock = VALUES(stock)\<close>.\<close>

definition bucket_put :: "int \<Rightarrow> int \<Rightarrow> int \<Rightarrow> (inv_tables, unit) io" where
  "bucket_put p i v d =
     (let n = (case map_of (buckets d) (p, i) of None \<Rightarrow> 0 | Some b \<Rightarrow> b_version b)
      in (Inr (), d\<lparr>buckets := AList.update (p, i) \<lparr>b_stock = v, b_version = n\<rparr> (buckets d)\<rparr>))"

definition insertProductStockBuckets :: "int \<Rightarrow> int \<Rightarrow> int \<Rightarrow> (inv_world, unit) io" where
  "insertProductStockBuckets productID n bucketCount =
     (let n = (if n < 0 then 0 else n);
          perBucket = go_div n bucketCount;
          remain = go_mod n bucketCount
      in for_each [0..bucketCount - 1] (\<lambda>bucketIdx.
           sql (bucket_put productID bucketIdx (if bucketIdx = 0 then i64 (perBucket + remain) else perBucket))))"

definition products_without_buckets :: "inv_tables \<Rightarrow> (int \<times> int) list" where
  "products_without_buckets d = map (\<lambda>(p, x). (p, pr_stock x)) (filter (\<lambda>(p, x). product_buckets d p = []) (products d))"

definition set_stock_totals :: "inv_tables \<Rightarrow> inv_tables" where
  "set_stock_totals d = d\<lparr>products := map (\<lambda>(p, x).
       (p, if product_buckets d p = [] then x else x\<lparr>pr_stock := bucket_sum d p\<rparr>)) (products d)\<rparr>"

definition repairProductStockState :: "int \<Rightarrow> (inv_world, unit) io" where
  "repairProductStockState bucketCount =
     bindE (attempt product_RawDB) (\<lambda>x. case x of Inl _ \<Rightarrow> ret () | Inr _ \<Rightarrow>
     let bucketCount = (if bucketCount \<le> 0 then 1 else bucketCount) in
     bindE (attempt (sql (\<lambda>d. (Inr (products_without_buckets d), d)))) (\<lambda>y. case y of Inl _ \<Rightarrow> ret () | Inr rows \<Rightarrow>
     bindE (for_each rows (\<lambda>(productID, n).
       bindE (attempt (insertProductStockBuckets productID n bucketCount)) (\<lambda>_. ret ()))) (\<lambda>_.
     bindE (attempt (sql (\<lambda>d. (Inr (), set_stock_totals d)))) (\<lambda>_. ret ()))))"

definition NewServiceContext_repair :: "product_config \<Rightarrow> (inv_world, unit) io" where
  "NewServiceContext_repair c = (if DisableStockRepair c then ret () else repairProductStockState (StockBucketCount c))"

end
