(* ===== verification/Product_Stock_Safety.thy ===== *)
theory Product_Stock_Safety
  imports Product_Stock
begin

text \<open>
  What the product service guarantees of its stock tables: after every request the stock of a product
  row is the sum of its buckets and no bucket is negative, the compensation of the stock saga undoes
  the deduction bucket by bucket, stock is returned at most once per order, and what the repair at
  startup does with and without a failing statement.
\<close>

section \<open>Transactions\<close>

text \<open>
  What a handler relies on of the barrier and of the database: the body ran to its end and was
  committed, or the tables are as before.
\<close>

locale stock_transactions =
  fixes run :: "(inv_world, unit) io \<Rightarrow> (inv_world, unit) io"
  assumes all_or_nothing: "run body w = (x, w') \<Longrightarrow>
    inv_db w' = inv_db w \<or> (\<exists>w0 w1. body w0 = (Inr (), w1) \<and> inv_db w0 = inv_db w \<and> inv_db w' = inv_db w1)"
begin

lemma run_keeps:
  assumes "\<And>w w'. body w = (Inr (), w') \<Longrightarrow> P (inv_db w) \<Longrightarrow> P (inv_db w')"
  shows "keeps (on_db P) (run body)"
  unfolding keeps_def on_db_def
proof (intro allI impI)
  fix w :: inv_world assume "P (inv_db w)"
  then show "P (inv_db (snd (run body w)))"
    using all_or_nothing [of body w "fst (run body w)" "snd (run body w)"] assms by fastforce
qed

end

interpretation local_tx: stock_transactions "inv_tx id (\<lambda>_ e. e)"
  by unfold_locales (erule inv_tx_cases, auto)

lemma stock_tx_or_cases:
  assumes "stock_tx_or body w = (x, w')"
  obtains (kept) "inv_db w' = inv_db w" "x = Inr () \<Longrightarrow> \<exists>w0 w1. body w0 = (Inr False, w1) \<and> inv_db w0 = inv_db w"
  | (committed) w0 w1 where "body w0 = (Inr True, w1)" "inv_db w0 = inv_db w" "inv_db w' = inv_db w1"
proof -
  from assms show thesis unfolding stock_tx_or_def
  proof (rule bindE_cases)
    fix e assume "ext_call (ret ()) w = (Inl e, w')" "x = Inl e"
    then show thesis by (intro kept) (auto simp: ret_def elim!: ext_call_cases)
  next
    fix u w1
    assume "ext_call (ret ()) w = (Inr u, w1)"
    then have w1: "inv_db w1 = inv_db w" by (auto simp: ret_def elim!: ext_call_cases)
    assume c: "(case body w1 of (Inl e, w') \<Rightarrow> (Inl e, w'\<lparr>inv_db := inv_db w1\<rparr>)
       | (Inr False, w') \<Rightarrow> (Inr (), w'\<lparr>inv_db := inv_db w1\<rparr>)
       | (Inr True, w') \<Rightarrow> (case pop_fault w' of
              (Inr (NoRequest e), w'') \<Rightarrow> (Inl (RawError e), w''\<lparr>inv_db := inv_db w1\<rparr>)
            | (Inr (NoReply e), w'') \<Rightarrow> (Inl (RawError e), w'')
            | (_, w'') \<Rightarrow> (Inr (), w''))) = (x, w')"
    obtain y w2 where y: "body w1 = (y, w2)" by fastforce
    show thesis
    proof (cases "y = Inr True")
      case False
      then show thesis using c y w1
        by (intro kept) (auto split: sum.splits bool.splits)
    next
      case True
      then show thesis using c y w1 kept committed [of w1 w2]
        by (cases "faults w2"; cases "hd (faults w2)") (auto simp: pop_fault_def)
    qed
  qed
qed

section \<open>Products and buckets agree\<close>

text \<open>The invariant, and the invariant with product \<open>p\<close> still to be synchronised.\<close>

definition in_sync_but :: "int set \<Rightarrow> inv_tables \<Rightarrow> bool" where
  "in_sync_but P d \<longleftrightarrow> buckets_ok d \<and> (\<forall>a i. 0 \<le> bucket_stock d a i) \<and>
     (\<forall>a x. a \<notin> P \<longrightarrow> map_of (products d) a = Some x \<longrightarrow>
        (if product_buckets d a = [] then in_i64 (pr_stock x) else pr_stock x = bucket_sum d a))"

abbreviation in_sync :: "inv_tables \<Rightarrow> bool" where
  "in_sync \<equiv> in_sync_but {}"

lemma in_sync_weaken: "in_sync d \<Longrightarrow> in_sync_but P d"
  by (simp add: in_sync_but_def)

lemma bucket_stock_update:
  "buckets d' = AList.update (p, i) v (buckets d) \<Longrightarrow>
   bucket_stock d' a j = (if a = p \<and> j = i then b_stock v else bucket_stock d a j)"
  by (auto simp: bucket_stock_def update_conv')

lemma product_buckets_other:
  "buckets d' = AList.update (p, i) v (buckets d) \<Longrightarrow> a \<noteq> p \<Longrightarrow> product_buckets d' a = product_buckets d a"
proof -
  have "a \<noteq> p \<Longrightarrow> filter (\<lambda>((p', i), b). p' = a) (AList.update (p, i) v bs) = filter (\<lambda>((p', i), b). p' = a) bs" for bs
    by (induction bs) auto
  then show "buckets d' = AList.update (p, i) v (buckets d) \<Longrightarrow> a \<noteq> p \<Longrightarrow> product_buckets d' a = product_buckets d a"
    by (simp add: product_buckets_def)
qed

lemma in_sync_but_update:
  assumes "in_sync_but P d" "p \<in> P" "0 \<le> b_stock v"
  shows "in_sync_but P (d\<lparr>buckets := AList.update (p, i) v (buckets d)\<rparr>)"
proof -
  let ?d = "d\<lparr>buckets := AList.update (p, i) v (buckets d)\<rparr>"
  have b: "buckets ?d = AList.update (p, i) v (buckets d)" by simp
  have ok: "buckets_ok d" using assms(1) by (simp add: in_sync_but_def)
  have o: "product_buckets ?d a = product_buckets d a" "bucket_sum ?d a = bucket_sum d a" if "a \<notin> P" for a
  proof -
    have "a \<noteq> p" using that assms(2) by blast
    then show "product_buckets ?d a = product_buckets d a" "bucket_sum ?d a = bucket_sum d a"
      using product_buckets_other [OF b, of a] by (simp_all add: bucket_sum_def)
  qed
  show ?thesis
    using assms(1,3) buckets_ok_update [OF ok b] unfolding in_sync_but_def bucket_stock_update [OF b] by (simp add: o)
qed

lemma in_sync_but_log: "in_sync_but P (d\<lparr>stock_log := l\<rparr>) = in_sync_but P d"
  by (simp add: in_sync_but_def buckets_ok_def bucket_stock_def product_buckets_def bucket_sum_def)

lemma bucket_row_nonneg: "in_sync_but P d \<Longrightarrow> map_of (buckets d) (p, i) = Some b \<Longrightarrow> 0 \<le> b_stock b"
  by (metis bucket_stock_def in_sync_but_def option.simps(5))

lemma keeps_sync_add: "p \<in> P \<Longrightarrow> 0 \<le> v \<Longrightarrow> keeps (on_db (in_sync_but P)) (sql (bucket_add p i v))"
  by (rule keeps_on_db_sql) (auto simp: bucket_add_def split: option.splits intro!: in_sync_but_update dest: bucket_row_nonneg)

lemma keeps_sync_change: "p \<in> P \<Longrightarrow> keeps (on_db (in_sync_but P)) (sql (bucket_change p i v))"
  by (rule keeps_on_db_sql) (auto simp: bucket_change_def in_sync_but_update split: option.splits)

lemma keeps_sync_insert: "p \<in> P \<Longrightarrow> 0 \<le> v \<Longrightarrow> keeps (on_db (in_sync_but P)) (sql (bucket_insert p i v))"
  by (rule keeps_on_db_sql) (auto simp: bucket_insert_def in_sync_but_update)

lemma keeps_sync_log: "keeps (on_db (in_sync_but P)) (sql (stock_log_insert k t))"
  by (rule keeps_on_db_sql) (auto simp: stock_log_insert_def in_sync_but_log)

lemma keeps_sync_read: "(\<And>d. snd (f d) = d) \<Longrightarrow> keeps (on_db P) (sql f)"
  by (rule keeps_on_db_sql) simp

lemmas keeps_sync = keeps_sync_add keeps_sync_change keeps_sync_insert keeps_sync_log keeps_sync_read

lemma splitStockIntoBuckets_eq: "splitStockIntoBuckets n c = SplitStockAcrossShards n c"
  by (simp add: splitStockIntoBuckets_def SplitStockAcrossShards_def NormalizeShardCount_def)

lemma stockBucketIndex_eq: "stockBucketIndex k (stockBucketCount c) = StockShardStartIndex k c"
  by (simp add: stockBucketIndex_def stockBucketCount_def StockShardStartIndex_def NormalizeShardCount_def)

lemma in_sync_synced:
  assumes "in_sync_but {p} d" "product_buckets d p \<noteq> []"
  shows "in_sync (snd (product_set_stock p (bucket_sum d p) d))"
proof (cases "map_of (products d) p")
  case None
  then show ?thesis using assms by (simp add: product_set_stock_def in_sync_but_def) (metis option.distinct(1))
next
  case (Some x)
  let ?d = "snd (product_set_stock p (bucket_sum d p) d)"
  have "buckets ?d = buckets d" "map_of (products ?d) = (map_of (products d))(p \<mapsto> \<lparr>pr_stock = bucket_sum d p, pr_version = pr_version x + 1\<rparr>)"
    using Some by (simp_all add: product_set_stock_def update_conv')
  then show ?thesis using assms
    by (auto simp: in_sync_but_def buckets_ok_def bucket_stock_def product_buckets_def bucket_sum_def split: if_splits)
qed

lemma syncProductStockSnapshotTx_Inr:
  assumes "syncProductStockSnapshotTx p w = (Inr (), w')"
  shows "inv_db w' = snd (product_set_stock p (bucket_sum (inv_db w) p) (inv_db w))"
  using assms unfolding syncProductStockSnapshotTx_def
  by (auto elim!: bindE_InrE dest!: sql_Inr ret_InrD)

lemma product_set_stock_frame:
  "buckets (snd (product_set_stock p v d)) = buckets d" "stock_log (snd (product_set_stock p v d)) = stock_log d"
  by (simp_all add: product_set_stock_def split: option.splits)

lemma ensure_in_sync:
  assumes run: "ensureProductStockBucketsFromSnapshotTx p c w = (Inr (), w')" and sync: "in_sync (inv_db w)"
  shows "in_sync_but {p} (inv_db w')"
  using run unfolding ensureProductStockBucketsFromSnapshotTx_def
proof (elim bindE_InrE, goal_cases)
  case (1 n w1)
  have d: "inv_db w1 = inv_db w" and n: "n = int (length (product_buckets (inv_db w) p))" using sql_Inr [OF 1(1)] by auto
  show ?case
  proof (cases "n > 0")
    case True
    then show ?thesis using 1(2) d sync by (auto dest!: ret_InrD intro: in_sync_weaken)
  next
    case False
    then obtain v w2 where v: "map_of (products (inv_db w)) p = Some v" "inv_db w2 = inv_db w"
      and loop: "for_each (zip [0..<length (splitStockIntoBuckets (pr_stock v) (stockBucketCount c))]
        (splitStockIntoBuckets (pr_stock v) (stockBucketCount c)))
        (\<lambda>(bucketIdx, v). sql (bucket_insert p (int bucketIdx) v)) w2 = (Inr (), w')"
      using 1(2) d by (auto elim!: bindE_InrE dest!: map_err_InrD sql_Inr simp: Let_def split: option.splits)
    have "product_buckets (inv_db w) p = []" using False n by simp
    then have "in_i64 (pr_stock v)" using sync v(1) by (simp add: in_sync_but_def)
    then have nn: "\<forall>x \<in> set (splitStockIntoBuckets (pr_stock v) (stockBucketCount c)). 0 \<le> x"
      using split_nonneg [of "pr_stock v"] by (simp add: splitStockIntoBuckets_eq list_all_iff)
    have "keeps (on_db (in_sync_but {p})) (for_each xs (\<lambda>(bucketIdx, v). sql (bucket_insert p (int bucketIdx) v)))"
      if "\<forall>x \<in> set xs. 0 \<le> snd x" for xs
      using that by (induction xs) (auto intro!: keeps_rules keeps_sync_insert)
    then have "keeps (on_db (in_sync_but {p})) (for_each (zip [0..<length (splitStockIntoBuckets (pr_stock v) (stockBucketCount c))]
        (splitStockIntoBuckets (pr_stock v) (stockBucketCount c))) (\<lambda>(bucketIdx, v). sql (bucket_insert p (int bucketIdx) v)))"
      using nn by (force dest!: set_zip_rightD)
    from keepsD [OF this, of w2] show ?thesis
      using loop sync v(2) by (simp add: on_db_def in_sync_weaken)
  qed
qed

lemma bucket_row_product: "map_of (buckets d) (p, i) \<noteq> None \<Longrightarrow> product_buckets d p \<noteq> []"
  by (force simp: product_buckets_def filter_empty_conv dest: map_of_SomeD)

lemma bucket_writes_row:
  "bucket_change p i v d = (Inr n, d') \<Longrightarrow> map_of (buckets d) k \<noteq> None \<Longrightarrow> map_of (buckets d') k \<noteq> None"
  "bucket_add p i v d = (Inr n, d') \<Longrightarrow> map_of (buckets d') (p, i) \<noteq> None"
  by (auto simp: bucket_change_def bucket_add_def update_conv' split: option.splits if_splits)

lemma product_lock_Inr:
  assumes "product_lockDeductibleStockBucket p q x w = (Inr i, w')"
  shows "pick_bucket (inv_db w) p q x = Some i \<and> inv_db w' = inv_db w"
  using assms unfolding product_lockDeductibleStockBucket_def
  by (auto elim!: bindE_InrE dest!: attempt_InrD sql_Inr ret_InrD split: sum.splits if_splits option.splits)

lemma sync_after:
  assumes "syncProductStockSnapshotTx p w = (Inr (), w')" "in_sync_but {p} (inv_db w)" "product_buckets (inv_db w) p \<noteq> []"
  shows "in_sync (inv_db w')"
  using syncProductStockSnapshotTx_Inr [OF assms(1)] in_sync_synced [OF assms(2,3)] by simp

lemma deduct_body_in_sync:
  assumes run: "deduct_body c i w = (Inr (), w')" and sync: "in_sync (inv_db w)"
  shows "in_sync (inv_db w')"
  using run unfolding deduct_body_def
proof (elim bindE_InrE, goal_cases)
  case (1 u w1 x w2 y w3 z w4)
  have s1: "in_sync_but {dr_Id i} (inv_db w1)" using ensure_in_sync [OF 1(1) [simplified] sync] .
  have pick: "pick_bucket (inv_db w1) (dr_Id i) (dr_Num i) (stockBucketIndex (stock_order_id i) c) = Some x" "inv_db w2 = inv_db w1"
    using product_lock_Inr [OF 1(2)] by auto
  have s3: "in_sync_but {dr_Id i} (inv_db w3)"
    using keeps_result [OF keeps_sync_change _ 1(3)] s1 pick(2) by (simp add: on_db_def)
  then have s4: "in_sync_but {dr_Id i} (inv_db w4)"
    using keeps_result [OF keeps_sync_log _ 1(4)] by (simp add: on_db_def)
  have "map_of (buckets (inv_db w4)) (dr_Id i, x) \<noteq> None"
    using pick_bucket_Some [OF pick(1)] bucket_writes_row(1) [of "dr_Id i" x "- dr_Num i" "inv_db w2" y "inv_db w3"] pick(2)
      sql_Inr [OF 1(3)] stock_log_insert_Inr(1) sql_Inr [OF 1(4)] by metis
  then show ?case using sync_after [OF 1(5) s4] bucket_row_product by blast
qed

lemma keeps_log_lookup: "keeps (on_db P) (deductBucketFromStockLog k)"
  unfolding deductBucketFromStockLog_def
  by (rule keeps_bindE [OF keeps_attempt [OF keeps_sync_read]]) (simp_all add: keeps_ret split: sum.split)

lemma deductBucketFromStockLog_db: "deductBucketFromStockLog k w = (x, w') \<Longrightarrow> inv_db w' = inv_db w"
  using keepsD [OF keeps_log_lookup [where P = "\<lambda>d. d = inv_db w" and k = k], of w] by (simp add: on_db_def)

lemma add_and_sync:
  assumes add: "sql (bucket_add p i v) w = (Inr n, w1)" and sync: "syncProductStockSnapshotTx p w1 = (Inr (), w2)"
    and I: "in_sync (inv_db w)" and v: "0 \<le> v"
  shows "in_sync (inv_db w2)"
proof -
  have "in_sync_but {p} (inv_db w1)"
    using keeps_result [OF keeps_sync_add _ add] in_sync_weaken [OF I] v by (simp add: on_db_def)
  moreover have "product_buckets (inv_db w1) p \<noteq> []"
    using bucket_writes_row(2) bucket_row_product sql_Inr [OF add] by metis
  ultimately show ?thesis by (rule sync_after [OF sync])
qed

lemma rollback_deduct_body_in_sync:
  assumes run: "rollback_deduct_body c i w = (Inr (), w')" and sync: "in_sync (inv_db w)" and nonneg: "0 \<le> dr_Num i"
  shows "in_sync (inv_db w')"
  using run unfolding rollback_deduct_body_def Let_def
  by (elim bindE_InrE) (use sync nonneg add_and_sync deductBucketFromStockLog_db in metis)

lemma revert_body_in_sync:
  assumes run: "revert_body c i w = (Inr True, w')" and sync: "in_sync (inv_db w)" and nonneg: "0 \<le> dr_Num i"
  shows "in_sync (inv_db w')"
  using run unfolding revert_body_def
proof (elim bindE_InrE, goal_cases)
  case (1 n w1)
  have "in_sync (inv_db w1)" using keeps_result [OF keeps_sync_log _ 1(1)] sync by (simp add: on_db_def)
  then show ?case
    using 1(2) nonneg by (auto elim!: bindE_InrE dest!: ret_InrD intro: add_and_sync split: if_splits)
qed

lemma keeps_stock_tx_or:
  assumes "\<And>w w'. body w = (Inr True, w') \<Longrightarrow> P (inv_db w) \<Longrightarrow> P (inv_db w')"
  shows "keeps (on_db P) (stock_tx_or body)"
  unfolding keeps_def on_db_def
proof (intro allI impI)
  fix w :: inv_world assume "P (inv_db w)"
  moreover obtain x w' where run: "stock_tx_or body w = (x, w')" by fastforce
  ultimately show "P (inv_db (snd (stock_tx_or body w)))" by (cases rule: stock_tx_or_cases [OF run]) (use assms run in force)+
qed

lemma keeps_product_RawDB [keeps_rules]: "keeps (on_db P) product_RawDB"
  unfolding product_RawDB_def by (intro keeps_rules)

lemma keeps_requireLegacy [keeps_rules]: "keeps I (requireLegacyStockMutation c)"
  unfolding requireLegacyStockMutation_def by (intro keeps_rules)

lemma keeps_with_barrier:
  assumes "\<And>b. barrier = Some b \<Longrightarrow> stock_transactions b"
    and "\<And>w w'. body w = (Inr (), w') \<Longrightarrow> P (inv_db w) \<Longrightarrow> P (inv_db w')"
  shows "keeps (on_db P) (with_barrier barrier body)"
  unfolding with_barrier_def
proof (cases barrier)
  case (Some b)
  have "keeps (on_db P) (b body)" by (rule stock_transactions.run_keeps [OF assms(1) [OF Some]]) (rule assms(2))
  then show "keeps (on_db P) (case barrier of None \<Rightarrow> fail (StatusError codes_Internal (''DTM Barrier '' @ msg_fetch_failed))
      | Some callWithDB \<Rightarrow> bindE (map_err (\<lambda>_. StatusError codes_Internal (''DB '' @ msg_connection @ msg_fetch_failed)) product_RawDB)
          (\<lambda>_. callWithDB body))"
    unfolding Some option.case by (intro keeps_bindE keeps_map_err keeps_product_RawDB)
qed (simp add: keeps_fail)

section \<open>Requests\<close>

datatype stock_request =
    DeductRequest "stock_barrier option" deduct_req
  | RollbackRequest "stock_barrier option" deduct_req
  | RevertRequest deduct_req

fun serve_stock :: "product_config \<Rightarrow> stock_request \<Rightarrow> (inv_world, unit) io" where
  "serve_stock c (DeductRequest b i) = Deduct c b i"
| "serve_stock c (RollbackRequest b i) = DeductRollback c b i"
| "serve_stock c (RevertRequest i) = RevertStock c i"

text \<open>The barrier keeps its contract, and stock is not returned in negative amounts.\<close>

fun stock_request_ok :: "stock_request \<Rightarrow> bool" where
  "stock_request_ok (DeductRequest b i) \<longleftrightarrow> (\<forall>x. b = Some x \<longrightarrow> stock_transactions x)"
| "stock_request_ok (RollbackRequest b i) \<longleftrightarrow> (\<forall>x. b = Some x \<longrightarrow> stock_transactions x) \<and> 0 \<le> dr_Num i"
| "stock_request_ok (RevertRequest i) \<longleftrightarrow> 0 \<le> dr_Num i"

definition serve_all :: "product_config \<Rightarrow> stock_request list \<Rightarrow> inv_world \<Rightarrow> inv_world" where
  "serve_all c rs w = fold (\<lambda>r w. snd (serve_stock c r w)) rs w"

lemma keeps_serve_stock: "stock_request_ok r \<Longrightarrow> keeps (on_db in_sync) (serve_stock c r)"
  by (cases r)
     (simp_all add: Deduct_def DeductRollback_def RevertStock_def, (rule keeps_bindE, rule keeps_requireLegacy,
      (rule keeps_bindE, rule keeps_product_RawDB)?, rule keeps_with_barrier keeps_stock_tx_or,
      simp_all add: deduct_body_in_sync rollback_deduct_body_in_sync revert_body_in_sync)+)


definition stock_demo_tables :: inv_tables where
  "stock_demo_tables = demo_tables\<lparr>buckets := [((7, 0), \<lparr>b_stock = 2, b_version = 0\<rparr>), ((7, 1), \<lparr>b_stock = 3, b_version = 0\<rparr>)]\<rparr>"

definition stock_demo :: "fault list \<Rightarrow> inv_world" where
  "stock_demo fs = (demo_world fs)\<lparr>inv_db := stock_demo_tables\<rparr>"

definition stock_demo_config :: product_config where
  "stock_demo_config = \<lparr>StockBucketCount = 2, LegacyStockMutationEnabled = True, DisableStockRepair = False\<rparr>"

definition stock_demo_req :: deduct_req where
  "stock_demo_req = \<lparr>dr_Id = 7, dr_Num = 3, dr_OrderId = ''o1''\<rparr>"

lemma stock_demo_in_sync: "in_sync stock_demo_tables"
  by (auto simp: in_sync_but_def stock_demo_tables_def demo_tables_def buckets_ok_def bucket_stock_def product_buckets_def bucket_sum_def)


section \<open>Deduction and compensation\<close>

text \<open>The sums of all products, \<open>v\<close> added for product \<open>p\<close>.\<close>

definition sums_moved :: "int \<Rightarrow> int \<Rightarrow> inv_tables \<Rightarrow> inv_tables \<Rightarrow> bool" where
  "sums_moved p v d d' \<longleftrightarrow> buckets_ok d' \<and> (\<forall>a. bucket_sum d' a = bucket_sum d a + (if a = p then v else 0))"

lemma sums_moved_add:
  "buckets_ok d \<Longrightarrow> bucket_add p i v d = (Inr n, d') \<Longrightarrow> sums_moved p v d d' \<and> stock_log d' = stock_log d"
  by (simp add: sums_moved_def bucket_add_Inr)

lemma sums_moved_frame: "sums_moved p v d d' \<Longrightarrow> buckets d'' = buckets d' \<Longrightarrow> sums_moved p v d d''"
  unfolding sums_moved_def buckets_ok_def by (metis bucket_sum_cong)

lemma sync_buckets: "syncProductStockSnapshotTx p w = (Inr (), w') \<Longrightarrow> buckets (inv_db w') = buckets (inv_db w) \<and> stock_log (inv_db w') = stock_log (inv_db w)"
  using syncProductStockSnapshotTx_Inr product_set_stock_frame by metis

lemma ensure_present:
  assumes "ensureProductStockBucketsFromSnapshotTx p c w = (Inr (), w')" "product_buckets (inv_db w) p \<noteq> []"
  shows "inv_db w' = inv_db w"
  using assms unfolding ensureProductStockBucketsFromSnapshotTx_def
  by (auto elim!: bindE_InrE dest!: sql_Inr ret_InrD)

lemma deduct_body_sums:
  assumes run: "deduct_body c i w = (Inr (), w')" and ok: "buckets_ok (inv_db w)" and rows: "product_buckets (inv_db w) (dr_Id i) \<noteq> []"
  shows "sums_moved (dr_Id i) (- dr_Num i) (inv_db w) (inv_db w')"
  using run unfolding deduct_body_def
proof (elim bindE_InrE, goal_cases)
  case (1 u w1 x w2 y w3 z w4)
  have d: "inv_db w2 = inv_db w" and pick: "pick_bucket (inv_db w) (dr_Id i) (dr_Num i) (stockBucketIndex (stock_order_id i) c) = Some x"
    using ensure_present [OF 1(1) [simplified] rows] product_lock_Inr [OF 1(2)] by auto
  have upd: "bucket_change (dr_Id i) x (- dr_Num i) (inv_db w) = (Inr y, inv_db w3)" using sql_Inr [OF 1(3)] d by simp
  have "y \<noteq> 0" using bucket_change_Inr(5) [OF upd ok] pick_bucket_Some [OF pick] ok by simp
  then have "sums_moved (dr_Id i) (- dr_Num i) (inv_db w) (inv_db w3)"
    using bucket_change_Inr(1,2) [OF upd ok] by (simp add: sums_moved_def)
  moreover have "buckets (inv_db w') = buckets (inv_db w3)"
    using sync_buckets [OF 1(5)] stock_log_insert_Inr(1) sql_Inr [OF 1(4)] by metis
  ultimately show ?case by (rule sums_moved_frame)
qed

lemma rollback_deduct_body_sums:
  assumes run: "rollback_deduct_body c i w = (Inr (), w')" and ok: "buckets_ok (inv_db w)"
  shows "sums_moved (dr_Id i) (dr_Num i) (inv_db w) (inv_db w')"
  using run unfolding rollback_deduct_body_def Let_def
proof (elim bindE_InrE, goal_cases)
  case (1 x w1 y w2)
  have "sums_moved (dr_Id i) (dr_Num i) (inv_db w1) (inv_db w2)"
    using sums_moved_add sql_Inr [OF 1(2)] ok deductBucketFromStockLog_db [OF 1(1)] by metis
  then show ?case using sync_buckets [OF 1(3)] deductBucketFromStockLog_db [OF 1(1)] sums_moved_frame by metis
qed

lemma with_barrier_effect:
  assumes run: "bindE (requireLegacyStockMutation c) (\<lambda>_. with_barrier (Some b) body) w = (x, w')" and b: "stock_transactions b"
  shows "inv_db w' = inv_db w \<or> (\<exists>w0 w1. body w0 = (Inr (), w1) \<and> inv_db w0 = inv_db w \<and> inv_db w' = inv_db w1)"
  using run
proof (rule bindE_cases)
  fix e assume "requireLegacyStockMutation c w = (Inl e, w')"
  then show ?thesis by (auto simp: requireLegacyStockMutation_def ret_def fail_def split: if_splits)
next
  fix u w1 assume "requireLegacyStockMutation c w = (Inr u, w1)" and k: "with_barrier (Some b) body w1 = (x, w')"
  then have w1: "w1 = w" by (auto simp: requireLegacyStockMutation_def ret_def fail_def split: if_splits)
  from k show ?thesis unfolding with_barrier_def option.case
  proof (rule bindE_cases)
    fix e assume "map_err (\<lambda>_. StatusError codes_Internal (''DB '' @ msg_connection @ msg_fetch_failed)) product_RawDB w1 = (Inl e, w')"
    then show ?thesis using w1
      by (auto simp: product_RawDB_def map_err_def ret_def split: prod.splits sum.splits elim!: ext_call_cases)
  next
    fix v w2 assume "map_err (\<lambda>_. StatusError codes_Internal (''DB '' @ msg_connection @ msg_fetch_failed)) product_RawDB w1 = (Inr v, w2)"
    then have "inv_db w2 = inv_db w" using w1
      by (auto simp: product_RawDB_def ret_def dest!: map_err_InrD elim!: ext_call_cases)
    then show "b body w2 = (x, w') \<Longrightarrow> ?thesis" using stock_transactions.all_or_nothing [OF b] by metis
  qed
qed

text \<open>
  when the deduction of the stock saga took effect, it took exactly the requested number of units
  of the product, and a compensation that takes effect afterwards restores the bucket sum of every
  product and the stock every product row shows, whatever was lost in between.
\<close>

theorem stock_saga_roundtrip:
  assumes b: "stock_transactions b" "stock_transactions b'" and sync: "in_sync (inv_db w)"
    and rows: "product_buckets (inv_db w) (dr_Id i) \<noteq> []" and num: "0 \<le> dr_Num i"
    and deduct: "inv_db (snd (Deduct c (Some b) i w)) \<noteq> inv_db w"
  defines "w1 \<equiv> snd (Deduct c (Some b) i w)"
  assumes undo: "inv_db (snd (DeductRollback c (Some b') i w1)) \<noteq> inv_db w1"
  defines "w2 \<equiv> snd (DeductRollback c (Some b') i w1)"
  shows "bucket_sum (inv_db w1) a = bucket_sum (inv_db w) a - (if a = dr_Id i then dr_Num i else 0) \<and>
    bucket_sum (inv_db w2) a = bucket_sum (inv_db w) a \<and> in_sync (inv_db w2)"
proof -
  have ok: "buckets_ok (inv_db w)" using sync by (simp add: in_sync_but_def)
  have m1: "sums_moved (dr_Id i) (- dr_Num i) (inv_db w) (inv_db w1)"
    using with_barrier_effect [OF prod.collapse [symmetric] b(1), of c "deduct_body (stockBucketCount (StockBucketCount c)) i" w] deduct
    unfolding Deduct_def [symmetric] w1_def [symmetric] by (metis deduct_body_sums ok rows)
  have s1: "in_sync (inv_db w1)"
    using keepsD [OF keeps_serve_stock [of "DeductRequest (Some b) i"], of w c] b(1) sync by (simp add: on_db_def w1_def)
  then have ok1: "buckets_ok (inv_db w1)" by (simp add: in_sync_but_def)
  have m2: "sums_moved (dr_Id i) (dr_Num i) (inv_db w1) (inv_db w2)"
    using with_barrier_effect [OF prod.collapse [symmetric] b(2), of c "rollback_deduct_body (stockBucketCount (StockBucketCount c)) i" w1] undo
    unfolding DeductRollback_def [symmetric] w2_def [symmetric] by (metis rollback_deduct_body_sums ok1)
  have "in_sync (inv_db w2)"
    using keepsD [OF keeps_serve_stock [of "RollbackRequest (Some b') i"], of w1 c] b(2) s1 num by (simp add: on_db_def w2_def)
  then show ?thesis using m1 m2 by (simp add: sums_moved_def)
qed

lemma stock_demo_index: "stockBucketIndex ''o1'' 2 = 1"
  by code_simp

lemmas stock_eval = Deduct_def DeductRollback_def RevertStock_def with_barrier_def deduct_body_def rollback_deduct_body_def revert_body_def
  stock_tx_or_def requireLegacyStockMutation_def product_RawDB_def ensureProductStockBucketsFromSnapshotTx_def
  product_lockDeductibleStockBucket_def deductBucketFromStockLog_def syncProductStockSnapshotTx_def stock_order_id_def stockBucketCount_def
  product_set_stock_def bucket_sum_def deduct_eval io_simps

lemma stock_demo_deduct:
  "Deduct stock_demo_config (Some (inv_tx id (\<lambda>_ e. e))) stock_demo_req (stock_demo []) =
     (Inr (), (stock_demo [])\<lparr>inv_db := stock_demo_tables\<lparr>buckets := [((7, 0), \<lparr>b_stock = 2, b_version = 0\<rparr>), ((7, 1), \<lparr>b_stock = 0, b_version = 1\<rparr>)],
       products := [(7, \<lparr>pr_stock = 2, pr_version = 1\<rparr>)], stock_log := [(''o1'', stockDeductBucketLogType 1)]\<rparr>\<rparr>)"
  by (simp add: stock_eval stock_demo_config_def stock_demo_req_def stock_demo_def stock_demo_tables_def demo_world_def demo_tables_def stock_demo_index)

lemma log_type_bucket: "in_i64 j \<Longrightarrow> ParseInt (drop 14 (stockDeductBucketLogType j)) = Some j \<and> take 14 (stockDeductBucketLogType j) = ''DEDUCT_BUCKET_''"
  by (simp add: stockDeductBucketLogType_def ParseInt_show_int)

lemma stock_demo_undo:
  "DeductRollback stock_demo_config (Some (inv_tx id (\<lambda>_ e. e))) stock_demo_req
     (snd (Deduct stock_demo_config (Some (inv_tx id (\<lambda>_ e. e))) stock_demo_req (stock_demo []))) =
     (Inr (), (stock_demo [])\<lparr>inv_db := stock_demo_tables\<lparr>buckets := [((7, 0), \<lparr>b_stock = 2, b_version = 0\<rparr>), ((7, 1), \<lparr>b_stock = 3, b_version = 2\<rparr>)],
       products := [(7, \<lparr>pr_stock = 5, pr_version = 2\<rparr>)], stock_log := [(''o1'', stockDeductBucketLogType 1)]\<rparr>\<rparr>)"
proof -
  have "in_i64 1" by (simp add: in_i64_def)
  from log_type_bucket [OF this] show ?thesis unfolding stock_demo_deduct
    by (simp add: stock_eval stock_demo_config_def stock_demo_req_def stock_demo_def stock_demo_tables_def demo_world_def demo_tables_def)
qed

theorem stock_saga_roundtrip_witness:
  "bucket_sum (inv_db (snd (DeductRollback stock_demo_config (Some (inv_tx id (\<lambda>_ e. e))) stock_demo_req
     (snd (Deduct stock_demo_config (Some (inv_tx id (\<lambda>_ e. e))) stock_demo_req (stock_demo [])))))) 7 = 5"
proof -
  let ?b = "inv_tx id (\<lambda>_ e. e)"
  have d: "in_sync (inv_db (stock_demo []))" "product_buckets (inv_db (stock_demo [])) (dr_Id stock_demo_req) \<noteq> []" "0 \<le> dr_Num stock_demo_req"
    "bucket_sum (inv_db (stock_demo [])) 7 = 5"
    by (simp_all add: stock_demo_def stock_demo_in_sync stock_demo_req_def)
       (simp_all add: stock_demo_tables_def product_buckets_def bucket_sum_def demo_tables_def)
  have "inv_db (snd (Deduct stock_demo_config (Some ?b) stock_demo_req (stock_demo []))) \<noteq> inv_db (stock_demo [])"
    "inv_db (snd (DeductRollback stock_demo_config (Some ?b) stock_demo_req (snd (Deduct stock_demo_config (Some ?b) stock_demo_req (stock_demo []))))) \<noteq>
     inv_db (snd (Deduct stock_demo_config (Some ?b) stock_demo_req (stock_demo [])))"
    unfolding stock_demo_undo unfolding stock_demo_deduct by (simp_all add: stock_demo_def stock_demo_tables_def demo_tables_def)
  from stock_saga_roundtrip [OF local_tx.stock_transactions_axioms local_tx.stock_transactions_axioms d(1-3) this, of 7] d(4)
  show ?thesis by simp
qed

section \<open>Returning stock\<close>

definition returned :: "deduct_req \<Rightarrow> inv_tables \<Rightarrow> inv_tables \<Rightarrow> bool" where
  "returned i d d' \<longleftrightarrow> \<not> reverted d (stock_order_id i) \<and> reverted d' (stock_order_id i) \<and> sums_moved (dr_Id i) (dr_Num i) d d'"

lemma revert_body_Inr:
  assumes run: "revert_body c i w = (Inr r, w')" and ok: "buckets_ok (inv_db w)"
  shows "if r then returned i (inv_db w) (inv_db w') else reverted (inv_db w) (stock_order_id i)"
  using run unfolding revert_body_def
proof (elim bindE_InrE, goal_cases)
  case (1 n w1)
  note log = sql_Inr [OF 1(1), THEN conjunct1]
  have b1: "buckets (inv_db w1) = buckets (inv_db w)" by (rule stock_log_insert_Inr(1) [OF log])
  then have ok1: "buckets_ok (inv_db w1)" using ok by (simp add: buckets_ok_def)
  show ?case
  proof (cases "n = 0")
    case True
    then show ?thesis using 1(2) stock_log_insert_Inr(2) [OF log] by (auto dest!: ret_InrD simp: reverted_def)
  next
    case False
    then obtain y w2 where add: "sql (bucket_add (dr_Id i) (stockBucketIndex (stock_order_id i) c) (dr_Num i)) w1 = (Inr y, w2)"
      and sync: "syncProductStockSnapshotTx (dr_Id i) w2 = (Inr (), w')" and r: "r"
      using 1(2) by (auto elim!: bindE_InrE dest!: ret_InrD)
    have m: "sums_moved (dr_Id i) (dr_Num i) (inv_db w1) (inv_db w2)" "stock_log (inv_db w2) = stock_log (inv_db w1)"
      using sums_moved_add [OF ok1] sql_Inr [OF add] by auto
    have "sums_moved (dr_Id i) (dr_Num i) (inv_db w) (inv_db w')"
      using sums_moved_frame [OF m(1)] sync_buckets [OF sync] unfolding sums_moved_def by (metis b1 bucket_sum_cong)
    then show ?thesis
      using r stock_log_insert_Inr(3) [OF log False] m(2) sync_buckets [OF sync] by (simp add: returned_def reverted_def)
  qed
qed

lemma RevertStock_effect:
  assumes run: "RevertStock c i w = (x, w')" and ok: "buckets_ok (inv_db w)"
  shows "inv_db w' = inv_db w \<and> (x = Inr () \<longrightarrow> reverted (inv_db w) (stock_order_id i)) \<or> returned i (inv_db w) (inv_db w')"
  using run unfolding RevertStock_def
proof (rule bindE_cases)
  fix e assume "requireLegacyStockMutation c w = (Inl e, w')" "x = Inl e"
  then show ?thesis by (auto simp: requireLegacyStockMutation_def ret_def fail_def split: if_splits)
next
  fix u w1 assume "requireLegacyStockMutation c w = (Inr u, w1)"
    and k: "bindE product_RawDB (\<lambda>_. stock_tx_or (revert_body (stockBucketCount (StockBucketCount c)) i)) w1 = (x, w')"
  then have w1: "w1 = w" by (auto simp: requireLegacyStockMutation_def ret_def fail_def split: if_splits)
  from k show ?thesis
  proof (rule bindE_cases)
    fix e assume "product_RawDB w1 = (Inl e, w')" "x = Inl e"
    then show ?thesis using w1 by (auto simp: product_RawDB_def ret_def elim!: ext_call_cases)
  next
    fix v w2 assume "product_RawDB w1 = (Inr v, w2)" and tx: "stock_tx_or (revert_body (stockBucketCount (StockBucketCount c)) i) w2 = (x, w')"
    then have w2: "inv_db w2 = inv_db w" using w1 by (auto simp: product_RawDB_def ret_def elim!: ext_call_cases)
    from tx show ?thesis
      by (cases rule: stock_tx_or_cases) (use w2 ok revert_body_Inr in \<open>fastforce+\<close>)
  qed
qed

text \<open>
  C30: however often returning the stock of an order is tried, and whatever requests and replies are
  lost, the units come back at most once; after an attempt that answers success they came back
  exactly once.
\<close>

theorem revert_at_most_once:
  fixes n :: nat and c :: product_config
  assumes ok: "buckets_ok (inv_db w)" and new: "\<not> reverted (inv_db w) (stock_order_id i)"
  defines "w1 \<equiv> attempts n (RevertStock c i) w"
  shows "(inv_db w1 = inv_db w \<or> sums_moved (dr_Id i) (dr_Num i) (inv_db w) (inv_db w1)) \<and>
    (fst (RevertStock c i w1) = Inr () \<longrightarrow> sums_moved (dr_Id i) (dr_Num i) (inv_db w) (inv_db (snd (RevertStock c i w1))))"
proof -
  have rel: "inv_db v = inv_db w \<or> returned i (inv_db w) (inv_db v) \<Longrightarrow>
     (inv_db (snd (RevertStock c i v)) = inv_db w \<and> fst (RevertStock c i v) \<noteq> Inr ()) \<or> returned i (inv_db w) (inv_db (snd (RevertStock c i v)))" for v
    using RevertStock_effect [where c = c and i = i and w = v, OF prod.collapse [symmetric]] ok new by (auto simp: returned_def sums_moved_def)
  have "inv_db w1 = inv_db w \<or> returned i (inv_db w) (inv_db w1)"
    unfolding w1_def by (rule attempts_rel [where R = "\<lambda>d d'. d' = d \<or> returned i d d'" and f = inv_db]) (use rel in auto)
  with rel [of w1] show ?thesis by (auto simp: returned_def)
qed

theorem revert_at_most_once_witness:
  "sums_moved 7 3 stock_demo_tables (inv_db (snd (RevertStock stock_demo_config stock_demo_req
     (attempts 1 (RevertStock stock_demo_config stock_demo_req) (stock_demo [Reply, Reply, Reply, Reply, Reply, NoReply ''gone''])))))"
proof -
  let ?w = "stock_demo [Reply, Reply, Reply, Reply, Reply, NoReply ''gone'']"
  have "buckets_ok (inv_db ?w)" "\<not> reverted (inv_db ?w) (stock_order_id stock_demo_req)"
    by (simp_all add: stock_demo_def stock_demo_tables_def demo_tables_def buckets_ok_def reverted_def)
  moreover have "fst (RevertStock stock_demo_config stock_demo_req (attempts 1 (RevertStock stock_demo_config stock_demo_req) ?w)) = Inr ()"
    by (simp add: stock_eval ext_call_def pop_fault_def stock_demo_config_def stock_demo_req_def stock_demo_def stock_demo_tables_def
        demo_world_def demo_tables_def stock_demo_index)
  ultimately show ?thesis
    using revert_at_most_once [where w = ?w and i = stock_demo_req and n = 1 and c = stock_demo_config]
    by (simp add: stock_demo_def stock_demo_req_def)
qed

section \<open>Repair\<close>

lemma bucket_put_sums:
  assumes "buckets_ok d" "bucket_put p i v d = (Inr (), d')"
  shows "buckets_ok d'" "bucket_sum d' a = bucket_sum d a + (if a = p then v - bucket_stock d p i else 0)"
    "bucket_stock d' a j = (if a = p \<and> j = i then v else bucket_stock d a j)" "products d' = products d"
    "product_buckets d' a \<noteq> [] \<longleftrightarrow> a = p \<or> product_buckets d a \<noteq> []"
proof -
  obtain b where b: "buckets d' = AList.update (p, i) b (buckets d)" "b_stock b = v" "products d' = products d"
    using assms(2) by (auto simp: bucket_put_def Let_def)
  show "buckets_ok d'" using buckets_ok_update [OF assms(1) b(1)] .
  show "bucket_sum d' a = bucket_sum d a + (if a = p then v - bucket_stock d p i else 0)"
    using bucket_sum_update [OF assms(1) b(1)] b(2) by simp
  show "bucket_stock d' a j = (if a = p \<and> j = i then v else bucket_stock d a j)"
    using bucket_stock_update [OF b(1)] b(2) by simp
  show "product_buckets d' a \<noteq> [] \<longleftrightarrow> a = p \<or> product_buckets d a \<noteq> []"
    using product_buckets_other [OF b(1), of a] bucket_row_product [of d' p i] b(1) by (cases "a = p") (simp_all add: update_conv')
  show "products d' = products d" by (rule b(3))
qed

text \<open>The buckets \<open>is\<close> of product \<open>p\<close> written one after the other, nothing lost.\<close>

lemma put_buckets:
  assumes "faults w = []" "buckets_ok (inv_db w)" "distinct js" "\<forall>j \<in> set js. bucket_stock (inv_db w) p j = 0"
  shows "\<exists>d. for_each js (\<lambda>j. sql (bucket_put p j (f j))) w = (Inr (), w\<lparr>inv_db := d\<rparr>) \<and> buckets_ok d \<and>
    (\<forall>a. bucket_sum d a = bucket_sum (inv_db w) a + (if a = p then sum_list (map f js) else 0)) \<and> products d = products (inv_db w) \<and>
    (\<forall>a. product_buckets d a \<noteq> [] \<longleftrightarrow> a = p \<and> js \<noteq> [] \<or> product_buckets (inv_db w) a \<noteq> [])"
  using assms
proof (induction js arbitrary: w)
  case Nil
  then show ?case by (intro exI [of _ "inv_db w"]) (simp add: ret_def)
next
  case (Cons j js)
  obtain d1 where put: "bucket_put p j (f j) (inv_db w) = (Inr (), d1)" by (simp add: bucket_put_def Let_def)
  note p = bucket_put_sums [OF Cons.prems(2) put]
  have "\<exists>d. for_each js (\<lambda>j. sql (bucket_put p j (f j))) (w\<lparr>inv_db := d1\<rparr>) = (Inr (), w\<lparr>inv_db := d1\<rparr>\<lparr>inv_db := d\<rparr>) \<and> buckets_ok d \<and>
    (\<forall>a. bucket_sum d a = bucket_sum d1 a + (if a = p then sum_list (map f js) else 0)) \<and> products d = products d1 \<and>
    (\<forall>a. product_buckets d a \<noteq> [] \<longleftrightarrow> a = p \<and> js \<noteq> [] \<or> product_buckets d1 a \<noteq> [])"
    using Cons.IH [of "w\<lparr>inv_db := d1\<rparr>"] Cons.prems p(1) by (simp add: p(3))
  moreover have "sql (bucket_put p j (f j)) w = (Inr (), w\<lparr>inv_db := d1\<rparr>)"
    using Cons.prems(1) put by (simp add: sql_def ext_call_ok)
  ultimately show ?case using Cons.prems(4) p by (auto simp: bindE_def)
qed

lemma bucket_stock_none: "product_buckets d p = [] \<Longrightarrow> bucket_stock d p j = 0"
  using bucket_row_product by (fastforce simp: bucket_stock_def split: option.splits)

lemma insertProductStockBuckets_ok:
  assumes "faults w = []" "buckets_ok (inv_db w)" "product_buckets (inv_db w) p = []" "in_i64 n" "0 < c"
  shows "\<exists>d. insertProductStockBuckets p n c w = (Inr (), w\<lparr>inv_db := d\<rparr>) \<and> buckets_ok d \<and>
    (\<forall>a. bucket_sum d a = bucket_sum (inv_db w) a + (if a = p then max n 0 else 0)) \<and> products d = products (inv_db w) \<and>
    (\<forall>a. product_buckets d a \<noteq> [] \<longleftrightarrow> a = p \<or> product_buckets (inv_db w) a \<noteq> [])"
proof -
  let ?n = "if n < 0 then 0 else n"
  let ?f = "\<lambda>i. if i = 0 then i64 (go_div ?n c + go_mod ?n c) else go_div ?n c"
  have s: "sum_list (map ?f [0..c - 1]) = max n 0"
    using split_total [OF assms(4), of c] assms(5) by (simp add: SplitStockAcrossShards_def Let_def)
  have ne: "[0..c - 1] \<noteq> []" using assms(5) by simp
  have z: "\<forall>j \<in> set [0..c - 1]. bucket_stock (inv_db w) p j = 0" using bucket_stock_none [OF assms(3)] by simp
  from put_buckets [OF assms(1,2) distinct_upto z, of ?f] ne show ?thesis
    unfolding insertProductStockBuckets_def Let_def s by simp
qed

lemma repair_rows:
  assumes "faults w = []" "buckets_ok (inv_db w)" "distinct (map fst rows)" "0 < c"
    and "\<forall>(p, n) \<in> set rows. product_buckets (inv_db w) p = [] \<and> in_i64 n"
  shows "\<exists>d. for_each rows (\<lambda>(p, n). bindE (attempt (insertProductStockBuckets p n c)) (\<lambda>_. ret ())) w = (Inr (), w\<lparr>inv_db := d\<rparr>) \<and>
    buckets_ok d \<and> products d = products (inv_db w) \<and>
    (\<forall>a. bucket_sum d a = bucket_sum (inv_db w) a + (case map_of rows a of None \<Rightarrow> 0 | Some n \<Rightarrow> max n 0)) \<and>
    (\<forall>a. product_buckets d a \<noteq> [] \<longleftrightarrow> map_of rows a \<noteq> None \<or> product_buckets (inv_db w) a \<noteq> [])"
  using assms
proof (induction rows arbitrary: w)
  case Nil
  then show ?case by (intro exI [of _ "inv_db w"]) (simp add: ret_def)
next
  case (Cons r rows)
  obtain p n where r: "r = (p, n)" by fastforce
  have "\<exists>d. insertProductStockBuckets p n c w = (Inr (), w\<lparr>inv_db := d\<rparr>) \<and> buckets_ok d \<and>
    (\<forall>a. bucket_sum d a = bucket_sum (inv_db w) a + (if a = p then max n 0 else 0)) \<and> products d = products (inv_db w) \<and>
    (\<forall>a. product_buckets d a \<noteq> [] \<longleftrightarrow> a = p \<or> product_buckets (inv_db w) a \<noteq> [])"
    using Cons.prems r by (intro insertProductStockBuckets_ok) auto
  then obtain d1 where run: "insertProductStockBuckets p n c w = (Inr (), w\<lparr>inv_db := d1\<rparr>)" and ok1: "buckets_ok d1"
    and s1: "\<And>a. bucket_sum d1 a = bucket_sum (inv_db w) a + (if a = p then max n 0 else 0)" and p1: "products d1 = products (inv_db w)"
    and b1: "\<And>a. product_buckets d1 a \<noteq> [] \<longleftrightarrow> a = p \<or> product_buckets (inv_db w) a \<noteq> []" by auto
  have pn: "map_of rows p = None" using Cons.prems(3) r by (simp add: map_of_eq_None_iff)
  have ne: "q \<noteq> p" if "(q, m) \<in> set rows" for q m using Cons.prems(3) r that by force
  have "\<forall>(q, m) \<in> set rows. product_buckets d1 q = [] \<and> in_i64 m"
    using Cons.prems(5) b1 ne by fastforce
  then obtain d where "for_each rows (\<lambda>(p, n). bindE (attempt (insertProductStockBuckets p n c)) (\<lambda>_. ret ())) (w\<lparr>inv_db := d1\<rparr>) =
      (Inr (), w\<lparr>inv_db := d1\<rparr>\<lparr>inv_db := d\<rparr>)" "buckets_ok d" "products d = products d1"
    "\<forall>a. bucket_sum d a = bucket_sum d1 a + (case map_of rows a of None \<Rightarrow> 0 | Some n \<Rightarrow> max n 0)"
    "\<forall>a. product_buckets d a \<noteq> [] \<longleftrightarrow> map_of rows a \<noteq> None \<or> product_buckets d1 a \<noteq> []"
    using Cons.IH [of "w\<lparr>inv_db := d1\<rparr>"] Cons.prems(1,3,4) ok1 by auto
  moreover have "bindE (attempt (insertProductStockBuckets p n c)) (\<lambda>_. ret ()) w = (Inr (), w\<lparr>inv_db := d1\<rparr>)"
    using run by (simp add: bindE_def attempt_def ret_def)
  ultimately show ?case
    using r s1 p1 b1 pn by (intro exI [of _ d]) (auto simp: bindE_Inr)
qed

lemma map_of_filtered:
  "map_of (map (\<lambda>(k, v). (k, g v)) (filter (\<lambda>(k, v). P k) xs)) a = (if P a then map_option g (map_of xs a) else None)"
  by (induction xs) auto

lemma map_of_map_pair: "map_of (map (\<lambda>(k, v). (k, g k v)) xs) a = map_option (g a) (map_of xs a)"
  by (induction xs) auto

text \<open>
  the repair at startup, when no statement is lost, gives every product its buckets: afterwards
  each product row shows the sum of its buckets, a product that had none keeps its stock (a negative
  stock counts as zero), and the sums of the others are untouched.
\<close>

theorem repair_fills_buckets:
  fixes c :: int
  assumes calm: "faults w = []" and ok: "buckets_ok (inv_db w)" and keys: "distinct (map fst (products (inv_db w)))"
    and row: "map_of (products (inv_db w)) p = Some x" and range: "\<forall>(p, x) \<in> set (products (inv_db w)). in_i64 (pr_stock x)"
  defines "d \<equiv> inv_db (snd (repairProductStockState c w))"
  shows "bucket_sum d p = (if product_buckets (inv_db w) p = [] then max (pr_stock x) 0 else bucket_sum (inv_db w) p) \<and>
    map_of (products d) p = Some (x\<lparr>pr_stock := bucket_sum d p\<rparr>) \<and> product_buckets d p \<noteq> []"
proof -
  let ?c = "if c \<le> 0 then 1 else c" and ?rows = "products_without_buckets (inv_db w)"
  have rows: "map_of ?rows a = (if product_buckets (inv_db w) a = [] then map_option pr_stock (map_of (products (inv_db w)) a) else None)" for a
    unfolding products_without_buckets_def by (rule map_of_filtered)
  have dk: "distinct (map fst ?rows)"
    unfolding products_without_buckets_def using keys by (simp add: comp_def case_prod_unfold distinct_map_filter)
  have cpos: "0 < ?c" by simp
  have rg: "\<forall>(p, n) \<in> set ?rows. product_buckets (inv_db w) p = [] \<and> in_i64 n"
    using range by (auto simp: products_without_buckets_def)
  obtain d1 where run: "for_each ?rows (\<lambda>(p, n). bindE (attempt (insertProductStockBuckets p n ?c)) (\<lambda>_. ret ())) w = (Inr (), w\<lparr>inv_db := d1\<rparr>)"
    and s: "\<forall>a. bucket_sum d1 a = bucket_sum (inv_db w) a + (case map_of ?rows a of None \<Rightarrow> 0 | Some n \<Rightarrow> max n 0)"
    and b: "\<forall>a. product_buckets d1 a \<noteq> [] \<longleftrightarrow> map_of ?rows a \<noteq> None \<or> product_buckets (inv_db w) a \<noteq> []"
    and pr: "products d1 = products (inv_db w)"
    using repair_rows [OF calm ok dk cpos rg] by auto
  have d: "d = set_stock_totals d1"
    using calm run unfolding d_def repairProductStockState_def
    by (simp add: bindE_def attempt_def product_RawDB_def ext_call_ok ret_def sql_def Let_def)
  have "bucket_sum d a = bucket_sum d1 a" "product_buckets d a = product_buckets d1 a" for a
    unfolding d set_stock_totals_def by (simp_all add: bucket_sum_def product_buckets_def)
  moreover have "map_of (products d) p = Some (if product_buckets d1 p = [] then x else x\<lparr>pr_stock := bucket_sum d1 p\<rparr>)"
    unfolding d set_stock_totals_def using row pr by (simp add: map_of_map_pair)
  moreover have "bucket_sum (inv_db w) p = 0" if "product_buckets (inv_db w) p = []"
    using that by (simp add: bucket_sum_def)
  ultimately show ?thesis using s b rows [of p] row by auto
qed

definition repair_demo :: "fault list \<Rightarrow> inv_world" where
  "repair_demo fs = (demo_world fs)\<lparr>inv_db := demo_tables\<lparr>buckets := []\<rparr>\<rparr>"

theorem repair_fills_buckets_witness:
  "bucket_sum (inv_db (snd (repairProductStockState 4 (repair_demo [])))) 7 = 5"
proof -
  have "faults (repair_demo []) = []" "buckets_ok (inv_db (repair_demo []))" "distinct (map fst (products (inv_db (repair_demo []))))"
    "map_of (products (inv_db (repair_demo []))) 7 = Some \<lparr>pr_stock = 5, pr_version = 0\<rparr>"
    "\<forall>(p, x) \<in> set (products (inv_db (repair_demo []))). in_i64 (pr_stock x)"
    "product_buckets (inv_db (repair_demo [])) 7 = []"
    by (simp_all add: repair_demo_def demo_world_def demo_tables_def buckets_ok_def product_buckets_def in_i64_def)
  with repair_fills_buckets [of "repair_demo []" 7 _ 4] show ?thesis by simp
qed

text \<open>
  the repair is not atomic.  A product with \<open>n\<close> units and no buckets yet, of which the second
  insert is lost, keeps only the units of its first bucket: the closing update overwrites its stock
  with the partial sum, and a later repair without failures finds a bucket and leaves it so.
\<close>

theorem repair_loses_stock:
  fixes n c :: int
  assumes calls: "faults w = [Reply, Reply, Reply, NoRequest e]"
    and rows: "products (inv_db w) = [(p, \<lparr>pr_stock = n, pr_version = v\<rparr>)]" "buckets (inv_db w) = []"
    and size: "in_i64 n" "1 < c" "c \<le> n"
  defines "w1 \<equiv> snd (repairProductStockState c w)"
  shows "products (inv_db w1) = [(p, \<lparr>pr_stock = n div c + n mod c, pr_version = v\<rparr>)] \<and> n div c + n mod c < n \<and>
    products (inv_db (snd (repairProductStockState c w1))) = products (inv_db w1)"
proof -
  let ?k = "n div c + n mod c"
  have nn: "0 \<le> n" "0 < c" using size by auto
  have "0 < n div c" using pos_imp_zdiv_pos_iff [of c n] size by simp
  then have "1 * 1 \<le> (c - 1) * (n div c)" using size by (intro mult_mono) auto
  then have "1 + n div c \<le> c * (n div c)" by (simp add: algebra_simps)
  with mult_div_mod_eq [of c n] have lt: "?k < n" by linarith
  have "0 \<le> ?k" using nn by (simp add: pos_imp_zdiv_nonneg_iff)
  then have k: "i64 ?k = ?k" using lt size(1) by (intro i64_id in_i64I [of ?k n]) simp_all
  have up: "[0..c - 1] = 0 # 1 # [2..c - 1]" using size(2) by (simp add: upto_rec1)
  have div: "go_div n c = n div c" "go_mod n c = n mod c" using nn by simp_all
  let ?d = "(inv_db w)\<lparr>buckets := [((p, 0), \<lparr>b_stock = ?k, b_version = 0\<rparr>)], products := [(p, \<lparr>pr_stock = ?k, pr_version = v\<rparr>)]\<rparr>"
  have ins: "insertProductStockBuckets p n c (w\<lparr>faults := [Reply, NoRequest e]\<rparr>) =
      (Inl (RawError e), w\<lparr>faults := [], inv_db := (inv_db w)\<lparr>buckets := [((p, 0), \<lparr>b_stock = ?k, b_version = 0\<rparr>)]\<rparr>\<rparr>)"
    unfolding insertProductStockBuckets_def Let_def using rows(2) nn k
    by (simp add: io_simps ext_call_def pop_fault_def sql_def up div bucket_put_def)
  have w1: "w1 = w\<lparr>faults := [], inv_db := ?d\<rparr>"
    unfolding w1_def repairProductStockState_def Let_def using calls rows size(2) ins
    by (simp add: io_simps ext_call_def pop_fault_def product_RawDB_def sql_def products_without_buckets_def product_buckets_def
        set_stock_totals_def bucket_sum_def)
  moreover have "products (inv_db (snd (repairProductStockState c w1))) = products (inv_db w1)"
    unfolding w1 repairProductStockState_def
    by (simp add: io_simps product_RawDB_def sql_def products_without_buckets_def product_buckets_def set_stock_totals_def bucket_sum_def)
  ultimately show ?thesis using lt by simp
qed

theorem repair_loses_stock_witness:
  "products (inv_db (snd (repairProductStockState 4 (repair_demo [Reply, Reply, Reply, NoRequest ''gone''])))) =
     [(7, \<lparr>pr_stock = 2, pr_version = 0\<rparr>)]"
proof -
  let ?w = "repair_demo [Reply, Reply, Reply, NoRequest ''gone'']"
  have "faults ?w = [Reply, Reply, Reply, NoRequest ''gone'']" "products (inv_db ?w) = [(7, \<lparr>pr_stock = 5, pr_version = 0\<rparr>)]"
    "buckets (inv_db ?w) = []" "in_i64 5"
    by (simp_all add: repair_demo_def demo_world_def demo_tables_def in_i64_def)
  from repair_loses_stock [OF this, of 4] show ?thesis by simp
qed

end
