(* ===== verification/Redis_Keys.thy ===== *)
theory Redis_Keys
  imports Effects
begin

text \<open>
  A Redis key as a value with the deadline after which it is gone, for the parts of the system that
  keep texts, hashes and bitmaps in Redis (the existence filter of the gateway, the sessions and
  counters of the auth service).
\<close>

definition live :: "int \<Rightarrow> ('a \<times> int option) option \<Rightarrow> 'a option" where
  "live now x = (case x of
       None \<Rightarrow> None
     | Some (v, None) \<Rightarrow> Some v
     | Some (v, Some dl) \<Rightarrow> if dl \<le> now then None else Some v)"

text \<open>A write keeps the deadline of a key that lives, and gives a new key none.\<close>

definition put_live :: "int \<Rightarrow> 'a \<Rightarrow> ('a \<times> int option) option \<Rightarrow> ('a \<times> int option) option" where
  "put_live now v x = Some (v, if live now x = None then None else (case x of Some (_, dl) \<Rightarrow> dl | None \<Rightarrow> None))"

definition expire_key :: "int \<Rightarrow> int \<Rightarrow> ('a \<times> int option) option \<Rightarrow> ('a \<times> int option) option" where
  "expire_key now ttl x = (case live now x of None \<Rightarrow> None | Some v \<Rightarrow> Some (v, Some (now + ttl)))"

section \<open>Reading after writing\<close>

lemma live_simps [simp]:
  "live now None = None" "live now (Some (v, None)) = Some v" "live now (put_live now v x) = Some v"
  by (auto simp: live_def put_live_def split: option.splits)

lemma live_expire: "live now (expire_key now ttl x) = (if 0 < ttl then live now x else None)"
  by (auto simp: expire_key_def live_def split: option.splits)

lemma live_later: "live t x = Some v \<Longrightarrow> now \<le> t \<Longrightarrow> live now x = Some v"
  by (auto simp: live_def split: option.splits if_splits)

end
