(* ===== verification/Existence_Filter.thy ===== *)
theory Existence_Filter
  imports Redis_Keys "HOL-Library.Word"
begin

text \<open>
  The product existence filter of the gateway (\<open>app/gateway/hertz/internal/existencefilter\<close>), a Bloom
  filter in a Redis bitmap that is rebuilt generation by generation, its negative cache, and the read
  protection built on both (\<open>handler/product_read_protection.go\<close>).  The hash function
  \<open>xxhash.Sum64String\<close> is third-party code and a parameter; so are the random token and the generation
  name of a rebuild.  A pipeline of Redis commands is one call.  Times are in nanoseconds.
\<close>

unbundle bit_operations_syntax

section \<open>The Redis keys of the filter\<close>

text \<open>Texts, hashes and bitmaps by key, each with the deadline of the key.\<close>

record filter_world = env +
  fw_text :: "string \<Rightarrow> (string \<times> int option) option"
  fw_hash :: "string \<Rightarrow> ((string \<rightharpoonup> string) \<times> int option) option"
  fw_bits :: "string \<Rightarrow> (int set \<times> int option) option"
  fw_ids :: "int list"
  fw_now :: int

definition text_at :: "filter_world \<Rightarrow> string \<Rightarrow> string option" where
  "text_at w k = live (fw_now w) (fw_text w k)"

definition hash_at :: "filter_world \<Rightarrow> string \<Rightarrow> string \<rightharpoonup> string" where
  "hash_at w k = (case live (fw_now w) (fw_hash w k) of None \<Rightarrow> Map.empty | Some h \<Rightarrow> h)"

definition bits_at :: "filter_world \<Rightarrow> string \<Rightarrow> int set" where
  "bits_at w k = (case live (fw_now w) (fw_bits w k) of None \<Rightarrow> {} | Some b \<Rightarrow> b)"

definition redis_Nil :: go_error where
  "redis_Nil = RawError ''redis: nil''"

definition redis_Get :: "string \<Rightarrow> (filter_world, string) io" where
  "redis_Get k = ext_call (\<lambda>w. (case text_at w k of None \<Rightarrow> Inl redis_Nil | Some v \<Rightarrow> Inr v, w))"

definition redis_Exists :: "string \<Rightarrow> (filter_world, int) io" where
  "redis_Exists k = ext_call (\<lambda>w. (Inr (if text_at w k = None then 0 else 1), w))"

definition redis_Set :: "string \<Rightarrow> string \<Rightarrow> int \<Rightarrow> (filter_world, unit) io" where
  "redis_Set k v ttl = ext_call (\<lambda>w. (Inr (), w\<lparr>fw_text := (fw_text w)(k := Some (v, if ttl = 0 then None else Some (fw_now w + ttl)))\<rparr>))"

definition redis_SetNX :: "string \<Rightarrow> string \<Rightarrow> int \<Rightarrow> (filter_world, bool) io" where
  "redis_SetNX k v ttl = ext_call (\<lambda>w.
     if text_at w k = None then (Inr True, w\<lparr>fw_text := (fw_text w)(k := Some (v, Some (fw_now w + ttl)))\<rparr>) else (Inr False, w))"

definition redis_Del :: "string \<Rightarrow> (filter_world, unit) io" where
  "redis_Del k = ext_call (\<lambda>w. (Inr (), w\<lparr>fw_text := (fw_text w)(k := None)\<rparr>))"

definition redis_HGetAll :: "string \<Rightarrow> (filter_world, string \<rightharpoonup> string) io" where
  "redis_HGetAll k = ext_call (\<lambda>w. (Inr (hash_at w k), w))"

definition redis_HSet :: "string \<Rightarrow> (string \<rightharpoonup> string) \<Rightarrow> (filter_world, unit) io" where
  "redis_HSet k m = ext_call (\<lambda>w. (Inr (), w\<lparr>fw_hash := (fw_hash w)(k := put_live (fw_now w) (hash_at w k ++ m) (fw_hash w k))\<rparr>))"

text \<open>\<open>SETBIT\<close> and \<open>GETBIT\<close> refuse offsets outside 32 bits; the other commands of the pipeline still run.\<close>

definition bit_offset_ok :: "int \<Rightarrow> bool" where
  "bit_offset_ok p \<longleftrightarrow> 0 \<le> p \<and> p < 2 ^ 32"

definition bit_error :: go_error where
  "bit_error = RawError ''ERR bit offset is not an integer or out of range''"

definition pipe_SetBit :: "string \<Rightarrow> int list \<Rightarrow> (filter_world, unit) io" where
  "pipe_SetBit k ps = ext_call (\<lambda>w.
     (if list_all bit_offset_ok ps then Inr () else Inl bit_error,
      if list_ex bit_offset_ok ps
      then w\<lparr>fw_bits := (fw_bits w)(k := put_live (fw_now w) (bits_at w k \<union> set (filter bit_offset_ok ps)) (fw_bits w k))\<rparr>
      else w))"

definition pipe_GetBit :: "string \<Rightarrow> int list \<Rightarrow> (filter_world, bool list) io" where
  "pipe_GetBit k ps = ext_call (\<lambda>w.
     (if list_all bit_offset_ok ps then Inr (map (\<lambda>p. p \<in> bits_at w k) ps) else Inl bit_error, w))"

definition pipe_Expire :: "string \<Rightarrow> string \<Rightarrow> int \<Rightarrow> (filter_world, unit) io" where
  "pipe_Expire bk mk ttl = ext_call (\<lambda>w. (Inr (),
     w\<lparr>fw_bits := (fw_bits w)(bk := expire_key (fw_now w) ttl (fw_bits w bk)),
       fw_hash := (fw_hash w)(mk := expire_key (fw_now w) ttl (fw_hash w mk))\<rparr>))"

definition redis_Del_generation :: "string \<Rightarrow> string \<Rightarrow> (filter_world, unit) io" where
  "redis_Del_generation bk mk = ext_call (\<lambda>w. (Inr (), w\<lparr>fw_bits := (fw_bits w)(bk := None), fw_hash := (fw_hash w)(mk := None)\<rparr>))"

text \<open>The Lua scripts \<open>activateGenerationScript\<close> and \<open>unlockScript\<close>.\<close>

definition activateGenerationScript :: "string \<Rightarrow> string \<Rightarrow> string \<Rightarrow> (filter_world, string) io" where
  "activateGenerationScript metaKey activeKey generation w =
     (if hash_at w metaKey ''state'' \<noteq> Some ''ready'' then (Inl (RawError ''generation is not ready''), w)
      else (Inr (case text_at w activeKey of None \<Rightarrow> [] | Some previous \<Rightarrow> previous),
            w\<lparr>fw_text := (fw_text w)(activeKey := Some (generation, None))\<rparr>))"

definition unlockScript :: "string \<Rightarrow> string \<Rightarrow> (filter_world, int) io" where
  "unlockScript k v w = (if text_at w k = Some v then (Inr 1, w\<lparr>fw_text := (fw_text w)(k := None)\<rparr>) else (Inr 0, w))"

section \<open>Configuration\<close>

record filter_config =
  fc_Prefix :: string
  fc_NegativePrefix :: string
  fc_BatchSize :: int
  fc_NegativeTTL :: int
  fc_RebuildLockTTL :: int
  fc_OldGenerationTTL :: int
  fc_bitCount :: "64 word"
  fc_hashCount :: "64 word"

definition trim_colons :: "string \<Rightarrow> string" where
  "trim_colons s = rev (dropWhile (\<lambda>c. c = CHR '':'') (rev (dropWhile (\<lambda>c. c = CHR '':'') s)))"

text \<open>\<open>Config.normalize\<close>; the size of the bitmap and the number of hashes, which the code computes in floating point, arrive in \<open>c\<close>.\<close>

definition filter_normalize :: "filter_config \<Rightarrow> filter_config" where
  "filter_normalize c =
     (let prefix = trim_colons (TrimSpace (fc_Prefix c));
          prefix = (if prefix = [] then ''flashmall:hertz:existence:product'' else prefix);
          negative = trim_colons (TrimSpace (fc_NegativePrefix c));
          negative = (if negative = [] then prefix @ '':negative'' else negative)
      in c\<lparr>fc_Prefix := prefix, fc_NegativePrefix := negative,
           fc_BatchSize := (if fc_BatchSize c \<le> 0 then 1000 else fc_BatchSize c),
           fc_NegativeTTL := (if fc_NegativeTTL c \<le> 0 then 30 * 10 ^ 9 else fc_NegativeTTL c),
           fc_RebuildLockTTL := (if fc_RebuildLockTTL c \<le> 0 then 600 * 10 ^ 9 else fc_RebuildLockTTL c),
           fc_OldGenerationTTL := (if fc_OldGenerationTTL c \<le> 0 then 3600 * 10 ^ 9 else fc_OldGenerationTTL c),
           fc_hashCount := (if fc_hashCount c = 0 then 1 else fc_hashCount c)\<rparr>)"

definition activeKey :: "filter_config \<Rightarrow> string" where
  "activeKey c = fc_Prefix c @ '':active''"

definition filter_lockKey :: "filter_config \<Rightarrow> string" where
  "filter_lockKey c = fc_Prefix c @ '':rebuild-lock''"

definition bitsKey :: "filter_config \<Rightarrow> string \<Rightarrow> string" where
  "bitsKey c generation = fc_Prefix c @ '':g:'' @ generation @ '':bits''"

definition metaKey :: "filter_config \<Rightarrow> string \<Rightarrow> string" where
  "metaKey c generation = fc_Prefix c @ '':g:'' @ generation @ '':meta''"

section \<open>Bit positions\<close>

definition hashAlgorithm :: string where
  "hashAlgorithm = ''xxhash64-double-v1''"

definition bitPositions :: "(string \<Rightarrow> 64 word) \<Rightarrow> int \<Rightarrow> 64 word \<Rightarrow> 64 word \<Rightarrow> int list" where
  "bitPositions sum64 productID bitCount hashCount =
     (let first = sum64 (''flashmall:product:first:'' @ show_int productID);
          second = sum64 (''flashmall:product:second:'' @ show_int productID);
          second = (if second = 0 then 0x9e3779b97f4a7c15 else second)
      in map (\<lambda>index. sint ((first + word_of_nat index * second) mod bitCount)) [0..<unat hashCount])"

text \<open>\<open>strconv.ParseUint(s, 10, 64)\<close> of a field that may be missing.\<close>

definition ParseUint_field :: "string option \<Rightarrow> 64 word option" where
  "ParseUint_field x = (case parse_digits (case x of None \<Rightarrow> [] | Some s \<Rightarrow> s) of
       None \<Rightarrow> None | Some n \<Rightarrow> if n < 2 ^ 64 then Some (word_of_nat n) else None)"

section \<open>Checking and adding\<close>

datatype filter_result = ResultPossible | ResultAbsent | ResultUnready

definition ErrUnready :: go_error where
  "ErrUnready = RawError ''existence filter is not ready''"

definition ErrRebuildInProgress :: go_error where
  "ErrRebuildInProgress = RawError ''existence filter rebuild is in progress''"

text \<open>The metadata of a generation, if it is ready and readable.\<close>

definition ready_metadata :: "(string \<rightharpoonup> string) \<Rightarrow> (64 word \<times> 64 word) option" where
  "ready_metadata values =
     (if values ''state'' \<noteq> Some ''ready'' \<or> values ''algorithm'' \<noteq> Some hashAlgorithm then None
      else case (ParseUint_field (values ''bit_count''), ParseUint_field (values ''hash_count'')) of
             (Some m, Some k) \<Rightarrow> if m = 0 \<or> k = 0 then None else Some (m, k)
           | _ \<Rightarrow> None)"

definition activeMetadata :: "filter_config \<Rightarrow> (filter_world, string \<times> 64 word \<times> 64 word) io" where
  "activeMetadata c =
     bindE (redis_Get (activeKey c)) (\<lambda>generation.
     bindE (redis_HGetAll (metaKey c generation)) (\<lambda>values.
     case ready_metadata values of None \<Rightarrow> fail redis_Nil | Some mk \<Rightarrow> ret (generation, mk)))"

definition Check :: "(string \<Rightarrow> 64 word) \<Rightarrow> filter_config \<Rightarrow> int \<Rightarrow> (filter_world, filter_result) io" where
  "Check sum64 c productID =
     (if productID \<le> 0 then ret ResultUnready
      else bindE (attempt (activeMetadata c)) (\<lambda>x. case x of
             Inl e \<Rightarrow> if e = redis_Nil then ret ResultUnready else fail e
           | Inr (generation, m, k) \<Rightarrow>
               bindE (pipe_GetBit (bitsKey c generation) (bitPositions sum64 productID m k)) (\<lambda>bits.
               ret (if list_all id bits then ResultPossible else ResultAbsent))))"

definition addToGeneration :: "(string \<Rightarrow> 64 word) \<Rightarrow> filter_config \<Rightarrow> string \<Rightarrow> 64 word \<times> 64 word \<Rightarrow> int \<Rightarrow> (filter_world, unit) io" where
  "addToGeneration sum64 c generation mk productID =
     pipe_SetBit (bitsKey c generation) (bitPositions sum64 productID (fst mk) (snd mk))"

definition filter_Add :: "(string \<Rightarrow> 64 word) \<Rightarrow> filter_config \<Rightarrow> int \<Rightarrow> (filter_world, unit) io" where
  "filter_Add sum64 c productID =
     (if productID \<le> 0 then fail ErrUnready
      else bindE (redis_Exists (filter_lockKey c)) (\<lambda>rebuilding.
           if rebuilding > 0 then fail ErrRebuildInProgress
           else bindE (attempt (activeMetadata c)) (\<lambda>x. case x of
                  Inl e \<Rightarrow> if e = redis_Nil then fail ErrUnready else fail e
                | Inr (generation, mk) \<Rightarrow> addToGeneration sum64 c generation mk productID)))"

record filter_status =
  st_Ready :: bool
  st_State :: string
  st_Generation :: string
  st_Items :: int

definition filter_Status :: "filter_config \<Rightarrow> (filter_world, filter_status) io" where
  "filter_Status c =
     (let status = \<lparr>st_Ready = False, st_State = ''unready'', st_Generation = [], st_Items = 0\<rparr> in
      bindE (attempt (redis_Get (activeKey c))) (\<lambda>x. case x of
        Inl e \<Rightarrow> ret (if e = redis_Nil then status else status\<lparr>st_State := ''degraded''\<rparr>)
      | Inr generation \<Rightarrow>
          bindE (attempt (redis_HGetAll (metaKey c generation))) (\<lambda>y. case y of
            Inl e \<Rightarrow> ret (status\<lparr>st_State := ''degraded''\<rparr>)
          | Inr values \<Rightarrow>
              if values ''state'' \<noteq> Some ''ready'' \<or> values ''algorithm'' \<noteq> Some hashAlgorithm then ret status
              else case ParseInt (case values ''count'' of None \<Rightarrow> [] | Some s \<Rightarrow> s) of
                     None \<Rightarrow> ret (status\<lparr>st_State := ''degraded''\<rparr>)
                   | Some items \<Rightarrow> ret \<lparr>st_Ready = True, st_State = ''ready'', st_Generation = generation, st_Items = items\<rparr>)))"

section \<open>Rebuilding\<close>

text \<open>\<open>ProductIDBatch\<close> of \<open>adapters/productmysql/catalog_ids.go\<close>, the source of the ids.\<close>

definition ProductIDBatch :: "int \<Rightarrow> int \<Rightarrow> (filter_world, int list) io" where
  "ProductIDBatch afterID limit =
     (let limit = (if limit \<le> 0 then 1000 else limit);
          limit = (if limit > 10000 then 10000 else limit)
      in ext_call (\<lambda>w. (Inr (take (nat limit) (sort (filter (\<lambda>i. i > afterID) (fw_ids w)))), w)))"

definition writeBuildingMetadata :: "filter_config \<Rightarrow> string \<Rightarrow> (filter_world, unit) io" where
  "writeBuildingMetadata c generation =
     redis_HSet (metaKey c generation)
       [''state'' \<mapsto> ''building'', ''algorithm'' \<mapsto> hashAlgorithm,
        ''bit_count'' \<mapsto> show_nat (unat (fc_bitCount c)), ''hash_count'' \<mapsto> show_nat (unat (fc_hashCount c))]"

definition addBatch :: "(string \<Rightarrow> 64 word) \<Rightarrow> filter_config \<Rightarrow> string \<Rightarrow> int list \<Rightarrow> (filter_world, unit) io" where
  "addBatch sum64 c generation ids =
     pipe_SetBit (bitsKey c generation) (concat (map (\<lambda>i. bitPositions sum64 i (fc_bitCount c) (fc_hashCount c)) ids))"

text \<open>The check that a batch is strictly increasing after \<open>afterID\<close>; the last id, or the first offender.\<close>

fun increasing_after :: "int \<Rightarrow> int list \<Rightarrow> go_error + int" where
  "increasing_after afterID [] = Inr afterID"
| "increasing_after afterID (i # ids) =
     (if i \<le> afterID
      then Inl (RawError (''product id source returned non-increasing id '' @ show_int i @ '' after '' @ show_int afterID))
      else increasing_after i ids)"

text \<open>The loop of \<open>loadGeneration\<close>, with as many rounds as the first argument allows.\<close>

definition ErrRounds :: go_error where
  "ErrRounds = app_new CodeInternal ''no rounds left''"

fun load_loop :: "nat \<Rightarrow> (string \<Rightarrow> 64 word) \<Rightarrow> filter_config \<Rightarrow> string \<Rightarrow> int \<Rightarrow> int \<Rightarrow> (filter_world, int) io" where
  "load_loop 0 sum64 c generation afterID count = fail ErrRounds"
| "load_loop (Suc n) sum64 c generation afterID count =
     bindE (ProductIDBatch afterID (fc_BatchSize c)) (\<lambda>ids.
     if ids = [] then ret count
     else bindE (of_result (increasing_after afterID ids)) (\<lambda>afterID.
          bindE (addBatch sum64 c generation ids) (\<lambda>_.
          if int (length ids) < fc_BatchSize c then ret (count + int (length ids))
          else load_loop n sum64 c generation afterID (count + int (length ids)))))"

definition loadGeneration :: "nat \<Rightarrow> (string \<Rightarrow> 64 word) \<Rightarrow> filter_config \<Rightarrow> string \<Rightarrow> (filter_world, int) io" where
  "loadGeneration n sum64 c generation = load_loop n sum64 c generation 0 0"

definition markReady :: "filter_config \<Rightarrow> string \<Rightarrow> int \<Rightarrow> (filter_world, unit) io" where
  "markReady c generation count =
     (\<lambda>w. redis_HSet (metaKey c generation)
       [''state'' \<mapsto> ''ready'', ''count'' \<mapsto> show_int count, ''built_at'' \<mapsto> show_int (fw_now w div 10 ^ 9)] w)"

definition activate :: "filter_config \<Rightarrow> string \<Rightarrow> (filter_world, string) io" where
  "activate c generation = ext_call (activateGenerationScript (metaKey c generation) (activeKey c) generation)"

definition expireGeneration :: "filter_config \<Rightarrow> string \<Rightarrow> (filter_world, unit) io" where
  "expireGeneration c generation =
     or_else (pipe_Expire (bitsKey c generation) (metaKey c generation) (fc_OldGenerationTTL c)) ()"

definition deleteGeneration :: "filter_config \<Rightarrow> string \<Rightarrow> (filter_world, unit) io" where
  "deleteGeneration c generation = or_else (redis_Del_generation (bitsKey c generation) (metaKey c generation)) ()"

text \<open>\<open>if err := m; err != nil { deleteGeneration; return err }\<close>.\<close>

definition or_delete :: "filter_config \<Rightarrow> string \<Rightarrow> (filter_world, 'a) io \<Rightarrow> (filter_world, 'a) io" where
  "or_delete c generation m =
     bindE (attempt m) (\<lambda>x. case x of Inr a \<Rightarrow> ret a | Inl e \<Rightarrow> bindE (deleteGeneration c generation) (\<lambda>_. fail e))"

text \<open>\<open>rebuild\<close> in its phases: the lock and the building metadata, the ids, the switch, the unlock of the deferred call.\<close>

definition rebuild_load :: "nat \<Rightarrow> (string \<Rightarrow> 64 word) \<Rightarrow> filter_config \<Rightarrow> string \<Rightarrow> (filter_world, int) io" where
  "rebuild_load n sum64 c generation =
     or_delete c generation (bindE (loadGeneration n sum64 c generation) (\<lambda>count.
       bindE (markReady c generation count) (\<lambda>_. ret count)))"

definition rebuild_switch :: "filter_config \<Rightarrow> string \<Rightarrow> (filter_world, unit) io" where
  "rebuild_switch c generation =
     bindE (or_delete c generation (activate c generation)) (\<lambda>previous.
     if previous \<noteq> [] \<and> previous \<noteq> generation then expireGeneration c previous else ret ())"

definition acquire_lock :: "filter_config \<Rightarrow> string \<Rightarrow> (filter_world, unit) io" where
  "acquire_lock c token =
     bindE (redis_SetNX (filter_lockKey c) token (fc_RebuildLockTTL c)) (\<lambda>acquired.
     if \<not> acquired then fail ErrRebuildInProgress else ret ())"

definition release_lock :: "filter_config \<Rightarrow> string \<Rightarrow> (filter_world, unit) io" where
  "release_lock c token = bindE (or_else (ext_call (unlockScript (filter_lockKey c) token)) 0) (\<lambda>_. ret ())"

definition Rebuild :: "nat \<Rightarrow> (string \<Rightarrow> 64 word) \<Rightarrow> filter_config \<Rightarrow> string \<Rightarrow> string \<Rightarrow> (filter_world, int) io" where
  "Rebuild n sum64 c token generation =
     bindE (acquire_lock c token) (\<lambda>_.
     finally_do (release_lock c token)
       (bindE (writeBuildingMetadata c generation) (\<lambda>_.
        bindE (rebuild_load n sum64 c generation) (\<lambda>count.
        bindE (rebuild_switch c generation) (\<lambda>_. ret count)))))"

text \<open>The start of \<open>Start\<close>: a ready filter is taken over, any other is rebuilt; each tick rebuilds.\<close>

definition filter_Start :: "nat \<Rightarrow> (string \<Rightarrow> 64 word) \<Rightarrow> filter_config \<Rightarrow> string \<Rightarrow> string \<Rightarrow> (filter_world, unit) io" where
  "filter_Start n sum64 c token generation =
     bindE (filter_Status c) (\<lambda>status.
     if st_Ready status then ret () else bindE (attempt (Rebuild n sum64 c token generation)) (\<lambda>_. ret ()))"

section \<open>The negative cache\<close>

text \<open>The standard library's \<open>hash/fnv\<close>, FNV-1a on 32 bits.\<close>

definition fnv32a :: "string \<Rightarrow> 32 word" where
  "fnv32a s = foldl (\<lambda>h b. (h XOR word_of_nat (of_char b)) * 0x01000193) 0x811C9DC5 s"

definition negative_key :: "filter_config \<Rightarrow> int \<Rightarrow> string" where
  "negative_key c productID = fc_NegativePrefix c @ '':product:'' @ show_int productID"

definition negative_ttl :: "filter_config \<Rightarrow> int \<Rightarrow> int" where
  "negative_ttl c productID =
     (let maxJitter = go_div (fc_NegativeTTL c) 3
      in if maxJitter \<le> 0 then fc_NegativeTTL c
         else fc_NegativeTTL c + sint ((word_of_int maxJitter * ucast (fnv32a (show_int productID) mod 100)) div (100 :: 64 word)))"

definition negative_Contains :: "filter_config \<Rightarrow> int \<Rightarrow> (filter_world, bool) io" where
  "negative_Contains c productID =
     (if productID \<le> 0 then ret False
      else bindE (redis_Exists (negative_key c productID)) (\<lambda>n. ret (n > 0)))"

definition negative_Mark :: "filter_config \<Rightarrow> int \<Rightarrow> (filter_world, unit) io" where
  "negative_Mark c productID =
     (if productID \<le> 0 then ret ()
      else redis_Set (negative_key c productID) ''{\"reason\":\"not_public\",\"v\":1}'' (negative_ttl c productID))"

definition negative_Invalidate :: "filter_config \<Rightarrow> int \<Rightarrow> (filter_world, unit) io" where
  "negative_Invalidate c productID = (if productID \<le> 0 then ret () else redis_Del (negative_key c productID))"

section \<open>Read protection\<close>

definition productNotFound :: go_error where
  "productNotFound = app_new CodeProductNotFound ''product not found''"

definition protectProductDetailOrigin :: "(string \<Rightarrow> 64 word) \<Rightarrow> filter_config \<Rightarrow> int \<Rightarrow> (filter_world, bool) io" where
  "protectProductDetailOrigin sum64 c productID =
     bindE (attempt (negative_Contains c productID)) (\<lambda>x.
     if x = Inr True then fail productNotFound
     else bindE (attempt (Check sum64 c productID)) (\<lambda>y. case y of
            Inl _ \<Rightarrow> ret False
          | Inr ResultAbsent \<Rightarrow> fail productNotFound
          | Inr result \<Rightarrow> ret (result = ResultPossible)))"

definition markProductNotPublic :: "filter_config \<Rightarrow> int \<Rightarrow> (filter_world, unit) io" where
  "markProductNotPublic c productID = or_else (negative_Mark c productID) ()"

definition prepareProductVisibility :: "(string \<Rightarrow> 64 word) \<Rightarrow> filter_config \<Rightarrow> int \<Rightarrow> (filter_world, unit) io" where
  "prepareProductVisibility sum64 c productID =
     map_err (app_wrap CodeInternal ''prepare product existence filter'') (filter_Add sum64 c productID)"

definition invalidateProductProtection :: "filter_config \<Rightarrow> int \<Rightarrow> (filter_world, unit) io" where
  "invalidateProductProtection c productID = or_else (negative_Invalidate c productID) ()"

end
