(* ===== verification/Filter_Safety.thy ===== *)
theory Filter_Safety
  imports Existence_Filter
begin

text \<open>
  The existence filter never hides a published product: a transition system in which the phases of a
  rebuild interleave with additions, checks, new products, the passing of time and losses.  The
  loop that loads a generation ends and is complete for batches the source can fill.
\<close>

section \<open>Coverage\<close>

text \<open>The bits of \<open>i\<close> are set in generation \<open>g\<close>, as its metadata \<open>(m, k)\<close> place them.\<close>

definition covered :: "(string \<Rightarrow> 64 word) \<Rightarrow> filter_config \<Rightarrow> filter_world \<Rightarrow> string \<Rightarrow> 64 word \<times> 64 word \<Rightarrow> int \<Rightarrow> bool" where
  "covered h c w g mk i \<longleftrightarrow> set (bitPositions h i (fst mk) (snd mk)) \<subseteq> bits_at w (bitsKey c g)"

lemma key_inject [simp]:
  "bitsKey c g = bitsKey c g' \<longleftrightarrow> g = g'" "metaKey c g = metaKey c g' \<longleftrightarrow> g = g'"
  by (simp_all add: bitsKey_def metaKey_def)

lemma active_not_lock [simp]: "activeKey c \<noteq> filter_lockKey c" "filter_lockKey c \<noteq> activeKey c"
  by (simp_all add: activeKey_def filter_lockKey_def)

lemma triple_ext:
  assumes "fault_free P" "fault_free E"
    and "\<And>w. P w \<Longrightarrow> E w \<and> E (snd (f w))" "\<And>w a w'. P w \<Longrightarrow> f w = (Inr a, w') \<Longrightarrow> Q a w'"
  shows "triple P (ext_call f) Q E"
  unfolding triple_def
proof (intro allI impI)
  fix w assume P: "P w"
  obtain x w' where run: "ext_call f w = (x, w')" by fastforce
  have P': "P (w\<lparr>faults := fs\<rparr>)" for fs using P assms(1) by (simp add: fault_free_def)
  from run have "case x of Inr a \<Rightarrow> Q a w' | Inl e \<Rightarrow> E w'"
  proof (rule ext_call_cases)
    fix fs assume "f (w\<lparr>faults := fs\<rparr>) = (x, w')"
    then show ?thesis using assms(3,4) [OF P'] by (cases x) (auto, metis snd_conv)
  next
    fix s fs assume "x = Inl (RawError s)" "w' = w\<lparr>faults := fs\<rparr>"
    then show ?thesis using assms(3) [OF P'] by simp
  next
    fix s fs y assume "x = Inl (RawError s)" "f (w\<lparr>faults := fs\<rparr>) = (y, w')"
    then show ?thesis using assms(3) [OF P', of fs] by simp
  qed
  then show "case ext_call f w of (Inl e, w') \<Rightarrow> E w' | (Inr a, w') \<Rightarrow> Q a w'"
    using run by (cases x) simp_all
qed

section \<open>The invariant\<close>

text \<open>The bits of a generation do not expire before its metadata.\<close>

definition deadlines_ok :: "(int set \<times> int option) option \<Rightarrow> ((string \<rightharpoonup> string) \<times> int option) option \<Rightarrow> bool" where
  "deadlines_ok b m \<longleftrightarrow> (case (b, m) of
       (Some (_, Some dl), Some (_, Some dl')) \<Rightarrow> dl' \<le> dl
     | (Some (_, Some dl), Some (_, None)) \<Rightarrow> False
     | _ \<Rightarrow> True)"

text \<open>The published products \<open>V\<close> exist, and the active generation, if it is ready, covers them.\<close>

definition filter_inv :: "(string \<Rightarrow> 64 word) \<Rightarrow> filter_config \<Rightarrow> int set \<Rightarrow> filter_world \<Rightarrow> bool" where
  "filter_inv h c V w \<longleftrightarrow>
     (\<forall>g. deadlines_ok (fw_bits w (bitsKey c g)) (fw_hash w (metaKey c g))) \<and>
     (\<forall>g mk. text_at w (activeKey c) = Some g \<longrightarrow> ready_metadata (hash_at w (metaKey c g)) = Some mk \<longrightarrow> (\<forall>i \<in> V. covered h c w g mk i)) \<and>
     V \<subseteq> set (fw_ids w) \<inter> {0<..}"

text \<open>The lock is held under \<open>token\<close>; generation \<open>g\<close> is new, is being built, is built.\<close>

definition held :: "filter_config \<Rightarrow> string \<Rightarrow> filter_world \<Rightarrow> bool" where
  "held c token w \<longleftrightarrow> text_at w (filter_lockKey c) = Some token"

definition not_active :: "filter_config \<Rightarrow> string \<Rightarrow> filter_world \<Rightarrow> bool" where
  "not_active c g w \<longleftrightarrow> text_at w (activeKey c) \<noteq> Some g"

definition fresh :: "filter_config \<Rightarrow> string \<Rightarrow> filter_world \<Rightarrow> bool" where
  "fresh c g w \<longleftrightarrow> fw_hash w (metaKey c g) = None \<and> fw_bits w (bitsKey c g) = None \<and> not_active c g w"

definition lasting_bits :: "filter_config \<Rightarrow> string \<Rightarrow> filter_world \<Rightarrow> bool" where
  "lasting_bits c g w \<longleftrightarrow> (case fw_bits w (bitsKey c g) of Some (_, Some dl) \<Rightarrow> False | _ \<Rightarrow> True)"

definition building :: "filter_config \<Rightarrow> string \<Rightarrow> filter_world \<Rightarrow> bool" where
  "building c g w \<longleftrightarrow> not_active c g w \<and> lasting_bits c g w \<and>
     fw_hash w (metaKey c g) = Some ([''state'' \<mapsto> ''building'', ''algorithm'' \<mapsto> hashAlgorithm,
        ''bit_count'' \<mapsto> show_nat (unat (fc_bitCount c)), ''hash_count'' \<mapsto> show_nat (unat (fc_hashCount c))], None)"

definition built :: "(string \<Rightarrow> 64 word) \<Rightarrow> filter_config \<Rightarrow> int set \<Rightarrow> string \<Rightarrow> filter_world \<Rightarrow> bool" where
  "built h c V g w \<longleftrightarrow> not_active c g w \<and> lasting_bits c g w \<and>
     (\<exists>values. fw_hash w (metaKey c g) = Some (values, None) \<and>
        (\<forall>mk. ready_metadata values = Some mk \<longrightarrow> mk = (fc_bitCount c, fc_hashCount c))) \<and>
     (\<forall>i \<in> V. covered h c w g (fc_bitCount c, fc_hashCount c) i)"

lemmas filter_preds = filter_inv_def held_def not_active_def fresh_def lasting_bits_def building_def built_def covered_def
  text_at_def hash_at_def bits_at_def

lemma fault_free_filter [simp]:
  "fault_free (filter_inv h c V)" "fault_free (held c t)" "fault_free (not_active c g)" "fault_free (fresh c g)"
  "fault_free (lasting_bits c g)" "fault_free (building c g)" "fault_free (built h c V g)"
  by (simp_all add: fault_free_def filter_preds)

lemma fault_free_conj [simp]: "fault_free P \<Longrightarrow> fault_free Q \<Longrightarrow> fault_free (\<lambda>w. P w \<and> Q w)"
  by (simp add: fault_free_def)

section \<open>The commands keep the invariant\<close>

text \<open>Writing texts other than the active generation, and reading.\<close>

lemma filter_inv_text:
  "k \<noteq> activeKey c \<Longrightarrow> filter_inv h c V (w\<lparr>fw_text := (fw_text w)(k := x)\<rparr>) = filter_inv h c V w"
  by (simp add: filter_preds)

lemma keeps_read: "fault_free I \<Longrightarrow> keeps I (ext_call (\<lambda>w. (f w, w)))"
  by (rule keeps_ext_call) (simp_all add: keeps_def)

lemma keeps_filter_reads [keeps_rules]:
  assumes "fault_free I"
  shows "keeps I (redis_Get k)" "keeps I (redis_Exists k)" "keeps I (redis_HGetAll k)" "keeps I (pipe_GetBit k ps)"
    "keeps I (ProductIDBatch a l)"
  unfolding redis_Get_def redis_Exists_def redis_HGetAll_def pipe_GetBit_def ProductIDBatch_def Let_def
  by (rule keeps_read [OF assms])+

lemma deadlines_ok_expire: "deadlines_ok b m \<Longrightarrow> deadlines_ok (expire_key now ttl b) (expire_key now ttl m)"
  by (auto simp: deadlines_ok_def expire_key_def live_def split: option.splits)

lemma no_metadata [simp]: "ready_metadata Map.empty = None"
  by (simp add: ready_metadata_def)

lemma keeps_expire: "keeps (filter_inv h c V) (pipe_Expire (bitsKey c g) (metaKey c g) ttl)"
  unfolding pipe_Expire_def
proof (rule keeps_ext_call [OF fault_free_filter(1)], rule keepsI)
  fix w assume I: "filter_inv h c V w"
  let ?w = "w\<lparr>fw_bits := (fw_bits w)(bitsKey c g := expire_key (fw_now w) ttl (fw_bits w (bitsKey c g))),
     fw_hash := (fw_hash w)(metaKey c g := expire_key (fw_now w) ttl (fw_hash w (metaKey c g)))\<rparr>"
  have "deadlines_ok (fw_bits ?w (bitsKey c a)) (fw_hash ?w (metaKey c a))" for a
    using I deadlines_ok_expire by (auto simp: filter_inv_def)
  moreover have "covered h c ?w a mk i"
    if "ready_metadata (hash_at ?w (metaKey c a)) = Some mk" "text_at w (activeKey c) = Some a" "i \<in> V" for a mk i
  proof -
    have "hash_at ?w (metaKey c a) = hash_at w (metaKey c a)" "bits_at ?w (bitsKey c a) = bits_at w (bitsKey c a)"
      using that(1) by (auto simp: hash_at_def bits_at_def live_expire split: if_splits)
    then show ?thesis using I that by (auto simp: filter_inv_def covered_def)
  qed
  ultimately show "filter_inv h c V (snd ((Inr (), ?w) :: (go_error + unit) \<times> filter_world))"
    using I by (auto simp: filter_inv_def text_at_def)
qed

lemma keeps_delete: "keeps (filter_inv h c V) (redis_Del_generation (bitsKey c g) (metaKey c g))"
  unfolding redis_Del_generation_def
  by (rule keeps_ext_call [OF fault_free_filter(1)])
     (auto simp: keeps_def filter_preds deadlines_ok_def split: option.splits if_splits)

lemma keeps_generation_ends [keeps_rules]:
  "keeps (filter_inv h c V) (expireGeneration c g)" "keeps (filter_inv h c V) (deleteGeneration c g)"
  unfolding expireGeneration_def deleteGeneration_def by (intro keeps_rules keeps_expire keeps_delete)+

lemma keeps_release [keeps_rules]: "keeps (filter_inv h c V) (release_lock c token)"
  unfolding release_lock_def
  by (intro keeps_rules keeps_ext_call [OF fault_free_filter(1)])
     (auto simp: keeps_def unlockScript_def filter_inv_text)

section \<open>A rebuild, phase by phase\<close>

lemma acquire_triple:
  assumes "0 < fc_RebuildLockTTL c"
  shows "triple (filter_inv h c V) (acquire_lock c token) (\<lambda>_ w. filter_inv h c V w \<and> held c token w) (filter_inv h c V)"
  unfolding acquire_lock_def redis_SetNX_def
proof (rule triple_bind)
  show "triple (filter_inv h c V)
     (ext_call (\<lambda>w. if text_at w (filter_lockKey c) = None
        then (Inr True, w\<lparr>fw_text := (fw_text w)(filter_lockKey c := Some (token, Some (fw_now w + fc_RebuildLockTTL c)))\<rparr>)
        else (Inr False, w)))
     (\<lambda>a w. filter_inv h c V w \<and> (a \<longrightarrow> held c token w)) (filter_inv h c V)"
    using assms by (intro triple_ext) (auto simp: filter_inv_text held_def text_at_def live_def split: if_splits)
qed (auto intro!: triple_rules simp: triple_def fail_def ret_def)

lemma meta_triple:
  "triple (\<lambda>w. (filter_inv h c V w \<and> held c token w) \<and> fresh c g w) (writeBuildingMetadata c g)
     (\<lambda>_ w. (filter_inv h c V w \<and> held c token w) \<and> building c g w) (filter_inv h c V)"
proof -
  have inv: "filter_inv h c V (snd (Inr (), w\<lparr>fw_hash := (fw_hash w)(metaKey c g := put_live (fw_now w) m (fw_hash w (metaKey c g)))\<rparr>))"
    if "filter_inv h c V w" "fresh c g w" for w m
    using that by (auto simp: filter_preds deadlines_ok_def put_live_def split: option.splits if_splits)
  show ?thesis
    unfolding writeBuildingMetadata_def redis_HSet_def
    by (rule triple_ext, simp, simp)
       (use inv in \<open>auto simp: held_def text_at_def building_def fresh_def not_active_def lasting_bits_def put_live_def hash_at_def\<close>)
qed

text \<open>Loading: every positive id up to \<open>afterID\<close> is in the bitmap.\<close>

definition loaded :: "(string \<Rightarrow> 64 word) \<Rightarrow> filter_config \<Rightarrow> int set \<Rightarrow> string \<Rightarrow> string \<Rightarrow> int list \<Rightarrow> (int \<Rightarrow> bool) \<Rightarrow> filter_world \<Rightarrow> bool" where
  "loaded h c V token g ids U w \<longleftrightarrow> ((filter_inv h c V w \<and> held c token w) \<and> building c g w) \<and> fw_ids w = ids \<and>
     (\<forall>i \<in> set ids. U i \<longrightarrow> covered h c w g (fc_bitCount c, fc_hashCount c) i)"

lemma fault_free_loaded [simp]: "fault_free (loaded h c V token g ids U)"
  unfolding loaded_def by (simp add: fault_free_def filter_preds)

lemma bits_grow:
  fixes B :: "int set"
  assumes "not_active c g w" "lasting_bits c g w" "filter_inv h c V w"
  defines "w' \<equiv> w\<lparr>fw_bits := (fw_bits w)(bitsKey c g := put_live (fw_now w) (bits_at w (bitsKey c g) \<union> B) (fw_bits w (bitsKey c g)))\<rparr>"
  shows "filter_inv h c V w'" "lasting_bits c g w'" "bits_at w' (bitsKey c g) = bits_at w (bitsKey c g) \<union> B"
  using assms(1,2,3) unfolding w'_def
  by (auto simp: filter_preds put_live_def deadlines_ok_def split: option.splits)

lemma addBatch_triple:
  "triple (loaded h c V token g ids U) (addBatch h c g xs) (\<lambda>_. loaded h c V token g ids (\<lambda>i. U i \<or> i \<in> set xs)) (filter_inv h c V)"
proof -
  let ?ps = "concat (map (\<lambda>i. bitPositions h i (fc_bitCount c) (fc_hashCount c)) xs)"
  let ?w = "\<lambda>w. w\<lparr>fw_bits := (fw_bits w)(bitsKey c g := put_live (fw_now w) (bits_at w (bitsKey c g) \<union> set (filter bit_offset_ok ?ps)) (fw_bits w (bitsKey c g)))\<rparr>"
  have step: "filter_inv h c V (?w w)" "lasting_bits c g (?w w)"
    "bits_at (?w w) (bitsKey c g) = bits_at w (bitsKey c g) \<union> set (filter bit_offset_ok ?ps)"
    "held c token (?w w)" "not_active c g (?w w)" "fw_hash (?w w) = fw_hash w" "fw_ids (?w w) = ids"
    if "loaded h c V token g ids U w" for w
    using that bits_grow [of c g w h V "set (filter bit_offset_ok ?ps)"]
    by (simp_all add: loaded_def building_def held_def not_active_def text_at_def)
  show ?thesis
    unfolding addBatch_def pipe_SetBit_def
  proof (rule triple_ext, simp, simp, goal_cases)
    case (1 w)
    then show ?case using step [OF 1] by (auto simp: loaded_def)
  next
    case (2 w a w')
    then have all: "list_all bit_offset_ok ?ps" by (auto split: if_splits)
    then have f: "filter bit_offset_ok ?ps = ?ps" by (simp add: filter_id_conv list_all_iff)
    show ?case
    proof (cases "list_ex bit_offset_ok ?ps")
      case True
      then have "w' = ?w w" using 2(2) by (auto split: if_splits)
      then show ?thesis using step [OF 2(1)] 2(1) unfolding f by (auto simp: loaded_def building_def covered_def)
    next
      case False
      then have "?ps = []" using all by (cases ?ps) auto
      then show ?thesis using 2 False by (auto simp: loaded_def covered_def split: if_splits)
    qed
  qed
qed

lemma batch_triple:
  "triple (loaded h c V token g ids U) (ProductIDBatch a l)
     (\<lambda>xs w. loaded h c V token g ids U w \<and>
        xs = take (nat (min 10000 (if l \<le> 0 then 1000 else l))) (sort (filter (\<lambda>i. i > a) ids))) (filter_inv h c V)"
  unfolding ProductIDBatch_def Let_def by (rule triple_ext, simp, simp) (auto simp: loaded_def min_def)

lemma increasing_after_Inr: "increasing_after a xs = Inr b \<Longrightarrow> xs \<noteq> [] \<Longrightarrow> b = last xs \<and> a < last xs \<and> (\<forall>x \<in> set xs. x \<le> b)"
proof (induction a xs rule: increasing_after.induct)
  case (2 a i ids)
  then show ?case by (cases ids) (auto split: if_splits)
qed simp

text \<open>A batch contains every id up to its last one.\<close>

lemma batch_complete:
  assumes "xs = take n (sort (filter (\<lambda>i. i > a) ids))" "i \<in> set ids" "a < i"
  shows "length xs < n \<Longrightarrow> i \<in> set xs" "xs \<noteq> [] \<Longrightarrow> i \<le> last xs \<Longrightarrow> i \<in> set xs"
proof -
  let ?s = "sort (filter (\<lambda>i. i > a) ids)"
  have i: "i \<in> set ?s" using assms(2,3) by simp
  show "length xs < n \<Longrightarrow> i \<in> set xs" using i assms(1) by (simp add: min_def split: if_splits)
  assume ne: "xs \<noteq> []" and le: "i \<le> last xs"
  have "sorted (xs @ drop n ?s)" unfolding assms(1) append_take_drop_id by simp
  then have "\<forall>y \<in> set (drop n ?s). last xs \<le> y" using ne by (simp add: sorted_append)
  then have "i \<in> set (drop n ?s) \<Longrightarrow> i = last xs" using le by fastforce
  moreover have "set ?s = set xs \<union> set (drop n ?s)" using assms(1) by (metis append_take_drop_id set_append)
  ultimately show "i \<in> set xs" using i ne by fastforce
qed

lemma loaded_mono: "loaded h c V token g ids U w \<Longrightarrow> (\<And>i. i \<in> set ids \<Longrightarrow> U' i \<Longrightarrow> U i) \<Longrightarrow> loaded h c V token g ids U' w"
  by (auto simp: loaded_def)

lemma loaded_all:
  assumes "xs = take (nat (fc_BatchSize c)) (sort (filter (\<lambda>i. i > a) ids))" "int (length xs) < fc_BatchSize c"
    and "loaded h c V token g ids (\<lambda>i. (0 < i \<and> i \<le> a) \<or> i \<in> set xs) w"
  shows "loaded h c V token g ids (\<lambda>i. 0 < i) w"
  using assms(3) by (rule loaded_mono) (use batch_complete(1) [OF assms(1)] assms(2) in force)

lemma loaded_next:
  assumes "xs = take (nat (fc_BatchSize c)) (sort (filter (\<lambda>i. i > a) ids))" "xs \<noteq> []" "increasing_after a xs = Inr b"
    and "loaded h c V token g ids (\<lambda>i. (0 < i \<and> i \<le> a) \<or> i \<in> set xs) w"
  shows "loaded h c V token g ids (\<lambda>i. 0 < i \<and> i \<le> b) w"
  using assms(4) by (rule loaded_mono) (use batch_complete(2) [OF assms(1)] assms(2) increasing_after_Inr [OF assms(3,2)] in force)

text \<open>One round of the loop, \<open>next\<close> being the rounds that follow.\<close>

definition load_round where
  "load_round h c g a count xs next =
     (if xs = [] then ret count
      else bindE (of_result (increasing_after a xs)) (\<lambda>b. bindE (addBatch h c g xs) (\<lambda>_.
        if int (length xs) < fc_BatchSize c then ret (count + int (length xs)) else next b)))"

lemma load_round_triple:
  assumes size: "0 < fc_BatchSize c" and xs: "xs = take (nat (fc_BatchSize c)) (sort (filter (\<lambda>i. i > a) ids))"
    and rest: "\<And>b. triple (loaded h c V token g ids (\<lambda>i. 0 < i \<and> i \<le> b)) (next b) (\<lambda>_. loaded h c V token g ids (\<lambda>i. 0 < i)) (filter_inv h c V)"
  shows "triple (loaded h c V token g ids (\<lambda>i. 0 < i \<and> i \<le> a)) (load_round h c g a count xs next)
     (\<lambda>_. loaded h c V token g ids (\<lambda>i. 0 < i)) (filter_inv h c V)"
proof (cases "xs = []")
  case True
  have "loaded h c V token g ids (\<lambda>i. 0 < i) w" if "loaded h c V token g ids (\<lambda>i. 0 < i \<and> i \<le> a) w" for w
    using loaded_all [OF xs, of h V token g w] that True size by simp
  then show ?thesis using True by (auto simp: load_round_def triple_def ret_def)
next
  case ne: False
  show ?thesis
  proof (cases "increasing_after a xs")
    case (Inl e)
    then show ?thesis using ne by (auto simp: load_round_def triple_def of_result_def bindE_def loaded_def)
  next
    case (Inr b)
    have "triple (loaded h c V token g ids (\<lambda>i. (0 < i \<and> i \<le> a) \<or> i \<in> set xs))
      (if int (length xs) < fc_BatchSize c then ret (count + int (length xs)) else next b)
      (\<lambda>_. loaded h c V token g ids (\<lambda>i. 0 < i)) (filter_inv h c V)"
      using loaded_all [OF xs] triple_conseq [OF rest [of b] loaded_next [OF xs ne Inr]]
      by (auto simp: triple_def ret_def)
    from triple_bind [OF addBatch_triple this] show ?thesis
      using ne Inr by (simp add: load_round_def triple_def bindE_def [of "of_result _"] of_result_def)
  qed
qed

lemma load_loop_round:
  "load_loop (Suc n) h c g a count = bindE (ProductIDBatch a (fc_BatchSize c)) (\<lambda>xs.
     load_round h c g a count xs (\<lambda>b. load_loop n h c g b (count + int (length xs))))"
  by (simp add: load_round_def)

lemma load_loop_triple:
  assumes size: "0 < fc_BatchSize c" "fc_BatchSize c \<le> 10000"
  shows "triple (loaded h c V token g ids (\<lambda>i. 0 < i \<and> i \<le> a)) (load_loop n h c g a count)
     (\<lambda>_. loaded h c V token g ids (\<lambda>i. 0 < i)) (filter_inv h c V)"
proof (induction n arbitrary: a count)
  case 0
  show ?case by (auto simp: triple_def fail_def loaded_def)
next
  case (Suc n)
  show ?case unfolding load_loop_round
    by (rule triple_bind [OF batch_triple])
       (use load_round_triple [OF size(1) _ Suc.IH] size in \<open>simp add: triple_def min_def\<close>)
qed

lemma ParseUint_shown [simp]: "ParseUint_field (Some (show_nat (unat x))) = Some (x :: 64 word)"
proof -
  have "unat x < 2 ^ 64" using unsigned_less [of x] by simp
  then show ?thesis by (simp add: ParseUint_field_def)
qed

lemma markReady_triple:
  "triple (loaded h c V token g ids (\<lambda>i. 0 < i)) (markReady c g count)
     (\<lambda>_ w. (filter_inv h c V w \<and> held c token w) \<and> built h c V g w) (filter_inv h c V)"
proof -
  have inv: "filter_inv h c V (w\<lparr>fw_hash := (fw_hash w)(metaKey c g \<mapsto> (m, None))\<rparr>)"
    if "filter_inv h c V w" "not_active c g w" "lasting_bits c g w" for w m
    using that by (auto simp: filter_preds deadlines_ok_def split: option.splits if_splits)
  have "triple (loaded h c V token g ids (\<lambda>i. 0 < i))
     (redis_HSet (metaKey c g) [''state'' \<mapsto> ''ready'', ''count'' \<mapsto> show_int count, ''built_at'' \<mapsto> t])
     (\<lambda>_ w. (filter_inv h c V w \<and> held c token w) \<and> built h c V g w) (filter_inv h c V)" for t
    unfolding redis_HSet_def
  proof (rule triple_ext, simp, simp, goal_cases)
    case (1 w)
    then show ?case using inv by (auto simp: loaded_def building_def hash_at_def put_live_def)
  next
    case (2 w a w')
    then have V: "V \<subseteq> set ids \<inter> {0<..}" by (auto simp: loaded_def filter_inv_def)
    have w': "w' = w\<lparr>fw_hash := (fw_hash w)(metaKey c g \<mapsto> (hash_at w (metaKey c g) ++ [''state'' \<mapsto> ''ready'', ''count'' \<mapsto> show_int count, ''built_at'' \<mapsto> t], None))\<rparr>"
      using 2 by (auto simp: loaded_def building_def put_live_def hash_at_def)
    have "ready_metadata (hash_at w (metaKey c g) ++ [''state'' \<mapsto> ''ready'', ''count'' \<mapsto> show_int count, ''built_at'' \<mapsto> t]) = Some mk
       \<Longrightarrow> mk = (fc_bitCount c, fc_hashCount c)" for mk
      using 2(1) by (auto simp: loaded_def building_def hash_at_def ready_metadata_def split: if_splits)
    then show ?case using 2(1) inv V unfolding w'
      by (auto simp: loaded_def building_def built_def not_active_def lasting_bits_def held_def text_at_def covered_def bits_at_def)
  qed
  then show ?thesis unfolding markReady_def triple_def by simp
qed

lemma or_delete_triple:
  assumes "triple P m Q (filter_inv h c V)"
  shows "triple P (or_delete c g m) Q (filter_inv h c V)"
  using assms keepsD [OF keeps_generation_ends(2), of h c V _ g]
  unfolding triple_def or_delete_def
  by (fastforce simp: bindE_def attempt_def ret_def fail_def split: prod.splits sum.splits)

lemma rebuild_load_triple:
  assumes "0 < fc_BatchSize c" "fc_BatchSize c \<le> 10000"
  shows "triple (\<lambda>w. (filter_inv h c V w \<and> held c token w) \<and> building c g w) (rebuild_load n h c g)
     (\<lambda>_ w. (filter_inv h c V w \<and> held c token w) \<and> built h c V g w) (filter_inv h c V)"
proof -
  have "triple (loaded h c V token g ids (\<lambda>i. 0 < i \<and> i \<le> 0)) (bindE (loadGeneration n h c g) (\<lambda>count. bindE (markReady c g count) (\<lambda>_. ret count)))
     (\<lambda>_ w. (filter_inv h c V w \<and> held c token w) \<and> built h c V g w) (filter_inv h c V)" for ids
    unfolding loadGeneration_def by (intro triple_bind [OF load_loop_triple [OF assms]] triple_bind [OF markReady_triple] triple_ret)
  from or_delete_triple [OF this, where g = g]
  have t: "triple (loaded h c V token g ids (\<lambda>i. 0 < i \<and> i \<le> 0)) (rebuild_load n h c g)
     (\<lambda>_ w. (filter_inv h c V w \<and> held c token w) \<and> built h c V g w) (filter_inv h c V)" for ids
    unfolding rebuild_load_def [symmetric] .
  have "loaded h c V token g (fw_ids w) (\<lambda>i. 0 < i \<and> i \<le> 0) w" if "(filter_inv h c V w \<and> held c token w) \<and> building c g w" for w
    using that by (auto simp: loaded_def)
  with t show ?thesis unfolding triple_def by meson
qed

lemma rebuild_switch_triple:
  "triple (\<lambda>w. filter_inv h c V w \<and> built h c V g w) (rebuild_switch c g) (\<lambda>_. filter_inv h c V) (filter_inv h c V)"
proof -
  have act: "filter_inv h c V (w\<lparr>fw_text := (fw_text w)(activeKey c \<mapsto> (g, None))\<rparr>)" if "filter_inv h c V w" "built h c V g w" for w
  proof -
    note inv = that
    let ?w = "w\<lparr>fw_text := (fw_text w)(activeKey c \<mapsto> (g, None))\<rparr>"
    have "text_at ?w (activeKey c) = Some g" by (simp add: text_at_def)
    moreover have "hash_at ?w k = hash_at w k" "bits_at ?w k = bits_at w k" for k by (simp_all add: hash_at_def bits_at_def)
    moreover obtain vs where "fw_hash w (metaKey c g) = Some (vs, None)" "hash_at w (metaKey c g) = vs"
      "\<forall>mk. ready_metadata vs = Some mk \<longrightarrow> mk = (fc_bitCount c, fc_hashCount c)"
      using inv(2) by (auto simp: built_def hash_at_def)
    moreover have "\<forall>i \<in> V. covered h c ?w g (fc_bitCount c, fc_hashCount c) i" using inv(2) by (simp add: built_def covered_def bits_at_def)
    ultimately show ?thesis using inv(1) unfolding filter_inv_def by auto
  qed
  have "triple (\<lambda>w. filter_inv h c V w \<and> built h c V g w) (activate c g) (\<lambda>_. filter_inv h c V) (filter_inv h c V)"
    unfolding activate_def
    by (rule triple_ext, simp, simp) (use act in \<open>auto simp: activateGenerationScript_def split: if_splits\<close>)
  from or_delete_triple [OF this] show ?thesis
    unfolding rebuild_switch_def
    by (rule triple_bind) (auto intro!: triple_keeps keeps_rules split: if_splits)
qed

section \<open>Adding and checking\<close>

lemma activeMetadata_triple:
  "triple (filter_inv h c V) (activeMetadata c)
     (\<lambda>(g, mk) w. filter_inv h c V w \<and> text_at w (activeKey c) = Some g \<and> ready_metadata (hash_at w (metaKey c g)) = Some mk)
     (filter_inv h c V)"
proof -
  have get: "triple (filter_inv h c V) (redis_Get (activeKey c)) (\<lambda>g w. filter_inv h c V w \<and> text_at w (activeKey c) = Some g) (filter_inv h c V)"
    unfolding redis_Get_def by (rule triple_ext, simp, simp) (auto split: option.splits)
  have ff: "fault_free (\<lambda>w. filter_inv h c V w \<and> text_at w (activeKey c) = Some g)" for g
    by (simp add: fault_free_def filter_preds)
  have all: "triple (\<lambda>w. filter_inv h c V w \<and> text_at w (activeKey c) = Some g) (redis_HGetAll (metaKey c g))
     (\<lambda>values w. (filter_inv h c V w \<and> text_at w (activeKey c) = Some g) \<and> hash_at w (metaKey c g) = values) (filter_inv h c V)" for g
    unfolding redis_HGetAll_def by (rule triple_ext, rule ff, simp) auto
  show ?thesis unfolding activeMetadata_def
    by (intro triple_bind [OF get] triple_bind [OF all]) (auto simp: triple_def ret_def fail_def split: option.splits)
qed

lemma deadlines_ok_put: "deadlines_ok b m \<Longrightarrow> deadlines_ok (put_live now v b) m"
  by (auto simp: deadlines_ok_def put_live_def split: option.splits)

lemma bits_added:
  fixes ps :: "int list"
  assumes "filter_inv h c V w" "text_at w (activeKey c) = Some g" "ready_metadata (hash_at w (metaKey c g)) = Some mk"
  defines "w' \<equiv> w\<lparr>fw_bits := (fw_bits w)(bitsKey c g := put_live (fw_now w) (bits_at w (bitsKey c g) \<union> set ps) (fw_bits w (bitsKey c g)))\<rparr>"
  shows "filter_inv h c V w'"
    "i \<in> set (fw_ids w) \<Longrightarrow> 0 < i \<Longrightarrow> set (bitPositions h i (fst mk) (snd mk)) \<subseteq> set ps \<Longrightarrow> filter_inv h c (insert i V) w'"
proof -
  have b: "bits_at w' (bitsKey c a) = (if a = g then bits_at w (bitsKey c g) \<union> set ps else bits_at w (bitsKey c a))" for a
    by (auto simp: w'_def bits_at_def)
  have s: "text_at w' = text_at w" "hash_at w' = hash_at w" "fw_ids w' = fw_ids w" "fw_hash w' = fw_hash w"
    by (auto simp: w'_def text_at_def hash_at_def)
  have "deadlines_ok (fw_bits w' (bitsKey c a)) (fw_hash w' (metaKey c a))" for a
    using assms(1) deadlines_ok_put by (auto simp: w'_def filter_inv_def)
  then show "filter_inv h c V w'"
    "i \<in> set (fw_ids w) \<Longrightarrow> 0 < i \<Longrightarrow> set (bitPositions h i (fst mk) (snd mk)) \<subseteq> set ps \<Longrightarrow> filter_inv h c (insert i V) w'"
    using assms(1-3) by (auto simp: filter_inv_def s covered_def b) blast+
qed

lemma triple_keeps_conj:
  "triple P m Q E \<Longrightarrow> keeps I m \<Longrightarrow> triple (\<lambda>w. P w \<and> I w) m (\<lambda>a w. Q a w \<and> I w) (\<lambda>w. E w \<and> I w)"
  unfolding triple_def keeps_def by (force split: prod.splits sum.splits)

lemma triple_attempt:
  "triple P m Q E \<Longrightarrow> triple P (attempt m) (\<lambda>x w. case x of Inr a \<Rightarrow> Q a w | Inl e \<Rightarrow> E w) F"
  unfolding triple_def attempt_def by (fastforce split: prod.splits sum.splits)

lemma addToGeneration_triple:
  "triple (\<lambda>w. (filter_inv h c V w \<and> text_at w (activeKey c) = Some g \<and> ready_metadata (hash_at w (metaKey c g)) = Some mk) \<and>
       i \<in> set (fw_ids w) \<and> 0 < i) (addToGeneration h c g mk i) (\<lambda>_. filter_inv h c (insert i V)) (filter_inv h c V)"
proof -
  let ?ps = "bitPositions h i (fst mk) (snd mk)"
  let ?w = "\<lambda>w. w\<lparr>fw_bits := (fw_bits w)(bitsKey c g := put_live (fw_now w) (bits_at w (bitsKey c g) \<union> set (filter bit_offset_ok ?ps)) (fw_bits w (bitsKey c g)))\<rparr>"
  have ff: "fault_free (\<lambda>w. (filter_inv h c V w \<and> text_at w (activeKey c) = Some g \<and> ready_metadata (hash_at w (metaKey c g)) = Some mk) \<and>
       i \<in> set (fw_ids w) \<and> 0 < i)" by (simp add: fault_free_def filter_preds)
  show ?thesis
    unfolding addToGeneration_def pipe_SetBit_def
  proof (rule triple_ext, rule ff, simp, goal_cases)
    case (1 w)
    then show ?case using bits_added(1) [of h c V w g mk "filter bit_offset_ok ?ps"] by auto
  next
    case (2 w a w')
    then have all: "list_all bit_offset_ok ?ps" by (auto split: if_splits)
    then have f: "filter bit_offset_ok ?ps = ?ps" by (simp add: filter_id_conv list_all_iff)
    show ?case
    proof (cases "list_ex bit_offset_ok ?ps")
      case True
      then have "w' = ?w w" using 2(2) by (auto split: if_splits)
      then show ?thesis using bits_added(2) [of h c V w g mk i ?ps] 2(1) unfolding f by auto
    next
      case False
      then have "?ps = []" using all by (cases ?ps) auto
      then show ?thesis using 2 False by (auto simp: filter_inv_def covered_def split: if_splits)
    qed
  qed
qed

lemma keeps_activeMetadata [keeps_rules]: "fault_free I \<Longrightarrow> keeps I (activeMetadata c)"
  unfolding activeMetadata_def by (intro keeps_rules) (auto intro!: keeps_rules split: option.splits)

lemma filter_Add_triple:
  "triple (\<lambda>w. filter_inv h c V w \<and> i \<in> set (fw_ids w) \<and> 0 < i) (filter_Add h c i) (\<lambda>_. filter_inv h c (insert i V)) (filter_inv h c V)"
proof -
  let ?I = "\<lambda>w :: filter_world. i \<in> set (fw_ids w) \<and> 0 < i"
  let ?A = "\<lambda>w. filter_inv h c V w \<and> ?I w"
  have ff: "fault_free ?I" "fault_free ?A" by (simp_all add: fault_free_def filter_preds)
  have meta: "triple ?A (attempt (activeMetadata c))
     (\<lambda>x w. (case x of Inr (g, mk) \<Rightarrow> (filter_inv h c V w \<and> text_at w (activeKey c) = Some g \<and> ready_metadata (hash_at w (metaKey c g)) = Some mk)
        | Inl e \<Rightarrow> filter_inv h c V w) \<and> ?I w) (filter_inv h c V)"
    by (rule triple_conseq [OF triple_attempt [OF triple_keeps_conj [OF activeMetadata_triple [of h c V] keeps_activeMetadata [OF ff(1), of c]]]])
       (auto split: sum.splits)
  have tail: "triple (\<lambda>w. (case x of Inr (g, mk) \<Rightarrow> (filter_inv h c V w \<and> text_at w (activeKey c) = Some g \<and> ready_metadata (hash_at w (metaKey c g)) = Some mk)
        | Inl e \<Rightarrow> filter_inv h c V w) \<and> ?I w)
     (case x of Inl e \<Rightarrow> if e = redis_Nil then fail ErrUnready else fail e | Inr (generation, mk) \<Rightarrow> addToGeneration h c generation mk i)
     (\<lambda>_. filter_inv h c (insert i V)) (filter_inv h c V)" for x
    using addToGeneration_triple [of h c V _ _ i]
    by (cases x) (auto simp: triple_def fail_def split: prod.splits)
  have ex: "triple ?A (redis_Exists (filter_lockKey c)) (\<lambda>_. ?A) (filter_inv h c V)"
    by (rule triple_conseq [OF triple_keeps [OF keeps_filter_reads(2) [OF ff(2)]]]) auto
  show ?thesis unfolding filter_Add_def
    by (intro triple_if triple_bind [OF ex] triple_fail triple_bind [OF meta tail]) simp_all
qed

text \<open>While a rebuild holds the lock nothing is added.\<close>

lemma filter_Add_held:
  assumes "fault_free I"
  shows "triple (\<lambda>w. I w \<and> held c token w) (filter_Add h c i) (\<lambda>_ _. False) (\<lambda>w. I w \<and> held c token w)"
proof -
  let ?P = "\<lambda>w. I w \<and> held c token w"
  have "triple ?P (redis_Exists (filter_lockKey c)) (\<lambda>n w. n = 1 \<and> ?P w) ?P"
    unfolding redis_Exists_def by (rule triple_ext, simp add: assms, simp add: assms) (auto simp: held_def)
  note ex = this
  show ?thesis unfolding filter_Add_def
    by (intro triple_if triple_fail triple_bind [OF ex] triple_pure) simp_all
qed

lemma Check_possible:
  assumes "filter_inv h c V w" "i \<in> V"
  shows "fst (Check h c i w) \<noteq> Inr ResultAbsent"
proof -
  have pos: "\<not> i \<le> 0" using assms by (auto simp: filter_inv_def)
  have meta: "triple (filter_inv h c V) (attempt (activeMetadata c))
     (\<lambda>x w. case x of Inr (g, mk) \<Rightarrow> covered h c w g mk i | Inl e \<Rightarrow> True) (\<lambda>_. True)"
    by (rule triple_conseq [OF triple_attempt [OF activeMetadata_triple [of h c V]]])
       (use assms(2) in \<open>auto simp: filter_inv_def split: sum.splits\<close>)
  have bits: "triple (\<lambda>w. covered h c w g (m, k) i) (pipe_GetBit (bitsKey c g) (bitPositions h i m k)) (\<lambda>bs w. list_all id bs) (\<lambda>_. True)" for g m k
    unfolding pipe_GetBit_def
    by (rule triple_ext) (auto simp: fault_free_def filter_preds list_all_iff split: if_splits option.splits)
  have "triple (filter_inv h c V) (Check h c i) (\<lambda>r w. r \<noteq> ResultAbsent) (\<lambda>_. True)"
    unfolding Check_def if_not_P [OF pos]
  proof (rule triple_bind [OF meta])
    fix x :: "go_error + string \<times> 64 word \<times> 64 word"
    show "triple (\<lambda>w. case x of Inr (g, mk) \<Rightarrow> covered h c w g mk i | Inl e \<Rightarrow> True)
       (case x of Inl e \<Rightarrow> if e = redis_Nil then ret ResultUnready else fail e
        | Inr (generation, m, k) \<Rightarrow> bindE (pipe_GetBit (bitsKey c generation) (bitPositions h i m k)) (\<lambda>bits.
            ret (if list_all id bits then ResultPossible else ResultAbsent)))
       (\<lambda>r w. r \<noteq> ResultAbsent) (\<lambda>_. True)"
      by (cases x) (auto intro!: triple_bind [OF bits] triple_rules triple_if)
  qed
  then show ?thesis using assms(1) by (cases "Check h c i w") (force simp: triple_def)
qed

section \<open>The passing of time\<close>

lemma bits_outlive:
  assumes "deadlines_ok b m" "live t m \<noteq> None" "now \<le> t"
  shows "live t b = live now b"
  using assms by (auto simp: deadlines_ok_def live_def split: option.splits if_splits)

lemma filter_inv_later:
  assumes "filter_inv h c V w" "fw_now w \<le> t"
  shows "filter_inv h c V (w\<lparr>fw_now := t\<rparr>)"
proof -
  let ?w = "w\<lparr>fw_now := t\<rparr>"
  have "covered h c ?w g mk i"
    if "text_at ?w (activeKey c) = Some g" "ready_metadata (hash_at ?w (metaKey c g)) = Some mk" "i \<in> V" for g mk i
  proof -
    have m: "live t (fw_hash w (metaKey c g)) \<noteq> None" using that(2) by (auto simp: hash_at_def split: option.splits)
    then have "hash_at ?w (metaKey c g) = hash_at w (metaKey c g)"
      using live_later [OF _ assms(2)] by (fastforce simp: hash_at_def)
    moreover have "text_at w (activeKey c) = Some g" using that(1) live_later [OF _ assms(2)] by (simp add: text_at_def)
    moreover have "live t (fw_bits w (bitsKey c g)) = live (fw_now w) (fw_bits w (bitsKey c g))"
      using bits_outlive [OF _ m assms(2)] assms(1) by (simp add: filter_inv_def)
    ultimately show ?thesis using assms(1) that(2,3) by (simp add: filter_inv_def covered_def bits_at_def)
  qed
  then show ?thesis using assms(1) by (auto simp: filter_inv_def)
qed

lemma phase_later:
  assumes "fw_now w \<le> t"
  shows "building c g w \<Longrightarrow> building c g (w\<lparr>fw_now := t\<rparr>)" "built h c V g w \<Longrightarrow> built h c V g (w\<lparr>fw_now := t\<rparr>)"
proof -
  have n: "not_active c g w \<Longrightarrow> not_active c g (w\<lparr>fw_now := t\<rparr>)"
    by (simp add: not_active_def text_at_def) (metis live_later assms)
  have b: "lasting_bits c g w \<Longrightarrow> bits_at (w\<lparr>fw_now := t\<rparr>) (bitsKey c g) = bits_at w (bitsKey c g)"
    by (auto simp: lasting_bits_def bits_at_def live_def split: option.splits)
  show "building c g w \<Longrightarrow> building c g (w\<lparr>fw_now := t\<rparr>)" using n by (simp add: building_def lasting_bits_def)
  show "built h c V g w \<Longrightarrow> built h c V g (w\<lparr>fw_now := t\<rparr>)" using n b by (simp add: built_def covered_def) (simp add: lasting_bits_def)
qed

section \<open>The filter as a transition system\<close>

text \<open>
  Where the one rebuild stands, and the products that were published: those in the table whose addition
  succeeded.  A rebuild is timely: the lock outlives the phases up to the switch.
\<close>

datatype phase = Idle | Locked string | Building string string | Built string string | Leaving string

record filter_sys =
  sys_world :: filter_world
  sys_phase :: phase
  sys_published :: "int set"

definition on_success :: "(go_error + 'a) \<Rightarrow> 'p \<Rightarrow> 'p \<Rightarrow> 'p" where
  "on_success x p q = (case x of Inr _ \<Rightarrow> p | Inl _ \<Rightarrow> q)"

fun lock_token :: "phase \<Rightarrow> string option" where
  "lock_token (Locked token) = Some token"
| "lock_token (Building token g) = Some token"
| "lock_token (Built token g) = Some token"
| "lock_token _ = None"

inductive filter_step :: "nat \<Rightarrow> (string \<Rightarrow> 64 word) \<Rightarrow> filter_config \<Rightarrow> filter_sys \<Rightarrow> filter_sys \<Rightarrow> bool" for n h c where
  acquire: "sys_phase s = Idle \<Longrightarrow> acquire_lock c token (sys_world s) = (x, w) \<Longrightarrow>
     filter_step n h c s (s\<lparr>sys_world := w, sys_phase := on_success x (Locked token) Idle\<rparr>)"
| begin_generation: "sys_phase s = Locked token \<Longrightarrow> fresh c g (sys_world s) \<Longrightarrow> writeBuildingMetadata c g (sys_world s) = (x, w) \<Longrightarrow>
     filter_step n h c s (s\<lparr>sys_world := w, sys_phase := on_success x (Building token g) (Leaving token)\<rparr>)"
| load: "sys_phase s = Building token g \<Longrightarrow> rebuild_load n h c g (sys_world s) = (x, w) \<Longrightarrow>
     filter_step n h c s (s\<lparr>sys_world := w, sys_phase := on_success x (Built token g) (Leaving token)\<rparr>)"
| switch: "sys_phase s = Built token g \<Longrightarrow> rebuild_switch c g (sys_world s) = (x, w) \<Longrightarrow>
     filter_step n h c s (s\<lparr>sys_world := w, sys_phase := Leaving token\<rparr>)"
| release: "sys_phase s = Leaving token \<Longrightarrow> release_lock c token (sys_world s) = (x, w) \<Longrightarrow>
     filter_step n h c s (s\<lparr>sys_world := w, sys_phase := Idle\<rparr>)"
| add: "i \<in> set (fw_ids (sys_world s)) \<Longrightarrow> 0 < i \<Longrightarrow> filter_Add h c i (sys_world s) = (x, w) \<Longrightarrow>
     filter_step n h c s (s\<lparr>sys_world := w, sys_published := on_success x (insert i (sys_published s)) (sys_published s)\<rparr>)"
| new_product: "filter_step n h c s (s\<lparr>sys_world := (sys_world s)\<lparr>fw_ids := i # fw_ids (sys_world s)\<rparr>\<rparr>)"
| wait: "fw_now (sys_world s) \<le> t \<Longrightarrow> (\<And>token. lock_token (sys_phase s) = Some token \<Longrightarrow> held c token ((sys_world s)\<lparr>fw_now := t\<rparr>)) \<Longrightarrow>
     filter_step n h c s (s\<lparr>sys_world := (sys_world s)\<lparr>fw_now := t\<rparr>\<rparr>)"
| lose: "filter_step n h c s (s\<lparr>sys_world := (sys_world s)\<lparr>faults := fs\<rparr>\<rparr>)"

definition phase_ok :: "(string \<Rightarrow> 64 word) \<Rightarrow> filter_config \<Rightarrow> int set \<Rightarrow> phase \<Rightarrow> filter_world \<Rightarrow> bool" where
  "phase_ok h c V p w \<longleftrightarrow> (case p of
       Locked token \<Rightarrow> held c token w
     | Building token g \<Rightarrow> held c token w \<and> building c g w
     | Built token g \<Rightarrow> held c token w \<and> built h c V g w
     | _ \<Rightarrow> True)"

definition sys_ok :: "(string \<Rightarrow> 64 word) \<Rightarrow> filter_config \<Rightarrow> filter_sys \<Rightarrow> bool" where
  "sys_ok h c s \<longleftrightarrow> filter_inv h c (sys_published s) (sys_world s) \<and> phase_ok h c (sys_published s) (sys_phase s) (sys_world s)"

lemma fault_free_phase [simp]: "fault_free (phase_ok h c V p)"
  by (cases p) (simp_all add: fault_free_def phase_ok_def filter_preds)

lemma phase_ok_ids: "phase_ok h c V p (w\<lparr>fw_ids := l\<rparr>) = phase_ok h c V p w"
  by (cases p) (simp_all add: phase_ok_def filter_preds)

lemma triple_run:
  assumes "triple P m Q E" "P w" "m w = (x, w')"
  shows "case x of Inr a \<Rightarrow> Q a w' | Inl e \<Rightarrow> E w'"
  using assms by (force simp: triple_def split: sum.splits)

lemma add_step:
  assumes ok: "sys_ok h c s" and i: "i \<in> set (fw_ids (sys_world s))" "0 < i" and run: "filter_Add h c i (sys_world s) = (x, w)"
  shows "sys_ok h c (s\<lparr>sys_world := w, sys_published := on_success x (insert i (sys_published s)) (sys_published s)\<rparr>)"
proof (cases "lock_token (sys_phase s)")
  case (Some token)
  let ?I = "\<lambda>w. filter_inv h c (sys_published s) w \<and> phase_ok h c (sys_published s) (sys_phase s) w"
  have "held c token (sys_world s)" using ok Some by (cases "sys_phase s") (auto simp: sys_ok_def phase_ok_def)
  then show ?thesis
    using triple_run [OF filter_Add_held [of ?I c token h i] _ run] ok by (auto simp: sys_ok_def on_success_def split: sum.splits)
next
  case None
  then have free: "phase_ok h c V (sys_phase s) w'" for V w' by (cases "sys_phase s") (auto simp: phase_ok_def)
  show ?thesis
    using triple_run [OF filter_Add_triple [of h c "sys_published s" i] _ run] ok i free by (auto simp: sys_ok_def on_success_def split: sum.splits)
qed

lemma filter_step_ok:
  assumes step: "filter_step n h c s s'" and ok: "sys_ok h c s"
    and conf: "0 < fc_BatchSize c" "fc_BatchSize c \<le> 10000" "0 < fc_RebuildLockTTL c"
  shows "sys_ok h c s'"
  using step
proof cases
  case (acquire token x w)
  then show ?thesis using triple_run [OF acquire_triple [OF conf(3), of h "sys_published s" token] _ acquire(3)] ok
    by (auto simp: sys_ok_def phase_ok_def on_success_def split: sum.splits)
next
  case (begin_generation token g x w)
  then show ?thesis using triple_run [OF meta_triple [of h c "sys_published s" token g] _ begin_generation(4)] ok
    by (auto simp: sys_ok_def phase_ok_def on_success_def split: sum.splits)
next
  case (load token g x w)
  then show ?thesis using triple_run [OF rebuild_load_triple [OF conf(1,2), of h "sys_published s" token g n] _ load(3)] ok
    by (auto simp: sys_ok_def phase_ok_def on_success_def split: sum.splits)
next
  case (switch token g x w)
  then show ?thesis using triple_run [OF rebuild_switch_triple [of h c "sys_published s" g] _ switch(3)] ok
    by (auto simp: sys_ok_def phase_ok_def split: sum.splits)
next
  case (release token x w)
  then show ?thesis using keepsD [OF keeps_release [of h c "sys_published s" token], of "sys_world s"] ok
    by (simp add: sys_ok_def phase_ok_def)
next
  case (add i x w)
  then show ?thesis using add_step [OF ok] by simp
next
  case (new_product i)
  then show ?thesis using ok by (auto simp: sys_ok_def phase_ok_ids) (auto simp: filter_preds)
next
  case (wait t)
  then show ?thesis using ok filter_inv_later phase_later
    by (cases "sys_phase s") (auto simp: sys_ok_def phase_ok_def)
next
  case (lose fs)
  then show ?thesis using ok fault_free_filter(1) fault_free_phase by (simp add: sys_ok_def fault_free_def)
qed

lemma filter_steps_ok:
  assumes "(filter_step n h c)\<^sup>*\<^sup>* s s'" "sys_ok h c s" "0 < fc_BatchSize c" "fc_BatchSize c \<le> 10000" "0 < fc_RebuildLockTTL c"
  shows "sys_ok h c s'"
  using assms by (induction rule: rtranclp_induct) (auto intro: filter_step_ok)

lemma negative_Contains_Inr: "negative_Contains c i w = (Inr True, w') \<Longrightarrow> text_at w (negative_key c i) \<noteq> None"
  unfolding negative_Contains_def redis_Exists_def
  by (auto simp: ret_def text_at_def elim!: bindE_InrE ext_call_cases split: if_splits)

lemma protect_not_found:
  assumes "fst (protectProductDetailOrigin h c i w) = Inl productNotFound" "text_at w (negative_key c i) = None"
    and inv: "filter_inv h c V w" "i \<in> V"
  shows False
proof -
  obtain x w1 where n: "negative_Contains c i w = (x, w1)" by fastforce
  then have x: "x \<noteq> Inr True" using negative_Contains_Inr assms(2) by blast
  have "keeps (filter_inv h c V) (negative_Contains c i)"
    unfolding negative_Contains_def by (auto intro!: keeps_rules)
  then have "filter_inv h c V w1" using keeps_result inv(1) n by metis
  then have "fst (Check h c i w1) \<noteq> Inr ResultAbsent" using Check_possible inv(2) by blast
  then show False
    using assms(1) n x unfolding protectProductDetailOrigin_def
    by (cases "Check h c i w1") (auto simp: bindE_def attempt_def ret_def fail_def split: sum.splits filter_result.splits)
qed


definition filter_demo_config :: filter_config where
  "filter_demo_config = \<lparr>fc_Prefix = ''p'', fc_NegativePrefix = ''n'', fc_BatchSize = 2, fc_NegativeTTL = 30, fc_RebuildLockTTL = 600,
     fc_OldGenerationTTL = 3600, fc_bitCount = 16, fc_hashCount = 2\<rparr>"

definition demo_hash :: "string \<Rightarrow> 64 word" where
  "demo_hash s = 3"

definition filter_demo :: "int list \<Rightarrow> filter_world" where
  "filter_demo ids = \<lparr>faults = [], fw_text = (\<lambda>_. None), fw_hash = (\<lambda>_. None), fw_bits = (\<lambda>_. None), fw_ids = ids, fw_now = 0\<rparr>"

lemma demo_positions: "bitPositions demo_hash i 16 2 = [3, 6]"
  by (simp add: bitPositions_def demo_hash_def upt_rec)

text \<open>The worlds of a rebuild of a table with product 5, followed by its addition.\<close>

definition demo_meta :: "string \<Rightarrow> string \<rightharpoonup> string" where
  "demo_meta st = [''state'' \<mapsto> ''building'', ''algorithm'' \<mapsto> hashAlgorithm, ''bit_count'' \<mapsto> show_nat 16, ''hash_count'' \<mapsto> show_nat 2] ++
     (if st = ''ready'' then [''state'' \<mapsto> ''ready'', ''count'' \<mapsto> show_int 1, ''built_at'' \<mapsto> show_int 0] else Map.empty)"

definition demo_w :: "nat \<Rightarrow> filter_world" where
  "demo_w n = (filter_demo [5])\<lparr>
     fw_text := (\<lambda>_. None)(''p:rebuild-lock'' := if 1 \<le> n \<and> n \<le> 4 then Some (''t'', Some 600) else None,
        ''p:active'' := if 4 \<le> n then Some (''g'', None) else None),
     fw_hash := (\<lambda>_. None)(''p:g:g:meta'' := if n < 2 then None else Some (demo_meta (if n = 2 then ''building'' else ''ready''), None)),
     fw_bits := (\<lambda>_. None)(''p:g:g:bits'' := if n < 3 then None else Some ({3, 6}, None))\<rparr>"

lemma demo_w_fields [simp]:
  "faults (demo_w n) = []" "fw_ids (demo_w n) = [5]" "fw_now (demo_w n) = 0"
  by (simp_all add: demo_w_def filter_demo_def)

lemma demo_keys [simp]:
  "filter_lockKey filter_demo_config = ''p:rebuild-lock''" "activeKey filter_demo_config = ''p:active''"
  "bitsKey filter_demo_config ''g'' = ''p:g:g:bits''" "metaKey filter_demo_config ''g'' = ''p:g:g:meta''"
  by (simp_all add: filter_lockKey_def activeKey_def bitsKey_def metaKey_def filter_demo_config_def)

lemma demo_fields [simp]:
  "fc_RebuildLockTTL filter_demo_config = 600" "fc_BatchSize filter_demo_config = 2" "fc_bitCount filter_demo_config = 16"
  "fc_hashCount filter_demo_config = 2" "bit_offset_ok 3" "bit_offset_ok 6"
  by (simp_all add: filter_demo_config_def bit_offset_ok_def)

lemma demo_bits: "{x. (x = 3 \<or> x = 6) \<and> bit_offset_ok x} = {3, 6}"
  by auto

lemma demo_acquire: "acquire_lock filter_demo_config ''t'' (demo_w 0) = (Inr (), demo_w 1)"
  by (simp add: acquire_lock_def redis_SetNX_def io_simps text_at_def demo_w_def filter_demo_def fun_upd_twist)

lemma demo_begin: "writeBuildingMetadata filter_demo_config ''g'' (demo_w 1) = (Inr (), demo_w 2)"
  by (simp add: writeBuildingMetadata_def redis_HSet_def io_simps hash_at_def put_live_def)
     (simp add: demo_w_def filter_demo_def demo_meta_def)

lemma demo_load: "rebuild_load 1 demo_hash filter_demo_config ''g'' (demo_w 2) = (Inr 1, demo_w 3)"
  by (simp add: rebuild_load_def or_delete_def loadGeneration_def ProductIDBatch_def addBatch_def pipe_SetBit_def io_simps Let_def
      markReady_def redis_HSet_def hash_at_def bits_at_def put_live_def numeral_eq_Suc)
     (simp add: demo_w_def filter_demo_def demo_meta_def demo_positions demo_bits)

lemma demo_switch: "rebuild_switch filter_demo_config ''g'' (demo_w 3) = (Inr (), demo_w 4)"
  by (simp add: rebuild_switch_def or_delete_def activate_def activateGenerationScript_def io_simps hash_at_def text_at_def)
     (simp add: demo_w_def filter_demo_def demo_meta_def)

lemma demo_release: "release_lock filter_demo_config ''t'' (demo_w 4) = (Inr (), demo_w 5)"
  by (simp add: release_lock_def unlockScript_def io_simps text_at_def)
     (simp add: demo_w_def filter_demo_def live_def fun_upd_twist)

lemma demo_metadata: "activeMetadata filter_demo_config (demo_w 5) = (Inr (''g'', 16, 2), demo_w 5)"
proof -
  have "ready_metadata (demo_meta ''ready'') = Some (16, 2)"
    using ParseUint_shown [of 16] ParseUint_shown [of 2] by (simp add: ready_metadata_def demo_meta_def)
  then show ?thesis
    by (simp add: activeMetadata_def redis_Get_def redis_HGetAll_def io_simps text_at_def hash_at_def)
       (simp add: demo_w_def filter_demo_def io_simps)
qed

lemma demo_add: "filter_Add demo_hash filter_demo_config 5 (demo_w 5) = (Inr (), demo_w 5)"
proof -
  have "redis_Exists ''p:rebuild-lock'' (demo_w 5) = (Inr 0, demo_w 5)"
    by (simp add: redis_Exists_def io_simps text_at_def) (simp add: demo_w_def filter_demo_def)
  moreover have "addToGeneration demo_hash filter_demo_config ''g'' (16, 2) 5 (demo_w 5) = (Inr (), demo_w 5)"
    by (simp add: addToGeneration_def pipe_SetBit_def io_simps bits_at_def put_live_def demo_positions demo_bits)
       (simp add: demo_w_def filter_demo_def insert_commute)
  ultimately show ?thesis by (simp add: filter_Add_def bindE_def attempt_def demo_metadata)
qed

definition demo_sys :: "nat \<Rightarrow> phase \<Rightarrow> int set \<Rightarrow> filter_sys" where
  "demo_sys n p V = \<lparr>sys_world = demo_w n, sys_phase = p, sys_published = V\<rparr>"

lemma filter_demo_run: "(filter_step 1 demo_hash filter_demo_config)\<^sup>*\<^sup>* (demo_sys 0 Idle {}) (demo_sys 5 Idle {5})"
proof -
  let ?r = "filter_step 1 demo_hash filter_demo_config"
  have fr: "fresh filter_demo_config ''g'' (demo_w 1)" by (simp add: fresh_def not_active_def text_at_def demo_w_def)
  have "?r (demo_sys 0 Idle {}) (demo_sys 1 (Locked ''t'') {})"
    using filter_step.acquire [where s = "demo_sys 0 Idle {}" and c = filter_demo_config and token = "''t''" and n = 1 and h = demo_hash]
    by (simp add: demo_sys_def demo_acquire on_success_def)
  moreover have "?r (demo_sys 1 (Locked ''t'') {}) (demo_sys 2 (Building ''t'' ''g'') {})"
    using filter_step.begin_generation [where s = "demo_sys 1 (Locked ''t'') {}" and c = filter_demo_config and token = "''t''" and g = "''g''" and n = 1 and h = demo_hash] fr
    by (simp add: demo_sys_def demo_begin [simplified] on_success_def)
  moreover have "?r (demo_sys 2 (Building ''t'' ''g'') {}) (demo_sys 3 (Built ''t'' ''g'') {})"
    using filter_step.load [where s = "demo_sys 2 (Building ''t'' ''g'') {}" and c = filter_demo_config and token = "''t''" and g = "''g''" and n = 1 and h = demo_hash]
    by (simp add: demo_sys_def demo_load [simplified] on_success_def)
  moreover have "?r (demo_sys 3 (Built ''t'' ''g'') {}) (demo_sys 4 (Leaving ''t'') {})"
    using filter_step.switch [where s = "demo_sys 3 (Built ''t'' ''g'') {}" and c = filter_demo_config and token = "''t''" and g = "''g''" and n = 1 and h = demo_hash]
    by (simp add: demo_sys_def demo_switch)
  moreover have "?r (demo_sys 4 (Leaving ''t'') {}) (demo_sys 5 Idle {})"
    using filter_step.release [where s = "demo_sys 4 (Leaving ''t'') {}" and c = filter_demo_config and token = "''t''" and n = 1 and h = demo_hash]
    by (simp add: demo_sys_def demo_release)
  moreover have "?r (demo_sys 5 Idle {}) (demo_sys 5 Idle {5})"
    using filter_step.add [where s = "demo_sys 5 Idle {}" and c = filter_demo_config and i = 5 and n = 1 and h = demo_hash]
    by (simp add: demo_sys_def demo_add on_success_def)
  ultimately show ?thesis by (meson converse_rtranclp_into_rtranclp rtranclp.rtrancl_refl)
qed


section \<open>The loop that loads a generation\<close>

lemma ProductIDBatch_cases:
  assumes "ProductIDBatch a l w = (x, w')"
  obtains (batch) fs where "w' = w\<lparr>faults := fs\<rparr>"
    "x = Inr (take (nat (min 10000 (if l \<le> 0 then 1000 else l))) (sort (filter (\<lambda>i. i > a) (fw_ids w))))"
  | (lost) s where "x = Inl (RawError s)"
  using assms unfolding ProductIDBatch_def Let_def by (rule ext_call_cases) (auto simp: min_def)

lemma pipe_SetBit_error: "pipe_SetBit k ps w = (x, w') \<Longrightarrow> fw_ids w' = fw_ids w \<and> (\<forall>e. x = Inl e \<longrightarrow> (\<exists>s. e = RawError s))"
  unfolding pipe_SetBit_def by (erule ext_call_cases) (auto simp: bit_error_def split: if_splits)

lemma increasing_after_Inl: "increasing_after a xs = Inl e \<Longrightarrow> \<exists>s. e = RawError s"
  by (induction a xs rule: increasing_after.induct) (auto split: if_splits)

text \<open>Each full batch leaves fewer ids to load.\<close>

lemma fewer_left:
  assumes "increasing_after a xs = Inr b" "xs \<noteq> []" "set xs \<subseteq> set ids"
  shows "length (filter (\<lambda>i. i > b) ids) < length (filter (\<lambda>i. i > a) ids)"
proof -
  have b: "b = last xs" "a < b" using increasing_after_Inr [OF assms(1,2)] by auto
  then have m: "b \<in> set ids" using assms(2,3) last_in_set by blast
  have "set (filter (\<lambda>i. i > b) ids) \<subseteq> set (filter (\<lambda>i. i > a) ids)" using b by auto
  have "filter (\<lambda>i. i > b) ids = filter (\<lambda>i. i > b) (filter (\<lambda>i. i > a) ids)" using b by (auto intro: filter_cong)
  then show ?thesis using m b(2) by (simp only:) (rule length_filter_less [of b], auto)
qed

lemma load_loop_rounds:
  assumes "length (filter (\<lambda>i. i > a) (fw_ids w)) < n" "0 < fc_BatchSize c"
  shows "load_loop (n + k) h c g a count w = load_loop n h c g a count w \<and> fst (load_loop n h c g a count w) \<noteq> Inl ErrRounds"
  using assms(1)
proof (induction n arbitrary: a count w)
  case (Suc n)
  obtain x w1 where b: "ProductIDBatch a (fc_BatchSize c) w = (x, w1)" by fastforce
  then show ?case
  proof (cases rule: ProductIDBatch_cases)
    case (lost s)
    then show ?thesis using b by (simp add: bindE_def ErrRounds_def app_new_def)
  next
    case (batch fs)
    define xs where "xs = take (nat (min 10000 (fc_BatchSize c))) (sort (filter (\<lambda>i. i > a) (fw_ids w)))"
    have x: "x = Inr xs" using batch(2) assms(2) by (simp add: xs_def)
    have sub: "set xs \<subseteq> set (fw_ids w)" unfolding xs_def by (auto dest: in_set_takeD)
    show ?thesis
    proof (cases "xs = [] \<or> (\<exists>e. increasing_after a xs = Inl e)")
      case True
      then show ?thesis using b x
        by (auto simp: bindE_def ret_def of_result_def ErrRounds_def app_new_def dest: increasing_after_Inl)
    next
      case False
      then obtain a' where a': "increasing_after a xs = Inr a'" and ne: "xs \<noteq> []" by (cases "increasing_after a xs") auto
      obtain y w2 where s: "addBatch h c g xs w1 = (y, w2)" by fastforce
      have ids: "fw_ids w2 = fw_ids w" and err: "\<forall>e. y = Inl e \<longrightarrow> (\<exists>s. e = RawError s)"
        using pipe_SetBit_error s batch(1) unfolding addBatch_def by auto
      have "length (filter (\<lambda>i. i > a') (fw_ids w2)) < n"
        using fewer_left [OF a' ne sub] Suc.prems unfolding ids by linarith
      from Suc.IH [OF this, of "count + int (length xs)"] show ?thesis
        using b x a' ne s err by (cases y) (auto simp: bindE_def of_result_def ret_def ErrRounds_def app_new_def)
    qed
  qed
qed simp

text \<open>
  C36: the loop that loads a generation ends: it needs at most one round more than the table has
  rows, whatever is lost, and more rounds do not change its result.
\<close>

theorem load_terminates:
  assumes "length (fw_ids w) < n" "0 < fc_BatchSize c"
  shows "fst (loadGeneration n h c g w) \<noteq> Inl ErrRounds \<and> loadGeneration (n + k) h c g w = loadGeneration n h c g w"
proof -
  have "length (filter (\<lambda>i. i > 0) (fw_ids w)) < n" using assms(1) length_filter_le le_less_trans by blast
  then show ?thesis using load_loop_rounds assms(2) unfolding loadGeneration_def by blast
qed

theorem load_terminates_witness:
  "fst (loadGeneration 2 demo_hash filter_demo_config ''g'' (demo_w 2)) \<noteq> Inl ErrRounds"
  using load_terminates [of "demo_w 2" 2 filter_demo_config demo_hash "''g''" 0] by simp

lemma positions_ok:
  assumes "0 < uint m" "uint m \<le> 2 ^ 32"
  shows "list_all bit_offset_ok (bitPositions h i m k)"
proof -
  have "bit_offset_ok (sint (x mod m))" for x
  proof -
    have "uint (x mod m) < uint m" "0 \<le> uint (x mod m)" using assms(1) by (simp_all add: uint_mod)
    moreover have "- (2 ^ 63) \<le> uint (x mod m)" by (rule order_trans [of _ 0]) simp_all
    moreover from calculation have "sint (x mod m) = uint (x mod m)"
      using assms(2) by (simp add: sint_uint signed_take_bit_int_eq_self_iff)
    ultimately show ?thesis using assms(2) by (simp add: bit_offset_ok_def)
  qed
  then show ?thesis by (simp add: bitPositions_def list_all_iff Let_def)
qed

lemma increasing_sorted: "sorted_wrt (<) (a # xs) \<Longrightarrow> \<exists>b. increasing_after a xs = Inr b"
  by (induction a xs rule: increasing_after.induct) auto

text \<open>
  the loop takes a batch shorter than asked for as the end of the table, but the source never
  returns more than ten thousand ids.  With a larger batch size configured a loss-free load of a table
  with more rows stops after the first ten thousand and answers success.
\<close>

theorem load_stops_early:
  assumes calm: "faults w = []" and ids: "distinct (fw_ids w)" "\<And>i. i \<in> set (fw_ids w) \<Longrightarrow> 0 < i" "10000 < length (fw_ids w)"
    and size: "10000 < fc_BatchSize c" and bits: "0 < uint (fc_bitCount c)" "uint (fc_bitCount c) \<le> 2 ^ 32"
  shows "fst (loadGeneration (Suc n) h c g w) = Inr 10000"
proof -
  define xs where "xs = take 10000 (sort (filter (\<lambda>i. i > 0) (fw_ids w)))"
  have all: "filter (\<lambda>i. i > 0) (fw_ids w) = fw_ids w" using ids(2) by (simp add: filter_id_conv)
  have len: "length xs = 10000" using ids(3) unfolding xs_def all by simp
  have "sorted_wrt (<) (sort (fw_ids w))" using ids(1) by (simp add: strict_sorted_iff)
  then have "sorted_wrt (<) xs" unfolding xs_def all by (rule sorted_wrt_take)
  moreover have "\<forall>x \<in> set xs. 0 < x" unfolding xs_def by (auto dest: in_set_takeD)
  ultimately obtain b where inc: "increasing_after 0 xs = Inr b" using increasing_sorted [of 0 xs] by auto
  have ok: "list_all bit_offset_ok (concat (map (\<lambda>i. bitPositions h i (fc_bitCount c) (fc_hashCount c)) xs))"
    using positions_ok [OF bits] by (auto simp: list_all_iff)
  have batch: "ProductIDBatch 0 (fc_BatchSize c) w = (Inr xs, w)"
    using calm size by (simp add: ProductIDBatch_def Let_def ext_call_ok xs_def)
  have "\<exists>w'. addBatch h c g xs w = (Inr (), w')"
    unfolding addBatch_def pipe_SetBit_def ext_call_ok [OF calm] using ok by auto
  then obtain w' where add: "addBatch h c g xs w = (Inr (), w')" ..
  have "xs \<noteq> []" using len by auto
  then show ?thesis
    unfolding loadGeneration_def load_loop_round load_round_def
    using batch inc add len size by (simp add: bindE_def of_result_def ret_def)
qed

theorem load_stops_early_witness:
  "fst (loadGeneration 1 demo_hash (filter_demo_config\<lparr>fc_BatchSize := 20000\<rparr>) ''g'' (filter_demo [1..30000])) = Inr 10000"
  unfolding One_nat_def
  by (rule load_stops_early) (simp_all add: filter_demo_def filter_demo_config_def del: upto_rec_numeral)

end
