(* ===== verification/Auth_Token.thy ===== *)
theory Auth_Token
  imports Effects Sha256 "HOL-Library.Word"
begin

text \<open>
  Refresh tokens of the auth service (\<open>app/auth/api/internal/authstore/store.go\<close>): the data of both
  stores, the text of a token, its signature (HMAC-SHA-256 in URL-safe base64) and its parsing.
  Random bytes are arguments: \<open>None\<close> stands for a failed \<open>rand.Read\<close>.  \<open>Session\<close> fields have the prefix
  \<open>se_\<close>, \<open>User\<close> fields \<open>us_\<close>.  Times and durations are in nanoseconds.
\<close>

unbundle bit_operations_syntax

section \<open>Errors and data\<close>

definition ErrUserExists :: go_error where "ErrUserExists = NamedError ''user already exists''"
definition ErrUserNotFound :: go_error where "ErrUserNotFound = NamedError ''user not found''"
definition ErrInvalidCredentials :: go_error where "ErrInvalidCredentials = NamedError ''invalid credentials''"
definition ErrInvalidCode :: go_error where "ErrInvalidCode = NamedError ''invalid verification code''"
definition ErrSessionNotFound :: go_error where "ErrSessionNotFound = NamedError ''session not found''"
definition ErrRefreshTokenInvalid :: go_error where "ErrRefreshTokenInvalid = NamedError ''refresh token invalid''"
definition ErrRefreshTokenReplayed :: go_error where "ErrRefreshTokenReplayed = NamedError ''refresh token replayed''"

lemmas auth_errors = ErrUserExists_def ErrUserNotFound_def ErrInvalidCredentials_def ErrInvalidCode_def
  ErrSessionNotFound_def ErrRefreshTokenInvalid_def ErrRefreshTokenReplayed_def

definition statusActive :: int where [simp]: "statusActive = 1"
definition statusUsed :: int where [simp]: "statusUsed = 2"
definition statusRevoked :: int where [simp]: "statusRevoked = 3"
definition userStatusDisabled :: int where [simp]: "userStatusDisabled = 2"

record User =
  us_ID :: int
  us_Phone :: string
  us_DisplayName :: string
  us_PasswordHash :: string
  us_SessionVersion :: int
  us_Role :: string
  us_Status :: int
  us_CreateTime :: string

record verifyCode =
  vc_Code :: string
  vc_ExpiresAt :: int
  vc_Attempts :: int

record Session =
  se_ID :: string
  se_UserID :: int
  se_DeviceType :: string
  se_SessionVersion :: int
  se_RefreshTokenHash :: string
  se_PreviousRefreshTokenHash :: string
  se_RefreshFamilySecret :: string
  se_RefreshGeneration :: int
  se_ExpiresAt :: int
  se_Revoked :: bool

text \<open>\<open>time.Duration(seconds) * time.Second\<close>.\<close>

definition Seconds :: "int \<Rightarrow> int" where
  "Seconds n = i64 (n * 10 ^ 9)"

text \<open>\<open>time.Now().After(t)\<close>.\<close>

definition After :: "int \<Rightarrow> int \<Rightarrow> bool" where
  [simp]: "After now t \<longleftrightarrow> t < now"

section \<open>Base64 and HMAC (standard library)\<close>

definition base64_url :: string where
  "base64_url = ''ABCDEFGHIJKLMNOPQRSTUVWXYZabcdefghijklmnopqrstuvwxyz0123456789-_''"

text \<open>\<open>base64.RawURLEncoding.EncodeToString\<close>: three bytes give four characters, the rest no padding.\<close>

fun RawURLEncoding :: "nat list \<Rightarrow> string" where
  "RawURLEncoding (a # b # c # bs) =
     (let v = (a * 256 + b) * 256 + c
      in map (\<lambda>d. base64_url ! (v div d mod 64)) [2 ^ 18, 2 ^ 12, 2 ^ 6, 1] @ RawURLEncoding bs)"
| "RawURLEncoding [a, b] = (let v = (a * 256 + b) * 4 in map (\<lambda>d. base64_url ! (v div d mod 64)) [2 ^ 12, 2 ^ 6, 1])"
| "RawURLEncoding [a] = (let v = a * 16 in map (\<lambda>d. base64_url ! (v div d mod 64)) [2 ^ 6, 1])"
| "RawURLEncoding [] = []"

definition hmac_key :: "string \<Rightarrow> nat list" where
  "hmac_key key =
     (let k = (if length key > 64 then Sum256 key else map of_char key) in k @ replicate (64 - length k) 0)"

definition hmac_sha256 :: "string \<Rightarrow> string \<Rightarrow> nat list" where
  "hmac_sha256 key msg =
     (let k = hmac_key key;
          inner = Sum256 (map (\<lambda>b. char_of (b XOR 0x36)) k @ msg)
      in Sum256 (map (\<lambda>b. char_of (b XOR 0x5c)) k @ map char_of inner))"

section \<open>Tokens\<close>

definition hashToken :: "string \<Rightarrow> string" where
  "hashToken token = EncodeToString (Sum256 token)"

definition rand_Read :: "nat list option \<Rightarrow> go_error + nat list" where
  "rand_Read r = (case r of None \<Rightarrow> Inl (RawError ''rand: read failed'') | Some bs \<Rightarrow> Inr (map (\<lambda>b. b mod 256) (take 32 (bs @ replicate 32 0))))"

definition randomToken :: "nat list option \<Rightarrow> go_error + string" where
  "randomToken r = (case rand_Read r of Inl e \<Rightarrow> Inl e | Inr buf \<Rightarrow> Inr (RawURLEncoding buf))"

definition randomSecret :: "nat list option \<Rightarrow> go_error + string" where
  "randomSecret r = (case rand_Read r of Inl e \<Rightarrow> Inl e | Inr buf \<Rightarrow> Inr (EncodeToString buf))"

definition signRefreshToken :: "string \<Rightarrow> int \<Rightarrow> string \<Rightarrow> string" where
  "signRefreshToken sessionID generation familySecret =
     RawURLEncoding (hmac_sha256 familySecret (sessionID @ '':'' @ show_int generation))"

definition verifyRefreshTokenSignature :: "string \<Rightarrow> int \<Rightarrow> string \<Rightarrow> string \<Rightarrow> bool" where
  "verifyRefreshTokenSignature sessionID generation signature familySecret \<longleftrightarrow>
     signature = signRefreshToken sessionID generation familySecret"

definition buildRefreshToken :: "string \<Rightarrow> int \<Rightarrow> string \<Rightarrow> string" where
  "buildRefreshToken sessionID generation familySecret =
     sessionID @ ''.'' @ show_int generation @ ''.'' @ signRefreshToken sessionID generation familySecret"

text \<open>\<open>strings.Cut\<close> at a one-character separator.\<close>

fun Cut :: "char \<Rightarrow> string \<Rightarrow> (string \<times> string) option" where
  "Cut sep [] = None"
| "Cut sep (c # cs) = (if c = sep then Some ([], cs) else map_option (\<lambda>(a, b). (c # a, b)) (Cut sep cs))"

definition splitRefreshToken :: "string \<Rightarrow> (string \<times> string \<times> string) option" where
  "splitRefreshToken token =
     (case Cut (CHR ''.'') token of
        None \<Rightarrow> None
      | Some (sessionID, rest) \<Rightarrow>
          if sessionID = [] \<or> rest = [] then None
          else (case Cut (CHR ''.'') rest of
                  None \<Rightarrow> None
                | Some (generation, signature) \<Rightarrow>
                    if generation = [] \<or> signature = [] then None else Some (sessionID, generation, signature)))"

definition parseGeneration :: "string \<Rightarrow> int option" where
  "parseGeneration v = ParseInt v"

definition parseRefreshToken :: "string \<Rightarrow> (string \<times> int \<times> string) option" where
  "parseRefreshToken token =
     (case splitRefreshToken token of
        None \<Rightarrow> None
      | Some (sessionID, generationPart, signature) \<Rightarrow>
          (case parseGeneration generationPart of
             None \<Rightarrow> None
           | Some generation \<Rightarrow> if generation \<le> 0 then None else Some (sessionID, generation, signature)))"

section \<open>Codes\<close>

definition codeKey :: "string \<Rightarrow> string \<Rightarrow> string" where
  "codeKey phone scene = scene @ '':'' @ phone"

section \<open>What parsing finds\<close>

lemma Cut_append [simp]: "c \<notin> set a \<Longrightarrow> Cut c (a @ c # b) = Some (a, b)"
  by (induction a) auto

lemma Cut_SomeD: "Cut c s = Some (a, b) \<Longrightarrow> s = a @ c # b \<and> c \<notin> set a"
  by (induction s arbitrary: a) (auto split: if_splits)

lemma length_RawURLEncoding_pos: "bs \<noteq> [] \<Longrightarrow> RawURLEncoding bs \<noteq> []"
  by (cases bs rule: RawURLEncoding.cases) (simp_all add: Let_def)

lemma base64_url_nth: "i < 64 \<Longrightarrow> base64_url ! i \<in> set base64_url"
  by (rule nth_mem) (simp add: base64_url_def)

lemma base64_no_dot: "base64_url ! (v mod 64) \<noteq> CHR ''.''"
proof -
  have "base64_url ! (v mod 64) \<in> set base64_url" by (rule base64_url_nth) simp
  moreover have "CHR ''.'' \<notin> set base64_url" by (simp add: base64_url_def)
  ultimately show ?thesis by metis
qed

lemma RawURLEncoding_no_dot: "CHR ''.'' \<notin> set (RawURLEncoding bs)"
  by (induction bs rule: RawURLEncoding.induct) (auto simp: Let_def base64_no_dot base64_no_dot [symmetric])

lemma signRefreshToken_nonempty [simp]: "signRefreshToken sid g k \<noteq> []"
proof -
  have "length (hmac_sha256 k m) = 32" for m by (simp add: hmac_sha256_def Let_def)
  then have "hmac_sha256 k m \<noteq> []" for m by (metis length_0_conv zero_neq_numeral)
  then show ?thesis by (simp add: signRefreshToken_def length_RawURLEncoding_pos)
qed

lemma show_int_no_dot: "CHR ''.'' \<notin> set (show_int i)"
proof -
  have "CHR ''.'' \<notin> set (show_nat n)" for n using show_nat_digits [of n] by (auto simp: list_all_iff is_digit_def)
  then show ?thesis by (simp add: show_int_def)
qed

lemma parse_build:
  assumes "sid \<noteq> []" "CHR ''.'' \<notin> set sid" "0 < g" "in_i64 g"
  shows "parseRefreshToken (buildRefreshToken sid g k) = Some (sid, g, signRefreshToken sid g k)"
  using assms
  by (simp add: parseRefreshToken_def splitRefreshToken_def buildRefreshToken_def parseGeneration_def show_int_no_dot)

lemma parse_gen_pos: "parseRefreshToken t = Some (sid, g, sg) \<Longrightarrow> 0 < g"
  by (auto simp: parseRefreshToken_def split: option.splits if_splits)

lemma randomToken_shape: "randomToken r = Inr sid \<Longrightarrow> sid \<noteq> [] \<and> CHR ''.'' \<notin> set sid"
proof -
  assume "randomToken r = Inr sid"
  then obtain bs where s: "sid = RawURLEncoding bs" and b: "rand_Read r = Inr bs"
    by (auto simp: randomToken_def split: sum.splits)
  from b have "length bs = 32" by (auto simp: rand_Read_def split: option.splits)
  then show ?thesis unfolding s using length_RawURLEncoding_pos RawURLEncoding_no_dot by (metis list.size(3) zero_neq_numeral)
qed

end
