(* ===== verification/Auth_State.thy ===== *)
theory Auth_State
  imports Redis_Keys Go_Json
begin

text \<open>
  Session state in Redis: what the auth service writes (\<open>app/auth/api/internal/sessionstate/state.go\<close>)
  and what the entry service reads when it validates an access token
  (\<open>app/entry/api/internal/sessionstate/validator.go\<close>).  Parsing a JSON web token is third-party code:
  \<open>jwt_parse secret now token\<close> are the claims of a valid token.  A pipeline of Redis commands is one call.
\<close>

text \<open>A security event of \<open>audit/events.go\<close>; the zero time of \<open>CreatedAt\<close> is \<open>None\<close>.\<close>

record Event =
  ev_EventType :: string
  ev_Result :: string
  ev_UserID :: int
  ev_IdentityValue :: string
  ev_IP :: string
  ev_UserAgent :: string
  ev_CreatedAt :: "int option"

text \<open>
  What the auth service shares with its environment: the clock, the texts in Redis, the counters of
  the in-memory limiter, the events of the in-memory recorder (oldest first) and of the Redis list
  (newest first).  \<open>ae_state\<close> says that Redis is configured (\<open>newFoundationDeps\<close>).
\<close>

record auth_env = env +
  ae_now :: int
  ae_text :: "string \<Rightarrow> (json_text \<times> int option) option"
  ae_state :: bool
  ae_counts :: "string \<rightharpoonup> int \<times> int"
  ae_events :: "Event list"
  ae_event_list :: "Event list"

text \<open>\<open>GetCtx\<close> of go-zero: a missing key is the empty text.\<close>

definition redis_GetCtx :: "string \<Rightarrow> ('z auth_env_scheme, json_text) io" where
  "redis_GetCtx k = ext_call (\<lambda>w. (Inr (case live (ae_now w) (ae_text w k) of None \<Rightarrow> NotJson [] | Some v \<Rightarrow> v), w))"

definition set_key :: "string \<Rightarrow> json_text \<Rightarrow> int \<Rightarrow> 'z auth_env_scheme \<Rightarrow> 'z auth_env_scheme" where
  "set_key k v ttl w = w\<lparr>ae_text := (ae_text w)(k := Some (v, if ttl = 0 then None else Some (ae_now w + ttl)))\<rparr>"

definition redis_DelCtx :: "string \<Rightarrow> ('z auth_env_scheme, unit) io" where
  "redis_DelCtx k = ext_call (\<lambda>w. (Inr (), w\<lparr>ae_text := (ae_text w)(k := None)\<rparr>))"

definition ParseInt_text :: "json_text \<Rightarrow> int option" where
  "ParseInt_text t = (case t of
       JsonText (JInt i) \<Rightarrow> if in_i64 i then Some i else None
     | JsonText j \<Rightarrow> None
     | NotJson s \<Rightarrow> ParseInt s)"

section \<open>Snapshots\<close>

record SessionSnapshot =
  sn_SessionID :: string
  sn_UserID :: int
  sn_DeviceType :: string
  sn_SessionVersion :: int

definition sessionKey :: "string \<Rightarrow> string" where
  "sessionKey sessionID = ''auth:session:sid:'' @ sessionID"

definition userVersionKey :: "int \<Rightarrow> string" where
  "userVersionKey userID = ''auth:session:userver:'' @ show_int userID"

definition snapshot_json :: "SessionSnapshot \<Rightarrow> json" where
  "snapshot_json s = JObj [(''session_id'', JStr (sn_SessionID s)), (''user_id'', JInt (sn_UserID s)),
     (''device_type'', JStr (sn_DeviceType s)), (''session_version'', JInt (sn_SessionVersion s))]"

definition SaveSession :: "SessionSnapshot \<Rightarrow> int \<Rightarrow> ('z auth_env_scheme, unit) io" where
  "SaveSession s ttl = ext_call (\<lambda>w. (Inr (),
     set_key (userVersionKey (sn_UserID s)) (JsonText (JInt (sn_SessionVersion s))) 0
       (set_key (sessionKey (sn_SessionID s)) (JsonText (snapshot_json s)) ttl w)))"

definition DeleteSession :: "string \<Rightarrow> ('z auth_env_scheme, unit) io" where
  "DeleteSession sessionID = redis_DelCtx (sessionKey sessionID)"

definition SetUserVersion :: "int \<Rightarrow> int \<Rightarrow> ('z auth_env_scheme, unit) io" where
  "SetUserVersion userID version = ext_call (\<lambda>w. (Inr (), set_key (userVersionKey userID) (JsonText (JInt version)) 0 w))"

section \<open>Claims\<close>

text \<open>The dynamic types of a claim: a Go integer, a \<open>float64\<close> (cut to its integer part), a \<open>json.Number\<close>, a string.\<close>

datatype claim = CInt int | CFloat int | CNumber string | CText string | COther

type_synonym MapClaims = "string \<rightharpoonup> claim"

definition parseInt64Claim :: "claim option \<Rightarrow> int option" where
  "parseInt64Claim v = (case v of
       Some (CInt i) \<Rightarrow> Some i
     | Some (CFloat i) \<Rightarrow> Some (i64 i)
     | Some (CNumber s) \<Rightarrow> ParseInt s
     | Some (CText s) \<Rightarrow> ParseInt s
     | _ \<Rightarrow> None)"

definition text_claim :: "claim option \<Rightarrow> string" where
  "text_claim v = (case v of Some (CText s) \<Rightarrow> s | _ \<Rightarrow> [])"

section \<open>The validators of the entry service\<close>

definition snapshot_member :: "string \<Rightarrow> json \<Rightarrow> SessionSnapshot \<Rightarrow> SessionSnapshot option" where
  "snapshot_member k v s =
     (if EqualFold k ''session_id'' then set_str v (\<lambda>s x. s\<lparr>sn_SessionID := x\<rparr>) s
      else if EqualFold k ''user_id'' then set_int v (\<lambda>s x. s\<lparr>sn_UserID := x\<rparr>) s
      else if EqualFold k ''device_type'' then set_str v (\<lambda>s x. s\<lparr>sn_DeviceType := x\<rparr>) s
      else if EqualFold k ''session_version'' then set_int v (\<lambda>s x. s\<lparr>sn_SessionVersion := x\<rparr>) s
      else Some s)"

definition LoadSession :: "bool \<Rightarrow> string \<Rightarrow> ('z auth_env_scheme, SessionSnapshot option) io" where
  "LoadSession rds sessionID =
     (if \<not> rds \<or> sessionID = [] then ret None
      else bindE (redis_GetCtx (''auth:session:sid:'' @ sessionID)) (\<lambda>raw.
           if raw = NotJson [] then ret None
           else case unmarshal_struct snapshot_member raw
                       \<lparr>sn_SessionID = [], sn_UserID = 0, sn_DeviceType = [], sn_SessionVersion = 0\<rparr> of
                  None \<Rightarrow> fail (RawError ''json: cannot unmarshal'')
                | Some s \<Rightarrow> ret (Some s)))"

definition LoadUserVersion :: "bool \<Rightarrow> int \<Rightarrow> ('z auth_env_scheme, int option) io" where
  "LoadUserVersion rds userID =
     (if \<not> rds \<or> userID \<le> 0 then ret None
      else bindE (redis_GetCtx (''auth:session:userver:'' @ show_int userID)) (\<lambda>raw.
           if raw = NotJson [] then ret None
           else case ParseInt_text raw of
                  None \<Rightarrow> fail (RawError ''strconv.ParseInt: invalid syntax'')
                | Some version \<Rightarrow> ret (Some version)))"

text \<open>\<open>store\<close> is \<open>None\<close> for a missing snapshot store, else says whether it has a Redis client.\<close>

record RedisValidator =
  rv_store :: "bool option"
  rv_secret :: string

definition unauthenticated :: "string \<Rightarrow> ('w, 'a) io" where
  "unauthenticated m = fail (StatusError codes_Unauthenticated m)"

definition unavailable :: "string \<Rightarrow> go_error \<Rightarrow> go_error" where
  "unavailable m e = StatusError codes_Unavailable m"

definition validate_claims :: "bool \<Rightarrow> MapClaims \<Rightarrow> ('z auth_env_scheme, unit) io" where
  "validate_claims rds claims =
     (case (case parseInt64Claim (claims ''sub'') of None \<Rightarrow> parseInt64Claim (claims ''user_id'') | Some i \<Rightarrow> Some i) of
        None \<Rightarrow> unauthenticated ''missing user subject in jwt''
      | Some userID \<Rightarrow>
          (let sessionID = text_claim (claims ''sid'') in
           if sessionID = [] then unauthenticated ''missing session id in jwt''
           else case parseInt64Claim (claims ''session_version'') of
                  None \<Rightarrow> unauthenticated ''missing session version in jwt''
                | Some sessionVersion \<Rightarrow>
                    bindE (map_err (unavailable ''load session snapshot failed'') (LoadSession rds sessionID)) (\<lambda>x.
                    case x of
                      None \<Rightarrow> unauthenticated ''session invalid or expired''
                    | Some snapshot \<Rightarrow>
                        if sn_UserID snapshot \<noteq> userID \<or> sn_SessionVersion snapshot \<noteq> sessionVersion
                        then unauthenticated ''session snapshot mismatch''
                        else bindE (map_err (unavailable ''load user session version failed'') (LoadUserVersion rds userID)) (\<lambda>current.
                             if current \<noteq> Some sessionVersion then unauthenticated ''session version mismatch''
                             else ret ()))))"

definition RedisValidator_Validate ::
  "(string \<Rightarrow> int \<Rightarrow> string \<Rightarrow> MapClaims option) \<Rightarrow> RedisValidator \<Rightarrow> string \<Rightarrow> ('z auth_env_scheme, unit) io" where
  "RedisValidator_Validate jwt_parse v authHeader =
     (if TrimSpace authHeader = [] then unauthenticated ''missing authorization header''
      else case rv_store v of
        None \<Rightarrow> fail (StatusError codes_Unavailable ''redis session validator not configured'')
      | Some rds \<Rightarrow>
          if rv_secret v = [] then fail (StatusError codes_Unavailable ''redis session validator not configured'')
          else let rawToken = TrimSpace (TrimPrefix authHeader ''Bearer '') in
               if rawToken = [] then unauthenticated ''missing bearer token''
               else bindE get_world (\<lambda>w.
                    case jwt_parse (rv_secret v) (ae_now w) rawToken of
                      None \<Rightarrow> unauthenticated ''invalid access token''
                    | Some claims \<Rightarrow> validate_claims rds claims))"

text \<open>The answer of the auth service to the other validator's request, if there is one.\<close>

datatype http_reply = BadURL | NoAnswer | HttpStatus int

definition TrimRight_slash :: "string \<Rightarrow> string" where
  "TrimRight_slash s = rev (dropWhile (\<lambda>c. c = CHR ''/'') (rev s))"

definition HTTPValidator_Validate :: "(string \<Rightarrow> string \<Rightarrow> http_reply) \<Rightarrow> string \<Rightarrow> string \<Rightarrow> go_error + unit" where
  "HTTPValidator_Validate get configuredURL authHeader =
     (let baseURL = TrimRight_slash configuredURL in
      if TrimSpace authHeader = [] then Inl (StatusError codes_Unauthenticated ''missing authorization header'')
      else if baseURL = [] then Inl (StatusError codes_Unavailable ''auth service not configured'')
      else case get (baseURL @ ''/api/auth/me'') authHeader of
             BadURL \<Rightarrow> Inl (StatusError codes_Internal ''build session validation request failed'')
           | NoAnswer \<Rightarrow> Inl (StatusError codes_Unavailable ''auth session validation unavailable'')
           | HttpStatus n \<Rightarrow>
               if n = 200 then Inr ()
               else if n = 401 \<or> n = 403 then Inl (StatusError codes_Unauthenticated ''session invalid or expired'')
               else if n = 404 then Inl (StatusError codes_Unauthenticated ''session user not found'')
               else Inl (StatusError codes_Unavailable ''auth session validation failed''))"

section \<open>Reading back a snapshot\<close>

lemma EqualFold_members [simp]:
  "EqualFold ''session_id'' ''session_id''" "\<not> EqualFold ''user_id'' ''session_id''" "EqualFold ''user_id'' ''user_id''"
  "\<not> EqualFold ''device_type'' ''session_id''" "\<not> EqualFold ''device_type'' ''user_id''" "EqualFold ''device_type'' ''device_type''"
  "\<not> EqualFold ''session_version'' ''session_id''" "\<not> EqualFold ''session_version'' ''user_id''"
  "\<not> EqualFold ''session_version'' ''device_type''" "EqualFold ''session_version'' ''session_version''"
  by (simp_all add: EqualFold_def ToLower_def lower_char_def)

lemma snapshot_roundtrip [simp]:
  "in_i64 (sn_UserID s) \<Longrightarrow> in_i64 (sn_SessionVersion s) \<Longrightarrow>
   unmarshal_struct snapshot_member (JsonText (snapshot_json s)) z
     = Some (z\<lparr>sn_SessionID := sn_SessionID s, sn_UserID := sn_UserID s, sn_DeviceType := sn_DeviceType s,
               sn_SessionVersion := sn_SessionVersion s\<rparr>)"
  by (simp add: unmarshal_struct_def snapshot_json_def snapshot_member_def)

lemma sessionKey_inj [simp]: "sessionKey a = sessionKey b \<longleftrightarrow> a = b"
  by (simp add: sessionKey_def)

lemma userVersionKey_inj [simp]: "userVersionKey a = userVersionKey b \<longleftrightarrow> a = b"
  by (simp add: userVersionKey_def)

lemma key_families [simp]: "sessionKey a \<noteq> userVersionKey b" "userVersionKey b \<noteq> sessionKey a"
  by (simp_all add: sessionKey_def userVersionKey_def)

end
