(* ===== verification/Auth_Store.thy ===== *)
theory Auth_Store
  imports Auth_Token Auth_State "HOL-Library.AList"
begin

text \<open>
  The in-memory store of the auth service (\<open>app/auth/api/internal/authstore/store.go\<close>): users,
  verification codes and sessions, with the session state copied to Redis where it is configured.
  An operation runs under the store's mutex and is one step.  Go maps of pointers become maps of
  values that are updated in place (\<open>upd_user\<close>, \<open>upd_session\<close>); both user maps point to the same user,
  so the one by phone holds ids.  A set of session ids is a list without duplicates, and the order of
  a loop over it is the order of the list.  Hashing a password is third-party code:
  \<open>bcrypt_hash\<close> and \<open>bcrypt_compare\<close> are parameters.
\<close>

record Store =
  ms_nextUserID :: int
  ms_usersByID :: "(int \<times> User) list"
  ms_usersByPhone :: "string \<rightharpoonup> int"
  ms_codes :: "string \<rightharpoonup> verifyCode"
  ms_sessions :: "string \<rightharpoonup> Session"
  ms_refreshIndex :: "string \<rightharpoonup> string"
  ms_userSessionIDs :: "int \<Rightarrow> string list"

record mem_world = auth_env +
  mw_store :: Store

type_synonym 'a mem_io = "(mem_world, 'a) io"

abbreviation user_of :: "Store \<Rightarrow> int \<Rightarrow> User option" where
  "user_of s \<equiv> map_of (ms_usersByID s)"

definition upd_user :: "int \<Rightarrow> (User \<Rightarrow> User) \<Rightarrow> Store \<Rightarrow> Store" where
  "upd_user i f s = s\<lparr>ms_usersByID := map (\<lambda>(k, u). (k, if k = i then f u else u)) (ms_usersByID s)\<rparr>"

definition upd_session :: "string \<Rightarrow> (Session \<Rightarrow> Session) \<Rightarrow> Store \<Rightarrow> Store" where
  "upd_session sid f s = s\<lparr>ms_sessions := (ms_sessions s)(sid := map_option f (ms_sessions s sid))\<rparr>"

definition del_session_id :: "int \<Rightarrow> string \<Rightarrow> Store \<Rightarrow> Store" where
  "del_session_id u sid s = s\<lparr>ms_userSessionIDs := (ms_userSessionIDs s)(u := removeAll sid (ms_userSessionIDs s u))\<rparr>"

definition add_session_id :: "int \<Rightarrow> string \<Rightarrow> Store \<Rightarrow> Store" where
  "add_session_id u sid s = s\<lparr>ms_userSessionIDs := (ms_userSessionIDs s)(u := List.insert sid (ms_userSessionIDs s u))\<rparr>"

definition read_store :: "(Store \<Rightarrow> 'a) \<Rightarrow> 'a mem_io" where
  "read_store f w = (Inr (f (mw_store w)), w)"

definition modify_store :: "(Store \<Rightarrow> Store) \<Rightarrow> unit mem_io" where
  "modify_store f w = (Inr (), w\<lparr>mw_store := f (mw_store w)\<rparr>)"

definition now :: "('z auth_env_scheme, int) io" where
  "now w = (Inr (ae_now w), w)"

section \<open>Copies in Redis\<close>

definition session_snapshot :: "Session \<Rightarrow> SessionSnapshot" where
  "session_snapshot session = \<lparr>sn_SessionID = se_ID session, sn_UserID = se_UserID session,
     sn_DeviceType = se_DeviceType session, sn_SessionVersion = se_SessionVersion session\<rparr>"

definition syncSessionState :: "Session \<Rightarrow> ('z auth_env_scheme, unit) io" where
  "syncSessionState session = (\<lambda>w.
     let ttl = se_ExpiresAt session - ae_now w in
     if \<not> ae_state w \<or> ttl \<le> 0 then ret () w else or_else (SaveSession (session_snapshot session) ttl) () w)"

definition deleteSessionState :: "string \<Rightarrow> ('z auth_env_scheme, unit) io" where
  "deleteSessionState sessionID = (\<lambda>w.
     if \<not> ae_state w \<or> sessionID = [] then ret () w else or_else (DeleteSession sessionID) () w)"

definition syncUserVersionLocked :: "int \<Rightarrow> unit mem_io" where
  "syncUserVersionLocked userID = (\<lambda>w.
     if \<not> ae_state w then ret () w
     else case user_of (mw_store w) userID of
            None \<Rightarrow> ret () w
          | Some user \<Rightarrow> or_else (SetUserVersion userID (us_SessionVersion user)) () w)"

section \<open>Helpers that run under the lock\<close>

definition bumpUserSessionVersionLocked :: "int \<Rightarrow> unit mem_io" where
  "bumpUserSessionVersionLocked userID = modify_store (upd_user userID (\<lambda>user.
     let v = i64 (us_SessionVersion user + 1) in user\<lparr>us_SessionVersion := (if v \<le> 0 then 1 else v)\<rparr>))"

definition deleteRefreshIndexLocked :: "Session \<Rightarrow> Store \<Rightarrow> Store" where
  "deleteRefreshIndexLocked session s =
     (if se_RefreshTokenHash session \<noteq> [] then s\<lparr>ms_refreshIndex := (ms_refreshIndex s)(se_RefreshTokenHash session := None)\<rparr> else s)"

definition revokeSessionLocked :: "string \<Rightarrow> unit mem_io" where
  "revokeSessionLocked sessionID =
     bindE (read_store (\<lambda>s. ms_sessions s sessionID)) (\<lambda>x. case x of
       None \<Rightarrow> ret ()
     | Some session \<Rightarrow>
         bindE (modify_store (upd_session sessionID (\<lambda>se. se\<lparr>se_Revoked := True\<rparr>))) (\<lambda>_.
         bindE (modify_store (deleteRefreshIndexLocked session)) (\<lambda>_.
         bindE (modify_store (del_session_id (se_UserID session) sessionID)) (\<lambda>_.
         deleteSessionState sessionID))))"

definition revokeUserSessionsLocked :: "int \<Rightarrow> unit mem_io" where
  "revokeUserSessionsLocked userID =
     bindE (read_store (\<lambda>s. ms_userSessionIDs s userID)) (\<lambda>ids.
     for_each ids (\<lambda>sessionID.
       bindE (revokeSessionLocked sessionID) (\<lambda>_. modify_store (del_session_id userID sessionID))))"

definition revokeUserDeviceSessionsLocked :: "int \<Rightarrow> string \<Rightarrow> unit mem_io" where
  "revokeUserDeviceSessionsLocked userID deviceType =
     bindE (read_store (\<lambda>s. ms_userSessionIDs s userID)) (\<lambda>ids.
     for_each ids (\<lambda>sessionID.
       bindE (read_store (\<lambda>s. ms_sessions s sessionID)) (\<lambda>x. case x of
         None \<Rightarrow> modify_store (del_session_id userID sessionID)
       | Some session \<Rightarrow>
           if se_DeviceType session \<noteq> deviceType then ret ()
           else bindE (revokeSessionLocked sessionID) (\<lambda>_. modify_store (del_session_id userID sessionID)))))"

section \<open>Codes\<close>

definition issued_code :: string where
  "issued_code = ''246810''"

definition IssueCode :: "string \<Rightarrow> string \<Rightarrow> int \<Rightarrow> (string \<times> int) mem_io" where
  "IssueCode phone scene ttlSeconds =
     (if phone = [] \<or> scene = [] then fail ErrInvalidCode
      else bindE now (\<lambda>t.
           let expiresAt = t + Seconds (if ttlSeconds \<le> 0 then 300 else ttlSeconds) in
           bindE (modify_store (\<lambda>s. s\<lparr>ms_codes := (ms_codes s)(codeKey phone scene \<mapsto>
                    \<lparr>vc_Code = issued_code, vc_ExpiresAt = expiresAt, vc_Attempts = 0\<rparr>)\<rparr>)) (\<lambda>_.
           ret (issued_code, expiresAt))))"

definition set_code :: "string \<Rightarrow> verifyCode option \<Rightarrow> unit mem_io" where
  "set_code key e = modify_store (\<lambda>s. s\<lparr>ms_codes := (ms_codes s)(key := e)\<rparr>)"

definition ConsumeCode :: "string \<Rightarrow> string \<Rightarrow> string \<Rightarrow> int \<Rightarrow> unit mem_io" where
  "ConsumeCode phone scene code maxAttempts =
     (let key = codeKey phone scene in
      bindE now (\<lambda>t.
      bindE (read_store (\<lambda>s. ms_codes s key)) (\<lambda>x. case x of
        None \<Rightarrow> bindE (set_code key None) (\<lambda>_. fail ErrInvalidCode)
      | Some entry \<Rightarrow>
          if After t (vc_ExpiresAt entry) then bindE (set_code key None) (\<lambda>_. fail ErrInvalidCode)
          else if vc_Code entry \<noteq> code then
            (let entry = entry\<lparr>vc_Attempts := i64 (vc_Attempts entry + 1)\<rparr> in
             bindE (set_code key (if maxAttempts > 0 \<and> vc_Attempts entry \<ge> maxAttempts then None else Some entry)) (\<lambda>_.
             fail ErrInvalidCode))
          else set_code key None)))"

definition ResetCode :: "string \<Rightarrow> string \<Rightarrow> unit mem_io" where
  "ResetCode phone scene = set_code (codeKey phone scene) None"

section \<open>Users\<close>

definition put_user :: "User \<Rightarrow> Store \<Rightarrow> Store" where
  "put_user user s = s\<lparr>ms_usersByID := AList.update (us_ID user) user (ms_usersByID s),
     ms_usersByPhone := (ms_usersByPhone s)(us_Phone user \<mapsto> us_ID user)\<rparr>"

text \<open>The display name the code makes up is Chinese; the model keeps its form with \<open>prefix\<close>.\<close>

definition CreateUser :: "(string \<Rightarrow> go_error + string) \<Rightarrow> string \<Rightarrow> string \<Rightarrow> string \<Rightarrow> string \<Rightarrow> string \<Rightarrow> User mem_io" where
  "CreateUser bcrypt_hash prefix createTime phone displayName password =
     (if phone = [] \<or> password = [] then fail ErrInvalidCredentials
      else bindE (read_store (\<lambda>s. ms_usersByPhone s phone)) (\<lambda>x.
           if x \<noteq> None then fail ErrUserExists
           else bindE (of_result (bcrypt_hash password)) (\<lambda>hash.
                bindE (read_store ms_nextUserID) (\<lambda>next.
                let user = \<lparr>us_ID = next, us_Phone = phone,
                      us_DisplayName = (if displayName = [] then prefix @ show_int next else displayName),
                      us_PasswordHash = hash, us_SessionVersion = 1, us_Role = ''user'',
                      us_Status = statusActive, us_CreateTime = createTime\<rparr> in
                bindE (modify_store (\<lambda>s. put_user user (s\<lparr>ms_nextUserID := i64 (next + 1)\<rparr>))) (\<lambda>_.
                bindE (syncUserVersionLocked next) (\<lambda>_. ret user))))))"

definition Authenticate :: "(string \<Rightarrow> string \<Rightarrow> bool) \<Rightarrow> int \<Rightarrow> string \<Rightarrow> string \<Rightarrow> User mem_io" where
  "Authenticate bcrypt_compare userID phone password =
     bindE (read_store (\<lambda>s. if phone \<noteq> [] then Option.bind (ms_usersByPhone s phone) (user_of s) else user_of s userID)) (\<lambda>x.
     case x of
       None \<Rightarrow> fail ErrInvalidCredentials
     | Some user \<Rightarrow>
         if us_Status user \<noteq> statusActive \<or> \<not> bcrypt_compare (us_PasswordHash user) password
         then fail ErrInvalidCredentials else ret user)"

definition active_user :: "User option \<Rightarrow> User mem_io" where
  "active_user x = (case x of
       None \<Rightarrow> fail ErrUserNotFound
     | Some user \<Rightarrow> if us_Status user \<noteq> statusActive then fail ErrUserNotFound else ret user)"

definition GetUserByPhone :: "string \<Rightarrow> User mem_io" where
  "GetUserByPhone phone = bindE (read_store (\<lambda>s. Option.bind (ms_usersByPhone s phone) (user_of s))) active_user"

definition GetUserByID :: "int \<Rightarrow> User mem_io" where
  "GetUserByID userID = bindE (read_store (\<lambda>s. user_of s userID)) active_user"

definition GetUserByIDAnyStatus :: "int \<Rightarrow> User mem_io" where
  "GetUserByIDAnyStatus userID =
     bindE (read_store (\<lambda>s. user_of s userID)) (\<lambda>x. case x of None \<Rightarrow> fail ErrUserNotFound | Some user \<Rightarrow> ret user)"

definition adminUserStatusValue :: "int \<Rightarrow> int" where
  "adminUserStatusValue status = (if status = 0 then statusActive else status)"

definition userMatchesKeyword :: "User \<Rightarrow> string \<Rightarrow> bool" where
  "userMatchesKeyword user keyword \<longleftrightarrow>
     Contains (ToLower (us_Phone user)) keyword \<or> Contains (ToLower (us_DisplayName user)) keyword \<or>
     Contains (show_int (us_ID user)) keyword"

text \<open>The slice of a page; an index that wrapped around is out of range, which panics.\<close>

definition users_page :: "'a list \<Rightarrow> int \<Rightarrow> int \<Rightarrow> go_error + 'a list" where
  "users_page users page pageSize =
     (let total = int (length users) in
      if pageSize \<le> 0 then Inr users
      else let page = (if page \<le> 0 then 1 else page);
               start = i64 (i64 (page - 1) * pageSize) in
           if start \<ge> total then Inr []
           else let end' = i64 (start + pageSize);
                    end' = (if end' > total then total else end') in
                if start < 0 \<or> end' < start then Inl (RawError ''runtime error: slice bounds out of range'')
                else Inr (take (nat (end' - start)) (drop (nat start) users)))"

definition ListUsers :: "int \<Rightarrow> int \<Rightarrow> int \<Rightarrow> string \<Rightarrow> string \<Rightarrow> (User list \<times> int) mem_io" where
  "ListUsers page pageSize status role keyword =
     (let role = TrimSpace role; keyword = ToLower (TrimSpace keyword) in
      bindE (read_store (\<lambda>s. rev (sort_key us_ID (filter (\<lambda>u.
               \<not> (status > 0 \<and> adminUserStatusValue (us_Status u) \<noteq> status) \<and>
               \<not> (role \<noteq> [] \<and> us_Role u \<noteq> role) \<and>
               \<not> (keyword \<noteq> [] \<and> \<not> userMatchesKeyword u keyword)) (map snd (ms_usersByID s)))))) (\<lambda>users.
      bindE (of_result (users_page users page pageSize)) (\<lambda>part. ret (part, int (length users)))))"

definition ListAllUsers :: "User list mem_io" where
  "ListAllUsers = or_else (bindE (ListUsers 1 0 0 [] []) (\<lambda>p. ret (fst p))) []"

definition SetUserStatus :: "int \<Rightarrow> int \<Rightarrow> User mem_io" where
  "SetUserStatus userID status =
     (if status \<noteq> statusActive \<and> status \<noteq> userStatusDisabled then fail ErrInvalidCredentials
      else bindE (read_store (\<lambda>s. user_of s userID)) (\<lambda>x. case x of
             None \<Rightarrow> fail ErrUserNotFound
           | Some _ \<Rightarrow>
               bindE (modify_store (upd_user userID (\<lambda>user.
                 user\<lparr>us_Status := status, us_SessionVersion := i64 (us_SessionVersion user + 1)\<rparr>))) (\<lambda>_.
               bindE (if status \<noteq> statusActive
                      then bindE (read_store (\<lambda>s. ms_userSessionIDs s userID)) (\<lambda>sessionIDs. for_each sessionIDs revokeSessionLocked)
                      else ret ()) (\<lambda>_.
               bindE (syncUserVersionLocked userID) (\<lambda>_.
               bindE (read_store (\<lambda>s. user_of s userID)) (\<lambda>y. case y of None \<Rightarrow> fail ErrUserNotFound | Some user \<Rightarrow> ret user))))))"

section \<open>Sessions\<close>

definition GetActiveSession :: "string \<Rightarrow> Session mem_io" where
  "GetActiveSession sessionID =
     (if sessionID = [] then fail ErrSessionNotFound
      else bindE now (\<lambda>t.
           bindE (read_store (\<lambda>s. ms_sessions s sessionID)) (\<lambda>x. case x of
             None \<Rightarrow> fail ErrSessionNotFound
           | Some session \<Rightarrow>
               if se_Revoked session \<or> After t (se_ExpiresAt session) then fail ErrSessionNotFound else ret session)))"

definition session_ttl :: "int \<Rightarrow> int" where
  "session_ttl ttlSeconds = (if ttlSeconds \<le> 0 then 7 * 24 * 60 * 60 else ttlSeconds)"

definition CreateSessionForDevice ::
  "nat list option \<Rightarrow> nat list option \<Rightarrow> int \<Rightarrow> string \<Rightarrow> int \<Rightarrow> (string \<times> string) mem_io" where
  "CreateSessionForDevice r1 r2 userID device ttlSeconds =
     (let deviceType = (if device = [] then ''web'' else device) in
      bindE (of_result (randomToken r1)) (\<lambda>sessionID.
      bindE (of_result (randomSecret r2)) (\<lambda>refreshFamilySecret.
      let refreshToken = buildRefreshToken sessionID 1 refreshFamilySecret;
          refreshHash = hashToken refreshToken in
      bindE now (\<lambda>t.
      let expiresAt = t + Seconds (session_ttl ttlSeconds) in
      bindE (read_store (\<lambda>s. user_of s userID)) (\<lambda>x. case x of
        None \<Rightarrow> fail ErrUserNotFound
      | Some user \<Rightarrow>
          bindE (revokeUserDeviceSessionsLocked userID deviceType) (\<lambda>_.
          let session = \<lparr>se_ID = sessionID, se_UserID = userID, se_DeviceType = deviceType,
                se_SessionVersion = us_SessionVersion user, se_RefreshTokenHash = refreshHash,
                se_PreviousRefreshTokenHash = [], se_RefreshFamilySecret = refreshFamilySecret,
                se_RefreshGeneration = 1, se_ExpiresAt = expiresAt, se_Revoked = False\<rparr> in
          bindE (modify_store (\<lambda>s. s\<lparr>ms_sessions := (ms_sessions s)(sessionID \<mapsto> session)\<rparr>)) (\<lambda>_.
          bindE (modify_store (\<lambda>s. s\<lparr>ms_refreshIndex := (ms_refreshIndex s)(refreshHash \<mapsto> sessionID)\<rparr>)) (\<lambda>_.
          bindE (modify_store (add_session_id userID sessionID)) (\<lambda>_.
          bindE (syncSessionState session) (\<lambda>_.
          ret (sessionID, refreshToken)))))))))))"

definition CreateSession :: "nat list option \<Rightarrow> nat list option \<Rightarrow> int \<Rightarrow> int \<Rightarrow> (string \<times> string) mem_io" where
  "CreateSession r1 r2 userID ttlSeconds = CreateSessionForDevice r1 r2 userID ''web'' ttlSeconds"

text \<open>The checks \<open>RefreshSession\<close> and \<open>Logout\<close> share, up to the session whose current token was shown.\<close>

definition check_token :: "string \<Rightarrow> (string \<times> Session) mem_io" where
  "check_token refreshToken =
     (case parseRefreshToken refreshToken of
        None \<Rightarrow> fail ErrRefreshTokenInvalid
      | Some (sessionID, tokenGeneration, signature) \<Rightarrow>
          bindE now (\<lambda>t.
          bindE (read_store (\<lambda>s. ms_sessions s sessionID)) (\<lambda>x. case x of
            None \<Rightarrow> fail ErrRefreshTokenInvalid
          | Some session \<Rightarrow>
              if se_Revoked session \<or> After t (se_ExpiresAt session) then fail ErrRefreshTokenInvalid
              else if \<not> verifyRefreshTokenSignature sessionID tokenGeneration signature (se_RefreshFamilySecret session)
              then fail ErrRefreshTokenInvalid
              else if tokenGeneration < se_RefreshGeneration session
              then bindE (revokeSessionLocked sessionID) (\<lambda>_. fail ErrRefreshTokenReplayed)
              else if tokenGeneration > se_RefreshGeneration session then fail ErrRefreshTokenInvalid
              else ret (sessionID, session))))"

definition rotate :: "string \<Rightarrow> int \<Rightarrow> Session \<Rightarrow> Session" where
  "rotate newHash expiresAt session =
     session\<lparr>se_PreviousRefreshTokenHash := se_RefreshTokenHash session, se_RefreshTokenHash := newHash,
       se_RefreshGeneration := i64 (se_RefreshGeneration session + 1), se_ExpiresAt := expiresAt\<rparr>"

definition RefreshSession :: "string \<Rightarrow> int \<Rightarrow> (Session \<times> string) mem_io" where
  "RefreshSession refreshToken ttlSeconds =
     bindE (check_token refreshToken) (\<lambda>(sessionID, session).
     let newGeneration = i64 (se_RefreshGeneration session + 1);
         newRefreshToken = buildRefreshToken sessionID newGeneration (se_RefreshFamilySecret session);
         newRefreshHash = hashToken newRefreshToken in
     bindE now (\<lambda>t.
     let expiresAt = t + Seconds (session_ttl ttlSeconds) in
     bindE (modify_store (\<lambda>s. s\<lparr>ms_refreshIndex := (ms_refreshIndex s)(se_RefreshTokenHash session := None)\<rparr>)) (\<lambda>_.
     bindE (modify_store (upd_session sessionID (rotate newRefreshHash expiresAt))) (\<lambda>_.
     bindE (modify_store (\<lambda>s. s\<lparr>ms_refreshIndex := (ms_refreshIndex s)(newRefreshHash \<mapsto> sessionID)\<rparr>)) (\<lambda>_.
     bindE (syncSessionState (rotate newRefreshHash expiresAt session)) (\<lambda>_.
     ret (rotate newRefreshHash expiresAt session, newRefreshToken)))))))"

definition Logout :: "string \<Rightarrow> unit mem_io" where
  "Logout refreshToken = bindE (check_token refreshToken) (\<lambda>(sessionID, session). revokeSessionLocked sessionID)"

definition LogoutAll :: "int \<Rightarrow> unit mem_io" where
  "LogoutAll userID =
     bindE (bumpUserSessionVersionLocked userID) (\<lambda>_.
     bindE (syncUserVersionLocked userID) (\<lambda>_.
     revokeUserSessionsLocked userID))"

definition UpdatePassword :: "(string \<Rightarrow> go_error + string) \<Rightarrow> string \<Rightarrow> string \<Rightarrow> User mem_io" where
  "UpdatePassword bcrypt_hash phone newPassword =
     (if phone = [] \<or> newPassword = [] then fail ErrInvalidCredentials
      else bindE (of_result (bcrypt_hash newPassword)) (\<lambda>hash.
           bindE (read_store (\<lambda>s. ms_usersByPhone s phone)) (\<lambda>x. case x of
             None \<Rightarrow> fail ErrUserNotFound
           | Some userID \<Rightarrow>
               bindE (modify_store (upd_user userID (\<lambda>user. user\<lparr>us_PasswordHash := hash\<rparr>))) (\<lambda>_.
               bindE (bumpUserSessionVersionLocked userID) (\<lambda>_.
               bindE (syncUserVersionLocked userID) (\<lambda>_.
               bindE (revokeUserSessionsLocked userID) (\<lambda>_.
               bindE (read_store (\<lambda>s. user_of s userID)) (\<lambda>y. case y of None \<Rightarrow> fail ErrUserNotFound | Some user \<Rightarrow> ret user))))))))"

section \<open>A new store\<close>

definition empty_store :: Store where
  "empty_store = \<lparr>ms_nextUserID = 1002, ms_usersByID = [], ms_usersByPhone = Map.empty, ms_codes = Map.empty,
     ms_sessions = Map.empty, ms_refreshIndex = Map.empty, ms_userSessionIDs = (\<lambda>_. [])\<rparr>"

text \<open>\<open>seedDemoUser\<close>: \<open>name1\<close> and \<open>name2\<close> are the Chinese display names of the demo accounts.\<close>

definition demo_user :: "int \<Rightarrow> string \<Rightarrow> string \<Rightarrow> string \<Rightarrow> string \<Rightarrow> string \<Rightarrow> User" where
  "demo_user i phone name hash role createTime = \<lparr>us_ID = i, us_Phone = phone, us_DisplayName = name,
     us_PasswordHash = hash, us_SessionVersion = 1, us_Role = role, us_Status = statusActive, us_CreateTime = createTime\<rparr>"

definition seedDemoUser :: "(string \<Rightarrow> go_error + string) \<Rightarrow> string \<Rightarrow> string \<Rightarrow> string \<Rightarrow> string \<Rightarrow> unit mem_io" where
  "seedDemoUser bcrypt_hash name1 name2 createTime password =
     bindE (of_result (bcrypt_hash (if password = [] then ''flashmall123'' else password))) (\<lambda>hash.
     bindE (modify_store (put_user (demo_user 1001 ''13800000001'' name1 hash ''user'' createTime))) (\<lambda>_.
     bindE (syncUserVersionLocked 1001) (\<lambda>_.
     bindE (of_result (bcrypt_hash ''admin123'')) (\<lambda>adminHash.
     bindE (modify_store (put_user (demo_user 1002 ''13800000002'' name2 adminHash ''admin'' createTime))) (\<lambda>_.
     bindE (modify_store (\<lambda>s. s\<lparr>ms_nextUserID := 1003\<rparr>)) (\<lambda>_.
     syncUserVersionLocked 1002))))))"

definition NewStoreWithState :: "(string \<Rightarrow> go_error + string) \<Rightarrow> string \<Rightarrow> string \<Rightarrow> string \<Rightarrow> string \<Rightarrow> unit mem_io" where
  "NewStoreWithState bcrypt_hash name1 name2 createTime demoPassword =
     bindE (modify_store (\<lambda>_. empty_store)) (\<lambda>_.
     or_else (seedDemoUser bcrypt_hash name1 name2 createTime demoPassword) ())"

end
