(* ===== verification/Auth_Sql_Store.thy ===== *)
theory Auth_Sql_Store
  imports Auth_Store
begin

text \<open>
  The MySQL store of the auth service (\<open>app/auth/api/internal/authstore/sqlstore.go\<close>,
  \<open>sqlstore_user.go\<close>, \<open>sqlstore_session.go\<close>, \<open>sqlstore_code.go\<close>), the second implementation of
  \<open>AuthStore\<close>.  A session row is a \<open>Session\<close> whose \<open>se_Revoked\<close> says that the status column is not 1; a
  verification code's id is its place in the table.  The id of a new user comes from a counter that a
  rollback does not touch.  Each method is one step.  \<open>RefreshSession\<close> and \<open>Logout\<close> lock the row they
  read; \<open>ConsumeCode\<close> and \<open>CreateSessionForDevice\<close> read without a lock, so for them one step means that
  two calls for the same phone or device do not overlap.
\<close>

record user_row =
  ur_display_name :: string
  ur_status :: int
  ur_session_version :: int
  ur_role :: string
  ur_create_time :: string

record code_row =
  cr_target :: string
  cr_scene :: string
  cr_code_hash :: string
  cr_status :: int
  cr_expires_at :: int
  cr_attempt_count :: int

record auth_db =
  ad_users :: "(int \<times> user_row) list"
  ad_identities :: "(string \<times> int) list"
  ad_credentials :: "int \<rightharpoonup> string"
  ad_sessions :: "(string \<times> Session) list"
  ad_codes :: "code_row list"

record sql_world = auth_env +
  sw_db :: auth_db
  sw_next :: int

type_synonym 'a sql_io = "(sql_world, 'a) io"

definition auth_stmt :: "(auth_db \<Rightarrow> (go_error + 'a) \<times> auth_db) \<Rightarrow> 'a sql_io" where
  "auth_stmt f = ext_call (\<lambda>w. case f (sw_db w) of (r, d) \<Rightarrow> (r, w\<lparr>sw_db := d\<rparr>))"

definition auth_query :: "(auth_db \<Rightarrow> 'a) \<Rightarrow> 'a sql_io" where
  "auth_query f = auth_stmt (\<lambda>d. (Inr (f d), d))"

definition exec_sql :: "(auth_db \<Rightarrow> auth_db) \<Rightarrow> unit sql_io" where
  "exec_sql f = auth_stmt (\<lambda>d. (Inr (), f d))"

definition tx :: "'a sql_io \<Rightarrow> 'a sql_io" where
  "tx body = with_tx sw_db (\<lambda>d w. w\<lparr>sw_db := d\<rparr>) id (\<lambda>_ e. e) body"

definition rawDB :: "unit sql_io" where
  "rawDB = ext_call (ret ())"

definition ErrDuplicate :: go_error where
  "ErrDuplicate = NamedError ''Error 1062: Duplicate entry''"

definition isDuplicateKey :: "go_error \<Rightarrow> bool" where
  "isDuplicateKey e \<longleftrightarrow> e = ErrDuplicate"

definition syncUserVersion :: "int \<Rightarrow> int \<Rightarrow> unit sql_io" where
  "syncUserVersion userID version = (\<lambda>w.
     if \<not> ae_state w \<or> userID \<le> 0 \<or> version \<le> 0 then ret () w else or_else (SetUserVersion userID version) () w)"

definition defaultDisplayName :: "int \<Rightarrow> string" where
  "defaultDisplayName userID = (if userID > 0 then ''Flash Mall User '' @ show_int userID else ''Flash Mall User'')"

section \<open>Rows as users\<close>

definition phone_of :: "auth_db \<Rightarrow> int \<Rightarrow> string" where
  "phone_of d userID = (case filter (\<lambda>p. snd p = userID) (ad_identities d) of [] \<Rightarrow> [] | p # _ \<Rightarrow> fst p)"

definition hash_of :: "auth_db \<Rightarrow> int \<Rightarrow> string" where
  "hash_of d userID = (case ad_credentials d userID of None \<Rightarrow> [] | Some h \<Rightarrow> h)"

definition scan_user :: "auth_db \<Rightarrow> int \<Rightarrow> user_row \<Rightarrow> User" where
  "scan_user d userID r = \<lparr>us_ID = userID, us_Phone = phone_of d userID,
     us_DisplayName = (if ur_display_name r = [] then defaultDisplayName userID else ur_display_name r),
     us_PasswordHash = hash_of d userID, us_SessionVersion = ur_session_version r, us_Role = ur_role r,
     us_Status = ur_status r, us_CreateTime = ur_create_time r\<rparr>"

text \<open>\<open>queryUser\<close> does not select the status and the creation time.\<close>

definition queryUser :: "auth_db \<Rightarrow> int \<Rightarrow> user_row \<Rightarrow> User" where
  "queryUser d userID r = (scan_user d userID r)\<lparr>us_Status := statusActive, us_CreateTime := []\<rparr>"

definition active_row :: "auth_db \<Rightarrow> int \<Rightarrow> user_row option" where
  "active_row d userID = (case map_of (ad_users d) userID of
       None \<Rightarrow> None | Some r \<Rightarrow> if ur_status r = statusActive then Some r else None)"

definition select_by_id :: "int \<Rightarrow> auth_db \<Rightarrow> User option" where
  "select_by_id userID d = map_option (queryUser d userID) (active_row d userID)"

definition select_by_phone :: "string \<Rightarrow> auth_db \<Rightarrow> User option" where
  "select_by_phone phone d =
     Option.bind (map_of (ad_identities d) phone) (\<lambda>i. map_option (\<lambda>r. (queryUser d i r)\<lparr>us_Phone := phone\<rparr>) (active_row d i))"

definition found :: "go_error \<Rightarrow> 'a option \<Rightarrow> 'a sql_io" where
  "found e x = (case x of None \<Rightarrow> fail e | Some a \<Rightarrow> ret a)"

definition sql_GetUserByPhone :: "string \<Rightarrow> User sql_io" where
  "sql_GetUserByPhone phone =
     (if phone = [] then fail ErrUserNotFound
      else bindE rawDB (\<lambda>_. bindE (auth_query (select_by_phone phone)) (found ErrUserNotFound)))"

definition sql_GetUserByID :: "int \<Rightarrow> User sql_io" where
  "sql_GetUserByID userID =
     (if userID \<le> 0 then fail ErrUserNotFound
      else bindE rawDB (\<lambda>_. bindE (auth_query (select_by_id userID)) (found ErrUserNotFound)))"

definition getUserByIDAnyStatus :: "int \<Rightarrow> User sql_io" where
  "getUserByIDAnyStatus userID =
     bindE rawDB (\<lambda>_. bindE (auth_query (\<lambda>d. map_option (scan_user d userID) (map_of (ad_users d) userID))) (found ErrUserNotFound))"

definition sql_GetUserByIDAnyStatus :: "int \<Rightarrow> User sql_io" where
  "sql_GetUserByIDAnyStatus userID = (if userID \<le> 0 then fail ErrUserNotFound else getUserByIDAnyStatus userID)"

definition sql_Authenticate :: "(string \<Rightarrow> string \<Rightarrow> bool) \<Rightarrow> int \<Rightarrow> string \<Rightarrow> string \<Rightarrow> User sql_io" where
  "sql_Authenticate bcrypt_compare userID phone password =
     bindE (attempt (if phone \<noteq> [] then sql_GetUserByPhone phone else sql_GetUserByID userID)) (\<lambda>x. case x of
       Inl e \<Rightarrow> fail ErrInvalidCredentials
     | Inr user \<Rightarrow>
         if \<not> bcrypt_compare (us_PasswordHash user) password then fail ErrInvalidCredentials else ret user)"

section \<open>Statements\<close>

definition insert_user :: "int \<Rightarrow> string \<Rightarrow> auth_db \<Rightarrow> auth_db" where
  "insert_user userID createTime d = d\<lparr>ad_users := ad_users d @ [(userID,
     \<lparr>ur_display_name = [], ur_status = statusActive, ur_session_version = 1, ur_role = ''user'', ur_create_time = createTime\<rparr>)]\<rparr>"

definition upd_row :: "int \<Rightarrow> (user_row \<Rightarrow> user_row) \<Rightarrow> auth_db \<Rightarrow> auth_db" where
  "upd_row userID f d = d\<lparr>ad_users := map (\<lambda>(k, r). (k, if k = userID then f r else r)) (ad_users d)\<rparr>"

definition insert_identity :: "int \<Rightarrow> string \<Rightarrow> auth_db \<Rightarrow> (go_error + unit) \<times> auth_db" where
  "insert_identity userID phone d =
     (if map_of (ad_identities d) phone \<noteq> None then (Inl ErrDuplicate, d)
      else (Inr (), d\<lparr>ad_identities := ad_identities d @ [(phone, userID)]\<rparr>))"

definition insert_credential :: "int \<Rightarrow> string \<Rightarrow> auth_db \<Rightarrow> (go_error + unit) \<times> auth_db" where
  "insert_credential userID hash d =
     (if ad_credentials d userID \<noteq> None then (Inl ErrDuplicate, d)
      else (Inr (), d\<lparr>ad_credentials := (ad_credentials d)(userID \<mapsto> hash)\<rparr>))"

definition set_credential :: "int \<Rightarrow> string \<Rightarrow> auth_db \<Rightarrow> auth_db" where
  "set_credential userID hash d = d\<lparr>ad_credentials := (ad_credentials d)(userID := map_option (\<lambda>_. hash) (ad_credentials d userID))\<rparr>"

text \<open>\<open>UPDATE user_sessions SET status = 3 WHERE \<open>P\<close> AND status = 1\<close>.\<close>

definition revoke_where :: "(Session \<Rightarrow> bool) \<Rightarrow> auth_db \<Rightarrow> auth_db" where
  "revoke_where P d = d\<lparr>ad_sessions := map (\<lambda>(k, se). (k, if P se \<and> \<not> se_Revoked se then se\<lparr>se_Revoked := True\<rparr> else se)) (ad_sessions d)\<rparr>"

definition active_ids :: "int \<Rightarrow> string \<Rightarrow> auth_db \<Rightarrow> string list" where
  "active_ids userID deviceType d =
     map fst (filter (\<lambda>(k, se). se_UserID se = userID \<and> (deviceType = [] \<or> se_DeviceType se = deviceType) \<and> \<not> se_Revoked se) (ad_sessions d))"

definition listActiveSessionIDsTx :: "int \<Rightarrow> string \<Rightarrow> string list sql_io" where
  "listActiveSessionIDsTx userID deviceType = auth_query (active_ids userID deviceType)"

definition insert_session :: "Session \<Rightarrow> auth_db \<Rightarrow> (go_error + unit) \<times> auth_db" where
  "insert_session se d =
     (if list_ex (\<lambda>(k, x). k = se_ID se \<or> se_RefreshTokenHash x = se_RefreshTokenHash se) (ad_sessions d) then (Inl ErrDuplicate, d)
      else (Inr (), d\<lparr>ad_sessions := ad_sessions d @ [(se_ID se, se)]\<rparr>))"

section \<open>Users\<close>

definition next_user_id :: "int sql_io" where
  "next_user_id w = (Inr (sw_next w), w\<lparr>sw_next := sw_next w + 1\<rparr>)"

definition sql_CreateUser :: "(string \<Rightarrow> go_error + string) \<Rightarrow> string \<Rightarrow> string \<Rightarrow> string \<Rightarrow> string \<Rightarrow> User sql_io" where
  "sql_CreateUser bcrypt_hash createTime phone displayName password =
     (if phone = [] \<or> password = [] then fail ErrInvalidCredentials
      else bindE rawDB (\<lambda>_.
           bindE (of_result (bcrypt_hash password)) (\<lambda>hash.
           bindE (tx
             (bindE next_user_id (\<lambda>userID.
              bindE (exec_sql (insert_user userID createTime)) (\<lambda>_.
              let name = (if displayName = [] then defaultDisplayName userID else displayName) in
              bindE (exec_sql (upd_row userID (\<lambda>r. r\<lparr>ur_display_name := name\<rparr>))) (\<lambda>_.
              bindE (map_err (\<lambda>e. if isDuplicateKey e then ErrUserExists else e) (auth_stmt (insert_identity userID phone))) (\<lambda>_.
              bindE (auth_stmt (insert_credential userID hash)) (\<lambda>_.
              ret \<lparr>us_ID = userID, us_Phone = phone, us_DisplayName = name, us_PasswordHash = hash, us_SessionVersion = 1,
                   us_Role = ''user'', us_Status = statusActive, us_CreateTime = []\<rparr>)))))))
           (\<lambda>user. bindE (syncUserVersion (us_ID user) (us_SessionVersion user)) (\<lambda>_. ret user)))))"

definition sql_UpdatePassword :: "(string \<Rightarrow> go_error + string) \<Rightarrow> string \<Rightarrow> string \<Rightarrow> User sql_io" where
  "sql_UpdatePassword bcrypt_hash phone newPassword =
     (if phone = [] \<or> newPassword = [] then fail ErrInvalidCredentials
      else bindE rawDB (\<lambda>_.
           bindE (of_result (bcrypt_hash newPassword)) (\<lambda>hash.
           bindE (tx
             (bindE (bindE (auth_query (select_by_phone phone)) (found ErrUserNotFound)) (\<lambda>user.
              let nextVersion = (let v = i64 (us_SessionVersion user + 1) in if v \<le> 0 then 1 else v) in
              bindE (exec_sql (upd_row (us_ID user) (\<lambda>r. r\<lparr>ur_session_version := nextVersion\<rparr>))) (\<lambda>_.
              bindE (exec_sql (set_credential (us_ID user) hash)) (\<lambda>_.
              bindE (listActiveSessionIDsTx (us_ID user) []) (\<lambda>sessionIDs.
              bindE (exec_sql (revoke_where (\<lambda>se. se_UserID se = us_ID user))) (\<lambda>_.
              ret (user\<lparr>us_PasswordHash := hash, us_SessionVersion := nextVersion\<rparr>, sessionIDs))))))))
           (\<lambda>(user, sessionIDs).
              bindE (for_each sessionIDs deleteSessionState) (\<lambda>_.
              bindE (syncUserVersion (us_ID user) (us_SessionVersion user)) (\<lambda>_. ret user))))))"

text \<open>\<open>LIKE\<close> with the keyword between two percent signs; the keyword's own wildcards are not interpreted here.\<close>

definition sql_ListUsers :: "int \<Rightarrow> int \<Rightarrow> int \<Rightarrow> string \<Rightarrow> string \<Rightarrow> (User list \<times> int) sql_io" where
  "sql_ListUsers page pageSize status role keyword =
     (let role = TrimSpace role; keyword = TrimSpace keyword;
          like = (\<lambda>s. Contains (ToLower s) (ToLower keyword));
          hit = (\<lambda>d (i, r). (status > 0 \<longrightarrow> ur_status r = status) \<and> (role \<noteq> [] \<longrightarrow> ur_role r = role) \<and>
                   (keyword \<noteq> [] \<longrightarrow> like (ur_display_name r) \<or> like (phone_of d i) \<or> like (show_int i)));
          rows = (\<lambda>d. rev (sort_key fst (filter (hit d) (ad_users d)))) in
      bindE rawDB (\<lambda>_.
      bindE (auth_query (\<lambda>d. int (length (rows d)))) (\<lambda>total.
      bindE (auth_stmt (\<lambda>d.
        let users = map (\<lambda>(i, r). scan_user d i r) (rows d) in
        if pageSize \<le> 0 then (Inr users, d)
        else let page = (if page \<le> 0 then 1 else page); offset = i64 (i64 (page - 1) * pageSize) in
             if offset < 0 then (Inl (RawError ''Error 1064: You have an error in your SQL syntax''), d)
             else (Inr (take (nat pageSize) (drop (nat offset) users)), d))) (\<lambda>users.
      ret (users, total)))))"

definition sql_ListAllUsers :: "User list sql_io" where
  "sql_ListAllUsers = or_else (bindE (sql_ListUsers 1 0 0 [] []) (\<lambda>p. ret (fst p))) []"

definition sql_SetUserStatus :: "int \<Rightarrow> int \<Rightarrow> User sql_io" where
  "sql_SetUserStatus userID newStatus =
     (if newStatus \<noteq> statusActive \<and> newStatus \<noteq> userStatusDisabled then fail ErrInvalidCredentials
      else bindE rawDB (\<lambda>_.
           bindE (tx
             (bindE (bindE (auth_query (\<lambda>d. map_option (\<lambda>r. ur_session_version r + 1) (map_of (ad_users d) userID))) (found ErrUserNotFound)) (\<lambda>nextVersion.
              bindE (auth_stmt (\<lambda>d. (Inr (map_of (ad_users d) userID \<noteq> None), upd_row userID (\<lambda>r. r\<lparr>ur_status := newStatus, ur_session_version := nextVersion\<rparr>) d))) (\<lambda>changed.
              if \<not> changed then fail ErrUserNotFound
              else if newStatus \<noteq> statusActive
              then bindE (auth_query (active_ids userID [])) (\<lambda>sessionIDs.
                   bindE (exec_sql (revoke_where (\<lambda>se. se_UserID se = userID))) (\<lambda>_. ret (nextVersion, sessionIDs)))
              else ret (nextVersion, [])))))
           (\<lambda>(nextVersion, sessionIDs).
              bindE (for_each sessionIDs deleteSessionState) (\<lambda>_.
              bindE (syncUserVersion userID nextVersion) (\<lambda>_.
              getUserByIDAnyStatus userID)))))"

section \<open>Sessions\<close>

definition with_active_user :: "string \<Rightarrow> auth_db \<Rightarrow> Session option" where
  "with_active_user sessionID d = (case map_of (ad_sessions d) sessionID of
       None \<Rightarrow> None | Some se \<Rightarrow> if active_row d (se_UserID se) = None then None else Some se)"

definition sql_GetActiveSession :: "string \<Rightarrow> Session sql_io" where
  "sql_GetActiveSession sessionID =
     (if sessionID = [] then fail ErrSessionNotFound
      else bindE rawDB (\<lambda>_.
           bindE (bindE (auth_query (with_active_user sessionID)) (found ErrSessionNotFound)) (\<lambda>session.
           bindE now (\<lambda>t.
           if se_Revoked session \<or> After t (se_ExpiresAt session) then fail ErrSessionNotFound else ret session))))"

definition sql_CreateSessionForDevice ::
  "nat list option \<Rightarrow> nat list option \<Rightarrow> int \<Rightarrow> string \<Rightarrow> int \<Rightarrow> (string \<times> string) sql_io" where
  "sql_CreateSessionForDevice r1 r2 userID device ttlSeconds =
     (if userID \<le> 0 then fail ErrUserNotFound
      else let deviceType = (if device = [] then ''web'' else device) in
      bindE rawDB (\<lambda>_.
      bindE (of_result (randomToken r1)) (\<lambda>sessionID.
      bindE (of_result (randomSecret r2)) (\<lambda>refreshFamilySecret.
      let refreshToken = buildRefreshToken sessionID 1 refreshFamilySecret in
      bindE (tx
        (bindE (bindE (auth_query (select_by_id userID)) (found ErrUserNotFound)) (\<lambda>user.
         bindE (listActiveSessionIDsTx userID deviceType) (\<lambda>oldSessionIDs.
         bindE (if oldSessionIDs \<noteq> [] then exec_sql (revoke_where (\<lambda>se. se_UserID se = userID \<and> se_DeviceType se = deviceType)) else ret ()) (\<lambda>_.
         bindE now (\<lambda>t.
         let session = \<lparr>se_ID = sessionID, se_UserID = userID, se_DeviceType = deviceType,
               se_SessionVersion = us_SessionVersion user, se_RefreshTokenHash = hashToken refreshToken,
               se_PreviousRefreshTokenHash = [], se_RefreshFamilySecret = refreshFamilySecret,
               se_RefreshGeneration = 1, se_ExpiresAt = t + Seconds (session_ttl ttlSeconds), se_Revoked = False\<rparr> in
         bindE (auth_stmt (insert_session session)) (\<lambda>_.
         ret (session, oldSessionIDs))))))))
      (\<lambda>(session, oldSessionIDs).
         bindE (for_each oldSessionIDs deleteSessionState) (\<lambda>_.
         bindE (syncSessionState session) (\<lambda>_.
         ret (sessionID, refreshToken))))))))"

definition sql_CreateSession :: "nat list option \<Rightarrow> nat list option \<Rightarrow> int \<Rightarrow> int \<Rightarrow> (string \<times> string) sql_io" where
  "sql_CreateSession r1 r2 userID ttlSeconds = sql_CreateSessionForDevice r1 r2 userID ''web'' ttlSeconds"

text \<open>
  What the transactions of \<open>RefreshSession\<close> and \<open>Logout\<close> share: the row is read and checked; a token of
  an earlier generation revokes the session (\<open>Inl\<close>), the current one goes on with \<open>k\<close>.
\<close>

definition sql_check_token ::
  "(string \<Rightarrow> auth_db \<Rightarrow> Session option) \<Rightarrow> string \<Rightarrow> int \<Rightarrow> string \<Rightarrow> (Session \<Rightarrow> 'a sql_io) \<Rightarrow> (Session + 'a) sql_io" where
  "sql_check_token sel sessionID tokenGeneration signature k =
     bindE (bindE (auth_query (sel sessionID)) (found ErrRefreshTokenInvalid)) (\<lambda>session.
     bindE now (\<lambda>t.
     if se_Revoked session \<or> After t (se_ExpiresAt session) then fail ErrRefreshTokenInvalid
     else if \<not> verifyRefreshTokenSignature sessionID tokenGeneration signature (se_RefreshFamilySecret session)
     then fail ErrRefreshTokenInvalid
     else if tokenGeneration < se_RefreshGeneration session
     then bindE (exec_sql (revoke_where (\<lambda>se. se_ID se = se_ID session))) (\<lambda>_. ret (Inl session))
     else if tokenGeneration > se_RefreshGeneration session then fail ErrRefreshTokenInvalid
     else bindE (k session) (\<lambda>a. ret (Inr a))))"

text \<open>The guarded update of a refresh; its result says whether a row matched.\<close>

definition update_session :: "Session \<Rightarrow> int \<Rightarrow> string \<Rightarrow> auth_db \<Rightarrow> (go_error + bool) \<times> auth_db" where
  "update_session new tokenGeneration refreshHash d =
     (let hit = (\<lambda>(k, se). k = se_ID new \<and> se_RefreshGeneration se = tokenGeneration \<and>
                   se_RefreshTokenHash se = refreshHash \<and> \<not> se_Revoked se) in
      if list_ex hit (ad_sessions d) \<and>
         list_ex (\<lambda>(k, se). k \<noteq> se_ID new \<and> se_RefreshTokenHash se = se_RefreshTokenHash new) (ad_sessions d)
      then (Inl ErrDuplicate, d)
      else (Inr (list_ex hit (ad_sessions d)),
            d\<lparr>ad_sessions := map (\<lambda>(k, se). (k, if hit (k, se) then
                se\<lparr>se_RefreshGeneration := se_RefreshGeneration new, se_RefreshTokenHash := se_RefreshTokenHash new,
                   se_PreviousRefreshTokenHash := se_PreviousRefreshTokenHash new, se_ExpiresAt := se_ExpiresAt new\<rparr>
              else se)) (ad_sessions d)\<rparr>))"

definition sql_RefreshSession :: "string \<Rightarrow> int \<Rightarrow> (Session \<times> string) sql_io" where
  "sql_RefreshSession refreshToken ttlSeconds =
     (if refreshToken = [] then fail ErrRefreshTokenInvalid
      else case parseRefreshToken refreshToken of
        None \<Rightarrow> fail ErrRefreshTokenInvalid
      | Some (sessionID, tokenGeneration, signature) \<Rightarrow>
          bindE rawDB (\<lambda>_.
          bindE (tx (sql_check_token with_active_user sessionID tokenGeneration signature (\<lambda>session.
            let newRefreshToken = buildRefreshToken (se_ID session) (i64 (se_RefreshGeneration session + 1)) (se_RefreshFamilySecret session) in
            bindE now (\<lambda>t.
            let new = rotate (hashToken newRefreshToken) (t + Seconds (session_ttl ttlSeconds)) session in
            bindE (auth_stmt (update_session new tokenGeneration (hashToken refreshToken))) (\<lambda>rows.
            if \<not> rows then fail ErrRefreshTokenInvalid else ret (new, newRefreshToken))))))
          (\<lambda>x. case x of
             Inl session \<Rightarrow> bindE (deleteSessionState (se_ID session)) (\<lambda>_. fail ErrRefreshTokenReplayed)
           | Inr (session, newRefreshToken) \<Rightarrow> bindE (syncSessionState session) (\<lambda>_. ret (session, newRefreshToken)))))"

definition sql_Logout :: "string \<Rightarrow> unit sql_io" where
  "sql_Logout refreshToken =
     (if refreshToken = [] then fail ErrRefreshTokenInvalid
      else case parseRefreshToken refreshToken of
        None \<Rightarrow> fail ErrRefreshTokenInvalid
      | Some (sessionID, tokenGeneration, signature) \<Rightarrow>
          bindE rawDB (\<lambda>_.
          bindE (tx (sql_check_token (\<lambda>sid d. map_of (ad_sessions d) sid) sessionID tokenGeneration signature (\<lambda>session.
            bindE (exec_sql (revoke_where (\<lambda>se. se_ID se = se_ID session))) (\<lambda>_. ret session))))
          (\<lambda>x. case x of
             Inl session \<Rightarrow> bindE (deleteSessionState (se_ID session)) (\<lambda>_. fail ErrRefreshTokenReplayed)
           | Inr session \<Rightarrow> deleteSessionState (se_ID session))))"

text \<open>\<open>LogoutAll\<close> has no result: whatever goes wrong, the caller does not learn it.\<close>

definition sql_logout_all :: "int \<Rightarrow> unit sql_io" where
  "sql_logout_all userID =
     bindE rawDB (\<lambda>_.
     bindE (tx
       (bindE (listActiveSessionIDsTx userID []) (\<lambda>sessionIDs.
        bindE (bindE (auth_query (\<lambda>d. map_option ur_session_version (map_of (ad_users d) userID))) (found ErrNoRows)) (\<lambda>version.
        let nextVersion = (let v = i64 (version + 1) in if v \<le> 0 then 1 else v) in
        bindE (exec_sql (upd_row userID (\<lambda>r. r\<lparr>ur_session_version := nextVersion\<rparr>))) (\<lambda>_.
        bindE (exec_sql (revoke_where (\<lambda>se. se_UserID se = userID))) (\<lambda>_.
        ret (sessionIDs, nextVersion)))))))
     (\<lambda>(sessionIDs, nextVersion).
        bindE (for_each sessionIDs deleteSessionState) (\<lambda>_. syncUserVersion userID nextVersion)))"

definition sql_LogoutAll :: "int \<Rightarrow> unit sql_io" where
  "sql_LogoutAll userID = (if userID \<le> 0 then ret () else or_else (sql_logout_all userID) ())"

section \<open>Codes\<close>

definition active_code :: "string \<Rightarrow> string \<Rightarrow> code_row \<Rightarrow> bool" where
  "active_code phone scene r \<longleftrightarrow> cr_target r = phone \<and> cr_scene r = scene \<and> cr_status r = statusActive"

definition revoke_codes :: "string \<Rightarrow> string \<Rightarrow> auth_db \<Rightarrow> auth_db" where
  "revoke_codes phone scene d = d\<lparr>ad_codes := map (\<lambda>r. if active_code phone scene r then r\<lparr>cr_status := statusRevoked\<rparr> else r) (ad_codes d)\<rparr>"

definition sql_IssueCode :: "string \<Rightarrow> string \<Rightarrow> int \<Rightarrow> (string \<times> int) sql_io" where
  "sql_IssueCode phone scene ttlSeconds =
     (if phone = [] \<or> scene = [] then fail ErrInvalidCode
      else bindE rawDB (\<lambda>_.
           bindE now (\<lambda>t.
           let expiresAt = t + Seconds (if ttlSeconds \<le> 0 then 300 else ttlSeconds) in
           tx (bindE (exec_sql (revoke_codes phone scene)) (\<lambda>_.
               bindE (exec_sql (\<lambda>d. d\<lparr>ad_codes := ad_codes d @ [\<lparr>cr_target = phone, cr_scene = scene,
                  cr_code_hash = hashToken issued_code, cr_status = statusActive, cr_expires_at = expiresAt, cr_attempt_count = 0\<rparr>]\<rparr>)) (\<lambda>_.
               ret (issued_code, expiresAt)))))))"

text \<open>The newest active code of a phone and scene, with its place in the table.\<close>

definition newest_code :: "string \<Rightarrow> string \<Rightarrow> auth_db \<Rightarrow> (nat \<times> code_row) option" where
  "newest_code phone scene d =
     (case filter (\<lambda>(i, r). active_code phone scene r) (rev (enumerate 0 (ad_codes d))) of [] \<Rightarrow> None | x # _ \<Rightarrow> Some x)"

definition set_code_row :: "nat \<Rightarrow> (code_row \<Rightarrow> code_row) \<Rightarrow> unit sql_io" where
  "set_code_row i f = exec_sql (\<lambda>d. d\<lparr>ad_codes := (ad_codes d)[i := f (ad_codes d ! i)]\<rparr>)"

definition sql_ConsumeCode :: "string \<Rightarrow> string \<Rightarrow> string \<Rightarrow> int \<Rightarrow> unit sql_io" where
  "sql_ConsumeCode phone scene code maxAttempts =
     (if phone = [] \<or> scene = [] \<or> code = [] then fail ErrInvalidCode
      else bindE rawDB (\<lambda>_.
           bindE (tx
             (bindE (bindE (auth_query (newest_code phone scene)) (found ErrInvalidCode)) (\<lambda>(i, r).
              bindE now (\<lambda>t.
              if After t (cr_expires_at r) then bindE (set_code_row i (\<lambda>r. r\<lparr>cr_status := statusRevoked\<rparr>)) (\<lambda>_. ret False)
              else if cr_code_hash r \<noteq> hashToken code then
                (let n = i64 (cr_attempt_count r + 1) in
                 bindE (set_code_row i (\<lambda>r. if maxAttempts > 0 \<and> n \<ge> maxAttempts
                          then r\<lparr>cr_attempt_count := n, cr_status := statusRevoked\<rparr> else r\<lparr>cr_attempt_count := n\<rparr>)) (\<lambda>_. ret False))
              else bindE (set_code_row i (\<lambda>r. r\<lparr>cr_status := statusUsed\<rparr>)) (\<lambda>_. ret True)))))
           (\<lambda>ok. if ok then ret () else fail ErrInvalidCode)))"

definition sql_ResetCode :: "string \<Rightarrow> string \<Rightarrow> unit sql_io" where
  "sql_ResetCode phone scene =
     (if phone = [] \<or> scene = [] then ret ()
      else bindE rawDB (\<lambda>_. exec_sql (revoke_codes phone scene)))"

end
