(* ===== verification/Session_Contract.thy ===== *)
theory Session_Contract
  imports Auth_Sql_Store
begin

text \<open>
  What the rest of the auth service relies on from a store of sessions, as a locale: along the steps
  of the store a session keeps its owner, its device, its secret and its version, a revoked session
  stays revoked, and the generation of its refresh token grows; a refresh succeeds only for the
  current generation of a live session.  From these laws follow, once for both stores, that a refresh
  token works once and that an ended session never comes back.
\<close>

section \<open>Sessions over time\<close>

text \<open>A generation that wrapped around is not positive; no token names it, so it stays.\<close>

definition later_gen :: "int \<Rightarrow> int \<Rightarrow> bool" where
  "later_gen g g' \<longleftrightarrow> g' \<le> 0 \<or> (0 < g \<and> g \<le> g')"

definition session_later :: "Session \<Rightarrow> Session \<Rightarrow> bool" where
  "session_later se se' \<longleftrightarrow> se_ID se' = se_ID se \<and> se_UserID se' = se_UserID se \<and> se_DeviceType se' = se_DeviceType se \<and>
     se_RefreshFamilySecret se' = se_RefreshFamilySecret se \<and> se_SessionVersion se' = se_SessionVersion se \<and>
     (se_Revoked se \<longrightarrow> se_Revoked se') \<and> later_gen (se_RefreshGeneration se) (se_RefreshGeneration se')"

definition evolves :: "(string \<rightharpoonup> Session) \<Rightarrow> (string \<rightharpoonup> Session) \<Rightarrow> bool" where
  "evolves V V' \<longleftrightarrow> (\<forall>sid se. V sid = Some se \<longrightarrow> (\<exists>se'. V' sid = Some se' \<and> session_later se se'))"

text \<open>At most one live session for a user on a device.\<close>

definition single_session :: "(string \<rightharpoonup> Session) \<Rightarrow> bool" where
  "single_session V \<longleftrightarrow> (\<forall>sid sid' se se'. V sid = Some se \<longrightarrow> V sid' = Some se' \<longrightarrow> \<not> se_Revoked se \<longrightarrow> \<not> se_Revoked se' \<longrightarrow>
     se_UserID se = se_UserID se' \<longrightarrow> se_DeviceType se = se_DeviceType se' \<longrightarrow> sid = sid')"

definition ids_match :: "(string \<rightharpoonup> Session) \<Rightarrow> bool" where
  "ids_match V \<longleftrightarrow> (\<forall>sid se. V sid = Some se \<longrightarrow> se_ID se = sid)"

definition all_ended :: "int \<Rightarrow> (string \<rightharpoonup> Session) \<Rightarrow> bool" where
  "all_ended u V \<longleftrightarrow> (\<forall>sid se. V sid = Some se \<longrightarrow> se_UserID se = u \<longrightarrow> se_Revoked se)"

lemma later_gen_refl [simp]: "later_gen g g"
  by (auto simp: later_gen_def)

lemma later_gen_trans: "later_gen a b \<Longrightarrow> later_gen b c \<Longrightarrow> later_gen a c"
  by (auto simp: later_gen_def)

lemma later_gen_next: "later_gen g (i64 (g + 1))" if "0 < g" "in_i64 g"
proof (cases "in_i64 (g + 1)")
  case True
  then show ?thesis using that by (simp add: later_gen_def i64_simps)
next
  case False
  with that have "g = 2 ^ 63 - 1" by (auto simp: in_i64_def)
  then show ?thesis by (simp add: later_gen_def i64_def)
qed

lemma i64_next_pos: "0 < i64 (g + 1) \<Longrightarrow> 0 < g \<Longrightarrow> in_i64 g \<Longrightarrow> i64 (g + 1) = g + 1"
proof (cases "in_i64 (g + 1)")
  case False
  moreover assume "0 < g" "in_i64 g"
  ultimately have "g = 2 ^ 63 - 1" by (auto simp: in_i64_def)
  moreover assume "0 < i64 (g + 1)"
  ultimately show ?thesis by (simp add: i64_def)
qed (simp add: i64_simps)

lemma session_later_refl [simp]: "session_later se se"
  by (simp add: session_later_def)

lemma session_later_trans: "session_later a b \<Longrightarrow> session_later b c \<Longrightarrow> session_later a c"
  using later_gen_trans by (auto simp: session_later_def)

lemma evolves_refl [simp]: "evolves V V"
  by (simp add: evolves_def)

lemma evolves_trans: "evolves a b \<Longrightarrow> evolves b c \<Longrightarrow> evolves a c"
  unfolding evolves_def using session_later_trans by meson

lemma evolves_upd: "(\<And>se. V sid = Some se \<Longrightarrow> session_later se (f se)) \<Longrightarrow> evolves V (V(sid := map_option f (V sid)))"
  by (auto simp: evolves_def)

lemma evolves_new: "V sid = None \<Longrightarrow> evolves V (V(sid \<mapsto> se))"
  by (auto simp: evolves_def)

section \<open>The contract\<close>

locale session_store =
  fixes sessions :: "'w \<Rightarrow> string \<rightharpoonup> Session"
    and step :: "'w \<Rightarrow> 'w \<Rightarrow> bool"
    and inv :: "'w \<Rightarrow> bool"
    and refresh :: "string \<Rightarrow> int \<Rightarrow> ('w, Session \<times> string) io"
    and get_active :: "string \<Rightarrow> ('w, Session) io"
  assumes step_inv: "inv w \<Longrightarrow> step w w' \<Longrightarrow> inv w'"
    and step_evolves: "inv w \<Longrightarrow> step w w' \<Longrightarrow> evolves (sessions w) (sessions w')"
    and refresh_step: "step w (snd (refresh t ttl w))"
    and refresh_current: "inv w \<Longrightarrow> refresh t ttl w = (Inr r, w') \<Longrightarrow>
      \<exists>sid g sg se se'. parseRefreshToken t = Some (sid, g, sg) \<and> sessions w sid = Some se \<and> \<not> se_Revoked se \<and>
        se_RefreshGeneration se = g \<and> sg = signRefreshToken sid g (se_RefreshFamilySecret se) \<and>
        sessions w' sid = Some se' \<and> se_RefreshGeneration se' = i64 (g + 1)"
    and get_active_live: "get_active sid w = (Inr se, w') \<Longrightarrow> sessions w sid = Some se \<and> \<not> se_Revoked se"
    and inv_single: "inv w \<Longrightarrow> single_session (sessions w)"
begin

lemma steps_inv: "step\<^sup>*\<^sup>* w w' \<Longrightarrow> inv w \<Longrightarrow> inv w'"
  by (induction rule: rtranclp_induct) (auto intro: step_inv)

lemma steps_evolve: "step\<^sup>*\<^sup>* w w' \<Longrightarrow> inv w \<Longrightarrow> evolves (sessions w) (sessions w')"
proof (induction rule: rtranclp_induct)
  case (step y z)
  then show ?case using step_evolves steps_inv evolves_trans by blast
qed simp

lemma steps_single: "step\<^sup>*\<^sup>* w w' \<Longrightarrow> inv w \<Longrightarrow> single_session (sessions w')"
  by (rule inv_single [OF steps_inv])

text \<open>A token whose generation was already used does not work again, whatever happened in between.\<close>

lemma used_once:
  assumes inv: "inv w" and first: "refresh t ttl w = (Inr r, w1)" and later: "step\<^sup>*\<^sup>* w1 w2"
    and t: "parseRefreshToken t = Some (sid, g, sg)" and t': "parseRefreshToken t' = Some (sid, g', sg')" and le: "g' \<le> g"
  shows "\<nexists>r'. fst (refresh t' ttl' w2) = Inr r'"
proof
  assume "\<exists>r'. fst (refresh t' ttl' w2) = Inr r'"
  then obtain r' w3 where second: "refresh t' ttl' w2 = (Inr r', w3)" by (metis prod.collapse)
  have s1: "step w w1" using refresh_step [of w t ttl] first by simp
  have inv1: "inv w1" by (rule step_inv [OF inv s1])
  obtain se1 where se1: "sessions w1 sid = Some se1" "se_RefreshGeneration se1 = i64 (g + 1)"
    using refresh_current [OF inv first] t by auto
  obtain se2 where se2: "sessions w2 sid = Some se2" "later_gen (i64 (g + 1)) (se_RefreshGeneration se2)"
    using steps_evolve [OF later inv1] se1 unfolding evolves_def session_later_def by metis
  have "se_RefreshGeneration se2 = g'"
    using refresh_current [OF steps_inv [OF later inv1] second] t' se2 by auto
  moreover have "0 < g'" using t' by (rule parse_gen_pos)
  moreover have "0 < g" using t by (rule parse_gen_pos)
  moreover have "in_i64 g"
    using t by (auto simp: parseRefreshToken_def parseGeneration_def ParseInt_def Let_def split: option.splits if_splits)
  ultimately show False using se2 le i64_next_pos [of g] by (auto simp: later_gen_def)
qed

text \<open>A revoked session is refreshed and shown as active never again.\<close>

lemma ended_stays:
  assumes inv: "inv w" and se: "sessions w sid = Some se" "se_Revoked se" and later: "step\<^sup>*\<^sup>* w w'"
  shows "\<nexists>r. fst (get_active sid w') = Inr r"
    and "parseRefreshToken t = Some (sid, g, sg) \<Longrightarrow> \<nexists>r. fst (refresh t ttl w') = Inr r"
proof -
  obtain se' where se': "sessions w' sid = Some se'" "se_Revoked se'"
    using steps_evolve [OF later inv] se unfolding evolves_def session_later_def by metis
  show "\<nexists>r. fst (get_active sid w') = Inr r"
    using get_active_live se' by (metis option.inject prod.collapse)
  show "\<nexists>r. fst (refresh t ttl w') = Inr r" if "parseRefreshToken t = Some (sid, g, sg)"
    using refresh_current [OF steps_inv [OF later inv]] se' that
    by (metis fst_conv option.inject prod.collapse)
qed

end

end
