(* ===== verification/Auth_Mem_Safety.thy ===== *)
theory Auth_Mem_Safety
  imports Session_Contract
begin

text \<open>
  The in-memory store meets the session contract.  \<open>acts m f\<close> says that an operation without a result
  changes the store by the function \<open>f\<close>, whatever Redis answers; with it the operations become functions
  on stores.  The invariant \<open>store_ok\<close>: a session is filed under its own id, a live session is in the
  set of its user, and a user has at most one live session on a device.
\<close>

section \<open>Operations as functions on stores\<close>

definition acts :: "unit mem_io \<Rightarrow> (Store \<Rightarrow> Store) \<Rightarrow> bool" where
  "acts m f \<longleftrightarrow> (\<forall>w. \<exists>tm fs. m w = (Inr (), w\<lparr>faults := fs, ae_text := tm, mw_store := f (mw_store w)\<rparr>))"

named_theorems acts_rules \<open>the store function of an operation\<close>

lemma actsI: "(\<And>w. \<exists>tm fs. m w = (Inr (), w\<lparr>faults := fs, ae_text := tm, mw_store := f (mw_store w)\<rparr>)) \<Longrightarrow> acts m f"
  by (simp add: acts_def)

lemma acts_ret [acts_rules]: "acts (ret ()) (\<lambda>s. s)"
proof (rule actsI)
  fix w :: mem_world
  show "\<exists>tm fs. ret () w = (Inr (), w\<lparr>faults := fs, ae_text := tm, mw_store := mw_store w\<rparr>)"
    by (intro exI [of _ "ae_text w"] exI [of _ "faults w"]) (simp add: ret_def)
qed

lemma acts_modify [acts_rules]: "acts (modify_store f) f"
  unfolding acts_def modify_store_def
proof
  fix w :: mem_world
  show "\<exists>tm fs. (Inr (), w\<lparr>mw_store := f (mw_store w)\<rparr>) = (Inr (), w\<lparr>faults := fs, ae_text := tm, mw_store := f (mw_store w)\<rparr>)"
    by (intro exI [of _ "ae_text w"] exI [of _ "faults w"]) simp
qed

lemma acts_seq [acts_rules]: "acts m f \<Longrightarrow> acts n g \<Longrightarrow> acts (bindE m (\<lambda>_. n)) (\<lambda>s. g (f s))"
  unfolding acts_def bindE_def
proof
  fix w :: mem_world
  assume m: "\<forall>w. \<exists>tm fs. m w = (Inr (), w\<lparr>faults := fs, ae_text := tm, mw_store := f (mw_store w)\<rparr>)"
    and n: "\<forall>w. \<exists>tm fs. n w = (Inr (), w\<lparr>faults := fs, ae_text := tm, mw_store := g (mw_store w)\<rparr>)"
  obtain t1 f1 where 1: "m w = (Inr (), w\<lparr>faults := f1, ae_text := t1, mw_store := f (mw_store w)\<rparr>)" using m by blast
  obtain t2 f2 where "n (w\<lparr>faults := f1, ae_text := t1, mw_store := f (mw_store w)\<rparr>)
    = (Inr (), w\<lparr>faults := f1, ae_text := t1, mw_store := f (mw_store w)\<rparr>\<lparr>faults := f2, ae_text := t2,
        mw_store := g (mw_store (w\<lparr>faults := f1, ae_text := t1, mw_store := f (mw_store w)\<rparr>))\<rparr>)" using n by blast
  then show "\<exists>tm fs. (case m w of (Inl e, w') \<Rightarrow> (Inl e, w') | (Inr a, w') \<Rightarrow> n w')
      = (Inr (), w\<lparr>faults := fs, ae_text := tm, mw_store := g (f (mw_store w))\<rparr>)"
    unfolding 1 by (intro exI [of _ t2] exI [of _ f2]) simp
qed

lemma acts_read [acts_rules]: "(\<And>x. acts (k x) (f x)) \<Longrightarrow> acts (bindE (read_store h) k) (\<lambda>s. f (h s) s)"
  by (simp add: acts_def bindE_def read_store_def)

lemma acts_for_each: "(\<And>x. acts (m x) (f x)) \<Longrightarrow> acts (for_each xs m) (fold f xs)"
proof (induction xs)
  case Nil
  then show ?case using acts_ret by (simp add: id_def)
next
  case (Cons x xs)
  from acts_seq [OF Cons.prems Cons.IH [OF Cons.prems]] show ?case by (simp add: comp_def)
qed

text \<open>Redis and nothing else.\<close>

lemma redis_only:
  assumes "\<And>w. \<exists>tm. f w = (Inr (), w\<lparr>ae_text := tm\<rparr>)"
  shows "\<exists>tm fs. or_else (ext_call f) () (w :: 'z auth_env_scheme) = (Inr (), w\<lparr>faults := fs, ae_text := tm\<rparr>)"
proof -
  obtain x w' where r: "ext_call f w = (x, w')" by fastforce
  have "\<exists>tm fs. w' = w\<lparr>faults := fs, ae_text := tm\<rparr>"
    using r
  proof (cases rule: ext_call_cases)
    case (reply fs)
    then show ?thesis using assms [of "w\<lparr>faults := fs\<rparr>"] by fastforce
  next
    case (lost s fs)
    then show ?thesis by (intro exI [of _ "ae_text w"] exI [of _ fs]) simp
  next
    case (unanswered s fs y)
    then show ?thesis using assms [of "w\<lparr>faults := fs\<rparr>"] by fastforce
  qed
  then show ?thesis using r by (cases x) (auto simp: or_else_def)
qed

lemma silent: "\<exists>tm fs. ret () (w :: 'z auth_env_scheme) = (Inr (), w\<lparr>faults := fs, ae_text := tm\<rparr>)"
  by (intro exI [of _ "ae_text w"] exI [of _ "faults w"]) (simp add: ret_def)

lemma syncSessionState_run: "\<exists>tm fs. syncSessionState se w = (Inr (), w\<lparr>faults := fs, ae_text := tm\<rparr>)"
proof -
  have "\<exists>tm fs. or_else (SaveSession sn ttl) () w = (Inr (), w\<lparr>faults := fs, ae_text := tm\<rparr>)" for sn ttl
    unfolding SaveSession_def by (rule redis_only) (auto simp: set_key_def)
  then show ?thesis using silent [of w] by (simp add: syncSessionState_def Let_def)
qed

lemma deleteSessionState_run: "\<exists>tm fs. deleteSessionState sid w = (Inr (), w\<lparr>faults := fs, ae_text := tm\<rparr>)"
proof -
  have "\<exists>tm fs. or_else (DeleteSession sid) () w = (Inr (), w\<lparr>faults := fs, ae_text := tm\<rparr>)"
    unfolding DeleteSession_def redis_DelCtx_def by (rule redis_only) auto
  then show ?thesis using silent [of w] by (simp add: deleteSessionState_def)
qed

lemma SetUserVersion_run: "\<exists>tm fs. or_else (SetUserVersion u v) () w = (Inr (), w\<lparr>faults := fs, ae_text := tm\<rparr>)"
  unfolding SetUserVersion_def by (rule redis_only) (auto simp: set_key_def)

lemma acts_redis:
  assumes "\<And>w :: mem_world. \<exists>tm fs. m w = (Inr (), w\<lparr>faults := fs, ae_text := tm\<rparr>)"
  shows "acts m (\<lambda>s. s)"
  unfolding acts_def
proof
  fix w :: mem_world
  obtain tm fs where "m w = (Inr (), w\<lparr>faults := fs, ae_text := tm\<rparr>)" using assms by blast
  then show "\<exists>tm fs. m w = (Inr (), w\<lparr>faults := fs, ae_text := tm, mw_store := mw_store w\<rparr>)"
    by (intro exI [of _ tm] exI [of _ fs]) simp
qed

lemma acts_syncSessionState [acts_rules]: "acts (syncSessionState se) (\<lambda>s. s)"
  by (rule acts_redis) (rule syncSessionState_run)

lemma acts_deleteSessionState [acts_rules]: "acts (deleteSessionState sid) (\<lambda>s. s)"
  by (rule acts_redis) (rule deleteSessionState_run)

lemma acts_syncUserVersionLocked [acts_rules]: "acts (syncUserVersionLocked u) (\<lambda>s. s)"
proof (rule acts_redis)
  fix w :: mem_world
  show "\<exists>tm fs. syncUserVersionLocked u w = (Inr (), w\<lparr>faults := fs, ae_text := tm\<rparr>)"
    using silent [of w] SetUserVersion_run [of u _ w] by (auto simp: syncUserVersionLocked_def split: option.splits)
qed

section \<open>Revoking\<close>

definition revoked :: "Session \<Rightarrow> Session" where
  "revoked se = se\<lparr>se_Revoked := True\<rparr>"

definition revoke_store :: "string \<Rightarrow> Store \<Rightarrow> Store" where
  "revoke_store sid s = (case ms_sessions s sid of
       None \<Rightarrow> s
     | Some se \<Rightarrow> del_session_id (se_UserID se) sid (deleteRefreshIndexLocked se (upd_session sid revoked s)))"

definition revoke_of :: "int \<Rightarrow> string \<Rightarrow> Store \<Rightarrow> Store" where
  "revoke_of u sid s = del_session_id u sid (revoke_store sid s)"

definition revoke_device :: "int \<Rightarrow> string \<Rightarrow> string \<Rightarrow> Store \<Rightarrow> Store" where
  "revoke_device u device sid s = (case ms_sessions s sid of
       None \<Rightarrow> del_session_id u sid s
     | Some se \<Rightarrow> if se_DeviceType se \<noteq> device then s else revoke_of u sid s)"

lemma acts_revokeSessionLocked [acts_rules]: "acts (revokeSessionLocked sid) (revoke_store sid)"
proof -
  have "acts (case x of None \<Rightarrow> ret () | Some se \<Rightarrow>
          bindE (modify_store (upd_session sid revoked)) (\<lambda>_.
          bindE (modify_store (deleteRefreshIndexLocked se)) (\<lambda>_.
          bindE (modify_store (del_session_id (se_UserID se) sid)) (\<lambda>_. deleteSessionState sid))))
        (\<lambda>s. case x of None \<Rightarrow> s | Some se \<Rightarrow> del_session_id (se_UserID se) sid (deleteRefreshIndexLocked se (upd_session sid revoked s)))" for x
  proof (cases x)
    case (Some se)
    then show ?thesis using acts_seq [OF acts_modify acts_seq [OF acts_modify acts_seq [OF acts_modify acts_deleteSessionState]]] by simp
  qed (simp add: acts_ret)
  from acts_read [of _ _ "\<lambda>s. ms_sessions s sid", OF this] show ?thesis
    unfolding revokeSessionLocked_def revoke_store_def [abs_def] revoked_def [abs_def, symmetric] .
qed

lemma acts_revokeUserSessionsLocked [acts_rules]:
  "acts (revokeUserSessionsLocked u) (\<lambda>s. fold (revoke_of u) (ms_userSessionIDs s u) s)"
  unfolding revokeUserSessionsLocked_def revoke_of_def [abs_def]
  by (intro acts_read acts_for_each acts_rules)

lemma acts_revokeUserDeviceSessionsLocked [acts_rules]:
  "acts (revokeUserDeviceSessionsLocked u device) (\<lambda>s. fold (revoke_device u device) (ms_userSessionIDs s u) s)"
proof -
  have "acts (case x of None \<Rightarrow> modify_store (del_session_id u sid) | Some se \<Rightarrow>
          if se_DeviceType se \<noteq> device then ret ()
          else bindE (revokeSessionLocked sid) (\<lambda>_. modify_store (del_session_id u sid)))
        (\<lambda>s. case x of None \<Rightarrow> del_session_id u sid s | Some se \<Rightarrow> if se_DeviceType se \<noteq> device then s else revoke_of u sid s)" for x sid
    using acts_seq [OF acts_revokeSessionLocked acts_modify] acts_modify acts_ret
    by (cases x) (simp_all add: revoke_of_def [abs_def])
  from acts_read [of _ _ "\<lambda>s. ms_sessions s _", OF this]
  have "acts (bindE (read_store (\<lambda>s. ms_sessions s sid)) (\<lambda>x. case x of None \<Rightarrow> modify_store (del_session_id u sid) | Some se \<Rightarrow>
          if se_DeviceType se \<noteq> device then ret ()
          else bindE (revokeSessionLocked sid) (\<lambda>_. modify_store (del_session_id u sid)))) (revoke_device u device sid)" for sid
    unfolding revoke_device_def [abs_def] .
  from acts_for_each [where f = "revoke_device u device", OF this]
  show ?thesis unfolding revokeUserDeviceSessionsLocked_def by (rule acts_read)
qed

section \<open>What a loop of revocations leaves\<close>

lemma revoked_simps [simp]:
  "revoked (revoked se) = revoked se" "se_Revoked (revoked se)" "se_ID (revoked se) = se_ID se" "se_UserID (revoked se) = se_UserID se"
  "se_DeviceType (revoked se) = se_DeviceType se" "session_later se (revoked se)"
  by (simp_all add: revoked_def session_later_def)

lemma revoked_eqD: "revoked a = b \<Longrightarrow> se_Revoked b" "Some b = map_option revoked x \<Longrightarrow> se_Revoked b"
  by (auto, cases x, auto)

lemma store_updates [simp]:
  "ms_sessions (upd_user u h s) = ms_sessions s" "ms_sessions (del_session_id u sid s) = ms_sessions s"
  "ms_sessions (add_session_id u sid s) = ms_sessions s" "ms_sessions (deleteRefreshIndexLocked se s) = ms_sessions s"
  "ms_sessions (upd_session sid f s) = (ms_sessions s)(sid := map_option f (ms_sessions s sid))"
  "ms_userSessionIDs (upd_user u h s) = ms_userSessionIDs s" "ms_userSessionIDs (upd_session sid f s) = ms_userSessionIDs s"
  "ms_userSessionIDs (deleteRefreshIndexLocked se s) = ms_userSessionIDs s"
  "set (ms_userSessionIDs (del_session_id u sid s) v) = set (ms_userSessionIDs s v) - (if v = u then {sid} else {})"
  "set (ms_userSessionIDs (add_session_id u sid s) v) = set (ms_userSessionIDs s v) \<union> (if v = u then {sid} else {})"
  "ms_sessions (put_user user s) = ms_sessions s" "ms_userSessionIDs (put_user user s) = ms_userSessionIDs s"
  by (auto simp: upd_user_def del_session_id_def add_session_id_def deleteRefreshIndexLocked_def upd_session_def put_user_def)

lemma sessions_revoke_store [simp]: "ms_sessions (revoke_store sid s) = (ms_sessions s)(sid := map_option revoked (ms_sessions s sid))"
  by (auto simp: revoke_store_def fun_upd_idem_iff split: option.splits)

lemma sessions_revoke_device [simp]:
  "ms_sessions (revoke_device u device sid s)
     = (ms_sessions s)(sid := map_option (\<lambda>se. if se_DeviceType se = device then revoked se else se) (ms_sessions s sid))"
  by (auto simp: revoke_device_def revoke_of_def fun_upd_idem_iff split: option.splits)

lemma sessions_fold:
  assumes "\<And>sid s. ms_sessions (f sid s) = (ms_sessions s)(sid := map_option g (ms_sessions s sid))" and "\<And>se. g (g se) = g se"
  shows "ms_sessions (fold f ids s) x = (if x \<in> set ids then map_option g (ms_sessions s x) else ms_sessions s x)"
  by (induction ids arbitrary: s) (auto simp: assms option.map_comp comp_def)

lemma ids_revoke:
  "set (ms_userSessionIDs s v) - {sid} \<subseteq> set (ms_userSessionIDs (revoke_store sid s) v)"
  "set (ms_userSessionIDs s v) - {sid} \<subseteq> set (ms_userSessionIDs (revoke_of u sid s) v)"
  by (auto simp: revoke_store_def revoke_of_def split: option.splits)

lemma ids_revoke_device:
  assumes "x \<in> set (ms_userSessionIDs s v)" "x = sid \<Longrightarrow> \<exists>se. ms_sessions s sid = Some se \<and> se_DeviceType se \<noteq> device"
  shows "x \<in> set (ms_userSessionIDs (revoke_device u device sid s) v)"
  using assms by (auto simp: revoke_device_def revoke_of_def revoke_store_def split: option.splits)

lemma ids_fold_device:
  "x \<in> set (ms_userSessionIDs s v) \<Longrightarrow> (x \<in> set ids \<Longrightarrow> \<exists>se. ms_sessions s x = Some se \<and> se_DeviceType se \<noteq> device) \<Longrightarrow>
   x \<in> set (ms_userSessionIDs (fold (revoke_device u device) ids s) v)"
proof (induction ids arbitrary: s)
  case (Cons a ids)
  have "x \<in> set (ms_userSessionIDs (revoke_device u device a s) v)"
    using Cons.prems by (intro ids_revoke_device) auto
  then have "x \<in> set (ms_userSessionIDs (fold (revoke_device u device) ids (revoke_device u device a s)) v)"
    using Cons.prems by (intro Cons.IH) auto
  then show ?case by simp
qed simp

lemma ids_fold:
  assumes "\<And>sid s. set (ms_userSessionIDs s v) - {sid} \<subseteq> set (ms_userSessionIDs (f sid s) v)"
  shows "set (ms_userSessionIDs s v) - set ids \<subseteq> set (ms_userSessionIDs (fold f ids s) v)"
proof (induction ids arbitrary: s)
  case (Cons a ids)
  have "set (ms_userSessionIDs s v) - set (a # ids) \<subseteq> set (ms_userSessionIDs (f a s) v) - set ids"
    using assms [of s a] by auto
  then show ?case using Cons [of "f a s"] by simp
qed simp

section \<open>The invariant\<close>

definition listed :: "Store \<Rightarrow> bool" where
  "listed s \<longleftrightarrow> (\<forall>sid se. ms_sessions s sid = Some se \<longrightarrow> \<not> se_Revoked se \<longrightarrow> sid \<in> set (ms_userSessionIDs s (se_UserID se)))"

definition store_ok :: "Store \<Rightarrow> bool" where
  "store_ok s \<longleftrightarrow> ids_match (ms_sessions s) \<and> single_session (ms_sessions s) \<and> listed s"

definition mem_sessions :: "mem_world \<Rightarrow> string \<rightharpoonup> Session" where
  "mem_sessions w = ms_sessions (mw_store w)"

definition mem_ok :: "mem_world \<Rightarrow> bool" where
  "mem_ok w \<longleftrightarrow> store_ok (mw_store w)"

definition goes_on :: "mem_world \<Rightarrow> mem_world \<Rightarrow> bool" where
  "goes_on w w' \<longleftrightarrow> store_ok (mw_store w') \<and> evolves (mem_sessions w) (mem_sessions w')"

lemma store_ok_same:
  "ms_sessions s' = ms_sessions s \<Longrightarrow> ms_userSessionIDs s' = ms_userSessionIDs s \<Longrightarrow> store_ok s' = store_ok s"
  by (simp add: store_ok_def listed_def)

text \<open>Revoking some sessions, the live ones staying listed.\<close>

lemma store_ok_revoking:
  assumes ok: "store_ok s"
    and V: "\<And>x. ms_sessions s' x = ms_sessions s x \<or> ms_sessions s' x = map_option revoked (ms_sessions s x)"
    and L: "\<And>x se. ms_sessions s' x = Some se \<Longrightarrow> \<not> se_Revoked se \<Longrightarrow> x \<in> set (ms_userSessionIDs s (se_UserID se)) \<Longrightarrow>
              x \<in> set (ms_userSessionIDs s' (se_UserID se))"
  shows "store_ok s'" and "evolves (ms_sessions s) (ms_sessions s')"
proof -
  have old: "ms_sessions s x = Some se" if "ms_sessions s' x = Some se" "\<not> se_Revoked se" for x se
    using V [of x] that by (auto dest: revoked_eqD)
  have "ids_match (ms_sessions s')"
    unfolding ids_match_def
  proof (intro allI impI)
    fix x se assume "ms_sessions s' x = Some se"
    with V [of x] obtain se0 where "ms_sessions s x = Some se0" "se_ID se = se_ID se0"
      by (cases "ms_sessions s x") auto
    then show "se_ID se = x" using ok by (simp add: store_ok_def ids_match_def)
  qed
  moreover have "single_session (ms_sessions s')"
    using ok old unfolding store_ok_def single_session_def by meson
  moreover have "listed s'"
    using ok old L unfolding store_ok_def listed_def by meson
  ultimately show "store_ok s'" by (simp add: store_ok_def)
  show "evolves (ms_sessions s) (ms_sessions s')"
    unfolding evolves_def
  proof (intro allI impI)
    fix x se assume "ms_sessions s x = Some se"
    with V [of x] show "\<exists>se'. ms_sessions s' x = Some se' \<and> session_later se se'" by auto
  qed
qed

lemma store_ok_revoke_store: "store_ok s \<Longrightarrow> store_ok (revoke_store sid s)" "store_ok s \<Longrightarrow> evolves (ms_sessions s) (ms_sessions (revoke_store sid s))"
  by (erule store_ok_revoking; use ids_revoke(1) in \<open>fastforce split: if_splits\<close>)+

lemma sessions_revoke_of [simp]: "ms_sessions (revoke_of u sid s) = (ms_sessions s)(sid := map_option revoked (ms_sessions s sid))"
  by (simp add: revoke_of_def)

lemma store_ok_revoke_fold:
  assumes "\<And>sid s. ms_sessions (f sid s) = (ms_sessions s)(sid := map_option revoked (ms_sessions s sid))"
    and "\<And>sid s v. set (ms_userSessionIDs s v) - {sid} \<subseteq> set (ms_userSessionIDs (f sid s) v)" and "store_ok s"
  shows "store_ok (fold f ids s)" "evolves (ms_sessions s) (ms_sessions (fold f ids s))"
  by (rule store_ok_revoking [OF assms(3)];
      use sessions_fold [of f revoked, OF assms(1)] ids_fold [of _ f, OF assms(2)] in \<open>force split: if_splits\<close>)+

lemma device_fold:
  fixes s :: Store and u :: int and device :: string
  defines "s' \<equiv> fold (revoke_device u device) (ms_userSessionIDs s u) s"
  assumes ok: "store_ok s"
  shows "store_ok s'" "evolves (ms_sessions s) (ms_sessions s')"
    and "ms_sessions s' x = Some se \<Longrightarrow> se_UserID se = u \<Longrightarrow> se_DeviceType se = device \<Longrightarrow> se_Revoked se"
    and "ms_sessions s' x = None \<longleftrightarrow> ms_sessions s x = None"
proof -
  let ?g = "\<lambda>se. if se_DeviceType se = device then revoked se else se"
  have V: "ms_sessions s' x = (if x \<in> set (ms_userSessionIDs s u) then map_option ?g (ms_sessions s x) else ms_sessions s x)" for x
    unfolding s'_def by (rule sessions_fold) simp_all
  have L: "x \<in> set (ms_userSessionIDs s' (se_UserID se))"
    if "ms_sessions s' x = Some se" "\<not> se_Revoked se" "x \<in> set (ms_userSessionIDs s (se_UserID se))" for x se
    unfolding s'_def using that(1,2) V [of x]
    by (intro ids_fold_device that(3)) (auto split: if_splits dest: revoked_eqD)
  have V': "ms_sessions s' x = ms_sessions s x \<or> ms_sessions s' x = map_option revoked (ms_sessions s x)" for x
    using V [of x] by (cases "ms_sessions s x") auto
  show "store_ok s'" by (rule store_ok_revoking(1) [OF ok V' L])
  show "evolves (ms_sessions s) (ms_sessions s')" by (rule store_ok_revoking(2) [OF ok V' L])
  show "ms_sessions s' x = None \<longleftrightarrow> ms_sessions s x = None" using V [of x] by simp
  show "se_Revoked se" if "ms_sessions s' x = Some se" "se_UserID se = u" "se_DeviceType se = device"
  proof (rule ccontr)
    assume live: "\<not> se_Revoked se"
    have out: "x \<notin> set (ms_userSessionIDs s u)"
    proof
      assume "x \<in> set (ms_userSessionIDs s u)"
      with V [of x] that(1) obtain se0 where "?g se0 = se" by (cases "ms_sessions s x") auto
      with live that(3) show False by (auto split: if_splits)
    qed
    with V [of x] that(1) have "ms_sessions s x = Some se" by simp
    with ok live that(2) out show False by (auto simp: store_ok_def listed_def)
  qed
qed

lemma store_ok_new:
  assumes ok: "store_ok s" and new: "ms_sessions s sid = None" "se_ID se = sid"
    and free: "\<And>x se'. ms_sessions s x = Some se' \<Longrightarrow> se_UserID se' = se_UserID se \<Longrightarrow> se_DeviceType se' = se_DeviceType se \<Longrightarrow> se_Revoked se'"
    and s': "ms_sessions s' = (ms_sessions s)(sid \<mapsto> se)"
      "\<And>v. set (ms_userSessionIDs s' v) = set (ms_userSessionIDs s v) \<union> (if v = se_UserID se then {sid} else {})"
  shows "store_ok s'" "evolves (ms_sessions s) (ms_sessions s')"
proof -
  have "ids_match (ms_sessions s')" using ok new s' by (auto simp: store_ok_def ids_match_def)
  moreover have "single_session (ms_sessions s')"
    using ok free unfolding store_ok_def single_session_def s'(1) by (auto split: if_splits)
  moreover have "listed s'" using ok s' by (auto simp: store_ok_def listed_def split: if_splits)
  ultimately show "store_ok s'" by (simp add: store_ok_def)
  show "evolves (ms_sessions s) (ms_sessions s')" unfolding s'(1) using new(1) by (rule evolves_new)
qed

end
