(* ===== verification/Auth_Mem_Steps.thy ===== *)
theory Auth_Mem_Steps
  imports Auth_Mem_Safety
begin

text \<open>
  The runs of the in-memory store: \<open>mem_step\<close> is one operation of the store, the passing of time or a
  change elsewhere.  A new session id is one that was not used before (32 random bytes); that is the
  only thing a run takes for granted.  Every step keeps \<open>store_ok\<close> and lets sessions evolve, so the
  store meets the session contract.
\<close>

section \<open>Single operations\<close>

lemma acts_store: "acts m f \<Longrightarrow> mw_store (snd (m w)) = f (mw_store w)"
  unfolding acts_def by (drule spec [of _ w]) auto

lemma acts_then:
  assumes "acts m f"
  obtains w1 where "bindE m (\<lambda>_. k) w = k w1" "mw_store w1 = f (mw_store w)" "ae_now w1 = ae_now w" "ae_state w1 = ae_state w"
proof -
  obtain tm fs where m: "m w = (Inr (), w\<lparr>faults := fs, ae_text := tm, mw_store := f (mw_store w)\<rparr>)"
    using assms unfolding acts_def by blast
  show thesis by (rule that [of "w\<lparr>faults := fs, ae_text := tm, mw_store := f (mw_store w)\<rparr>"]) (simp_all add: bindE_def m)
qed

lemma acts_after:
  assumes "acts m f"
  shows "mw_store (snd (bindE n (\<lambda>_. m) w)) = (case n w of (Inl _, w') \<Rightarrow> mw_store w' | (Inr _, w') \<Rightarrow> f (mw_store w'))"
  using acts_store [OF assms] by (auto simp: bindE_def split: prod.splits sum.splits)

text \<open>Operations that leave sessions alone.\<close>

definition same_sessions :: "(string \<rightharpoonup> Session) \<Rightarrow> (int \<Rightarrow> string list) \<Rightarrow> mem_world \<Rightarrow> bool" where
  "same_sessions V L w \<longleftrightarrow> ms_sessions (mw_store w) = V \<and> ms_userSessionIDs (mw_store w) = L"

lemma keeps_same [keeps_rules]:
  "keeps (same_sessions V L) (read_store f)"
  "keeps (same_sessions V L) now"
  "(\<And>s. ms_sessions (f' s) = ms_sessions s) \<Longrightarrow> (\<And>s. ms_userSessionIDs (f' s) = ms_userSessionIDs s) \<Longrightarrow> keeps (same_sessions V L) (modify_store f')"
  "keeps (same_sessions V L) (syncUserVersionLocked u)"
  using acts_store [OF acts_syncUserVersionLocked [of u]]
  by (auto simp: keeps_def same_sessions_def read_store_def now_def modify_store_def)

lemma keeps_set_code [keeps_rules]: "keeps (same_sessions V L) (set_code k e)"
  unfolding set_code_def by (rule keeps_same) simp_all

lemma goes_on_quiet:
  assumes "keeps (same_sessions (mem_sessions w) (ms_userSessionIDs (mw_store w))) m" and ok: "mem_ok w"
  shows "goes_on w (snd (m w))"
proof -
  have "same_sessions (mem_sessions w) (ms_userSessionIDs (mw_store w)) (snd (m w))"
    by (rule keepsD [OF assms(1)]) (simp add: same_sessions_def mem_sessions_def)
  then show ?thesis
    using ok store_ok_same [of "mw_store (snd (m w))" "mw_store w"]
    by (simp add: goes_on_def same_sessions_def mem_sessions_def mem_ok_def)
qed

lemma quiet_codes:
  "keeps (same_sessions V L) (IssueCode phone scene ttl)"
  "keeps (same_sessions V L) (ResetCode phone scene)"
  "keeps (same_sessions V L) (ConsumeCode phone scene code n)"
  unfolding IssueCode_def ResetCode_def ConsumeCode_def Let_def
  by (auto intro!: keeps_rules split: option.splits)

lemma quiet_CreateUser: "keeps (same_sessions V L) (CreateUser h p c phone name pw)"
  unfolding CreateUser_def Let_def by (auto intro!: keeps_rules)

text \<open>Revocations.\<close>

lemma goes_on_store: "store_ok s' \<Longrightarrow> evolves (ms_sessions (mw_store w)) (ms_sessions s') \<Longrightarrow> mw_store w' = s' \<Longrightarrow> goes_on w w'"
  by (simp add: goes_on_def mem_sessions_def)

lemma goes_on_revoke: "mem_ok w \<Longrightarrow> goes_on w (snd (revokeSessionLocked sid w))"
  using store_ok_revoke_store by (auto simp: goes_on_def mem_sessions_def mem_ok_def acts_store [OF acts_revokeSessionLocked])

lemma goes_on_refl [simp]: "goes_on w w \<longleftrightarrow> mem_ok w"
  by (simp add: goes_on_def mem_ok_def)

lemma goes_on_trans: "goes_on w w' \<Longrightarrow> goes_on w' w'' \<Longrightarrow> goes_on w w''"
  using evolves_trans by (auto simp: goes_on_def)

lemma goes_on_ok: "goes_on w w' \<Longrightarrow> mem_ok w'"
  by (simp add: goes_on_def mem_ok_def)

text \<open>A checked token: nothing happened yet, or the call failed and at most revoked a session.\<close>

lemma check_token_Inr:
  assumes "check_token t w = (Inr (sid, se), w')"
  shows "w' = w \<and> (\<exists>sg. parseRefreshToken t = Some (sid, se_RefreshGeneration se, sg) \<and> sg = signRefreshToken sid (se_RefreshGeneration se) (se_RefreshFamilySecret se))
    \<and> mem_sessions w sid = Some se \<and> \<not> se_Revoked se \<and> ae_now w \<le> se_ExpiresAt se"
proof (cases "parseRefreshToken t")
  case None
  then show ?thesis using assms by (simp add: check_token_def fail_def)
next
  case (Some p)
  obtain sid' g sg where p: "p = (sid', g, sg)" by (cases p)
  show ?thesis
    using assms Some p
    by (auto simp: check_token_def bindE_def now_def read_store_def mem_sessions_def fail_def ret_def verifyRefreshTokenSignature_def
        split: option.splits if_splits prod.splits sum.splits)
qed

lemma check_token_Inl:
  assumes "check_token t w = (Inl e, w')"
  shows "w' = w \<or> (\<exists>sid. w' = snd (revokeSessionLocked sid w))"
proof (cases "parseRefreshToken t")
  case None
  then show ?thesis using assms by (simp add: check_token_def fail_def)
next
  case (Some p)
  obtain sid' g sg where p: "p = (sid', g, sg)" by (cases p)
  show ?thesis
    using assms Some p
    by (auto simp: check_token_def bindE_def now_def read_store_def mem_sessions_def fail_def ret_def
        split: option.splits if_splits prod.splits sum.splits) (metis snd_conv)+
qed

lemma goes_on_check_token: "check_token t w = (Inl e, w') \<Longrightarrow> mem_ok w \<Longrightarrow> goes_on w w'"
  using check_token_Inl goes_on_revoke by fastforce

lemma in_i64_parsed: "parseRefreshToken t = Some (sid, g, sg) \<Longrightarrow> in_i64 g"
  by (auto simp: parseRefreshToken_def parseGeneration_def ParseInt_def Let_def split: option.splits if_splits)

lemma rotate_later: "0 < se_RefreshGeneration se \<Longrightarrow> in_i64 (se_RefreshGeneration se) \<Longrightarrow> session_later se (rotate h e se)"
  by (simp add: session_later_def rotate_def later_gen_next)

lemma rotate_simps [simp]:
  "se_ID (rotate h e se) = se_ID se" "se_UserID (rotate h e se) = se_UserID se" "se_DeviceType (rotate h e se) = se_DeviceType se"
  "se_Revoked (rotate h e se) = se_Revoked se" "se_RefreshGeneration (rotate h e se) = i64 (se_RefreshGeneration se + 1)"
  "se_SessionVersion (rotate h e se) = se_SessionVersion se" "se_ExpiresAt (rotate h e se) = e"
  by (simp_all add: rotate_def)

lemma RefreshSession_cases:
  assumes "RefreshSession t ttl w = (x, w')"
  obtains (refused) e where "x = Inl e" "check_token t w = (Inl e, w')"
  | (rotated) sid se h e where "check_token t w = (Inr (sid, se), w)" "x = Inr (rotate h e se, buildRefreshToken sid (i64 (se_RefreshGeneration se + 1)) (se_RefreshFamilySecret se))"
      "e = ae_now w + Seconds (session_ttl ttl)"
      "ms_sessions (mw_store w') = (mem_sessions w)(sid \<mapsto> rotate h e se)" "ms_userSessionIDs (mw_store w') = ms_userSessionIDs (mw_store w)"
proof -
  from assms show thesis unfolding RefreshSession_def
  proof (rule bindE_cases)
    fix e assume "check_token t w = (Inl e, w')" "x = Inl e"
    then show thesis using refused by blast
  next
    fix p w1 assume c: "check_token t w = (Inr p, w1)"
      and rest: "(case p of (sessionID, session) \<Rightarrow>
        let newGeneration = i64 (se_RefreshGeneration session + 1);
            newRefreshToken = buildRefreshToken sessionID newGeneration (se_RefreshFamilySecret session); newRefreshHash = hashToken newRefreshToken
        in bindE now (\<lambda>t. let expiresAt = t + Seconds (session_ttl ttl) in
             bindE (modify_store (\<lambda>s. s\<lparr>ms_refreshIndex := (ms_refreshIndex s)(se_RefreshTokenHash session := None)\<rparr>)) (\<lambda>_.
             bindE (modify_store (upd_session sessionID (rotate newRefreshHash expiresAt))) (\<lambda>_.
             bindE (modify_store (\<lambda>s. s\<lparr>ms_refreshIndex := (ms_refreshIndex s)(newRefreshHash \<mapsto> sessionID)\<rparr>)) (\<lambda>_.
             bindE (syncSessionState (rotate newRefreshHash expiresAt session)) (\<lambda>_.
             ret (rotate newRefreshHash expiresAt session, newRefreshToken))))))) w1 = (x, w')"
    obtain sid se where p: "p = (sid, se)" by (cases p)
    note facts = check_token_Inr [OF c [unfolded p]]
    define tok where "tok = buildRefreshToken sid (i64 (se_RefreshGeneration se + 1)) (se_RefreshFamilySecret se)"
    define e where "e = ae_now w + Seconds (session_ttl ttl)"
    define s1 where "s1 = (mw_store w)\<lparr>ms_refreshIndex := (ms_refreshIndex (mw_store w))(se_RefreshTokenHash se := None)\<rparr>"
    define s2 where "s2 = upd_session sid (rotate (hashToken tok) e) s1"
    define s3 where "s3 = s2\<lparr>ms_refreshIndex := (ms_refreshIndex s2)(hashToken tok \<mapsto> sid)\<rparr>"
    obtain tm fs where sync: "syncSessionState (rotate (hashToken tok) e se) (w\<lparr>mw_store := s3\<rparr>) = (Inr (), (w\<lparr>mw_store := s3\<rparr>)\<lparr>faults := fs, ae_text := tm\<rparr>)"
      using syncSessionState_run by blast
    have r: "x = Inr (rotate (hashToken tok) e se, tok)" "mw_store w' = s3"
      using rest facts sync
      by (auto simp: p Let_def bindE_def now_def modify_store_def ret_def tok_def [symmetric] e_def [symmetric] s1_def [symmetric] s2_def [symmetric] s3_def [symmetric])
    show thesis
    proof (rule rotated)
      show "check_token t w = (Inr (sid, se), w)" using c facts p by simp
      show "x = Inr (rotate (hashToken tok) e se, buildRefreshToken sid (i64 (se_RefreshGeneration se + 1)) (se_RefreshFamilySecret se))"
        using r by (simp add: tok_def)
      show "e = ae_now w + Seconds (session_ttl ttl)" by (simp add: e_def)
      show "ms_sessions (mw_store w') = (mem_sessions w)(sid \<mapsto> rotate (hashToken tok) e se)"
        "ms_userSessionIDs (mw_store w') = ms_userSessionIDs (mw_store w)"
        using facts by (simp_all add: r s3_def s2_def s1_def mem_sessions_def)
    qed
  qed
qed

lemma goes_on_refresh: "mem_ok w \<Longrightarrow> goes_on w (snd (RefreshSession t ttl w))"
proof -
  assume ok: "mem_ok w"
  obtain x w' where r: "RefreshSession t ttl w = (x, w')" by fastforce
  then show ?thesis
  proof (cases rule: RefreshSession_cases)
    case (refused e)
    then show ?thesis using goes_on_check_token ok r by simp
  next
    case (rotated sid se h e)
    note facts = check_token_Inr [OF rotated(1)]
    then obtain sg where pt: "parseRefreshToken t = Some (sid, se_RefreshGeneration se, sg)" by blast
    have later: "session_later se (rotate h e se)"
      by (rule rotate_later [OF parse_gen_pos [OF pt] in_i64_parsed [OF pt]])
    have V: "ms_sessions (mw_store w') = (mem_sessions w)(sid := map_option (rotate h e) (mem_sessions w sid))"
      using rotated(4) facts by simp
    have ev: "evolves (mem_sessions w) (mem_sessions w')"
      unfolding mem_sessions_def [of w'] V by (rule evolves_upd) (use facts later in auto)
    have "store_ok (mw_store w')"
      using ok rotated(4,5) facts unfolding mem_ok_def store_ok_def mem_sessions_def
      by (auto simp: ids_match_def single_session_def listed_def split: if_splits)
    with ev show ?thesis using r by (simp add: goes_on_def)
  qed
qed

section \<open>New sessions\<close>

lemma CreateSession_cases:
  assumes "CreateSessionForDevice r1 r2 u dev ttl w = (x, w')"
  obtains (refused) e where "x = Inl e" "w' = w"
  | (opened) sid secret user se where "randomToken r1 = Inr sid" "randomSecret r2 = Inr secret" "user_of (mw_store w) u = Some user"
      "x = Inr (sid, buildRefreshToken sid 1 secret)"
      "se = \<lparr>se_ID = sid, se_UserID = u, se_DeviceType = (if dev = [] then ''web'' else dev), se_SessionVersion = us_SessionVersion user,
         se_RefreshTokenHash = hashToken (buildRefreshToken sid 1 secret), se_PreviousRefreshTokenHash = [], se_RefreshFamilySecret = secret,
         se_RefreshGeneration = 1, se_ExpiresAt = ae_now w + Seconds (session_ttl ttl), se_Revoked = False\<rparr>"
      "ms_sessions (mw_store w') = (ms_sessions (fold (revoke_device u (se_DeviceType se)) (ms_userSessionIDs (mw_store w) u) (mw_store w)))(sid \<mapsto> se)"
      "\<And>v. set (ms_userSessionIDs (mw_store w') v)
         = set (ms_userSessionIDs (fold (revoke_device u (se_DeviceType se)) (ms_userSessionIDs (mw_store w) u) (mw_store w)) v) \<union> (if v = u then {sid} else {})"
proof -
  define d where "d = (if dev = [] then ''web'' else dev)"
  show thesis
  proof (cases "randomToken r1")
    case (Inl e)
    then show thesis using assms refused [of e] by (simp add: CreateSessionForDevice_def Let_def bindE_def of_result_def)
  next
    case (Inr sid) note sid = this
    show thesis
    proof (cases "randomSecret r2")
      case (Inl e)
      then show thesis using assms refused [of e] sid by (simp add: CreateSessionForDevice_def Let_def bindE_def of_result_def)
    next
      case (Inr secret) note secret = this
      define tok where "tok = buildRefreshToken sid 1 secret"
      show thesis
      proof (cases "user_of (mw_store w) u")
        case None
        then show thesis using assms refused [of ErrUserNotFound] sid secret
          by (simp add: CreateSessionForDevice_def Let_def bindE_def of_result_def now_def read_store_def fail_def)
      next
        case (Some user)
        define se where "se = \<lparr>se_ID = sid, se_UserID = u, se_DeviceType = d, se_SessionVersion = us_SessionVersion user,
         se_RefreshTokenHash = hashToken tok, se_PreviousRefreshTokenHash = [], se_RefreshFamilySecret = secret,
         se_RefreshGeneration = 1, se_ExpiresAt = ae_now w + Seconds (session_ttl ttl), se_Revoked = False\<rparr>"
        define f1 where "f1 = (\<lambda>s :: Store. s\<lparr>ms_sessions := (ms_sessions s)(sid \<mapsto> se)\<rparr>)"
        define f2 where "f2 = (\<lambda>s :: Store. s\<lparr>ms_refreshIndex := (ms_refreshIndex s)(hashToken tok \<mapsto> sid)\<rparr>)"
        define s1 where "s1 = fold (revoke_device u d) (ms_userSessionIDs (mw_store w) u) (mw_store w)"
        let ?k = "bindE (modify_store f1) (\<lambda>_. bindE (modify_store f2) (\<lambda>_.
            bindE (modify_store (add_session_id u sid)) (\<lambda>_. bindE (syncSessionState se) (\<lambda>_. ret (sid, tok)))))"
        have run: "bindE (revokeUserDeviceSessionsLocked u d) (\<lambda>_. ?k) w = (x, w')"
          using assms sid secret Some
          by (simp add: CreateSessionForDevice_def Let_def bindE_def [of "of_result _"] bindE_def [of now] bindE_def [of "read_store _"]
              of_result_def now_def read_store_def f1_def f2_def se_def d_def tok_def)
        obtain w1 where "bindE (revokeUserDeviceSessionsLocked u d) (\<lambda>_. ?k) w = ?k w1" and w1: "mw_store w1 = s1"
          by (rule acts_then [OF acts_revokeUserDeviceSessionsLocked, of u d ?k w]) (simp add: s1_def)
        with run have 1: "?k w1 = (x, w')" by simp
        obtain tm fs where sy: "syncSessionState se (w1\<lparr>mw_store := add_session_id u sid (f2 (f1 s1))\<rparr>)
            = (Inr (), w1\<lparr>mw_store := add_session_id u sid (f2 (f1 s1))\<rparr>\<lparr>faults := fs, ae_text := tm\<rparr>)" using syncSessionState_run by blast
        have r: "x = Inr (sid, tok)" "mw_store w' = add_session_id u sid (f2 (f1 s1))"
          using 1 w1 sy by (auto simp: bindE_def modify_store_def ret_def)
        show thesis
          by (rule opened [OF sid secret Some, of se])
             (simp_all add: r f1_def f2_def s1_def se_def tok_def d_def)
      qed
    qed
  qed
qed

lemma goes_on_create:
  assumes ok: "mem_ok w" and fresh: "\<And>sid. randomToken r1 = Inr sid \<Longrightarrow> mem_sessions w sid = None"
  shows "goes_on w (snd (CreateSessionForDevice r1 r2 u dev ttl w))"
proof -
  obtain x w' where r: "CreateSessionForDevice r1 r2 u dev ttl w = (x, w')" by fastforce
  then show ?thesis
  proof (cases rule: CreateSession_cases)
    case (refused e)
    then show ?thesis using ok r by simp
  next
    case (opened sid secret user se)
    let ?s = "fold (revoke_device u (se_DeviceType se)) (ms_userSessionIDs (mw_store w) u) (mw_store w)"
    note dev = device_fold [OF ok [unfolded mem_ok_def], of u "se_DeviceType se"]
    have n: "ms_sessions ?s sid = None" using dev(4) fresh [OF opened(1)] by (simp add: mem_sessions_def)
    have su: "se_UserID se = u" using opened(5) by simp
    have "store_ok (mw_store w')" "evolves (ms_sessions ?s) (ms_sessions (mw_store w'))"
      using store_ok_new [OF dev(1) n _ _ opened(6), unfolded su, OF _ dev(3) opened(7)] opened(5) by simp_all
    then show ?thesis using dev(2) r evolves_trans by (auto simp: goes_on_def mem_sessions_def)
  qed
qed

section \<open>Ending sessions\<close>

lemma goes_on_logout: "mem_ok w \<Longrightarrow> goes_on w (snd (Logout t w))"
proof -
  assume ok: "mem_ok w"
  obtain x w1 where c: "check_token t w = (x, w1)" by fastforce
  show ?thesis
  proof (cases x)
    case (Inl e)
    then show ?thesis using c goes_on_check_token [OF _ ok] by (simp add: Logout_def bindE_def)
  next
    case (Inr p)
    then show ?thesis using c check_token_Inr [of t w "fst p" "snd p" w1] goes_on_revoke [OF ok]
      by (cases p) (simp add: Logout_def bindE_def)
  qed
qed

text \<open>Revoking everything a user has.\<close>

lemma all_ended_fold:
  assumes "\<And>sid s. ms_sessions (f sid s) = (ms_sessions s)(sid := map_option revoked (ms_sessions s sid))" and "listed s"
  shows "all_ended u (ms_sessions (fold f (ms_userSessionIDs s u) s))"
  unfolding all_ended_def
proof (intro allI impI)
  fix x se
  assume se: "ms_sessions (fold f (ms_userSessionIDs s u) s) x = Some se" "se_UserID se = u"
  show "se_Revoked se"
  proof (rule ccontr)
    assume live: "\<not> se_Revoked se"
    from se sessions_fold [of f revoked, OF assms(1), of "ms_userSessionIDs s u" s x]
    have "x \<notin> set (ms_userSessionIDs s u)" "ms_sessions s x = Some se" using live by (auto split: if_splits)
    then show False using live se(2) assms(2) by (auto simp: listed_def)
  qed
qed

lemma listed_same: "ms_sessions s' = ms_sessions s \<Longrightarrow> ms_userSessionIDs s' = ms_userSessionIDs s \<Longrightarrow> listed s' = listed s"
  by (simp add: listed_def)

definition bump :: "User \<Rightarrow> User" where
  "bump user = (let v = i64 (us_SessionVersion user + 1) in user\<lparr>us_SessionVersion := (if v \<le> 0 then 1 else v)\<rparr>)"

lemma acts_bump [acts_rules]: "acts (bumpUserSessionVersionLocked u) (upd_user u bump)"
  unfolding bumpUserSessionVersionLocked_def bump_def [abs_def] by (rule acts_modify)

definition end_all :: "int \<Rightarrow> Store \<Rightarrow> Store" where
  "end_all u s = fold (revoke_of u) (ms_userSessionIDs s u) s"

lemma acts_end_all: "acts (revokeUserSessionsLocked u) (end_all u)"
  unfolding end_all_def [abs_def] by (rule acts_revokeUserSessionsLocked)

lemma acts_LogoutAll: "acts (LogoutAll u) (\<lambda>s. end_all u (upd_user u bump s))"
  unfolding LogoutAll_def
  using acts_seq [OF acts_bump acts_seq [OF acts_syncUserVersionLocked acts_end_all]] by simp

lemma end_all_ok:
  assumes "store_ok s"
  shows "store_ok (end_all u s)" "evolves (ms_sessions s) (ms_sessions (end_all u s))" "all_ended u (ms_sessions (end_all u s))"
  unfolding end_all_def
  using store_ok_revoke_fold [of "revoke_of u" s "ms_userSessionIDs s u"] all_ended_fold [of "revoke_of u" s u] ids_revoke(2) assms
  by (auto simp: store_ok_def)

lemma LogoutAll_ends:
  assumes "mem_ok w"
  shows "goes_on w (snd (LogoutAll u w))" "all_ended u (mem_sessions (snd (LogoutAll u w)))"
proof -
  have ok: "store_ok (upd_user u bump (mw_store w))" using assms store_ok_same [of "upd_user u bump (mw_store w)" "mw_store w"] by (simp add: mem_ok_def)
  note e = end_all_ok [OF ok, of u]
  show "goes_on w (snd (LogoutAll u w))" "all_ended u (mem_sessions (snd (LogoutAll u w)))"
    using e acts_store [OF acts_LogoutAll, where w = w] by (simp_all add: goes_on_def mem_sessions_def)
qed

text \<open>An operation that changes the store by \<open>f\<close> and then only reads.\<close>

lemma acts_read_after:
  assumes "acts m f" "\<And>x. (\<exists>u. k x = ret u) \<or> (\<exists>e. k x = fail e)"
  shows "mw_store (snd (bindE m (\<lambda>_. bindE (read_store h) k) w)) = f (mw_store w)"
proof -
  obtain w1 where w1: "bindE m (\<lambda>_. bindE (read_store h) k) w = bindE (read_store h) k w1" "mw_store w1 = f (mw_store w)"
    by (rule acts_then [OF assms(1)])
  show ?thesis
    using w1 assms(2) [of "h (mw_store w1)"] by (auto simp: bindE_def read_store_def ret_def fail_def)
qed

lemma found_user_cases: "(\<exists>u. (case y of None \<Rightarrow> fail e | Some user \<Rightarrow> ret user) = ret u) \<or> (\<exists>e'. (case y of None \<Rightarrow> fail e | Some user \<Rightarrow> ret user) = fail e')"
  by (cases y) auto

lemma UpdatePassword_store:
  "mw_store (snd (UpdatePassword h phone pw w)) = mw_store w \<or>
   (\<exists>u f. ms_usersByPhone (mw_store w) phone = Some u \<and> mw_store (snd (UpdatePassword h phone pw w)) = end_all u (upd_user u bump (upd_user u f (mw_store w))))"
  and UpdatePassword_Inr:
  "fst (UpdatePassword h phone pw w) = Inr user \<Longrightarrow>
   \<exists>u f. ms_usersByPhone (mw_store w) phone = Some u \<and> mw_store (snd (UpdatePassword h phone pw w)) = end_all u (upd_user u bump (upd_user u f (mw_store w)))"
proof -
  have a: "acts (bindE (modify_store (upd_user u f)) (\<lambda>_. bindE (bumpUserSessionVersionLocked u) (\<lambda>_.
      bindE (syncUserVersionLocked u) (\<lambda>_. revokeUserSessionsLocked u)))) (\<lambda>s. end_all u (upd_user u bump (upd_user u f s)))" for u f
    using acts_seq [OF acts_modify acts_seq [OF acts_bump acts_seq [OF acts_syncUserVersionLocked acts_end_all]]] by simp
  have assoc: "bindE m (\<lambda>_. bindE n (\<lambda>_. bindE p (\<lambda>_. bindE q k))) = bindE (bindE m (\<lambda>_. bindE n (\<lambda>_. bindE p (\<lambda>_. q)))) k"
    for m n p q :: "unit mem_io" and k :: "unit \<Rightarrow> 'b mem_io"
    by (rule ext) (auto simp: bindE_def split: prod.splits sum.splits)
  have rd: "mw_store (snd (bindE (bindE (modify_store (upd_user u f)) (\<lambda>_. bindE (bumpUserSessionVersionLocked u) (\<lambda>_.
      bindE (syncUserVersionLocked u) (\<lambda>_. revokeUserSessionsLocked u))))
      (\<lambda>_. bindE (read_store (\<lambda>s. user_of s u)) (\<lambda>y. case y of None \<Rightarrow> fail ErrUserNotFound | Some user \<Rightarrow> ret user)) w))
    = end_all u (upd_user u bump (upd_user u f (mw_store w)))" for u f
    by (rule acts_read_after [OF a found_user_cases])
  show "mw_store (snd (UpdatePassword h phone pw w)) = mw_store w \<or>
   (\<exists>u f. ms_usersByPhone (mw_store w) phone = Some u \<and> mw_store (snd (UpdatePassword h phone pw w)) = end_all u (upd_user u bump (upd_user u f (mw_store w))))"
    unfolding UpdatePassword_def assoc
    by (auto simp: rd bindE_def [of "of_result _"] bindE_def [of "read_store (\<lambda>s. ms_usersByPhone s phone)"] of_result_def read_store_def [of "\<lambda>s. ms_usersByPhone s phone"] fail_def split: sum.splits option.splits)
  show "\<exists>u f. ms_usersByPhone (mw_store w) phone = Some u \<and> mw_store (snd (UpdatePassword h phone pw w)) = end_all u (upd_user u bump (upd_user u f (mw_store w)))"
    if "fst (UpdatePassword h phone pw w) = Inr user"
    using that unfolding UpdatePassword_def assoc
    by (auto simp: rd bindE_def [of "of_result _"] bindE_def [of "read_store (\<lambda>s. ms_usersByPhone s phone)"] of_result_def read_store_def [of "\<lambda>s. ms_usersByPhone s phone"] fail_def split: sum.splits option.splits if_splits)
qed

lemma SetUserStatus_store:
  "mw_store (snd (SetUserStatus u st w)) = mw_store w \<or>
   (\<exists>f. mw_store (snd (SetUserStatus u st w)) = fold revoke_store (if st = 1 then [] else ms_userSessionIDs (mw_store w) u) (upd_user u f (mw_store w)))"
  and SetUserStatus_Inr:
  "fst (SetUserStatus u st w) = Inr user \<Longrightarrow>
   \<exists>f. mw_store (snd (SetUserStatus u st w)) = fold revoke_store (if st = 1 then [] else ms_userSessionIDs (mw_store w) u) (upd_user u f (mw_store w))"
proof -
  define R where "R = (if st \<noteq> statusActive then bindE (read_store (\<lambda>s. ms_userSessionIDs s u)) (\<lambda>ids. for_each ids revokeSessionLocked) else ret ())"
  have r: "acts R (\<lambda>s. fold revoke_store (if st = 1 then [] else ms_userSessionIDs s u) s)"
    using acts_read [where h = "\<lambda>s. ms_userSessionIDs s u" and f = "fold revoke_store", OF acts_for_each, OF acts_revokeSessionLocked] acts_ret
    by (auto simp: id_def R_def)
  have a: "acts (bindE (modify_store (upd_user u f)) (\<lambda>_. bindE R (\<lambda>_. syncUserVersionLocked u)))
     (\<lambda>s. fold revoke_store (if st = 1 then [] else ms_userSessionIDs (upd_user u f s) u) (upd_user u f s))" for f
    using acts_seq [OF acts_modify acts_seq [OF r acts_syncUserVersionLocked]] by simp
  have assoc: "bindE m (\<lambda>_. bindE n (\<lambda>_. bindE p k)) = bindE (bindE m (\<lambda>_. bindE n (\<lambda>_. p))) k"
    for m n p :: "unit mem_io" and k :: "unit \<Rightarrow> 'b mem_io"
    by (rule ext) (auto simp: bindE_def split: prod.splits sum.splits)
  have rd: "mw_store (snd (bindE (bindE (modify_store (upd_user u f)) (\<lambda>_. bindE R (\<lambda>_. syncUserVersionLocked u)))
      (\<lambda>_. bindE (read_store (\<lambda>s. user_of s u)) (\<lambda>y. case y of None \<Rightarrow> fail ErrUserNotFound | Some user \<Rightarrow> ret user)) w))
    = fold revoke_store (if st = 1 then [] else ms_userSessionIDs (upd_user u f (mw_store w)) u) (upd_user u f (mw_store w))" for f
    by (rule acts_read_after [OF a found_user_cases])
  show "mw_store (snd (SetUserStatus u st w)) = mw_store w \<or>
   (\<exists>f. mw_store (snd (SetUserStatus u st w)) = fold revoke_store (if st = 1 then [] else ms_userSessionIDs (mw_store w) u) (upd_user u f (mw_store w)))"
    unfolding SetUserStatus_def R_def [symmetric] assoc
    by (auto simp: rd bindE_def [of "read_store (\<lambda>s. user_of s u)" "case_option _ _"] read_store_def [of "\<lambda>s. user_of s u" w] fail_def split: option.splits)
  show "\<exists>f. mw_store (snd (SetUserStatus u st w)) = fold revoke_store (if st = 1 then [] else ms_userSessionIDs (mw_store w) u) (upd_user u f (mw_store w))"
    if "fst (SetUserStatus u st w) = Inr user"
    using that unfolding SetUserStatus_def R_def [symmetric] assoc
    by (auto simp: rd bindE_def [of "read_store (\<lambda>s. user_of s u)" "case_option _ _"] read_store_def [of "\<lambda>s. user_of s u" w] fail_def split: option.splits if_splits)
qed

lemma UpdatePassword_goes_on: "mem_ok w \<Longrightarrow> goes_on w (snd (UpdatePassword h phone pw w))"
proof -
  assume ok: "mem_ok w"
  have "store_ok (upd_user u bump (upd_user u f (mw_store w)))" for u f
    using ok store_ok_same [of "upd_user u bump (upd_user u f (mw_store w))" "mw_store w"] by (simp add: mem_ok_def)
  note e = end_all_ok [OF this]
  show ?thesis
    using UpdatePassword_store [of h phone pw w] e ok by (auto simp: goes_on_def mem_sessions_def mem_ok_def)
qed

lemma UpdatePassword_ends:
  assumes "mem_ok w" "fst (UpdatePassword h phone pw w) = Inr user" "ms_usersByPhone (mw_store w) phone = Some u"
  shows "all_ended u (mem_sessions (snd (UpdatePassword h phone pw w)))"
proof -
  have "store_ok (upd_user u bump (upd_user u f (mw_store w)))" for u f
    using assms(1) store_ok_same [of "upd_user u bump (upd_user u f (mw_store w))" "mw_store w"] by (simp add: mem_ok_def)
  note e = end_all_ok(3) [OF this]
  show ?thesis using UpdatePassword_Inr [OF assms(2)] assms(3) e by (auto simp: mem_sessions_def)
qed

lemma revoke_store_fold_ok:
  assumes "store_ok s"
  shows "store_ok (fold revoke_store ids s)" "evolves (ms_sessions s) (ms_sessions (fold revoke_store ids s))"
  using store_ok_revoke_fold [of revoke_store s ids] ids_revoke(1) assms by auto

lemma SetUserStatus_goes_on: "mem_ok w \<Longrightarrow> goes_on w (snd (SetUserStatus u st w))"
proof -
  assume ok: "mem_ok w"
  have "store_ok (upd_user u f (mw_store w))" for f
    using ok store_ok_same [of "upd_user u f (mw_store w)" "mw_store w"] by (simp add: mem_ok_def)
  note e = revoke_store_fold_ok [OF this]
  from SetUserStatus_store [of u st w] show ?thesis
  proof
    assume "\<exists>f. mw_store (snd (SetUserStatus u st w)) = fold revoke_store (if st = 1 then [] else ms_userSessionIDs (mw_store w) u) (upd_user u f (mw_store w))"
    then obtain f ids where "mw_store (snd (SetUserStatus u st w)) = fold revoke_store ids (upd_user u f (mw_store w))" by blast
    then show ?thesis using e by (simp add: goes_on_def mem_sessions_def)
  qed (use ok in \<open>simp add: goes_on_def mem_sessions_def mem_ok_def\<close>)
qed

lemma SetUserStatus_ends:
  assumes ok: "mem_ok w" and r: "fst (SetUserStatus u st w) = Inr user" and st: "st \<noteq> 1"
  shows "all_ended u (mem_sessions (snd (SetUserStatus u st w)))"
proof -
  obtain f where s: "mw_store (snd (SetUserStatus u st w)) = fold revoke_store (ms_userSessionIDs (upd_user u f (mw_store w)) u) (upd_user u f (mw_store w))"
    using SetUserStatus_Inr [OF r] st by auto
  have "listed (upd_user u f (mw_store w))"
    using ok listed_same [of "upd_user u f (mw_store w)" "mw_store w"] by (simp add: mem_ok_def store_ok_def)
  then show ?thesis unfolding mem_sessions_def s by (intro all_ended_fold) simp_all
qed

section \<open>Steps\<close>

inductive mem_step :: "mem_world \<Rightarrow> mem_world \<Rightarrow> bool" where
  elsewhere: "ae_now w \<le> t \<Longrightarrow> mem_step w (w\<lparr>faults := fs, ae_now := t, ae_text := tm, ae_counts := cs, ae_events := es, ae_event_list := el\<rparr>)"
| issue: "mem_step w (snd (IssueCode phone scene ttl w))"
| consume: "mem_step w (snd (ConsumeCode phone scene code n w))"
| reset: "mem_step w (snd (ResetCode phone scene w))"
| create_user: "mem_step w (snd (CreateUser h prefix ct phone name pw w))"
| set_status: "mem_step w (snd (SetUserStatus u st w))"
| create_session: "(\<And>sid. randomToken r1 = Inr sid \<Longrightarrow> mem_sessions w sid = None) \<Longrightarrow> mem_step w (snd (CreateSessionForDevice r1 r2 u device ttl w))"
| refresh: "mem_step w (snd (RefreshSession t ttl w))"
| logout: "mem_step w (snd (Logout t w))"
| logout_all: "mem_step w (snd (LogoutAll u w))"
| password: "mem_step w (snd (UpdatePassword h phone pw w))"

lemmas goes_on_rules = goes_on_quiet quiet_codes quiet_CreateUser SetUserStatus_goes_on goes_on_create goes_on_refresh
  goes_on_logout LogoutAll_ends(1) UpdatePassword_goes_on

lemma mem_step_goes_on: "mem_step w w' \<Longrightarrow> mem_ok w \<Longrightarrow> goes_on w w'"
proof (induction rule: mem_step.induct)
  case elsewhere
  then show ?case by (simp add: goes_on_def mem_ok_def mem_sessions_def)
qed (auto intro: goes_on_rules)

lemma GetActiveSession_Inr:
  "GetActiveSession sid w = (Inr se, w') \<Longrightarrow> mem_sessions w sid = Some se \<and> \<not> se_Revoked se \<and> ae_now w \<le> se_ExpiresAt se \<and> w' = w"
  by (auto simp: GetActiveSession_def bindE_def now_def read_store_def mem_sessions_def fail_def ret_def split: option.splits if_splits)

lemma RefreshSession_current:
  assumes "RefreshSession t ttl w = (Inr r, w')"
  shows "\<exists>sid g sg se se'. parseRefreshToken t = Some (sid, g, sg) \<and> mem_sessions w sid = Some se \<and> \<not> se_Revoked se \<and>
        se_RefreshGeneration se = g \<and> sg = signRefreshToken sid g (se_RefreshFamilySecret se) \<and>
        mem_sessions w' sid = Some se' \<and> se_RefreshGeneration se' = i64 (g + 1)"
  using assms
proof (cases rule: RefreshSession_cases)
  case (rotated sid se h e)
  from check_token_Inr [OF rotated(1)] rotated(4) show ?thesis by (auto simp: mem_sessions_def)
qed simp

interpretation mem_auth: session_store mem_sessions mem_step mem_ok RefreshSession GetActiveSession
proof unfold_locales
  show "mem_ok w'" if "mem_ok w" "mem_step w w'" for w w'
    using mem_step_goes_on that goes_on_ok by blast
  show "evolves (mem_sessions w) (mem_sessions w')" if "mem_ok w" "mem_step w w'" for w w'
    using mem_step_goes_on that by (simp add: goes_on_def)
  show "mem_step w (snd (RefreshSession t ttl w))" for w t ttl by (rule mem_step.refresh)
  show "\<exists>sid g sg se se'. parseRefreshToken t = Some (sid, g, sg) \<and> mem_sessions w sid = Some se \<and> \<not> se_Revoked se \<and>
        se_RefreshGeneration se = g \<and> sg = signRefreshToken sid g (se_RefreshFamilySecret se) \<and>
        mem_sessions w' sid = Some se' \<and> se_RefreshGeneration se' = i64 (g + 1)"
    if "RefreshSession t ttl w = (Inr r, w')" for t ttl w r w' by (rule RefreshSession_current [OF that])
  show "mem_sessions w sid = Some se \<and> \<not> se_Revoked se" if "GetActiveSession sid w = (Inr se, w')" for sid w se w'
    using GetActiveSession_Inr [OF that] by simp
  show "single_session (mem_sessions w)" if "mem_ok w" for w
    using that by (simp add: mem_ok_def store_ok_def mem_sessions_def)
qed

end
