(* ===== verification/Auth_Sql_Safety.thy ===== *)
theory Auth_Sql_Safety
  imports Auth_Mem_Steps
begin

text \<open>
  The MySQL store meets the session contract, for every schedule of lost statements, commits and Redis
  calls.  No assumption on the random ids is needed: the primary key refuses an id that is taken.
\<close>

section \<open>Statements that succeeded\<close>

lemma auth_stmt_InrD:
  assumes "auth_stmt f w = (Inr a, w')"
  shows "f (sw_db w) = (Inr a, sw_db w') \<and> ae_now w' = ae_now w"
  using assms unfolding auth_stmt_def
proof (cases rule: ext_call_cases)
  case (reply fs)
  then show ?thesis by (auto split: prod.splits)
qed auto

lemma auth_query_InrD: "auth_query f w = (Inr a, w') \<Longrightarrow> a = f (sw_db w) \<and> sw_db w' = sw_db w \<and> ae_now w' = ae_now w"
  unfolding auth_query_def by (drule auth_stmt_InrD) auto

lemma exec_sql_InrD: "exec_sql f w = (Inr a, w') \<Longrightarrow> sw_db w' = f (sw_db w) \<and> ae_now w' = ae_now w"
  unfolding exec_sql_def by (drule auth_stmt_InrD) auto

lemma found_InrD: "bindE (auth_query f) (found e) w = (Inr a, w') \<Longrightarrow> f (sw_db w) = Some a \<and> sw_db w' = sw_db w \<and> ae_now w' = ae_now w"
  by (elim bindE_InrE, drule auth_query_InrD) (auto simp: found_def ret_def split: option.splits)

lemma rawDB_InrD: "rawDB w = (Inr a, w') \<Longrightarrow> sw_db w' = sw_db w \<and> ae_now w' = ae_now w"
  unfolding rawDB_def by (auto simp: ret_def elim!: ext_call_cases)

lemma sql_now_InrD: "now w = (Inr t, w') \<Longrightarrow> t = ae_now w \<and> w' = w"
  by (auto simp: now_def)

lemma tx_InrD:
  assumes "tx body w = (Inr a, w')"
  obtains fs w1 where "body (w\<lparr>faults := fs\<rparr>) = (Inr a, w1)" "sw_db w' = sw_db w1"
  by (rule with_tx_cases [OF assms [unfolded tx_def]]) (use that in auto)

lemmas sql_InrD = auth_stmt_InrD auth_query_InrD exec_sql_InrD found_InrD rawDB_InrD sql_now_InrD

lemma run_InrD:
  assumes "\<And>w :: sql_world. \<exists>tm fs. m w = (Inr (), w\<lparr>faults := fs, ae_text := tm\<rparr>)"
  shows "m w = (x, w') \<Longrightarrow> x = Inr () \<and> sw_db w' = sw_db w"
  using assms [of w] by auto

lemma syncUserVersion_run: "\<exists>tm fs. syncUserVersion u v w = (Inr (), w\<lparr>faults := fs, ae_text := tm\<rparr>)"
  using silent [of w] SetUserVersion_run [of u v w] by (simp add: syncUserVersion_def)

lemma redis_run_db: "m w = (x, w') \<Longrightarrow> (\<And>w :: sql_world. \<exists>tm fs. m w = (Inr (), w\<lparr>faults := fs, ae_text := tm\<rparr>)) \<Longrightarrow> sw_db w' = sw_db w"
  using run_InrD by blast

section \<open>The invariant\<close>

definition db_sessions :: "auth_db \<Rightarrow> string \<rightharpoonup> Session" where
  "db_sessions d = map_of (ad_sessions d)"

definition db_ok :: "auth_db \<Rightarrow> bool" where
  "db_ok d \<longleftrightarrow> distinct (map fst (ad_sessions d)) \<and> ids_match (db_sessions d) \<and> single_session (db_sessions d)"

definition sql_sessions :: "sql_world \<Rightarrow> string \<rightharpoonup> Session" where
  "sql_sessions w = db_sessions (sw_db w)"

definition sql_ok :: "sql_world \<Rightarrow> bool" where
  "sql_ok w \<longleftrightarrow> db_ok (sw_db w)"

definition grown :: "(string \<rightharpoonup> Session) \<Rightarrow> auth_db \<Rightarrow> bool" where
  "grown V d \<longleftrightarrow> db_ok d \<and> evolves V (db_sessions d)"

lemma map_of_rows: "map_of (map (\<lambda>(k, x). (k, f k x)) xs) k = map_option (f k) (map_of xs k)"
  by (induction xs) auto

text \<open>A change of every session in place that keeps owner, device and end.\<close>

lemma rows_in_place:
  assumes V: "V' = (\<lambda>k. map_option (f k) (V k))"
    and f: "\<And>k se. session_later se (f k se)"
  shows "single_session V \<Longrightarrow> single_session V'" "ids_match V \<Longrightarrow> ids_match V'" "evolves V V'"
proof -
  have o: "\<exists>se. V k = Some se \<and> session_later se se'" if "V' k = Some se'" for k se'
    using that f by (auto simp: V)
  show "single_session V'" if "single_session V"
    unfolding single_session_def
  proof (intro allI impI)
    fix k k' a b
    assume a: "V' k = Some a" "\<not> se_Revoked a" and b: "V' k' = Some b" "\<not> se_Revoked b"
      and eq: "se_UserID a = se_UserID b" "se_DeviceType a = se_DeviceType b"
    obtain a0 b0 where "V k = Some a0" "session_later a0 a" "V k' = Some b0" "session_later b0 b" using o a b by metis
    then show "k = k'" using that a b eq unfolding single_session_def session_later_def by metis
  qed
  show "ids_match V'" if "ids_match V" using that o unfolding ids_match_def session_later_def by metis
  show "evolves V V'" using f by (auto simp: evolves_def V)
qed

lemma grown_same: "grown V d \<Longrightarrow> ad_sessions d' = ad_sessions d \<Longrightarrow> grown V d'"
  by (simp add: grown_def db_ok_def db_sessions_def)

lemma sessions_revoke_where [simp]:
  "db_sessions (revoke_where P d) sid = map_option (\<lambda>se. if P se \<and> \<not> se_Revoked se then se\<lparr>se_Revoked := True\<rparr> else se) (db_sessions d sid)"
  by (simp add: db_sessions_def revoke_where_def map_of_rows [where f = "\<lambda>k se. if P se \<and> \<not> se_Revoked se then se\<lparr>se_Revoked := True\<rparr> else se"])

lemma fst_rows: "map fst (map (\<lambda>(k, x). (k, f k x)) xs) = map fst xs"
  by (induction xs) auto

lemma grown_in_place:
  assumes d: "grown V d" and a: "ad_sessions d' = map (\<lambda>(k, se). (k, f k se)) (ad_sessions d)" and f: "\<And>k se. session_later se (f k se)"
  shows "grown V d'"
proof -
  have V: "db_sessions d' = (\<lambda>k. map_option (f k) (db_sessions d k))"
    by (rule ext) (simp add: db_sessions_def a map_of_rows)
  have "distinct (map fst (ad_sessions d'))" using d unfolding a fst_rows by (simp add: grown_def db_ok_def)
  then show ?thesis using d rows_in_place [OF V f] evolves_trans by (auto simp: grown_def db_ok_def)
qed

lemma grown_revoke_where: "grown V d \<Longrightarrow> grown V (revoke_where P d)"
  by (erule grown_in_place [where f = "\<lambda>k se. if P se \<and> \<not> se_Revoked se then se\<lparr>se_Revoked := True\<rparr> else se"])
     (auto simp: revoke_where_def session_later_def)

lemma grown_update_session:
  assumes d: "grown V d" and u: "update_session new g h d = (x, d')" and new: "se_RefreshGeneration new = i64 (g + 1)" "0 < g" "in_i64 g"
  shows "grown V d'"
proof -
  let ?f = "\<lambda>k se. if k = se_ID new \<and> se_RefreshGeneration se = g \<and> se_RefreshTokenHash se = h \<and> \<not> se_Revoked se
      then se\<lparr>se_RefreshGeneration := se_RefreshGeneration new, se_RefreshTokenHash := se_RefreshTokenHash new,
        se_PreviousRefreshTokenHash := se_PreviousRefreshTokenHash new, se_ExpiresAt := se_ExpiresAt new\<rparr> else se"
  have "d' = d \<or> ad_sessions d' = map (\<lambda>(k, se). (k, ?f k se)) (ad_sessions d)"
    using u by (auto simp: update_session_def Let_def split: if_splits)
  moreover have "session_later se (?f k se)" for k se
    using new later_gen_next by (auto simp: session_later_def)
  ultimately show ?thesis using d grown_in_place [where f = ?f] by auto
qed

lemma grown_insert_session:
  assumes d: "grown V d" and i: "insert_session se d = (x, d')"
    and free: "\<And>k se'. db_sessions d k = Some se' \<Longrightarrow> se_UserID se' = se_UserID se \<Longrightarrow> se_DeviceType se' = se_DeviceType se \<Longrightarrow> se_Revoked se'"
  shows "grown V d'"
proof (cases "d' = d")
  case False
  with i have n: "se_ID se \<notin> fst ` set (ad_sessions d)" and a: "ad_sessions d' = ad_sessions d @ [(se_ID se, se)]"
    by (auto simp: insert_session_def list_ex_iff split: if_splits prod.splits)
  have none: "db_sessions d (se_ID se) = None" using n by (auto simp: db_sessions_def map_of_eq_None_iff)
  have V: "db_sessions d' = (db_sessions d)(se_ID se \<mapsto> se)"
    using none by (auto simp: db_sessions_def a map_add_def fun_eq_iff split: option.splits)
  have "single_session (db_sessions d')"
    using d free unfolding V grown_def db_ok_def single_session_def by (auto split: if_splits)
  then show ?thesis
    using d n none a evolves_new [of "db_sessions d" "se_ID se" se] evolves_trans
    by (auto simp: grown_def db_ok_def ids_match_def V split: if_splits)
qed (use d in simp)

section \<open>Every operation keeps it\<close>

definition grown_world :: "(string \<rightharpoonup> Session) \<Rightarrow> sql_world \<Rightarrow> bool" where
  "grown_world V w \<longleftrightarrow> grown V (sw_db w)"

lemma fault_free_grown [simp]: "fault_free (grown_world V)"
  by (simp add: fault_free_def grown_world_def)

lemma keeps_sql_stmt:
  "(\<And>d x d'. grown V d \<Longrightarrow> f d = (x, d') \<Longrightarrow> grown V d') \<Longrightarrow> keeps (grown_world V) (auth_stmt f)"
  unfolding auth_stmt_def by (rule keeps_ext_call) (auto simp: keeps_def grown_world_def split: prod.splits)

lemma keeps_sql_query [keeps_rules]: "keeps (grown_world V) (auth_query f)"
  unfolding auth_query_def by (rule keeps_sql_stmt) simp

lemma keeps_exec: "(\<And>d. grown V d \<Longrightarrow> grown V (f d)) \<Longrightarrow> keeps (grown_world V) (exec_sql f)"
  unfolding exec_sql_def by (rule keeps_sql_stmt) auto

lemma keeps_exec_same: "(\<And>d. ad_sessions (f d) = ad_sessions d) \<Longrightarrow> keeps (grown_world V) (exec_sql f)"
  by (rule keeps_exec) (rule grown_same)

lemma keeps_redis: "(\<And>w :: sql_world. \<exists>tm fs. m w = (Inr (), w\<lparr>faults := fs, ae_text := tm\<rparr>)) \<Longrightarrow> keeps (grown_world V) m"
proof (rule keepsI)
  fix w :: sql_world
  assume m: "\<And>w :: sql_world. \<exists>tm fs. m w = (Inr (), w\<lparr>faults := fs, ae_text := tm\<rparr>)" and g: "grown_world V w"
  obtain tm fs where "m w = (Inr (), w\<lparr>faults := fs, ae_text := tm\<rparr>)" using m by blast
  then show "grown_world V (snd (m w))" using g by (simp add: grown_world_def)
qed

lemma keeps_sql_parts [keeps_rules]:
  "keeps (grown_world V) rawDB" "keeps (grown_world V) now" "keeps (grown_world V) next_user_id" "keeps (grown_world V) (found e x)"
  "keeps (grown_world V) (syncSessionState se)" "keeps (grown_world V) (deleteSessionState sid)" "keeps (grown_world V) (syncUserVersion u v)"
  using keeps_redis [OF syncSessionState_run] keeps_redis [OF deleteSessionState_run] keeps_redis [OF syncUserVersion_run]
  by (auto simp: rawDB_def found_def next_user_id_def now_def keeps_def [of "grown_world V" next_user_id] keeps_def [of "grown_world V" now] grown_world_def
      intro!: keeps_ext_call keeps_ret keeps_fail split: option.splits)

lemma keeps_tx [keeps_rules]: "keeps (grown_world V) body \<Longrightarrow> keeps (grown_world V) (tx body)"
  unfolding tx_def by (rule keeps_with_tx) (auto simp: grown_world_def)

lemma keeps_statements [keeps_rules]:
  "keeps (grown_world V) (exec_sql (insert_user u c))" "keeps (grown_world V) (exec_sql (upd_row u f))"
  "keeps (grown_world V) (auth_stmt (insert_identity u p))" "keeps (grown_world V) (auth_stmt (insert_credential u h))"
  "keeps (grown_world V) (exec_sql (set_credential u h))" "keeps (grown_world V) (exec_sql (revoke_where P))"
  "keeps (grown_world V) (exec_sql (revoke_codes p sc))" "keeps (grown_world V) (set_code_row i g)"
  "keeps (grown_world V) (exec_sql (\<lambda>d. d\<lparr>ad_codes := k d\<rparr>))" "keeps (grown_world V) (auth_stmt (\<lambda>d. (r d, upd_row u f d)))"
  unfolding set_code_row_def
  by (rule keeps_exec_same keeps_sql_query keeps_exec [OF grown_revoke_where] keeps_sql_stmt,
      auto simp: insert_user_def upd_row_def set_credential_def revoke_codes_def insert_identity_def insert_credential_def
        elim!: grown_same split: if_splits)+

lemma keeps_listActive [keeps_rules]: "keeps (grown_world V) (listActiveSessionIDsTx u dev)"
  unfolding listActiveSessionIDsTx_def by (rule keeps_sql_query)

lemma keeps_update_session:
  "se_RefreshGeneration new = i64 (g + 1) \<Longrightarrow> 0 < g \<Longrightarrow> in_i64 g \<Longrightarrow> keeps (grown_world V) (auth_stmt (update_session new g h))"
  by (rule keeps_sql_stmt) (rule grown_update_session)

lemma keeps_codes:
  "keeps (grown_world V) (sql_IssueCode phone scene ttl)" "keeps (grown_world V) (sql_ConsumeCode phone scene code n)"
  "keeps (grown_world V) (sql_ResetCode phone scene)"
  unfolding sql_IssueCode_def sql_ConsumeCode_def sql_ResetCode_def Let_def
  by (auto intro!: keeps_rules)

lemma keeps_users:
  "keeps (grown_world V) (sql_CreateUser h c phone name pw)" "keeps (grown_world V) (sql_UpdatePassword h phone pw)"
  "keeps (grown_world V) (sql_SetUserStatus u st)"
  unfolding sql_CreateUser_def sql_UpdatePassword_def sql_SetUserStatus_def getUserByIDAnyStatus_def Let_def
  by (auto intro!: keeps_rules)

lemma keeps_logout:
  "keeps (grown_world V) (sql_Logout t)" "keeps (grown_world V) (sql_LogoutAll u)"
  unfolding sql_Logout_def sql_LogoutAll_def sql_logout_all_def sql_check_token_def Let_def
  by (auto intro!: keeps_rules split: option.splits prod.splits sum.splits)

lemma keeps_refresh: "keeps (grown_world V) (sql_RefreshSession t ttl)"
proof (cases "parseRefreshToken t")
  case None
  then show ?thesis by (simp add: sql_RefreshSession_def keeps_fail)
next
  case (Some p)
  obtain sid g sg where p: "p = (sid, g, sg)" by (cases p)
  have pos: "0 < g" "in_i64 g" using Some p parse_gen_pos in_i64_parsed by auto
  show ?thesis
    unfolding sql_RefreshSession_def sql_check_token_def Let_def
    using Some p pos
    by (auto intro!: keeps_rules keeps_update_session split: sum.splits prod.splits)
qed

text \<open>A new session: the live sessions of the user on the device were revoked in the same transaction.\<close>

lemma triple_stmt:
  assumes "\<And>d a d'. P d \<Longrightarrow> f d = (Inr a, d') \<Longrightarrow> Q a d' \<and> E d'" "\<And>d e d'. P d \<Longrightarrow> f d = (Inl e, d') \<Longrightarrow> E d'" "\<And>d. P d \<Longrightarrow> E d"
  shows "triple (\<lambda>w. P (sw_db w)) (auth_stmt f) (\<lambda>a w. Q a (sw_db w)) (\<lambda>w. E (sw_db w))"
  unfolding triple_def auth_stmt_def
proof (intro allI impI)
  fix w :: sql_world assume P: "P (sw_db w)"
  obtain x w' where r: "ext_call (\<lambda>w. case f (sw_db w) of (r, d) \<Rightarrow> (r, w\<lparr>sw_db := d\<rparr>)) w = (x, w')" by fastforce
  then have "case (x, w') of (Inl e, w') \<Rightarrow> E (sw_db w') | (Inr a, w') \<Rightarrow> Q a (sw_db w')"
  proof (cases rule: ext_call_cases)
    case (reply fs)
    then show ?thesis using assms(1,2) [OF P] by (cases x) (auto split: prod.splits)
  next
    case (lost s fs)
    then show ?thesis using assms(3) [OF P] by simp
  next
    case (unanswered s fs y)
    then show ?thesis using assms(1,2) [OF P] by (cases y) (auto split: prod.splits)
  qed
  then show "case ext_call (\<lambda>w. case f (sw_db w) of (r, d) \<Rightarrow> (r, w\<lparr>sw_db := d\<rparr>)) w of (Inl e, w') \<Rightarrow> E (sw_db w') | (Inr a, w') \<Rightarrow> Q a (sw_db w')"
    unfolding r .
qed

definition no_live :: "int \<Rightarrow> string \<Rightarrow> auth_db \<Rightarrow> bool" where
  "no_live u dev d \<longleftrightarrow> (\<forall>k se. db_sessions d k = Some se \<longrightarrow> se_UserID se = u \<longrightarrow> se_DeviceType se = dev \<longrightarrow> se_Revoked se)"

lemma no_live_revoke: "no_live u dev (revoke_where (\<lambda>se. se_UserID se = u \<and> se_DeviceType se = dev) d)"
  unfolding no_live_def
proof (intro allI impI)
  fix k se
  assume a: "db_sessions (revoke_where (\<lambda>se. se_UserID se = u \<and> se_DeviceType se = dev) d) k = Some se"
    and u: "se_UserID se = u" "se_DeviceType se = dev"
  let ?f = "\<lambda>se0. if (se_UserID se0 = u \<and> se_DeviceType se0 = dev) \<and> \<not> se_Revoked se0 then se0\<lparr>se_Revoked := True\<rparr> else se0"
  have "\<exists>z. db_sessions d k = Some z \<and> ?f z = se" using a by (simp only: sessions_revoke_where map_option_eq_Some)
  then obtain z where z: "?f z = se" by blast
  have "se_UserID (?f z) = se_UserID z" "se_DeviceType (?f z) = se_DeviceType z" by simp_all
  then have "se_UserID z = u" "se_DeviceType z = dev" unfolding z u by simp_all
  then have "se_Revoked (?f z)" by simp
  then show "se_Revoked se" unfolding z .
qed

lemma no_live_empty: "dev \<noteq> [] \<Longrightarrow> active_ids u dev d = [] \<Longrightarrow> no_live u dev d"
  by (auto simp: no_live_def active_ids_def filter_empty_conv db_sessions_def dest!: map_of_SomeD)

lemma keeps_create: "keeps (grown_world V) (sql_CreateSessionForDevice r1 r2 u device ttl)"
proof -
  have dev: "(if device = [] then ''web'' else device) \<noteq> []" by simp
  define dv where "dv = (if device = [] then ''web'' else device)"
  let ?P = "\<lambda>w. grown V (sw_db w)"
  have ids: "triple ?P (listActiveSessionIDsTx u dv) (\<lambda>ids w. grown V (sw_db w) \<and> ids = active_ids u dv (sw_db w)) ?P"
    unfolding listActiveSessionIDsTx_def auth_query_def by (rule triple_stmt) auto
  have rev: "triple (\<lambda>w. grown V (sw_db w) \<and> ids = active_ids u dv (sw_db w))
      (if ids \<noteq> [] then exec_sql (revoke_where (\<lambda>se. se_UserID se = u \<and> se_DeviceType se = dv)) else ret ())
      (\<lambda>_ w. grown V (sw_db w) \<and> no_live u dv (sw_db w)) ?P" for ids
  proof (cases "ids = []")
    case True
    then show ?thesis using no_live_empty dev by (auto simp: dv_def triple_def ret_def)
  next
    case False
    then show ?thesis
      unfolding exec_sql_def using grown_revoke_where no_live_revoke
      by simp (rule triple_stmt; auto)
  qed
  have ins: "triple (\<lambda>w. grown V (sw_db w) \<and> no_live u dv (sw_db w)) (auth_stmt (insert_session se)) (\<lambda>_. ?P) ?P"
    if "se_UserID se = u" "se_DeviceType se = dv" for se
    using that grown_insert_session by (intro triple_stmt) (auto simp: no_live_def)
  have body: "keeps (grown_world V)
      (bindE (bindE (auth_query (select_by_id u)) (found ErrUserNotFound)) (\<lambda>user.
         bindE (listActiveSessionIDsTx u dv) (\<lambda>old.
         bindE (if old \<noteq> [] then exec_sql (revoke_where (\<lambda>se. se_UserID se = u \<and> se_DeviceType se = dv)) else ret ()) (\<lambda>_.
         bindE now (\<lambda>t. bindE (auth_stmt (insert_session (mk user t))) (\<lambda>_. ret (mk user t, old)))))))"
    if mk: "\<And>user t. se_UserID (mk user t) = u" "\<And>user t. se_DeviceType (mk user t) = dv" for mk
  proof -
    have "triple ?P (bindE (listActiveSessionIDsTx u dv) (\<lambda>old.
         bindE (if old \<noteq> [] then exec_sql (revoke_where (\<lambda>se. se_UserID se = u \<and> se_DeviceType se = dv)) else ret ()) (\<lambda>_.
         bindE now (\<lambda>t. bindE (auth_stmt (insert_session (mk user t))) (\<lambda>_. ret (mk user t, old)))))) (\<lambda>_. ?P) ?P" for user
      by (rule triple_bind [OF ids triple_bind [OF rev triple_bind [where Q = "\<lambda>_ w. grown V (sw_db w) \<and> no_live u dv (sw_db w)", OF _ triple_bind [OF ins [OF mk]]]]])
         (auto simp: triple_def now_def ret_def)
    then have k: "keeps (grown_world V) (bindE (listActiveSessionIDsTx u dv) (\<lambda>old.
         bindE (if old \<noteq> [] then exec_sql (revoke_where (\<lambda>se. se_UserID se = u \<and> se_DeviceType se = dv)) else ret ()) (\<lambda>_.
         bindE now (\<lambda>t. bindE (auth_stmt (insert_session (mk user t))) (\<lambda>_. ret (mk user t, old))))))" for user
      by (intro keepsI) (auto simp: grown_world_def dest: triple_snd)
    show ?thesis by (intro keeps_bindE k keeps_rules)
  qed
  show ?thesis
    unfolding sql_CreateSessionForDevice_def Let_def dv_def [symmetric]
    by (auto intro!: keeps_rules body)
qed

section \<open>Steps\<close>

inductive sql_step :: "sql_world \<Rightarrow> sql_world \<Rightarrow> bool" where
  elsewhere: "ae_now w \<le> t \<Longrightarrow> sql_step w (w\<lparr>faults := fs, ae_now := t, ae_text := tm, ae_counts := cs, ae_events := es, ae_event_list := el\<rparr>)"
| issue: "sql_step w (snd (sql_IssueCode phone scene ttl w))"
| consume: "sql_step w (snd (sql_ConsumeCode phone scene code n w))"
| reset: "sql_step w (snd (sql_ResetCode phone scene w))"
| create_user: "sql_step w (snd (sql_CreateUser h ct phone name pw w))"
| set_status: "sql_step w (snd (sql_SetUserStatus u st w))"
| create_session: "sql_step w (snd (sql_CreateSessionForDevice r1 r2 u device ttl w))"
| refresh: "sql_step w (snd (sql_RefreshSession t ttl w))"
| logout: "sql_step w (snd (sql_Logout t w))"
| logout_all: "sql_step w (snd (sql_LogoutAll u w))"
| password: "sql_step w (snd (sql_UpdatePassword h phone pw w))"

lemma grown_start: "sql_ok w \<Longrightarrow> grown_world (sql_sessions w) w"
  by (simp add: sql_ok_def grown_world_def grown_def sql_sessions_def)

lemma sql_step_grown: "sql_step w w' \<Longrightarrow> sql_ok w \<Longrightarrow> grown_world (sql_sessions w) w'"
proof (induction rule: sql_step.induct)
  case elsewhere
  then show ?case using grown_start by (simp add: grown_world_def)
qed (auto intro: keepsD keeps_codes keeps_users keeps_logout keeps_refresh keeps_create grown_start)

lemma sql_check_token_Inr:
  assumes "sql_check_token sel sid g sg k w = (Inr (Inr a), w')"
  obtains se w1 where "sel sid (sw_db w) = Some se" "\<not> se_Revoked se" "ae_now w \<le> se_ExpiresAt se"
    "sg = signRefreshToken sid g (se_RefreshFamilySecret se)" "se_RefreshGeneration se = g"
    "sw_db w1 = sw_db w" "ae_now w1 = ae_now w" "k se w1 = (Inr a, w')"
proof -
  from assms obtain se w1 where 1: "bindE (auth_query (sel sid)) (found ErrRefreshTokenInvalid) w = (Inr se, w1)"
    and 2: "bindE now (\<lambda>t. if se_Revoked se \<or> After t (se_ExpiresAt se) then fail ErrRefreshTokenInvalid
     else if \<not> verifyRefreshTokenSignature sid g sg (se_RefreshFamilySecret se) then fail ErrRefreshTokenInvalid
     else if g < se_RefreshGeneration se then bindE (exec_sql (revoke_where (\<lambda>x. se_ID x = se_ID se))) (\<lambda>_. ret (Inl se))
     else if g > se_RefreshGeneration se then fail ErrRefreshTokenInvalid
     else bindE (k se) (\<lambda>a. ret (Inr a))) w1 = (Inr (Inr a), w')"
    unfolding sql_check_token_def by (elim bindE_InrE [of "bindE (auth_query (sel sid)) (found ErrRefreshTokenInvalid)"])
  note f = found_InrD [OF 1]
  from 2 have "\<not> se_Revoked se" "ae_now w1 \<le> se_ExpiresAt se" "verifyRefreshTokenSignature sid g sg (se_RefreshFamilySecret se)"
    "se_RefreshGeneration se = g" "k se w1 = (Inr a, w')"
    by (auto simp: bindE_def [of now] now_def ret_def elim!: bindE_InrE split: if_splits)
  then show thesis using f that [of se w1] by (simp add: verifyRefreshTokenSignature_def)
qed

text \<open>The guarded update, when it matched, moved the row to the next generation.\<close>

lemma update_session_hit:
  assumes "update_session new g h d = (Inr True, d')" "distinct (map fst (ad_sessions d))"
  shows "\<exists>se'. db_sessions d' (se_ID new) = Some se' \<and> se_RefreshGeneration se' = se_RefreshGeneration new"
proof -
  let ?hit = "\<lambda>k se. k = se_ID new \<and> se_RefreshGeneration se = g \<and> se_RefreshTokenHash se = h \<and> \<not> se_Revoked se"
  let ?f = "\<lambda>k se. if ?hit k se then se\<lparr>se_RefreshGeneration := se_RefreshGeneration new, se_RefreshTokenHash := se_RefreshTokenHash new,
        se_PreviousRefreshTokenHash := se_PreviousRefreshTokenHash new, se_ExpiresAt := se_ExpiresAt new\<rparr> else se"
  from assms(1) have a: "ad_sessions d' = map (\<lambda>(k, se). (k, ?f k se)) (ad_sessions d)"
    and "list_ex (\<lambda>(k, se). ?hit k se) (ad_sessions d)"
    by (auto simp: update_session_def Let_def split: if_splits)
  then obtain k se where "(k, se) \<in> set (ad_sessions d)" and hit: "?hit k se" by (auto simp: list_ex_iff)
  then have "db_sessions d (se_ID new) = Some se" using assms(2) by (auto simp: db_sessions_def)
  then show ?thesis using hit by (auto simp: db_sessions_def a map_of_rows)
qed

lemma sql_refresh_current:
  assumes ok: "sql_ok w" and r: "sql_RefreshSession t ttl w = (Inr r, w')"
  shows "\<exists>sid g sg se se'. parseRefreshToken t = Some (sid, g, sg) \<and> sql_sessions w sid = Some se \<and> \<not> se_Revoked se \<and>
        se_RefreshGeneration se = g \<and> sg = signRefreshToken sid g (se_RefreshFamilySecret se) \<and>
        sql_sessions w' sid = Some se' \<and> se_RefreshGeneration se' = i64 (g + 1)"
proof -
  define K where "K g = (\<lambda>session.
            let newRefreshToken = buildRefreshToken (se_ID session) (i64 (se_RefreshGeneration session + 1)) (se_RefreshFamilySecret session) in
            bindE now (\<lambda>n.
            let new = rotate (hashToken newRefreshToken) (n + Seconds (session_ttl ttl)) session in
            bindE (auth_stmt (update_session new g (hashToken t))) (\<lambda>rows.
            if \<not> rows then fail ErrRefreshTokenInvalid else ret (new, newRefreshToken))))" for g
  obtain sid g sg where p: "parseRefreshToken t = Some (sid, g, sg)"
    using r by (auto simp: sql_RefreshSession_def fail_def split: option.splits if_splits)
  from r p obtain w1 x w2 where w1: "rawDB w = (Inr (), w1)" and tx: "tx (sql_check_token with_active_user sid g sg (K g)) w1 = (Inr x, w2)"
    and rest: "(case x of Inl session \<Rightarrow> bindE (deleteSessionState (se_ID session)) (\<lambda>_. fail ErrRefreshTokenReplayed)
           | Inr (session, newRefreshToken) \<Rightarrow> bindE (syncSessionState session) (\<lambda>_. ret (session, newRefreshToken))) w2 = (Inr r, w')"
    by (auto simp: sql_RefreshSession_def K_def split: if_splits elim!: bindE_InrE)
  obtain new tok where x: "x = Inr (new, tok)"
    using rest by (cases x) (auto elim!: bindE_InrE)
  have w': "sw_db w' = sw_db w2"
    using rest run_InrD [of "syncSessionState new", OF syncSessionState_run] by (auto simp: x ret_def elim!: bindE_InrE)
  obtain fs w3 where body: "sql_check_token with_active_user sid g sg (K g) (w1\<lparr>faults := fs\<rparr>) = (Inr (Inr (new, tok)), w3)" and w3: "sw_db w2 = sw_db w3"
    using tx_InrD [OF tx [unfolded x]] by metis
  obtain se w4 where se: "with_active_user sid (sw_db w1) = Some se" "\<not> se_Revoked se" "sg = signRefreshToken sid g (se_RefreshFamilySecret se)"
      "se_RefreshGeneration se = g" and w4: "sw_db w4 = sw_db w1" and k: "K g se w4 = (Inr (new, tok), w3)"
    by (rule sql_check_token_Inr [OF body]) simp
  have db: "sw_db w1 = sw_db w" using rawDB_InrD [OF w1] by simp
  have row: "db_sessions (sw_db w) sid = Some se" using se(1) by (auto simp: with_active_user_def db_sessions_def db split: option.splits if_splits)
  have id: "se_ID se = sid" using ok row by (auto simp: sql_ok_def db_ok_def ids_match_def)
  obtain h e where upd: "update_session (rotate h e se) g (hashToken t) (sw_db w) = (Inr True, sw_db w3)"
    using k w4 db by (auto simp: K_def Let_def bindE_def [of now] now_def ret_def split: if_splits elim!: bindE_InrE dest!: auth_stmt_InrD)
  have "distinct (map fst (ad_sessions (sw_db w)))" using ok by (simp add: sql_ok_def db_ok_def)
  from update_session_hit [OF upd this] show ?thesis
    using p row se id w' w3 by (auto simp: sql_sessions_def)
qed

lemma sql_GetActiveSession_Inr: "sql_GetActiveSession sid w = (Inr se, w') \<Longrightarrow> sql_sessions w sid = Some se \<and> \<not> se_Revoked se"
  by (auto simp: sql_GetActiveSession_def with_active_user_def sql_sessions_def db_sessions_def ret_def
      split: if_splits option.splits elim!: bindE_InrE [of rawDB] bindE_InrE [of now] bindE_InrE [of "bindE (auth_query _) (found _)"] dest!: rawDB_InrD found_InrD sql_now_InrD)

interpretation sql_auth: session_store sql_sessions sql_step sql_ok sql_RefreshSession sql_GetActiveSession
proof unfold_locales
  show "sql_ok w'" if "sql_ok w" "sql_step w w'" for w w'
    using sql_step_grown [OF that(2,1)] by (simp add: grown_world_def grown_def sql_ok_def)
  show "evolves (sql_sessions w) (sql_sessions w')" if "sql_ok w" "sql_step w w'" for w w'
    using sql_step_grown [OF that(2,1)] by (simp add: grown_world_def grown_def sql_sessions_def)
  show "sql_step w (snd (sql_RefreshSession t ttl w))" for w t ttl by (rule sql_step.refresh)
  show "\<exists>sid g sg se se'. parseRefreshToken t = Some (sid, g, sg) \<and> sql_sessions w sid = Some se \<and> \<not> se_Revoked se \<and>
        se_RefreshGeneration se = g \<and> sg = signRefreshToken sid g (se_RefreshFamilySecret se) \<and>
        sql_sessions w' sid = Some se' \<and> se_RefreshGeneration se' = i64 (g + 1)"
    if "sql_ok w" "sql_RefreshSession t ttl w = (Inr r, w')" for t ttl w r w' by (rule sql_refresh_current [OF that])
  show "sql_sessions w sid = Some se \<and> \<not> se_Revoked se" if "sql_GetActiveSession sid w = (Inr se, w')" for sid w se w'
    by (rule sql_GetActiveSession_Inr [OF that])
  show "single_session (sql_sessions w)" if "sql_ok w" for w
    using that by (simp add: sql_ok_def db_ok_def sql_sessions_def)
qed

section \<open>Ending sessions\<close>

lemma all_ended_revoke: "all_ended u (db_sessions (revoke_where (\<lambda>se. se_UserID se = u) d))"
  unfolding all_ended_def
proof (intro allI impI)
  fix k se
  let ?f = "\<lambda>se0. if se_UserID se0 = u \<and> \<not> se_Revoked se0 then se0\<lparr>se_Revoked := True\<rparr> else se0"
  assume a: "db_sessions (revoke_where (\<lambda>se. se_UserID se = u) d) k = Some se" and u: "se_UserID se = u"
  have "\<exists>z. db_sessions d k = Some z \<and> ?f z = se" using a by (simp only: sessions_revoke_where map_option_eq_Some)
  then obtain z where z: "?f z = se" by blast
  have "se_UserID (?f z) = se_UserID z" by simp
  then have "se_UserID z = u" unfolding z u by simp
  then have "se_Revoked (?f z)" by simp
  then show "se_Revoked se" unfolding z .
qed

lemma for_each_redis:
  assumes "\<And>x (w :: sql_world). \<exists>tm fs. m x w = (Inr (), w\<lparr>faults := fs, ae_text := tm\<rparr>)"
  shows "for_each xs m w = (x, w') \<Longrightarrow> x = Inr () \<and> sw_db w' = sw_db w"
proof (induction xs arbitrary: w)
  case (Cons a xs)
  obtain tm fs where "m a w = (Inr (), w\<lparr>faults := fs, ae_text := tm\<rparr>)" using assms by blast
  then show ?case using Cons by (auto simp: bindE_def)
qed (auto simp: ret_def)

lemmas redis_db = for_each_redis [of "deleteSessionState", OF deleteSessionState_run] run_InrD [OF syncUserVersion_run]

lemma sql_UpdatePassword_ends:
  assumes "sql_UpdatePassword h phone pw w = (Inr user, w')"
  shows "all_ended (us_ID user) (sql_sessions w')"
proof -
  define B where "B hash = (bindE (bindE (auth_query (select_by_phone phone)) (found ErrUserNotFound)) (\<lambda>user.
              let nextVersion = (let v = i64 (us_SessionVersion user + 1) in if v \<le> 0 then 1 else v) in
              bindE (exec_sql (upd_row (us_ID user) (\<lambda>r. r\<lparr>ur_session_version := nextVersion\<rparr>))) (\<lambda>_.
              bindE (exec_sql (set_credential (us_ID user) hash)) (\<lambda>_.
              bindE (listActiveSessionIDsTx (us_ID user) []) (\<lambda>sessionIDs.
              bindE (exec_sql (revoke_where (\<lambda>se. se_UserID se = us_ID user))) (\<lambda>_.
              ret (user\<lparr>us_PasswordHash := hash, us_SessionVersion := nextVersion\<rparr>, sessionIDs)))))))" for hash
  obtain hash w1 x ids w2 where t: "tx (B hash) w1 = (Inr (x, ids), w2)"
    and rest: "bindE (for_each ids deleteSessionState) (\<lambda>_. bindE (syncUserVersion (us_ID x) (us_SessionVersion x)) (\<lambda>_. ret x)) w2 = (Inr user, w')"
    using assms unfolding sql_UpdatePassword_def B_def [symmetric]
    by (auto split: if_splits elim!: bindE_InrE [of rawDB] bindE_InrE [of "of_result _"] bindE_InrE [of "tx _"])
  have e: "x = user" "sw_db w' = sw_db w2"
    using rest by (auto simp: ret_def elim!: bindE_InrE dest!: redis_db)
  obtain fs w3 where b: "B hash (w1\<lparr>faults := fs\<rparr>) = (Inr (user, ids), w3)" "sw_db w2 = sw_db w3"
    using tx_InrD [OF t] e by metis
  obtain d where "sw_db w3 = revoke_where (\<lambda>se. se_UserID se = us_ID user) d"
    using b(1) by (auto simp: B_def Let_def ret_def listActiveSessionIDsTx_def elim!: bindE_InrE [of "exec_sql _"] bindE_InrE [of "auth_query (active_ids _ _)"]
        bindE_InrE [of "bindE (auth_query _) (found _)"] dest!: exec_sql_InrD split: if_splits)
  then show ?thesis using e b all_ended_revoke by (simp add: sql_sessions_def)
qed

lemma sql_SetUserStatus_ends:
  assumes "sql_SetUserStatus u st w = (Inr user, w')" "st \<noteq> 1"
  shows "all_ended u (sql_sessions w')"
proof -
  define B where "B = (bindE (bindE (auth_query (\<lambda>d. map_option (\<lambda>r. ur_session_version r + 1) (map_of (ad_users d) u))) (found ErrUserNotFound)) (\<lambda>nextVersion.
              bindE (auth_stmt (\<lambda>d. (Inr (map_of (ad_users d) u \<noteq> None), upd_row u (\<lambda>r. r\<lparr>ur_status := st, ur_session_version := nextVersion\<rparr>) d))) (\<lambda>changed.
              if \<not> changed then fail ErrUserNotFound
              else if st \<noteq> statusActive
              then bindE (auth_query (active_ids u [])) (\<lambda>sessionIDs.
                   bindE (exec_sql (revoke_where (\<lambda>se. se_UserID se = u))) (\<lambda>_. ret (nextVersion, sessionIDs)))
              else ret (nextVersion, []))))"
  obtain w1 v ids w2 where t: "tx B w1 = (Inr (v, ids), w2)"
    and rest: "bindE (for_each ids deleteSessionState) (\<lambda>_. bindE (syncUserVersion u v) (\<lambda>_. getUserByIDAnyStatus u)) w2 = (Inr user, w')"
    using assms unfolding sql_SetUserStatus_def B_def [symmetric] by (auto split: if_splits elim!: bindE_InrE [of rawDB] bindE_InrE [of "tx _"])
  have e: "sw_db w' = sw_db w2"
    using rest unfolding getUserByIDAnyStatus_def
    by (auto elim!: bindE_InrE [of "for_each _ _"] bindE_InrE [of "syncUserVersion _ _"] bindE_InrE [of rawDB] dest!: redis_db rawDB_InrD found_InrD)
  obtain fs w3 where b: "B (w1\<lparr>faults := fs\<rparr>) = (Inr (v, ids), w3)" "sw_db w2 = sw_db w3"
    by (rule tx_InrD [OF t])
  obtain d where "sw_db w3 = revoke_where (\<lambda>se. se_UserID se = u) d"
    using b(1) assms(2)
    by (auto simp: B_def ret_def elim!: bindE_InrE [of "bindE (auth_query _) (found _)"] bindE_InrE [of "auth_stmt _"] bindE_InrE [of "auth_query _"] bindE_InrE [of "exec_sql _"]
        dest!: exec_sql_InrD split: if_splits)
  then show ?thesis using e b all_ended_revoke by (simp add: sql_sessions_def)
qed

end
