(* ===== verification/Auth_Codes.thy ===== *)
theory Auth_Codes
  imports Auth_Sql_Safety
begin

text \<open>
  Guessing a verification code, in the MySQL store and under any losses: the newest active code of a
  phone and scene has a budget of wrong guesses that every answered wrong guess uses up.
\<close>

section \<open>The active code\<close>

definition codes_ok :: "int \<Rightarrow> auth_db \<Rightarrow> bool" where
  "codes_ok n d \<longleftrightarrow> (\<forall>p sc i j. i < length (ad_codes d) \<longrightarrow> j < length (ad_codes d) \<longrightarrow> active_code p sc (ad_codes d ! i) \<longrightarrow>
       active_code p sc (ad_codes d ! j) \<longrightarrow> i = j) \<and>
     (\<forall>r\<in>set (ad_codes d). cr_status r = statusActive \<longrightarrow> 0 \<le> cr_attempt_count r \<and> cr_attempt_count r < n)"

lemma newest_code_Some:
  assumes "newest_code p sc d = Some (i, r)"
  shows "i < length (ad_codes d) \<and> ad_codes d ! i = r \<and> active_code p sc r"
proof -
  obtain xs where "filter (\<lambda>(i, r). active_code p sc r) (rev (enumerate 0 (ad_codes d))) = (i, r) # xs"
    using assms by (auto simp: newest_code_def split: list.splits)
  then have "(i, r) \<in> set (filter (\<lambda>(i, r). active_code p sc r) (rev (enumerate 0 (ad_codes d))))" by simp
  then show ?thesis by (simp add: in_set_enumerate_eq)
qed

lemma newest_code_None: "newest_code p sc d = None \<longleftrightarrow> (\<forall>i < length (ad_codes d). \<not> active_code p sc (ad_codes d ! i))"
proof -
  have "newest_code p sc d = None \<longleftrightarrow> filter (\<lambda>(i, r). active_code p sc r) (rev (enumerate 0 (ad_codes d))) = []"
    by (simp add: newest_code_def split: list.splits)
  also have "\<dots> \<longleftrightarrow> (\<forall>(i, r) \<in> set (enumerate 0 (ad_codes d)). \<not> active_code p sc r)"
    by (simp add: filter_empty_conv split_beta)
  finally show ?thesis by (auto simp: in_set_enumerate_eq)
qed

definition set_row :: "nat \<Rightarrow> (code_row \<Rightarrow> code_row) \<Rightarrow> auth_db \<Rightarrow> auth_db" where
  "set_row i f d = d\<lparr>ad_codes := (ad_codes d)[i := f (ad_codes d ! i)]\<rparr>"

lemma newest_after_set:
  assumes ok: "codes_ok n d" and new: "newest_code p sc d = Some (i, r)"
    and f: "cr_target (f r) = cr_target r" "cr_scene (f r) = cr_scene r"
  shows "newest_code p sc (set_row i f d) = (if cr_status (f r) = statusActive then Some (i, f r) else None)"
proof -
  note i = newest_code_Some [OF new]
  have other: "\<not> active_code p sc (ad_codes (set_row i f d) ! j)" if "j < length (ad_codes d)" "j \<noteq> i" for j
    using ok i that by (auto simp: codes_ok_def set_row_def)
  have at_i: "ad_codes (set_row i f d) ! i = f r" using i by (simp add: set_row_def)
  have act: "active_code p sc (f r) \<longleftrightarrow> cr_status (f r) = statusActive" using i f by (auto simp: active_code_def)
  show ?thesis
  proof (cases "cr_status (f r) = statusActive")
    case True
    then have "newest_code p sc (set_row i f d) \<noteq> None"
      using i act at_i by (auto simp: newest_code_None set_row_def)
    then obtain j q where j: "newest_code p sc (set_row i f d) = Some (j, q)" by auto
    have "j = i" using newest_code_Some [OF j] other [of j] by (auto simp: set_row_def)
    then show ?thesis using newest_code_Some [OF j] j at_i True by simp
  next
    case False
    have "newest_code p sc (set_row i f d) = None"
      unfolding newest_code_None using other act at_i False by (metis length_list_update set_row_def auth_db.select_convs(5) auth_db.surjective auth_db.update_convs(5))
    then show ?thesis using False by simp
  qed
qed

lemma codes_ok_set:
  assumes "codes_ok n d" "i < length (ad_codes d)"
    and f: "cr_target (f (ad_codes d ! i)) = cr_target (ad_codes d ! i)" "cr_scene (f (ad_codes d ! i)) = cr_scene (ad_codes d ! i)"
      "cr_status (f (ad_codes d ! i)) = statusActive \<Longrightarrow>
        cr_status (ad_codes d ! i) = statusActive \<and> 0 \<le> cr_attempt_count (f (ad_codes d ! i)) \<and> cr_attempt_count (f (ad_codes d ! i)) < n"
  shows "codes_ok n (set_row i f d)"
proof -
  have act: "active_code p sc (ad_codes (set_row i f d) ! j) \<Longrightarrow> active_code p sc (ad_codes d ! j)" if "j < length (ad_codes d)" for p sc j
    using f that assms(2) by (cases "j = i") (auto simp: set_row_def active_code_def)
  have "r \<in> set (ad_codes d) \<or> r = f (ad_codes d ! i)" if "r \<in> set (ad_codes (set_row i f d))" for r
    using that set_update_subset_insert [of "ad_codes d" i] by (auto simp: set_row_def)
  moreover have "length (ad_codes (set_row i f d)) = length (ad_codes d)" by (simp add: set_row_def)
  ultimately show ?thesis using assms(1) f(3) act unfolding codes_ok_def by metis
qed

section \<open>One guess\<close>

text \<open>How many wrong guesses are left.\<close>

definition guesses_left :: "int \<Rightarrow> string \<Rightarrow> string \<Rightarrow> auth_db \<Rightarrow> int" where
  "guesses_left n p sc d = (case newest_code p sc d of None \<Rightarrow> 0 | Some (i, r) \<Rightarrow> n - cr_attempt_count r)"

lemma guesses_left_bounds: "codes_ok n d \<Longrightarrow> 0 < n \<Longrightarrow> 0 \<le> guesses_left n p sc d \<and> guesses_left n p sc d \<le> n"
proof (cases "newest_code p sc d")
  case (Some x)
  assume ok: "codes_ok n d" and "0 < n"
  obtain i r where x: "x = (i, r)" by (cases x)
  from newest_code_Some [OF Some [unfolded x]] ok have "0 \<le> cr_attempt_count r" "cr_attempt_count r < n"
    by (auto simp: codes_ok_def active_code_def)
  then show ?thesis using Some x by (simp add: guesses_left_def)
qed (simp add: guesses_left_def)

lemma guesses_left_pos: "codes_ok n d \<Longrightarrow> newest_code p sc d = Some (i, r) \<Longrightarrow> 0 < guesses_left n p sc d"
  using newest_code_Some [of p sc d i r] by (auto simp: codes_ok_def active_code_def guesses_left_def)

lemma tx_result:
  assumes "tx body w = (x, w')"
  obtains (begin_lost) s where "x = Inl (RawError s)" "sw_db w' = sw_db w"
  | (body_failed) fs e w1 where "body (w\<lparr>faults := fs\<rparr>) = (Inl e, w1)" "x = Inl e" "sw_db w' = sw_db w"
  | (commit_lost) s fs a w1 where "body (w\<lparr>faults := fs\<rparr>) = (Inr a, w1)" "x = Inl (RawError s)" "sw_db w' = sw_db w \<or> sw_db w' = sw_db w1"
  | (committed) fs a w1 where "body (w\<lparr>faults := fs\<rparr>) = (Inr a, w1)" "x = Inr a" "sw_db w' = sw_db w1"
proof -
  let ?c = "\<lambda>w1. case body w1 of
         (Inl e, w') \<Rightarrow> (Inl e, (\<lambda>d w. w\<lparr>sw_db := d\<rparr>) (sw_db w1) w')
       | (Inr a, w') \<Rightarrow> (case pop_fault w' of
              (Inr (NoRequest e), w'') \<Rightarrow> (Inl (RawError e), (\<lambda>d w. w\<lparr>sw_db := d\<rparr>) (sw_db w1) w'')
            | (Inr (NoReply e), w'') \<Rightarrow> (Inl (RawError e), w'')
            | (_, w'') \<Rightarrow> (Inr a, w''))"
  have t: "bindE (map_err id (ext_call (ret ()))) (\<lambda>_. ?c) w = (x, w')" using assms unfolding tx_def with_tx_def .
  then show thesis
  proof (rule bindE_cases)
    fix e assume m: "map_err id (ext_call (ret ())) w = (Inl e, w')" and xe: "x = Inl e"
    then have "ext_call (ret ()) w = (Inl e, w')" by (auto simp: map_err_def split: prod.splits sum.splits)
    then show thesis
    proof (cases rule: ext_call_cases)
      case (reply fs)
      then show ?thesis by (simp add: ret_def)
    next
      case (lost s fs)
      then show ?thesis using begin_lost [of s] xe by simp
    next
      case (unanswered s fs y)
      then show ?thesis using begin_lost [of s] xe by (auto simp: ret_def)
    qed
  next
    fix u w1 assume m: "map_err id (ext_call (ret ())) w = (Inr u, w1)" and c: "?c w1 = (x, w')"
    obtain fs where w1: "w1 = w\<lparr>faults := fs\<rparr>"
      using map_err_InrD [OF m] by (auto simp: ret_def elim!: ext_call_cases)
    obtain y w2 where b: "body w1 = (y, w2)" by fastforce
    show thesis
    proof (cases y)
      case (Inl e)
      then show ?thesis using body_failed [of fs e w2] c b w1 by auto
    next
      case (Inr a)
      note bd = b [unfolded w1 Inr]
      show ?thesis
      proof (cases "faults w2")
        case Nil
        then show ?thesis using c b Inr w1 by (intro committed [OF bd]) (auto simp: pop_fault_def)
      next
        case (Cons f fs')
        then show ?thesis
        proof (cases f)
          case Reply
          then show ?thesis using c b Inr w1 Cons by (intro committed [OF bd]) (auto simp: pop_fault_def)
        next
          case (NoRequest s)
          then show ?thesis using c b Inr w1 Cons by (intro commit_lost [OF bd, of s]) (auto simp: pop_fault_def)
        next
          case (NoReply s)
          then show ?thesis using c b Inr w1 Cons by (intro commit_lost [OF bd, of s]) (auto simp: pop_fault_def)
        qed
      qed
    qed
  qed
qed

lemma bind_now: "bindE now k w = k (ae_now w) w"
  by (simp add: bindE_def now_def)

lemma query_Inl: "auth_query f w = (Inl e, w') \<Longrightarrow> \<exists>s. e = RawError s"
  unfolding auth_query_def auth_stmt_def by (auto elim!: ext_call_cases)

lemma exec_Inl: "exec_sql f w = (Inl e, w') \<Longrightarrow> \<exists>s. e = RawError s"
  unfolding exec_sql_def auth_stmt_def by (auto elim!: ext_call_cases)

text \<open>The transaction of \<open>ConsumeCode\<close>.\<close>

definition code_tx :: "string \<Rightarrow> string \<Rightarrow> string \<Rightarrow> int \<Rightarrow> bool sql_io" where
  "code_tx phone scene code maxAttempts =
     bindE (bindE (auth_query (newest_code phone scene)) (found ErrInvalidCode)) (\<lambda>(i, r).
              bindE now (\<lambda>t.
              if After t (cr_expires_at r) then bindE (set_code_row i (\<lambda>r. r\<lparr>cr_status := statusRevoked\<rparr>)) (\<lambda>_. ret False)
              else if cr_code_hash r \<noteq> hashToken code then
                (let n = i64 (cr_attempt_count r + 1) in
                 bindE (set_code_row i (\<lambda>r. if maxAttempts > 0 \<and> n \<ge> maxAttempts
                          then r\<lparr>cr_attempt_count := n, cr_status := statusRevoked\<rparr> else r\<lparr>cr_attempt_count := n\<rparr>)) (\<lambda>_. ret False))
              else bindE (set_code_row i (\<lambda>r. r\<lparr>cr_status := statusUsed\<rparr>)) (\<lambda>_. ret True)))"

text \<open>A change of the newest code: it ends, or one more wrong guess is counted.\<close>

definition spends :: "int \<Rightarrow> bool \<Rightarrow> (code_row \<Rightarrow> code_row) \<Rightarrow> code_row \<Rightarrow> bool" where
  "spends n ok f r \<longleftrightarrow> cr_target (f r) = cr_target r \<and> cr_scene (f r) = cr_scene r \<and>
     (cr_status (f r) \<noteq> statusActive \<or> \<not> ok \<and> cr_attempt_count (f r) = cr_attempt_count r + 1 \<and> cr_attempt_count (f r) < n)"

lemma set_code_row_Inr: "bindE (set_code_row i f) (\<lambda>_. ret b) w = (Inr b', w') \<Longrightarrow> b' = b \<and> sw_db w' = set_row i f (sw_db w)"
  unfolding set_code_row_def set_row_def by (auto simp: ret_def elim!: bindE_InrE dest!: exec_sql_InrD)

lemma code_tx_Inr:
  assumes b: "code_tx p sc code n w = (Inr b, w')" and ok: "codes_ok n (sw_db w)" and n: "0 < n" "in_i64 n"
  shows "\<exists>i r f. newest_code p sc (sw_db w) = Some (i, r) \<and> sw_db w' = set_row i f (sw_db w) \<and> spends n b f r"
proof -
  obtain q w1 where f0: "bindE (auth_query (newest_code p sc)) (found ErrInvalidCode) w = (Inr q, w1)"
    and rest0: "(case q of (i, r) \<Rightarrow> bindE now (\<lambda>t.
              if After t (cr_expires_at r) then bindE (set_code_row i (\<lambda>r. r\<lparr>cr_status := statusRevoked\<rparr>)) (\<lambda>_. ret False)
              else if cr_code_hash r \<noteq> hashToken code then
                (let m = i64 (cr_attempt_count r + 1) in
                 bindE (set_code_row i (\<lambda>r. if n > 0 \<and> m \<ge> n
                          then r\<lparr>cr_attempt_count := m, cr_status := statusRevoked\<rparr> else r\<lparr>cr_attempt_count := m\<rparr>)) (\<lambda>_. ret False))
              else bindE (set_code_row i (\<lambda>r. r\<lparr>cr_status := statusUsed\<rparr>)) (\<lambda>_. ret True))) w1 = (Inr b, w')"
    using b unfolding code_tx_def by (rule bindE_InrE)
  obtain i r where q: "q = (i, r)" by (cases q)
  note f = f0 [unfolded q] and rest = rest0 [unfolded q]
  note new = found_InrD [OF f]
  have r: "0 \<le> cr_attempt_count r" "cr_attempt_count r < n"
    using ok newest_code_Some [of p sc "sw_db w" i r] new by (auto simp: codes_ok_def active_code_def)
  have m: "i64 (cr_attempt_count r + 1) = cr_attempt_count r + 1" using r n by (intro i64_id) (auto simp: in_i64_def)
  have "\<exists>f. sw_db w' = set_row i f (sw_db w1) \<and> spends n b f r"
    using rest m n unfolding Let_def
    by (auto simp: bindE_def [of now] now_def spends_def dest!: set_code_row_Inr split: if_splits)
  then show ?thesis using new by auto
qed

lemma code_tx_Inl:
  assumes "code_tx p sc code n w = (Inl e, w')"
  shows "(e = ErrInvalidCode \<and> newest_code p sc (sw_db w) = None) \<or> (\<exists>s. e = RawError s)"
  using assms unfolding code_tx_def
proof (rule bindE_cases)
  fix e' assume "bindE (auth_query (newest_code p sc)) (found ErrInvalidCode) w = (Inl e', w')" "Inl e = (Inl e' :: go_error + bool)"
  then show ?thesis
    by (elim bindE_cases) (auto simp: found_def fail_def ret_def dest: query_Inl auth_query_InrD split: option.splits)
next
  fix x w1 assume f: "bindE (auth_query (newest_code p sc)) (found ErrInvalidCode) w = (Inr x, w1)"
    and rest: "(case x of (i, r) \<Rightarrow> bindE now (\<lambda>t.
              if After t (cr_expires_at r) then bindE (set_code_row i (\<lambda>r. r\<lparr>cr_status := statusRevoked\<rparr>)) (\<lambda>_. ret False)
              else if cr_code_hash r \<noteq> hashToken code then
                (let m = i64 (cr_attempt_count r + 1) in
                 bindE (set_code_row i (\<lambda>r. if n > 0 \<and> m \<ge> n
                          then r\<lparr>cr_attempt_count := m, cr_status := statusRevoked\<rparr> else r\<lparr>cr_attempt_count := m\<rparr>)) (\<lambda>_. ret False))
              else bindE (set_code_row i (\<lambda>r. r\<lparr>cr_status := statusUsed\<rparr>)) (\<lambda>_. ret True))) w1 = (Inl e, w')"
  have H: "\<exists>s. e = RawError s" if "bindE (set_code_row i f) (\<lambda>_. ret b) v = (Inl e, w')" for i f v and b :: bool
    using that unfolding set_code_row_def by (elim bindE_cases) (auto simp: ret_def dest: exec_Inl)
  obtain i r where q: "x = (i, r)" by (cases x)
  have "\<exists>f (b :: bool) v. bindE (set_code_row i f) (\<lambda>_. ret b) v = (Inl e, w')"
    using rest unfolding Let_def q by (auto simp: bind_now split: if_splits)
  then show ?thesis using H by blast
qed

lemma spend_left:
  assumes ok: "codes_ok n d" and new: "newest_code p sc d = Some (i, r)" and f: "spends n b f r" and n: "0 < n"
  shows "codes_ok n (set_row i f d)" "guesses_left n p sc (set_row i f d) \<le> guesses_left n p sc d - 1" "b \<Longrightarrow> guesses_left n p sc (set_row i f d) = 0"
proof -
  note i = newest_code_Some [OF new]
  have r: "0 \<le> cr_attempt_count r" using ok i by (auto simp: codes_ok_def active_code_def)
  show "codes_ok n (set_row i f d)"
    using i f r by (intro codes_ok_set [OF ok]) (auto simp: spends_def active_code_def)
  note new' = newest_after_set [OF ok new, of f]
  show "guesses_left n p sc (set_row i f d) \<le> guesses_left n p sc d - 1"
    using new' f guesses_left_pos [OF ok new] by (auto simp: spends_def guesses_left_def new)
  show "guesses_left n p sc (set_row i f d) = 0" if b
    using new' f that by (auto simp: spends_def guesses_left_def)
qed

lemma one_guess:
  assumes c: "sql_ConsumeCode p sc code n w = (x, w')" and ok: "codes_ok n (sw_db w)" and n: "0 < n" "in_i64 n"
    and ne: "p \<noteq> []" "sc \<noteq> []" "code \<noteq> []"
  shows "codes_ok n (sw_db w') \<and> guesses_left n p sc (sw_db w') \<le> guesses_left n p sc (sw_db w) \<and>
    (x = Inr () \<longrightarrow> 0 < guesses_left n p sc (sw_db w) \<and> guesses_left n p sc (sw_db w') = 0) \<and>
    (x = Inl ErrInvalidCode \<longrightarrow> guesses_left n p sc (sw_db w') \<le> max 0 (guesses_left n p sc (sw_db w) - 1))"
proof -
  have "bindE rawDB (\<lambda>_. bindE (tx (code_tx p sc code n)) (\<lambda>ok. if ok then ret () else fail ErrInvalidCode)) w = (x, w')"
    using c ne unfolding sql_ConsumeCode_def code_tx_def by simp
  then show ?thesis
  proof (rule bindE_cases)
    fix e assume r: "rawDB w = (Inl e, w')" "x = Inl e"
    then have "sw_db w' = sw_db w" "e \<noteq> ErrInvalidCode"
      unfolding rawDB_def by (auto simp: ret_def ErrInvalidCode_def elim!: ext_call_cases)
    then show ?thesis using ok r by simp
  next
    fix u w1 assume r: "rawDB w = (Inr u, w1)"
      and rest: "bindE (tx (code_tx p sc code n)) (\<lambda>ok. if ok then ret () else fail ErrInvalidCode) w1 = (x, w')"
    have d: "sw_db w1 = sw_db w" using rawDB_InrD [OF r] by simp
    obtain y w2 where t: "tx (code_tx p sc code n) w1 = (y, w2)" by fastforce
    have x: "w' = w2" "x = (case y of Inl e \<Rightarrow> Inl e | Inr b \<Rightarrow> if b then Inr () else Inl ErrInvalidCode)"
      using rest t by (auto simp: bindE_def ret_def fail_def split: sum.splits if_splits)
    have body: "\<exists>i r f. newest_code p sc (sw_db w) = Some (i, r) \<and> sw_db w3 = set_row i f (sw_db w) \<and> spends n b f r"
      if "code_tx p sc code n (w1\<lparr>faults := fs\<rparr>) = (Inr b, w3)" for fs b w3
      using code_tx_Inr [OF that] ok n d by simp
    note pos = guesses_left_pos [OF ok] and bound = guesses_left_bounds [OF ok n(1), of p sc]
    from t show ?thesis
    proof (cases rule: tx_result)
      case (begin_lost s)
      then show ?thesis using x d ok by (simp add: ErrInvalidCode_def)
    next
      case (body_failed fs e w3)
      then show ?thesis
        using code_tx_Inl [OF body_failed(1)] x d ok by (auto simp: ErrInvalidCode_def guesses_left_def)
    next
      case (commit_lost s fs b w3)
      obtain i r f where b: "newest_code p sc (sw_db w) = Some (i, r)" "sw_db w3 = set_row i f (sw_db w)" "spends n b f r"
        using body [OF commit_lost(1)] by blast
      note sp = spend_left [OF ok b(1,3) n(1)]
      show ?thesis using commit_lost(2,3) x d ok b sp(1,2) by (auto simp: ErrInvalidCode_def)
    next
      case (committed fs b w3)
      obtain i r f where b: "newest_code p sc (sw_db w) = Some (i, r)" "sw_db w3 = set_row i f (sw_db w)" "spends n b f r"
        using body [OF committed(1)] by blast
      note sp = spend_left [OF ok b(1,3) n(1)]
      show ?thesis using committed(2,3) x d ok b sp pos [OF b(1)] by auto
    qed
  qed
qed

section \<open>Many guesses\<close>

text \<open>The answers to a sequence of guesses, each at a time of its own.\<close>

fun guess_all :: "string \<Rightarrow> string \<Rightarrow> int \<Rightarrow> (int \<times> string) list \<Rightarrow> sql_world \<Rightarrow> (go_error + unit) list" where
  "guess_all p sc n [] w = []"
| "guess_all p sc n ((t, code) # gs) w = (case sql_ConsumeCode p sc code n (w\<lparr>ae_now := t\<rparr>) of (x, w') \<Rightarrow> x # guess_all p sc n gs w')"

lemma guesses_bounded:
  assumes "guess_all p sc n gs w = as @ Inr () # bs" "codes_ok n (sw_db w)" "0 < n" "in_i64 n" "p \<noteq> []" "sc \<noteq> []" "\<forall>(t, code) \<in> set gs. code \<noteq> []"
  shows "int (length (filter (\<lambda>x. x = Inl ErrInvalidCode) as)) < guesses_left n p sc (sw_db w) \<and> Inr () \<notin> set as \<and> Inr () \<notin> set bs"
  using assms
proof (induction gs arbitrary: w as bs)
  case (Cons g gs)
  obtain t code where g: "g = (t, code)" by (cases g)
  obtain x w' where c: "sql_ConsumeCode p sc code n (w\<lparr>ae_now := t\<rparr>) = (x, w')" by fastforce
  have one: "codes_ok n (sw_db w') \<and> guesses_left n p sc (sw_db w') \<le> guesses_left n p sc (sw_db w) \<and>
    (x = Inr () \<longrightarrow> 0 < guesses_left n p sc (sw_db w) \<and> guesses_left n p sc (sw_db w') = 0) \<and>
    (x = Inl ErrInvalidCode \<longrightarrow> guesses_left n p sc (sw_db w') \<le> max 0 (guesses_left n p sc (sw_db w) - 1))"
    using one_guess [OF c] Cons.prems by (simp add: g)
  have run: "x # guess_all p sc n gs w' = as @ Inr () # bs" using Cons.prems(1) c by (simp add: g)
  note IH = Cons.IH [where w = w'] 
  show ?case
  proof (cases as)
    case Nil
    then have x: "x = Inr ()" "guess_all p sc n gs w' = bs" using run by auto
    have "Inr () \<notin> set bs"
    proof
      assume "Inr () \<in> set bs"
      then obtain cs ds where "bs = cs @ Inr () # ds" by (meson split_list)
      then have "int (length (filter (\<lambda>x. x = Inl ErrInvalidCode) cs)) < guesses_left n p sc (sw_db w')"
        using IH [of cs ds] x one Cons.prems by auto
      then show False using one x(1) by simp
    qed
    then show ?thesis using Nil one x by simp
  next
    case (Cons a as')
    then have a: "a = x" "guess_all p sc n gs w' = as' @ Inr () # bs" using run by auto
    have ih: "int (length (filter (\<lambda>x. x = Inl ErrInvalidCode) as')) < guesses_left n p sc (sw_db w') \<and> Inr () \<notin> set as' \<and> Inr () \<notin> set bs"
      using IH [OF a(2)] one \<open>0 < n\<close> \<open>in_i64 n\<close> \<open>p \<noteq> []\<close> \<open>sc \<noteq> []\<close> \<open>\<forall>(t, code) \<in> set (g # gs). code \<noteq> []\<close> by auto
    have "x \<noteq> Inr ()" using ih one by auto
    then show ?thesis using ih one a Cons by auto
  qed
qed simp

text \<open>Issuing a code keeps the tables in order: the older codes of the phone and scene end in the same transaction.\<close>

lemma codes_ok_revoke:
  assumes ok: "codes_ok n d"
  shows "codes_ok n (revoke_codes p sc d)" "newest_code p sc (revoke_codes p sc d) = None"
proof -
  let ?f = "\<lambda>r. if active_code p sc r then r\<lparr>cr_status := statusRevoked\<rparr> else r"
  have codes: "ad_codes (revoke_codes p sc d) = map ?f (ad_codes d)" by (simp add: revoke_codes_def)
  have act: "active_code q sc' (?f r) \<Longrightarrow> active_code q sc' r" "\<not> active_code p sc (?f r)"
    "cr_status (?f r) = statusActive \<Longrightarrow> cr_status r = statusActive \<and> cr_attempt_count (?f r) = cr_attempt_count r" for q sc' r
    by (auto simp: active_code_def split: if_splits)
  show "newest_code p sc (revoke_codes p sc d) = None" unfolding newest_code_None codes using act(2) by simp
  have "i = j" if "i < length (ad_codes d)" "j < length (ad_codes d)" "active_code q sc' (map ?f (ad_codes d) ! i)" "active_code q sc' (map ?f (ad_codes d) ! j)" for q sc' i j
  proof -
    have "active_code q sc' (ad_codes d ! i)" "active_code q sc' (ad_codes d ! j)"
      using that(3,4) act(1) [of q sc'] unfolding nth_map [OF that(1)] nth_map [OF that(2)] by blast+
    then show ?thesis using ok that(1,2) unfolding codes_ok_def by blast
  qed
  moreover have "0 \<le> cr_attempt_count r \<and> cr_attempt_count r < n" if r: "r \<in> set (map ?f (ad_codes d))" "cr_status r = statusActive" for r
  proof -
    from r(1) obtain r0 where r0: "r = ?f r0" "r0 \<in> set (ad_codes d)" unfolding set_map by (rule imageE)
    have "cr_status r0 = statusActive \<and> cr_attempt_count r = cr_attempt_count r0"
      unfolding r0(1) using act(3) [of r0] r(2) [unfolded r0(1)] by blast
    then show ?thesis using ok r0(2) by (auto simp: codes_ok_def)
  qed
  ultimately show "codes_ok n (revoke_codes p sc d)" unfolding codes_ok_def codes length_map by blast
qed

lemma codes_ok_insert:
  assumes ok: "codes_ok n d" and none: "newest_code (cr_target r) (cr_scene r) d = None" and r: "cr_attempt_count r = 0" "0 < n"
  shows "codes_ok n (d\<lparr>ad_codes := ad_codes d @ [r]\<rparr>)"
proof -
  have old: "\<not> active_code p sc (ad_codes d ! i)" if "active_code p sc r" "i < length (ad_codes d)" for p sc i
    using none that unfolding newest_code_None active_code_def by auto
  show ?thesis using ok r old unfolding codes_ok_def by (auto simp: nth_append less_Suc_eq split: if_splits)
qed

lemma issue_keeps_codes: "0 < n \<Longrightarrow> codes_ok n (sw_db w) \<Longrightarrow> codes_ok n (sw_db (snd (sql_IssueCode phone scene ttl w)))"
proof -
  assume n: "0 < n" and ok: "codes_ok n (sw_db w)"
  let ?I = "\<lambda>w. codes_ok n (sw_db w)"
  let ?row = "\<lambda>e. \<lparr>cr_target = phone, cr_scene = scene, cr_code_hash = hashToken issued_code, cr_status = statusActive, cr_expires_at = e, cr_attempt_count = 0\<rparr>"
  have "triple ?I (exec_sql (revoke_codes phone scene)) (\<lambda>_ w. codes_ok n (sw_db w) \<and> newest_code phone scene (sw_db w) = None) ?I"
    unfolding exec_sql_def using codes_ok_revoke by (intro triple_stmt) auto
  moreover have "triple (\<lambda>w. codes_ok n (sw_db w) \<and> newest_code phone scene (sw_db w) = None)
      (exec_sql (\<lambda>d. d\<lparr>ad_codes := ad_codes d @ [?row e]\<rparr>)) (\<lambda>_. ?I) ?I" for e
    unfolding exec_sql_def using codes_ok_insert n by (intro triple_stmt) auto
  ultimately have t: "triple ?I (bindE (exec_sql (revoke_codes phone scene)) (\<lambda>_. bindE (exec_sql (\<lambda>d. d\<lparr>ad_codes := ad_codes d @ [?row e]\<rparr>)) (\<lambda>_.
      ret (issued_code, e)))) (\<lambda>_. ?I) ?I" for e
    by (intro triple_bind [OF _ triple_bind]) (auto intro: triple_ret)
  have "keeps ?I (bindE (exec_sql (revoke_codes phone scene)) (\<lambda>_. bindE (exec_sql (\<lambda>d. d\<lparr>ad_codes := ad_codes d @ [?row e]\<rparr>)) (\<lambda>_.
      ret (issued_code, e))))" for e
    by (rule keepsI) (rule triple_snd [OF t])
  then have "keeps ?I (tx (bindE (exec_sql (revoke_codes phone scene)) (\<lambda>_. bindE (exec_sql (\<lambda>d. d\<lparr>ad_codes := ad_codes d @ [?row e]\<rparr>)) (\<lambda>_.
      ret (issued_code, e)))))" for e
    unfolding tx_def by (intro keeps_with_tx) (auto simp: fault_free_def)
  moreover have "keeps ?I now" "keeps ?I rawDB"
    unfolding rawDB_def by (auto simp: keeps_def [of ?I now] now_def fault_free_def intro!: keeps_ext_call keeps_ret)
  ultimately have "keeps ?I (sql_IssueCode phone scene ttl)"
    unfolding sql_IssueCode_def Let_def by (auto intro!: keeps_fail keeps_bindE)
  then show ?thesis using ok by (rule keepsD)
qed

text \<open>
  C22: Guessing a verification code is bounded.  In any sequence of guesses at the code of a
  phone and scene, at any times and whatever is lost between service and database, at most one guess
  is accepted, and before it fewer wrong guesses were answered than the configured number of attempts.
\<close>

theorem code_guessing_bounded:
  assumes "guess_all phone scene maxAttempts gs w = as @ Inr () # bs" "codes_ok maxAttempts (sw_db w)"
    "0 < maxAttempts" "in_i64 maxAttempts" "phone \<noteq> []" "scene \<noteq> []" "\<forall>(t, code) \<in> set gs. code \<noteq> []"
  shows "int (length (filter (\<lambda>x. x = Inl ErrInvalidCode) as)) < maxAttempts \<and> Inr () \<notin> set (as @ bs)"
  using guesses_bounded [OF assms] guesses_left_bounds [OF assms(2,3), of phone scene] by auto

definition code_demo_world :: sql_world where
  "code_demo_world = \<lparr>faults = [], ae_now = 0, ae_text = Map.empty, ae_state = False, ae_counts = Map.empty, ae_events = [], ae_event_list = [],
     sw_db = \<lparr>ad_users = [], ad_identities = [], ad_credentials = Map.empty, ad_sessions = [],
       ad_codes = [\<lparr>cr_target = ''1'', cr_scene = ''login'', cr_code_hash = hashToken ''a'', cr_status = 1, cr_expires_at = 10, cr_attempt_count = 0\<rparr>]\<rparr>, sw_next = 1\<rparr>"

lemma code_demo_run: "guess_all ''1'' ''login'' 5 [(1, ''a''), (2, ''a'')] code_demo_world = [Inr (), Inl ErrInvalidCode]"
  by (simp add: sql_ConsumeCode_def code_demo_world_def io_simps rawDB_def tx_def auth_query_def exec_sql_def auth_stmt_def set_code_row_def found_def bind_now now_def newest_code_def active_code_def)

text \<open>Witness: the right code is accepted, the same code a second later is not.\<close>

theorem code_guessing_bounded_witness:
  "guess_all ''1'' ''login'' 5 [(1, ''a''), (2, ''a'')] code_demo_world = [] @ Inr () # [Inl ErrInvalidCode] \<and>
   int (length (filter (\<lambda>x. x = Inl ErrInvalidCode) ([] :: (go_error + unit) list))) < 5 \<and> Inr () \<notin> set ([] @ [Inl ErrInvalidCode :: go_error + unit])"
proof -
  have "codes_ok 5 (sw_db code_demo_world)" by (simp add: codes_ok_def code_demo_world_def)
  then show ?thesis
    using code_guessing_bounded [of "''1''" "''login''" 5 "[(1, ''a''), (2, ''a'')]" code_demo_world "[]" "[Inl ErrInvalidCode]"] code_demo_run
    by (simp add: in_i64_def)
qed

end
