(* ===== verification/Auth_Risk.thy ===== *)
theory Auth_Risk
  imports Auth_Store
begin

text \<open>
  The counters that slow down guessing (\<open>app/auth/api/internal/risk/limiter.go\<close>) and the record of
  security events (\<open>app/auth/api/internal/audit/events.go\<close>), each in memory and in Redis.  An event
  in the Redis list is kept as the value its JSON text denotes.  A nil limiter or recorder does not
  occur: \<open>newFoundationDeps\<close> always makes one.
\<close>

section \<open>Counters\<close>

definition Minute :: int where
  "Minute = 60 * 10 ^ 9"

definition mem_Incr :: "string \<Rightarrow> int \<Rightarrow> ('z auth_env_scheme, unit) io" where
  "mem_Incr key ttl w =
     (if key = [] then (Inr (), w)
      else let ttl = (if ttl \<le> 0 then Minute else ttl);
               count = (case ae_counts w key of
                          None \<Rightarrow> 0
                        | Some (n, expiresAt) \<Rightarrow> if After (ae_now w) expiresAt then 0 else n)
           in (Inr (), w\<lparr>ae_counts := (ae_counts w)(key \<mapsto> (i64 (count + 1), ae_now w + ttl))\<rparr>))"

definition mem_Blocked :: "string \<Rightarrow> int \<Rightarrow> ('z auth_env_scheme, bool \<times> int) io" where
  "mem_Blocked key maxCount w =
     (if key = [] then (Inr (False, 0), w)
      else case ae_counts w key of
             None \<Rightarrow> (Inr (0 \<ge> maxCount \<and> maxCount > 0, 0), w)
           | Some (n, expiresAt) \<Rightarrow>
               if After (ae_now w) expiresAt then (Inr (False, 0), w\<lparr>ae_counts := (ae_counts w)(key := None)\<rparr>)
               else (Inr (n \<ge> maxCount \<and> maxCount > 0, n), w))"

definition mem_Reset :: "string \<Rightarrow> ('z auth_env_scheme, unit) io" where
  "mem_Reset key w = (Inr (), if key = [] then w else w\<lparr>ae_counts := (ae_counts w)(key := None)\<rparr>)"

text \<open>The pipeline of \<open>INCRBY\<close> and \<open>EXPIRE\<close>; \<open>EXPIRE\<close> runs even if the value is no number.\<close>

definition redis_Incr :: "string \<Rightarrow> int \<Rightarrow> ('z auth_env_scheme, unit) io" where
  "redis_Incr key ttl =
     (if key = [] then ret ()
      else let ttl = (if ttl \<le> 0 then Minute else ttl) in
           ext_call (\<lambda>w.
             let old = live (ae_now w) (ae_text w key);
                 n = (case old of None \<Rightarrow> Some 0 | Some v \<Rightarrow> ParseInt_text v) in
             case n of
               None \<Rightarrow> (Inl (RawError ''ERR value is not an integer or out of range''),
                         w\<lparr>ae_text := (ae_text w)(key := expire_key (ae_now w) ttl (ae_text w key))\<rparr>)
             | Some i \<Rightarrow>
                 if \<not> in_i64 (i + 1)
                 then (Inl (RawError ''ERR increment or decrement would overflow''),
                       w\<lparr>ae_text := (ae_text w)(key := expire_key (ae_now w) ttl (ae_text w key))\<rparr>)
                 else (Inr (), w\<lparr>ae_text := (ae_text w)(key := Some (JsonText (JInt (i + 1)), Some (ae_now w + ttl)))\<rparr>)))"

definition redis_Blocked :: "string \<Rightarrow> int \<Rightarrow> ('z auth_env_scheme, bool \<times> int) io" where
  "redis_Blocked key maxCount =
     (if key = [] \<or> maxCount \<le> 0 then ret (False, 0)
      else bindE (redis_GetCtx key) (\<lambda>raw.
           if raw = NotJson [] then ret (False, 0)
           else case ParseInt_text raw of
                  None \<Rightarrow> fail (RawError ''strconv.ParseInt: invalid syntax'')
                | Some count \<Rightarrow> ret (count \<ge> maxCount, count)))"

definition redis_Reset :: "string \<Rightarrow> ('z auth_env_scheme, unit) io" where
  "redis_Reset key = (if key = [] then ret () else redis_DelCtx key)"

text \<open>The limiter the service was built with.\<close>

definition limiter_Incr :: "string \<Rightarrow> int \<Rightarrow> ('z auth_env_scheme, unit) io" where
  "limiter_Incr key ttl w = (if ae_state w then redis_Incr key ttl w else mem_Incr key ttl w)"

definition limiter_Blocked :: "string \<Rightarrow> int \<Rightarrow> ('z auth_env_scheme, bool \<times> int) io" where
  "limiter_Blocked key maxCount w = (if ae_state w then redis_Blocked key maxCount w else mem_Blocked key maxCount w)"

definition limiter_Reset :: "string \<Rightarrow> ('z auth_env_scheme, unit) io" where
  "limiter_Reset key w = (if ae_state w then redis_Reset key w else mem_Reset key w)"

section \<open>Security events\<close>

definition stamp :: "int \<Rightarrow> Event \<Rightarrow> Event" where
  "stamp t e = (if ev_CreatedAt e = None then e\<lparr>ev_CreatedAt := Some t\<rparr> else e)"

definition recorder_limit :: "int \<Rightarrow> int" where
  "recorder_limit limit = (if limit \<le> 0 then 10 else limit)"

definition mem_Record :: "int \<Rightarrow> Event \<Rightarrow> ('z auth_env_scheme, unit) io" where
  "mem_Record limit e w =
     (let events = ae_events w @ [stamp (ae_now w) e];
          limit = nat (recorder_limit limit)
      in (Inr (), w\<lparr>ae_events := (if length events > limit then drop (length events - limit) events else events)\<rparr>))"

definition mem_ListRecent :: "int \<Rightarrow> ('z auth_env_scheme, Event list) io" where
  "mem_ListRecent limit w =
     (let n = int (length (ae_events w));
          limit = (if limit \<le> 0 \<or> limit > n then n else limit)
      in (Inr (take (nat limit) (rev (ae_events w))), w))"

definition redis_Record :: "int \<Rightarrow> Event \<Rightarrow> ('z auth_env_scheme, unit) io" where
  "redis_Record limit e = ext_call (\<lambda>w.
     (Inr (), w\<lparr>ae_event_list := take (nat (recorder_limit limit)) (stamp (ae_now w) e # ae_event_list w)\<rparr>))"

definition redis_ListRecent :: "int \<Rightarrow> int \<Rightarrow> ('z auth_env_scheme, Event list) io" where
  "redis_ListRecent retention limit =
     (let r = recorder_limit retention;
          limit = (if limit \<le> 0 \<or> limit > r then r else limit)
      in ext_call (\<lambda>w. (Inr (take (nat limit) (ae_event_list w)), w)))"

definition recorder_Record :: "int \<Rightarrow> Event \<Rightarrow> ('z auth_env_scheme, unit) io" where
  "recorder_Record limit e w = (if ae_state w then redis_Record limit e w else mem_Record limit e w)"

definition recorder_ListRecent :: "int \<Rightarrow> int \<Rightarrow> ('z auth_env_scheme, Event list) io" where
  "recorder_ListRecent retention limit w =
     (if ae_state w then redis_ListRecent retention limit w else mem_ListRecent limit w)"

end
