(* ===== verification/Auth_Logic.thy ===== *)
theory Auth_Logic
  imports Auth_Sql_Store Auth_Risk
begin

text \<open>
  The request handling of the auth service (\<open>app/auth/api/internal/logic/auth\<close> and the checks of
  \<open>handler/adminuserhandler.go\<close>) on top of a store: \<open>AuthStore\<close> is the interface of
  \<open>authstore/contracts.go\<close>, with the in-memory and the MySQL store as its instances.  Signing a JSON web
  token is third-party code: \<open>jwt_sign secret claims\<close> is a parameter.  Work the code hands to a goroutine
  (recording an event, resetting a counter in Redis) is done on the spot; its errors are dropped.
\<close>

record 'w AuthStore =
  st_IssueCode :: "string \<Rightarrow> string \<Rightarrow> int \<Rightarrow> ('w, string \<times> int) io"
  st_ConsumeCode :: "string \<Rightarrow> string \<Rightarrow> string \<Rightarrow> int \<Rightarrow> ('w, unit) io"
  st_ResetCode :: "string \<Rightarrow> string \<Rightarrow> ('w, unit) io"
  st_CreateUser :: "string \<Rightarrow> string \<Rightarrow> string \<Rightarrow> ('w, User) io"
  st_Authenticate :: "int \<Rightarrow> string \<Rightarrow> string \<Rightarrow> ('w, User) io"
  st_GetUserByPhone :: "string \<Rightarrow> ('w, User) io"
  st_GetUserByID :: "int \<Rightarrow> ('w, User) io"
  st_GetUserByIDAnyStatus :: "int \<Rightarrow> ('w, User) io"
  st_ListAllUsers :: "('w, User list) io"
  st_ListUsers :: "int \<Rightarrow> int \<Rightarrow> int \<Rightarrow> string \<Rightarrow> string \<Rightarrow> ('w, User list \<times> int) io"
  st_SetUserStatus :: "int \<Rightarrow> int \<Rightarrow> ('w, User) io"
  st_GetActiveSession :: "string \<Rightarrow> ('w, Session) io"
  st_CreateSession :: "int \<Rightarrow> int \<Rightarrow> ('w, string \<times> string) io"
  st_CreateSessionForDevice :: "int \<Rightarrow> string \<Rightarrow> int \<Rightarrow> ('w, string \<times> string) io"
  st_RefreshSession :: "string \<Rightarrow> int \<Rightarrow> ('w, Session \<times> string) io"
  st_Logout :: "string \<Rightarrow> ('w, unit) io"
  st_LogoutAll :: "int \<Rightarrow> ('w, unit) io"
  st_UpdatePassword :: "string \<Rightarrow> string \<Rightarrow> ('w, User) io"

text \<open>The outside of a store: password hashing, and per request the random bytes and texts it may need.\<close>

record outside =
  ou_hash :: "string \<Rightarrow> go_error + string"
  ou_compare :: "string \<Rightarrow> string \<Rightarrow> bool"
  ou_random1 :: "nat list option"
  ou_random2 :: "nat list option"
  ou_prefix :: string
  ou_createTime :: string

definition mem_AuthStore :: "outside \<Rightarrow> mem_world AuthStore" where
  "mem_AuthStore o' = \<lparr>st_IssueCode = IssueCode, st_ConsumeCode = ConsumeCode, st_ResetCode = ResetCode,
     st_CreateUser = CreateUser (ou_hash o') (ou_prefix o') (ou_createTime o'), st_Authenticate = Authenticate (ou_compare o'),
     st_GetUserByPhone = GetUserByPhone, st_GetUserByID = GetUserByID, st_GetUserByIDAnyStatus = GetUserByIDAnyStatus,
     st_ListAllUsers = ListAllUsers, st_ListUsers = ListUsers, st_SetUserStatus = SetUserStatus, st_GetActiveSession = GetActiveSession,
     st_CreateSession = CreateSession (ou_random1 o') (ou_random2 o'),
     st_CreateSessionForDevice = CreateSessionForDevice (ou_random1 o') (ou_random2 o'),
     st_RefreshSession = RefreshSession, st_Logout = Logout, st_LogoutAll = LogoutAll,
     st_UpdatePassword = UpdatePassword (ou_hash o')\<rparr>"

definition sql_AuthStore :: "outside \<Rightarrow> sql_world AuthStore" where
  "sql_AuthStore o' = \<lparr>st_IssueCode = sql_IssueCode, st_ConsumeCode = sql_ConsumeCode, st_ResetCode = sql_ResetCode,
     st_CreateUser = sql_CreateUser (ou_hash o') (ou_createTime o'), st_Authenticate = sql_Authenticate (ou_compare o'),
     st_GetUserByPhone = sql_GetUserByPhone, st_GetUserByID = sql_GetUserByID, st_GetUserByIDAnyStatus = sql_GetUserByIDAnyStatus,
     st_ListAllUsers = sql_ListAllUsers, st_ListUsers = sql_ListUsers, st_SetUserStatus = sql_SetUserStatus, st_GetActiveSession = sql_GetActiveSession,
     st_CreateSession = sql_CreateSession (ou_random1 o') (ou_random2 o'),
     st_CreateSessionForDevice = sql_CreateSessionForDevice (ou_random1 o') (ou_random2 o'),
     st_RefreshSession = sql_RefreshSession, st_Logout = sql_Logout, st_LogoutAll = sql_LogoutAll,
     st_UpdatePassword = sql_UpdatePassword (ou_hash o')\<rparr>"

section \<open>Configuration and context\<close>

record auth_config =
  ac_JwtAuthSecret :: string
  ac_JwtExpireSeconds :: int
  ac_RefreshTokenTTLSeconds :: int
  ac_CodeTTLSeconds :: int
  ac_ExposeDebugCode :: bool
  ac_RefreshCookieName :: string
  ac_LoginFailWindowSeconds :: int
  ac_LoginFailPhoneMaxAttempts :: int
  ac_LoginFailIPMaxAttempts :: int
  ac_CodeSendCooldownSeconds :: int
  ac_CodeSendPhoneWindowSeconds :: int
  ac_CodeSendPhoneMaxAttempts :: int
  ac_CodeSendIPWindowSeconds :: int
  ac_CodeSendIPMaxAttempts :: int
  ac_VerificationCodeMaxAttempts :: int
  ac_SecurityAuditRecentLimit :: int
  ac_SecurityAuditRetentionLimit :: int

definition auditRetentionLimit :: "auth_config \<Rightarrow> int" where
  "auditRetentionLimit c =
     (let limit = (if ac_SecurityAuditRetentionLimit c \<le> 0 then 200 else ac_SecurityAuditRetentionLimit c)
      in if ac_SecurityAuditRecentLimit c > limit then ac_SecurityAuditRecentLimit c else limit)"

text \<open>The defaults of \<open>NewServiceContextWithStore\<close>.\<close>

definition with_defaults :: "auth_config \<Rightarrow> auth_config" where
  "with_defaults c =
     (let d = (\<lambda>v z. if v \<le> (0::int) then z else v);
          c = c\<lparr>ac_RefreshTokenTTLSeconds := d (ac_RefreshTokenTTLSeconds c) (7 * 24 * 60 * 60),
                ac_CodeTTLSeconds := d (ac_CodeTTLSeconds c) (5 * 60),
                ac_RefreshCookieName := (if ac_RefreshCookieName c = [] then ''fm_refresh_token'' else ac_RefreshCookieName c),
                ac_LoginFailWindowSeconds := d (ac_LoginFailWindowSeconds c) (15 * 60),
                ac_LoginFailPhoneMaxAttempts := d (ac_LoginFailPhoneMaxAttempts c) 5,
                ac_LoginFailIPMaxAttempts := d (ac_LoginFailIPMaxAttempts c) 20,
                ac_CodeSendCooldownSeconds := d (ac_CodeSendCooldownSeconds c) 60,
                ac_CodeSendPhoneWindowSeconds := d (ac_CodeSendPhoneWindowSeconds c) (10 * 60),
                ac_CodeSendPhoneMaxAttempts := d (ac_CodeSendPhoneMaxAttempts c) 3,
                ac_CodeSendIPWindowSeconds := d (ac_CodeSendIPWindowSeconds c) (10 * 60),
                ac_CodeSendIPMaxAttempts := d (ac_CodeSendIPMaxAttempts c) 10,
                ac_VerificationCodeMaxAttempts := d (ac_VerificationCodeMaxAttempts c) 5,
                ac_SecurityAuditRecentLimit := d (ac_SecurityAuditRecentLimit c) 10\<rparr>
      in c\<lparr>ac_SecurityAuditRetentionLimit := d (ac_SecurityAuditRetentionLimit c) (auditRetentionLimit c)\<rparr>)"

text \<open>A value the JWT middleware left in the request's context.\<close>

definition parseUserIDClaim :: "claim option \<Rightarrow> int option" where
  "parseUserIDClaim v = (case v of
       Some (CInt i) \<Rightarrow> Some i
     | Some (CFloat i) \<Rightarrow> Some (i64 i)
     | Some (CNumber s) \<Rightarrow> ParseInt s
     | Some (CText s) \<Rightarrow> ParseInt s
     | _ \<Rightarrow> None)"

definition subject :: "MapClaims \<Rightarrow> int option" where
  "subject ctx = (case parseUserIDClaim (ctx ''user_id'') of None \<Rightarrow> parseUserIDClaim (ctx ''sub'') | Some i \<Rightarrow> Some i)"

definition status_error :: "grpc_code \<Rightarrow> string \<Rightarrow> ('w, 'a) io" where
  "status_error c m = fail (StatusError c m)"

definition internal :: "string \<Rightarrow> go_error \<Rightarrow> go_error" where
  "internal m e = StatusError codes_Internal m"

definition recordAuditEvent :: "auth_config \<Rightarrow> Event \<Rightarrow> ('z auth_env_scheme, unit) io" where
  "recordAuditEvent c e = or_else (recorder_Record (auditRetentionLimit c) e) ()"

definition auth_event :: "string \<Rightarrow> string \<Rightarrow> int \<Rightarrow> string \<Rightarrow> string \<Rightarrow> string \<Rightarrow> Event" where
  "auth_event t r u i ip agent = \<lparr>ev_EventType = t, ev_Result = r, ev_UserID = u, ev_IdentityValue = i, ev_IP = ip,
     ev_UserAgent = agent, ev_CreatedAt = None\<rparr>"

definition auditIdentity :: "string \<Rightarrow> int \<Rightarrow> string" where
  "auditIdentity phone userID = (if phone \<noteq> [] then phone else if userID > 0 then show_int userID else [])"

definition auditUserIDByPhone :: "'w AuthStore \<Rightarrow> string \<Rightarrow> ('w, int) io" where
  "auditUserIDByPhone st phone =
     (if phone = [] then ret 0
      else bindE (attempt (st_GetUserByPhone st phone)) (\<lambda>x. ret (case x of Inl _ \<Rightarrow> 0 | Inr user \<Rightarrow> us_ID user)))"

text \<open>\<open>recordAuditEvent\<close> with the user looked up by phone, then the error.\<close>

definition audit_phone_fail :: "auth_config \<Rightarrow> ('z auth_env_scheme) AuthStore \<Rightarrow> string \<Rightarrow> string \<Rightarrow> string \<Rightarrow> string \<Rightarrow> string \<Rightarrow> string
    \<Rightarrow> ('z auth_env_scheme, unit) io" where
  "audit_phone_fail c st kind result phone identity ip agent =
     bindE (auditUserIDByPhone st phone) (\<lambda>u. recordAuditEvent c (auth_event kind result u identity ip agent))"

section \<open>Issuing tokens\<close>

record LoginResp =
  lr_AccessToken :: string
  lr_ExpiresAt :: int
  lr_UserId :: int
  lr_DisplayName :: string
  lr_Phone :: string
  lr_RefreshToken :: string

definition Unix :: "int \<Rightarrow> int" where
  "Unix t = t div 10 ^ 9"

definition access_claims :: "int \<Rightarrow> string \<Rightarrow> int \<Rightarrow> string \<Rightarrow> int \<Rightarrow> int \<Rightarrow> MapClaims" where
  "access_claims userID sessionID sessionVersion role issued expires =
     [''user_id'' \<mapsto> CInt userID, ''sub'' \<mapsto> CText (show_int userID), ''sid'' \<mapsto> CText sessionID,
      ''session_version'' \<mapsto> CInt sessionVersion, ''role'' \<mapsto> CText role, ''iat'' \<mapsto> CInt issued, ''exp'' \<mapsto> CInt expires]"

definition issueLoginResp ::
  "(string \<Rightarrow> MapClaims \<Rightarrow> go_error + string) \<Rightarrow> auth_config \<Rightarrow> User \<Rightarrow> int \<Rightarrow> string \<Rightarrow> string \<Rightarrow> ('z auth_env_scheme, LoginResp) io" where
  "issueLoginResp jwt_sign c user sessionVersion sessionID refreshToken =
     (let ttl = (if ac_JwtExpireSeconds c \<le> 0 then 2 * 60 * 60 else ac_JwtExpireSeconds c) in
      bindE now (\<lambda>t.
      let expiresAt = t + Seconds ttl in
      bindE (of_result (jwt_sign (ac_JwtAuthSecret c)
               (access_claims (us_ID user) sessionID sessionVersion (us_Role user) (Unix t) (Unix expiresAt)))) (\<lambda>accessToken.
      ret \<lparr>lr_AccessToken = accessToken, lr_ExpiresAt = Unix expiresAt, lr_UserId = us_ID user,
           lr_DisplayName = us_DisplayName user, lr_Phone = us_Phone user, lr_RefreshToken = refreshToken\<rparr>)))"

text \<open>A new session for a user and the tokens for it, as every kind of login ends.\<close>

definition open_session ::
  "(string \<Rightarrow> MapClaims \<Rightarrow> go_error + string) \<Rightarrow> auth_config \<Rightarrow> ('z auth_env_scheme) AuthStore \<Rightarrow> User \<Rightarrow> string \<Rightarrow> ('z auth_env_scheme, LoginResp) io" where
  "open_session jwt_sign c st user deviceType =
     bindE (map_err (internal ''create session failed'')
       (st_CreateSessionForDevice st (us_ID user) deviceType (ac_RefreshTokenTTLSeconds c))) (\<lambda>(sessionID, refreshToken).
     bindE (map_err (internal ''load session failed'') (st_GetActiveSession st sessionID)) (\<lambda>session.
     map_err (internal ''sign jwt failed'') (issueLoginResp jwt_sign c user (se_SessionVersion session) sessionID refreshToken)))"

section \<open>Login with a password\<close>

record LoginReq =
  lq_UserId :: int
  lq_Phone :: string
  lq_Password :: string
  lq_DeviceType :: string
  lq_ClientIP :: string
  lq_UserAgent :: string

definition loginIPRiskKey :: "string \<Rightarrow> string" where
  "loginIPRiskKey clientIP = ''auth:risk:login:ip:'' @ clientIP"

definition loginAccountRiskKey :: "LoginReq \<Rightarrow> string" where
  "loginAccountRiskKey req =
     (if lq_Phone req \<noteq> [] then ''auth:risk:login:phone:'' @ lq_Phone req
      else if lq_UserId req > 0 then ''auth:risk:login:user:'' @ show_int (lq_UserId req) else [])"

definition loginFailWindow :: "int \<Rightarrow> int" where
  "loginFailWindow seconds = Seconds (if seconds \<le> 0 then 60 else seconds)"

definition risk_check :: "string \<times> int \<Rightarrow> ('z auth_env_scheme, go_error option) io" where
  "risk_check p =
     bindE (attempt (limiter_Blocked (fst p) (snd p))) (\<lambda>x. ret (case x of
       Inl e \<Rightarrow> Some (StatusError codes_Internal ''check login risk failed'')
     | Inr (blocked, _) \<Rightarrow> if blocked then Some (StatusError codes_ResourceExhausted ''too many login attempts, please try again later'') else None))"

text \<open>All checks run; \<open>swap\<close> says that the answer of the second one arrives first.\<close>

definition checkLoginRisk :: "bool \<Rightarrow> auth_config \<Rightarrow> LoginReq \<Rightarrow> ('z auth_env_scheme, unit) io" where
  "checkLoginRisk swap c req =
     (let checks = (if loginAccountRiskKey req \<noteq> [] then [(loginAccountRiskKey req, ac_LoginFailPhoneMaxAttempts c)] else [])
                 @ (if lq_ClientIP req \<noteq> [] then [(loginIPRiskKey (lq_ClientIP req), ac_LoginFailIPMaxAttempts c)] else []) in
      bindE (fold_io (\<lambda>k es. bindE (risk_check k) (\<lambda>e. ret (es @ [e]))) checks []) (\<lambda>answers.
      case filter (\<lambda>e. e \<noteq> None) (if swap then rev answers else answers) of
        Some e # _ \<Rightarrow> fail e
      | _ \<Rightarrow> ret ()))"

definition recordLoginFailure :: "auth_config \<Rightarrow> LoginReq \<Rightarrow> ('z auth_env_scheme, unit) io" where
  "recordLoginFailure c req =
     (let window = loginFailWindow (ac_LoginFailWindowSeconds c) in
      bindE (if loginAccountRiskKey req \<noteq> []
             then map_err (internal ''record login risk failed'') (limiter_Incr (loginAccountRiskKey req) window) else ret ()) (\<lambda>_.
      if lq_ClientIP req \<noteq> []
      then map_err (internal ''record login risk failed'') (limiter_Incr (loginIPRiskKey (lq_ClientIP req)) window) else ret ()))"

definition resetLoginRisk :: "LoginReq \<Rightarrow> ('z auth_env_scheme, unit) io" where
  "resetLoginRisk req =
     (if loginAccountRiskKey req \<noteq> [] then or_else (limiter_Reset (loginAccountRiskKey req)) () else ret ())"

definition LoginPassword ::
  "(string \<Rightarrow> MapClaims \<Rightarrow> go_error + string) \<Rightarrow> bool \<Rightarrow> auth_config \<Rightarrow> ('z auth_env_scheme) AuthStore \<Rightarrow> LoginReq \<Rightarrow> ('z auth_env_scheme, LoginResp) io" where
  "LoginPassword jwt_sign swap c st req =
     (if lq_Password req = [] then status_error codes_InvalidArgument ''password required''
      else if lq_UserId req \<le> 0 \<and> lq_Phone req = [] then status_error codes_InvalidArgument ''user_id or phone required''
      else if ac_JwtAuthSecret c = [] then status_error codes_Internal ''jwt secret not configured''
      else bindE (checkLoginRisk swap c req) (\<lambda>_.
           bindE (attempt (st_Authenticate st (lq_UserId req) (lq_Phone req) (lq_Password req))) (\<lambda>x. case x of
             Inl e \<Rightarrow>
               if e = ErrInvalidCredentials then
                 bindE (recordLoginFailure c req) (\<lambda>_.
                 bindE (audit_phone_fail c st ''login_password_fail'' ''fail'' (lq_Phone req)
                          (auditIdentity (lq_Phone req) (lq_UserId req)) (lq_ClientIP req) (lq_UserAgent req)) (\<lambda>_.
                 status_error codes_Unauthenticated ''invalid credentials''))
               else status_error codes_Internal ''authenticate user failed''
           | Inr user \<Rightarrow>
               bindE (open_session jwt_sign c st user (lq_DeviceType req)) (\<lambda>resp.
               bindE (resetLoginRisk req) (\<lambda>_.
               bindE (recordAuditEvent c (auth_event ''login_password_success'' ''success'' (us_ID user) (us_Phone user) (lq_ClientIP req) (lq_UserAgent req))) (\<lambda>_.
               ret resp))))))"

section \<open>Codes: sending, login, registration, new password\<close>

definition ttl60 :: "int \<Rightarrow> int" where
  "ttl60 seconds = Seconds (if seconds \<le> 0 then 60 else seconds)"

definition sendCodeCooldownKey :: "string \<Rightarrow> string \<Rightarrow> string" where
  "sendCodeCooldownKey phone scene = ''auth:risk:code:phone:'' @ scene @ '':'' @ phone @ '':cooldown''"

definition sendCodePhoneWindowKey :: "string \<Rightarrow> string \<Rightarrow> string" where
  "sendCodePhoneWindowKey phone scene = ''auth:risk:code:phone:'' @ scene @ '':'' @ phone @ '':window''"

definition sendCodeIPWindowKey :: "string \<Rightarrow> string \<Rightarrow> string" where
  "sendCodeIPWindowKey clientIP scene = ''auth:risk:code:ip:'' @ scene @ '':'' @ clientIP"

definition refuse_if_blocked :: "string \<Rightarrow> int \<Rightarrow> string \<Rightarrow> ('z auth_env_scheme, unit) io" where
  "refuse_if_blocked key maxCount message =
     bindE (map_err (internal ''check code send risk failed'') (limiter_Blocked key maxCount)) (\<lambda>(blocked, _).
     if blocked then status_error codes_ResourceExhausted message else ret ())"

definition checkSendCodeRisk :: "auth_config \<Rightarrow> string \<Rightarrow> string \<Rightarrow> string \<Rightarrow> ('z auth_env_scheme, unit) io" where
  "checkSendCodeRisk c phone scene ip =
     bindE (refuse_if_blocked (sendCodeCooldownKey phone scene) 1 ''verification code request too frequent'') (\<lambda>_.
     bindE (refuse_if_blocked (sendCodePhoneWindowKey phone scene) (ac_CodeSendPhoneMaxAttempts c)
              ''too many verification code requests for this phone'') (\<lambda>_.
     if ip \<noteq> [] then refuse_if_blocked (sendCodeIPWindowKey ip scene) (ac_CodeSendIPMaxAttempts c)
                       ''too many verification code requests from this IP''
     else ret ()))"

definition recordSendCodeRisk :: "auth_config \<Rightarrow> string \<Rightarrow> string \<Rightarrow> string \<Rightarrow> ('z auth_env_scheme, unit) io" where
  "recordSendCodeRisk c phone scene ip =
     (let rec = (\<lambda>key ttl. map_err (internal ''record code send risk failed'') (limiter_Incr key ttl)) in
      bindE (rec (sendCodeCooldownKey phone scene) (ttl60 (ac_CodeSendCooldownSeconds c))) (\<lambda>_.
      bindE (rec (sendCodePhoneWindowKey phone scene) (ttl60 (ac_CodeSendPhoneWindowSeconds c))) (\<lambda>_.
      if ip \<noteq> [] then rec (sendCodeIPWindowKey ip scene) (ttl60 (ac_CodeSendIPWindowSeconds c)) else ret ())))"

record SendCodeResp =
  sr_Sent :: bool
  sr_ExpiresAt :: int
  sr_DebugCode :: string

definition SendCode ::
  "auth_config \<Rightarrow> ('z auth_env_scheme) AuthStore \<Rightarrow> string \<Rightarrow> string \<Rightarrow> string \<Rightarrow> string \<Rightarrow> ('z auth_env_scheme, SendCodeResp) io" where
  "SendCode c st phone scene ip agent =
     (if phone = [] then status_error codes_InvalidArgument ''phone required''
      else if scene = [] then status_error codes_InvalidArgument ''scene required''
      else bindE (attempt (checkSendCodeRisk c phone scene ip)) (\<lambda>x. case x of
        Inl e \<Rightarrow>
          bindE (case e of
                   StatusError codes_ResourceExhausted m \<Rightarrow> audit_phone_fail c st ''send_code_blocked'' ''blocked'' phone phone ip agent
                 | _ \<Rightarrow> ret ()) (\<lambda>_. fail e)
      | Inr _ \<Rightarrow>
          bindE (map_err (internal ''issue verification code failed'') (st_IssueCode st phone scene (ac_CodeTTLSeconds c))) (\<lambda>(code, expiresAt).
          bindE (or_else (recordSendCodeRisk c phone scene ip) ()) (\<lambda>_.
          bindE (audit_phone_fail c st ''send_code_success'' ''success'' phone phone ip agent) (\<lambda>_.
          ret \<lparr>sr_Sent = True, sr_ExpiresAt = Unix expiresAt, sr_DebugCode = (if ac_ExposeDebugCode c then code else [])\<rparr>)))))"

text \<open>\<open>ConsumeCode\<close> with the answers of the three requests that use a code; \<open>a\<close> records the failure.\<close>

definition use_code ::
  "auth_config \<Rightarrow> ('z auth_env_scheme) AuthStore \<Rightarrow> string \<Rightarrow> string \<Rightarrow> string \<Rightarrow> ('z auth_env_scheme, unit) io \<Rightarrow> ('z auth_env_scheme, unit) io" where
  "use_code c st phone scene code a =
     bindE (attempt (st_ConsumeCode st phone scene code (ac_VerificationCodeMaxAttempts c))) (\<lambda>x. case x of
       Inr _ \<Rightarrow> ret ()
     | Inl e \<Rightarrow>
         if e = ErrInvalidCode then bindE a (\<lambda>_. status_error codes_InvalidArgument ''invalid verification code'')
         else status_error codes_Internal ''verify code failed'')"

definition LoginCode ::
  "(string \<Rightarrow> MapClaims \<Rightarrow> go_error + string) \<Rightarrow> auth_config \<Rightarrow> ('z auth_env_scheme) AuthStore \<Rightarrow> string \<Rightarrow> string \<Rightarrow> string \<Rightarrow> string \<Rightarrow> string
     \<Rightarrow> ('z auth_env_scheme, LoginResp) io" where
  "LoginCode jwt_sign c st phone code deviceType ip agent =
     (if phone = [] \<or> code = [] then status_error codes_InvalidArgument ''phone and code are required''
      else bindE (use_code c st phone ''login'' code (audit_phone_fail c st ''login_code_fail'' ''fail'' phone phone ip agent)) (\<lambda>_.
           bindE (attempt (st_GetUserByPhone st phone)) (\<lambda>x. case x of
             Inl e \<Rightarrow>
               if e = ErrUserNotFound
               then bindE (recordAuditEvent c (auth_event ''login_code_fail'' ''fail'' 0 phone ip agent)) (\<lambda>_. status_error codes_NotFound ''user not found'')
               else status_error codes_Internal ''load user failed''
           | Inr user \<Rightarrow>
               bindE (open_session jwt_sign c st user deviceType) (\<lambda>resp.
               bindE (recordAuditEvent c (auth_event ''login_code_success'' ''success'' (us_ID user) (us_Phone user) ip agent)) (\<lambda>_.
               ret resp)))))"

definition Register ::
  "(string \<Rightarrow> MapClaims \<Rightarrow> go_error + string) \<Rightarrow> auth_config \<Rightarrow> ('z auth_env_scheme) AuthStore \<Rightarrow> string \<Rightarrow> string \<Rightarrow> string \<Rightarrow> string \<Rightarrow> string \<Rightarrow> string \<Rightarrow> string
     \<Rightarrow> ('z auth_env_scheme, LoginResp) io" where
  "Register jwt_sign c st phone password code displayName deviceType ip agent =
     (if phone = [] \<or> password = [] \<or> code = [] then status_error codes_InvalidArgument ''phone, password and code are required''
      else bindE (use_code c st phone ''register'' code (recordAuditEvent c (auth_event ''register_fail'' ''fail'' 0 phone ip agent))) (\<lambda>_.
           bindE (attempt (st_CreateUser st phone displayName password)) (\<lambda>x. case x of
             Inl e \<Rightarrow>
               if e = ErrUserExists
               then bindE (audit_phone_fail c st ''register_fail'' ''fail'' phone phone ip agent) (\<lambda>_. status_error codes_AlreadyExists ''phone already registered'')
               else status_error codes_Internal ''create user failed''
           | Inr user \<Rightarrow>
               bindE (open_session jwt_sign c st user deviceType) (\<lambda>resp.
               bindE (recordAuditEvent c (auth_event ''register_success'' ''success'' (us_ID user) (us_Phone user) ip agent)) (\<lambda>_.
               ret resp)))))"

definition ResetPassword ::
  "auth_config \<Rightarrow> ('z auth_env_scheme) AuthStore \<Rightarrow> string \<Rightarrow> string \<Rightarrow> string \<Rightarrow> string \<Rightarrow> string \<Rightarrow> ('z auth_env_scheme, unit) io" where
  "ResetPassword c st phone code newPassword ip agent =
     (if phone = [] \<or> code = [] \<or> newPassword = [] then status_error codes_InvalidArgument ''phone, code and new_password are required''
      else bindE (use_code c st phone ''reset-password'' code (audit_phone_fail c st ''reset_password_fail'' ''fail'' phone phone ip agent)) (\<lambda>_.
           bindE (attempt (st_UpdatePassword st phone newPassword)) (\<lambda>x. case x of
             Inl e \<Rightarrow>
               if e = ErrUserNotFound
               then bindE (recordAuditEvent c (auth_event ''reset_password_fail'' ''fail'' 0 phone ip agent)) (\<lambda>_. status_error codes_NotFound ''user not found'')
               else status_error codes_Internal ''update password failed''
           | Inr user \<Rightarrow>
               bindE (map_err (internal ''reset verification code failed'') (st_ResetCode st phone ''reset-password'')) (\<lambda>_.
               recordAuditEvent c (auth_event ''reset_password_success'' ''success'' (us_ID user) (us_Phone user) ip agent)))))"

section \<open>Sessions of a user\<close>

definition token_error :: "string \<Rightarrow> go_error \<Rightarrow> go_error" where
  "token_error other e =
     (if e = ErrRefreshTokenInvalid then StatusError codes_Unauthenticated ''invalid refresh token''
      else if e = ErrRefreshTokenReplayed then StatusError codes_Unauthenticated ''refresh token replayed''
      else StatusError codes_Internal other)"

definition not_found_or :: "string \<Rightarrow> go_error \<Rightarrow> go_error" where
  "not_found_or other e =
     (if e = ErrUserNotFound then StatusError codes_NotFound ''user not found'' else StatusError codes_Internal other)"

definition RefreshTokens ::
  "(string \<Rightarrow> MapClaims \<Rightarrow> go_error + string) \<Rightarrow> auth_config \<Rightarrow> ('z auth_env_scheme) AuthStore \<Rightarrow> string \<Rightarrow> ('z auth_env_scheme, LoginResp) io" where
  "RefreshTokens jwt_sign c st refreshToken =
     (if refreshToken = [] then status_error codes_Unauthenticated ''missing refresh token''
      else bindE (map_err (token_error ''refresh session failed'') (st_RefreshSession st refreshToken (ac_RefreshTokenTTLSeconds c))) (\<lambda>(session, newRefreshToken).
           bindE (map_err (not_found_or ''load user failed'') (st_GetUserByID st (se_UserID session))) (\<lambda>user.
           bindE (map_err (internal ''sign jwt failed'') (issueLoginResp jwt_sign c user (se_SessionVersion session) (se_ID session) newRefreshToken)) (\<lambda>resp.
           bindE (recordAuditEvent c (auth_event ''refresh_success'' ''success'' (us_ID user) (us_Phone user) [] [])) (\<lambda>_.
           ret resp)))))"

definition LogoutSession ::
  "auth_config \<Rightarrow> ('z auth_env_scheme) AuthStore \<Rightarrow> MapClaims \<Rightarrow> string \<Rightarrow> ('z auth_env_scheme, unit) io" where
  "LogoutSession c st ctx refreshToken =
     (if refreshToken = [] then status_error codes_Unauthenticated ''missing refresh token''
      else bindE (map_err (token_error ''logout failed'') (st_Logout st refreshToken)) (\<lambda>_.
           case parseUserIDClaim (ctx ''user_id'') of
             None \<Rightarrow> ret ()
           | Some userID \<Rightarrow> recordAuditEvent c (auth_event ''logout_success'' ''success'' userID (auditIdentity [] userID) [] [])))"

definition LogoutEverywhere :: "auth_config \<Rightarrow> ('z auth_env_scheme) AuthStore \<Rightarrow> MapClaims \<Rightarrow> ('z auth_env_scheme, unit) io" where
  "LogoutEverywhere c st ctx =
     (case parseUserIDClaim (ctx ''user_id'') of
        None \<Rightarrow> status_error codes_Unauthenticated ''missing user_id in jwt''
      | Some userID \<Rightarrow>
          bindE (st_LogoutAll st userID) (\<lambda>_.
          recordAuditEvent c (auth_event ''logout_all_success'' ''success'' userID (auditIdentity [] userID) [] [])))"

record MeResp =
  me_UserId :: int
  me_DisplayName :: string
  me_Phone :: string
  me_Role :: string

definition Me :: "('z auth_env_scheme) AuthStore \<Rightarrow> MapClaims \<Rightarrow> ('z auth_env_scheme, MeResp) io" where
  "Me st ctx =
     (case subject ctx of
        None \<Rightarrow> status_error codes_Unauthenticated ''missing user subject in jwt''
      | Some userID \<Rightarrow>
          (let sessionID = text_claim (ctx ''sid'') in
           if sessionID = [] then status_error codes_Unauthenticated ''missing session id in jwt''
           else bindE (map_err (\<lambda>e. if e = ErrSessionNotFound then StatusError codes_Unauthenticated ''session invalid or expired''
                                    else StatusError codes_Internal ''load session failed'') (st_GetActiveSession st sessionID)) (\<lambda>session.
                if se_UserID session \<noteq> userID then status_error codes_Unauthenticated ''session invalid or expired''
                else case parseUserIDClaim (ctx ''session_version'') of
                  None \<Rightarrow> status_error codes_Unauthenticated ''missing session version in jwt''
                | Some sessionVersion \<Rightarrow>
                    if se_SessionVersion session \<noteq> sessionVersion then status_error codes_Unauthenticated ''session version mismatch''
                    else bindE (map_err (not_found_or ''load user failed'') (st_GetUserByID st userID)) (\<lambda>user.
                         ret \<lparr>me_UserId = userID, me_DisplayName = us_DisplayName user, me_Phone = us_Phone user, me_Role = us_Role user\<rparr>))))"

section \<open>Administration of users\<close>

record AdminUserItem =
  ai_UserId :: int
  ai_DisplayName :: string
  ai_Phone :: string
  ai_Role :: string
  ai_Status :: int
  ai_StatusText :: string
  ai_CreateTime :: string

definition adminUserStatus :: "int \<Rightarrow> int" where
  "adminUserStatus status = (if status = 0 then 1 else status)"

definition adminUserStatusText :: "int \<Rightarrow> string" where
  "adminUserStatusText status =
     (if adminUserStatus status = 1 then ''active'' else if adminUserStatus status = 2 then ''disabled'' else ''unknown'')"

definition adminUserStatusAuditEvent :: "int \<Rightarrow> string" where
  "adminUserStatusAuditEvent status =
     (if adminUserStatus status = 1 then ''admin_user_enabled'' else if adminUserStatus status = 2 then ''admin_user_disabled''
      else ''admin_user_status_update_failed'')"

definition adminUserItemFromStoreUser :: "User \<Rightarrow> AdminUserItem" where
  "adminUserItemFromStoreUser u = \<lparr>ai_UserId = us_ID u, ai_DisplayName = us_DisplayName u, ai_Phone = us_Phone u, ai_Role = us_Role u,
     ai_Status = adminUserStatus (us_Status u), ai_StatusText = adminUserStatusText (us_Status u), ai_CreateTime = us_CreateTime u\<rparr>"

definition AdminUserDetail :: "('z auth_env_scheme) AuthStore \<Rightarrow> int \<Rightarrow> ('z auth_env_scheme, AdminUserItem) io" where
  "AdminUserDetail st userID =
     (if userID \<le> 0 then status_error codes_InvalidArgument ''user_id is required''
      else bindE (map_err (not_found_or ''get user detail failed'') (st_GetUserByIDAnyStatus st userID)) (\<lambda>user. ret (adminUserItemFromStoreUser user)))"

definition AdminUserList ::
  "('z auth_env_scheme) AuthStore \<Rightarrow> int \<Rightarrow> int \<Rightarrow> int \<Rightarrow> string \<Rightarrow> string \<Rightarrow> ('z auth_env_scheme, AdminUserItem list \<times> int) io" where
  "AdminUserList st page pageSize statusFilter role keyword =
     (let page = (if page \<le> 0 then 1 else page);
          pageSize = (if pageSize \<le> 0 \<or> pageSize > 100 then 20 else pageSize);
          statusFilter = (if statusFilter \<noteq> 1 \<and> statusFilter \<noteq> 2 then 0 else statusFilter) in
      bindE (map_err (internal ''list users failed'') (st_ListUsers st page pageSize statusFilter role keyword)) (\<lambda>(users, total).
      ret (map adminUserItemFromStoreUser users, total)))"

definition status_RecordFailure :: "auth_config \<Rightarrow> MapClaims \<Rightarrow> int \<Rightarrow> int \<Rightarrow> string \<Rightarrow> ('z auth_env_scheme, unit) io" where
  "status_RecordFailure c ctx userID newStatus reason =
     (case parseUserIDClaim (ctx ''user_id'') of
        None \<Rightarrow> ret ()
      | Some adminID \<Rightarrow> recordAuditEvent c (auth_event (adminUserStatusAuditEvent newStatus) ''fail'' adminID
          (''target_user:'' @ show_int userID @ '' status:'' @ adminUserStatusText newStatus @ '' reason:'' @ reason) [] []))"

definition AdminUserStatus ::
  "auth_config \<Rightarrow> ('z auth_env_scheme) AuthStore \<Rightarrow> MapClaims \<Rightarrow> int \<Rightarrow> int \<Rightarrow> ('z auth_env_scheme, int \<times> int \<times> string) io" where
  "AdminUserStatus c st ctx userID newStatus =
     (if userID \<le> 0 then bindE (status_RecordFailure c ctx userID newStatus ''invalid_user_id'') (\<lambda>_. status_error codes_InvalidArgument ''user_id is required'')
      else bindE (attempt (st_SetUserStatus st userID newStatus)) (\<lambda>x. case x of
        Inl e \<Rightarrow>
          if e = ErrUserNotFound
          then bindE (status_RecordFailure c ctx userID newStatus ''not_found'') (\<lambda>_. status_error codes_NotFound ''user not found'')
          else if e = ErrInvalidCredentials
          then bindE (status_RecordFailure c ctx userID newStatus ''invalid_status'') (\<lambda>_. status_error codes_InvalidArgument ''status must be 1 or 2'')
          else bindE (status_RecordFailure c ctx userID newStatus ''store_failed'') (\<lambda>_. status_error codes_Internal ''update user status failed'')
      | Inr user \<Rightarrow>
          bindE (case parseUserIDClaim (ctx ''user_id'') of
                   None \<Rightarrow> ret ()
                 | Some adminID \<Rightarrow> recordAuditEvent c (auth_event (adminUserStatusAuditEvent (us_Status user)) ''success'' adminID
                     (''target_user:'' @ show_int (us_ID user) @ '' phone:'' @ us_Phone user @ '' status:'' @ adminUserStatusText (us_Status user)) [] [])) (\<lambda>_.
          ret (us_ID user, adminUserStatus (us_Status user), adminUserStatusText (us_Status user)))))"

text \<open>
  The checks of \<open>AdminUserStatusHandler\<close>; \<open>currentUserID\<close> has no case for a \<open>json.Number\<close> and takes what
  \<open>ParseInt\<close> returns beside an error: 0, or the nearest bound when the number is out of range.
\<close>

definition isAdminRequest :: "MapClaims \<Rightarrow> bool" where
  "isAdminRequest ctx \<longleftrightarrow> text_claim (ctx ''role'') = ''admin''"

definition ParseInt_value :: "string \<Rightarrow> int" where
  "ParseInt_value s =
     (case ParseInt s of
        Some i \<Rightarrow> i
      | None \<Rightarrow>
          (case s of
             [] \<Rightarrow> 0
           | c # cs \<Rightarrow>
               if parse_digits (if c = CHR ''-'' \<or> c = CHR ''+'' then cs else s) = None then 0
               else if c = CHR ''-'' then - (2 ^ 63) else 2 ^ 63 - 1))"

definition currentUserID :: "MapClaims \<Rightarrow> int" where
  "currentUserID ctx = (case ctx ''user_id'' of
       Some (CInt i) \<Rightarrow> i
     | Some (CFloat i) \<Rightarrow> i64 i
     | Some (CText s) \<Rightarrow> ParseInt_value s
     | _ \<Rightarrow> 0)"

definition ErrAdminDenied :: go_error where
  "ErrAdminDenied = RawError ''403 admin access required''"

definition ErrSelfDisable :: go_error where
  "ErrSelfDisable = RawError ''409 cannot disable current admin''"

definition AdminUserStatusHandler ::
  "auth_config \<Rightarrow> ('z auth_env_scheme) AuthStore \<Rightarrow> MapClaims \<Rightarrow> int \<Rightarrow> int \<Rightarrow> ('z auth_env_scheme, int \<times> int \<times> string) io" where
  "AdminUserStatusHandler c st ctx userID status =
     (if \<not> isAdminRequest ctx then fail ErrAdminDenied
      else if status = 2 \<and> userID = currentUserID ctx
      then bindE (status_RecordFailure c ctx userID status ''self_disable_blocked'') (\<lambda>_. fail ErrSelfDisable)
      else AdminUserStatus c st ctx userID status)"

section \<open>Looking at security events\<close>

definition ListRecent :: "auth_config \<Rightarrow> MapClaims \<Rightarrow> ('z auth_env_scheme, Event list) io" where
  "ListRecent c ctx =
     (case subject ctx of
        None \<Rightarrow> status_error codes_Unauthenticated ''missing user subject in jwt''
      | Some userID \<Rightarrow>
          (let limit = (if ac_SecurityAuditRecentLimit c \<le> 0 then 10 else ac_SecurityAuditRecentLimit c) in
           bindE (recorder_ListRecent (auditRetentionLimit c) (limit * 5)) (\<lambda>items.
           ret (take (nat limit) (filter (\<lambda>item. ev_UserID item = userID) items)))))"

definition securityEventResultMatches :: "string \<Rightarrow> string \<Rightarrow> bool" where
  "securityEventResultMatches actual expected \<longleftrightarrow>
     (let actual = ToLower (TrimSpace actual); expected = ToLower (TrimSpace expected);
          failed = (\<lambda>s. s = ''fail'' \<or> s = ''failed'')
      in actual = expected \<or> (failed actual \<and> failed expected))"

definition securityEventKeywordMatches :: "Event \<Rightarrow> string \<Rightarrow> bool" where
  "securityEventKeywordMatches item keyword \<longleftrightarrow>
     (let v = ToLower (TrimSpace keyword)
      in v = [] \<or> Contains (ToLower (ev_EventType item @ '' '' @ ev_Result item @ '' '' @ show_int (ev_UserID item) @ '' '' @
                    ev_IdentityValue item @ '' '' @ ev_IP item @ '' '' @ ev_UserAgent item)) v)"

record EventsReq =
  eq_Limit :: int
  eq_UserId :: int
  eq_EventType :: string
  eq_Result :: string
  eq_Keyword :: string

definition ListAdminRecent :: "auth_config \<Rightarrow> EventsReq \<Rightarrow> ('z auth_env_scheme, Event list) io" where
  "ListAdminRecent c req =
     (let limit = (if eq_Limit req \<le> 0 then (if ac_SecurityAuditRecentLimit c \<le> 0 then 20 else ac_SecurityAuditRecentLimit c) else eq_Limit req);
          limit = (if limit > 100 then 100 else limit);
          fetchLimit = (if limit * 5 < 50 then 50 else limit * 5) in
      bindE (recorder_ListRecent (auditRetentionLimit c) fetchLimit) (\<lambda>items.
      ret (take (nat limit) (filter (\<lambda>item.
        \<not> (eq_UserId req > 0 \<and> ev_UserID item \<noteq> eq_UserId req) \<and>
        \<not> (eq_EventType req \<noteq> [] \<and> ev_EventType item \<noteq> eq_EventType req) \<and>
        \<not> (eq_Result req \<noteq> [] \<and> \<not> securityEventResultMatches (ev_Result item) (eq_Result req)) \<and>
        \<not> (eq_Keyword req \<noteq> [] \<and> \<not> securityEventKeywordMatches item (eq_Keyword req))) items))))"

definition RecordAdmin :: "auth_config \<Rightarrow> MapClaims \<Rightarrow> string \<Rightarrow> string \<Rightarrow> string \<Rightarrow> string \<Rightarrow> string \<Rightarrow> ('z auth_env_scheme, unit) io" where
  "RecordAdmin c ctx eventType result subj ip userAgent =
     (let eventType = TrimSpace eventType;
          result = ToLower (TrimSpace result);
          result = (if result = [] then ''success'' else result);
          result = (if result = ''failed'' then ''fail'' else result) in
      if eventType = [] then status_error codes_InvalidArgument ''event_type is required''
      else if result \<noteq> ''success'' \<and> result \<noteq> ''fail'' then status_error codes_InvalidArgument ''result must be success or fail''
      else case subject ctx of
             None \<Rightarrow> status_error codes_Unauthenticated ''missing user subject in jwt''
           | Some adminID \<Rightarrow> recordAuditEvent c (auth_event eventType result adminID (TrimSpace subj) (TrimSpace ip) (TrimSpace userAgent)))"

end
