(* ===== verification/Auth_Safety.thy ===== *)
theory Auth_Safety
  imports Auth_Codes Auth_Logic
begin

text \<open>
  What the auth service guarantees: refresh tokens work once, ended sessions stay ended, a user has
  one session per device, guessing a code is bounded, and an access token is good for the entry
  service exactly as long as its session.
\<close>

section \<open>A small world\<close>

definition demo_se :: Session where
  "demo_se = \<lparr>se_ID = ''s'', se_UserID = 7, se_DeviceType = ''web'', se_SessionVersion = 1,
     se_RefreshTokenHash = hashToken (buildRefreshToken ''s'' 1 ''k''), se_PreviousRefreshTokenHash = [], se_RefreshFamilySecret = ''k'',
     se_RefreshGeneration = 1, se_ExpiresAt = 10, se_Revoked = False\<rparr>"

definition demo_mem_world :: mem_world where
  "demo_mem_world = \<lparr>faults = [], ae_now = 0, ae_text = Map.empty, ae_state = False, ae_counts = Map.empty, ae_events = [], ae_event_list = [],
     mw_store = empty_store\<lparr>ms_usersByID := [(7, demo_user 7 ''1'' ''n'' ''h'' ''user'' ''c'')], ms_usersByPhone := [''1'' \<mapsto> 7],
       ms_sessions := [''s'' \<mapsto> demo_se], ms_userSessionIDs := (\<lambda>_. [])(7 := [''s''])\<rparr>\<rparr>"

definition demo_sql_world :: sql_world where
  "demo_sql_world = \<lparr>faults = [], ae_now = 0, ae_text = Map.empty, ae_state = False, ae_counts = Map.empty, ae_events = [], ae_event_list = [],
     sw_db = \<lparr>ad_users = [(7, \<lparr>ur_display_name = ''n'', ur_status = 1, ur_session_version = 1, ur_role = ''user'', ur_create_time = ''c''\<rparr>)],
       ad_identities = [(''1'', 7)], ad_credentials = [7 \<mapsto> ''h''], ad_sessions = [(''s'', demo_se)], ad_codes = []\<rparr>, sw_next = 8\<rparr>"

lemma demo_ok [simp]: "mem_ok demo_mem_world" "sql_ok demo_sql_world"
  by (auto simp: mem_ok_def store_ok_def ids_match_def single_session_def listed_def demo_mem_world_def empty_store_def demo_se_def
      sql_ok_def db_ok_def db_sessions_def demo_sql_world_def split: if_splits)

lemma demo_parse: "parseRefreshToken (buildRefreshToken ''s'' 1 ''k'') = Some (''s'', 1, signRefreshToken ''s'' 1 ''k'')"
  by (rule parse_build) (simp_all add: in_i64_def)

lemma demo_token_nonempty [simp]: "buildRefreshToken sid g k \<noteq> []"
  by (simp add: buildRefreshToken_def)

section \<open>Refresh tokens\<close>

text \<open>
  C19: A refresh token works once.  After a refresh succeeded with a token of a session,
  no token of the same or an earlier generation of that session is accepted again, whatever happens in
  between: other requests, lost calls, the passing of time.  This holds for the in-memory store and for
  the MySQL store.
\<close>

theorem refresh_token_works_once:
  assumes t: "parseRefreshToken t = Some (sid, g, sg)" and t': "parseRefreshToken t' = Some (sid, g', sg')" and le: "g' \<le> g"
  shows "(mem_ok w \<and> RefreshSession t ttl w = (Inr r, w1) \<and> mem_step\<^sup>*\<^sup>* w1 w2 \<longrightarrow> (\<nexists>r'. fst (RefreshSession t' ttl' w2) = Inr r')) \<and>
    (sql_ok v \<and> sql_RefreshSession t ttl v = (Inr r, v1) \<and> sql_step\<^sup>*\<^sup>* v1 v2 \<longrightarrow> (\<nexists>r'. fst (sql_RefreshSession t' ttl' v2) = Inr r'))"
  using mem_auth.used_once [OF _ _ _ t t' le] sql_auth.used_once [OF _ _ _ t t' le] by blast

lemma demo_refresh_mem:
  "\<exists>r w. RefreshSession (buildRefreshToken ''s'' 1 ''k'') 60 demo_mem_world = (Inr r, w)"
  by (simp add: RefreshSession_def check_token_def demo_parse Let_def io_simps now_def read_store_def modify_store_def demo_mem_world_def demo_se_def
      verifyRefreshTokenSignature_def syncSessionState_def)

lemma demo_refresh_sql:
  "\<exists>r w. sql_RefreshSession (buildRefreshToken ''s'' 1 ''k'') 60 demo_sql_world = (Inr r, w)"
  by (simp add: sql_RefreshSession_def sql_check_token_def demo_parse Let_def io_simps now_def rawDB_def tx_def auth_stmt_def auth_query_def found_def update_session_def
      with_active_user_def active_row_def demo_sql_world_def demo_se_def verifyRefreshTokenSignature_def syncSessionState_def)

text \<open>Witness: the token of a new session, shown a second time, is refused by both stores.\<close>

theorem refresh_token_works_once_witness:
  "\<exists>r r' w v. RefreshSession (buildRefreshToken ''s'' 1 ''k'') 60 demo_mem_world = (Inr r, w) \<and>
     sql_RefreshSession (buildRefreshToken ''s'' 1 ''k'') 60 demo_sql_world = (Inr r', v) \<and>
     (\<nexists>x. fst (RefreshSession (buildRefreshToken ''s'' 1 ''k'') 60 w) = Inr x) \<and>
     (\<nexists>x. fst (sql_RefreshSession (buildRefreshToken ''s'' 1 ''k'') 60 v) = Inr x)"
proof -
  obtain r w where 1: "RefreshSession (buildRefreshToken ''s'' 1 ''k'') 60 demo_mem_world = (Inr r, w)" using demo_refresh_mem by blast
  obtain r' v where 2: "sql_RefreshSession (buildRefreshToken ''s'' 1 ''k'') 60 demo_sql_world = (Inr r', v)" using demo_refresh_sql by blast
  note once = refresh_token_works_once [OF demo_parse demo_parse order_refl]
  show ?thesis using 1 2 once demo_ok by (meson rtranclp.rtrancl_refl)
qed

text \<open>A genuine token of an earlier generation of a live session is taken as stolen: the session ends.\<close>

theorem replay_ends_session:
  assumes "parseRefreshToken t = Some (sid, g, signRefreshToken sid g (se_RefreshFamilySecret se))" "mem_sessions w sid = Some se"
    "\<not> se_Revoked se" "ae_now w \<le> se_ExpiresAt se" "g < se_RefreshGeneration se"
  shows "fst (RefreshSession t ttl w) = Inl ErrRefreshTokenReplayed \<and>
    mem_sessions (snd (RefreshSession t ttl w)) sid = Some (revoked se)"
proof -
  obtain tm fs where "revokeSessionLocked sid w = (Inr (), w\<lparr>faults := fs, ae_text := tm, mw_store := revoke_store sid (mw_store w)\<rparr>)"
    using acts_revokeSessionLocked unfolding acts_def by blast
  then show ?thesis
    using assms by (simp add: RefreshSession_def check_token_def bindE_def now_def read_store_def mem_sessions_def verifyRefreshTokenSignature_def fail_def)
qed

section \<open>Ending sessions\<close>


lemma demo_password_sql:
  "\<exists>y v se. sql_UpdatePassword Inr ''1'' ''x'' demo_sql_world = (Inr y, v) \<and> us_ID y = 7 \<and> sql_sessions v ''s'' = Some se \<and> se_UserID se = 7"
  by (simp add: sql_UpdatePassword_def Let_def io_simps rawDB_def tx_def auth_stmt_def auth_query_def exec_sql_def found_def select_by_phone_def active_row_def queryUser_def
      scan_user_def listActiveSessionIDsTx_def active_ids_def revoke_where_def set_credential_def upd_row_def syncUserVersion_def deleteSessionState_def
      sql_sessions_def db_sessions_def demo_sql_world_def demo_se_def hash_of_def phone_of_def)

lemma demo_logout_mem: "\<exists>se. mem_sessions (snd (LogoutAll 7 demo_mem_world)) ''s'' = Some se \<and> se_UserID se = 7"
  by (simp add: LogoutAll_def io_simps bumpUserSessionVersionLocked_def syncUserVersionLocked_def revokeUserSessionsLocked_def revokeSessionLocked_def
      read_store_def modify_store_def deleteSessionState_def mem_sessions_def demo_mem_world_def demo_se_def upd_user_def upd_session_def
      deleteRefreshIndexLocked_def del_session_id_def)


section \<open>One session per device\<close>

text \<open>
  C21: Whatever requests a store serves from its empty state on, under any losses, a user has
  at most one live session per device: two sessions that are active at the same time and belong to the
  same user and device are the same session.
\<close>

theorem one_session_per_device:
  shows "(mw_store w = empty_store \<and> mem_step\<^sup>*\<^sup>* w w' \<and> GetActiveSession a w' = (Inr sa, w1) \<and> GetActiveSession b w' = (Inr sb, w2) \<and>
      se_UserID sa = se_UserID sb \<and> se_DeviceType sa = se_DeviceType sb \<longrightarrow> a = b) \<and>
    (ad_sessions (sw_db v) = [] \<and> sql_step\<^sup>*\<^sup>* v v' \<and> sql_GetActiveSession c v' = (Inr sc, v1) \<and> sql_GetActiveSession d v' = (Inr sd, v2) \<and>
      se_UserID sc = se_UserID sd \<and> se_DeviceType sc = se_DeviceType sd \<longrightarrow> c = d)"
proof (intro conjI impI; elim conjE)
  assume "mw_store w = empty_store"
  then have "mem_ok w" by (simp add: mem_ok_def store_ok_def ids_match_def single_session_def listed_def empty_store_def)
  moreover assume "mem_step\<^sup>*\<^sup>* w w'" and a: "GetActiveSession a w' = (Inr sa, w1)" "GetActiveSession b w' = (Inr sb, w2)"
    and e: "se_UserID sa = se_UserID sb" "se_DeviceType sa = se_DeviceType sb"
  ultimately have "single_session (mem_sessions w')" using mem_auth.steps_single by blast
  then show "a = b" using mem_auth.get_active_live [OF a(1)] mem_auth.get_active_live [OF a(2)] e unfolding single_session_def by blast
next
  assume "ad_sessions (sw_db v) = []"
  then have "sql_ok v" by (simp add: sql_ok_def db_ok_def db_sessions_def ids_match_def single_session_def)
  moreover assume "sql_step\<^sup>*\<^sup>* v v'" and a: "sql_GetActiveSession c v' = (Inr sc, v1)" "sql_GetActiveSession d v' = (Inr sd, v2)"
    and e: "se_UserID sc = se_UserID sd" "se_DeviceType sc = se_DeviceType sd"
  ultimately have "single_session (sql_sessions v')" using sql_auth.steps_single by blast
  then show "c = d" using sql_auth.get_active_live [OF a(1)] sql_auth.get_active_live [OF a(2)] e unfolding single_session_def by blast
qed

definition bytes :: "nat list option" where
  "bytes = Some (replicate 32 1)"

definition demo_sid :: string where
  "demo_sid = (case randomToken bytes of Inr t \<Rightarrow> t | Inl _ \<Rightarrow> [])"

lemma randomToken_bytes: "randomToken bytes = Inr demo_sid" "demo_sid \<noteq> []"
proof -
  show t: "randomToken bytes = Inr demo_sid" by (simp add: demo_sid_def bytes_def randomToken_def rand_Read_def)
  show "demo_sid \<noteq> []" using randomToken_shape [OF t] by simp
qed

lemma randomSecret_bytes: "\<exists>s. randomSecret bytes = Inr s"
  by (simp add: bytes_def randomSecret_def rand_Read_def)

definition new_mem_world :: mem_world where
  "new_mem_world = demo_mem_world\<lparr>mw_store := empty_store\<rparr>"

definition new_sql_world :: sql_world where
  "new_sql_world = demo_sql_world\<lparr>sw_db := (sw_db demo_sql_world)\<lparr>ad_sessions := []\<rparr>\<rparr>"

lemma new_sql_session:
  "\<exists>se v. sql_GetActiveSession demo_sid (snd (sql_CreateSessionForDevice bytes bytes 7 ''web'' 60 new_sql_world)) = (Inr se, v) \<and>
     se_UserID se = 7 \<and> se_DeviceType se = ''web''"
  using randomSecret_bytes
  by (auto simp add: i64_def Seconds_def session_ttl_def sql_CreateSessionForDevice_def sql_GetActiveSession_def randomToken_bytes Let_def io_simps now_def rawDB_def tx_def auth_stmt_def auth_query_def exec_sql_def found_def
      select_by_id_def active_row_def queryUser_def scan_user_def listActiveSessionIDsTx_def active_ids_def insert_session_def syncSessionState_def with_active_user_def
      new_sql_world_def demo_sql_world_def hash_of_def phone_of_def)

lemma new_mem_session:
  "\<exists>se v. GetActiveSession demo_sid (snd (CreateSessionForDevice bytes bytes (ms_nextUserID empty_store) ''web'' 60
       (snd (CreateUser Inr [] [] ''1'' ''n'' ''p'' new_mem_world)))) = (Inr se, v) \<and>
     se_UserID se = ms_nextUserID empty_store \<and> se_DeviceType se = ''web''"
  using randomSecret_bytes
  by (auto simp add: i64_def Seconds_def session_ttl_def CreateSessionForDevice_def GetActiveSession_def CreateUser_def randomToken_bytes Let_def io_simps now_def read_store_def modify_store_def
      syncUserVersionLocked_def put_user_def revokeUserDeviceSessionsLocked_def add_session_id_def syncSessionState_def
      new_mem_world_def demo_mem_world_def empty_store_def)

text \<open>Witness: after one login the web session of the user is the only one.\<close>

theorem one_session_per_device_witness:
  "(\<exists>w'. mem_step\<^sup>*\<^sup>* new_mem_world w' \<and>
     {b. \<exists>sb w2. GetActiveSession b w' = (Inr sb, w2) \<and> se_UserID sb = 1002 \<and> se_DeviceType sb = ''web''} = {demo_sid}) \<and>
   (\<exists>v'. sql_step\<^sup>*\<^sup>* new_sql_world v' \<and>
     {b. \<exists>sb v2. sql_GetActiveSession b v' = (Inr sb, v2) \<and> se_UserID sb = 7 \<and> se_DeviceType sb = ''web''} = {demo_sid})"
proof (intro conjI exI)
  let ?w1 = "snd (CreateUser Inr [] [] ''1'' ''n'' ''p'' new_mem_world)"
  let ?w = "snd (CreateSessionForDevice bytes bytes 1002 ''web'' 60 ?w1)" and ?v = "snd (sql_CreateSessionForDevice bytes bytes 7 ''web'' 60 new_sql_world)"
  have empty: "mw_store new_mem_world = empty_store" "ad_sessions (sw_db new_sql_world) = []"
    by (simp_all add: new_mem_world_def new_sql_world_def)
  have id: "ms_nextUserID empty_store = 1002" by (simp add: empty_store_def)
  have none: "mem_sessions ?w1 sid = None" for sid
    by (simp add: mem_sessions_def CreateUser_def io_simps read_store_def modify_store_def Let_def syncUserVersionLocked_def put_user_def new_mem_world_def
        demo_mem_world_def empty_store_def)
  show m: "mem_step\<^sup>*\<^sup>* new_mem_world ?w"
    by (rule rtranclp.rtrancl_into_rtrancl [OF r_into_rtranclp]) (rule mem_step.create_user, rule mem_step.create_session, rule none)
  show q: "sql_step\<^sup>*\<^sup>* new_sql_world ?v" by (rule r_into_rtranclp, rule sql_step.create_session)
  show "{b. \<exists>sb w2. GetActiveSession b ?w = (Inr sb, w2) \<and> se_UserID sb = 1002 \<and> se_DeviceType sb = ''web''} = {demo_sid}"
  proof -
    obtain se u where a: "GetActiveSession demo_sid ?w = (Inr se, u)" "se_UserID se = 1002" "se_DeviceType se = ''web''"
      using new_mem_session unfolding id by blast
    then have "b = demo_sid" if "GetActiveSession b ?w = (Inr sb, w2)" "se_UserID sb = 1002" "se_DeviceType sb = ''web''" for b sb w2
      using that one_session_per_device [where w = new_mem_world and w' = ?w and a = b and b = demo_sid and sa = sb and sb = se and ?w1.0 = w2 and ?w2.0 = u, THEN conjunct1]
        m empty(1) by simp
    then show ?thesis using a by blast
  qed
  show "{b. \<exists>sb v2. sql_GetActiveSession b ?v = (Inr sb, v2) \<and> se_UserID sb = 7 \<and> se_DeviceType sb = ''web''} = {demo_sid}"
  proof -
    obtain se u where a: "sql_GetActiveSession demo_sid ?v = (Inr se, u)" "se_UserID se = 7" "se_DeviceType se = ''web''"
      using new_sql_session by blast
    then have "b = demo_sid" if "sql_GetActiveSession b ?v = (Inr sb, v2)" "se_UserID sb = 7" "se_DeviceType sb = ''web''" for b sb v2
      using that one_session_per_device [where v = new_sql_world and v' = ?v and c = b and d = demo_sid and sc = sb and sd = se and ?v1.0 = v2 and ?v2.0 = u, THEN conjunct2]
        q empty(2) by simp
    then show ?thesis using a by blast
  qed
qed

end
