(* ===== verification/Auth_Access.thy ===== *)
theory Auth_Access
  imports Auth_Safety
begin

text \<open>
  From the login to the check in the entry service.  The auth service signs an access token and copies
  the session to Redis; the entry service parses the token and compares it with the copy.  Signing and
  parsing are third-party code: what the two services rely on is \<open>jwt_contract\<close>, that a token which
  was signed parses to its claims until it expires, as JSON gives them back (numbers as \<open>float64\<close>).
\<close>

section \<open>The token library\<close>

definition decoded :: "MapClaims \<Rightarrow> MapClaims" where
  "decoded claims k = (case claims k of Some (CInt i) \<Rightarrow> Some (CFloat i) | x \<Rightarrow> x)"

definition jwt_contract :: "(string \<Rightarrow> MapClaims \<Rightarrow> go_error + string) \<Rightarrow> (string \<Rightarrow> int \<Rightarrow> string \<Rightarrow> MapClaims option) \<Rightarrow> bool" where
  "jwt_contract jwt_sign jwt_parse \<longleftrightarrow>
     (\<forall>secret claims tok. jwt_sign secret claims = Inr tok \<longrightarrow> tok \<noteq> [] \<and> (\<forall>c\<in>set tok. \<not> is_space c) \<and>
        (\<forall>t e. claims ''exp'' = Some (CInt e) \<longrightarrow> Unix t < e \<longrightarrow> jwt_parse secret t tok = Some (decoded claims)))"

lemma TrimSpace_plain: "(\<forall>c\<in>set s. \<not> is_space c) \<Longrightarrow> TrimSpace s = s"
proof -
  assume a: "\<forall>c\<in>set s. \<not> is_space c"
  then have "dropWhile is_space s = s" "dropWhile is_space (rev s) = rev s" by (metis dropWhile_eq_self_iff hd_in_set set_rev)+
  then show ?thesis by (simp add: TrimSpace_def)
qed

lemma TrimSpace_bearer: "TrimSpace (''Bearer '' @ s) \<noteq> []"
  by (simp add: TrimSpace_def is_space_def dropWhile_append)

section \<open>Runs without losses\<close>

named_theorems calm \<open>what an operation does when no call is lost\<close>

lemma calm_sql [calm]:
  "faults w = [] \<Longrightarrow> auth_stmt f w = (fst (f (sw_db w)), w\<lparr>sw_db := snd (f (sw_db w))\<rparr>)"
  "faults w = [] \<Longrightarrow> auth_query g w = (Inr (g (sw_db w)), w)"
  "faults w = [] \<Longrightarrow> exec_sql h w = (Inr (), w\<lparr>sw_db := h (sw_db w)\<rparr>)"
  "faults w = [] \<Longrightarrow> rawDB w = (Inr (), w)"
  by (simp_all add: auth_query_def exec_sql_def auth_stmt_def rawDB_def io_simps split: prod.split)

lemma calm_tx:
  assumes "faults w = []" "tx body w = (Inr a, w')" "\<And>w1 b. body w = (b, w1) \<Longrightarrow> faults w1 = []"
  shows "body w = (Inr a, w')"
  using assms by (auto simp: tx_def io_simps split: prod.splits sum.splits)

lemma calm_deletes:
  "faults w = [] \<Longrightarrow> ae_state w \<Longrightarrow> for_each ids deleteSessionState w =
     (Inr (), w\<lparr>ae_text := (\<lambda>k. if \<exists>i\<in>set ids. i \<noteq> [] \<and> k = sessionKey i then None else ae_text w k)\<rparr>)"
proof (induction ids arbitrary: w)
  case (Cons i ids)
  have "deleteSessionState i w = (Inr (), w\<lparr>ae_text := (if i = [] then ae_text w else (ae_text w)(sessionKey i := None))\<rparr>)"
    using Cons.prems by (simp add: deleteSessionState_def DeleteSession_def redis_DelCtx_def io_simps)
  then show ?case using Cons by (auto simp: io_simps fun_eq_iff intro!: arg_cong2 [where f = Pair] arg_cong [where f = "\<lambda>x. w\<lparr>ae_text := x\<rparr>"])
qed (simp add: io_simps)

lemma calm_sync:
  "faults w = [] \<Longrightarrow> ae_state w \<Longrightarrow> ae_now w < se_ExpiresAt se \<Longrightarrow> syncSessionState se w =
     (Inr (), w\<lparr>ae_text := (ae_text w)(sessionKey (se_ID se) \<mapsto> (JsonText (snapshot_json (session_snapshot se)), Some (se_ExpiresAt se)),
        userVersionKey (se_UserID se) \<mapsto> (JsonText (JInt (se_SessionVersion se)), None))\<rparr>)"
  by (simp add: syncSessionState_def SaveSession_def set_key_def io_simps Let_def session_snapshot_def)

lemma calm_version:
  "faults w = [] \<Longrightarrow> ae_state w \<Longrightarrow> 0 < u \<Longrightarrow> 0 < v \<Longrightarrow> syncUserVersion u v w =
     (Inr (), w\<lparr>ae_text := (ae_text w)(userVersionKey u \<mapsto> (JsonText (JInt v), None))\<rparr>)"
  by (simp add: syncUserVersion_def SetUserVersion_def set_key_def io_simps)

section \<open>The copy of a session\<close>

definition copied :: "Session \<Rightarrow> 'z auth_env_scheme \<Rightarrow> bool" where
  "copied se w \<longleftrightarrow> ae_text w (sessionKey (se_ID se)) = Some (JsonText (snapshot_json (session_snapshot se)), Some (se_ExpiresAt se)) \<and>
     ae_text w (userVersionKey (se_UserID se)) = Some (JsonText (JInt (se_SessionVersion se)), None)"

definition names_session :: "int \<Rightarrow> string \<Rightarrow> int \<Rightarrow> MapClaims \<Rightarrow> bool" where
  "names_session u sid v claims \<longleftrightarrow>
     claims ''sub'' = Some (CText (show_int u)) \<and> claims ''sid'' = Some (CText sid) \<and> claims ''session_version'' = Some (CFloat v)"

lemma names_access: "names_session u sid v (decoded (access_claims u sid v role i e))"
  by (simp add: names_session_def decoded_def access_claims_def)

lemma LoadSession_key: "''auth:session:sid:'' @ sid = sessionKey sid" "''auth:session:userver:'' @ show_int u = userVersionKey u"
  by (simp_all add: sessionKey_def userVersionKey_def)

lemma validate_accepts:
  assumes "faults w = []" "copied se w" "ae_now w < se_ExpiresAt se" "se_ID se \<noteq> []" "0 < se_UserID se" "in_i64 (se_UserID se)" "in_i64 (se_SessionVersion se)"
    "names_session (se_UserID se) (se_ID se) (se_SessionVersion se) claims"
  shows "validate_claims True claims w = (Inr (), w)"
  using assms unfolding validate_claims_def LoadSession_def LoadUserVersion_def LoadSession_key
  by (simp add: names_session_def parseInt64Claim_def text_claim_def Let_def io_simps redis_GetCtx_def copied_def live_def session_snapshot_def ParseInt_text_def i64_simps)

lemma validate_gone:
  assumes "faults w = []" "live (ae_now w) (ae_text w (sessionKey sid)) = None" "sid \<noteq> []" "in_i64 u" "names_session u sid v claims"
  shows "fst (validate_claims True claims w) = Inl (StatusError codes_Unauthenticated ''session invalid or expired'')"
  using assms unfolding validate_claims_def LoadSession_def LoadSession_key
  by (simp add: names_session_def parseInt64Claim_def text_claim_def Let_def io_simps redis_GetCtx_def unauthenticated_def)

lemma validate_other_version:
  assumes "faults w = []" "ae_text w (userVersionKey u) = Some (JsonText (JInt v'), None)" "v' \<noteq> v" "in_i64 u" "in_i64 v" "0 < u" "names_session u sid v claims"
  shows "fst (validate_claims True claims w) \<noteq> Inr ()"
  using assms unfolding validate_claims_def LoadSession_def LoadUserVersion_def LoadSession_key
  by (simp add: names_session_def parseInt64Claim_def text_claim_def Let_def io_simps redis_GetCtx_def unauthenticated_def ParseInt_text_def i64_simps
      split: option.splits)

lemma Validate_token:
  assumes "jwt_contract jwt_sign jwt_parse" "jwt_sign secret claims = Inr tok" "claims ''exp'' = Some (CInt e)" "Unix (ae_now w) < e" "secret \<noteq> []"
  shows "RedisValidator_Validate jwt_parse \<lparr>rv_store = Some True, rv_secret = secret\<rparr> (''Bearer '' @ tok) w = validate_claims True (decoded claims) w"
proof -
  have "tok \<noteq> []" "TrimSpace tok = tok" "jwt_parse secret (ae_now w) tok = Some (decoded claims)"
    using assms TrimSpace_plain unfolding jwt_contract_def by blast+
  moreover have "TrimPrefix (''Bearer '' @ tok) ''Bearer '' = tok" by (simp add: TrimPrefix_def)
  ultimately show ?thesis using assms(5) TrimSpace_bearer [of tok] by (simp add: RedisValidator_Validate_def io_simps Let_def)
qed

section \<open>Login and logout without losses\<close>

lemma calm_create:
  assumes run: "sql_CreateSessionForDevice r1 r2 u device ttl w = (Inr (sid, tok), w')"
    and calm_w: "faults w = []" "ae_state w" and ttl: "0 < Seconds (session_ttl ttl)"
  obtains se r where "map_of (ad_sessions (sw_db w')) sid = Some se" "se_ID se = sid" "se_UserID se = u" "se_ExpiresAt se = ae_now w + Seconds (session_ttl ttl)"
    "\<not> se_Revoked se" "active_row (sw_db w) u = Some r" "active_row (sw_db w') u = Some r" "se_SessionVersion se = ur_session_version r" "copied se w'"
    "faults w' = []" "ae_state w'" "ae_now w' = ae_now w" "sid \<noteq> []" "0 < u"
proof -
  define dev where "dev = (if device = [] then ''web'' else device)"
  define ids where "ids = active_ids u dev (sw_db w)"
  define D where "D = (if ids \<noteq> [] then revoke_where (\<lambda>se. se_UserID se = u \<and> se_DeviceType se = dev) (sw_db w) else sw_db w)"
  note run' = run [unfolded sql_CreateSessionForDevice_def Let_def, folded dev_def]
  have u: "0 < u" using run' by (auto simp: io_simps split: if_splits)
  obtain k where rnd: "randomToken r1 = Inr sid" "randomSecret r2 = Inr k"
    using run' u calm_w by (auto simp: io_simps calm split: sum.splits prod.splits)
  obtain x where x: "select_by_id u (sw_db w) = Some x"
    using run' u calm_w rnd by (auto simp: io_simps calm tx_def found_def split: option.splits)
  define se where "se = \<lparr>se_ID = sid, se_UserID = u, se_DeviceType = dev, se_SessionVersion = us_SessionVersion x, se_RefreshTokenHash = hashToken (buildRefreshToken sid 1 k),
     se_PreviousRefreshTokenHash = [], se_RefreshFamilySecret = k, se_RefreshGeneration = 1, se_ExpiresAt = ae_now w + Seconds (session_ttl ttl), se_Revoked = False\<rparr>"
  obtain w1 where w1: "insert_session se D = (Inr (), sw_db w1)" "faults w1 = []" "ae_state w1" "ae_now w1 = ae_now w" "syncSessionState se w1 = (Inr (), w')"
  proof -
    have "bindE (for_each ids deleteSessionState) (\<lambda>_. bindE (syncSessionState se) (\<lambda>_. ret (sid, buildRefreshToken sid 1 k))) (w\<lparr>sw_db := snd (insert_session se D)\<rparr>) = (Inr (sid, tok), w')"
      "fst (insert_session se D) = Inr ()"
      using run' u calm_w rnd x unfolding se_def D_def ids_def
      by (auto simp: io_simps calm tx_def found_def listActiveSessionIDsTx_def now_def split: if_splits sum.splits)
    note run2 = this
    let ?w = "w\<lparr>sw_db := snd (insert_session se D)\<rparr>"
    obtain w2 where w2: "for_each ids deleteSessionState ?w = (Inr (), w2)" "sw_db w2 = snd (insert_session se D)" "faults w2 = []" "ae_state w2" "ae_now w2 = ae_now w"
      using calm_deletes [of ?w ids] calm_w by auto
    moreover have "syncSessionState se w2 = (Inr (), w')"
      using run2(1) w2(1) by (auto simp: bindE_def ret_def split: prod.splits sum.splits)
    ultimately show ?thesis using run2(2) by (intro that [of w2]) (auto simp: prod_eq_iff)
  qed
  have db: "sw_db w1 = D\<lparr>ad_sessions := ad_sessions D @ [(sid, se)]\<rparr>" "map_of (ad_sessions D) sid = None"
    using w1(1) by (auto simp: insert_session_def se_def list_ex_iff map_of_eq_None_iff split: if_splits)
  obtain r where r: "active_row (sw_db w) u = Some r" "us_SessionVersion x = ur_session_version r"
    using x by (auto simp: select_by_id_def queryUser_def scan_user_def)
  have w': "w' = w1\<lparr>ae_text := ae_text w'\<rparr>" "copied se w'"
    using w1 calm_sync [OF w1(2,3), of se] ttl by (auto simp: copied_def se_def)
  show ?thesis
  proof (rule that)
    show "map_of (ad_sessions (sw_db w')) sid = Some se" using db by (subst w') (simp add: map_add_def)
    show "active_row (sw_db w') u = Some r" using r db by (subst w') (simp add: active_row_def D_def revoke_where_def)
    show "faults w' = []" "ae_state w'" "ae_now w' = ae_now w" using w1 by (subst w', simp)+
    show "copied se w'" "active_row (sw_db w) u = Some r" "0 < u" by fact+
    show "sid \<noteq> []" using randomToken_shape [OF rnd(1)] by simp
  qed (simp_all add: se_def r)
qed

lemma calm_logout_all:
  assumes "faults w = []" "ae_state w" "0 < u" "active_row (sw_db w) u = Some r" "map_of (ad_sessions (sw_db w)) sid = Some se" "se_UserID se = u" "\<not> se_Revoked se" "sid \<noteq> []"
  obtains w' where "sql_LogoutAll u w = (Inr (), w')" "faults w' = []" "ae_text w' (sessionKey sid) = None" "ae_now w' = ae_now w"
proof -
  define ids where "ids = active_ids u [] (sw_db w)"
  have "sid \<in> set ids" using assms map_of_SomeD by (force simp: ids_def active_ids_def)
  obtain r' where r': "map_of (ad_users (sw_db w)) u = Some r'" using assms(4) by (auto simp: active_row_def split: option.splits)
  define v where "v = (let v = i64 (ur_session_version r' + 1) in if v \<le> 0 then 1 else v)"
  have v: "0 < v" by (simp add: v_def Let_def)
  define w1 where "w1 = w\<lparr>sw_db := revoke_where (\<lambda>se. se_UserID se = u) (upd_row u (\<lambda>r. r\<lparr>ur_session_version := v\<rparr>) (sw_db w))\<rparr>"
  obtain w2 where w2: "for_each ids deleteSessionState w1 = (Inr (), w2)" "faults w2 = []" "ae_state w2" "ae_now w2 = ae_now w" "ae_text w2 (sessionKey sid) = None"
    using calm_deletes [of w1 ids] assms \<open>sid \<in> set ids\<close> by (auto simp: w1_def)
  have "sql_LogoutAll u w = or_else (bindE (for_each ids deleteSessionState) (\<lambda>_. syncUserVersion u v)) () w1"
    using assms(1-3) r'
    by (simp add: sql_LogoutAll_def sql_logout_all_def or_else_def bindE_def calm tx_def with_tx_def map_err_def ext_call_ok pop_fault_ok ret_def found_def
        listActiveSessionIDsTx_def ids_def w1_def v_def Let_def)
  then show ?thesis using w2 v assms(3) calm_version [OF w2(2,3), of u v] 
    by (intro that [of "w2\<lparr>ae_text := (ae_text w2)(userVersionKey u \<mapsto> (JsonText (JInt v), None))\<rparr>"]) (auto simp: or_else_def bindE_def)
qed

lemma open_session_InrE:
  assumes "open_session jwt_sign c (sql_AuthStore o') user device w = (Inr resp, w1)"
  obtains sid tok w2 se where "sql_CreateSessionForDevice (ou_random1 o') (ou_random2 o') (us_ID user) device (ac_RefreshTokenTTLSeconds c) w = (Inr (sid, tok), w2)"
    "sql_GetActiveSession sid w2 = (Inr se, w1)"
    "jwt_sign (ac_JwtAuthSecret c) (access_claims (us_ID user) sid (se_SessionVersion se) (us_Role user) (Unix (ae_now w1)) (lr_ExpiresAt resp)) = Inr (lr_AccessToken resp)"
  using assms that
  by (auto simp: open_session_def issueLoginResp_def sql_AuthStore_def bindE_def map_err_def of_result_def ret_def now_def Let_def
      split: prod.splits sum.splits)

lemma calm_GetActive: "faults w = [] \<Longrightarrow> sql_GetActiveSession sid w = (Inr se, w') \<Longrightarrow> w' = w \<and> map_of (ad_sessions (sw_db w)) sid = Some se"
  by (auto simp: sql_GetActiveSession_def io_simps calm found_def now_def with_active_user_def split: if_splits option.splits)


definition demo_auth_config :: auth_config where
  "demo_auth_config = \<lparr>ac_JwtAuthSecret = ''k'', ac_JwtExpireSeconds = 7200, ac_RefreshTokenTTLSeconds = 60, ac_CodeTTLSeconds = 300, ac_ExposeDebugCode = False,
     ac_RefreshCookieName = ''c'', ac_LoginFailWindowSeconds = 900, ac_LoginFailPhoneMaxAttempts = 5, ac_LoginFailIPMaxAttempts = 20, ac_CodeSendCooldownSeconds = 60,
     ac_CodeSendPhoneWindowSeconds = 3600, ac_CodeSendPhoneMaxAttempts = 5, ac_CodeSendIPWindowSeconds = 3600, ac_CodeSendIPMaxAttempts = 20,
     ac_VerificationCodeMaxAttempts = 5, ac_SecurityAuditRecentLimit = 20, ac_SecurityAuditRetentionLimit = 500\<rparr>"

definition demo_outside :: outside where
  "demo_outside = \<lparr>ou_hash = Inr, ou_compare = (=), ou_random1 = bytes, ou_random2 = bytes, ou_prefix = [], ou_createTime = []\<rparr>"

text \<open>A token library with one token.\<close>

definition demo_claims :: MapClaims where
  "demo_claims = access_claims 7 demo_sid 1 ''user'' 0 7200"

definition demo_sign :: "string \<Rightarrow> MapClaims \<Rightarrow> go_error + string" where
  "demo_sign secret claims = (if claims = demo_claims then Inr ''t'' else Inl (RawError ''sign''))"

definition demo_jwt_parse :: "string \<Rightarrow> int \<Rightarrow> string \<Rightarrow> MapClaims option" where
  "demo_jwt_parse secret t tok = (if tok = ''t'' \<and> Unix t < 7200 then Some (decoded demo_claims) else None)"

lemma demo_contract: "jwt_contract demo_sign demo_jwt_parse"
  by (auto simp: jwt_contract_def demo_sign_def demo_jwt_parse_def demo_claims_def access_claims_def is_space_def split: if_splits)

definition demo_redis_world :: sql_world where
  "demo_redis_world = new_sql_world\<lparr>ae_state := True\<rparr>"

lemma demo_open:
  "\<exists>resp w1. open_session demo_sign demo_auth_config (sql_AuthStore demo_outside) (demo_user 7 ''1'' ''n'' ''h'' ''user'' ''c'') ''web'' demo_redis_world = (Inr resp, w1) \<and>
     lr_ExpiresAt resp = 7200"
proof -
  obtain k where k: "randomSecret bytes = Inr k" using randomSecret_bytes by blast
  have "i64 60000000000 = 60000000000" "i64 7200000000000 = 7200000000000" by (simp_all add: i64_def)
  then show ?thesis
    by (simp add: open_session_def issueLoginResp_def sql_AuthStore_def demo_outside_def sql_CreateSessionForDevice_def sql_GetActiveSession_def randomToken_bytes k
      Let_def io_simps now_def calm tx_def found_def select_by_id_def active_row_def queryUser_def scan_user_def listActiveSessionIDsTx_def active_ids_def insert_session_def
      syncSessionState_def SaveSession_def set_key_def with_active_user_def demo_redis_world_def new_sql_world_def demo_sql_world_def hash_of_def phone_of_def demo_auth_config_def demo_user_def
      Seconds_def session_ttl_def demo_sign_def demo_claims_def Unix_def)
qed


section \<open>Versions that go back\<close>

lemma calm_refresh:
  assumes run: "sql_RefreshSession t ttl w = (Inr (se, tok), w')" and calm_w: "faults w = []" "ae_state w" and ttl: "0 < Seconds (session_ttl ttl)"
  shows "copied se w' \<and> faults w' = []"
proof -
  obtain w1 where w1: "syncSessionState se w1 = (Inr (), w')" "faults w1 = []" "ae_state w1" "ae_now w1 < se_ExpiresAt se"
    using run calm_w ttl that
    by (auto simp: sql_RefreshSession_def sql_check_token_def io_simps calm tx_def found_def now_def Let_def rotate_def deleteSessionState_def
        split: if_splits option.splits sum.splits prod.splits)
  then show ?thesis using calm_sync [OF w1(2-4)] by (auto simp: copied_def)
qed

text \<open>
  A refresh writes the version of its own session as the current version of the user.
  After it, the entry service refuses every token of the user that carries another version, also the
  token of a newer live session on another device.
\<close>

theorem refresh_refuses_other_versions:
  assumes "faults w = []" "ae_state w" "sql_RefreshSession t ttl w = (Inr (se, tok), w')" "0 < Seconds (session_ttl ttl)"
    and "names_session (se_UserID se) sid v claims" "v \<noteq> se_SessionVersion se" "0 < se_UserID se" "in_i64 (se_UserID se)" "in_i64 v"
  shows "fst (validate_claims True claims w') \<noteq> Inr ()"
  using calm_refresh [OF assms(3,1,2,4)] assms by (intro validate_other_version [of w' "se_UserID se" "se_SessionVersion se"]) (auto simp: copied_def)

definition newer_se :: Session where
  "newer_se = demo_se\<lparr>se_ID := ''a'', se_DeviceType := ''app'', se_SessionVersion := 2, se_RefreshTokenHash := ''h''\<rparr>"

text \<open>The user has an old web session and a newer session of the app, which is the one Redis knows.\<close>

definition two_devices :: sql_world where
  "two_devices = demo_sql_world\<lparr>ae_state := True, ae_text := Map.empty(sessionKey ''a'' \<mapsto> (JsonText (snapshot_json (session_snapshot newer_se)), Some 10),
       userVersionKey 7 \<mapsto> (JsonText (JInt 2), None)),
     sw_db := (upd_row 7 (\<lambda>r. r\<lparr>ur_session_version := 2\<rparr>) (sw_db demo_sql_world))\<lparr>ad_sessions := [(''s'', demo_se), (''a'', newer_se)]\<rparr>\<rparr>"

lemma hashToken_other [simp]: "''h'' \<noteq> hashToken t"
proof
  assume "''h'' = hashToken t"
  then have "length ''h'' = length (hashToken t)" by (rule arg_cong)
  then show False by (simp add: hashToken_def)
qed

lemma two_devices_refresh:
  "\<exists>se tok w. sql_RefreshSession (buildRefreshToken ''s'' 1 ''k'') 60 two_devices = (Inr (se, tok), w) \<and> se_UserID se = 7 \<and> se_SessionVersion se = 1"
proof -
  have "i64 60000000000 = 60000000000" by (simp add: i64_def)
  then show ?thesis
    by (simp add: sql_RefreshSession_def sql_check_token_def demo_parse Let_def io_simps now_def calm tx_def found_def update_session_def upd_row_def
      with_active_user_def active_row_def two_devices_def demo_sql_world_def demo_se_def newer_se_def verifyRefreshTokenSignature_def syncSessionState_def
      SaveSession_def set_key_def Seconds_def session_ttl_def rotate_def)
qed

text \<open>Witness: the token of the app was accepted, and is refused after the refresh of the web session.\<close>

theorem refresh_refuses_other_versions_witness:
  "validate_claims True (decoded (access_claims 7 ''a'' 2 ''user'' 0 7200)) two_devices = (Inr (), two_devices) \<and>
   (\<exists>r w. sql_RefreshSession (buildRefreshToken ''s'' 1 ''k'') 60 two_devices = (Inr r, w) \<and>
      fst (validate_claims True (decoded (access_claims 7 ''a'' 2 ''user'' 0 7200)) w) \<noteq> Inr ())"
proof
  show "validate_claims True (decoded (access_claims 7 ''a'' 2 ''user'' 0 7200)) two_devices = (Inr (), two_devices)"
    by (rule validate_accepts [where se = newer_se]) (simp_all add: copied_def newer_se_def demo_se_def two_devices_def demo_sql_world_def in_i64_def names_access)
  obtain se tok w where r: "sql_RefreshSession (buildRefreshToken ''s'' 1 ''k'') 60 two_devices = (Inr (se, tok), w)" "se_UserID se = 7" "se_SessionVersion se = 1"
    using two_devices_refresh by blast
  have "fst (validate_claims True (decoded (access_claims 7 ''a'' 2 ''user'' 0 7200)) w) \<noteq> Inr ()"
    by (rule refresh_refuses_other_versions [OF _ _ r(1), where sid = "''a''" and v = 2])
      (simp_all add: r names_access in_i64_def Seconds_def session_ttl_def i64_def, simp_all add: two_devices_def demo_sql_world_def)
  then show "\<exists>r w. sql_RefreshSession (buildRefreshToken ''s'' 1 ''k'') 60 two_devices = (Inr r, w) \<and>
      fst (validate_claims True (decoded (access_claims 7 ''a'' 2 ''user'' 0 7200)) w) \<noteq> Inr ()" using r by blast
qed

section \<open>A logout that did not happen\<close>

text \<open>
  When the first call to MySQL is lost, a logout everywhere answers success although no
  session ended.
\<close>

theorem logout_everywhere_hides_failure:
  assumes "faults w = NoRequest e # fs" "parseUserIDClaim (ctx ''user_id'') = Some u" "0 < u"
  shows "fst (LogoutEverywhere c (sql_AuthStore o') ctx w) = Inr () \<and> sw_db (snd (LogoutEverywhere c (sql_AuthStore o') ctx w)) = sw_db w"
proof -
  obtain w1 where w1: "st_LogoutAll (sql_AuthStore o') u w = (Inr (), w1)" "sw_db w1 = sw_db w"
    using assms by (simp add: sql_AuthStore_def sql_LogoutAll_def sql_logout_all_def rawDB_def ext_call_def pop_fault_def io_simps)
  have "\<exists>w2. recordAuditEvent c ev w1 = (Inr (), w2) \<and> sw_db w2 = sw_db w1" for ev
    by (auto simp: recordAuditEvent_def recorder_Record_def mem_Record_def redis_Record_def or_else_def Let_def
        split: prod.splits sum.splits elim!: ext_call_cases)
  then show ?thesis using w1 assms(2) by (auto simp: LogoutEverywhere_def bindE_def split: prod.splits) (metis fst_conv, metis snd_conv)
qed

text \<open>Witness: the caller is told that all sessions ended, and the old refresh token still works.\<close>

theorem logout_everywhere_hides_failure_witness:
  "\<exists>w1. LogoutEverywhere demo_auth_config (sql_AuthStore demo_outside) [''user_id'' \<mapsto> CInt 7] (demo_sql_world\<lparr>faults := [NoRequest ''lost'']\<rparr>) = (Inr (), w1) \<and>
     ad_sessions (sw_db w1) = [(''s'', demo_se)] \<and> \<not> se_Revoked demo_se"
proof -
  let ?w = "demo_sql_world\<lparr>faults := [NoRequest ''lost'']\<rparr>" and ?ctx = "[''user_id'' \<mapsto> CInt 7] :: MapClaims"
  have "fst (LogoutEverywhere demo_auth_config (sql_AuthStore demo_outside) ?ctx ?w) = Inr () \<and> sw_db (snd (LogoutEverywhere demo_auth_config (sql_AuthStore demo_outside) ?ctx ?w)) = sw_db ?w"
    by (rule logout_everywhere_hides_failure [where u = 7]) (simp_all add: parseUserIDClaim_def)
  then show ?thesis
    by (intro exI [of _ "snd (LogoutEverywhere demo_auth_config (sql_AuthStore demo_outside) ?ctx ?w)"]) (auto simp: prod_eq_iff demo_sql_world_def demo_se_def)
qed

end
