(* ===== verification/Catalog_Store.thy ===== *)
theory Catalog_Store
  imports Effects
begin

text \<open>
  The tables of the product catalogue in MySQL (\<open>mall_product\<close>): products, promotion rules, the
  snapshots of product cards and of stock, the stock buckets as far as the catalogue sums them, the ids and
  states of suppliers and merchants, and the tasks that fill the stock of new products.  A
  time is a number of seconds, the precision of the columns; \<open>NOW()\<close> is the clock of the world.  The id
  of a new promotion comes from a counter.
\<close>

record cat_product =
  cp_merchant_id :: "int option"
  cp_name :: string
  cp_image_url :: "string option"
  cp_origin_price_fen :: int
  cp_sale_price_fen :: int
  cp_status :: int
  cp_supplier_id :: int
  cp_stock :: int

record promotion_rule =
  ru_product_id :: int
  ru_type :: string
  ru_discount_value :: int
  ru_threshold_amount :: int
  ru_starts_at :: "int option"
  ru_ends_at :: "int option"
  ru_status :: int

record card_snapshot =
  cs_name :: string
  cs_origin_price_fen :: int
  cs_final_price_fen :: int
  cs_promotion_type :: string
  cs_promotion_tag :: string
  cs_stock_available :: int
  cs_supplier_id :: int
  cs_status :: int
  cs_version :: int

record stock_snapshot =
  ss_available :: int
  ss_reserved :: int
  ss_total :: int
  ss_source :: string
  ss_version :: int

text \<open>The task to fill the stock of a new product: status 0 pending, 1 done, 2 failed.\<close>

record inventory_seed =
  se_desired_total :: int
  se_shard_count :: int
  se_desired_status :: int
  se_status :: int
  se_attempt_count :: int
  se_last_error :: string

record catalog_db =
  cd_products :: "(int \<times> cat_product) list"
  cd_rules :: "(int \<times> promotion_rule) list"
  cd_cards :: "(int \<times> card_snapshot) list"
  cd_stock :: "(int \<times> stock_snapshot) list"
  cd_buckets :: "(int \<times> int) list"
  cd_suppliers :: "(int \<times> int) list"
  cd_merchants :: "(int \<times> int) list"
  cd_seeds :: "(int \<times> inventory_seed) list"

record catalog_world = env +
  cw_now :: int
  cw_db :: catalog_db
  cw_next_rule :: int

type_synonym 'a cat_io = "(catalog_world, 'a) io"

definition cat_stmt :: "(int \<Rightarrow> catalog_db \<Rightarrow> (go_error + 'a) \<times> catalog_db) \<Rightarrow> 'a cat_io" where
  "cat_stmt f = ext_call (\<lambda>w. case f (cw_now w) (cw_db w) of (r, d) \<Rightarrow> (r, w\<lparr>cw_db := d\<rparr>))"

definition cat_query :: "(int \<Rightarrow> catalog_db \<Rightarrow> 'a) \<Rightarrow> 'a cat_io" where
  "cat_query f = cat_stmt (\<lambda>now d. (Inr (f now d), d))"

definition cat_exec :: "(int \<Rightarrow> catalog_db \<Rightarrow> catalog_db) \<Rightarrow> unit cat_io" where
  "cat_exec f = cat_stmt (\<lambda>now d. (Inr (), f now d))"

definition cat_now :: "int cat_io" where
  "cat_now w = (Inr (cw_now w), w)"

text \<open>A condition on a value that may be missing: \<open>pred_option\<close> accepts a missing one, \<open>given\<close> does not.\<close>

definition given :: "('a \<Rightarrow> bool) \<Rightarrow> 'a option \<Rightarrow> bool" where
  "given P x = (case x of None \<Rightarrow> False | Some v \<Rightarrow> P v)"

lemma given_simps [simp]: "\<not> given P None" "given P (Some v) = P v"
  by (simp_all add: given_def)

lemma pred_option_code [code]: "pred_option P None = True" "pred_option P (Some v) = P v"
  by simp_all

section \<open>What a statement does\<close>

lemma cat_query_InrD: "cat_query f w = (Inr a, w') \<Longrightarrow> a = f (cw_now w) (cw_db w) \<and> cw_db w' = cw_db w \<and> cw_now w' = cw_now w \<and> cw_next_rule w' = cw_next_rule w"
  by (auto simp: cat_query_def cat_stmt_def elim!: ext_call_cases)

lemma cat_query_keeps [simp]: "cat_query f w = (x, w') \<Longrightarrow> cw_db w' = cw_db w"
  by (auto simp: cat_query_def cat_stmt_def elim!: ext_call_cases)

text \<open>A statement that fails may have taken effect.\<close>

lemma cat_exec_cases:
  assumes "cat_exec f w = (x, w')"
  shows "cw_db w' = cw_db w \<and> (\<exists>e. x = Inl e) \<or> cw_db w' = f (cw_now w) (cw_db w)"
  using assms by (auto simp: cat_exec_def cat_stmt_def elim!: ext_call_cases)

text \<open>With no loss ahead.\<close>

lemma cat_stmt_ok: "faults w = [] \<Longrightarrow> cat_stmt f w = (case f (cw_now w) (cw_db w) of (r, d) \<Rightarrow> (r, w\<lparr>cw_db := d\<rparr>))"
  by (simp add: cat_stmt_def ext_call_ok)

lemma cat_query_ok: "faults w = [] \<Longrightarrow> cat_query f w = (Inr (f (cw_now w) (cw_db w)), w)"
  by (simp add: cat_query_def cat_stmt_ok)

lemmas cat_run = cat_stmt_ok cat_query_ok bindE_def attempt_def map_err_def or_else_def ret_def fail_def

end
