(* ===== verification/Promotion.thy ===== *)
theory Promotion
  imports Catalog_Store
begin

text \<open>
  Promotions of products: the service \<open>app/gateway/hertz/internal/application/promotion/service.go\<close> over its
  repository in MySQL (\<open>adapters/productmysql/promotion.go\<close>, \<open>promotion_window.go\<close>).  Reading and writing
  a time depends on the time zone data of the machine: \<open>parse_in\<close> (a layout and a text) and \<open>show_time\<close> are
  parameters.  Texts are compared as written; the tables hold no other spelling of a type.
\<close>

section \<open>Data\<close>

definition TypeLimitedPrice :: string where
  "TypeLimitedPrice = ''LIMITED_PRICE''"

definition StatusActive :: int where
  [simp]: "StatusActive = 1"

definition StatusInactive :: int where
  [simp]: "StatusInactive = 2"

definition promo_fault :: "string \<Rightarrow> string \<Rightarrow> (catalog_world, 'a) io" where
  "promo_fault reason message = fail (Fault reason message)"

record ListQuery =
  lq_Page :: int
  lq_PageSize :: int
  lq_ProductID :: int
  lq_Status :: int
  lq_EffectStatus :: string
  lq_Keyword :: string

record promo_record =
  re_ID :: int
  re_ProductName :: string
  re_OriginPriceFen :: int
  re_SalePriceFen :: int
  re_rule :: promotion_rule

record promo_item =
  it_record :: promo_record
  it_StartsAt :: string
  it_EndsAt :: string
  it_EffectStatus :: string
  it_StatusText :: string

record CreateInput =
  ci_ProductID :: int
  ci_Type :: string
  ci_DiscountValue :: int
  ci_ThresholdAmount :: int
  ci_StartsAt :: string
  ci_EndsAt :: string
  ci_Status :: int

record UpdateInput =
  ui_PromotionID :: int
  ui_ProductID :: "int option"
  ui_DiscountValue :: "int option"
  ui_ThresholdAmount :: "int option"
  ui_StartsAt :: "string option"
  ui_EndsAt :: "string option"
  ui_Status :: "int option"

text \<open>An unset \<open>OptionalTime\<close> is \<open>None\<close>, a set one carries a time or nil.\<close>

record Changes =
  ch_ProductID :: "int option"
  ch_DiscountValue :: "int option"
  ch_ThresholdAmount :: "int option"
  ch_StartsAt :: "int option option"
  ch_EndsAt :: "int option option"
  ch_Status :: "int option"

record MutationResult =
  mr_PromotionID :: int
  mr_AffectedProductIDs :: "int list"

section \<open>The repository\<close>

definition no_product :: cat_product where
  "no_product = \<lparr>cp_merchant_id = None, cp_name = [], cp_image_url = None, cp_origin_price_fen = 0, cp_sale_price_fen = 0,
     cp_status = 0, cp_supplier_id = 0, cp_stock = 0\<rparr>"

text \<open>A rule with the columns of its product, which may be missing (\<open>LEFT JOIN\<close>).\<close>

definition scanPromotion :: "catalog_db \<Rightarrow> int \<times> promotion_rule \<Rightarrow> promo_record" where
  "scanPromotion d = (\<lambda>(i, r).
     let p = (case map_of (cd_products d) (ru_product_id r) of None \<Rightarrow> no_product | Some p \<Rightarrow> p) in
     \<lparr>re_ID = i, re_ProductName = cp_name p, re_OriginPriceFen = cp_origin_price_fen p, re_SalePriceFen = cp_sale_price_fen p, re_rule = r\<rparr>)"

text \<open>A rule is in effect between its bounds, both included.\<close>

definition in_effect :: "int \<Rightarrow> promotion_rule \<Rightarrow> bool" where
  "in_effect now r \<longleftrightarrow> ru_status r = 1 \<and> pred_option (\<lambda>s. s \<le> now) (ru_starts_at r) \<and> pred_option (\<lambda>e. now \<le> e) (ru_ends_at r)"

definition promotionWhereClause :: "ListQuery \<Rightarrow> int \<Rightarrow> catalog_db \<Rightarrow> int \<times> promotion_rule \<Rightarrow> bool" where
  "promotionWhereClause q now d = (\<lambda>(i, r).
     (lq_ProductID q > 0 \<longrightarrow> ru_product_id r = lq_ProductID q) \<and>
     (lq_Status q \<ge> 0 \<longrightarrow> ru_status r = lq_Status q) \<and>
     (let e = TrimSpace (lq_EffectStatus q) in
      if e = ''active'' then in_effect now r
      else if e = ''scheduled'' then ru_status r = 1 \<and> given (\<lambda>s. s > now) (ru_starts_at r)
      else if e = ''expired'' then ru_status r = 1 \<and> given (\<lambda>t. t < now) (ru_ends_at r)
      else if e = ''inactive'' then ru_status r \<noteq> 1
      else True) \<and>
     (lq_Keyword q \<noteq> [] \<longrightarrow> (case map_of (cd_products d) (ru_product_id r) of
        None \<Rightarrow> False | Some p \<Rightarrow> Contains (ToLower (cp_name p)) (ToLower (lq_Keyword q)))))"

definition repo_List :: "ListQuery \<Rightarrow> (promo_record list \<times> int) cat_io" where
  "repo_List q =
     (let rows = (\<lambda>now d. rev (sort_key fst (filter (promotionWhereClause q now d) (cd_rules d)))) in
      bindE (cat_query (\<lambda>now d. int (length (rows now d)))) (\<lambda>total.
      if total = 0 then ret ([], 0)
      else let offset = i64 (i64 (lq_Page q - 1) * lq_PageSize q) in
           bindE (cat_stmt (\<lambda>now d.
             if offset < 0 \<or> lq_PageSize q < 0 then (Inl (RawError ''Error 1064: You have an error in your SQL syntax''), d)
             else (Inr (map (scanPromotion d) (take (nat (lq_PageSize q)) (drop (nat offset) (rows now d)))), d))) (\<lambda>items.
           ret (items, total))))"

definition repo_Find :: "int \<Rightarrow> promo_record option cat_io" where
  "repo_Find i = cat_query (\<lambda>now d. map_option (\<lambda>r. scanPromotion d (i, r)) (map_of (cd_rules d) i))"

definition ProductSalePrice :: "int \<Rightarrow> int option cat_io" where
  "ProductSalePrice productID = cat_query (\<lambda>now d. map_option cp_sale_price_fen (map_of (cd_products d) productID))"

text \<open>Two windows overlap; a missing bound is open.\<close>

definition overlaps :: "int option \<Rightarrow> int option \<Rightarrow> int option \<Rightarrow> int option \<Rightarrow> bool" where
  "overlaps startsAt endsAt starts ends \<longleftrightarrow>
     pred_option (\<lambda>s. pred_option (\<lambda>e. s \<le> e) ends) startsAt \<and> pred_option (\<lambda>e. pred_option (\<lambda>s. s \<le> e) starts) endsAt"

definition conflicting :: "int \<Rightarrow> int \<Rightarrow> int option \<Rightarrow> int option \<Rightarrow> int \<times> promotion_rule \<Rightarrow> bool" where
  "conflicting productID excluded startsAt endsAt = (\<lambda>(i, r).
     ru_product_id r = productID \<and> ru_type r = TypeLimitedPrice \<and> ru_status r = 1 \<and> i \<noteq> excluded \<and>
     overlaps startsAt endsAt (ru_starts_at r) (ru_ends_at r))"

definition HasActiveConflict :: "int \<Rightarrow> int \<Rightarrow> int option \<Rightarrow> int option \<Rightarrow> bool cat_io" where
  "HasActiveConflict productID excluded startsAt endsAt =
     cat_query (\<lambda>now d. length (filter (conflicting productID excluded startsAt endsAt) (cd_rules d)) > 0)"

definition next_rule_id :: "int cat_io" where
  "next_rule_id w = (Inr (cw_next_rule w), w\<lparr>cw_next_rule := cw_next_rule w + 1\<rparr>)"

definition repo_Insert :: "promotion_rule \<Rightarrow> int cat_io" where
  "repo_Insert r = bindE next_rule_id (\<lambda>i.
     bindE (cat_exec (\<lambda>now d. d\<lparr>cd_rules := cd_rules d @ [(i, r)]\<rparr>)) (\<lambda>_. ret i))"

definition apply_changes :: "Changes \<Rightarrow> promotion_rule \<Rightarrow> promotion_rule" where
  "apply_changes c r = r\<lparr>
     ru_product_id := (case ch_ProductID c of None \<Rightarrow> ru_product_id r | Some v \<Rightarrow> v),
     ru_discount_value := (case ch_DiscountValue c of None \<Rightarrow> ru_discount_value r | Some v \<Rightarrow> v),
     ru_threshold_amount := (case ch_ThresholdAmount c of None \<Rightarrow> ru_threshold_amount r | Some v \<Rightarrow> v),
     ru_starts_at := (case ch_StartsAt c of None \<Rightarrow> ru_starts_at r | Some v \<Rightarrow> v),
     ru_ends_at := (case ch_EndsAt c of None \<Rightarrow> ru_ends_at r | Some v \<Rightarrow> v),
     ru_status := (case ch_Status c of None \<Rightarrow> ru_status r | Some v \<Rightarrow> v)\<rparr>"

definition upd_rule :: "int \<Rightarrow> (promotion_rule \<Rightarrow> promotion_rule) \<Rightarrow> catalog_db \<Rightarrow> catalog_db" where
  "upd_rule i f d = d\<lparr>cd_rules := map (\<lambda>(k, r). (k, if k = i then f r else r)) (cd_rules d)\<rparr>"

definition no_changes :: "Changes \<Rightarrow> bool" where
  "no_changes c \<longleftrightarrow> ch_ProductID c = None \<and> ch_DiscountValue c = None \<and> ch_ThresholdAmount c = None \<and>
     ch_StartsAt c = None \<and> ch_EndsAt c = None \<and> ch_Status c = None"

text \<open>
  MySQL counts changed rows, so an update that changes nothing affects no row; the repository then
  looks whether the row exists.
\<close>

definition repo_Update :: "int \<Rightarrow> Changes \<Rightarrow> bool cat_io" where
  "repo_Update i c =
     (if no_changes c then fail (RawError ''promotion update has no changes'')
      else bindE (cat_stmt (\<lambda>now d. (Inr (given (\<lambda>r. apply_changes c r \<noteq> r) (map_of (cd_rules d) i)), upd_rule i (apply_changes c) d))) (\<lambda>affected.
           if affected then ret True
           else cat_query (\<lambda>now d. map_of (cd_rules d) i \<noteq> None)))"

definition repo_WindowAffectedProductIDs :: "int \<Rightarrow> int \<Rightarrow> int \<Rightarrow> int list cat_io" where
  "repo_WindowAffectedProductIDs now windowMinutes limit =
     (let near = (\<lambda>t. now - windowMinutes * 60 \<le> t \<and> t \<le> now + windowMinutes * 60) in
      bindE (cat_query (\<lambda>sql_now d.
        take (nat limit) (sorted_list_of_set (set (map (ru_product_id \<circ> snd) (filter (\<lambda>(i, r). ru_status r = 1 \<and>
          (in_effect sql_now r \<or> given near (ru_starts_at r) \<or> given near (ru_ends_at r))) (cd_rules d))))))) (\<lambda>ids.
      ret (filter (\<lambda>i. i > 0) ids)))"

section \<open>The service\<close>

definition normalizeType :: "string \<Rightarrow> string" where
  "normalizeType value = (let v = TrimSpace (ToUpper value) in if v = [] then TypeLimitedPrice else v)"

definition parseTime :: "(string \<Rightarrow> string \<Rightarrow> int option) \<Rightarrow> string \<Rightarrow> string + int option" where
  "parseTime parse_in value =
     (let value = TrimSpace value in
      if value = [] then Inr None
      else case List.map_filter (\<lambda>layout. parse_in layout value) [''RFC3339'', ''2006-01-02 15:04:05'', ''2006-01-02T15:04'', ''2006-01-02''] of
             [] \<Rightarrow> Inl (''invalid time: '' @ value)
           | t # _ \<Rightarrow> Inr (Some t))"

definition validStatus :: "int \<Rightarrow> bool" where
  "validStatus status \<longleftrightarrow> status = StatusActive \<or> status = StatusInactive"

definition validWindow :: "int option \<Rightarrow> int option \<Rightarrow> bool" where
  "validWindow startsAt endsAt \<longleftrightarrow> pred_option (\<lambda>s. pred_option (\<lambda>e. s \<le> e) endsAt) startsAt"

definition formatTime :: "(int \<Rightarrow> string) \<Rightarrow> int option \<Rightarrow> string" where
  "formatTime show_time value = (case value of None \<Rightarrow> [] | Some t \<Rightarrow> show_time t)"

text \<open>The Chinese text of the effect status is left out of an item; it is a function of the status.\<close>

definition present :: "(int \<Rightarrow> string) \<Rightarrow> promo_record \<Rightarrow> int \<Rightarrow> promo_item" where
  "present show_time rec now =
     (let r = re_rule rec in
      \<lparr>it_record = rec, it_StartsAt = formatTime show_time (ru_starts_at r), it_EndsAt = formatTime show_time (ru_ends_at r),
       it_EffectStatus =
         (if ru_status r \<noteq> StatusActive then ''inactive''
          else if given (\<lambda>s. s > now) (ru_starts_at r) then ''scheduled''
          else if given (\<lambda>e. e < now) (ru_ends_at r) then ''expired'' else ''active''),
       it_StatusText = (if ru_status r = StatusActive then ''active'' else if ru_status r = StatusInactive then ''inactive'' else ''unknown'')\<rparr>)"

definition promo_List :: "(int \<Rightarrow> string) \<Rightarrow> ListQuery \<Rightarrow> (promo_item list \<times> int) cat_io" where
  "promo_List show_time q = bindE (repo_List q) (\<lambda>(records, total). bindE cat_now (\<lambda>now.
     ret (map (\<lambda>rec. present show_time rec now) records, total)))"

definition promo_Detail :: "(int \<Rightarrow> string) \<Rightarrow> int \<Rightarrow> promo_item cat_io" where
  "promo_Detail show_time promotionID = bindE (repo_Find promotionID) (\<lambda>x. case x of
       None \<Rightarrow> promo_fault ''promotion_not_found'' ''promotion not found''
     | Some rec \<Rightarrow> bindE cat_now (\<lambda>now. ret (present show_time rec now)))"

definition promo_WindowAffectedProductIDs :: "int \<Rightarrow> int \<Rightarrow> int list cat_io" where
  "promo_WindowAffectedProductIDs windowMinutes limit =
     (let windowMinutes = (if windowMinutes \<le> 0 \<or> windowMinutes > 24 * 60 then 120 else windowMinutes);
          limit = (if limit \<le> 0 \<or> limit > 10000 then 1000 else limit) in
      bindE cat_now (\<lambda>now. repo_WindowAffectedProductIDs now windowMinutes limit))"

fun uniqueIDs :: "int list \<Rightarrow> int list \<Rightarrow> int list" where
  "uniqueIDs seen [] = []"
| "uniqueIDs seen (v # vs) = (if v \<le> 0 \<or> v \<in> set seen then uniqueIDs seen vs else v # uniqueIDs (v # seen) vs)"

definition time_arg :: "(string \<Rightarrow> string \<Rightarrow> int option) \<Rightarrow> string \<Rightarrow> int option cat_io" where
  "time_arg parse_in value = (case parseTime parse_in value of Inl m \<Rightarrow> promo_fault ''invalid_argument'' m | Inr t \<Rightarrow> ret t)"

definition check_discount :: "int \<Rightarrow> int \<Rightarrow> unit cat_io" where
  "check_discount productID discount =
     bindE (ProductSalePrice productID) (\<lambda>x. case x of
       None \<Rightarrow> promo_fault ''product_not_found'' ''product not found''
     | Some salePrice \<Rightarrow>
         if discount > salePrice then promo_fault ''invalid_discount'' ''discount_value must be <= product sale_price_fen'' else ret ())"

definition check_conflict :: "int \<Rightarrow> int \<Rightarrow> int option \<Rightarrow> int option \<Rightarrow> unit cat_io" where
  "check_conflict productID excluded startsAt endsAt =
     bindE (HasActiveConflict productID excluded startsAt endsAt) (\<lambda>conflict.
     if conflict then promo_fault ''window_conflict'' ''active limited price promotion window overlaps'' else ret ())"

definition promo_Create :: "(string \<Rightarrow> string \<Rightarrow> int option) \<Rightarrow> CreateInput \<Rightarrow> MutationResult cat_io" where
  "promo_Create parse_in i =
     (let ty = normalizeType (ci_Type i) in
      if ci_ProductID i \<le> 0 \<or> ci_DiscountValue i \<le> 0 \<or> ci_ThresholdAmount i < 0
      then promo_fault ''invalid_argument'' ''product_id, positive discount_value and non-negative threshold_amount are required''
      else if ty \<noteq> TypeLimitedPrice then promo_fault ''invalid_argument'' ''unsupported promotion type''
      else let status = (if ci_Status i = 0 then StatusActive else ci_Status i) in
      if \<not> validStatus status then promo_fault ''invalid_argument'' ''status must be 1 or 2''
      else bindE (time_arg parse_in (ci_StartsAt i)) (\<lambda>startsAt.
           bindE (time_arg parse_in (ci_EndsAt i)) (\<lambda>endsAt.
           if \<not> validWindow startsAt endsAt then promo_fault ''invalid_window'' ''ends_at must be after starts_at''
           else bindE (check_discount (ci_ProductID i) (ci_DiscountValue i)) (\<lambda>_.
                bindE (if status = StatusActive then check_conflict (ci_ProductID i) 0 startsAt endsAt else ret ()) (\<lambda>_.
                bindE (repo_Insert \<lparr>ru_product_id = ci_ProductID i, ru_type = ty, ru_discount_value = ci_DiscountValue i,
                   ru_threshold_amount = ci_ThresholdAmount i, ru_starts_at = startsAt, ru_ends_at = endsAt, ru_status = status\<rparr>) (\<lambda>id.
                ret \<lparr>mr_PromotionID = id, mr_AffectedProductIDs = [ci_ProductID i]\<rparr>))))))"

definition check_update :: "UpdateInput \<Rightarrow> unit cat_io" where
  "check_update i =
     (if given (\<lambda>v. v \<le> 0) (ui_ProductID i) then promo_fault ''invalid_argument'' ''product_id required''
      else if given (\<lambda>v. v \<le> 0) (ui_DiscountValue i) then promo_fault ''invalid_argument'' ''discount_value must be positive''
      else if given (\<lambda>v. v < 0) (ui_ThresholdAmount i) then promo_fault ''invalid_argument'' ''threshold_amount must be non-negative''
      else if given (\<lambda>v. \<not> validStatus v) (ui_Status i) then promo_fault ''invalid_argument'' ''status must be 1 or 2''
      else ret ())"

definition opt_time :: "(string \<Rightarrow> string \<Rightarrow> int option) \<Rightarrow> string option \<Rightarrow> int option option cat_io" where
  "opt_time parse_in v = (case v of None \<Rightarrow> ret None | Some s \<Rightarrow> bindE (time_arg parse_in s) (\<lambda>t. ret (Some t)))"

definition promo_Update :: "(string \<Rightarrow> string \<Rightarrow> int option) \<Rightarrow> UpdateInput \<Rightarrow> MutationResult cat_io" where
  "promo_Update parse_in i =
     (if ui_PromotionID i \<le> 0 then promo_fault ''invalid_argument'' ''promotion_id required''
      else if ui_ProductID i = None \<and> ui_DiscountValue i = None \<and> ui_ThresholdAmount i = None \<and> ui_StartsAt i = None \<and> ui_EndsAt i = None \<and> ui_Status i = None
      then promo_fault ''invalid_argument'' ''no fields to update''
      else bindE (repo_Find (ui_PromotionID i)) (\<lambda>x. case x of
             None \<Rightarrow> promo_fault ''promotion_not_found'' ''promotion not found''
           | Some rec \<Rightarrow>
               bindE (check_update i) (\<lambda>_.
               bindE (opt_time parse_in (ui_StartsAt i)) (\<lambda>startsAt.
               bindE (opt_time parse_in (ui_EndsAt i)) (\<lambda>endsAt.
               let current = re_rule rec;
                   changes = \<lparr>ch_ProductID = ui_ProductID i, ch_DiscountValue = ui_DiscountValue i, ch_ThresholdAmount = ui_ThresholdAmount i,
                              ch_StartsAt = startsAt, ch_EndsAt = endsAt, ch_Status = ui_Status i\<rparr>;
                   final = apply_changes changes current in
               if \<not> validWindow (ru_starts_at final) (ru_ends_at final) then promo_fault ''invalid_window'' ''ends_at must be after starts_at''
               else bindE (if ui_ProductID i \<noteq> None \<or> ui_DiscountValue i \<noteq> None
                           then check_discount (ru_product_id final) (ru_discount_value final) else ret ()) (\<lambda>_.
                    bindE (if ru_status final = StatusActive \<and> (ui_ProductID i \<noteq> None \<or> ui_Status i \<noteq> None \<or> ui_StartsAt i \<noteq> None \<or> ui_EndsAt i \<noteq> None)
                           then check_conflict (ru_product_id final) (ui_PromotionID i) (ru_starts_at final) (ru_ends_at final) else ret ()) (\<lambda>_.
                    bindE (repo_Update (ui_PromotionID i) changes) (\<lambda>updated.
                    if \<not> updated then promo_fault ''promotion_not_found'' ''promotion not found''
                    else ret \<lparr>mr_PromotionID = ui_PromotionID i, mr_AffectedProductIDs = uniqueIDs [] [ru_product_id current, ru_product_id final]\<rparr>))))))))"

end
