(* ===== verification/Product_Cards.thy ===== *)
theory Product_Cards
  imports Promotion
begin

text \<open>
  Product cards: the product rpc (\<open>app/product/rpc/internal/logic/getproductcardlogic.go\<close>,
  \<open>listproductslogic.go\<close>) answers them from a snapshot table or, when the snapshot has no complete answer,
  from the tables; the gateway (\<open>adapters/productmysql/snapshot.go\<close>) and a job of the entry api
  (\<open>app/entry/api/job/product_card_snapshot.go\<close>) rebuild the snapshots.  A row of the tables comes in the
  order of its primary key.  A sum that does not fit a \<open>bigint\<close> column or an \<open>int64\<close> makes the statement fail.
\<close>

section \<open>Rows\<close>

text \<open>The tag of a limited price, three Chinese characters in UTF-8.\<close>

definition limited_price_tag :: string where
  "limited_price_tag = map char_of [233, 153, 144, 230, 151, 182, 228, 187, 183 :: nat]"

record card_resp =
  gc_ProductId :: int
  gc_Name :: string
  gc_OriginPriceFen :: int
  gc_FinalPriceFen :: int
  gc_PromotionType :: string
  gc_PromotionTag :: string
  gc_StockAvailable :: int
  gc_SupplierId :: int
  gc_ImageUrl :: string
  gc_MerchantId :: int

text \<open>\<open>MIN(discount_value)\<close> over the limited prices of a product in effect, \<open>NULL\<close> when there is none.\<close>

definition limited_prices :: "int \<Rightarrow> catalog_db \<Rightarrow> int \<Rightarrow> int list" where
  "limited_prices now d pid = map (ru_discount_value \<circ> snd)
     (filter (\<lambda>(i, r). ru_product_id r = pid \<and> ru_type r = TypeLimitedPrice \<and> in_effect now r) (cd_rules d))"

definition limited_price :: "int \<Rightarrow> catalog_db \<Rightarrow> int \<Rightarrow> int option" where
  "limited_price now d pid = (case limited_prices now d pid of [] \<Rightarrow> None | vs \<Rightarrow> Some (Min (set vs)))"

definition bucket_rows :: "catalog_db \<Rightarrow> int \<Rightarrow> int list" where
  "bucket_rows d pid = map snd (filter (\<lambda>(p, s). p = pid) (cd_buckets d))"

text \<open>\<open>COALESCE(stock.available, bucket.stock_available, 0)\<close>.\<close>

definition stock_available :: "catalog_db \<Rightarrow> int \<Rightarrow> int" where
  "stock_available d pid = (case map_of (cd_stock d) pid of Some s \<Rightarrow> ss_available s | None \<Rightarrow> sum_list (bucket_rows d pid))"

definition image_of :: "cat_product \<Rightarrow> string" where
  "image_of p = (case cp_image_url p of None \<Rightarrow> [] | Some u \<Rightarrow> u)"

definition merchant_of :: "cat_product \<Rightarrow> int" where
  "merchant_of p = (case cp_merchant_id p of None \<Rightarrow> 1000 | Some m \<Rightarrow> m)"

definition with_promotion :: "int option \<Rightarrow> int \<Rightarrow> int \<times> string \<times> string" where
  "with_promotion limited sale = (if given (\<lambda>v. v > 0) limited then (the limited, TypeLimitedPrice, limited_price_tag) else (sale, [], []))"

section \<open>Rebuilding the snapshots\<close>

definition card_row :: "int \<Rightarrow> catalog_db \<Rightarrow> int \<times> cat_product \<Rightarrow> card_snapshot" where
  "card_row now d = (\<lambda>(pid, p). case with_promotion (limited_price now d pid) (cp_sale_price_fen p) of (price, ty, tag) \<Rightarrow>
     \<lparr>cs_name = cp_name p, cs_origin_price_fen = cp_origin_price_fen p, cs_final_price_fen = price, cs_promotion_type = ty,
      cs_promotion_tag = tag, cs_stock_available = stock_available d pid, cs_supplier_id = cp_supplier_id p, cs_status = cp_status p, cs_version = 0\<rparr>)"

text \<open>\<open>INSERT ... ON DUPLICATE KEY UPDATE\<close>: \<open>merge\<close> makes the new row of the old one and the inserted values.\<close>

definition upsert :: "('v \<Rightarrow> 'v \<Rightarrow> 'v) \<Rightarrow> int \<times> 'v \<Rightarrow> (int \<times> 'v) list \<Rightarrow> (int \<times> 'v) list" where
  "upsert merge = (\<lambda>(k, v) t. if map_of t k = None then t @ [(k, v)] else map (\<lambda>(j, old). (j, if j = k then merge old v else old)) t)"

text \<open>MySQL counts 1 for a row inserted and 2 for a row changed.\<close>

definition upsert_count :: "(int \<times> 'v) list \<Rightarrow> (int \<times> 'v) list \<Rightarrow> int" where
  "upsert_count rows t = sum_list (map (\<lambda>(k, v). if map_of t k = None then 1 else 2) rows)"

definition chosen :: "int \<Rightarrow> int \<Rightarrow> catalog_db \<Rightarrow> (int \<times> cat_product) list" where
  "chosen pid limit d = take (nat limit) (sort_key fst (filter (\<lambda>(i, p). pid > 0 \<longrightarrow> i = pid) (cd_products d)))"

definition merge_card :: "card_snapshot \<Rightarrow> card_snapshot \<Rightarrow> card_snapshot" where
  "merge_card old v = v\<lparr>cs_version := cs_version old + 1\<rparr>"

definition RebuildCards :: "int \<Rightarrow> int \<Rightarrow> int cat_io" where
  "RebuildCards pid limit = cat_stmt (\<lambda>now d.
     let rows = map (\<lambda>q. (fst q, card_row now d q)) (chosen pid limit d) in
     if limit < 0 then (Inl (RawError ''Error 1064: You have an error in your SQL syntax''), d)
     else if \<not> list_all (\<lambda>(k, v). in_i64 (cs_stock_available v)) rows then (Inl (RawError ''Error 1264: Out of range value for column''), d)
     else (Inr (upsert_count rows (cd_cards d)), d\<lparr>cd_cards := fold (upsert merge_card) rows (cd_cards d)\<rparr>))"

definition stock_row :: "catalog_db \<Rightarrow> int \<Rightarrow> stock_snapshot" where
  "stock_row d pid =
     (let bucket = sum_list (bucket_rows d pid); reserved = (case map_of (cd_stock d) pid of None \<Rightarrow> 0 | Some s \<Rightarrow> ss_reserved s) in
      \<lparr>ss_available = bucket, ss_reserved = reserved, ss_total = bucket + reserved, ss_source = ''admin-rebuild'', ss_version = 0\<rparr>)"

definition merge_stock :: "stock_snapshot \<Rightarrow> stock_snapshot \<Rightarrow> stock_snapshot" where
  "merge_stock old v = v\<lparr>ss_version := ss_version old + 1\<rparr>"

definition RebuildStock :: "int \<Rightarrow> int \<Rightarrow> int cat_io" where
  "RebuildStock pid limit = cat_stmt (\<lambda>now d.
     let rows = map (\<lambda>q. (fst q, stock_row d (fst q))) (chosen pid limit d) in
     if limit < 0 then (Inl (RawError ''Error 1064: You have an error in your SQL syntax''), d)
     else if \<not> list_all (\<lambda>(k, v). in_i64 (ss_available v) \<and> in_i64 (ss_total v)) rows then (Inl (RawError ''Error 1264: Out of range value for column''), d)
     else (Inr (upsert_count rows (cd_stock d)), d\<lparr>cd_stock := fold (upsert merge_stock) rows (cd_stock d)\<rparr>))"

section \<open>The refresh job\<close>

definition refreshProductCardSnapshot :: "int \<Rightarrow> int cat_io" where
  "refreshProductCardSnapshot pid = cat_stmt (\<lambda>now d.
     let rows = map (\<lambda>q. (fst q, card_row now d q)) (take 1 (sort_key fst (filter (\<lambda>(i, p). i = pid) (cd_products d)))) in
     if \<not> list_all (\<lambda>(k, v). in_i64 (cs_stock_available v)) rows then (Inl (RawError ''Error 1264: Out of range value for column''), d)
     else (Inr (upsert_count rows (cd_cards d)), d\<lparr>cd_cards := fold (upsert merge_card) rows (cd_cards d)\<rparr>))"

definition job_windowMinutes :: "int \<Rightarrow> int" where
  "job_windowMinutes configured = (if configured \<le> 0 then 120 else configured)"

definition job_limit :: "int \<Rightarrow> int" where
  "job_limit configured = (if configured \<le> 0 then 1000 else configured)"

text \<open>The two \<open>CREATE TABLE IF NOT EXISTS\<close> of \<open>ensureProductCardSnapshotTables\<close> change nothing.\<close>

definition ensureProductCardSnapshotTables :: "unit cat_io" where
  "ensureProductCardSnapshotTables = bindE (cat_exec (\<lambda>now d. d)) (\<lambda>_. cat_exec (\<lambda>now d. d))"

text \<open>
  \<open>refreshOnce\<close> logs what fails and goes on; it answers the number of products looked at and the rows
  affected.  Its query for the products is the one of the gateway.
\<close>

definition refreshOnce :: "int \<Rightarrow> int \<Rightarrow> (int \<times> int) cat_io" where
  "refreshOnce windowMinutes limit =
     bindE ensureProductCardSnapshotTables (\<lambda>_.
     bindE cat_now (\<lambda>now.
     bindE (repo_WindowAffectedProductIDs now (job_windowMinutes windowMinutes) (job_limit limit)) (\<lambda>ids.
     bindE (fold_io (\<lambda>pid affected. bindE (attempt (refreshProductCardSnapshot pid)) (\<lambda>r. case r of
              Inl e \<Rightarrow> ret affected | Inr rows \<Rightarrow> ret (i64 (affected + rows)))) ids 0) (\<lambda>affected.
     ret (int (length ids), affected)))))"

section \<open>Reading cards\<close>

definition productCardSnapshotToResp :: "int \<Rightarrow> card_snapshot \<Rightarrow> cat_product \<Rightarrow> card_resp" where
  "productCardSnapshotToResp pid s p =
     \<lparr>gc_ProductId = pid, gc_Name = cs_name s, gc_OriginPriceFen = cs_origin_price_fen s, gc_FinalPriceFen = cs_final_price_fen s,
      gc_PromotionType = cs_promotion_type s, gc_PromotionTag = cs_promotion_tag s, gc_StockAvailable = cs_stock_available s,
      gc_SupplierId = cs_supplier_id s, gc_ImageUrl = image_of p, gc_MerchantId = merchant_of p\<rparr>"

text \<open>The rows of the snapshot with status 1 joined with their products.\<close>

definition snapshot_card :: "catalog_db \<Rightarrow> int \<Rightarrow> card_resp option" where
  "snapshot_card d pid = (case map_of (cd_cards d) pid of None \<Rightarrow> None
     | Some s \<Rightarrow> if cs_status s = 1 then map_option (productCardSnapshotToResp pid s) (map_of (cd_products d) pid) else None)"

definition cardResp :: "int \<Rightarrow> cat_product \<Rightarrow> int option \<Rightarrow> int \<Rightarrow> card_resp" where
  "cardResp pid p limited stock = (case with_promotion limited (cp_sale_price_fen p) of (price, ty, tag) \<Rightarrow>
     \<lparr>gc_ProductId = pid, gc_Name = cp_name p, gc_OriginPriceFen = cp_origin_price_fen p, gc_FinalPriceFen = price,
      gc_PromotionType = ty, gc_PromotionTag = tag, gc_StockAvailable = stock,
      gc_SupplierId = cp_supplier_id p, gc_ImageUrl = image_of p, gc_MerchantId = merchant_of p\<rparr>)"

definition active_product :: "catalog_db \<Rightarrow> int \<Rightarrow> cat_product option" where
  "active_product d pid = (case map_of (cd_products d) pid of None \<Rightarrow> None | Some p \<Rightarrow> if cp_status p = 1 then Some p else None)"

definition row_of :: "'a option \<Rightarrow> go_error + 'a" where
  "row_of x = (case x of None \<Rightarrow> Inl ErrNoRows | Some v \<Rightarrow> Inr v)"

definition product_stock :: "int \<Rightarrow> int cat_io" where
  "product_stock pid =
     bindE (attempt (cat_stmt (\<lambda>now d. (row_of (map_option ss_available (map_of (cd_stock d) pid)), d)))) (\<lambda>x. case x of
       Inr available \<Rightarrow> ret available
     | Inl _ \<Rightarrow> bindE (cat_query (\<lambda>now d. bucket_rows d pid)) (\<lambda>rows. ret (fold (\<lambda>s n. i64 (n + s)) rows 0)))"

definition GetProductCard :: "int \<Rightarrow> card_resp cat_io" where
  "GetProductCard pid =
     bindE (attempt (cat_stmt (\<lambda>now d. (row_of (snapshot_card d pid), d)))) (\<lambda>x. case x of
       Inr found \<Rightarrow> ret found
     | Inl _ \<Rightarrow>
         bindE (map_err (\<lambda>e. if e = ErrNoRows then StatusError codes_NotFound ''product card not found'' else e)
           (cat_stmt (\<lambda>now d. (row_of (map_option (\<lambda>p. (p, limited_price now d pid)) (active_product d pid)), d)))) (\<lambda>(p, limited).
         bindE (product_stock pid) (\<lambda>stock. ret (cardResp pid p limited stock))))"

record ListProductsReq =
  lr_ProductIds :: "int list"
  lr_PageSize :: int
  lr_PageNum :: int

text \<open>\<open>LIMIT\<close> and \<open>OFFSET\<close>, when a page size was given.\<close>

definition page_rows :: "ListProductsReq \<Rightarrow> 'a list \<Rightarrow> 'a list" where
  "page_rows r rows =
     (if lr_PageSize r > 0
      then let offset = i64 (i64 (lr_PageNum r - 1) * lr_PageSize r) in take (nat (lr_PageSize r)) (drop (nat (if offset < 0 then 0 else offset)) rows)
      else rows)"

definition snapshot_rows :: "catalog_db \<Rightarrow> card_resp list" where
  "snapshot_rows d = List.map_filter (snapshot_card d) (sort (map fst (cd_cards d)))"

text \<open>How many active products have no active card, and how many active cards have no active product.\<close>

definition completeness :: "catalog_db \<Rightarrow> int \<times> nat \<times> nat" where
  "completeness d = (int (length (filter (\<lambda>(i, p). cp_status p = 1) (cd_products d))),
     length (filter (\<lambda>(i, p). cp_status p = 1 \<and> \<not> given (\<lambda>s. cs_status s = 1) (map_of (cd_cards d) i)) (cd_products d)),
     length (filter (\<lambda>(i, s). cs_status s = 1 \<and> active_product d i = None) (cd_cards d)))"

definition listProductCardSnapshots :: "ListProductsReq \<Rightarrow> (card_resp list \<times> int) option cat_io" where
  "listProductCardSnapshots r =
     (if lr_ProductIds r \<noteq> []
      then bindE (cat_query (\<lambda>now d. filter (\<lambda>c. gc_ProductId c \<in> set (lr_ProductIds r)) (snapshot_rows d))) (\<lambda>rows.
           if length rows \<noteq> length (remdups (lr_ProductIds r)) then ret None else ret (Some (rows, int (length rows))))
      else bindE (cat_query (\<lambda>now d. page_rows r (snapshot_rows d))) (\<lambda>rows.
           if rows = [] then ret None
           else bindE (cat_query (\<lambda>now d. completeness d)) (\<lambda>(count, missing, stale).
                if missing > 0 \<or> stale > 0 then ret None else ret (Some (rows, count)))))"

definition active_rows :: "int \<Rightarrow> catalog_db \<Rightarrow> (int \<times> cat_product \<times> int option) list" where
  "active_rows now d = List.map_filter (\<lambda>i. map_option (\<lambda>p. (i, p, limited_price now d i)) (active_product d i)) (sort (map fst (cd_products d)))"

definition scan_sums :: "(int \<times> int) list \<Rightarrow> go_error + (int \<rightharpoonup> int)" where
  "scan_sums rows = (if list_all (\<lambda>(i, n). in_i64 n) rows then Inr (map_of rows) else Inl (RawError ''sql: Scan error: value out of range''))"

definition list_stock :: "int list \<Rightarrow> (int \<rightharpoonup> int) cat_io" where
  "list_stock ids =
     bindE (attempt (cat_stmt (\<lambda>now d. (scan_sums (map (\<lambda>i. (i, stock_available d i)) ids), d)))) (\<lambda>x. case x of
       Inr m \<Rightarrow> ret m
     | Inl _ \<Rightarrow> cat_stmt (\<lambda>now d. (scan_sums (map (\<lambda>i. (i, sum_list (bucket_rows d i))) (filter (\<lambda>i. bucket_rows d i \<noteq> []) ids)), d)))"

definition ListProducts :: "ListProductsReq \<Rightarrow> (card_resp list \<times> int) cat_io" where
  "ListProducts r =
     bindE (attempt (listProductCardSnapshots r)) (\<lambda>x. case x of
       Inr (Some resp) \<Rightarrow> ret resp
     | _ \<Rightarrow>
         bindE (cat_query (\<lambda>now d. if lr_ProductIds r \<noteq> [] then filter (\<lambda>(i, p, l). i \<in> set (lr_ProductIds r)) (active_rows now d)
                                   else page_rows r (active_rows now d))) (\<lambda>rows.
         if rows = [] then ret ([], 0)
         else bindE (list_stock (map fst rows)) (\<lambda>stock.
              let items = map (\<lambda>(i, p, l). cardResp i p l (case stock i of None \<Rightarrow> 0 | Some s \<Rightarrow> s)) rows in
              bindE (if lr_PageSize r > 0
                     then or_else (cat_query (\<lambda>now d. int (length (filter (\<lambda>(i, p). cp_status p = 1) (cd_products d))))) 0
                     else ret (int (length items))) (\<lambda>total.
              ret (items, total)))))"

end
