(* ===== verification/Promotion_Safety.thy ===== *)
theory Promotion_Safety
  imports Promotion
begin

text \<open>
  What the promotion table promises to whoever prices a product: every rule is well formed and no two
  active limited prices of a product overlap, so that at any time at most one of them is in effect.  The
  laws of a writer of the table are the locale \<open>promotion_writer\<close>.
\<close>

section \<open>The invariant\<close>

definition rule_ok :: "promotion_rule \<Rightarrow> bool" where
  "rule_ok r \<longleftrightarrow> 0 < ru_product_id r \<and> ru_type r = TypeLimitedPrice \<and> 0 < ru_discount_value r \<and> 0 \<le> ru_threshold_amount r \<and>
     validStatus (ru_status r) \<and> validWindow (ru_starts_at r) (ru_ends_at r)"

definition apart :: "promotion_rule \<Rightarrow> promotion_rule \<Rightarrow> bool" where
  "apart r q \<longleftrightarrow> ru_product_id r \<noteq> ru_product_id q \<or> ru_status r \<noteq> 1 \<or> ru_status q \<noteq> 1 \<or>
     \<not> overlaps (ru_starts_at r) (ru_ends_at r) (ru_starts_at q) (ru_ends_at q)"

definition apart_from :: "(int \<times> promotion_rule) list \<Rightarrow> int \<Rightarrow> promotion_rule \<Rightarrow> bool" where
  "apart_from rs i r \<longleftrightarrow> (\<forall>(j, q)\<in>set rs. i \<noteq> j \<longrightarrow> apart r q)"

definition rules_ok :: "int \<Rightarrow> (int \<times> promotion_rule) list \<Rightarrow> bool" where
  "rules_ok n rs \<longleftrightarrow> 0 < n \<and> distinct (map fst rs) \<and> (\<forall>(i, r)\<in>set rs. 0 < i \<and> i < n \<and> rule_ok r \<and> apart_from rs i r)"

definition promotions_ok :: "catalog_world \<Rightarrow> bool" where
  "promotions_ok w \<longleftrightarrow> rules_ok (cw_next_rule w) (cd_rules (cw_db w))"

lemma overlaps_sym: "overlaps a b c d = overlaps c d a b"
  by (cases a; cases b; cases c; cases d) (auto simp: overlaps_def)

lemma apart_sym: "apart r q \<Longrightarrow> apart q r"
  using overlaps_sym by (auto simp: apart_def)

text \<open>Rules in effect at one time overlap.\<close>

lemma in_effect_overlaps: "in_effect t r \<Longrightarrow> in_effect t q \<Longrightarrow> overlaps (ru_starts_at r) (ru_ends_at r) (ru_starts_at q) (ru_ends_at q)"
  by (cases "ru_starts_at r"; cases "ru_ends_at r"; cases "ru_starts_at q"; cases "ru_ends_at q") (auto simp: in_effect_def overlaps_def)

lemma rules_okD: "rules_ok n rs \<Longrightarrow> (i, r) \<in> set rs \<Longrightarrow> 0 < i \<and> i < n \<and> rule_ok r \<and> apart_from rs i r"
  by (auto simp: rules_ok_def)

lemma apart_fromD: "apart_from rs i r \<Longrightarrow> (j, q) \<in> set rs \<Longrightarrow> i \<noteq> j \<Longrightarrow> apart r q"
  by (auto simp: apart_from_def)

lemma rules_ok_more: "rules_ok n rs \<Longrightarrow> n \<le> m \<Longrightarrow> rules_ok m rs"
  by (auto simp: rules_ok_def)

lemma rules_ok_insert:
  assumes ok: "rules_ok n rs" and r: "rule_ok r" "apart_from rs n r"
  shows "rules_ok (n + 1) (rs @ [(n, r)])"
proof -
  have "apart_from (rs @ [(n, r)]) i q" if "(i, q) \<in> set rs" for i q
  proof -
    have "apart q r" using apart_fromD [OF r(2) that] rules_okD [OF ok that] apart_sym by auto
    then show ?thesis using rules_okD [OF ok that] by (auto simp: apart_from_def)
  qed
  moreover have "apart_from (rs @ [(n, r)]) n r" using r(2) by (auto simp: apart_from_def)
  moreover have "n \<notin> fst ` set rs" using rules_okD [OF ok] by fastforce
  ultimately show ?thesis using ok r(1) by (auto simp: rules_ok_def)
qed

definition upd_rules :: "int \<Rightarrow> (promotion_rule \<Rightarrow> promotion_rule) \<Rightarrow> (int \<times> promotion_rule) list \<Rightarrow> (int \<times> promotion_rule) list" where
  "upd_rules i f rs = map (\<lambda>(k, q). (k, if k = i then f q else q)) rs"

lemma upd_rules_keys [simp]: "map fst (upd_rules i f rs) = map fst rs"
  by (induction rs) (auto simp: upd_rules_def)

lemma upd_rulesE:
  assumes "(k, q) \<in> set (upd_rules i f rs)" "distinct (map fst rs)" "map_of rs i = Some r"
  obtains (same) "k \<noteq> i" "(k, q) \<in> set rs" | (new) "k = i" "q = f r"
proof -
  obtain q0 where q0: "(k, q0) \<in> set rs" "q = (if k = i then f q0 else q0)" using assms(1) by (auto simp: upd_rules_def)
  have "k = i \<Longrightarrow> q0 = r" using map_of_is_SomeI [OF assms(2) q0(1)] assms(3) by simp
  then show thesis using q0 same new by (cases "k = i") simp_all
qed

lemma rules_ok_update:
  assumes ok: "rules_ok n rs" and r: "map_of rs i = Some r" "rule_ok (f r)" "apart_from rs i (f r)"
  shows "rules_ok n (upd_rules i f rs)"
proof -
  have d: "distinct (map fst rs)" using ok by (simp add: rules_ok_def)
  have i: "(i, r) \<in> set rs" using r(1) by (rule map_of_SomeD)
  have "apart a b" if "(k, a) \<in> set (upd_rules i f rs)" "(j, b) \<in> set (upd_rules i f rs)" "k \<noteq> j" for k j a b
    using that(1) d r(1)
  proof (cases rule: upd_rulesE)
    case same
    note a = same
    from that(2) d r(1) show ?thesis
    proof (cases rule: upd_rulesE)
      case same
      then show ?thesis using apart_fromD [of rs k a j b] rules_okD [OF ok a(2)] that(3) by auto
    next
      case new
      then show ?thesis using apart_fromD [OF r(3) a(2)] a(1) apart_sym by auto
    qed
  next
    case new
    note a = new
    from that(2) d r(1) show ?thesis
    proof (cases rule: upd_rulesE)
      case same
      then show ?thesis using apart_fromD [OF r(3) same(2)] a by auto
    next
      case new
      then show ?thesis using that(3) a by auto
    qed
  qed
  moreover have "0 < k \<and> k < n \<and> rule_ok q" if "(k, q) \<in> set (upd_rules i f rs)" for k q
    using that d r(1) by (cases rule: upd_rulesE) (use rules_okD [OF ok] i r(2) in auto)
  ultimately show ?thesis using ok by (auto simp: rules_ok_def apart_from_def)
qed

lemma not_conflicting_apart:
  assumes ok: "rules_ok n rs" and none: "filter (conflicting (ru_product_id r) j (ru_starts_at r) (ru_ends_at r)) rs = []"
    and i: "i = j \<or> j \<notin> fst ` set rs"
  shows "apart_from rs i r"
  unfolding apart_from_def
proof (clarify)
  fix k q assume k: "(k, q) \<in> set rs" "i \<noteq> k"
  have "ru_type q = TypeLimitedPrice" using rules_okD [OF ok k(1)] by (simp add: rule_ok_def)
  moreover have "k \<noteq> j" using i k by force
  moreover have "\<not> conflicting (ru_product_id r) j (ru_starts_at r) (ru_ends_at r) (k, q)" using none k(1) by (auto simp: filter_empty_conv)
  ultimately show "apart r q" by (auto simp: conflicting_def apart_def)
qed

lemma inactive_apart: "ru_status r \<noteq> 1 \<Longrightarrow> apart_from rs i r"
  by (auto simp: apart_from_def apart_def)

section \<open>Statements\<close>

lemma triple_cat_stmt:
  assumes "\<And>now n d a d'. P n d \<Longrightarrow> f now d = (Inr a, d') \<Longrightarrow> Q a n d' \<and> E n d'" "\<And>now n d e d'. P n d \<Longrightarrow> f now d = (Inl e, d') \<Longrightarrow> E n d'"
    and "\<And>n d. P n d \<Longrightarrow> E n d"
  shows "triple (\<lambda>w. P (cw_next_rule w) (cw_db w)) (cat_stmt f) (\<lambda>a w. Q a (cw_next_rule w) (cw_db w)) (\<lambda>w. E (cw_next_rule w) (cw_db w))"
  unfolding triple_def cat_stmt_def
proof (intro allI impI)
  fix w :: catalog_world assume P: "P (cw_next_rule w) (cw_db w)"
  let ?m = "ext_call (\<lambda>w. case f (cw_now w) (cw_db w) of (r, d) \<Rightarrow> (r, w\<lparr>cw_db := d\<rparr>)) :: 'a cat_io"
  obtain x w' where r: "?m w = (x, w')" by fastforce
  then have "case (x, w') of (Inl e, w') \<Rightarrow> E (cw_next_rule w') (cw_db w') | (Inr a, w') \<Rightarrow> Q a (cw_next_rule w') (cw_db w')"
  proof (cases rule: ext_call_cases)
    case (reply fs)
    then show ?thesis using assms(1,2) [OF P] by (cases x) (auto split: prod.splits)
  next
    case (lost s fs)
    then show ?thesis using assms(3) [OF P] by simp
  next
    case (unanswered s fs y)
    then show ?thesis using assms(1,2) [OF P] by (cases y) (auto split: prod.splits)
  qed
  then show "case ?m w of (Inl e, w') \<Rightarrow> E (cw_next_rule w') (cw_db w') | (Inr a, w') \<Rightarrow> Q a (cw_next_rule w') (cw_db w')"
    unfolding r .
qed

text \<open>A computation that only reads keeps whatever is known of the tables.\<close>

definition only_reads :: "'a cat_io \<Rightarrow> bool" where
  "only_reads m \<longleftrightarrow> (\<forall>P. keeps (\<lambda>w. P (cw_next_rule w) (cw_db w)) m)"

named_theorems reads_intros \<open>computations that only read\<close>

lemma reads_keeps: "only_reads m \<Longrightarrow> keeps (\<lambda>w. P (cw_next_rule w) (cw_db w)) m"
  by (simp add: only_reads_def)

lemma reads_basic [reads_intros]: "only_reads (ret a)" "only_reads (fail e)" "only_reads (promo_fault r m)" "only_reads cat_now"
  by (auto simp: only_reads_def promo_fault_def keeps_def cat_now_def intro: keeps_rules intro: keepsD [OF keeps_fail] keepsD [OF keeps_ret])

lemma reads_stmt [reads_intros]:
  assumes "\<And>now d. snd (f now d) = d"
  shows "only_reads (cat_stmt f)"
  unfolding only_reads_def
proof (intro allI keepsI)
  fix P and w :: catalog_world assume "P (cw_next_rule w) (cw_db w)"
  moreover have same: "f now d = (x, d') \<Longrightarrow> d' = d" for now d x d' using assms [of now d] by simp
  have "triple (\<lambda>w. P (cw_next_rule w) (cw_db w)) (cat_stmt f) (\<lambda>a w. P (cw_next_rule w) (cw_db w)) (\<lambda>w. P (cw_next_rule w) (cw_db w))"
    by (rule triple_cat_stmt) (use same in blast)+
  ultimately show "P (cw_next_rule (snd (cat_stmt f w))) (cw_db (snd (cat_stmt f w)))" by (auto dest: triple_snd)
qed

lemma reads_query [reads_intros]: "only_reads (cat_query f)"
  unfolding cat_query_def by (rule reads_stmt) simp

lemma reads_bind [reads_intros]: "only_reads m \<Longrightarrow> (\<And>a. only_reads (k a)) \<Longrightarrow> only_reads (bindE m k)"
  unfolding only_reads_def by (auto intro: keeps_bindE)

lemma reads_option [reads_intros]: "only_reads a \<Longrightarrow> (\<And>v. only_reads (b v)) \<Longrightarrow> only_reads (case x of None \<Rightarrow> a | Some v \<Rightarrow> b v)"
  by (cases x) auto

lemma reads_sum [reads_intros]: "(\<And>v. only_reads (a v)) \<Longrightarrow> (\<And>v. only_reads (b v)) \<Longrightarrow> only_reads (case x of Inl v \<Rightarrow> a v | Inr v \<Rightarrow> b v)"
  by (cases x) auto

lemma reads_if [reads_intros]: "only_reads a \<Longrightarrow> only_reads b \<Longrightarrow> only_reads (if c then a else b)"
  by simp

lemma reads_prod [reads_intros]: "(\<And>a b. only_reads (k a b)) \<Longrightarrow> only_reads (case x of (a, b) \<Rightarrow> k a b)"
  by (cases x) auto

lemma reads_parts [reads_intros]:
  "only_reads (time_arg p s)" "only_reads (opt_time p v)" "only_reads (check_discount i x)" "only_reads (check_conflict i j sa ea)" "only_reads (check_update u)" "only_reads (repo_Find i)"
  unfolding time_arg_def opt_time_def check_discount_def check_conflict_def check_update_def repo_Find_def ProductSalePrice_def HasActiveConflict_def
  by (intro reads_intros)+

lemma reads_service: "only_reads (promo_List st q)" "only_reads (promo_Detail st i)" "only_reads (promo_WindowAffectedProductIDs m l)"
  unfolding promo_List_def repo_List_def promo_Detail_def promo_WindowAffectedProductIDs_def repo_WindowAffectedProductIDs_def Let_def
  by (intro reads_intros; simp)+

section \<open>Writers\<close>

lemma triple_reads: "only_reads m \<Longrightarrow> triple (\<lambda>w. P (cw_next_rule w) (cw_db w)) m (\<lambda>_ w. P (cw_next_rule w) (cw_db w)) (\<lambda>w. P (cw_next_rule w) (cw_db w))"
  by (intro triple_keeps reads_keeps)

lemma triple_fault: "(\<And>w. P w \<Longrightarrow> E w) \<Longrightarrow> triple P (promo_fault r m) Q E"
  unfolding promo_fault_def by (rule triple_fail)

lemma triple_error_weaken: "triple P m Q E \<Longrightarrow> (\<And>w. E w \<Longrightarrow> E' w) \<Longrightarrow> triple P m Q E'"
  by (rule triple_conseq)

lemma triple_value:
  assumes "triple P m Q E" "\<And>w a w'. m w = (Inr a, w') \<Longrightarrow> R a"
  shows "triple P m (\<lambda>a w. R a \<and> Q a w) E"
  unfolding triple_def
proof (intro allI impI)
  fix w assume P: "P w"
  show "case m w of (Inl e, w') \<Rightarrow> E w' | (Inr a, w') \<Rightarrow> R a \<and> Q a w'"
    using assms(1) [unfolded triple_def, rule_format, OF P] assms(2) [of w] by (auto split: prod.splits sum.splits)
qed

lemma triple_conflict:
  "triple (\<lambda>w. P (cw_next_rule w) (cw_db w)) (bindE (HasActiveConflict p j s e) (\<lambda>c. if c then fail er else ret ()))
     (\<lambda>_ w. P (cw_next_rule w) (cw_db w) \<and> filter (conflicting p j s e) (cd_rules (cw_db w)) = []) (\<lambda>w. P (cw_next_rule w) (cw_db w))"
proof -
  have "triple (\<lambda>w. P (cw_next_rule w) (cw_db w)) (HasActiveConflict p j s e)
      (\<lambda>c w. P (cw_next_rule w) (cw_db w) \<and> c = (filter (conflicting p j s e) (cd_rules (cw_db w)) \<noteq> [])) (\<lambda>w. P (cw_next_rule w) (cw_db w))"
    unfolding HasActiveConflict_def cat_query_def by (rule triple_cat_stmt) auto
  then show ?thesis by (rule triple_bind) (auto intro!: triple_fail triple_ret)
qed

text \<open>The decision whether a rule may be written, as the writers take it: an active one is checked.\<close>

lemma triple_may_write:
  assumes "\<And>n rs. P n rs \<Longrightarrow> rules_ok n rs" "\<And>n rs. P n rs \<Longrightarrow> \<not> b \<Longrightarrow> apart_from rs (i n) r"
    and "\<And>n rs. P n rs \<Longrightarrow> i n = j \<or> j \<notin> fst ` set rs"
  shows "triple (\<lambda>w. P (cw_next_rule w) (cd_rules (cw_db w)))
     (if b then bindE (HasActiveConflict (ru_product_id r) j (ru_starts_at r) (ru_ends_at r)) (\<lambda>c. if c then fail er else ret ()) else ret ())
     (\<lambda>_ w. P (cw_next_rule w) (cd_rules (cw_db w)) \<and> apart_from (cd_rules (cw_db w)) (i (cw_next_rule w)) r)
     (\<lambda>w. P (cw_next_rule w) (cd_rules (cw_db w)))"
proof (cases b)
  case True
  have "triple (\<lambda>w. P (cw_next_rule w) (cd_rules (cw_db w)))
     (bindE (HasActiveConflict (ru_product_id r) j (ru_starts_at r) (ru_ends_at r)) (\<lambda>c. if c then fail er else ret ()))
     (\<lambda>_ w. P (cw_next_rule w) (cd_rules (cw_db w)) \<and> apart_from (cd_rules (cw_db w)) (i (cw_next_rule w)) r)
     (\<lambda>w. P (cw_next_rule w) (cd_rules (cw_db w)))"
    by (rule triple_conseq [OF triple_conflict [where P = "\<lambda>n d. P n (cd_rules d)"]])
       (use not_conflicting_apart [OF assms(1) _ assms(3)] in auto)
  then show ?thesis using True by simp
next
  case False
  then show ?thesis using assms(2) by (auto intro: triple_ret)
qed

lemma triple_repo_Insert:
  assumes r: "rule_ok r"
  shows "triple (\<lambda>w. promotions_ok w \<and> apart_from (cd_rules (cw_db w)) (cw_next_rule w) r) (repo_Insert r) (\<lambda>_. promotions_ok) promotions_ok"
  unfolding repo_Insert_def
proof (rule triple_bind)
  show "triple (\<lambda>w. promotions_ok w \<and> apart_from (cd_rules (cw_db w)) (cw_next_rule w) r) next_rule_id
     (\<lambda>i w. cw_next_rule w = i + 1 \<and> rules_ok i (cd_rules (cw_db w)) \<and> apart_from (cd_rules (cw_db w)) i r) promotions_ok"
    by (simp add: triple_def next_rule_id_def promotions_ok_def)
  fix i
  have "triple (\<lambda>w. cw_next_rule w = i + 1 \<and> rules_ok i (cd_rules (cw_db w)) \<and> apart_from (cd_rules (cw_db w)) i r)
      (cat_exec (\<lambda>now d. d\<lparr>cd_rules := cd_rules d @ [(i, r)]\<rparr>)) (\<lambda>_ w. rules_ok (cw_next_rule w) (cd_rules (cw_db w))) (\<lambda>w. rules_ok (cw_next_rule w) (cd_rules (cw_db w)))"
    unfolding cat_exec_def by (rule triple_cat_stmt) (use rules_ok_insert [OF _ r] rules_ok_more [of i _ "i + 1"] in auto)
  then show "triple (\<lambda>w. cw_next_rule w = i + 1 \<and> rules_ok i (cd_rules (cw_db w)) \<and> apart_from (cd_rules (cw_db w)) i r)
      (bindE (cat_exec (\<lambda>now d. d\<lparr>cd_rules := cd_rules d @ [(i, r)]\<rparr>)) (\<lambda>_. ret i)) (\<lambda>_. promotions_ok) promotions_ok"
    by (intro triple_bind [where Q = "\<lambda>_. promotions_ok"] triple_ret) (simp_all add: promotions_ok_def [abs_def])
qed

lemma upd_rules_absent: "map_of rs i = None \<Longrightarrow> upd_rules i f rs = rs"
  by (induction rs) (auto simp: upd_rules_def split: if_splits)

text \<open>A row that is there may become a rule that is well formed and apart from the others.\<close>

definition may_become :: "int \<Rightarrow> Changes \<Rightarrow> (int \<times> promotion_rule) list \<Rightarrow> bool" where
  "may_become i c rs \<longleftrightarrow> (\<forall>r. map_of rs i = Some r \<longrightarrow> rule_ok (apply_changes c r) \<and> apart_from rs i (apply_changes c r))"

lemma triple_repo_Update:
  "triple (\<lambda>w. promotions_ok w \<and> may_become i c (cd_rules (cw_db w))) (repo_Update i c) (\<lambda>_. promotions_ok) promotions_ok"
proof -
  have upd: "cd_rules (upd_rule i f d) = upd_rules i f (cd_rules d)" for f d by (simp add: upd_rule_def upd_rules_def)
  have keep: "rules_ok n rs \<Longrightarrow> may_become i c rs \<Longrightarrow> rules_ok n (upd_rules i (apply_changes c) rs)" for n rs
    using rules_ok_update [of n rs i _ "apply_changes c"] upd_rules_absent [of rs i] by (cases "map_of rs i") (auto simp: may_become_def)
  have "triple (\<lambda>w. rules_ok (cw_next_rule w) (cd_rules (cw_db w)) \<and> may_become i c (cd_rules (cw_db w)))
     (cat_stmt (\<lambda>now d. (Inr (given (\<lambda>r. apply_changes c r \<noteq> r) (map_of (cd_rules d) i)), upd_rule i (apply_changes c) d)))
     (\<lambda>_ w. rules_ok (cw_next_rule w) (cd_rules (cw_db w))) (\<lambda>w. rules_ok (cw_next_rule w) (cd_rules (cw_db w)))"
    by (rule triple_cat_stmt) (use keep upd in auto)
  moreover have "triple (\<lambda>w. rules_ok (cw_next_rule w) (cd_rules (cw_db w))) (if a then ret True else cat_query (\<lambda>now d. map_of (cd_rules d) i \<noteq> None))
      (\<lambda>_ w. rules_ok (cw_next_rule w) (cd_rules (cw_db w))) (\<lambda>w. rules_ok (cw_next_rule w) (cd_rules (cw_db w)))" for a
    by (intro triple_keeps reads_keeps [where P = "\<lambda>n d. rules_ok n (cd_rules d)"] reads_intros)
  ultimately show ?thesis
    unfolding repo_Update_def promotions_ok_def [abs_def] by (auto intro!: triple_bind triple_fail)
qed

lemma triple_promo_Create: "triple promotions_ok (promo_Create p i) (\<lambda>_. promotions_ok) promotions_ok"
proof -
  let ?I = "\<lambda>w. rules_ok (cw_next_rule w) (cd_rules (cw_db w))"
  have read: "only_reads m \<Longrightarrow> triple ?I m (\<lambda>_. ?I) ?I" for m :: "'b cat_io"
    by (rule triple_reads [where P = "\<lambda>n d. rules_ok n (cd_rules d)"])
  note I = promotions_ok_def [abs_def]
  define st where "st = (if ci_Status i = 0 then StatusActive else ci_Status i)"
  have store: "triple ?I (bindE (if st = StatusActive then check_conflict (ci_ProductID i) 0 s e else ret ()) (\<lambda>_. bindE (repo_Insert r) k)) (\<lambda>_. ?I) ?I"
    if r: "rule_ok r" "r = \<lparr>ru_product_id = ci_ProductID i, ru_type = ty, ru_discount_value = ci_DiscountValue i,
          ru_threshold_amount = ci_ThresholdAmount i, ru_starts_at = s, ru_ends_at = e, ru_status = st\<rparr>" and k: "\<And>a. only_reads (k a)" for r s e ty and k :: "int \<Rightarrow> MutationResult cat_io"
  proof -
    have "triple ?I (if st = StatusActive then check_conflict (ru_product_id r) 0 (ru_starts_at r) (ru_ends_at r) else ret ())
       (\<lambda>_ w. rules_ok (cw_next_rule w) (cd_rules (cw_db w)) \<and> apart_from (cd_rules (cw_db w)) (cw_next_rule w) r) ?I"
      unfolding check_conflict_def promo_fault_def by (rule triple_may_write [where P = rules_ok and i = "\<lambda>n. n"]) (use inactive_apart r(2) rules_okD in \<open>fastforce+\<close>)
    moreover have f: "ru_product_id r = ci_ProductID i" "ru_starts_at r = s" "ru_ends_at r = e" using r(2) by simp_all
    ultimately have "triple ?I (if st = StatusActive then check_conflict (ci_ProductID i) 0 s e else ret ())
       (\<lambda>_ w. rules_ok (cw_next_rule w) (cd_rules (cw_db w)) \<and> apart_from (cd_rules (cw_db w)) (cw_next_rule w) r) ?I"
      unfolding f by simp
    then show ?thesis
      by (rule triple_bind) (rule triple_bind [OF triple_repo_Insert [OF r(1), unfolded I] read [OF k]])
  qed
  show ?thesis
    unfolding promo_Create_def Let_def I st_def [symmetric]
    by (intro triple_if triple_fault triple_bind [OF read [OF reads_parts(1)]] triple_bind [OF read [OF reads_parts(3)]] store reads_intros)
       (auto simp: rule_ok_def)
qed

lemma rule_ok_changes:
  assumes "rule_ok r" "given (\<lambda>v. 0 < v) (ch_ProductID c) \<or> ch_ProductID c = None" "given (\<lambda>v. 0 < v) (ch_DiscountValue c) \<or> ch_DiscountValue c = None"
    "given (\<lambda>v. 0 \<le> v) (ch_ThresholdAmount c) \<or> ch_ThresholdAmount c = None" "given validStatus (ch_Status c) \<or> ch_Status c = None"
    and "validWindow (ru_starts_at (apply_changes c r)) (ru_ends_at (apply_changes c r))"
  shows "rule_ok (apply_changes c r)"
proof -
  have "0 < ru_product_id (apply_changes c r)" using assms(1,2) by (cases "ch_ProductID c") (auto simp: rule_ok_def apply_changes_def)
  moreover have "0 < ru_discount_value (apply_changes c r)" using assms(1,3) by (cases "ch_DiscountValue c") (auto simp: rule_ok_def apply_changes_def)
  moreover have "0 \<le> ru_threshold_amount (apply_changes c r)" using assms(1,4) by (cases "ch_ThresholdAmount c") (auto simp: rule_ok_def apply_changes_def)
  moreover have "validStatus (ru_status (apply_changes c r))" using assms(1,5) by (cases "ch_Status c") (auto simp: rule_ok_def apply_changes_def)
  moreover have "ru_type (apply_changes c r) = TypeLimitedPrice" using assms(1) by (simp add: rule_ok_def apply_changes_def)
  ultimately show ?thesis using assms(6) by (simp add: rule_ok_def)
qed

text \<open>A change of the discount or the threshold alone leaves an active rule as far from the others as it was.\<close>

lemma apart_unchanged:
  assumes "apart_from rs i r" "ch_ProductID c = None" "ch_Status c = None" "ch_StartsAt c = None" "ch_EndsAt c = None"
  shows "apart_from rs i (apply_changes c r)"
  using assms by (auto simp: apart_from_def apart_def apply_changes_def)

lemma triple_promo_Update: "triple promotions_ok (promo_Update p i) (\<lambda>_. promotions_ok) promotions_ok"
proof -
  let ?A = "\<lambda>r w. rules_ok (cw_next_rule w) (cd_rules (cw_db w)) \<and> map_of (cd_rules (cw_db w)) (ui_PromotionID i) = Some r"
  let ?I = "\<lambda>w. rules_ok (cw_next_rule w) (cd_rules (cw_db w))"
  note I = promotions_ok_def [abs_def]
  have read: "only_reads m \<Longrightarrow> triple (?A r) m (\<lambda>_. ?A r) ?I" for r and m :: "'b cat_io"
    by (rule triple_error_weaken [OF triple_reads [where P = "\<lambda>n d. rules_ok n (cd_rules d) \<and> map_of (cd_rules d) (ui_PromotionID i) = Some r"]]) auto
  have find: "triple ?I (repo_Find (ui_PromotionID i)) (\<lambda>x w. case x of None \<Rightarrow> ?I w | Some rec \<Rightarrow> ?A (re_rule rec) w) ?I"
    unfolding repo_Find_def cat_query_def by (rule triple_cat_stmt) (auto simp: scanPromotion_def Let_def split: option.splits)
  have check: "triple (?A r) (check_update i) (\<lambda>_ w. (given (\<lambda>v. 0 < v) (ui_ProductID i) \<or> ui_ProductID i = None) \<and> (given (\<lambda>v. 0 < v) (ui_DiscountValue i) \<or> ui_DiscountValue i = None) \<and>
    (given (\<lambda>v. 0 \<le> v) (ui_ThresholdAmount i) \<or> ui_ThresholdAmount i = None) \<and> (given validStatus (ui_Status i) \<or> ui_Status i = None) \<and> ?A r w) ?I" for r
    unfolding check_update_def by (intro triple_if triple_fault triple_ret) (auto simp: given_def split: option.splits)
  have times: "opt_time p v w = (Inr t, w') \<Longrightarrow> (t = None) = (v = None)" for v t w w'
    by (auto simp: opt_time_def ret_def elim!: bindE_InrE split: option.splits)
  have opt: "triple (?A r) (opt_time p v) (\<lambda>t w. (t = None) = (v = None) \<and> ?A r w) ?I" for r v
    by (rule triple_value [OF read [OF reads_parts(2)] times])
  have store: "triple (?A r) (bindE (if ru_status f = StatusActive \<and> b then check_conflict (ru_product_id f) (ui_PromotionID i) (ru_starts_at f) (ru_ends_at f) else ret ())
       (\<lambda>_. bindE (repo_Update (ui_PromotionID i) c) k)) (\<lambda>_. ?I) ?I"
    if f: "f = apply_changes c r" "rule_ok r \<Longrightarrow> rule_ok f" "\<not> b \<Longrightarrow> ch_ProductID c = None \<and> ch_Status c = None \<and> ch_StartsAt c = None \<and> ch_EndsAt c = None"
      and k: "\<And>a. only_reads (k a)" for r f c b and k :: "bool \<Rightarrow> MutationResult cat_io"
  proof -
    have in_table: "rules_ok n rs \<and> map_of rs (ui_PromotionID i) = Some r \<Longrightarrow> rule_ok r \<and> apart_from rs (ui_PromotionID i) r" for n rs
      using rules_okD map_of_SomeD by metis
    have "triple (?A r) (if ru_status f = StatusActive \<and> b then check_conflict (ru_product_id f) (ui_PromotionID i) (ru_starts_at f) (ru_ends_at f) else ret ())
        (\<lambda>_ w. ?A r w \<and> apart_from (cd_rules (cw_db w)) (ui_PromotionID i) f) (?A r)"
      unfolding check_conflict_def promo_fault_def by (rule triple_may_write [where P = "\<lambda>n rs. rules_ok n rs \<and> map_of rs (ui_PromotionID i) = Some r" and i = "\<lambda>_. ui_PromotionID i"])
         (use in_table apart_unchanged inactive_apart [of f] f in auto)
    then have chk: "triple (?A r) (if ru_status f = StatusActive \<and> b then check_conflict (ru_product_id f) (ui_PromotionID i) (ru_starts_at f) (ru_ends_at f) else ret ())
        (\<lambda>_ w. rule_ok f \<and> ?A r w \<and> apart_from (cd_rules (cw_db w)) (ui_PromotionID i) f) ?I"
      by (rule triple_conseq) (use in_table f(2) in blast)+
    have upd: "triple (\<lambda>w. rule_ok f \<and> ?A r w \<and> apart_from (cd_rules (cw_db w)) (ui_PromotionID i) f) (repo_Update (ui_PromotionID i) c) (\<lambda>_. ?I) ?I"
      unfolding f(1) by (rule triple_pure) (rule triple_conseq [OF triple_repo_Update [of "ui_PromotionID i" c, unfolded I]]; auto simp: may_become_def)
    show ?thesis
      by (rule triple_bind [OF chk triple_bind [OF upd triple_reads [where P = "\<lambda>n d. rules_ok n (cd_rules d)", OF k]]])
  qed
  show ?thesis
    unfolding promo_Update_def I Let_def
    apply (intro triple_if triple_fault; (simp; fail)?)
    apply (rule triple_bind [OF find])
    subgoal for x
      apply (cases x; simp only: option.case)
       apply (rule triple_fault, assumption)
      apply (rule triple_bind [OF check], (rule triple_pure)+)
      apply (rule triple_bind [OF opt], rule triple_pure)
      apply (rule triple_bind [OF opt], rule triple_pure)
      apply (intro triple_if triple_fault; (simp; fail)?)
      apply (rule triple_bind [OF read], intro reads_intros)
      apply (rule store [OF refl])
        apply (rule rule_ok_changes; simp)
       apply simp
      apply (intro reads_intros)
      done
    done
qed

end
