(* ===== verification/Card_Safety.thy ===== *)
theory Card_Safety
  imports Product_Cards Promotion_Safety
begin

text \<open>
  The snapshot of product cards is an optimisation: right after it was rebuilt, every card and every list
  the product rpc answers is the one it computes from the tables.
\<close>

section \<open>Upserts\<close>

lemma upsert_lookup: "map_of (upsert g (k, v) t) j =
    (if j = k then Some (case map_of t k of None \<Rightarrow> v | Some old \<Rightarrow> g old v) else map_of t j)"
proof (cases "map_of t k")
  case None
  then show ?thesis by (auto simp: upsert_def map_add_def split: option.splits)
next
  case (Some old)
  have "map_of (map (\<lambda>(j, old). (j, if j = k then g old v else old)) t) j = map_option (\<lambda>x. if j = k then g x v else x) (map_of t j)" for j
    by (induction t) auto
  then show ?thesis using Some by (auto simp: upsert_def option.map_ident)
qed

lemma upsert_keys: "distinct (map fst t) \<Longrightarrow> distinct (map fst (upsert g (k, v) t)) \<and> set (map fst (upsert g (k, v) t)) = insert k (set (map fst t))"
proof (cases "map_of t k")
  case None
  assume "distinct (map fst t)"
  then show ?thesis using None by (auto simp: upsert_def map_of_eq_None_iff)
next
  case (Some old)
  assume "distinct (map fst t)"
  moreover have "map fst (map (\<lambda>(j, old). (j, if j = k then g old v else old)) t) = map fst t" by (induction t) auto
  moreover have "k \<in> set (map fst t)" using Some by (force dest: map_of_SomeD)
  ultimately show ?thesis using Some by (simp add: upsert_def insert_absorb del: map_map)
qed

lemma fold_upsert_keys: "distinct (map fst t) \<Longrightarrow> distinct (map fst (fold (upsert g) rows t))"
  by (induction rows arbitrary: t) (auto simp: upsert_keys)

lemma fold_upsert_lookup:
  "distinct (map fst rows) \<Longrightarrow> map_of (fold (upsert g) rows t) j =
     (case map_of rows j of None \<Rightarrow> map_of t j | Some v \<Rightarrow> Some (case map_of t j of None \<Rightarrow> v | Some old \<Rightarrow> g old v))"
proof (induction rows arbitrary: t)
  case (Cons a rows)
  obtain k v where a: "a = (k, v)" by fastforce
  have "j = k \<Longrightarrow> map_of rows j = None" using Cons.prems a by (auto simp: map_of_eq_None_iff)
  then show ?case using Cons.IH [of "upsert g a t"] Cons.prems a by (auto simp: upsert_lookup split: option.splits)
qed simp

section \<open>A fresh snapshot\<close>

definition fresh_cards :: "int \<Rightarrow> catalog_db \<Rightarrow> bool" where
  "fresh_cards now d \<longleftrightarrow> distinct (map fst (cd_products d)) \<and> distinct (map fst (cd_cards d)) \<and>
     (\<forall>(i, p)\<in>set (cd_products d). in_i64 (stock_available d i) \<and> (\<exists>v. map_of (cd_cards d) i = Some ((card_row now d (i, p))\<lparr>cs_version := v\<rparr>)))"

text \<open>What the tables say of a product.\<close>

definition table_card :: "int \<Rightarrow> catalog_db \<Rightarrow> int \<Rightarrow> card_resp option" where
  "table_card now d pid = map_option (\<lambda>p. cardResp pid p (limited_price now d pid) (stock_available d pid)) (active_product d pid)"

lemma fresh_snapshot_card:
  assumes "fresh_cards now d"
  shows "snapshot_card d pid = table_card now d pid"
proof (cases "map_of (cd_products d) pid")
  case None
  then show ?thesis by (simp add: snapshot_card_def table_card_def active_product_def split: option.splits)
next
  case (Some p)
  then have "(pid, p) \<in> set (cd_products d)" by (rule map_of_SomeD)
  then obtain v where "map_of (cd_cards d) pid = Some ((card_row now d (pid, p))\<lparr>cs_version := v\<rparr>)"
    using assms unfolding fresh_cards_def by fastforce
  then show ?thesis using Some
    by (simp add: snapshot_card_def table_card_def active_product_def card_row_def cardResp_def productCardSnapshotToResp_def split: prod.splits)
qed

lemma other_tables [simp]:
  "limited_price now (d\<lparr>cd_cards := c\<rparr>) = limited_price now d" "stock_available (d\<lparr>cd_cards := c\<rparr>) = stock_available d"
  "active_product (d\<lparr>cd_cards := c\<rparr>) = active_product d" "bucket_rows (d\<lparr>cd_cards := c\<rparr>) = bucket_rows d"
  "card_row now (d\<lparr>cd_cards := c\<rparr>) = card_row now d" "active_rows now (d\<lparr>cd_cards := c\<rparr>) = active_rows now d"
  by (auto simp: limited_price_def limited_prices_def stock_available_def bucket_rows_def active_product_def card_row_def active_rows_def fun_eq_iff split: option.splits)

lemma RebuildCards_fresh:
  assumes ok: "faults w = []" "distinct (map fst (cd_products (cw_db w)))" "distinct (map fst (cd_cards (cw_db w)))"
    and limit: "int (length (cd_products (cw_db w))) \<le> limit" and run: "RebuildCards 0 limit w = (Inr n, w')"
  shows "fresh_cards (cw_now w') (cw_db w') \<and> faults w' = []"
proof -
  let ?d = "cw_db w" and ?now = "cw_now w"
  have all: "chosen 0 limit ?d = sort_key fst (cd_products ?d)" using limit by (simp add: chosen_def)
  define rows where "rows = map (\<lambda>q. (fst q, card_row ?now ?d q)) (sort_key fst (cd_products ?d))"
  have w': "w' = w\<lparr>cw_db := ?d\<lparr>cd_cards := fold (upsert merge_card) rows (cd_cards ?d)\<rparr>\<rparr>"
    and fit: "list_all (\<lambda>(k, v). in_i64 (cs_stock_available v)) rows"
    using run ok(1) unfolding RebuildCards_def all rows_def [symmetric] by (auto simp: cat_stmt_def io_simps Let_def all rows_def split: if_splits prod.splits)
  have keys: "distinct (map fst rows)"
    using ok(2) by (simp add: rows_def comp_def distinct_map inj_on_def)
  have "in_i64 (stock_available ?d i) \<and> (\<exists>v. map_of (fold (upsert merge_card) rows (cd_cards ?d)) i = Some ((card_row ?now ?d (i, p))\<lparr>cs_version := v\<rparr>))"
    if "(i, p) \<in> set (cd_products ?d)" for i p
  proof -
    have in_rows: "(i, card_row ?now ?d (i, p)) \<in> set rows" using that by (force simp: rows_def)
    have "in_i64 (cs_stock_available (card_row ?now ?d (i, p)))" using fit in_rows by (auto simp: list_all_iff)
    moreover have "map_of rows i = Some (card_row ?now ?d (i, p))" using keys in_rows by simp
    ultimately show ?thesis
      by (auto simp: fold_upsert_lookup [OF keys] card_row_def merge_card_def split: prod.splits option.splits)
  qed
  then show ?thesis unfolding fresh_cards_def w' using ok fold_upsert_keys by auto
qed

section \<open>Both answers\<close>

lemma map_filter_sort_eq:
  assumes "distinct xs" "distinct ys" "\<And>x. x \<in> set xs \<and> f x \<noteq> None \<longleftrightarrow> x \<in> set ys \<and> f x \<noteq> None"
  shows "List.map_filter f (sort xs) = List.map_filter f (sort (ys :: 'a :: linorder list))"
proof -
  have "filter (\<lambda>x. f x \<noteq> None) (sort xs) = filter (\<lambda>x. f x \<noteq> None) (sort ys)"
    using assms by (intro sorted_distinct_set_unique sorted_wrt_filter) auto
  then show ?thesis by (simp add: map_filter_def)
qed

definition row_card :: "catalog_db \<Rightarrow> int \<times> cat_product \<times> int option \<Rightarrow> card_resp" where
  "row_card d = (\<lambda>(i, p, l). cardResp i p l (stock_available d i))"

lemma table_rows:
  "List.map_filter (table_card now d) (sort (map fst (cd_products d))) = map (row_card d) (active_rows now d)"
  by (simp add: table_card_def [abs_def] active_rows_def row_card_def map_filter_def comp_def cong: map_cong) (auto simp: map_eq_conv)

lemma fresh_rows:
  assumes "fresh_cards now d"
  shows "snapshot_rows d = map (row_card d) (active_rows now d)"
proof -
  have "active_product d i \<noteq> None \<Longrightarrow> i \<in> fst ` set (cd_products d) \<and> i \<in> fst ` set (cd_cards d)" for i
    using assms unfolding fresh_cards_def active_product_def by (force dest!: map_of_SomeD split: option.splits if_splits)
  then have "List.map_filter (table_card now d) (sort (map fst (cd_cards d))) = List.map_filter (table_card now d) (sort (map fst (cd_products d)))"
    using assms by (intro map_filter_sort_eq) (auto simp: fresh_cards_def table_card_def)
  then show ?thesis
    using ext [of "snapshot_card d" "table_card now d", OF fresh_snapshot_card [OF assms]] by (simp add: snapshot_rows_def table_rows)
qed

lemma i64_sum: "i64 (i64 x + y) = i64 (x + y)"
  by (simp add: i64_def algebra_simps mod_simps)

lemma fold_i64_sum: "in_i64 n \<Longrightarrow> fold (\<lambda>s n. i64 (n + s)) xs n = i64 (n + sum_list xs)"
proof (induction xs arbitrary: n)
  case (Cons a xs)
  then show ?case by (simp add: i64_sum add.assoc)
qed (simp add: i64_id)

lemma product_stock_ok:
  assumes "faults w = []" "in_i64 (stock_available (cw_db w) pid)"
  shows "product_stock pid w = (Inr (stock_available (cw_db w) pid), w)"
proof (cases "map_of (cd_stock (cw_db w)) pid")
  case None
  then have "in_i64 (sum_list (bucket_rows (cw_db w) pid))" using assms(2) by (simp add: stock_available_def)
  then have "fold (\<lambda>s n. i64 (n + s)) (bucket_rows (cw_db w) pid) 0 = stock_available (cw_db w) pid"
    using None by (subst fold_i64_sum) (simp_all add: in_i64_def stock_available_def i64_id [unfolded in_i64_def])
  moreover have "product_stock pid w = (Inr (fold (\<lambda>s n. i64 (n + s)) (bucket_rows (cw_db w) pid) 0), w)"
    unfolding product_stock_def cat_query_def cat_stmt_def bindE_def attempt_def ext_call_ok [OF assms(1)] None row_of_def by (simp add: ext_call_ok [OF assms(1)] ret_def)
  ultimately show ?thesis by simp
next
  case (Some s)
  then show ?thesis using assms(1) by (simp add: product_stock_def cat_stmt_def row_of_def io_simps stock_available_def)
qed

text \<open>A world with the cards taken out: the rpc has only the tables.\<close>

definition no_cards :: "catalog_world \<Rightarrow> catalog_world" where
  "no_cards w = w\<lparr>cw_db := (cw_db w)\<lparr>cd_cards := []\<rparr>\<rparr>"

lemma GetProductCard_fresh:
  assumes "faults w = []" "fresh_cards (cw_now w) (cw_db w)"
  shows "fst (GetProductCard pid w) = fst (GetProductCard pid (no_cards w))"
proof -
  let ?d = "cw_db w"
  have none: "snapshot_card (cw_db (no_cards w)) pid = None" by (simp add: snapshot_card_def no_cards_def)
  have f: "faults (no_cards w) = []" using assms(1) by (simp add: no_cards_def)
  show ?thesis
  proof (cases "active_product ?d pid")
    case None
    then show ?thesis
      using assms(1) f none by (simp add: GetProductCard_def cat_stmt_def fresh_snapshot_card [OF assms(2)] table_card_def row_of_def io_simps) (simp add: no_cards_def)
  next
    case (Some p)
    then have "in_i64 (stock_available ?d pid)"
      using assms(2) unfolding fresh_cards_def active_product_def by (force dest!: map_of_SomeD split: option.splits if_splits)
    then have stock: "product_stock pid (no_cards w) = (Inr (stock_available ?d pid), no_cards w)"
      using product_stock_ok [OF f] by (simp add: no_cards_def)
    have "GetProductCard pid w = (Inr (cardResp pid p (limited_price (cw_now w) ?d pid) (stock_available ?d pid)), w)"
      using assms(1) Some by (simp add: GetProductCard_def cat_stmt_def fresh_snapshot_card [OF assms(2)] table_card_def row_of_def io_simps)
    moreover have "GetProductCard pid (no_cards w) = (Inr (cardResp pid p (limited_price (cw_now w) ?d pid) (stock_available ?d pid)), no_cards w)"
      using f none Some stock by (simp add: GetProductCard_def cat_stmt_def row_of_def io_simps) (simp add: no_cards_def io_simps)
    ultimately show ?thesis by simp
  qed
qed

lemma list_stock_ok:
  assumes "faults w = []" "\<forall>i\<in>set ids. in_i64 (stock_available (cw_db w) i)"
  shows "list_stock ids w = (Inr (map_of (map (\<lambda>i. (i, stock_available (cw_db w) i)) ids)), w)"
  using assms by (simp add: list_stock_def cat_stmt_def scan_sums_def io_simps list_all_iff)

lemma map_of_map_keys: "map_of (map (\<lambda>i. (i, f i)) xs) k = (if k \<in> set xs then Some (f k) else None)"
  by (induction xs) auto

definition count_active :: "catalog_db \<Rightarrow> int" where
  "count_active d = int (length (filter (\<lambda>(i, p). cp_status p = 1) (cd_products d)))"

text \<open>The rows of a request and what the tables answer.\<close>

definition request_rows :: "ListProductsReq \<Rightarrow> int \<Rightarrow> catalog_db \<Rightarrow> (int \<times> cat_product \<times> int option) list" where
  "request_rows r now d = (if lr_ProductIds r \<noteq> [] then filter (\<lambda>(i, p, l). i \<in> set (lr_ProductIds r)) (active_rows now d) else page_rows r (active_rows now d))"

definition table_list :: "ListProductsReq \<Rightarrow> int \<Rightarrow> catalog_db \<Rightarrow> card_resp list \<times> int" where
  "table_list r now d = (let rows = request_rows r now d in
     if rows = [] then ([], 0) else (map (row_card d) rows, if lr_PageSize r > 0 then count_active d else int (length rows)))"

lemma cards_aside [simp]: "row_card (d\<lparr>cd_cards := c\<rparr>) = row_card d" "count_active (d\<lparr>cd_cards := c\<rparr>) = count_active d"
  by (simp_all add: row_card_def count_active_def)

lemma page_rows_set: "set (page_rows r xs) \<subseteq> set xs"
  by (auto simp: page_rows_def Let_def dest: in_set_takeD in_set_dropD)

lemma page_rows_map: "page_rows r (map f xs) = map f (page_rows r xs)"
  by (simp add: page_rows_def Let_def take_map drop_map)

lemma request_rows_active: "q \<in> set (request_rows r now d) \<Longrightarrow> q \<in> set (active_rows now d)"
  using page_rows_set [of r "active_rows now d"] by (auto simp: request_rows_def split: if_splits)

lemma active_rowsD: "(i, p, l) \<in> set (active_rows now d) \<Longrightarrow> active_product d i = Some p"
  by (auto simp: active_rows_def map_filter_def split: if_splits)

lemma ListProducts_tables:
  assumes f: "faults w = []" and miss: "listProductCardSnapshots r w = (Inr None, w)"
    and fit: "\<And>i p. active_product (cw_db w) i = Some p \<Longrightarrow> in_i64 (stock_available (cw_db w) i)"
  shows "fst (ListProducts r w) = Inr (table_list r (cw_now w) (cw_db w))"
proof -
  let ?rows = "request_rows r (cw_now w) (cw_db w)"
  have "\<forall>i\<in>set (map fst ?rows). in_i64 (stock_available (cw_db w) i)"
    using fit active_rowsD request_rows_active by fastforce
  note stock = list_stock_ok [OF f this]
  have items: "map (\<lambda>(i, p, l). cardResp i p l (case map_of (map (\<lambda>i. (i, stock_available (cw_db w) i)) (map fst ?rows)) i of None \<Rightarrow> 0 | Some s \<Rightarrow> s)) ?rows = map (row_card (cw_db w)) ?rows"
    by (rule map_cong [OF refl]) (auto simp: row_card_def map_of_map_keys simp del: map_map, force)
  show ?thesis
    using f miss stock items
    by (simp add: ListProducts_def cat_run request_rows_def [symmetric] table_list_def count_active_def Let_def)
qed

lemma length_active_rows:
  assumes "distinct (map fst (cd_products d))"
  shows "int (length (active_rows now d)) = count_active d"
proof -
  let ?on = "\<lambda>i. active_product d i \<noteq> None"
  have "length (active_rows now d) = length (filter ?on (sort (map fst (cd_products d))))"
    by (simp add: active_rows_def map_filter_def)
  also have "\<dots> = length (filter ?on (map fst (cd_products d)))"
    by (metis filter_sort length_sort)
  also have "filter ?on (map fst (cd_products d)) = map fst (filter (\<lambda>(i, p). cp_status p = 1) (cd_products d))"
    using assms unfolding filter_map by (intro arg_cong [where f = "map fst"] filter_cong refl) (auto simp: active_product_def split: if_splits)
  finally show ?thesis by (simp add: count_active_def)
qed

lemma filter_rows: "filter (\<lambda>c. gc_ProductId c \<in> S) (map (row_card d) xs) = map (row_card d) (filter (\<lambda>(i, p, l). i \<in> S) xs)"
  by (simp add: filter_map comp_def row_card_def cardResp_def case_prod_beta')

lemma listProductCardSnapshots_fresh:
  assumes f: "faults w = []" and fresh: "fresh_cards (cw_now w) (cw_db w)" and r: "lr_ProductIds r = [] \<or> lr_PageSize r \<le> 0"
  shows "listProductCardSnapshots r w \<in> {(Inr None, w), (Inr (Some (table_list r (cw_now w) (cw_db w))), w)}"
proof (cases "lr_ProductIds r = []")
  case False
  then show ?thesis
    using f r fresh_rows [OF fresh]
    by (auto simp: listProductCardSnapshots_def cat_run filter_rows table_list_def request_rows_def Let_def)
next
  case True
  note total = length_active_rows [of "cw_db w" "cw_now w"]
  have d: "distinct (map fst (cd_products (cw_db w)))" using fresh by (simp add: fresh_cards_def)
  have "page_rows r (snapshot_rows (cw_db w)) = map (row_card (cw_db w)) (request_rows r (cw_now w) (cw_db w))"
    using True fresh_rows [OF fresh] by (simp add: request_rows_def page_rows_map)
  moreover have "\<not> lr_PageSize r > 0 \<Longrightarrow> int (length (request_rows r (cw_now w) (cw_db w))) = count_active (cw_db w)"
    using True total [OF d] by (simp add: request_rows_def page_rows_def)
  ultimately show ?thesis
    using f True
    by (auto simp: listProductCardSnapshots_def cat_run table_list_def Let_def completeness_def count_active_def)
qed

lemma ListProducts_fresh:
  assumes f: "faults w = []" and fresh: "fresh_cards (cw_now w) (cw_db w)" and r: "lr_ProductIds r = [] \<or> lr_PageSize r \<le> 0"
  shows "fst (ListProducts r w) = fst (ListProducts r (no_cards w))"
proof -
  have fit: "in_i64 (stock_available (cw_db w) i)" if "active_product (cw_db w) i = Some p" for i p
    using that fresh unfolding fresh_cards_def active_product_def by (force dest!: map_of_SomeD split: option.splits if_splits)
  have "listProductCardSnapshots r (no_cards w) = (Inr None, no_cards w)"
    using f by (simp add: listProductCardSnapshots_def no_cards_def cat_run snapshot_rows_def map_filter_def page_rows_def)
  then have "fst (ListProducts r (no_cards w)) = Inr (table_list r (cw_now (no_cards w)) (cw_db (no_cards w)))"
    by (rule ListProducts_tables [rotated]) (use f fit in \<open>auto simp: no_cards_def\<close>)
  also have "\<dots> = Inr (table_list r (cw_now w) (cw_db w))"
    by (simp add: no_cards_def table_list_def request_rows_def Let_def)
  also have "\<dots> = fst (ListProducts r w)"
    using listProductCardSnapshots_fresh [OF f fresh r] ListProducts_tables [OF f _ fit] by (auto simp: ListProducts_def attempt_def bindE_def ret_def)
  finally show ?thesis by simp
qed

end
