(* ===== verification/Entry_Promotion.thy ===== *)
theory Entry_Promotion
  imports Product_Cards
begin

text \<open>
  The promotion handlers of the entry api (\<open>app/entry/api/internal/handler/adminpromotionhandler.go\<close>), which
  write the table the gateway writes, and of the gateway
  (\<open>app/gateway/hertz/internal/handler/admin_promotion.go\<close>), which call its service and refresh the cards.
  An answer with an error status is a fault with the status as its reason.  The audit log and the cache
  of the catalogue are not part of the catalogue's tables; their updates are left out.
\<close>

section \<open>Answers and schema\<close>

definition writeBadRequest :: "string \<Rightarrow> 'a cat_io" where
  "writeBadRequest message = fail (Fault ''400'' message)"

definition writeNotFound :: "string \<Rightarrow> 'a cat_io" where
  "writeNotFound message = fail (Fault ''404'' message)"

definition writeConflict :: "string \<Rightarrow> 'a cat_io" where
  "writeConflict message = fail (Fault ''409'' message)"

definition entry_RawDB :: "unit cat_io" where
  "entry_RawDB = ext_call (ret ())"

definition defaultMerchantID :: int where
  "defaultMerchantID = 1000"

text \<open>Creating a table that exists changes nothing; the row of the default merchant is written, with status 1.\<close>

definition ensureMerchantBaseSchema :: "unit cat_io" where
  "ensureMerchantBaseSchema =
     bindE (cat_exec (\<lambda>now d. d)) (\<lambda>_. bindE (cat_exec (\<lambda>now d. d)) (\<lambda>_. bindE (cat_exec (\<lambda>now d. d)) (\<lambda>_.
     cat_exec (\<lambda>now d. d\<lparr>cd_merchants := upsert (\<lambda>old new. new) (defaultMerchantID, 1) (cd_merchants d)\<rparr>))))"

text \<open>The column is there.\<close>

definition ensureProductMerchantColumn :: "unit cat_io" where
  "ensureProductMerchantColumn = bindE (cat_query (\<lambda>now d. 1 :: int)) (\<lambda>exists. if exists = 0 then cat_exec (\<lambda>now d. d) else ret ())"

definition ensureProductStockSnapshotTable :: "unit cat_io" where
  "ensureProductStockSnapshotTable = cat_exec (\<lambda>now d. d)"

definition ensureProductCardSnapshotTable :: "unit cat_io" where
  "ensureProductCardSnapshotTable = cat_exec (\<lambda>now d. d)"

definition ensureProductMerchantSchema :: "unit cat_io" where
  "ensureProductMerchantSchema =
     bindE ensureMerchantBaseSchema (\<lambda>_. bindE ensureProductMerchantColumn (\<lambda>_.
     bindE ensureProductStockSnapshotTable (\<lambda>_. ensureProductCardSnapshotTable)))"

section \<open>Refreshing cards\<close>

text \<open>The statements of the entry api are those of the gateway.\<close>

definition rebuildProductStockSnapshots :: "int \<Rightarrow> int \<Rightarrow> int cat_io" where
  "rebuildProductStockSnapshots pid limit = RebuildStock pid limit"

definition rebuildProductCardSnapshots :: "int \<Rightarrow> int \<Rightarrow> int cat_io" where
  "rebuildProductCardSnapshots pid limit = RebuildCards pid limit"

definition refreshProductCardSnapshotBestEffort :: "int \<Rightarrow> unit cat_io" where
  "refreshProductCardSnapshotBestEffort pid =
     (if pid \<le> 0 then ret ()
      else or_else (bindE entry_RawDB (\<lambda>_. bindE ensureProductMerchantSchema (\<lambda>_. bindE (rebuildProductCardSnapshots pid 1) (\<lambda>_. ret ())))) ())"

definition refreshPromotionProductCardSnapshotsBestEffort :: "int list \<Rightarrow> unit cat_io" where
  "refreshPromotionProductCardSnapshotsBestEffort ids = for_each (uniqueIDs [] ids) refreshProductCardSnapshotBestEffort"

definition AdminStockSnapshotRebuildHandler :: "int \<Rightarrow> int \<Rightarrow> (int \<times> int) cat_io" where
  "AdminStockSnapshotRebuildHandler pid limit =
     (if pid < 0 then writeBadRequest ''product_id must be positive''
      else let limit = (if limit \<le> 0 \<or> limit > 10000 then 10000 else limit) in
           bindE entry_RawDB (\<lambda>_. bindE ensureProductMerchantSchema (\<lambda>_.
           bindE (rebuildProductStockSnapshots pid limit) (\<lambda>affected.
           bindE (rebuildProductCardSnapshots pid limit) (\<lambda>_. ret (affected, limit))))))"

definition AdminProductCardSnapshotRefreshHandler :: "int \<Rightarrow> int \<Rightarrow> int \<Rightarrow> (int \<times> int) cat_io" where
  "AdminProductCardSnapshotRefreshHandler pid limit windowMinutes =
     (if pid < 0 then writeBadRequest ''product_id must be positive''
      else let limit = (if limit \<le> 0 \<or> limit > 10000 then 1000 else limit);
               windowMinutes = (if windowMinutes \<le> 0 \<or> windowMinutes > 24 * 60 then 120 else windowMinutes) in
           bindE entry_RawDB (\<lambda>_. bindE ensureProductMerchantSchema (\<lambda>_.
           bindE (if pid = 0 then bindE cat_now (\<lambda>now. repo_WindowAffectedProductIDs now windowMinutes limit) else ret [pid]) (\<lambda>ids.
           let ids = uniqueIDs [] ids in
           bindE (fold_io (\<lambda>i affected. bindE (rebuildProductCardSnapshots i 1) (\<lambda>rows. ret (i64 (affected + rows)))) ids 0) (\<lambda>affected.
           ret (int (length ids), affected))))))"

section \<open>The handlers of the entry api\<close>

definition http_time :: "(string \<Rightarrow> string \<Rightarrow> int option) \<Rightarrow> string \<Rightarrow> int option cat_io" where
  "http_time parse_in value = (case parseTime parse_in value of Inl m \<Rightarrow> writeBadRequest m | Inr t \<Rightarrow> ret t)"

definition parseAdminPromotionWindow :: "(string \<Rightarrow> string \<Rightarrow> int option) \<Rightarrow> string \<Rightarrow> string \<Rightarrow> (int option \<times> int option) cat_io" where
  "parseAdminPromotionWindow parse_in s e =
     bindE (http_time parse_in s) (\<lambda>startsAt. bindE (http_time parse_in e) (\<lambda>endsAt.
     if \<not> validWindow startsAt endsAt then writeBadRequest ''ends_at must be after starts_at'' else ret (startsAt, endsAt)))"

definition adminDBProductExists :: "int \<Rightarrow> bool cat_io" where
  "adminDBProductExists pid = cat_query (\<lambda>now d. map_of (cd_products d) pid \<noteq> None)"

definition adminPromotionDiscountWithinSale :: "int \<Rightarrow> int \<Rightarrow> bool cat_io" where
  "adminPromotionDiscountWithinSale pid discount = bindE (ProductSalePrice pid) (\<lambda>x. ret (given (\<lambda>sale. discount \<le> sale) x))"

definition AdminPromotionCreateHandler :: "(string \<Rightarrow> string \<Rightarrow> int option) \<Rightarrow> CreateInput \<Rightarrow> int cat_io" where
  "AdminPromotionCreateHandler parse_in r =
     (let ty = normalizeType (ci_Type r) in
      if ci_ProductID r \<le> 0 \<or> ci_DiscountValue r \<le> 0 \<or> ci_ThresholdAmount r < 0
      then writeBadRequest ''product_id, positive discount_value and non-negative threshold_amount are required''
      else if ty \<noteq> TypeLimitedPrice then writeBadRequest ''unsupported promotion type''
      else let status = (if ci_Status r = 0 then 1 else ci_Status r) in
      if status \<noteq> 1 \<and> status \<noteq> 2 then writeBadRequest ''status must be 1 or 2''
      else bindE (parseAdminPromotionWindow parse_in (ci_StartsAt r) (ci_EndsAt r)) (\<lambda>(startsAt, endsAt).
           bindE entry_RawDB (\<lambda>_.
           bindE (adminDBProductExists (ci_ProductID r)) (\<lambda>exists.
           if \<not> exists then writeNotFound ''product not found''
           else bindE (adminPromotionDiscountWithinSale (ci_ProductID r) (ci_DiscountValue r)) (\<lambda>valid.
                if \<not> valid then writeBadRequest ''discount_value must be <= product sale_price_fen''
                else bindE (if status = 1
                            then bindE (HasActiveConflict (ci_ProductID r) 0 startsAt endsAt) (\<lambda>conflict.
                                 if conflict then writeConflict ''active limited price promotion window overlaps'' else ret ())
                            else ret ()) (\<lambda>_.
                     bindE (repo_Insert \<lparr>ru_product_id = ci_ProductID r, ru_type = ty, ru_discount_value = ci_DiscountValue r,
                        ru_threshold_amount = ci_ThresholdAmount r, ru_starts_at = startsAt, ru_ends_at = endsAt, ru_status = status\<rparr>) (\<lambda>i.
                     bindE (refreshProductCardSnapshotBestEffort (ci_ProductID r)) (\<lambda>_. ret i))))))))"

definition adminPromotionProductIDsBestEffort :: "int \<Rightarrow> int list cat_io" where
  "adminPromotionProductIDsBestEffort i =
     (if i \<le> 0 then ret []
      else or_else (cat_query (\<lambda>now d. case map_of (cd_rules d) i of None \<Rightarrow> [] | Some r \<Rightarrow> if ru_product_id r \<le> 0 then [] else [ru_product_id r])) [])"

definition optional_time :: "(string \<Rightarrow> string \<Rightarrow> int option) \<Rightarrow> string option \<Rightarrow> int option option cat_io" where
  "optional_time parse_in v = (case v of None \<Rightarrow> ret None | Some s \<Rightarrow> bindE (http_time parse_in s) (\<lambda>t. ret (Some t)))"

text \<open>The fields in the order the handler looks at them, as the columns to set.\<close>

definition update_fields :: "(string \<Rightarrow> string \<Rightarrow> int option) \<Rightarrow> UpdateInput \<Rightarrow> Changes cat_io" where
  "update_fields parse_in u =
     bindE (case ui_ProductID u of None \<Rightarrow> ret () | Some p \<Rightarrow>
              if p \<le> 0 then writeBadRequest ''product_id required''
              else bindE (adminDBProductExists p) (\<lambda>exists. if \<not> exists then writeNotFound ''product not found'' else ret ())) (\<lambda>_.
     if given (\<lambda>v. v \<le> 0) (ui_DiscountValue u) then writeBadRequest ''discount_value must be positive''
     else if given (\<lambda>v. v < 0) (ui_ThresholdAmount u) then writeBadRequest ''threshold_amount must be non-negative''
     else bindE (optional_time parse_in (ui_StartsAt u)) (\<lambda>s.
          bindE (optional_time parse_in (ui_EndsAt u)) (\<lambda>e.
          if given (\<lambda>v. v \<noteq> 1 \<and> v \<noteq> 2) (ui_Status u) then writeBadRequest ''status must be 1 or 2''
          else ret \<lparr>ch_ProductID = ui_ProductID u, ch_DiscountValue = ui_DiscountValue u, ch_ThresholdAmount = ui_ThresholdAmount u,
                    ch_StartsAt = s, ch_EndsAt = e, ch_Status = ui_Status u\<rparr>)))"

definition row_of_promotion :: "int \<Rightarrow> promotion_rule option cat_io" where
  "row_of_promotion i = cat_query (\<lambda>now d. map_of (cd_rules d) i)"

definition final_discount_ok :: "int \<Rightarrow> Changes \<Rightarrow> unit cat_io" where
  "final_discount_ok i c =
     (if ch_ProductID c = None \<and> ch_DiscountValue c = None then ret ()
      else bindE (row_of_promotion i) (\<lambda>x. case x of None \<Rightarrow> writeNotFound ''promotion not found'' | Some r \<Rightarrow>
           bindE (adminPromotionDiscountWithinSale (ru_product_id (apply_changes c r)) (ru_discount_value (apply_changes c r))) (\<lambda>valid.
           if \<not> valid then writeBadRequest ''discount_value must be <= product sale_price_fen'' else ret ())))"

definition final_window_free :: "int \<Rightarrow> Changes \<Rightarrow> promotion_rule option cat_io" where
  "final_window_free i c =
     (if ch_ProductID c = None \<and> ch_Status c = None \<and> ch_StartsAt c = None \<and> ch_EndsAt c = None then ret None
      else bindE (row_of_promotion i) (\<lambda>x. case x of None \<Rightarrow> writeNotFound ''promotion not found'' | Some r \<Rightarrow>
           let f = apply_changes c r in
           bindE (if ru_status f = 1
                  then bindE (HasActiveConflict (ru_product_id f) i (ru_starts_at f) (ru_ends_at f)) (\<lambda>conflict.
                       if conflict then writeConflict ''active limited price promotion window overlaps'' else ret ())
                  else ret ()) (\<lambda>_. ret (Some r))))"

definition final_window_valid :: "int \<Rightarrow> Changes \<Rightarrow> promotion_rule option \<Rightarrow> unit cat_io" where
  "final_window_valid i c current =
     (if ch_StartsAt c = None \<and> ch_EndsAt c = None then ret ()
      else bindE (case current of Some r \<Rightarrow> ret (Some r) | None \<Rightarrow> row_of_promotion i) (\<lambda>x. case x of
             None \<Rightarrow> writeNotFound ''promotion not found''
           | Some r \<Rightarrow> let f = apply_changes c r in
               if \<not> validWindow (ru_starts_at f) (ru_ends_at f) then writeBadRequest ''ends_at must be after starts_at'' else ret ()))"

definition AdminPromotionUpdateHandler :: "(string \<Rightarrow> string \<Rightarrow> int option) \<Rightarrow> UpdateInput \<Rightarrow> unit cat_io" where
  "AdminPromotionUpdateHandler parse_in u =
     (if ui_PromotionID u \<le> 0 then writeBadRequest ''promotion_id required''
      else bindE entry_RawDB (\<lambda>_.
           bindE (adminPromotionProductIDsBestEffort (ui_PromotionID u)) (\<lambda>previous.
           bindE (update_fields parse_in u) (\<lambda>c.
           if no_changes c then writeBadRequest ''no fields to update''
           else bindE (final_discount_ok (ui_PromotionID u) c) (\<lambda>_.
                bindE (final_window_free (ui_PromotionID u) c) (\<lambda>current.
                bindE (final_window_valid (ui_PromotionID u) c current) (\<lambda>_.
                bindE (repo_Update (ui_PromotionID u) c) (\<lambda>found.
                if \<not> found then writeNotFound ''promotion not found''
                else bindE (adminPromotionProductIDsBestEffort (ui_PromotionID u)) (\<lambda>updated.
                     refreshPromotionProductCardSnapshotsBestEffort (previous @ updated))))))))))"

definition AdminPromotionDetailHandler :: "(int \<Rightarrow> string) \<Rightarrow> int \<Rightarrow> promo_item cat_io" where
  "AdminPromotionDetailHandler show_time i =
     (if i \<le> 0 then writeBadRequest ''promotion_id required''
      else bindE entry_RawDB (\<lambda>_. bindE (repo_Find i) (\<lambda>x. case x of
             None \<Rightarrow> writeNotFound ''promotion not found''
           | Some rec \<Rightarrow> bindE cat_now (\<lambda>now. ret (present show_time rec now)))))"

section \<open>The handlers of the gateway\<close>

definition refreshProductCardSnapshotsBestEffort :: "int list \<Rightarrow> unit cat_io" where
  "refreshProductCardSnapshotsBestEffort ids = for_each (uniqueIDs [] ids) (\<lambda>i. or_else (bindE (RebuildCards i 1) (\<lambda>_. ret ())) ())"

text \<open>\<open>failPromotion\<close>: the status and the application error of a failed call.\<close>

definition failPromotion :: "string \<Rightarrow> go_error \<Rightarrow> nat \<times> go_error" where
  "failPromotion operation e = (case e of
       Fault reason message \<Rightarrow>
         if reason = ''product_not_found'' then (404, app_new CodeProductNotFound message)
         else if reason = ''promotion_not_found'' then (404, app_new CodeNotFound message)
         else if reason = ''window_conflict'' then (409, app_new CodeConflict message)
         else (400, app_new CodeInvalidArgument message)
     | _ \<Rightarrow> (502, app_wrap CodeInternal operation e))"

definition gateway_PromotionCreate :: "(string \<Rightarrow> string \<Rightarrow> int option) \<Rightarrow> CreateInput \<Rightarrow> ((nat \<times> go_error) + int) cat_io" where
  "gateway_PromotionCreate parse_in r = bindE (attempt (promo_Create parse_in r)) (\<lambda>x. case x of
       Inl e \<Rightarrow> ret (Inl (failPromotion ''admin promotion create failed'' e))
     | Inr m \<Rightarrow> bindE (refreshProductCardSnapshotsBestEffort (mr_AffectedProductIDs m)) (\<lambda>_. ret (Inr (mr_PromotionID m))))"

definition gateway_PromotionUpdate :: "(string \<Rightarrow> string \<Rightarrow> int option) \<Rightarrow> UpdateInput \<Rightarrow> ((nat \<times> go_error) + unit) cat_io" where
  "gateway_PromotionUpdate parse_in u = bindE (attempt (promo_Update parse_in u)) (\<lambda>x. case x of
       Inl e \<Rightarrow> ret (Inl (failPromotion ''admin promotion update failed'' e))
     | Inr m \<Rightarrow> bindE (refreshProductCardSnapshotsBestEffort (mr_AffectedProductIDs m)) (\<lambda>_. ret (Inr ())))"

end
