(* ===== verification/Product_Command.thy ===== *)
theory Product_Command
  imports Entry_Promotion
begin

text \<open>
  Product commands of the gateway: the service (\<open>application/productcommand/service.go\<close>), its repository
  (\<open>adapters/productmysql/product_command_create.go\<close>, \<open>product_command_update.go\<close>), the initial stock of a
  new product (\<open>adapters/productmysql/inventory_seed.go\<close>) and the handlers of the admin
  (\<open>handler/admin_product_mutation.go\<close>, \<open>handler/product_inventory_seed.go\<close>, \<open>handler/stock_snapshot.go\<close>).
  The answer of the inventory service to a seed is the parameter \<open>seed\<close>; the caches and
  the audit log are not part of the catalogue's tables.
\<close>

record ProductInput =
  pi_Name :: string
  pi_ImageURL :: string
  pi_MerchantID :: int
  pi_OriginPriceFen :: int
  pi_SalePriceFen :: int
  pi_StockAvailable :: int
  pi_SupplierID :: int
  pi_Status :: int

record ProductChange =
  pu_ProductID :: int
  pu_MerchantID :: int
  pu_Name :: string
  pu_ImageURL :: string
  pu_SalePriceFen :: "int option"
  pu_OriginPriceFen :: "int option"
  pu_SupplierID :: "int option"
  pu_Status :: "int option"

section \<open>The repository\<close>

text \<open>A transaction on the catalogue; a rejection rolls it back and is not an error.\<close>

definition cat_tx :: "'a cat_io \<Rightarrow> (string + 'a) cat_io" where
  "cat_tx body w = (case with_tx cw_db (\<lambda>d w. w\<lparr>cw_db := d\<rparr>) (\<lambda>e. e) (\<lambda>_ e. e) body w of
       (Inl (Fault reason m), w') \<Rightarrow> (if reason = ''rejected'' then (Inr (Inl m), w') else (Inl (Fault reason m), w'))
     | (Inl e, w') \<Rightarrow> (Inl e, w')
     | (Inr a, w') \<Rightarrow> (Inr (Inr a), w'))"

definition reject :: "string \<Rightarrow> 'a cat_io" where
  "reject rejection = fail (Fault ''rejected'' rejection)"

definition lock_active :: "(catalog_db \<Rightarrow> (int \<times> int) list) \<Rightarrow> string \<Rightarrow> int \<Rightarrow> unit cat_io" where
  "lock_active table rejection i =
     bindE (cat_query (\<lambda>now d. map_of (table d) i = Some 1)) (\<lambda>found. if \<not> found then reject rejection else ret ())"

definition insert_new :: "int \<times> 'v \<Rightarrow> (int \<times> 'v) list \<Rightarrow> (go_error + unit) \<times> (int \<times> 'v) list" where
  "insert_new = (\<lambda>(k, v) t. if map_of t k = None then (Inr (), t @ [(k, v)]) else (Inl (RawError ''Error 1062: Duplicate entry''), t))"

definition command_Create :: "ProductInput \<Rightarrow> (string + int) cat_io" where
  "command_Create r = cat_tx (
     bindE (lock_active cd_suppliers ''supplier_not_found'' (pi_SupplierID r)) (\<lambda>_.
     bindE (lock_active cd_merchants ''merchant_not_found'' (pi_MerchantID r)) (\<lambda>_.
     bindE (cat_query (\<lambda>now d. if cd_products d = [] then 100 else i64 (Max (set (map fst (cd_products d))) + 1))) (\<lambda>pid.
     bindE (cat_stmt (\<lambda>now d. let (x, t) = insert_new (pid, \<lparr>cp_merchant_id = Some (pi_MerchantID r), cp_name = pi_Name r, cp_image_url = Some (pi_ImageURL r),
         cp_origin_price_fen = pi_OriginPriceFen r, cp_sale_price_fen = pi_SalePriceFen r, cp_status = 2, cp_supplier_id = pi_SupplierID r,
         cp_stock = pi_StockAvailable r\<rparr>) (cd_products d) in (x, d\<lparr>cd_products := t\<rparr>))) (\<lambda>_.
     bindE (cat_stmt (\<lambda>now d. let (x, t) = insert_new (pid, \<lparr>se_desired_total = pi_StockAvailable r, se_shard_count = 4, se_desired_status = pi_Status r,
         se_status = 0, se_attempt_count = 0, se_last_error = []\<rparr>) (cd_seeds d) in (x, d\<lparr>cd_seeds := t\<rparr>))) (\<lambda>_.
     ret pid))))))"

definition changed_product :: "ProductChange \<Rightarrow> cat_product \<Rightarrow> cat_product" where
  "changed_product c p = p\<lparr>
     cp_name := (if pu_Name c \<noteq> [] then pu_Name c else cp_name p),
     cp_image_url := (if pu_ImageURL c \<noteq> [] then Some (pu_ImageURL c) else cp_image_url p),
     cp_origin_price_fen := (case pu_OriginPriceFen c of None \<Rightarrow> cp_origin_price_fen p | Some v \<Rightarrow> v),
     cp_sale_price_fen := (case pu_SalePriceFen c of None \<Rightarrow> cp_sale_price_fen p | Some v \<Rightarrow> v),
     cp_supplier_id := (case pu_SupplierID c of None \<Rightarrow> cp_supplier_id p | Some v \<Rightarrow> v),
     cp_status := (case pu_Status c of None \<Rightarrow> cp_status p | Some v \<Rightarrow> v)\<rparr>"

definition upd_product :: "int \<Rightarrow> (cat_product \<Rightarrow> cat_product) \<Rightarrow> catalog_db \<Rightarrow> catalog_db" where
  "upd_product i f d = d\<lparr>cd_products := map (\<lambda>(k, p). (k, if k = i then f p else p)) (cd_products d)\<rparr>"

definition own_product :: "int \<Rightarrow> int \<Rightarrow> catalog_db \<Rightarrow> cat_product option" where
  "own_product pid merchant d = (case map_of (cd_products d) pid of None \<Rightarrow> None
     | Some p \<Rightarrow> if merchant > 0 \<longrightarrow> cp_merchant_id p = Some merchant then Some p else None)"

text \<open>The answer \<open>Inl\<close> carries the rejection; no product in the merchant's scope is the rejection \<open>not_found\<close>.\<close>

definition command_Update :: "ProductChange \<Rightarrow> (string + unit) cat_io" where
  "command_Update c = cat_tx (
     bindE (cat_query (\<lambda>now d. own_product (pu_ProductID c) (pu_MerchantID c) d)) (\<lambda>x. case x of
       None \<Rightarrow> reject ''not_found''
     | Some p \<Rightarrow>
         bindE (case pu_SupplierID c of None \<Rightarrow> ret () | Some s \<Rightarrow> lock_active cd_suppliers ''supplier_not_found'' s) (\<lambda>_.
         if cp_sale_price_fen (changed_product c p) > cp_origin_price_fen (changed_product c p) then reject ''invalid_price''
         else cat_exec (\<lambda>now d. if own_product (pu_ProductID c) (pu_MerchantID c) d = None then d
                                 else upd_product (pu_ProductID c) (changed_product c) d))))"

section \<open>The service\<close>

definition rejectionFault :: "string \<Rightarrow> 'a cat_io" where
  "rejectionFault rejection =
     (if rejection = ''invalid_price'' then promo_fault ''invalid_price'' ''sale_price_fen must be <= origin_price_fen''
      else if rejection = ''supplier_not_found'' then promo_fault ''supplier_not_found'' ''active supplier not found''
      else if rejection = ''merchant_not_found'' then promo_fault ''merchant_not_found'' ''active merchant not found''
      else fail (RawError (''unknown product mutation rejection: '' @ rejection)))"

definition product_Create :: "ProductInput \<Rightarrow> int cat_io" where
  "product_Create input =
     (let r = input\<lparr>pi_Name := TrimSpace (pi_Name input), pi_ImageURL := TrimSpace (pi_ImageURL input)\<rparr> in
      if pi_Name r = [] \<or> pi_MerchantID r \<le> 0 \<or> pi_SupplierID r \<le> 0 \<or> pi_OriginPriceFen r < 0 \<or> pi_SalePriceFen r < 0 \<or> pi_StockAvailable r < 0
      then promo_fault ''invalid_argument'' ''name, merchant_id, non-negative prices, stock and supplier_id are required''
      else if pi_SalePriceFen r > pi_OriginPriceFen r then promo_fault ''invalid_price'' ''sale_price_fen must be <= origin_price_fen''
      else let r = (if pi_Status r = 0 then r\<lparr>pi_Status := StatusActive\<rparr> else r) in
      if \<not> validStatus (pi_Status r) then promo_fault ''invalid_argument'' ''status must be 1 or 2''
      else bindE (command_Create r) (\<lambda>x. case x of Inl rejection \<Rightarrow> rejectionFault rejection | Inr pid \<Rightarrow> ret pid))"

definition product_Update :: "ProductChange \<Rightarrow> unit cat_io" where
  "product_Update input =
     (let c = input\<lparr>pu_Name := TrimSpace (pu_Name input), pu_ImageURL := TrimSpace (pu_ImageURL input)\<rparr> in
      if pu_ProductID c \<le> 0 \<or> pu_MerchantID c < 0 then promo_fault ''invalid_argument'' ''product_id required''
      else if given (\<lambda>v. v < 0) (pu_SalePriceFen c) \<or> given (\<lambda>v. v < 0) (pu_OriginPriceFen c) then promo_fault ''invalid_argument'' ''prices must be non-negative''
      else if given (\<lambda>v. v \<le> 0) (pu_SupplierID c) then promo_fault ''invalid_argument'' ''supplier_id required''
      else if given (\<lambda>v. \<not> validStatus v) (pu_Status c) then promo_fault ''invalid_argument'' ''status must be 1 or 2''
      else if pu_Name c = [] \<and> pu_ImageURL c = [] \<and> pu_SalePriceFen c = None \<and> pu_OriginPriceFen c = None \<and> pu_SupplierID c = None \<and> pu_Status c = None
      then promo_fault ''invalid_argument'' ''no fields to update''
      else bindE (command_Update c) (\<lambda>x. case x of
             Inl rejection \<Rightarrow> if rejection = ''not_found'' then promo_fault ''product_not_found'' ''product not found'' else rejectionFault rejection
           | Inr _ \<Rightarrow> ret ()))"

section \<open>The stock of a new product\<close>

definition upd_seed :: "int \<Rightarrow> (inventory_seed \<Rightarrow> inventory_seed) \<Rightarrow> catalog_db \<Rightarrow> catalog_db" where
  "upd_seed i f d = d\<lparr>cd_seeds := map (\<lambda>(k, s). (k, if k = i then f s else s)) (cd_seeds d)\<rparr>"

definition Initialize :: "(int \<Rightarrow> int \<Rightarrow> int \<Rightarrow> go_error + unit) \<Rightarrow> int \<Rightarrow> unit cat_io" where
  "Initialize seed pid =
     bindE (cat_query (\<lambda>now d. map_of (cd_seeds d) pid)) (\<lambda>x. case x of
       None \<Rightarrow> fail (app_new CodeProductNotFound ''product inventory seed task not found'')
     | Some s \<Rightarrow>
         if se_status s = 1 then ret ()
         else bindE (attempt (ext_call (\<lambda>w. (seed pid (se_desired_total s) (se_shard_count s), w)))) (\<lambda>r. case r of
                Inl e \<Rightarrow>
                  bindE (map_err (app_wrap CodeInternal ''record inventory seed failure'')
                    (cat_exec (\<lambda>now d. upd_seed pid (\<lambda>s. s\<lparr>se_status := 2, se_attempt_count := se_attempt_count s + 1, se_last_error := err_text e\<rparr>) d))) (\<lambda>_.
                  fail (app_wrap CodeStockReconcileFailed ''initialize product inventory'' e))
              | Inr _ \<Rightarrow>
                  with_tx cw_db (\<lambda>d w. w\<lparr>cw_db := d\<rparr>) (\<lambda>e. e) (\<lambda>_ e. e) (
                    bindE (cat_exec (\<lambda>now d. upd_seed pid (\<lambda>s. s\<lparr>se_status := 1, se_attempt_count := se_attempt_count s + 1, se_last_error := []\<rparr>) d)) (\<lambda>_.
                    cat_exec (\<lambda>now d. upd_product pid (\<lambda>p. p\<lparr>cp_status := se_desired_status s\<rparr>) d)))))"

section \<open>Handlers\<close>

definition failProductCommand :: "string \<Rightarrow> go_error \<Rightarrow> nat \<times> go_error" where
  "failProductCommand operation e = (case e of
       Fault reason message \<Rightarrow>
         if reason = ''product_not_found'' then (404, app_new CodeProductNotFound message)
         else if reason = ''supplier_not_found'' \<or> reason = ''merchant_not_found'' then (404, app_new CodeNotFound message)
         else (400, app_new CodeInvalidArgument message)
     | _ \<Rightarrow> (502, app_wrap CodeInternal operation e))"

text \<open>Adding a product to the existence filter: its answer is the parameter \<open>prepare\<close>.\<close>

definition prepare_visible :: "(int \<Rightarrow> go_error + unit) \<Rightarrow> int \<Rightarrow> unit cat_io" where
  "prepare_visible prepare pid = ext_call (\<lambda>w. (prepare pid, w))"

definition AdminProductUpdateHandler :: "(int \<Rightarrow> go_error + unit) \<Rightarrow> ProductChange \<Rightarrow> ((nat \<times> go_error) + unit) cat_io" where
  "AdminProductUpdateHandler prepare c =
     bindE (if pu_Status c = Some 1 then attempt (prepare_visible prepare (pu_ProductID c)) else ret (Inr ())) (\<lambda>v. case v of
       Inl e \<Rightarrow> ret (Inl (502, e))
     | Inr _ \<Rightarrow>
         bindE (attempt (product_Update c)) (\<lambda>x. case x of
           Inl e \<Rightarrow> ret (Inl (failProductCommand ''admin product update failed'' e))
         | Inr _ \<Rightarrow> bindE (refreshProductCardSnapshotsBestEffort [pu_ProductID c]) (\<lambda>_. ret (Inr ()))))"

definition AdminProductCreateHandler :: "(int \<Rightarrow> go_error + unit) \<Rightarrow> (int \<Rightarrow> int \<Rightarrow> int \<Rightarrow> go_error + unit) \<Rightarrow> ProductInput \<Rightarrow> ((nat \<times> go_error) + int) cat_io" where
  "AdminProductCreateHandler prepare seed input =
     (let r = (if pi_MerchantID input \<le> 0 then input\<lparr>pi_MerchantID := 1000\<rparr> else input) in
      bindE (attempt (product_Create r)) (\<lambda>x. case x of
        Inl e \<Rightarrow> ret (Inl (failProductCommand ''admin product create failed'' e))
      | Inr pid \<Rightarrow>
          bindE (attempt (prepare_visible prepare pid)) (\<lambda>v. case v of
            Inl e \<Rightarrow> ret (Inl (502, app_wrap CodeInternal (''product '' @ show_int pid @ '' created offline; publication preparation can be retried'') e))
          | Inr _ \<Rightarrow>
              bindE (attempt (Initialize seed pid)) (\<lambda>y. case y of
                Inl e \<Rightarrow> ret (Inl (502, app_wrap CodeStockReconcileFailed (''product '' @ show_int pid @ '' created offline; inventory seed can be retried'') e))
              | Inr _ \<Rightarrow> bindE (refreshProductCardSnapshotsBestEffort [pid]) (\<lambda>_. ret (Inr pid))))))"

definition retryProductInventorySeed :: "(int \<Rightarrow> go_error + unit) \<Rightarrow> (int \<Rightarrow> int \<Rightarrow> int \<Rightarrow> go_error + unit) \<Rightarrow> int \<Rightarrow> unit cat_io" where
  "retryProductInventorySeed prepare seed pid =
     bindE (prepare_visible prepare pid) (\<lambda>_.
     bindE (Initialize seed pid) (\<lambda>_. refreshProductCardSnapshotsBestEffort [pid]))"

definition gateway_StockSnapshotRebuild :: "int \<Rightarrow> int \<Rightarrow> ((nat \<times> go_error) + int \<times> int \<times> int) cat_io" where
  "gateway_StockSnapshotRebuild pid limit =
     (if pid < 0 then ret (Inl (400, app_new CodeInvalidArgument ''product_id must be positive''))
      else let limit = (if limit \<le> 0 \<or> limit > 10000 then 1000 else limit) in
           bindE (attempt (RebuildStock pid limit)) (\<lambda>x. case x of
             Inl e \<Rightarrow> ret (Inl (502, app_wrap CodeInternal ''stock snapshot rebuild failed'' e))
           | Inr affected \<Rightarrow> bindE (attempt (RebuildCards pid limit)) (\<lambda>y. case y of
               Inl e \<Rightarrow> ret (Inl (502, app_wrap CodeInternal ''product card snapshot rebuild failed'' e))
             | Inr cards \<Rightarrow> ret (Inr (affected, cards, limit)))))"

end
