(* ===== verification/Catalog_Safety.thy ===== *)
theory Catalog_Safety
  imports Card_Safety Product_Command
begin

text \<open>
  The catalogue under all its writers: the promotion service and the product commands of the gateway, the
  handlers of the entry api and the job that refreshes the cards.  What a writer promises is the locale
  \<open>catalog_writer\<close>; each writer is interpreted, and a locale for two writers gives the contract for
  their calls in any order.
\<close>

section \<open>Products\<close>

definition product_ok :: "cat_product \<Rightarrow> bool" where
  "product_ok p \<longleftrightarrow> 0 \<le> cp_sale_price_fen p \<and> cp_sale_price_fen p \<le> cp_origin_price_fen p \<and> validStatus (cp_status p)"

definition products_ok :: "catalog_db \<Rightarrow> bool" where
  "products_ok d \<longleftrightarrow> distinct (map fst (cd_products d)) \<and> (\<forall>(i, p)\<in>set (cd_products d). product_ok p) \<and>
     (\<forall>(i, s)\<in>set (cd_seeds d). validStatus (se_desired_status s))"

definition catalog_ok :: "catalog_world \<Rightarrow> bool" where
  "catalog_ok w \<longleftrightarrow> promotions_ok w \<and> products_ok (cw_db w)"

lemma catalog_ok_view: "catalog_ok = (\<lambda>w. rules_ok (cw_next_rule w) (cd_rules (cw_db w)) \<and> products_ok (cw_db w))"
  by (simp add: fun_eq_iff catalog_ok_def promotions_ok_def)

lemma fault_free_catalog [simp]: "fault_free catalog_ok"
  by (simp add: fault_free_def catalog_ok_view)

lemma keeps_cat_stmt [keeps_rules]:
  assumes "\<And>now n d. rules_ok n (cd_rules d) \<Longrightarrow> products_ok d \<Longrightarrow> rules_ok n (cd_rules (snd (f now d))) \<and> products_ok (snd (f now d))"
  shows "keeps catalog_ok (cat_stmt f)"
proof (rule keepsI)
  fix w :: catalog_world assume w: "catalog_ok w"
  have step: "rules_ok n (cd_rules d) \<and> products_ok d \<Longrightarrow> f now d = (x, d') \<Longrightarrow> rules_ok n (cd_rules d') \<and> products_ok d'" for now n d x d'
    using assms [of n d now] by simp
  have "triple (\<lambda>w. rules_ok (cw_next_rule w) (cd_rules (cw_db w)) \<and> products_ok (cw_db w)) (cat_stmt f)
      (\<lambda>_ w. rules_ok (cw_next_rule w) (cd_rules (cw_db w)) \<and> products_ok (cw_db w)) (\<lambda>w. rules_ok (cw_next_rule w) (cd_rules (cw_db w)) \<and> products_ok (cw_db w))"
    by (rule triple_cat_stmt) (use step in blast)+
  then show "catalog_ok (snd (cat_stmt f w))" using w unfolding catalog_ok_view by (rule triple_snd)
qed

lemma keeps_cat_query [keeps_rules]: "keeps catalog_ok (cat_query f)"
  unfolding cat_query_def by (rule keeps_cat_stmt) simp

lemma keeps_cat_exec:
  assumes "\<And>now n d. rules_ok n (cd_rules d) \<Longrightarrow> products_ok d \<Longrightarrow> rules_ok n (cd_rules (f now d)) \<and> products_ok (f now d)"
  shows "keeps catalog_ok (cat_exec f)"
  unfolding cat_exec_def by (rule keeps_cat_stmt) (use assms in simp)

lemma keeps_cat_now [keeps_rules]: "keeps catalog_ok cat_now"
  by (simp add: keeps_def cat_now_def)

lemma keeps_promo_fault [keeps_rules]: "keeps I (promo_fault r m)"
  unfolding promo_fault_def by (rule keeps_fail)

lemma keeps_answers [keeps_rules]: "keeps I (writeBadRequest m)" "keeps I (writeNotFound m)" "keeps I (writeConflict m)" "keeps I (reject m)"
  unfolding writeBadRequest_def writeNotFound_def writeConflict_def reject_def by (rule keeps_fail)+

lemma keeps_cases [keeps_rules]:
  "keeps I a \<Longrightarrow> (\<And>v. keeps I (b v)) \<Longrightarrow> keeps I (case x of None \<Rightarrow> a | Some v \<Rightarrow> b v)"
  "(\<And>e. keeps I (k e)) \<Longrightarrow> (\<And>v. keeps I (b v)) \<Longrightarrow> keeps I (case y of Inl e \<Rightarrow> k e | Inr v \<Rightarrow> b v)"
  "(c \<Longrightarrow> keeps I a) \<Longrightarrow> (\<not> c \<Longrightarrow> keeps I a') \<Longrightarrow> keeps I (if c then a else a')"
  "(\<And>u v. keeps I (l u v)) \<Longrightarrow> keeps I (case z of (u, v) \<Rightarrow> l u v)"
  by (auto split: option.splits sum.splits prod.splits)

lemma same_tables [simp]:
  "products_ok (d\<lparr>cd_cards := c\<rparr>) = products_ok d" "products_ok (d\<lparr>cd_stock := s\<rparr>) = products_ok d"
  "products_ok (d\<lparr>cd_merchants := m\<rparr>) = products_ok d" "products_ok (d\<lparr>cd_rules := r\<rparr>) = products_ok d"
  by (simp_all add: products_ok_def)

section \<open>Cards\<close>

lemma keeps_cards [keeps_rules]:
  "keeps catalog_ok (RebuildCards pid limit)" "keeps catalog_ok (RebuildStock pid limit)" "keeps catalog_ok (refreshProductCardSnapshot pid)"
  unfolding RebuildCards_def RebuildStock_def refreshProductCardSnapshot_def by (rule keeps_cat_stmt; simp add: Let_def)+

lemma keeps_window [keeps_rules]: "keeps catalog_ok (repo_WindowAffectedProductIDs now m l)"
  unfolding repo_WindowAffectedProductIDs_def Let_def by (intro keeps_rules)

lemma keeps_schema [keeps_rules]:
  "keeps catalog_ok ensureProductMerchantSchema" "keeps catalog_ok ensureProductCardSnapshotTables" "keeps catalog_ok entry_RawDB"
  unfolding ensureProductMerchantSchema_def ensureMerchantBaseSchema_def ensureProductMerchantColumn_def ensureProductStockSnapshotTable_def
    ensureProductCardSnapshotTable_def ensureProductCardSnapshotTables_def entry_RawDB_def
  by (intro keeps_rules keeps_cat_exec fault_free_catalog; simp)+

lemma keeps_card_refresh [keeps_rules]:
  "keeps catalog_ok (refreshProductCardSnapshotBestEffort pid)" "keeps catalog_ok (refreshPromotionProductCardSnapshotsBestEffort ids)"
  "keeps catalog_ok (refreshProductCardSnapshotsBestEffort ids)"
  unfolding refreshPromotionProductCardSnapshotsBestEffort_def refreshProductCardSnapshotsBestEffort_def refreshProductCardSnapshotBestEffort_def rebuildProductCardSnapshots_def
  by (intro keeps_rules)+

lemma keeps_refreshers [keeps_rules]:
  "keeps catalog_ok (refreshOnce m l)" "keeps catalog_ok (AdminStockSnapshotRebuildHandler pid limit)"
  "keeps catalog_ok (AdminProductCardSnapshotRefreshHandler pid limit m)" "keeps catalog_ok (gateway_StockSnapshotRebuild pid limit)"
  unfolding refreshOnce_def AdminStockSnapshotRebuildHandler_def AdminProductCardSnapshotRefreshHandler_def gateway_StockSnapshotRebuild_def
    rebuildProductStockSnapshots_def rebuildProductCardSnapshots_def Let_def
  by (intro keeps_rules)+

section \<open>Promotions\<close>

text \<open>The writers of promotions leave the products alone.\<close>

definition prods :: "catalog_world \<Rightarrow> bool" where
  "prods w \<longleftrightarrow> products_ok (cw_db w)"

lemma keeps_both: "keeps promotions_ok m \<Longrightarrow> keeps prods m \<Longrightarrow> keeps catalog_ok m"
  by (auto simp: keeps_def catalog_ok_def prods_def)

lemma prods_stmt [keeps_rules]:
  assumes "\<And>now d. products_ok d \<Longrightarrow> products_ok (snd (f now d))"
  shows "keeps prods (cat_stmt f)"
proof (rule keepsI)
  fix w assume w: "prods w"
  have step: "products_ok d \<Longrightarrow> f now d = (x, d') \<Longrightarrow> products_ok d'" for now d x d' using assms [of d now] by simp
  have "triple (\<lambda>w. products_ok (cw_db w)) (cat_stmt f) (\<lambda>_ w. products_ok (cw_db w)) (\<lambda>w. products_ok (cw_db w))"
    by (rule triple_cat_stmt [where P = "\<lambda>_. products_ok" and Q = "\<lambda>_ _. products_ok" and E = "\<lambda>_. products_ok"]) (use step in blast)+
  then show "prods (snd (cat_stmt f w))" using w unfolding prods_def by (rule triple_snd)
qed

lemma prods_basic [keeps_rules]: "keeps prods (cat_query f)" "keeps prods cat_now" "keeps prods next_rule_id"
  by (simp_all add: cat_query_def keeps_rules) (simp_all add: keeps_def cat_now_def next_rule_id_def prods_def)

lemma prods_reads: "only_reads m \<Longrightarrow> keeps prods m"
  unfolding prods_def [abs_def] by (rule reads_keeps [where P = "\<lambda>_. products_ok"])

lemma prods_writes [keeps_rules]: "keeps prods (repo_Insert r)" "keeps prods (repo_Update i c)"
  unfolding repo_Insert_def repo_Update_def cat_exec_def
  by (intro keeps_rules; simp add: upd_rule_def)+

lemma keeps_gateway_promotions [keeps_rules]: "keeps catalog_ok (promo_Create p i)" "keeps catalog_ok (promo_Update p u)"
proof -
  have "keeps promotions_ok (promo_Create p i)" "keeps promotions_ok (promo_Update p u)"
    by (intro keepsI triple_snd [OF triple_promo_Create] triple_snd [OF triple_promo_Update]; assumption)+
  moreover have "keeps prods (promo_Create p i)" "keeps prods (promo_Update p u)"
    unfolding promo_Create_def promo_Update_def Let_def by (intro keeps_rules prods_reads reads_parts)+
  ultimately show "keeps catalog_ok (promo_Create p i)" "keeps catalog_ok (promo_Update p u)" by (auto intro: keeps_both)
qed

lemma keeps_gateway_handlers [keeps_rules]: "keeps catalog_ok (gateway_PromotionCreate p i)" "keeps catalog_ok (gateway_PromotionUpdate p u)"
  unfolding gateway_PromotionCreate_def gateway_PromotionUpdate_def by (intro keeps_rules)+

section \<open>The handlers of the entry api\<close>

text \<open>What leaves the rules alone.\<close>

lemma promo_stmt [keeps_rules]:
  assumes "\<And>now d. cd_rules (snd (f now d)) = cd_rules d"
  shows "keeps promotions_ok (cat_stmt f)"
proof (rule keepsI)
  fix w assume w: "promotions_ok w"
  have step: "f now d = (x, d') \<Longrightarrow> cd_rules d' = cd_rules d" for now d x d' using assms [of now d] by simp
  have "triple (\<lambda>w. rules_ok (cw_next_rule w) (cd_rules (cw_db w))) (cat_stmt f) (\<lambda>_ w. rules_ok (cw_next_rule w) (cd_rules (cw_db w))) (\<lambda>w. rules_ok (cw_next_rule w) (cd_rules (cw_db w)))"
    by (rule triple_cat_stmt) (use step in \<open>simp; fail\<close>)+
  then show "promotions_ok (snd (cat_stmt f w))" using w unfolding promotions_ok_def by (rule triple_snd)
qed

lemma fault_free_promotions [simp]: "fault_free promotions_ok"
  by (simp add: fault_free_def promotions_ok_def)

lemma fault_free_prods [simp]: "fault_free prods"
  by (simp add: fault_free_def prods_def)

lemma promo_refresh [keeps_rules]:
  "keeps promotions_ok (RebuildCards pid limit)" "keeps promotions_ok ensureProductMerchantSchema" "keeps promotions_ok entry_RawDB"
  unfolding RebuildCards_def ensureProductMerchantSchema_def ensureMerchantBaseSchema_def ensureProductMerchantColumn_def
    ensureProductStockSnapshotTable_def ensureProductCardSnapshotTable_def entry_RawDB_def cat_exec_def cat_query_def
  by (intro keeps_rules fault_free_promotions; simp add: Let_def)+

lemma prods_refresh [keeps_rules]:
  "keeps prods (RebuildCards pid limit)" "keeps prods ensureProductMerchantSchema" "keeps prods entry_RawDB"
  unfolding RebuildCards_def ensureProductMerchantSchema_def ensureMerchantBaseSchema_def ensureProductMerchantColumn_def
    ensureProductStockSnapshotTable_def ensureProductCardSnapshotTable_def entry_RawDB_def cat_exec_def
  by (intro keeps_rules fault_free_prods; simp add: Let_def)+

lemma entry_refresh [keeps_rules]:
  "keeps promotions_ok (refreshProductCardSnapshotBestEffort pid)" "keeps promotions_ok (refreshPromotionProductCardSnapshotsBestEffort ids)"
  "keeps prods (refreshProductCardSnapshotBestEffort pid)" "keeps prods (refreshPromotionProductCardSnapshotsBestEffort ids)"
  unfolding refreshPromotionProductCardSnapshotsBestEffort_def refreshProductCardSnapshotBestEffort_def rebuildProductCardSnapshots_def
  by (intro keeps_rules)+

lemma reads_or_else [reads_intros]: "only_reads m \<Longrightarrow> only_reads (or_else m z)"
  unfolding only_reads_def by (auto intro: keeps_or_else)

lemma reads_RawDB [reads_intros]: "only_reads entry_RawDB"
  unfolding only_reads_def entry_RawDB_def by (intro allI keeps_rules) (simp add: fault_free_def)

lemma reads_answers [reads_intros]: "only_reads (writeBadRequest m)" "only_reads (writeNotFound m)" "only_reads (writeConflict m)"
  unfolding writeBadRequest_def writeNotFound_def writeConflict_def by (rule reads_basic)+

lemma reads_entry [reads_intros]:
  "only_reads (http_time p s)" "only_reads (parseAdminPromotionWindow p s e)" "only_reads (adminDBProductExists i)" "only_reads (adminPromotionDiscountWithinSale i x)"
  "only_reads (adminPromotionProductIDsBestEffort i)" "only_reads (optional_time p v)" "only_reads (update_fields p u)" "only_reads (row_of_promotion i)"
  "only_reads (final_discount_ok i c)" "only_reads (final_window_free i c)" "only_reads (final_window_valid i c cur)"
  unfolding http_time_def parseAdminPromotionWindow_def adminDBProductExists_def adminPromotionDiscountWithinSale_def adminPromotionProductIDsBestEffort_def
    optional_time_def update_fields_def row_of_promotion_def final_discount_ok_def final_window_free_def final_window_valid_def ProductSalePrice_def HasActiveConflict_def Let_def
  by (intro reads_intros)+

lemma window_valid: "parseAdminPromotionWindow p s e w = (Inr (a, b), w') \<Longrightarrow> validWindow a b"
  unfolding parseAdminPromotionWindow_def
  by (auto elim!: bindE_InrE simp: writeBadRequest_def ret_def split: if_splits)

lemma triple_entry_Create: "triple promotions_ok (AdminPromotionCreateHandler p i) (\<lambda>_. promotions_ok) promotions_ok"
proof -
  let ?I = "\<lambda>w. rules_ok (cw_next_rule w) (cd_rules (cw_db w))"
  note I = promotions_ok_def [abs_def]
  have read: "only_reads m \<Longrightarrow> triple ?I m (\<lambda>_. ?I) ?I" for m :: "'b cat_io"
    by (rule triple_reads [where P = "\<lambda>n d. rules_ok n (cd_rules d)"])
  define st where "st = (if ci_Status i = 0 then 1 else ci_Status i)"
  have win: "triple ?I (parseAdminPromotionWindow p s e) (\<lambda>x w. validWindow (fst x) (snd x) \<and> ?I w) ?I" for s e
    by (rule triple_value [OF read [OF reads_entry(2)]]) (use window_valid in fastforce)
  have store: "triple ?I (bindE (if st = 1 then bindE (HasActiveConflict (ci_ProductID i) 0 s e) (\<lambda>c. if c then fail er else ret ()) else ret ()) (\<lambda>_. bindE (repo_Insert r) k)) (\<lambda>_. ?I) ?I"
    if r: "rule_ok r" "r = \<lparr>ru_product_id = ci_ProductID i, ru_type = ty, ru_discount_value = ci_DiscountValue i,
          ru_threshold_amount = ci_ThresholdAmount i, ru_starts_at = s, ru_ends_at = e, ru_status = st\<rparr>" and k: "\<And>a. keeps promotions_ok (k a)" for r s e ty er and k :: "int \<Rightarrow> int cat_io"
  proof -
    have "triple ?I (if st = 1 then bindE (HasActiveConflict (ru_product_id r) 0 (ru_starts_at r) (ru_ends_at r)) (\<lambda>c. if c then fail er else ret ()) else ret ())
       (\<lambda>_ w. rules_ok (cw_next_rule w) (cd_rules (cw_db w)) \<and> apart_from (cd_rules (cw_db w)) (cw_next_rule w) r) ?I"
      by (rule triple_may_write [where P = rules_ok and i = "\<lambda>n. n"]) (use inactive_apart r(2) rules_okD in \<open>fastforce+\<close>)
    moreover have f: "ru_product_id r = ci_ProductID i" "ru_starts_at r = s" "ru_ends_at r = e" using r(2) by simp_all
    ultimately have "triple ?I (if st = 1 then bindE (HasActiveConflict (ci_ProductID i) 0 s e) (\<lambda>c. if c then fail er else ret ()) else ret ())
       (\<lambda>_ w. rules_ok (cw_next_rule w) (cd_rules (cw_db w)) \<and> apart_from (cd_rules (cw_db w)) (cw_next_rule w) r) ?I"
      unfolding f by simp
    then show ?thesis
      by (rule triple_bind) (rule triple_bind [OF triple_repo_Insert [OF r(1), unfolded I] triple_keeps [OF k, unfolded I]])
  qed
  show ?thesis
    unfolding AdminPromotionCreateHandler_def Let_def I st_def [symmetric] writeBadRequest_def writeNotFound_def writeConflict_def
    apply (intro triple_if triple_fail triple_bind [OF win]; assumption?)
    subgoal for x
      apply (cases x; simp only: prod.case fst_conv snd_conv)
      apply (rule triple_pure)
      apply (intro triple_if triple_fail triple_bind [OF read [OF reads_RawDB]] triple_bind [OF read [OF reads_entry(3)]] triple_bind [OF read [OF reads_entry(4)]] store; assumption?)
        apply (auto simp: rule_ok_def validStatus_def intro!: keeps_rules)
      done
    done
qed

text \<open>The fields of an update, one by one.\<close>

definition fields_ok :: "Changes \<Rightarrow> bool" where
  "fields_ok c \<longleftrightarrow> (given (\<lambda>v. 0 < v) (ch_ProductID c) \<or> ch_ProductID c = None) \<and> (given (\<lambda>v. 0 < v) (ch_DiscountValue c) \<or> ch_DiscountValue c = None) \<and>
     (given (\<lambda>v. 0 \<le> v) (ch_ThresholdAmount c) \<or> ch_ThresholdAmount c = None) \<and> (given validStatus (ch_Status c) \<or> ch_Status c = None)"

lemma update_fields_ok: "update_fields p u w = (Inr c, w') \<Longrightarrow> fields_ok c"
  unfolding update_fields_def writeBadRequest_def writeNotFound_def
  by (elim bindE_InrE, cases "ui_ProductID u"; cases "ui_DiscountValue u"; cases "ui_ThresholdAmount u"; cases "ui_Status u")
     (auto simp: fields_ok_def ret_def validStatus_def split: if_splits elim!: bindE_InrE)

text \<open>The rules before and after the check of the conflict, and of the window.\<close>

definition free_for :: "int \<Rightarrow> Changes \<Rightarrow> (int \<times> promotion_rule) list \<Rightarrow> bool" where
  "free_for i c rs \<longleftrightarrow> (\<forall>r. map_of rs i = Some r \<longrightarrow> apart_from rs i (apply_changes c r))"

definition window_for :: "int \<Rightarrow> Changes \<Rightarrow> (int \<times> promotion_rule) list \<Rightarrow> bool" where
  "window_for i c rs \<longleftrightarrow> (\<forall>r. map_of rs i = Some r \<longrightarrow> validWindow (ru_starts_at (apply_changes c r)) (ru_ends_at (apply_changes c r)))"

lemma row_in_rules: "rules_ok n rs \<Longrightarrow> map_of rs i = Some r \<Longrightarrow> rule_ok r \<and> apart_from rs i r"
  using rules_okD map_of_SomeD by metis

lemma checks_suffice: "rules_ok n rs \<Longrightarrow> fields_ok c \<Longrightarrow> free_for i c rs \<Longrightarrow> window_for i c rs \<Longrightarrow> may_become i c rs"
  unfolding may_become_def free_for_def window_for_def fields_ok_def using rule_ok_changes row_in_rules by blast

lemma triple_row:
  "triple (\<lambda>w. P (cw_next_rule w) (cd_rules (cw_db w))) (row_of_promotion i)
     (\<lambda>x w. P (cw_next_rule w) (cd_rules (cw_db w)) \<and> map_of (cd_rules (cw_db w)) i = x) (\<lambda>w. P (cw_next_rule w) (cd_rules (cw_db w)))"
  unfolding row_of_promotion_def cat_query_def
  by (rule triple_cat_stmt [where P = "\<lambda>n d. P n (cd_rules d)" and Q = "\<lambda>x n d. P n (cd_rules d) \<and> map_of (cd_rules d) i = x" and E = "\<lambda>n d. P n (cd_rules d)"]) auto

lemma triple_window_free:
  "triple (\<lambda>w. rules_ok (cw_next_rule w) (cd_rules (cw_db w))) (final_window_free i c)
     (\<lambda>cur w. rules_ok (cw_next_rule w) (cd_rules (cw_db w)) \<and> free_for i c (cd_rules (cw_db w)) \<and>
        (if ch_StartsAt c = None \<and> ch_EndsAt c = None then True else cur = map_of (cd_rules (cw_db w)) i))
     (\<lambda>w. rules_ok (cw_next_rule w) (cd_rules (cw_db w)))"
    (is "triple ?I _ ?Q ?I")
proof (cases "ch_ProductID c = None \<and> ch_Status c = None \<and> ch_StartsAt c = None \<and> ch_EndsAt c = None")
  case True
  then show ?thesis
    using apart_unchanged row_in_rules by (auto simp: final_window_free_def free_for_def intro!: triple_ret)
next
  case False
  have found: "triple (\<lambda>w. ?I w \<and> map_of (cd_rules (cw_db w)) i = Some r)
      (bindE (if ru_status (apply_changes c r) = 1
              then bindE (HasActiveConflict (ru_product_id (apply_changes c r)) i (ru_starts_at (apply_changes c r)) (ru_ends_at (apply_changes c r))) (\<lambda>x. if x then fail er else ret ())
              else ret ()) (\<lambda>_. ret (Some r))) ?Q ?I" for r er
  proof -
    have "triple (\<lambda>w. ?I w \<and> map_of (cd_rules (cw_db w)) i = Some r)
      (if ru_status (apply_changes c r) = 1
              then bindE (HasActiveConflict (ru_product_id (apply_changes c r)) i (ru_starts_at (apply_changes c r)) (ru_ends_at (apply_changes c r))) (\<lambda>x. if x then fail er else ret ())
              else ret ()) (\<lambda>_ w. (?I w \<and> map_of (cd_rules (cw_db w)) i = Some r) \<and> apart_from (cd_rules (cw_db w)) i (apply_changes c r)) (\<lambda>w. ?I w \<and> map_of (cd_rules (cw_db w)) i = Some r)"
      by (rule triple_may_write [where P = "\<lambda>n rs. rules_ok n rs \<and> map_of rs i = Some r" and i = "\<lambda>_. i"]) (auto intro: inactive_apart)
    then have "triple (\<lambda>w. ?I w \<and> map_of (cd_rules (cw_db w)) i = Some r)
      (if ru_status (apply_changes c r) = 1
              then bindE (HasActiveConflict (ru_product_id (apply_changes c r)) i (ru_starts_at (apply_changes c r)) (ru_ends_at (apply_changes c r))) (\<lambda>x. if x then fail er else ret ())
              else ret ()) (\<lambda>_ w. (?I w \<and> map_of (cd_rules (cw_db w)) i = Some r) \<and> apart_from (cd_rules (cw_db w)) i (apply_changes c r)) ?I"
      by (rule triple_error_weaken) simp
    then show ?thesis by (rule triple_bind) (rule triple_ret, simp add: free_for_def)
  qed
  have "triple (\<lambda>w. ?I w \<and> map_of (cd_rules (cw_db w)) i = x) (case x of None \<Rightarrow> fail er | Some r \<Rightarrow>
      bindE (if ru_status (apply_changes c r) = 1
              then bindE (HasActiveConflict (ru_product_id (apply_changes c r)) i (ru_starts_at (apply_changes c r)) (ru_ends_at (apply_changes c r))) (\<lambda>x. if x then fail er' else ret ())
              else ret ()) (\<lambda>_. ret (Some r))) ?Q ?I" for x er er'
    using found by (cases x) (auto intro: triple_fail)
  then show ?thesis
    using False unfolding final_window_free_def Let_def writeNotFound_def writeConflict_def
    by (simp only: if_False) (rule triple_bind [OF triple_row [where P = rules_ok]])
qed

lemma triple_window_valid:
  "triple (\<lambda>w. rules_ok (cw_next_rule w) (cd_rules (cw_db w)) \<and> free_for i c (cd_rules (cw_db w)) \<and>
        (if ch_StartsAt c = None \<and> ch_EndsAt c = None then True else cur = map_of (cd_rules (cw_db w)) i)) (final_window_valid i c cur)
     (\<lambda>_ w. rules_ok (cw_next_rule w) (cd_rules (cw_db w)) \<and> free_for i c (cd_rules (cw_db w)) \<and> window_for i c (cd_rules (cw_db w)))
     (\<lambda>w. rules_ok (cw_next_rule w) (cd_rules (cw_db w)))"
    (is "triple ?P _ ?Q ?I")
proof (cases "ch_StartsAt c = None \<and> ch_EndsAt c = None")
  case True
  have "validWindow (ru_starts_at (apply_changes c r)) (ru_ends_at (apply_changes c r))" if "rule_ok r" for r
    using that True by (simp add: apply_changes_def rule_ok_def)
  then show ?thesis using True row_in_rules by (auto simp: final_window_valid_def window_for_def intro!: triple_ret)
next
  case False
  have check: "triple (\<lambda>w. (?I w \<and> free_for i c (cd_rules (cw_db w))) \<and> map_of (cd_rules (cw_db w)) i = x)
     (case x of None \<Rightarrow> fail er | Some r \<Rightarrow> if \<not> validWindow (ru_starts_at (apply_changes c r)) (ru_ends_at (apply_changes c r)) then fail er' else ret ()) ?Q ?I" for x er er'
    by (cases x) (auto simp: window_for_def intro!: triple_fail triple_ret)
  have row: "triple ?P (case cur of Some r \<Rightarrow> ret (Some r) | None \<Rightarrow> row_of_promotion i)
      (\<lambda>x w. (?I w \<and> free_for i c (cd_rules (cw_db w))) \<and> map_of (cd_rules (cw_db w)) i = x) ?I"
  proof (cases cur)
    case None
    then show ?thesis
      using triple_conseq [OF triple_row [where P = "\<lambda>n rs. rules_ok n rs \<and> free_for i c rs"], of ?P] by simp
  next
    case (Some r)
    then show ?thesis using False by (auto intro!: triple_ret)
  qed
  show ?thesis
    unfolding final_window_valid_def Let_def writeNotFound_def writeBadRequest_def if_not_P [OF False, of "ret ()"]
    by (rule triple_bind [OF row check])
qed

lemma triple_entry_Update: "triple promotions_ok (AdminPromotionUpdateHandler p u) (\<lambda>_. promotions_ok) promotions_ok"
proof -
  let ?I = "\<lambda>w. rules_ok (cw_next_rule w) (cd_rules (cw_db w))"
  note I = promotions_ok_def [abs_def]
  have read: "only_reads m \<Longrightarrow> triple ?I m (\<lambda>_. ?I) ?I" for m :: "'b cat_io"
    by (rule triple_reads [where P = "\<lambda>n d. rules_ok n (cd_rules d)"])
  have fields: "triple ?I (update_fields p u) (\<lambda>c w. fields_ok c \<and> ?I w) ?I"
    by (rule triple_value [OF read [OF reads_entry(7)] update_fields_ok])
  have upd: "triple (\<lambda>w. ?I w \<and> free_for i c (cd_rules (cw_db w)) \<and> window_for i c (cd_rules (cw_db w))) (repo_Update i c) (\<lambda>_. ?I) ?I" if "fields_ok c" for i c
    by (rule triple_conseq [OF triple_repo_Update [of i c, unfolded I]]) (use checks_suffice that in auto)
  have last: "triple ?I (refreshPromotionProductCardSnapshotsBestEffort ids) (\<lambda>_. ?I) ?I" for ids
    using triple_keeps [OF entry_refresh(2)] by (simp add: I)
  show ?thesis
    unfolding AdminPromotionUpdateHandler_def I writeBadRequest_def writeNotFound_def
    apply (intro triple_if triple_fail triple_bind [OF read [OF reads_RawDB]] triple_bind [OF read [OF reads_entry(5)]] triple_bind [OF fields] triple_pure; (simp; fail)?)
    apply (intro triple_bind [OF read [OF reads_entry(9)]] triple_bind [OF triple_window_free] triple_bind [OF triple_window_valid] triple_bind [OF upd]
        triple_if triple_fail triple_bind [OF read [OF reads_entry(5)]] last; assumption)
    done
qed

lemma keeps_entry_promotions [keeps_rules]: "keeps catalog_ok (AdminPromotionCreateHandler p i)" "keeps catalog_ok (AdminPromotionUpdateHandler p u)"
proof -
  have "keeps promotions_ok (AdminPromotionCreateHandler p i)" "keeps promotions_ok (AdminPromotionUpdateHandler p u)"
    by (intro keepsI triple_snd [OF triple_entry_Create] triple_snd [OF triple_entry_Update]; assumption)+
  moreover have "keeps prods (AdminPromotionCreateHandler p i)" "keeps prods (AdminPromotionUpdateHandler p u)"
    unfolding AdminPromotionCreateHandler_def AdminPromotionUpdateHandler_def Let_def HasActiveConflict_def
    by (intro keeps_rules prods_reads reads_entry)+
  ultimately show "keeps catalog_ok (AdminPromotionCreateHandler p i)" "keeps catalog_ok (AdminPromotionUpdateHandler p u)" by (auto intro: keeps_both)
qed

section \<open>Product commands\<close>

definition off_rules :: "int \<Rightarrow> (int \<times> promotion_rule) list \<Rightarrow> catalog_world \<Rightarrow> bool" where
  "off_rules n rs w \<longleftrightarrow> cw_next_rule w = n \<and> cd_rules (cw_db w) = rs"

lemma keeps_off: "(\<And>n rs. keeps (off_rules n rs) m) \<Longrightarrow> keeps promotions_ok m"
  unfolding keeps_def off_rules_def promotions_ok_def by metis

lemma fault_free_off [simp]: "fault_free (off_rules n rs)"
  by (simp add: fault_free_def off_rules_def)

lemma off_stmt [keeps_rules]:
  assumes "\<And>now d. cd_rules (snd (f now d)) = cd_rules d"
  shows "keeps (off_rules n rs) (cat_stmt f)"
proof (rule keepsI)
  fix w assume w: "off_rules n rs w"
  have step: "f now d = (x, d') \<Longrightarrow> cd_rules d' = cd_rules d" for now d x d' using assms [of now d] by simp
  have "triple (\<lambda>w. cw_next_rule w = n \<and> cd_rules (cw_db w) = rs) (cat_stmt f) (\<lambda>_ w. cw_next_rule w = n \<and> cd_rules (cw_db w) = rs) (\<lambda>w. cw_next_rule w = n \<and> cd_rules (cw_db w) = rs)"
    by (rule triple_cat_stmt [where P = "\<lambda>m d. m = n \<and> cd_rules d = rs" and Q = "\<lambda>_ m d. m = n \<and> cd_rules d = rs" and E = "\<lambda>m d. m = n \<and> cd_rules d = rs"]) (use step in blast)+
  then show "off_rules n rs (snd (cat_stmt f w))" using w unfolding off_rules_def by (rule triple_snd)
qed

lemma off_query [keeps_rules]: "keeps (off_rules n rs) (cat_query f)"
  unfolding cat_query_def by (rule off_stmt) simp

lemma keeps_cat_tx [keeps_rules]:
  assumes "keeps I (with_tx cw_db (\<lambda>d w. w\<lparr>cw_db := d\<rparr>) (\<lambda>e. e) (\<lambda>_ e. e) body)"
  shows "keeps I (cat_tx body)"
proof (rule keepsI)
  fix w assume "I w"
  then have "I (snd (with_tx cw_db (\<lambda>d w. w\<lparr>cw_db := d\<rparr>) (\<lambda>e. e) (\<lambda>_ e. e) body w))" by (rule keepsD [OF assms])
  then show "I (snd (cat_tx body w))" by (auto simp: cat_tx_def split: prod.splits sum.splits go_error.splits)
qed

lemma off_tx: "keeps (off_rules n rs) body \<Longrightarrow> keeps (off_rules n rs) (with_tx cw_db (\<lambda>d w. w\<lparr>cw_db := d\<rparr>) (\<lambda>e. e) (\<lambda>_ e. e) body)"
  by (rule keeps_with_tx) (auto simp: off_rules_def)

lemma prods_tx: "keeps prods body \<Longrightarrow> keeps prods (with_tx cw_db (\<lambda>d w. w\<lparr>cw_db := d\<rparr>) (\<lambda>e. e) (\<lambda>_ e. e) body)"
  by (rule keeps_with_tx) (auto simp: prods_def)

lemma reads_lock [reads_intros]: "only_reads (lock_active t r i)"
  unfolding lock_active_def reject_def by (intro reads_intros)

lemma keeps_lock [keeps_rules]: "keeps (off_rules n rs) (lock_active t r i)" "keeps prods (lock_active t r i)"
  unfolding lock_active_def by (intro keeps_rules)+

lemma products_ok_insert: "products_ok d \<Longrightarrow> product_ok p \<Longrightarrow> products_ok (d\<lparr>cd_products := snd (insert_new (i, p) (cd_products d))\<rparr>)"
  by (auto simp: products_ok_def insert_new_def map_of_eq_None_iff)

lemma products_ok_seed: "products_ok d \<Longrightarrow> validStatus (se_desired_status s) \<Longrightarrow> products_ok (d\<lparr>cd_seeds := snd (insert_new (i, s) (cd_seeds d))\<rparr>)"
  by (auto simp: products_ok_def insert_new_def)

lemma off_command_Create: "keeps (off_rules n rs) (command_Create r)"
  unfolding command_Create_def by (intro keeps_rules off_tx; simp split: prod.splits)

lemma prods_command_Create:
  assumes "0 \<le> pi_SalePriceFen r" "pi_SalePriceFen r \<le> pi_OriginPriceFen r" "validStatus (pi_Status r)"
  shows "keeps prods (command_Create r)"
  unfolding command_Create_def
  by (intro keeps_rules prods_tx)
     (use assms in \<open>simp_all add: case_prod_beta Let_def products_ok_insert products_ok_seed product_ok_def validStatus_def\<close>)

text \<open>An update writes the row it has read and checked.\<close>

lemma own_productD: "own_product i m d = Some p \<Longrightarrow> map_of (cd_products d) i = Some p"
  by (auto simp: own_product_def split: option.splits if_splits)

lemma upd_product_keys: "map fst (cd_products (upd_product i f d)) = map fst (cd_products d)"
  by (simp add: upd_product_def comp_def case_prod_beta)

lemma products_ok_update:
  assumes ok: "products_ok d" and p: "map_of (cd_products d) i = Some p" "product_ok (f p)"
  shows "products_ok (upd_product i f d)"
proof -
  have "product_ok q" if q: "(k, q) \<in> set (cd_products (upd_product i f d))" for k q
  proof -
    obtain q0 where q0: "(k, q0) \<in> set (cd_products d)" "q = (if k = i then f q0 else q0)" using q by (auto simp: upd_product_def)
    have "map_of (cd_products d) k = Some q0" using ok q0(1) by (simp add: products_ok_def)
    moreover have "product_ok q0" using ok q0(1) by (auto simp: products_ok_def)
    ultimately show ?thesis using p q0(2) by (cases "k = i") simp_all
  qed
  moreover have "cd_seeds (upd_product i f d) = cd_seeds d" by (simp add: upd_product_def)
  ultimately show ?thesis using ok unfolding products_ok_def upd_product_keys by auto
qed

lemma prods_command_Update:
  assumes "given (\<lambda>v. 0 \<le> v) (pu_SalePriceFen c) \<or> pu_SalePriceFen c = None" "given validStatus (pu_Status c) \<or> pu_Status c = None"
  shows "keeps prods (command_Update c)"
proof -
  let ?P = "\<lambda>p w. products_ok (cw_db w) \<and> own_product (pu_ProductID c) (pu_MerchantID c) (cw_db w) = p"
  have find: "triple (\<lambda>w. products_ok (cw_db w)) (cat_query (\<lambda>now d. own_product (pu_ProductID c) (pu_MerchantID c) d)) ?P (\<lambda>w. products_ok (cw_db w))"
    unfolding cat_query_def by (rule triple_cat_stmt [where P = "\<lambda>_. products_ok" and E = "\<lambda>_. products_ok"]) auto
  have read: "only_reads m \<Longrightarrow> triple (?P p) m (\<lambda>_. ?P p) (\<lambda>w. products_ok (cw_db w))" for p and m :: "unit cat_io"
    by (rule triple_error_weaken [OF triple_reads [where P = "\<lambda>_ d. products_ok d \<and> own_product (pu_ProductID c) (pu_MerchantID c) d = p"]]) auto
  have good: "product_ok (changed_product c p)" if "product_ok p" "cp_sale_price_fen (changed_product c p) \<le> cp_origin_price_fen (changed_product c p)" for p
    using that assms by (auto simp: product_ok_def changed_product_def given_def split: option.splits)
  have exec: "triple (?P (Some p)) (cat_exec (\<lambda>now d. if own_product (pu_ProductID c) (pu_MerchantID c) d = None then d else upd_product (pu_ProductID c) (changed_product c) d))
      (\<lambda>_ w. products_ok (cw_db w)) (\<lambda>w. products_ok (cw_db w))"
    if le: "cp_sale_price_fen (changed_product c p) \<le> cp_origin_price_fen (changed_product c p)" for p
  proof -
    have "products_ok d \<and> own_product (pu_ProductID c) (pu_MerchantID c) d = Some p \<Longrightarrow> products_ok (upd_product (pu_ProductID c) (changed_product c) d)" for d
    proof (elim conjE, drule own_productD)
      assume "products_ok d" "map_of (cd_products d) (pu_ProductID c) = Some p"
      moreover from this have "product_ok p" by (auto simp: products_ok_def dest: map_of_SomeD)
      ultimately show ?thesis using products_ok_update good le by blast
    qed
    then show ?thesis
      unfolding cat_exec_def
      by (intro triple_cat_stmt [where P = "\<lambda>_ d. products_ok d \<and> own_product (pu_ProductID c) (pu_MerchantID c) d = Some p" and Q = "\<lambda>_ _. products_ok" and E = "\<lambda>_. products_ok"]) auto
  qed
  have found: "triple (?P x) (case x of None \<Rightarrow> reject ''not_found'' | Some p \<Rightarrow>
         bindE (case pu_SupplierID c of None \<Rightarrow> ret () | Some s \<Rightarrow> lock_active cd_suppliers ''supplier_not_found'' s) (\<lambda>_.
         if cp_sale_price_fen (changed_product c p) > cp_origin_price_fen (changed_product c p) then reject ''invalid_price''
         else cat_exec (\<lambda>now d. if own_product (pu_ProductID c) (pu_MerchantID c) d = None then d
                                 else upd_product (pu_ProductID c) (changed_product c) d)))
      (\<lambda>_ w. products_ok (cw_db w)) (\<lambda>w. products_ok (cw_db w))" for x
    by (cases x) (auto simp: reject_def intro!: triple_fail triple_if triple_bind [OF read] reads_intros exec)
  show ?thesis
    unfolding command_Update_def
    by (intro keeps_cat_tx prods_tx, unfold prods_def [abs_def], intro keepsI, rule triple_snd [OF triple_bind [OF find found]])
qed

lemma off_command_Update: "keeps (off_rules n rs) (command_Update c)"
  unfolding command_Update_def cat_exec_def by (intro keeps_rules off_tx; simp add: upd_product_def)

lemma keeps_rejection [keeps_rules]: "keeps I (rejectionFault r)"
  unfolding rejectionFault_def by (intro keeps_rules)

lemma keeps_product_commands [keeps_rules]: "keeps catalog_ok (product_Create i)" "keeps catalog_ok (product_Update c)"
proof -
  have "keeps prods (product_Create i)"
    unfolding product_Create_def Let_def
    by (intro keeps_cases(3) keeps_promo_fault keeps_bindE prods_command_Create keeps_cases(2) keeps_rejection keeps_ret) (auto split: if_splits)
  moreover have "keeps prods (product_Update c)"
    unfolding product_Update_def Let_def
    by (intro keeps_cases(3) keeps_promo_fault keeps_bindE prods_command_Update keeps_cases(2) keeps_rejection keeps_ret)
       (auto simp: given_def split: option.splits)
  moreover have "keeps (off_rules n rs) (product_Create i)" "keeps (off_rules n rs) (product_Update c)" for n rs
    unfolding product_Create_def product_Update_def Let_def by (intro keeps_rules off_command_Create off_command_Update)+
  ultimately show "keeps catalog_ok (product_Create i)" "keeps catalog_ok (product_Update c)" by (blast intro: keeps_both keeps_off)+
qed

lemma keeps_ask [keeps_rules]: "fault_free I \<Longrightarrow> keeps I (ext_call (\<lambda>w. (r, w)))"
  by (intro keeps_ext_call) (auto simp: keeps_def)

lemma products_ok_upd_seed:
  "products_ok d \<Longrightarrow> (\<And>s. se_desired_status (f s) = se_desired_status s) \<Longrightarrow> products_ok (upd_seed i f d)"
  by (auto simp: products_ok_def upd_seed_def)

text \<open>The seed task read at the start holds the status the product gets.\<close>

lemma products_ok_status:
  "products_ok d \<Longrightarrow> validStatus st \<Longrightarrow> products_ok (upd_product i (\<lambda>p. p\<lparr>cp_status := st\<rparr>) d)"
  using products_ok_update [of d i _ "\<lambda>p. p\<lparr>cp_status := st\<rparr>"]
  by (cases "map_of (cd_products d) i") (force simp: products_ok_def upd_product_def product_ok_def map_of_eq_None_iff comp_def case_prod_beta dest: map_of_SomeD)+

lemma prods_Initialize: "keeps prods (Initialize seed pid)"
proof (rule keepsI)
  fix w assume w: "prods w"
  let ?I = "\<lambda>w. products_ok (cw_db w)"
  have find: "triple ?I (cat_query (\<lambda>now d. map_of (cd_seeds d) pid)) (\<lambda>x w. given (\<lambda>s. validStatus (se_desired_status s)) x \<or> x = None) ?I"
    unfolding cat_query_def
    by (rule triple_cat_stmt [where P = "\<lambda>_. products_ok" and Q = "\<lambda>x _ _. given (\<lambda>s. validStatus (se_desired_status s)) x \<or> x = None" and E = "\<lambda>_. products_ok"])
       (auto simp: products_ok_def given_def dest: map_of_SomeD split: option.splits)
  have "triple ?I (cat_query (\<lambda>now d. map_of (cd_seeds d) pid)) (\<lambda>x w. (given (\<lambda>s. validStatus (se_desired_status s)) x \<or> x = None) \<and> ?I w) ?I"
    using find prods_basic(1) [of "\<lambda>now d. map_of (cd_seeds d) pid", THEN triple_keeps] unfolding prods_def triple_def by (fastforce split: prod.splits sum.splits)
  moreover have "triple ?I (case x of None \<Rightarrow> fail (app_new CodeProductNotFound ''product inventory seed task not found'')
     | Some s \<Rightarrow>
         if se_status s = 1 then ret ()
         else bindE (attempt (ext_call (\<lambda>w. (seed pid (se_desired_total s) (se_shard_count s), w)))) (\<lambda>r. case r of
                Inl e \<Rightarrow>
                  bindE (map_err (app_wrap CodeInternal ''record inventory seed failure'')
                    (cat_exec (\<lambda>now d. upd_seed pid (\<lambda>s. s\<lparr>se_status := 2, se_attempt_count := se_attempt_count s + 1, se_last_error := err_text e\<rparr>) d))) (\<lambda>_.
                  fail (app_wrap CodeStockReconcileFailed ''initialize product inventory'' e))
              | Inr _ \<Rightarrow>
                  with_tx cw_db (\<lambda>d w. w\<lparr>cw_db := d\<rparr>) (\<lambda>e. e) (\<lambda>_ e. e) (
                    bindE (cat_exec (\<lambda>now d. upd_seed pid (\<lambda>s. s\<lparr>se_status := 1, se_attempt_count := se_attempt_count s + 1, se_last_error := []\<rparr>) d)) (\<lambda>_.
                    cat_exec (\<lambda>now d. upd_product pid (\<lambda>p. p\<lparr>cp_status := se_desired_status s\<rparr>) d))))) (\<lambda>_. ?I) ?I"
    if "given (\<lambda>s. validStatus (se_desired_status s)) x \<or> x = None" for x
    unfolding prods_def [symmetric, abs_def] cat_exec_def
    by (intro triple_keeps, cases x; simp only: option.case)
       (intro keeps_rules prods_tx fault_free_prods; (simp add: products_ok_upd_seed; fail)?; use that in \<open>simp add: products_ok_status\<close>)+
  ultimately have "triple ?I (Initialize seed pid) (\<lambda>_. ?I) ?I"
    unfolding Initialize_def by (intro triple_bind [where Q = "\<lambda>x w. (given (\<lambda>s. validStatus (se_desired_status s)) x \<or> x = None) \<and> ?I w"] triple_pure)
  then show "prods (snd (Initialize seed pid w))" using w unfolding prods_def by (rule triple_snd)
qed

lemma off_Initialize: "keeps (off_rules n rs) (Initialize seed pid)"
  unfolding Initialize_def cat_exec_def by (intro keeps_rules off_tx fault_free_off; simp add: upd_seed_def upd_product_def)

lemma keeps_Initialize [keeps_rules]: "keeps catalog_ok (Initialize seed pid)"
  by (intro keeps_both keeps_off off_Initialize prods_Initialize)

lemma keeps_product_handlers [keeps_rules]:
  "keeps catalog_ok (AdminProductUpdateHandler prepare c)" "keeps catalog_ok (AdminProductCreateHandler prepare seed i)"
  "keeps catalog_ok (retryProductInventorySeed prepare seed pid)"
  unfolding AdminProductUpdateHandler_def AdminProductCreateHandler_def retryProductInventorySeed_def prepare_visible_def Let_def
  by (intro keeps_rules fault_free_catalog)+

section \<open>The contract of a writer\<close>

text \<open>At most one limited price of a product is in effect at a time.\<close>

definition single_price :: "catalog_db \<Rightarrow> bool" where
  "single_price d \<longleftrightarrow> (\<forall>t. \<forall>(i, r)\<in>set (cd_rules d). \<forall>(j, q)\<in>set (cd_rules d).
     ru_product_id r = ru_product_id q \<and> in_effect t r \<and> in_effect t q \<longrightarrow> i = j)"

lemma catalog_single_price: "catalog_ok w \<Longrightarrow> single_price (cw_db w)"
proof -
  assume ok: "catalog_ok w"
  have "i = j" if ij: "(i, r) \<in> set (cd_rules (cw_db w))" "(j, q) \<in> set (cd_rules (cw_db w))" "ru_product_id r = ru_product_id q" "in_effect t r" "in_effect t q" for i j r q t
  proof (rule ccontr)
    assume "i \<noteq> j"
    then have "apart r q" using ok ij(1,2) rules_okD apart_fromD unfolding catalog_ok_def promotions_ok_def by metis
    then show False using ij(3-5) in_effect_overlaps [OF ij(4,5)] by (auto simp: apart_def in_effect_def)
  qed
  then show ?thesis unfolding single_price_def by blast
qed

locale catalog_writer =
  fixes call :: "'c \<Rightarrow> 'a cat_io"
  assumes call_keeps: "keeps catalog_ok (call c)"
begin

definition after :: "'c list \<Rightarrow> catalog_world \<Rightarrow> catalog_world" where
  "after cs w = fold (\<lambda>c w. snd (call c w)) cs w"

lemma after_ok: "catalog_ok w \<Longrightarrow> catalog_ok (after cs w)"
  unfolding after_def by (induction cs arbitrary: w) (auto intro: keepsD [OF call_keeps])

lemma after_single_price: "catalog_ok w \<Longrightarrow> single_price (cw_db (after cs w))"
  by (intro catalog_single_price after_ok)

lemma after_rule: "catalog_ok w \<Longrightarrow> (i, r) \<in> set (cd_rules (cw_db (after cs w))) \<Longrightarrow> rule_ok r"
  using after_ok [of w cs] rules_okD unfolding catalog_ok_def promotions_ok_def by blast

lemma after_product: "catalog_ok w \<Longrightarrow> (i, p) \<in> set (cd_products (cw_db (after cs w))) \<Longrightarrow> product_ok p"
  using after_ok [of w cs] unfolding catalog_ok_def products_ok_def by blast

end

text \<open>Two writers of one catalogue, their calls in any order.\<close>

locale catalog_writers = a: catalog_writer call1 + b: catalog_writer call2
  for call1 :: "'c \<Rightarrow> unit cat_io" and call2 :: "'d \<Rightarrow> unit cat_io"

sublocale catalog_writers \<subseteq> both: catalog_writer "case_sum call1 call2"
  by unfold_locales (auto split: sum.split intro: a.call_keeps b.call_keeps)

section \<open>The writers\<close>

definition forget :: "'a cat_io \<Rightarrow> unit cat_io" where
  "forget m = bindE (attempt m) (\<lambda>_. ret ())"

lemma keeps_forget [keeps_rules]: "keeps I m \<Longrightarrow> keeps I (forget m)"
  unfolding forget_def by (intro keeps_rules)

datatype gateway_call =
    GwPromotionCreate CreateInput | GwPromotionUpdate UpdateInput
  | GwProductCreate ProductInput | GwProductUpdate ProductChange | GwSeedRetry int | GwStockRebuild int int

datatype entry_call =
    EnPromotionCreate CreateInput | EnPromotionUpdate UpdateInput
  | EnStockRebuild int int | EnCardRefresh int int int | EnRefreshJob int int

text \<open>Between calls time passes, and what the network will lose changes.\<close>

datatype catalog_outside = Passes nat | Loses "fault list"

definition gateway_catalog ::
  "(string \<Rightarrow> string \<Rightarrow> int option) \<Rightarrow> (int \<Rightarrow> go_error + unit) \<Rightarrow> (int \<Rightarrow> int \<Rightarrow> int \<Rightarrow> go_error + unit) \<Rightarrow> gateway_call \<Rightarrow> unit cat_io" where
  "gateway_catalog parse_in prepare seed c = (case c of
       GwPromotionCreate i \<Rightarrow> forget (gateway_PromotionCreate parse_in i)
     | GwPromotionUpdate u \<Rightarrow> forget (gateway_PromotionUpdate parse_in u)
     | GwProductCreate i \<Rightarrow> forget (AdminProductCreateHandler prepare seed i)
     | GwProductUpdate u \<Rightarrow> forget (AdminProductUpdateHandler prepare u)
     | GwSeedRetry pid \<Rightarrow> forget (retryProductInventorySeed prepare seed pid)
     | GwStockRebuild pid limit \<Rightarrow> forget (gateway_StockSnapshotRebuild pid limit))"

definition entry_catalog :: "(string \<Rightarrow> string \<Rightarrow> int option) \<Rightarrow> entry_call \<Rightarrow> unit cat_io" where
  "entry_catalog parse_in c = (case c of
       EnPromotionCreate i \<Rightarrow> forget (AdminPromotionCreateHandler parse_in i)
     | EnPromotionUpdate u \<Rightarrow> forget (AdminPromotionUpdateHandler parse_in u)
     | EnStockRebuild pid limit \<Rightarrow> forget (AdminStockSnapshotRebuildHandler pid limit)
     | EnCardRefresh pid limit minutes \<Rightarrow> forget (AdminProductCardSnapshotRefreshHandler pid limit minutes)
     | EnRefreshJob minutes limit \<Rightarrow> forget (refreshOnce minutes limit))"

definition outside_catalog :: "catalog_outside \<Rightarrow> unit cat_io" where
  "outside_catalog c w = (Inr (), case c of Passes n \<Rightarrow> w\<lparr>cw_now := cw_now w + int n\<rparr> | Loses fs \<Rightarrow> w\<lparr>faults := fs\<rparr>)"

interpretation gateway: catalog_writer "gateway_catalog parse_in prepare seed" for parse_in prepare seed
  by unfold_locales (auto simp: gateway_catalog_def intro!: keeps_rules split: gateway_call.split)

interpretation entry: catalog_writer "entry_catalog parse_in" for parse_in
  by unfold_locales (auto simp: entry_catalog_def intro!: keeps_rules split: entry_call.split)

interpretation outside: catalog_writer outside_catalog
  by unfold_locales (auto simp: keeps_def outside_catalog_def catalog_ok_view split: catalog_outside.split)

interpretation services: catalog_writers "gateway_catalog parse_in prepare seed" "entry_catalog parse_in" for parse_in prepare seed ..

interpretation everyone: catalog_writers "case_sum (gateway_catalog parse_in prepare seed) (entry_catalog parse_in)" outside_catalog for parse_in prepare seed ..

definition catalog_after ::
  "(string \<Rightarrow> string \<Rightarrow> int option) \<Rightarrow> (int \<Rightarrow> go_error + unit) \<Rightarrow> (int \<Rightarrow> int \<Rightarrow> int \<Rightarrow> go_error + unit) \<Rightarrow>
   ((gateway_call + entry_call) + catalog_outside) list \<Rightarrow> catalog_world \<Rightarrow> catalog_world" where
  "catalog_after parse_in prepare seed cs w =
     fold (\<lambda>c w. snd (case_sum (case_sum (gateway_catalog parse_in prepare seed) (entry_catalog parse_in)) outside_catalog c w)) cs w"

lemma everyone_after: "everyone.both.after parse_in prepare seed = catalog_after parse_in prepare seed"
  by (intro ext) (simp add: everyone.both.after_def catalog_after_def)

section \<open>Demonstration data\<close>

definition demo_time :: "string \<Rightarrow> string \<Rightarrow> int option" where
  "demo_time layout s = (if layout = ''RFC3339'' then ParseInt s else None)"

definition demo_product :: cat_product where
  "demo_product = \<lparr>cp_merchant_id = Some 1000, cp_name = ''cup'', cp_image_url = None, cp_origin_price_fen = 120, cp_sale_price_fen = 100,
     cp_status = 1, cp_supplier_id = 1, cp_stock = 5\<rparr>"

definition demo_catalog :: catalog_world where
  "demo_catalog = \<lparr>faults = [], cw_now = 5, cw_db = \<lparr>cd_products = [(7, demo_product)], cd_rules = [], cd_cards = [], cd_stock = [], cd_buckets = [(7, 2), (7, 3)],
     cd_suppliers = [(1, 1)], cd_merchants = [(1000, 1)], cd_seeds = []\<rparr>, cw_next_rule = 1\<rparr>"

definition demo_promotion :: CreateInput where
  "demo_promotion = \<lparr>ci_ProductID = 7, ci_Type = ''limited_price'', ci_DiscountValue = 60, ci_ThresholdAmount = 0, ci_StartsAt = ''1'', ci_EndsAt = ''10'', ci_Status = 0\<rparr>"

lemma demo_catalog_ok: "catalog_ok demo_catalog"
  by (simp add: catalog_ok_def promotions_ok_def rules_ok_def products_ok_def demo_catalog_def product_ok_def demo_product_def validStatus_def)

end
