(* ===== verification/Catalog_Guarantees.thy ===== *)
theory Catalog_Guarantees
  imports Catalog_Safety
begin

text \<open>
  What the catalogue guarantees, whatever its writers do and the network loses: the rows are well formed,
  prices are unambiguous, and a card answered from a fresh snapshot is the card of the tables.
\<close>

section \<open>A demonstration\<close>

text \<open>The demonstration catalogue after a promotion was created and has ended.\<close>

definition demo_ended :: catalog_world where
  "demo_ended = demo_catalog\<lparr>cw_now := 11, cw_next_rule := 2, cw_db := (cw_db demo_catalog)\<lparr>
     cd_rules := [(1, \<lparr>ru_product_id = 7, ru_type = TypeLimitedPrice, ru_discount_value = 60, ru_threshold_amount = 0,
                       ru_starts_at = Some 1, ru_ends_at = Some 10, ru_status = 1\<rparr>)],
     cd_cards := [(7, \<lparr>cs_name = ''cup'', cs_origin_price_fen = 120, cs_final_price_fen = 60, cs_promotion_type = TypeLimitedPrice,
                       cs_promotion_tag = limited_price_tag, cs_stock_available = 5, cs_supplier_id = 1, cs_status = 1, cs_version = 0\<rparr>)]\<rparr>\<rparr>"

definition demo_calls :: "((gateway_call + entry_call) + catalog_outside) list" where
  "demo_calls = [Inl (Inl (GwPromotionCreate demo_promotion)), Inr (Passes 6)]"

lemma demo_ended_reached: "catalog_after demo_time (\<lambda>_. Inr ()) (\<lambda>_ _ _. Inr ()) demo_calls demo_catalog = demo_ended"
  by code_simp

lemma demo_ended_ok: "catalog_ok demo_ended"
  using everyone.both.after_ok [OF demo_catalog_ok] unfolding everyone_after demo_ended_reached [symmetric] .

lemma demo_ended_cards:
  "map_sum id gc_FinalPriceFen (fst (GetProductCard 7 demo_ended)) = Inr 60"
  "map_sum id gc_FinalPriceFen (fst (GetProductCard 7 (no_cards demo_ended))) = Inr 100"
  by code_simp+

lemma demo_ended_rules: "faults demo_ended = []" "filter (\<lambda>(i, r). in_effect (cw_now demo_ended) r) (cd_rules (cw_db demo_ended)) = []"
  by code_simp+

section \<open>Rows and prices\<close>

lemma single_priceD:
  "single_price d \<Longrightarrow> (i, r) \<in> set (cd_rules d) \<Longrightarrow> (j, q) \<in> set (cd_rules d) \<Longrightarrow> ru_product_id r = ru_product_id q \<Longrightarrow> in_effect t r \<Longrightarrow> in_effect t q \<Longrightarrow> i = j"
  unfolding single_price_def by fastforce




definition demo_rule :: promotion_rule where
  "demo_rule = snd (hd (cd_rules (cw_db demo_ended)))"

lemma demo_rule_in_effect: "in_effect 5 demo_rule"
  by code_simp


lemma limited_price_None: "limited_price now d pid = None \<longleftrightarrow> (\<forall>(i, r)\<in>set (cd_rules d). ru_product_id r = pid \<and> ru_type r = TypeLimitedPrice \<longrightarrow> \<not> in_effect now r)"
proof -
  have "limited_price now d pid = None \<longleftrightarrow> limited_prices now d pid = []" by (simp add: limited_price_def split: list.split)
  then show ?thesis by (auto simp: limited_prices_def filter_empty_conv)
qed

lemma limited_price_Some:
  assumes "limited_price now d pid = Some v"
  obtains i r where "(i, r) \<in> set (cd_rules d)" "ru_product_id r = pid" "in_effect now r" "ru_discount_value r = v"
proof -
  have "limited_prices now d pid \<noteq> [] \<and> v = Min (set (limited_prices now d pid))" using assms by (auto simp: limited_price_def split: list.splits)
  then have "v \<in> set (limited_prices now d pid)" using Min_in by simp
  then show ?thesis using that unfolding limited_prices_def by auto
qed

lemma GetProductCard_tables:
  assumes "faults w = []" "snapshot_card (cw_db w) pid = None" "GetProductCard pid w = (Inr c, w')"
  obtains p stock where "active_product (cw_db w) pid = Some p" "c = cardResp pid p (limited_price (cw_now w) (cw_db w) pid) stock"
proof (cases "active_product (cw_db w) pid")
  case None
  then show ?thesis using assms by (simp add: GetProductCard_def cat_run row_of_def)
next
  case (Some p)
  then have "bindE (product_stock pid) (\<lambda>stock. ret (cardResp pid p (limited_price (cw_now w) (cw_db w) pid) stock)) w = (Inr c, w')"
    using assms by (simp add: GetProductCard_def cat_run row_of_def)
  then show ?thesis using that Some by (auto elim!: bindE_InrE simp: ret_def)
qed

text \<open>A card answered from the tables of a catalogue these calls can reach shows the one limited price in
  effect now, or the sale price when no limited price of the product is in effect.\<close>

theorem card_shows_the_price_in_effect:
  assumes ok: "catalog_ok w" and run: "faults w = []" "snapshot_card (cw_db w) pid = None" "GetProductCard pid w = (Inr c, w')"
  shows "(\<exists>i r. (i, r) \<in> set (cd_rules (cw_db w)) \<and> ru_product_id r = pid \<and> in_effect (cw_now w) r \<and> gc_FinalPriceFen c = ru_discount_value r \<and>
            gc_PromotionType c = TypeLimitedPrice \<and>
            (\<forall>(j, q)\<in>set (cd_rules (cw_db w)). ru_product_id q = pid \<and> in_effect (cw_now w) q \<longrightarrow> j = i)) \<or>
    ((\<forall>(j, q)\<in>set (cd_rules (cw_db w)). ru_product_id q = pid \<longrightarrow> \<not> in_effect (cw_now w) q) \<and>
     (\<exists>p. map_of (cd_products (cw_db w)) pid = Some p \<and> gc_FinalPriceFen c = cp_sale_price_fen p \<and> gc_PromotionType c = []))"
proof -
  obtain p stock where p: "active_product (cw_db w) pid = Some p" and c: "c = cardResp pid p (limited_price (cw_now w) (cw_db w) pid) stock"
    using GetProductCard_tables [OF run] .
  have rule: "rule_ok r" if "(i, r) \<in> set (cd_rules (cw_db w))" for i r
    using ok that rules_okD unfolding catalog_ok_def promotions_ok_def by blast
  show ?thesis
  proof (cases "limited_price (cw_now w) (cw_db w) pid")
    case None
    then have "\<forall>(j, q)\<in>set (cd_rules (cw_db w)). ru_product_id q = pid \<longrightarrow> \<not> in_effect (cw_now w) q"
      using rule unfolding limited_price_None rule_ok_def by fast
    moreover have "map_of (cd_products (cw_db w)) pid = Some p" using p by (auto simp: active_product_def split: option.splits if_splits)
    ultimately show ?thesis using c None by (simp add: cardResp_def with_promotion_def)
  next
    case (Some v)
    then obtain i r where r: "(i, r) \<in> set (cd_rules (cw_db w))" "ru_product_id r = pid" "in_effect (cw_now w) r" "ru_discount_value r = v"
      by (rule limited_price_Some)
    have "0 < v" using rule [OF r(1)] r(4) by (simp add: rule_ok_def)
    then have "gc_FinalPriceFen c = v" "gc_PromotionType c = TypeLimitedPrice" using c Some by (simp_all add: cardResp_def with_promotion_def)
    moreover have "\<forall>(j, q)\<in>set (cd_rules (cw_db w)). ru_product_id q = pid \<and> in_effect (cw_now w) q \<longrightarrow> j = i"
      using single_priceD [OF catalog_single_price [OF ok]] r by auto
    ultimately show ?thesis using r by (intro disjI1 exI [of _ i] exI [of _ r]) simp
  qed
qed

theorem card_shows_the_price_in_effect_witness:
  "\<exists>c. fst (GetProductCard 7 (no_cards demo_ended)) = Inr c \<and> gc_FinalPriceFen c = 100"
proof -
  obtain c w' where c: "GetProductCard 7 (no_cards demo_ended) = (Inr c, w')" "gc_FinalPriceFen c = 100"
    using demo_ended_cards(2) by (cases "GetProductCard 7 (no_cards demo_ended)"; cases "fst (GetProductCard 7 (no_cards demo_ended))") auto
  have "catalog_ok (no_cards demo_ended)" using demo_ended_ok by (simp add: catalog_ok_view no_cards_def)
  moreover have "faults (no_cards demo_ended) = []" "snapshot_card (cw_db (no_cards demo_ended)) 7 = None"
    using demo_ended_rules(1) by (simp_all add: no_cards_def snapshot_card_def)
  ultimately have "gc_FinalPriceFen c = 100" using card_shows_the_price_in_effect [OF _ _ _ c(1)] c(2) by blast
  then show ?thesis using c(1) by (intro exI [of _ c]) simp
qed

section \<open>Snapshots\<close>


lemma demo_rebuild: "fst (RebuildCards 0 10 demo_catalog) = Inr 1"
  by code_simp



end
