(* ===== verification/Close_Job.thy ===== *)
theory Close_Job
  imports Redis_Keys "HOL-Library.AList"
begin

text \<open>
  The job of the entry api that closes orders nobody paid (\<open>app/entry/api/job/closeorder.go\<close>).  An order
  waits in a sorted set of Redis until its time; the job moves it to a second set while it works on it,
  so that a crash does not lose it.  The world holds the queues, the counters of retries, the rows of
  \<open>orders\<close>, the cache in front of them, and what the job has reported.  The rpcs of the product and the
  order service are parameters: their answers; an answer may also be lost.  The order model reads
  through the cached connection of go-zero: an answer of the table may be kept in Redis and then answers
  later reads; the parameter \<open>remember\<close> says which answers are kept.
\<close>

section \<open>State\<close>

record close_order =
  co_product_id :: int
  co_amount :: int
  co_status :: int

text \<open>The messages that end the work on an order.\<close>

datatype outcome = OrderNotFound | StatusSkipped int | RaceSkipped | OrderClosed

record close_world = env +
  cj_now :: int
  cj_delay :: "(string \<times> int) list"
  cj_processing :: "(string \<times> int) list"
  cj_dlq :: "(string \<times> int) list"
  cj_retry :: "string \<Rightarrow> (int \<times> int option) option"
  cj_orders :: "(string \<times> close_order) list"
  cj_cache :: "string \<Rightarrow> close_order option option"
  cj_released :: "string list"
  cj_log :: "(string \<times> outcome) list"

type_synonym 'a close_io = "(close_world, 'a) io"

definition visibilityTimeoutSeconds :: int where
  "visibilityTimeoutSeconds = 30"

definition maxRetries :: int where
  "maxRetries = 5"

definition retryBackoffSeconds :: int where
  "retryBackoffSeconds = 5"

section \<open>Queues\<close>

text \<open>\<open>ZRANGEBYSCORE key 0 hi\<close>: by score, ties by member.\<close>

definition due_members :: "int \<Rightarrow> (string \<times> int) list \<Rightarrow> string list" where
  "due_members hi z = map snd (sort (map (\<lambda>(m, s). (s, m)) (filter (\<lambda>(m, s). 0 \<le> s \<and> s \<le> hi) z)))"

definition move_back :: "int \<Rightarrow> string \<Rightarrow> close_world \<Rightarrow> close_world" where
  "move_back now m w = w\<lparr>cj_processing := AList.delete m (cj_processing w), cj_delay := AList.update m now (cj_delay w)\<rparr>"

definition reclaimExpired :: "int \<Rightarrow> unit close_io" where
  "reclaimExpired now = ext_call (\<lambda>w. (Inr (), fold (move_back now) (take 10 (due_members now (cj_processing w))) w))"

definition claim_script :: "int \<Rightarrow> int \<Rightarrow> string close_io" where
  "claim_script now visibilityAt w = (case due_members now (cj_delay w) of
       [] \<Rightarrow> (Inr [], w)
     | m # _ \<Rightarrow> (Inr m, w\<lparr>cj_delay := AList.delete m (cj_delay w), cj_processing := AList.update m visibilityAt (cj_processing w)\<rparr>))"

definition claimDueOrder :: "int \<Rightarrow> string close_io" where
  "claimDueOrder now = ext_call (claim_script now (now + visibilityTimeoutSeconds))"

definition remove_processing :: "string \<Rightarrow> unit close_io" where
  "remove_processing orderId = ext_call (\<lambda>w. (Inr (), w\<lparr>cj_processing := AList.delete orderId (cj_processing w)\<rparr>))"

definition delete_retry :: "string \<Rightarrow> unit close_io" where
  "delete_retry orderId = ext_call (\<lambda>w. (Inr (), w\<lparr>cj_retry := (cj_retry w)(orderId := None)\<rparr>))"

definition ack :: "string \<Rightarrow> unit close_io" where
  "ack orderId = bindE (or_else (remove_processing orderId) ()) (\<lambda>_. or_else (delete_retry orderId) ())"

definition incr_retry :: "string \<Rightarrow> int close_io" where
  "incr_retry orderId = ext_call (\<lambda>w.
     let n = (case live (cj_now w) (cj_retry w orderId) of None \<Rightarrow> 0 | Some v \<Rightarrow> v) + 1 in
     (Inr n, w\<lparr>cj_retry := (cj_retry w)(orderId := put_live (cj_now w) n (cj_retry w orderId))\<rparr>))"

definition expire_retry :: "string \<Rightarrow> int \<Rightarrow> unit close_io" where
  "expire_retry orderId ttl = ext_call (\<lambda>w. (Inr (), w\<lparr>cj_retry := (cj_retry w)(orderId := expire_key (cj_now w) ttl (cj_retry w orderId))\<rparr>))"

definition add_dlq :: "string \<Rightarrow> unit close_io" where
  "add_dlq orderId = ext_call (\<lambda>w. (Inr (), w\<lparr>cj_dlq := AList.update orderId (cj_now w) (cj_dlq w)\<rparr>))"

definition add_delay :: "string \<Rightarrow> unit close_io" where
  "add_delay orderId = ext_call (\<lambda>w. (Inr (), w\<lparr>cj_delay := AList.update orderId (cj_now w + retryBackoffSeconds) (cj_delay w)\<rparr>))"

text \<open>Errors are logged; the order stays where it is.\<close>

definition onFailure :: "string \<Rightarrow> unit close_io" where
  "onFailure orderId = or_else (
     bindE (incr_retry orderId) (\<lambda>retryCount.
     bindE (or_else (expire_retry orderId (24 * 60 * 60)) ()) (\<lambda>_.
     if retryCount > maxRetries then bindE (add_dlq orderId) (\<lambda>_. ack orderId)
     else bindE (add_delay orderId) (\<lambda>_. ack orderId)))) ()"

section \<open>Closing an order\<close>

definition report :: "string \<Rightarrow> outcome \<Rightarrow> unit close_io" where
  "report orderId x w = (Inr (), w\<lparr>cj_log := cj_log w @ [(orderId, x)]\<rparr>)"

definition cache_row :: "(close_order option \<Rightarrow> bool) \<Rightarrow> string \<Rightarrow> close_order option \<Rightarrow> unit close_io" where
  "cache_row remember orderId x = ext_call (\<lambda>w. (Inr (), if remember x then w\<lparr>cj_cache := (cj_cache w)(orderId := Some x)\<rparr> else w))"

definition select_order :: "string \<Rightarrow> close_order option close_io" where
  "select_order orderId = ext_call (\<lambda>w. (Inr (map_of (cj_orders w) orderId), w))"

definition FindOrder :: "(close_order option \<Rightarrow> bool) \<Rightarrow> string \<Rightarrow> close_order option close_io" where
  "FindOrder remember orderId =
     bindE (ext_call (\<lambda>w. (Inr (cj_cache w orderId), w))) (\<lambda>c. case c of
       Some x \<Rightarrow> ret x
     | None \<Rightarrow> bindE (select_order orderId) (\<lambda>x. bindE (or_else (cache_row remember orderId x) ()) (\<lambda>_. ret x)))"

text \<open>The update goes past the cached connection.\<close>

definition set_closed :: "string \<Rightarrow> int close_io" where
  "set_closed orderId = ext_call (\<lambda>w. case map_of (cj_orders w) orderId of
       None \<Rightarrow> (Inr 0, w)
     | Some r \<Rightarrow> if co_status r = 0 then (Inr 1, w\<lparr>cj_orders := AList.update orderId (r\<lparr>co_status := 2\<rparr>) (cj_orders w)\<rparr>) else (Inr 0, w))"

text \<open>The rollback of the reservation, as the order service acknowledged it.\<close>

definition release_rpc :: "(int \<Rightarrow> int \<Rightarrow> string \<Rightarrow> go_error + unit) \<Rightarrow> int \<Rightarrow> int \<Rightarrow> string \<Rightarrow> unit close_io" where
  "release_rpc rollback pid amount orderId = ext_call (\<lambda>w. case rollback pid amount orderId of
       Inl e \<Rightarrow> (Inl e, w)
     | Inr _ \<Rightarrow> (Inr (), w\<lparr>cj_released := orderId # cj_released w\<rparr>))"

definition handleCloseOrder ::
  "(close_order option \<Rightarrow> bool) \<Rightarrow> bool \<Rightarrow> (int \<Rightarrow> int \<Rightarrow> string \<Rightarrow> go_error + unit) \<Rightarrow> (int \<Rightarrow> int \<Rightarrow> string \<Rightarrow> go_error + unit) \<Rightarrow> string \<Rightarrow> unit close_io" where
  "handleCloseOrder remember InventoryOwnsFinalDeduct revert rollback orderId =
     bindE (FindOrder remember orderId) (\<lambda>x. case x of
       None \<Rightarrow> report orderId OrderNotFound
     | Some r \<Rightarrow>
         if co_status r = 1 then report orderId (StatusSkipped (co_status r))
         else if co_status r \<noteq> 0 \<and> co_status r \<noteq> 2 then report orderId (StatusSkipped (co_status r))
         else bindE (if co_status r = 0 then set_closed orderId else ret 1) (\<lambda>affected.
              if affected = 0 then report orderId RaceSkipped
              else bindE (if InventoryOwnsFinalDeduct then ret () else ext_call (\<lambda>w. (revert (co_product_id r) (co_amount r) orderId, w))) (\<lambda>_.
                   bindE (release_rpc rollback (co_product_id r) (co_amount r) orderId) (\<lambda>_.
                   report orderId OrderClosed))))"

definition consume ::
  "(close_order option \<Rightarrow> bool) \<Rightarrow> bool \<Rightarrow> (int \<Rightarrow> int \<Rightarrow> string \<Rightarrow> go_error + unit) \<Rightarrow> (int \<Rightarrow> int \<Rightarrow> string \<Rightarrow> go_error + unit) \<Rightarrow> unit close_io" where
  "consume remember owns revert rollback =
     bindE get_world (\<lambda>w. let now = cj_now w in
     bindE (or_else (reclaimExpired now) ()) (\<lambda>_.
     bindE (attempt (claimDueOrder now)) (\<lambda>c. case c of
       Inl e \<Rightarrow> ret ()
     | Inr orderId \<Rightarrow>
         if orderId = [] then ret ()
         else bindE (attempt (handleCloseOrder remember owns revert rollback orderId)) (\<lambda>h. case h of
                Inl e \<Rightarrow> onFailure orderId
              | Inr _ \<Rightarrow> ack orderId))))"

end
