(* ===== verification/Close_Safety.thy ===== *)
theory Close_Safety
  imports Close_Job
begin

text \<open>
  An order that was put into the queue stays in one of the queues until the job has reported what became
  of it.  The limit of retries has no effect, because every failure deletes the counter; and a release
  that failed is not repeated, because the retry reads the order from the cache.
\<close>

section \<open>Queues as sets\<close>

definition queued :: "close_world \<Rightarrow> string set" where
  "queued w = fst ` set (cj_delay w) \<union> fst ` set (cj_processing w) \<union> fst ` set (cj_dlq w)"

definition traced :: "string \<Rightarrow> close_world \<Rightarrow> bool" where
  "traced i w \<longleftrightarrow> i \<in> queued w \<or> i \<in> fst ` set (cj_log w)"

lemma keys_delete [simp]: "fst ` set (AList.delete k z) = fst ` set z - {k}"
  by (auto simp: AList.delete_eq image_iff)

lemma keys_update [simp]: "fst ` set (AList.update k v z) = insert k (fst ` set z)"
  using AList.dom_update [of k v z] by (simp add: dom_map_of_conv_image_fst)

text \<open>In a queue the job does not take orders out of when it is done with one, or reported.\<close>

definition kept :: "string \<Rightarrow> close_world \<Rightarrow> bool" where
  "kept i w \<longleftrightarrow> i \<in> fst ` set (cj_delay w) \<union> fst ` set (cj_dlq w) \<or> i \<in> fst ` set (cj_log w)"

lemma kept_traced: "kept i w \<Longrightarrow> traced i w"
  by (auto simp: kept_def traced_def queued_def)

lemma fault_free_close [simp]: "fault_free (traced i)" "fault_free (kept i)"
  by (simp_all add: fault_free_def traced_def kept_def queued_def)

section \<open>Calls\<close>

lemma keeps_pure_call: "fault_free I \<Longrightarrow> (\<And>w. I w \<Longrightarrow> I (snd (f w))) \<Longrightarrow> keeps I (ext_call f)"
  by (intro keeps_ext_call) (auto simp: keeps_def)

text \<open>Reading an order changes the cache at most.\<close>

lemma keeps_find:
  assumes "keeps I (ext_call (\<lambda>w. (Inr (cj_cache w j), w)))" "keeps I (select_order j)" "\<And>x. keeps I (cache_row remember j x)"
  shows "keeps I (FindOrder remember j)"
  unfolding FindOrder_def using assms by (auto intro!: keeps_rules split: option.split)

lemma traced_move: "traced i w \<Longrightarrow> traced i (move_back now m w)"
  by (auto simp: traced_def queued_def move_back_def)

lemma traced_moves: "traced i w \<Longrightarrow> traced i (fold (move_back now) ms w)"
  by (induction ms arbitrary: w) (auto intro: traced_move)

lemma traced_reclaim [keeps_rules]: "keeps (traced i) (reclaimExpired now)"
  unfolding reclaimExpired_def by (rule keeps_pure_call) (simp_all add: traced_moves)

lemma traced_queues [keeps_rules]:
  "keeps (traced i) (claimDueOrder now)" "keeps (traced i) (delete_retry j)" "keeps (traced i) (incr_retry j)"
  "keeps (traced i) (expire_retry j ttl)" "keeps (traced i) (add_dlq j)" "keeps (traced i) (add_delay j)"
  unfolding claimDueOrder_def delete_retry_def incr_retry_def expire_retry_def add_dlq_def add_delay_def
  by (intro keeps_pure_call; auto simp: claim_script_def traced_def queued_def Let_def split: list.splits)+

lemma traced_remove [keeps_rules]: "i \<noteq> j \<Longrightarrow> keeps (traced i) (remove_processing j)"
  unfolding remove_processing_def by (intro keeps_pure_call) (auto simp: traced_def queued_def)

lemma kept_calls [keeps_rules]: "keeps (kept i) (remove_processing j)" "keeps (kept i) (delete_retry j)"
  unfolding remove_processing_def delete_retry_def by (intro keeps_pure_call; auto simp: kept_def)+

lemma keeps_ack: "i \<noteq> j \<Longrightarrow> keeps (traced i) (ack j)" "keeps (kept i) (ack j)"
  unfolding ack_def by (intro keeps_rules; assumption?)+

lemma traced_handle: "keeps (traced i) (handleCloseOrder remember owns revert rollback j)"
proof -
  have log: "keeps (traced i) (report j x)" for x by (auto simp: keeps_def report_def traced_def queued_def)
  have find: "keeps (traced i) (FindOrder remember j)"
    by (rule keeps_find; (unfold select_order_def cache_row_def)?; rule keeps_pure_call) (auto simp: traced_def queued_def)
  have calls: "keeps (traced i) (set_closed j)" "keeps (traced i) (release_rpc rollback p a j)" "keeps (traced i) (ext_call (\<lambda>w. (r, w)))" for p a and r :: "go_error + unit"
    unfolding set_closed_def release_rpc_def by (intro keeps_pure_call; auto simp: traced_def queued_def split: option.splits sum.splits)+
  have if_rule: "keeps (traced i) m \<Longrightarrow> keeps (traced i) m' \<Longrightarrow> keeps (traced i) (if b then m else m')" for b and m m' :: "'b close_io" by simp
  have opt_rule: "keeps (traced i) m \<Longrightarrow> (\<And>v. keeps (traced i) (k v)) \<Longrightarrow> keeps (traced i) (case x of None \<Rightarrow> m | Some v \<Rightarrow> k v)" for x :: "close_order option" and m and k :: "close_order \<Rightarrow> unit close_io"
    by (cases x) auto
  show ?thesis unfolding handleCloseOrder_def by (intro keeps_rules log find calls if_rule opt_rule)
qed

text \<open>Work on an order that succeeds ends with a report.\<close>

lemma handle_reports:
  assumes "handleCloseOrder remember owns revert rollback j w = (Inr u, w')"
  shows "kept j w'"
proof -
  have log: "report j x w1 = (y, w') \<Longrightarrow> kept j w'" for x w1 y by (auto simp: report_def kept_def)
  show ?thesis
    using assms unfolding handleCloseOrder_def
    by (auto elim!: bindE_InrE split: option.splits if_splits dest!: log)
qed

lemma triple_requeue: "triple (traced i) (add_delay i) (\<lambda>_. kept i) (traced i)" "triple (traced i) (add_dlq i) (\<lambda>_. kept i) (traced i)"
proof -
  have call: "triple (traced i) (ext_call f) (\<lambda>_. kept i) (traced i)"
    if f: "\<And>w. traced i w \<Longrightarrow> kept i (snd (f w))" for f :: "unit close_io"
    unfolding triple_def
  proof (intro allI impI)
    fix w assume w: "traced i w"
    obtain x w' where r: "ext_call f w = (x, w')" by fastforce
    then have "case (x, w') of (Inl e, w') \<Rightarrow> traced i w' | (Inr a, w') \<Rightarrow> kept i w'"
    proof (cases rule: ext_call_cases)
      case (reply fs)
      have "kept i w'" using f [of "w\<lparr>faults := fs\<rparr>"] w reply by (simp add: traced_def queued_def)
      then show ?thesis by (auto split: sum.splits intro: kept_traced)
    next
      case (lost s fs)
      then show ?thesis using w by (simp add: traced_def queued_def)
    next
      case (unanswered s fs y)
      have "kept i w'" using f [of "w\<lparr>faults := fs\<rparr>"] w unanswered by (simp add: traced_def queued_def)
      then show ?thesis using unanswered by (auto intro: kept_traced)
    qed
    then show "case ext_call f w of (Inl e, w') \<Rightarrow> traced i w' | (Inr a, w') \<Rightarrow> kept i w'" unfolding r .
  qed
  show "triple (traced i) (add_delay i) (\<lambda>_. kept i) (traced i)" unfolding add_delay_def by (rule call) (simp add: kept_def)
  show "triple (traced i) (add_dlq i) (\<lambda>_. kept i) (traced i)" unfolding add_dlq_def by (rule call) (simp add: kept_def)
qed

lemma traced_onFailure: "keeps (traced i) (onFailure j)"
proof (cases "i = j")
  case False
  then show ?thesis
    unfolding onFailure_def using keeps_ack(1) [OF False] by (auto intro!: keeps_rules)
next
  case True
  have ack: "triple (kept i) (ack i) (\<lambda>_. traced i) (traced i)"
    by (rule triple_conseq [OF triple_keeps [OF keeps_ack(2)]]) (auto intro: kept_traced)
  have move: "triple (traced i) (if b then bindE (add_dlq i) (\<lambda>_. ack i) else bindE (add_delay i) (\<lambda>_. ack i)) (\<lambda>_. traced i) (traced i)" for b
    by (intro triple_if triple_bind [OF triple_requeue(1) ack] triple_bind [OF triple_requeue(2) ack])
  have all: "triple (traced i) (bindE (incr_retry i) (\<lambda>n. bindE (or_else (expire_retry i (24 * 60 * 60)) ()) (\<lambda>_.
      if n > maxRetries then bindE (add_dlq i) (\<lambda>_. ack i) else bindE (add_delay i) (\<lambda>_. ack i)))) (\<lambda>_. traced i) (traced i)"
    by (intro triple_bind [OF triple_keeps] keeps_rules move)
  show ?thesis unfolding onFailure_def True [symmetric] by (rule keeps_or_else, rule keepsI, rule triple_snd [OF all])
qed

lemma traced_consume: "keeps (traced i) (consume remember owns revert rollback)"
proof -
  have done_with: "triple (traced i) (attempt (handleCloseOrder remember owns revert rollback j)) (\<lambda>h w. case h of Inl e \<Rightarrow> traced i w | Inr _ \<Rightarrow> traced i w \<and> (i = j \<longrightarrow> kept i w)) (traced i)" for j
    unfolding triple_def
  proof (intro allI impI)
    fix w assume w: "traced i w"
    obtain h w' where r: "handleCloseOrder remember owns revert rollback j w = (h, w')" by fastforce
    have "traced i w'" using keepsD [OF traced_handle w, of remember owns revert rollback j] r by simp
    moreover have "h = Inr u \<Longrightarrow> kept j w'" for u using handle_reports r by blast
    ultimately show "case attempt (handleCloseOrder remember owns revert rollback j) w of (Inl e, w') \<Rightarrow> traced i w' | (Inr h, w') \<Rightarrow> (case h of Inl e \<Rightarrow> traced i w' | Inr _ \<Rightarrow> traced i w' \<and> (i = j \<longrightarrow> kept i w'))"
      by (cases h) (auto simp: attempt_def r)
  qed
  have after: "triple (\<lambda>w. case h of Inl e \<Rightarrow> traced i w | Inr _ \<Rightarrow> traced i w \<and> (i = j \<longrightarrow> kept i w)) (case h of Inl e \<Rightarrow> onFailure j | Inr _ \<Rightarrow> ack j) (\<lambda>_. traced i) (traced i)" for h :: "go_error + unit" and j
  proof (cases h)
    case (Inl e)
    then show ?thesis using triple_keeps [OF traced_onFailure] by simp
  next
    case (Inr u)
    show ?thesis
    proof (cases "i = j")
      case True
      have "triple (kept i) (ack i) (\<lambda>_. traced i) (traced i)" by (rule triple_conseq [OF triple_keeps [OF keeps_ack(2)]]) (auto intro: kept_traced)
      then show ?thesis using Inr True by (auto intro: triple_conseq)
    next
      case False
      then show ?thesis using Inr triple_keeps [OF keeps_ack(1) [OF False]] by simp
    qed
  qed
  have "keeps (traced i) (bindE (attempt (handleCloseOrder remember owns revert rollback j)) (\<lambda>h. case h of Inl e \<Rightarrow> onFailure j | Inr _ \<Rightarrow> ack j))" for j
    by (intro keepsI triple_snd [OF triple_bind [OF done_with after]])
  then show ?thesis unfolding consume_def Let_def by (auto intro!: keeps_rules split: sum.split)
qed

section \<open>Histories\<close>

text \<open>Runs of the job, new orders, other services that move an order, time, entries that leave the cache,
  and what will be lost.\<close>

datatype close_step = Consume | Enqueue string int | Moved string int | Elapse nat | Evict string | Outages "fault list"

definition close_step_run ::
  "(close_order option \<Rightarrow> bool) \<Rightarrow> bool \<Rightarrow> (int \<Rightarrow> int \<Rightarrow> string \<Rightarrow> go_error + unit) \<Rightarrow> (int \<Rightarrow> int \<Rightarrow> string \<Rightarrow> go_error + unit) \<Rightarrow> close_step \<Rightarrow> close_world \<Rightarrow> close_world" where
  "close_step_run remember owns revert rollback s w = (case s of
       Consume \<Rightarrow> snd (consume remember owns revert rollback w)
     | Enqueue i t \<Rightarrow> w\<lparr>cj_delay := AList.update i t (cj_delay w)\<rparr>
     | Moved i st \<Rightarrow> w\<lparr>cj_orders := AList.map_entry i (\<lambda>r. r\<lparr>co_status := st\<rparr>) (cj_orders w)\<rparr>
     | Evict i \<Rightarrow> w\<lparr>cj_cache := (cj_cache w)(i := None)\<rparr>
     | Elapse n \<Rightarrow> w\<lparr>cj_now := cj_now w + int n\<rparr>
     | Outages fs \<Rightarrow> w\<lparr>faults := fs\<rparr>)"

definition close_history ::
  "(close_order option \<Rightarrow> bool) \<Rightarrow> bool \<Rightarrow> (int \<Rightarrow> int \<Rightarrow> string \<Rightarrow> go_error + unit) \<Rightarrow> (int \<Rightarrow> int \<Rightarrow> string \<Rightarrow> go_error + unit) \<Rightarrow> close_step list \<Rightarrow> close_world \<Rightarrow> close_world" where
  "close_history remember owns revert rollback steps w = fold (close_step_run remember owns revert rollback) steps w"

lemma traced_step: "traced i w \<Longrightarrow> traced i (close_step_run remember owns revert rollback s w)"
  using keepsD [OF traced_consume] by (auto simp: close_step_run_def traced_def queued_def split: close_step.splits)

lemma traced_history: "traced i w \<Longrightarrow> traced i (close_history remember owns revert rollback steps w)"
  unfolding close_history_def by (induction steps arbitrary: w) (auto intro: traced_step)

text \<open>What is reported closed was released.\<close>

definition closed_released :: "close_world \<Rightarrow> bool" where
  "closed_released w \<longleftrightarrow> (\<forall>i. (i, OrderClosed) \<in> set (cj_log w) \<longrightarrow> i \<in> set (cj_released w))"

lemma fault_free_released [simp]: "fault_free closed_released"
  by (simp add: fault_free_def closed_released_def)

lemma released_moves: "closed_released w \<Longrightarrow> closed_released (fold (move_back now) ms w)"
  by (induction ms arbitrary: w) (auto simp: move_back_def closed_released_def)

lemma released_reclaim [keeps_rules]: "keeps closed_released (reclaimExpired now)"
  unfolding reclaimExpired_def by (rule keeps_pure_call) (simp_all add: released_moves)

lemma released_calls [keeps_rules]:
  "keeps closed_released (claimDueOrder now)" "keeps closed_released (delete_retry j)" "keeps closed_released (incr_retry j)"
  "keeps closed_released (expire_retry j ttl)" "keeps closed_released (add_dlq j)" "keeps closed_released (add_delay j)" "keeps closed_released (remove_processing j)"
  "keeps closed_released (set_closed j)" "keeps closed_released (ext_call (\<lambda>w. (r, w)))" "keeps closed_released (release_rpc rollback p a j)"
  unfolding claimDueOrder_def delete_retry_def incr_retry_def expire_retry_def add_dlq_def add_delay_def remove_processing_def set_closed_def release_rpc_def
  by (intro keeps_pure_call; auto simp: claim_script_def closed_released_def Let_def split: list.splits option.splits sum.splits)+

lemma released_find [keeps_rules]: "keeps closed_released (FindOrder remember j)"
  by (rule keeps_find; (unfold select_order_def cache_row_def)?; rule keeps_pure_call) (auto simp: closed_released_def)

lemma released_report: "x \<noteq> OrderClosed \<Longrightarrow> keeps closed_released (report j x)"
  by (auto simp: keeps_def report_def closed_released_def)

lemma release_then_report: "keeps closed_released (bindE (release_rpc rollback p a j) (\<lambda>_. report j OrderClosed))"
proof (rule keepsI)
  fix w assume w: "closed_released w"
  obtain x w1 where r: "release_rpc rollback p a j w = (x, w1)" by fastforce
  have w1: "closed_released w1" using keepsD [OF released_calls(10) w] r by (metis snd_conv)
  show "closed_released (snd (bindE (release_rpc rollback p a j) (\<lambda>_. report j OrderClosed) w))"
  proof (cases x)
    case (Inr u)
    have "j \<in> set (cj_released w1)"
      using r unfolding Inr release_rpc_def by (rule ext_call_cases) (auto split: sum.splits)
    then show ?thesis using w1 Inr r by (auto simp: bindE_def report_def closed_released_def)
  next
    case (Inl e)
    then show ?thesis using w1 r by (simp add: bindE_def)
  qed
qed

lemma released_consume: "keeps closed_released (consume remember owns revert rollback)"
proof -
  have if_rule: "keeps closed_released m \<Longrightarrow> keeps closed_released m' \<Longrightarrow> keeps closed_released (if b then m else m')" for b and m m' :: "'b close_io" by simp
  have "keeps closed_released (handleCloseOrder remember owns revert rollback j)" for j
    unfolding handleCloseOrder_def
    by (auto intro!: keeps_rules released_report release_then_report split: option.split)
  then show ?thesis
    unfolding consume_def onFailure_def ack_def Let_def by (auto intro!: keeps_rules split: sum.split)
qed

lemma released_history: "closed_released w \<Longrightarrow> closed_released (close_history remember owns revert rollback steps w)"
  unfolding close_history_def
proof (induction steps arbitrary: w)
  case (Cons s steps)
  then show ?case using keepsD [OF released_consume Cons.prems]
    by (auto simp: close_step_run_def closed_released_def split: close_step.splits)
qed simp

section \<open>Retries\<close>

definition uncounted :: "close_world \<Rightarrow> bool" where
  "uncounted w \<longleftrightarrow> faults w = [] \<and> cj_retry w = (\<lambda>_. None) \<and> cj_dlq w = []"

lemma uncounted_call: "(\<And>w. uncounted w \<Longrightarrow> uncounted (snd (f w))) \<Longrightarrow> keeps uncounted (ext_call f)"
  by (auto simp: keeps_def uncounted_def ext_call_ok)

lemma uncounted_moves: "uncounted w \<Longrightarrow> uncounted (fold (move_back now) ms w)"
  by (induction ms arbitrary: w) (auto simp: move_back_def uncounted_def)

lemma uncounted_calls [keeps_rules]:
  "keeps uncounted (claimDueOrder now)" "keeps uncounted (remove_processing j)" "keeps uncounted (delete_retry j)" "keeps uncounted (set_closed j)"
  "keeps uncounted (ext_call (\<lambda>w. (r, w)))" "keeps uncounted (release_rpc rollback p a j)" "keeps uncounted (report j x)"
  unfolding claimDueOrder_def remove_processing_def delete_retry_def set_closed_def release_rpc_def
  by (intro uncounted_call; auto simp: claim_script_def uncounted_def split: list.splits option.splits sum.splits)+
     (auto simp: keeps_def report_def uncounted_def)

lemma uncounted_find [keeps_rules]: "keeps uncounted (FindOrder remember j)"
  by (rule keeps_find; (unfold select_order_def cache_row_def)?; rule uncounted_call) (auto simp: uncounted_def)

lemma uncounted_reclaim [keeps_rules]: "keeps uncounted (reclaimExpired now)"
  unfolding reclaimExpired_def by (rule uncounted_call) (simp add: uncounted_moves)

text \<open>A failure counts once, puts the order back and deletes the counter.\<close>

lemma uncounted_onFailure: "keeps uncounted (onFailure j)"
proof (rule keepsI)
  fix w assume "uncounted w"
  then show "uncounted (snd (onFailure j w))"
    by (simp add: onFailure_def incr_retry_def expire_retry_def add_delay_def ack_def remove_processing_def delete_retry_def maxRetries_def
        bindE_def or_else_def ext_call_ok uncounted_def Let_def fun_eq_iff)
qed

lemma uncounted_consume: "keeps uncounted (consume remember owns revert rollback)"
proof -
  have "keeps uncounted (handleCloseOrder remember owns revert rollback j)" for j
    unfolding handleCloseOrder_def by (auto intro!: keeps_rules split: option.split)
  moreover have "keeps uncounted (ack j)" for j unfolding ack_def by (intro keeps_rules)
  ultimately show ?thesis
    unfolding consume_def Let_def by (auto intro!: keeps_rules uncounted_onFailure split: sum.split)
qed

fun no_outage :: "close_step \<Rightarrow> bool" where
  "no_outage (Outages fs) = False"
| "no_outage _ = True"

lemma uncounted_history: "uncounted w \<Longrightarrow> list_all no_outage steps \<Longrightarrow> uncounted (close_history remember owns revert rollback steps w)"
  unfolding close_history_def
proof (induction steps arbitrary: w)
  case (Cons s steps)
  then show ?case using keepsD [OF uncounted_consume Cons.prems(1)]
    by (cases s) (auto simp: close_step_run_def uncounted_def)
qed simp

section \<open>A release that fails\<close>

lemmas close_eval = bindE_def or_else_def attempt_def ret_def get_world_def Let_def ext_call_ok
  consume_def reclaimExpired_def claimDueOrder_def claim_script_def due_members_def
  handleCloseOrder_def FindOrder_def select_order_def cache_row_def set_closed_def release_rpc_def report_def
  onFailure_def incr_retry_def expire_retry_def add_delay_def ack_def remove_processing_def delete_retry_def
  maxRetries_def retryBackoffSeconds_def

text \<open>The order is closed and waits for the retry; the row it was read from is in the cache.\<close>

lemma consume_release_fails:
  assumes "faults w = []" "cj_delay w = [(i, t)]" "0 \<le> t" "t \<le> cj_now w" "cj_processing w = []" "cj_retry w i = None" "i \<noteq> []"
    and "map_of (cj_orders w) i = Some r" "co_status r = 0" "cj_cache w i = None" "remember (Some r)"
    and "rollback (co_product_id r) (co_amount r) i = Inl e"
  shows "snd (consume remember owns revert rollback w) = w\<lparr>cj_delay := [(i, cj_now w + 5)], cj_retry := (cj_retry w)(i := None),
      cj_orders := AList.update i (r\<lparr>co_status := 2\<rparr>) (cj_orders w), cj_cache := (cj_cache w)(i := Some (Some r))\<rparr>"
  using assms by (cases "revert (co_product_id r) (co_amount r) i") (simp_all add: close_eval)

text \<open>The old row says unpaid, the table says closed.\<close>

lemma consume_stale:
  assumes "faults w = []" "cj_delay w = [(i, t)]" "0 \<le> t" "t \<le> cj_now w" "cj_processing w = []" "i \<noteq> []"
    and "cj_cache w i = Some (Some r)" "co_status r = 0" "map_of (cj_orders w) i = Some r'" "co_status r' \<noteq> 0"
  shows "snd (consume remember owns revert rollback w) = w\<lparr>cj_delay := [], cj_log := cj_log w @ [(i, RaceSkipped)], cj_retry := (cj_retry w)(i := None)\<rparr>"
  using assms by (simp add: close_eval)

section \<open>Guarantees\<close>

definition demo_close :: close_world where
  "demo_close = \<lparr>faults = [], cj_now = 100, cj_delay = [], cj_processing = [], cj_dlq = [], cj_retry = (\<lambda>_. None),
     cj_orders = [(''o1'', \<lparr>co_product_id = 7, co_amount = 2, co_status = 0\<rparr>)], cj_cache = (\<lambda>_. None), cj_released = [], cj_log = []\<rparr>"

text \<open>C27: An order put into the delay queue is not lost: after any runs of the job, new orders, changes of
  orders by other services, time and losses, it is in the delay queue, being worked on, in the dead letter
  queue, or the job has reported what became of it; and every order reported closed had its reservation
  released with an acknowledgement of the order service.\<close>

theorem queued_orders_are_not_lost:
  assumes "cj_log w = []"
  shows "(i \<in> queued (close_history remember owns revert rollback steps (close_step_run remember owns revert rollback (Enqueue i t) w)) \<or>
          i \<in> fst ` set (cj_log (close_history remember owns revert rollback steps (close_step_run remember owns revert rollback (Enqueue i t) w)))) \<and>
    {j. (j, OrderClosed) \<in> set (cj_log (close_history remember owns revert rollback steps (close_step_run remember owns revert rollback (Enqueue i t) w)))} \<subseteq>
      set (cj_released (close_history remember owns revert rollback steps (close_step_run remember owns revert rollback (Enqueue i t) w)))"
proof -
  let ?w = "close_step_run remember owns revert rollback (Enqueue i t) w"
  have "traced i ?w" by (simp add: close_step_run_def traced_def queued_def)
  moreover have "closed_released ?w" using assms by (simp add: close_step_run_def closed_released_def)
  ultimately show ?thesis
    using traced_history [of i ?w remember owns revert rollback steps] released_history [of ?w remember owns revert rollback steps]
    unfolding traced_def closed_released_def by auto
qed

definition demo_steps :: "close_step list" where
  "demo_steps = [Elapse 60, Outages [Reply, Reply, Reply, NoReply ''lost''], Consume, Elapse 40, Outages [], Consume]"

lemma demo_closes:
  "cj_log (close_history (\<lambda>_. True) True (\<lambda>_ _ _. Inr ()) (\<lambda>_ _ _. Inr ()) demo_steps (close_step_run (\<lambda>_. True) True (\<lambda>_ _ _. Inr ()) (\<lambda>_ _ _. Inr ()) (Enqueue ''o1'' 150) demo_close)) = [(''o1'', OrderClosed)]"
  by code_simp

theorem queued_orders_are_not_lost_witness:
  "cj_log demo_close = [] \<and>
   ''o1'' \<in> set (cj_released (close_history (\<lambda>_. True) True (\<lambda>_ _ _. Inr ()) (\<lambda>_ _ _. Inr ()) demo_steps (close_step_run (\<lambda>_. True) True (\<lambda>_ _ _. Inr ()) (\<lambda>_ _ _. Inr ()) (Enqueue ''o1'' 150) demo_close)))"
proof -
  have "cj_log demo_close = []" by (simp add: demo_close_def)
  then show ?thesis
    using queued_orders_are_not_lost [of demo_close "''o1''" "\<lambda>_. True" True "\<lambda>_ _ _. Inr ()" "\<lambda>_ _ _. Inr ()" demo_steps 150] demo_closes by auto
qed

text \<open>C39: The limit of retries has no effect: an order whose work keeps failing is retried for ever and never
  reaches the dead letter queue, as long as Redis answers, because the acknowledgement that follows every
  failure deletes the counter of retries.\<close>

theorem retry_limit_never_reached:
  assumes "faults w = []" "cj_retry w = (\<lambda>_. None)" "cj_dlq w = []" "list_all no_outage steps"
  shows "cj_dlq (close_history remember owns revert rollback steps w) = []"
  using uncounted_history [of w steps remember owns revert rollback] assms by (simp add: uncounted_def)

theorem retry_limit_never_reached_witness:
  "cj_dlq (close_history (\<lambda>_. True) True (\<lambda>_ _ _. Inr ()) (\<lambda>_ _ _. Inl ErrNoRows) (Enqueue ''o1'' 0 # concat (replicate 20 [Consume, Elapse 5])) demo_close) = []"
  by (rule retry_limit_never_reached) (simp_all add: demo_close_def eval_nat_numeral)

text \<open>C38: A release that fails once is never repeated when the order was read through the cache: the job has set
  the order to closed, reads the old row again from the cache on the retry, its update finds no unpaid
  order, and it takes that for a race.  The order ends closed and reported, in no queue, without a release.\<close>

theorem failed_release_is_forgotten:
  assumes "faults w = []" "cj_delay w = [(i, t)]" "0 \<le> t" "t \<le> cj_now w" "cj_processing w = []" "cj_dlq w = []" "cj_retry w i = None" "i \<noteq> []"
    and "map_of (cj_orders w) i = Some r" "co_status r = 0" "cj_cache w i = None" "remember (Some r)"
    and "rollback (co_product_id r) (co_amount r) i = Inl e" "5 \<le> n"
    and "w' = close_history remember owns revert' rollback' [Elapse n, Consume] (close_history remember owns revert rollback [Consume] w)"
  shows "queued w' = {} \<and> cj_log w' = cj_log w @ [(i, RaceSkipped)] \<and> cj_released w' = cj_released w \<and> map_option co_status (map_of (cj_orders w') i) = Some 2"
proof -
  let ?w1 = "snd (consume remember owns revert rollback w)\<lparr>cj_now := cj_now w + int n\<rparr>"
  have w1: "snd (consume remember owns revert rollback w) = w\<lparr>cj_delay := [(i, cj_now w + 5)], cj_retry := (cj_retry w)(i := None),
      cj_orders := AList.update i (r\<lparr>co_status := 2\<rparr>) (cj_orders w), cj_cache := (cj_cache w)(i := Some (Some r))\<rparr>"
    by (rule consume_release_fails) (use assms in simp_all)
  have "w' = snd (consume remember owns revert' rollback' ?w1)"
    using assms(15) by (simp add: close_history_def close_step_run_def w1)
  also have "\<dots> = ?w1\<lparr>cj_delay := [], cj_log := cj_log ?w1 @ [(i, RaceSkipped)], cj_retry := (cj_retry ?w1)(i := None)\<rparr>"
    by (rule consume_stale [where t = "cj_now w + 5" and r = r and r' = "r\<lparr>co_status := 2\<rparr>"])
       (use assms in \<open>simp_all add: w1 AList.update_Some_unfold AList.update_conv'\<close>)
  finally show ?thesis using assms(5,6) by (simp add: w1 queued_def AList.update_conv')
qed

theorem failed_release_is_forgotten_witness:
  "cj_log (close_history (\<lambda>_. True) True (\<lambda>_ _ _. Inr ()) (\<lambda>_ _ _. Inr ()) [Elapse 5, Consume]
     (close_history (\<lambda>_. True) True (\<lambda>_ _ _. Inr ()) (\<lambda>_ _ _. Inl ErrNoRows) [Consume] (demo_close\<lparr>cj_delay := [(''o1'', 60)]\<rparr>))) = [(''o1'', RaceSkipped)]"
  using failed_release_is_forgotten [of "demo_close\<lparr>cj_delay := [(''o1'', 60)]\<rparr>" "''o1''" 60 "\<lparr>co_product_id = 7, co_amount = 2, co_status = 0\<rparr>" "\<lambda>_. True" "\<lambda>_ _ _. Inl ErrNoRows" ErrNoRows 5, OF _ _ _ _ _ _ _ _ _ _ _ _ _ _ refl]
  by (simp add: demo_close_def)

end
