(* ===== verification/Gateway_Order.thy ===== *)
theory Gateway_Order
  imports Order_Guarantees Auth_Token
begin

text \<open>
  Orders at the gateway (\<open>app/gateway/hertz/internal\<close>): the queries of \<open>application/orderquery/service.go\<close>
  over \<open>adapters/ordermysql/query.go\<close>, the handlers of \<open>handler/order.go\<close>, \<open>order_user_commands.go\<close>,
  \<open>order_status_poll.go\<close>, \<open>payment_callback*.go\<close>, \<open>alipay_notification.go\<close> and the order commands of
  \<open>admin_order.go\<close> and \<open>admin_refund.go\<close>, with \<open>adapters/orderrpc/client.go\<close>.  The gateway reads the tables of the order
  service and calls its handlers over gRPC.  The transaction manager that runs a saga is the
  parameter \<open>dtm\<close>.
\<close>

section \<open>Answers\<close>

datatype 'a http = HttpOK 'a | HttpFail int go_error

record 'x gateway =
  gw_order :: "'x svc_ctx"
  gw_rpc_ctx :: call_ctx
  gw_has_queries :: bool
  gw_has_commands :: bool
  gw_DtmServer :: string
  gw_OrderRpcTarget :: string
  gw_CallbackSecret :: string
  gw_CallbackMaxSkew :: int

definition reply_or :: "(go_error \<Rightarrow> int \<times> go_error) \<Rightarrow> ('w, 'a) io \<Rightarrow> ('a \<Rightarrow> ('w, 'b http) io) \<Rightarrow> ('w, 'b http) io" where
  "reply_or f m k = bindE (attempt m) (\<lambda>x. case x of Inl e \<Rightarrow> ret (HttpFail (fst (f e)) (snd (f e))) | Inr a \<Rightarrow> k a)"

text \<open>\<open>status.FromError\<close> looks through wrapped errors.\<close>

fun grpc_status :: "go_error \<Rightarrow> grpc_code option" where
  "grpc_status (StatusError c m) = Some c"
| "grpc_status (AppError c m (Some e)) = grpc_status e"
| "grpc_status _ = None"

definition createOrderStatusCode :: "go_error \<Rightarrow> int" where
  "createOrderStatusCode e = (case CodeOf (Some e) of
       CodeInvalidArgument \<Rightarrow> 400
     | CodeUnauthorized \<Rightarrow> 401
     | CodeForbidden \<Rightarrow> 403
     | CodeOrderNotFound \<Rightarrow> 404 | CodeRefundNotFound \<Rightarrow> 404 | CodeNotFound \<Rightarrow> 404
     | CodeOrderStatusInvalid \<Rightarrow> 409 | CodeRefundNotAllowed \<Rightarrow> 409 | CodeRefundStatusInvalid \<Rightarrow> 409 | CodeConflict \<Rightarrow> 409
     | CodeStockInsufficient \<Rightarrow> 409
     | CodeStockNotFound \<Rightarrow> 404 | CodeProductNotFound \<Rightarrow> 404
     | CodeStockReserveFailed \<Rightarrow> 503 | CodeStockReconcileFailed \<Rightarrow> 503
     | _ \<Rightarrow> (case grpc_status e of
              Some codes_InvalidArgument \<Rightarrow> 400
            | Some codes_FailedPrecondition \<Rightarrow> 409 | Some codes_Aborted \<Rightarrow> 409
            | Some codes_NotFound \<Rightarrow> 404
            | Some codes_Unauthenticated \<Rightarrow> 401
            | Some codes_PermissionDenied \<Rightarrow> 403
            | Some codes_Unavailable \<Rightarrow> 503
            | _ \<Rightarrow> 502))"

definition by_code :: "go_error \<Rightarrow> int \<times> go_error" where
  "by_code e = (createOrderStatusCode e, e)"

definition bad_gateway :: "string \<Rightarrow> go_error \<Rightarrow> int \<times> go_error" where
  "bad_gateway message e = (502, app_wrap CodeInternal message e)"

definition bad_argument :: "string \<Rightarrow> ('w, 'a http) io" where
  "bad_argument message = ret (HttpFail 400 (app_new CodeInvalidArgument message))"

definition logged_in :: "call_ctx \<Rightarrow> int option" where
  "logged_in cx = (case cx_identity cx of None \<Rightarrow> None | Some i \<Rightarrow> if id_UserID i \<le> 0 then None else Some (id_UserID i))"

definition login_required :: "('w, 'a http) io" where
  "login_required = ret (HttpFail 401 (app_new CodeUnauthorized ''user login required''))"

text \<open>A call of the order service: an error that is no gRPC status arrives with its text only.\<close>

definition over_grpc :: "go_error \<Rightarrow> go_error" where
  "over_grpc e = (case e of StatusError c m \<Rightarrow> e | _ \<Rightarrow> RawError (''rpc error: code = Unknown desc = '' @ err_text e))"

definition order_rpc :: "('x order_world, 'a) io \<Rightarrow> ('x order_world, 'a) io" where
  "order_rpc m = ext_call (map_err over_grpc m)"

section \<open>Queries\<close>

record payment_order =
  po_OrderID :: string
  po_UserID :: int
  po_OrderStatus :: int
  po_PaymentOrderID :: string
  po_PaymentStatus :: int
  po_OutTradeNo :: string
  po_PayableAmountFen :: int
  po_ExpiresAt :: int

record create_result =
  cr_OrderID :: string
  cr_Status :: string
  cr_PayableAmountFen :: int
  cr_PaymentOrderID :: string

definition normalizeNotFound :: "('w, 'a) io \<Rightarrow> ('w, 'a option) io" where
  "normalizeNotFound m w = (case m w of
       (Inl e, w') \<Rightarrow> (if e = ErrNoRows then Inr None else Inl e, w')
     | (Inr a, w') \<Rightarrow> (Inr (Some a), w'))"

text \<open>\<open>orders\<close> joined with \<open>payment_order\<close>, the first pair of rows that fits.\<close>

definition payment_join :: "(order_row \<Rightarrow> payment_row \<Rightarrow> bool) \<Rightarrow> order_tables \<Rightarrow> payment_order option" where
  "payment_join P d = (case [(r, p). r \<leftarrow> orders d, p \<leftarrow> payments d, p_order_id p = o_id r \<and> P r p] of
       [] \<Rightarrow> None
     | (r, p) # _ \<Rightarrow> Some \<lparr>po_OrderID = o_id r, po_UserID = o_user_id r, po_OrderStatus = o_status r, po_PaymentOrderID = p_id p,
         po_PaymentStatus = p_status p, po_OutTradeNo = p_out_trade_no p, po_PayableAmountFen = p_payable_amount_fen p,
         po_ExpiresAt = (case p_expires_at p of None \<Rightarrow> 0 | Some t \<Rightarrow> t)\<rparr>)"

definition PaymentByUser :: "string \<Rightarrow> int \<Rightarrow> ('x order_world, payment_order option) io" where
  "PaymentByUser orderID userID = normalizeNotFound (query_row (payment_join (\<lambda>r p. o_id r = orderID \<and> o_user_id r = userID)))"

definition PaymentByID :: "string \<Rightarrow> int \<Rightarrow> ('x order_world, payment_order option) io" where
  "PaymentByID paymentOrderID userID = normalizeNotFound (query_row (payment_join (\<lambda>r p. p_id p = paymentOrderID \<and> o_user_id r = userID)))"

definition PaymentByClaims :: "string \<Rightarrow> string \<Rightarrow> string \<Rightarrow> ('x order_world, payment_order option) io" where
  "PaymentByClaims paymentOrderID orderID outTradeNo =
     normalizeNotFound (query_row (payment_join (\<lambda>r p. p_id p = paymentOrderID \<and> p_order_id p = orderID \<and> p_out_trade_no p = outTradeNo)))"

definition OrderStatusByRequest :: "string \<Rightarrow> int \<Rightarrow> ('x order_world, (string \<times> int) option) io" where
  "OrderStatusByRequest requestID userID =
     normalizeNotFound (query_row (\<lambda>d. map_option (\<lambda>r. (o_id r, o_status r)) (find (\<lambda>r. o_request_id r = requestID \<and> o_user_id r = userID) (orders d))))"

definition OrderIDByRequest :: "string \<Rightarrow> int \<Rightarrow> ('x order_world, string option) io" where
  "OrderIDByRequest requestID userID =
     normalizeNotFound (query_row (\<lambda>d. map_option o_id (find (\<lambda>r. o_request_id r = requestID \<and> o_user_id r = userID) (orders d))))"

definition CreateResultByOrder :: "string \<Rightarrow> int \<Rightarrow> ('x order_world, (create_result \<times> int) option) io" where
  "CreateResultByOrder orderID userID =
     normalizeNotFound (query_row (\<lambda>d. map_option (\<lambda>r.
       (\<lparr>cr_OrderID = o_id r, cr_Status = [],
         cr_PayableAmountFen = (case snapshot_of d (o_id r) of None \<Rightarrow> 0 | Some s \<Rightarrow> sn_payable_amount_fen s),
         cr_PaymentOrderID = (case payment_of d (o_id r) of None \<Rightarrow> [] | Some p \<Rightarrow> p_id p)\<rparr>, o_status r))
       (find (\<lambda>r. o_id r = orderID \<and> o_user_id r = userID) (orders d))))"

definition requirePayment :: "code \<Rightarrow> string \<Rightarrow> ('w, payment_order option) io \<Rightarrow> ('w, payment_order) io" where
  "requirePayment c message m = bindE m (\<lambda>x. case x of None \<Rightarrow> fail (app_new c message) | Some p \<Rightarrow> ret p)"

definition query_Payment :: "string \<Rightarrow> int \<Rightarrow> ('x order_world, payment_order) io" where
  "query_Payment orderID userID = requirePayment CodeOrderNotFound ''order not found'' (PaymentByUser orderID userID)"

definition query_PaymentByID :: "string \<Rightarrow> int \<Rightarrow> ('x order_world, payment_order) io" where
  "query_PaymentByID paymentOrderID userID = requirePayment CodeNotFound ''payment order not found'' (PaymentByID paymentOrderID userID)"

definition StatusByRequest :: "string \<Rightarrow> int \<Rightarrow> ('x order_world, (string \<times> string \<times> string) option) io" where
  "StatusByRequest requestID userID =
     bindE (OrderStatusByRequest requestID userID) (\<lambda>x. ret (map_option (\<lambda>(orderID, status). (requestID, orderID, order_Text status)) x))"

definition CreateByOrder :: "string \<Rightarrow> int \<Rightarrow> ('x order_world, create_result) io" where
  "CreateByOrder orderID userID =
     bindE (CreateResultByOrder orderID userID) (\<lambda>x. case x of
       None \<Rightarrow> fail (app_new CodeOrderNotFound ''order not found'')
     | Some (result, status) \<Rightarrow>
         let result = result\<lparr>cr_Status := order_Text status\<rparr> in
         ret (if cr_PaymentOrderID result = [] then result\<lparr>cr_PaymentOrderID := ''pay:'' @ cr_OrderID result\<rparr> else result))"

definition CreateByRequest :: "string \<Rightarrow> int \<Rightarrow> ('x order_world, create_result option) io" where
  "CreateByRequest requestID userID =
     bindE (OrderIDByRequest requestID userID) (\<lambda>x. case x of
       None \<Rightarrow> ret None
     | Some orderID \<Rightarrow> bindE (CreateByOrder orderID userID) (\<lambda>r. ret (Some r)))"

definition orderQueryService :: "'x gateway \<Rightarrow> ('w, unit) io" where
  "orderQueryService g = (if gw_has_queries g then ret () else fail (RawError ''order query service unavailable''))"

section \<open>Creating an order\<close>

record gateway_create_req =
  gq_RequestID :: string
  gq_ProductID :: int
  gq_Amount :: int
  gq_ExpectedPriceFen :: int

text \<open>A branch of a saga: a request of the order service, run by one handler and compensated by another.\<close>

datatype branch = PreDeductBranch pre_deduct_req | CreateOrderBranch create_order_req

type_synonym 'x dtm = "branch list \<Rightarrow> ('x order_world, unit) io"

definition orderIDForRequest :: "int \<Rightarrow> string \<Rightarrow> string" where
  "orderIDForRequest nanos requestID = (let r = TrimSpace requestID in if r \<noteq> [] then r else ''o-'' @ show_int nanos)"

definition requestIDForOrder :: "string \<Rightarrow> string \<Rightarrow> string" where
  "requestIDForOrder requestID orderID = (let r = TrimSpace requestID in if r \<noteq> [] then r else orderID)"

definition create_saga :: "gateway_create_req \<Rightarrow> int \<Rightarrow> string \<Rightarrow> branch list" where
  "create_saga req userID orderID =
     [PreDeductBranch \<lparr>pq_OrderId = orderID, pq_ProductId = gq_ProductID req, pq_Amount = gq_Amount req\<rparr>,
      CreateOrderBranch \<lparr>co_OrderId = orderID, co_RequestId = requestIDForOrder (gq_RequestID req) orderID, co_UserId = userID,
        co_ProductId = gq_ProductID req, co_Amount = gq_Amount req, co_ExpectedPriceFen = gq_ExpectedPriceFen req\<rparr>]"

text \<open>The global id of the transaction comes from the transaction manager.\<close>

definition generateDtmGID :: "('x order_world, unit) io" where
  "generateDtmGID = ext_call (ret ())"

definition submitCreateOrderSaga :: "'x dtm \<Rightarrow> gateway_create_req \<Rightarrow> int \<Rightarrow> string \<Rightarrow> ('x order_world, unit) io" where
  "submitCreateOrderSaga dtm req userID orderID =
     map_err (\<lambda>_. StatusError codes_Unavailable ''order system busy'')
       (bindE generateDtmGID (\<lambda>_. ext_call (dtm (create_saga req userID orderID))))"

definition loadCreateOrderRespByRequestID :: "'x gateway \<Rightarrow> string \<Rightarrow> int \<Rightarrow> ('x order_world, create_result option) io" where
  "loadCreateOrderRespByRequestID g requestID userID = bindE (orderQueryService g) (\<lambda>_. CreateByRequest requestID userID)"

definition loadCreateOrderRespByOrderID :: "'x gateway \<Rightarrow> string \<Rightarrow> int \<Rightarrow> ('x order_world, create_result) io" where
  "loadCreateOrderRespByOrderID g orderID userID = bindE (orderQueryService g) (\<lambda>_. CreateByOrder orderID userID)"

definition gateway_CreateOrder :: "'x gateway \<Rightarrow> 'x dtm \<Rightarrow> int \<Rightarrow> call_ctx \<Rightarrow> gateway_create_req option \<Rightarrow> ('x order_world, create_result http) io" where
  "gateway_CreateOrder g dtm nanos cx body =
     (case logged_in cx of
        None \<Rightarrow> login_required
      | Some userID \<Rightarrow>
     (case body of
        None \<Rightarrow> bad_argument ''invalid order create request''
      | Some req \<Rightarrow>
          let req = req\<lparr>gq_RequestID := TrimSpace (gq_RequestID req)\<rparr> in
          if length (gq_RequestID req) > 64 then bad_argument ''request_id must be <= 64 characters''
          else if gq_ProductID req \<le> 0 \<or> gq_Amount req \<le> 0 then bad_argument ''product_id and positive amount are required''
          else if gq_ExpectedPriceFen req < 0 then bad_argument ''expected_price_fen must be non-negative''
          else if TrimSpace (gw_DtmServer g) = [] \<or> TrimSpace (gw_OrderRpcTarget g) = []
          then ret (HttpFail 502 (app_new CodeInternal ''order saga is not configured''))
          else reply_or (bad_gateway ''order idempotency lookup failed'')
                 (if gq_RequestID req \<noteq> [] then loadCreateOrderRespByRequestID g (gq_RequestID req) userID else ret None) (\<lambda>known.
               case known of
                 Some resp \<Rightarrow> ret (HttpOK resp)
               | None \<Rightarrow>
                   let orderID = orderIDForRequest nanos (gq_RequestID req) in
                   reply_or by_code (submitCreateOrderSaga dtm req userID orderID) (\<lambda>_.
                   reply_or by_code (loadCreateOrderRespByOrderID g orderID userID) (\<lambda>resp. ret (HttpOK resp))))))"

section \<open>Commands\<close>

record gateway_meta =
  gm_RequestID :: string
  gm_TraceID :: string
  gm_UserID :: int
  gm_MerchantID :: int
  gm_Role :: string

definition positive_id :: "string \<Rightarrow> int" where
  "positive_id s = (case ParseInt (TrimSpace s) of Some n \<Rightarrow> if n > 0 then n else 0 | None \<Rightarrow> 0)"

definition inventoryRequestMeta :: "call_ctx \<Rightarrow> gateway_meta" where
  "inventoryRequestMeta cx =
     (let m = (case cx_trace cx of
                 None \<Rightarrow> \<lparr>gm_RequestID = [], gm_TraceID = [], gm_UserID = 0, gm_MerchantID = 0, gm_Role = []\<rparr>
               | Some t \<Rightarrow> \<lparr>gm_RequestID = tr_RequestID t, gm_TraceID = tr_TraceID t, gm_UserID = positive_id (tr_UserID t),
                   gm_MerchantID = positive_id (tr_MerchantID t), gm_Role = []\<rparr>)
      in case cx_identity cx of
           None \<Rightarrow> m
         | Some i \<Rightarrow>
             m\<lparr>gm_UserID := (if id_UserID i > 0 then id_UserID i else gm_UserID m),
               gm_MerchantID := (if id_MerchantID i > 0 then id_MerchantID i else gm_MerchantID m),
               gm_Role := (if id_Role i \<noteq> [] then id_Role i else gm_Role m)\<rparr>)"

definition requestMetaFor :: "gateway_meta \<Rightarrow> int \<Rightarrow> int \<Rightarrow> string \<Rightarrow> command_meta" where
  "requestMetaFor m userID merchantID role =
     \<lparr>cm_RequestId = gm_RequestID m, cm_TraceId = gm_TraceID m, cm_UserId = (if userID > 0 then userID else gm_UserID m),
      cm_MerchantId = (if merchantID > 0 then merchantID else gm_MerchantID m), cm_Role = (if role \<noteq> [] then role else gm_Role m)\<rparr>"

definition requireOrderCommands :: "'x gateway \<Rightarrow> ('w, unit) io" where
  "requireOrderCommands g = (if gw_has_commands g then ret () else fail (app_new CodeInternal ''order command adapter is not configured''))"

definition adapter_CancelUser :: "'x gateway \<Rightarrow> string \<Rightarrow> string \<Rightarrow> int \<Rightarrow> gateway_meta \<Rightarrow> ('x order_world, command_resp) io" where
  "adapter_CancelUser g orderID reason userID m = order_rpc (CancelUserOrder (gw_order g) (gw_rpc_ctx g)
     (Some \<lparr>cr_OrderId = orderID, cr_ActorId = userID, cr_Reason = reason, cr_Meta = Some (requestMetaFor m userID 0 ''user'')\<rparr>))"

definition adapter_CloseAdmin :: "'x gateway \<Rightarrow> string \<Rightarrow> string \<Rightarrow> int \<Rightarrow> gateway_meta \<Rightarrow> ('x order_world, command_resp) io" where
  "adapter_CloseAdmin g orderID reason operatorID m = order_rpc (CloseAdminOrder (gw_order g) (gw_rpc_ctx g)
     (Some \<lparr>cr_OrderId = orderID, cr_ActorId = operatorID, cr_Reason = reason, cr_Meta = Some (requestMetaFor m operatorID 0 ''admin'')\<rparr>))"

definition adapter_ShipAdmin :: "'x gateway \<Rightarrow> string \<Rightarrow> int \<Rightarrow> gateway_meta \<Rightarrow> ('x order_world, command_resp) io" where
  "adapter_ShipAdmin g orderID operatorID m = order_rpc (ShipAdminOrder (gw_order g) (gw_rpc_ctx g)
     (Some \<lparr>cr_OrderId = orderID, cr_ActorId = operatorID, cr_Reason = [], cr_Meta = Some (requestMetaFor m operatorID 0 ''admin'')\<rparr>))"

definition adapter_ShipMerchant :: "'x gateway \<Rightarrow> string \<Rightarrow> int \<Rightarrow> gateway_meta \<Rightarrow> ('x order_world, command_resp) io" where
  "adapter_ShipMerchant g orderID merchantID m = order_rpc (ShipMerchantOrder (gw_order g) (gw_rpc_ctx g)
     (Some \<lparr>cr_OrderId = orderID, cr_ActorId = merchantID, cr_Reason = [], cr_Meta = Some (requestMetaFor m 0 merchantID ''merchant'')\<rparr>))"

definition adapter_ConfirmReceipt :: "'x gateway \<Rightarrow> string \<Rightarrow> int \<Rightarrow> gateway_meta \<Rightarrow> ('x order_world, command_resp) io" where
  "adapter_ConfirmReceipt g orderID userID m = order_rpc (ConfirmReceipt (gw_order g) (gw_rpc_ctx g)
     (Some \<lparr>cr_OrderId = orderID, cr_ActorId = userID, cr_Reason = [], cr_Meta = Some (requestMetaFor m userID 0 ''user'')\<rparr>))"

text \<open>The body of a command: an order and a reason.\<close>

definition command_body :: "string \<Rightarrow> string \<Rightarrow> (string \<times> string) option \<Rightarrow> (string \<Rightarrow> string \<Rightarrow> ('w, 'a http) io) \<Rightarrow> ('w, 'a http) io" where
  "command_body invalid dflt body k = (case body of
       None \<Rightarrow> bad_argument invalid
     | Some (orderID, reason) \<Rightarrow>
         let orderID = TrimSpace orderID; reason = TrimSpace reason in
         if orderID = [] then bad_argument ''order_id is required'' else k orderID (if reason = [] then dflt else reason))"

definition CancelOrderHandler :: "'x gateway \<Rightarrow> call_ctx \<Rightarrow> (string \<times> string) option \<Rightarrow> ('x order_world, (string \<times> string) http) io" where
  "CancelOrderHandler g cx body = (case logged_in cx of
       None \<Rightarrow> login_required
     | Some userID \<Rightarrow> command_body ''invalid order cancel request'' ''user cancel'' body (\<lambda>orderID reason.
         reply_or by_code (bindE (requireOrderCommands g) (\<lambda>_. adapter_CancelUser g orderID reason userID (inventoryRequestMeta cx))) (\<lambda>_.
         ret (HttpOK (orderID, order_Text order_Closed)))))"

definition requestUserRefund :: "call_ctx \<Rightarrow> string \<Rightarrow> string \<Rightarrow> int \<Rightarrow> ('x order_world, refund_resp) io" where
  "requestUserRefund cx orderID reason userID =
     (let requestID = RequestIDFrom cx; requestID = (if requestID = [] then orderID @ '':refund-request'' else requestID) in
      order_rpc (RequestRefund \<lparr>rreq_OrderId = orderID, rreq_RequesterId = userID, rreq_RequesterRole = ''user'', rreq_Reason = reason,
        rreq_RequestId = requestID\<rparr>))"

definition RefundOrderHandler :: "call_ctx \<Rightarrow> (string \<times> string) option \<Rightarrow> ('x order_world, (string \<times> string) http) io" where
  "RefundOrderHandler cx body = (case logged_in cx of
       None \<Rightarrow> login_required
     | Some userID \<Rightarrow> command_body ''invalid order refund request'' ''user refund'' body (\<lambda>orderID reason.
         reply_or by_code (requestUserRefund cx orderID reason userID) (\<lambda>_. ret (HttpOK (orderID, order_Text order_RefundRequested)))))"

definition ConfirmReceiptHandler :: "'x gateway \<Rightarrow> call_ctx \<Rightarrow> string option \<Rightarrow> ('x order_world, (string \<times> string) http) io" where
  "ConfirmReceiptHandler g cx body = (case logged_in cx of
       None \<Rightarrow> login_required
     | Some userID \<Rightarrow> command_body ''invalid confirm receipt request'' [] (map_option (\<lambda>k. (k, [])) body) (\<lambda>orderID _.
         reply_or by_code (bindE (requireOrderCommands g) (\<lambda>_. adapter_ConfirmReceipt g orderID userID (inventoryRequestMeta cx))) (\<lambda>_.
         ret (HttpOK (orderID, order_Text order_Completed)))))"

definition gatewayOperatorID :: "call_ctx \<Rightarrow> int" where
  "gatewayOperatorID cx = (case logged_in cx of None \<Rightarrow> 0 | Some u \<Rightarrow> u)"

text \<open>The audit events of the admin handlers go to the auth service and are left out.\<close>

definition AdminShipOrderHandler :: "'x gateway \<Rightarrow> call_ctx \<Rightarrow> string option \<Rightarrow> ('x order_world, (string \<times> string) http) io" where
  "AdminShipOrderHandler g cx body = command_body ''invalid ship order request'' [] (map_option (\<lambda>k. (k, [])) body) (\<lambda>orderID _.
     reply_or by_code (bindE (requireOrderCommands g) (\<lambda>_. adapter_ShipAdmin g orderID (gatewayOperatorID cx) (inventoryRequestMeta cx))) (\<lambda>_.
     ret (HttpOK (orderID, order_Text order_Shipped))))"

definition AdminCloseOrderHandler :: "'x gateway \<Rightarrow> call_ctx \<Rightarrow> (string \<times> string) option \<Rightarrow> ('x order_world, (string \<times> string) http) io" where
  "AdminCloseOrderHandler g cx body = command_body ''invalid close order request'' ''admin close'' body (\<lambda>orderID reason.
     reply_or by_code (bindE (requireOrderCommands g) (\<lambda>_. adapter_CloseAdmin g orderID reason (gatewayOperatorID cx) (inventoryRequestMeta cx))) (\<lambda>_.
     ret (HttpOK (orderID, order_Text order_Closed))))"

definition refundAdminOrder :: "'x gateway \<Rightarrow> call_ctx \<Rightarrow> string \<Rightarrow> string \<Rightarrow> int \<Rightarrow> ('x order_world, refund_resp) io" where
  "refundAdminOrder g cx orderID reason operatorID =
     (let requestID = RequestIDFrom cx; requestID = (if requestID = [] then orderID @ '':admin-refund'' else requestID) in
      bindE (order_rpc (RequestRefund \<lparr>rreq_OrderId = orderID, rreq_RequesterId = operatorID, rreq_RequesterRole = ''admin'',
               rreq_Reason = reason, rreq_RequestId = requestID\<rparr>)) (\<lambda>requested.
      order_rpc (AuditRefund (gw_order g) (gw_rpc_ctx g) \<lparr>ar_RefundId = rq_RefundId requested, ar_OperatorId = operatorID, ar_Approve = True,
        ar_Remark = reason, ar_RequestId = requestID\<rparr>)))"

definition AdminRefundOrderHandler :: "'x gateway \<Rightarrow> call_ctx \<Rightarrow> (string \<times> string) option \<Rightarrow> ('x order_world, (string \<times> string) http) io" where
  "AdminRefundOrderHandler g cx body = command_body ''invalid admin refund request'' ''admin refund'' body (\<lambda>orderID reason.
     reply_or by_code (refundAdminOrder g cx orderID reason (gatewayOperatorID cx)) (\<lambda>_. ret (HttpOK (orderID, order_Text order_Refunded))))"

definition auditAdminRefund :: "'x gateway \<Rightarrow> call_ctx \<Rightarrow> string \<Rightarrow> bool \<Rightarrow> string \<Rightarrow> int \<Rightarrow> ('x order_world, string) io" where
  "auditAdminRefund g cx refundID approve remark operatorID =
     (let requestID = RequestIDFrom cx; requestID = (if requestID = [] then refundID @ '':audit'' else requestID) in
      bindE (order_rpc (AuditRefund (gw_order g) (gw_rpc_ctx g) \<lparr>ar_RefundId = refundID, ar_OperatorId = operatorID, ar_Approve = approve,
               ar_Remark = remark, ar_RequestId = requestID\<rparr>)) (\<lambda>resp. ret (refund_Text (rq_RefundStatus resp))))"

definition AdminRefundAuditHandler :: "'x gateway \<Rightarrow> call_ctx \<Rightarrow> (string \<times> bool \<times> string) option \<Rightarrow> ('x order_world, (string \<times> string) http) io" where
  "AdminRefundAuditHandler g cx body = (case body of
       None \<Rightarrow> bad_argument ''invalid refund audit request''
     | Some (refundID, approve, remark) \<Rightarrow>
         let refundID = TrimSpace refundID; remark = TrimSpace remark in
         if refundID = [] then bad_argument ''refund_id is required''
         else reply_or by_code (auditAdminRefund g cx refundID approve remark (gatewayOperatorID cx)) (\<lambda>st. ret (HttpOK (refundID, st))))"

text \<open>The answer names the request, the order and its status.\<close>

definition OrderStatusPollHandler :: "'x gateway \<Rightarrow> call_ctx \<Rightarrow> string \<Rightarrow> ('x order_world, (string \<times> string \<times> string) http) io" where
  "OrderStatusPollHandler g cx request = (case logged_in cx of
       None \<Rightarrow> login_required
     | Some userID \<Rightarrow>
         let requestID = TrimSpace request in
         if requestID = [] then ret (HttpOK ([], [], ''missing_request_id''))
         else reply_or (bad_gateway ''order query service unavailable'') (orderQueryService g) (\<lambda>_.
              reply_or (bad_gateway ''order status lookup failed'') (StatusByRequest requestID userID) (\<lambda>x. case x of
                None \<Rightarrow> ret (HttpOK (requestID, [], ''processing''))
              | Some y \<Rightarrow> ret (HttpOK y))))"

section \<open>Callbacks\<close>

record callback_req =
  cq_OrderID :: string
  cq_PaymentOrderID :: string
  cq_OutTradeNo :: string
  cq_PaidAmountFen :: int
  cq_Provider :: string
  cq_EventID :: string
  cq_Timestamp :: string
  cq_Nonce :: string
  cq_Signature :: string

definition paymentCallbackBody :: "callback_req \<Rightarrow> go_error + json_text" where
  "paymentCallbackBody req =
     (if TrimSpace (cq_OrderID req) = [] \<or> TrimSpace (cq_PaymentOrderID req) = [] \<or> TrimSpace (cq_OutTradeNo req) = [] \<or> cq_PaidAmountFen req \<le> 0
      then Inl (app_new CodeInvalidArgument ''order_id, payment_order_id, out_trade_no and paid_amount_fen are required'')
      else let provider = TrimSpace (cq_Provider req);
               provider = (if provider = [] then ''mock'' else provider);
               eventID = TrimSpace (cq_EventID req);
               eventID = (if eventID = [] then provider @ '':'' @ cq_PaymentOrderID req @ '':'' @ cq_OutTradeNo req else eventID)
           in Inr (JsonText (marshal_map [(''trade_status'', JStr ''SUCCESS''), (''source'', JStr ''callback''), (''provider'', JStr provider),
                (''event_id'', JStr eventID), (''paid_amount_fen'', JInt (cq_PaidAmountFen req))])))"

definition paymentCallbackSigningPayload :: "callback_req \<Rightarrow> string" where
  "paymentCallbackSigningPayload req = cq_Timestamp req @ ''.'' @ cq_Nonce req @ ''.'' @ cq_OrderID req @ ''.'' @ cq_PaymentOrderID req @ ''.'' @
     cq_OutTradeNo req @ ''.'' @ show_int (cq_PaidAmountFen req)"

text \<open>\<open>now\<close> is in whole seconds; \<open>Sub\<close> saturates, the product of the limit with a second wraps.\<close>

definition time_Sub :: "int \<Rightarrow> int \<Rightarrow> int" where
  "time_Sub t u = max (- (2 ^ 63)) (min (2 ^ 63 - 1) ((t - u) * 10 ^ 9))"

definition validatePaymentCallbackSignatureAt :: "string \<Rightarrow> int \<Rightarrow> callback_req \<Rightarrow> int \<Rightarrow> go_error option" where
  "validatePaymentCallbackSignatureAt secret maxSkewSeconds req now =
     (if TrimSpace secret = [] then Some (app_new CodeUnauthorized ''payment callback secret not configured'')
      else let maxSkewSeconds = (if maxSkewSeconds \<le> 0 then 300 else maxSkewSeconds) in
        if TrimSpace (cq_Timestamp req) = [] \<or> TrimSpace (cq_Nonce req) = [] \<or> TrimSpace (cq_Signature req) = []
        then Some (app_new CodeUnauthorized ''payment callback signature fields are required'')
        else case ParseInt (cq_Timestamp req) of
               None \<Rightarrow> Some (app_new CodeUnauthorized ''invalid payment callback timestamp'')
             | Some timestamp \<Rightarrow>
                 if time_Sub now timestamp > Seconds maxSkewSeconds \<or> time_Sub now timestamp < i64 (- Seconds maxSkewSeconds)
                 then Some (app_new CodeUnauthorized ''payment callback timestamp expired'')
                 else if EncodeToString (hmac_sha256 secret (paymentCallbackSigningPayload req)) \<noteq> cq_Signature req
                 then Some (app_new CodeUnauthorized ''invalid payment callback signature'')
                 else None)"

record paid_resp =
  pp_OrderID :: string
  pp_PaymentOrderID :: string
  pp_OutTradeNo :: string
  pp_Status :: string

definition markPaymentPaid :: "'x gateway \<Rightarrow> string \<Rightarrow> string \<Rightarrow> string \<Rightarrow> json_text \<Rightarrow> ('x order_world, paid_resp) io" where
  "markPaymentPaid g orderID paymentOrderID outTradeNo body =
     bindE (order_rpc (MarkPaid (gw_order g) (gw_rpc_ctx g)
             \<lparr>mp_OrderId = orderID, mp_PaymentOrderId = paymentOrderID, mp_OutTradeNo = outTradeNo, mp_CallbackBody = body\<rparr>)) (\<lambda>resp.
     let st = ToLower (TrimSpace (mr_OrderStatus resp)) in
     ret \<lparr>pp_OrderID = orderID, pp_PaymentOrderID = paymentOrderID, pp_OutTradeNo = outTradeNo, pp_Status = (if st = [] then ''paid'' else st)\<rparr>)"

definition PaymentCallbackHandler :: "'x gateway \<Rightarrow> callback_req option \<Rightarrow> ('x order_world, paid_resp http) io" where
  "PaymentCallbackHandler g body = (case body of
       None \<Rightarrow> bad_argument ''invalid payment callback request''
     | Some req \<Rightarrow>
         bindE order_now (\<lambda>now.
         case validatePaymentCallbackSignatureAt (gw_CallbackSecret g) (gw_CallbackMaxSkew g) req now of
           Some e \<Rightarrow> ret (HttpFail 401 e)
         | None \<Rightarrow>
             (case paymentCallbackBody req of
                Inl e \<Rightarrow> ret (HttpFail 400 e)
              | Inr callbackBody \<Rightarrow>
                  reply_or by_code (markPaymentPaid g (cq_OrderID req) (cq_PaymentOrderID req) (cq_OutTradeNo req) callbackBody) (\<lambda>resp.
                  ret (HttpOK resp)))))"

definition AlipayPaymentNotificationHandler :: "'x gateway \<Rightarrow> string \<Rightarrow> ('x order_world, string) io" where
  "AlipayPaymentNotificationHandler g rawBody =
     bindE (attempt (order_rpc (HandlePaymentNotification (gw_order g) (gw_rpc_ctx g) (Some (''alipay_sandbox'', rawBody))))) (\<lambda>x.
     ret (case x of Inl e \<Rightarrow> ''failure'' | Inr resp \<Rightarrow> if nr_Accepted resp then ''success'' else ''failure''))"

end
