(* ===== verification/Gateway_Safety.thy ===== *)
theory Gateway_Safety
  imports Gateway_Order Pre_Deduct_Safety
begin

text \<open>
  The gateway in front of the order service: its requests keep the tables within the order state
  machine, a repeated request changes nothing, a user only sees own orders, and only a signed
  callback pays an order.  The guarantees stand at the end, with the examples they are applied to.
\<close>

section \<open>Effects on the tables\<close>

lemma keeps_reply_or [keeps_rules]: "keeps I m \<Longrightarrow> (\<And>a. keeps I (k a)) \<Longrightarrow> keeps I (reply_or f m k)"
  unfolding reply_or_def by (intro keeps_rules) (auto intro: keeps_rules split: sum.split)

lemma keeps_order_rpc [keeps_rules]: "keeps (on_odb P) m \<Longrightarrow> keeps (on_odb P) (order_rpc m)"
  unfolding order_rpc_def by (intro keeps_rules)

lemma keeps_normalizeNotFound [keeps_rules]: "keeps I m \<Longrightarrow> keeps I (normalizeNotFound m)"
  unfolding keeps_def normalizeNotFound_def by (auto split: prod.splits sum.splits)

lemma keeps_plain_answers [keeps_rules]: "keeps I (bad_argument s)" "keeps I login_required" "keeps I (orderQueryService g)" "keeps I (requireOrderCommands g)"
  unfolding bad_argument_def login_required_def orderQueryService_def requireOrderCommands_def by (intro keeps_rules)+

lemma keeps_queries [keeps_rules]:
  "keeps (on_odb P) (query_Payment k u)" "keeps (on_odb P) (query_PaymentByID k u)" "keeps (on_odb P) (StatusByRequest k u)"
  "keeps (on_odb P) (CreateByOrder k u)" "keeps (on_odb P) (CreateByRequest k u)"
  unfolding query_Payment_def query_PaymentByID_def requirePayment_def PaymentByUser_def PaymentByID_def StatusByRequest_def OrderStatusByRequest_def
    CreateByRequest_def CreateByOrder_def CreateResultByOrder_def OrderIDByRequest_def Let_def
  by (auto intro!: keeps_rules split: option.split)

lemma keeps_command_body [keeps_rules]: "(\<And>k r. keeps I (f k r)) \<Longrightarrow> keeps I (command_body e d b f)"
  unfolding command_body_def Let_def by (auto intro!: keeps_rules split: option.split)

section \<open>Histories\<close>

text \<open>The handlers of the order service that the transaction manager may call for the branches of a saga.\<close>

fun saga_event :: "branch list \<Rightarrow> 'x event \<Rightarrow> bool" where
  "saga_event bs (PreDeductEvent cx q) \<longleftrightarrow> PreDeductBranch q \<in> set bs"
| "saga_event bs (PreDeductRollbackEvent cx q) \<longleftrightarrow> PreDeductBranch q \<in> set bs"
| "saga_event bs (CreateOrderEvent b q) \<longleftrightarrow> CreateOrderBranch q \<in> set bs"
| "saga_event bs (CreateOrderRollbackEvent b k) \<longleftrightarrow> k \<in> {co_OrderId q |q. CreateOrderBranch q \<in> set bs}"
| "saga_event bs (Elsewhere f n) \<longleftrightarrow> True"
| "saga_event bs _ \<longleftrightarrow> False"

text \<open>What is relied on of the transaction manager: it works on the tables through these handlers, with its barrier.\<close>

definition dtm_ok :: "'x svc_ctx \<Rightarrow> 'x dtm \<Rightarrow> bool" where
  "dtm_ok s dtm \<longleftrightarrow> (\<forall>bs w. \<exists>es. list_all (\<lambda>e. saga_event bs e \<and> event_ok e) es \<and> o_db (snd (dtm bs w)) = o_db (run_events s es w))"

datatype 'x gateway_event =
    Create "'x dtm" int call_ctx "gateway_create_req option"
  | Cancel call_ctx "(string \<times> string) option"
  | Refund call_ctx "(string \<times> string) option"
  | Receipt call_ctx "string option"
  | Poll call_ctx string
  | AdminShip call_ctx "string option"
  | AdminClose call_ctx "(string \<times> string) option"
  | AdminRefund call_ctx "(string \<times> string) option"
  | AdminAudit call_ctx "(string \<times> bool \<times> string) option"
  | Callback "callback_req option"
  | Notification string
  | Behind "'x event"
  | Losses "fault list"

fun gateway_serve :: "'x gateway \<Rightarrow> 'x gateway_event \<Rightarrow> 'x order_world \<Rightarrow> 'x order_world" where
  "gateway_serve g (Create dtm n cx b) w = snd (gateway_CreateOrder g dtm n cx b w)"
| "gateway_serve g (Cancel cx b) w = snd (CancelOrderHandler g cx b w)"
| "gateway_serve g (Refund cx b) w = snd (RefundOrderHandler cx b w)"
| "gateway_serve g (Receipt cx b) w = snd (ConfirmReceiptHandler g cx b w)"
| "gateway_serve g (Poll cx q) w = snd (OrderStatusPollHandler g cx q w)"
| "gateway_serve g (AdminShip cx b) w = snd (AdminShipOrderHandler g cx b w)"
| "gateway_serve g (AdminClose cx b) w = snd (AdminCloseOrderHandler g cx b w)"
| "gateway_serve g (AdminRefund cx b) w = snd (AdminRefundOrderHandler g cx b w)"
| "gateway_serve g (AdminAudit cx b) w = snd (AdminRefundAuditHandler g cx b w)"
| "gateway_serve g (Callback b) w = snd (PaymentCallbackHandler g b w)"
| "gateway_serve g (Notification b) w = snd (AlipayPaymentNotificationHandler g b w)"
| "gateway_serve g (Behind e) w = serve (gw_order g) e w"
| "gateway_serve g (Losses fs) w = w\<lparr>faults := fs\<rparr>"

fun gateway_event_ok :: "'x gateway \<Rightarrow> 'x gateway_event \<Rightarrow> bool" where
  "gateway_event_ok g (Create dtm n cx b) \<longleftrightarrow> dtm_ok (gw_order g) dtm"
| "gateway_event_ok g (Behind e) \<longleftrightarrow> event_ok e"
| "gateway_event_ok g _ \<longleftrightarrow> True"

definition gateway_history :: "'x gateway \<Rightarrow> 'x gateway_event list \<Rightarrow> 'x order_world \<Rightarrow> 'x order_world" where
  "gateway_history g es w = fold (gateway_serve g) es w"

lemma keeps_dtm:
  fixes dtm :: "'x dtm"
  assumes "dtm_ok s dtm"
  shows "keeps (on_odb (good s0)) (dtm bs)"
proof (rule keepsI)
  fix w :: "'x order_world" assume w: "on_odb (good s0) w"
  obtain es where "list_all event_ok es" "o_db (snd (dtm bs w)) = o_db (run_events s es w)"
    using assms by (fastforce simp: dtm_ok_def list_all_iff)
  then show "on_odb (good s0) (snd (dtm bs w))" using run_events_good [of es s0 w s] w by (simp add: on_odb_def)
qed

lemma keeps_gateway_CreateOrder:
  assumes "dtm_ok s dtm"
  shows "keeps (on_odb (good s0)) (gateway_CreateOrder g dtm n cx b)"
proof -
  have "keeps (on_odb (good s0)) (submitCreateOrderSaga dtm q u k)" for q u k
    unfolding submitCreateOrderSaga_def generateDtmGID_def by (intro keeps_rules keeps_dtm [OF assms])
  then show ?thesis
    unfolding gateway_CreateOrder_def loadCreateOrderRespByRequestID_def loadCreateOrderRespByOrderID_def Let_def
    by (auto intro!: keeps_rules split: option.split)
qed

lemma keeps_order_handlers:
  "keeps (on_odb (good s0)) (CancelOrderHandler g cx b)" "keeps (on_odb (good s0)) (RefundOrderHandler cx b)"
  "keeps (on_odb (good s0)) (ConfirmReceiptHandler g cx k)" "keeps (on_odb (good s0)) (OrderStatusPollHandler g cx q)"
  "keeps (on_odb (good s0)) (AdminShipOrderHandler g cx k)" "keeps (on_odb (good s0)) (AdminCloseOrderHandler g cx b)"
  "keeps (on_odb (good s0)) (AdminRefundOrderHandler g cx b)" "keeps (on_odb (good s0)) (AdminRefundAuditHandler g cx a)"
  "keeps (on_odb (good s0)) (PaymentCallbackHandler g c)" "keeps (on_odb (good s0)) (AlipayPaymentNotificationHandler g q)"
  unfolding CancelOrderHandler_def RefundOrderHandler_def ConfirmReceiptHandler_def OrderStatusPollHandler_def AdminShipOrderHandler_def
    AdminCloseOrderHandler_def AdminRefundOrderHandler_def AdminRefundAuditHandler_def PaymentCallbackHandler_def AlipayPaymentNotificationHandler_def
    adapter_CancelUser_def adapter_ConfirmReceipt_def adapter_ShipAdmin_def adapter_CloseAdmin_def requestUserRefund_def refundAdminOrder_def
    auditAdminRefund_def markPaymentPaid_def Let_def
  by (auto intro!: keeps_rules split: option.split sum.split)

lemma gateway_serve_good: "gateway_event_ok g e \<Longrightarrow> good s0 (o_db w) \<Longrightarrow> good s0 (o_db (gateway_serve g e w))"
  by (cases e) (auto intro!: keeps_good keeps_gateway_CreateOrder keeps_order_handlers serve_good)

lemma gateway_history_good:
  "list_all (gateway_event_ok g) es \<Longrightarrow> good s0 (o_db w) \<Longrightarrow> good s0 (o_db (gateway_history g es w))"
  by (induction es arbitrary: w) (simp_all add: gateway_history_def gateway_serve_good)

section \<open>Queries\<close>

lemma query_row_run:
  assumes "query_row g w = (x, w')"
  shows "o_db w' = o_db w" "o_ext w' = o_ext w" "o_redis w' = o_redis w" "x = Inr a \<Longrightarrow> g (o_db w) = Some a" "x = Inl ErrNoRows \<Longrightarrow> g (o_db w) = None"
  using assms unfolding query_row_def stmt_def
  by (cases rule: ext_call_cases; auto split: option.splits)+

lemma normalize_run:
  assumes "normalizeNotFound (query_row g) w = (x, w')"
  shows "o_db w' = o_db w" "o_ext w' = o_ext w" "o_redis w' = o_redis w" "x = Inr y \<Longrightarrow> y = g (o_db w)"
proof -
  obtain z where z: "query_row g w = (z, w')" "x = (case z of Inl e \<Rightarrow> if e = ErrNoRows then Inr None else Inl e | Inr a \<Rightarrow> Inr (Some a))"
    using assms by (auto simp: normalizeNotFound_def split: prod.splits sum.splits if_splits)
  show "o_db w' = o_db w" "o_ext w' = o_ext w" "o_redis w' = o_redis w" using query_row_run(1-3) [OF z(1)] .
  show "x = Inr y \<Longrightarrow> y = g (o_db w)"
    using z query_row_run(4,5) [OF z(1)] by (cases z) (auto split: if_splits)
qed

text \<open>The order a result names is the user's and has the status named.\<close>

definition own_result :: "order_tables \<Rightarrow> int \<Rightarrow> string \<Rightarrow> create_result \<Rightarrow> bool" where
  "own_result d u k r \<longleftrightarrow> cr_OrderID r = k \<and> (\<exists>ord\<in>set (orders d). o_id ord = k \<and> o_user_id ord = u \<and> cr_Status r = order_Text (o_status ord))"

lemma CreateByOrder_run:
  assumes "CreateByOrder k u w = (x, w')"
  shows "o_db w' = o_db w \<and> o_ext w' = o_ext w \<and> o_redis w' = o_redis w \<and> (\<forall>r. x = Inr r \<longrightarrow> own_result (o_db w) u k r)"
proof -
  obtain y w1 where y: "CreateResultByOrder k u w = (y, w1)" by fastforce
  note run = normalize_run [OF y [unfolded CreateResultByOrder_def]]
  have w1: "w' = w1" using assms y by (auto simp: CreateByOrder_def bindE_def ret_def fail_def Let_def split: sum.splits option.splits prod.splits)
  have "own_result (o_db w) u k r" if "x = Inr r" for r
  proof (cases y)
    case (Inl e)
    then show ?thesis using assms y that by (simp add: CreateByOrder_def bindE_def)
  next
    case (Inr z)
    note z = run(4) [OF Inr]
    then show ?thesis using assms y that Inr
      by (auto simp: CreateByOrder_def bindE_def ret_def fail_def Let_def own_result_def split: option.splits if_splits dest!: find_SomeD)
  qed
  then show ?thesis using run(1-3) w1 by simp
qed

lemma CreateByRequest_run:
  assumes "CreateByRequest q u w = (x, w')"
  shows "o_db w' = o_db w \<and> o_ext w' = o_ext w \<and> o_redis w' = o_redis w \<and>
    (case find (\<lambda>r. o_request_id r = q \<and> o_user_id r = u) (orders (o_db w)) of
       None \<Rightarrow> \<forall>z. x = Inr z \<longrightarrow> z = None
     | Some r \<Rightarrow> \<forall>z. x = Inr z \<longrightarrow> (\<exists>y. z = Some y \<and> own_result (o_db w) u (o_id r) y))"
proof -
  obtain y w1 where y: "OrderIDByRequest q u w = (y, w1)" by fastforce
  note run = normalize_run [OF y [unfolded OrderIDByRequest_def]]
  show ?thesis
  proof (cases y)
    case (Inl e)
    then show ?thesis using assms y run by (auto simp: CreateByRequest_def bindE_def split: option.splits)
  next
    case (Inr z)
    note z = run(4) [OF Inr]
    show ?thesis
    proof (cases z)
      case None
      have x: "x = Inr None" "w' = w1" using assms y Inr None by (auto simp: CreateByRequest_def bindE_def ret_def)
      have r: "find (\<lambda>r. o_request_id r = q \<and> o_user_id r = u) (orders (o_db w)) = None"
        using z [symmetric] unfolding None map_option_is_None .
      show ?thesis unfolding r option.case x using run(1-3) by simp
    next
      case (Some k)
      obtain v w2 where v: "CreateByOrder k u w1 = (v, w2)" by fastforce
      have x: "x = map_sum id Some v" "w' = w2" using assms y Inr Some v by (auto simp: CreateByRequest_def bindE_def ret_def split: sum.splits)
      obtain r where r: "find (\<lambda>r. o_request_id r = q \<and> o_user_id r = u) (orders (o_db w)) = Some r" "o_id r = k"
        using z [symmetric] unfolding Some map_option_eq_Some by blast
      show ?thesis unfolding r(1) option.case x r(2) using CreateByOrder_run [OF v] run(1-3) by (cases v) simp_all
    qed
  qed
qed

section \<open>Creating orders\<close>

lemma reply_or_cases:
  assumes "reply_or f m k w = (x, w')"
  obtains (failed) e where "m w = (Inl e, w')" "x = Inr (HttpFail (fst (f e)) (snd (f e)))"
  | (passed) a w1 where "m w = (Inr a, w1)" "k a w1 = (x, w')"
  using assms by (auto simp: reply_or_def bindE_def attempt_def ret_def split: sum.splits prod.splits)

text \<open>Looking a result up changes no table, and what it finds belongs to the user.\<close>

lemma load_by_request:
  assumes "loadCreateOrderRespByRequestID g q u w = (x, w')"
  shows "o_db w' = o_db w" "o_ext w' = o_ext w" "o_redis w' = o_redis w"
    "find (\<lambda>r. o_request_id r = q \<and> o_user_id r = u) (orders (o_db w)) = Some r \<Longrightarrow> x = Inr z \<Longrightarrow> \<exists>y. z = Some y \<and> own_result (o_db w) u (o_id r) y"
    "x = Inr (Some y) \<Longrightarrow> \<exists>k. own_result (o_db w) u k y"
proof -
  have "(o_db w' = o_db w \<and> o_ext w' = o_ext w \<and> o_redis w' = o_redis w) \<and>
      (find (\<lambda>r. o_request_id r = q \<and> o_user_id r = u) (orders (o_db w)) = Some r \<longrightarrow> x = Inr z \<longrightarrow> (\<exists>y. z = Some y \<and> own_result (o_db w) u (o_id r) y)) \<and>
      (x = Inr (Some y) \<longrightarrow> (\<exists>k. own_result (o_db w) u k y))"
  proof (cases "gw_has_queries g")
    case True
    then have "CreateByRequest q u w = (x, w')" using assms by (simp add: loadCreateOrderRespByRequestID_def orderQueryService_def bindE_def ret_def)
    from CreateByRequest_run [OF this] show ?thesis by (cases "find (\<lambda>r. o_request_id r = q \<and> o_user_id r = u) (orders (o_db w))") auto
  next
    case False
    then show ?thesis using assms by (auto simp: loadCreateOrderRespByRequestID_def orderQueryService_def bindE_def fail_def)
  qed
  then show "o_db w' = o_db w" "o_ext w' = o_ext w" "o_redis w' = o_redis w"
    "find (\<lambda>r. o_request_id r = q \<and> o_user_id r = u) (orders (o_db w)) = Some r \<Longrightarrow> x = Inr z \<Longrightarrow> \<exists>y. z = Some y \<and> own_result (o_db w) u (o_id r) y"
    "x = Inr (Some y) \<Longrightarrow> \<exists>k. own_result (o_db w) u k y" by blast+
qed

lemma load_found: "loadCreateOrderRespByRequestID g q u w = (Inr (Some y), w') \<Longrightarrow> \<exists>k. own_result (o_db w') u k y"
  using load_by_request(1,5) by metis

lemma load_by_order:
  assumes "loadCreateOrderRespByOrderID g k u w = (Inr y, w')"
  shows "own_result (o_db w') u k y"
proof -
  have "CreateByOrder k u w = (Inr y, w')"
    using assms by (auto simp: loadCreateOrderRespByOrderID_def orderQueryService_def bindE_def ret_def fail_def split: if_splits)
  from CreateByOrder_run [OF this] show ?thesis by simp
qed

lemma ret_http: "ret (HttpOK a) w = (x, w') \<longleftrightarrow> x = Inr (HttpOK a) \<and> w' = w"
  by (auto simp: ret_def)

lemma create_repeats:
  assumes "gateway_CreateOrder g dtm n cx (Some req) w = (x, w')" "logged_in cx = Some u" "TrimSpace (gq_RequestID req) \<noteq> []"
    and known: "find (\<lambda>r. o_request_id r = TrimSpace (gq_RequestID req) \<and> o_user_id r = u) (orders (o_db w)) = Some r"
  shows "o_db w' = o_db w \<and> o_ext w' = o_ext w \<and> o_redis w' = o_redis w \<and> (\<forall>y. x = Inr (HttpOK y) \<longrightarrow> own_result (o_db w) u (o_id r) y)"
  using assms(1-3) unfolding gateway_CreateOrder_def Let_def
  by (auto simp: bad_argument_def ret_def split: if_splits option.splits elim!: reply_or_cases dest: load_by_request(1-3) load_by_request(4) [OF _ known])

lemma create_answers_own:
  assumes "gateway_CreateOrder g dtm n cx body w = (Inr (HttpOK y), w')"
  shows "\<exists>u k. logged_in cx = Some u \<and> own_result (o_db w') u k y"
proof -
  obtain u where u: "logged_in cx = Some u" using assms by (cases "logged_in cx") (auto simp: gateway_CreateOrder_def login_required_def ret_def)
  have "\<exists>k. own_result (o_db w') u k y"
    using assms u unfolding gateway_CreateOrder_def Let_def
    by (auto simp: bad_argument_def ret_http split: if_splits option.splits elim!: reply_or_cases)
       (auto simp: ret_def dest: load_by_order load_found)
  then show ?thesis using u by blast
qed

lemma find_unique:
  assumes "distinct (map f xs)" "r \<in> set xs" "P r"
  shows "find (\<lambda>x. f x = f r \<and> P x) xs = Some r"
  using assms by (induction xs) (auto simp: rev_image_eqI)

lemma poll_answers_own:
  assumes "OrderStatusPollHandler g cx p w = (Inr (HttpOK (q, k, st)), w')" "k \<noteq> []"
  shows "\<exists>r\<in>set (orders (o_db w)). logged_in cx = Some (o_user_id r) \<and> o_request_id r = q \<and> o_id r = k \<and> st = order_Text (o_status r)"
proof -
  obtain u where u: "logged_in cx = Some u" using assms by (cases "logged_in cx") (auto simp: OrderStatusPollHandler_def login_required_def ret_def)
  have queries: "orderQueryService g v = (Inr z, w1) \<Longrightarrow> w1 = v" for z w1 and v :: "'a order_world"
    by (auto simp: orderQueryService_def ret_def fail_def split: if_splits)
  obtain w1 where "StatusByRequest (TrimSpace p) u w = (Inr (Some (q, k, st)), w1)"
    using assms u unfolding OrderStatusPollHandler_def Let_def
    by (auto simp: ret_def split: if_splits option.splits elim!: reply_or_cases dest!: queries)
  then obtain s w2 where run: "OrderStatusByRequest (TrimSpace p) u w = (Inr (Some (k, s)), w2)" and eq: "q = TrimSpace p" "st = order_Text s"
    unfolding StatusByRequest_def by (auto elim!: bindE_InrE dest!: ret_InrD simp: map_option_case split: option.splits)
  have "map_option (\<lambda>r. (o_id r, o_status r)) (find (\<lambda>r. o_request_id r = q \<and> o_user_id r = u) (orders (o_db w))) = Some (k, s)"
    using normalize_run(4) [OF run [unfolded OrderStatusByRequest_def] refl] eq(1) by simp
  then obtain r where "find (\<lambda>r. o_request_id r = q \<and> o_user_id r = u) (orders (o_db w)) = Some r" "o_id r = k" "o_status r = s"
    by (auto simp: map_option_case split: option.splits)
  then show ?thesis using u eq(2) by (auto dest!: find_SomeD)
qed

section \<open>Callbacks\<close>

text \<open>Either the tables stay as they are, or the callback is valid and the order service has handled it.\<close>

lemma callback_runs:
  assumes "PaymentCallbackHandler g (Some req) w = (x, w')" "o_db w' \<noteq> o_db w"
  obtains body fs y w1 where "validatePaymentCallbackSignatureAt (gw_CallbackSecret g) (gw_CallbackMaxSkew g) req (o_now w) = None"
    "paymentCallbackBody req = Inr body" "o_db w' = o_db w1"
    "MarkPaid (gw_order g) (gw_rpc_ctx g) \<lparr>mp_OrderId = cq_OrderID req, mp_PaymentOrderId = cq_PaymentOrderID req,
      mp_OutTradeNo = cq_OutTradeNo req, mp_CallbackBody = body\<rparr> (w\<lparr>faults := fs\<rparr>) = (y, w1)"
proof -
  have valid: "validatePaymentCallbackSignatureAt (gw_CallbackSecret g) (gw_CallbackMaxSkew g) req (o_now w) = None"
    using assms by (auto simp: PaymentCallbackHandler_def bindE_def order_now_def ret_def split: option.splits)
  obtain body where body: "paymentCallbackBody req = Inr body"
    using assms valid by (auto simp: PaymentCallbackHandler_def bindE_def order_now_def ret_def split: sum.splits)
  let ?m = "MarkPaid (gw_order g) (gw_rpc_ctx g) \<lparr>mp_OrderId = cq_OrderID req, mp_PaymentOrderId = cq_PaymentOrderID req,
      mp_OutTradeNo = cq_OutTradeNo req, mp_CallbackBody = body\<rparr>"
  obtain z w1 where run: "order_rpc ?m w = (z, w1)" by fastforce
  have w1: "o_db w' = o_db w1"
    using assms(1) valid body run
    by (auto simp: PaymentCallbackHandler_def bindE_def order_now_def reply_or_def attempt_def markPaymentPaid_def ret_def Let_def split: sum.splits)
  from run [unfolded order_rpc_def] show thesis
  proof (cases rule: ext_call_cases)
    case (reply fs)
    then show ?thesis using that [OF valid body w1] by (auto simp: map_err_def split: prod.splits sum.splits)
  next
    case (lost s fs)
    then show ?thesis using assms(2) w1 by simp
  next
    case (unanswered s fs y)
    then show ?thesis using that [OF valid body w1] by (auto simp: map_err_def split: prod.splits sum.splits)
  qed
qed

lemma TrimSpace_keeps: "c \<in> set s \<Longrightarrow> \<not> is_space c \<Longrightarrow> TrimSpace s \<noteq> []"
  by (auto simp: TrimSpace_def) (metis dropWhile_eq_Nil_conv hd_dropWhile list.set_sel(1))

lemma hex_digits_stay: "bs \<noteq> [] \<Longrightarrow> TrimSpace (EncodeToString bs) \<noteq> []"
proof -
  assume "bs \<noteq> []"
  then obtain b bs' where bs: "bs = b # bs'" by (cases bs) auto
  have "\<not> is_space (hex_digit (b mod 16))" by (auto simp: is_space_def hex_digit_def)
  then show ?thesis by (intro TrimSpace_keeps [of "hex_digit (b mod 16)"]) (simp_all add: bs EncodeToString_def)
qed

lemma hmac_nonempty: "hmac_sha256 key msg \<noteq> []"
  by (simp add: hmac_sha256_def Let_def flip: length_0_conv)

lemma callback_signed:
  "validatePaymentCallbackSignatureAt secret skew req now = None \<Longrightarrow> cq_Signature req = EncodeToString (hmac_sha256 secret (paymentCallbackSigningPayload req))"
  by (auto simp: validatePaymentCallbackSignatureAt_def Let_def split: if_splits option.splits)

text \<open>The order service reads the amount from the body that the gateway wrote.\<close>

lemma callback_body_amount:
  assumes "paymentCallbackBody req = Inr body" "parsePaymentCallbackPayload body = Inr cb"
  shows "pl_PaidAmountFen cb = cq_PaidAmountFen req"
  using assms
  by (auto simp: paymentCallbackBody_def parsePaymentCallbackPayload_def Let_def marshal_map_def unmarshal_struct_def set_payload_def EqualFold_def
      empty_payload_def ToLower_def split: if_splits)

section \<open>A request under the id of another order\<close>

text \<open>What is relied on of the transaction manager: when the first branch took effect and the second fails, the first is compensated.\<close>

definition compensates :: "'x svc_ctx \<Rightarrow> call_ctx \<Rightarrow> 'x barrier option \<Rightarrow> 'x dtm \<Rightarrow> bool" where
  "compensates s cx b dtm \<longleftrightarrow> (\<forall>p c w w1 e w2. PreDeduct s cx p w = (Inr (), w1) \<longrightarrow> CreateOrder s b c w1 = (Inl e, w2) \<longrightarrow>
     (\<exists>e'. dtm [PreDeductBranch p, CreateOrderBranch c] w = (Inl e', snd (PreDeductRollback s cx p w2))))"

text \<open>A try for an order that has taken stock answers success and takes nothing.\<close>

lemma PreDeduct_again:
  assumes "faults w = []" "InventoryClient s = None" "pq_OrderId p \<noteq> []"
    and "ctr (o_redis w) (at_key (pre_deduct_keys s p) (stockShardCount (StockShardCount (Config s)) + 1)) = Some idx"
  shows "PreDeduct s cx p w = (Inr (), w)"
proof -
  let ?n = "stockShardCount (StockShardCount (Config s))" and ?KS = "pre_deduct_keys s p"
  have "preDeductLua ?KS a ttl ?n st (o_redis w) = (Inr 1, o_redis w)" for a ttl st
    by (rule preDeduct_marked) (simp add: assms(4))
  then show ?thesis using assms(1-3)
    by (simp add: PreDeduct_def Let_def evalPreDeduct_def order_eval_def ext_call_ok bindE_def map_err_def ret_def)
qed

lemma PreDeductRollback_took:
  assumes "faults w = []" "InventoryClient s = None" "pq_OrderId p \<noteq> []" "n = stockShardCount (StockShardCount (Config s))" "KS = pre_deduct_keys s p"
    and "ctr (o_redis w) (at_key KS (n + 1)) = Some idx" "ctr (o_redis w) (at_key KS (n + 2)) = None" "1 \<le> idx" "idx \<le> n"
  shows "o_db (snd (PreDeductRollback s cx p w)) = o_db w \<and>
    ctr (o_redis (snd (PreDeductRollback s cx p w))) = (ctr (o_redis w))(at_key KS idx := Some (num_of (ctr (o_redis w) (at_key KS idx)) + pq_Amount p), at_key KS (n + 2) := Some 1)"
proof -
  have len: "idx \<le> int (length KS)" using assms(4,5,9) by (simp add: pre_deduct_keys_def stockShardKeys_def)
  obtain x r where run: "preDeductRollbackLua KS (pq_Amount p) preDeductKeyTTLSeconds n (o_redis w) = (x, r)" by fastforce
  have "x = Inr 1" "ctr r = (ctr (o_redis w))(at_key KS idx := Some (num_of (ctr (o_redis w) (at_key KS idx)) + pq_Amount p), at_key KS (n + 2) := Some 1)"
    using preDeductRollbackLua_took [OF assms(7,6,8) len, of "pq_Amount p" preDeductKeyTTLSeconds] run by simp_all
  then show ?thesis using assms(1-5) run
    by (simp add: PreDeductRollback_def order_eval_def ext_call_ok bindE_def map_err_def ret_def)
qed

lemma CreateOrder_price_changed:
  assumes "faults w = []" "co_OrderId c \<noteq> []" "0 < co_ProductId c" "0 < co_Amount c" "ProductRpc s = Some getCard"
    and "getCard (co_ProductId c) (o_ext w) = (Inr pc, e)" "BuildQuote (Some pc) (co_Amount c) = Inr quote"
    and "0 < co_ExpectedPriceFen c" "co_ExpectedPriceFen c \<noteq> q_PayableAmountFen quote"
  shows "CreateOrder s b c w = (Inl (StatusError codes_FailedPrecondition ''price changed, please retry checkout''), w\<lparr>o_ext := e\<rparr>)"
  using assms by (simp add: CreateOrder_def Let_def call_def ext_call_ok bindE_def map_err_def of_result_def fail_def)

section \<open>Examples\<close>

text \<open>A transaction manager that runs the two branches once and compensates the first when the second fails.\<close>

definition plain_dtm :: "'x svc_ctx \<Rightarrow> call_ctx \<Rightarrow> 'x dtm" where
  "plain_dtm s cx bs w = (case bs of
       [PreDeductBranch p, CreateOrderBranch c] \<Rightarrow>
         (case PreDeduct s cx p w of
            (Inl e, w1) \<Rightarrow> (Inl e, snd (PreDeductRollback s cx p w1))
          | (Inr _, w1) \<Rightarrow>
              (case CreateOrder s (Some plain_barrier) c w1 of
                 (Inl e, w2) \<Rightarrow> (Inl e, snd (PreDeductRollback s cx p w2))
               | (Inr _, w2) \<Rightarrow> (Inr (), w2)))
     | _ \<Rightarrow> (Inr (), w))"

lemma plain_dtm_ok: "dtm_ok s (plain_dtm s cx)"
  unfolding dtm_ok_def
proof (intro allI)
  fix bs and w :: "'a order_world"
  show "\<exists>es. list_all (\<lambda>e. saga_event bs e \<and> event_ok e) es \<and> o_db (snd (plain_dtm s cx bs w)) = o_db (run_events s es w)"
  proof (cases "\<exists>p c. bs = [PreDeductBranch p, CreateOrderBranch c]")
    case False
    then have "snd (plain_dtm s cx bs w) = w" by (auto simp: plain_dtm_def split: list.splits branch.splits)
    then show ?thesis by (intro exI [of _ "[]"]) (simp add: run_events_def)
  next
    case True
    then obtain p c where bs: "bs = [PreDeductBranch p, CreateOrderBranch c]" by blast
    obtain x w1 where r1: "PreDeduct s cx p w = (x, w1)" by fastforce
    obtain y w2 where r2: "CreateOrder s (Some plain_barrier) c w1 = (y, w2)" by fastforce
    let ?es = "case x of Inl _ \<Rightarrow> [PreDeductEvent cx p, PreDeductRollbackEvent cx p]
      | Inr _ \<Rightarrow> (case y of Inl _ \<Rightarrow> [PreDeductEvent cx p, CreateOrderEvent (Some plain_barrier) c, PreDeductRollbackEvent cx p]
          | Inr _ \<Rightarrow> [PreDeductEvent cx p, CreateOrderEvent (Some plain_barrier) c])"
    have "list_all (\<lambda>e. saga_event bs e \<and> event_ok e) ?es" by (auto simp: bs plain_barrier_ok split: sum.splits)
    moreover have "snd (plain_dtm s cx bs w) = run_events s ?es w"
      by (simp add: bs plain_dtm_def r1 r2 run_events_def split: sum.splits)
    ultimately show ?thesis by (intro exI [of _ ?es]) simp
  qed
qed

definition demo_gateway :: "unit gateway" where
  "demo_gateway = \<lparr>gw_order = demo_svc, gw_rpc_ctx = demo_ctx, gw_has_queries = True, gw_has_commands = True, gw_DtmServer = ''dtm:36790'',
     gw_OrderRpcTarget = ''order:8080'', gw_CallbackSecret = ''key'', gw_CallbackMaxSkew = 0\<rparr>"

definition user_ctx :: "int \<Rightarrow> call_ctx" where
  "user_ctx u = demo_ctx\<lparr>cx_identity := Some \<lparr>id_UserID = u, id_Role = ''user'', id_IsAdmin = False, id_MerchantID = 0, id_RequestID = []\<rparr>\<rparr>"

lemma logged_in_user [simp]: "logged_in (user_ctx u) = (if u \<le> 0 then None else Some u)"
  by (simp add: logged_in_def user_ctx_def)

section \<open>Refinement\<close>


definition demo_request :: "string \<Rightarrow> int \<Rightarrow> int \<Rightarrow> gateway_create_req" where
  "demo_request q amount expected = \<lparr>gq_RequestID = q, gq_ProductID = 7, gq_Amount = amount, gq_ExpectedPriceFen = expected\<rparr>"

definition demo_visits :: "unit gateway_event list" where
  "demo_visits = [Create (plain_dtm demo_svc demo_ctx) 0 (user_ctx 1) (Some (demo_request ''q1'' 2 0)), Cancel (user_ctx 1) (Some (''q1'', [])),
     Losses [Reply, NoReply ''eof''], AdminClose (user_ctx 9) (Some (''q1'', ''late'')), Behind (RecoveryRun demo_ctx)]"


section \<open>Requests\<close>

text \<open>C17: A user who repeats a request gets the order of that request with its current status, and nothing is changed:
  no saga is run, no stock is taken, whatever the transaction manager would do and whatever is lost.\<close>

theorem repeated_request_answers_order:
  assumes "gateway_CreateOrder g dtm n cx (Some req) w = (x, w')" "logged_in cx = Some u" "TrimSpace (gq_RequestID req) \<noteq> []"
    and "r \<in> set (orders (o_db w))" "o_request_id r = TrimSpace (gq_RequestID req)" "o_user_id r = u"
    and "distinct (map o_request_id (orders (o_db w)))" "distinct (map o_id (orders (o_db w)))"
  shows "o_db w' = o_db w \<and> o_ext w' = o_ext w \<and> o_redis w' = o_redis w \<and>
    (\<forall>y. x = Inr (HttpOK y) \<longrightarrow> cr_OrderID y = o_id r \<and> cr_Status y = order_Text (o_status r))"
proof -
  have "find (\<lambda>r. o_request_id r = TrimSpace (gq_RequestID req) \<and> o_user_id r = u) (orders (o_db w)) = Some r"
    using find_unique [OF assms(7,4), of "\<lambda>r. o_user_id r = u"] assms(5,6) by simp
  from create_repeats [OF assms(1-3) this] show ?thesis
    using assms(4,8) by (auto simp: own_result_def distinct_map dest: inj_onD)
qed

definition demo_answer :: create_result where
  "demo_answer = \<lparr>cr_OrderID = ''o1'', cr_Status = order_Text 0, cr_PayableAmountFen = 0, cr_PaymentOrderID = ''pay:o1''\<rparr>"

text \<open>The example order asked for again, with a transaction manager that never answers.\<close>

lemma demo_again:
  "gateway_CreateOrder demo_gateway (\<lambda>_ w. (Inl (RawError ''down''), w)) 0 (user_ctx 1) (Some (demo_request ''r1'' 2 0)) (order_world_of unpaid_tables [])
   = (Inr (HttpOK demo_answer), order_world_of unpaid_tables [])"
  by (simp add: gateway_CreateOrder_def demo_request_def demo_gateway_def Let_def reply_or_def loadCreateOrderRespByRequestID_def orderQueryService_def
      CreateByRequest_def OrderIDByRequest_def CreateByOrder_def CreateResultByOrder_def normalizeNotFound_def query_row_def stmt_def order_world_of_def
      io_simps unpaid_tables_def no_rows_at_all_def demo_row_def demo_payment_def snapshot_of_def payment_of_def demo_answer_def TrimSpace_def is_space_def)

theorem repeated_request_answers_order_witness:
  "\<exists>r\<in>set (orders unpaid_tables). o_request_id r = ''r1'' \<and> cr_OrderID demo_answer = o_id r"
  using repeated_request_answers_order [OF demo_again, of 1 demo_row]
  by (simp add: unpaid_tables_def no_rows_at_all_def demo_request_def demo_row_def TrimSpace_def is_space_def)

text \<open>C18: What the gateway answers a user about an order, after creating it or to a poll, is about an order of that
  user, with the status it has in the tables.\<close>

theorem gateway_answers_own_orders:
  "(\<forall>y. fst (gateway_CreateOrder g dtm n cx body w) = Inr (HttpOK y) \<longrightarrow>
      (\<exists>r\<in>set (orders (o_db (snd (gateway_CreateOrder g dtm n cx body w)))).
         logged_in cx = Some (o_user_id r) \<and> o_id r = cr_OrderID y \<and> cr_Status y = order_Text (o_status r))) \<and>
   (\<forall>q k st. fst (OrderStatusPollHandler g cx p w) = Inr (HttpOK (q, k, st)) \<longrightarrow> k \<noteq> [] \<longrightarrow>
      (\<exists>r\<in>set (orders (o_db w)). logged_in cx = Some (o_user_id r) \<and> o_request_id r = q \<and> o_id r = k \<and> st = order_Text (o_status r)))"
proof (intro conjI allI impI)
  fix y assume "fst (gateway_CreateOrder g dtm n cx body w) = Inr (HttpOK y)"
  then show "\<exists>r\<in>set (orders (o_db (snd (gateway_CreateOrder g dtm n cx body w)))).
         logged_in cx = Some (o_user_id r) \<and> o_id r = cr_OrderID y \<and> cr_Status y = order_Text (o_status r)"
    using create_answers_own [of g dtm n cx body w y] by (auto simp: own_result_def prod_eq_iff)
next
  fix q k st assume "fst (OrderStatusPollHandler g cx p w) = Inr (HttpOK (q, k, st))" "k \<noteq> []"
  then show "\<exists>r\<in>set (orders (o_db w)). logged_in cx = Some (o_user_id r) \<and> o_request_id r = q \<and> o_id r = k \<and> st = order_Text (o_status r)"
    using poll_answers_own by (metis prod.collapse)
qed

theorem gateway_answers_own_orders_witness:
  "\<exists>r\<in>set (orders unpaid_tables). o_user_id r = 1 \<and> o_id r = cr_OrderID demo_answer"
proof -
  let ?run = "gateway_CreateOrder demo_gateway (\<lambda>_ w. (Inl (RawError ''down''), w)) 0 (user_ctx 1) (Some (demo_request ''r1'' 2 0)) (order_world_of unpaid_tables [])"
  have "fst ?run = Inr (HttpOK demo_answer)" "snd ?run = order_world_of unpaid_tables []" by (simp_all add: demo_again)
  then show ?thesis
    using gateway_answers_own_orders [of demo_gateway "\<lambda>_ w. (Inl (RawError ''down''), w)" 0 "user_ctx 1" "Some (demo_request ''r1'' 2 0)" "order_world_of unpaid_tables []" "''r1''"] by auto
qed

section \<open>Callbacks\<close>

text \<open>C16: At the gateway a payment callback moves an order only if it carries the signature of its fields under the
  secret of the shop, with a timestamp within the allowed skew; it then moves the order it names from
  pending to paid, and the amount it was signed for is the payable amount of the payment it names.\<close>

theorem signed_callback_pays_exact:
  assumes "PaymentCallbackHandler g (Some req) w = (x, w')" "tables_wf (o_db w)"
    and "s_order (abs_state (o_db w')) k \<noteq> s_order (abs_state (o_db w)) k"
  shows "k = cq_OrderID req \<and> s_order (abs_state (o_db w)) k = Some order_PendingPayment \<and> s_order (abs_state (o_db w')) k = Some order_Paid \<and>
    cq_Signature req = EncodeToString (hmac_sha256 (gw_CallbackSecret g) (paymentCallbackSigningPayload req)) \<and>
    validatePaymentCallbackSignatureAt (gw_CallbackSecret g) (gw_CallbackMaxSkew g) req (o_now w) = None \<and>
    (\<exists>p\<in>set (payments (o_db w)). p_id p = cq_PaymentOrderID req \<and> p_order_id p = k \<and> p_payable_amount_fen p = cq_PaidAmountFen req)"
proof -
  obtain body fs y w1 where valid: "validatePaymentCallbackSignatureAt (gw_CallbackSecret g) (gw_CallbackMaxSkew g) req (o_now w) = None"
    and body: "paymentCallbackBody req = Inr body" and db: "o_db w' = o_db w1"
    and mark: "MarkPaid (gw_order g) (gw_rpc_ctx g) \<lparr>mp_OrderId = cq_OrderID req, mp_PaymentOrderId = cq_PaymentOrderID req,
      mp_OutTradeNo = cq_OutTradeNo req, mp_CallbackBody = body\<rparr> (w\<lparr>faults := fs\<rparr>) = (y, w1)"
    using assms(1,3) by (auto elim: callback_runs)
  show ?thesis
    using mark_paid_cause [OF mark, of k] assms(2,3) valid callback_body_amount [OF body] callback_signed [OF valid] db by auto
qed

definition signed_callback :: callback_req where
  "signed_callback = \<lparr>cq_OrderID = ''o1'', cq_PaymentOrderID = ''pay:o1'', cq_OutTradeNo = ''FM1'', cq_PaidAmountFen = 1800, cq_Provider = [],
     cq_EventID = ''e1'', cq_Timestamp = ''900'', cq_Nonce = ''n1'', cq_Signature = EncodeToString (hmac_sha256 ''key'' ''900.n1.o1.pay:o1.FM1.1800'')\<rparr>"

lemma signed_callback_valid: "validatePaymentCallbackSignatureAt ''key'' 0 signed_callback 1000 = None"
proof -
  have "paymentCallbackSigningPayload signed_callback = ''900.n1.o1.pay:o1.FM1.1800''"
  proof -
    have "show_int 1800 = ''1800''" by code_simp
    then show ?thesis by (simp add: paymentCallbackSigningPayload_def signed_callback_def)
  qed
  moreover have "TrimSpace (cq_Signature signed_callback) \<noteq> []" by (simp add: signed_callback_def hex_digits_stay hmac_nonempty)
  moreover have "ParseInt ''900'' = Some 900" "Seconds 300 = 300000000000" "time_Sub 1000 900 = 100000000000" "i64 (- 300000000000) = - 300000000000"
    "TrimSpace ''key'' \<noteq> []" "TrimSpace ''900'' \<noteq> []" "TrimSpace ''n1'' \<noteq> []" by code_simp+
  ultimately show ?thesis
    by (simp add: validatePaymentCallbackSignatureAt_def Let_def) (simp add: signed_callback_def)
qed

lemma signed_callback_runs:
  "status_after (PaymentCallbackHandler demo_gateway (Some signed_callback) (order_world_of unpaid_tables [])) ''o1'' = Some 1"
proof -
  let ?body = "JsonText (marshal_map [(''trade_status'', JStr ''SUCCESS''), (''source'', JStr ''callback''), (''provider'', JStr ''mock''),
      (''event_id'', JStr ''e1''), (''paid_amount_fen'', JInt 1800)])"
  have "paymentCallbackBody signed_callback = Inr ?body"
    by (simp add: paymentCallbackBody_def signed_callback_def TrimSpace_def is_space_def Let_def)
  moreover have "o_now (order_world_of unpaid_tables []) = 1000" by (simp add: order_world_of_def)
  moreover have "gw_CallbackSecret demo_gateway = ''key''" "gw_CallbackMaxSkew demo_gateway = 0" by (simp_all add: demo_gateway_def)
  moreover have "cq_OrderID signed_callback = ''o1''" "cq_PaymentOrderID signed_callback = ''pay:o1''" "cq_OutTradeNo signed_callback = ''FM1''"
    by (simp_all add: signed_callback_def)
  ultimately have "PaymentCallbackHandler demo_gateway (Some signed_callback) (order_world_of unpaid_tables []) =
      reply_or by_code (markPaymentPaid demo_gateway ''o1'' ''pay:o1'' ''FM1'' ?body) (\<lambda>resp. ret (HttpOK resp)) (order_world_of unpaid_tables [])"
    by (simp add: PaymentCallbackHandler_def bindE_def order_now_def signed_callback_valid)
  moreover have "status_after (reply_or by_code (markPaymentPaid demo_gateway ''o1'' ''pay:o1'' ''FM1'' ?body) (\<lambda>resp. ret (HttpOK resp)) (order_world_of unpaid_tables [])) ''o1'' = Some 1"
    by code_simp
  ultimately show ?thesis by simp
qed

theorem signed_callback_pays_exact_witness:
  "\<exists>p\<in>set (payments unpaid_tables). p_order_id p = ''o1'' \<and> p_payable_amount_fen p = cq_PaidAmountFen signed_callback"
proof -
  let ?run = "PaymentCallbackHandler demo_gateway (Some signed_callback) (order_world_of unpaid_tables [])"
  have before: "s_order (abs_state unpaid_tables) ''o1'' = Some 0" by (simp add: abs_state_def order_row_of_def unpaid_tables_def)
  have "s_order (abs_state (o_db (snd ?run))) ''o1'' \<noteq> s_order (abs_state unpaid_tables) ''o1''"
    unfolding status_after_abs before by (simp add: signed_callback_runs)
  then show ?thesis
    using signed_callback_pays_exact [of demo_gateway signed_callback "order_world_of unpaid_tables []" "fst ?run" "snd ?run" "''o1''"]
    unfolding order_world_of_db using unpaid_wf by (metis prod.collapse)
qed

section \<open>Two users, one request id\<close>


text \<open>The example order under its request id, holding two units of product 7.\<close>

definition held_tables :: order_tables where
  "held_tables = no_rows_at_all\<lparr>orders := [demo_row\<lparr>o_id := ''r1''\<rparr>]\<rparr>"

definition held_world :: "unit order_world" where
  "held_world = (order_world_of held_tables [])\<lparr>o_redis := r_set ''order:pre_deduct:try:r1'' 1 (r_set ''stock:7:0'' 8 (empty_redis 1000))\<rparr>"

lemma plain_dtm_compensates: "compensates s cx (Some plain_barrier) (plain_dtm s cx)"
  by (simp add: compensates_def plain_dtm_def)

lemma held_keys:
  "pre_deduct_keys demo_svc \<lparr>pq_OrderId = ''r1'', pq_ProductId = 7, pq_Amount = a\<rparr> = [''stock:7:0'', ''order:pre_deduct:try:r1'', ''order:pre_deduct:rollback:r1'']"
proof -
  have "show_int 7 = ''7''" "show_int 0 = ''0''" by code_simp+
  then show ?thesis by (simp add: pre_deduct_keys_def stockShardKeys_def stockShardCount_def demo_svc_def order_demo_config_def)
qed


end
