(* ===== verification/Spec2Isabelle.thy ===== *)
theory Spec2Isabelle
  imports Memory_Repository Confirm_Safety Release_Safety Common_Status Inventory_Handler Refund_Release Outbox_Safety
    Pre_Deduct_Safety Payment_Safety Product_Stock_Safety Filter_Safety Auth_Access Catalog_Guarantees Close_Safety Gateway_Safety
begin

text \<open>
  Verification of the Flash Mall services.

  \<^bold>\<open>The program.\<close>  A shop sells limited stock.  The inventory service (\<open>app/inventory\<close>) keeps the stock of
  each product in Redis, split over shards, and reserves, confirms and releases units per order with
  Lua scripts; MySQL holds the durable buckets, a deduction log and a reservation ledger.  The order
  service (\<open>app/order/rpc\<close>) keeps orders, price snapshots, payments, refunds, a status log and an
  outbox in MySQL; it reserves stock through the inventory service inside a distributed transaction,
  takes payment callbacks, closes, ships and refunds orders, and publishes events from the outbox.
  A recovery job closes expired payments and repeats stock operations that were not acknowledged.
  The product service (\<open>app/product/rpc\<close>) has an older stock saga on the same tables.  The gateway
  (\<open>app/gateway/hertz\<close>) keeps requests for products that do not exist away from the database with a
  Bloom filter.  The auth service (\<open>app/auth/api\<close>) keeps users, verification codes and sessions, hands
  out access and refresh tokens and copies sessions to Redis, where the entry service (\<open>app/entry/api\<close>)
  checks access tokens.  The catalogue (products, promotions and the snapshots of product cards) is
  written by the gateway and, with older handlers, by the entry service, and read by the product service.

  \<^bold>\<open>Conventions.\<close>  A handler is a function from the world to a result and a world (\<open>Effects\<close>): \<open>Inl\<close> is a Go
  error, \<open>Inr\<close> a value.  Every call that leaves the process takes its outcome from the fault schedule of
  the world: it succeeds, is lost before it took effect, or takes effect without a reply.  A theorem
  about all worlds therefore covers all losses.  A SQL transaction commits or leaves the database as
  it was.  Go \<open>int64\<close> values are \<open>int\<close> with \<open>i64\<close> where arithmetic can wrap; CRC-32 and SHA-256 work on 32-bit
  words.  Systems outside the repository (payment provider, broker, transaction manager) are
  parameters; what is relied on of them is a named hypothesis (\<open>barrier_ok\<close>, \<open>jwt_contract\<close>) with an
  instance.  A pipeline of Redis commands is one call; each method of an auth store is one step; work
  the auth service starts in a goroutine happens on the spot; new session ids of the in-memory store
  are fresh (32 random bytes).  Loops are recursions over lists, except the load of a filter generation:
  \<open>load_loop\<close> has a number of rounds, and \<open>load_terminates\<close> shows that one more than the table has rows
  is enough.

  \<^bold>\<open>Shared theories.\<close>  \<open>Prelude\<close> (integers, strings, lists), \<open>Go_Errors\<close> (\<open>app/common/apperror\<close>, gRPC errors),
  \<open>Effects\<close>, \<open>Common_Status\<close> (\<open>app/common/orderstatus\<close>, \<open>paymentstatus\<close>, \<open>refundstatus\<close>), \<open>Sha256\<close>, \<open>Go_Json\<close> (with
  \<open>net/url\<close>; standard library), \<open>Redis_Keys\<close> (values with a deadline).

  \<^bold>\<open>Inventory service.\<close>  \<open>Stock_Domain\<close> (\<open>domain/\<close>, with the contract of a reservation store as a locale),
  \<open>Memory_Repository\<close> (\<open>repository/memory.go\<close>), \<open>Shard\<close>, \<open>Redis_Store\<close> and \<open>Lua_Scripts\<close> (the Redis server and
  the scripts of \<open>redis_scripts.go\<close> and \<open>reservation_reaper.go\<close>), \<open>Inventory_Store\<close>, \<open>Stock_Persistence\<close>,
  \<open>Reservation_Ledger\<close>, \<open>Stock_Commands\<close>, \<open>Reservation_Reaper\<close>, \<open>Runtime_Recovery\<close> (the other files of
  \<open>repository/\<close>), \<open>Inventory_Service\<close> (\<open>service/service.go\<close>), \<open>Inventory_Handler\<close> (\<open>kitex/handler.go\<close> and the
  client \<open>app/order/rpc/internal/inventoryclient\<close>).  Results: \<open>No_Oversell\<close> (no interleaving of scripts and
  expiry sells more than was seeded), \<open>Repository_Safety\<close>, \<open>Release_Safety\<close>, \<open>Confirm_Safety\<close>, \<open>Final_Deduct\<close>
  (each operation takes effect at most once over retries, exactly once on success), \<open>Service_Safety\<close>
  (no call makes a shard negative), \<open>Lua_Safety\<close>, and the numbers of reconciliation and recovery.

  \<^bold>\<open>Order service\<close> (files under \<open>app/order/rpc/internal\<close>).  \<open>Order_Store\<close> (tables, clients, context),
  \<open>Order_Create\<close> (\<open>createOrderLogic.go\<close>, \<open>createOrderRollbackLogic.go\<close>, \<open>pricing/quote.go\<close>), \<open>Pre_Deduct\<close>
  (\<open>preDeductLogic.go\<close>, \<open>preDeductRollbackLogic.go\<close>, \<open>stock_shard.go\<close>), \<open>Order_Payment\<close> (\<open>markorderpaidlogic.go\<close>),
  \<open>Payment_Channel\<close> (\<open>createpaymentlogic.go\<close>, \<open>handlepaymentnotificationlogic.go\<close>), \<open>Order_Lifecycle\<close>
  (\<open>orderlifecyclelogic.go\<close>), \<open>Order_Refund\<close> (\<open>requestrefundlogic.go\<close>, \<open>auditrefundlogic.go\<close>, \<open>refundstate.go\<close>),
  \<open>Order_Detail\<close> (\<open>getorderdetaillogic.go\<close>), \<open>Order_Outbox_Insert\<close> and \<open>Outbox_Publisher\<close>
  (\<open>job/outbox_publisher.go\<close>), \<open>Order_Recovery\<close> (\<open>job/payment_recovery.go\<close>, \<open>inventory_recovery.go\<close>),
  \<open>Order_Server\<close> (\<open>server/orderServer.go\<close>).  \<open>Order_Spec\<close> is the abstract order state machine with its
  invariant; \<open>Order_Refinement\<close>, \<open>Order_Moves\<close>, \<open>Order_Consistency\<close>, \<open>Refund_Consistency\<close> and \<open>Order_Server\<close>
  prove that every committed transaction and every statement of every handler is a sequence of its
  events; \<open>Order_Guarantees\<close>, \<open>Refund_Release\<close>, \<open>Payment_Safety\<close>, \<open>Outbox_Safety\<close> and \<open>Pre_Deduct_Safety\<close>
  draw the conclusions.

  \<^bold>\<open>Product stock.\<close>  \<open>Product_Stock\<close> (\<open>deductLogic.go\<close>, \<open>deductRollbackLogic.go\<close>, \<open>revertstocklogic.go\<close>,
  \<open>stock_bucket.go\<close> and the repair in \<open>svc/serviceContext.go\<close> of \<open>app/product/rpc\<close>).  \<open>Product_Stock_Safety\<close>:
  product rows show the sum of their buckets, a compensation restores them, stock of an order comes
  back at most once; the laws of a stock transaction are the locale \<open>stock_transactions\<close>.

  \<^bold>\<open>Existence filter.\<close>  \<open>Existence_Filter\<close> (\<open>internal/existencefilter\<close>, \<open>adapters/productmysql/catalog_ids.go\<close>
  and \<open>handler/product_read_protection.go\<close> of the gateway), \<open>Filter_Safety\<close>: a published product is never
  hidden, however rebuilds and additions interleave.

  \<^bold>\<open>Auth service\<close> (files under \<open>app/auth/api/internal\<close>).  \<open>Auth_Token\<close> (data and refresh tokens of
  \<open>authstore/store.go\<close>), \<open>Auth_Store\<close> (its in-memory store), \<open>Auth_Sql_Store\<close> (\<open>authstore/sqlstore*.go\<close>),
  \<open>Auth_State\<close> (\<open>sessionstate/state.go\<close> and \<open>sessionstate/validator.go\<close> of the entry service), \<open>Auth_Risk\<close>
  (\<open>risk/limiter.go\<close>, \<open>audit/events.go\<close>), \<open>Auth_Logic\<close> (\<open>logic/auth\<close>, over the interface of
  \<open>authstore/contracts.go\<close>).  \<open>Session_Contract\<close> states what both stores promise about sessions as the
  locale \<open>session_store\<close>; \<open>Auth_Mem_Safety\<close> with \<open>Auth_Mem_Steps\<close> and \<open>Auth_Sql_Safety\<close> interpret it on the two
  stores.  \<open>Auth_Safety\<close>: refresh tokens work once, ended sessions stay ended, one session per device;
  \<open>Auth_Codes\<close>: bounded guessing of codes; \<open>Auth_Access\<close>: from the login to the check of the entry service.

  \<^bold>\<open>Catalogue.\<close>  \<open>Catalog_Store\<close> (the tables), \<open>Promotion\<close> (\<open>application/promotion/service.go\<close> and
  \<open>adapters/productmysql/promotion*.go\<close> of the gateway), \<open>Product_Cards\<close> (\<open>getproductcardlogic.go\<close> and
  \<open>listproductslogic.go\<close> of the product service, \<open>adapters/productmysql/snapshot.go\<close>, the job
  \<open>product_card_snapshot.go\<close> of the entry service), \<open>Entry_Promotion\<close> (\<open>adminpromotionhandler.go\<close> of the entry
  service, \<open>handler/admin_promotion.go\<close> of the gateway), \<open>Product_Command\<close> (\<open>application/productcommand\<close>, its
  repository, \<open>inventory_seed.go\<close> and the admin handlers).  \<open>Promotion_Safety\<close> and \<open>Card_Safety\<close> hold the
  lemmas of the promotion table and of the snapshot; \<open>Catalog_Safety\<close> states what a writer of the
  catalogue promises as the locale \<open>catalog_writer\<close>, interprets it on the gateway, the entry service and
  the passing of time, and joins writers with the locale \<open>catalog_writers\<close>.  \<open>Catalog_Guarantees\<close>: rows are
  well formed, at most one limited price is in effect at a time, a fresh snapshot answers as the tables.
  Reading and printing a time, the answers of the inventory service to a seed and of the existence
  filter are parameters; each call of a writer runs alone.

  \<^bold>\<open>Closing unpaid orders.\<close>  \<open>Close_Job\<close> (\<open>app/entry/api/job/closeorder.go\<close> with \<open>FindOne\<close> of the order model of the
  entry service): the delay queue, the queue of orders being worked on, retries and the dead letter
  queue.  The answers of the product and order rpcs and which rows the cached connection keeps are
  parameters.  \<open>Close_Safety\<close>: a queued order is not lost, one reported closed was released; two findings
  about retries are theorems.

  \<^bold>\<open>Orders at the gateway\<close> (files under \<open>app/gateway/hertz/internal\<close>).  \<open>Gateway_Order\<close> (\<open>application/orderquery/service.go\<close>
  over \<open>adapters/ordermysql/query.go\<close>, \<open>adapters/orderrpc/client.go\<close> and the order handlers of \<open>handler/\<close>): creating
  an order as a saga of the order service, commands of users and administrators, payment callbacks.  It
  works on the world of the order service and calls its handlers.  The transaction manager is a
  parameter with the contracts \<open>dtm_ok\<close> and \<open>compensates\<close>.  \<open>Gateway_Safety\<close>: histories of the gateway refine the
  order state machine, repeated requests change nothing, answers are about the user's own orders, only a
  signed callback pays; and a request under the id of another user's order can release its stock.

  \<^bold>\<open>Not modelled.\<close>  HTTP and RSA of the payment provider, AMQP connections, metrics, traces and logs,
  generated code; HTTP routing, request parsing and cookies; the product and merchant screens of the
  entry service; of the gateway the lists and details of orders (they show a creation time the tables of
  the model do not have), the payment page with its token, merchants, campaigns, suppliers, the read
  cache and the audit events.  The tables have no column
  widths.  Handlers of the order service run one after the other (each of their transactions locks the
  rows it reads), and so do the methods of an auth store; interleaving is modelled for the Redis
  scripts and for the phases of a filter rebuild.
\<close>

end
